(* ===== verification/Prelude.thy ===== *)
theory Prelude
  imports Complex_Main
begin

text \<open>
  Shared vocabulary of the development: the JavaScript string operations the web client uses
  (\<open>trim\<close>, \<open>split\<close>, \<open>join\<close>, \<open>includes\<close>, \<open>String\<close>), insertion-ordered sets, and generic lemmas
  on lists and options.

  A JavaScript string is a list of characters; the characters stand for the code units U+0000 to
  U+00FF.  A value that may be \<open>undefined\<close> or \<open>null\<close> is an \<open>option\<close>.
\<close>

named_theorems js_simps \<open>unfolding rules of the JavaScript string and array operations\<close>
named_theorems issue_simps \<open>when a validation step reports no issue\<close>

section \<open>Type abbreviations\<close>

type_synonym js_string = string
type_synonym resource_id = int

section \<open>White space and \<open>trim\<close>\<close>

text \<open>The white space and line terminators of ECMAScript that lie in the modelled alphabet.\<close>

definition is_js_space :: "char \<Rightarrow> bool" where
  "is_js_space c \<longleftrightarrow>
     of_char c \<in> {9, 10, 11, 12, 13, 32, 160 :: nat}"

definition js_trim_left :: "js_string \<Rightarrow> js_string" where
  "js_trim_left s = dropWhile is_js_space s"

definition js_trim :: "js_string \<Rightarrow> js_string" where
  "js_trim s = rev (js_trim_left (rev (js_trim_left s)))"

lemma dropWhile_idem [simp]: "dropWhile P (dropWhile P xs) = dropWhile P xs"
  by (induction xs) auto

lemma dropWhile_fixed: "dropWhile P xs = xs \<longleftrightarrow> xs = [] \<or> \<not> P (hd xs)"
proof (cases xs)
  case (Cons x ys)
  have "length (dropWhile P ys) < length (x # ys)"
    by (simp add: le_imp_less_Suc length_dropWhile_le)
  then have "dropWhile P ys \<noteq> x # ys" by (metis less_irrefl)
  with Cons show ?thesis by simp
qed simp

lemma js_trim_Nil [simp]: "js_trim [] = []"
  by (simp add: js_trim_def js_trim_left_def)

lemma js_trim_fixed:
  "js_trim s = s \<longleftrightarrow> s = [] \<or> (\<not> is_js_space (hd s) \<and> \<not> is_js_space (last s))"
proof (cases "s = [] \<or> \<not> is_js_space (hd s)")
  case True
  then have l: "js_trim_left s = s" by (auto simp: js_trim_left_def dropWhile_fixed)
  have "js_trim s = s \<longleftrightarrow> js_trim_left (rev s) = rev s"
    by (auto simp: js_trim_def l rev_swap)
  then show ?thesis using True
    by (auto simp: js_trim_left_def dropWhile_fixed hd_rev)
next
  case False
  then have "length (dropWhile is_js_space s) < length s"
    by (cases s) (auto intro: le_imp_less_Suc length_dropWhile_le)
  moreover have "length (js_trim s) \<le> length (dropWhile is_js_space s)"
    by (simp add: js_trim_def js_trim_left_def) (metis length_dropWhile_le length_rev)
  ultimately have "js_trim s \<noteq> s" by auto
  with False show ?thesis by simp
qed

lemma hd_dropWhile_not: "dropWhile P xs \<noteq> [] \<Longrightarrow> \<not> P (hd (dropWhile P xs))"
  by (induction xs) auto

lemma js_trim_idem [simp]: "js_trim (js_trim s) = js_trim s"
proof -
  let ?l = "js_trim_left s"
  let ?t = "js_trim_left (rev ?l)"
  have "js_trim s = [] \<or> (\<not> is_js_space (hd (js_trim s)) \<and> \<not> is_js_space (last (js_trim s)))"
  proof (cases "?t = []")
    case True
    then show ?thesis by (simp add: js_trim_def)
  next
    case False
    have last: "\<not> is_js_space (last (rev ?t))"
      using False hd_dropWhile_not [of is_js_space "rev ?l"]
      by (simp add: js_trim_left_def last_rev)
    obtain p where p: "rev ?l = p @ ?t"
      by (metis js_trim_left_def takeWhile_dropWhile_id)
    then have "?l = rev ?t @ rev p"
      by (metis rev_append rev_rev_ident)
    with False have "hd ?l = hd (rev ?t)" and "?l \<noteq> []"
      by (metis hd_append2 rev_is_Nil_conv, metis Nil_is_append_conv rev_is_Nil_conv)
    then have "\<not> is_js_space (hd (rev ?t))"
      using hd_dropWhile_not [of is_js_space s] by (simp add: js_trim_left_def)
    then show ?thesis using last by (simp add: js_trim_def)
  qed
  then show ?thesis by (simp add: js_trim_fixed)
qed

lemma js_trim_no_space:
  assumes "\<And>c. c \<in> set s \<Longrightarrow> \<not> is_js_space c"
  shows "js_trim s = s"
  using assms by (cases "s = []") (auto simp: js_trim_fixed)

section \<open>Optional values\<close>

text \<open>\<open>value ?? fallback\<close>.\<close>

definition coalesce :: "'a option \<Rightarrow> 'a \<Rightarrow> 'a" where
  "coalesce v d = (case v of None \<Rightarrow> d | Some x \<Rightarrow> x)"

lemma coalesce_simps [simp]: "coalesce None d = d" "coalesce (Some x) d = x"
  by (simp_all add: coalesce_def)

lemma coalesce_id [simp]: "coalesce (map_option f v) (f d) = f (coalesce v d)"
  by (cases v) simp_all

text \<open>\<open>values && values.length > 0 ? values : undefined\<close> and \<open>values?.length ? values : undefined\<close>.\<close>

definition nonempty_list :: "'a list option \<Rightarrow> 'a list option" where
  "nonempty_list v = (case v of None \<Rightarrow> None | Some xs \<Rightarrow> (if xs = [] then None else Some xs))"

text \<open>\<open>value || undefined\<close> for a string.\<close>

definition nonblank :: "js_string \<Rightarrow> js_string option" where
  "nonblank s = (if s = [] then None else Some s)"

section \<open>\<open>split\<close> and \<open>join\<close> on a single character\<close>

fun js_split :: "char \<Rightarrow> js_string \<Rightarrow> js_string list" where
  "js_split d [] = [[]]"
| "js_split d (c # cs) =
     (if c = d then [] # js_split d cs
      else (case js_split d cs of [] \<Rightarrow> [[c]] | w # ws \<Rightarrow> (c # w) # ws))"

fun js_join :: "js_string \<Rightarrow> js_string list \<Rightarrow> js_string" where
  "js_join sep [] = []"
| "js_join sep [w] = w"
| "js_join sep (w # v # ws) = w @ sep @ js_join sep (v # ws)"

lemma js_split_nonempty [simp]: "js_split d s \<noteq> []"
  by (induction s) (auto split: list.splits)

lemma js_split_no_sep: "d \<notin> set s \<Longrightarrow> js_split d s = [s]"
  by (induction s) auto

lemma js_split_append_sep: "d \<notin> set w \<Longrightarrow> js_split d (w @ d # s) = w # js_split d s"
  by (induction w) auto

lemma js_split_join:
  assumes "ws \<noteq> []" and "\<And>w. w \<in> set ws \<Longrightarrow> d \<notin> set w"
  shows "js_split d (js_join [d] ws) = ws"
  using assms
proof (induction "[d]" ws rule: js_join.induct)
  case (3 w v ws)
  then show ?case by (simp add: js_split_append_sep)
qed (auto simp: js_split_no_sep)

lemma js_split_parts: "w \<in> set (js_split d s) \<Longrightarrow> d \<notin> set w"
  by (induction s arbitrary: w) (fastforce split: if_splits list.splits)+

lemma js_join_split: "js_join [d] (js_split d s) = s"
proof (induction s)
  case (Cons c s)
  have "js_join [d] ([] # ws) = d # js_join [d] ws" "js_join [d] ((c # w) # ws) = c # js_join [d] (w # ws)"
    if "ws \<noteq> []" for ws w using that by (cases ws; simp)+
  moreover have "js_join [d] ((c # w) # ws) = c # js_join [d] (w # ws)" for w ws by (cases ws) simp_all
  ultimately show ?case using Cons js_split_nonempty [of d s] by (auto split: list.splits)
qed simp

section \<open>Insertion-ordered sets\<close>

text \<open>\<open>Array.from(new Set(values))\<close>: the first occurrence of each value, in order.\<close>

definition js_set :: "'a list \<Rightarrow> 'a list" where
  "js_set xs = rev (remdups (rev xs))"

lemma set_js_set [simp]: "set (js_set xs) = set xs"
  by (simp add: js_set_def)

lemma distinct_js_set [simp]: "distinct (js_set xs)"
  by (simp add: js_set_def)

lemma js_set_distinct [simp]: "distinct xs \<Longrightarrow> js_set xs = xs"
  by (simp add: js_set_def distinct_remdups_id)

section \<open>Decimal representation\<close>

definition digit_char :: "nat \<Rightarrow> char" where
  "digit_char d = char_of (48 + d)"

definition is_digit :: "char \<Rightarrow> bool" where
  "is_digit c \<longleftrightarrow> 48 \<le> (of_char c :: nat) \<and> (of_char c :: nat) \<le> 57"

definition digit_val :: "char \<Rightarrow> nat" where
  "digit_val c = of_char c - 48"

fun show_nat :: "nat \<Rightarrow> js_string" where
  "show_nat n = (if n < 10 then [digit_char n] else show_nat (n div 10) @ [digit_char (n mod 10)])"

declare show_nat.simps [simp del]

text \<open>\<open>String(n)\<close> for an integer below \<open>10\<^sup>2\<^sup>1\<close> in absolute value.\<close>

definition show_int :: "int \<Rightarrow> js_string" where
  "show_int n = (if n < 0 then CHR ''-'' # show_nat (nat (- n)) else show_nat (nat n))"

definition read_digits :: "js_string \<Rightarrow> nat" where
  "read_digits ds = foldl (\<lambda>a c. 10 * a + digit_val c) 0 ds"

lemma of_char_digit_char: "d < 10 \<Longrightarrow> (of_char (digit_char d) :: nat) = 48 + d"
  by (simp add: digit_char_def of_char_of)

lemma is_digit_digit_char [simp]: "d < 10 \<Longrightarrow> is_digit (digit_char d)"
  by (simp add: is_digit_def of_char_digit_char)

lemma digit_val_digit_char [simp]: "d < 10 \<Longrightarrow> digit_val (digit_char d) = d"
  by (simp add: digit_val_def of_char_digit_char)

lemma digit_char_digit_val: "is_digit c \<Longrightarrow> digit_char (digit_val c) = c"
  by (simp add: is_digit_def digit_val_def digit_char_def)

lemma digit_val_lt: "is_digit c \<Longrightarrow> digit_val c < 10"
  by (auto simp: is_digit_def digit_val_def)

lemma show_nat_digits: "c \<in> set (show_nat n) \<Longrightarrow> is_digit c"
  by (induction n rule: show_nat.induct) (subst (asm) (2) show_nat.simps, auto split: if_splits)

lemma show_nat_nonempty [simp]: "show_nat n \<noteq> []"
  by (subst show_nat.simps) simp

lemma read_digits_snoc: "read_digits (ds @ [c]) = 10 * read_digits ds + digit_val c"
  by (simp add: read_digits_def)

lemma read_digits_show_nat [simp]: "read_digits (show_nat n) = n"
proof (induction n rule: show_nat.induct)
  case (1 n)
  show ?case
  proof (cases "n < 10")
    case True
    then show ?thesis by (subst show_nat.simps) (simp add: read_digits_def)
  next
    case False
    with 1 have "read_digits (show_nat (n div 10)) = n div 10" by simp
    with False show ?thesis by (subst show_nat.simps) (simp add: read_digits_snoc)
  qed
qed

lemma show_nat_inj [simp]: "show_nat m = show_nat n \<longleftrightarrow> m = n"
  by (metis read_digits_show_nat)

lemma digit_not_minus: "is_digit c \<Longrightarrow> c \<noteq> CHR ''-''"
  by (auto simp: is_digit_def)

lemma show_int_inj [simp]: "show_int m = show_int n \<longleftrightarrow> m = n"
proof -
  have "hd (show_nat k) \<noteq> CHR ''-''" for k
    by (metis digit_not_minus hd_in_set show_nat_digits show_nat_nonempty)
  then show ?thesis
    by (auto simp: show_int_def) (metis list.sel(1))+
qed

lemma digit_not_space: "is_digit c \<Longrightarrow> \<not> is_js_space c"
  by (auto simp: is_digit_def is_js_space_def)

end
