(* ===== verification/JsNumber.thy ===== *)
theory JsNumber
  imports Prelude "HOL-Library.Log_Nat"
begin

text \<open>
  JavaScript numbers and the conversions the web client applies to user input:
  \<open>Number(text)\<close> (the numeric literal grammar of ECMAScript and the rounding to a binary64 value),
  \<open>Number.isInteger\<close>, \<open>Number.isSafeInteger\<close>, \<open>Number.isFinite\<close> and the order on numbers.

  A finite number is the rational it denotes, so \<open>-0\<close> and \<open>0\<close> are one value; nothing modelled
  tells them apart.
\<close>

section \<open>Numbers\<close>

datatype js_num = Fin rat | PosInf | NegInf | NaN

abbreviation num_of_int :: "int \<Rightarrow> js_num" where
  "num_of_int n \<equiv> Fin (of_int n)"

instantiation js_num :: ord
begin

fun less_js_num :: "js_num \<Rightarrow> js_num \<Rightarrow> bool" where
  "less_js_num (Fin a) (Fin b) = (a < b)"
| "less_js_num NaN y = False"
| "less_js_num x NaN = False"
| "less_js_num PosInf y = False"
| "less_js_num x NegInf = False"
| "less_js_num NegInf y = True"
| "less_js_num x PosInf = True"

definition less_eq_js_num :: "js_num \<Rightarrow> js_num \<Rightarrow> bool" where
  "less_eq_js_num x y \<longleftrightarrow> x < y \<or> (x = y \<and> x \<noteq> NaN)"

instance ..

end

definition is_finite_num :: "js_num \<Rightarrow> bool" where
  "is_finite_num x = (case x of Fin _ \<Rightarrow> True | _ \<Rightarrow> False)"

definition is_integer_num :: "js_num \<Rightarrow> bool" where
  "is_integer_num x = (case x of Fin r \<Rightarrow> snd (quotient_of r) = 1 | _ \<Rightarrow> False)"

definition max_safe_integer :: int where
  "max_safe_integer = 2 ^ 53 - 1"

definition is_safe_integer :: "js_num \<Rightarrow> bool" where
  "is_safe_integer x =
     (case x of
        Fin r \<Rightarrow> snd (quotient_of r) = 1 \<and> \<bar>r\<bar> \<le> of_int max_safe_integer
      | _ \<Rightarrow> False)"

text \<open>The integer a number is, when it is one.\<close>

definition int_of_num :: "js_num \<Rightarrow> int option" where
  "int_of_num x =
     (case x of Fin r \<Rightarrow> (if snd (quotient_of r) = 1 then Some (fst (quotient_of r)) else None)
      | _ \<Rightarrow> None)"

lemma quotient_of_of_int [simp]: "quotient_of (of_int n) = (n, 1)"
  by (metis of_int_rat quotient_of_int Rat.of_int_def)

lemma denominator_one: "snd (quotient_of r) = 1 \<longleftrightarrow> (\<exists>n. r = of_int n)"
proof
  assume "snd (quotient_of r) = 1"
  then have "quotient_of r = (fst (quotient_of r), 1)" by (metis prod.collapse)
  then have "r = of_int (fst (quotient_of r)) / of_int 1" by (rule quotient_of_div)
  then show "\<exists>n. r = of_int n" by auto
qed auto

lemma is_integer_num_of_int [simp]: "is_integer_num (num_of_int n)"
  by (simp add: is_integer_num_def)

lemma int_of_num_of_int [simp]: "int_of_num (num_of_int n) = Some n"
  by (simp add: int_of_num_def)

lemma is_safe_integer_of_int:
  "is_safe_integer (num_of_int n) \<longleftrightarrow> \<bar>n\<bar> \<le> max_safe_integer"
proof -
  have "\<bar>rat_of_int n\<bar> \<le> of_int max_safe_integer \<longleftrightarrow> \<bar>n\<bar> \<le> max_safe_integer"
    by (metis of_int_abs of_int_le_iff)
  then show ?thesis by (simp add: is_safe_integer_def)
qed

lemma is_safe_integerE:
  assumes "is_safe_integer x"
  obtains n where "x = num_of_int n" and "\<bar>n\<bar> \<le> max_safe_integer"
proof (cases x)
  case (Fin r)
  with assms obtain n where n: "r = of_int n"
    by (auto simp: is_safe_integer_def denominator_one)
  with assms Fin have "\<bar>n\<bar> \<le> max_safe_integer" by (simp flip: is_safe_integer_of_int)
  with Fin n show ?thesis by (auto intro: that)
qed (use assms in \<open>auto simp: is_safe_integer_def\<close>)

section \<open>Rounding to binary64\<close>

text \<open>The exponent \<open>e\<close> with \<open>2\<^sup>e \<le> r < 2\<^sup>e\<^sup>+\<^sup>1\<close> of a positive rational.\<close>

definition rat_log2 :: "rat \<Rightarrow> int" where
  "rat_log2 r =
     (let (p, q) = quotient_of r; e = bitlen p - bitlen q
      in if 2 powi e \<le> r then e else e - 1)"

definition round_half_even :: "rat \<Rightarrow> int" where
  "round_half_even r =
     (let f = \<lfloor>r\<rfloor>; d = r - of_int f
      in if d < 1 / 2 then f else if 1 / 2 < d then f + 1 else if even f then f else f + 1)"

definition round_double :: "rat \<Rightarrow> js_num" where
  "round_double r =
     (if r = 0 then Fin 0
      else
        let a = \<bar>r\<bar>;
            k = max (rat_log2 a - 52) (-1074);
            v = of_int (round_half_even (a / 2 powi k)) * 2 powi k
        in if (2::rat) powi 1024 \<le> v then (if 0 < r then PosInf else NegInf)
           else Fin (sgn r * v))"

lemma bitlen_rat_bounds:
  assumes "0 < p"
  shows "(2::rat) powi (bitlen p - 1) \<le> of_int p" and "of_int p < (2::rat) powi bitlen p"
proof -
  have b: "2 ^ nat (bitlen p - 1) \<le> p \<and> p < 2 ^ nat (bitlen p)"
    using assms by (rule bitlen_bounds)
  have pos: "0 < bitlen p" using assms bitlen_nonneg [of p] bitlen_eq_zero_iff [of p] by linarith
  have "rat_of_int (2 ^ nat (bitlen p - 1)) \<le> of_int p"
    using b by (simp only: of_int_le_iff)
  with pos show "(2::rat) powi (bitlen p - 1) \<le> of_int p" by (simp add: power_int_def)
  have "rat_of_int p < of_int (2 ^ nat (bitlen p))"
    using b by (simp only: of_int_less_iff)
  with pos show "of_int p < (2::rat) powi bitlen p" by (simp add: power_int_def)
qed

lemma rat_log2_bounds:
  assumes "0 < r"
  shows "2 powi rat_log2 r \<le> r" and "r < 2 powi (rat_log2 r + 1)"
proof -
  obtain p q where pq: "quotient_of r = (p, q)" by fastforce
  then have q: "0 < q" by (rule quotient_of_denom_pos)
  have r: "r = of_int p / of_int q" using pq by (rule quotient_of_div)
  with assms q have p: "0 < p" by (simp add: zero_less_divide_iff)
  define e where "e = bitlen p - bitlen q"
  have "(2::rat) powi (e - 1) * of_int q \<le> 2 powi (e - 1) * 2 powi bitlen q"
    using bitlen_rat_bounds(2) [OF q] by (intro mult_left_mono) auto
  also have "\<dots> = 2 powi (bitlen p - 1)"
    by (simp add: e_def flip: power_int_add)
  also have "\<dots> \<le> of_int p" by (rule bitlen_rat_bounds(1) [OF p])
  finally have low: "2 powi (e - 1) \<le> r" using q by (simp add: r le_divide_eq)
  have "of_int p < (2::rat) powi bitlen p" by (rule bitlen_rat_bounds(2) [OF p])
  also have "\<dots> = 2 powi (e + 1) * 2 powi (bitlen q - 1)"
    by (simp add: e_def flip: power_int_add)
  also have "\<dots> \<le> 2 powi (e + 1) * of_int q"
    using bitlen_rat_bounds(1) [OF q] by (intro mult_left_mono) auto
  finally have high: "r < 2 powi (e + 1)" using q by (simp add: r divide_less_eq)
  have "rat_log2 r = (if 2 powi e \<le> r then e else e - 1)"
    by (simp add: rat_log2_def pq e_def Let_def)
  with low high show "2 powi rat_log2 r \<le> r" and "r < 2 powi (rat_log2 r + 1)"
    by (auto split: if_splits)
qed

lemma round_half_even_int [simp]: "round_half_even (of_int n) = n"
  by (simp add: round_half_even_def)

lemma round_half_even_ge: "of_int n \<le> r \<Longrightarrow> n \<le> round_half_even r"
  by (auto simp: round_half_even_def Let_def le_floor_iff intro: order.trans [of _ "\<lfloor>r\<rfloor>"])

lemma powi_int_eq: "0 \<le> k \<Longrightarrow> (2::rat) powi k = of_int (2 ^ nat k)"
  by (simp add: power_int_def)

lemma rat_log2_lt:
  assumes "0 < n" and "n < 2 ^ 53"
  shows "rat_log2 (of_int n) \<le> 52"
proof (rule ccontr)
  assume "\<not> rat_log2 (of_int n) \<le> 52"
  then have "(2::rat) powi 53 \<le> 2 powi rat_log2 (of_int n)"
    by (intro power_int_increasing) auto
  also have "\<dots> \<le> of_int n" using assms(1) by (intro rat_log2_bounds) simp
  finally have "rat_of_int (2 ^ 53) \<le> of_int n" by (simp add: power_int_def)
  then have "2 ^ 53 \<le> n" by (simp only: of_int_le_iff)
  with assms(2) show False by simp
qed

lemma rat_log2_nonneg:
  assumes "0 < n"
  shows "0 \<le> rat_log2 (of_int n)"
proof (rule ccontr)
  assume "\<not> 0 \<le> rat_log2 (of_int n)"
  then have "(2::rat) powi (rat_log2 (of_int n) + 1) \<le> 2 powi 0"
    by (intro power_int_increasing) auto
  moreover have "of_int n < (2::rat) powi (rat_log2 (of_int n) + 1)"
    using assms by (intro rat_log2_bounds) simp
  ultimately have "rat_of_int n < 1" by simp
  with assms show False by simp
qed

text \<open>Every integer below \<open>2\<^sup>5\<^sup>3\<close> is a binary64 value.\<close>

lemma round_double_exact:
  assumes "0 \<le> n" and "n < 2 ^ 53"
  shows "round_double (of_int n) = num_of_int n"
proof (cases "n = 0")
  case True
  then show ?thesis by (simp add: round_double_def)
next
  case False
  with assms have n: "0 < n" by simp
  define e where "e = rat_log2 (of_int n)"
  have e: "0 \<le> e" "e \<le> 52"
    using rat_log2_nonneg [OF n] rat_log2_lt [OF n assms(2)] by (simp_all add: e_def)
  have "(of_int n / 2 powi (e - 52) :: rat) = of_int n * 2 powi (52 - e)"
    by (metis divide_inverse minus_diff_eq power_int_minus)
  also have "\<dots> = of_int (n * 2 ^ nat (52 - e))"
    using e by (simp add: powi_int_eq)
  finally have m: "round_half_even (of_int n / 2 powi (e - 52)) = n * 2 ^ nat (52 - e)"
    by (metis round_half_even_int)
  have "of_int (n * 2 ^ nat (52 - e)) * (2::rat) powi (e - 52)
      = of_int n * (2 powi (52 - e) * 2 powi (e - 52))"
    using e by (simp add: powi_int_eq)
  also have "\<dots> = of_int n" by (simp flip: power_int_add)
  finally have v: "of_int (n * 2 ^ nat (52 - e)) * (2::rat) powi (e - 52) = of_int n" .
  have "rat_of_int n < of_int (2 ^ 53)" using assms(2) by (simp only: of_int_less_iff)
  also have "rat_of_int (2 ^ 53) \<le> 2 powi 1024" by (simp add: power_int_def)
  finally have "\<not> (2::rat) powi 1024 \<le> of_int n" by simp
  with v have big: "\<not> (2::rat) powi 1024 \<le> of_int (n * 2 ^ nat (52 - e)) * 2 powi (e - 52)"
    by (simp only: v) simp
  have "round_double (of_int n) =
      (if 2 powi 1024 \<le> of_int (n * 2 ^ nat (52 - e)) * (2::rat) powi (e - 52) then PosInf
       else Fin (of_int (n * 2 ^ nat (52 - e)) * 2 powi (e - 52)))"
    using n e unfolding m [symmetric]
    by (simp add: round_double_def Let_def e_def [symmetric] max_def)
  with big v show ?thesis by (simp only: if_False)
qed

text \<open>An integer from \<open>2\<^sup>5\<^sup>3\<close> on never rounds to a safe integer.\<close>

lemma round_double_unsafe:
  assumes "2 ^ 53 \<le> n"
  shows "\<not> is_safe_integer (round_double (of_int n))"
proof -
  define e where "e = rat_log2 (of_int n)"
  have n: "0 < n" using assms by (rule less_le_trans [rotated]) simp
  have lo: "2 powi e \<le> rat_of_int n" and hi: "rat_of_int n < 2 powi (e + 1)"
    using n rat_log2_bounds [of "of_int n"] by (simp_all add: e_def)
  have "(2::rat) powi 53 < 2 powi (e + 1)"
  proof (rule le_less_trans [OF _ hi])
    have "rat_of_int (2 ^ 53) \<le> of_int n" using assms by (simp only: of_int_le_iff)
    then show "(2::rat) powi 53 \<le> of_int n" by (simp add: power_int_def)
  qed
  then have e: "53 \<le> e"
    using power_int_increasing [of "e + 1" 53 "2::rat"] by (cases "53 \<le> e") auto
  define m where "m = round_half_even (of_int n / 2 powi (e - 52))"
  have split: "(2::rat) powi 52 * 2 powi (e - 52) = 2 powi e"
    by (subst power_int_add [symmetric]) simp_all
  then have "(2::rat) powi 52 \<le> of_int n / 2 powi (e - 52)"
    using lo by (simp add: le_divide_eq)
  then have "2 ^ 52 \<le> m"
    unfolding m_def by (intro round_half_even_ge) (simp add: power_int_def)
  then have "rat_of_int (2 ^ 52) \<le> of_int m" by (simp only: of_int_le_iff)
  then have "(2::rat) powi 52 * 2 powi (e - 52) \<le> of_int m * 2 powi (e - 52)"
    by (intro mult_right_mono) (simp_all add: power_int_def)
  moreover have "(2::rat) powi 53 \<le> 2 powi e" using e by (intro power_int_increasing) auto
  ultimately have "(2::rat) powi 53 \<le> of_int m * 2 powi (e - 52)"
    using split by (simp only:)
  moreover have "(2::rat) powi 53 = 2 ^ 53" by (simp add: power_int_def)
  ultimately have big: "2 ^ 53 \<le> of_int m * (2::rat) powi (e - 52)" by (simp only:)
  have "round_double (of_int n) =
      (if 2 powi 1024 \<le> of_int m * (2::rat) powi (e - 52) then PosInf
       else Fin (of_int m * 2 powi (e - 52)))"
    using n e by (simp add: round_double_def Let_def e_def [symmetric] m_def max_def)
  with big show ?thesis
    by (auto simp: is_safe_integer_def max_safe_integer_def)
qed

section \<open>\<open>Number(text)\<close>\<close>

definition hex_val :: "char \<Rightarrow> nat option" where
  "hex_val c =
     (let n = of_char c :: nat
      in if 48 \<le> n \<and> n \<le> 57 then Some (n - 48)
         else if 65 \<le> n \<and> n \<le> 70 then Some (n - 55)
         else if 97 \<le> n \<and> n \<le> 102 then Some (n - 87)
         else None)"

text \<open>A non-empty run of digits of the given base (at most sixteen).\<close>

fun based_digits :: "nat \<Rightarrow> nat \<Rightarrow> js_string \<Rightarrow> nat option" where
  "based_digits b acc [] = Some acc"
| "based_digits b acc (c # cs) =
     (case hex_val c of
        None \<Rightarrow> None
      | Some d \<Rightarrow> (if d < b then based_digits b (b * acc + d) cs else None))"

definition based_literal :: "nat \<Rightarrow> js_string \<Rightarrow> js_num" where
  "based_literal b cs =
     (if cs = [] then NaN
      else case based_digits b 0 cs of None \<Rightarrow> NaN | Some n \<Rightarrow> round_double (of_nat n))"

definition exponent_part :: "js_string \<Rightarrow> int option" where
  "exponent_part t =
     (case t of
        [] \<Rightarrow> Some 0
      | c # u \<Rightarrow>
          if c \<noteq> CHR ''e'' \<and> c \<noteq> CHR ''E'' then None
          else
            let (neg, ds) =
              (case u of
                 [] \<Rightarrow> (False, [])
               | d # v \<Rightarrow> if d = CHR ''-'' then (True, v) else if d = CHR ''+'' then (False, v)
                           else (False, u))
            in if ds = [] \<or> \<not> list_all is_digit ds then None
               else Some (if neg then - int (read_digits ds) else int (read_digits ds)))"

text \<open>\<open>StrUnsignedDecimalLiteral\<close>: digits with an optional fraction and an optional exponent.\<close>

definition unsigned_decimal :: "js_string \<Rightarrow> rat option" where
  "unsigned_decimal t =
     (let ip = takeWhile is_digit t;
          r = dropWhile is_digit t;
          (fp, u) =
            (case r of
               [] \<Rightarrow> ([], [])
             | c # v \<Rightarrow> if c = CHR ''.'' then (takeWhile is_digit v, dropWhile is_digit v)
                         else ([], r))
      in if ip = [] \<and> fp = [] then None
         else map_option
                (\<lambda>x. of_nat (read_digits (ip @ fp)) * 10 powi (x - int (length fp)))
                (exponent_part u))"

definition unsigned_number :: "js_string \<Rightarrow> js_num" where
  "unsigned_number t =
     (if t = ''Infinity'' then PosInf
      else case unsigned_decimal t of None \<Rightarrow> NaN | Some r \<Rightarrow> round_double r)"

fun js_negate :: "js_num \<Rightarrow> js_num" where
  "js_negate (Fin r) = Fin (- r)"
| "js_negate PosInf = NegInf"
| "js_negate NegInf = PosInf"
| "js_negate NaN = NaN"

definition signed_number :: "js_string \<Rightarrow> js_num" where
  "signed_number t =
     (case t of
        [] \<Rightarrow> NaN
      | c # u \<Rightarrow> if c = CHR ''-'' then js_negate (unsigned_number u)
                  else if c = CHR ''+'' then unsigned_number u
                  else unsigned_number t)"

definition js_number :: "js_string \<Rightarrow> js_num" where
  "js_number text =
     (let t = js_trim text
      in if t = [] then Fin 0
         else if take 2 t = ''0x'' \<or> take 2 t = ''0X'' then based_literal 16 (drop 2 t)
         else if take 2 t = ''0o'' \<or> take 2 t = ''0O'' then based_literal 8 (drop 2 t)
         else if take 2 t = ''0b'' \<or> take 2 t = ''0B'' then based_literal 2 (drop 2 t)
         else signed_number t)"

lemma is_digit_chars [simp]:
  "\<not> is_digit CHR ''x''" "\<not> is_digit CHR ''X''" "\<not> is_digit CHR ''o''" "\<not> is_digit CHR ''O''"
  "\<not> is_digit CHR ''b''" "\<not> is_digit CHR ''B''" "\<not> is_digit CHR ''-''" "\<not> is_digit CHR ''+''"
  "\<not> is_digit CHR ''I''" "\<not> is_digit CHR ''.''"
  by (simp_all add: is_digit_def)

lemma js_number_signed:
  assumes "t \<noteq> []" and "js_trim t = t"
    and "\<And>c. c \<in> set (tl t) \<Longrightarrow> is_digit c"
  shows "js_number t = signed_number t"
proof -
  have "take 2 t \<noteq> [d, c]" if "\<not> is_digit c" for c d
    using assms(1,3) that by (cases t; cases "tl t") (auto simp: numeral_2_eq_2)
  then show ?thesis using assms(1,2) by (simp add: js_number_def Let_def)
qed

lemma unsigned_number_digits:
  assumes "ds \<noteq> []" and d: "\<And>c. c \<in> set ds \<Longrightarrow> is_digit c"
  shows "unsigned_number ds = round_double (of_nat (read_digits ds))"
proof -
  have "takeWhile is_digit ds = ds" "dropWhile is_digit ds = []"
    using d by (simp_all add: takeWhile_eq_all_conv dropWhile_eq_Nil_conv)
  moreover have "ds \<noteq> ''Infinity''" using d [of "CHR ''I''"] by auto
  ultimately show ?thesis
    using assms(1)
    by (simp add: unsigned_number_def unsigned_decimal_def exponent_part_def Let_def
        del: dropWhile_eq_Nil_conv takeWhile_eq_all_conv)
qed

lemma js_number_digits:
  assumes "ds \<noteq> []" and d: "\<And>c. c \<in> set ds \<Longrightarrow> is_digit c"
  shows "js_number ds = round_double (of_nat (read_digits ds))"
proof -
  have "js_trim ds = ds" using d by (intro js_trim_no_space) (blast dest: digit_not_space)
  then have "js_number ds = signed_number ds"
    using assms by (intro js_number_signed) (auto dest: list.set_sel(2))
  moreover have "is_digit (hd ds)" using assms by simp
  then have "hd ds \<noteq> CHR ''-''" "hd ds \<noteq> CHR ''+''" by auto
  ultimately show ?thesis
    using assms unsigned_number_digits [OF assms] by (cases ds) (simp_all add: signed_number_def)
qed

lemma js_number_show_nat:
  assumes "n < 2 ^ 53"
  shows "js_number (show_nat n) = num_of_int (int n)"
proof -
  have "js_number (show_nat n) = round_double (of_int (int n))"
    using js_number_digits [of "show_nat n"] show_nat_digits by simp
  with assms show ?thesis using round_double_exact [of "int n"] by simp
qed

text \<open>Printing a safe integer and reading it back gives the integer.\<close>

lemma js_number_show_int:
  assumes "\<bar>n\<bar> \<le> max_safe_integer"
  shows "js_number (show_int n) = num_of_int n"
proof (cases "n < 0")
  case False
  with assms show ?thesis
    using js_number_show_nat [of "nat n"] by (simp add: show_int_def max_safe_integer_def)
next
  case True
  let ?ds = "show_nat (nat (- n))"
  have "js_trim (CHR ''-'' # ?ds) = CHR ''-'' # ?ds"
    by (rule js_trim_no_space)
      (auto simp: is_js_space_def dest!: show_nat_digits, auto simp: is_digit_def)
  then have "js_number (CHR ''-'' # ?ds) = signed_number (CHR ''-'' # ?ds)"
    by (intro js_number_signed) (auto dest: show_nat_digits)
  also have "\<dots> = js_negate (round_double (of_int (- n)))"
    using True unsigned_number_digits [of ?ds] show_nat_digits
    by (simp add: signed_number_def)
  also have "\<dots> = num_of_int n"
    using True assms round_double_exact [of "- n"] by (simp add: max_safe_integer_def)
  finally show ?thesis using True by (simp add: show_int_def)
qed

section \<open>\<open>String(n)\<close>\<close>

text \<open>The digits of a number that is no integer below \<open>10\<^sup>2\<^sup>1\<close> are the platform's.\<close>

definition num_text :: "(js_num \<Rightarrow> js_string) \<Rightarrow> js_num \<Rightarrow> js_string" where
  "num_text platform x =
     (case int_of_num x of
        Some n \<Rightarrow> (if \<bar>n\<bar> < 10 ^ 21 then show_int n else platform x)
      | None \<Rightarrow> platform x)"

lemma num_text_int: "\<bar>n\<bar> \<le> max_safe_integer \<Longrightarrow> num_text platform (num_of_int n) = show_int n"
  by (simp add: num_text_def max_safe_integer_def)

end
