(* ===== verification/JsJson.thy ===== *)
theory JsJson
  imports JsNumber
begin

text \<open>
  \<open>JSON.parse\<close> and \<open>JSON.stringify(value, null, 2)\<close> of ECMAScript, as far as the web client uses
  them: a tokenizer, a table-driven parser that keeps its open arrays and objects on a stack, and the
  indented printer for the values the client prints (integers, strings, arrays and objects).  The
  main lemma is \<open>json_parse_stringify\<close>: parsing a printed value gives it back.
\<close>

section \<open>Values and tokens\<close>

datatype json =
    JNull
  | JBool bool
  | JNum js_num
  | JStr js_string
  | JArr "json list"
  | JObj "(js_string \<times> json) list"

text \<open>An escape of a code unit outside the modelled alphabet is told apart from a syntax error.\<close>

datatype json_error = JsonSyntax | JsonBeyondAlphabet

text \<open>\<open>value.key\<close>: the last member of that name, as \<open>JSON.parse\<close> lets it win.\<close>

definition json_get :: "js_string \<Rightarrow> (js_string \<times> json) list \<Rightarrow> json option" where
  "json_get k kvs = map_of (rev kvs) k"

datatype token =
    TLBrace | TRBrace | TLBrack | TRBrack | TComma | TColon
  | TStr js_string
  | TLit json

definition is_json_ws :: "char \<Rightarrow> bool" where
  "is_json_ws c \<longleftrightarrow> of_char c \<in> {9, 10, 13, 32 :: nat}"

section \<open>Strings\<close>

definition json_unescape :: "char \<Rightarrow> char option" where
  "json_unescape e =
     (if e = CHR 0x22 \<or> e = CHR 0x5C \<or> e = CHR ''/'' then Some e
      else if e = CHR ''b'' then Some (CHR 0x08)
      else if e = CHR ''f'' then Some (CHR 0x0C)
      else if e = CHR ''n'' then Some (CHR 0x0A)
      else if e = CHR ''r'' then Some (CHR 0x0D)
      else if e = CHR ''t'' then Some (CHR 0x09)
      else None)"

definition hex4 :: "char \<Rightarrow> char \<Rightarrow> char \<Rightarrow> char \<Rightarrow> nat option" where
  "hex4 a b c d = based_digits 16 0 [a, b, c, d]"

definition prepend :: "'a \<Rightarrow> 'e + 'a list \<times> 'b \<Rightarrow> 'e + 'a list \<times> 'b" where
  "prepend x r = (case r of Inl e \<Rightarrow> Inl e | Inr (xs, t) \<Rightarrow> Inr (x # xs, t))"

text \<open>The characters up to the closing quotation mark, and the text after it.\<close>

fun json_chars :: "js_string \<Rightarrow> json_error + js_string \<times> js_string" where
  "json_chars [] = Inl JsonSyntax"
| "json_chars (c # cs) =
     (if c = CHR 0x22 then Inr ([], cs)
      else if c = CHR 0x5C then
        (case cs of
           [] \<Rightarrow> Inl JsonSyntax
         | e # r \<Rightarrow>
             if e = CHR ''u'' then
               (case r of
                  h1 # h2 # h3 # h4 # u \<Rightarrow>
                    (case hex4 h1 h2 h3 h4 of
                       None \<Rightarrow> Inl JsonSyntax
                     | Some n \<Rightarrow> if n < 256 then prepend (char_of n) (json_chars u)
                                 else Inl JsonBeyondAlphabet)
                | _ \<Rightarrow> Inl JsonSyntax)
             else
               (case json_unescape e of
                  None \<Rightarrow> Inl JsonSyntax
                | Some x \<Rightarrow> prepend x (json_chars r)))
      else if (of_char c :: nat) < 32 then Inl JsonSyntax
      else prepend c (json_chars cs))"

lemma prepend_InrE:
  assumes "prepend x r = Inr (ys, t)"
  obtains xs where "ys = x # xs" and "r = Inr (xs, t)"
  using assms by (auto simp: prepend_def split: sum.splits)

lemma json_chars_length: "json_chars s = Inr (x, t) \<Longrightarrow> length t < length s"
  by (induction s arbitrary: x rule: json_chars.induct)
    (fastforce split: if_splits list.splits option.splits elim!: prepend_InrE)+

section \<open>Numbers\<close>

definition json_frac :: "js_string \<Rightarrow> (js_string \<times> js_string) option" where
  "json_frac r =
     (case r of
        [] \<Rightarrow> Some ([], [])
      | c # w \<Rightarrow>
          if c \<noteq> CHR ''.'' then Some ([], r)
          else if takeWhile is_digit w = [] then None
          else Some (takeWhile is_digit w, dropWhile is_digit w))"

definition json_exp :: "js_string \<Rightarrow> (int \<times> js_string) option" where
  "json_exp r =
     (case r of
        [] \<Rightarrow> Some (0, [])
      | c # w \<Rightarrow>
          if c \<noteq> CHR ''e'' \<and> c \<noteq> CHR ''E'' then Some (0, r)
          else
            let (neg, u) =
              (case w of
                 [] \<Rightarrow> (False, [])
               | d # v \<Rightarrow> if d = CHR ''-'' then (True, v) else if d = CHR ''+'' then (False, v)
                           else (False, w))
            in if takeWhile is_digit u = [] then None
               else Some
                 (if neg then - int (read_digits (takeWhile is_digit u))
                  else int (read_digits (takeWhile is_digit u)),
                  dropWhile is_digit u))"

definition json_unsigned :: "js_string \<Rightarrow> (js_num \<times> js_string) option" where
  "json_unsigned u =
     (case u of
        [] \<Rightarrow> None
      | d # v \<Rightarrow>
          if \<not> is_digit d then None
          else
            let ip = (if d = CHR ''0'' then [d] else takeWhile is_digit u) in
            (case json_frac (drop (length ip) u) of
               None \<Rightarrow> None
             | Some (fp, r) \<Rightarrow>
                 (case json_exp r of
                    None \<Rightarrow> None
                  | Some (x, t) \<Rightarrow>
                      Some (round_double
                              (of_nat (read_digits (ip @ fp)) * 10 powi (x - int (length fp))), t))))"

definition json_number :: "js_string \<Rightarrow> (js_num \<times> js_string) option" where
  "json_number s =
     (case s of
        [] \<Rightarrow> None
      | c # u \<Rightarrow>
          if c = CHR ''-'' then map_option (map_prod js_negate id) (json_unsigned u)
          else json_unsigned s)"

lemma length_dropWhile_tl: "length (dropWhile P xs) \<le> length xs"
  by (rule length_dropWhile_le)

lemma json_frac_length: "json_frac r = Some (fp, t) \<Longrightarrow> length t \<le> length r"
  using length_dropWhile_le [of is_digit "tl r"]
  by (auto simp: json_frac_def split: list.splits if_splits)

lemma json_exp_length:
  assumes "json_exp r = Some (x, t)"
  shows "length t \<le> length r"
proof (cases r)
  case (Cons c w)
  show ?thesis
  proof (cases w)
    case Nil
    with assms Cons show ?thesis by (auto simp: json_exp_def split: if_splits)
  next
    case (Cons d v)
    with assms \<open>r = c # w\<close> show ?thesis
      using length_dropWhile_le [of is_digit v] length_dropWhile_le [of is_digit "d # v"]
      by (auto simp: json_exp_def Let_def split: if_splits)
  qed
qed (use assms in \<open>auto simp: json_exp_def\<close>)

lemma json_unsigned_length:
  assumes "json_unsigned u = Some (x, t)"
  shows "length t < length u"
proof -
  from assms obtain d v where u: "u = d # v" and d: "is_digit d"
    by (auto simp: json_unsigned_def split: list.splits if_splits)
  define ip where "ip = (if d = CHR ''0'' then [d] else takeWhile is_digit u)"
  have "0 < length ip" using u d by (auto simp: ip_def)
  moreover have "length ip \<le> length u" by (auto simp: ip_def u length_takeWhile_le le_SucI)
  moreover from assms u d obtain fp r y where "json_frac (drop (length ip) u) = Some (fp, r)"
    and "json_exp r = Some (y, t)"
    unfolding u ip_def by (auto simp: json_unsigned_def Let_def split: option.splits)
  ultimately show ?thesis
    using json_frac_length [of "drop (length ip) u" fp r] json_exp_length [of r y t]
    by (metis diff_less dual_order.trans le_less_trans length_drop order_less_le_trans)
qed

lemma json_number_length:
  assumes "json_number s = Some (x, t)"
  shows "length t < length s"
  using assms json_unsigned_length
  by (fastforce simp: json_number_def split: list.splits if_splits)

section \<open>The tokenizer\<close>

definition tcons :: "token \<Rightarrow> json_error + token list \<Rightarrow> json_error + token list" where
  "tcons t r = (case r of Inl e \<Rightarrow> Inl e | Inr ts \<Rightarrow> Inr (t # ts))"

definition punctuation :: "char \<Rightarrow> token option" where
  "punctuation c =
     (if c = CHR ''{'' then Some TLBrace else if c = CHR ''}'' then Some TRBrace
      else if c = CHR ''['' then Some TLBrack else if c = CHR '']'' then Some TRBrack
      else if c = CHR '','' then Some TComma else if c = CHR '':'' then Some TColon
      else None)"

function lex :: "js_string \<Rightarrow> json_error + token list" where
  "lex [] = Inr []"
| "lex (c # cs) =
     (if is_json_ws c then lex cs
      else case punctuation c of
        Some p \<Rightarrow> tcons p (lex cs)
      | None \<Rightarrow>
          if c = CHR 0x22 then
            (case json_chars cs of Inl e \<Rightarrow> Inl e | Inr (s, r) \<Rightarrow> tcons (TStr s) (lex r))
          else if c = CHR ''-'' \<or> is_digit c then
            (case json_number (c # cs) of
               None \<Rightarrow> Inl JsonSyntax
             | Some (x, r) \<Rightarrow> tcons (TLit (JNum x)) (lex r))
          else if take 4 (c # cs) = ''true'' then tcons (TLit (JBool True)) (lex (drop 3 cs))
          else if take 5 (c # cs) = ''false'' then tcons (TLit (JBool False)) (lex (drop 4 cs))
          else if take 4 (c # cs) = ''null'' then tcons (TLit JNull) (lex (drop 3 cs))
          else Inl JsonSyntax)"
  by pat_completeness auto
termination
  by (relation "measure length") (auto dest: json_chars_length json_number_length)

declare lex.simps(2) [simp del]

section \<open>The parser\<close>

text \<open>An open array, an open object, or an open object whose next value has a key.\<close>

datatype frame =
    FArr "json list"
  | FObj "(js_string \<times> json) list"
  | FKey "(js_string \<times> json) list" js_string

datatype mode = MValue | MFirstValue | MKey | MFirstKey | MColon | MNext | MDone json

type_synonym parser_state = "mode \<times> frame list"

fun deliver :: "json \<Rightarrow> frame list \<Rightarrow> parser_state option" where
  "deliver v [] = Some (MDone v, [])"
| "deliver v (FArr vs # st) = Some (MNext, FArr (v # vs) # st)"
| "deliver v (FKey kvs k # st) = Some (MNext, FObj ((k, v) # kvs) # st)"
| "deliver v (FObj kvs # st) = None"

fun accept_value :: "frame list \<Rightarrow> token \<Rightarrow> parser_state option" where
  "accept_value st TLBrace = Some (MFirstKey, FObj [] # st)"
| "accept_value st TLBrack = Some (MFirstValue, FArr [] # st)"
| "accept_value st (TStr s) = deliver (JStr s) st"
| "accept_value st (TLit j) = deliver j st"
| "accept_value st t = None"

fun close_array :: "frame list \<Rightarrow> parser_state option" where
  "close_array (FArr vs # st) = deliver (JArr (rev vs)) st"
| "close_array st = None"

fun close_object :: "frame list \<Rightarrow> parser_state option" where
  "close_object (FObj kvs # st) = deliver (JObj (rev kvs)) st"
| "close_object st = None"

fun accept_key :: "frame list \<Rightarrow> token \<Rightarrow> parser_state option" where
  "accept_key (FObj kvs # st) (TStr k) = Some (MColon, FKey kvs k # st)"
| "accept_key st t = None"

fun accept_comma :: "frame list \<Rightarrow> parser_state option" where
  "accept_comma (FArr vs # st) = Some (MValue, FArr vs # st)"
| "accept_comma (FObj kvs # st) = Some (MKey, FObj kvs # st)"
| "accept_comma st = None"

fun accept :: "parser_state \<Rightarrow> token \<Rightarrow> parser_state option" where
  "accept (MValue, st) t = accept_value st t"
| "accept (MFirstValue, st) t = (if t = TRBrack then close_array st else accept_value st t)"
| "accept (MKey, st) t = accept_key st t"
| "accept (MFirstKey, st) t = (if t = TRBrace then close_object st else accept_key st t)"
| "accept (MColon, st) t = (if t = TColon then Some (MValue, st) else None)"
| "accept (MNext, st) t =
     (if t = TComma then accept_comma st
      else if t = TRBrack then close_array st
      else if t = TRBrace then close_object st
      else None)"
| "accept (MDone v, st) t = None"

fun accept_all :: "parser_state option \<Rightarrow> token list \<Rightarrow> parser_state option" where
  "accept_all None ts = None"
| "accept_all s [] = s"
| "accept_all (Some s) (t # ts) = accept_all (accept s t) ts"

definition json_parse :: "js_string \<Rightarrow> json_error + json" where
  "json_parse s =
     (case lex s of
        Inl e \<Rightarrow> Inl e
      | Inr ts \<Rightarrow>
          (case accept_all (Some (MValue, [])) ts of
             Some (MDone v, _) \<Rightarrow> Inr v
           | _ \<Rightarrow> Inl JsonSyntax))"

section \<open>The printer\<close>

datatype plain =
    PInt int
  | PStr js_string
  | PArr "plain list"
  | PObj "(js_string \<times> plain) list"

fun json_of_plain :: "plain \<Rightarrow> json" where
  "json_of_plain (PInt n) = JNum (num_of_int n)"
| "json_of_plain (PStr s) = JStr s"
| "json_of_plain (PArr ps) = JArr (map json_of_plain ps)"
| "json_of_plain (PObj kps) = JObj (map (\<lambda>(k, p). (k, json_of_plain p)) kps)"

definition hex_digit :: "nat \<Rightarrow> char" where
  "hex_digit d = (if d < 10 then char_of (48 + d) else char_of (87 + d))"

definition quote_char :: "char \<Rightarrow> js_string" where
  "quote_char c =
     (if c = CHR 0x22 then [CHR 0x5C, CHR 0x22]
      else if c = CHR 0x5C then [CHR 0x5C, CHR 0x5C]
      else if c = CHR 0x08 then [CHR 0x5C, CHR ''b'']
      else if c = CHR 0x0C then [CHR 0x5C, CHR ''f'']
      else if c = CHR 0x0A then [CHR 0x5C, CHR ''n'']
      else if c = CHR 0x0D then [CHR 0x5C, CHR ''r'']
      else if c = CHR 0x09 then [CHR 0x5C, CHR ''t'']
      else if (of_char c :: nat) < 32
        then [CHR 0x5C, CHR ''u'', CHR ''0'', CHR ''0'',
              hex_digit (of_char c div 16), hex_digit (of_char c mod 16)]
      else [c])"

definition json_quote :: "js_string \<Rightarrow> js_string" where
  "json_quote s = [CHR 0x22] @ concat (map quote_char s) @ [CHR 0x22]"

definition newline :: "nat \<Rightarrow> js_string" where
  "newline n = CHR 0x0A # replicate (2 * n) (CHR 0x20)"

text \<open>The second argument is the nesting depth.\<close>

fun json_stringify :: "plain \<Rightarrow> nat \<Rightarrow> js_string" where
  "json_stringify (PInt n) i = show_int n"
| "json_stringify (PStr s) i = json_quote s"
| "json_stringify (PArr ps) i =
     (if ps = [] then ''[]''
      else ''['' @ newline (Suc i)
        @ js_join ('','' @ newline (Suc i)) (map (\<lambda>p. json_stringify p (Suc i)) ps)
        @ newline i @ '']'')"
| "json_stringify (PObj kps) i =
     (if kps = [] then ''{}''
      else ''{'' @ newline (Suc i)
        @ js_join ('','' @ newline (Suc i))
            (map (\<lambda>(k, p). json_quote k @ '': '' @ json_stringify p (Suc i)) kps)
        @ newline i @ ''}'')"

section \<open>Printing and reading back\<close>

lemma hex_val_hex_digit [simp]: "d < 16 \<Longrightarrow> hex_val (hex_digit d) = Some d"
  by (auto simp: hex_val_def hex_digit_def Let_def of_char_of)

lemma hex_val_zero: "hex_val CHR ''0'' = Some 0"
  by (simp add: hex_val_def)

lemma prepend_Inr [simp]: "prepend x (Inr (xs, t)) = Inr (x # xs, t)"
  by (simp add: prepend_def)

lemma json_chars_control:
  assumes "(of_char c :: nat) < 32"
  shows "json_chars ([CHR 0x5C, CHR ''u'', CHR ''0'', CHR ''0'',
           hex_digit (of_char c div 16), hex_digit (of_char c mod 16)] @ t)
         = prepend c (json_chars t)"
proof -
  let ?n = "of_char c :: nat"
  have "hex4 CHR ''0'' CHR ''0'' (hex_digit (?n div 16)) (hex_digit (?n mod 16))
      = Some (16 * (?n div 16) + ?n mod 16)"
    using assms by (simp add: hex4_def hex_val_zero less_mult_imp_div_less)
  then have "hex4 CHR ''0'' CHR ''0'' (hex_digit (?n div 16)) (hex_digit (?n mod 16)) = Some ?n"
    by (simp only: mult_div_mod_eq)
  then show ?thesis using assms by simp
qed

lemma json_chars_quote_char: "json_chars (quote_char c @ t) = prepend c (json_chars t)"
proof -
  consider
      "c \<in> {CHR 0x22, CHR 0x5C, CHR 0x08, CHR 0x0C, CHR 0x0A, CHR 0x0D, CHR 0x09}"
    | "c \<notin> {CHR 0x22, CHR 0x5C, CHR 0x08, CHR 0x0C, CHR 0x0A, CHR 0x0D, CHR 0x09}"
      and "(of_char c :: nat) < 32"
    | "c \<notin> {CHR 0x22, CHR 0x5C}" and "\<not> (of_char c :: nat) < 32"
    by auto
  then show ?thesis
  proof cases
    case 1
    then show ?thesis by (auto simp: quote_char_def json_unescape_def)
  next
    case 2
    then have "quote_char c = [CHR 0x5C, CHR ''u'', CHR ''0'', CHR ''0'',
        hex_digit (of_char c div 16), hex_digit (of_char c mod 16)]"
      by (simp add: quote_char_def)
    with 2(2) show ?thesis by (simp only: json_chars_control)
  next
    case 3
    then have "c \<notin> {CHR 0x08, CHR 0x0C, CHR 0x0A, CHR 0x0D, CHR 0x09}" by auto
    with 3 have "quote_char c = [c]" by (simp add: quote_char_def)
    with 3 show ?thesis by simp
  qed
qed

lemma json_chars_quoted:
  "json_chars (concat (map quote_char s) @ CHR 0x22 # t) = Inr (s, t)"
proof (induction s)
  case (Cons c s)
  have "json_chars (concat (map quote_char (c # s)) @ CHR 0x22 # t)
      = json_chars (quote_char c @ concat (map quote_char s) @ CHR 0x22 # t)" by simp
  also have "\<dots> = prepend c (json_chars (concat (map quote_char s) @ CHR 0x22 # t))"
    by (rule json_chars_quote_char)
  finally show ?case by (simp only: Cons.IH prepend_Inr)
qed simp

definition tapp :: "token list \<Rightarrow> json_error + token list \<Rightarrow> json_error + token list" where
  "tapp ts r = (case r of Inl e \<Rightarrow> Inl e | Inr us \<Rightarrow> Inr (ts @ us))"

lemma tapp_simps [simp]:
  "tapp [] r = r"
  "tapp ts (tapp us r) = tapp (ts @ us) r"
  "tcons t r = tapp [t] r"
  by (auto simp: tapp_def tcons_def split: sum.splits)

definition ends_number :: "js_string \<Rightarrow> bool" where
  "ends_number r \<longleftrightarrow>
     (case r of [] \<Rightarrow> True
      | c # _ \<Rightarrow> \<not> is_digit c \<and> c \<noteq> CHR ''.'' \<and> c \<noteq> CHR ''e'' \<and> c \<noteq> CHR ''E'')"

lemma lex_quote: "lex (json_quote s @ r) = tapp [TStr s] (lex r)"
  by (simp add: json_quote_def lex.simps(2) is_json_ws_def punctuation_def json_chars_quoted)

lemma lex_spaces [simp]: "lex (replicate n (CHR 0x20) @ r) = lex r"
  by (induction n) (simp_all add: lex.simps(2) is_json_ws_def)

lemma lex_newline [simp]: "lex (newline n @ r) = lex r"
  by (simp add: newline_def lex.simps(2) is_json_ws_def)

lemma lex_space [simp]: "lex (CHR '' '' # r) = lex r"
  by (simp add: lex.simps(2) is_json_ws_def)

lemma lex_punctuation [simp]:
  "lex (CHR ''['' # r) = tapp [TLBrack] (lex r)" "lex (CHR '']'' # r) = tapp [TRBrack] (lex r)"
  "lex (CHR ''{'' # r) = tapp [TLBrace] (lex r)" "lex (CHR ''}'' # r) = tapp [TRBrace] (lex r)"
  "lex (CHR '','' # r) = tapp [TComma] (lex r)" "lex (CHR '':'' # r) = tapp [TColon] (lex r)"
  by (simp_all add: lex.simps(2) is_json_ws_def punctuation_def)

lemma hd_show_nat_zero: "hd (show_nat n) = CHR ''0'' \<Longrightarrow> n = 0"
proof (induction n rule: show_nat.induct)
  case (1 n)
  show ?case
  proof (cases "n < 10")
    case True
    with "1.prems" have "digit_char n = CHR ''0''" by (subst (asm) show_nat.simps) simp
    then have "digit_val (digit_char n) = digit_val CHR ''0''" by (simp only:)
    with True show ?thesis by (simp add: digit_val_def [of "CHR ''0''"])
  next
    case False
    then have "hd (show_nat n) = hd (show_nat (n div 10))"
      by (subst show_nat.simps) simp
    with 1 False show ?thesis by simp
  qed
qed

lemma takeWhile_show_nat:
  assumes "ends_number r"
  shows "takeWhile is_digit (show_nat n @ r) = show_nat n"
proof -
  have "takeWhile is_digit r = []"
    using assms by (auto simp: ends_number_def split: list.splits)
  then show ?thesis by (simp add: takeWhile_append2 show_nat_digits)
qed

lemma json_unsigned_eq:
  assumes "u = d # v" and "is_digit d"
    and "(if d = CHR ''0'' then [d] else takeWhile is_digit u) = ip"
    and "json_frac (drop (length ip) u) = Some (fp, r)" and "json_exp r = Some (x, t)"
  shows "json_unsigned u =
    Some (round_double (of_nat (read_digits (ip @ fp)) * 10 powi (x - int (length fp))), t)"
  using assms(2,4,5)
  unfolding json_unsigned_def assms(1) list.case assms(3) [unfolded assms(1)] Let_def
  by (simp only: not_True_eq_False if_False option.case prod.case)

lemma json_unsigned_show_nat:
  assumes "n < 2 ^ 53" and r: "ends_number r"
  shows "json_unsigned (show_nat n @ r) = Some (num_of_int (int n), r)"
proof -
  obtain d v where dv: "show_nat n = d # v" by (metis list.exhaust show_nat_nonempty)
  have d: "is_digit d" by (metis dv list.set_intros(1) show_nat_digits)
  have ip: "(if d = CHR ''0'' then [d] else takeWhile is_digit (show_nat n @ r)) = show_nat n"
  proof (cases "d = CHR ''0''")
    case True
    then have "n = 0" using hd_show_nat_zero [of n] dv by simp
    then have "show_nat n = [digit_char 0]" by (subst show_nat.simps) simp
    with True dv show ?thesis by simp
  qed (simp add: takeWhile_show_nat r)
  have frac: "json_frac r = Some ([], r)" and ex: "json_exp r = Some (0, r)"
    using r by (auto simp: ends_number_def json_frac_def json_exp_def split: list.splits)
  have "json_unsigned (show_nat n @ r) =
      Some (round_double (of_nat (read_digits (show_nat n @ [])) * 10 powi (0 - int 0)), r)"
    using json_unsigned_eq [OF _ d ip, of "v @ r" "[]" r 0 r] frac ex dv by simp
  also have "\<dots> = Some (num_of_int (int n), r)"
    using assms(1) round_double_exact [of "int n"] by simp
  finally show ?thesis .
qed

lemma lex_int:
  assumes "\<bar>n\<bar> \<le> max_safe_integer" and r: "ends_number r"
  shows "lex (show_int n @ r) = tapp [TLit (JNum (num_of_int n))] (lex r)"
proof (cases "n < 0")
  case True
  have "json_unsigned (show_nat (nat (- n)) @ r) = Some (num_of_int (- n), r)"
    using True assms json_unsigned_show_nat [OF _ r, of "nat (- n)"]
    by (simp add: max_safe_integer_def)
  with True show ?thesis
    by (simp add: show_int_def lex.simps(2) is_json_ws_def punctuation_def json_number_def)
next
  case False
  then have u: "json_unsigned (show_int n @ r) = Some (num_of_int n, r)"
    using assms json_unsigned_show_nat [OF _ r, of "nat n"]
    by (simp add: max_safe_integer_def show_int_def)
  obtain d v where dv: "show_int n = d # v" and d: "is_digit d"
    using False by (metis list.exhaust list.set_intros(1) show_int_def show_nat_digits show_nat_nonempty)
  have "\<not> is_json_ws d" and "punctuation d = None" and "d \<noteq> CHR 0x22" and "d \<noteq> CHR ''-''"
    using d by (auto simp: is_json_ws_def punctuation_def is_digit_def)
  with u d dv show ?thesis by (simp add: lex.simps(2) json_number_def)
qed

text \<open>The tokens of a printed value.\<close>

fun token_join :: "token list list \<Rightarrow> token list" where
  "token_join [] = []"
| "token_join [t] = t"
| "token_join (t # u # us) = t @ TComma # token_join (u # us)"

fun json_tokens :: "json \<Rightarrow> token list" where
  "json_tokens (JStr s) = [TStr s]"
| "json_tokens (JArr vs) = TLBrack # token_join (map json_tokens vs) @ [TRBrack]"
| "json_tokens (JObj kvs) =
     TLBrace # token_join (map (\<lambda>(k, v). TStr k # TColon # json_tokens v) kvs) @ [TRBrace]"
| "json_tokens v = [TLit v]"

abbreviation plain_tokens :: "plain \<Rightarrow> token list" where
  "plain_tokens p \<equiv> json_tokens (json_of_plain p)"

text \<open>Every integer of the value is one that a number represents exactly.\<close>

fun safe_plain :: "plain \<Rightarrow> bool" where
  "safe_plain (PInt n) \<longleftrightarrow> \<bar>n\<bar> \<le> max_safe_integer"
| "safe_plain (PStr s) \<longleftrightarrow> True"
| "safe_plain (PArr ps) \<longleftrightarrow> (\<forall>p \<in> set ps. safe_plain p)"
| "safe_plain (PObj kps) \<longleftrightarrow> (\<forall>(k, p) \<in> set kps. safe_plain p)"

lemma ends_number_simps [simp]:
  "ends_number []"
  "ends_number (CHR '','' # r)"
  "ends_number (newline n @ r)"
  by (simp_all add: ends_number_def newline_def is_digit_def)

lemma lex_join:
  assumes "list_all2 (\<lambda>s t. \<forall>r. ends_number r \<longrightarrow> lex (s @ r) = tapp t (lex r)) ss ts"
    and "ends_number r"
  shows "lex (js_join ('','' @ newline n) ss @ r) = tapp (token_join ts) (lex r)"
  using assms
proof (induction ts arbitrary: ss rule: token_join.induct)
  case (3 t u us)
  then obtain s v vs where ss: "ss = s # v # vs"
    by (auto simp: list_all2_Cons2)
  with 3 have "lex (js_join ('','' @ newline n) (v # vs) @ r) = tapp (token_join (u # us)) (lex r)"
    by simp
  with 3 ss show ?case by simp
qed (auto simp: list_all2_Cons2)

lemma lex_stringify:
  assumes "safe_plain p" and "ends_number r"
  shows "lex (json_stringify p i @ r) = tapp (plain_tokens p) (lex r)"
  using assms
proof (induction p arbitrary: i r)
  case (PInt n)
  then show ?case by (simp add: lex_int)
next
  case (PStr s)
  then show ?case by (simp add: lex_quote)
next
  case (PArr ps)
  have "list_all2 (\<lambda>s t. \<forall>r. ends_number r \<longrightarrow> lex (s @ r) = tapp t (lex r))
      (map (\<lambda>p. json_stringify p (Suc i)) ps) (map plain_tokens ps)"
    using PArr by (auto simp: list_all2_conv_all_nth)
  from lex_join [OF this, of "newline i @ CHR '']'' # r" "Suc i"]
  show ?case by (simp add: comp_def)
next
  case (PObj kps)
  have "list_all2 (\<lambda>s t. \<forall>r. ends_number r \<longrightarrow> lex (s @ r) = tapp t (lex r))
      (map (\<lambda>(k, p). json_quote k @ '': '' @ json_stringify p (Suc i)) kps)
      (map (\<lambda>(k, p). TStr k # TColon # plain_tokens p) kps)"
  proof (rule list_all2_all_nthI; clarsimp split: prod.splits)
    fix j k p r
    assume j: "j < length kps" and kp: "kps ! j = (k, p)" and r: "ends_number r"
    then have "(k, p) \<in> set kps" by (metis nth_mem)
    with PObj r have "lex (json_stringify p (Suc i) @ r) = tapp (plain_tokens p) (lex r)"
      by (fastforce simp: snds.simps)
    then show "lex (json_quote k @ CHR '':'' # CHR '' '' # json_stringify p (Suc i) @ r)
        = tapp (TStr k # TColon # plain_tokens p) (lex r)"
      by (simp add: lex_quote)
  qed
  from lex_join [OF this, of "newline i @ CHR ''}'' # r" "Suc i"]
  show ?case by (simp add: comp_def case_prod_unfold)
qed

text \<open>The parser on the tokens of a printed value.\<close>

fun open_frame :: "frame list \<Rightarrow> bool" where
  "open_frame [] = True"
| "open_frame (FObj _ # _) = False"
| "open_frame (_ # _) = True"

lemma accept_all_Nil [simp]: "accept_all s [] = s"
  by (cases s) simp_all

lemma accept_all_append:
  "accept_all s (ts @ us) = accept_all (accept_all s ts) us"
  by (induction s ts rule: accept_all.induct) simp_all

lemma accept_first_value:
  "hd ts \<noteq> TRBrack \<Longrightarrow> ts \<noteq> [] \<Longrightarrow>
     accept_all (Some (MFirstValue, st)) ts = accept_all (Some (MValue, st)) ts"
  by (cases ts) simp_all

lemma json_tokens_hd: "json_tokens p \<noteq> [] \<and> hd (json_tokens p) \<noteq> TRBrack"
  by (cases p) simp_all

lemma accept_elements:
  assumes "\<And>p st. p \<in> set ps \<Longrightarrow> open_frame st \<Longrightarrow>
      accept_all (Some (MValue, st)) (json_tokens p) = deliver p st"
    and "ps \<noteq> []"
  shows "accept_all (Some (MValue, FArr vs # st)) (token_join (map json_tokens ps))
    = Some (MNext, FArr (rev ps @ vs) # st)"
  using assms
proof (induction ps arbitrary: vs)
  case (Cons p ps)
  then have p: "accept_all (Some (MValue, FArr vs # st)) (json_tokens p)
      = Some (MNext, FArr (p # vs) # st)"
    by simp
  show ?case
  proof (cases ps)
    case Nil
    with p show ?thesis by simp
  next
    case (Cons q qs)
    with Cons.IH Cons.prems p show ?thesis by (simp add: accept_all_append)
  qed
qed simp

lemma accept_members:
  assumes "\<And>k p st. (k, p) \<in> set kps \<Longrightarrow> open_frame st \<Longrightarrow>
      accept_all (Some (MValue, st)) (json_tokens p) = deliver p st"
    and "kps \<noteq> []"
  shows "accept_all (Some (MKey, FObj kvs # st))
      (token_join (map (\<lambda>(k, p). TStr k # TColon # json_tokens p) kps))
    = Some (MNext, FObj (rev kps @ kvs) # st)"
  using assms
proof (induction kps arbitrary: kvs)
  case (Cons kp kps)
  obtain k p where kp: "kp = (k, p)" by fastforce
  have p: "accept_all (Some (MValue, FKey kvs k # st)) (json_tokens p)
      = Some (MNext, FObj ((k, p) # kvs) # st)"
    using Cons.prems(1) [of k p "FKey kvs k # st"] kp by simp
  show ?case
  proof (cases kps)
    case Nil
    with p kp show ?thesis by simp
  next
    case (Cons q qs)
    have "accept_all (Some (MKey, FObj ((k, p) # kvs) # st))
        (token_join (map (\<lambda>(k, p). TStr k # TColon # json_tokens p) kps))
      = Some (MNext, FObj (rev kps
          @ (k, p) # kvs) # st)"
      using Cons.prems Cons by (intro Cons.IH) auto
    with p kp Cons show ?thesis by (cases q) (simp add: accept_all_append)
  qed
qed simp

lemma accept_first_key:
  assumes "kps \<noteq> []"
  shows "accept_all (Some (MFirstKey, st))
      (token_join (map (\<lambda>(k, p). TStr k # TColon # json_tokens p) kps))
    = accept_all (Some (MKey, st))
      (token_join (map (\<lambda>(k, p). TStr k # TColon # json_tokens p) kps))"
proof -
  have "\<exists>k ts. token_join (map (\<lambda>(k, p). TStr k # TColon # json_tokens p) kps) = TStr k # ts"
    using assms by (cases kps; cases "tl kps") auto
  then show ?thesis by fastforce
qed

lemma accept_json:
  assumes "open_frame st"
  shows "accept_all (Some (MValue, st)) (json_tokens p) = deliver p st"
  using assms
proof (induction p arbitrary: st)
  case (JArr ps)
  show ?case
  proof (cases "ps = []")
    case False
    have "hd (token_join (map json_tokens ps)) \<noteq> TRBrack \<and> token_join (map json_tokens ps) \<noteq> []"
      using False json_tokens_hd by (cases ps; cases "tl ps") (auto simp: hd_append)
    then have "accept_all (Some (MFirstValue, FArr [] # st)) (token_join (map json_tokens ps))
        = Some (MNext, FArr (rev ps) # st)"
      using accept_elements [of ps "[]" st] JArr.IH False by (simp add: accept_first_value)
    then show ?thesis by (simp add: accept_all_append)
  qed simp
next
  case (JObj kps)
  show ?case
  proof (cases "kps = []")
    case False
    have "accept_all (Some (MKey, FObj [] # st))
        (token_join (map (\<lambda>(k, p). TStr k # TColon # json_tokens p) kps))
      = Some (MNext, FObj (rev kps) # st)"
      using accept_members [of kps "[]" st] JObj.IH False by (fastforce simp: snds.simps)
    with False show ?thesis by (simp add: accept_first_key accept_all_append)
  qed simp
qed simp_all

theorem json_parse_stringify:
  assumes "safe_plain p"
  shows "json_parse (json_stringify p i) = Inr (json_of_plain p)"
proof -
  have "lex (json_stringify p i) = Inr (plain_tokens p)"
    using lex_stringify [OF assms, of "[]" i] by (simp add: tapp_def)
  moreover have "accept_all (Some (MValue, [])) (plain_tokens p) = Some (MDone (json_of_plain p), [])"
    by (simp add: accept_json)
  ultimately show ?thesis by (simp add: json_parse_def)
qed

section \<open>\<open>JSON.stringify(value)\<close>\<close>

text \<open>Without indentation; a number that is not finite is written as \<open>null\<close>.\<close>

fun json_compact :: "(js_num \<Rightarrow> js_string) \<Rightarrow> json \<Rightarrow> js_string" where
  "json_compact platform JNull = ''null''"
| "json_compact platform (JBool b) = (if b then ''true'' else ''false'')"
| "json_compact platform (JNum n) = (if is_finite_num n then num_text platform n else ''null'')"
| "json_compact platform (JStr s) = json_quote s"
| "json_compact platform (JArr vs) = ''['' @ js_join '','' (map (json_compact platform) vs) @ '']''"
| "json_compact platform (JObj kvs) =
     ''{'' @ js_join '','' (map (\<lambda>(k, v). json_quote k @ '':'' @ json_compact platform v) kvs) @ ''}''"

text \<open>Every number of the value is an integer that a number represents exactly.\<close>

fun safe_json :: "json \<Rightarrow> bool" where
  "safe_json (JNum n) \<longleftrightarrow> is_safe_integer n"
| "safe_json (JArr vs) \<longleftrightarrow> (\<forall>v \<in> set vs. safe_json v)"
| "safe_json (JObj kvs) \<longleftrightarrow> (\<forall>(k, v) \<in> set kvs. safe_json v)"
| "safe_json v \<longleftrightarrow> True"

lemma lex_compact_join:
  assumes "list_all2 (\<lambda>s t. \<forall>r. ends_number r \<longrightarrow> lex (s @ r) = tapp t (lex r)) ss ts"
    and "ends_number r"
  shows "lex (js_join '','' ss @ r) = tapp (token_join ts) (lex r)"
  using assms
proof (induction ts arbitrary: ss rule: token_join.induct)
  case (3 t u us)
  then obtain s v vs where ss: "ss = s # v # vs" by (auto simp: list_all2_Cons2)
  with 3 have "lex (js_join '','' (v # vs) @ r) = tapp (token_join (u # us)) (lex r)" by simp
  with 3 ss show ?case by simp
qed (auto simp: list_all2_Cons2)

lemma ends_number_brackets [simp]: "ends_number (CHR '']'' # r)" "ends_number (CHR ''}'' # r)"
  by (simp_all add: ends_number_def is_digit_def)

lemma lex_words [simp]:
  "lex (''null'' @ r) = tapp [TLit JNull] (lex r)"
  "lex (''true'' @ r) = tapp [TLit (JBool True)] (lex r)"
  "lex (''false'' @ r) = tapp [TLit (JBool False)] (lex r)"
  by (simp_all add: lex.simps(2) punctuation_def is_json_ws_def tapp_def tcons_def is_digit_def split: sum.splits)

lemma lex_compact:
  assumes "safe_json v" and "ends_number r"
  shows "lex (json_compact platform v @ r) = tapp (json_tokens v) (lex r)"
  using assms
proof (induction v arbitrary: r)
  case (JNum n)
  then obtain i where "n = num_of_int i" "\<bar>i\<bar> \<le> max_safe_integer" using is_safe_integerE by auto
  with JNum show ?case by (simp add: lex_int num_text_int is_finite_num_def)
next
  case (JArr vs)
  have "list_all2 (\<lambda>s t. \<forall>r. ends_number r \<longrightarrow> lex (s @ r) = tapp t (lex r))
      (map (json_compact platform) vs) (map json_tokens vs)"
    using JArr by (auto simp: list_all2_conv_all_nth)
  from lex_compact_join [OF this, of "CHR '']'' # r"] show ?case by simp
next
  case (JObj kvs)
  have "list_all2 (\<lambda>s t. \<forall>r. ends_number r \<longrightarrow> lex (s @ r) = tapp t (lex r))
      (map (\<lambda>(k, v). json_quote k @ '':'' @ json_compact platform v) kvs)
      (map (\<lambda>(k, v). TStr k # TColon # json_tokens v) kvs)"
  proof (rule list_all2_all_nthI; clarsimp split: prod.splits)
    fix j k v r
    assume j: "j < length kvs" and kv: "kvs ! j = (k, v)" and r: "ends_number r"
    then have "(k, v) \<in> set kvs" by (metis nth_mem)
    with JObj r have "lex (json_compact platform v @ r) = tapp (json_tokens v) (lex r)"
      by (fastforce simp: snds.simps)
    then show "lex (json_quote k @ CHR '':'' # json_compact platform v @ r)
        = tapp (TStr k # TColon # json_tokens v) (lex r)"
      by (simp add: lex_quote)
  qed
  from lex_compact_join [OF this, of "CHR ''}'' # r"] show ?case by simp
next
  case (JBool b)
  then show ?case by (cases b) (simp_all only: json_compact.simps json_tokens.simps if_True if_False lex_words)
qed (simp_all only: json_compact.simps json_tokens.simps lex_words lex_quote)

theorem json_parse_compact:
  assumes "safe_json v"
  shows "json_parse (json_compact platform v) = Inr v"
proof -
  have "lex (json_compact platform v) = Inr (json_tokens v)"
    using lex_compact [OF assms, of "[]" platform] by (simp add: tapp_def)
  moreover have "accept_all (Some (MValue, [])) (json_tokens v) = Some (MDone v, [])"
    by (simp add: accept_json)
  ultimately show ?thesis by (simp add: json_parse_def)
qed

end
