(* ===== verification/Lib.thy ===== *)
theory Lib
  imports JsJson
begin

text \<open>
  The helpers of \<open>web/src/lib\<close>: \<open>utils.ts\<close>, \<open>pagination.ts\<close>, \<open>table-search.ts\<close> (the sort tokens),
  \<open>form-validation.ts\<close>, \<open>targeting.ts\<close>, \<open>route-params.ts\<close> and \<open>sql-validation.ts\<close>.
  A value of static type \<open>unknown\<close> is a \<^typ>\<open>json\<close> value.
\<close>

section \<open>\<open>utils.ts\<close>\<close>

definition nonEmpty :: "js_string option \<Rightarrow> js_string option" where
  "nonEmpty value =
     (case value of
        None \<Rightarrow> None
      | Some v \<Rightarrow> (let trimmed = js_trim v in if trimmed = [] then None else Some trimmed))"

definition isOneOf :: "json \<Rightarrow> js_string list \<Rightarrow> bool" where
  "isOneOf value values =
     (case value of JStr s \<Rightarrow> list_ex (\<lambda>candidate. candidate = s) values | _ \<Rightarrow> False)"

definition isRecord :: "json \<Rightarrow> bool" where
  "isRecord value = (case value of JObj _ \<Rightarrow> True | _ \<Rightarrow> False)"

definition countLabel :: "int \<Rightarrow> js_string \<Rightarrow> js_string option \<Rightarrow> js_string" where
  "countLabel count singular plural =
     show_int count @ '' '' @ (if count = 1 then singular else coalesce plural (singular @ ''s''))"

definition formatInterval :: "int \<Rightarrow> js_string" where
  "formatInterval seconds =
     (if seconds \<le> 0 then ''never''
      else
        let days = seconds div 86400;
            hours = seconds mod 86400 div 3600;
            minutes = seconds mod 3600 div 60
        in if 7 \<le> days \<and> seconds mod 604800 = 0 then countLabel (seconds div 604800) ''week'' None
           else if 0 < days \<and> seconds mod 86400 = 0 then countLabel days ''day'' None
           else if 0 < hours \<and> seconds mod 3600 = 0 then countLabel hours ''hour'' None
           else if 0 < minutes \<and> seconds mod 60 = 0 then countLabel minutes ''minute'' None
           else countLabel seconds ''second'' None)"

lemma nonEmpty_None [simp]: "nonEmpty None = None"
  by (simp add: nonEmpty_def)

lemma nonEmpty_Some: "nonEmpty (Some v) = (if js_trim v = [] then None else Some (js_trim v))"
  by (simp add: nonEmpty_def Let_def)

lemma nonEmpty_eq_None: "nonEmpty v = None \<longleftrightarrow> js_trim (coalesce v []) = []"
  by (cases v) (simp_all add: nonEmpty_Some)

lemma nonEmpty_eq_Some:
  "nonEmpty v = Some w \<longleftrightarrow> w \<noteq> [] \<and> js_trim w = w \<and> w = js_trim (coalesce v [])"
  by (cases v) (auto simp: nonEmpty_Some)

lemma nonEmpty_stable [simp]: "nonEmpty (Some (coalesce (nonEmpty v) [])) = nonEmpty v"
  by (cases v) (auto simp: nonEmpty_Some)

text \<open>
  The unit of an interval is the largest one that divides it: the reference the chain of tests of
  \<open>formatInterval\<close> has to agree with.
\<close>

definition interval_units :: "(int \<times> js_string) list" where
  "interval_units =
     [(604800, ''week''), (86400, ''day''), (3600, ''hour''), (60, ''minute''), (1, ''second'')]"

definition interval_reference :: "int \<Rightarrow> js_string" where
  "interval_reference seconds =
     (case find (\<lambda>(n, unit). n dvd seconds) interval_units of
        None \<Rightarrow> ''never''
      | Some (n, unit) \<Rightarrow> countLabel (seconds div n) unit None)"

text \<open>
  Where \<open>formatInterval\<close> reaches the hour or the minute test, it keeps only the part below a day or
  below an hour, so it agrees with the reference exactly on the intervals below.
\<close>

definition one_unit_interval :: "int \<Rightarrow> bool" where
  "one_unit_interval s \<longleftrightarrow>
     (3600 dvd s \<longrightarrow> 86400 dvd s \<or> s < 86400) \<and> (60 dvd s \<longrightarrow> 3600 dvd s \<or> s < 3600)"

lemma show_int_no_space: "CHR '' '' \<notin> set (show_int n)"
  by (auto simp: show_int_def is_js_space_def dest!: show_nat_digits digit_not_space)

lemma countLabel_inj:
  assumes "countLabel a u p = countLabel b v q"
  shows "a = b"
proof -
  have "takeWhile (\<lambda>c. c \<noteq> CHR '' '') (show_int n @ CHR '' '' # w) = show_int n" for n w
    using show_int_no_space [of n] by (subst takeWhile_append2) auto
  then have "takeWhile (\<lambda>c. c \<noteq> CHR '' '') (countLabel n u p) = show_int n" for n u p
    by (simp add: countLabel_def)
  with assms show ?thesis by (metis show_int_inj)
qed

lemma countLabel_eq [simp]: "countLabel a u p = countLabel b u p \<longleftrightarrow> a = b"
  by (auto dest: countLabel_inj)

text \<open>The units divide one another; a part below a unit, counted in a smaller one.\<close>

lemma unit_dvd:
  fixes s :: int
  shows "604800 dvd s \<Longrightarrow> 86400 dvd s" "86400 dvd s \<Longrightarrow> 3600 dvd s" "3600 dvd s \<Longrightarrow> 60 dvd s"
  using dvd_trans [of 86400 604800 s] dvd_trans [of 3600 86400 s] dvd_trans [of 60 3600 s]
  by simp_all

lemma part_pos:
  fixes s u m :: int
  assumes "u dvd s" and "u dvd m" and "\<not> m dvd s" and "0 < u" and "0 < m"
  shows "0 < s mod m div u"
proof -
  have "u dvd s mod m" using assms(1,2) by (simp add: dvd_mod)
  moreover have "0 < s mod m"
    using assms(3,5) pos_mod_sign [of m s] by (simp add: dvd_eq_mod_eq_0 order_less_le)
  ultimately have "u \<le> s mod m" by (rule zdvd_imp_le)
  with assms(4) show ?thesis by (simp add: pos_imp_zdiv_pos_iff)
qed

lemma part_eq:
  fixes s u m :: int
  assumes "u dvd s" and "u dvd m" and "0 < u" and "0 < m" and "0 < s"
  shows "s mod m div u = s div u \<longleftrightarrow> s < m"
proof -
  have "u dvd s mod m" using assms(1,2) by (simp add: dvd_mod)
  then have "s mod m div u = s div u \<longleftrightarrow> s mod m = s"
    using assms(1,3) by (metis dvd_div_mult_self)
  also have "\<dots> \<longleftrightarrow> s < m"
    using assms(4,5) by (metis mod_pos_pos_trivial order_less_imp_le pos_mod_bound)
  finally show ?thesis .
qed

lemma unit_pos:
  fixes s m :: int
  shows "m dvd s \<Longrightarrow> 0 < s \<Longrightarrow> m \<le> s"
  by (rule zdvd_imp_le)

text \<open>The chain of tests, with the divisibility of each unit as a condition.\<close>

lemma formatInterval_dvd:
  "0 < s \<Longrightarrow> formatInterval s =
     (if 7 \<le> s div 86400 \<and> 604800 dvd s then countLabel (s div 604800) ''week'' None
      else if 0 < s div 86400 \<and> 86400 dvd s then countLabel (s div 86400) ''day'' None
      else if 0 < s mod 86400 div 3600 \<and> 3600 dvd s
        then countLabel (s mod 86400 div 3600) ''hour'' None
      else if 0 < s mod 3600 div 60 \<and> 60 dvd s
        then countLabel (s mod 3600 div 60) ''minute'' None
      else countLabel s ''second'' None)"
  unfolding formatInterval_def Let_def dvd_eq_mod_eq_0 not_le [symmetric] by (simp only: if_False)

lemma formatInterval_week:
  assumes "604800 dvd s" and "0 < s"
  shows "formatInterval s = countLabel (s div 604800) ''week'' None"
proof -
  have "604800 \<le> s" using assms by (rule unit_pos)
  then have "7 \<le> s div 86400" using zdiv_mono1 [of 604800 s 86400] by simp
  with assms show ?thesis by (simp only: formatInterval_dvd simp_thms if_True if_False)
qed

lemma formatInterval_day:
  assumes "\<not> 604800 dvd s" and "86400 dvd s" and "0 < s"
  shows "formatInterval s = countLabel (s div 86400) ''day'' None"
proof -
  have "86400 \<le> s" using assms(2,3) by (rule unit_pos)
  then have "0 < s div 86400" using zdiv_mono1 [of 86400 s 86400] by simp
  with assms show ?thesis by (simp only: formatInterval_dvd simp_thms if_True if_False)
qed

lemma formatInterval_hour:
  assumes "\<not> 86400 dvd s" and "3600 dvd s" and "0 < s"
  shows "formatInterval s = countLabel (s mod 86400 div 3600) ''hour'' None"
proof -
  have "\<not> 604800 dvd s" using assms(1) unit_dvd by blast
  moreover have "0 < s mod 86400 div 3600" using assms by (intro part_pos) simp_all
  ultimately show ?thesis using assms by (simp only: formatInterval_dvd simp_thms if_True if_False)
qed

lemma formatInterval_minute:
  assumes "\<not> 3600 dvd s" and "60 dvd s" and "0 < s"
  shows "formatInterval s = countLabel (s mod 3600 div 60) ''minute'' None"
proof -
  have "\<not> 604800 dvd s" and "\<not> 86400 dvd s" using assms(1) unit_dvd by blast+
  moreover have "0 < s mod 3600 div 60" using assms by (intro part_pos) simp_all
  ultimately show ?thesis using assms by (simp only: formatInterval_dvd simp_thms if_True if_False)
qed

lemma formatInterval_second:
  assumes "\<not> 60 dvd s" and "0 < s"
  shows "formatInterval s = countLabel s ''second'' None"
proof -
  have "\<not> 604800 dvd s" and "\<not> 86400 dvd s" and "\<not> 3600 dvd s"
    using assms(1) unit_dvd by blast+
  then show ?thesis using assms by (simp only: formatInterval_dvd simp_thms if_True if_False)
qed

lemmas formatInterval_cases =
  formatInterval_week formatInterval_day formatInterval_hour formatInterval_minute
  formatInterval_second

lemma interval_reference_cases:
  "604800 dvd s \<Longrightarrow> interval_reference s = countLabel (s div 604800) ''week'' None"
  "\<not> 604800 dvd s \<Longrightarrow> 86400 dvd s \<Longrightarrow> interval_reference s = countLabel (s div 86400) ''day'' None"
  "\<not> 604800 dvd s \<Longrightarrow> \<not> 86400 dvd s \<Longrightarrow> 3600 dvd s \<Longrightarrow>
     interval_reference s = countLabel (s div 3600) ''hour'' None"
  "\<not> 604800 dvd s \<Longrightarrow> \<not> 86400 dvd s \<Longrightarrow> \<not> 3600 dvd s \<Longrightarrow> 60 dvd s \<Longrightarrow>
     interval_reference s = countLabel (s div 60) ''minute'' None"
  "\<not> 604800 dvd s \<Longrightarrow> \<not> 86400 dvd s \<Longrightarrow> \<not> 3600 dvd s \<Longrightarrow> \<not> 60 dvd s \<Longrightarrow>
     interval_reference s = countLabel s ''second'' None"
  by (simp_all add: interval_reference_def interval_units_def)

lemma formatInterval_agrees:
  assumes "0 < s"
  shows "formatInterval s = interval_reference s \<longleftrightarrow> one_unit_interval s"
proof -
  consider (week) "604800 dvd s" | (day) "\<not> 604800 dvd s" "86400 dvd s"
    | (hour) "\<not> 604800 dvd s" "\<not> 86400 dvd s" "3600 dvd s"
    | (minute) "\<not> 604800 dvd s" "\<not> 86400 dvd s" "\<not> 3600 dvd s" "60 dvd s"
    | (second) "\<not> 604800 dvd s" "\<not> 86400 dvd s" "\<not> 3600 dvd s" "\<not> 60 dvd s"
    by blast
  then show ?thesis
  proof cases
    case week
    then have "86400 dvd s" "3600 dvd s" using unit_dvd by blast+
    with week assms show ?thesis
      by (simp add: formatInterval_week interval_reference_cases one_unit_interval_def)
  next
    case day
    then have "3600 dvd s" using unit_dvd by blast
    with day assms show ?thesis
      by (simp add: formatInterval_day interval_reference_cases one_unit_interval_def)
  next
    case hour
    have "s mod 86400 div 3600 = s div 3600 \<longleftrightarrow> s < 86400"
      using hour assms by (intro part_eq) simp_all
    moreover have "60 dvd s" using hour unit_dvd by blast
    ultimately show ?thesis using hour assms
      by (simp add: formatInterval_hour interval_reference_cases one_unit_interval_def)
  next
    case minute
    have "s mod 3600 div 60 = s div 60 \<longleftrightarrow> s < 3600"
      using minute assms by (intro part_eq) simp_all
    with minute assms show ?thesis
      by (simp add: formatInterval_minute interval_reference_cases one_unit_interval_def)
  next
    case second
    with assms show ?thesis
      by (simp add: formatInterval_second interval_reference_cases one_unit_interval_def)
  qed
qed

lemma formatInterval_drops_hours:
  "formatInterval 5400 = ''30 minutes'' \<and> formatInterval 90000 = ''1 hour''"
  by code_simp

end
