(* ===== verification/Params.thy ===== *)
theory Params
  imports Lib
begin

text \<open>
  Paging, list parameters, sort tokens, route parameters and the form-validation helpers of
  \<open>web/src/lib\<close>: \<open>pagination.ts\<close>, \<open>table-search.ts\<close>, \<open>route-params.ts\<close>, \<open>form-validation.ts\<close>,
  \<open>targeting.ts\<close> and \<open>sql-validation.ts\<close>.

  A promise is a sum: \<open>Inl e\<close> when it rejects with \<open>e\<close>, \<open>Inr v\<close> when it fulfils with \<open>v\<close>.
\<close>

section \<open>\<open>pagination.ts\<close>\<close>

definition DEFAULT_PAGE_SIZE :: int where
  "DEFAULT_PAGE_SIZE = 50"

definition MAX_PAGE_SIZE :: int where
  "MAX_PAGE_SIZE = 1000"

definition PAGE_SIZE_OPTIONS :: "int list" where
  "PAGE_SIZE_OPTIONS = [25, 50, 100, 200, 500, MAX_PAGE_SIZE]"

record 'a page =
  page_count :: int
  page_items :: "'a list"

text \<open>\<open>Math.ceil(count / size)\<close>.\<close>

definition ceil_div :: "int \<Rightarrow> int \<Rightarrow> int" where
  "ceil_div n d = - ((- n) div d)"

type_synonym ('e, 'a) page_loader = "int \<Rightarrow> int \<Rightarrow> 'e + 'a page"

text \<open>The \<open>for\<close> loop of \<open>collectAllPages\<close>, from the page \<open>p\<close> on.\<close>

function collect_loop :: "('e, 'a) page_loader \<Rightarrow> int \<Rightarrow> int \<Rightarrow> 'a list \<Rightarrow> 'e + 'a list" where
  "collect_loop loadPage pageCount p items =
     (if p \<le> pageCount then
        (case loadPage p MAX_PAGE_SIZE of
           Inl e \<Rightarrow> Inl e
         | Inr response \<Rightarrow> collect_loop loadPage pageCount (p + 1) (items @ page_items response))
      else Inr items)"
  by pat_completeness auto
termination by (relation "measure (\<lambda>(_, pageCount, p, _). nat (pageCount + 1 - p))") auto

declare collect_loop.simps [simp del]

definition collectAllPages :: "('e, 'a) page_loader \<Rightarrow> 'e + 'a list" where
  "collectAllPages loadPage =
     (case loadPage 1 MAX_PAGE_SIZE of
        Inl e \<Rightarrow> Inl e
      | Inr firstPage \<Rightarrow>
          (let pageCount = ceil_div (page_count firstPage) MAX_PAGE_SIZE
           in if pageCount \<le> 1 then Inr (page_items firstPage)
              else collect_loop loadPage pageCount 2 (page_items firstPage)))"

definition normalizePage :: "js_num option \<Rightarrow> js_num" where
  "normalizePage value =
     (case value of
        Some v \<Rightarrow> (if is_safe_integer v \<and> Fin 0 < v then v else num_of_int 1)
      | None \<Rightarrow> num_of_int 1)"

definition normalizePageSize :: "js_num option \<Rightarrow> js_num \<Rightarrow> js_num" where
  "normalizePageSize value fallback =
     (case value of
        Some v \<Rightarrow>
          (if is_safe_integer v \<and> Fin 0 < v \<and> v \<le> num_of_int MAX_PAGE_SIZE then v else fallback)
      | None \<Rightarrow> fallback)"

record base_list_params =
  blp_q :: "js_string option"
  blp_page :: "js_num option"
  blp_per_page :: "js_num option"
  blp_sort :: "js_string option"

record base_list =
  bl_q :: "js_string option"
  bl_page :: js_num
  bl_per_page :: js_num
  bl_sort :: "js_string option"

definition baseListParams :: "'z base_list_params_scheme \<Rightarrow> js_num option \<Rightarrow> base_list" where
  "baseListParams params defaultPerPageOption =
     (let defaultPerPage = normalizePageSize defaultPerPageOption (num_of_int DEFAULT_PAGE_SIZE)
      in \<lparr>bl_q = nonEmpty (blp_q params),
          bl_page = normalizePage (blp_page params),
          bl_per_page = normalizePageSize (blp_per_page params) defaultPerPage,
          bl_sort = nonEmpty (blp_sort params)\<rparr>)"

subsection \<open>Every page is read, in order\<close>

text \<open>A server that pages through \<open>xs\<close> in slices of the size asked for.\<close>

definition serves :: "'a list \<Rightarrow> ('e, 'a) page_loader" where
  "serves xs p n =
     Inr \<lparr>page_count = int (length xs), page_items = take (nat n) (drop (nat ((p - 1) * n)) xs)\<rparr>"

lemma ceil_div_lt:
  assumes d: "0 < d"
  shows "p < ceil_div n d \<longleftrightarrow> p * d < n"
proof -
  let ?q = "ceil_div n d"
  have "?q * d = n + (- n) mod d"
    using div_mult_mod_eq [of "- n" d] unfolding ceil_div_def minus_mult_left [symmetric] by linarith
  then have q: "(?q - 1) * d < n" "n \<le> ?q * d"
    using pos_mod_bound [OF d, of "- n"] pos_mod_sign [OF d, of "- n"]
    by (simp_all add: left_diff_distrib)
  show ?thesis
  proof
    assume "p < ?q"
    then have "p * d \<le> (?q - 1) * d" using d by (intro mult_right_mono) simp_all
    with q(1) show "p * d < n" by simp
  next
    assume "p * d < n"
    with q(2) have "p * d < ?q * d" by simp
    with d show "p < ?q" by simp
  qed
qed

lemma ceil_div_le: "0 < d \<Longrightarrow> ceil_div n d \<le> p \<longleftrightarrow> n \<le> p * d"
  using ceil_div_lt [of d p n] by (simp add: not_less [symmetric])

lemma collect_loop_serves:
  assumes "1 \<le> p" and "pageCount = ceil_div (int (length xs)) MAX_PAGE_SIZE"
  shows "collect_loop (serves xs) pageCount p (take (nat ((p - 1) * MAX_PAGE_SIZE)) xs)
      = (Inr xs :: 'e + 'a list)"
  using assms
proof (induction "nat (pageCount + 1 - p)" arbitrary: p)
  case 0
  then have "int (length xs) \<le> (p - 1) * MAX_PAGE_SIZE"
    using ceil_div_le [of MAX_PAGE_SIZE "int (length xs)" "p - 1"] by (simp add: MAX_PAGE_SIZE_def)
  then have "length xs \<le> nat ((p - 1) * MAX_PAGE_SIZE)" by linarith
  with 0 show ?case by (subst collect_loop.simps) simp
next
  case (Suc k)
  have "nat ((p + 1 - 1) * MAX_PAGE_SIZE) = nat ((p - 1) * MAX_PAGE_SIZE) + nat MAX_PAGE_SIZE"
    using Suc(3) by (simp add: MAX_PAGE_SIZE_def nat_add_distrib [symmetric])
  then have "take (nat ((p - 1) * MAX_PAGE_SIZE)) xs
      @ take (nat MAX_PAGE_SIZE) (drop (nat ((p - 1) * MAX_PAGE_SIZE)) xs)
      = take (nat ((p + 1 - 1) * MAX_PAGE_SIZE)) xs"
    by (simp only: take_add)
  moreover have "p \<le> pageCount" using Suc(2) by simp
  moreover have "collect_loop (serves xs) pageCount (p + 1)
      (take (nat ((p + 1 - 1) * MAX_PAGE_SIZE)) xs) = (Inr xs :: 'e + 'a list)"
    using Suc(2,3,4) by (intro Suc(1)) auto
  ultimately show ?case by (subst collect_loop.simps) (simp add: serves_def)
qed

lemma collect_serves: "collectAllPages (serves xs) = (Inr xs :: 'e + 'a list)"
proof -
  let ?c = "ceil_div (int (length xs)) MAX_PAGE_SIZE"
  have first: "serves xs 1 MAX_PAGE_SIZE
      = (Inr \<lparr>page_count = int (length xs), page_items = take (nat MAX_PAGE_SIZE) xs\<rparr> :: 'e + _)"
    by (simp add: serves_def)
  show ?thesis
  proof (cases "?c \<le> 1")
    case True
    then have "length xs \<le> nat MAX_PAGE_SIZE"
      using ceil_div_le [of MAX_PAGE_SIZE "int (length xs)" 1] by (simp add: MAX_PAGE_SIZE_def)
    with True first show ?thesis by (simp add: collectAllPages_def)
  next
    case False
    have "collect_loop (serves xs) ?c 2 (take (nat ((2 - 1) * MAX_PAGE_SIZE)) xs)
        = (Inr xs :: 'e + 'a list)"
      by (rule collect_loop_serves) simp_all
    with False first show ?thesis by (simp add: collectAllPages_def)
  qed
qed

text \<open>The loop rejects with the error of the first page that fails.\<close>

lemma collect_loop_error:
  assumes "p \<le> k" and "k \<le> pageCount" and "loadPage k MAX_PAGE_SIZE = Inl e"
    and "\<And>j. p \<le> j \<Longrightarrow> j < k \<Longrightarrow> \<not> isl (loadPage j MAX_PAGE_SIZE)"
  shows "collect_loop loadPage pageCount p items = Inl e"
  using assms
proof (induction "nat (k - p)" arbitrary: p items)
  case 0
  then have "p = k" by simp
  with 0 show ?case by (subst collect_loop.simps) simp
next
  case (Suc n)
  then have "p < k" by simp
  then obtain r where "loadPage p MAX_PAGE_SIZE = Inr r"
    using Suc.prems(4) [of p] by (cases "loadPage p MAX_PAGE_SIZE") auto
  moreover have "collect_loop loadPage pageCount (p + 1) (items @ page_items r) = Inl e"
    using Suc.hyps(2) Suc.prems by (intro Suc.hyps(1)) auto
  ultimately show ?case using \<open>p < k\<close> \<open>k \<le> pageCount\<close>
    by (subst collect_loop.simps) simp
qed

lemma collect_error:
  assumes "loadPage 1 MAX_PAGE_SIZE = Inr firstPage"
    and "1 < k" and "(k - 1) * MAX_PAGE_SIZE < page_count firstPage"
    and "loadPage k MAX_PAGE_SIZE = Inl e"
    and "\<And>j. 1 < j \<Longrightarrow> j < k \<Longrightarrow> \<not> isl (loadPage j MAX_PAGE_SIZE)"
  shows "collectAllPages loadPage = Inl e"
proof -
  have "k - 1 < ceil_div (page_count firstPage) MAX_PAGE_SIZE"
    using assms(3) by (simp add: ceil_div_lt MAX_PAGE_SIZE_def)
  then have k: "k \<le> ceil_div (page_count firstPage) MAX_PAGE_SIZE" by simp
  then have "collect_loop loadPage (ceil_div (page_count firstPage) MAX_PAGE_SIZE) 2
      (page_items firstPage) = Inl e"
    using assms by (intro collect_loop_error [of 2 k]) auto
  with k assms(1,2) show ?thesis by (simp add: collectAllPages_def Let_def)
qed

subsection \<open>Normalised page numbers and sizes\<close>

lemma positive_safe_integer:
  "is_safe_integer v \<and> Fin 0 < v \<longleftrightarrow> (\<exists>n. v = num_of_int n \<and> 0 < n \<and> n \<le> max_safe_integer)"
proof
  assume *: "is_safe_integer v \<and> Fin 0 < v"
  then obtain n where "v = num_of_int n" "\<bar>n\<bar> \<le> max_safe_integer" by (auto elim: is_safe_integerE)
  with * show "\<exists>n. v = num_of_int n \<and> 0 < n \<and> n \<le> max_safe_integer" by auto
qed (auto simp: is_safe_integer_of_int)

lemma normalizePage_bounds:
  "\<exists>n. normalizePage v = num_of_int n \<and> 1 \<le> n \<and> n \<le> max_safe_integer"
proof (cases "\<exists>x. v = Some x \<and> is_safe_integer x \<and> Fin 0 < x")
  case True
  then obtain x where "v = Some x" "is_safe_integer x \<and> Fin 0 < x" by blast
  moreover from this(2) obtain n where "x = num_of_int n" "0 < n" "n \<le> max_safe_integer"
    unfolding positive_safe_integer by blast
  ultimately show ?thesis by (intro exI [of _ n]) (simp add: normalizePage_def)
next
  case False
  then have "normalizePage v = num_of_int 1"
    by (cases v) (auto simp: normalizePage_def)
  then show ?thesis by (intro exI [of _ 1]) (simp add: max_safe_integer_def)
qed

lemma num_of_int_le: "num_of_int a \<le> num_of_int b \<longleftrightarrow> a \<le> b"
  by (auto simp: less_eq_js_num_def)

lemmas num_of_int_le_max = num_of_int_le [of _ 1000, simplified]

definition page_size_ok :: "js_num \<Rightarrow> bool" where
  "page_size_ok v \<longleftrightarrow> is_safe_integer v \<and> Fin 0 < v \<and> v \<le> num_of_int MAX_PAGE_SIZE"

lemma page_size_ok_iff:
  "page_size_ok v \<longleftrightarrow> (\<exists>n. v = num_of_int n \<and> 1 \<le> n \<and> n \<le> MAX_PAGE_SIZE)"
proof
  assume "page_size_ok v"
  then have "is_safe_integer v \<and> Fin 0 < v" "v \<le> num_of_int MAX_PAGE_SIZE"
    by (simp_all add: page_size_ok_def)
  then show "\<exists>n. v = num_of_int n \<and> 1 \<le> n \<and> n \<le> MAX_PAGE_SIZE"
    unfolding positive_safe_integer by (auto simp: num_of_int_le)
qed (auto simp: page_size_ok_def num_of_int_le_max is_safe_integer_of_int max_safe_integer_def
    MAX_PAGE_SIZE_def)

lemma page_size_ok_default [simp]: "page_size_ok (num_of_int DEFAULT_PAGE_SIZE)"
  unfolding page_size_ok_iff
  by (intro exI [of _ DEFAULT_PAGE_SIZE]) (simp add: DEFAULT_PAGE_SIZE_def MAX_PAGE_SIZE_def)

lemma normalizePageSize_ok: "page_size_ok d \<Longrightarrow> page_size_ok (normalizePageSize v d)"
  by (auto simp: normalizePageSize_def page_size_ok_def split: option.splits)

lemma baseListParams_bounds:
  "(\<exists>n. bl_page (baseListParams ps d) = num_of_int n \<and> 1 \<le> n \<and> n \<le> max_safe_integer) \<and>
   (\<exists>n. bl_per_page (baseListParams ps d) = num_of_int n \<and> 1 \<le> n \<and> n \<le> MAX_PAGE_SIZE)"
  using normalizePage_bounds [of "blp_page ps"]
    normalizePageSize_ok [OF normalizePageSize_ok [OF page_size_ok_default], of "blp_per_page ps" d]
  unfolding page_size_ok_iff by (simp add: baseListParams_def Let_def)

lemma normalizePage_stable [simp]: "normalizePage (Some (normalizePage v)) = normalizePage v"
  by (auto simp: normalizePage_def is_safe_integer_of_int [of 1, simplified] max_safe_integer_def
      split: option.splits)

lemma normalize_in_range:
  "1 \<le> n \<Longrightarrow> n \<le> max_safe_integer \<Longrightarrow> normalizePage (Some (num_of_int n)) = num_of_int n"
  "1 \<le> n \<Longrightarrow> n \<le> MAX_PAGE_SIZE \<Longrightarrow> normalizePageSize (Some (num_of_int n)) d = num_of_int n"
  using num_of_int_le [of n MAX_PAGE_SIZE]
  by (simp_all add: normalizePage_def normalizePageSize_def is_safe_integer_of_int
      MAX_PAGE_SIZE_def max_safe_integer_def)

lemma normalizePageSize_stable [simp]:
  "normalizePageSize (Some (normalizePageSize v d)) d = normalizePageSize v d"
  by (auto simp: normalizePageSize_def split: option.splits)

section \<open>\<open>table-search.ts\<close>\<close>

definition sort_tokens :: "js_string list \<Rightarrow> js_string list" where
  "sort_tokens sortKeys =
     js_set (concat (map (\<lambda>key. [key, key @ ''.asc'', key @ ''.desc'']) sortKeys))"

record table_search_schema =
  tss_accepts :: "js_string \<Rightarrow> bool"
  tss_fallback :: "js_string option"

text \<open>
  The part of the schema the source decides: the thrown error, the test of a sort value and the
  value that stands in for a missing or rejected one.
\<close>

definition createTableSearchSchema ::
    "js_string list \<Rightarrow> js_string option \<Rightarrow> js_string + table_search_schema" where
  "createTableSearchSchema sortKeys defaultSort =
     (let sortTokens = sort_tokens sortKeys
      in case defaultSort of
           Some d \<Rightarrow>
             if d \<notin> set sortTokens then Inl (''invalid default table sort: '' @ d)
             else Inr \<lparr>tss_accepts = (\<lambda>value. value \<in> set sortTokens), tss_fallback = Some d\<rparr>
         | None \<Rightarrow>
             Inr \<lparr>tss_accepts = (\<lambda>value. value \<in> set sortTokens), tss_fallback = None\<rparr>)"

definition schema_sort :: "table_search_schema \<Rightarrow> js_string option \<Rightarrow> js_string option" where
  "schema_sort schema value =
     (case value of
        Some v \<Rightarrow> (if tss_accepts schema v then Some v else tss_fallback schema)
      | None \<Rightarrow> tss_fallback schema)"

lemma set_sort_tokens:
  "t \<in> set (sort_tokens ks) \<longleftrightarrow> (\<exists>k \<in> set ks. t = k \<or> t = k @ ''.asc'' \<or> t = k @ ''.desc'')"
  by (auto simp: sort_tokens_def)

lemma schema_sort_valid:
  assumes "createTableSearchSchema ks d = Inr schema" and "schema_sort schema v = Some s"
  shows "s \<in> set (sort_tokens ks)"
  using assms
  by (auto simp: createTableSearchSchema_def schema_sort_def Let_def
      split: option.splits if_splits)

section \<open>\<open>route-params.ts\<close>\<close>

text \<open>\<open>/^[1-9]\d*$/\<close>.\<close>

definition id_pattern :: "js_string \<Rightarrow> bool" where
  "id_pattern s =
     (case s of [] \<Rightarrow> False | c # cs \<Rightarrow> is_digit c \<and> c \<noteq> CHR ''0'' \<and> list_all is_digit cs)"

definition idParams_parse :: "js_string \<Rightarrow> js_num option" where
  "idParams_parse path_id =
     (let parsed = js_number path_id
      in if id_pattern path_id \<and> is_safe_integer parsed then Some parsed else None)"

lemma show_nat_hd: "0 < n \<Longrightarrow> hd (show_nat n) \<noteq> CHR ''0''"
proof (induction n rule: show_nat.induct)
  case (1 n)
  show ?case
  proof (cases "n < 10")
    case True
    with 1(2) have "digit_val (digit_char n) \<noteq> digit_val CHR ''0''"
      by (simp add: digit_val_def [of "CHR ''0''"])
    then have "digit_char n \<noteq> CHR ''0''" by metis
    with True show ?thesis by (subst show_nat.simps) simp
  next
    case False
    with 1 show ?thesis by (subst show_nat.simps) (simp add: hd_append)
  qed
qed

lemma show_nat_pattern: "0 < n \<Longrightarrow> id_pattern (show_nat n)"
  using show_nat_hd [of n] show_nat_digits [of _ n] show_nat_nonempty [of n]
  by (cases "show_nat n") (auto simp: id_pattern_def list_all_iff simp del: show_nat_nonempty)

lemma read_digits_append:
  "read_digits (ds @ es) = read_digits ds * 10 ^ length es + read_digits es"
proof (induction es rule: rev_induct)
  case (snoc e es)
  then show ?case
    by (simp add: read_digits_snoc algebra_simps flip: append_assoc)
qed (simp add: read_digits_def)

lemma show_nat_read_digits:
  assumes "list_all is_digit ds" and "ds \<noteq> []" and "hd ds \<noteq> CHR ''0''"
  shows "show_nat (read_digits ds) = ds \<and> 0 < read_digits ds"
  using assms
proof (induction ds rule: rev_induct)
  case (snoc d ds)
  have d: "digit_val d < 10" "digit_char (digit_val d) = d"
    using snoc.prems(1) by (simp_all add: digit_val_lt digit_char_digit_val)
  show ?case
  proof (cases "ds = []")
    case True
    have "digit_char 0 = CHR ''0''" by code_simp
    with True snoc.prems(3) d(2) have "digit_val d \<noteq> 0" by (metis append_Nil list.sel(1))
    with True d show ?thesis
      by (subst show_nat.simps) (simp add: read_digits_def)
  next
    case False
    with snoc have ds: "show_nat (read_digits ds) = ds" "0 < read_digits ds"
      by (simp_all add: hd_append)
    then show ?thesis
      using d by (subst show_nat.simps) (simp add: read_digits_snoc)
  qed
qed simp

text \<open>A path id is accepted exactly when it is the decimal form of a positive safe integer.\<close>

lemma idParams_parse_show:
  assumes "0 < n" and "n \<le> max_safe_integer"
  shows "idParams_parse (show_int n) = Some (num_of_int n)"
  using assms js_number_show_int [of n] show_nat_pattern [of "nat n"]
  by (simp add: idParams_parse_def Let_def show_int_def is_safe_integer_of_int)

lemma idParams_parse_canonical:
  assumes "idParams_parse path_id = Some v"
  shows "\<exists>n. v = num_of_int n \<and> 0 < n \<and> n \<le> max_safe_integer \<and> path_id = show_int n"
proof -
  from assms have p: "id_pattern path_id" and safe: "is_safe_integer (js_number path_id)"
    and v: "v = js_number path_id"
    by (simp_all add: idParams_parse_def Let_def split: if_splits)
  from p have ds: "list_all is_digit path_id" "path_id \<noteq> []" "hd path_id \<noteq> CHR ''0''"
    by (auto simp: id_pattern_def split: list.splits)
  define n where "n = read_digits path_id"
  have path_id: "path_id = show_nat n" and n: "0 < n"
    using show_nat_read_digits [OF ds] by (simp_all add: n_def)
  have num: "js_number path_id = round_double (of_int (int n))"
    using js_number_digits [of path_id] ds by (simp add: n_def list_all_iff)
  have lt: "int n < 2 ^ 53"
    using safe round_double_unsafe [of "int n"] unfolding num by (cases "int n < 2 ^ 53") simp_all
  then have "js_number path_id = num_of_int (int n)"
    unfolding num by (intro round_double_exact) simp_all
  with v n lt path_id show ?thesis
    by (intro exI [of _ "int n"]) (simp add: show_int_def max_safe_integer_def)
qed

section \<open>\<open>form-validation.ts\<close>\<close>

text \<open>\<open>values.toSorted(compare)\<close>: the stable sort of ECMAScript.\<close>

fun js_insort :: "('a \<Rightarrow> 'a \<Rightarrow> int) \<Rightarrow> 'a \<Rightarrow> 'a list \<Rightarrow> 'a list" where
  "js_insort cmp x [] = [x]"
| "js_insort cmp x (y # ys) = (if cmp x y \<le> 0 then x # y # ys else y # js_insort cmp x ys)"

definition js_to_sorted :: "('a \<Rightarrow> 'a \<Rightarrow> int) \<Rightarrow> 'a list \<Rightarrow> 'a list" where
  "js_to_sorted cmp xs = foldr (js_insort cmp) xs []"

text \<open>A comparison function that is consistent, as the standard requires of \<open>toSorted\<close>.\<close>

definition consistent_compare :: "('a \<Rightarrow> 'a \<Rightarrow> int) \<Rightarrow> bool" where
  "consistent_compare cmp \<longleftrightarrow>
     (\<forall>x y. 0 < cmp x y \<longrightarrow> cmp y x \<le> 0) \<and> (\<forall>x y z. cmp x y \<le> 0 \<longrightarrow> cmp y z \<le> 0 \<longrightarrow> cmp x z \<le> 0)"

lemma set_js_insort [simp]: "set (js_insort cmp x ys) = insert x (set ys)"
  by (induction ys) auto

lemma length_js_insort [simp]: "length (js_insort cmp x ys) = Suc (length ys)"
  by (induction ys) auto

lemma js_to_sorted_simps [simp]:
  "js_to_sorted cmp [] = []"
  "js_to_sorted cmp (x # xs) = js_insort cmp x (js_to_sorted cmp xs)"
  by (simp_all add: js_to_sorted_def)

lemma set_js_to_sorted [simp]: "set (js_to_sorted cmp xs) = set xs"
  by (induction xs) auto

lemma length_js_to_sorted [simp]: "length (js_to_sorted cmp xs) = length xs"
  by (induction xs) auto

lemma distinct_js_insort: "distinct (js_insort cmp x ys) \<longleftrightarrow> x \<notin> set ys \<and> distinct ys"
  by (induction ys) auto

lemma distinct_js_to_sorted [simp]: "distinct (js_to_sorted cmp xs) \<longleftrightarrow> distinct xs"
  by (induction xs) (auto simp: distinct_js_insort)

lemma filter_js_to_sorted_length [simp]:
  "length (filter P (js_to_sorted cmp xs)) = length (filter P xs)"
proof (induction xs)
  case (Cons x xs)
  have "length (filter P (js_insort cmp x ys)) = length (filter P (x # ys))" for ys
    by (induction ys) auto
  with Cons show ?case by simp
qed simp

lemma sorted_js_insort:
  assumes "consistent_compare cmp" and "sorted_wrt (\<lambda>a b. cmp a b \<le> 0) ys"
  shows "sorted_wrt (\<lambda>a b. cmp a b \<le> 0) (js_insort cmp x ys)"
  using assms(2)
proof (induction ys)
  case (Cons y ys)
  from assms(1) have trans: "cmp a b \<le> 0 \<Longrightarrow> cmp b c \<le> 0 \<Longrightarrow> cmp a c \<le> 0"
    and total: "\<not> cmp a b \<le> 0 \<Longrightarrow> cmp b a \<le> 0" for a b c
    unfolding consistent_compare_def by (blast, metis not_le)
  show ?case
  proof (cases "cmp x y \<le> 0")
    case True
    with Cons.prems trans show ?thesis by auto
  next
    case False
    with Cons total show ?thesis by auto
  qed
qed simp

lemma sorted_js_to_sorted:
  "consistent_compare cmp \<Longrightarrow> sorted_wrt (\<lambda>a b. cmp a b \<le> 0) (js_to_sorted cmp xs)"
  by (induction xs) (simp_all add: sorted_js_insort)

definition uniqueOptions :: "(js_string \<Rightarrow> js_string \<Rightarrow> int) \<Rightarrow> js_string list \<Rightarrow> js_string list" where
  "uniqueOptions localeCompare values =
     js_to_sorted localeCompare (js_set (filter (\<lambda>v. v \<noteq> []) (map js_trim values)))"

lemma uniqueOptions_set: "set (uniqueOptions lc vs) = js_trim ` set vs - {[]}"
  by (auto simp: uniqueOptions_def)

lemma uniqueOptions_distinct: "distinct (uniqueOptions lc vs)"
  by (simp add: uniqueOptions_def)

fun firstErrorMessage :: "json list \<Rightarrow> js_string option" where
  "firstErrorMessage [] = None"
| "firstErrorMessage (error # errors) =
     (case error of
        JStr s \<Rightarrow> Some s
      | JObj members \<Rightarrow>
          (case json_get ''message'' members of
             Some (JStr message) \<Rightarrow> Some message
           | _ \<Rightarrow> firstErrorMessage errors)
      | _ \<Rightarrow> firstErrorMessage errors)"

section \<open>\<open>targeting.ts\<close>\<close>

record label_ref =
  lr_label_id :: int

record label_target_set =
  lts_include :: "label_ref list"
  lts_exclude :: "label_ref list"

record label_target_input =
  lti_include :: "label_ref list option"
  lti_exclude :: "label_ref list option"

definition emptyLabelTargetSet :: label_target_set where
  "emptyLabelTargetSet = \<lparr>lts_include = [], lts_exclude = []\<rparr>"

definition normalizeLabelTargetSet :: "label_target_input option \<Rightarrow> label_target_set" where
  "normalizeLabelTargetSet targets =
     \<lparr>lts_include = coalesce (Option.bind targets lti_include) [],
      lts_exclude = coalesce (Option.bind targets lti_exclude) []\<rparr>"

section \<open>\<open>sql-validation.ts\<close>\<close>

text \<open>The SQL parser is a parameter: whether \<open>astify\<close> returns rather than throws.\<close>

definition sqlSyntaxError :: "(js_string \<Rightarrow> bool) \<Rightarrow> js_string \<Rightarrow> js_string option" where
  "sqlSyntaxError astify query =
     (if js_trim query = [] then None
      else if astify query then None
      else Some ''Syntax error. Please review before saving.'')"

end
