(* ===== verification/ApiClient.thy ===== *)
theory ApiClient
  imports Params
begin

text \<open>
  The boundary to the API: \<open>web/src/lib/api.ts\<close> (request and response interceptors, \<open>unwrap\<close>,
  \<open>nullOn404\<close>, error messages), the retry and error policy of \<open>web/src/query-client.ts\<close>, the route
  loader \<open>web/src/lib/resource-loader.ts\<close> and \<open>web/src/features/authn/session-expiry.ts\<close>.

  The query client is not modelled.  The outcome of a request is an \<open>api_result\<close> the definitions take as an
  argument; \<open>Request\<close> derives it from the answer of the server.
\<close>

section \<open>Errors and results\<close>

record error_detail =
  ed_location :: "js_string option"
  ed_message :: "js_string option"

record error_model =
  em_errors :: "error_detail list option"
  em_detail :: "js_string option"
  em_title :: "js_string option"

text \<open>What can be thrown: an \<open>ApiError\<close>, another instance of \<open>Error\<close>, or any other value.\<close>

datatype thrown =
    ApiError (thrown_status: int) (thrown_message: js_string) (thrown_body: "error_model option")
  | NativeError (thrown_message: js_string)
  | ThrownValue json

datatype result_error = NoError | ErrorInstance thrown | ErrorBody error_model

record response =
  resp_status :: int

text \<open>\<open>Response.ok\<close>.\<close>

definition resp_ok :: "response \<Rightarrow> bool" where
  "resp_ok r \<longleftrightarrow> 200 \<le> resp_status r \<and> resp_status r \<le> 299"

record 'a api_result =
  ar_data :: 'a
  ar_error :: result_error
  ar_response :: "response option"

section \<open>\<open>api.ts\<close>\<close>

text \<open>
  The request interceptor. Header names are compared without regard to case, so the headers are a
  map from lower-case names.
\<close>

type_synonym headers = "js_string \<rightharpoonup> js_string"

definition request_interceptor :: "headers \<Rightarrow> headers" where
  "request_interceptor hs =
     (if hs ''accept'' = None then hs(''accept'' \<mapsto> ''application/json'') else hs)"

text \<open>The response interceptor: the response, and whether the registered handler is called.\<close>

definition response_interceptor :: "'h option \<Rightarrow> response \<Rightarrow> response \<times> 'h option" where
  "response_interceptor unauthorizedHandler response =
     (response, if resp_status response = 401 then unauthorizedHandler else None)"

definition describe_detail :: "error_detail \<Rightarrow> js_string" where
  "describe_detail error =
     (case ed_location error of
        Some location \<Rightarrow>
          if location \<noteq> [] then location @ '': '' @ coalesce (ed_message error) []
          else coalesce (ed_message error) []
      | None \<Rightarrow> coalesce (ed_message error) [])"

text \<open>\<open>if (value) return value\<close> for an optional string, else the next alternative.\<close>

definition or_else :: "js_string option \<Rightarrow> js_string \<Rightarrow> js_string" where
  "or_else v d = (case v of Some s \<Rightarrow> (if s \<noteq> [] then s else d) | None \<Rightarrow> d)"

definition body_details :: "error_model \<Rightarrow> js_string" where
  "body_details body =
     js_join ''; '' (filter (\<lambda>s. s \<noteq> []) (map describe_detail (coalesce (em_errors body) [])))"

definition describeError :: "error_model option \<Rightarrow> int \<Rightarrow> js_string" where
  "describeError body status =
     (let fallback = ''request failed ('' @ show_int status @ '')''
      in case body of
           None \<Rightarrow> fallback
         | Some b \<Rightarrow>
             if body_details b \<noteq> [] then body_details b
             else or_else (em_detail b) (or_else (em_title b) fallback))"

definition error_body :: "result_error \<Rightarrow> error_model option" where
  "error_body e = (case e of ErrorBody b \<Rightarrow> Some b | _ \<Rightarrow> None)"

definition response_ok :: "response option \<Rightarrow> bool" where
  "response_ok r = (case r of Some x \<Rightarrow> resp_ok x | None \<Rightarrow> False)"

definition response_status :: "response option \<Rightarrow> int" where
  "response_status r = (case r of Some x \<Rightarrow> resp_status x | None \<Rightarrow> 0)"

fun unwrap :: "thrown + 'a api_result \<Rightarrow> thrown + 'a" where
  "unwrap (Inl e) = Inl e"
| "unwrap (Inr result) =
     (case ar_error result of
        ErrorInstance e \<Rightarrow> Inl e
      | err \<Rightarrow>
          if err \<noteq> NoError \<or> \<not> response_ok (ar_response result) then
            let status = response_status (ar_response result)
            in Inl (ApiError status (describeError (error_body err) status) (error_body err))
          else Inr (ar_data result))"

definition is_not_found :: "thrown \<Rightarrow> bool" where
  "is_not_found e = (case e of ApiError status _ _ \<Rightarrow> status = 404 | _ \<Rightarrow> False)"

definition nullOn404 :: "thrown + 'a api_result \<Rightarrow> thrown + 'a option" where
  "nullOn404 pending =
     (case unwrap pending of
        Inl e \<Rightarrow> if is_not_found e then Inr None else Inl e
      | Inr x \<Rightarrow> Inr (Some x))"

lemma js_join_nonempty: "ws \<noteq> [] \<Longrightarrow> \<forall>w \<in> set ws. w \<noteq> [] \<Longrightarrow> js_join sep ws \<noteq> []"
  by (cases "(sep, ws)" rule: js_join.cases) auto

lemma or_else_nonempty: "d \<noteq> [] \<Longrightarrow> or_else v d \<noteq> []"
  by (simp add: or_else_def split: option.splits)

lemma describeError_nonempty: "describeError body status \<noteq> []"
  by (auto simp: describeError_def Let_def or_else_nonempty split: option.splits)

lemma body_details_empty:
  "body_details b = [] \<longleftrightarrow> (\<forall>d \<in> set (coalesce (em_errors b) []). describe_detail d = [])"
proof -
  define ds where "ds = filter (\<lambda>s. s \<noteq> []) (map describe_detail (coalesce (em_errors b) []))"
  have "js_join ''; '' ds = [] \<longleftrightarrow> ds = []"
  proof
    assume "js_join ''; '' ds = []"
    moreover have "\<forall>w \<in> set ds. w \<noteq> []" unfolding ds_def set_filter by blast
    ultimately show "ds = []" using js_join_nonempty by blast
  qed simp
  also have "\<dots> \<longleftrightarrow> (\<forall>d \<in> set (coalesce (em_errors b) []). describe_detail d = [])"
    by (auto simp: ds_def filter_empty_conv)
  finally show ?thesis by (simp add: body_details_def ds_def)
qed

lemma describe_detail_empty:
  "describe_detail d = [] \<longleftrightarrow> coalesce (ed_location d) [] = [] \<and> coalesce (ed_message d) [] = []"
  by (auto simp: describe_detail_def split: option.splits)

lemma unwrap_Inr:
  "unwrap (Inr r) = Inr x \<longleftrightarrow> ar_error r = NoError \<and> response_ok (ar_response r) \<and> x = ar_data r"
  by (auto simp: Let_def split: result_error.splits if_splits)

lemma unwrap_Inl_body:
  "ar_error r = ErrorBody b \<Longrightarrow>
     unwrap (Inr r) = Inl (ApiError (response_status (ar_response r))
       (describeError (Some b) (response_status (ar_response r))) (Some b))"
  by (simp add: Let_def error_body_def)

lemma is_not_found_iff: "is_not_found e \<longleftrightarrow> (\<exists>m b. e = ApiError 404 m b)"
  by (cases e) (auto simp: is_not_found_def)

lemma nullOn404_None: "nullOn404 p = Inr None \<longleftrightarrow> (\<exists>m b. unwrap p = Inl (ApiError 404 m b))"
proof (cases "unwrap p")
  case (Inl e)
  then show ?thesis by (simp add: nullOn404_def is_not_found_iff)
qed (simp add: nullOn404_def)

lemma nullOn404_Some: "nullOn404 p = Inr (Some x) \<longleftrightarrow> unwrap p = Inr x"
  by (cases "unwrap p") (simp_all add: nullOn404_def)

lemma nullOn404_Inl: "nullOn404 p = Inl e \<longleftrightarrow> unwrap p = Inl e \<and> \<not> is_not_found e"
  by (cases "unwrap p") (auto simp: nullOn404_def)

section \<open>\<open>query-client.ts\<close>\<close>

definition is_client_error :: "thrown \<Rightarrow> bool" where
  "is_client_error e = (case e of ApiError status _ _ \<Rightarrow> 400 \<le> status \<and> status < 500 | _ \<Rightarrow> False)"

definition retry_query :: "nat \<Rightarrow> thrown \<Rightarrow> bool" where
  "retry_query failureCount error \<longleftrightarrow> \<not> is_client_error error \<and> failureCount < 2"

datatype toast_type = ToastSuccess | ToastError | ToastInfo | ToastLoading

record toast_message =
  tm_title :: js_string
  tm_description :: "js_string option"
  tm_type :: toast_type

text \<open>\<open>error instanceof Error ? error.message : fallback\<close>.\<close>

definition message_of :: "thrown \<Rightarrow> js_string \<Rightarrow> js_string" where
  "message_of e fallback =
     (case e of ApiError _ m _ \<Rightarrow> m | NativeError m \<Rightarrow> m | ThrownValue _ \<Rightarrow> fallback)"

definition mutation_onError :: "bool \<Rightarrow> bool \<Rightarrow> thrown \<Rightarrow> toast_message option" where
  "mutation_onError inlineError hasOnError error =
     (if inlineError \<or> hasOnError then None
      else Some \<lparr>tm_title = message_of error ''Request Failed'', tm_description = None,
                 tm_type = ToastError\<rparr>)"

lemma api_error_toast_nonempty:
  assumes "unwrap (Inr r) = Inl e" and "ar_error r = ErrorBody b \<or> ar_error r = NoError"
  shows "message_of e d \<noteq> []"
  using assms
  by (auto simp: message_of_def Let_def describeError_nonempty split: if_splits)

section \<open>\<open>resource-loader.ts\<close>\<close>

datatype route_outcome = NotFoundRoute js_string | RouteError thrown

definition loadResource :: "js_string \<Rightarrow> thrown + 'a \<Rightarrow> route_outcome + unit" where
  "loadResource route_id fetched =
     (case fetched of
        Inr _ \<Rightarrow> Inr ()
      | Inl e \<Rightarrow> if is_not_found e then Inl (NotFoundRoute route_id) else Inl (RouteError e))"

section \<open>\<open>session-expiry.ts\<close>\<close>

text \<open>
  The module's flag, and the two events that touch it: an expired session reported on a path, and
  the end of the navigation to the login page.
\<close>

record expiry_state =
  ex_redirecting :: bool
  ex_cleared :: nat
  ex_navigations :: nat

datatype expiry_event = Expire js_string | NavigationSettled

definition expireSession :: "js_string \<Rightarrow> expiry_state \<Rightarrow> expiry_state" where
  "expireSession path s =
     (if path = ''/login'' \<or> ex_redirecting s then s
      else s\<lparr>ex_redirecting := True, ex_cleared := ex_cleared s + 1,
             ex_navigations := ex_navigations s + 1\<rparr>)"

definition navigation_settled :: "expiry_state \<Rightarrow> expiry_state" where
  "navigation_settled s = s\<lparr>ex_redirecting := False\<rparr>"

fun expiry_step :: "expiry_state \<Rightarrow> expiry_event \<Rightarrow> expiry_state" where
  "expiry_step s (Expire path) = expireSession path s"
| "expiry_step s NavigationSettled = navigation_settled s"

definition expiry_init :: expiry_state where
  "expiry_init = \<lparr>ex_redirecting = False, ex_cleared = 0, ex_navigations = 0\<rparr>"

definition expiry_run :: "expiry_event list \<Rightarrow> expiry_state" where
  "expiry_run es = foldl expiry_step expiry_init es"

text \<open>
  One redirect per navigation: between two settled navigations any number of expirations clears the
  cache and navigates once.
\<close>

lemma expiry_once:
  "\<not> ex_redirecting s \<Longrightarrow>
   ex_navigations (foldl expiry_step s (map Expire paths)) =
     ex_navigations s + (if \<exists>p \<in> set paths. p \<noteq> ''/login'' then 1 else 0)"
proof (induction paths)
  case (Cons p ps)
  have redirecting: "foldl expiry_step t (map Expire qs) = t" if "ex_redirecting t" for t qs
    using that by (induction qs) (simp_all add: expireSession_def)
  from Cons show ?case by (auto simp: expireSession_def redirecting)
qed simp

lemma expiry_clears: "ex_cleared (foldl expiry_step s es) + ex_navigations s
    = ex_navigations (foldl expiry_step s es) + ex_cleared s"
proof (induction es arbitrary: s)
  case (Cons e es)
  have "ex_cleared (expiry_step s e) + ex_navigations s = ex_navigations (expiry_step s e) + ex_cleared s"
    by (cases e) (simp_all add: expireSession_def navigation_settled_def)
  with Cons [of "expiry_step s e"] show ?case by simp
qed simp

lemma expiry_redirecting:
  "ex_redirecting (expiry_run (es @ [Expire p])) \<longleftrightarrow> p \<noteq> ''/login'' \<or> ex_redirecting (expiry_run es)"
  by (simp add: expiry_run_def expireSession_def)

end
