(* ===== verification/QueryClient.thy ===== *)
theory QueryClient
  imports ApiClient "HOL-Library.Sublist"
begin

text \<open>
  The vocabulary of the feature modules' \<open>queries.ts\<close> files: query keys, request descriptions, query
  options, the filters passed to the query cache and the commands a mutation's callbacks issue, with
  \<open>web/src/lib/query-invalidation.ts\<close>.

  The cache itself is third-party code.  The library's key matching \<open>partialMatchKey\<close> is a parameter
  \<open>pm\<close>; what the code relies on is \<open>key_matching pm\<close>: on keys built of strings and numbers a filter
  key matches exactly the keys that extend it.
\<close>

section \<open>Keys, requests and query options\<close>

text \<open>A query-string parameter; \<open>PUndef\<close> is a property that is present and \<open>undefined\<close>.\<close>

datatype param =
    PUndef
  | PStr js_string
  | PNum js_num
  | PInts "int list"
  | PStrs "js_string list"
  | PBool bool

type_synonym query_params = "(js_string \<times> param) list"

datatype key_part =
    KStr js_string
  | KInt int
  | KNull
  | KParams query_params
  | KJson json

type_synonym query_key = "key_part list"

record api_request =
  rq_operation :: js_string
  rq_path :: "(js_string \<times> int) list"
  rq_query :: "query_params option"
  rq_body :: "json option"

abbreviation get_request :: "js_string \<Rightarrow> (js_string \<times> int) list \<Rightarrow> query_params option \<Rightarrow> api_request" where
  "get_request operation path query \<equiv>
     \<lparr>rq_operation = operation, rq_path = path, rq_query = query, rq_body = None\<rparr>"

abbreviation body_request :: "js_string \<Rightarrow> (js_string \<times> int) list \<Rightarrow> json \<Rightarrow> api_request" where
  "body_request operation path body \<equiv>
     \<lparr>rq_operation = operation, rq_path = path, rq_query = None, rq_body = Some body\<rparr>"

text \<open>
  The options handed to \<open>useQuery\<close>: \<open>qo_null_on_404\<close> tells \<open>nullOn404\<close> from \<open>unwrap\<close>,
  \<open>qo_keep_previous\<close> is \<open>placeholderData: keepPreviousData\<close>, intervals are in milliseconds.
\<close>

record query_options =
  qo_key :: query_key
  qo_request :: api_request
  qo_null_on_404 :: bool
  qo_enabled :: "bool option"
  qo_keep_previous :: bool
  qo_refetch_interval :: "int option"

abbreviation plain_query :: "query_key \<Rightarrow> api_request \<Rightarrow> query_options" where
  "plain_query k r \<equiv>
     \<lparr>qo_key = k, qo_request = r, qo_null_on_404 = False, qo_enabled = None,
      qo_keep_previous = False, qo_refetch_interval = None\<rparr>"

abbreviation list_query :: "query_key \<Rightarrow> api_request \<Rightarrow> query_options" where
  "list_query k r \<equiv> (plain_query k r)\<lparr>qo_keep_previous := True\<rparr>"

text \<open>\<open>...baseListParams(params)\<close> as properties of a parameter object.\<close>

definition opt_str :: "js_string option \<Rightarrow> param" where
  "opt_str v = (case v of None \<Rightarrow> PUndef | Some s \<Rightarrow> PStr s)"

definition opt_int :: "int option \<Rightarrow> param" where
  "opt_int v = (case v of None \<Rightarrow> PUndef | Some n \<Rightarrow> PNum (num_of_int n))"

definition opt_ints :: "int list option \<Rightarrow> param" where
  "opt_ints v = (case v of None \<Rightarrow> PUndef | Some ns \<Rightarrow> PInts ns)"

definition opt_strs :: "js_string list option \<Rightarrow> param" where
  "opt_strs v = (case v of None \<Rightarrow> PUndef | Some ss \<Rightarrow> PStrs ss)"

definition spread_base :: "base_list \<Rightarrow> query_params" where
  "spread_base b =
     [(''q'', opt_str (bl_q b)), (''page'', PNum (bl_page b)), (''per_page'', PNum (bl_per_page b)),
      (''sort'', opt_str (bl_sort b))]"

definition base_params :: "'z base_list_params_scheme \<Rightarrow> query_params" where
  "base_params ps = spread_base (baseListParams ps None)"

text \<open>Every list query asks for a page from 1 on, of 1 to \<open>MAX_PAGE_SIZE\<close> rows.\<close>

definition paged :: "query_params \<Rightarrow> bool" where
  "paged ps \<longleftrightarrow>
     (case (map_of ps ''page'', map_of ps ''per_page'') of
        (Some (PNum p), Some (PNum n)) \<Rightarrow> is_safe_integer p \<and> Fin 0 < p \<and> page_size_ok n
      | _ \<Rightarrow> False)"

lemma paged_spread:
  "paged (spread_base (baseListParams ps d) @ rest)"
proof -
  obtain n m where n: "bl_page (baseListParams ps d) = num_of_int n" "1 \<le> n" "n \<le> max_safe_integer"
    and m: "bl_per_page (baseListParams ps d) = num_of_int m" "1 \<le> m" "m \<le> MAX_PAGE_SIZE"
    using baseListParams_bounds by blast
  from m have "page_size_ok (num_of_int m)" by (auto simp: page_size_ok_iff)
  with n m show ?thesis
    by (simp add: paged_def spread_base_def is_safe_integer_of_int)
qed

lemma paged_base [simp]: "paged (base_params ps)" "paged (base_params ps @ rest)"
  using paged_spread [of ps None "[]"] paged_spread [of ps None rest]
  by (simp_all add: base_params_def)

lemma paged_spread_base [simp]: "paged (spread_base (baseListParams ps d))"
  using paged_spread [of ps d "[]"] by simp

section \<open>Filters and commands\<close>

record cache_filter =
  cf_key :: query_key
  cf_predicate :: "query_key \<Rightarrow> bool"
  cf_refetch :: bool

datatype client_op =
    Toast toast_message
  | Invalidate cache_filter
  | SetData query_key "json option \<Rightarrow> json option"
  | RemoveQueries query_key
  | ClearCache
  | FetchQuery query_key
  | Navigate js_string

text \<open>\<open>queryClient.invalidateQueries({ queryKey })\<close>.\<close>

definition invalidate :: "query_key \<Rightarrow> client_op" where
  "invalidate k = Invalidate \<lparr>cf_key = k, cf_predicate = (\<lambda>_. True), cf_refetch = True\<rparr>"

abbreviation success_toast :: "js_string \<Rightarrow> client_op" where
  "success_toast t \<equiv> Toast \<lparr>tm_title = t, tm_description = None, tm_type = ToastSuccess\<rparr>"

type_synonym matcher = "query_key \<Rightarrow> query_key \<Rightarrow> bool"

definition selects :: "matcher \<Rightarrow> cache_filter \<Rightarrow> query_key \<Rightarrow> bool" where
  "selects pm f k \<longleftrightarrow> pm k (cf_key f) \<and> cf_predicate f k"

text \<open>The queries a list of commands marks stale, and those among them it asks to fetch again.\<close>

definition makes_stale :: "matcher \<Rightarrow> client_op list \<Rightarrow> query_key \<Rightarrow> bool" where
  "makes_stale pm ops k \<longleftrightarrow>
     list_ex (\<lambda>x. case x of Invalidate f \<Rightarrow> selects pm f k | _ \<Rightarrow> False) ops"

definition refetches :: "matcher \<Rightarrow> client_op list \<Rightarrow> query_key \<Rightarrow> bool" where
  "refetches pm ops k \<longleftrightarrow>
     list_ex (\<lambda>x. case x of Invalidate f \<Rightarrow> cf_refetch f \<and> selects pm f k | _ \<Rightarrow> False) ops"

definition removes :: "matcher \<Rightarrow> client_op list \<Rightarrow> query_key \<Rightarrow> bool" where
  "removes pm ops k \<longleftrightarrow>
     list_ex (\<lambda>x. case x of RemoveQueries f \<Rightarrow> pm k f | ClearCache \<Rightarrow> True | _ \<Rightarrow> False) ops"

text \<open>
  The options handed to \<open>useMutation\<close>: the request for the variables, the commands issued once it
  succeeded with a result, and those of the mutation's own \<open>onError\<close>.
\<close>

record ('v, 'r) mutation =
  mu_request :: "'v \<Rightarrow> api_request"
  mu_onSuccess :: "'r \<Rightarrow> 'v \<Rightarrow> client_op list"
  mu_onError :: "(thrown \<Rightarrow> client_op list) option"
  mu_inline_error :: bool

abbreviation simple_mutation ::
    "('v \<Rightarrow> api_request) \<Rightarrow> ('r \<Rightarrow> 'v \<Rightarrow> client_op list) \<Rightarrow> ('v, 'r) mutation" where
  "simple_mutation r s \<equiv>
     \<lparr>mu_request = r, mu_onSuccess = s, mu_onError = None, mu_inline_error = False\<rparr>"

text \<open>A record the API returns: its id, and the whole object.\<close>

record resource =
  res_id :: int
  res_json :: json

text \<open>\<open>{ ...object, [key]: value }\<close>.\<close>

fun json_put :: "js_string \<Rightarrow> json \<Rightarrow> json \<Rightarrow> json" where
  "json_put k v (JObj kvs) =
     JObj (if k \<in> fst ` set kvs then map (\<lambda>(k', w). if k' = k then (k', v) else (k', w)) kvs
           else kvs @ [(k, v)])"
| "json_put k v other = other"

definition ids_query :: "int list \<Rightarrow> query_params option" where
  "ids_query ids = Some [(''ids'', PInts ids)]"

section \<open>\<open>query-invalidation.ts\<close>\<close>

definition invalidateAfterDelete :: "matcher \<Rightarrow> query_key \<Rightarrow> query_key list \<Rightarrow> client_op list" where
  "invalidateAfterDelete pm deleted stale =
     Invalidate \<lparr>cf_key = deleted, cf_predicate = (\<lambda>_. True), cf_refetch = False\<rparr>
     # map (\<lambda>queryKey.
         Invalidate \<lparr>cf_key = queryKey, cf_predicate = (\<lambda>k. \<not> pm k deleted), cf_refetch = True\<rparr>) stale"

fun simple_part :: "key_part \<Rightarrow> bool" where
  "simple_part (KStr _) = True"
| "simple_part (KInt _) = True"
| "simple_part _ = False"

definition key_matching :: "matcher \<Rightarrow> bool" where
  "key_matching pm \<longleftrightarrow> (\<forall>k f. list_all simple_part f \<longrightarrow> pm k f = prefix f k)"

lemma key_matchingD: "key_matching pm \<Longrightarrow> list_all simple_part f \<Longrightarrow> pm k f \<longleftrightarrow> prefix f k"
  by (simp add: key_matching_def)

lemma key_matching_prefix: "key_matching (\<lambda>k f. prefix f k)"
  by (simp add: key_matching_def)

lemma makes_stale_simps [simp]:
  "\<not> makes_stale pm [] k"
  "makes_stale pm (Toast m # ops) k = makes_stale pm ops k"
  "makes_stale pm (invalidate f # ops) k \<longleftrightarrow> pm k f \<or> makes_stale pm ops k"
  "makes_stale pm (SetData f u # ops) k = makes_stale pm ops k"
  "makes_stale pm (RemoveQueries f # ops) k = makes_stale pm ops k"
  "makes_stale pm (a @ b) k \<longleftrightarrow> makes_stale pm a k \<or> makes_stale pm b k"
  by (simp_all add: makes_stale_def invalidate_def selects_def)

lemma refetches_simps [simp]:
  "\<not> refetches pm [] k"
  "refetches pm (Toast m # ops) k = refetches pm ops k"
  "refetches pm (invalidate f # ops) k \<longleftrightarrow> pm k f \<or> refetches pm ops k"
  "refetches pm (SetData f u # ops) k = refetches pm ops k"
  "refetches pm (RemoveQueries f # ops) k = refetches pm ops k"
  "refetches pm (a @ b) k \<longleftrightarrow> refetches pm a k \<or> refetches pm b k"
  by (simp_all add: refetches_def invalidate_def selects_def)

lemma removes_simps [simp]:
  "\<not> removes pm [] k"
  "removes pm (Toast m # ops) k = removes pm ops k"
  "removes pm (invalidate f # ops) k = removes pm ops k"
  "removes pm (SetData f u # ops) k = removes pm ops k"
  "removes pm (RemoveQueries f # ops) k \<longleftrightarrow> pm k f \<or> removes pm ops k"
  "removes pm (a @ b) k \<longleftrightarrow> removes pm a k \<or> removes pm b k"
  by (simp_all add: removes_def invalidate_def)

lemma refetches_stale: "refetches pm ops k \<Longrightarrow> makes_stale pm ops k"
  by (auto simp: refetches_def makes_stale_def list_ex_iff split: client_op.splits)

lemma invalidateAfterDelete_stale:
  assumes "key_matching pm" and "list_all simple_part deleted"
    and "\<And>s. s \<in> set stale \<Longrightarrow> list_all simple_part s"
  shows "makes_stale pm (invalidateAfterDelete pm deleted stale) k
      \<longleftrightarrow> prefix deleted k \<or> (\<exists>s \<in> set stale. prefix s k)"
proof -
  have "pm k s \<longleftrightarrow> prefix s k" if "s \<in> set stale" for s
    using assms(1,3) that by (simp add: key_matchingD)
  moreover have "pm k deleted \<longleftrightarrow> prefix deleted k" using assms(1,2) by (rule key_matchingD)
  ultimately show ?thesis
    by (auto simp: makes_stale_def invalidateAfterDelete_def selects_def list_ex_iff)
qed

lemma invalidateAfterDelete_refetch:
  assumes "key_matching pm" and "list_all simple_part deleted"
    and "\<And>s. s \<in> set stale \<Longrightarrow> list_all simple_part s"
  shows "refetches pm (invalidateAfterDelete pm deleted stale) k
      \<longleftrightarrow> \<not> prefix deleted k \<and> (\<exists>s \<in> set stale. prefix s k)"
proof -
  have "pm k s \<longleftrightarrow> prefix s k" if "s \<in> set stale" for s
    using assms(1,3) that by (simp add: key_matchingD)
  moreover have "pm k deleted \<longleftrightarrow> prefix deleted k" using assms(1,2) by (rule key_matchingD)
  ultimately show ?thesis
    by (auto simp: refetches_def invalidateAfterDelete_def selects_def list_ex_iff)
qed

section \<open>The key families of a resource\<close>

text \<open>
  What deleting the record \<open>i\<close> should do to the cache: the queries of the record go stale and are not
  fetched again; the lists and the queries of every other record are.
\<close>

definition deletes_cleanly ::
    "matcher \<Rightarrow> client_op list \<Rightarrow> (query_params \<Rightarrow> query_key) \<Rightarrow> (int \<Rightarrow> query_key) \<Rightarrow> int \<Rightarrow> bool" where
  "deletes_cleanly pm ops list_key detail_key i \<longleftrightarrow>
     (\<forall>k. makes_stale pm ops (detail_key i @ k) \<and> \<not> refetches pm ops (detail_key i @ k)) \<and>
     (\<forall>ps. refetches pm ops (list_key ps)) \<and>
     (\<forall>j k. j \<noteq> i \<longrightarrow> refetches pm ops (detail_key j @ k))"

text \<open>
  What every feature's key object promises: list and detail keys extend the root, a detail key is
  told apart from every list key and from every other record's detail key.
\<close>

locale resource_keys =
  fixes root :: query_key
    and list_key :: "query_params \<Rightarrow> query_key"
    and detail_key :: "int \<Rightarrow> query_key"
  assumes root_simple: "list_all simple_part root"
    and detail_simple: "list_all simple_part (detail_key i)"
    and list_below_root: "prefix root (list_key ps)"
    and detail_below_root: "prefix root (detail_key i)"
    and detail_not_list: "\<not> prefix (detail_key i) (list_key ps)"
    and detail_apart: "prefix (detail_key i) (detail_key j @ k) \<Longrightarrow> i = j"
begin

text \<open>A mutation that invalidates the root reaches every list and every record.\<close>

lemma root_invalidation:
  assumes "key_matching pm"
  shows "refetches pm [invalidate root] (list_key ps)"
    and "refetches pm [invalidate root] (detail_key i @ k)"
  using assms root_simple list_below_root detail_below_root
  by (simp_all add: key_matchingD prefix_prefix)

text \<open>
  After the record \<open>i\<close> is deleted: its own queries go stale and are not fetched again; every list and
  every other record's queries are.
\<close>

lemma after_delete:
  fixes i :: int
  assumes "key_matching pm" and "root \<in> set roots"
    and "\<And>r. r \<in> set roots \<Longrightarrow> list_all simple_part r"
  defines "ops \<equiv> invalidateAfterDelete pm (detail_key i) roots"
  shows "makes_stale pm ops (detail_key i @ k)"
    and "\<not> refetches pm ops (detail_key i @ k)"
    and "refetches pm ops (list_key ps)"
    and "j \<noteq> i \<Longrightarrow> refetches pm ops (detail_key j @ k)"
proof -
  note stale = invalidateAfterDelete_stale [OF assms(1) detail_simple assms(3)]
  note refetch = invalidateAfterDelete_refetch [OF assms(1) detail_simple assms(3)]
  show "makes_stale pm ops (detail_key i @ k)" and "\<not> refetches pm ops (detail_key i @ k)"
    unfolding ops_def by (simp_all add: stale refetch)
  show "refetches pm ops (list_key ps)"
    unfolding ops_def using assms(2) list_below_root detail_not_list by (auto simp: refetch)
  show "refetches pm ops (detail_key j @ k)" if "j \<noteq> i"
    unfolding ops_def using assms(2) detail_below_root that
    by (auto simp: refetch dest: detail_apart intro!: bexI [of _ root] prefix_prefix)
qed

lemma deletes:
  assumes "key_matching pm" and "root \<in> set roots" and "list_all (list_all simple_part) roots"
  shows "deletes_cleanly pm (invalidateAfterDelete pm (detail_key i) roots) list_key detail_key i"
  using after_delete [OF assms(1,2)] assms(3) by (simp add: deletes_cleanly_def list_all_iff)

end

end
