(* ===== verification/LiveQuery.thy ===== *)
theory LiveQuery
  imports QueryClient
begin

text \<open>
  Live queries: the stream reducer, the stream effect and the hooks of
  \<open>web/src/features/osquery/live/queries.ts\<close>, the run controller of \<open>live-runner.tsx\<close> and the history
  navigation of \<open>history.ts\<close>.

  \<open>Date.parse\<close> (milliseconds, or no number) and \<open>localeCompare\<close> are parameters.
\<close>

section \<open>Snapshots\<close>

record snapshot =
  sn_host_id :: int
  sn_host_name :: js_string
  sn_status :: js_string
  sn_updated_at :: js_string
  sn_rows :: "json list"
  sn_error :: "js_string option"

type_synonym date_parse = "js_string \<Rightarrow> int option"
type_synonym locale_compare = "js_string \<Rightarrow> js_string \<Rightarrow> int"

text \<open>\<open>Date.parse(b) - Date.parse(a)\<close>, where a difference that is not a number counts as zero.\<close>

definition date_diff :: "date_parse \<Rightarrow> js_string \<Rightarrow> js_string \<Rightarrow> int" where
  "date_diff dp b a = (case (dp b, dp a) of (Some x, Some y) \<Rightarrow> x - y | _ \<Rightarrow> 0)"

definition compare_snapshots :: "date_parse \<Rightarrow> locale_compare \<Rightarrow> snapshot \<Rightarrow> snapshot \<Rightarrow> int" where
  "compare_snapshots dp lc a b =
     (let d = date_diff dp (sn_updated_at b) (sn_updated_at a)
      in if d \<noteq> 0 then d
         else let n = lc (sn_host_name a) (sn_host_name b)
              in if n \<noteq> 0 then n else sn_host_id a - sn_host_id b)"

text \<open>\<open>findIndex\<close> and the \<open>map\<close> that replaces the element at the index found.\<close>

definition replace_snapshot :: "snapshot list \<Rightarrow> snapshot \<Rightarrow> snapshot list" where
  "replace_snapshot snapshots next =
     (let n = length (takeWhile (\<lambda>s. sn_host_id s \<noteq> sn_host_id next) snapshots)
      in if n = length snapshots then snapshots @ [next] else snapshots[n := next])"

definition upsertSnapshot ::
    "date_parse \<Rightarrow> locale_compare \<Rightarrow> snapshot list \<Rightarrow> snapshot \<Rightarrow> snapshot list" where
  "upsertSnapshot dp lc snapshots next =
     js_to_sorted (compare_snapshots dp lc) (replace_snapshot snapshots next)"

definition one_per_host :: "snapshot list \<Rightarrow> bool" where
  "one_per_host snapshots \<longleftrightarrow> distinct (map sn_host_id snapshots)"

lemma replace_snapshot_cases:
  obtains (new) "sn_host_id next \<notin> sn_host_id ` set ss" "replace_snapshot ss next = ss @ [next]"
    | (old) xs s ys where "ss = xs @ s # ys" "sn_host_id s = sn_host_id next"
        "sn_host_id next \<notin> sn_host_id ` set xs" "replace_snapshot ss next = xs @ next # ys"
proof (cases "sn_host_id next \<in> sn_host_id ` set ss")
  case False
  then have "takeWhile (\<lambda>s. sn_host_id s \<noteq> sn_host_id next) ss = ss"
    by (auto simp: takeWhile_eq_all_conv image_iff)
  then have "replace_snapshot ss next = ss @ [next]" unfolding replace_snapshot_def Let_def by (simp only: simp_thms if_True)
  with False show thesis by (rule new)
next
  case True
  then obtain s where "s \<in> set ss" "sn_host_id s = sn_host_id next" by auto
  then obtain xs s ys where ss: "ss = xs @ s # ys" "sn_host_id s = sn_host_id next"
      "\<forall>x \<in> set xs. sn_host_id x \<noteq> sn_host_id next"
    using split_list_first_prop [of ss "\<lambda>s. sn_host_id s = sn_host_id next"] by blast
  then have "takeWhile (\<lambda>s. sn_host_id s \<noteq> sn_host_id next) ss = xs"
    by (simp add: takeWhile_append2)
  with ss show thesis by (intro old [of xs s ys]) (auto simp: replace_snapshot_def Let_def)
qed

lemma replace_snapshot_one_per_host:
  assumes "one_per_host ss" shows "one_per_host (replace_snapshot ss next)"
  using assms by (cases rule: replace_snapshot_cases [of "next" ss]) (auto simp: one_per_host_def)

lemma replace_snapshot_set:
  assumes "one_per_host ss"
  shows "set (replace_snapshot ss next) = insert next {s \<in> set ss. sn_host_id s \<noteq> sn_host_id next}"
proof (cases rule: replace_snapshot_cases [of "next" ss])
  case new
  then show ?thesis by (auto simp: image_iff)
next
  case (old xs s ys)
  with assms have "sn_host_id next \<notin> sn_host_id ` set ys" by (auto simp: one_per_host_def)
  with old show ?thesis by (auto simp: image_iff)
qed

lemma distinct_map_js_insort:
  "distinct (map f (js_insort cmp x ys)) \<longleftrightarrow> f x \<notin> f ` set ys \<and> distinct (map f ys)"
  by (induction ys) auto

lemma distinct_map_js_to_sorted:
  "distinct (map f (js_to_sorted cmp xs)) \<longleftrightarrow> distinct (map f xs)"
  by (induction xs) (auto simp: distinct_map_js_insort)

lemma upsertSnapshot_one_per_host:
  "one_per_host ss \<Longrightarrow> one_per_host (upsertSnapshot dp lc ss next)"
  using replace_snapshot_one_per_host [of ss "next"]
  by (simp add: one_per_host_def upsertSnapshot_def distinct_map_js_to_sorted)

lemma upsertSnapshot_set:
  "one_per_host ss \<Longrightarrow>
     set (upsertSnapshot dp lc ss next) = insert next {s \<in> set ss. sn_host_id s \<noteq> sn_host_id next}"
  by (simp add: upsertSnapshot_def replace_snapshot_set)

text \<open>
  The comparison is consistent when every time stamp parses and \<open>localeCompare\<close> orders strings
  consistently; then the list is sorted, newest first.
\<close>

definition consistent_locale :: "locale_compare \<Rightarrow> bool" where
  "consistent_locale lc \<longleftrightarrow>
     (\<forall>x y. 0 < lc x y \<longleftrightarrow> lc y x < 0) \<and> (\<forall>x y z. lc x y \<le> 0 \<longrightarrow> lc y z \<le> 0 \<longrightarrow> lc x z \<le> 0)"

lemma consistent_localeD:
  assumes "consistent_locale lc"
  shows "0 < lc x y \<longleftrightarrow> lc y x < 0" and "lc x y = 0 \<longleftrightarrow> lc y x = 0"
    and "lc x y \<le> 0 \<Longrightarrow> lc y z \<le> 0 \<Longrightarrow> lc x z \<le> 0"
proof -
  show "0 < lc x y \<longleftrightarrow> lc y x < 0" using assms by (simp add: consistent_locale_def)
  moreover have "0 < lc y x \<longleftrightarrow> lc x y < 0" using assms by (simp add: consistent_locale_def)
  ultimately show "lc x y = 0 \<longleftrightarrow> lc y x = 0" by linarith
  show "lc x y \<le> 0 \<Longrightarrow> lc y z \<le> 0 \<Longrightarrow> lc x z \<le> 0"
    using assms unfolding consistent_locale_def by blast
qed

lemma locale_trans_strict:
  assumes "consistent_locale lc" and "lc x y \<le> 0" and "lc y z \<le> 0" and "lc x y < 0 \<or> lc y z < 0"
  shows "lc x z < 0"
proof (rule ccontr)
  assume "\<not> lc x z < 0"
  moreover have "lc x z \<le> 0" using consistent_localeD(3) [OF assms(1,2,3)] .
  ultimately have "lc z x = 0" using consistent_localeD(2) [OF assms(1), of x z] by simp
  then have "lc z y \<le> 0" and "lc y x \<le> 0"
    using consistent_localeD(3) [OF assms(1), of z x y] consistent_localeD(3) [OF assms(1), of y z x]
      assms(2,3) by simp_all
  with assms(4) show False
    using consistent_localeD(1) [OF assms(1), of y x] consistent_localeD(1) [OF assms(1), of z y]
    by auto
qed

lemma compare_snapshots_consistent:
  assumes "consistent_locale lc" and total: "\<And>t. dp t \<noteq> None"
  shows "consistent_compare (compare_snapshots dp lc)"
proof -
  define ms where "ms = (\<lambda>t. the (dp t))"
  have ms: "dp t = Some (ms t)" for t using total [of t] by (simp add: ms_def)
  note lc = consistent_localeD [OF assms(1)]
  have le: "compare_snapshots dp lc a b \<le> 0 \<longleftrightarrow>
      ms (sn_updated_at b) < ms (sn_updated_at a) \<or>
      ms (sn_updated_at b) = ms (sn_updated_at a) \<and>
        (lc (sn_host_name a) (sn_host_name b) < 0 \<or>
         lc (sn_host_name a) (sn_host_name b) = 0 \<and> sn_host_id a \<le> sn_host_id b)" for a b
  proof -
    have "compare_snapshots dp lc a b =
        (if ms (sn_updated_at b) \<noteq> ms (sn_updated_at a) then ms (sn_updated_at b) - ms (sn_updated_at a)
         else if lc (sn_host_name a) (sn_host_name b) \<noteq> 0 then lc (sn_host_name a) (sn_host_name b)
         else sn_host_id a - sn_host_id b)"
      by (simp only: compare_snapshots_def date_diff_def ms Let_def option.case prod.case
          right_minus_eq simp_thms)
    then show ?thesis by (simp split: if_splits; linarith)
  qed
  have "compare_snapshots dp lc b a \<le> 0" if "\<not> compare_snapshots dp lc a b \<le> 0" for a b
    using that lc(1,2) [of "sn_host_name a" "sn_host_name b"] unfolding le by linarith
  moreover have "compare_snapshots dp lc a c \<le> 0"
    if ab: "compare_snapshots dp lc a b \<le> 0" and bc: "compare_snapshots dp lc b c \<le> 0" for a b c
  proof (cases "ms (sn_updated_at b) = ms (sn_updated_at a) \<and> ms (sn_updated_at c) = ms (sn_updated_at b)")
    case False
    with ab bc have "ms (sn_updated_at c) < ms (sn_updated_at a)" unfolding le by linarith
    then show ?thesis unfolding le by blast
  next
    case True
    let ?x = "sn_host_name a" and ?y = "sn_host_name b" and ?z = "sn_host_name c"
    have xy: "lc ?x ?y \<le> 0" and yz: "lc ?y ?z \<le> 0" using ab bc True unfolding le by linarith+
    then have xz: "lc ?x ?z \<le> 0" by (rule lc(3))
    show ?thesis
    proof (cases "lc ?x ?y < 0 \<or> lc ?y ?z < 0")
      case strict: True
      with locale_trans_strict [OF assms(1) xy yz] True show ?thesis unfolding le by simp
    next
      case False
      with ab bc True have "sn_host_id a \<le> sn_host_id c" unfolding le by linarith
      with xz True show ?thesis unfolding le by linarith
    qed
  qed
  ultimately show ?thesis unfolding consistent_compare_def by (meson not_le)
qed

section \<open>The stream reducer\<close>

datatype stream_status = Idle | Running | Completed | Error

record stream_state =
  st_snapshots :: "snapshot list"
  st_status :: stream_status
  st_error :: "js_string option"

datatype stream_action =
    ActRunning
  | ActSnapshot snapshot
  | ActCompleted
  | ActError js_string
  | ActReset

fun streamReducer ::
    "date_parse \<Rightarrow> locale_compare \<Rightarrow> stream_state \<Rightarrow> stream_action \<Rightarrow> stream_state" where
  "streamReducer dp lc state ActRunning = state\<lparr>st_status := Running, st_error := None\<rparr>"
| "streamReducer dp lc state (ActSnapshot s) =
     state\<lparr>st_snapshots := upsertSnapshot dp lc (st_snapshots state) s\<rparr>"
| "streamReducer dp lc state ActCompleted = state\<lparr>st_status := Completed\<rparr>"
| "streamReducer dp lc state (ActError message) =
     state\<lparr>st_status := Error, st_error := Some message\<rparr>"
| "streamReducer dp lc state ActReset =
     \<lparr>st_snapshots = [], st_status = Idle, st_error = None\<rparr>"

definition stream_init :: stream_state where
  "stream_init = \<lparr>st_snapshots = [], st_status = Idle, st_error = None\<rparr>"

section \<open>The stream effect\<close>

text \<open>
  One run of the effect for a live query: \<open>lv_terminal\<close> and the abort signal are its variables,
  \<open>lv_done\<close> says that the consuming loop has returned.  The inputs are what the connection and React
  deliver: an event of the stream, the end of the stream, a rejection (of the request, or thrown by
  the iteration), a connection error reported to \<open>onSseError\<close>, and the clean-up of the effect.
\<close>

datatype stream_event = Ping | SnapshotEvent snapshot | CompletedEvent | UnknownEvent

datatype live_input =
    Event stream_event
  | StreamEnd
  | Rejected
  | SseError
  | Cleanup

record live_state =
  lv_stream :: stream_state
  lv_terminal :: bool
  lv_aborted :: bool
  lv_done :: bool

definition live_start :: "stream_state \<Rightarrow> date_parse \<Rightarrow> locale_compare \<Rightarrow> live_state" where
  "live_start s dp lc =
     \<lparr>lv_stream = streamReducer dp lc (streamReducer dp lc s ActReset) ActRunning,
      lv_terminal = False, lv_aborted = False, lv_done = False\<rparr>"

definition fail :: "date_parse \<Rightarrow> locale_compare \<Rightarrow> live_state \<Rightarrow> live_state" where
  "fail dp lc s =
     (if lv_terminal s \<or> lv_aborted s then s
      else s\<lparr>lv_terminal := True,
             lv_stream := streamReducer dp lc (lv_stream s) (ActError ''stream interrupted'')\<rparr>)"

fun consume_event :: "date_parse \<Rightarrow> locale_compare \<Rightarrow> live_state \<Rightarrow> stream_event \<Rightarrow> live_state" where
  "consume_event dp lc s Ping = s"
| "consume_event dp lc s (SnapshotEvent sn) =
     s\<lparr>lv_stream := streamReducer dp lc (lv_stream s) (ActSnapshot sn)\<rparr>"
| "consume_event dp lc s CompletedEvent =
     s\<lparr>lv_terminal := True, lv_stream := streamReducer dp lc (lv_stream s) ActCompleted,
       lv_aborted := True, lv_done := True\<rparr>"
| "consume_event dp lc s UnknownEvent = fail dp lc (s\<lparr>lv_done := True\<rparr>)"

fun live_step :: "date_parse \<Rightarrow> locale_compare \<Rightarrow> live_state \<Rightarrow> live_input \<Rightarrow> live_state" where
  "live_step dp lc s (Event e) =
     (if lv_done s then s
      else if lv_aborted s then s\<lparr>lv_done := True\<rparr>
      else consume_event dp lc s e)"
| "live_step dp lc s StreamEnd = (if lv_done s then s else fail dp lc (s\<lparr>lv_done := True\<rparr>))"
| "live_step dp lc s Rejected = (if lv_done s then s else fail dp lc (s\<lparr>lv_done := True\<rparr>))"
| "live_step dp lc s SseError = fail dp lc s"
| "live_step dp lc s Cleanup = s\<lparr>lv_aborted := True\<rparr>"

definition live_run ::
    "date_parse \<Rightarrow> locale_compare \<Rightarrow> live_state \<Rightarrow> live_input list \<Rightarrow> live_state" where
  "live_run dp lc s inputs = foldl (live_step dp lc) s inputs"

lemma live_run_simps [simp]:
  "live_run dp lc s [] = s"
  "live_run dp lc s (i # is) = live_run dp lc (live_step dp lc s i) is"
  by (simp_all add: live_run_def)

inductive live_reachable :: "date_parse \<Rightarrow> locale_compare \<Rightarrow> live_state \<Rightarrow> bool" for dp lc where
  start: "live_reachable dp lc (live_start s dp lc)"
| step: "live_reachable dp lc s \<Longrightarrow> live_reachable dp lc (live_step dp lc s i)"

lemma live_run_reachable: "live_reachable dp lc s \<Longrightarrow> live_reachable dp lc (live_run dp lc s is)"
  by (induction "is" arbitrary: s) (auto intro: live_reachable.step)

text \<open>
  The invariant: running means not terminal; completed means the loop returned with the signal
  aborted; an error has a message; at most one snapshot per host.
\<close>

definition live_inv :: "live_state \<Rightarrow> bool" where
  "live_inv s \<longleftrightarrow>
     (case st_status (lv_stream s) of
        Idle \<Rightarrow> False
      | Running \<Rightarrow> \<not> lv_terminal s \<and> st_error (lv_stream s) = None \<and> (lv_done s \<longrightarrow> lv_aborted s)
      | Completed \<Rightarrow> lv_terminal s \<and> lv_aborted s \<and> lv_done s
      | Error \<Rightarrow> lv_terminal s \<and> st_error (lv_stream s) = Some ''stream interrupted'')
     \<and> one_per_host (st_snapshots (lv_stream s))"

lemma live_inv_start [simp]: "live_inv (live_start s dp lc)"
  by (simp add: live_inv_def live_start_def one_per_host_def)

lemma live_inv_fail: "live_inv s \<Longrightarrow> live_inv (fail dp lc s)"
  by (auto simp: live_inv_def fail_def split: stream_status.splits)

lemma live_inv_step: "live_inv s \<Longrightarrow> live_inv (live_step dp lc s i)"
proof (induction dp lc s i rule: live_step.induct)
  case (1 dp lc s e)
  then show ?case
    by (cases e)
      (auto simp: live_inv_def fail_def upsertSnapshot_one_per_host split: stream_status.splits)
qed (auto simp: live_inv_def fail_def split: stream_status.splits)

lemma live_reachable_inv: "live_reachable dp lc s \<Longrightarrow> live_inv s"
  by (induction rule: live_reachable.induct) (simp_all add: live_inv_step)

text \<open>Once aborted (by completion or by clean-up), no input changes what is shown.\<close>

lemma live_step_aborted:
  "lv_aborted s \<Longrightarrow> lv_stream (live_step dp lc s i) = lv_stream s \<and> lv_aborted (live_step dp lc s i)"
  by (cases i) (auto simp: fail_def)

lemma live_run_aborted:
  "lv_aborted s \<Longrightarrow> lv_stream (live_run dp lc s is) = lv_stream s"
  using live_step_aborted by (induction "is" arbitrary: s) (simp, metis live_run_simps(2))

text \<open>
  What the stream shows, read off the inputs: those before the clean-up, the end, a rejection or
  the completion count.
\<close>

fun live_prefix :: "live_input list \<Rightarrow> live_input list" where
  "live_prefix [] = []"
| "live_prefix (Event CompletedEvent # is) = [Event CompletedEvent]"
| "live_prefix (Event UnknownEvent # is) = [Event UnknownEvent]"
| "live_prefix (StreamEnd # is) = [StreamEnd]"
| "live_prefix (Rejected # is) = [Rejected]"
| "live_prefix (Cleanup # is) = []"
| "live_prefix (i # is) = i # live_prefix is"

definition delivered :: "live_input list \<Rightarrow> snapshot list" where
  "delivered is =
     List.map_filter (\<lambda>i. case i of Event (SnapshotEvent s) \<Rightarrow> Some s | _ \<Rightarrow> None) is"

definition shown_status :: "live_input list \<Rightarrow> stream_status" where
  "shown_status is =
     (if Event CompletedEvent \<in> set is then Completed
      else if \<exists>i \<in> {Event UnknownEvent, StreamEnd, Rejected, SseError}. i \<in> set is then Error
      else Running)"

lemma delivered_simps [simp]:
  "delivered [] = []"
  "delivered (Event (SnapshotEvent s) # is) = s # delivered is"
  "delivered (Event Ping # is) = delivered is"
  "delivered (Event CompletedEvent # is) = delivered is"
  "delivered (Event UnknownEvent # is) = delivered is"
  "delivered (StreamEnd # is) = delivered is"
  "delivered (Rejected # is) = delivered is"
  "delivered (SseError # is) = delivered is"
  "delivered (Cleanup # is) = delivered is"
  by (simp_all add: delivered_def map_filter_def)

lemma live_step_done_terminal:
  "lv_done s \<Longrightarrow> lv_terminal s \<Longrightarrow>
     lv_stream (live_run dp lc s is) = lv_stream s"
proof (induction "is" arbitrary: s)
  case (Cons i "is")
  have "lv_done (live_step dp lc s i)" "lv_terminal (live_step dp lc s i)"
    "lv_stream (live_step dp lc s i) = lv_stream s"
    using Cons.prems by (cases i; simp add: fail_def)+
  with Cons.IH show ?case by simp
qed simp

lemma live_run_snapshots:
  assumes "\<not> lv_done s" and "\<not> lv_aborted s"
  shows "st_snapshots (lv_stream (live_run dp lc s is)) =
    foldl (upsertSnapshot dp lc) (st_snapshots (lv_stream s)) (delivered (live_prefix is))"
  using assms
  by (induction "is" arbitrary: s rule: live_prefix.induct)
    (simp_all add: fail_def live_step_done_terminal live_run_aborted)

lemma shown_status_simps [simp]:
  "shown_status [] = Running"
  "shown_status (Event Ping # is) = shown_status is"
  "shown_status (Event (SnapshotEvent s) # is) = shown_status is"
  "shown_status [Event CompletedEvent] = Completed"
  "shown_status [Event UnknownEvent] = Error"
  "shown_status [StreamEnd] = Error"
  "shown_status [Rejected] = Error"
  "shown_status (SseError # is) = (if shown_status is = Completed then Completed else Error)"
  by (auto simp: shown_status_def)

lemma live_run_status:
  assumes "\<not> lv_done s" and "\<not> lv_aborted s"
    and "st_status (lv_stream s) = (if lv_terminal s then Error else Running)"
  shows "st_status (lv_stream (live_run dp lc s is)) =
    (if lv_terminal s \<and> shown_status (live_prefix is) \<noteq> Completed then Error
     else shown_status (live_prefix is))"
  using assms
  by (induction "is" arbitrary: s rule: live_prefix.induct)
    (simp_all add: fail_def live_step_done_terminal live_run_aborted)

text \<open>Each host shows the last snapshot delivered for it.\<close>

definition latest_for :: "int \<Rightarrow> snapshot list \<Rightarrow> snapshot option" where
  "latest_for h ss = find (\<lambda>s. sn_host_id s = h) (rev ss)"

lemma foldl_upsert_one_per_host:
  "one_per_host ss \<Longrightarrow> one_per_host (foldl (upsertSnapshot dp lc) ss evs)"
  by (induction evs arbitrary: ss) (simp_all add: upsertSnapshot_one_per_host)

lemma foldl_upsert_latest:
  "s \<in> set (foldl (upsertSnapshot dp lc) [] evs) \<longleftrightarrow> latest_for (sn_host_id s) evs = Some s"
proof (induction evs rule: rev_induct)
  case Nil
  then show ?case by (simp add: latest_for_def)
next
  case (snoc e evs)
  have "one_per_host (foldl (upsertSnapshot dp lc) [] evs)"
    by (rule foldl_upsert_one_per_host) (simp add: one_per_host_def)
  with snoc show ?case
    by (auto simp: upsertSnapshot_set latest_for_def)
qed

text \<open>Sorted after every snapshot.\<close>

lemma foldl_upsert_sorted:
  assumes "consistent_compare (compare_snapshots dp lc)"
  shows "sorted_wrt (\<lambda>a b. compare_snapshots dp lc a b \<le> 0) (foldl (upsertSnapshot dp lc) [] evs)"
  by (cases evs rule: rev_cases) (simp_all add: upsertSnapshot_def sorted_js_to_sorted [OF assms])

section \<open>The hooks\<close>

definition LIVE_QUERY_TARGET_REFRESH_MS :: int where
  "LIVE_QUERY_TARGET_REFRESH_MS = 30000"

definition useCreateLiveQuery :: "(json, json) mutation" where
  "useCreateLiveQuery =
     simple_mutation (\<lambda>body. body_request ''createLiveQuery'' [] body) (\<lambda>_ _. [])"

definition useStopLiveQuery :: "(int, unit) mutation" where
  "useStopLiveQuery =
     simple_mutation (\<lambda>i. get_request ''deleteLiveQuery'' [(''id'', i)] None) (\<lambda>_ _. [])"

definition useLiveQueryTargetCount :: "json \<Rightarrow> bool \<Rightarrow> query_options" where
  "useLiveQueryTargetCount body enabled =
     (plain_query
        [KStr ''osquery'', KStr ''live-queries'', KStr ''target-count'', KJson body]
        (body_request ''countLiveQueryTargets'' [] body))
       \<lparr>qo_enabled := Some enabled,
        qo_refetch_interval := Some LIVE_QUERY_TARGET_REFRESH_MS\<rparr>"

end
