(* ===== verification/HostQueries.thy ===== *)
theory HostQueries
  imports QueryClient
begin

text \<open>
  The query and mutation hooks of the host, label, software, directory, account, session, activity
  and agent-secret features: \<open>web/src/features/{hosts,labels,software,account,authn,activity,
  agent-secrets}/queries.ts\<close>, \<open>web/src/features/directory/{groups,users,sync}/queries.ts\<close>.
  Each hook is the \<open>query_options\<close> or the \<open>mutation\<close> it builds.
\<close>

section \<open>\<open>hosts/queries.ts\<close>\<close>

definition hostKeys_all :: query_key where
  "hostKeys_all = [KStr ''hosts'']"

definition hostKeys_list :: "query_params \<Rightarrow> query_key" where
  "hostKeys_list ps = [KStr ''hosts'', KStr ''list'', KParams ps]"

definition hostKeys_detail :: "int \<Rightarrow> query_key" where
  "hostKeys_detail i = [KStr ''hosts'', KStr ''detail'', KInt i]"

definition hostKeys_software :: "int \<Rightarrow> query_params \<Rightarrow> query_key" where
  "hostKeys_software i ps =
     [KStr ''hosts'', KStr ''detail'', KInt i, KStr ''software'', KStr ''list'', KParams ps]"

definition hostKeys_munkiState :: "int \<Rightarrow> query_key" where
  "hostKeys_munkiState i = [KStr ''hosts'', KStr ''detail'', KInt i, KStr ''munki'']"

definition hostKeys_munkiSoftware :: "int \<Rightarrow> query_params \<Rightarrow> query_key" where
  "hostKeys_munkiSoftware i ps =
     [KStr ''hosts'', KStr ''detail'', KInt i, KStr ''munki'', KStr ''software'', KStr ''list'',
      KParams ps]"

definition hostKeys_osqueryReports :: "int \<Rightarrow> query_params \<Rightarrow> query_key" where
  "hostKeys_osqueryReports i ps =
     [KStr ''hosts'', KStr ''detail'', KInt i, KStr ''osquery'', KStr ''reports'', KParams ps]"

definition hostKeys_osqueryPolicies :: "int \<Rightarrow> query_params \<Rightarrow> query_key" where
  "hostKeys_osqueryPolicies i ps =
     [KStr ''hosts'', KStr ''detail'', KInt i, KStr ''osquery'', KStr ''policies'', KParams ps]"

definition hostKeys_santaState :: "int \<Rightarrow> query_key" where
  "hostKeys_santaState i = [KStr ''hosts'', KStr ''detail'', KInt i, KStr ''santa'']"

definition hostKeys_santaRules :: "int \<Rightarrow> query_params \<Rightarrow> query_key" where
  "hostKeys_santaRules i ps =
     [KStr ''hosts'', KStr ''detail'', KInt i, KStr ''santa'', KStr ''rules'', KStr ''list'',
      KParams ps]"

lemmas hostKeys_defs =
  hostKeys_all_def hostKeys_list_def hostKeys_detail_def hostKeys_software_def
  hostKeys_munkiState_def hostKeys_munkiSoftware_def hostKeys_osqueryReports_def
  hostKeys_osqueryPolicies_def hostKeys_santaState_def hostKeys_santaRules_def

definition HOST_SANTA_RULES_PAGE_SIZE :: int where
  "HOST_SANTA_RULES_PAGE_SIZE = 100"

definition HOST_REFRESH_MS :: int where
  "HOST_REFRESH_MS = 30000"

record host_list_params = base_list_params +
  hlp_status :: "js_string option"
  hlp_label_id :: "int option"
  hlp_software_title_id :: "int option"
  hlp_software_id :: "int option"
  hlp_ids :: "int list option"

definition hostListQueryParams :: "host_list_params \<Rightarrow> query_params" where
  "hostListQueryParams params =
     base_params params @
     [(''status'', opt_str (hlp_status params)),
      (''label_id'', opt_int (hlp_label_id params)),
      (''software_title_id'', opt_int (hlp_software_title_id params)),
      (''software_id'', opt_int (hlp_software_id params)),
      (''ids'', opt_ints (nonempty_list (hlp_ids params)))]"

definition hostQueryOptions :: "int \<Rightarrow> int option \<Rightarrow> query_options" where
  "hostQueryOptions i refetchInterval =
     (plain_query (hostKeys_detail i) (get_request ''getHost'' [(''id'', i)] None))
       \<lparr>qo_refetch_interval := refetchInterval\<rparr>"

definition useHosts :: "host_list_params \<Rightarrow> int option \<Rightarrow> query_options" where
  "useHosts params refetchInterval =
     (let queryParams = hostListQueryParams params
      in (list_query (hostKeys_list queryParams) (get_request ''listHosts'' [] (Some queryParams)))
           \<lparr>qo_refetch_interval := refetchInterval\<rparr>)"

definition listAllHosts ::
    "(api_request \<Rightarrow> thrown + 'h page api_result) \<Rightarrow> host_list_params \<Rightarrow> thrown + 'h list" where
  "listAllHosts api params =
     collectAllPages (\<lambda>page perPage.
       unwrap (api (get_request ''listHosts'' []
         (Some (hostListQueryParams
            (params\<lparr>blp_page := Some (num_of_int page),
                    blp_per_page := Some (num_of_int perPage)\<rparr>))))))"

definition useHost :: "int \<Rightarrow> int option \<Rightarrow> query_options" where
  "useHost i refetchInterval = hostQueryOptions i refetchInterval"

definition useHostMunkiState :: "int \<Rightarrow> query_options" where
  "useHostMunkiState i =
     (plain_query (hostKeys_munkiState i) (get_request ''getHostMunkiState'' [(''id'', i)] None))
       \<lparr>qo_null_on_404 := True, qo_refetch_interval := Some HOST_REFRESH_MS\<rparr>"

definition useHostMunkiSoftware :: "int \<Rightarrow> base_list_params \<Rightarrow> query_options" where
  "useHostMunkiSoftware i params =
     (let queryParams = base_params params
      in (list_query (hostKeys_munkiSoftware i queryParams)
            (get_request ''listHostMunkiSoftware'' [(''id'', i)] (Some queryParams)))
           \<lparr>qo_refetch_interval := Some HOST_REFRESH_MS\<rparr>)"

definition useHostSantaState :: "int \<Rightarrow> query_options" where
  "useHostSantaState i =
     (plain_query (hostKeys_santaState i) (get_request ''getHostSantaState'' [(''id'', i)] None))
       \<lparr>qo_null_on_404 := True, qo_refetch_interval := Some HOST_REFRESH_MS\<rparr>"

definition useBulkDeleteHosts :: "(int list, unit) mutation" where
  "useBulkDeleteHosts =
     simple_mutation
       (\<lambda>ids. get_request ''bulkDeleteHosts'' [] (ids_query ids))
       (\<lambda>_ _. [invalidate hostKeys_all])"

definition useDeleteHost :: "matcher \<Rightarrow> (int, unit) mutation" where
  "useDeleteHost pm =
     simple_mutation
       (\<lambda>i. get_request ''deleteHost'' [(''id'', i)] None)
       (\<lambda>_ i. invalidateAfterDelete pm (hostKeys_detail i) [hostKeys_all])"

definition useRequestHostInventoryRefresh :: "(int, json) mutation" where
  "useRequestHostInventoryRefresh =
     \<lparr>mu_request = (\<lambda>i. get_request ''requestHostInventoryRefresh'' [(''id'', i)] None),
      mu_onSuccess = (\<lambda>_ i.
        [SetData (hostKeys_detail i)
           (map_option (json_put ''inventory_refresh_requested'' (JBool True))),
         Toast \<lparr>tm_title = ''Inventory Refresh Requested'',
                tm_description = Some ''It will run when the host next checks in.'',
                tm_type = ToastSuccess\<rparr>]),
      mu_onError = Some (\<lambda>error.
        [Toast \<lparr>tm_title = ''Inventory refresh could not be requested'',
                tm_description = Some (message_of error []), tm_type = ToastError\<rparr>]),
      mu_inline_error = False\<rparr>"

definition useSetHostPrimaryUser :: "(int \<times> json, resource) mutation" where
  "useSetHostPrimaryUser =
     simple_mutation
       (\<lambda>(i, body). body_request ''setHostPrimaryUser'' [(''id'', i)] body)
       (\<lambda>host _.
         [success_toast ''Primary User Set'',
          SetData (hostKeys_detail (res_id host)) (\<lambda>_. Some (res_json host)),
          invalidate hostKeys_all])"

definition useClearHostPrimaryUser :: "(int, resource) mutation" where
  "useClearHostPrimaryUser =
     simple_mutation
       (\<lambda>i. get_request ''clearHostPrimaryUser'' [(''id'', i)] None)
       (\<lambda>host _.
         [success_toast ''Primary User Cleared'',
          SetData (hostKeys_detail (res_id host)) (\<lambda>_. Some (res_json host)),
          invalidate hostKeys_all])"

record host_software_params = base_list_params +
  hsp_source :: "js_string list option"

definition useHostSoftware :: "int \<Rightarrow> host_software_params \<Rightarrow> query_options" where
  "useHostSoftware i params =
     (let queryParams =
            base_params params @ [(''source'', opt_strs (nonempty_list (hsp_source params)))]
      in (list_query (hostKeys_software i queryParams)
            (get_request ''listHostSoftware'' [(''id'', i)] (Some queryParams)))
           \<lparr>qo_refetch_interval := Some HOST_REFRESH_MS\<rparr>)"

record status_params = base_list_params +
  sp_status :: "js_string option"

record status_list_params = base_list_params +
  slp_status :: "js_string list option"

definition hostOsqueryReportsQueryParams :: "status_params \<Rightarrow> query_params" where
  "hostOsqueryReportsQueryParams params =
     base_params params @ [(''status'', opt_str (sp_status params))]"

definition hostOsqueryPoliciesQueryParams :: "status_list_params \<Rightarrow> query_params" where
  "hostOsqueryPoliciesQueryParams params =
     base_params params @ [(''status'', opt_strs (slp_status params))]"

definition useHostOsqueryReports :: "int \<Rightarrow> status_params \<Rightarrow> query_options" where
  "useHostOsqueryReports i params =
     (let queryParams = hostOsqueryReportsQueryParams params
      in (list_query (hostKeys_osqueryReports i queryParams)
            (get_request ''listHostOsqueryReports'' [(''id'', i)] (Some queryParams)))
           \<lparr>qo_refetch_interval := Some HOST_REFRESH_MS\<rparr>)"

definition useHostOsqueryPolicies :: "int \<Rightarrow> status_list_params \<Rightarrow> query_options" where
  "useHostOsqueryPolicies i params =
     (let queryParams = hostOsqueryPoliciesQueryParams params
      in (list_query (hostKeys_osqueryPolicies i queryParams)
            (get_request ''listHostOsqueryPolicies'' [(''id'', i)] (Some queryParams)))
           \<lparr>qo_refetch_interval := Some HOST_REFRESH_MS\<rparr>)"

definition listAllHostOsqueryReports ::
    "(api_request \<Rightarrow> thrown + 'r page api_result) \<Rightarrow> int \<Rightarrow> status_params \<Rightarrow> thrown + 'r list" where
  "listAllHostOsqueryReports api i params =
     collectAllPages (\<lambda>page perPage.
       unwrap (api (get_request ''listHostOsqueryReports'' [(''id'', i)]
         (Some (hostOsqueryReportsQueryParams
            (params\<lparr>blp_page := Some (num_of_int page),
                    blp_per_page := Some (num_of_int perPage)\<rparr>))))))"

definition useHostSantaRules :: "int \<Rightarrow> base_list_params \<Rightarrow> query_options" where
  "useHostSantaRules i params =
     (let queryParams =
            spread_base (baseListParams params (Some (num_of_int HOST_SANTA_RULES_PAGE_SIZE)))
      in (list_query (hostKeys_santaRules i queryParams)
            (get_request ''listHostSantaRules'' [(''id'', i)] (Some queryParams)))
           \<lparr>qo_refetch_interval := Some HOST_REFRESH_MS\<rparr>)"

interpretation host_keys: resource_keys hostKeys_all hostKeys_list hostKeys_detail
  by unfold_locales (simp_all add: hostKeys_defs)

section \<open>\<open>labels/queries.ts\<close>\<close>

definition labelKeys_all :: query_key where
  "labelKeys_all = [KStr ''labels'']"

definition labelKeys_list :: "query_params \<Rightarrow> query_key" where
  "labelKeys_list ps = [KStr ''labels'', KStr ''list'', KParams ps]"

definition labelKeys_detail :: "int \<Rightarrow> query_key" where
  "labelKeys_detail i = [KStr ''labels'', KStr ''detail'', KInt i]"

record label_list_params = base_list_params +
  llp_label_type :: "js_string option"
  llp_label_membership_type :: "js_string list option"

definition labelQueryOptions :: "int \<Rightarrow> query_options" where
  "labelQueryOptions i =
     plain_query (labelKeys_detail i) (get_request ''getLabel'' [(''id'', i)] None)"

definition useLabels :: "label_list_params \<Rightarrow> int option \<Rightarrow> query_options" where
  "useLabels params refetchInterval =
     (let queryParams =
            base_params params @
            [(''label_type'', opt_str (llp_label_type params)),
             (''label_membership_type'', opt_strs (llp_label_membership_type params))]
      in (list_query (labelKeys_list queryParams)
            (get_request ''listLabels'' [] (Some queryParams)))
           \<lparr>qo_refetch_interval := refetchInterval\<rparr>)"

definition useLabel :: "int \<Rightarrow> query_options" where
  "useLabel i = labelQueryOptions i"

definition useCreateLabel :: "(json, json) mutation" where
  "useCreateLabel =
     simple_mutation
       (\<lambda>body. body_request ''createLabel'' [] body)
       (\<lambda>_ _. [success_toast ''Label Created'', invalidate labelKeys_all, invalidate hostKeys_all])"

definition useUpdateLabel :: "int \<Rightarrow> (json, json) mutation" where
  "useUpdateLabel i =
     simple_mutation
       (\<lambda>body. body_request ''updateLabel'' [(''id'', i)] body)
       (\<lambda>_ _. [success_toast ''Label Saved'', invalidate labelKeys_all, invalidate hostKeys_all])"

definition useDeleteLabel :: "matcher \<Rightarrow> (int, unit) mutation" where
  "useDeleteLabel pm =
     simple_mutation
       (\<lambda>i. get_request ''deleteLabel'' [(''id'', i)] None)
       (\<lambda>_ i. invalidateAfterDelete pm (labelKeys_detail i) [labelKeys_all, hostKeys_all])"

lemmas labelKeys_defs = labelKeys_all_def labelKeys_list_def labelKeys_detail_def

interpretation label_keys: resource_keys labelKeys_all labelKeys_list labelKeys_detail
  by unfold_locales (simp_all add: labelKeys_defs)

section \<open>\<open>software/queries.ts\<close>\<close>

definition softwareKeys_all :: query_key where
  "softwareKeys_all = [KStr ''software'']"

definition softwareKeys_list :: "query_params \<Rightarrow> query_key" where
  "softwareKeys_list ps = [KStr ''software'', KStr ''list'', KParams ps]"

definition softwareKeys_detail :: "int \<Rightarrow> query_key" where
  "softwareKeys_detail i = [KStr ''software'', KStr ''detail'', KInt i]"

definition softwareTitleQueryOptions :: "int \<Rightarrow> int option \<Rightarrow> query_options" where
  "softwareTitleQueryOptions i refetchInterval =
     (plain_query (softwareKeys_detail i) (get_request ''getSoftware'' [(''id'', i)] None))
       \<lparr>qo_refetch_interval := refetchInterval\<rparr>"

definition useSoftware :: "host_software_params \<Rightarrow> bool option \<Rightarrow> int option \<Rightarrow> query_options" where
  "useSoftware params enabled refetchInterval =
     (let queryParams =
            base_params params @ [(''source'', opt_strs (nonempty_list (hsp_source params)))]
      in (list_query (softwareKeys_list queryParams)
            (get_request ''listSoftware'' [] (Some queryParams)))
           \<lparr>qo_enabled := enabled, qo_refetch_interval := refetchInterval\<rparr>)"

definition useSoftwareTitle :: "int \<Rightarrow> int option \<Rightarrow> query_options" where
  "useSoftwareTitle i refetchInterval = softwareTitleQueryOptions i refetchInterval"

lemmas softwareKeys_defs = softwareKeys_all_def softwareKeys_list_def softwareKeys_detail_def

interpretation software_keys: resource_keys softwareKeys_all softwareKeys_list softwareKeys_detail
  by unfold_locales (simp_all add: softwareKeys_defs)

section \<open>\<open>directory/groups/queries.ts\<close>\<close>

definition groupKeys_all :: query_key where
  "groupKeys_all = [KStr ''groups'']"

definition groupKeys_list :: "query_params \<Rightarrow> query_key" where
  "groupKeys_list ps = [KStr ''groups'', KStr ''list'', KParams ps]"

definition groupKeys_detail :: "int \<Rightarrow> query_key" where
  "groupKeys_detail i = [KStr ''groups'', KStr ''detail'', KInt i]"

record values_params = base_list_params +
  vp_values :: "js_string list option"

definition groupQueryParams :: "values_params \<Rightarrow> query_params" where
  "groupQueryParams params =
     base_params params @ [(''values'', opt_strs (nonempty_list (vp_values params)))]"

definition useGroups :: "values_params \<Rightarrow> query_options" where
  "useGroups params =
     (let queryParams = groupQueryParams params
      in list_query (groupKeys_list queryParams)
           (get_request ''listGroups'' [] (Some queryParams)))"

definition useGroup :: "int \<Rightarrow> query_options" where
  "useGroup i = plain_query (groupKeys_detail i) (get_request ''getGroup'' [(''id'', i)] None)"

lemmas groupKeys_defs = groupKeys_all_def groupKeys_list_def groupKeys_detail_def

interpretation group_keys: resource_keys groupKeys_all groupKeys_list groupKeys_detail
  by unfold_locales (simp_all add: groupKeys_defs)

section \<open>\<open>authn/queries.ts\<close> and \<open>account/query-options.ts\<close>\<close>

definition sessionKey :: query_key where
  "sessionKey = [KStr ''auth'', KStr ''session'']"

definition sessionQueryOptions :: query_options where
  "sessionQueryOptions = plain_query sessionKey (get_request ''getSession'' [] None)"

definition accountKey :: query_key where
  "accountKey = [KStr ''account'']"

definition accountQueryOptions :: query_options where
  "accountQueryOptions = plain_query accountKey (get_request ''getAccount'' [] None)"

section \<open>\<open>directory/users/queries.ts\<close>\<close>

definition userKeys_all :: query_key where
  "userKeys_all = [KStr ''users'']"

definition userKeys_list :: "query_params \<Rightarrow> query_key" where
  "userKeys_list ps = [KStr ''users'', KStr ''list'', KParams ps]"

definition userKeys_detail :: "int \<Rightarrow> query_key" where
  "userKeys_detail i = [KStr ''users'', KStr ''detail'', KInt i]"

definition userKeys_departments :: "query_params \<Rightarrow> query_key" where
  "userKeys_departments ps = [KStr ''users'', KStr ''departments'', KStr ''list'', KParams ps]"

definition baseUserQueryParams :: "'z values_params_scheme \<Rightarrow> query_params" where
  "baseUserQueryParams params =
     base_params params @ [(''values'', opt_strs (nonempty_list (vp_values params)))]"

record user_list_params = values_params +
  ulp_role :: "js_string list option"
  ulp_source :: "js_string option"
  ulp_group_id :: "int option"

definition userQueryParams :: "user_list_params \<Rightarrow> query_params" where
  "userQueryParams params =
     baseUserQueryParams params @
     [(''role'', opt_strs (ulp_role params)),
      (''source'', opt_str (ulp_source params)),
      (''group_id'', opt_int (ulp_group_id params))]"

definition useUsers :: "user_list_params \<Rightarrow> query_options" where
  "useUsers params =
     (let queryParams = userQueryParams params
      in list_query (userKeys_list queryParams)
           (get_request ''listUsers'' [] (Some queryParams)))"

definition useUserDepartments :: "values_params \<Rightarrow> query_options" where
  "useUserDepartments params =
     (let queryParams = baseUserQueryParams params
      in list_query (userKeys_departments queryParams)
           (get_request ''listUserDepartments'' [] (Some queryParams)))"

definition useCreateUser :: "(json, json) mutation" where
  "useCreateUser =
     simple_mutation
       (\<lambda>body. body_request ''createUser'' [] body)
       (\<lambda>_ _. [success_toast ''User Created'', invalidate userKeys_all])"

definition userQueryOptions :: "int \<Rightarrow> query_options" where
  "userQueryOptions i =
     plain_query (userKeys_detail i) (get_request ''getUser'' [(''id'', i)] None)"

definition useUser :: "int \<Rightarrow> query_options" where
  "useUser i = userQueryOptions i"

definition useUpdateUser :: "(int \<times> json, json) mutation" where
  "useUpdateUser =
     simple_mutation
       (\<lambda>(i, body). body_request ''updateUser'' [(''id'', i)] body)
       (\<lambda>user variables.
         [success_toast ''User Saved'',
          SetData (userKeys_detail (fst variables)) (\<lambda>_. Some user),
          invalidate userKeys_all, invalidate groupKeys_all, invalidate sessionKey])"

definition useDeleteUser :: "matcher \<Rightarrow> (int, unit) mutation" where
  "useDeleteUser pm =
     simple_mutation
       (\<lambda>i. get_request ''deleteUser'' [(''id'', i)] None)
       (\<lambda>_ i. invalidateAfterDelete pm (userKeys_detail i) [userKeys_all, groupKeys_all])"

lemmas userKeys_defs =
  userKeys_all_def userKeys_list_def userKeys_detail_def userKeys_departments_def

interpretation user_keys: resource_keys userKeys_all userKeys_list userKeys_detail
  by unfold_locales (simp_all add: userKeys_defs)

section \<open>\<open>directory/sync/queries.ts\<close>\<close>

definition directorySyncKey :: query_key where
  "directorySyncKey = [KStr ''directory'', KStr ''sync'']"

record sync_status =
  ss_enabled :: bool
  ss_activity :: js_string

definition directorySync_refetchInterval :: "sync_status option \<Rightarrow> int option" where
  "directorySync_refetchInterval data =
     (case data of
        None \<Rightarrow> None
      | Some status \<Rightarrow>
          if \<not> ss_enabled status then None
          else if ss_activity status = ''queued'' \<or> ss_activity status = ''running'' then Some 2000
          else Some 30000)"

definition useDirectorySync :: "sync_status option \<Rightarrow> query_options" where
  "useDirectorySync data =
     (plain_query directorySyncKey (get_request ''getDirectorySync'' [] None))
       \<lparr>qo_refetch_interval := directorySync_refetchInterval data\<rparr>"

definition useTriggerDirectorySync :: "(unit, sync_status \<times> json) mutation" where
  "useTriggerDirectorySync =
     \<lparr>mu_request = (\<lambda>_. get_request ''triggerDirectorySync'' [] None),
      mu_onSuccess = (\<lambda>(status, body) _.
        [SetData directorySyncKey (\<lambda>_. Some body),
         success_toast (if ss_activity status = ''running'' then ''Directory Sync Is Running''
                        else ''Directory Sync Queued'')]),
      mu_onError = Some (\<lambda>error.
        [Toast \<lparr>tm_title = ''Directory sync could not be queued'',
                tm_description = Some (message_of error []), tm_type = ToastError\<rparr>]),
      mu_inline_error = False\<rparr>"

section \<open>\<open>account/queries.ts\<close>\<close>

text \<open>The account a request returns: the object, and the user in it.\<close>

record account_result =
  acr_account :: json
  acr_user :: resource

definition useAccount :: query_options where
  "useAccount = accountQueryOptions"

definition useUpdateAccount :: "(json, account_result) mutation" where
  "useUpdateAccount =
     simple_mutation
       (\<lambda>body. body_request ''updateAccount'' [] body)
       (\<lambda>account _.
         [SetData accountKey (\<lambda>_. Some (acr_account account)),
          SetData (userKeys_detail (res_id (acr_user account)))
            (\<lambda>_. Some (res_json (acr_user account))),
          SetData sessionKey (map_option (json_put ''user'' (res_json (acr_user account)))),
          invalidate userKeys_all])"

definition useRotateAPIKey :: "(unit, json) mutation" where
  "useRotateAPIKey =
     simple_mutation
       (\<lambda>_. get_request ''rotateAccountApiKey'' [] None)
       (\<lambda>account _. [SetData accountKey (\<lambda>_. Some account)])"

definition useRevokeAPIKey :: "(unit, json) mutation" where
  "useRevokeAPIKey =
     simple_mutation
       (\<lambda>_. get_request ''revokeAccountApiKey'' [] None)
       (\<lambda>account _. [SetData accountKey (\<lambda>_. Some account)])"

section \<open>\<open>activity/queries.ts\<close>\<close>

definition activityKeys_list :: "query_params \<Rightarrow> query_key" where
  "activityKeys_list ps = [KStr ''activity'', KStr ''list'', KParams ps]"

definition useActivity :: "query_params \<Rightarrow> query_options" where
  "useActivity params =
     (list_query (activityKeys_list params) (get_request ''listActivity'' [] (Some params)))
       \<lparr>qo_refetch_interval := Some 30000\<rparr>"

section \<open>\<open>agent-secrets/queries.ts\<close>\<close>

definition agentSecretsQueryKey :: query_key where
  "agentSecretsQueryKey = [KStr ''agent-secrets'']"

definition useAgentSecrets :: "bool \<Rightarrow> query_options" where
  "useAgentSecrets enabled =
     (plain_query agentSecretsQueryKey (get_request ''listAgentSecrets'' [] None))
       \<lparr>qo_enabled := Some enabled\<rparr>"

definition useCreateAgentSecret :: "(json, json) mutation" where
  "useCreateAgentSecret =
     simple_mutation
       (\<lambda>body. body_request ''createAgentSecret'' [] body)
       (\<lambda>_ _. [invalidate agentSecretsQueryKey])"

definition useUpdateAgentSecret :: "(int \<times> json, json) mutation" where
  "useUpdateAgentSecret =
     simple_mutation
       (\<lambda>(i, body). body_request ''updateAgentSecret'' [(''id'', i)] body)
       (\<lambda>_ _. [invalidate agentSecretsQueryKey])"

definition useDeleteAgentSecret :: "(int, unit) mutation" where
  "useDeleteAgentSecret =
     simple_mutation
       (\<lambda>i. get_request ''deleteAgentSecret'' [(''id'', i)] None)
       (\<lambda>_ _. [invalidate agentSecretsQueryKey])"

section \<open>Deleting a host or a label\<close>

lemma useDeleteHost_ops:
  "mu_onSuccess (useDeleteHost pm) u i = invalidateAfterDelete pm (hostKeys_detail i) [hostKeys_all]"
  by (simp add: useDeleteHost_def)

text \<open>Saving a label fetches the labels and the hosts again, whatever list or record is shown.\<close>

lemma label_saved_refetches:
  assumes "key_matching pm"
  shows "refetches pm (mu_onSuccess (useUpdateLabel i) r v) (labelKeys_list ps)"
    and "refetches pm (mu_onSuccess (useUpdateLabel i) r v) (labelKeys_detail j @ k)"
    and "refetches pm (mu_onSuccess (useUpdateLabel i) r v) (hostKeys_list ps)"
    and "refetches pm (mu_onSuccess (useUpdateLabel i) r v) (hostKeys_detail j @ k)"
  using label_keys.root_invalidation [OF assms] host_keys.root_invalidation [OF assms]
  by (simp_all add: useUpdateLabel_def)

text \<open>Reading every host: the pages asked for carry the filters of the caller.\<close>

definition api_ok :: "'a \<Rightarrow> thrown + 'a api_result" where
  "api_ok x = Inr \<lparr>ar_data = x, ar_error = NoError, ar_response = Some \<lparr>resp_status = 200\<rparr>\<rparr>"

lemma unwrap_api_ok [simp]: "unwrap (api_ok x) = Inr x"
  by (simp add: api_ok_def response_ok_def resp_ok_def)

end
