(* ===== verification/OsqueryQueries.thy ===== *)
theory OsqueryQueries
  imports HostQueries
begin

text \<open>
  The query and mutation hooks of the osquery features:
  \<open>web/src/features/osquery/{policies,reports,history,schema}/queries.ts\<close>.
\<close>

section \<open>\<open>policies/queries.ts\<close>\<close>

definition POLICY_REFRESH_MS :: int where
  "POLICY_REFRESH_MS = 30000"

definition policyKeys_all :: query_key where
  "policyKeys_all = [KStr ''osquery'', KStr ''policies'']"

definition policyKeys_list :: "query_params \<Rightarrow> query_key" where
  "policyKeys_list ps = [KStr ''osquery'', KStr ''policies'', KStr ''list'', KParams ps]"

definition policyKeys_detail :: "int \<Rightarrow> query_key" where
  "policyKeys_detail i = [KStr ''osquery'', KStr ''policies'', KStr ''detail'', KInt i]"

definition policyKeys_remediationSource :: "int \<Rightarrow> query_key" where
  "policyKeys_remediationSource i =
     [KStr ''osquery'', KStr ''policies'', KStr ''detail'', KInt i, KStr ''remediation-source'']"

definition policyKeys_remediationRun :: "int \<Rightarrow> int option \<Rightarrow> query_key" where
  "policyKeys_remediationRun i hostID =
     [KStr ''osquery'', KStr ''policies'', KStr ''detail'', KInt i, KStr ''remediation'',
      (case hostID of None \<Rightarrow> KNull | Some h \<Rightarrow> KInt h)]"

definition policyKeys_resultsRoot :: "int \<Rightarrow> query_key" where
  "policyKeys_resultsRoot i =
     [KStr ''osquery'', KStr ''policies'', KStr ''detail'', KInt i, KStr ''results'']"

definition policyKeys_results :: "int \<Rightarrow> query_params \<Rightarrow> query_key" where
  "policyKeys_results i ps = policyKeys_resultsRoot i @ [KParams ps]"

lemmas policyKeys_defs =
  policyKeys_all_def policyKeys_list_def policyKeys_detail_def policyKeys_remediationSource_def
  policyKeys_remediationRun_def policyKeys_resultsRoot_def policyKeys_results_def

interpretation policy_keys: resource_keys policyKeys_all policyKeys_list policyKeys_detail
  by unfold_locales (simp_all add: policyKeys_defs)

definition policyQueryOptions :: "int \<Rightarrow> query_options" where
  "policyQueryOptions i =
     plain_query (policyKeys_detail i) (get_request ''getOsqueryPolicy'' [(''id'', i)] None)"

definition usePolicies :: "base_list_params \<Rightarrow> query_options" where
  "usePolicies params =
     (let queryParams = base_params params
      in (list_query (policyKeys_list queryParams)
            (get_request ''listOsqueryPolicies'' [] (Some queryParams)))
           \<lparr>qo_refetch_interval := Some POLICY_REFRESH_MS\<rparr>)"

definition usePolicy :: "int \<Rightarrow> query_options" where
  "usePolicy i = policyQueryOptions i"

definition usePolicyRemediationSource :: "int \<Rightarrow> bool option \<Rightarrow> query_options" where
  "usePolicyRemediationSource i enabled =
     (plain_query (policyKeys_remediationSource i)
        (get_request ''getOsqueryPolicyRemediationSource'' [(''id'', i)] None))
       \<lparr>qo_enabled := enabled\<rparr>"

definition usePolicyRemediationRun :: "int \<Rightarrow> int option \<Rightarrow> query_options" where
  "usePolicyRemediationRun policyID hostID =
     (plain_query (policyKeys_remediationRun policyID hostID)
        (get_request ''getOsqueryPolicyRemediationRun''
           [(''id'', policyID), (''host_id'', coalesce hostID 0)] None))
       \<lparr>qo_null_on_404 := True, qo_enabled := Some (hostID \<noteq> None),
        qo_refetch_interval := Some POLICY_REFRESH_MS\<rparr>"

record policy_result_params = base_list_params +
  prp_status :: "js_string list option"
  prp_remediation :: "js_string list option"

definition policyResultQueryParams :: "policy_result_params \<Rightarrow> query_params" where
  "policyResultQueryParams params =
     base_params params @
     [(''status'', opt_strs (prp_status params)),
      (''remediation'', opt_strs (prp_remediation params))]"

definition usePolicyResults :: "int \<Rightarrow> policy_result_params \<Rightarrow> bool option \<Rightarrow> query_options" where
  "usePolicyResults i params enabled =
     (let queryParams = policyResultQueryParams params
      in (list_query (policyKeys_results i queryParams)
            (get_request ''listOsqueryPolicyResults'' [(''id'', i)] (Some queryParams)))
           \<lparr>qo_enabled := enabled, qo_refetch_interval := Some POLICY_REFRESH_MS\<rparr>)"

definition listAllPolicyResults ::
    "(api_request \<Rightarrow> thrown + 'r page api_result) \<Rightarrow> int \<Rightarrow> policy_result_params \<Rightarrow>
     thrown + 'r list" where
  "listAllPolicyResults api i params =
     collectAllPages (\<lambda>page perPage.
       unwrap (api (get_request ''listOsqueryPolicyResults'' [(''id'', i)]
         (Some (policyResultQueryParams
            (params\<lparr>blp_page := Some (num_of_int page),
                    blp_per_page := Some (num_of_int perPage)\<rparr>))))))"

definition useCreatePolicy :: "(json, json) mutation" where
  "useCreatePolicy =
     simple_mutation
       (\<lambda>body. body_request ''createOsqueryPolicy'' [] body)
       (\<lambda>_ _. [success_toast ''Policy Created'', invalidate policyKeys_all])"

text \<open>The field of a policy the mutation reads, in the cached and in the saved one.\<close>

record osquery_policy =
  op_query :: js_string

definition useUpdatePolicy ::
    "int \<Rightarrow> (query_key \<Rightarrow> osquery_policy option) \<Rightarrow> (json, osquery_policy) mutation" where
  "useUpdatePolicy i getQueryData =
     simple_mutation
       (\<lambda>body. body_request ''updateOsqueryPolicy'' [(''id'', i)] body)
       (\<lambda>saved _.
         (let queryChanged =
            (case getQueryData (policyKeys_detail i) of
               None \<Rightarrow> False
             | Some previous \<Rightarrow> op_query previous \<noteq> op_query saved)
          in (if queryChanged then [RemoveQueries (policyKeys_resultsRoot i)] else []) @
             [success_toast (if queryChanged then ''Policy saved and results cleared''
                             else ''Policy Saved''),
              invalidate policyKeys_all]))"

definition useDeletePolicy :: "matcher \<Rightarrow> (int, unit) mutation" where
  "useDeletePolicy pm =
     simple_mutation
       (\<lambda>i. get_request ''deleteOsqueryPolicy'' [(''id'', i)] None)
       (\<lambda>_ i. invalidateAfterDelete pm (policyKeys_detail i) [policyKeys_all])"

definition useBulkDeletePolicies :: "(int list, unit) mutation" where
  "useBulkDeletePolicies =
     simple_mutation
       (\<lambda>ids. get_request ''bulkDeleteOsqueryPolicies'' [] (ids_query ids))
       (\<lambda>_ _. [invalidate policyKeys_all])"

datatype policy_hosts = HostIDs "int list" | AllFailures

record remediation_summary =
  rs_queued :: int
  rs_skipped :: int

definition useRunPolicyRemediations :: "(int \<times> policy_hosts, remediation_summary) mutation" where
  "useRunPolicyRemediations =
     \<lparr>mu_request = (\<lambda>(policyID, hosts).
        get_request ''runOsqueryPolicyRemediations'' [(''id'', policyID)]
          (Some (case hosts of
             HostIDs ids \<Rightarrow> [(''host_ids'', PInts ids)]
           | AllFailures \<Rightarrow> [(''all_failures'', PBool True)]))),
      mu_onSuccess = (\<lambda>summary (policyID, hosts).
        [Toast
           \<lparr>tm_title =
              (if rs_queued summary = 0 then ''No Remediation Queued''
               else ''Remediation Queued for '' @ countLabel (rs_queued summary) ''Host'' None),
            tm_description =
              (if 0 < rs_skipped summary
               then Some (countLabel (rs_skipped summary) ''host was'' (Some ''hosts were'') @
                 '' skipped because it was no longer failing, remediation was unavailable, or remediation was already active.'')
               else None),
            tm_type = (if rs_queued summary = 0 then ToastInfo else ToastSuccess)\<rparr>,
         invalidate (policyKeys_resultsRoot policyID)]),
      mu_onError = Some (\<lambda>error.
        [Toast \<lparr>tm_title = ''Remediation could not be queued'',
                tm_description = Some (message_of error []), tm_type = ToastError\<rparr>]),
      mu_inline_error = False\<rparr>"

section \<open>\<open>reports/queries.ts\<close>\<close>

definition REPORT_SNAPSHOT_REFRESH_MS :: int where
  "REPORT_SNAPSHOT_REFRESH_MS = 30000"

definition reportKeys_all :: query_key where
  "reportKeys_all = [KStr ''osquery'', KStr ''reports'']"

definition reportKeys_list :: "query_params \<Rightarrow> query_key" where
  "reportKeys_list ps = [KStr ''osquery'', KStr ''reports'', KStr ''list'', KParams ps]"

definition reportKeys_detail :: "int \<Rightarrow> query_key" where
  "reportKeys_detail i = [KStr ''osquery'', KStr ''reports'', KStr ''detail'', KInt i]"

definition reportKeys_snapshotsRoot :: "int \<Rightarrow> query_key" where
  "reportKeys_snapshotsRoot i =
     [KStr ''osquery'', KStr ''reports'', KStr ''detail'', KInt i, KStr ''snapshots'']"

definition reportKeys_snapshots :: "int \<Rightarrow> query_params \<Rightarrow> query_key" where
  "reportKeys_snapshots i ps = reportKeys_snapshotsRoot i @ [KParams ps]"

lemmas reportKeys_defs =
  reportKeys_all_def reportKeys_list_def reportKeys_detail_def reportKeys_snapshotsRoot_def
  reportKeys_snapshots_def

interpretation report_keys: resource_keys reportKeys_all reportKeys_list reportKeys_detail
  by unfold_locales (simp_all add: reportKeys_defs)

definition reportQueryOptions :: "int \<Rightarrow> query_options" where
  "reportQueryOptions i =
     plain_query (reportKeys_detail i) (get_request ''getOsqueryReport'' [(''id'', i)] None)"

definition useReports :: "base_list_params \<Rightarrow> query_options" where
  "useReports params =
     (let queryParams = base_params params
      in list_query (reportKeys_list queryParams)
           (get_request ''listOsqueryReports'' [] (Some queryParams)))"

definition useReport :: "int \<Rightarrow> query_options" where
  "useReport i = reportQueryOptions i"

definition reportSnapshotQueryParams :: "status_params \<Rightarrow> query_params" where
  "reportSnapshotQueryParams params =
     base_params params @ [(''status'', opt_str (sp_status params))]"

definition useReportSnapshots :: "int \<Rightarrow> status_params \<Rightarrow> bool option \<Rightarrow> query_options" where
  "useReportSnapshots i params enabled =
     (let queryParams = reportSnapshotQueryParams params
      in (list_query (reportKeys_snapshots i queryParams)
            (get_request ''listOsqueryReportSnapshots'' [(''id'', i)] (Some queryParams)))
           \<lparr>qo_enabled := enabled, qo_refetch_interval := Some REPORT_SNAPSHOT_REFRESH_MS\<rparr>)"

definition listAllReportSnapshots ::
    "(api_request \<Rightarrow> thrown + 'r page api_result) \<Rightarrow> int \<Rightarrow> status_params \<Rightarrow> thrown + 'r list" where
  "listAllReportSnapshots api i params =
     collectAllPages (\<lambda>page perPage.
       unwrap (api (get_request ''listOsqueryReportSnapshots'' [(''id'', i)]
         (Some (reportSnapshotQueryParams
            (params\<lparr>blp_page := Some (num_of_int page),
                    blp_per_page := Some (num_of_int perPage)\<rparr>))))))"

definition useCreateReport :: "(json, json) mutation" where
  "useCreateReport =
     simple_mutation
       (\<lambda>body. body_request ''createOsqueryReport'' [] body)
       (\<lambda>_ _. [success_toast ''Report Created'', invalidate reportKeys_all])"

record osquery_report =
  or_query :: js_string
  or_min_osquery_version :: js_string

definition useUpdateReport ::
    "int \<Rightarrow> (query_key \<Rightarrow> osquery_report option) \<Rightarrow> (json, osquery_report) mutation" where
  "useUpdateReport i getQueryData =
     simple_mutation
       (\<lambda>body. body_request ''updateOsqueryReport'' [(''id'', i)] body)
       (\<lambda>saved _.
         (let resultsInvalidated =
            (case getQueryData (reportKeys_detail i) of
               None \<Rightarrow> False
             | Some previous \<Rightarrow>
                 or_query previous \<noteq> or_query saved \<or>
                 or_min_osquery_version previous \<noteq> or_min_osquery_version saved)
          in (if resultsInvalidated then [RemoveQueries (reportKeys_snapshotsRoot i)] else []) @
             [success_toast (if resultsInvalidated then ''Report saved and results cleared''
                             else ''Report Saved''),
              invalidate reportKeys_all]))"

definition useDeleteReport :: "matcher \<Rightarrow> (int, unit) mutation" where
  "useDeleteReport pm =
     simple_mutation
       (\<lambda>i. get_request ''deleteOsqueryReport'' [(''id'', i)] None)
       (\<lambda>_ i. invalidateAfterDelete pm (reportKeys_detail i) [reportKeys_all])"

definition useBulkDeleteReports :: "(int list, unit) mutation" where
  "useBulkDeleteReports =
     simple_mutation
       (\<lambda>ids. get_request ''bulkDeleteOsqueryReports'' [] (ids_query ids))
       (\<lambda>_ _. [invalidate reportKeys_all])"

section \<open>\<open>history/queries.ts\<close>\<close>

datatype HistoryRange = Range24h | Range7d | Range30d

definition range_name :: "HistoryRange \<Rightarrow> js_string" where
  "range_name r = (case r of Range24h \<Rightarrow> ''24h'' | Range7d \<Rightarrow> ''7d'' | Range30d \<Rightarrow> ''30d'')"

definition HISTORY_REFRESH_MS :: int where
  "HISTORY_REFRESH_MS = 5 * 60000"

definition RANGE_MS :: "HistoryRange \<Rightarrow> int" where
  "RANGE_MS r =
     (case r of
        Range24h \<Rightarrow> 24 * 60 * 60000
      | Range7d \<Rightarrow> 7 * 24 * 60 * 60000
      | Range30d \<Rightarrow> 30 * 24 * 60 * 60000)"

definition historyBounds :: "HistoryRange \<Rightarrow> int \<Rightarrow> int \<times> int" where
  "historyBounds rng now =
     (let bucketedNow = now div HISTORY_REFRESH_MS * HISTORY_REFRESH_MS
      in (bucketedNow - RANGE_MS rng, bucketedNow))"

text \<open>\<open>toISOString\<close> is a parameter.\<close>

definition since :: "(int \<Rightarrow> js_string) \<Rightarrow> HistoryRange \<Rightarrow> int \<Rightarrow> js_string" where
  "since toISOString rng now = toISOString (fst (historyBounds rng now))"

definition useHostStatusHistory ::
    "(int \<Rightarrow> js_string) \<Rightarrow> int \<Rightarrow> HistoryRange \<Rightarrow> query_options" where
  "useHostStatusHistory toISOString now rng =
     (plain_query [KStr ''osquery'', KStr ''history'', KStr ''hosts'', KStr (range_name rng)]
        (get_request ''listOsqueryHostStatusHistory'' []
           (Some [(''since'', PStr (since toISOString rng now))])))
       \<lparr>qo_refetch_interval := Some HISTORY_REFRESH_MS\<rparr>"

definition usePolicyStatusHistory ::
    "(int \<Rightarrow> js_string) \<Rightarrow> int \<Rightarrow> int \<Rightarrow> HistoryRange \<Rightarrow> query_options" where
  "usePolicyStatusHistory toISOString now i rng =
     (plain_query
        [KStr ''osquery'', KStr ''policies'', KStr ''detail'', KInt i, KStr ''history'',
         KStr (range_name rng)]
        (get_request ''listOsqueryPolicyStatusHistory'' [(''id'', i)]
           (Some [(''since'', PStr (since toISOString rng now))])))
       \<lparr>qo_refetch_interval := Some HISTORY_REFRESH_MS\<rparr>"

section \<open>\<open>schema/queries.ts\<close>\<close>

text \<open>The schema document after its validation (a parameter): the tables, hidden ones dropped.\<close>

record osquery_table =
  ot_name :: js_string
  ot_hidden :: "bool option"

definition osquerySchema_query ::
    "(json \<Rightarrow> thrown + osquery_table list) \<Rightarrow> thrown + response \<times> json \<Rightarrow>
     thrown + osquery_table list" where
  "osquerySchema_query parse fetched =
     (case fetched of
        Inl e \<Rightarrow> Inl e
      | Inr (response, body) \<Rightarrow>
          if \<not> resp_ok response then
            Inl (NativeError (''schema '' @ show_int (resp_status response)))
          else
            (case parse body of
               Inl e \<Rightarrow> Inl e
             | Inr data \<Rightarrow> Inr (filter (\<lambda>table. ot_hidden table \<noteq> Some True) data)))"

section \<open>Saving clears results exactly when they no longer match\<close>

lemma update_policy_removes:
  assumes "key_matching pm"
  shows "removes pm (mu_onSuccess (useUpdatePolicy i cache) saved v) k \<longleftrightarrow>
     (\<exists>previous. cache (policyKeys_detail i) = Some previous \<and> op_query previous \<noteq> op_query saved) \<and>
     prefix (policyKeys_resultsRoot i) k"
  using key_matchingD [OF assms, of "policyKeys_resultsRoot i" k]
  by (cases "cache (policyKeys_detail i)")
    (auto simp: useUpdatePolicy_def Let_def policyKeys_resultsRoot_def)

lemma update_report_removes:
  assumes "key_matching pm"
  shows "removes pm (mu_onSuccess (useUpdateReport i cache) saved v) k \<longleftrightarrow>
     (\<exists>previous. cache (reportKeys_detail i) = Some previous \<and> previous \<noteq> saved) \<and>
     prefix (reportKeys_snapshotsRoot i) k"
proof -
  have "p \<noteq> q \<longleftrightarrow> or_query p \<noteq> or_query q \<or> or_min_osquery_version p \<noteq> or_min_osquery_version q"
    for p q :: osquery_report by (cases p; cases q) auto
  then show ?thesis
    using key_matchingD [OF assms, of "reportKeys_snapshotsRoot i" k]
    by (cases "cache (reportKeys_detail i)")
      (auto simp: useUpdateReport_def Let_def reportKeys_snapshotsRoot_def)
qed

section \<open>The bounds of a history request\<close>

lemma historyBounds_window:
  assumes "historyBounds r now = (a, b)"
  shows "b - a = RANGE_MS r" and "b \<le> now" and "now < b + HISTORY_REFRESH_MS"
    and "HISTORY_REFRESH_MS dvd b"
  using assms div_mult_mod_eq [of now HISTORY_REFRESH_MS]
    pos_mod_bound [of HISTORY_REFRESH_MS now] pos_mod_sign [of HISTORY_REFRESH_MS now]
  by (auto simp: historyBounds_def Let_def HISTORY_REFRESH_MS_def)

text \<open>Within one refresh interval the request is the same: the key fixes it.\<close>

lemma historyBounds_bucket:
  "now div HISTORY_REFRESH_MS = now' div HISTORY_REFRESH_MS \<Longrightarrow>
     historyBounds r now = historyBounds r now'"
  by (simp add: historyBounds_def)

end
