(* ===== verification/SantaQueries.thy ===== *)
theory SantaQueries
  imports QueryClient
begin

text \<open>
  The query and mutation hooks of the Santa features:
  \<open>web/src/features/santa/{configurations,rules,events}/queries.ts\<close>.
\<close>

section \<open>\<open>configurations/queries.ts\<close>\<close>

definition configurationKeys_all :: query_key where
  "configurationKeys_all = [KStr ''santa'', KStr ''configurations'']"

definition configurationKeys_list :: "query_params \<Rightarrow> query_key" where
  "configurationKeys_list ps = [KStr ''santa'', KStr ''configurations'', KStr ''list'', KParams ps]"

definition configurationKeys_detail :: "int \<Rightarrow> query_key" where
  "configurationKeys_detail i = [KStr ''santa'', KStr ''configurations'', KStr ''detail'', KInt i]"

lemmas configurationKeys_defs =
  configurationKeys_all_def configurationKeys_list_def configurationKeys_detail_def

interpretation configuration_keys:
  resource_keys configurationKeys_all configurationKeys_list configurationKeys_detail
  by unfold_locales (simp_all add: configurationKeys_defs)

definition santaConfigurationQueryOptions :: "int \<Rightarrow> query_options" where
  "santaConfigurationQueryOptions i =
     plain_query (configurationKeys_detail i)
       (get_request ''getSantaConfiguration'' [(''id'', i)] None)"

definition useSantaConfigurations :: "base_list_params \<Rightarrow> query_options" where
  "useSantaConfigurations params =
     (let queryParams = base_params params
      in list_query (configurationKeys_list queryParams)
           (get_request ''listSantaConfigurations'' [] (Some queryParams)))"

definition useSantaConfiguration :: "int \<Rightarrow> query_options" where
  "useSantaConfiguration i = santaConfigurationQueryOptions i"

definition useCreateSantaConfiguration :: "(json, json) mutation" where
  "useCreateSantaConfiguration =
     simple_mutation
       (\<lambda>body. body_request ''createSantaConfiguration'' [] body)
       (\<lambda>_ _. [success_toast ''Configuration Created'', invalidate configurationKeys_all])"

definition useUpdateSantaConfiguration :: "(int \<times> json, json) mutation" where
  "useUpdateSantaConfiguration =
     simple_mutation
       (\<lambda>(i, body). body_request ''updateSantaConfiguration'' [(''id'', i)] body)
       (\<lambda>_ _. [success_toast ''Configuration Saved'', invalidate configurationKeys_all])"

definition useDeleteSantaConfiguration :: "matcher \<Rightarrow> (int, unit) mutation" where
  "useDeleteSantaConfiguration pm =
     simple_mutation
       (\<lambda>i. get_request ''deleteSantaConfiguration'' [(''id'', i)] None)
       (\<lambda>_ i. invalidateAfterDelete pm (configurationKeys_detail i) [configurationKeys_all])"

definition useBulkDeleteSantaConfigurations :: "(int list, unit) mutation" where
  "useBulkDeleteSantaConfigurations =
     simple_mutation
       (\<lambda>ids. get_request ''bulkDeleteSantaConfigurations'' [] (ids_query ids))
       (\<lambda>_ _. [invalidate configurationKeys_all])"

definition ordered_ids_body :: "int list \<Rightarrow> json" where
  "ordered_ids_body ids = JObj [(''ordered_ids'', JArr (map (\<lambda>n. JNum (num_of_int n)) ids))]"

definition useReorderSantaConfigurations :: "(int list, unit) mutation" where
  "useReorderSantaConfigurations =
     simple_mutation
       (\<lambda>ordered_ids. body_request ''reorderSantaConfigurations'' [] (ordered_ids_body ordered_ids))
       (\<lambda>_ _. [invalidate configurationKeys_all])"

section \<open>\<open>rules/queries.ts\<close>\<close>

definition ruleKeys_all :: query_key where
  "ruleKeys_all = [KStr ''santa'', KStr ''rules'']"

definition ruleKeys_list :: "query_params \<Rightarrow> query_key" where
  "ruleKeys_list ps = [KStr ''santa'', KStr ''rules'', KStr ''list'', KParams ps]"

definition ruleKeys_detail :: "int \<Rightarrow> query_key" where
  "ruleKeys_detail i = [KStr ''santa'', KStr ''rules'', KStr ''detail'', KInt i]"

lemmas ruleKeys_defs = ruleKeys_all_def ruleKeys_list_def ruleKeys_detail_def

interpretation rule_keys: resource_keys ruleKeys_all ruleKeys_list ruleKeys_detail
  by unfold_locales (simp_all add: ruleKeys_defs)

record rule_list_params = base_list_params +
  rlp_rule_type :: "js_string list option"

definition santaRuleQueryOptions :: "int \<Rightarrow> query_options" where
  "santaRuleQueryOptions i =
     plain_query (ruleKeys_detail i) (get_request ''getSantaRule'' [(''id'', i)] None)"

definition useSantaRules :: "rule_list_params \<Rightarrow> query_options" where
  "useSantaRules params =
     (let queryParams = base_params params @ [(''rule_type'', opt_strs (rlp_rule_type params))]
      in list_query (ruleKeys_list queryParams)
           (get_request ''listSantaRules'' [] (Some queryParams)))"

definition useSantaRule :: "int \<Rightarrow> query_options" where
  "useSantaRule i = santaRuleQueryOptions i"

definition useCreateSantaRule :: "(json, json) mutation" where
  "useCreateSantaRule =
     simple_mutation
       (\<lambda>body. body_request ''createSantaRule'' [] body)
       (\<lambda>_ _. [success_toast ''Rule Created'', invalidate ruleKeys_all])"

definition useUpdateSantaRule :: "(int \<times> json, json) mutation" where
  "useUpdateSantaRule =
     simple_mutation
       (\<lambda>(i, body). body_request ''updateSantaRule'' [(''id'', i)] body)
       (\<lambda>_ _. [success_toast ''Rule Saved'', invalidate ruleKeys_all])"

definition useDeleteSantaRule :: "matcher \<Rightarrow> (int, unit) mutation" where
  "useDeleteSantaRule pm =
     simple_mutation
       (\<lambda>i. get_request ''deleteSantaRule'' [(''id'', i)] None)
       (\<lambda>_ i. invalidateAfterDelete pm (ruleKeys_detail i) [ruleKeys_all])"

definition useBulkDeleteSantaRules :: "(int list, unit) mutation" where
  "useBulkDeleteSantaRules =
     simple_mutation
       (\<lambda>ids. get_request ''bulkDeleteSantaRules'' [] (ids_query ids))
       (\<lambda>_ _. [invalidate ruleKeys_all])"

section \<open>\<open>events/queries.ts\<close>\<close>

definition SANTA_EVENT_REFRESH_MS :: int where
  "SANTA_EVENT_REFRESH_MS = 30000"

definition eventKeys_executions :: "query_params \<Rightarrow> query_key" where
  "eventKeys_executions ps =
     [KStr ''santa'', KStr ''events'', KStr ''executions'', KStr ''list'', KParams ps]"

definition eventKeys_execution :: "int \<Rightarrow> query_key" where
  "eventKeys_execution i =
     [KStr ''santa'', KStr ''events'', KStr ''executions'', KStr ''detail'', KInt i]"

definition eventKeys_fileAccess :: "query_params \<Rightarrow> query_key" where
  "eventKeys_fileAccess ps =
     [KStr ''santa'', KStr ''events'', KStr ''file-access'', KStr ''list'', KParams ps]"

definition eventKeys_fileAccessDetail :: "int \<Rightarrow> query_key" where
  "eventKeys_fileAccessDetail i =
     [KStr ''santa'', KStr ''events'', KStr ''file-access'', KStr ''detail'', KInt i]"

lemmas eventKeys_defs =
  eventKeys_executions_def eventKeys_execution_def eventKeys_fileAccess_def
  eventKeys_fileAccessDetail_def

definition santaEventQueryOptions :: "int \<Rightarrow> query_options" where
  "santaEventQueryOptions i =
     plain_query (eventKeys_execution i) (get_request ''getSantaEvent'' [(''id'', i)] None)"

definition santaFileAccessEventQueryOptions :: "int \<Rightarrow> query_options" where
  "santaFileAccessEventQueryOptions i =
     plain_query (eventKeys_fileAccessDetail i)
       (get_request ''getSantaFileAccessEvent'' [(''id'', i)] None)"

record file_access_params = base_list_params +
  fap_host_id :: "int option"
  fap_decisions :: "js_string list option"

record event_list_params = file_access_params +
  elp_user :: "js_string option"

definition useSantaEvents :: "event_list_params \<Rightarrow> query_options" where
  "useSantaEvents params =
     (let queryParams =
            base_params params @
            [(''host_id'', opt_int (fap_host_id params)),
             (''decisions'', opt_strs (nonempty_list (fap_decisions params))),
             (''user'', opt_str (nonEmpty (elp_user params)))]
      in (list_query (eventKeys_executions queryParams)
            (get_request ''listSantaEvents'' [] (Some queryParams)))
           \<lparr>qo_refetch_interval := Some SANTA_EVENT_REFRESH_MS\<rparr>)"

definition useSantaEvent :: "int \<Rightarrow> query_options" where
  "useSantaEvent i = santaEventQueryOptions i"

definition useSantaFileAccessEvents :: "file_access_params \<Rightarrow> query_options" where
  "useSantaFileAccessEvents params =
     (let queryParams =
            base_params params @
            [(''host_id'', opt_int (fap_host_id params)),
             (''decisions'', opt_strs (nonempty_list (fap_decisions params)))]
      in (list_query (eventKeys_fileAccess queryParams)
            (get_request ''listSantaFileAccessEvents'' [] (Some queryParams)))
           \<lparr>qo_refetch_interval := Some SANTA_EVENT_REFRESH_MS\<rparr>)"

definition useSantaFileAccessEvent :: "int \<Rightarrow> query_options" where
  "useSantaFileAccessEvent i = santaFileAccessEventQueryOptions i"

end
