(* ===== verification/Upload.thy ===== *)
theory Upload
  imports QueryClient
begin

text \<open>
  The upload hook \<open>web/src/hooks/use-upload.ts\<close> and \<open>web/src/features/munki/upload.ts\<close>.

  One call of the mutation function is a run over a state that records what the user and the server
  see: the toast commands, the status text, the upload intents released.  The digest, the three
  requests and the abort signal are parameters.
\<close>

section \<open>Files, texts and toasts\<close>

record js_file =
  jf_name :: js_string
  jf_type :: js_string
  jf_size :: int

datatype upload_text = TextConst js_string | TextFn "js_file \<Rightarrow> js_string"

definition uploadText :: "upload_text option \<Rightarrow> js_file \<Rightarrow> js_string \<Rightarrow> js_string" where
  "uploadText text file fallback =
     (case text of
        None \<Rightarrow> fallback
      | Some (TextConst s) \<Rightarrow> s
      | Some (TextFn f) \<Rightarrow> f file)"

datatype toast_cmd =
    ToastAdd js_string toast_type int
  | ToastDescribe js_string
  | ToastUpdate js_string "js_string option" toast_type int
  | ToastClose

record upload_texts =
  ut_loading :: "upload_text option"
  ut_success :: "upload_text option"
  ut_error :: "upload_text option"
  ut_inline :: bool

text \<open>
  The parameters of a run.  \<open>ue_digest\<close> and \<open>ue_upload\<close> report progress percentages before they
  settle; \<open>ue_aborted n\<close> is \<open>signal.aborted\<close> at the checkpoint \<open>n\<close>: after the digest, after the
  intent, after the upload, and in the error handler.
\<close>

record ('c, 'i, 'q, 'r) upload_env =
  ue_texts :: upload_texts
  ue_digest :: "js_file \<Rightarrow> int list \<times> (thrown + 'c)"
  ue_createIntent :: "js_string \<Rightarrow> 'c \<Rightarrow> thrown + 'i"
  ue_uploadRequest :: "'i \<Rightarrow> 'q"
  ue_upload :: "'q \<Rightarrow> js_file \<Rightarrow> int list \<times> (thrown + unit)"
  ue_completeUpload :: "'i \<Rightarrow> thrown + 'r"
  ue_cleanupIntent :: "('i \<Rightarrow> thrown + unit) option"
  ue_aborted :: "nat \<Rightarrow> bool"
  ue_abort_reason :: thrown

record 'i upload_state =
  us_announced :: "js_string option"
  us_statusText :: "js_string option"
  us_toasts :: "toast_cmd list"
  us_released :: "'i list"

section \<open>Progress\<close>

definition toast_cmd_add :: "toast_cmd \<Rightarrow> 'i upload_state \<Rightarrow> 'i upload_state" where
  "toast_cmd_add c s = s\<lparr>us_toasts := us_toasts s @ [c]\<rparr>"

definition announce :: "js_string \<Rightarrow> 'i upload_state \<Rightarrow> 'i upload_state" where
  "announce description s =
     (if us_announced s = Some description then s
      else toast_cmd_add (ToastDescribe description)
             (s\<lparr>us_announced := Some description, us_statusText := Some description\<rparr>))"

definition progress :: "js_string \<Rightarrow> int \<Rightarrow> 'i upload_state \<Rightarrow> 'i upload_state" where
  "progress phase percent s = announce (phase @ '' '' @ show_int percent @ ''%'') s"

definition progress_all :: "js_string \<Rightarrow> int list \<Rightarrow> 'i upload_state \<Rightarrow> 'i upload_state" where
  "progress_all phase percents s = fold (progress phase) percents s"

section \<open>The mutation function\<close>

text \<open>The \<open>try\<close> block: the intent created, if any, the outcome and the state.\<close>

definition upload_try ::
    "('c, 'i, 'q, 'r) upload_env \<Rightarrow> js_file \<Rightarrow> 'i upload_state \<Rightarrow>
     'i option \<times> (thrown + 'r) \<times> 'i upload_state" where
  "upload_try env file s0 =
     (let (percents, digested) = ue_digest env file;
          s1 = progress_all ''Computing checksums'' percents s0
      in case digested of
           Inl e \<Rightarrow> (None, Inl e, s1)
         | Inr content \<Rightarrow>
             if ue_aborted env 0 then (None, Inl (ue_abort_reason env), s1)
             else
               (case ue_createIntent env (jf_name file) content of
                  Inl e \<Rightarrow> (None, Inl e, s1)
                | Inr intent \<Rightarrow>
                    if ue_aborted env 1 then (Some intent, Inl (ue_abort_reason env), s1)
                    else
                      (let (percents', uploaded) = ue_upload env (ue_uploadRequest env intent) file;
                           s2 = progress_all ''Uploading'' percents' s1
                       in case uploaded of
                            Inl e \<Rightarrow> (Some intent, Inl e, s2)
                          | Inr _ \<Rightarrow>
                              if ue_aborted env 2 then (Some intent, Inl (ue_abort_reason env), s2)
                              else
                                (let s3 = announce ''Finalizing'' s2
                                 in case ue_completeUpload env intent of
                                      Inl e \<Rightarrow> (Some intent, Inl e, s3)
                                    | Inr result \<Rightarrow>
                                        (Some intent, Inr result,
                                         toast_cmd_add
                                           (ToastUpdate
                                              (uploadText (ut_success (ue_texts env)) file
                                                 ''Upload Complete'')
                                              None ToastSuccess 5000) s3)))))"

text \<open>\<open>await cleanupIntent?.(intent, vars).catch(() => undefined)\<close>: its own error is dropped.\<close>

definition release_intent ::
    "('c, 'i, 'q, 'r) upload_env \<Rightarrow> 'i option \<Rightarrow> 'i upload_state \<Rightarrow> 'i upload_state" where
  "release_intent env intent s =
     (case intent of
        None \<Rightarrow> s
      | Some i \<Rightarrow>
          (case ue_cleanupIntent env of
             None \<Rightarrow> s
           | Some cleanup \<Rightarrow> s\<lparr>us_released := us_released s @ [i]\<rparr>))"

definition upload_failed ::
    "('c, 'i, 'q, 'r) upload_env \<Rightarrow> js_file \<Rightarrow> thrown \<Rightarrow> 'i upload_state \<Rightarrow> 'i upload_state" where
  "upload_failed env file error s =
     (if ue_aborted env 3 \<or> ut_inline (ue_texts env) then toast_cmd_add ToastClose s
      else toast_cmd_add
             (ToastUpdate (uploadText (ut_error (ue_texts env)) file ''Upload failed'')
                (Some (message_of error ''Unknown upload error.'')) ToastError 5000) s)"

definition upload_init :: "('c, 'i, 'q, 'r) upload_env \<Rightarrow> js_file \<Rightarrow> 'i upload_state" where
  "upload_init env file =
     \<lparr>us_announced = None, us_statusText = None,
      us_toasts = [ToastAdd (uploadText (ut_loading (ue_texts env)) file ''Uploading'')
                     ToastLoading 0],
      us_released = []\<rparr>"

definition upload_run ::
    "('c, 'i, 'q, 'r) upload_env \<Rightarrow> js_file \<Rightarrow> (thrown + 'r) \<times> 'i upload_state" where
  "upload_run env file =
     (let (intent, outcome, s) = upload_try env file (upload_init env file);
          s' = (case outcome of
                  Inr _ \<Rightarrow> s
                | Inl error \<Rightarrow> upload_failed env file error (release_intent env intent s))
      in (outcome, s'\<lparr>us_statusText := None\<rparr>))"

text \<open>
  The hook's reference to the running upload's abort controller (controllers are numbered): a run
  installs its own and, when it ends, clears the reference only if it is still its own.
\<close>

definition upload_begin :: "nat \<Rightarrow> nat option \<Rightarrow> nat option" where
  "upload_begin controller current = Some controller"

definition upload_end :: "nat \<Rightarrow> nat option \<Rightarrow> nat option" where
  "upload_end controller current = (if current = Some controller then None else current)"

section \<open>What a run leaves behind\<close>

lemma toast_cmd_add_simps [simp]:
  "us_toasts (toast_cmd_add c s) = us_toasts s @ [c]"
  "us_released (toast_cmd_add c s) = us_released s"
  "us_announced (toast_cmd_add c s) = us_announced s"
  by (simp_all add: toast_cmd_add_def)

lemma announce_released [simp]: "us_released (announce d s) = us_released s"
  by (simp add: announce_def)

lemma progress_all_released [simp]: "us_released (progress_all p ns s) = us_released s"
proof -
  have "us_released (fold (progress p) ns s) = us_released s" for ns and s :: "'a upload_state"
    by (induction ns arbitrary: s) (simp_all add: progress_def)
  then show ?thesis by (simp add: progress_all_def)
qed

lemma release_intent_toasts [simp]: "us_toasts (release_intent env i s) = us_toasts s"
  by (simp add: release_intent_def split: option.splits)

text \<open>The toast shows a description at most once in a row: \<open>described s\<close> ends with the announced one.\<close>

definition describes :: "toast_cmd list \<Rightarrow> js_string list" where
  "describes cs = List.map_filter (\<lambda>c. case c of ToastDescribe d \<Rightarrow> Some d | _ \<Rightarrow> None) cs"

definition announced_ok :: "'i upload_state \<Rightarrow> bool" where
  "announced_ok s \<longleftrightarrow>
     distinct_adj (describes (us_toasts s)) \<and>
     us_announced s = (if describes (us_toasts s) = [] then None
                       else Some (last (describes (us_toasts s))))"

lemma describes_simps [simp]:
  "describes [] = []"
  "describes (a @ b) = describes a @ describes b"
  "describes [ToastDescribe d] = [d]"
  "describes [ToastAdd t y n] = []"
  "describes [ToastUpdate t m y n] = []"
  "describes [ToastClose] = []"
  by (simp_all add: describes_def map_filter_def)

lemma announced_ok_announce [simp]:
  assumes "announced_ok s" shows "announced_ok (announce d s)"
  using assms
  by (auto simp: announced_ok_def announce_def distinct_adj_append_iff split: if_splits)

lemma announced_ok_progress_all [simp]:
  "announced_ok s \<Longrightarrow> announced_ok (progress_all p ns s)"
proof -
  have "announced_ok s \<Longrightarrow> announced_ok (fold (progress p) ns s)" for ns and s :: "'a upload_state"
    by (induction ns arbitrary: s) (simp_all add: progress_def)
  then show "announced_ok s \<Longrightarrow> ?thesis" by (simp add: progress_all_def)
qed

lemma announced_ok_add:
  "announced_ok s \<Longrightarrow> describes [c] = [] \<Longrightarrow> announced_ok (toast_cmd_add c s)"
  by (auto simp: announced_ok_def)

lemma upload_try_announced:
  assumes "announced_ok s0" and "upload_try env file s0 = (intent, outcome, s)"
  shows "announced_ok s"
  using assms
  by (auto simp: upload_try_def Let_def announced_ok_add
      split: prod.splits sum.splits if_splits)

lemma upload_failed_announced [simp]:
  "announced_ok s \<Longrightarrow> announced_ok (upload_failed env file e s)"
  by (simp add: upload_failed_def announced_ok_add)

lemma release_intent_announced [simp]:
  "announced_ok s \<Longrightarrow> announced_ok (release_intent env i s)"
  by (simp add: announced_ok_def release_intent_def split: option.splits)

lemma upload_try_released:
  assumes "upload_try env file s0 = (intent, outcome, s)"
  shows "us_released s = us_released s0"
  using assms by (auto simp: upload_try_def Let_def split: prod.splits sum.splits if_splits)

text \<open>When an intent exists: the digest succeeded, no abort was seen and the server created it.\<close>

definition upload_intent :: "('c, 'i, 'q, 'r) upload_env \<Rightarrow> js_file \<Rightarrow> 'i option" where
  "upload_intent env file =
     (case snd (ue_digest env file) of
        Inl _ \<Rightarrow> None
      | Inr content \<Rightarrow>
          if ue_aborted env 0 then None
          else (case ue_createIntent env (jf_name file) content of
                  Inl _ \<Rightarrow> None
                | Inr intent \<Rightarrow> Some intent))"

lemma upload_try_intent:
  "upload_try env file s0 = (intent, outcome, s) \<Longrightarrow> intent = upload_intent env file"
  by (auto simp: upload_try_def upload_intent_def Let_def split: prod.splits sum.splits if_splits)

text \<open>When a run succeeds: every step did and no abort was seen between them.\<close>

definition upload_succeeds :: "('c, 'i, 'q, 'r) upload_env \<Rightarrow> js_file \<Rightarrow> 'r option" where
  "upload_succeeds env file =
     (case upload_intent env file of
        None \<Rightarrow> None
      | Some intent \<Rightarrow>
          if ue_aborted env 1 \<or> ue_aborted env 2
            \<or> isl (snd (ue_upload env (ue_uploadRequest env intent) file)) then None
          else (case ue_completeUpload env intent of Inl _ \<Rightarrow> None | Inr r \<Rightarrow> Some r))"

lemma upload_try_success:
  "upload_try env file s0 = (intent, outcome, s) \<Longrightarrow>
     outcome = Inr r \<longleftrightarrow> upload_succeeds env file = Some r"
  by (auto simp: upload_try_def upload_succeeds_def upload_intent_def Let_def
      split: prod.splits sum.splits if_splits)

lemma upload_init_ok [simp]:
  "announced_ok (upload_init env file)" "us_released (upload_init env file) = []"
  by (simp_all add: upload_init_def announced_ok_def)

lemma upload_run_cases:
  fixes env :: "('c, 'i, 'q, 'r) upload_env"
  obtains (ok) intent r s where
      "upload_run env file = (Inr r, s\<lparr>us_statusText := None\<rparr>)"
      and "upload_succeeds env file = Some r"
      and "upload_try env file (upload_init env file) = (intent, Inr r, s)"
    | (failed) e s where
      "upload_run env file =
         (Inl e, (upload_failed env file e (release_intent env (upload_intent env file) s))
                   \<lparr>us_statusText := None\<rparr>)"
      and "upload_succeeds env file = None"
      and "us_released s = []" and "announced_ok s"
proof -
  obtain intent outcome s
    where t: "upload_try env file (upload_init env file) = (intent, outcome, s)"
    by (metis prod_cases3)
  show thesis
  proof (cases outcome)
    case (Inl e)
    have "upload_succeeds env file = None"
      using Inl upload_try_success [OF t] by (cases "upload_succeeds env file") auto
    moreover have "us_released s = []" and "announced_ok s"
      using upload_try_released [OF t] upload_try_announced [OF _ t] by simp_all
    ultimately show thesis
      using Inl t upload_try_intent [OF t] by (intro failed) (simp_all add: upload_run_def)
  next
    case (Inr r)
    have "upload_run env file = (Inr r, s\<lparr>us_statusText := None\<rparr>)"
      using Inr t by (simp add: upload_run_def)
    moreover have "upload_succeeds env file = Some r" using Inr upload_try_success [OF t] by simp
    ultimately show thesis using t Inr by (intro ok) simp_all
  qed
qed

text \<open>The outcome, the intents released and the last toast command of a run.\<close>

lemma upload_run_success:
  "fst (upload_run env file) = Inr r \<longleftrightarrow> upload_succeeds env file = Some r"
  by (cases rule: upload_run_cases [of env "file"]) simp_all

lemma upload_run_released:
  "us_released (snd (upload_run env file)) =
     (if upload_succeeds env file = None \<and> ue_cleanupIntent env \<noteq> None
      then (case upload_intent env file of None \<Rightarrow> [] | Some i \<Rightarrow> [i]) else [])"
proof (cases rule: upload_run_cases [of env "file"])
  case (ok intent r s)
  then show ?thesis using upload_try_released [OF ok(3)] by simp
next
  case (failed e s)
  then show ?thesis
    by (auto simp: upload_failed_def release_intent_def split: option.splits)
qed

lemma upload_try_last_toast:
  "upload_try env file s0 = (intent, Inr r, s) \<Longrightarrow>
     last (us_toasts s) =
       ToastUpdate (uploadText (ut_success (ue_texts env)) file ''Upload Complete'')
         None ToastSuccess 5000"
  by (auto simp: upload_try_def Let_def split: prod.splits sum.splits if_splits)

lemma upload_run_last_toast:
  "last (us_toasts (snd (upload_run env file))) =
     (case fst (upload_run env file) of
        Inr _ \<Rightarrow> ToastUpdate (uploadText (ut_success (ue_texts env)) file ''Upload Complete'')
                   None ToastSuccess 5000
      | Inl e \<Rightarrow>
          if ue_aborted env 3 \<or> ut_inline (ue_texts env) then ToastClose
          else ToastUpdate (uploadText (ut_error (ue_texts env)) file ''Upload failed'')
                 (Some (message_of e ''Unknown upload error.'')) ToastError 5000)"
  by (cases rule: upload_run_cases [of env "file"])
    (simp_all add: upload_try_last_toast upload_failed_def)

lemma upload_run_announced:
  "distinct_adj (describes (us_toasts (snd (upload_run env file))))"
proof (cases rule: upload_run_cases [of env "file"])
  case (ok intent r s)
  have "announced_ok s" by (rule upload_try_announced [OF _ ok(3)]) simp
  with ok show ?thesis by (simp add: announced_ok_def)
next
  case (failed e s)
  then have "announced_ok (upload_failed env file e (release_intent env (upload_intent env file) s))"
    by simp
  with failed show ?thesis by (simp add: announced_ok_def)
qed

lemma upload_run_status: "us_statusText (snd (upload_run env file)) = None"
  by (cases rule: upload_run_cases [of env "file"]) simp_all

section \<open>\<open>munki/upload.ts\<close>\<close>

datatype 'd upload_strategy = DirectPut 'd | MultipartStrategy

record 'd upload_target =
  tgt_object_id :: int
  tgt_upload :: "'d upload_strategy"

datatype 'd upload_request =
    DirectRequest 'd
  | MultipartRequest "int \<Rightarrow> js_string \<Rightarrow> api_request"

definition packageInstallerMultipartRequest :: "int \<Rightarrow> int \<Rightarrow> js_string \<Rightarrow> api_request" where
  "packageInstallerMultipartRequest objectID partNumber crc64nvme =
     body_request ''signMunkiPackageInstallerPart'' [(''id'', objectID), (''part_number'', partNumber)]
       (JObj [(''crc64nvme'', JStr crc64nvme)])"

definition uploadRequestFromTarget :: "'d upload_target \<Rightarrow> 'd upload_request" where
  "uploadRequestFromTarget target =
     (case tgt_upload target of
        DirectPut upload \<Rightarrow> DirectRequest upload
      | MultipartStrategy \<Rightarrow>
          MultipartRequest (packageInstallerMultipartRequest (tgt_object_id target)))"

definition deleteUnclaimedMunkiInstaller :: "int \<Rightarrow> api_request" where
  "deleteUnclaimedMunkiInstaller objectID =
     get_request ''deleteMunkiPackageInstallerUpload'' [(''id'', objectID)] None"

end
