(* ===== verification/MunkiQueries.thy ===== *)
theory MunkiQueries
  imports Upload SantaQueries
begin

text \<open>
  The query, mutation and upload hooks of the Munki features:
  \<open>web/src/features/munki/{packages,software,distribution-points,client-resources}/queries.ts\<close>.
\<close>

definition munkiRoot :: query_key where
  "munkiRoot = [KStr ''munki'']"

text \<open>
  The options of a \<open>useUpload\<close> call: texts and error surface, the requests that create, complete and
  release an upload, and the commands issued after success.
\<close>

record ('v, 'd) upload_options =
  uo_mutationKey :: "js_string list"
  uo_texts :: upload_texts
  uo_createIntent :: "json \<Rightarrow> api_request"
  uo_uploadRequest :: "'d upload_target \<Rightarrow> 'd upload_request"
  uo_completeUpload :: "'d upload_target \<Rightarrow> 'v \<Rightarrow> api_request"
  uo_onSuccess :: "client_op list"
  uo_cleanupIntent :: "('d upload_target \<Rightarrow> api_request) option"

section \<open>\<open>packages/queries.ts\<close>\<close>

definition munkiPackageKeys_list :: "query_params \<Rightarrow> query_key" where
  "munkiPackageKeys_list ps = munkiRoot @ [KStr ''packages'', KStr ''list'', KParams ps]"

definition munkiPackageKeys_detail :: "int \<Rightarrow> query_key" where
  "munkiPackageKeys_detail i = munkiRoot @ [KStr ''packages'', KStr ''detail'', KInt i]"

lemmas munkiPackageKeys_defs = munkiRoot_def munkiPackageKeys_list_def munkiPackageKeys_detail_def

interpretation package_keys: resource_keys munkiRoot munkiPackageKeys_list munkiPackageKeys_detail
  by unfold_locales (simp_all add: munkiPackageKeys_defs)

record package_list_params = base_list_params +
  plp_type :: "js_string list option"
  plp_software_id :: "int option"

definition packageQueryParams :: "package_list_params \<Rightarrow> query_params" where
  "packageQueryParams params =
     base_params params @
     [(''type'', opt_strs (nonempty_list (plp_type params))),
      (''software_id'',
        opt_int (if plp_software_id params = Some 0 then None else plp_software_id params))]"

definition munkiPackageQueryOptions :: "int \<Rightarrow> query_options" where
  "munkiPackageQueryOptions i =
     plain_query (munkiPackageKeys_detail i) (get_request ''getMunkiPackage'' [(''id'', i)] None)"

definition useMunkiPackages :: "package_list_params \<Rightarrow> query_options" where
  "useMunkiPackages params =
     (let query = packageQueryParams params
      in list_query (munkiPackageKeys_list query)
           (get_request ''listMunkiPackages'' [] (Some query)))"

definition useMunkiPackage :: "int \<Rightarrow> query_options" where
  "useMunkiPackage i = munkiPackageQueryOptions i"

definition useCreateMunkiPackage :: "(json, json) mutation" where
  "useCreateMunkiPackage =
     simple_mutation
       (\<lambda>body. body_request ''createMunkiPackage'' [] body)
       (\<lambda>_ _. [success_toast ''Package Created'', invalidate munkiRoot])"

definition useUpdateMunkiPackage :: "(int \<times> json, json) mutation" where
  "useUpdateMunkiPackage =
     simple_mutation
       (\<lambda>(i, body). body_request ''updateMunkiPackage'' [(''id'', i)] body)
       (\<lambda>_ _. [success_toast ''Package Saved'', invalidate munkiRoot])"

definition useBulkDeleteMunkiPackages :: "(int list, unit) mutation" where
  "useBulkDeleteMunkiPackages =
     simple_mutation
       (\<lambda>ids. get_request ''bulkDeleteMunkiPackages'' [] (ids_query ids))
       (\<lambda>_ _. [invalidate munkiRoot])"

definition useDeleteMunkiPackage :: "matcher \<Rightarrow> (int, unit) mutation" where
  "useDeleteMunkiPackage pm =
     simple_mutation
       (\<lambda>i. get_request ''bulkDeleteMunkiPackages'' [] (ids_query [i]))
       (\<lambda>_ i. invalidateAfterDelete pm (munkiPackageKeys_detail i) [munkiRoot])"

definition useUploadMunkiInstaller :: "(js_file, 'd) upload_options" where
  "useUploadMunkiInstaller =
     \<lparr>uo_mutationKey = [''munki-installer-upload''],
      uo_texts = \<lparr>ut_loading = Some (TextConst ''Uploading Installer''),
                  ut_success = Some (TextConst ''Installer Uploaded''),
                  ut_error = None, ut_inline = False\<rparr>,
      uo_createIntent = (\<lambda>body. body_request ''createMunkiPackageInstallerUpload'' [] body),
      uo_uploadRequest = uploadRequestFromTarget,
      uo_completeUpload = (\<lambda>intent _.
        get_request ''completeMunkiPackageInstallerUpload'' [(''id'', tgt_object_id intent)] None),
      uo_onSuccess = [],
      uo_cleanupIntent = Some (\<lambda>intent. deleteUnclaimedMunkiInstaller (tgt_object_id intent))\<rparr>"

section \<open>\<open>software/queries.ts\<close>\<close>

definition munkiSoftwareKeys_root :: query_key where
  "munkiSoftwareKeys_root = munkiRoot @ [KStr ''software'']"

definition munkiSoftwareKeys_list :: "query_params \<Rightarrow> query_key" where
  "munkiSoftwareKeys_list ps = munkiRoot @ [KStr ''software'', KStr ''list'', KParams ps]"

definition munkiSoftwareKeys_detail :: "int \<Rightarrow> query_key" where
  "munkiSoftwareKeys_detail i = munkiRoot @ [KStr ''software'', KStr ''detail'', KInt i]"

definition munkiSoftwareKeys_iconList :: "query_params \<Rightarrow> query_key" where
  "munkiSoftwareKeys_iconList ps = munkiRoot @ [KStr ''icons'', KStr ''list'', KParams ps]"

lemmas munkiSoftwareKeys_defs =
  munkiRoot_def munkiSoftwareKeys_root_def munkiSoftwareKeys_list_def munkiSoftwareKeys_detail_def
  munkiSoftwareKeys_iconList_def

interpretation munki_software_keys:
  resource_keys munkiSoftwareKeys_root munkiSoftwareKeys_list munkiSoftwareKeys_detail
  by unfold_locales (simp_all add: munkiSoftwareKeys_defs)

interpretation munki_catalog_keys:
  resource_keys munkiRoot munkiSoftwareKeys_list munkiSoftwareKeys_detail
  by unfold_locales (simp_all add: munkiSoftwareKeys_defs)

definition invalidateMunkiCatalog :: "client_op list" where
  "invalidateMunkiCatalog = [invalidate munkiRoot]"

definition munkiSoftwareQueryOptions :: "int \<Rightarrow> query_options" where
  "munkiSoftwareQueryOptions i =
     plain_query (munkiSoftwareKeys_detail i) (get_request ''getMunkiSoftware'' [(''id'', i)] None)"

definition useMunkiSoftware :: "base_list_params \<Rightarrow> query_options" where
  "useMunkiSoftware params =
     (let query = base_params params
      in list_query (munkiSoftwareKeys_list query)
           (get_request ''listMunkiSoftware'' [] (Some query)))"

definition useMunkiSoftwareDetail :: "int \<Rightarrow> query_options" where
  "useMunkiSoftwareDetail i = munkiSoftwareQueryOptions i"

definition useCreateMunkiSoftware :: "(json, json) mutation" where
  "useCreateMunkiSoftware =
     simple_mutation
       (\<lambda>body. body_request ''createMunkiSoftware'' [] body)
       (\<lambda>_ _. [success_toast ''Software Created'', invalidate munkiSoftwareKeys_root])"

definition useUpdateMunkiSoftware :: "(int \<times> json, json) mutation" where
  "useUpdateMunkiSoftware =
     simple_mutation
       (\<lambda>(i, body). body_request ''updateMunkiSoftware'' [(''id'', i)] body)
       (\<lambda>_ _. success_toast ''Software Saved'' # invalidateMunkiCatalog)"

definition useBulkDeleteMunkiSoftware :: "(int list, unit) mutation" where
  "useBulkDeleteMunkiSoftware =
     simple_mutation
       (\<lambda>ids. get_request ''bulkDeleteMunkiSoftware'' [] (ids_query ids))
       (\<lambda>_ _. invalidateMunkiCatalog)"

definition useDeleteMunkiSoftware :: "matcher \<Rightarrow> (int, unit) mutation" where
  "useDeleteMunkiSoftware pm =
     simple_mutation
       (\<lambda>i. get_request ''deleteMunkiSoftware'' [(''id'', i)] None)
       (\<lambda>_ i. invalidateAfterDelete pm (munkiSoftwareKeys_detail i) [munkiRoot])"

definition no_list_params :: base_list_params where
  "no_list_params = \<lparr>blp_q = None, blp_page = None, blp_per_page = None, blp_sort = None\<rparr>"

definition useMunkiIcons :: "bool \<Rightarrow> query_options" where
  "useMunkiIcons enabled =
     (let query = spread_base (baseListParams no_list_params (Some (num_of_int MAX_PAGE_SIZE)))
      in (plain_query (munkiSoftwareKeys_iconList query)
            (get_request ''listMunkiIcons'' [] (Some query)))
           \<lparr>qo_enabled := Some enabled\<rparr>)"

definition useUploadMunkiIcon :: "(int \<times> js_file, 'd) upload_options" where
  "useUploadMunkiIcon =
     \<lparr>uo_mutationKey = [''munki-icon-upload''],
      uo_texts = \<lparr>ut_loading = Some (TextConst ''Uploading Icon''),
                  ut_success = Some (TextConst ''Icon Uploaded''),
                  ut_error = None, ut_inline = True\<rparr>,
      uo_createIntent = (\<lambda>body. body_request ''createMunkiIconUpload'' [] body),
      uo_uploadRequest = uploadRequestFromTarget,
      uo_completeUpload = (\<lambda>intent (softwareId, _).
        body_request ''setMunkiSoftwareIcon'' [(''id'', softwareId)]
          (JObj [(''object_id'', JNum (num_of_int (tgt_object_id intent)))])),
      uo_onSuccess = invalidateMunkiCatalog,
      uo_cleanupIntent = None\<rparr>"

section \<open>\<open>distribution-points/queries.ts\<close>\<close>

definition detailRefreshMs :: int where
  "detailRefreshMs = 5000"

definition listRefreshMs :: int where
  "listRefreshMs = 30000"

definition munkiDistributionPointKeys_root :: query_key where
  "munkiDistributionPointKeys_root = [KStr ''munki'', KStr ''distribution-points'']"

definition munkiDistributionPointKeys_list :: "query_params \<Rightarrow> query_key" where
  "munkiDistributionPointKeys_list ps =
     munkiDistributionPointKeys_root @ [KStr ''list'', KParams ps]"

definition munkiDistributionPointKeys_detail :: "int \<Rightarrow> query_key" where
  "munkiDistributionPointKeys_detail i = munkiDistributionPointKeys_root @ [KStr ''detail'', KInt i]"

lemmas munkiDistributionPointKeys_defs =
  munkiDistributionPointKeys_root_def munkiDistributionPointKeys_list_def
  munkiDistributionPointKeys_detail_def

interpretation distribution_point_keys:
  resource_keys munkiDistributionPointKeys_root munkiDistributionPointKeys_list
    munkiDistributionPointKeys_detail
  by unfold_locales (simp_all add: munkiDistributionPointKeys_defs)

text \<open>The refresh options spread over the query: the refetch interval is the modelled one.\<close>

definition munkiDistributionPointQueryOptions :: "int \<Rightarrow> int option \<Rightarrow> query_options" where
  "munkiDistributionPointQueryOptions i refetchInterval =
     (plain_query (munkiDistributionPointKeys_detail i)
        (get_request ''getMunkiDistributionPoint'' [(''id'', i)] None))
       \<lparr>qo_refetch_interval := refetchInterval\<rparr>"

definition useMunkiDistributionPoints :: "base_list_params \<Rightarrow> query_options" where
  "useMunkiDistributionPoints params =
     (let query = base_params params
      in (list_query (munkiDistributionPointKeys_list query)
            (get_request ''listMunkiDistributionPoints'' [] (Some query)))
           \<lparr>qo_refetch_interval := Some listRefreshMs\<rparr>)"

definition useMunkiDistributionPoint :: "int \<Rightarrow> int option \<Rightarrow> query_options" where
  "useMunkiDistributionPoint i refetchInterval =
     munkiDistributionPointQueryOptions i refetchInterval"

definition useLiveMunkiDistributionPoint :: "int \<Rightarrow> query_options" where
  "useLiveMunkiDistributionPoint i = useMunkiDistributionPoint i (Some detailRefreshMs)"

definition useCreateMunkiDistributionPoint :: "(json, resource) mutation" where
  "useCreateMunkiDistributionPoint =
     simple_mutation
       (\<lambda>body. body_request ''createMunkiDistributionPoint'' [] body)
       (\<lambda>point _.
         [success_toast ''Distribution Point Created'',
          invalidate munkiDistributionPointKeys_root,
          invalidate (munkiDistributionPointKeys_detail (res_id point))])"

definition useUpdateMunkiDistributionPoint :: "(int \<times> json, resource) mutation" where
  "useUpdateMunkiDistributionPoint =
     simple_mutation
       (\<lambda>(i, body). body_request ''updateMunkiDistributionPoint'' [(''id'', i)] body)
       (\<lambda>point _.
         [success_toast ''Distribution Point Saved'',
          invalidate munkiDistributionPointKeys_root,
          invalidate (munkiDistributionPointKeys_detail (res_id point))])"

definition useDeleteMunkiDistributionPoint :: "matcher \<Rightarrow> (int, unit) mutation" where
  "useDeleteMunkiDistributionPoint pm =
     simple_mutation
       (\<lambda>i. get_request ''deleteMunkiDistributionPoint'' [(''id'', i)] None)
       (\<lambda>_ i. invalidateAfterDelete pm (munkiDistributionPointKeys_detail i)
                [munkiDistributionPointKeys_root])"

definition useReorderMunkiDistributionPoints :: "(int list, unit) mutation" where
  "useReorderMunkiDistributionPoints =
     simple_mutation
       (\<lambda>ordered_ids.
         body_request ''reorderMunkiDistributionPoints'' [] (ordered_ids_body ordered_ids))
       (\<lambda>_ _. [invalidate munkiDistributionPointKeys_root])"

definition useRotateMunkiDistributionPointKey :: "(int, json) mutation" where
  "useRotateMunkiDistributionPointKey =
     simple_mutation
       (\<lambda>i. get_request ''rotateMunkiDistributionPointKey'' [(''id'', i)] None)
       (\<lambda>_ i.
         [invalidate munkiDistributionPointKeys_root,
          invalidate (munkiDistributionPointKeys_detail i)])"

section \<open>\<open>client-resources/queries.ts\<close>\<close>

definition munkiClientResourceKeys_root :: query_key where
  "munkiClientResourceKeys_root = [KStr ''munki'', KStr ''client-resources'']"

definition useMunkiClientResources :: query_options where
  "useMunkiClientResources =
     plain_query munkiClientResourceKeys_root (get_request ''listMunkiClientResources'' [] None)"

definition saveClientResources :: "int option \<Rightarrow> json \<Rightarrow> api_request" where
  "saveClientResources clientResourcesID body =
     (case clientResourcesID of
        None \<Rightarrow> body_request ''createMunkiClientResources'' [] body
      | Some i \<Rightarrow> body_request ''updateMunkiClientResources'' [(''id'', i)] body)"

definition useSaveMunkiClientResources :: "(int option \<times> json, json) mutation" where
  "useSaveMunkiClientResources =
     simple_mutation
       (\<lambda>(clientResourcesID, body). saveClientResources clientResourcesID body)
       (\<lambda>_ _. [success_toast ''Client Resources Saved'', invalidate munkiClientResourceKeys_root])"

definition saving_texts :: upload_texts where
  "saving_texts =
     \<lparr>ut_loading = Some (TextConst ''Saving Client Resources''),
      ut_success = Some (TextConst ''Client Resources Saved''), ut_error = None, ut_inline = False\<rparr>"

definition useUploadAndSaveMunkiClientResourcesBanner ::
    "(js_file \<times> int option \<times> json, 'd) upload_options" where
  "useUploadAndSaveMunkiClientResourcesBanner =
     \<lparr>uo_mutationKey = [''munki-client-resources-banner-upload''],
      uo_texts = saving_texts,
      uo_createIntent = (\<lambda>body. body_request ''createMunkiClientResourcesBannerUpload'' [] body),
      uo_uploadRequest = uploadRequestFromTarget,
      uo_completeUpload = (\<lambda>intent (_, clientResourcesID, body).
        saveClientResources clientResourcesID
          (JObj [(''builder'',
             json_put ''banner_object_id'' (JNum (num_of_int (tgt_object_id intent))) body)])),
      uo_onSuccess = [invalidate munkiClientResourceKeys_root],
      uo_cleanupIntent = Some (\<lambda>intent.
        get_request ''deleteMunkiClientResourcesBannerUpload'' [(''id'', tgt_object_id intent)] None)\<rparr>"

definition useUploadAndSaveMunkiClientResourcesArchive ::
    "(js_file \<times> int option, 'd) upload_options" where
  "useUploadAndSaveMunkiClientResourcesArchive =
     \<lparr>uo_mutationKey = [''munki-client-resources-archive-upload''],
      uo_texts = saving_texts,
      uo_createIntent = (\<lambda>body. body_request ''createMunkiClientResourcesArchiveUpload'' [] body),
      uo_uploadRequest = uploadRequestFromTarget,
      uo_completeUpload = (\<lambda>intent (_, clientResourcesID).
        saveClientResources clientResourcesID
          (JObj [(''archive_object_id'', JNum (num_of_int (tgt_object_id intent)))])),
      uo_onSuccess = [invalidate munkiClientResourceKeys_root],
      uo_cleanupIntent = Some (\<lambda>intent.
        get_request ''deleteMunkiClientResourcesArchiveUpload'' [(''id'', tgt_object_id intent)] None)\<rparr>"

definition useDeleteMunkiClientResources :: "(int, unit) mutation" where
  "useDeleteMunkiClientResources =
     simple_mutation
       (\<lambda>i. get_request ''deleteMunkiClientResources'' [(''id'', i)] None)
       (\<lambda>_ _. [success_toast ''Client Resources Undeployed'',
               invalidate munkiClientResourceKeys_root])"

section \<open>The catalog root covers every Munki feature\<close>

text \<open>
  Saving a package invalidates the Munki root: software, icons, distribution points and client
  resources are fetched again with it.
\<close>

lemma munki_root_covers:
  assumes "key_matching pm"
    and "k \<in> {munkiPackageKeys_list ps, munkiPackageKeys_detail i, munkiSoftwareKeys_list ps,
              munkiSoftwareKeys_detail i, munkiSoftwareKeys_iconList ps,
              munkiDistributionPointKeys_list ps, munkiDistributionPointKeys_detail i,
              munkiClientResourceKeys_root}"
  shows "refetches pm [invalidate munkiRoot] k"
proof -
  have "prefix munkiRoot k"
    using assms(2)
    by (auto simp: munkiSoftwareKeys_defs munkiPackageKeys_defs munkiDistributionPointKeys_defs
        munkiClientResourceKeys_root_def)
  then show ?thesis using key_matchingD [OF assms(1), of munkiRoot k] by (simp add: munkiRoot_def)
qed

end
