(* ===== verification/QueryCatalog.thy ===== *)
theory QueryCatalog
  imports LiveQuery HostQueries OsqueryQueries SantaQueries MunkiQueries
begin

text \<open>
  Every query of the client, and the request its key stands for.  The cache identifies data by key
  alone, so two queries with one key must make one request; the table below reads the request off
  the key, which is the reason why they do.

  The two history queries are not in the catalogue: their request also depends on the current time,
  which \<open>historyBounds\<close> rounds to the refresh interval.
\<close>

lemmas delete_hooks =
  useDeleteHost_def useDeleteLabel_def useDeleteUser_def useDeletePolicy_def useDeleteReport_def
  useDeleteSantaConfiguration_def useDeleteSantaRule_def useDeleteMunkiPackage_def
  useDeleteMunkiSoftware_def useDeleteMunkiDistributionPoint_def

section \<open>The catalogue\<close>

inductive app_query :: "query_options \<Rightarrow> bool" where
  q_hostQueryOptions: "app_query (hostQueryOptions x y)"
| q_useHosts: "app_query (useHosts x y)"
| q_useHost: "app_query (useHost x y)"
| q_useHostMunkiState: "app_query (useHostMunkiState x)"
| q_useHostMunkiSoftware: "app_query (useHostMunkiSoftware x y)"
| q_useHostSantaState: "app_query (useHostSantaState x)"
| q_useHostSoftware: "app_query (useHostSoftware x y)"
| q_useHostOsqueryReports: "app_query (useHostOsqueryReports x y)"
| q_useHostOsqueryPolicies: "app_query (useHostOsqueryPolicies x y)"
| q_useHostSantaRules: "app_query (useHostSantaRules x y)"
| q_labelQueryOptions: "app_query (labelQueryOptions x)"
| q_useLabels: "app_query (useLabels x y)"
| q_useLabel: "app_query (useLabel x)"
| q_softwareTitleQueryOptions: "app_query (softwareTitleQueryOptions x y)"
| q_useSoftware: "app_query (useSoftware x y z)"
| q_useSoftwareTitle: "app_query (useSoftwareTitle x y)"
| q_useGroups: "app_query (useGroups x)"
| q_useGroup: "app_query (useGroup x)"
| q_sessionQueryOptions: "app_query (sessionQueryOptions)"
| q_accountQueryOptions: "app_query (accountQueryOptions)"
| q_useUsers: "app_query (useUsers x)"
| q_useUserDepartments: "app_query (useUserDepartments x)"
| q_userQueryOptions: "app_query (userQueryOptions x)"
| q_useUser: "app_query (useUser x)"
| q_useDirectorySync: "app_query (useDirectorySync x)"
| q_useAccount: "app_query (useAccount)"
| q_useActivity: "app_query (useActivity x)"
| q_useAgentSecrets: "app_query (useAgentSecrets x)"
| q_policyQueryOptions: "app_query (policyQueryOptions x)"
| q_usePolicies: "app_query (usePolicies x)"
| q_usePolicy: "app_query (usePolicy x)"
| q_usePolicyRemediationSource: "app_query (usePolicyRemediationSource x y)"
| q_usePolicyRemediationRun: "app_query (usePolicyRemediationRun x y)"
| q_usePolicyResults: "app_query (usePolicyResults x y z)"
| q_reportQueryOptions: "app_query (reportQueryOptions x)"
| q_useReports: "app_query (useReports x)"
| q_useReport: "app_query (useReport x)"
| q_useReportSnapshots: "app_query (useReportSnapshots x y z)"
| q_santaConfigurationQueryOptions: "app_query (santaConfigurationQueryOptions x)"
| q_useSantaConfigurations: "app_query (useSantaConfigurations x)"
| q_useSantaConfiguration: "app_query (useSantaConfiguration x)"
| q_santaRuleQueryOptions: "app_query (santaRuleQueryOptions x)"
| q_useSantaRules: "app_query (useSantaRules x)"
| q_useSantaRule: "app_query (useSantaRule x)"
| q_santaEventQueryOptions: "app_query (santaEventQueryOptions x)"
| q_santaFileAccessEventQueryOptions: "app_query (santaFileAccessEventQueryOptions x)"
| q_useSantaEvents: "app_query (useSantaEvents x)"
| q_useSantaEvent: "app_query (useSantaEvent x)"
| q_useSantaFileAccessEvents: "app_query (useSantaFileAccessEvents x)"
| q_useSantaFileAccessEvent: "app_query (useSantaFileAccessEvent x)"
| q_munkiPackageQueryOptions: "app_query (munkiPackageQueryOptions x)"
| q_useMunkiPackages: "app_query (useMunkiPackages x)"
| q_useMunkiPackage: "app_query (useMunkiPackage x)"
| q_munkiSoftwareQueryOptions: "app_query (munkiSoftwareQueryOptions x)"
| q_useMunkiSoftware: "app_query (useMunkiSoftware x)"
| q_useMunkiSoftwareDetail: "app_query (useMunkiSoftwareDetail x)"
| q_useMunkiIcons: "app_query (useMunkiIcons x)"
| q_munkiDistributionPointQueryOptions: "app_query (munkiDistributionPointQueryOptions x y)"
| q_useMunkiDistributionPoints: "app_query (useMunkiDistributionPoints x)"
| q_useMunkiDistributionPoint: "app_query (useMunkiDistributionPoint x y)"
| q_useLiveMunkiDistributionPoint: "app_query (useLiveMunkiDistributionPoint x)"
| q_useMunkiClientResources: "app_query (useMunkiClientResources)"
| q_useLiveQueryTargetCount: "app_query (useLiveQueryTargetCount x y)"

section \<open>Reading a request off a key\<close>

datatype key_pattern =
    PatStr js_string
  | PatId js_string
  | PatOptId js_string
  | PatParams
  | PatBody

fun match_key :: "key_pattern list \<Rightarrow> query_key \<Rightarrow> js_string \<Rightarrow> api_request option" where
  "match_key [] [] operation =
     Some \<lparr>rq_operation = operation, rq_path = [], rq_query = None, rq_body = None\<rparr>"
| "match_key (PatStr s # ps) (KStr t # ks) operation =
     (if s = t then match_key ps ks operation else None)"
| "match_key (PatId name # ps) (KInt i # ks) operation =
     map_option (\<lambda>r. r\<lparr>rq_path := (name, i) # rq_path r\<rparr>) (match_key ps ks operation)"
| "match_key (PatOptId name # ps) (KInt i # ks) operation =
     map_option (\<lambda>r. r\<lparr>rq_path := (name, i) # rq_path r\<rparr>) (match_key ps ks operation)"
| "match_key (PatOptId name # ps) (KNull # ks) operation =
     map_option (\<lambda>r. r\<lparr>rq_path := (name, 0) # rq_path r\<rparr>) (match_key ps ks operation)"
| "match_key (PatParams # ps) (KParams q # ks) operation =
     map_option (\<lambda>r. r\<lparr>rq_query := Some q\<rparr>) (match_key ps ks operation)"
| "match_key (PatBody # ps) (KJson j # ks) operation =
     map_option (\<lambda>r. r\<lparr>rq_body := Some j\<rparr>) (match_key ps ks operation)"
| "match_key _ _ _ = None"

definition key_routes :: "(key_pattern list \<times> js_string \<times> bool) list" where
  "key_routes = [
      ([PatStr ''hosts'', PatStr ''list'', PatParams], ''listHosts'', False),
      ([PatStr ''hosts'', PatStr ''detail'', PatId ''id''], ''getHost'', False),
      ([PatStr ''hosts'', PatStr ''detail'', PatId ''id'', PatStr ''software'', PatStr ''list'', PatParams], ''listHostSoftware'', False),
      ([PatStr ''hosts'', PatStr ''detail'', PatId ''id'', PatStr ''munki''], ''getHostMunkiState'', True),
      ([PatStr ''hosts'', PatStr ''detail'', PatId ''id'', PatStr ''munki'', PatStr ''software'', PatStr ''list'', PatParams], ''listHostMunkiSoftware'', False),
      ([PatStr ''hosts'', PatStr ''detail'', PatId ''id'', PatStr ''osquery'', PatStr ''reports'', PatParams], ''listHostOsqueryReports'', False),
      ([PatStr ''hosts'', PatStr ''detail'', PatId ''id'', PatStr ''osquery'', PatStr ''policies'', PatParams], ''listHostOsqueryPolicies'', False),
      ([PatStr ''hosts'', PatStr ''detail'', PatId ''id'', PatStr ''santa''], ''getHostSantaState'', True),
      ([PatStr ''hosts'', PatStr ''detail'', PatId ''id'', PatStr ''santa'', PatStr ''rules'', PatStr ''list'', PatParams], ''listHostSantaRules'', False),
      ([PatStr ''labels'', PatStr ''list'', PatParams], ''listLabels'', False),
      ([PatStr ''labels'', PatStr ''detail'', PatId ''id''], ''getLabel'', False),
      ([PatStr ''software'', PatStr ''list'', PatParams], ''listSoftware'', False),
      ([PatStr ''software'', PatStr ''detail'', PatId ''id''], ''getSoftware'', False),
      ([PatStr ''groups'', PatStr ''list'', PatParams], ''listGroups'', False),
      ([PatStr ''groups'', PatStr ''detail'', PatId ''id''], ''getGroup'', False),
      ([PatStr ''auth'', PatStr ''session''], ''getSession'', False),
      ([PatStr ''account''], ''getAccount'', False),
      ([PatStr ''users'', PatStr ''list'', PatParams], ''listUsers'', False),
      ([PatStr ''users'', PatStr ''detail'', PatId ''id''], ''getUser'', False),
      ([PatStr ''users'', PatStr ''departments'', PatStr ''list'', PatParams], ''listUserDepartments'', False),
      ([PatStr ''directory'', PatStr ''sync''], ''getDirectorySync'', False),
      ([PatStr ''activity'', PatStr ''list'', PatParams], ''listActivity'', False),
      ([PatStr ''agent-secrets''], ''listAgentSecrets'', False),
      ([PatStr ''osquery'', PatStr ''policies'', PatStr ''list'', PatParams], ''listOsqueryPolicies'', False),
      ([PatStr ''osquery'', PatStr ''policies'', PatStr ''detail'', PatId ''id''], ''getOsqueryPolicy'', False),
      ([PatStr ''osquery'', PatStr ''policies'', PatStr ''detail'', PatId ''id'', PatStr ''remediation-source''], ''getOsqueryPolicyRemediationSource'', False),
      ([PatStr ''osquery'', PatStr ''policies'', PatStr ''detail'', PatId ''id'', PatStr ''remediation'', PatOptId ''host_id''], ''getOsqueryPolicyRemediationRun'', True),
      ([PatStr ''osquery'', PatStr ''policies'', PatStr ''detail'', PatId ''id'', PatStr ''results'', PatParams], ''listOsqueryPolicyResults'', False),
      ([PatStr ''osquery'', PatStr ''reports'', PatStr ''list'', PatParams], ''listOsqueryReports'', False),
      ([PatStr ''osquery'', PatStr ''reports'', PatStr ''detail'', PatId ''id''], ''getOsqueryReport'', False),
      ([PatStr ''osquery'', PatStr ''reports'', PatStr ''detail'', PatId ''id'', PatStr ''snapshots'', PatParams], ''listOsqueryReportSnapshots'', False),
      ([PatStr ''osquery'', PatStr ''live-queries'', PatStr ''target-count'', PatBody], ''countLiveQueryTargets'', False),
      ([PatStr ''santa'', PatStr ''configurations'', PatStr ''list'', PatParams], ''listSantaConfigurations'', False),
      ([PatStr ''santa'', PatStr ''configurations'', PatStr ''detail'', PatId ''id''], ''getSantaConfiguration'', False),
      ([PatStr ''santa'', PatStr ''rules'', PatStr ''list'', PatParams], ''listSantaRules'', False),
      ([PatStr ''santa'', PatStr ''rules'', PatStr ''detail'', PatId ''id''], ''getSantaRule'', False),
      ([PatStr ''santa'', PatStr ''events'', PatStr ''executions'', PatStr ''list'', PatParams], ''listSantaEvents'', False),
      ([PatStr ''santa'', PatStr ''events'', PatStr ''executions'', PatStr ''detail'', PatId ''id''], ''getSantaEvent'', False),
      ([PatStr ''santa'', PatStr ''events'', PatStr ''file-access'', PatStr ''list'', PatParams], ''listSantaFileAccessEvents'', False),
      ([PatStr ''santa'', PatStr ''events'', PatStr ''file-access'', PatStr ''detail'', PatId ''id''], ''getSantaFileAccessEvent'', False),
      ([PatStr ''munki'', PatStr ''packages'', PatStr ''list'', PatParams], ''listMunkiPackages'', False),
      ([PatStr ''munki'', PatStr ''packages'', PatStr ''detail'', PatId ''id''], ''getMunkiPackage'', False),
      ([PatStr ''munki'', PatStr ''software'', PatStr ''list'', PatParams], ''listMunkiSoftware'', False),
      ([PatStr ''munki'', PatStr ''software'', PatStr ''detail'', PatId ''id''], ''getMunkiSoftware'', False),
      ([PatStr ''munki'', PatStr ''icons'', PatStr ''list'', PatParams], ''listMunkiIcons'', False),
      ([PatStr ''munki'', PatStr ''distribution-points'', PatStr ''list'', PatParams], ''listMunkiDistributionPoints'', False),
      ([PatStr ''munki'', PatStr ''distribution-points'', PatStr ''detail'', PatId ''id''], ''getMunkiDistributionPoint'', False),
      ([PatStr ''munki'', PatStr ''client-resources''], ''listMunkiClientResources'', False)]"

fun first_route ::
    "(key_pattern list \<times> js_string \<times> bool) list \<Rightarrow> query_key \<Rightarrow> (api_request \<times> bool) option" where
  "first_route [] k = None"
| "first_route ((ps, operation, null404) # rs) k =
     (case match_key ps k operation of
        Some r \<Rightarrow> Some (r, null404)
      | None \<Rightarrow> first_route rs k)"

lemmas app_query_defs =
  hostQueryOptions_def useHosts_def useHost_def
  useHostMunkiState_def useHostMunkiSoftware_def useHostSantaState_def
  useHostSoftware_def useHostOsqueryReports_def useHostOsqueryPolicies_def
  useHostSantaRules_def labelQueryOptions_def useLabels_def
  useLabel_def softwareTitleQueryOptions_def useSoftware_def
  useSoftwareTitle_def useGroups_def useGroup_def
  sessionQueryOptions_def accountQueryOptions_def useUsers_def
  useUserDepartments_def userQueryOptions_def useUser_def
  useDirectorySync_def useAccount_def useActivity_def
  useAgentSecrets_def policyQueryOptions_def usePolicies_def
  usePolicy_def usePolicyRemediationSource_def usePolicyRemediationRun_def
  usePolicyResults_def reportQueryOptions_def useReports_def
  useReport_def useReportSnapshots_def santaConfigurationQueryOptions_def
  useSantaConfigurations_def useSantaConfiguration_def santaRuleQueryOptions_def
  useSantaRules_def useSantaRule_def santaEventQueryOptions_def
  santaFileAccessEventQueryOptions_def useSantaEvents_def useSantaEvent_def
  useSantaFileAccessEvents_def useSantaFileAccessEvent_def munkiPackageQueryOptions_def
  useMunkiPackages_def useMunkiPackage_def munkiSoftwareQueryOptions_def
  useMunkiSoftware_def useMunkiSoftwareDetail_def useMunkiIcons_def
  munkiDistributionPointQueryOptions_def useMunkiDistributionPoints_def useMunkiDistributionPoint_def
  useLiveMunkiDistributionPoint_def useMunkiClientResources_def useLiveQueryTargetCount_def

lemmas app_key_defs =
  hostKeys_defs labelKeys_defs softwareKeys_defs groupKeys_defs userKeys_defs policyKeys_defs
  reportKeys_defs configurationKeys_defs ruleKeys_defs eventKeys_defs munkiPackageKeys_defs
  munkiSoftwareKeys_defs munkiDistributionPointKeys_defs munkiClientResourceKeys_root_def
  sessionKey_def accountKey_def directorySyncKey_def activityKeys_list_def agentSecretsQueryKey_def

lemma app_query_route:
  "app_query q \<Longrightarrow> first_route key_routes (qo_key q) = Some (qo_request q, qo_null_on_404 q)"
proof (induction rule: app_query.induct)
  case (q_usePolicyRemediationRun x y)
  show ?case
    by (cases y) (simp_all add: app_query_defs app_key_defs key_routes_def)
qed (simp_all add: app_query_defs app_key_defs key_routes_def Let_def)

lemma same_key_same_request:
  "app_query q \<Longrightarrow> app_query q' \<Longrightarrow> qo_key q = qo_key q' \<Longrightarrow>
     qo_request q = qo_request q' \<and> qo_null_on_404 q = qo_null_on_404 q'"
  using app_query_route [of q] app_query_route [of q'] by simp

section \<open>Every page asked for exists\<close>

lemmas query_params_defs =
  hostListQueryParams_def hostOsqueryReportsQueryParams_def hostOsqueryPoliciesQueryParams_def
  groupQueryParams_def userQueryParams_def baseUserQueryParams_def policyResultQueryParams_def
  reportSnapshotQueryParams_def packageQueryParams_def

lemma app_query_paged:
  "app_query q \<Longrightarrow> rq_query (qo_request q) = Some ps \<Longrightarrow>
     rq_operation (qo_request q) \<noteq> ''listActivity'' \<Longrightarrow> paged ps"
  by (induction rule: app_query.induct)
    (auto simp: app_query_defs query_params_defs Let_def)

end
