(* ===== verification/LiveRunner.thy ===== *)
theory LiveRunner
  imports LiveQuery
begin

text \<open>
  The run controller of \<open>web/src/features/osquery/live/live-runner.tsx\<close> (its state and handlers, the
  derived values, the rows it shows) and the navigation of \<open>web/src/features/osquery/live/history.ts\<close>.
\<close>

section \<open>The controller's state\<close>

datatype run_step = Targets | Run

text \<open>
  \<open>lr_stream\<close> is the state of \<open>useLiveQueryStream\<close>: it outlives a change of the live query id.  The
  requests issued are recorded in order.
\<close>

record runner =
  lr_step :: run_step
  lr_labels :: "int list"
  lr_hosts :: "int list"
  lr_id :: "int option"
  lr_target_count :: int
  lr_stop_requested :: bool
  lr_starting :: bool
  lr_stopping :: bool
  lr_stream :: live_state
  lr_requests :: "api_request list"

definition runner_init :: runner where
  "runner_init =
     \<lparr>lr_step = Targets, lr_labels = [], lr_hosts = [], lr_id = None, lr_target_count = 0,
      lr_stop_requested = False, lr_starting = False, lr_stopping = False,
      lr_stream = \<lparr>lv_stream = stream_init, lv_terminal = False, lv_aborted = True, lv_done = True\<rparr>,
      lr_requests = []\<rparr>"

record target_metrics =
  tgm_fetching :: bool
  tgm_online :: "int option"

abbreviation runner_status :: "runner \<Rightarrow> stream_status" where
  "runner_status s \<equiv> st_status (lv_stream (lr_stream s))"

definition hasTargets :: "runner \<Rightarrow> bool" where
  "hasTargets s \<longleftrightarrow> lr_labels s \<noteq> [] \<or> lr_hosts s \<noteq> []"

definition canRun :: "runner \<Rightarrow> target_metrics \<Rightarrow> bool" where
  "canRun s metrics \<longleftrightarrow>
     hasTargets s \<and> \<not> tgm_fetching metrics \<and> 0 < coalesce (tgm_online metrics) 0 \<and>
     \<not> lr_starting s \<and> runner_status s \<noteq> Running \<and> \<not> lr_stopping s"

definition runDisabled :: "runner \<Rightarrow> target_metrics \<Rightarrow> bool" where
  "runDisabled s metrics \<longleftrightarrow> \<not> canRun s metrics \<and> \<not> lr_starting s"

definition respondedCount :: "runner \<Rightarrow> nat" where
  "respondedCount s =
     length (filter (\<lambda>n. sn_status n = ''collected'' \<or> sn_status n = ''error'')
       (st_snapshots (lv_stream (lr_stream s))))"

text \<open>\<open>useEffect\<close> of the stream hook, when the id changes from \<open>old\<close> to \<open>new\<close>.\<close>

definition stream_effect ::
    "date_parse \<Rightarrow> locale_compare \<Rightarrow> int option \<Rightarrow> int option \<Rightarrow> live_state \<Rightarrow> live_state" where
  "stream_effect dp lc old new s =
     (if old = new then s
      else
        let s' = (if old = None then s else live_step dp lc s Cleanup)
        in case new of None \<Rightarrow> s' | Some _ \<Rightarrow> live_start (lv_stream s') dp lc)"

definition setLiveQueryId ::
    "date_parse \<Rightarrow> locale_compare \<Rightarrow> int option \<Rightarrow> runner \<Rightarrow> runner" where
  "setLiveQueryId dp lc i s =
     s\<lparr>lr_id := i, lr_stream := stream_effect dp lc (lr_id s) i (lr_stream s)\<rparr>"

definition int_list_json :: "int list \<Rightarrow> json" where
  "int_list_json ns = JArr (map (\<lambda>n. JNum (num_of_int n)) ns)"

definition targetSelection :: "runner \<Rightarrow> json" where
  "targetSelection s =
     JObj [(''hosts'', int_list_json (lr_hosts s)), (''labels'', int_list_json (lr_labels s))]"

text \<open>\<open>run\<close> up to the request, and what follows when the request succeeds or fails.\<close>

definition run_begin :: "js_string \<Rightarrow> runner \<Rightarrow> runner" where
  "run_begin sql s =
     s\<lparr>lr_stop_requested := False, lr_starting := True, lr_stopping := False,
       lr_requests := lr_requests s @
         [mu_request useCreateLiveQuery
            (JObj [(''sql'', JStr sql), (''selected'', targetSelection s)])]\<rparr>"

record live_handle =
  lh_id :: int
  lh_resolved_host_count :: int

definition run_created :: "date_parse \<Rightarrow> locale_compare \<Rightarrow> live_handle \<Rightarrow> runner \<Rightarrow> runner" where
  "run_created dp lc handle s =
     (setLiveQueryId dp lc (Some (lh_id handle))
        (s\<lparr>lr_starting := False, lr_target_count := lh_resolved_host_count handle\<rparr>))
       \<lparr>lr_step := Run\<rparr>"

definition run_failed :: "runner \<Rightarrow> runner" where
  "run_failed s = s\<lparr>lr_starting := False\<rparr>"

definition stopRun :: "runner \<Rightarrow> runner" where
  "stopRun s =
     (case lr_id s of
        None \<Rightarrow> s
      | Some i \<Rightarrow>
          s\<lparr>lr_stop_requested := True, lr_stopping := True,
            lr_requests := lr_requests s @ [mu_request useStopLiveQuery i]\<rparr>)"

definition stop_settled :: "runner \<Rightarrow> runner" where
  "stop_settled s = s\<lparr>lr_stopping := False\<rparr>"

definition backToTargets :: "date_parse \<Rightarrow> locale_compare \<Rightarrow> runner \<Rightarrow> runner" where
  "backToTargets dp lc s =
     (let requests =
        (case lr_id s of
           Some i \<Rightarrow> (if runner_status s = Running then [mu_request useStopLiveQuery i] else [])
         | None \<Rightarrow> [])
      in (setLiveQueryId dp lc None
            (s\<lparr>lr_step := Targets, lr_requests := lr_requests s @ requests\<rparr>))
           \<lparr>lr_target_count := 0, lr_stop_requested := False, lr_starting := False,
            lr_stopping := False\<rparr>)"

definition setTargets :: "int list \<Rightarrow> int list \<Rightarrow> runner \<Rightarrow> runner" where
  "setTargets labels hosts s = s\<lparr>lr_labels := labels, lr_hosts := hosts\<rparr>"

definition stream_input :: "date_parse \<Rightarrow> locale_compare \<Rightarrow> live_input \<Rightarrow> runner \<Rightarrow> runner" where
  "stream_input dp lc i s = s\<lparr>lr_stream := live_step dp lc (lr_stream s) i\<rparr>"

section \<open>Runs of the controller\<close>

datatype runner_event =
    EvTargets "int list" "int list"
  | EvRun js_string
  | EvCreated live_handle
  | EvCreateFailed
  | EvStop
  | EvStopSettled
  | EvBack
  | EvStream live_input

text \<open>
  A handle arrives only while a request is under way; the other events are those the view offers.
\<close>

inductive runner_step ::
    "date_parse \<Rightarrow> locale_compare \<Rightarrow> runner \<Rightarrow> runner_event \<Rightarrow> runner \<Rightarrow> bool" for dp lc where
  targets: "lr_step s = Targets \<Longrightarrow> runner_step dp lc s (EvTargets ls hs) (setTargets ls hs s)"
| run: "\<not> lr_starting s \<Longrightarrow> runner_status s \<noteq> Running \<Longrightarrow>
    runner_step dp lc s (EvRun sql) (run_begin sql s)"
| created: "lr_starting s \<Longrightarrow> runner_step dp lc s (EvCreated h) (run_created dp lc h s)"
| create_failed: "lr_starting s \<Longrightarrow> runner_step dp lc s EvCreateFailed (run_failed s)"
| stop: "lr_step s = Run \<Longrightarrow> runner_step dp lc s EvStop (stopRun s)"
| stop_settled: "lr_stopping s \<Longrightarrow> runner_step dp lc s EvStopSettled (stop_settled s)"
| go_back: "lr_step s = Run \<Longrightarrow> runner_step dp lc s EvBack (backToTargets dp lc s)"
| stream: "runner_step dp lc s (EvStream i) (stream_input dp lc i s)"

inductive runner_reachable :: "date_parse \<Rightarrow> locale_compare \<Rightarrow> runner \<Rightarrow> bool" for dp lc where
  init: "runner_reachable dp lc runner_init"
| step: "runner_reachable dp lc s \<Longrightarrow> runner_step dp lc s e s' \<Longrightarrow> runner_reachable dp lc s'"

inductive_cases runner_stepE: "runner_step dp lc s e s'"

text \<open>
  The results are shown only for a live query; without one the stream is detached: its loop is
  aborted, so its inputs are ignored.
\<close>

definition runner_inv :: "runner \<Rightarrow> bool" where
  "runner_inv s \<longleftrightarrow>
     (lr_step s = Run \<longrightarrow> lr_id s \<noteq> None) \<and>
     (lr_id s = None \<longrightarrow> lv_aborted (lr_stream s) \<and> \<not> lr_stop_requested s \<and> \<not> lr_stopping s \<and>
        lr_target_count s = 0) \<and>
     one_per_host (st_snapshots (lv_stream (lr_stream s)))"

lemma live_step_one_per_host:
  "one_per_host (st_snapshots (lv_stream s)) \<Longrightarrow>
     one_per_host (st_snapshots (lv_stream (live_step dp lc s i)))"
proof (induction dp lc s i rule: live_step.induct)
  case (1 dp lc s e)
  then show ?case by (cases e) (simp_all add: fail_def upsertSnapshot_one_per_host)
qed (simp_all add: fail_def)

lemma stream_effect_one_per_host:
  "one_per_host (st_snapshots (lv_stream s)) \<Longrightarrow>
     one_per_host (st_snapshots (lv_stream (stream_effect dp lc old new s)))"
  by (auto simp: stream_effect_def Let_def live_start_def one_per_host_def split: option.splits)

lemma runner_inv_init: "runner_inv runner_init"
  by (simp add: runner_inv_def runner_init_def stream_init_def one_per_host_def)

lemma runner_inv_step:
  assumes "runner_step dp lc s e s'" and "runner_inv s"
  shows "runner_inv s'"
  using assms
proof (cases rule: runner_step.cases)
  case (stream i)
  then show ?thesis
    using assms(2) live_step_one_per_host [of "lr_stream s" dp lc i] live_step_aborted [of "lr_stream s" dp lc i]
    by (auto simp: runner_inv_def stream_input_def)
next
  case go_back
  then show ?thesis
    using assms(2) stream_effect_one_per_host [of "lr_stream s" dp lc "lr_id s" None]
    by (auto simp: runner_inv_def backToTargets_def setLiveQueryId_def stream_effect_def Let_def)
next
  case (created h)
  then show ?thesis
    using assms(2) stream_effect_one_per_host [of "lr_stream s" dp lc "lr_id s" "Some (lh_id h)"]
    by (auto simp: runner_inv_def run_created_def setLiveQueryId_def)
qed (auto simp: runner_inv_def setTargets_def run_begin_def run_failed_def stopRun_def
    stop_settled_def split: option.splits)

lemma runner_reachable_inv: "runner_reachable dp lc s \<Longrightarrow> runner_inv s"
  by (induction rule: runner_reachable.induct) (simp_all add: runner_inv_init runner_inv_step)

subsection \<open>Returning to the target picker\<close>

text \<open>
  Going back stops a running query on the server and detaches the stream, but the stream keeps the
  status it had; the status is part of \<open>canRun\<close>.
\<close>

lemma back_status: "runner_status (backToTargets dp lc s) = runner_status s"
  by (simp add: backToTargets_def setLiveQueryId_def stream_effect_def Let_def)

lemma back_aborted: "lr_id s \<noteq> None \<Longrightarrow> lv_aborted (lr_stream (backToTargets dp lc s))"
  by (auto simp: backToTargets_def setLiveQueryId_def stream_effect_def Let_def)

lemma back_pending [simp]:
  "\<not> lr_starting (backToTargets dp lc s)" "\<not> lr_stopping (backToTargets dp lc s)"
  by (simp_all add: backToTargets_def Let_def)

text \<open>The events the target picker still receives: new targets, and what the old stream delivers.\<close>

fun picker_event :: "date_parse \<Rightarrow> locale_compare \<Rightarrow> runner \<Rightarrow> runner_event \<Rightarrow> runner" where
  "picker_event dp lc s (EvTargets ls hs) = setTargets ls hs s"
| "picker_event dp lc s (EvStream i) = stream_input dp lc i s"
| "picker_event dp lc s _ = s"

lemma picker_events_keep:
  assumes "lv_aborted (lr_stream s)"
  shows "runner_status (foldl (picker_event dp lc) s es) = runner_status s
    \<and> lr_starting (foldl (picker_event dp lc) s es) = lr_starting s
    \<and> lr_stopping (foldl (picker_event dp lc) s es) = lr_stopping s"
  using assms
proof (induction es arbitrary: s)
  case (Cons e es)
  have "lv_aborted (lr_stream (picker_event dp lc s e))"
    "runner_status (picker_event dp lc s e) = runner_status s"
    "lr_starting (picker_event dp lc s e) = lr_starting s"
    "lr_stopping (picker_event dp lc s e) = lr_stopping s"
    using Cons.prems live_step_aborted [of "lr_stream s" dp lc]
    by (cases e; simp add: setTargets_def stream_input_def)+
  with Cons.IH show ?case by simp
qed simp

lemma back_can_run:
  assumes "lr_id s \<noteq> None"
  shows "canRun (foldl (picker_event dp lc) (backToTargets dp lc s) es) metrics \<longleftrightarrow>
    hasTargets (foldl (picker_event dp lc) (backToTargets dp lc s) es) \<and>
    \<not> tgm_fetching metrics \<and> 0 < coalesce (tgm_online metrics) 0 \<and> runner_status s \<noteq> Running"
  using picker_events_keep [OF back_aborted [OF assms], where es = es] back_status [of dp lc s]
  by (simp add: canRun_def)

section \<open>What is shown\<close>

text \<open>\<open>Math.round(x * 100)\<close> of the share of online targets.\<close>

definition onlinePercent :: "int option \<Rightarrow> int option \<Rightarrow> int" where
  "onlinePercent count online =
     (if coalesce count 0 = 0 then 0
      else \<lfloor>of_int (coalesce online 0) / of_int (coalesce count 0) * 100 + (1 / 2 :: rat)\<rfloor>)"

definition status_text :: "stream_status \<Rightarrow> js_string" where
  "status_text st =
     (case st of Idle \<Rightarrow> ''idle'' | Running \<Rightarrow> ''running'' | Completed \<Rightarrow> ''completed'' | Error \<Rightarrow> ''error'')"

definition runHeading :: "js_string \<Rightarrow> bool \<Rightarrow> js_string" where
  "runHeading status stopped =
     (if status = ''running'' then ''Running''
      else if stopped then ''Stopped''
      else if status = ''completed'' then ''Finished''
      else if status = ''error'' then ''Stream Interrupted''
      else ''Starting'')"

record report_row =
  rr_host_id :: int
  rr_host_name :: js_string
  rr_status :: js_string
  rr_rows :: "json list"
  rr_result_row_count :: nat
  rr_returned_row_count :: nat
  rr_updated_at :: "js_string option"
  rr_error :: "js_string option"

definition responded_at :: "snapshot \<Rightarrow> js_string option" where
  "responded_at n =
     (if sn_status n = ''collected'' \<or> sn_status n = ''error'' then Some (sn_updated_at n) else None)"

definition reportResultFromSnapshot :: "snapshot \<Rightarrow> report_row" where
  "reportResultFromSnapshot n =
     \<lparr>rr_host_id = sn_host_id n, rr_host_name = sn_host_name n, rr_status = sn_status n,
      rr_rows = sn_rows n, rr_result_row_count = length (sn_rows n),
      rr_returned_row_count = length (sn_rows n), rr_updated_at = responded_at n,
      rr_error = sn_error n\<rparr>"

record policy_row =
  pr_host_id :: int
  pr_host_name :: js_string
  pr_status :: js_string
  pr_updated_at :: "js_string option"
  pr_error :: "js_string option"

definition policyResultFromSnapshot :: "snapshot \<Rightarrow> policy_row" where
  "policyResultFromSnapshot n =
     \<lparr>pr_host_id = sn_host_id n, pr_host_name = sn_host_name n,
      pr_status =
        (if sn_status n = ''collected'' then (if 0 < length (sn_rows n) then ''pass'' else ''fail'')
         else sn_status n),
      pr_updated_at = responded_at n, pr_error = sn_error n\<rparr>"

lemma onlinePercent_bounds:
  assumes "0 \<le> coalesce online 0" and "coalesce online 0 \<le> coalesce count 0"
  shows "0 \<le> onlinePercent count online \<and> onlinePercent count online \<le> 100"
proof (cases "coalesce count 0 = 0")
  case False
  define p where "p = (of_int (coalesce online 0) / of_int (coalesce count 0) :: rat)"
  from False assms have "0 < (of_int (coalesce count 0) :: rat)" by simp
  with assms have "0 \<le> p" "p \<le> 1" by (simp_all add: p_def divide_le_eq)
  then have "0 \<le> \<lfloor>p * 100 + 1 / 2\<rfloor>" and "\<lfloor>p * 100 + 1 / 2\<rfloor> < 101" by (simp, linarith)
  with False show ?thesis by (simp add: onlinePercent_def p_def)
qed (simp add: onlinePercent_def)

section \<open>\<open>history.ts\<close>\<close>

text \<open>
  A history entry is its location and the \<open>osquery\<close> part of its state; the forms are a parameter.
  The navigations are the commands given to the router, in order.
\<close>

datatype 'f osquery_state =
    FormState 'f
  | LiveState js_string js_string

record 'f history_entry =
  he_path :: js_string
  he_params :: "(js_string \<times> int) list"
  he_osquery :: "'f osquery_state option"

type_synonym 'f history = "'f history_entry list"

definition replace_state :: "'f osquery_state option \<Rightarrow> 'f history \<Rightarrow> 'f history" where
  "replace_state st h = (case h of [] \<Rightarrow> [] | e # es \<Rightarrow> e\<lparr>he_osquery := st\<rparr> # es)"

definition push_live ::
    "js_string \<Rightarrow> (js_string \<times> int) list \<Rightarrow> js_string \<Rightarrow> js_string \<Rightarrow> 'f history \<Rightarrow> 'f history" where
  "push_live path params kind sql h =
     \<lparr>he_path = path, he_params = params, he_osquery = Some (LiveState kind sql)\<rparr> # h"

definition useOpenOsqueryLive ::
    "js_string \<Rightarrow> js_string \<Rightarrow> int option \<Rightarrow> 'f option \<Rightarrow> 'f history \<Rightarrow> 'f history" where
  "useOpenOsqueryLive kind sql i form h =
     (let h' = (case form of Some f \<Rightarrow> replace_state (Some (FormState f)) h | None \<Rightarrow> h)
      in if kind = ''report'' then
           (case i of
              None \<Rightarrow> push_live ''/osquery/reports/new/live'' [] kind sql h'
            | Some n \<Rightarrow> push_live ''/osquery/reports/$id/live'' [(''id'', n)] kind sql h')
         else
           (case i of
              None \<Rightarrow> push_live ''/osquery/policies/new/live'' [] kind sql h'
            | Some n \<Rightarrow> push_live ''/osquery/policies/$id/live'' [(''id'', n)] kind sql h'))"

definition useClearOsqueryHistoryState :: "'f history \<Rightarrow> 'f history" where
  "useClearOsqueryHistoryState h =
     (case h of
        [] \<Rightarrow> []
      | e # es \<Rightarrow> if he_osquery e = None then h else replace_state None h)"

text \<open>Going back from the live page finds the form as it was left.\<close>

lemma open_live_back:
  assumes "h = e # es"
  shows "tl (useOpenOsqueryLive kind sql i form h) =
    (case form of Some f \<Rightarrow> e\<lparr>he_osquery := Some (FormState f)\<rparr> # es | None \<Rightarrow> h)"
  using assms
  by (simp add: useOpenOsqueryLive_def replace_state_def push_live_def Let_def split: option.splits)

end
