(* ===== verification/Navigation.thy ===== *)
theory Navigation
  imports HostQueries
begin

text \<open>
  Navigation and access: \<open>web/src/components/layout/navigation.ts\<close> and \<open>nav-config.ts\<close>, the route
  guards \<open>web/src/features/authn/guards.ts\<close> and the login and logout mutations of
  \<open>web/src/features/authn/queries.ts\<close>.

  The permission test \<open>can\<close> of the authorisation package is a parameter, as is \<open>canAll\<close>.
\<close>

section \<open>\<open>navigation.ts\<close>\<close>

type_synonym requirement = "js_string \<times> js_string"

type_synonym 'p permission_test = "'p option \<Rightarrow> requirement \<Rightarrow> bool"

datatype nav_item =
  NavItem
    (ni_label: js_string)
    (ni_to: "js_string option")
    (ni_exact: bool)
    (ni_disabled: bool)
    (ni_permission: "requirement option")
    (ni_items: "nav_item list option")

text \<open>\<open>if (target) return target\<close>, else what follows.\<close>

definition or_target :: "js_string option \<Rightarrow> js_string option \<Rightarrow> js_string option" where
  "or_target target rest =
     (case target of Some t \<Rightarrow> if t \<noteq> [] then Some t else rest | None \<Rightarrow> rest)"

fun firstNavigationTarget :: "nav_item list \<Rightarrow> js_string option" where
  "firstNavigationTarget [] = None"
| "firstNavigationTarget (NavItem label to exact disabled permission children # items) =
     or_target
       (case to of
          Some t \<Rightarrow> Some t
        | None \<Rightarrow> (case children of None \<Rightarrow> None | Some cs \<Rightarrow> firstNavigationTarget cs))
       (firstNavigationTarget items)"

fun filterNavigation :: "'p permission_test \<Rightarrow> 'p option \<Rightarrow> nav_item list \<Rightarrow> nav_item list" where
  "filterNavigation can perms [] = []"
| "filterNavigation can perms (NavItem label to exact disabled permission children # items) =
     (if disabled then []
      else
        (let children' =
               (case children of None \<Rightarrow> None | Some cs \<Rightarrow> Some (filterNavigation can perms cs));
             allowed = (case permission of Some p \<Rightarrow> can perms p | None \<Rightarrow> children = None)
         in if \<not> allowed \<and> (children' = None \<or> children' = Some []) then []
            else [NavItem label
                    (if allowed then to else firstNavigationTarget (coalesce children' []))
                    exact disabled permission children']))
     @ filterNavigation can perms items"

subsection \<open>The first target is the first leaf the permissions grant\<close>

text \<open>
  The leaves of a menu, in order, and the shape of the menus of the program: a leaf has a target and
  a permission, a group has neither permission nor a target of its own to keep.
\<close>

fun nav_leaves :: "nav_item list \<Rightarrow> (js_string \<times> requirement) list" where
  "nav_leaves [] = []"
| "nav_leaves (NavItem label to exact disabled permission children # items) =
     (if disabled then []
      else
        (case children of
           Some cs \<Rightarrow> nav_leaves cs
         | None \<Rightarrow> (case (to, permission) of (Some t, Some r) \<Rightarrow> [(t, r)] | _ \<Rightarrow> [])))
     @ nav_leaves items"

fun nav_ok :: "nav_item list \<Rightarrow> bool" where
  "nav_ok [] = True"
| "nav_ok (NavItem label to exact disabled permission children # items) =
     ((case children of
         Some cs \<Rightarrow> permission = None \<and> nav_ok cs
       | None \<Rightarrow> to \<noteq> None \<and> to \<noteq> Some [] \<and> permission \<noteq> None)
      \<and> nav_ok items)"

definition first_granted ::
    "'p permission_test \<Rightarrow> 'p option \<Rightarrow> (js_string \<times> requirement) list \<Rightarrow> js_string option" where
  "first_granted can perms entries = map_option fst (find (\<lambda>(t, r). can perms r) entries)"

lemma first_granted_simps [simp]:
  "first_granted can perms [] = None"
  "first_granted can perms (e # es) =
     (if can perms (snd e) then Some (fst e) else first_granted can perms es)"
  by (simp_all add: first_granted_def case_prod_beta)

lemma first_granted_append:
  "first_granted can perms (xs @ ys) =
     (case first_granted can perms xs of Some t \<Rightarrow> Some t | None \<Rightarrow> first_granted can perms ys)"
  by (induction xs) auto

lemma nav_leaves_targets: "nav_ok items \<Longrightarrow> (t, r) \<in> set (nav_leaves items) \<Longrightarrow> t \<noteq> []"
  by (induction items rule: nav_leaves.induct) (auto split: option.splits if_splits)

lemma first_granted_mem:
  "first_granted can perms es = Some t \<Longrightarrow> \<exists>r. (t, r) \<in> set es \<and> can perms r"
proof (induction es)
  case (Cons e es)
  show ?case
  proof (cases "can perms (snd e)")
    case True
    with Cons(2) have "(t, snd e) = e" by auto
    with True show ?thesis by (metis list.set_intros(1))
  next
    case False
    with Cons(2) have "first_granted can perms es = Some t" by simp
    with Cons(1) show ?thesis by (metis list.set_intros(2))
  qed
qed simp

lemma first_granted_None:
  "first_granted can perms es = None \<longleftrightarrow> (\<forall>(t, r) \<in> set es. \<not> can perms r)"
  by (induction es) (auto simp: case_prod_beta simp del: split_paired_All)

lemma first_granted_nonempty:
  "nav_ok items \<Longrightarrow> first_granted can perms (nav_leaves items) = Some t \<Longrightarrow> t \<noteq> []"
  using first_granted_mem nav_leaves_targets by metis

lemma or_target_simps [simp]:
  "or_target None rest = rest"
  "t \<noteq> [] \<Longrightarrow> or_target (Some t) rest = Some t"
  by (simp_all add: or_target_def)

lemma filterNavigation_first:
  assumes "nav_ok items"
  shows "firstNavigationTarget (filterNavigation can perms items)
           = first_granted can perms (nav_leaves items)
       \<and> (filterNavigation can perms items = []
           \<longleftrightarrow> first_granted can perms (nav_leaves items) = None)"
  using assms
proof (induction can perms items rule: filterNavigation.induct)
  case (2 can perms label to exact disabled permission children items)
  show ?case
  proof (cases children)
    case None
    with 2(3) obtain t r where "to = Some t" "t \<noteq> []" "permission = Some r" by auto
    with None 2 show ?thesis by (auto simp: first_granted_append)
  next
    case (Some cs)
    show ?thesis
    proof (cases "disabled")
      case True
      with 2 Some show ?thesis by simp
    next
      case False
      with 2 Some have cs: "firstNavigationTarget (filterNavigation can perms cs)
            = first_granted can perms (nav_leaves cs)"
          "filterNavigation can perms cs = [] \<longleftrightarrow> first_granted can perms (nav_leaves cs) = None"
        and ok: "nav_ok cs" by auto
      show ?thesis
      proof (cases "first_granted can perms (nav_leaves cs)")
        case None
        with 2 Some False cs show ?thesis by (simp add: first_granted_append)
      next
        case t: (Some t)
        then have "t \<noteq> []" using first_granted_nonempty [OF ok] by blast
        with 2 Some False cs t show ?thesis by (simp add: first_granted_append)
      qed
    qed
  qed
qed simp

lemma filterNavigation_append:
  "filterNavigation can perms (xs @ ys) = filterNavigation can perms xs @ filterNavigation can perms ys"
proof (induction xs)
  case (Cons x xs)
  then show ?case by (cases x) simp
qed simp

section \<open>\<open>nav-config.ts\<close>\<close>

record nav_menu =
  nm_label :: js_string
  nm_items :: "nav_item list"

record 'p account =
  ac_permissions :: 'p

definition navSections :: "nav_menu list" where
  "navSections = [
     \<lparr>nm_label = ''Inventory'', nm_items = [
        NavItem ''Hosts'' (Some ''/hosts'') False False (Some (''hosts'', ''view'')) None,
        NavItem ''Software'' (Some ''/software'') False False (Some (''software'', ''view'')) None]\<rparr>,
     \<lparr>nm_label = ''Integrations'', nm_items = [
        NavItem ''osquery'' (Some ''/osquery'') True False None 
          (Some [
            NavItem ''Overview'' (Some ''/osquery'') True False (Some (''osquery.overview'', ''view'')) None,
            NavItem ''Reports'' (Some ''/osquery/reports'') False False (Some (''osquery.reports'', ''view'')) None,
            NavItem ''Policies'' (Some ''/osquery/policies'') False False (Some (''osquery.policies'', ''view'')) None]),
        NavItem ''Santa'' (Some ''/santa'') True False None 
          (Some [
            NavItem ''Overview'' (Some ''/santa'') True False (Some (''santa.configurations'', ''view'')) None,
            NavItem ''Configurations'' (Some ''/santa/configurations'') False False (Some (''santa.configurations'', ''view'')) None,
            NavItem ''Rules'' (Some ''/santa/rules'') False False (Some (''santa.rules'', ''view'')) None,
            NavItem ''Events'' (Some ''/santa/events'') False False (Some (''santa.events'', ''view'')) None]),
        NavItem ''Munki'' (Some ''/munki'') True False None 
          (Some [
            NavItem ''Overview'' (Some ''/munki'') True False (Some (''munki.software'', ''view'')) None,
            NavItem ''Software'' (Some ''/munki/software'') False False (Some (''munki.software'', ''view'')) None,
            NavItem ''Packages'' (Some ''/munki/packages'') False False (Some (''munki.packages'', ''view'')) None,
            NavItem ''Distribution Points'' (Some ''/munki/distribution-points'') False False (Some (''munki.distribution-points'', ''view'')) None,
            NavItem ''Client Resources'' (Some ''/munki/client-resources'') False False (Some (''munki.client-resources'', ''view'')) None])]\<rparr>,
     \<lparr>nm_label = ''System'', nm_items = [
        NavItem ''Directory'' (Some ''/directory'') True False None 
          (Some [
            NavItem ''Overview'' (Some ''/directory'') True False (Some (''directory'', ''view'')) None,
            NavItem ''Users'' (Some ''/directory/users'') False False (Some (''users'', ''view'')) None,
            NavItem ''Groups'' (Some ''/directory/groups'') False False (Some (''groups'', ''view'')) None]),
        NavItem ''Labels'' (Some ''/labels'') False False (Some (''labels'', ''view'')) None]\<rparr>]"


definition visibleNavSections ::
    "'p permission_test \<Rightarrow> 'p account option \<Rightarrow> nav_menu list" where
  "visibleNavSections can account =
     filter (\<lambda>section. nm_items section \<noteq> [])
       (map (\<lambda>section. section\<lparr>nm_items :=
               filterNavigation can (map_option ac_permissions account) (nm_items section)\<rparr>)
          navSections)"

definition firstAccessiblePath :: "'p permission_test \<Rightarrow> 'p account option \<Rightarrow> js_string option" where
  "firstAccessiblePath can account =
     firstNavigationTarget (concat (map nm_items (visibleNavSections can account)))"

definition nav_entries :: "(js_string \<times> requirement) list" where
  "nav_entries = nav_leaves (concat (map nm_items navSections))"

lemma concat_filter_nonempty: "concat (filter (\<lambda>xs. xs \<noteq> []) xss) = concat xss"
  by (induction xss) auto

lemma filterNavigation_concat:
  "concat (map (filterNavigation can perms) xss) = filterNavigation can perms (concat xss)"
  by (induction xss) (simp_all add: filterNavigation_append)

lemma visibleNavSections_items:
  "concat (map nm_items (visibleNavSections can account)) =
     filterNavigation can (map_option ac_permissions account) (concat (map nm_items navSections))"
proof -
  have "map nm_items (filter (\<lambda>section. nm_items section \<noteq> []) ss)
      = filter (\<lambda>xs. xs \<noteq> []) (map nm_items ss)" for ss :: "nav_menu list"
    by (induction ss) auto
  then show ?thesis
    by (simp add: visibleNavSections_def concat_filter_nonempty comp_def
        flip: filterNavigation_concat)
qed

lemma navSections_ok: "nav_ok (concat (map nm_items navSections))"
  by code_simp

lemma firstAccessiblePath_granted:
  "firstAccessiblePath can account = first_granted can (map_option ac_permissions account) nav_entries"
  unfolding firstAccessiblePath_def visibleNavSections_items nav_entries_def
  using filterNavigation_first [OF navSections_ok] by (rule conjunct1)

section \<open>\<open>authn/guards.ts\<close>\<close>

record 'u session_body =
  sb_user :: "'u option"

text \<open>How a guard ends when it does not return: a redirect, the caller's own handler, an error.\<close>

datatype 'f guard_exit = RedirectTo js_string | OnForbidden 'f | GuardError thrown

definition landing_path :: "'p permission_test \<Rightarrow> 'p account \<Rightarrow> js_string" where
  "landing_path can account = coalesce (firstAccessiblePath can (Some account)) ''/account''"

definition requireUser :: "thrown + 'u session_body \<Rightarrow> 'f guard_exit + 'u" where
  "requireUser session =
     (case session of
        Inl e \<Rightarrow> Inl (GuardError e)
      | Inr s \<Rightarrow> (case sb_user s of None \<Rightarrow> Inl (RedirectTo ''/login'') | Some u \<Rightarrow> Inr u))"

definition requirePermissions ::
    "'p permission_test \<Rightarrow> ('p \<Rightarrow> requirement list \<Rightarrow> bool) \<Rightarrow> thrown + 'p account \<Rightarrow>
     requirement list \<Rightarrow> 'f option \<Rightarrow> 'f guard_exit + unit" where
  "requirePermissions can canAll account requirements onForbidden =
     (case account of
        Inl e \<Rightarrow> Inl (GuardError e)
      | Inr a \<Rightarrow>
          if canAll (ac_permissions a) requirements then Inr ()
          else (case onForbidden of
                  Some f \<Rightarrow> Inl (OnForbidden f)
                | None \<Rightarrow> Inl (RedirectTo (landing_path can a))))"

definition requirePermission ::
    "'p permission_test \<Rightarrow> ('p \<Rightarrow> requirement list \<Rightarrow> bool) \<Rightarrow> thrown + 'p account \<Rightarrow>
     requirement \<Rightarrow> 'f option \<Rightarrow> 'f guard_exit + unit" where
  "requirePermission can canAll account requirement onForbidden =
     requirePermissions can canAll account [requirement] onForbidden"

definition redirectForEntry ::
    "'p permission_test \<Rightarrow> thrown + 'u session_body \<Rightarrow> thrown + 'p account \<Rightarrow>
     'f guard_exit + unit" where
  "redirectForEntry can session account =
     (case session of
        Inl e \<Rightarrow> Inl (GuardError e)
      | Inr s \<Rightarrow>
          if sb_user s = None then Inl (RedirectTo ''/login'')
          else (case account of
                  Inl e \<Rightarrow> Inl (GuardError e)
                | Inr a \<Rightarrow> Inl (RedirectTo (landing_path can a))))"

definition redirectAuthenticatedFromLogin ::
    "'p permission_test \<Rightarrow> thrown + 'u session_body \<Rightarrow> thrown + 'p account \<Rightarrow>
     'f guard_exit + unit" where
  "redirectAuthenticatedFromLogin can session account =
     (case session of
        Inl e \<Rightarrow> Inl (GuardError e)
      | Inr s \<Rightarrow>
          if sb_user s = None then Inr ()
          else (case account of
                  Inl e \<Rightarrow> Inl (GuardError e)
                | Inr a \<Rightarrow> Inl (RedirectTo (landing_path can a))))"

text \<open>The pages a redirect may lead to: the login page, the account page, or a granted entry.\<close>

definition redirect_ok :: "'p permission_test \<Rightarrow> 'p option \<Rightarrow> js_string \<Rightarrow> bool" where
  "redirect_ok can perms path \<longleftrightarrow>
     path = ''/account'' \<or> (\<exists>r. (path, r) \<in> set nav_entries \<and> can perms r)"

lemma landing_path_ok: "redirect_ok can (Some (ac_permissions a)) (landing_path can a)"
proof (cases "firstAccessiblePath can (Some a)")
  case (Some t)
  then have "\<exists>r. (t, r) \<in> set nav_entries \<and> can (Some (ac_permissions a)) r"
    by (intro first_granted_mem) (simp add: firstAccessiblePath_granted)
  with Some show ?thesis by (simp add: redirect_ok_def landing_path_def)
qed (simp add: redirect_ok_def landing_path_def)

text \<open>A guard that redirects an account redirects to a page the account may open.\<close>

definition guard_ok :: "'p permission_test \<Rightarrow> thrown + 'p account \<Rightarrow> 'f guard_exit + 'a \<Rightarrow> bool" where
  "guard_ok can account exit \<longleftrightarrow>
     (case exit of
        Inl (RedirectTo path) \<Rightarrow> (\<exists>a. account = Inr a \<and> redirect_ok can (Some (ac_permissions a)) path)
      | _ \<Rightarrow> True)"

section \<open>Login and logout\<close>

definition useLogout :: "(unit, unit) mutation" where
  "useLogout =
     simple_mutation
       (\<lambda>_. get_request ''deleteSession'' [] None)
       (\<lambda>_ _. [ClearCache, Navigate ''/login''])"

definition useLogin :: "'p permission_test \<Rightarrow> 'p account \<Rightarrow> (json, json) mutation" where
  "useLogin can account =
     \<lparr>mu_request = (\<lambda>body. body_request ''createSession'' [] body),
      mu_onSuccess = (\<lambda>_ _.
        [invalidate sessionKey, FetchQuery accountKey, Navigate (landing_path can account)]),
      mu_onError = None,
      mu_inline_error = True\<rparr>"

end
