(* ===== verification/Metadata.thy ===== *)
theory Metadata
  imports Params
begin

text \<open>
  The enumerations of the API and their labels: \<open>web/src/lib/enum-metadata.ts\<close> and the metadata tables
  of the Santa, Munki, osquery, label, directory and activity features, with the small functions
  those files hold.

  A metadata record is the association list of its properties; reading the label of a value that has
  no entry throws, which is \<open>None\<close>.
\<close>

section \<open>\<open>enum-metadata.ts\<close>\<close>

record enum_label =
  el_name :: js_string
  el_description :: "js_string option"
  el_variant :: "js_string option"

type_synonym metadata = "(js_string \<times> enum_label) list"

abbreviation enum_label :: "js_string \<Rightarrow> js_string option \<Rightarrow> js_string option \<Rightarrow> enum_label" where
  "enum_label n d v \<equiv> \<lparr>el_name = n, el_description = d, el_variant = v\<rparr>"

definition enumLabel :: "metadata \<Rightarrow> js_string \<Rightarrow> js_string option" where
  "enumLabel metadata value = map_option el_name (map_of metadata value)"

definition enumOptions ::
    "metadata \<Rightarrow> js_string list \<Rightarrow> (js_string \<times> js_string) list option" where
  "enumOptions metadata values =
     those (map (\<lambda>value. map_option (\<lambda>label. (value, label)) (enumLabel metadata value)) values)"

text \<open>A list of choices with one labelled option per value.\<close>

definition offered :: "metadata \<Rightarrow> js_string list \<Rightarrow> bool" where
  "offered metadata choices \<longleftrightarrow>
     (case enumOptions metadata choices of
        None \<Rightarrow> False
      | Some opts \<Rightarrow> map fst opts = choices \<and> distinct choices \<and>
          list_all (\<lambda>(v, l). enumLabel metadata v = Some l) opts)"

text \<open>What every enumeration promises its pickers: no value twice, and a label for each.\<close>

locale enum_meta =
  fixes metadata :: metadata
    and "values" :: "js_string list"
  assumes distinct_values: "distinct values"
    and labelled: "list_all (\<lambda>v. map_of metadata v \<noteq> None) values"
begin

lemma label_exists: "v \<in> set values \<Longrightarrow> \<exists>l. enumLabel metadata v = Some l"
  using labelled by (auto simp: enumLabel_def list_all_iff)

lemma options_exist:
  "\<exists>opts. enumOptions metadata values = Some opts \<and> map fst opts = values
     \<and> (\<forall>(v, l) \<in> set opts. enumLabel metadata v = Some l)"
proof -
  have "\<exists>opts. enumOptions metadata vs = Some opts \<and> map fst opts = vs
      \<and> (\<forall>(v, l) \<in> set opts. enumLabel metadata v = Some l)" if "set vs \<subseteq> set values" for vs
    using that
  proof (induction vs)
    case (Cons v vs)
    from Cons obtain opts where "enumOptions metadata vs = Some opts" "map fst opts = vs"
        "\<forall>(v, l) \<in> set opts. enumLabel metadata v = Some l" by auto
    moreover obtain l where "enumLabel metadata v = Some l" using Cons.prems label_exists [of v] by auto
    ultimately show ?case by (auto simp: enumOptions_def)
  qed (simp add: enumOptions_def)
  then show ?thesis by simp
qed

lemma offered: "offered metadata values"
  using options_exist distinct_values by (auto simp: offered_def list_all_iff)

lemma option_lookup:
  assumes "enumOptions metadata values = Some opts"
  shows "v \<in> set values \<Longrightarrow> map_of opts v = enumLabel metadata v" and "distinct (map fst opts)"
proof -
  obtain opts' where o: "enumOptions metadata values = Some opts'" "map fst opts' = values"
      "\<forall>(v, l) \<in> set opts'. enumLabel metadata v = Some l"
    using options_exist by blast
  with assms show d: "distinct (map fst opts)" using distinct_values by simp
  assume "v \<in> set values"
  with o assms obtain l where "(v, l) \<in> set opts" by auto
  with o(1,3) assms d show "map_of opts v = enumLabel metadata v" by auto
qed

end

section \<open>\<open>santa/configurations/metadata.ts\<close>\<close>

definition CLIENT_MODE_VALUES :: "js_string list" where
  "CLIENT_MODE_VALUES =
     [''monitor'', ''lockdown'', ''standalone'']"

definition CLIENT_MODES :: metadata where
  "CLIENT_MODES = [
     (''unknown'', enum_label ''Unknown'' (Some ''The host has not reported a Santa client mode yet.'') (Some ''default'')),
     (''monitor'', enum_label ''Monitor'' (Some ''Santa records decisions but does not block unknown executions.'') (Some ''success'')),
     (''lockdown'', enum_label ''Lockdown'' (Some ''Santa blocks unknown executions unless a matching allow rule applies.'') (Some ''error'')),
     (''standalone'', enum_label ''Standalone'' (Some ''Santa is enforcing local configuration without server-managed sync.'') (Some ''default''))]"

definition CLIENT_MODE_OPTIONS :: "(js_string \<times> js_string) list option" where
  "CLIENT_MODE_OPTIONS = enumOptions CLIENT_MODES CLIENT_MODE_VALUES"

definition MEDIA_ACTION_VALUES :: "js_string list" where
  "MEDIA_ACTION_VALUES =
     [''none'', ''allow'', ''block'', ''remount'']"

definition MEDIA_ACTIONS :: metadata where
  "MEDIA_ACTIONS = [
     (''none'', enum_label ''No Policy'' (Some ''No policy is sent for this volume type.'') None),
     (''allow'', enum_label ''Allow'' (Some ''Allow the volume to mount normally.'') None),
     (''block'', enum_label ''Block'' (Some ''Prevent the volume from mounting.'') None),
     (''remount'', enum_label ''Remount'' (Some ''Mount the volume again with selected restrictions.'') None)]"

definition MEDIA_ACTION_OPTIONS :: "(js_string \<times> js_string) list option" where
  "MEDIA_ACTION_OPTIONS = enumOptions MEDIA_ACTIONS MEDIA_ACTION_VALUES"

definition FILE_ACCESS_ACTION_VALUES :: "js_string list" where
  "FILE_ACCESS_ACTION_VALUES =
     [''none'', ''audit_only'', ''disable'']"

definition FILE_ACCESS_ACTIONS :: metadata where
  "FILE_ACCESS_ACTIONS = [
     (''none'', enum_label ''No Override'' (Some ''Enforce each file access rule using its configured policy.'') None),
     (''audit_only'', enum_label ''Audit Only'' (Some ''Log file access violations without blocking them.'') None),
     (''disable'', enum_label ''Disable'' (Some ''Neither log nor block file access policy violations.'') None)]"

definition FILE_ACCESS_ACTION_OPTIONS :: "(js_string \<times> js_string) list option" where
  "FILE_ACCESS_ACTION_OPTIONS = enumOptions FILE_ACCESS_ACTIONS FILE_ACCESS_ACTION_VALUES"

definition REMOUNT_FLAG_VALUES :: "js_string list" where
  "REMOUNT_FLAG_VALUES =
     [''rdonly'', ''noexec'', ''nosuid'', ''nobrowse'', ''noowners'', ''nodev'', ''async'',
      ''-j'']"

definition REMOUNT_FLAG_OPTIONS :: "(js_string \<times> js_string) list" where
  "REMOUNT_FLAG_OPTIONS = map (\<lambda>value. (value, value)) REMOUNT_FLAG_VALUES"

definition isSantaMediaAction :: "js_string \<Rightarrow> bool" where
  "isSantaMediaAction value \<longleftrightarrow> value \<in> set MEDIA_ACTION_VALUES"

definition isSantaRemountFlag :: "js_string \<Rightarrow> bool" where
  "isSantaRemountFlag value \<longleftrightarrow> value \<in> set REMOUNT_FLAG_VALUES"

interpretation client_modes: enum_meta CLIENT_MODES CLIENT_MODE_VALUES
  by unfold_locales (simp_all add: CLIENT_MODES_def CLIENT_MODE_VALUES_def)

interpretation media_actions: enum_meta MEDIA_ACTIONS MEDIA_ACTION_VALUES
  by unfold_locales (simp_all add: MEDIA_ACTIONS_def MEDIA_ACTION_VALUES_def)

interpretation file_access_actions: enum_meta FILE_ACCESS_ACTIONS FILE_ACCESS_ACTION_VALUES
  by unfold_locales (simp_all add: FILE_ACCESS_ACTIONS_def FILE_ACCESS_ACTION_VALUES_def)

section \<open>\<open>santa/rules/metadata.ts\<close>\<close>

definition RULE_TYPE_VALUES :: "js_string list" where
  "RULE_TYPE_VALUES =
     [''binary'', ''certificate'', ''teamid'', ''signingid'', ''cdhash'', ''bundle'']"

definition RULE_TYPES :: metadata where
  "RULE_TYPES = [
     (''binary'', enum_label ''Binary'' (Some ''SHA-256 hash of the exact binary.'') None),
     (''certificate'', enum_label ''Certificate'' (Some ''SHA-256 hash of the signing certificate.'') None),
     (''teamid'', enum_label ''Team ID'' (Some ''10-character Apple Team ID.'') None),
     (''signingid'', enum_label ''Signing ID'' (Some ''Signing identifier with team or platform prefix.'') None),
     (''cdhash'', enum_label ''CDHash'' (Some ''Code directory hash of the binary.'') None),
     (''bundle'', enum_label ''Bundle'' (Some ''A server-side rule expanded to the collected executables in a Santa bundle.'') None)]"

definition RULE_TYPE_OPTIONS :: "(js_string \<times> js_string) list option" where
  "RULE_TYPE_OPTIONS = enumOptions RULE_TYPES RULE_TYPE_VALUES"

definition POLICY_VALUES :: "js_string list" where
  "POLICY_VALUES =
     [''allowlist'', ''allowlist_compiler'', ''blocklist'', ''silent_blocklist'',
      ''silent_gui_blocklist'', ''silent_tty_blocklist'', ''cel'']"

definition POLICIES :: metadata where
  "POLICIES = [
     (''allowlist'', enum_label ''Allowlist'' (Some ''Allow matching software on targeted hosts.'') None),
     (''allowlist_compiler'', enum_label ''Compiler Allowlist'' (Some ''Allow matching compilers to create transitive rules when that setting is enabled.'') None),
     (''blocklist'', enum_label ''Blocklist'' (Some ''Block matching software on targeted hosts.'') None),
     (''silent_blocklist'', enum_label ''Silent Blocklist'' (Some ''Block matching software without showing a custom user-facing Santa message.'') None),
     (''silent_gui_blocklist'', enum_label ''Silent GUI Blocklist'' (Some ''Block matching software without showing Santa's GUI notification.'') None),
     (''silent_tty_blocklist'', enum_label ''Silent TTY Blocklist'' (Some ''Block matching software without printing Santa's TTY message.'') None),
     (''cel'', enum_label ''CEL'' (Some ''Use a Santa CEL expression to decide whether the rule applies.'') None)]"

definition POLICY_OPTIONS :: "(js_string \<times> js_string) list option" where
  "POLICY_OPTIONS = enumOptions POLICIES POLICY_VALUES"

interpretation rule_types: enum_meta RULE_TYPES RULE_TYPE_VALUES
  by unfold_locales (simp_all add: RULE_TYPES_def RULE_TYPE_VALUES_def)

interpretation rule_policies: enum_meta POLICIES POLICY_VALUES
  by unfold_locales (simp_all add: POLICIES_def POLICY_VALUES_def)

definition ruleTypeLabel :: "js_string \<Rightarrow> js_string option" where
  "ruleTypeLabel ruleType = enumLabel RULE_TYPES ruleType"

text \<open>The character classes of the identifier patterns.\<close>

definition is_hex :: "char \<Rightarrow> bool" where
  "is_hex c \<longleftrightarrow> hex_val c \<noteq> None"

definition is_upper_alnum :: "char \<Rightarrow> bool" where
  "is_upper_alnum c \<longleftrightarrow> is_digit c \<or> (65 \<le> (of_char c :: nat) \<and> (of_char c :: nat) \<le> 90)"

definition is_signing_char :: "char \<Rightarrow> bool" where
  "is_signing_char c \<longleftrightarrow>
     is_upper_alnum c \<or> (97 \<le> (of_char c :: nat) \<and> (of_char c :: nat) \<le> 122)
     \<or> c = CHR ''.'' \<or> c = CHR ''-''"

text \<open>\<open>/^[class]{n}$/\<close>.\<close>

definition repeats :: "(char \<Rightarrow> bool) \<Rightarrow> nat \<Rightarrow> js_string \<Rightarrow> bool" where
  "repeats P n s \<longleftrightarrow> length s = n \<and> list_all P s"

text \<open>\<open>/^(?:[A-Z0-9]{10}|platform):[a-zA-Z0-9.-]+$/\<close>.\<close>

definition signing_id_pattern :: "js_string \<Rightarrow> bool" where
  "signing_id_pattern s \<longleftrightarrow>
     (let (prefix, rest) =
            (if take 9 s = ''platform:'' then (''platform'', drop 8 s) else (take 10 s, drop 10 s))
      in (prefix = ''platform'' \<or> repeats is_upper_alnum 10 prefix) \<and>
         (case rest of
            [] \<Rightarrow> False
          | c # suffix \<Rightarrow> c = CHR '':'' \<and> suffix \<noteq> [] \<and> list_all is_signing_char suffix))"

definition RULE_IDENTIFIER_RULES :: "(js_string \<times> (js_string \<Rightarrow> bool) \<times> js_string option) list" where
  "RULE_IDENTIFIER_RULES = [
     (''binary'', repeats is_hex 64,
        Some ''fc6679da622c3ff38933220b8e73c7322ecdc94b4570c50ecab0da311b292682''),
     (''certificate'', repeats is_hex 64,
        Some ''7ae80b9ab38af0c63a9a81765f434d9a7cd8f720eb6037ef303de39d779bc258''),
     (''bundle'', repeats is_hex 64, None),
     (''cdhash'', repeats is_hex 40, Some ''dbe8c39801f93e05fc7bc53a02af5b4d3cfc670a''),
     (''signingid'', signing_id_pattern, Some ''UBF8T346G9:com.microsoft.VSCode''),
     (''teamid'', repeats is_upper_alnum 10, Some ''EQHXZ8M8AV'')]"

text \<open>Every rule type has an identifier rule, and its placeholder is an identifier it accepts.\<close>

lemma identifier_rules_placeholders:
  "list_all (\<lambda>t. case map_of RULE_IDENTIFIER_RULES t of
       None \<Rightarrow> False
     | Some (pattern, placeholder) \<Rightarrow> (case placeholder of None \<Rightarrow> True | Some p \<Rightarrow> pattern p))
   RULE_TYPE_VALUES"
  by code_simp

section \<open>\<open>santa/events/decisions.ts\<close>\<close>

definition EXECUTION_DECISIONS :: metadata where
  "EXECUTION_DECISIONS = [
     (''unknown'', enum_label ''Unknown'' (Some ''Santa reported an execution event without a specific decision.'') (Some ''default'')),
     (''allow_unknown'', enum_label ''Allow Unknown'' (Some ''Allowed because no rule matched while the client was in Monitor mode.'') (Some ''success'')),
     (''allow_binary'', enum_label ''Allow Binary'' (Some ''Allowed by a rule for this exact binary.'') (Some ''success'')),
     (''allow_certificate'', enum_label ''Allow Certificate'' (Some ''Allowed by a matching signing certificate.'') (Some ''success'')),
     (''allow_scope'', enum_label ''Allow Scope'' (Some ''Allowed by an approved path or script exception.'') (Some ''success'')),
     (''allow_teamid'', enum_label ''Allow Team ID'' (Some ''Allowed by a matching Team ID rule.'') (Some ''success'')),
     (''allow_signingid'', enum_label ''Allow Signing ID'' (Some ''Allowed by a matching Signing ID rule.'') (Some ''success'')),
     (''allow_cdhash'', enum_label ''Allow CDHash'' (Some ''Allowed by a matching CDHash rule.'') (Some ''success'')),
     (''allow_platform'', enum_label ''Allow Platform'' (Some ''Allowed because macOS reported the binary as platform-trusted.'') (Some ''success'')),
     (''block_unknown'', enum_label ''Block Unknown'' (Some ''Blocked because no rule matched while the client was in Lockdown mode.'') (Some ''error'')),
     (''block_binary'', enum_label ''Block Binary'' (Some ''Blocked by a rule for this exact binary.'') (Some ''error'')),
     (''block_certificate'', enum_label ''Block Certificate'' (Some ''Blocked by a matching signing certificate.'') (Some ''error'')),
     (''block_scope'', enum_label ''Block Scope'' (Some ''Blocked by a blocked path rule or Page Zero protection.'') (Some ''error'')),
     (''block_teamid'', enum_label ''Block Team ID'' (Some ''Blocked by a matching Team ID rule.'') (Some ''error'')),
     (''block_signingid'', enum_label ''Block Signing ID'' (Some ''Blocked by a matching Signing ID rule.'') (Some ''error'')),
     (''block_cdhash'', enum_label ''Block CDHash'' (Some ''Blocked by a matching CDHash rule.'') (Some ''error'')),
     (''block_binary_mismatch'', enum_label ''Block Binary Mismatch'' (Some ''Blocked because the kernel and disk binary hashes did not match.'') (Some ''error'')),
     (''bundle_binary'', enum_label ''Bundle Binary'' (Some ''Metadata for a binary inside a bundle. It is not an allow or block decision.'') (Some ''default''))]"

definition EXECUTION_DECISION_VALUES :: "js_string list" where
  "EXECUTION_DECISION_VALUES =
     [''unknown'', ''allow_unknown'', ''allow_binary'', ''allow_certificate'', ''allow_scope'',
      ''allow_teamid'', ''allow_signingid'', ''allow_cdhash'', ''allow_platform'',
      ''block_unknown'', ''block_binary'', ''block_certificate'', ''block_scope'',
      ''block_teamid'', ''block_signingid'', ''block_cdhash'', ''block_binary_mismatch'',
      ''bundle_binary'']"

definition DECISION_FILTER_VALUES :: "js_string list" where
  "DECISION_FILTER_VALUES = [''allowed'', ''blocked''] @ EXECUTION_DECISION_VALUES"

definition DECISION_FILTERS :: "(js_string \<times> js_string) list option" where
  "DECISION_FILTERS =
     map_option (\<lambda>opts. [(''allowed'', ''Allowed''), (''blocked'', ''Blocked'')] @ opts)
       (enumOptions EXECUTION_DECISIONS EXECUTION_DECISION_VALUES)"

definition FILE_ACCESS_DECISIONS :: metadata where
  "FILE_ACCESS_DECISIONS = [
     (''unknown'', enum_label ''Unknown'' (Some ''Santa reported a file access event without a specific decision.'') (Some ''default'')),
     (''denied'', enum_label ''Denied'' (Some ''Santa denied the file access because the rule matched and access was blocked.'') (Some ''error'')),
     (''denied_invalid_signature'', enum_label ''Denied (Invalid Signature)'' (Some ''Santa denied the file access because the accessing process had an invalid signature.'') (Some ''error'')),
     (''audit_only'', enum_label ''Audit Only'' (Some ''Santa recorded the file access event without blocking it.'') (Some ''success''))]"

definition FILE_ACCESS_DECISION_VALUES :: "js_string list" where
  "FILE_ACCESS_DECISION_VALUES =
     [''unknown'', ''denied'', ''denied_invalid_signature'', ''audit_only'']"

definition FILE_ACCESS_DECISION_FILTERS :: "(js_string \<times> js_string) list option" where
  "FILE_ACCESS_DECISION_FILTERS = enumOptions FILE_ACCESS_DECISIONS FILE_ACCESS_DECISION_VALUES"

interpretation execution_decisions: enum_meta EXECUTION_DECISIONS EXECUTION_DECISION_VALUES
  by unfold_locales (simp_all add: EXECUTION_DECISIONS_def EXECUTION_DECISION_VALUES_def)

interpretation file_access_decisions: enum_meta FILE_ACCESS_DECISIONS FILE_ACCESS_DECISION_VALUES
  by unfold_locales (simp_all add: FILE_ACCESS_DECISIONS_def FILE_ACCESS_DECISION_VALUES_def)

definition fileName :: "js_string \<Rightarrow> js_string" where
  "fileName path =
     (let parts = filter (\<lambda>s. s \<noteq> []) (js_split CHR ''/'' path)
      in if parts = [] then [] else last parts)"

lemma fileName_no_slash: "CHR ''/'' \<notin> set (fileName path)"
proof (cases "filter (\<lambda>s. s \<noteq> []) (js_split CHR ''/'' path) = []")
  case False
  then have "last (filter (\<lambda>s. s \<noteq> []) (js_split CHR ''/'' path)) \<in> set (js_split CHR ''/'' path)"
    using last_in_set by fastforce
  with False show ?thesis by (simp add: fileName_def Let_def js_split_parts)
qed (simp add: fileName_def)

text \<open>The filters are the two groups and every decision, each once.\<close>

lemma decision_filters_values:
  "map_option (map fst) DECISION_FILTERS = Some DECISION_FILTER_VALUES"
  "distinct DECISION_FILTER_VALUES"
proof -
  show "map_option (map fst) DECISION_FILTERS = Some DECISION_FILTER_VALUES"
    using execution_decisions.options_exist
    by (auto simp: DECISION_FILTERS_def DECISION_FILTER_VALUES_def)
  show "distinct DECISION_FILTER_VALUES"
    by (simp add: DECISION_FILTER_VALUES_def EXECUTION_DECISION_VALUES_def)
qed

section \<open>\<open>munki/software/metadata.ts\<close>\<close>

definition rawEnumOptions :: "js_string list \<Rightarrow> (js_string \<times> js_string) list" where
  "rawEnumOptions values = map (\<lambda>value. (value, value)) values"

definition MUNKI_INSTALLER_TYPE_VALUES :: "js_string list" where
  "MUNKI_INSTALLER_TYPE_VALUES =
     [''pkg'', ''nopkg'', ''copy_from_dmg'']"

definition MUNKI_INSTALLER_TYPES :: metadata where
  "MUNKI_INSTALLER_TYPES = [
     (''pkg'', enum_label ''pkg'' (Some ''Installs an Apple installer package.'') None),
     (''nopkg'', enum_label ''nopkg'' (Some ''Uses package metadata and scripts without an installer payload.'') None),
     (''copy_from_dmg'', enum_label ''copy_from_dmg'' (Some ''Copies the configured items from a mounted disk image.'') None)]"

definition MUNKI_INSTALLER_TYPE_OPTIONS :: "(js_string \<times> js_string) list option" where
  "MUNKI_INSTALLER_TYPE_OPTIONS = enumOptions MUNKI_INSTALLER_TYPES MUNKI_INSTALLER_TYPE_VALUES"

definition MUNKI_RESTART_ACTION_VALUES :: "js_string list" where
  "MUNKI_RESTART_ACTION_VALUES =
     [''RequireLogout'', ''RecommendRestart'', ''RequireRestart'', ''RequireShutdown'']"

definition MUNKI_RESTART_ACTION_OPTIONS :: "(js_string \<times> js_string) list" where
  "MUNKI_RESTART_ACTION_OPTIONS = rawEnumOptions MUNKI_RESTART_ACTION_VALUES"

definition MUNKI_UNINSTALL_RESTART_ACTION_VALUES :: "js_string list" where
  "MUNKI_UNINSTALL_RESTART_ACTION_VALUES = ''None'' # MUNKI_RESTART_ACTION_VALUES"

definition MUNKI_UNINSTALL_RESTART_ACTION_OPTIONS :: "(js_string \<times> js_string) list" where
  "MUNKI_UNINSTALL_RESTART_ACTION_OPTIONS = rawEnumOptions MUNKI_UNINSTALL_RESTART_ACTION_VALUES"

definition MUNKI_DOWNLOAD_ON_LOW_DATA_VALUES :: "js_string list" where
  "MUNKI_DOWNLOAD_ON_LOW_DATA_VALUES =
     [''auto'', ''always'', ''never'']"

definition MUNKI_DOWNLOAD_ON_LOW_DATA_OPTIONS :: "(js_string \<times> js_string) list" where
  "MUNKI_DOWNLOAD_ON_LOW_DATA_OPTIONS = rawEnumOptions MUNKI_DOWNLOAD_ON_LOW_DATA_VALUES"

definition MUNKI_UNINSTALL_METHOD_VALUES :: "js_string list" where
  "MUNKI_UNINSTALL_METHOD_VALUES =
     [''removepackages'', ''remove_copied_items'', ''uninstall_script'']"

definition MUNKI_UNINSTALL_METHOD_OPTIONS :: "(js_string \<times> js_string) list" where
  "MUNKI_UNINSTALL_METHOD_OPTIONS = rawEnumOptions MUNKI_UNINSTALL_METHOD_VALUES"

definition MUNKI_INSTALL_ITEM_TYPE_VALUES :: "js_string list" where
  "MUNKI_INSTALL_ITEM_TYPE_VALUES =
     [''application'', ''bundle'', ''plist'', ''file'']"

definition MUNKI_INSTALL_ITEM_TYPE_OPTIONS :: "(js_string \<times> js_string) list" where
  "MUNKI_INSTALL_ITEM_TYPE_OPTIONS = rawEnumOptions MUNKI_INSTALL_ITEM_TYPE_VALUES"

definition MUNKI_PACKAGE_STRATEGY_VALUES :: "js_string list" where
  "MUNKI_PACKAGE_STRATEGY_VALUES =
     [''latest'', ''specific'']"

interpretation installer_types: enum_meta MUNKI_INSTALLER_TYPES MUNKI_INSTALLER_TYPE_VALUES
  by unfold_locales (simp_all add: MUNKI_INSTALLER_TYPES_def MUNKI_INSTALLER_TYPE_VALUES_def)

section \<open>\<open>munki/software/actions.ts\<close>\<close>

definition MUNKI_SOFTWARE_ACTION_VALUES :: "js_string list" where
  "MUNKI_SOFTWARE_ACTION_VALUES =
     [''managed_installs'', ''managed_uninstalls'', ''managed_updates'', ''optional_installs'',
      ''optional_uninstalls'', ''featured_items'', ''default_installs'']"

definition MUNKI_SOFTWARE_ACTIONS :: metadata where
  "MUNKI_SOFTWARE_ACTIONS = [
     (''managed_installs'', enum_label ''Managed Installs'' (Some ''Installs the item on matching hosts and keeps it installed.'') None),
     (''managed_uninstalls'', enum_label ''Managed Uninstalls'' (Some ''Removes the item from matching hosts and keeps it uninstalled.'') None),
     (''managed_updates'', enum_label ''Managed Updates'' (Some ''Updates the item only on hosts where it is already installed.'') None),
     (''optional_installs'', enum_label ''Optional Installs'' (Some ''Makes the item available in Managed Software Center.'') None),
     (''optional_uninstalls'', enum_label ''Optional Uninstalls'' (Some ''Suggests removing the item in Managed Software Center where it is installed.'') None),
     (''featured_items'', enum_label ''Featured Items'' (Some ''Highlights the item in Managed Software Center.'') None),
     (''default_installs'', enum_label ''Default Installs'' (Some ''Installs the item by default; users can remove it in Managed Software Center.'') None)]"

definition MUNKI_SOFTWARE_ACTION_OPTIONS :: "(js_string \<times> js_string) list option" where
  "MUNKI_SOFTWARE_ACTION_OPTIONS = enumOptions MUNKI_SOFTWARE_ACTIONS MUNKI_SOFTWARE_ACTION_VALUES"

definition MUNKI_ASSIGNMENT_ACTION_VALUES :: "js_string list" where
  "MUNKI_ASSIGNMENT_ACTION_VALUES =
     [''managed_installs'', ''managed_uninstalls'', ''managed_updates'', ''optional_installs'',
      ''optional_uninstalls'']"

definition MUNKI_EXCLUSIVE_ACTION_VALUES :: "js_string list" where
  "MUNKI_EXCLUSIVE_ACTION_VALUES =
     [''managed_installs'', ''managed_uninstalls'', ''optional_uninstalls'']"

definition MUNKI_OPTIONAL_PRESENTATION_ACTION_VALUES :: "js_string list" where
  "MUNKI_OPTIONAL_PRESENTATION_ACTION_VALUES =
     [''featured_items'', ''default_installs'']"

interpretation software_actions: enum_meta MUNKI_SOFTWARE_ACTIONS MUNKI_SOFTWARE_ACTION_VALUES
  by unfold_locales (simp_all add: MUNKI_SOFTWARE_ACTIONS_def MUNKI_SOFTWARE_ACTION_VALUES_def)

section \<open>\<open>munki/distribution-points/model.ts\<close>\<close>

definition DISTRIBUTION_POINT_WORKER_STATUSES :: metadata where
  "DISTRIBUTION_POINT_WORKER_STATUSES = [
     (''offline'', enum_label ''Offline'' None None),
     (''online'', enum_label ''Online'' None (Some ''success'')),
     (''incompatible'', enum_label ''Incompatible'' (Some ''This worker does not support the server's protocol version.'') (Some ''warning''))]"

definition PACKAGE_STATES :: metadata where
  "PACKAGE_STATES = [
     (''pending'', enum_label ''Pending'' None None),
     (''syncing'', enum_label ''Syncing'' None None),
     (''current'', enum_label ''Current'' None None),
     (''error'', enum_label ''Error'' None None)]"

record distribution_point_worker =
  dpw_compatible :: bool

definition distributionPointWorkerStatus :: "distribution_point_worker option \<Rightarrow> js_string" where
  "distributionPointWorkerStatus worker =
     (case worker of
        None \<Rightarrow> ''offline''
      | Some w \<Rightarrow> if dpw_compatible w then ''online'' else ''incompatible'')"

definition packageStateLabel :: "js_string \<Rightarrow> js_string option" where
  "packageStateLabel status = enumLabel PACKAGE_STATES status"

section \<open>\<open>labels/model.ts\<close>\<close>

definition LABEL_MEMBERSHIP_VALUES :: "js_string list" where
  "LABEL_MEMBERSHIP_VALUES =
     [''dynamic'', ''manual'', ''derived'']"

definition LABEL_MEMBERSHIP_TYPES :: metadata where
  "LABEL_MEMBERSHIP_TYPES = [
     (''dynamic'', enum_label ''Dynamic'' (Some ''Membership comes from an osquery SQL query evaluated on each host.'') None),
     (''manual'', enum_label ''Manual'' (Some ''Membership is managed directly.'') None),
     (''derived'', enum_label ''Derived'' (Some ''Membership is computed from linked users, groups, or other host attributes.'') None)]"

definition LABEL_MEMBERSHIP_OPTIONS :: "(js_string \<times> js_string) list option" where
  "LABEL_MEMBERSHIP_OPTIONS = enumOptions LABEL_MEMBERSHIP_TYPES LABEL_MEMBERSHIP_VALUES"

definition LABEL_DERIVED_ATTRIBUTE_VALUES :: "js_string list" where
  "LABEL_DERIVED_ATTRIBUTE_VALUES =
     [''user_department'', ''directory_group'', ''user'']"

definition LABEL_DERIVED_ATTRIBUTES :: metadata where
  "LABEL_DERIVED_ATTRIBUTES = [
     (''user_department'', enum_label ''User Department'' None None),
     (''directory_group'', enum_label ''Group'' None None),
     (''user'', enum_label ''User'' None None)]"

definition LABEL_DERIVED_ATTRIBUTE_OPTIONS :: "(js_string \<times> js_string) list option" where
  "LABEL_DERIVED_ATTRIBUTE_OPTIONS = enumOptions LABEL_DERIVED_ATTRIBUTES LABEL_DERIVED_ATTRIBUTE_VALUES"

interpretation label_memberships: enum_meta LABEL_MEMBERSHIP_TYPES LABEL_MEMBERSHIP_VALUES
  by unfold_locales (simp_all add: LABEL_MEMBERSHIP_TYPES_def LABEL_MEMBERSHIP_VALUES_def)

interpretation label_attributes: enum_meta LABEL_DERIVED_ATTRIBUTES LABEL_DERIVED_ATTRIBUTE_VALUES
  by unfold_locales (simp_all add: LABEL_DERIVED_ATTRIBUTES_def LABEL_DERIVED_ATTRIBUTE_VALUES_def)

definition labelMembershipLabel :: "js_string \<Rightarrow> js_string option" where
  "labelMembershipLabel value = enumLabel LABEL_MEMBERSHIP_TYPES value"

text \<open>\<open>assertNever\<close> throws.\<close>

definition labelDerivedAttributeSelectorLabel :: "js_string \<Rightarrow> js_string option" where
  "labelDerivedAttributeSelectorLabel attribute =
     (if attribute = ''user_department'' then Some ''Departments''
      else if attribute = ''directory_group'' then Some ''Groups''
      else if attribute = ''user'' then Some ''Users''
      else None)"

section \<open>\<open>osquery/policies/model.ts\<close>\<close>

definition POLICY_RESULT_STATUS_VALUES :: "js_string list" where
  "POLICY_RESULT_STATUS_VALUES =
     [''pending'', ''pass'', ''fail'', ''error'']"

definition POLICY_RESULT_STATUSES :: metadata where
  "POLICY_RESULT_STATUSES = [
     (''pending'', enum_label ''Pending'' None (Some ''default'')),
     (''pass'', enum_label ''Passing'' None (Some ''success'')),
     (''fail'', enum_label ''Failing'' None (Some ''error'')),
     (''error'', enum_label ''Error'' None (Some ''warning'')),
     (''stopped'', enum_label ''Stopped'' None (Some ''default''))]"

definition POLICY_RESULT_STATUS_OPTIONS :: "(js_string \<times> js_string) list" where
  "POLICY_RESULT_STATUS_OPTIONS =
     [(''pending'', ''Pending''), (''pass'', ''Passing''), (''fail'', ''Failing''), (''error'', ''Error'')]"

definition POLICY_REMEDIATION_MODES :: metadata where
  "POLICY_REMEDIATION_MODES = [
     (''none'', enum_label ''None'' (Some ''No remediation script is configured.'') None),
     (''manual'', enum_label ''Manual'' (Some ''A remediation script is configured for manual runs.'') None),
     (''automatic'', enum_label ''Automatic'' (Some ''A remediation script runs when an eligible host newly becomes failing.'') None)]"

record remediation_configuration =
  rc_configured :: bool
  rc_automatic :: bool

definition policyRemediationMode :: "remediation_configuration \<Rightarrow> js_string" where
  "policyRemediationMode remediation =
     (if \<not> rc_configured remediation then ''none''
      else if rc_automatic remediation then ''automatic'' else ''manual'')"

definition REMEDIATION_RUN_STATUSES :: metadata where
  "REMEDIATION_RUN_STATUSES = [
     (''queued'', enum_label ''Queued'' None (Some ''default'')),
     (''succeeded'', enum_label ''Succeeded'' None (Some ''success'')),
     (''failed'', enum_label ''Failed'' None (Some ''error''))]"

definition REMEDIATION_STATUS_FILTER_VALUES :: "js_string list" where
  "REMEDIATION_STATUS_FILTER_VALUES =
     [''failed'', ''queued'', ''succeeded'', ''not_run'']"

definition REMEDIATION_STATUS_FILTER_OPTIONS :: "(js_string \<times> js_string) list option" where
  "REMEDIATION_STATUS_FILTER_OPTIONS =
     map_option (\<lambda>opts. opts @ [(''not_run'', ''Not Run'')])
       (enumOptions REMEDIATION_RUN_STATUSES
          (filter (\<lambda>status. status \<noteq> ''not_run'') REMEDIATION_STATUS_FILTER_VALUES))"

text \<open>The hand-written option list is the one the status table gives.\<close>

lemma policy_result_options:
  "enumOptions POLICY_RESULT_STATUSES POLICY_RESULT_STATUS_VALUES = Some POLICY_RESULT_STATUS_OPTIONS"
  by code_simp

lemma remediation_filter_values:
  "map_option (map fst) REMEDIATION_STATUS_FILTER_OPTIONS = Some REMEDIATION_STATUS_FILTER_VALUES"
  by code_simp

section \<open>\<open>directory/users/metadata.ts\<close>\<close>

definition USER_ROLE_VALUES :: "js_string list" where
  "USER_ROLE_VALUES =
     [''admin'', ''viewer'']"

definition USER_ACCESS_ROLE_VALUES :: "js_string list" where
  "USER_ACCESS_ROLE_VALUES = USER_ROLE_VALUES @ [''none'']"

definition USER_ROLES :: metadata where
  "USER_ROLES = [
     (''admin'', enum_label ''Admin'' (Some ''Can manage settings, users, enrollments, and data.'') None),
     (''viewer'', enum_label ''Viewer'' (Some ''Can view data without making administrative changes.'') None)]"

definition USER_ACCESS_ROLES :: metadata where
  "USER_ACCESS_ROLES = USER_ROLES @ [
     (''none'', enum_label ''No Access'' (Some ''Cannot sign in until a role is assigned.'') None)]"

definition USER_ROLE_OPTIONS :: "(js_string \<times> js_string) list option" where
  "USER_ROLE_OPTIONS = enumOptions USER_ROLES USER_ROLE_VALUES"

definition USER_ACCESS_ROLE_OPTIONS :: "(js_string \<times> js_string) list option" where
  "USER_ACCESS_ROLE_OPTIONS = enumOptions USER_ACCESS_ROLES USER_ACCESS_ROLE_VALUES"

interpretation user_access_roles: enum_meta USER_ACCESS_ROLES USER_ACCESS_ROLE_VALUES
  by unfold_locales
    (simp_all add: USER_ACCESS_ROLES_def USER_ACCESS_ROLE_VALUES_def USER_ROLES_def USER_ROLE_VALUES_def)

definition userAccessRole :: "js_string option \<Rightarrow> js_string" where
  "userAccessRole value = coalesce value ''none''"

definition userMutationRole :: "js_string \<Rightarrow> js_string option" where
  "userMutationRole value = (if value = ''none'' then None else Some value)"

lemma user_role_round_trip:
  "v \<noteq> Some ''none'' \<Longrightarrow> userMutationRole (userAccessRole v) = v"
  "userAccessRole (userMutationRole r) = r"
  by (auto simp: userMutationRole_def userAccessRole_def coalesce_def split: option.splits)

section \<open>\<open>directory/source.ts\<close>\<close>

definition DIRECTORY_SOURCE_VALUES :: "js_string list" where
  "DIRECTORY_SOURCE_VALUES =
     [''local'', ''entra'']"

definition DIRECTORY_SOURCES :: metadata where
  "DIRECTORY_SOURCES = [
     (''local'', enum_label ''Local'' (Some ''Created and managed here.'') None),
     (''entra'', enum_label ''Entra'' (Some ''Synced from Microsoft Entra.'') None)]"

definition DIRECTORY_SOURCE_OPTIONS :: "(js_string \<times> js_string) list option" where
  "DIRECTORY_SOURCE_OPTIONS = enumOptions DIRECTORY_SOURCES DIRECTORY_SOURCE_VALUES"

interpretation directory_sources: enum_meta DIRECTORY_SOURCES DIRECTORY_SOURCE_VALUES
  by unfold_locales (simp_all add: DIRECTORY_SOURCES_def DIRECTORY_SOURCE_VALUES_def)

section \<open>\<open>activity/metadata.ts\<close>\<close>

definition ACTIVITY_SCOPE_VALUES :: "js_string list" where
  "ACTIVITY_SCOPE_VALUES =
     [''user'', ''system'', ''all'']"

definition ACTIVITY_AREA_LABELS :: "(js_string \<times> js_string) list" where
  "ACTIVITY_AREA_LABELS = [
     (''hosts'', ''Hosts''),
     (''osquery'', ''osquery'')]"

definition ACTIVITY_ACTION_LABELS :: "(js_string \<times> js_string) list" where
  "ACTIVITY_ACTION_LABELS = [
     (''orbit_host_enrolled'', ''Orbit Host Enrolled''),
     (''osquery_host_enrolled'', ''osquery Host Enrolled''),
     (''host_deleted'', ''Host Deleted''),
     (''hosts_deleted'', ''Hosts Deleted''),
     (''host_inventory_requested'', ''Host Inventory Requested''),
     (''host_primary_user_set'', ''Primary User Set''),
     (''host_primary_user_cleared'', ''Primary User Cleared''),
     (''policy_created'', ''Policy Created''),
     (''policy_updated'', ''Policy Updated''),
     (''policy_deleted'', ''Policy Deleted''),
     (''policies_deleted'', ''Policies Deleted''),
     (''policy_remediation_requested'', ''Policy Remediation Requested''),
     (''report_created'', ''Report Created''),
     (''report_updated'', ''Report Updated''),
     (''report_deleted'', ''Report Deleted''),
     (''reports_deleted'', ''Reports Deleted''),
     (''live_query_started'', ''Live Query Started''),
     (''live_query_stopped'', ''Live Query Stopped'')]"

definition keysOf :: "(js_string \<times> 'v) list \<Rightarrow> js_string list" where
  "keysOf labels = filter (\<lambda>key. map_of labels key \<noteq> None) (map fst labels)"

definition ACTIVITY_AREA_VALUES :: "js_string list" where
  "ACTIVITY_AREA_VALUES = keysOf ACTIVITY_AREA_LABELS"

definition ACTIVITY_ACTION_VALUES :: "js_string list" where
  "ACTIVITY_ACTION_VALUES = keysOf ACTIVITY_ACTION_LABELS"

definition ACTIVITY_AREA_OPTIONS :: "(js_string \<times> js_string) list" where
  "ACTIVITY_AREA_OPTIONS =
     map (\<lambda>value. (value, the (map_of ACTIVITY_AREA_LABELS value))) ACTIVITY_AREA_VALUES"

definition ACTIVITY_ACTION_OPTIONS :: "(js_string \<times> js_string) list" where
  "ACTIVITY_ACTION_OPTIONS =
     map (\<lambda>value. (value, the (map_of ACTIVITY_ACTION_LABELS value))) ACTIVITY_ACTION_VALUES"

lemma keysOf_all: "keysOf labels = map fst labels"
proof -
  have "\<forall>k \<in> set (map fst labels). map_of labels k \<noteq> None" by (simp add: map_of_eq_None_iff)
  then show ?thesis unfolding keysOf_def by (rule filter_True)
qed

lemma activity_options_labels:
  "ACTIVITY_AREA_OPTIONS = ACTIVITY_AREA_LABELS" "ACTIVITY_ACTION_OPTIONS = ACTIVITY_ACTION_LABELS"
  by (simp_all add: ACTIVITY_AREA_OPTIONS_def ACTIVITY_AREA_VALUES_def ACTIVITY_AREA_LABELS_def
      ACTIVITY_ACTION_OPTIONS_def ACTIVITY_ACTION_VALUES_def ACTIVITY_ACTION_LABELS_def keysOf_all)

section \<open>\<open>hosts/primary-user-source-labels.ts\<close> and \<open>primary-user.ts\<close>\<close>

definition primaryUserSourceLabels :: "(js_string \<times> js_string) list" where
  "primaryUserSourceLabels = [(''manual'', ''Manual''), (''orbit_profile'', ''Orbit Profile'')]"

definition primaryUserSourceLabel :: "js_string \<Rightarrow> js_string" where
  "primaryUserSourceLabel source = coalesce (map_of primaryUserSourceLabels source) source"

record primary_user_source =
  pus_source :: js_string
  pus_email :: js_string

definition manualPrimaryUserSource ::
    "primary_user_source list option \<Rightarrow> primary_user_source option" where
  "manualPrimaryUserSource sources =
     find (\<lambda>source. pus_source source = ''manual'') (coalesce sources [])"

end
