(* ===== verification/Forms.thy ===== *)
theory Forms
  imports ApiClient Params
begin

text \<open>
  What the forms share: the issues a validation adds, \<open>map\<close> with a function that may throw, the checks
  of \<open>lib/form-validation.ts\<close> a schema is built from, and the contract between a form, the body it
  sends and the record it is opened from.
\<close>

section \<open>Issues\<close>

record issue =
  is_path :: js_string
  is_message :: js_string

definition issue_if :: "bool \<Rightarrow> js_string \<Rightarrow> js_string \<Rightarrow> issue list" where
  "issue_if b path message = (if b then [\<lparr>is_path = path, is_message = message\<rparr>] else [])"

lemma issue_if_empty [issue_simps]: "issue_if b p m = [] \<longleftrightarrow> \<not> b"
  by (simp add: issue_if_def)

text \<open>\<open>values.map(f)\<close> where \<open>f\<close> may throw.\<close>

fun map_throw :: "('a \<Rightarrow> 'e + 'b) \<Rightarrow> 'a list \<Rightarrow> 'e + 'b list" where
  "map_throw f [] = Inr []"
| "map_throw f (x # xs) =
     (case f x of
        Inl e \<Rightarrow> Inl e
      | Inr y \<Rightarrow> (case map_throw f xs of Inl e \<Rightarrow> Inl e | Inr ys \<Rightarrow> Inr (y # ys)))"

lemma map_throw_Inr:
  "map_throw f xs = Inr ys \<longleftrightarrow> list_all2 (\<lambda>x y. f x = Inr y) xs ys"
proof (induction xs arbitrary: ys)
  case (Cons x xs)
  show ?case
    by (auto simp: list_all2_Cons1 Cons.IH [symmetric] split: sum.splits)
qed auto

lemma map_throw_Inl: "map_throw f xs = Inl e \<Longrightarrow> \<exists>x \<in> set xs. f x = Inl e"
  by (induction xs) (auto split: sum.splits)

lemma map_throw_map:
  "(\<And>x. x \<in> set xs \<Longrightarrow> f (g x) = Inr (h x)) \<Longrightarrow> map_throw f (map g xs) = Inr (map h xs)"
  by (induction xs) simp_all

lemma set_enumerated: "(i, x) \<in> set (enumerate n xs) \<Longrightarrow> x \<in> set xs"
  by (auto simp: in_set_enumerate_eq)

lemma map_enumerate_same:
  "(\<And>i x. x \<in> set xs \<Longrightarrow> f (g (i, x)) = h x) \<Longrightarrow> map f (map g (enumerate n xs)) = map h xs"
  by (induction xs arbitrary: n) simp_all

section \<open>Checks of a schema\<close>

text \<open>\<open>requiredString(label)\<close>: the trimmed value and its issue.\<close>

definition requiredString :: "js_string \<Rightarrow> js_string \<Rightarrow> js_string \<Rightarrow> issue list" where
  "requiredString label path value = issue_if (js_trim value = []) path (label @ '' is required.'')"

definition integerRange ::
    "js_string \<Rightarrow> int \<Rightarrow> int option \<Rightarrow> js_string \<Rightarrow> js_num \<Rightarrow> issue list" where
  "integerRange label minimum maximum path value =
     issue_if (\<not> is_safe_integer value) path (label @ '' must be a whole number.'') @
     issue_if (value < num_of_int minimum) path (label @ '' must be at least '' @ show_int minimum @ ''.'') @
     (case maximum of
        None \<Rightarrow> []
      | Some m \<Rightarrow> issue_if (num_of_int m < value) path (label @ '' must be at most '' @ show_int m @ ''.''))"

lemma requiredString_empty [issue_simps]: "requiredString l p v = [] \<longleftrightarrow> js_trim v \<noteq> []"
  by (simp add: requiredString_def issue_simps)

lemma num_of_int_less: "num_of_int a < num_of_int b \<longleftrightarrow> a < b"
  by simp

lemma integerRange_empty [issue_simps]:
  "integerRange l lo hi p v = [] \<longleftrightarrow>
     (\<exists>n. v = num_of_int n \<and> \<bar>n\<bar> \<le> max_safe_integer \<and> lo \<le> n \<and> (\<forall>m. hi = Some m \<longrightarrow> n \<le> m))"
  by (auto simp: integerRange_def issue_simps num_of_int_less is_safe_integer_of_int not_less
      elim!: is_safe_integerE split: option.splits)

text \<open>The parts of a URL the checks read; the parser is a parameter.\<close>

record url =
  url_protocol :: js_string
  url_host :: js_string
  url_username :: js_string
  url_password :: js_string

type_synonym url_parser = "js_string \<Rightarrow> url option"

definition isHTTPSURL :: "url_parser \<Rightarrow> js_string \<Rightarrow> bool" where
  "isHTTPSURL parse_url value =
     (case parse_url value of
        None \<Rightarrow> False
      | Some u \<Rightarrow> url_protocol u = ''https:'' \<and> url_host u \<noteq> [] \<and> url_username u = [] \<and> url_password u = [])"

text \<open>Absent, or trimmed and not empty: what \<open>nonEmpty\<close> yields.\<close>

definition tidy_text :: "js_string option \<Rightarrow> bool" where
  "tidy_text v \<longleftrightarrow> (\<forall>s. v = Some s \<longrightarrow> s \<noteq> [] \<and> js_trim s = s)"

lemma tidy_nonEmpty [simp]: "tidy_text (nonEmpty v)" "tidy_text None"
  by (auto simp: tidy_text_def nonEmpty_def Let_def split: option.splits if_splits)

lemma tidy_trimmed [simp]: "tidy_text (Some (js_trim s)) \<longleftrightarrow> js_trim s \<noteq> []"
  by (simp add: tidy_text_def)

lemma nonEmpty_coalesce [simp]: "nonEmpty (Some (coalesce v [])) = nonEmpty v"
  by (cases v) (simp_all add: nonEmpty_Some)

lemma nonEmpty_idem [simp]: "nonEmpty (nonEmpty v) = nonEmpty v"
  by (cases v) (simp_all add: nonEmpty_Some)

lemma nonEmpty_tidy [simp]: "tidy_text v \<Longrightarrow> nonEmpty (Some (coalesce v [])) = v"
  by (cases v) (auto simp: tidy_text_def nonEmpty_Some)

lemma trim_optional [simp]:
  "js_trim (coalesce (map_option js_trim v) []) = coalesce (map_option js_trim v) []"
  by (cases v) simp_all

section \<open>The contract of a form\<close>

text \<open>
  A run of edits: the form is sent, the server stores what it got in a record, and the record is
  opened as the next form, which is sent as it is.
\<close>

fun edit_run ::
    "('form \<Rightarrow> thrown + 'body) \<Rightarrow> ('body \<Rightarrow> 'record \<Rightarrow> bool) \<Rightarrow> ('record \<Rightarrow> 'form) \<Rightarrow> 'form
      \<Rightarrow> 'record list \<Rightarrow> bool" where
  "edit_run body stores reopen form [] \<longleftrightarrow> True"
| "edit_run body stores reopen form (r # rs) \<longleftrightarrow>
     (\<exists>b. body form = Inr b \<and> stores b r \<and> edit_run body stores reopen (reopen r) rs)"

text \<open>
  A valid form sends a body; the form of the record that stores it is valid, and its body stores
  exactly the same records.
\<close>

locale form_adapter =
  fixes valid :: "'form \<Rightarrow> bool"
    and body :: "'form \<Rightarrow> thrown + 'body"
    and stores :: "'body \<Rightarrow> 'record \<Rightarrow> bool"
    and reopen :: "'record \<Rightarrow> 'form"
  assumes sends: "valid f \<Longrightarrow> \<exists>b. body f = Inr b"
    and reopened_valid: "valid f \<Longrightarrow> body f = Inr b \<Longrightarrow> stores b r \<Longrightarrow> valid (reopen r)"
    and reopened_body:
      "valid f \<Longrightarrow> body f = Inr b \<Longrightarrow> stores b r \<Longrightarrow> body (reopen r) = Inr b' \<Longrightarrow> stores b' = stores b"
begin

lemma reopened_sends:
  assumes "valid f" and "body f = Inr b" and "stores b r"
  obtains b' where "body (reopen r) = Inr b'" and "stores b' = stores b"
  using sends [OF reopened_valid [OF assms]] reopened_body [OF assms] by blast

text \<open>However often a record is opened and saved as it is, the first record stays stored.\<close>

lemma edits_change_nothing:
  assumes "valid f" and "edit_run body stores reopen f (r # rs)"
  shows "valid (reopen (last (r # rs)))
    \<and> (\<exists>b. body (reopen (last (r # rs))) = Inr b \<and> stores b r)"
proof -
  from assms(2) obtain b where b: "body f = Inr b" "stores b r"
    and rest: "edit_run body stores reopen (reopen r) rs" by auto
  have "valid (reopen (last (r # rs))) \<and> (\<exists>b'. body (reopen (last (r # rs))) = Inr b' \<and> stores b' = stores b)"
    using assms(1) b rest
  proof (induction rs arbitrary: f b r)
    case Nil
    then show ?case using reopened_valid reopened_sends by (metis last_ConsL)
  next
    case (Cons r' rs)
    from reopened_sends [OF Cons.prems(1-3)] obtain b' where
      b': "body (reopen r) = Inr b'" "stores b' = stores b" .
    with Cons.prems(4) have "stores b' r'" "edit_run body stores reopen (reopen r') rs" by auto
    from Cons.IH [OF reopened_valid [OF Cons.prems(1-3)] b'(1) this] b'(2) show ?case by simp
  qed
  with b(2) show ?thesis by auto
qed

end

end
