(* ===== verification/MunkiPackageSchema.thy ===== *)
theory MunkiPackageSchema
  imports Forms
begin

text \<open>
  The Munki package form: its data, the custom validation and the installer-choices parser of
  \<open>web/src/features/munki/packages/form-schema.ts\<close>.

  The base checks of the schema library are not modelled: a form is a value of the form type.  The
  callback of \<open>superRefine\<close> is the list of issues it adds.  \<open>Date\<close> is a parameter: the parse of a
  string (no number for an invalid date), \<open>toISOString\<close> and the time-zone offset in minutes; so is the
  message of the error \<open>JSON.parse\<close> throws.
\<close>

section \<open>The form\<close>

definition ARCHITECTURE_VALUES :: "js_string list" where
  "ARCHITECTURE_VALUES = [''arm64'', ''x86_64'']"

definition isArchitecture :: "js_string \<Rightarrow> bool" where
  "isArchitecture value \<longleftrightarrow> value \<in> set ARCHITECTURE_VALUES"

definition scriptFields :: "(js_string \<times> js_string) list" where
  "scriptFields =
     [(''preinstall_script'', ''Pre-install''), (''postinstall_script'', ''Post-install''),
      (''uninstall_script'', ''Uninstall''), (''preuninstall_script'', ''Pre-uninstall''),
      (''postuninstall_script'', ''Post-uninstall''), (''version_script'', ''Version''),
      (''installcheck_script'', ''Install Check''), (''uninstallcheck_script'', ''Uninstall Check'')]"

record package_reference_row =
  prr_software_id :: "int option"
  prr_package_id :: "int option"
  prr_software_name :: "js_string option"
  prr_package_version :: "js_string option"
  prr_rowID :: js_string

record string_row =
  sr_rowID :: js_string
  sr_value :: js_string

record launch_arguments_row =
  lar_rowID :: js_string
  lar_application :: js_string
  lar_arguments :: js_string

record action_labels =
  al_install :: "js_string option"
  al_installing :: "js_string option"
  al_installed :: "js_string option"
  al_remove :: "js_string option"
  al_removing :: "js_string option"
  al_update :: "js_string option"

record installer_environment =
  ie_name :: js_string
  ie_value :: js_string

record installer_environment_row = installer_environment +
  ier_rowID :: js_string

record install_item =
  ii_path :: js_string
  ii_type :: js_string
  ii_bundle_identifier :: "js_string option"
  ii_bundle_name :: "js_string option"
  ii_bundle_short_version :: "js_string option"
  ii_bundle_version :: "js_string option"
  ii_installer_item_location :: "js_string option"
  ii_md5checksum :: "js_string option"
  ii_minimum_os_version :: "js_string option"
  ii_minimum_update_version :: "js_string option"
  ii_version_comparison_key :: "js_string option"

record install_item_row = install_item +
  iir_rowID :: js_string

record receipt =
  re_package_id :: js_string
  re_installed_size :: "js_num option"
  re_name :: "js_string option"
  re_optional :: "bool option"
  re_version :: "js_string option"

record receipt_row = receipt +
  rer_rowID :: js_string

record item_to_copy =
  ic_source_item :: js_string
  ic_destination_path :: js_string
  ic_destination_item :: "js_string option"
  ic_group :: "js_string option"
  ic_mode :: "js_string option"
  ic_user :: "js_string option"

record item_to_copy_row = item_to_copy +
  icr_rowID :: js_string

record alert =
  at_enabled :: bool
  at_cancel_label :: "js_string option"
  at_detail :: "js_string option"
  at_ok_label :: "js_string option"
  at_title :: "js_string option"

record 'f package_form =
  pf_software_id :: "int option"
  pf_version :: js_string
  pf_installer_type :: js_string
  pf_installer_object_id :: "int option"
  pf_installer_file :: "'f option"
  pf_uninstallable :: bool
  pf_uninstall_method :: js_string
  pf_restart_required :: bool
  pf_restart_action :: js_string
  pf_restart_action_for_uninstall :: js_string
  pf_minimum_munki_version :: js_string
  pf_minimum_os_version :: js_string
  pf_maximum_os_version :: js_string
  pf_supported_architectures :: "js_string list"
  pf_blocking_applications_none :: bool
  pf_blocking_applications :: "string_row list"
  pf_installable_condition :: js_string
  pf_blocking_applications_manual_quit_only :: bool
  pf_blocking_applications_quit_script :: js_string
  pf_blocking_applications_with_launch_args :: "launch_arguments_row list"
  pf_download_on_low_data :: js_string
  pf_custom_action_labels :: action_labels
  pf_requires :: "package_reference_row list"
  pf_update_for :: "package_reference_row list"
  pf_unattended_install :: bool
  pf_unattended_uninstall :: bool
  pf_on_demand :: bool
  pf_precache :: bool
  pf_autoremove :: bool
  pf_apple_item :: bool
  pf_force_install_after_date :: js_string
  pf_installed_size :: js_string
  pf_package_path :: js_string
  pf_installer_choices_xml :: js_string
  pf_installer_environment :: "installer_environment_row list"
  pf_installs :: "install_item_row list"
  pf_receipts :: "receipt_row list"
  pf_items_to_copy :: "item_to_copy_row list"
  pf_notes :: js_string
  pf_installcheck_script :: js_string
  pf_uninstallcheck_script :: js_string
  pf_preinstall_script :: js_string
  pf_postinstall_script :: js_string
  pf_preuninstall_script :: js_string
  pf_postuninstall_script :: js_string
  pf_uninstall_script :: js_string
  pf_version_script :: js_string
  pf_preinstall_alert :: alert
  pf_preuninstall_alert :: alert

section \<open>Installer choices\<close>

record installer_choice =
  ch_identifier :: "js_string option"
  ch_attribute :: "js_string option"
  ch_setting :: int

definition stringValue :: "json option \<Rightarrow> js_string" where
  "stringValue value = (case value of Some (JStr s) \<Rightarrow> s | _ \<Rightarrow> [])"

definition numberValue :: "json option \<Rightarrow> js_num option" where
  "numberValue value =
     (case value of
        Some (JNum x) \<Rightarrow> (if is_finite_num x then Some x else None)
      | Some (JStr s) \<Rightarrow>
          (if js_trim s = [] then None
           else let parsed = js_number s in if is_finite_num parsed then Some parsed else None)
      | _ \<Rightarrow> None)"

definition is_int32 :: "js_num \<Rightarrow> bool" where
  "is_int32 x \<longleftrightarrow>
     is_integer_num x \<and> \<not> x < num_of_int (- 2147483648) \<and> \<not> num_of_int 2147483647 < x"

definition installerChoice :: "json \<Rightarrow> thrown + installer_choice" where
  "installerChoice value =
     (case value of
        JObj members \<Rightarrow>
          (let choiceIdentifier = js_trim (stringValue (json_get ''choice_identifier'' members));
               choiceAttribute = stringValue (json_get ''choice_attribute'' members);
               attributeSetting = numberValue (json_get ''attribute_setting'' members)
           in if choiceIdentifier = [] then
                Inl (NativeError ''Installer choice entries require choice_identifier.'')
              else
                (case attributeSetting of
                   None \<Rightarrow>
                     Inl (NativeError ''Installer choice entries require a whole int32 attribute_setting.'')
                 | Some x \<Rightarrow>
                     if is_int32 x then
                       Inr \<lparr>ch_identifier = Some choiceIdentifier, ch_attribute = Some choiceAttribute,
                            ch_setting = the (int_of_num x)\<rparr>
                     else
                       Inl (NativeError ''Installer choice entries require a whole int32 attribute_setting.'')))
      | _ \<Rightarrow> Inl (NativeError ''Installer choice entries must be JSON objects.''))"

definition parseInstallerChoices ::
    "(js_string \<Rightarrow> js_string) \<Rightarrow> js_string \<Rightarrow> thrown + installer_choice list" where
  "parseInstallerChoices syntax_message value =
     (let text = js_trim value
      in if text = [] then Inr []
         else (case json_parse text of
                 Inl _ \<Rightarrow> Inl (NativeError (syntax_message text))
               | Inr (JArr items) \<Rightarrow> map_throw installerChoice items
               | Inr _ \<Rightarrow> Inl (NativeError ''Installer choices must be a JSON array.'')))"

definition parseInstallerChoicesError ::
    "(js_string \<Rightarrow> js_string) \<Rightarrow> js_string \<Rightarrow> js_string option" where
  "parseInstallerChoicesError syntax_message value =
     (case parseInstallerChoices syntax_message value of
        Inr _ \<Rightarrow> None
      | Inl e \<Rightarrow> Some (message_of e ''Installer choices must be valid JSON.''))"

lemma is_int32_of_int: "is_int32 (num_of_int n) \<longleftrightarrow> - 2147483648 \<le> n \<and> n \<le> 2147483647"
proof -
  have "(of_int n < (- 2147483648 :: rat)) = (n < - 2147483648)"
    and "((2147483647 :: rat) < of_int n) = (2147483647 < n)"
    using of_int_less_iff [of n "- 2147483648", where ?'a = rat]
      of_int_less_iff [of 2147483647 n, where ?'a = rat] by simp_all
  then show ?thesis by (auto simp: is_int32_def)
qed

lemma is_int32E:
  assumes "is_int32 x"
  obtains n where "x = num_of_int n" "- 2147483648 \<le> n" "n \<le> 2147483647"
proof (cases x)
  case (Fin r)
  with assms obtain n where "r = of_int n"
    by (auto simp: is_int32_def is_integer_num_def denominator_one)
  with assms Fin show ?thesis by (auto simp: is_int32_of_int intro: that)
qed (use assms in \<open>auto simp: is_int32_def is_integer_num_def\<close>)

text \<open>A choice the parser returns: a trimmed, non-empty identifier and a 32-bit setting.\<close>

definition choice_ok :: "installer_choice \<Rightarrow> bool" where
  "choice_ok c \<longleftrightarrow>
     (\<exists>i a. ch_identifier c = Some i \<and> i \<noteq> [] \<and> js_trim i = i \<and> ch_attribute c = Some a) \<and>
     - 2147483648 \<le> ch_setting c \<and> ch_setting c \<le> 2147483647"

lemma installerChoice_ok: "installerChoice v = Inr c \<Longrightarrow> choice_ok c"
  by (auto simp: installerChoice_def choice_ok_def Let_def elim!: is_int32E
      split: json.splits if_splits option.splits)

lemma parseInstallerChoices_ok:
  assumes "parseInstallerChoices sm value = Inr cs" and "c \<in> set cs"
  shows "choice_ok c"
proof -
  from assms obtain items where "map_throw installerChoice items = Inr cs"
    by (auto simp: parseInstallerChoices_def Let_def split: if_splits sum.splits json.splits)
  with assms(2) show ?thesis
    unfolding map_throw_Inr by (auto simp: list_all2_conv_all_nth in_set_conv_nth intro: installerChoice_ok)
qed

section \<open>The issues of \<open>superRefine\<close>\<close>

fun environment_issues :: "js_string list \<Rightarrow> installer_environment_row list \<Rightarrow> issue list" where
  "environment_issues names [] = []"
| "environment_issues names (variable # rest) =
     (let name = js_trim (ie_name variable)
      in if name = [] then
           issue_if True ''installer_environment'' ''Every installer environment variable requires a name.''
         else if name \<in> set names then
           issue_if True ''installer_environment''
             (''Installer environment contains duplicate name '' @ name @ ''.'')
         else environment_issues (name # names) rest)"

fun launch_issues :: "js_string list \<Rightarrow> launch_arguments_row list \<Rightarrow> issue list" where
  "launch_issues applications [] = []"
| "launch_issues applications (row # rest) =
     (let application = js_trim (lar_application row)
      in if application = [] \<and> js_trim (lar_arguments row) = [] then launch_issues applications rest
         else if application = [] then
           issue_if True ''blocking_applications_with_launch_args''
             ''Every set of relaunch arguments requires an application.''
         else if application \<in> set applications then
           issue_if True ''blocking_applications_with_launch_args''
             (''Relaunch arguments contain duplicate application '' @ application @ ''.'')
         else launch_issues (application # applications) rest)"

definition hasReceiptInput :: "receipt_row list \<Rightarrow> bool" where
  "hasReceiptInput rows = list_ex (\<lambda>row. js_trim (re_package_id row) \<noteq> []) rows"

definition hasItemToCopyInput :: "item_to_copy_row list \<Rightarrow> bool" where
  "hasItemToCopyInput rows =
     list_ex (\<lambda>row. js_trim (ic_source_item row) \<noteq> [] \<or> js_trim (ic_destination_path row) \<noteq> []) rows"

text \<open>\<open>!Number.isSafeInteger(x) || x < 0\<close>.\<close>

definition bad_size :: "js_num \<Rightarrow> bool" where
  "bad_size x \<longleftrightarrow> \<not> is_safe_integer x \<or> x < Fin 0"

record date_env =
  de_parse :: "js_string \<Rightarrow> int option"
  de_toISO :: "int \<Rightarrow> js_string"
  de_offset :: "int \<Rightarrow> int"

definition package_issues ::
    "date_env \<Rightarrow> (js_string \<Rightarrow> js_string) \<Rightarrow> 'f package_form \<Rightarrow> issue list" where
  "package_issues de syntax_message form =
     issue_if (pf_uninstallable form \<and> pf_uninstall_method form = [])
       ''uninstall_method'' ''Uninstallable packages require an uninstall method.'' @
     issue_if (pf_installer_type form \<noteq> ''nopkg'' \<and> pf_installer_object_id form = None \<and>
               pf_installer_file form = None)
       ''installer_file'' ''Installer file is required.'' @
     issue_if (js_trim (pf_installed_size form) \<noteq> [] \<and> bad_size (js_number (pf_installed_size form)))
       ''installed_size'' ''Installed size must be a non-negative whole number.'' @
     issue_if (js_trim (pf_force_install_after_date form) \<noteq> [] \<and>
               de_parse de (pf_force_install_after_date form) = None)
       ''force_install_after_date'' ''Force install after must be a valid date and time.'' @
     environment_issues [] (pf_installer_environment form) @
     issue_if (list_ex (\<lambda>item. js_trim (ii_path item) = []) (pf_installs form))
       ''installs'' ''Every install item requires a path.'' @
     issue_if
       (list_ex (\<lambda>r. js_trim (re_package_id r) = [] \<or>
           (case re_installed_size r of None \<Rightarrow> False | Some n \<Rightarrow> bad_size n)) (pf_receipts form))
       ''receipts'' ''Every receipt requires a package ID and a non-negative whole installed size.'' @
     issue_if
       (list_ex (\<lambda>item. js_trim (ic_source_item item) = [] \<or> js_trim (ic_destination_path item) = [])
          (pf_items_to_copy form))
       ''items_to_copy'' ''Every copy item requires a source item and destination path.'' @
     issue_if (list_ex (\<lambda>r. prr_software_id r = None) (pf_requires form))
       ''requires'' ''Every requirement must select a package.'' @
     issue_if (list_ex (\<lambda>r. prr_software_id r = None) (pf_update_for form))
       ''update_for'' ''Every update target must select a package.'' @
     issue_if (\<not> pf_blocking_applications_none form \<and>
               list_ex (\<lambda>a. js_trim (sr_value a) = []) (pf_blocking_applications form))
       ''blocking_applications'' ''Every blocking application requires a name.'' @
     launch_issues [] (pf_blocking_applications_with_launch_args form) @
     issue_if (pf_installer_type form = ''copy_from_dmg'' \<and>
               \<not> hasItemToCopyInput (pf_items_to_copy form))
       ''items_to_copy'' ''Copy from DMG packages require at least one item to copy.'' @
     (if pf_installer_type form \<noteq> ''nopkg'' then
        (case parseInstallerChoicesError syntax_message (pf_installer_choices_xml form) of
           None \<Rightarrow> []
         | Some message \<Rightarrow> issue_if (message \<noteq> []) ''installer_choices_xml'' message)
      else []) @
     issue_if (pf_uninstallable form \<and> pf_uninstall_method form = ''removepackages'' \<and>
               \<not> hasReceiptInput (pf_receipts form))
       ''receipts'' ''Remove packages uninstall requires at least one receipt.'' @
     issue_if (pf_uninstallable form \<and> pf_uninstall_method form = ''remove_copied_items'' \<and>
               \<not> hasItemToCopyInput (pf_items_to_copy form))
       ''items_to_copy'' ''Remove copied items uninstall requires at least one item to copy.'' @
     issue_if (pf_uninstallable form \<and> pf_uninstall_method form = ''uninstall_script'' \<and>
               nonEmpty (Some (pf_uninstall_script form)) = None)
       ''uninstall_script'' ''Uninstall script method requires an uninstall script.''"

section \<open>What a form without issues is\<close>

lemma environment_issues_empty [issue_simps]:
  "environment_issues names rows = [] \<longleftrightarrow>
     (\<forall>r \<in> set rows. js_trim (ie_name r) \<noteq> []) \<and>
     distinct (map (\<lambda>r. js_trim (ie_name r)) rows) \<and>
     (\<forall>r \<in> set rows. js_trim (ie_name r) \<notin> set names)"
  by (induction names rows rule: environment_issues.induct)
    (auto simp: Let_def issue_simps image_iff)

text \<open>The rows of relaunch arguments that are filled in.\<close>

definition launch_input :: "launch_arguments_row list \<Rightarrow> launch_arguments_row list" where
  "launch_input rows =
     filter (\<lambda>r. js_trim (lar_application r) \<noteq> [] \<or> js_trim (lar_arguments r) \<noteq> []) rows"

lemma launch_issues_empty [issue_simps]:
  "launch_issues applications rows = [] \<longleftrightarrow>
     (\<forall>r \<in> set (launch_input rows). js_trim (lar_application r) \<noteq> []) \<and>
     distinct (map (\<lambda>r. js_trim (lar_application r)) (launch_input rows)) \<and>
     (\<forall>r \<in> set (launch_input rows). js_trim (lar_application r) \<notin> set applications)"
  by (induction applications rows rule: launch_issues.induct)
    (auto simp: Let_def issue_simps launch_input_def image_iff)

text \<open>Every variable has a name, no two the same; likewise for the applications filled in.\<close>

definition environment_ok :: "installer_environment_row list \<Rightarrow> bool" where
  "environment_ok rows \<longleftrightarrow>
     (\<forall>r \<in> set rows. js_trim (ie_name r) \<noteq> []) \<and> distinct (map (\<lambda>r. js_trim (ie_name r)) rows)"

definition launch_ok :: "launch_arguments_row list \<Rightarrow> bool" where
  "launch_ok rows \<longleftrightarrow>
     (\<forall>r \<in> set (launch_input rows). js_trim (lar_application r) \<noteq> []) \<and>
     distinct (map (\<lambda>r. js_trim (lar_application r)) (launch_input rows))"

lemma environment_issues_ok: "environment_issues [] rows = [] \<longleftrightarrow> environment_ok rows"
  by (auto simp: environment_issues_empty environment_ok_def)

lemma launch_issues_ok: "launch_issues [] rows = [] \<longleftrightarrow> launch_ok rows"
  by (auto simp: launch_issues_empty launch_ok_def)

definition size_ok :: "js_num \<Rightarrow> bool" where
  "size_ok x \<longleftrightarrow> (\<exists>n. x = num_of_int n \<and> 0 \<le> n \<and> n \<le> max_safe_integer)"

lemma bad_size_iff: "bad_size x \<longleftrightarrow> \<not> size_ok x"
proof -
  have "is_safe_integer x \<and> \<not> x < Fin 0 \<Longrightarrow> size_ok x"
  proof (elim conjE)
    assume x: "is_safe_integer x" and n: "\<not> x < Fin 0"
    from x obtain n where "x = num_of_int n" "\<bar>n\<bar> \<le> max_safe_integer" by (rule is_safe_integerE)
    with n show "size_ok x" by (auto simp: size_ok_def)
  qed
  then show ?thesis by (auto simp: bad_size_def size_ok_def is_safe_integer_of_int)
qed

definition package_form_ok ::
    "date_env \<Rightarrow> (js_string \<Rightarrow> js_string) \<Rightarrow> 'f package_form \<Rightarrow> bool" where
  "package_form_ok de sm f \<longleftrightarrow>
     (pf_uninstallable f \<longrightarrow> pf_uninstall_method f \<noteq> []) \<and>
     (pf_installer_type f = ''nopkg'' \<or> pf_installer_object_id f \<noteq> None \<or> pf_installer_file f \<noteq> None) \<and>
     (js_trim (pf_installed_size f) = [] \<or> size_ok (js_number (pf_installed_size f))) \<and>
     (js_trim (pf_force_install_after_date f) = [] \<or>
      de_parse de (pf_force_install_after_date f) \<noteq> None) \<and>
     environment_ok (pf_installer_environment f) \<and>
     (\<forall>i \<in> set (pf_installs f). js_trim (ii_path i) \<noteq> []) \<and>
     (\<forall>r \<in> set (pf_receipts f). js_trim (re_package_id r) \<noteq> [] \<and>
        (\<forall>n. re_installed_size r = Some n \<longrightarrow> size_ok n)) \<and>
     (\<forall>i \<in> set (pf_items_to_copy f). js_trim (ic_source_item i) \<noteq> [] \<and>
        js_trim (ic_destination_path i) \<noteq> []) \<and>
     (\<forall>r \<in> set (pf_requires f). prr_software_id r \<noteq> None) \<and>
     (\<forall>r \<in> set (pf_update_for f). prr_software_id r \<noteq> None) \<and>
     (pf_blocking_applications_none f \<or>
      (\<forall>a \<in> set (pf_blocking_applications f). js_trim (sr_value a) \<noteq> [])) \<and>
     launch_ok (pf_blocking_applications_with_launch_args f) \<and>
     (pf_installer_type f = ''copy_from_dmg'' \<longrightarrow> hasItemToCopyInput (pf_items_to_copy f)) \<and>
     (pf_installer_type f \<noteq> ''nopkg'' \<longrightarrow>
        \<not> isl (parseInstallerChoices sm (pf_installer_choices_xml f))) \<and>
     (pf_uninstallable f \<and> pf_uninstall_method f = ''removepackages'' \<longrightarrow>
        hasReceiptInput (pf_receipts f)) \<and>
     (pf_uninstallable f \<and> pf_uninstall_method f = ''remove_copied_items'' \<longrightarrow>
        hasItemToCopyInput (pf_items_to_copy f)) \<and>
     (pf_uninstallable f \<and> pf_uninstall_method f = ''uninstall_script'' \<longrightarrow>
        js_trim (pf_uninstall_script f) \<noteq> [])"

text \<open>The parser never fails with an empty message, provided \<open>JSON.parse\<close> does not.\<close>

lemma installerChoice_message:
  "installerChoice v = Inl e \<Longrightarrow> message_of e d \<noteq> []"
  by (auto simp: installerChoice_def Let_def message_of_def split: json.splits if_splits option.splits)

lemma parseInstallerChoicesError_None:
  "parseInstallerChoicesError sm v = None \<longleftrightarrow> \<not> isl (parseInstallerChoices sm v)"
  by (simp add: parseInstallerChoicesError_def split: sum.splits)

lemma parseInstallerChoicesError_nonempty:
  assumes "\<And>t. sm t \<noteq> []" and "parseInstallerChoicesError sm v = Some m"
  shows "m \<noteq> []"
proof -
  from assms(2) obtain e where e: "parseInstallerChoices sm v = Inl e"
      "m = message_of e ''Installer choices must be valid JSON.''"
    by (auto simp: parseInstallerChoicesError_def split: sum.splits)
  from e(1) have "message_of e ''Installer choices must be valid JSON.'' \<noteq> []"
    using assms(1)
    by (auto simp: parseInstallerChoices_def Let_def message_of_def split: if_splits sum.splits
        json.splits dest!: map_throw_Inl dest: installerChoice_message [unfolded message_of_def])
  with e(2) show ?thesis by simp
qed

lemma choices_issue:
  assumes "\<And>t. sm t \<noteq> []"
  shows "(case parseInstallerChoicesError sm v of None \<Rightarrow> []
      | Some message \<Rightarrow> issue_if (message \<noteq> []) p message) = []
    \<longleftrightarrow> \<not> isl (parseInstallerChoices sm v)"
  using parseInstallerChoicesError_nonempty [where sm = sm and v = v] assms
    parseInstallerChoicesError_None [of sm v]
  by (auto simp: issue_simps split: option.splits)

lemma receipt_rows_ok:
  "\<not> list_ex (\<lambda>r. js_trim (re_package_id r) = [] \<or>
      (case re_installed_size r of None \<Rightarrow> False | Some n \<Rightarrow> bad_size n)) rows
    \<longleftrightarrow> (\<forall>r \<in> set rows. js_trim (re_package_id r) \<noteq> [] \<and>
          (\<forall>n. re_installed_size r = Some n \<longrightarrow> size_ok n))"
proof -
  have "(case s of None \<Rightarrow> False | Some n \<Rightarrow> bad_size n) \<longleftrightarrow> (\<exists>n. s = Some n \<and> \<not> size_ok n)" for s
    by (cases s) (simp_all add: bad_size_iff)
  then show ?thesis by (auto simp: list_ex_iff)
qed

lemma package_issues_empty:
  assumes "\<And>t. sm t \<noteq> []"
  shows "package_issues de sm f = [] \<longleftrightarrow> package_form_ok de sm f"
proof -
  have choices: "(if pf_installer_type f \<noteq> ''nopkg'' then
      (case parseInstallerChoicesError sm (pf_installer_choices_xml f) of None \<Rightarrow> []
        | Some message \<Rightarrow> issue_if (message \<noteq> []) ''installer_choices_xml'' message) else []) = []
    \<longleftrightarrow> (pf_installer_type f \<noteq> ''nopkg'' \<longrightarrow>
          \<not> isl (parseInstallerChoices sm (pf_installer_choices_xml f)))"
    using choices_issue [OF assms] by simp
  have script: "nonEmpty (Some (pf_uninstall_script f)) = None \<longleftrightarrow> js_trim (pf_uninstall_script f) = []"
    by (simp add: nonEmpty_eq_None)
  show ?thesis
    unfolding package_issues_def package_form_ok_def append_is_Nil_conv choices script
      issue_if_empty environment_issues_ok launch_issues_ok receipt_rows_ok bad_size_iff
    unfolding list_ex_iff
    by (intro arg_cong2 [where f = "(\<and>)"];
        ((rule refl)?; (simp only: de_Morgan_conj de_Morgan_disj not_not Bex_def Ball_def not_ex
          imp_conv_disj disj_assoc)?))
qed

end
