(* ===== verification/MunkiPackageForm.thy ===== *)
theory MunkiPackageForm
  imports MunkiPackageSchema
begin

text \<open>
  The adapter between a Munki package and its form:
  \<open>web/src/features/munki/packages/form-adapter.ts\<close>.

  A row id is the next of a supply \<open>uuid\<close> (\<open>crypto.randomUUID()\<close>), numbered in the order of the
  calls.  \<open>Date\<close> is the parameter of \<open>MunkiPackageSchema\<close>.  \<open>packageMutationFromForm\<close> throws what
  \<open>parseInstallerChoices\<close> throws.  Main results: a form without issues has a mutation, the text of
  installer choices parses back to them, and saving the form of a package as it was opened stores
  what was stored.
\<close>

section \<open>What the API holds\<close>

record package_reference =
  pref_software_id :: int
  pref_package_id :: "int option"
  pref_software_name :: js_string
  pref_package_version :: "js_string option"

record package_reference_mutation =
  pr_software_id :: int
  pr_package_id :: "int option"

record launch_arguments =
  la_application :: js_string
  la_arguments :: "js_string list"

record package_mutation =
  pm_version :: js_string
  pm_installer_type :: js_string
  pm_installer_object_id :: "int option"
  pm_uninstallable :: bool
  pm_uninstall_method :: "js_string option"
  pm_restart_action :: "js_string option"
  pm_restart_action_for_uninstall :: "js_string option"
  pm_minimum_munki_version :: "js_string option"
  pm_minimum_os_version :: "js_string option"
  pm_maximum_os_version :: "js_string option"
  pm_supported_architectures :: "js_string list"
  pm_blocking_applications_none :: bool
  pm_blocking_applications :: "js_string list"
  pm_installable_condition :: "js_string option"
  pm_blocking_applications_manual_quit_only :: bool
  pm_blocking_applications_quit_script :: "js_string option"
  pm_blocking_applications_with_launch_args :: "launch_arguments list"
  pm_download_on_low_data :: js_string
  pm_custom_action_labels :: action_labels
  pm_requires :: "package_reference_mutation list"
  pm_update_for :: "package_reference_mutation list"
  pm_unattended_install :: bool
  pm_unattended_uninstall :: bool
  pm_on_demand :: bool
  pm_precache :: bool
  pm_autoremove :: bool
  pm_apple_item :: bool
  pm_force_install_after_date :: "js_string option"
  pm_installed_size :: "js_num option"
  pm_package_path :: "js_string option"
  pm_installer_choices_xml :: "installer_choice list"
  pm_installer_environment :: "installer_environment list"
  pm_installs :: "install_item list"
  pm_receipts :: "receipt list"
  pm_items_to_copy :: "item_to_copy list"
  pm_notes :: "js_string option"
  pm_installcheck_script :: "js_string option"
  pm_uninstallcheck_script :: "js_string option"
  pm_preinstall_script :: "js_string option"
  pm_postinstall_script :: "js_string option"
  pm_preuninstall_script :: "js_string option"
  pm_postuninstall_script :: "js_string option"
  pm_uninstall_script :: "js_string option"
  pm_version_script :: "js_string option"
  pm_preinstall_alert :: alert
  pm_preuninstall_alert :: alert

record munki_package =
  mp_software_id :: int
  mp_version :: js_string
  mp_installer_type :: js_string
  mp_installer_object_id :: "int option"
  mp_uninstallable :: bool
  mp_uninstall_method :: "js_string option"
  mp_restart_action :: "js_string option"
  mp_restart_action_for_uninstall :: "js_string option"
  mp_minimum_munki_version :: js_string
  mp_minimum_os_version :: js_string
  mp_maximum_os_version :: js_string
  mp_supported_architectures :: "js_string list option"
  mp_blocking_applications_none :: bool
  mp_blocking_applications :: "js_string list option"
  mp_installable_condition :: js_string
  mp_blocking_applications_manual_quit_only :: bool
  mp_blocking_applications_quit_script :: js_string
  mp_blocking_applications_with_launch_args :: "launch_arguments list option"
  mp_download_on_low_data :: js_string
  mp_custom_action_labels :: action_labels
  mp_requires :: "package_reference list option"
  mp_update_for :: "package_reference list option"
  mp_unattended_install :: bool
  mp_unattended_uninstall :: bool
  mp_on_demand :: bool
  mp_precache :: bool
  mp_autoremove :: bool
  mp_apple_item :: bool
  mp_force_install_after_date :: "js_string option"
  mp_installed_size :: int
  mp_package_path :: js_string
  mp_installer_choices_xml :: "installer_choice list option"
  mp_installer_environment :: "installer_environment list option"
  mp_installs :: "install_item list option"
  mp_receipts :: "receipt list option"
  mp_items_to_copy :: "item_to_copy list option"
  mp_notes :: js_string
  mp_installcheck_script :: js_string
  mp_uninstallcheck_script :: js_string
  mp_preinstall_script :: js_string
  mp_postinstall_script :: js_string
  mp_preuninstall_script :: js_string
  mp_postuninstall_script :: js_string
  mp_uninstall_script :: js_string
  mp_version_script :: js_string
  mp_preinstall_alert :: alert
  mp_preuninstall_alert :: alert

section \<open>From the form to the mutation\<close>

text \<open>\<open>value || undefined\<close>.\<close>

definition truthy_string :: "js_string \<Rightarrow> js_string option" where
  "truthy_string s = (if s = [] then None else Some s)"

definition cleanPackageReferences ::
    "package_reference_row list \<Rightarrow> package_reference_mutation list" where
  "cleanPackageReferences rows =
     concat (map (\<lambda>row. case prr_software_id row of
         None \<Rightarrow> []
       | Some i \<Rightarrow>
           (if i = 0 then []
            else [\<lparr>pr_software_id = i, pr_package_id = prr_package_id row\<rparr>])) rows)"

definition cleanLaunchArguments :: "launch_arguments_row list \<Rightarrow> launch_arguments list" where
  "cleanLaunchArguments rows =
     concat (map (\<lambda>row.
       let application = js_trim (lar_application row)
       in if application \<noteq> [] then
            [\<lparr>la_application = application,
              la_arguments = filter (\<lambda>v. v \<noteq> []) (js_split (CHR 0x0A) (lar_arguments row))\<rparr>]
          else []) rows)"

definition clean_text :: "js_string option \<Rightarrow> js_string option" where
  "clean_text v = nonEmpty (Some (coalesce v []))"

definition cleanActionLabels :: "action_labels \<Rightarrow> action_labels" where
  "cleanActionLabels labels =
     \<lparr>al_install = clean_text (al_install labels),
      al_installing = clean_text (al_installing labels),
      al_installed = clean_text (al_installed labels),
      al_remove = clean_text (al_remove labels),
      al_removing = clean_text (al_removing labels),
      al_update = clean_text (al_update labels)\<rparr>"

definition cleanInstallerEnvironment ::
    "installer_environment_row list \<Rightarrow> installer_environment list" where
  "cleanInstallerEnvironment rows =
     concat (map (\<lambda>row. let name = js_trim (ie_name row)
       in if name \<noteq> [] then [\<lparr>ie_name = name, ie_value = ie_value row\<rparr>] else []) rows)"

definition cleanInstallItems :: "install_item_row list \<Rightarrow> install_item list" where
  "cleanInstallItems rows =
     concat (map (\<lambda>row. let path = js_trim (ii_path row)
       in if path \<noteq> [] then [(install_item.truncate row)\<lparr>ii_path := path\<rparr>] else []) rows)"

definition cleanReceipts :: "receipt_row list \<Rightarrow> receipt list" where
  "cleanReceipts rows =
     concat (map (\<lambda>row. let packageID = js_trim (re_package_id row)
       in if packageID \<noteq> [] then
            [\<lparr>re_package_id = packageID, re_installed_size = re_installed_size row,
              re_name = clean_text (re_name row), re_optional = re_optional row,
              re_version = clean_text (re_version row)\<rparr>]
          else []) rows)"

definition cleanItemsToCopy :: "item_to_copy_row list \<Rightarrow> item_to_copy list" where
  "cleanItemsToCopy rows =
     concat (map (\<lambda>row.
       let sourceItem = js_trim (ic_source_item row);
           destinationPath = js_trim (ic_destination_path row)
       in if sourceItem \<noteq> [] \<or> destinationPath \<noteq> [] then
            [(item_to_copy.truncate row)
               \<lparr>ic_source_item := sourceItem, ic_destination_path := destinationPath\<rparr>]
          else []) rows)"

definition cleanAlert :: "alert \<Rightarrow> alert" where
  "cleanAlert a =
     (if \<not> at_enabled a then
        \<lparr>at_enabled = False, at_cancel_label = None, at_detail = None, at_ok_label = None,
         at_title = None\<rparr>
      else
        \<lparr>at_enabled = True, at_cancel_label = clean_text (at_cancel_label a),
         at_detail = clean_text (at_detail a), at_ok_label = clean_text (at_ok_label a),
         at_title = clean_text (at_title a)\<rparr>)"

definition cleanStringRows :: "string_row list \<Rightarrow> js_string list" where
  "cleanStringRows rows = filter (\<lambda>v. v \<noteq> []) (map (\<lambda>row. js_trim (sr_value row)) rows)"

definition numberOrUndefined :: "js_string \<Rightarrow> js_num option" where
  "numberOrUndefined value =
     (if js_trim value = [] then None
      else let parsed = js_number value in if is_finite_num parsed then Some parsed else None)"

definition dateTimeLocalToISO :: "date_env \<Rightarrow> js_string \<Rightarrow> js_string option" where
  "dateTimeLocalToISO de value =
     (if js_trim value = [] then None else map_option (de_toISO de) (de_parse de value))"

definition packageMutationFromForm ::
    "date_env \<Rightarrow> (js_string \<Rightarrow> js_string) \<Rightarrow> 'f package_form \<Rightarrow> int option
      \<Rightarrow> thrown + package_mutation" where
  "packageMutationFromForm de syntax_message form objectID =
     (let installerObjectID = (case objectID of None \<Rightarrow> pf_installer_object_id form | Some i \<Rightarrow> Some i);
          uninstallMethod = pf_uninstall_method form;
          usesInstallerOptions = (pf_installer_type form \<noteq> ''nopkg'');
          usesItemsToCopy = (pf_installer_type form = ''copy_from_dmg'' \<or>
            uninstallMethod = ''remove_copied_items'');
          blockingApplications = cleanStringRows (pf_blocking_applications form)
      in case (if usesInstallerOptions
               then parseInstallerChoices syntax_message (pf_installer_choices_xml form)
               else Inr []) of
           Inl e \<Rightarrow> Inl e
         | Inr choices \<Rightarrow> Inr \<lparr>
         pm_version = pf_version form,
         pm_installer_type = pf_installer_type form,
         pm_installer_object_id = (if pf_installer_type form = ''nopkg'' then None else installerObjectID),
         pm_uninstallable = pf_uninstallable form,
         pm_uninstall_method = truthy_string (pf_uninstall_method form),
         pm_restart_action = (if pf_restart_required form then Some (pf_restart_action form) else None),
         pm_restart_action_for_uninstall = truthy_string (pf_restart_action_for_uninstall form),
         pm_minimum_munki_version = nonEmpty (Some (pf_minimum_munki_version form)),
         pm_minimum_os_version = nonEmpty (Some (pf_minimum_os_version form)),
         pm_maximum_os_version = nonEmpty (Some (pf_maximum_os_version form)),
         pm_supported_architectures = pf_supported_architectures form,
         pm_blocking_applications_none = pf_blocking_applications_none form,
         pm_blocking_applications = (if pf_blocking_applications_none form then [] else blockingApplications),
         pm_installable_condition = nonEmpty (Some (pf_installable_condition form)),
         pm_blocking_applications_manual_quit_only = pf_blocking_applications_manual_quit_only form,
         pm_blocking_applications_quit_script = nonEmpty (Some (pf_blocking_applications_quit_script form)),
         pm_blocking_applications_with_launch_args = (if pf_blocking_applications_none form then []
         else cleanLaunchArguments (pf_blocking_applications_with_launch_args form)),
         pm_download_on_low_data = pf_download_on_low_data form,
         pm_custom_action_labels = cleanActionLabels (pf_custom_action_labels form),
         pm_requires = cleanPackageReferences (pf_requires form),
         pm_update_for = cleanPackageReferences (pf_update_for form),
         pm_unattended_install = pf_unattended_install form,
         pm_unattended_uninstall = pf_unattended_uninstall form,
         pm_on_demand = pf_on_demand form,
         pm_precache = pf_precache form,
         pm_autoremove = pf_autoremove form,
         pm_apple_item = pf_apple_item form,
         pm_force_install_after_date = dateTimeLocalToISO de (pf_force_install_after_date form),
         pm_installed_size = numberOrUndefined (pf_installed_size form),
         pm_package_path = (if usesInstallerOptions then nonEmpty (Some (pf_package_path form)) else None),
         pm_installer_choices_xml = choices,
         pm_installer_environment = (if usesInstallerOptions
         then cleanInstallerEnvironment (pf_installer_environment form) else []),
         pm_installs = cleanInstallItems (pf_installs form),
         pm_receipts = cleanReceipts (pf_receipts form),
         pm_items_to_copy = (if usesItemsToCopy then cleanItemsToCopy (pf_items_to_copy form) else []),
         pm_notes = nonEmpty (Some (pf_notes form)),
         pm_installcheck_script = nonEmpty (Some (pf_installcheck_script form)),
         pm_uninstallcheck_script = nonEmpty (Some (pf_uninstallcheck_script form)),
         pm_preinstall_script = nonEmpty (Some (pf_preinstall_script form)),
         pm_postinstall_script = nonEmpty (Some (pf_postinstall_script form)),
         pm_preuninstall_script = nonEmpty (Some (pf_preuninstall_script form)),
         pm_postuninstall_script = nonEmpty (Some (pf_postuninstall_script form)),
         pm_uninstall_script = (if uninstallMethod = ''uninstall_script''
         then nonEmpty (Some (pf_uninstall_script form)) else None),
         pm_version_script = nonEmpty (Some (pf_version_script form)),
         pm_preinstall_alert = cleanAlert (pf_preinstall_alert form),
         pm_preuninstall_alert = cleanAlert (pf_preuninstall_alert form)\<rparr>)"

section \<open>From the package to the form\<close>

definition emptyAlert :: alert where
  "emptyAlert = \<lparr>at_enabled = False, at_cancel_label = None, at_detail = None, at_ok_label = None,
     at_title = None\<rparr>"

definition emptyPackageForm :: "int option \<Rightarrow> 'f package_form" where
  "emptyPackageForm softwareID = \<lparr>
        pf_software_id = softwareID,
        pf_version = [],
        pf_installer_type = ''pkg'',
        pf_installer_object_id = None,
        pf_installer_file = None,
        pf_uninstallable = False,
        pf_uninstall_method = [],
        pf_restart_required = False,
        pf_restart_action = ''RequireRestart'',
        pf_restart_action_for_uninstall = [],
        pf_minimum_munki_version = [],
        pf_minimum_os_version = [],
        pf_maximum_os_version = [],
        pf_supported_architectures = [],
        pf_blocking_applications_none = False,
        pf_blocking_applications = [],
        pf_installable_condition = [],
        pf_blocking_applications_manual_quit_only = False,
        pf_blocking_applications_quit_script = [],
        pf_blocking_applications_with_launch_args = [],
        pf_download_on_low_data = ''auto'',
        pf_custom_action_labels = \<lparr>al_install = None, al_installing = None, al_installed = None, al_remove = None,
          al_removing = None, al_update = None\<rparr>,
        pf_requires = [],
        pf_update_for = [],
        pf_unattended_install = False,
        pf_unattended_uninstall = False,
        pf_on_demand = False,
        pf_precache = False,
        pf_autoremove = False,
        pf_apple_item = False,
        pf_force_install_after_date = [],
        pf_installed_size = [],
        pf_package_path = [],
        pf_installer_choices_xml = [],
        pf_installer_environment = [],
        pf_installs = [],
        pf_receipts = [],
        pf_items_to_copy = [],
        pf_notes = [],
        pf_installcheck_script = [],
        pf_uninstallcheck_script = [],
        pf_preinstall_script = [],
        pf_postinstall_script = [],
        pf_preuninstall_script = [],
        pf_postuninstall_script = [],
        pf_uninstall_script = [],
        pf_version_script = [],
        pf_preinstall_alert = emptyAlert,
        pf_preuninstall_alert = emptyAlert\<rparr>"

definition emptyStringRow :: "js_string \<Rightarrow> string_row" where
  "emptyStringRow rowID = \<lparr>sr_rowID = rowID, sr_value = []\<rparr>"

definition emptyLaunchArgumentsRow :: "js_string \<Rightarrow> launch_arguments_row" where
  "emptyLaunchArgumentsRow rowID = \<lparr>lar_rowID = rowID, lar_application = [], lar_arguments = []\<rparr>"

definition emptyPackageReferenceRow :: "js_string \<Rightarrow> package_reference_row" where
  "emptyPackageReferenceRow rowID =
     \<lparr>prr_software_id = None, prr_package_id = None, prr_software_name = None,
      prr_package_version = None, prr_rowID = rowID\<rparr>"

definition emptyInstallerEnvironmentRow :: "js_string \<Rightarrow> installer_environment_row" where
  "emptyInstallerEnvironmentRow rowID = \<lparr>ie_name = [], ie_value = [], ier_rowID = rowID\<rparr>"

definition emptyInstallItemRow :: "js_string \<Rightarrow> install_item_row" where
  "emptyInstallItemRow rowID =
     \<lparr>ii_path = [], ii_type = ''application'', ii_bundle_identifier = None, ii_bundle_name = None,
      ii_bundle_short_version = None, ii_bundle_version = None, ii_installer_item_location = None,
      ii_md5checksum = None, ii_minimum_os_version = None, ii_minimum_update_version = None,
      ii_version_comparison_key = None, iir_rowID = rowID\<rparr>"

definition emptyReceiptRow :: "js_string \<Rightarrow> receipt_row" where
  "emptyReceiptRow rowID =
     \<lparr>re_package_id = [], re_installed_size = None, re_name = None, re_optional = None,
      re_version = None, rer_rowID = rowID\<rparr>"

definition emptyItemToCopyRow :: "js_string \<Rightarrow> item_to_copy_row" where
  "emptyItemToCopyRow rowID =
     \<lparr>ic_source_item = [], ic_destination_path = [], ic_destination_item = None, ic_group = None,
      ic_mode = None, ic_user = None, icr_rowID = rowID\<rparr>"

text \<open>\<open>values.map\<close> with a fresh row id for each value; \<open>k\<close> ids were used before.\<close>

fun map_rows :: "(js_string \<Rightarrow> 'a \<Rightarrow> 'b) \<Rightarrow> (nat \<Rightarrow> js_string) \<Rightarrow> nat \<Rightarrow> 'a list \<Rightarrow> 'b list" where
  "map_rows f uuid k [] = []"
| "map_rows f uuid k (v # vs) = f (uuid k) v # map_rows f uuid (Suc k) vs"

definition packageReferenceRow :: "js_string \<Rightarrow> package_reference \<Rightarrow> package_reference_row" where
  "packageReferenceRow rowID value =
     \<lparr>prr_software_id = Some (pref_software_id value), prr_package_id = pref_package_id value,
      prr_software_name = Some (pref_software_name value),
      prr_package_version = pref_package_version value, prr_rowID = rowID\<rparr>"

definition stringRow :: "js_string \<Rightarrow> js_string \<Rightarrow> string_row" where
  "stringRow rowID value = \<lparr>sr_rowID = rowID, sr_value = value\<rparr>"

definition launchArgumentsRow :: "js_string \<Rightarrow> launch_arguments \<Rightarrow> launch_arguments_row" where
  "launchArgumentsRow rowID value =
     \<lparr>lar_rowID = rowID, lar_application = la_application value,
      lar_arguments = js_join [CHR 0x0A] (la_arguments value)\<rparr>"

definition installerEnvironmentRow ::
    "js_string \<Rightarrow> installer_environment \<Rightarrow> installer_environment_row" where
  "installerEnvironmentRow rowID value =
     installer_environment.extend value (installer_environment_row.fields rowID)"

definition installItemRow :: "js_string \<Rightarrow> install_item \<Rightarrow> install_item_row" where
  "installItemRow rowID value = install_item.extend value (install_item_row.fields rowID)"

definition receiptRow :: "js_string \<Rightarrow> receipt \<Rightarrow> receipt_row" where
  "receiptRow rowID value = receipt.extend value (receipt_row.fields rowID)"

definition itemToCopyRow :: "js_string \<Rightarrow> item_to_copy \<Rightarrow> item_to_copy_row" where
  "itemToCopyRow rowID value = item_to_copy.extend value (item_to_copy_row.fields rowID)"

text \<open>The members of a choice, in the order of its type.\<close>

definition plain_choice :: "installer_choice \<Rightarrow> plain" where
  "plain_choice c = PObj
     ((''attribute_setting'', PInt (ch_setting c)) #
      (case ch_attribute c of None \<Rightarrow> [] | Some a \<Rightarrow> [(''choice_attribute'', plain.PStr a)]) @
      (case ch_identifier c of None \<Rightarrow> [] | Some i \<Rightarrow> [(''choice_identifier'', plain.PStr i)]))"

definition installerChoicesText :: "installer_choice list \<Rightarrow> js_string" where
  "installerChoicesText choices =
     (if choices = [] then [] else json_stringify (PArr (map plain_choice choices)) 0)"

definition isoToDateTimeLocal :: "date_env \<Rightarrow> js_string option \<Rightarrow> js_string" where
  "isoToDateTimeLocal de value =
     (case value of
        None \<Rightarrow> []
      | Some s \<Rightarrow>
          (if s = [] then []
           else case de_parse de s of
             None \<Rightarrow> []
           | Some t \<Rightarrow> take 16 (de_toISO de (t - de_offset de t * 60000))))"

definition packageFormFromPackage ::
    "date_env \<Rightarrow> (nat \<Rightarrow> js_string) \<Rightarrow> munki_package \<Rightarrow> 'f package_form" where
  "packageFormFromPackage de uuid pkg =
     (let blocking =
            (if mp_blocking_applications_none pkg then []
             else coalesce (mp_blocking_applications pkg) []);
          launch = coalesce (mp_blocking_applications_with_launch_args pkg) [];
          requires = coalesce (mp_requires pkg) [];
          updates = coalesce (mp_update_for pkg) [];
          environment = coalesce (mp_installer_environment pkg) [];
          install = coalesce (mp_installs pkg) [];
          receipts = coalesce (mp_receipts pkg) [];
          copies = coalesce (mp_items_to_copy pkg) [];
          k1 = length blocking;
          k2 = k1 + length launch;
          k3 = k2 + length requires;
          k4 = k3 + length updates;
          k5 = k4 + length environment;
          k6 = k5 + length install;
          k7 = k6 + length receipts
      in \<lparr>
        pf_software_id = Some (mp_software_id pkg),
        pf_version = mp_version pkg,
        pf_installer_type = mp_installer_type pkg,
        pf_installer_object_id = mp_installer_object_id pkg,
        pf_installer_file = None,
        pf_uninstallable = mp_uninstallable pkg,
        pf_uninstall_method = coalesce (mp_uninstall_method pkg) [],
        pf_restart_required = (mp_restart_action pkg \<noteq> None),
        pf_restart_action = coalesce (mp_restart_action pkg) ''RequireRestart'',
        pf_restart_action_for_uninstall = coalesce (mp_restart_action_for_uninstall pkg) [],
        pf_minimum_munki_version = mp_minimum_munki_version pkg,
        pf_minimum_os_version = mp_minimum_os_version pkg,
        pf_maximum_os_version = mp_maximum_os_version pkg,
        pf_supported_architectures = filter isArchitecture (coalesce (mp_supported_architectures pkg) []),
        pf_blocking_applications_none = mp_blocking_applications_none pkg,
        pf_blocking_applications = map_rows stringRow uuid 0 blocking,
        pf_installable_condition = mp_installable_condition pkg,
        pf_blocking_applications_manual_quit_only = mp_blocking_applications_manual_quit_only pkg,
        pf_blocking_applications_quit_script = mp_blocking_applications_quit_script pkg,
        pf_blocking_applications_with_launch_args = map_rows launchArgumentsRow uuid k1 launch,
        pf_download_on_low_data = mp_download_on_low_data pkg,
        pf_custom_action_labels = mp_custom_action_labels pkg,
        pf_requires = map_rows packageReferenceRow uuid k2 requires,
        pf_update_for = map_rows packageReferenceRow uuid k3 updates,
        pf_unattended_install = mp_unattended_install pkg,
        pf_unattended_uninstall = mp_unattended_uninstall pkg,
        pf_on_demand = mp_on_demand pkg,
        pf_precache = mp_precache pkg,
        pf_autoremove = mp_autoremove pkg,
        pf_apple_item = mp_apple_item pkg,
        pf_force_install_after_date = isoToDateTimeLocal de (mp_force_install_after_date pkg),
        pf_installed_size = (if 0 < mp_installed_size pkg then show_int (mp_installed_size pkg) else []),
        pf_package_path = mp_package_path pkg,
        pf_installer_choices_xml = installerChoicesText (coalesce (mp_installer_choices_xml pkg) []),
        pf_installer_environment = map_rows installerEnvironmentRow uuid k4 environment,
        pf_installs = map_rows installItemRow uuid k5 install,
        pf_receipts = map_rows receiptRow uuid k6 receipts,
        pf_items_to_copy = map_rows itemToCopyRow uuid k7 copies,
        pf_notes = mp_notes pkg,
        pf_installcheck_script = mp_installcheck_script pkg,
        pf_uninstallcheck_script = mp_uninstallcheck_script pkg,
        pf_preinstall_script = mp_preinstall_script pkg,
        pf_postinstall_script = mp_postinstall_script pkg,
        pf_preuninstall_script = mp_preuninstall_script pkg,
        pf_postuninstall_script = mp_postuninstall_script pkg,
        pf_uninstall_script = mp_uninstall_script pkg,
        pf_version_script = mp_version_script pkg,
        pf_preinstall_alert = mp_preinstall_alert pkg,
        pf_preuninstall_alert = mp_preuninstall_alert pkg\<rparr>)"

text \<open>What the form sends of a reference the API returned.\<close>

definition reference_of :: "package_reference \<Rightarrow> package_reference_mutation" where
  "reference_of r = \<lparr>pr_software_id = pref_software_id r, pr_package_id = pref_package_id r\<rparr>"

text \<open>
  The package stores the mutation: what is left out of the mutation is empty in the package, lists
  may be absent, and a reference carries its names besides its ids.
\<close>

definition package_stores :: "package_mutation \<Rightarrow> munki_package \<Rightarrow> bool" where
  "package_stores m p \<longleftrightarrow>
     mp_version p = pm_version m \<and>
     mp_installer_type p = pm_installer_type m \<and>
     mp_installer_object_id p = pm_installer_object_id m \<and>
     mp_uninstallable p = pm_uninstallable m \<and>
     mp_uninstall_method p = pm_uninstall_method m \<and>
     mp_restart_action p = pm_restart_action m \<and>
     mp_restart_action_for_uninstall p = pm_restart_action_for_uninstall m \<and>
     mp_minimum_munki_version p = coalesce (pm_minimum_munki_version m) [] \<and>
     mp_minimum_os_version p = coalesce (pm_minimum_os_version m) [] \<and>
     mp_maximum_os_version p = coalesce (pm_maximum_os_version m) [] \<and>
     coalesce (mp_supported_architectures p) [] = pm_supported_architectures m \<and>
     mp_blocking_applications_none p = pm_blocking_applications_none m \<and>
     coalesce (mp_blocking_applications p) [] = pm_blocking_applications m \<and>
     mp_installable_condition p = coalesce (pm_installable_condition m) [] \<and>
     mp_blocking_applications_manual_quit_only p = pm_blocking_applications_manual_quit_only m \<and>
     mp_blocking_applications_quit_script p = coalesce (pm_blocking_applications_quit_script m) [] \<and>
     coalesce (mp_blocking_applications_with_launch_args p) [] = pm_blocking_applications_with_launch_args m \<and>
     mp_download_on_low_data p = pm_download_on_low_data m \<and>
     mp_custom_action_labels p = pm_custom_action_labels m \<and>
     map reference_of (coalesce (mp_requires p) []) = pm_requires m \<and>
     map reference_of (coalesce (mp_update_for p) []) = pm_update_for m \<and>
     mp_unattended_install p = pm_unattended_install m \<and>
     mp_unattended_uninstall p = pm_unattended_uninstall m \<and>
     mp_on_demand p = pm_on_demand m \<and>
     mp_precache p = pm_precache m \<and>
     mp_autoremove p = pm_autoremove m \<and>
     mp_apple_item p = pm_apple_item m \<and>
     mp_force_install_after_date p = pm_force_install_after_date m \<and>
     num_of_int (mp_installed_size p) = coalesce (pm_installed_size m) (num_of_int 0) \<and>
     mp_package_path p = coalesce (pm_package_path m) [] \<and>
     coalesce (mp_installer_choices_xml p) [] = pm_installer_choices_xml m \<and>
     coalesce (mp_installer_environment p) [] = pm_installer_environment m \<and>
     coalesce (mp_installs p) [] = pm_installs m \<and>
     coalesce (mp_receipts p) [] = pm_receipts m \<and>
     coalesce (mp_items_to_copy p) [] = pm_items_to_copy m \<and>
     mp_notes p = coalesce (pm_notes m) [] \<and>
     mp_installcheck_script p = coalesce (pm_installcheck_script m) [] \<and>
     mp_uninstallcheck_script p = coalesce (pm_uninstallcheck_script m) [] \<and>
     mp_preinstall_script p = coalesce (pm_preinstall_script m) [] \<and>
     mp_postinstall_script p = coalesce (pm_postinstall_script m) [] \<and>
     mp_preuninstall_script p = coalesce (pm_preuninstall_script m) [] \<and>
     mp_postuninstall_script p = coalesce (pm_postuninstall_script m) [] \<and>
     mp_uninstall_script p = coalesce (pm_uninstall_script m) [] \<and>
     mp_version_script p = coalesce (pm_version_script m) [] \<and>
     mp_preinstall_alert p = pm_preinstall_alert m \<and>
     mp_preuninstall_alert p = pm_preuninstall_alert m"

text \<open>One package that does: its references carry empty names.\<close>

definition named_reference :: "package_reference_mutation \<Rightarrow> package_reference" where
  "named_reference r = \<lparr>pref_software_id = pr_software_id r, pref_package_id = pr_package_id r,
     pref_software_name = [], pref_package_version = None\<rparr>"

definition stored_package :: "int \<Rightarrow> package_mutation \<Rightarrow> munki_package" where
  "stored_package i m =
     \<lparr>mp_software_id = i,
      mp_version = pm_version m,
      mp_installer_type = pm_installer_type m,
      mp_installer_object_id = pm_installer_object_id m,
      mp_uninstallable = pm_uninstallable m,
      mp_uninstall_method = pm_uninstall_method m,
      mp_restart_action = pm_restart_action m,
      mp_restart_action_for_uninstall = pm_restart_action_for_uninstall m,
      mp_minimum_munki_version = coalesce (pm_minimum_munki_version m) [],
      mp_minimum_os_version = coalesce (pm_minimum_os_version m) [],
      mp_maximum_os_version = coalesce (pm_maximum_os_version m) [],
      mp_supported_architectures = Some (pm_supported_architectures m),
      mp_blocking_applications_none = pm_blocking_applications_none m,
      mp_blocking_applications = Some (pm_blocking_applications m),
      mp_installable_condition = coalesce (pm_installable_condition m) [],
      mp_blocking_applications_manual_quit_only = pm_blocking_applications_manual_quit_only m,
      mp_blocking_applications_quit_script = coalesce (pm_blocking_applications_quit_script m) [],
      mp_blocking_applications_with_launch_args = Some (pm_blocking_applications_with_launch_args m),
      mp_download_on_low_data = pm_download_on_low_data m,
      mp_custom_action_labels = pm_custom_action_labels m,
      mp_requires = Some (map named_reference (pm_requires m)),
      mp_update_for = Some (map named_reference (pm_update_for m)),
      mp_unattended_install = pm_unattended_install m,
      mp_unattended_uninstall = pm_unattended_uninstall m,
      mp_on_demand = pm_on_demand m,
      mp_precache = pm_precache m,
      mp_autoremove = pm_autoremove m,
      mp_apple_item = pm_apple_item m,
      mp_force_install_after_date = pm_force_install_after_date m,
      mp_installed_size = (case pm_installed_size m of None \<Rightarrow> 0 | Some x \<Rightarrow> the (int_of_num x)),
      mp_package_path = coalesce (pm_package_path m) [],
      mp_installer_choices_xml = Some (pm_installer_choices_xml m),
      mp_installer_environment = Some (pm_installer_environment m),
      mp_installs = Some (pm_installs m),
      mp_receipts = Some (pm_receipts m),
      mp_items_to_copy = Some (pm_items_to_copy m),
      mp_notes = coalesce (pm_notes m) [],
      mp_installcheck_script = coalesce (pm_installcheck_script m) [],
      mp_uninstallcheck_script = coalesce (pm_uninstallcheck_script m) [],
      mp_preinstall_script = coalesce (pm_preinstall_script m) [],
      mp_postinstall_script = coalesce (pm_postinstall_script m) [],
      mp_preuninstall_script = coalesce (pm_preuninstall_script m) [],
      mp_postuninstall_script = coalesce (pm_postuninstall_script m) [],
      mp_uninstall_script = coalesce (pm_uninstall_script m) [],
      mp_version_script = coalesce (pm_version_script m) [],
      mp_preinstall_alert = pm_preinstall_alert m,
      mp_preuninstall_alert = pm_preuninstall_alert m\<rparr>"

lemma stored_package_stores:
  assumes "pm_installed_size m = None \<or> (\<exists>n. pm_installed_size m = Some (num_of_int n))"
  shows "package_stores m (stored_package i m)"
  using assms unfolding package_stores_def stored_package_def munki_package.simps
  by (intro conjI)
    (auto simp: comp_def reference_of_def named_reference_def intro!: map_idI)

section \<open>Installer choices are read back\<close>

lemma plain_choice_parsed:
  assumes "choice_ok c"
  shows "installerChoice (json_of_plain (plain_choice c)) = Inr c"
  using assms
  by (cases c)
    (auto simp: choice_ok_def installerChoice_def plain_choice_def json_get_def stringValue_def
      numberValue_def is_int32_of_int is_finite_num_def)

lemma plain_choice_safe: "choice_ok c \<Longrightarrow> safe_plain (plain_choice c)"
  by (auto simp: choice_ok_def plain_choice_def max_safe_integer_def)

lemma trim_array_text: "ps \<noteq> [] \<Longrightarrow> js_trim (json_stringify (PArr ps) 0) = json_stringify (PArr ps) 0"
  by (simp add: js_trim_fixed is_js_space_def)

lemma installerChoicesText_parsed:
  assumes "\<forall>c \<in> set cs. choice_ok c"
  shows "parseInstallerChoices sm (installerChoicesText cs) = Inr cs"
proof (cases "cs = []")
  case True
  then show ?thesis by (simp add: parseInstallerChoices_def installerChoicesText_def)
next
  case False
  let ?text = "json_stringify (PArr (map plain_choice cs)) 0"
  have printed: "js_trim ?text = ?text" "?text \<noteq> []"
    using False by (simp_all add: trim_array_text del: json_stringify.simps) simp
  have "json_parse ?text = Inr (JArr (map (json_of_plain \<circ> plain_choice) cs))"
    using assms by (subst json_parse_stringify) (auto simp: plain_choice_safe)
  moreover have "map_throw installerChoice (map (json_of_plain \<circ> plain_choice) cs) = Inr cs"
    using assms by (auto simp: map_throw_Inr list_all2_conv_all_nth plain_choice_parsed)
  ultimately show ?thesis
    using False printed by (simp add: parseInstallerChoices_def installerChoicesText_def Let_def
        del: json_stringify.simps)
qed

section \<open>Cleaned values are kept\<close>

lemma clean_map_rows:
  assumes "\<And>r v. v \<in> set vs \<Longrightarrow> c (row r v) = [v]"
  shows "concat (map c (map_rows row uuid k vs)) = vs"
  using assms by (induction vs arbitrary: k) auto

lemma clean_text_coalesce [simp]: "nonEmpty (Some (coalesce (clean_text v) [])) = clean_text v"
  by (simp add: clean_text_def)

lemma clean_text_idem [simp]: "clean_text (clean_text v) = clean_text v"
  by (simp add: clean_text_def)

lemma cleanActionLabels_idem [simp]: "cleanActionLabels (cleanActionLabels l) = cleanActionLabels l"
  by (simp add: cleanActionLabels_def)

lemma cleanAlert_idem [simp]: "cleanAlert (cleanAlert a) = cleanAlert a"
  by (simp add: cleanAlert_def)

lemma clean_references_rows:
  assumes "map reference_of vals = cleanPackageReferences rows"
  shows "cleanPackageReferences (map_rows packageReferenceRow uuid k vals) = map reference_of vals"
proof -
  have ids: "pr_software_id r \<noteq> 0" if "r \<in> set (map reference_of vals)" for r
    using that unfolding assms by (auto simp: cleanPackageReferences_def split: option.splits if_splits)
  have "pref_software_id v \<noteq> 0" if "v \<in> set vals" for v
    using ids [of "reference_of v"] that by (simp add: reference_of_def)
  then show ?thesis
    unfolding cleanPackageReferences_def
    by (induction vals arbitrary: k) (simp_all add: packageReferenceRow_def reference_of_def)
qed

lemma js_split_join_lines:
  assumes "\<forall>v \<in> set vs. v \<noteq> [] \<and> CHR 0x0A \<notin> set v"
  shows "filter (\<lambda>v. v \<noteq> []) (js_split (CHR 0x0A) (js_join [CHR 0x0A] vs)) = vs"
proof (cases "vs = []")
  case False
  with assms show ?thesis by (subst js_split_join) (auto simp: filter_id_conv)
qed simp

lemma clean_launch_rows:
  assumes "vals = cleanLaunchArguments rows"
  shows "cleanLaunchArguments (map_rows launchArgumentsRow uuid k vals) = vals"
proof -
  have "js_trim (la_application v) = la_application v \<and> la_application v \<noteq> [] \<and>
      (\<forall>a \<in> set (la_arguments v). a \<noteq> [] \<and> CHR 0x0A \<notin> set a)" if "v \<in> set vals" for v
    using that unfolding assms
    by (auto simp: cleanLaunchArguments_def Let_def split: if_splits dest: js_split_parts)
  then show ?thesis
    unfolding cleanLaunchArguments_def
    by (intro clean_map_rows) (simp add: launchArgumentsRow_def js_split_join_lines)
qed

lemma clean_environment_rows:
  assumes "vals = cleanInstallerEnvironment rows"
  shows "cleanInstallerEnvironment (map_rows installerEnvironmentRow uuid k vals) = vals"
proof -
  have "js_trim (ie_name v) = ie_name v \<and> ie_name v \<noteq> []" if "v \<in> set vals" for v
    using that unfolding assms by (auto simp: cleanInstallerEnvironment_def Let_def split: if_splits)
  then show ?thesis
    unfolding cleanInstallerEnvironment_def
    by (intro clean_map_rows) (simp add: installerEnvironmentRow_def installer_environment.defs
        installer_environment_row.defs)
qed

lemma clean_install_rows:
  assumes "vals = cleanInstallItems rows"
  shows "cleanInstallItems (map_rows installItemRow uuid k vals) = vals"
proof -
  have "js_trim (ii_path v) = ii_path v \<and> ii_path v \<noteq> []" if "v \<in> set vals" for v
    using that unfolding assms by (auto simp: cleanInstallItems_def Let_def split: if_splits)
  then show ?thesis
    unfolding cleanInstallItems_def
    by (intro clean_map_rows) (simp add: installItemRow_def install_item.defs install_item_row.defs)
qed

lemma clean_receipt_rows:
  assumes "vals = cleanReceipts rows"
  shows "cleanReceipts (map_rows receiptRow uuid k vals) = vals"
proof -
  have "js_trim (re_package_id v) = re_package_id v \<and> re_package_id v \<noteq> [] \<and>
      clean_text (re_name v) = re_name v \<and> clean_text (re_version v) = re_version v"
    if "v \<in> set vals" for v
    using that unfolding assms by (auto simp: cleanReceipts_def Let_def split: if_splits)
  then show ?thesis
    unfolding cleanReceipts_def
    by (intro clean_map_rows) (simp add: receiptRow_def receipt.defs receipt_row.defs)
qed

lemma clean_copy_rows:
  assumes "vals = cleanItemsToCopy rows"
  shows "cleanItemsToCopy (map_rows itemToCopyRow uuid k vals) = vals"
proof -
  have "js_trim (ic_source_item v) = ic_source_item v \<and>
      js_trim (ic_destination_path v) = ic_destination_path v \<and>
      (ic_source_item v \<noteq> [] \<or> ic_destination_path v \<noteq> [])"
    if "v \<in> set vals" for v
    using that unfolding assms by (auto simp: cleanItemsToCopy_def Let_def split: if_splits)
  then show ?thesis
    unfolding cleanItemsToCopy_def
    by (intro clean_map_rows) (auto simp: itemToCopyRow_def item_to_copy.defs item_to_copy_row.defs)
qed

lemma clean_string_rows:
  assumes "vals = cleanStringRows rows"
  shows "cleanStringRows (map_rows stringRow uuid k vals) = vals"
proof -
  have "js_trim v = v \<and> v \<noteq> []" if "v \<in> set vals" for v
    using that unfolding assms by (auto simp: cleanStringRows_def)
  moreover have "map (\<lambda>row. js_trim (sr_value row)) (map_rows stringRow uuid k vs) = map js_trim vs" for k vs
    by (induction vs arbitrary: k) (simp_all add: stringRow_def)
  ultimately show ?thesis
    unfolding cleanStringRows_def by (simp add: filter_id_conv map_idI)
qed

lemmas clean_rows_kept =
  clean_string_rows clean_launch_rows clean_environment_rows clean_install_rows clean_receipt_rows
  clean_copy_rows

section \<open>Saving a form as it was opened\<close>

lemma truthy_coalesce [simp]: "truthy_string (coalesce (truthy_string s) []) = truthy_string s"
  by (simp add: truthy_string_def)

lemma coalesce_truthy [simp]: "coalesce (truthy_string s) [] = s"
  by (simp add: truthy_string_def)

lemma if_coalesce [simp]: "(if \<exists>y. v = Some y then Some (coalesce v d) else None) = v"
  by (cases v) simp_all

lemma size_reopened:
  assumes n: "num_of_int n = coalesce x (num_of_int 0)" and "\<And>y. x = Some y \<Longrightarrow> size_ok y"
  shows "num_of_int n = coalesce (numberOrUndefined (if 0 < n then show_int n else [])) (num_of_int 0)"
proof (cases "0 < n")
  case True
  with n obtain y where "x = Some y" by (cases x) auto
  with assms obtain k where "y = num_of_int k" "0 \<le> k" "k \<le> max_safe_integer"
    by (auto simp: size_ok_def)
  with True n \<open>x = Some y\<close> have "\<bar>n\<bar> \<le> max_safe_integer" by auto
  moreover have "js_trim (show_int n) = show_int n" and "show_int n \<noteq> []"
    using True by (simp_all add: show_int_def js_trim_no_space digit_not_space show_nat_digits)
  ultimately show ?thesis using True
    by (simp add: numberOrUndefined_def js_number_show_int is_finite_num_def)
next
  case False
  from assms have "0 \<le> n" by (cases x) (auto simp: size_ok_def)
  with False show ?thesis by (simp add: numberOrUndefined_def)
qed

text \<open>What an input control for a local date and time holds: nothing, or a minute of the local time.\<close>

definition local_minute :: "date_env \<Rightarrow> js_string \<Rightarrow> bool" where
  "local_minute de v \<longleftrightarrow>
     js_trim v = [] \<or>
     (\<exists>t. de_parse de v = Some t \<and> de_toISO de t \<noteq> [] \<and> de_parse de (de_toISO de t) = Some t \<and>
        take 16 (de_toISO de (t - de_offset de t * 60000)) = v)"

lemma date_reopened:
  assumes "local_minute de v"
  shows "dateTimeLocalToISO de (isoToDateTimeLocal de (dateTimeLocalToISO de v)) = dateTimeLocalToISO de v"
  using assms by (auto simp: local_minute_def dateTimeLocalToISO_def isoToDateTimeLocal_def)

lemma packageMutationFromForm_Inr:
  "(\<exists>m. packageMutationFromForm de sm f i = Inr m) \<longleftrightarrow>
     (pf_installer_type f \<noteq> ''nopkg'' \<longrightarrow> \<not> isl (parseInstallerChoices sm (pf_installer_choices_xml f)))"
  by (auto simp: packageMutationFromForm_def Let_def split: sum.splits)

lemma mutation_of_valid_form:
  assumes "package_form_ok de sm f"
  shows "\<exists>m. packageMutationFromForm de sm f i = Inr m"
  using assms by (simp add: packageMutationFromForm_Inr package_form_ok_def)

lemma package_stores_cong:
  assumes "m' = m\<lparr>pm_installed_size := s\<rparr>"
    and "coalesce s (num_of_int 0) = coalesce (pm_installed_size m) (num_of_int 0)"
  shows "package_stores m' = package_stores m"
  using assms by (simp add: package_stores_def fun_eq_iff)

lemma save_reopened:
  assumes m: "packageMutationFromForm de sm form i = Inr m" and stores: "package_stores m p"
    and archs: "set (pf_supported_architectures form) \<subseteq> set ARCHITECTURE_VALUES"
    and date: "local_minute de (pf_force_install_after_date form)"
    and size: "js_trim (pf_installed_size form) = [] \<or> size_ok (js_number (pf_installed_size form))"
  shows "\<exists>m'. packageMutationFromForm de sm (packageFormFromPackage de uuid p :: 'f package_form) None = Inr m'
      \<and> package_stores m' = package_stores m"
proof -
  let ?f = "packageFormFromPackage de uuid p :: 'f package_form"
  define cs where "cs = pm_installer_choices_xml m"
  from m have cs: "(if pf_installer_type form \<noteq> ''nopkg''
      then parseInstallerChoices sm (pf_installer_choices_xml form) else Inr []) = Inr cs"
    by (auto simp: packageMutationFromForm_def Let_def cs_def split: sum.splits if_splits)
  have sz: "pm_installed_size m = Some y \<Longrightarrow> size_ok y" for y
    using m size by (auto simp: packageMutationFromForm_def Let_def numberOrUndefined_def split: sum.splits if_splits)
  have ok: "\<forall>c \<in> set cs. choice_ok c"
    using cs by (auto split: if_splits intro: parseInstallerChoices_ok)
  note mm = m [unfolded packageMutationFromForm_def Let_def cs sum.case sum.inject]
  note st = stores [unfolded package_stores_def, folded mm, simplified package_mutation.simps]
  have refs: "cleanPackageReferences (map_rows packageReferenceRow uuid k (coalesce (mp_requires p) []))
      = cleanPackageReferences (pf_requires form)"
    "cleanPackageReferences (map_rows packageReferenceRow uuid k (coalesce (mp_update_for p) []))
      = cleanPackageReferences (pf_update_for form)" for k
    using st by (simp_all add: clean_references_rows)
  have filt: "filter isArchitecture (pf_supported_architectures form) = pf_supported_architectures form"
    using archs by (auto simp: filter_id_conv isArchitecture_def)
  have parsed: "(if pf_installer_type form \<noteq> ''nopkg''
      then parseInstallerChoices sm (installerChoicesText cs) else Inr []) = Inr cs"
    using cs ok by (simp add: installerChoicesText_parsed split: if_splits)
  have sz': "num_of_int (mp_installed_size p) = coalesce (numberOrUndefined
      (if 0 < mp_installed_size p then show_int (mp_installed_size p) else [])) (num_of_int 0)"
    using stores by (intro size_reopened [OF _ sz]) (simp_all add: package_stores_def)
  have parsed': "(if pf_installer_type ?f \<noteq> ''nopkg''
      then parseInstallerChoices sm (pf_installer_choices_xml ?f) else Inr []) = Inr cs"
    by (simp only: packageFormFromPackage_def Let_def package_form.simps st parsed)
  note eq = packageMutationFromForm_def [of de sm ?f None, unfolded Let_def parsed' sum.case]
  have size_kept: "coalesce (numberOrUndefined (pf_installed_size ?f)) (num_of_int 0)
      = coalesce (pm_installed_size m) (num_of_int 0)"
    using sz' stores by (simp add: packageFormFromPackage_def package_stores_def Let_def)
  show ?thesis
    unfolding eq
    by (rule exI, rule conjI, rule refl, rule package_stores_cong [OF _ size_kept],
        unfold mm [symmetric], simp only: package_mutation.update_convs package_mutation.iffs,
        intro conjI; (simp add: packageFormFromPackage_def Let_def st refs filt
          date_reopened [OF date] clean_rows_kept [OF refl] split del: if_split)?;
        (simp add: packageFormFromPackage_def Let_def st clean_rows_kept [OF refl] cong: if_cong
          split del: if_split)?)
qed

section \<open>What is sent\<close>

text \<open>
  What the choices of the form exclude is not sent: no installer for \<open>nopkg\<close>, no items to copy when
  nothing is copied, no blocking applications when there are declared to be none, no uninstall script
  for another method; and what is sent is trimmed and not empty.
\<close>

definition mutation_tidy :: "package_mutation \<Rightarrow> bool" where
  "mutation_tidy m \<longleftrightarrow>
     (pm_installer_type m = ''nopkg'' \<longrightarrow>
        pm_installer_object_id m = None \<and> pm_package_path m = None \<and>
        pm_installer_choices_xml m = [] \<and> pm_installer_environment m = []) \<and>
     (pm_installer_type m \<noteq> ''copy_from_dmg'' \<and> pm_uninstall_method m \<noteq> Some ''remove_copied_items'' \<longrightarrow>
        pm_items_to_copy m = []) \<and>
     (pm_blocking_applications_none m \<longrightarrow>
        pm_blocking_applications m = [] \<and> pm_blocking_applications_with_launch_args m = []) \<and>
     (pm_uninstall_method m \<noteq> Some ''uninstall_script'' \<longrightarrow> pm_uninstall_script m = None) \<and>
     list_all tidy_text
       [pm_minimum_munki_version m, pm_minimum_os_version m, pm_maximum_os_version m,
        pm_installable_condition m, pm_blocking_applications_quit_script m, pm_package_path m,
        pm_notes m, pm_installcheck_script m, pm_uninstallcheck_script m, pm_preinstall_script m,
        pm_postinstall_script m, pm_preuninstall_script m, pm_postuninstall_script m,
        pm_uninstall_script m, pm_version_script m] \<and>
     (\<forall>a \<in> set (pm_blocking_applications m). tidy_text (Some a)) \<and>
     (\<forall>a \<in> set (pm_blocking_applications_with_launch_args m). tidy_text (Some (la_application a))) \<and>
     (\<forall>v \<in> set (pm_installer_environment m). tidy_text (Some (ie_name v))) \<and>
     (\<forall>i \<in> set (pm_installs m). tidy_text (Some (ii_path i))) \<and>
     (\<forall>r \<in> set (pm_receipts m). tidy_text (Some (re_package_id r))) \<and>
     (\<forall>c \<in> set (pm_installer_choices_xml m). choice_ok c)"

lemma mutation_of_form_tidy:
  assumes m: "packageMutationFromForm de sm form i = Inr m"
  shows "mutation_tidy m"
proof -
  define cs where "cs = pm_installer_choices_xml m"
  from m have cs: "(if pf_installer_type form \<noteq> ''nopkg''
      then parseInstallerChoices sm (pf_installer_choices_xml form) else Inr []) = Inr cs"
    by (auto simp: packageMutationFromForm_def Let_def cs_def split: sum.splits if_splits)
  then have ok: "\<forall>c \<in> set cs. choice_ok c"
    by (auto split: if_splits intro: parseInstallerChoices_ok)
  have no: "pf_installer_type form = ''nopkg'' \<Longrightarrow> cs = []" using cs by simp
  note mm = m [unfolded packageMutationFromForm_def Let_def cs sum.case sum.inject, symmetric]
  show ?thesis
    unfolding mm mutation_tidy_def package_mutation.simps
    by (intro conjI) (auto simp: ok no truthy_string_def cleanStringRows_def cleanLaunchArguments_def
        cleanInstallerEnvironment_def cleanInstallItems_def cleanReceipts_def Let_def split: if_splits)
qed

text \<open>The rows of a list the form says are used.\<close>

lemma concat_singletons: "(\<And>x. x \<in> set xs \<Longrightarrow> length (f x) = 1) \<Longrightarrow> length (concat (map f xs)) = length xs"
  by (induction xs) auto

lemma valid_form_keeps_rows:
  assumes ok: "package_form_ok de sm form" and m: "packageMutationFromForm de sm form i = Inr m"
    and ids: "\<forall>r \<in> set (pf_requires form) \<union> set (pf_update_for form). prr_software_id r \<noteq> Some 0"
  shows "length (pm_requires m) = length (pf_requires form)"
    and "length (pm_update_for m) = length (pf_update_for form)"
    and "length (pm_installs m) = length (pf_installs form)"
    and "length (pm_receipts m) = length (pf_receipts form)"
    and "pm_installer_type m \<noteq> ''nopkg'' \<Longrightarrow>
      length (pm_installer_environment m) = length (pf_installer_environment form)"
    and "pm_items_to_copy m \<noteq> [] \<Longrightarrow> length (pm_items_to_copy m) = length (pf_items_to_copy form)"
    and "\<not> pm_blocking_applications_none m \<Longrightarrow>
      length (pm_blocking_applications m) = length (pf_blocking_applications form)"
proof -
  obtain cs where cs: "(if pf_installer_type form \<noteq> ''nopkg''
      then parseInstallerChoices sm (pf_installer_choices_xml form) else Inr []) = Inr cs"
    using m by (auto simp: packageMutationFromForm_def Let_def split: sum.splits if_splits)
  note mm = m [unfolded packageMutationFromForm_def Let_def cs sum.case sum.inject, symmetric]
  have refs: "length (cleanPackageReferences rows) = length rows"
    if "\<forall>r \<in> set rows. prr_software_id r \<noteq> None \<and> prr_software_id r \<noteq> Some 0" for rows
    unfolding cleanPackageReferences_def by (rule concat_singletons) (use that in auto)
  show "length (pm_requires m) = length (pf_requires form)"
    and "length (pm_update_for m) = length (pf_update_for form)"
    using ok ids unfolding mm package_form_ok_def by (simp_all add: refs)
  show "length (pm_installs m) = length (pf_installs form)"
    using ok unfolding mm package_form_ok_def
    by (simp add: cleanInstallItems_def concat_singletons Let_def)
  show "length (pm_receipts m) = length (pf_receipts form)"
    using ok unfolding mm package_form_ok_def
    by (simp add: cleanReceipts_def concat_singletons Let_def)
  show "pm_installer_type m \<noteq> ''nopkg'' \<Longrightarrow>
      length (pm_installer_environment m) = length (pf_installer_environment form)"
    using ok unfolding mm package_form_ok_def environment_ok_def
    by (simp add: cleanInstallerEnvironment_def concat_singletons Let_def)
  show "pm_items_to_copy m \<noteq> [] \<Longrightarrow> length (pm_items_to_copy m) = length (pf_items_to_copy form)"
    using ok unfolding mm package_form_ok_def
    by (simp add: cleanItemsToCopy_def concat_singletons Let_def split: if_splits)
  show "\<not> pm_blocking_applications_none m \<Longrightarrow>
      length (pm_blocking_applications m) = length (pf_blocking_applications form)"
    using ok unfolding mm package_form_ok_def
    by (simp add: cleanStringRows_def)
qed

section \<open>The form of a stored package is valid\<close>

lemma set_map_rows: "x \<in> set (map_rows f uuid k vs) \<Longrightarrow> \<exists>r v. v \<in> set vs \<and> x = f r v"
  by (induction vs arbitrary: k) fastforce+

lemma environment_ok_names:
  "environment_ok rows \<longleftrightarrow> [] \<notin> set (map (\<lambda>r. js_trim (ie_name r)) rows)
     \<and> distinct (map (\<lambda>r. js_trim (ie_name r)) rows)"
  by (force simp: environment_ok_def)

lemma launch_ok_names:
  "launch_ok rows \<longleftrightarrow> [] \<notin> set (map (\<lambda>r. js_trim (lar_application r)) (launch_input rows))
     \<and> distinct (map (\<lambda>r. js_trim (lar_application r)) (launch_input rows))"
  by (force simp: launch_ok_def)

lemma map_map_rows: "(\<And>r v. g (f r v) = h v) \<Longrightarrow> map g (map_rows f uuid k vs) = map h vs"
  by (induction vs arbitrary: k) simp_all

lemma cleaned_rows:
  "v \<in> set (cleanInstallItems is) \<Longrightarrow> js_trim (ii_path v) \<noteq> []"
  "w \<in> set (cleanStringRows ss) \<Longrightarrow> js_trim w \<noteq> []"
  "l \<in> set (cleanLaunchArguments ls) \<Longrightarrow> js_trim (la_application l) \<noteq> []"
  by (auto simp: cleanInstallItems_def cleanStringRows_def cleanLaunchArguments_def Let_def split: if_splits)

lemma cleaned_receipts:
  "r \<in> set (cleanReceipts rs) \<Longrightarrow> \<exists>r' \<in> set rs. re_package_id r = js_trim (re_package_id r') \<and>
     re_package_id r \<noteq> [] \<and> re_installed_size r = re_installed_size r'"
  by (auto simp: cleanReceipts_def Let_def split: if_splits)

lemma cleaned_items:
  "i \<in> set (cleanItemsToCopy is) \<Longrightarrow> \<exists>i' \<in> set is. ic_source_item i = js_trim (ic_source_item i') \<and>
     ic_destination_path i = js_trim (ic_destination_path i')"
  by (auto simp: cleanItemsToCopy_def item_to_copy.defs Let_def split: if_splits)

lemma reopened_environment_ok:
  assumes "environment_ok rows"
  shows "environment_ok (map_rows installerEnvironmentRow uuid k (cleanInstallerEnvironment rows))"
proof -
  have names: "map (\<lambda>r. js_trim (ie_name r)) (map_rows installerEnvironmentRow uuid k vs)
      = map (\<lambda>v. js_trim (ie_name v)) vs" for vs
    by (rule map_map_rows) (simp add: installerEnvironmentRow_def installer_environment.defs
        installer_environment_row.defs)
  have "map (\<lambda>v. js_trim (ie_name v)) (cleanInstallerEnvironment rows) = map (\<lambda>r. js_trim (ie_name r)) rows"
    using assms unfolding environment_ok_def cleanInstallerEnvironment_def
    by (induction rows) (auto simp: Let_def)
  with names assms have "map (\<lambda>r. js_trim (ie_name r))
      (map_rows installerEnvironmentRow uuid k (cleanInstallerEnvironment rows))
      = map (\<lambda>r. js_trim (ie_name r)) rows" by simp
  with assms show ?thesis by (simp only: environment_ok_names simp_thms)
qed

lemma launch_Cons:
  "launch_input (r # rows) =
     (if js_trim (lar_application r) \<noteq> [] \<or> js_trim (lar_arguments r) \<noteq> [] then r # launch_input rows
      else launch_input rows)"
  "js_trim (lar_application r) = [] \<Longrightarrow> cleanLaunchArguments (r # rows) = cleanLaunchArguments rows"
  "js_trim (lar_application r) \<noteq> [] \<Longrightarrow> \<exists>v. la_application v = js_trim (lar_application r) \<and>
     cleanLaunchArguments (r # rows) = v # cleanLaunchArguments rows"
  by (simp_all add: launch_input_def cleanLaunchArguments_def Let_def)

lemma sent_applications:
  "(\<forall>r \<in> set (launch_input rows). js_trim (lar_application r) \<noteq> []) \<Longrightarrow>
     map (\<lambda>v. js_trim (la_application v)) (cleanLaunchArguments rows)
       = map (\<lambda>r. js_trim (lar_application r)) (launch_input rows)"
proof (induction rows)
  case (Cons r rows)
  show ?case
  proof (cases "js_trim (lar_application r) = []")
    case True
    with Cons.prems have "launch_input (r # rows) = launch_input rows"
      by (auto simp: launch_Cons(1) split: if_splits)
    with Cons True show ?thesis by (simp only: launch_Cons(2))
  next
    case False
    then have input: "launch_input (r # rows) = r # launch_input rows" by (simp only: launch_Cons(1) simp_thms if_True)
    from launch_Cons(3) [OF False] obtain v where v: "la_application v = js_trim (lar_application r)"
      "cleanLaunchArguments (r # rows) = v # cleanLaunchArguments rows" by auto
    have "\<forall>r \<in> set (launch_input rows). js_trim (lar_application r) \<noteq> []"
      using Cons.prems unfolding input by simp
    from Cons.IH [OF this] show ?thesis by (simp only: input v list.map js_trim_idem)
  qed
qed (simp add: launch_input_def cleanLaunchArguments_def)

lemma reopened_launch_ok:
  assumes "launch_ok rows"
  shows "launch_ok (map_rows launchArgumentsRow uuid k (cleanLaunchArguments rows))"
proof -
  have apps: "map (\<lambda>r. js_trim (lar_application r)) (map_rows launchArgumentsRow uuid k vs)
      = map (\<lambda>v. js_trim (la_application v)) vs" for vs
    by (rule map_map_rows) (simp add: launchArgumentsRow_def)
  have "map (\<lambda>v. js_trim (la_application v)) (cleanLaunchArguments rows)
      = map (\<lambda>r. js_trim (lar_application r)) (launch_input rows)"
    using assms by (intro sent_applications) (simp add: launch_ok_def)
  moreover have "launch_input (map_rows launchArgumentsRow uuid k (cleanLaunchArguments rows))
      = map_rows launchArgumentsRow uuid k (cleanLaunchArguments rows)"
    unfolding launch_input_def
  proof (rule filter_True, rule ballI)
    fix x
    assume "x \<in> set (map_rows launchArgumentsRow uuid k (cleanLaunchArguments rows))"
    from set_map_rows [OF this] obtain r v
      where "v \<in> set (cleanLaunchArguments rows)" "x = launchArgumentsRow r v" by auto
    then show "js_trim (lar_application x) \<noteq> [] \<or> js_trim (lar_arguments x) \<noteq> []"
      using cleaned_rows(3) by (simp add: launchArgumentsRow_def)
  qed
  ultimately show ?thesis
    using assms apps by (simp only: launch_ok_names simp_thms)
qed

text \<open>The form the contract is about: without issues, within the enumerations, with its installer.\<close>

definition package_valid ::
    "date_env \<Rightarrow> (js_string \<Rightarrow> js_string) \<Rightarrow> 'f package_form \<Rightarrow> bool" where
  "package_valid de sm form \<longleftrightarrow>
     package_form_ok de sm form \<and>
     set (pf_supported_architectures form) \<subseteq> set ARCHITECTURE_VALUES \<and>
     local_minute de (pf_force_install_after_date form) \<and>
     (pf_installer_type form = ''nopkg'' \<or> pf_installer_object_id form \<noteq> None)"

lemma date_text_reopened:
  assumes "local_minute de v"
  shows "isoToDateTimeLocal de (dateTimeLocalToISO de v) = (if js_trim v = [] then [] else v)"
  using assms by (auto simp: local_minute_def dateTimeLocalToISO_def isoToDateTimeLocal_def)

lemma size_text_reopened:
  assumes "num_of_int n = coalesce x (num_of_int 0)" and "\<And>y. x = Some y \<Longrightarrow> size_ok y"
  shows "js_trim (if 0 < n then show_int n else []) = []
    \<or> size_ok (js_number (if 0 < n then show_int n else []))"
proof (cases "0 < n")
  case True
  with assms(1) obtain y where "x = Some y" by (cases x) auto
  with assms obtain k where "y = num_of_int k" "0 \<le> k" "k \<le> max_safe_integer"
    by (auto simp: size_ok_def)
  with True assms(1) \<open>x = Some y\<close> have "\<bar>n\<bar> \<le> max_safe_integer" by auto
  with True show ?thesis by (auto simp: js_number_show_int size_ok_def)
qed simp

lemma reopened_rows_ok:
  "\<forall>x \<in> set (map_rows installItemRow uuid k (cleanInstallItems is)). js_trim (ii_path x) \<noteq> []"
  "\<forall>x \<in> set (map_rows stringRow uuid k (cleanStringRows ss)). js_trim (sr_value x) \<noteq> []"
  "\<forall>x \<in> set (map_rows packageReferenceRow uuid k refs). \<exists>i. prr_software_id x = Some i"
  using cleaned_rows
  by (auto dest!: set_map_rows simp: installItemRow_def install_item.defs install_item_row.defs
      stringRow_def packageReferenceRow_def)

lemma reopened_receipts_ok:
  assumes "\<forall>r \<in> set rs. js_trim (re_package_id r) \<noteq> [] \<and> (\<forall>n. re_installed_size r = Some n \<longrightarrow> size_ok n)"
  shows "\<forall>r \<in> set (map_rows receiptRow uuid k (cleanReceipts rs)).
    js_trim (re_package_id r) \<noteq> [] \<and> (\<forall>n. re_installed_size r = Some n \<longrightarrow> size_ok n)"
  using assms by (fastforce dest!: set_map_rows cleaned_receipts
      simp: receiptRow_def receipt.defs receipt_row.defs)

lemma reopened_items_ok:
  assumes "\<forall>i \<in> set is. js_trim (ic_source_item i) \<noteq> [] \<and> js_trim (ic_destination_path i) \<noteq> []"
  shows "\<forall>i \<in> set (map_rows itemToCopyRow uuid k (cleanItemsToCopy is)).
    js_trim (ic_source_item i) \<noteq> [] \<and> js_trim (ic_destination_path i) \<noteq> []"
  using assms by (fastforce dest!: set_map_rows cleaned_items
      simp: itemToCopyRow_def item_to_copy.defs item_to_copy_row.defs)

lemma has_input_map:
  "hasReceiptInput rs \<longleftrightarrow> filter (\<lambda>s. s \<noteq> []) (map (\<lambda>r. js_trim (re_package_id r)) rs) \<noteq> []"
  "hasItemToCopyInput items \<longleftrightarrow> filter (\<lambda>p. p \<noteq> ([], []))
     (map (\<lambda>i. (js_trim (ic_source_item i), js_trim (ic_destination_path i))) items) \<noteq> []"
  by (simp_all add: hasReceiptInput_def hasItemToCopyInput_def list_ex_iff filter_empty_conv)

lemma reopened_has_receipt:
  assumes "hasReceiptInput rs"
  shows "hasReceiptInput (map_rows receiptRow uuid k (cleanReceipts rs))"
proof -
  have "map (\<lambda>r. js_trim (re_package_id r)) (map_rows receiptRow uuid k (cleanReceipts rs))
      = map (\<lambda>r. js_trim (re_package_id r)) (cleanReceipts rs)"
    by (rule map_map_rows) (simp add: receiptRow_def receipt.defs receipt_row.defs)
  also have "\<dots> = filter (\<lambda>s. s \<noteq> []) (map (\<lambda>r. js_trim (re_package_id r)) rs)"
    by (induction rs) (simp_all add: cleanReceipts_def Let_def)
  finally show ?thesis using assms unfolding has_input_map(1) by simp
qed

lemma reopened_has_item:
  assumes "hasItemToCopyInput items"
  shows "hasItemToCopyInput (map_rows itemToCopyRow uuid k (cleanItemsToCopy items))"
proof -
  have "map (\<lambda>i. (js_trim (ic_source_item i), js_trim (ic_destination_path i)))
      (map_rows itemToCopyRow uuid k (cleanItemsToCopy items))
      = map (\<lambda>i. (js_trim (ic_source_item i), js_trim (ic_destination_path i))) (cleanItemsToCopy items)"
    by (rule map_map_rows) (simp add: itemToCopyRow_def item_to_copy.defs item_to_copy_row.defs)
  also have "\<dots> = filter (\<lambda>p. p \<noteq> ([], []))
      (map (\<lambda>i. (js_trim (ic_source_item i), js_trim (ic_destination_path i))) items)"
    by (induction items) (simp_all add: cleanItemsToCopy_def item_to_copy.defs Let_def)
  finally show ?thesis using assms unfolding has_input_map(2) by simp
qed

lemma reopened_nil:
  "environment_ok []" "launch_ok []" "local_minute de []"
  "js_trim (coalesce (nonEmpty (Some s)) []) = js_trim s"
  by (simp_all add: environment_ok_def launch_ok_def launch_input_def local_minute_def nonEmpty_Some)

text \<open>A package whose stored form is opened has a valid form again.\<close>

lemma reopened_valid:
  assumes valid: "package_valid de sm form" and m: "packageMutationFromForm de sm form None = Inr m"
    and stores: "package_stores m p"
  shows "package_valid de sm (packageFormFromPackage de uuid p :: 'f package_form)"
proof -
  let ?f = "packageFormFromPackage de uuid p :: 'f package_form"
  from valid have form: "package_form_ok de sm form" by (simp add: package_valid_def)
  note size = form [unfolded package_form_ok_def, THEN conjunct2, THEN conjunct2, THEN conjunct1]
  define cs where "cs = pm_installer_choices_xml m"
  from m have cs: "(if pf_installer_type form \<noteq> ''nopkg''
      then parseInstallerChoices sm (pf_installer_choices_xml form) else Inr []) = Inr cs"
    by (auto simp: packageMutationFromForm_def Let_def cs_def split: sum.splits if_splits)
  have sz: "pm_installed_size m = Some y \<Longrightarrow> size_ok y" for y
    using m size by (auto simp: packageMutationFromForm_def Let_def numberOrUndefined_def split: sum.splits if_splits)
  have choices: "parseInstallerChoices sm (installerChoicesText cs) = Inr cs"
    using cs by (auto split: if_splits intro!: installerChoicesText_parsed intro: parseInstallerChoices_ok)
  note mm = m [unfolded packageMutationFromForm_def Let_def cs sum.case sum.inject]
  note st = stores [unfolded package_stores_def, folded mm, simplified package_mutation.simps]
  have size': "js_trim (pf_installed_size ?f) = [] \<or> size_ok (js_number (pf_installed_size ?f))"
    using stores size_text_reopened [OF _ sz, where n = "mp_installed_size p"]
    by (simp add: packageFormFromPackage_def package_stores_def Let_def)
  have date: "pf_force_install_after_date ?f =
      (if js_trim (pf_force_install_after_date form) = [] then [] else pf_force_install_after_date form)"
    using valid date_text_reopened [of de "pf_force_install_after_date form"]
    by (simp add: packageFormFromPackage_def st package_valid_def Let_def)
  have env: "environment_ok (pf_installer_environment form)"
    and launch: "launch_ok (pf_blocking_applications_with_launch_args form)"
    and receipts: "\<forall>r \<in> set (pf_receipts form). js_trim (re_package_id r) \<noteq> [] \<and>
        (\<forall>n. re_installed_size r = Some n \<longrightarrow> size_ok n)"
    and items: "\<forall>i \<in> set (pf_items_to_copy form). js_trim (ic_source_item i) \<noteq> [] \<and>
        js_trim (ic_destination_path i) \<noteq> []"
    and obj: "pf_installer_type form \<noteq> ''nopkg'' \<Longrightarrow> \<exists>i. pf_installer_object_id form = Some i"
    and parsed: "js_trim (pf_force_install_after_date form) \<noteq> [] \<Longrightarrow>
        \<exists>t. de_parse de (pf_force_install_after_date form) = Some t"
    and minute: "local_minute de (pf_force_install_after_date form)"
    and needs: "pf_uninstallable form \<Longrightarrow> pf_uninstall_method form \<noteq> []"
      "pf_installer_type form = ''copy_from_dmg'' \<Longrightarrow> hasItemToCopyInput (pf_items_to_copy form)"
      "pf_uninstallable form \<Longrightarrow> pf_uninstall_method form = ''removepackages'' \<Longrightarrow>
        hasReceiptInput (pf_receipts form)"
      "pf_uninstallable form \<Longrightarrow> pf_uninstall_method form = ''remove_copied_items'' \<Longrightarrow>
        hasItemToCopyInput (pf_items_to_copy form)"
      "pf_uninstallable form \<Longrightarrow> pf_uninstall_method form = ''uninstall_script'' \<Longrightarrow>
        js_trim (pf_uninstall_script form) \<noteq> []"
    using form valid by (simp_all add: package_form_ok_def package_valid_def)
  note kept = reopened_environment_ok [OF env] reopened_launch_ok [OF launch]
    reopened_receipts_ok [OF receipts] reopened_items_ok [OF items] reopened_rows_ok
    reopened_has_receipt reopened_has_item
  show ?thesis
    unfolding package_valid_def package_form_ok_def
    by (intro conjI, (rule size' | (simp add: date obj parsed minute reopened_nil)
        | (simp add: packageFormFromPackage_def st Let_def kept choices isArchitecture_def obj needs
            reopened_nil Collect_conj_eq))+)
qed

interpretation munki_package:
  form_adapter "package_valid de sm" "\<lambda>form. packageMutationFromForm de sm form None" package_stores
    "packageFormFromPackage de uuid"
  for de sm uuid
proof
  fix form :: "'f package_form" and m p m'
  assume valid: "package_valid de sm form"
  then show "\<exists>m. packageMutationFromForm de sm form None = Inr m"
    by (intro mutation_of_valid_form) (simp add: package_valid_def)
  assume m: "packageMutationFromForm de sm form None = Inr m" and stores: "package_stores m p"
  from reopened_valid [OF valid m stores]
  show "package_valid de sm (packageFormFromPackage de uuid p :: 'f package_form)" .
  assume m': "packageMutationFromForm de sm (packageFormFromPackage de uuid p :: 'f package_form) None = Inr m'"
  have "\<exists>m'. packageMutationFromForm de sm (packageFormFromPackage de uuid p :: 'f package_form) None = Inr m'
      \<and> package_stores m' = package_stores m"
    using valid by (intro save_reopened [OF m stores]) (simp_all add: package_valid_def package_form_ok_def)
  with m' show "package_stores m' = package_stores m" by simp
qed

end
