(* ===== verification/SantaForms.thy ===== *)
theory SantaForms
  imports Forms Metadata "HOL-Library.Sublist"
begin

text \<open>
  The Santa forms: \<open>web/src/features/santa/rules/form-state.ts\<close>, \<open>cel.ts\<close>, the handlers of
  \<open>rules/fields.tsx\<close> and \<open>rules/rule-name-combobox.tsx\<close>; and
  \<open>web/src/features/santa/configurations/form-schema.ts\<close>, \<open>form-adapter.ts\<close> and \<open>media-fields.tsx\<close>.

  The URL parser and the type check of the CEL library are parameters.  Main results: which forms are
  valid; both forms satisfy the contract \<open>form_adapter\<close>; the media fields never leave the
  configuration in a state the validation rejects for its flags.
\<close>

section \<open>CEL expressions\<close>

text \<open>What the check reports: nothing, or an error that is an \<open>Error\<close>, a string, absent or else.\<close>

datatype cel_error = CelErrorInstance js_string | CelErrorText js_string | CelErrorAbsent | CelErrorOther

type_synonym cel_check = "js_string \<Rightarrow> cel_error option"

definition strip_label :: "js_string \<Rightarrow> js_string \<Rightarrow> js_string" where
  "strip_label label s =
     (if prefix label s then dropWhile is_js_space (drop (length label) s) else s)"

definition firstLine :: "js_string \<Rightarrow> js_string" where
  "firstLine message =
     (let line = strip_label ''TypeError:'' (strip_label ''ParseError:''
                   (js_trim (hd (js_split (CHR 0x0A) message))))
      in if line = [] then ''Invalid CEL expression.'' else line)"

definition readableCELError :: "cel_error \<Rightarrow> js_string" where
  "readableCELError error =
     (case error of
        CelErrorInstance message \<Rightarrow> firstLine message
      | CelErrorText s \<Rightarrow> firstLine s
      | CelErrorAbsent \<Rightarrow> ''Invalid CEL expression.''
      | CelErrorOther \<Rightarrow> ''Invalid CEL expression.'')"

definition santaCELExpressionError :: "cel_check \<Rightarrow> js_string \<Rightarrow> js_string option" where
  "santaCELExpressionError check expression =
     (if js_trim expression = [] then None else map_option readableCELError (check expression))"

lemma readableCELError_nonempty: "readableCELError e \<noteq> []"
  by (cases e) (simp_all add: readableCELError_def firstLine_def Let_def)

lemma santaCELExpressionError_None:
  "santaCELExpressionError check s = None \<longleftrightarrow> js_trim s = [] \<or> check s = None"
  by (simp add: santaCELExpressionError_def)

section \<open>The rule form\<close>

record rule_include_form =
  rif_id :: int
  rif_policy :: js_string
  rif_cel_expression :: js_string
  rif_label_id :: "int option"

record rule_form =
  rf_rule_type :: js_string
  rf_identifier :: js_string
  rf_name :: js_string
  rf_description :: js_string
  rf_custom_message :: js_string
  rf_custom_url :: js_string
  rf_include :: "rule_include_form list"
  rf_exclude :: "label_ref list"

record santa_include =
  si_policy :: js_string
  si_cel_expression :: "js_string option"
  si_label_id :: int

record santa_rule =
  sru_rule_type :: js_string
  sru_identifier :: js_string
  sru_name :: js_string
  sru_description :: js_string
  sru_custom_message :: js_string
  sru_custom_url :: js_string
  sru_include :: "santa_include list"
  sru_exclude :: "label_ref list"

record santa_rule_mutation =
  srm_rule_type :: js_string
  srm_identifier :: js_string
  srm_name :: js_string
  srm_description :: "js_string option"
  srm_custom_message :: "js_string option"
  srm_custom_url :: "js_string option"
  srm_include :: "santa_include list"
  srm_exclude :: "label_ref list"

definition emptyRuleForm :: rule_form where
  "emptyRuleForm =
     \<lparr>rf_rule_type = ''signingid'', rf_identifier = [], rf_name = [], rf_description = [],
      rf_custom_message = [], rf_custom_url = [], rf_include = [], rf_exclude = []\<rparr>"

definition isRuleType :: "json option \<Rightarrow> bool" where
  "isRuleType value \<longleftrightarrow> (case value of Some (JStr s) \<Rightarrow> s \<in> set RULE_TYPE_VALUES | _ \<Rightarrow> False)"

definition string_or_empty :: "json option \<Rightarrow> js_string" where
  "string_or_empty value = (case value of Some (JStr s) \<Rightarrow> s | _ \<Rightarrow> [])"

definition formFromSearch :: "(js_string \<times> json) list \<Rightarrow> rule_form" where
  "formFromSearch search =
     emptyRuleForm
       \<lparr>rf_rule_type :=
          (if isRuleType (json_get ''rule_type'' search)
           then string_or_empty (json_get ''rule_type'' search) else rf_rule_type emptyRuleForm),
        rf_identifier := string_or_empty (json_get ''identifier'' search),
        rf_name := string_or_empty (json_get ''name'' search)\<rparr>"

definition formFromRule :: "santa_rule \<Rightarrow> rule_form" where
  "formFromRule rule =
     \<lparr>rf_rule_type = sru_rule_type rule, rf_identifier = sru_identifier rule, rf_name = sru_name rule,
      rf_description = sru_description rule, rf_custom_message = sru_custom_message rule,
      rf_custom_url = sru_custom_url rule,
      rf_include = map (\<lambda>(index, row).
        \<lparr>rif_id = int index + 1, rif_policy = si_policy row,
         rif_cel_expression = coalesce (si_cel_expression row) [], rif_label_id = Some (si_label_id row)\<rparr>)
        (enumerate 0 (sru_include rule)),
      rf_exclude = sru_exclude rule\<rparr>"

definition includeBody :: "rule_include_form \<Rightarrow> thrown + santa_include" where
  "includeBody row =
     (case rif_label_id row of
        None \<Rightarrow> Inl (NativeError ''validated include is missing a label'')
      | Some l \<Rightarrow> Inr
          \<lparr>si_policy = rif_policy row,
           si_cel_expression =
             (if rif_policy row = ''cel'' then nonEmpty (Some (rif_cel_expression row)) else None),
           si_label_id = l\<rparr>)"

definition ruleBody :: "rule_form \<Rightarrow> thrown + santa_rule_mutation" where
  "ruleBody form =
     (case map_throw includeBody (rf_include form) of
        Inl e \<Rightarrow> Inl e
      | Inr rows \<Rightarrow> Inr
          \<lparr>srm_rule_type = rf_rule_type form, srm_identifier = js_trim (rf_identifier form),
           srm_name = js_trim (rf_name form), srm_description = nonEmpty (Some (rf_description form)),
           srm_custom_message = nonEmpty (Some (rf_custom_message form)),
           srm_custom_url = nonEmpty (Some (rf_custom_url form)),
           srm_include = rows, srm_exclude = rf_exclude form\<rparr>)"

definition selectedIncludeLabelIDs :: "rule_include_form list \<Rightarrow> int list" where
  "selectedIncludeLabelIDs includeRows =
     concat (map (\<lambda>row. case rif_label_id row of None \<Rightarrow> [] | Some l \<Rightarrow> [l]) includeRows)"

definition ruleIdentifierPlaceholder :: "js_string \<Rightarrow> js_string option" where
  "ruleIdentifierPlaceholder ruleType =
     (case map_of RULE_IDENTIFIER_RULES ruleType of None \<Rightarrow> None | Some (pattern, placeholder) \<Rightarrow> placeholder)"

subsection \<open>Validation\<close>

definition include_issues :: "cel_check \<Rightarrow> rule_include_form \<Rightarrow> issue list" where
  "include_issues check row =
     issue_if (rif_label_id row = None) ''label_id'' ''Pick a label.'' @
     (case rif_label_id row of
        None \<Rightarrow> []
      | Some l \<Rightarrow> issue_if (l \<le> 0) ''label_id'' ''Pick a label.'') @
     (let expression = js_trim (rif_cel_expression row)
      in if rif_policy row \<noteq> ''cel'' then []
         else if expression = [] then
           issue_if True ''cel_expression'' ''CEL policy requires an expression.''
         else (case santaCELExpressionError check expression of
                 None \<Rightarrow> []
               | Some error \<Rightarrow> issue_if (error \<noteq> []) ''cel_expression'' error))"

definition rule_issues :: "url_parser \<Rightarrow> cel_check \<Rightarrow> rule_form \<Rightarrow> issue list" where
  "rule_issues parse_url check form =
     requiredString ''Identifier'' ''identifier'' (rf_identifier form) @
     requiredString ''Name'' ''name'' (rf_name form) @
     (let custom_url = js_trim (rf_custom_url form)
      in issue_if (\<not> (custom_url = [] \<or> isHTTPSURL parse_url custom_url))
           ''custom_url'' ''Custom URL must be an HTTPS URL.'') @
     concat (map (include_issues check) (rf_include form)) @
     concat (map (\<lambda>ref. issue_if (lr_label_id ref \<le> 0) ''targets'' ''Pick a label.'') (rf_exclude form)) @
     (let identifier = js_trim (rf_identifier form)
      in if identifier = [] then []
         else issue_if
           (case map_of RULE_IDENTIFIER_RULES (rf_rule_type form) of
              None \<Rightarrow> True
            | Some (pattern, placeholder) \<Rightarrow> \<not> pattern identifier)
           ''identifier'' ''Identifier is invalid for the selected rule type.'')"

text \<open>The transformations of the schema: every text is trimmed.\<close>

definition rule_output :: "rule_form \<Rightarrow> rule_form" where
  "rule_output form =
     form\<lparr>rf_identifier := js_trim (rf_identifier form), rf_name := js_trim (rf_name form),
          rf_description := js_trim (rf_description form),
          rf_custom_message := js_trim (rf_custom_message form),
          rf_custom_url := js_trim (rf_custom_url form),
          rf_include := map (\<lambda>row. row\<lparr>rif_cel_expression := js_trim (rif_cel_expression row)\<rparr>)
            (rf_include form)\<rparr>"

text \<open>What is submitted: the body of the schema's output.\<close>

definition submit_rule :: "rule_form \<Rightarrow> thrown + santa_rule_mutation" where
  "submit_rule form = ruleBody (rule_output form)"

text \<open>A row with a label whose expression, where its policy needs one, type-checks.\<close>

definition include_ok :: "cel_check \<Rightarrow> rule_include_form \<Rightarrow> bool" where
  "include_ok check row \<longleftrightarrow>
     (\<exists>l. rif_label_id row = Some l \<and> 0 < l) \<and>
     (rif_policy row = ''cel'' \<longrightarrow>
        js_trim (rif_cel_expression row) \<noteq> [] \<and> check (js_trim (rif_cel_expression row)) = None)"

definition rule_form_ok :: "url_parser \<Rightarrow> cel_check \<Rightarrow> rule_form \<Rightarrow> bool" where
  "rule_form_ok parse_url check form \<longleftrightarrow>
     js_trim (rf_name form) \<noteq> [] \<and>
     (\<exists>pattern placeholder. map_of RULE_IDENTIFIER_RULES (rf_rule_type form) = Some (pattern, placeholder) \<and>
        js_trim (rf_identifier form) \<noteq> [] \<and> pattern (js_trim (rf_identifier form))) \<and>
     (js_trim (rf_custom_url form) = [] \<or> isHTTPSURL parse_url (js_trim (rf_custom_url form))) \<and>
     (\<forall>row \<in> set (rf_include form). include_ok check row) \<and>
     (\<forall>ref \<in> set (rf_exclude form). 0 < lr_label_id ref)"

lemma include_issues_empty: "include_issues check row = [] \<longleftrightarrow> include_ok check row"
proof -
  have "(case santaCELExpressionError check e of None \<Rightarrow> []
        | Some error \<Rightarrow> issue_if (error \<noteq> []) p error) = [] \<longleftrightarrow> check e = None" if "js_trim e \<noteq> []" for e p
    using that readableCELError_nonempty
    by (auto simp: santaCELExpressionError_def issue_simps split: option.splits)
  then show ?thesis
    by (auto simp: include_issues_def include_ok_def issue_simps Let_def split: option.splits)
qed

lemma rule_issues_empty: "rule_issues parse_url check form = [] \<longleftrightarrow> rule_form_ok parse_url check form"
  by (auto simp: rule_issues_def rule_form_ok_def include_issues_empty issue_simps Let_def
      split: option.splits prod.splits if_splits)

subsection \<open>Saving and opening a rule\<close>

text \<open>The rule stores the mutation; what is left out is empty.\<close>

definition rule_stores :: "santa_rule_mutation \<Rightarrow> santa_rule \<Rightarrow> bool" where
  "rule_stores m r \<longleftrightarrow>
     sru_rule_type r = srm_rule_type m \<and> sru_identifier r = srm_identifier m \<and>
     sru_name r = srm_name m \<and> sru_description r = coalesce (srm_description m) [] \<and>
     sru_custom_message r = coalesce (srm_custom_message m) [] \<and>
     sru_custom_url r = coalesce (srm_custom_url m) [] \<and>
     sru_include r = srm_include m \<and> sru_exclude r = srm_exclude m"

text \<open>The row a valid row sends, and the row opened from it.\<close>

definition sent_include :: "rule_include_form \<Rightarrow> santa_include" where
  "sent_include row =
     \<lparr>si_policy = rif_policy row,
      si_cel_expression =
        (if rif_policy row = ''cel'' then nonEmpty (Some (rif_cel_expression row)) else None),
      si_label_id = the (rif_label_id row)\<rparr>"

lemma submit_rule_Inr:
  assumes "\<forall>row \<in> set (rf_include form). rif_label_id row \<noteq> None"
  shows "submit_rule form = Inr
    \<lparr>srm_rule_type = rf_rule_type form, srm_identifier = js_trim (rf_identifier form),
     srm_name = js_trim (rf_name form), srm_description = nonEmpty (Some (rf_description form)),
     srm_custom_message = nonEmpty (Some (rf_custom_message form)),
     srm_custom_url = nonEmpty (Some (rf_custom_url form)),
     srm_include = map sent_include (rf_include form), srm_exclude = rf_exclude form\<rparr>"
proof -
  have "map_throw includeBody (map (\<lambda>row. row\<lparr>rif_cel_expression := js_trim (rif_cel_expression row)\<rparr>)
      (rf_include form)) = Inr (map sent_include (rf_include form))"
    using assms by (intro map_throw_map) (auto simp: includeBody_def sent_include_def nonEmpty_Some)
  then show ?thesis by (simp add: submit_rule_def ruleBody_def rule_output_def nonEmpty_Some)
qed

lemma opened_includes:
  "map sent_include (rf_include (formFromRule r)) =
     map (\<lambda>row. row\<lparr>si_cel_expression :=
       (if si_policy row = ''cel'' then nonEmpty (si_cel_expression row) else None)\<rparr>) (sru_include r)"
  unfolding formFromRule_def rule_form.simps
  by (rule map_enumerate_same) (simp add: sent_include_def)

lemma includes_kept:
  assumes "\<forall>row \<in> set rows. include_ok check row" and "sru_include r = map sent_include rows"
  shows "map sent_include (rf_include (formFromRule r)) = map sent_include rows"
    and "\<forall>row \<in> set (rf_include (formFromRule r)). include_ok check row"
proof -
  show "map sent_include (rf_include (formFromRule r)) = map sent_include rows"
    unfolding opened_includes assms(2) by (simp add: sent_include_def nonEmpty_stable)
  have "include_ok check \<lparr>rif_id = k, rif_policy = si_policy x,
      rif_cel_expression = coalesce (si_cel_expression x) [], rif_label_id = Some (si_label_id x)\<rparr>"
    if "x \<in> set (sru_include r)" for k x
    using that assms by (auto simp: include_ok_def sent_include_def nonEmpty_Some)
  then show "\<forall>row \<in> set (rf_include (formFromRule r)). include_ok check row"
    by (auto simp: formFromRule_def dest: set_enumerated)
qed

interpretation santa_rule:
  form_adapter "\<lambda>form. rule_issues parse_url check form = []" submit_rule rule_stores formFromRule
  for parse_url check
proof
  fix f b r b'
  assume valid: "rule_issues parse_url check f = []"
  then have ok: "rule_form_ok parse_url check f" by (simp add: rule_issues_empty)
  then have labels: "\<forall>row \<in> set (rf_include f). rif_label_id row \<noteq> None"
    by (auto simp: rule_form_ok_def include_ok_def)
  show "\<exists>b. submit_rule f = Inr b" using submit_rule_Inr [OF labels] by blast
  assume "submit_rule f = Inr b" and stores: "rule_stores b r"
  with submit_rule_Inr [OF labels] have b: "b = \<lparr>srm_rule_type = rf_rule_type f,
     srm_identifier = js_trim (rf_identifier f),
     srm_name = js_trim (rf_name f), srm_description = nonEmpty (Some (rf_description f)),
     srm_custom_message = nonEmpty (Some (rf_custom_message f)),
     srm_custom_url = nonEmpty (Some (rf_custom_url f)),
     srm_include = map sent_include (rf_include f), srm_exclude = rf_exclude f\<rparr>" by simp
  from stores have inc: "sru_include r = map sent_include (rf_include f)"
    by (simp add: rule_stores_def b)
  have rows: "\<forall>row \<in> set (rf_include f). include_ok check row" using ok by (simp add: rule_form_ok_def)
  note kept = includes_kept [OF rows inc]
  have "rule_form_ok parse_url check (formFromRule r)"
    using ok stores kept(2) unfolding rule_form_ok_def
    by (auto simp: rule_stores_def b formFromRule_def nonEmpty_Some)
  then show "rule_issues parse_url check (formFromRule r) = []" by (simp add: rule_issues_empty)
  have "\<forall>row \<in> set (rf_include (formFromRule r)). rif_label_id row \<noteq> None"
    using kept(2) by (auto simp: include_ok_def)
  note again = submit_rule_Inr [OF this]
  assume "submit_rule (formFromRule r) = Inr b'"
  with again kept(1) stores have "b' = b"
    by (simp add: rule_stores_def b) (simp add: formFromRule_def nonEmpty_Some)
  then show "rule_stores b' = rule_stores b" by simp
qed

section \<open>The handlers of the rule form\<close>

text \<open>Choosing another rule type empties the identifier; a candidate sets both.\<close>

definition change_rule_type :: "js_string option \<Rightarrow> rule_form \<Rightarrow> rule_form" where
  "change_rule_type ruleType form =
     (case ruleType of
        Some t \<Rightarrow> (if t \<in> set RULE_TYPE_VALUES then form\<lparr>rf_rule_type := t, rf_identifier := []\<rparr> else form)
      | None \<Rightarrow> form)"

record rule_candidate =
  rc_key :: js_string
  rc_name :: js_string
  rc_rule_type :: js_string
  rc_identifier :: js_string

definition select_candidate :: "rule_candidate \<Rightarrow> rule_form \<Rightarrow> rule_form" where
  "select_candidate candidate form =
     form\<lparr>rf_rule_type := rc_rule_type candidate, rf_identifier := rc_identifier candidate\<rparr>"

record signing_identity =
  sid_signing_identifier :: "js_string option"
  sid_team_identifier :: "js_string option"
  sid_developer_name :: "js_string option"

record software_title_identities =
  sti_name :: js_string
  sti_identities :: "signing_identity list"

text \<open>The candidates so far; the set of keys seen is the set of theirs.\<close>

definition addCandidate ::
    "js_string \<Rightarrow> js_string \<Rightarrow> js_string \<Rightarrow> rule_candidate list \<Rightarrow> rule_candidate list" where
  "addCandidate name ruleType identifier candidates =
     (let key = ruleType @ '':'' @ identifier
      in if key \<in> rc_key ` set candidates then candidates
         else candidates @
           [\<lparr>rc_key = key, rc_name = name, rc_rule_type = ruleType, rc_identifier = identifier\<rparr>])"

definition truthy :: "js_string option \<Rightarrow> bool" where
  "truthy v \<longleftrightarrow> coalesce v [] \<noteq> []"

lemma truthy_iff: "truthy v \<longleftrightarrow> (\<exists>s. v = Some s \<and> s \<noteq> [])"
  by (cases v) (simp_all add: truthy_def)

definition identity_candidates ::
    "js_string \<Rightarrow> signing_identity \<Rightarrow> rule_candidate list \<Rightarrow> rule_candidate list" where
  "identity_candidates title identity candidates =
     (let candidates' =
        (if truthy (sid_signing_identifier identity)
         then addCandidate title ''signingid'' (the (sid_signing_identifier identity)) candidates
         else candidates)
      in if truthy (sid_team_identifier identity) \<and> truthy (sid_developer_name identity)
         then addCandidate (the (sid_developer_name identity)) ''teamid''
                (the (sid_team_identifier identity)) candidates'
         else candidates')"

definition ruleNameCandidates :: "software_title_identities list \<Rightarrow> rule_candidate list" where
  "ruleNameCandidates titles =
     fold (\<lambda>title. fold (identity_candidates (sti_name title)) (sti_identities title)) titles []"

text \<open>No identifier is offered twice for a rule type, and every candidate has one.\<close>

definition candidates_ok :: "rule_candidate list \<Rightarrow> bool" where
  "candidates_ok cs \<longleftrightarrow>
     distinct (map rc_key cs) \<and>
     (\<forall>c \<in> set cs. rc_key c = rc_rule_type c @ '':'' @ rc_identifier c \<and>
        rc_identifier c \<noteq> [] \<and> rc_rule_type c \<in> {''signingid'', ''teamid''})"

lemma addCandidate_ok:
  "candidates_ok cs \<Longrightarrow> t \<in> {''signingid'', ''teamid''} \<Longrightarrow> i \<noteq> [] \<Longrightarrow>
     candidates_ok (addCandidate n t i cs)"
  by (auto simp: candidates_ok_def addCandidate_def Let_def)

lemma identity_candidates_ok: "candidates_ok cs \<Longrightarrow> candidates_ok (identity_candidates n i cs)"
  by (auto simp: identity_candidates_def truthy_iff Let_def intro!: addCandidate_ok)

lemma fold_identities_ok:
  "candidates_ok cs \<Longrightarrow> candidates_ok (fold (identity_candidates n) identities cs)"
  by (induction identities arbitrary: cs) (simp_all add: identity_candidates_ok)

lemma fold_titles_ok:
  "candidates_ok cs \<Longrightarrow>
     candidates_ok (fold (\<lambda>title. fold (identity_candidates (sti_name title)) (sti_identities title)) titles cs)"
  by (induction titles arbitrary: cs) (simp_all add: fold_identities_ok)

lemma ruleNameCandidates_ok: "candidates_ok (ruleNameCandidates titles)"
  unfolding ruleNameCandidates_def by (rule fold_titles_ok) (simp add: candidates_ok_def)

lemma candidates_pair_distinct:
  assumes "candidates_ok cs"
  shows "distinct (map (\<lambda>c. (rc_rule_type c, rc_identifier c)) cs)"
proof -
  have "map (\<lambda>(t, i). t @ '':'' @ i) (map (\<lambda>c. (rc_rule_type c, rc_identifier c)) cs) = map rc_key cs"
    using assms by (simp add: candidates_ok_def)
  with assms have "distinct (map (\<lambda>(t, i). t @ '':'' @ i) (map (\<lambda>c. (rc_rule_type c, rc_identifier c)) cs))"
    by (simp only: candidates_ok_def)
  then show ?thesis by (rule distinct_map [THEN iffD1, THEN conjunct1])
qed

section \<open>The configuration form\<close>

record media_policy =
  mpo_action :: js_string
  mpo_remount_flags :: "js_string list option"

record configuration_form =
  cf_name :: js_string
  cf_description :: js_string
  cf_client_mode :: js_string
  cf_targets :: label_target_set
  cf_enable_bundles :: bool
  cf_enable_transitive_rules :: bool
  cf_enable_all_event_upload :: bool
  cf_disable_unknown_event_upload :: bool
  cf_override_file_access_action :: js_string
  cf_full_sync_interval_seconds :: js_num
  cf_batch_size :: js_num
  cf_allowed_path_regex :: js_string
  cf_blocked_path_regex :: js_string
  cf_removable_media_action :: js_string
  cf_removable_media_remount_flags :: "js_string list"
  cf_encrypted_removable_media_action :: js_string
  cf_encrypted_removable_media_remount_flags :: "js_string list"
  cf_event_detail_url :: js_string
  cf_event_detail_text :: js_string

record santa_configuration =
  sc_name :: js_string
  sc_description :: js_string
  sc_client_mode :: js_string
  sc_targets :: label_target_set
  sc_enable_bundles :: bool
  sc_enable_transitive_rules :: bool
  sc_enable_all_event_upload :: bool
  sc_disable_unknown_event_upload :: bool
  sc_override_file_access_action :: js_string
  sc_full_sync_interval_seconds :: js_num
  sc_batch_size :: js_num
  sc_allowed_path_regex :: "js_string option"
  sc_blocked_path_regex :: "js_string option"
  sc_removable_media_policy :: "media_policy option"
  sc_encrypted_removable_media_policy :: "media_policy option"
  sc_event_detail_url :: "js_string option"
  sc_event_detail_text :: "js_string option"

record santa_configuration_mutation =
  scm_name :: js_string
  scm_description :: "js_string option"
  scm_client_mode :: js_string
  scm_targets :: label_target_set
  scm_enable_bundles :: bool
  scm_enable_transitive_rules :: bool
  scm_enable_all_event_upload :: bool
  scm_disable_unknown_event_upload :: bool
  scm_override_file_access_action :: js_string
  scm_full_sync_interval_seconds :: js_num
  scm_batch_size :: js_num
  scm_allowed_path_regex :: "js_string option"
  scm_blocked_path_regex :: "js_string option"
  scm_removable_media_policy :: "media_policy option"
  scm_encrypted_removable_media_policy :: "media_policy option"
  scm_event_detail_url :: "js_string option"
  scm_event_detail_text :: "js_string option"

definition policy_action :: "media_policy option \<Rightarrow> js_string" where
  "policy_action p = coalesce (map_option mpo_action p) ''none''"

definition policy_flags :: "media_policy option \<Rightarrow> js_string list" where
  "policy_flags p = (case p of None \<Rightarrow> [] | Some policy \<Rightarrow> coalesce (mpo_remount_flags policy) [])"

definition filterRemountFlags :: "js_string list \<Rightarrow> js_string list" where
  "filterRemountFlags flags = filter isSantaRemountFlag flags"

definition emptyConfigurationForm :: configuration_form where
  "emptyConfigurationForm =
     \<lparr>cf_name = [],
      cf_description = [],
      cf_client_mode = ''monitor'',
      cf_targets = emptyLabelTargetSet,
      cf_enable_bundles = False,
      cf_enable_transitive_rules = False,
      cf_enable_all_event_upload = False,
      cf_disable_unknown_event_upload = False,
      cf_override_file_access_action = ''none'',
      cf_full_sync_interval_seconds = num_of_int 600,
      cf_batch_size = num_of_int 50,
      cf_allowed_path_regex = [],
      cf_blocked_path_regex = [],
      cf_removable_media_action = ''none'',
      cf_removable_media_remount_flags = [],
      cf_encrypted_removable_media_action = ''none'',
      cf_encrypted_removable_media_remount_flags = [],
      cf_event_detail_url = [],
      cf_event_detail_text = []\<rparr>"

definition formFromConfiguration :: "santa_configuration \<Rightarrow> configuration_form" where
  "formFromConfiguration c =
     \<lparr>cf_name = sc_name c,
      cf_description = sc_description c,
      cf_client_mode = sc_client_mode c,
      cf_targets = sc_targets c,
      cf_enable_bundles = sc_enable_bundles c,
      cf_enable_transitive_rules = sc_enable_transitive_rules c,
      cf_enable_all_event_upload = sc_enable_all_event_upload c,
      cf_disable_unknown_event_upload = sc_disable_unknown_event_upload c,
      cf_override_file_access_action = sc_override_file_access_action c,
      cf_full_sync_interval_seconds = sc_full_sync_interval_seconds c,
      cf_batch_size = sc_batch_size c,
      cf_allowed_path_regex = coalesce (sc_allowed_path_regex c) [],
      cf_blocked_path_regex = coalesce (sc_blocked_path_regex c) [],
      cf_removable_media_action = policy_action (sc_removable_media_policy c),
      cf_removable_media_remount_flags = filterRemountFlags (policy_flags (sc_removable_media_policy c)),
      cf_encrypted_removable_media_action = policy_action (sc_encrypted_removable_media_policy c),
      cf_encrypted_removable_media_remount_flags = filterRemountFlags (policy_flags (sc_encrypted_removable_media_policy c)),
      cf_event_detail_url = coalesce (sc_event_detail_url c) [],
      cf_event_detail_text = coalesce (sc_event_detail_text c) []\<rparr>"

definition removableMediaPolicyBody :: "js_string \<Rightarrow> js_string list \<Rightarrow> media_policy option" where
  "removableMediaPolicyBody action flags =
     (if action = ''none'' then None
      else Some \<lparr>mpo_action = action,
             mpo_remount_flags = (if action = ''remount'' then Some flags else None)\<rparr>)"

definition configurationBody :: "configuration_form \<Rightarrow> santa_configuration_mutation" where
  "configurationBody f =
     \<lparr>scm_name = js_trim (cf_name f),
      scm_description = nonEmpty (Some (cf_description f)),
      scm_client_mode = cf_client_mode f,
      scm_targets = cf_targets f,
      scm_enable_bundles = cf_enable_bundles f,
      scm_enable_transitive_rules = cf_enable_transitive_rules f,
      scm_enable_all_event_upload = cf_enable_all_event_upload f,
      scm_disable_unknown_event_upload = cf_disable_unknown_event_upload f,
      scm_override_file_access_action = cf_override_file_access_action f,
      scm_full_sync_interval_seconds = cf_full_sync_interval_seconds f,
      scm_batch_size = cf_batch_size f,
      scm_allowed_path_regex = nonEmpty (Some (cf_allowed_path_regex f)),
      scm_blocked_path_regex = nonEmpty (Some (cf_blocked_path_regex f)),
      scm_removable_media_policy = removableMediaPolicyBody (cf_removable_media_action f)
        (cf_removable_media_remount_flags f),
      scm_encrypted_removable_media_policy = removableMediaPolicyBody (cf_encrypted_removable_media_action f)
        (cf_encrypted_removable_media_remount_flags f),
      scm_event_detail_url = nonEmpty (Some (cf_event_detail_url f)),
      scm_event_detail_text = nonEmpty (Some (cf_event_detail_text f))\<rparr>"

subsection \<open>Validation\<close>

definition remount_issues :: "js_string \<Rightarrow> js_string \<Rightarrow> js_string list \<Rightarrow> issue list" where
  "remount_issues path action flags =
     issue_if (action = ''remount'' \<and> flags = []) path ''Remount requires at least one mount flag.'' @
     issue_if (action \<noteq> ''remount'' \<and> flags \<noteq> []) path ''Mount flags are only valid for remount.''"

definition configuration_issues :: "url_parser \<Rightarrow> configuration_form \<Rightarrow> issue list" where
  "configuration_issues parse_url form =
     requiredString ''Name'' ''name'' (cf_name form) @
     integerRange ''Full sync interval'' 60 None ''full_sync_interval_seconds''
       (cf_full_sync_interval_seconds form) @
     integerRange ''Batch size'' 5 (Some 100) ''batch_size'' (cf_batch_size form) @
     (let event_detail_url = js_trim (cf_event_detail_url form)
      in issue_if (\<not> (event_detail_url = [] \<or> isHTTPSURL parse_url event_detail_url))
           ''event_detail_url'' ''Event detail URL must be an HTTPS URL.'') @
     remount_issues ''removable_media_remount_flags'' (cf_removable_media_action form)
       (cf_removable_media_remount_flags form) @
     remount_issues ''encrypted_removable_media_remount_flags'' (cf_encrypted_removable_media_action form)
       (cf_encrypted_removable_media_remount_flags form)"

definition configuration_output :: "configuration_form \<Rightarrow> configuration_form" where
  "configuration_output form =
     form\<lparr>cf_name := js_trim (cf_name form),
      cf_description := js_trim (cf_description form),
      cf_allowed_path_regex := js_trim (cf_allowed_path_regex form),
      cf_blocked_path_regex := js_trim (cf_blocked_path_regex form),
      cf_event_detail_url := js_trim (cf_event_detail_url form),
      cf_event_detail_text := js_trim (cf_event_detail_text form)\<rparr>"

text \<open>The enumerations of the schema, and no issue.\<close>

definition configuration_valid :: "url_parser \<Rightarrow> configuration_form \<Rightarrow> bool" where
  "configuration_valid parse_url form \<longleftrightarrow>
     set (cf_removable_media_remount_flags form) \<subseteq> set REMOUNT_FLAG_VALUES \<and>
     set (cf_encrypted_removable_media_remount_flags form) \<subseteq> set REMOUNT_FLAG_VALUES \<and>
     configuration_issues parse_url form = []"

definition submit_configuration :: "configuration_form \<Rightarrow> thrown + santa_configuration_mutation" where
  "submit_configuration form = Inr (configurationBody (configuration_output form))"

definition configuration_stores :: "santa_configuration_mutation \<Rightarrow> santa_configuration \<Rightarrow> bool" where
  "configuration_stores m c \<longleftrightarrow>
     sc_name c = scm_name m \<and>
     sc_description c = coalesce (scm_description m) [] \<and>
     sc_client_mode c = scm_client_mode m \<and>
     sc_targets c = scm_targets m \<and>
     sc_enable_bundles c = scm_enable_bundles m \<and>
     sc_enable_transitive_rules c = scm_enable_transitive_rules m \<and>
     sc_enable_all_event_upload c = scm_enable_all_event_upload m \<and>
     sc_disable_unknown_event_upload c = scm_disable_unknown_event_upload m \<and>
     sc_override_file_access_action c = scm_override_file_access_action m \<and>
     sc_full_sync_interval_seconds c = scm_full_sync_interval_seconds m \<and>
     sc_batch_size c = scm_batch_size m \<and>
     sc_allowed_path_regex c = scm_allowed_path_regex m \<and>
     sc_blocked_path_regex c = scm_blocked_path_regex m \<and>
     sc_removable_media_policy c = scm_removable_media_policy m \<and>
     sc_encrypted_removable_media_policy c = scm_encrypted_removable_media_policy m \<and>
     sc_event_detail_url c = scm_event_detail_url m \<and>
     sc_event_detail_text c = scm_event_detail_text m"

text \<open>Flags exactly for a remount.\<close>

definition flags_fit :: "js_string \<Rightarrow> js_string list \<Rightarrow> bool" where
  "flags_fit action flags \<longleftrightarrow> (action = ''remount'' \<longleftrightarrow> flags \<noteq> [])"

lemma remount_issues_empty [issue_simps]: "remount_issues p action flags = [] \<longleftrightarrow> flags_fit action flags"
  by (auto simp: remount_issues_def flags_fit_def issue_simps)

text \<open>The policy of fitting flags is read back as the action and the flags.\<close>

lemma policy_reopened:
  assumes "flags_fit action flags" and "set flags \<subseteq> set REMOUNT_FLAG_VALUES"
  shows "policy_action (removableMediaPolicyBody action flags) = action"
    and "filterRemountFlags (policy_flags (removableMediaPolicyBody action flags)) = flags"
  using assms
  by (auto simp: policy_action_def policy_flags_def removableMediaPolicyBody_def flags_fit_def
      filterRemountFlags_def isSantaRemountFlag_def filter_id_conv)

interpretation santa_configuration:
  form_adapter "configuration_valid parse_url" submit_configuration configuration_stores formFromConfiguration
  for parse_url
proof
  fix f b r b'
  assume valid: "configuration_valid parse_url f"
  show "\<exists>b. submit_configuration f = Inr b" by (simp add: submit_configuration_def)
  assume "submit_configuration f = Inr b" and stores: "configuration_stores b r"
  then have b: "b = configurationBody (configuration_output f)" by (simp add: submit_configuration_def)
  from valid have fit: "flags_fit (cf_removable_media_action f) (cf_removable_media_remount_flags f)"
    "flags_fit (cf_encrypted_removable_media_action f) (cf_encrypted_removable_media_remount_flags f)"
    and flags: "set (cf_removable_media_remount_flags f) \<subseteq> set REMOUNT_FLAG_VALUES"
      "set (cf_encrypted_removable_media_remount_flags f) \<subseteq> set REMOUNT_FLAG_VALUES"
    by (simp_all add: configuration_valid_def configuration_issues_def issue_simps Let_def)
  note policies = policy_reopened [OF fit(1) flags(1)] policy_reopened [OF fit(2) flags(2)]
  have same: "configuration_output (formFromConfiguration r) = configuration_output f"
    using stores policies
    by (simp add: configuration_stores_def b configurationBody_def configuration_output_def
        formFromConfiguration_def nonEmpty_Some)
  show "configuration_valid parse_url (formFromConfiguration r)"
    using valid stores policies
    by (auto simp: configuration_valid_def configuration_issues_def issue_simps Let_def
        configuration_stores_def b configurationBody_def configuration_output_def
        formFromConfiguration_def nonEmpty_Some)
  assume "submit_configuration (formFromConfiguration r) = Inr b'"
  then show "configuration_stores b' = configuration_stores b"
    using same b by (simp add: submit_configuration_def)
qed

subsection \<open>The media fields\<close>

definition toggleRemountFlag :: "js_string list \<Rightarrow> js_string \<Rightarrow> bool \<Rightarrow> js_string list" where
  "toggleRemountFlag flags flag checked =
     (if checked then (if flag \<in> set flags then flags else flags @ [flag])
      else filter (\<lambda>value. value \<noteq> flag) flags)"

text \<open>
  The handlers of one media field over its action and flags.  The radio group offers any string, the
  flags are shown only for a remount.
\<close>

datatype media_event = ChooseAction js_string | ToggleFlag js_string bool

fun media_step :: "js_string \<times> js_string list \<Rightarrow> media_event \<Rightarrow> js_string \<times> js_string list" where
  "media_step (action, flags) (ChooseAction value) =
     (if isSantaMediaAction value then (value, if value \<noteq> ''remount'' then [] else flags)
      else (action, flags))"
| "media_step (action, flags) (ToggleFlag flag checked) =
     (if action = ''remount'' then (action, toggleRemountFlag flags flag checked) else (action, flags))"

definition media_inv :: "js_string \<times> js_string list \<Rightarrow> bool" where
  "media_inv s \<longleftrightarrow> (fst s \<noteq> ''remount'' \<longrightarrow> snd s = []) \<and> distinct (snd s)"

lemma media_inv_step: "media_inv s \<Longrightarrow> media_inv (media_step s e)"
  by (induction s e rule: media_step.induct) (auto simp: media_inv_def toggleRemountFlag_def)

lemma media_inv_run: "media_inv s \<Longrightarrow> media_inv (foldl media_step s es)"
  by (induction es arbitrary: s) (simp_all add: media_inv_step)

lemma media_run_flags:
  assumes "media_inv s" and "foldl media_step s es = (action, flags)"
  shows "remount_issues p action flags = [] \<longleftrightarrow> action \<noteq> ''remount'' \<or> flags \<noteq> []"
  using media_inv_run [OF assms(1), of es] assms(2)
  by (auto simp: media_inv_def issue_simps flags_fit_def)

end
