(* ===== verification/Targets.thy ===== *)
theory Targets
  imports SantaForms "HOL-Library.Multiset"
begin

text \<open>
  The targeting editors: \<open>web/src/components/targeting/label-assignment-list.tsx\<close> and
  \<open>label-target-set-editor.tsx\<close>, the choices of
  \<open>web/src/features/labels/components/label-picker.tsx\<close>, and the include lists of
  \<open>web/src/features/munki/software/include-targets.tsx\<close> and
  \<open>web/src/features/santa/rules/include-targets.tsx\<close>.

  An editor is a state and a function from events to states; an event whose control is not on the
  screen, is disabled or lies behind an open dialog leaves the state as it is.  The locale
  \<open>include_rows\<close> is the contract of a list of rows with ids and labels; both include lists provide it.
  Main results: whatever the user does, ids stay distinct, no label is used twice in a list or in
  both lists, saved rows are valid, and opening a row for editing never fails.
\<close>

section \<open>Choosing a label\<close>

record label_choice =
  lc_id :: int
  lc_name :: js_string
  lc_type :: js_string

definition picker_items :: "bool \<Rightarrow> int list \<Rightarrow> int list \<Rightarrow> label_choice list \<Rightarrow> label_choice list" where
  "picker_items includeBuiltins unavailableLabelIDs value rows =
     filter (\<lambda>label. (includeBuiltins \<or> lc_type label = ''regular'') \<and>
       (lc_id label \<in> set value \<or> lc_id label \<notin> set unavailableLabelIDs)) rows"

definition picker_selected :: "int list \<Rightarrow> label_choice list \<Rightarrow> label_choice list" where
  "picker_selected value rows = filter (\<lambda>label. lc_id label \<in> set value) rows"

text \<open>
  A choice in single mode: the ids passed to \<open>onChange\<close>, for an item of the list or for none.  The
  fields that use it keep \<open>ids[0] ?? null\<close>.
\<close>

definition single_value :: "int option \<Rightarrow> int list" where
  "single_value v = (case v of None \<Rightarrow> [] | Some l \<Rightarrow> [l])"

definition pick_label ::
    "bool \<Rightarrow> int list \<Rightarrow> label_choice list \<Rightarrow> int option \<Rightarrow> int option \<Rightarrow> int option" where
  "pick_label includeBuiltins unavailable rows current choice =
     (case choice of
        None \<Rightarrow> None
      | Some l \<Rightarrow>
          (if l \<in> lc_id ` set (picker_items includeBuiltins unavailable (single_value current) rows)
           then Some l else current))"

lemma pick_label_free:
  "(\<And>l. current = Some l \<Longrightarrow> l \<notin> set unavailable) \<Longrightarrow>
   pick_label b unavailable rows current choice = Some l \<Longrightarrow> l \<notin> set unavailable"
  by (auto simp: pick_label_def picker_items_def single_value_def split: option.splits if_splits)

lemma pick_label_offered:
  "pick_label b unavailable rows current choice = Some l \<Longrightarrow>
   current = Some l \<or> (\<exists>c \<in> set rows. lc_id c = l \<and> (b \<or> lc_type c = ''regular''))"
  by (auto simp: pick_label_def picker_items_def split: option.splits if_splits)

section \<open>A list of labels\<close>

text \<open>\<open>as_adding\<close> is the dialog's field while the dialog is open.\<close>

record assignment =
  as_rows :: "label_ref list"
  as_adding :: "int option option"

datatype assign_event =
    OpenAssign | PickAssign "int option" | SubmitAssign | CloseAssign | RemoveAssign int

definition assignment_issues :: "int option \<Rightarrow> issue list" where
  "assignment_issues v =
     issue_if (v = None) ''label_id'' ''Pick a label.'' @
     (case v of None \<Rightarrow> [] | Some l \<Rightarrow> issue_if (l \<le> 0) ''label_id'' ''Pick a label.'')"

lemma assignment_issues_empty [issue_simps]: "assignment_issues v = [] \<longleftrightarrow> (\<exists>l. v = Some l \<and> 0 < l)"
  by (auto simp: assignment_issues_def issue_simps split: option.splits)

fun assignment_step ::
    "bool \<Rightarrow> label_choice list \<Rightarrow> int list \<Rightarrow> assignment \<Rightarrow> assign_event \<Rightarrow> assignment" where
  "assignment_step b labels cross s OpenAssign =
     (if as_adding s = None then s\<lparr>as_adding := Some None\<rparr> else s)"
| "assignment_step b labels cross s (PickAssign choice) =
     (case as_adding s of
        None \<Rightarrow> s
      | Some v \<Rightarrow>
          s\<lparr>as_adding := Some (pick_label b (map lr_label_id (as_rows s) @ cross) labels v choice)\<rparr>)"
| "assignment_step b labels cross s SubmitAssign =
     (case as_adding s of
        None \<Rightarrow> s
      | Some v \<Rightarrow>
          if assignment_issues v \<noteq> [] then s
          else (case v of
                  None \<Rightarrow> s
                | Some l \<Rightarrow> s\<lparr>as_rows := as_rows s @ [\<lparr>lr_label_id = l\<rparr>], as_adding := None\<rparr>))"
| "assignment_step b labels cross s CloseAssign = s\<lparr>as_adding := None\<rparr>"
| "assignment_step b labels cross s (RemoveAssign l) =
     (if as_adding s = None
      then s\<lparr>as_rows := filter (\<lambda>item. lr_label_id item \<noteq> l) (as_rows s)\<rparr> else s)"

text \<open>The labels of a list; those its dialog may still add.\<close>

abbreviation as_labels :: "assignment \<Rightarrow> int list" where
  "as_labels s \<equiv> map lr_label_id (as_rows s)"

definition assignment_ok :: "int list \<Rightarrow> assignment \<Rightarrow> bool" where
  "assignment_ok cross s \<longleftrightarrow>
     distinct (as_labels s @ cross) \<and> (\<forall>l \<in> set (as_labels s). 0 < l) \<and>
     (\<forall>l. as_adding s = Some (Some l) \<longrightarrow> l \<notin> set (as_labels s @ cross))"

lemma distinct_filter_append:
  "distinct (map f xs @ ys) \<Longrightarrow> distinct (map f (filter P xs) @ ys)"
  by (auto simp: distinct_map intro: inj_on_subset)

lemma assignment_ok_step:
  assumes "assignment_ok cross s"
  shows "assignment_ok cross (assignment_step b labels cross s e)"
proof (cases e)
  case (RemoveAssign l)
  with assms show ?thesis
    using distinct_filter_append [of lr_label_id "as_rows s" cross]
    by (auto simp: assignment_ok_def simp del: distinct_append)
next
  case (PickAssign choice)
  have free: "\<forall>l. pick_label b (as_labels s @ cross) labels v choice = Some l \<longrightarrow> l \<notin> set (as_labels s @ cross)"
    if "as_adding s = Some v" for v
    using that assms pick_label_free [of v "as_labels s @ cross" b labels choice]
    by (auto simp: assignment_ok_def)
  show ?thesis
  proof (cases "as_adding s")
    case (Some v)
    with assms free [OF Some] show ?thesis by (simp add: PickAssign assignment_ok_def)
  qed (use assms in \<open>simp add: PickAssign\<close>)
next
  case SubmitAssign
  with assms show ?thesis
    by (auto simp: assignment_ok_def issue_simps split: option.splits)
qed (use assms in \<open>auto simp: assignment_ok_def\<close>)

section \<open>A pair of lists\<close>

text \<open>
  The target editor of policies, reports and Santa configurations.  A dialog covers both lists.
\<close>

record target_editor =
  te_include :: assignment
  te_exclude :: assignment

datatype target_event = OnInclude assign_event | OnExclude assign_event

fun target_step :: "bool \<Rightarrow> label_choice list \<Rightarrow> target_editor \<Rightarrow> target_event \<Rightarrow> target_editor" where
  "target_step b labels s (OnInclude e) =
     (if as_adding (te_exclude s) = None
      then s\<lparr>te_include := assignment_step b labels (as_labels (te_exclude s)) (te_include s) e\<rparr> else s)"
| "target_step b labels s (OnExclude e) =
     (if as_adding (te_include s) = None
      then s\<lparr>te_exclude := assignment_step b labels (as_labels (te_include s)) (te_exclude s) e\<rparr> else s)"

definition open_target_editor :: "label_target_set \<Rightarrow> target_editor" where
  "open_target_editor targets =
     \<lparr>te_include = \<lparr>as_rows = lts_include targets, as_adding = None\<rparr>,
      te_exclude = \<lparr>as_rows = lts_exclude targets, as_adding = None\<rparr>\<rparr>"

definition target_editor_value :: "target_editor \<Rightarrow> label_target_set" where
  "target_editor_value s =
     \<lparr>lts_include = as_rows (te_include s), lts_exclude = as_rows (te_exclude s)\<rparr>"

text \<open>No label twice, in a list or in both; every label is a positive id.\<close>

definition targets_apart :: "label_target_set \<Rightarrow> bool" where
  "targets_apart t \<longleftrightarrow>
     distinct (map lr_label_id (lts_include t) @ map lr_label_id (lts_exclude t)) \<and>
     (\<forall>ref \<in> set (lts_include t) \<union> set (lts_exclude t). 0 < lr_label_id ref)"

definition target_editor_ok :: "target_editor \<Rightarrow> bool" where
  "target_editor_ok s \<longleftrightarrow>
     assignment_ok (as_labels (te_exclude s)) (te_include s) \<and>
     assignment_ok (as_labels (te_include s)) (te_exclude s) \<and>
     (as_adding (te_include s) = None \<or> as_adding (te_exclude s) = None)"

lemma assignment_ok_idle:
  "as_adding s = None \<Longrightarrow>
   assignment_ok cross s \<longleftrightarrow> distinct (as_labels s @ cross) \<and> (\<forall>l \<in> set (as_labels s). 0 < l)"
  by (simp add: assignment_ok_def)

lemma assignment_ok_apart: "assignment_ok cross s \<Longrightarrow> distinct (as_labels s @ cross)"
  by (simp add: assignment_ok_def)

lemma target_editor_ok_step: "target_editor_ok s \<Longrightarrow> target_editor_ok (target_step b labels s e)"
proof (cases e)
  case (OnInclude a)
  assume ok: "target_editor_ok s"
  show ?thesis
  proof (cases "as_adding (te_exclude s) = None")
    case True
    have "assignment_ok (as_labels (te_exclude s))
        (assignment_step b labels (as_labels (te_exclude s)) (te_include s) a)" (is "assignment_ok _ ?i")
      using ok by (intro assignment_ok_step) (simp add: target_editor_ok_def)
    moreover from assignment_ok_apart [OF this] have "distinct (as_labels (te_exclude s) @ as_labels ?i)"
      by auto
    ultimately show ?thesis
      using True ok by (simp add: OnInclude target_editor_ok_def assignment_ok_idle)
  next
    case False
    with ok show ?thesis by (auto simp: OnInclude)
  qed
next
  case (OnExclude a)
  assume ok: "target_editor_ok s"
  show ?thesis
  proof (cases "as_adding (te_include s) = None")
    case True
    have "assignment_ok (as_labels (te_include s))
        (assignment_step b labels (as_labels (te_include s)) (te_exclude s) a)" (is "assignment_ok _ ?x")
      using ok by (intro assignment_ok_step) (simp add: target_editor_ok_def)
    moreover from assignment_ok_apart [OF this] have "distinct (as_labels (te_include s) @ as_labels ?x)"
      by auto
    ultimately show ?thesis
      using True ok by (simp add: OnExclude target_editor_ok_def assignment_ok_idle)
  next
    case False
    with ok show ?thesis by (auto simp: OnExclude)
  qed
qed

lemma target_editor_ok_run:
  "target_editor_ok s \<Longrightarrow> target_editor_ok (foldl (target_step b labels) s es)"
  by (induction es arbitrary: s) (simp_all add: target_editor_ok_step)

lemma target_editor_open: "targets_apart t \<longleftrightarrow> target_editor_ok (open_target_editor t)"
  by (auto simp: targets_apart_def target_editor_ok_def assignment_ok_def open_target_editor_def)

lemma target_editor_ok_value: "target_editor_ok s \<Longrightarrow> targets_apart (target_editor_value s)"
  by (auto simp: targets_apart_def target_editor_ok_def assignment_ok_def target_editor_value_def)

section \<open>Rows with a label\<close>

datatype dialog_mode = DialogAdd | DialogEdit int

text \<open>
  The contract of a list of include rows: fresh ids, the row a dialog opens, what saving and removing
  do.  \<open>rows_ok\<close> is the invariant of the list next to the labels of the exclude list.
\<close>

definition rows_ok :: "('r \<Rightarrow> int) \<Rightarrow> ('r \<Rightarrow> int option) \<Rightarrow> 'r list \<Rightarrow> int list \<Rightarrow> bool" where
  "rows_ok rid label rows excluded \<longleftrightarrow>
     distinct (map rid rows) \<and> (\<forall>r \<in> set rows. 0 < rid r \<and> (\<exists>l. label r = Some l \<and> 0 < l)) \<and>
     distinct (map label rows @ map Some excluded)"

text \<open>
  The values of an open dialog: those of a row that can be saved as soon as the schema accepts them.
\<close>

definition draft_fits :: "('r \<Rightarrow> int) \<Rightarrow> ('r \<Rightarrow> int option) \<Rightarrow> ('r list \<Rightarrow> int) \<Rightarrow> 'r list \<Rightarrow> int list \<Rightarrow>
    dialog_mode \<Rightarrow> 'r \<Rightarrow> bool" where
  "draft_fits rid label next_id rows excluded mode draft \<longleftrightarrow>
     (case mode of
        DialogAdd \<Rightarrow> rid draft = next_id rows \<and>
          (\<forall>l. label draft = Some l \<longrightarrow> Some l \<notin> label ` set rows \<and> l \<notin> set excluded)
      | DialogEdit i \<Rightarrow> i = rid draft \<and> (\<exists>row \<in> set rows. rid row = rid draft \<and> label row = label draft))"

text \<open>The labels of the rows.\<close>

definition row_labels :: "('r \<Rightarrow> int option) \<Rightarrow> 'r list \<Rightarrow> int list" where
  "row_labels label rows = concat (map (\<lambda>row. case label row of None \<Rightarrow> [] | Some l \<Rightarrow> [l]) rows)"

lemma set_row_labels: "l \<in> set (row_labels label rows) \<longleftrightarrow> Some l \<in> label ` set rows"
  by (force simp: row_labels_def split: option.splits)

lemma row_labels_map:
  assumes "\<forall>r \<in> set rows. \<exists>l. label r = Some l \<and> 0 < l"
  shows "map Some (row_labels label rows) = map label rows"
  using assms by (induction rows) (auto simp: row_labels_def)

lemma rows_ok_assignment:
  assumes "rows_ok rid label rows (as_labels s)"
  shows "assignment_ok (row_labels label rows) s \<longleftrightarrow> (\<forall>l \<in> set (as_labels s). 0 < l) \<and>
    (\<forall>l. as_adding s = Some (Some l) \<longrightarrow> l \<notin> set (as_labels s @ row_labels label rows))"
proof -
  have "map label rows = map Some (row_labels label rows)"
    using assms by (intro row_labels_map [symmetric]) (simp add: rows_ok_def)
  with assms have "distinct (map Some (row_labels label rows @ as_labels s))"
    by (simp add: rows_ok_def)
  then have "distinct (as_labels s @ row_labels label rows)" unfolding distinct_map by auto
  then show ?thesis by (simp add: assignment_ok_def)
qed

locale include_rows =
  fixes rid :: "'r \<Rightarrow> int" and label :: "'r \<Rightarrow> int option"
    and next_id :: "'r list \<Rightarrow> int" and required :: "'r list \<Rightarrow> int \<Rightarrow> thrown + 'r"
    and save :: "dialog_mode \<Rightarrow> 'r \<Rightarrow> 'r list \<Rightarrow> 'r list" and remove :: "int \<Rightarrow> 'r list \<Rightarrow> 'r list"
  assumes next_id_fresh: "r \<in> set rows \<Longrightarrow> rid r < next_id rows"
    and next_id_pos: "0 < next_id rows"
    and required_found: "distinct (map rid rows) \<Longrightarrow> r \<in> set rows \<Longrightarrow> required rows (rid r) = Inr r"
    and save_adds: "save DialogAdd r rows = rows @ [r]"
    and save_replaces: "save (DialogEdit i) r rows = map (\<lambda>row. if rid row = rid r then r else row) rows"
    and remove_filters: "remove i rows = filter (\<lambda>row. rid row \<noteq> i) rows"
begin

lemma added:
  assumes "rows_ok rid label rows ls" and "rid r = next_id rows" and "label r = Some l" and "0 < l"
    and "Some l \<notin> label ` set rows" and "l \<notin> set ls"
  shows "rows_ok rid label (save DialogAdd r rows) ls"
  using assms next_id_pos [of rows] next_id_fresh [of _ rows]
  by (fastforce simp: rows_ok_def save_adds)

lemma replaced_ids:
  "map rid (save (DialogEdit i) r rows) = map rid rows"
  by (auto simp: save_replaces)

lemma replaced_labels:
  assumes "distinct (map rid rows)" and "old \<in> set rows" and "rid r = rid old" and "label r = label old"
  shows "map label (save (DialogEdit i) r rows) = map label rows"
proof -
  have "label (if rid row = rid r then r else row) = label row" if "row \<in> set rows" for row
    using assms that by (auto simp: distinct_map dest: inj_onD)
  then show ?thesis by (simp add: save_replaces)
qed

lemma replaced:
  assumes "rows_ok rid label rows ls" and "old \<in> set rows" and "rid r = rid old" and "label r = label old"
  shows "rows_ok rid label (save (DialogEdit i) r rows) ls"
proof -
  have "set (save (DialogEdit i) r rows) \<subseteq> insert r (set rows)" by (auto simp: save_replaces)
  then show ?thesis
    using assms replaced_labels [of rows old r i] replaced_ids [of i r rows]
    unfolding rows_ok_def by (metis insertE subsetD)
qed

lemma removed: "rows_ok rid label rows ls \<Longrightarrow> rows_ok rid label (remove i rows) ls"
  by (auto simp: rows_ok_def remove_filters distinct_map intro: inj_on_subset)

lemma permuted:
  assumes "rows_ok rid label rows ls" and "mset rows' = mset rows"
  shows "rows_ok rid label rows' ls"
proof -
  from assms(2) have same: "set rows' = set rows" "distinct (map f rows') = distinct (map f rows)" for f :: "'r \<Rightarrow> 'a"
    by (metis mset_eq_setD) (metis (no_types) assms(2) mset_eq_imp_distinct_iff mset_map)
  from assms(2) have ids: "distinct (map rid rows') = distinct (map rid rows)"
    and labels: "distinct (map label rows') = distinct (map label rows)"
    by (metis mset_eq_imp_distinct_iff mset_map)+
  show ?thesis using assms(1) by (simp add: rows_ok_def same(1) ids labels)
qed

lemma kept:
  assumes "rows_ok rid label rows ls" and "map rid rows' = map rid rows" and "map label rows' = map label rows"
  shows "rows_ok rid label rows' ls"
proof -
  have "(\<forall>x \<in> set (map rid rows'). 0 < x) \<and> (\<forall>v \<in> set (map label rows'). \<exists>l. v = Some l \<and> 0 < l)"
    unfolding assms(2,3) using assms(1) by (simp add: rows_ok_def)
  then have "\<forall>r \<in> set rows'. 0 < rid r \<and> (\<exists>l. label r = Some l \<and> 0 < l)" by simp
  then show ?thesis using assms by (simp add: rows_ok_def)
qed

lemma opened:
  "rows_ok rid label rows ls \<Longrightarrow> r \<in> set rows \<Longrightarrow> required rows (rid r) = Inr r"
  by (rule required_found) (simp_all add: rows_ok_def)

lemma excluded_changed:
  assumes "rows_ok rid label rows ls" and "distinct ls'"
    and "\<forall>l \<in> set ls'. Some l \<notin> label ` set rows"
  shows "rows_ok rid label rows ls'"
  using assms by (auto simp: rows_ok_def distinct_map) (metis imageI)

lemma exclude_step_ok:
  assumes "rows_ok rid label rows (as_labels s)" and "assignment_ok (row_labels label rows) s"
  shows "rows_ok rid label rows (as_labels (assignment_step b labels (row_labels label rows) s e))"
    and "assignment_ok (row_labels label rows) (assignment_step b labels (row_labels label rows) s e)"
proof -
  show ok: "assignment_ok (row_labels label rows) (assignment_step b labels (row_labels label rows) s e)"
    by (rule assignment_ok_step [OF assms(2)])
  from assignment_ok_apart [OF this]
  have "distinct (as_labels (assignment_step b labels (row_labels label rows) s e))"
    and "\<forall>l \<in> set (as_labels (assignment_step b labels (row_labels label rows) s e)). Some l \<notin> label ` set rows"
    using set_row_labels [of _ label rows] by auto
  then show "rows_ok rid label rows (as_labels (assignment_step b labels (row_labels label rows) s e))"
    by (rule excluded_changed [OF assms(1)])
qed

lemma draft_saved:
  assumes "rows_ok rid label rows ls" and "draft_fits rid label next_id rows ls mode draft"
    and "rid r = rid draft" and "label r = label draft" and "label draft = Some l" and "0 < l"
  shows "rows_ok rid label (save mode r rows) ls"
proof (cases mode)
  case DialogAdd
  then show ?thesis using assms added [OF assms(1), of r l] by (simp add: draft_fits_def)
next
  case (DialogEdit i)
  with assms(2) obtain old where "old \<in> set rows" "rid old = rid draft" "label old = label draft"
    by (auto simp: draft_fits_def)
  with DialogEdit show ?thesis using replaced [OF assms(1), of old r] assms(3,4) by simp
qed

lemma saved_rows:
  "r' \<in> set (save mode r rows) \<Longrightarrow> r' = r \<or> r' \<in> set rows"
  by (cases mode) (auto simp: save_adds save_replaces split: if_splits)

lemma removed_rows: "set (remove i rows) \<subseteq> set rows"
  by (auto simp: remove_filters)

end

text \<open>A run of steps that may throw.\<close>

fun run_steps :: "('s \<Rightarrow> 'e \<Rightarrow> thrown + 's) \<Rightarrow> 's \<Rightarrow> 'e list \<Rightarrow> thrown + 's" where
  "run_steps step s [] = Inr s"
| "run_steps step s (e # es) = (case step s e of Inl err \<Rightarrow> Inl err | Inr s' \<Rightarrow> run_steps step s' es)"

lemma run_steps_inv:
  assumes "\<And>s e. I s \<Longrightarrow> \<exists>s'. step s e = Inr s' \<and> I s'" and "I s"
  shows "\<exists>s'. run_steps step s es = Inr s' \<and> I s'"
  using assms(2)
proof (induction es arbitrary: s)
  case (Cons e es)
  with assms(1) [of s e] show ?case by auto
qed simp

text \<open>\<open>rows.reduce((max, row) => Math.max(max, row.id), 0) + 1\<close>.\<close>

lemma fold_max_bounds:
  "m \<le> foldl (\<lambda>m r. max m (f r)) (m :: int) rows"
  "r \<in> set rows \<Longrightarrow> f r \<le> foldl (\<lambda>m r. max m (f r)) m rows"
proof -
  show low: "m \<le> foldl (\<lambda>m r. max m (f r)) m rows" for m rows
    by (induction rows arbitrary: m) (auto intro: order_trans max.cobounded1)
  show "r \<in> set rows \<Longrightarrow> f r \<le> foldl (\<lambda>m r. max m (f r)) m rows"
    by (induction rows arbitrary: m) (auto intro: order_trans [OF max.cobounded2 low])
qed

lemma find_by_id:
  assumes "distinct (map f rows)" and "r \<in> set rows"
  shows "List.find (\<lambda>row. f row = f r) rows = Some r"
  using assms by (induction rows) (auto simp: image_iff)

section \<open>The includes of a Santa rule\<close>

definition nextIncludeID :: "rule_include_form list \<Rightarrow> int" where
  "nextIncludeID rows = foldl (\<lambda>m row. max m (rif_id row)) 0 rows + 1"

definition requiredInclude :: "rule_include_form list \<Rightarrow> int \<Rightarrow> thrown + rule_include_form" where
  "requiredInclude rows i =
     (case List.find (\<lambda>row. rif_id row = i) rows of
        None \<Rightarrow> Inl (NativeError ''The selected Santa include no longer exists'')
      | Some target \<Rightarrow> Inr target)"

definition save_include :: "dialog_mode \<Rightarrow> rule_include_form \<Rightarrow> rule_include_form list \<Rightarrow> rule_include_form list" where
  "save_include mode target rows =
     (case mode of
        DialogAdd \<Rightarrow> rows @ [target]
      | DialogEdit _ \<Rightarrow> map (\<lambda>row. if rif_id row = rif_id target then target else row) rows)"

definition remove_include :: "int \<Rightarrow> rule_include_form list \<Rightarrow> rule_include_form list" where
  "remove_include i rows = filter (\<lambda>item. rif_id item \<noteq> i) rows"

interpretation santa_rows:
  include_rows rif_id rif_label_id nextIncludeID requiredInclude save_include remove_include
proof
  show "rif_id r < nextIncludeID rows" if "r \<in> set rows" for r rows
    using fold_max_bounds(2) [of r rows rif_id 0] that by (simp add: nextIncludeID_def)
  show "0 < nextIncludeID rows" for rows
    using fold_max_bounds(1) [of 0 rif_id rows] by (simp add: nextIncludeID_def)
qed (simp_all add: requiredInclude_def save_include_def remove_include_def find_by_id)

text \<open>The dialog holds its mode and the values of its form.\<close>

record santa_targets =
  st_include :: "rule_include_form list"
  st_exclude :: assignment
  st_dialog :: "(dialog_mode \<times> rule_include_form) option"

datatype santa_target_event =
    SantaAdd | SantaEdit rule_include_form | SantaLabel "int option" | SantaPolicy js_string
  | SantaExpression js_string | SantaSave | SantaCancel | SantaRemove rule_include_form
  | SantaExclude assign_event

definition new_include :: "rule_include_form list \<Rightarrow> rule_include_form" where
  "new_include rows =
     \<lparr>rif_id = nextIncludeID rows, rif_policy = ''allowlist'', rif_cel_expression = [], rif_label_id = None\<rparr>"

definition include_dialog :: "rule_include_form list \<Rightarrow> dialog_mode \<Rightarrow> thrown + rule_include_form" where
  "include_dialog rows mode =
     (case mode of DialogAdd \<Rightarrow> Inr (new_include rows) | DialogEdit i \<Rightarrow> requiredInclude rows i)"

definition santa_idle :: "santa_targets \<Rightarrow> bool" where
  "santa_idle s \<longleftrightarrow> st_dialog s = None \<and> as_adding (st_exclude s) = None"

definition open_include_dialog :: "dialog_mode \<Rightarrow> santa_targets \<Rightarrow> thrown + santa_targets" where
  "open_include_dialog mode s =
     (case include_dialog (st_include s) mode of
        Inl e \<Rightarrow> Inl e
      | Inr initial \<Rightarrow> Inr (s\<lparr>st_dialog := Some (mode, initial)\<rparr>))"

text \<open>A change of the dialog's values; the label can only be chosen when a row is added.\<close>

definition santa_draft ::
    "label_choice list \<Rightarrow> santa_targets \<Rightarrow> santa_target_event \<Rightarrow> dialog_mode \<Rightarrow> rule_include_form \<Rightarrow> rule_include_form" where
  "santa_draft labels s e mode draft =
     (case e of
        SantaLabel choice \<Rightarrow>
          (if mode = DialogAdd
           then draft\<lparr>rif_label_id :=
             pick_label True (selectedIncludeLabelIDs (st_include s) @ as_labels (st_exclude s)) labels
               (rif_label_id draft) choice\<rparr>
           else draft)
      | SantaPolicy policy \<Rightarrow> (if policy \<in> set POLICY_VALUES then draft\<lparr>rif_policy := policy\<rparr> else draft)
      | SantaExpression text \<Rightarrow>
          (if rif_policy draft = ''cel'' then draft\<lparr>rif_cel_expression := text\<rparr> else draft)
      | _ \<Rightarrow> draft)"

text \<open>Submitting the dialog: the schema's output of valid values is saved.\<close>

definition santa_save :: "cel_check \<Rightarrow> dialog_mode \<Rightarrow> rule_include_form \<Rightarrow> santa_targets \<Rightarrow> santa_targets" where
  "santa_save check mode draft s =
     (if include_issues check draft = []
      then s\<lparr>st_include := save_include mode
               (draft\<lparr>rif_cel_expression := js_trim (rif_cel_expression draft)\<rparr>) (st_include s),
             st_dialog := None\<rparr>
      else s)"

fun santa_target_step ::
    "label_choice list \<Rightarrow> cel_check \<Rightarrow> santa_targets \<Rightarrow> santa_target_event \<Rightarrow> thrown + santa_targets" where
  "santa_target_step labels check s SantaAdd =
     (if santa_idle s then open_include_dialog DialogAdd s else Inr s)"
| "santa_target_step labels check s (SantaEdit row) =
     (if santa_idle s \<and> row \<in> set (st_include s) then open_include_dialog (DialogEdit (rif_id row)) s
      else Inr s)"
| "santa_target_step labels check s (SantaRemove row) =
     Inr (if santa_idle s \<and> row \<in> set (st_include s)
          then s\<lparr>st_include := remove_include (rif_id row) (st_include s)\<rparr> else s)"
| "santa_target_step labels check s SantaCancel = Inr (s\<lparr>st_dialog := None\<rparr>)"
| "santa_target_step labels check s SantaSave =
     Inr (case st_dialog s of None \<Rightarrow> s | Some (mode, draft) \<Rightarrow> santa_save check mode draft s)"
| "santa_target_step labels check s (SantaExclude e) =
     Inr (if st_dialog s = None
          then s\<lparr>st_exclude :=
                 assignment_step False labels (selectedIncludeLabelIDs (st_include s)) (st_exclude s) e\<rparr>
          else s)"
| "santa_target_step labels check s e =
     Inr (case st_dialog s of
            None \<Rightarrow> s
          | Some (mode, draft) \<Rightarrow> s\<lparr>st_dialog := Some (mode, santa_draft labels s e mode draft)\<rparr>)"

text \<open>The invariant: the lists are as they should be, and an open dialog holds a row that fits.\<close>

definition santa_targets_ok :: "cel_check \<Rightarrow> santa_targets \<Rightarrow> bool" where
  "santa_targets_ok check s \<longleftrightarrow>
     rows_ok rif_id rif_label_id (st_include s) (as_labels (st_exclude s)) \<and>
     assignment_ok (selectedIncludeLabelIDs (st_include s)) (st_exclude s) \<and>
     (\<forall>row \<in> set (st_include s). include_ok check row) \<and>
     (st_dialog s = None \<or> as_adding (st_exclude s) = None) \<and>
     (\<forall>mode draft. st_dialog s = Some (mode, draft) \<longrightarrow>
        draft_fits rif_id rif_label_id nextIncludeID (st_include s) (as_labels (st_exclude s)) mode draft)"

lemma selected_labels: "selectedIncludeLabelIDs rows = row_labels rif_label_id rows"
  by (simp add: selectedIncludeLabelIDs_def row_labels_def)

lemma idle_exclude_ok:
  assumes "rows_ok rid label rows (as_labels s)" and "\<forall>l \<in> set (as_labels s). 0 < l"
    and "as_adding s = None"
  shows "assignment_ok (row_labels label rows) s"
  using assms by (simp add: rows_ok_assignment)

lemma santa_open_ok:
  assumes ok: "santa_targets_ok check s" and idle: "santa_idle s"
    and mode: "mode = DialogAdd \<or> (\<exists>row \<in> set (st_include s). mode = DialogEdit (rif_id row))"
  shows "\<exists>s'. open_include_dialog mode s = Inr s' \<and> santa_targets_ok check s'"
  using mode
proof
  assume "mode = DialogAdd"
  with ok idle show ?thesis
    by (simp add: open_include_dialog_def include_dialog_def santa_targets_ok_def santa_idle_def
        draft_fits_def new_include_def)
next
  assume "\<exists>row \<in> set (st_include s). mode = DialogEdit (rif_id row)"
  then obtain row where row: "row \<in> set (st_include s)" "mode = DialogEdit (rif_id row)" by auto
  have "requiredInclude (st_include s) (rif_id row) = Inr row"
    using santa_rows.opened ok row(1) unfolding santa_targets_ok_def by blast
  with ok idle row show ?thesis
    by (auto simp: open_include_dialog_def include_dialog_def santa_targets_ok_def santa_idle_def
        draft_fits_def)
qed

lemma santa_draft_ok:
  assumes "santa_targets_ok check s" and "st_dialog s = Some (mode, draft)"
  shows "santa_targets_ok check (s\<lparr>st_dialog := Some (mode, santa_draft labels s e mode draft)\<rparr>)"
proof -
  from assms have fits: "draft_fits rif_id rif_label_id nextIncludeID (st_include s)
      (as_labels (st_exclude s)) mode draft"
    by (auto simp: santa_targets_ok_def)
  have "draft_fits rif_id rif_label_id nextIncludeID (st_include s) (as_labels (st_exclude s)) mode
      (santa_draft labels s e mode draft)"
  proof (cases "\<exists>choice. e = SantaLabel choice \<and> mode = DialogAdd")
    case True
    then obtain choice where e: "e = SantaLabel choice" and mode: "mode = DialogAdd" by auto
    let ?used = "selectedIncludeLabelIDs (st_include s) @ as_labels (st_exclude s)"
    have "l \<notin> set ?used" if "pick_label True ?used labels (rif_label_id draft) choice = Some l" for l
      using fits mode that pick_label_free [of "rif_label_id draft" ?used]
      by (simp add: draft_fits_def selected_labels set_row_labels)
    with fits show ?thesis
      by (auto simp: e mode santa_draft_def draft_fits_def selected_labels set_row_labels)
  next
    case False
    with fits show ?thesis
      by (auto simp: santa_draft_def draft_fits_def split: santa_target_event.splits dialog_mode.splits)
  qed
  with assms show ?thesis by (simp add: santa_targets_ok_def)
qed

lemma santa_save_ok:
  assumes ok: "santa_targets_ok check s" and dialog: "st_dialog s = Some (mode, draft)"
  shows "santa_targets_ok check (santa_save check mode draft s)"
proof (cases "include_issues check draft = []")
  case True
  then obtain l where l: "rif_label_id draft = Some l" "0 < l"
    and valid: "include_ok check (draft\<lparr>rif_cel_expression := js_trim (rif_cel_expression draft)\<rparr>)"
    by (auto simp: include_issues_empty include_ok_def)
  have fits: "draft_fits rif_id rif_label_id nextIncludeID (st_include s) (as_labels (st_exclude s)) mode draft"
    and rows: "rows_ok rif_id rif_label_id (st_include s) (as_labels (st_exclude s))"
    and idle: "as_adding (st_exclude s) = None"
    and pos: "\<forall>l \<in> set (as_labels (st_exclude s)). 0 < l"
    using ok dialog by (auto simp: santa_targets_ok_def assignment_ok_def)
  let ?new = "draft\<lparr>rif_cel_expression := js_trim (rif_cel_expression draft)\<rparr>"
  have rows': "rows_ok rif_id rif_label_id (save_include mode ?new (st_include s)) (as_labels (st_exclude s))"
    by (rule santa_rows.draft_saved [OF rows fits _ _ l]) simp_all
  moreover have "\<forall>row \<in> set (save_include mode ?new (st_include s)). include_ok check row"
    using santa_rows.saved_rows [of _ mode ?new "st_include s"] valid ok
    by (auto simp: santa_targets_ok_def)
  ultimately show ?thesis
    using True idle idle_exclude_ok [OF rows' pos idle]
    by (simp add: santa_save_def santa_targets_ok_def selected_labels)
next
  case False
  with ok show ?thesis by (simp add: santa_save_def)
qed

lemma santa_remove_ok:
  assumes ok: "santa_targets_ok check s" and idle: "santa_idle s"
  shows "santa_targets_ok check (s\<lparr>st_include := remove_include i (st_include s)\<rparr>)"
proof -
  have rows: "rows_ok rif_id rif_label_id (remove_include i (st_include s)) (as_labels (st_exclude s))"
    using ok by (intro santa_rows.removed) (simp add: santa_targets_ok_def)
  have "assignment_ok (row_labels rif_label_id (remove_include i (st_include s))) (st_exclude s)"
    using ok idle
    by (intro idle_exclude_ok [OF rows]) (auto simp: santa_targets_ok_def assignment_ok_def santa_idle_def)
  with ok idle rows santa_rows.removed_rows [of i "st_include s"] show ?thesis
    by (auto simp: santa_targets_ok_def santa_idle_def selected_labels)
qed

lemma santa_exclude_ok:
  assumes ok: "santa_targets_ok check s" and "st_dialog s = None"
  shows "santa_targets_ok check (s\<lparr>st_exclude :=
    assignment_step False labels (selectedIncludeLabelIDs (st_include s)) (st_exclude s) e\<rparr>)"
  using santa_rows.exclude_step_ok [of "st_include s" "st_exclude s" False labels e] assms
  by (simp add: santa_targets_ok_def selected_labels)

lemma santa_step_ok:
  assumes "santa_targets_ok check s"
  shows "\<exists>s'. santa_target_step labels check s e = Inr s' \<and> santa_targets_ok check s'"
proof -
  have cancel: "santa_targets_ok check (s\<lparr>st_dialog := None\<rparr>)"
    using assms by (simp add: santa_targets_ok_def)
  show ?thesis
    using assms cancel santa_open_ok [OF assms] santa_draft_ok [OF assms] santa_save_ok [OF assms]
      santa_remove_ok [OF assms] santa_exclude_ok [OF assms]
    by (cases e) (auto split: option.splits)
qed

lemma santa_run_ok:
  "santa_targets_ok check s \<Longrightarrow>
   \<exists>s'. run_steps (santa_target_step labels check) s es = Inr s' \<and> santa_targets_ok check s'"
  by (rule run_steps_inv [where I = "santa_targets_ok check", OF santa_step_ok])

end
