(* ===== verification/MunkiSoftwareForm.thy ===== *)
theory MunkiSoftwareForm
  imports Targets Upload
begin

text \<open>
  The Munki software form: \<open>web/src/features/munki/software/fields.tsx\<close>, the update and create bodies of
  \<open>edit.tsx\<close> and \<open>create.tsx\<close>, and the include list of \<open>include-targets.tsx\<close>.

  Main results: which forms are valid; opening a stored title and saving it sends what is stored; the
  include list keeps its rows valid, numbered from one and free of contradicting actions; the
  package selector survives its text form.
\<close>

section \<open>Data\<close>

record package_selector =
  ps_strategy :: js_string
  ps_package_id :: "js_num option"

record munki_include =
  mi_label_id :: int
  mi_package :: package_selector
  mi_actions :: "js_string list"

record munki_target_row =
  mt_id :: int
  mt_priority :: int
  mt_label_id :: "int option"
  mt_package :: package_selector
  mt_actions :: "js_string list"

datatype icon_value =
    IconNone
  | IconStored int js_string js_string
  | IconUpload js_file js_string

record munki_software_form =
  msf_name :: js_string
  msf_display_name :: js_string
  msf_description :: js_string
  msf_category :: js_string
  msf_developer :: js_string
  msf_icon :: icon_value
  msf_include :: "munki_target_row list"
  msf_exclude :: "label_ref list"

record munki_software_detail =
  msd_name :: js_string
  msd_display_name :: "js_string option"
  msd_description :: js_string
  msd_category :: js_string
  msd_developer :: js_string
  msd_icon_object_id :: "int option"
  msd_icon_file :: "js_string option"
  msd_icon_url :: "js_string option"
  msd_include :: "munki_include list"
  msd_exclude :: "label_ref list"

record munki_update =
  mum_display_name :: js_string
  mum_description :: js_string
  mum_category :: js_string
  mum_developer :: js_string
  mum_icon_object_id :: "int option"
  mum_include :: "munki_include list"
  mum_exclude :: "label_ref list"

record munki_create = munki_update +
  mcm_name :: js_string

section \<open>The name\<close>

text \<open>The pattern \<open>-\d[^-]*$\<close>: the last part of a name with a dash starts with a digit.\<close>

definition has_version_suffix :: "js_string \<Rightarrow> bool" where
  "has_version_suffix value =
     (let parts = js_split (CHR ''-'') value
      in 1 < length parts \<and> (case last parts of [] \<Rightarrow> False | c # _ \<Rightarrow> is_digit c))"

definition munkiName :: "js_string \<Rightarrow> issue list" where
  "munkiName name =
     requiredString ''Name'' ''name'' name @
     issue_if (CHR ''/'' \<in> set (js_trim name)) ''name'' ''Name cannot contain a slash'' @
     issue_if (has_version_suffix (js_trim name)) ''name'' ''Name cannot end with a version suffix''"

lemma js_split_length: "Suc 0 < length (js_split d s) \<longleftrightarrow> d \<in> set s"
  by (induction s) (auto split: list.splits)

lemma js_split_append:
  "js_split d (q @ d # t) = js_split d q @ js_split d t"
proof (induction q)
  case (Cons c q)
  then show ?case by (cases "js_split d q") (use js_split_nonempty in auto)
qed simp

lemma has_version_suffix_iff:
  "has_version_suffix s \<longleftrightarrow> (\<exists>p c t. s = p @ CHR ''-'' # c # t \<and> is_digit c \<and> CHR ''-'' \<notin> set t)"
proof
  assume suffix: "has_version_suffix s"
  then have "CHR ''-'' \<in> set s" by (simp add: has_version_suffix_def js_split_length Let_def)
  then obtain p t where s: "s = p @ CHR ''-'' # t" and t: "CHR ''-'' \<notin> set t"
    using split_list_last by metis
  have "last (js_split (CHR ''-'') (q @ CHR ''-'' # t)) = t" for q
    using t by (simp add: js_split_append js_split_no_sep)
  with suffix s have "case t of [] \<Rightarrow> False | c # _ \<Rightarrow> is_digit c"
    by (simp add: has_version_suffix_def Let_def)
  then obtain c u where "t = c # u" "is_digit c" by (cases t) auto
  with s t show "\<exists>p c t. s = p @ CHR ''-'' # c # t \<and> is_digit c \<and> CHR ''-'' \<notin> set t" by auto
next
  assume "\<exists>p c t. s = p @ CHR ''-'' # c # t \<and> is_digit c \<and> CHR ''-'' \<notin> set t"
  then obtain p c t where s: "s = p @ CHR ''-'' # c # t" and c: "is_digit c" and "CHR ''-'' \<notin> set t"
    by blast
  then have t: "CHR ''-'' \<notin> set (c # t)" using digit_not_minus [OF c] by auto
  have "last (js_split (CHR ''-'') (q @ CHR ''-'' # c # t)) = c # t" for q
    using js_split_no_sep [OF t] by (simp only: js_split_append) simp
  then show "has_version_suffix s"
    using c by (simp add: s has_version_suffix_def js_split_length Let_def)
qed

section \<open>Packages of a target\<close>

definition LATEST_PACKAGE_VALUE :: js_string where
  "LATEST_PACKAGE_VALUE = ''latest''"

definition truthy_num :: "js_num option \<Rightarrow> bool" where
  "truthy_num v \<longleftrightarrow> v \<noteq> None \<and> v \<noteq> Some (num_of_int 0) \<and> v \<noteq> Some NaN"

definition targetPackageValue :: "(js_num \<Rightarrow> js_string) \<Rightarrow> package_selector \<Rightarrow> js_string" where
  "targetPackageValue platform selector =
     (if ps_strategy selector = ''specific'' \<and> truthy_num (ps_package_id selector)
      then num_text platform (the (ps_package_id selector))
      else LATEST_PACKAGE_VALUE)"

definition targetPackageFromValue :: "js_string \<Rightarrow> package_selector" where
  "targetPackageFromValue value =
     (if value = LATEST_PACKAGE_VALUE then \<lparr>ps_strategy = ''latest'', ps_package_id = None\<rparr>
      else \<lparr>ps_strategy = ''specific'', ps_package_id = Some (js_number value)\<rparr>)"

definition selector_issues :: "package_selector \<Rightarrow> issue list" where
  "selector_issues selector =
     issue_if (ps_strategy selector \<notin> set MUNKI_PACKAGE_STRATEGY_VALUES) ''package.strategy'' ''Invalid option'' @
     (case ps_package_id selector of
        None \<Rightarrow> []
      | Some n \<Rightarrow>
          issue_if (\<not> is_safe_integer n) ''package.package_id'' ''Package selection is invalid.'' @
          issue_if (\<not> num_of_int 0 < n) ''package.package_id'' ''Package is required.'')"

definition validateTarget :: "munki_target_row \<Rightarrow> issue list" where
  "validateTarget value =
     issue_if (ps_strategy (mt_package value) = ''latest'' \<and> ps_package_id (mt_package value) \<noteq> None)
       ''package'' ''Latest must not pin a package.'' @
     issue_if (ps_strategy (mt_package value) = ''specific'' \<and> \<not> truthy_num (ps_package_id (mt_package value)))
       ''package'' ''Package is required.''"

definition munki_target_issues :: "munki_target_row \<Rightarrow> issue list" where
  "munki_target_issues row =
     issue_if (mt_id row \<le> 0) ''id'' ''Too small'' @
     issue_if (mt_priority row \<le> 0) ''priority'' ''Priority starts at 1.'' @
     (case mt_label_id row of
        None \<Rightarrow> issue_if True ''label_id'' ''Pick a label.''
      | Some l \<Rightarrow> issue_if (l \<le> 0) ''label_id'' ''Pick a label.'') @
     selector_issues (mt_package row) @
     issue_if (\<not> set (mt_actions row) \<subseteq> set MUNKI_SOFTWARE_ACTION_VALUES) ''actions'' ''Invalid option'' @
     issue_if (mt_actions row = []) ''actions'' ''Pick at least one action.'' @
     validateTarget row"

text \<open>A selector is the latest package, or one package.\<close>

definition selector_ok :: "package_selector \<Rightarrow> bool" where
  "selector_ok p \<longleftrightarrow>
     p = \<lparr>ps_strategy = ''latest'', ps_package_id = None\<rparr> \<or>
     (\<exists>n. p = \<lparr>ps_strategy = ''specific'', ps_package_id = Some (num_of_int n)\<rparr> \<and> 0 < n \<and> n \<le> max_safe_integer)"

definition munki_target_ok :: "munki_target_row \<Rightarrow> bool" where
  "munki_target_ok row \<longleftrightarrow>
     0 < mt_id row \<and> 0 < mt_priority row \<and> (\<exists>l. mt_label_id row = Some l \<and> 0 < l) \<and>
     selector_ok (mt_package row) \<and>
     mt_actions row \<noteq> [] \<and> set (mt_actions row) \<subseteq> set MUNKI_SOFTWARE_ACTION_VALUES"

lemma truthy_num_of_int [simp]: "truthy_num (Some (num_of_int n)) \<longleftrightarrow> n \<noteq> 0"
  by (simp add: truthy_num_def)

lemma selector_ok_iff:
  "selector_ok p \<longleftrightarrow> selector_issues p = [] \<and>
     \<not> (ps_strategy p = ''latest'' \<and> ps_package_id p \<noteq> None) \<and>
     \<not> (ps_strategy p = ''specific'' \<and> \<not> truthy_num (ps_package_id p))"
proof (cases p)
  case (fields strategy package)
  have safe: "is_safe_integer x \<and> num_of_int 0 < x \<longleftrightarrow> (\<exists>n. x = num_of_int n \<and> 0 < n \<and> n \<le> max_safe_integer)" for x
    by (auto simp: is_safe_integer_of_int elim!: is_safe_integerE)
  show ?thesis
    using safe [of "the package"]
    by (cases package)
      (auto simp: fields selector_ok_def selector_issues_def MUNKI_PACKAGE_STRATEGY_VALUES_def issue_simps
        truthy_num_def)
qed

lemma munki_target_issues_empty: "munki_target_issues row = [] \<longleftrightarrow> munki_target_ok row"
  unfolding munki_target_ok_def selector_ok_iff
  by (auto simp: munki_target_issues_def validateTarget_def issue_simps not_le split: option.splits)

lemma latest_no_number: "js_number LATEST_PACKAGE_VALUE = NaN"
  by code_simp

lemma selector_text_roundtrip:
  assumes "selector_ok p"
  shows "targetPackageFromValue (targetPackageValue platform p) = p"
  using assms unfolding selector_ok_def
proof
  assume "p = \<lparr>ps_strategy = ''latest'', ps_package_id = None\<rparr>"
  then show ?thesis by (simp add: targetPackageFromValue_def targetPackageValue_def)
next
  assume "\<exists>n. p = \<lparr>ps_strategy = ''specific'', ps_package_id = Some (num_of_int n)\<rparr> \<and> 0 < n \<and> n \<le> max_safe_integer"
  then obtain n where p: "p = \<lparr>ps_strategy = ''specific'', ps_package_id = Some (num_of_int n)\<rparr>"
    and n: "0 < n" "n \<le> max_safe_integer" by auto
  have shown: "targetPackageValue platform p = show_int n"
    using n by (simp add: p targetPackageValue_def num_text_def max_safe_integer_def)
  have number: "js_number (show_int n) = num_of_int n" using n by (intro js_number_show_int) simp
  then have "show_int n \<noteq> LATEST_PACKAGE_VALUE" using latest_no_number by force
  then show ?thesis unfolding shown by (simp add: targetPackageFromValue_def number p)
qed

section \<open>Actions\<close>

definition action_shown :: "js_string list \<Rightarrow> js_string \<Rightarrow> bool" where
  "action_shown value action \<longleftrightarrow>
     action \<in> set MUNKI_ASSIGNMENT_ACTION_VALUES \<or>
     (''optional_installs'' \<in> set value \<and> action \<in> set MUNKI_OPTIONAL_PRESENTATION_ACTION_VALUES)"

definition action_disabled :: "js_string list \<Rightarrow> js_string \<Rightarrow> bool" where
  "action_disabled value action \<longleftrightarrow>
     (let selectedAssignmentActions = filter (\<lambda>a. a \<in> set value) MUNKI_ASSIGNMENT_ACTION_VALUES;
          hasExclusiveAction = list_ex (\<lambda>a. a \<in> set value) MUNKI_EXCLUSIVE_ACTION_VALUES
      in action \<in> set MUNKI_ASSIGNMENT_ACTION_VALUES \<and> action \<notin> set value \<and>
         (hasExclusiveAction \<or>
          (action \<in> set MUNKI_EXCLUSIVE_ACTION_VALUES \<and> selectedAssignmentActions \<noteq> [])))"

definition updateAction :: "js_string list \<Rightarrow> js_string \<Rightarrow> bool \<Rightarrow> js_string list" where
  "updateAction value action checked =
     (let next = (if checked then insert action (set value)
                  else set value - {action} -
                    (if action = ''optional_installs''
                     then set MUNKI_OPTIONAL_PRESENTATION_ACTION_VALUES else {}))
      in filter (\<lambda>candidate. candidate \<in> next) MUNKI_SOFTWARE_ACTION_VALUES)"

text \<open>A click on the checkbox of an action.\<close>

definition click_action :: "js_string list \<Rightarrow> js_string \<Rightarrow> js_string list" where
  "click_action value action =
     (if action_shown value action \<and> \<not> action_disabled value action
      then updateAction value action (action \<notin> set value) else value)"

text \<open>No exclusive action beside another assignment; presentations only of an optional install.\<close>

definition actions_agree :: "js_string list \<Rightarrow> bool" where
  "actions_agree value \<longleftrightarrow>
     (\<forall>a \<in> set MUNKI_EXCLUSIVE_ACTION_VALUES. a \<in> set value \<longrightarrow>
        (\<forall>b \<in> set MUNKI_ASSIGNMENT_ACTION_VALUES. b \<in> set value \<longrightarrow> b = a)) \<and>
     (\<forall>a \<in> set MUNKI_OPTIONAL_PRESENTATION_ACTION_VALUES. a \<in> set value \<longrightarrow> ''optional_installs'' \<in> set value)"

lemmas action_values =
  MUNKI_SOFTWARE_ACTION_VALUES_def MUNKI_ASSIGNMENT_ACTION_VALUES_def MUNKI_EXCLUSIVE_ACTION_VALUES_def
  MUNKI_OPTIONAL_PRESENTATION_ACTION_VALUES_def

lemma shown_actions:
  "action_shown value action \<Longrightarrow> action \<in> set MUNKI_SOFTWARE_ACTION_VALUES"
  by (auto simp: action_shown_def action_values)

lemma set_updateAction:
  "action \<in> set MUNKI_SOFTWARE_ACTION_VALUES \<Longrightarrow>
   set (updateAction value action checked) =
     (set value \<inter> set MUNKI_SOFTWARE_ACTION_VALUES) \<union> (if checked then {action} else {}) -
     (if checked then {} else {action} \<union>
       (if action = ''optional_installs'' then set MUNKI_OPTIONAL_PRESENTATION_ACTION_VALUES else {}))"
  by (auto simp: updateAction_def Let_def)

lemma click_action_within:
  "set value \<subseteq> set MUNKI_SOFTWARE_ACTION_VALUES \<Longrightarrow> set (click_action value action) \<subseteq> set MUNKI_SOFTWARE_ACTION_VALUES"
  by (auto simp: click_action_def updateAction_def Let_def)

lemma in_updateAction:
  "b \<in> set (updateAction value action checked) \<longleftrightarrow>
     b \<in> set MUNKI_SOFTWARE_ACTION_VALUES \<and>
     (if checked then b = action \<or> b \<in> set value
      else b \<in> set value \<and> b \<noteq> action \<and>
        (action = ''optional_installs'' \<longrightarrow> b \<notin> set MUNKI_OPTIONAL_PRESENTATION_ACTION_VALUES))"
  by (auto simp: updateAction_def Let_def)

lemma sorted_actions:
  "set MUNKI_EXCLUSIVE_ACTION_VALUES \<subseteq> set MUNKI_ASSIGNMENT_ACTION_VALUES"
  "set MUNKI_ASSIGNMENT_ACTION_VALUES \<inter> set MUNKI_OPTIONAL_PRESENTATION_ACTION_VALUES = {}"
  "set MUNKI_ASSIGNMENT_ACTION_VALUES \<union> set MUNKI_OPTIONAL_PRESENTATION_ACTION_VALUES =
    set MUNKI_SOFTWARE_ACTION_VALUES"
  "''optional_installs'' \<in> set MUNKI_ASSIGNMENT_ACTION_VALUES"
  by (auto simp: action_values)

text \<open>Checking a box that is not disabled, and unchecking one, over any sets of actions.\<close>

lemma agree_check:
  assumes "\<forall>a \<in> E. a \<in> V \<longrightarrow> (\<forall>b \<in> A. b \<in> V \<longrightarrow> b = a)" and "\<forall>a \<in> P. a \<in> V \<longrightarrow> p \<in> V"
    and "x \<in> A \<or> (p \<in> V \<and> x \<in> P)" and "\<not> (x \<in> A \<and> ((\<exists>e \<in> E. e \<in> V) \<or> (x \<in> E \<and> (\<exists>b \<in> A. b \<in> V))))"
    and "A \<inter> P = {}" and "E \<subseteq> A"
  shows "(\<forall>a \<in> E. a = x \<or> a \<in> V \<longrightarrow> (\<forall>b \<in> A. b = x \<or> b \<in> V \<longrightarrow> b = a)) \<and>
    (\<forall>a \<in> P. a = x \<or> a \<in> V \<longrightarrow> p = x \<or> p \<in> V)"
  using assms by blast

lemma click_action_agrees:
  assumes agree: "actions_agree value"
  shows "actions_agree (click_action value action)"
proof (cases "action_shown value action \<and> \<not> action_disabled value action")
  case True
  then have action: "action \<in> set MUNKI_SOFTWARE_ACTION_VALUES" using shown_actions by blast
  have all: "a \<in> set MUNKI_SOFTWARE_ACTION_VALUES"
    if "a \<in> set MUNKI_EXCLUSIVE_ACTION_VALUES \<or> a \<in> set MUNKI_ASSIGNMENT_ACTION_VALUES
      \<or> a \<in> set MUNKI_OPTIONAL_PRESENTATION_ACTION_VALUES \<or> a = ''optional_installs''" for a
    using that sorted_actions by blast
  show ?thesis
  proof (cases "action \<in> set value")
    case True
    have "actions_agree (updateAction value action False)"
      using agree all sorted_actions(2,4) unfolding actions_agree_def in_updateAction by auto
    with True agree show ?thesis by (simp add: click_action_def)
  next
    case False
    from True False have enabled: "\<not> (action \<in> set MUNKI_ASSIGNMENT_ACTION_VALUES \<and>
        ((\<exists>e \<in> set MUNKI_EXCLUSIVE_ACTION_VALUES. e \<in> set value) \<or>
          (action \<in> set MUNKI_EXCLUSIVE_ACTION_VALUES \<and> (\<exists>b \<in> set MUNKI_ASSIGNMENT_ACTION_VALUES. b \<in> set value))))"
      by (auto simp: action_disabled_def Let_def list_ex_iff filter_empty_conv)
    have "actions_agree (updateAction value action True)"
      using agree_check [OF _ _ _ enabled sorted_actions(2,1), of "''optional_installs''"] agree True all
      unfolding actions_agree_def in_updateAction action_shown_def by auto
    with False True show ?thesis by (simp add: click_action_def)
  qed
next
  case False
  with assms show ?thesis by (auto simp: click_action_def)
qed

section \<open>The include list\<close>

definition nextTargetID :: "munki_target_row list \<Rightarrow> int" where
  "nextTargetID rows = foldl (\<lambda>m row. max m (mt_id row)) 0 rows + 1"

definition requiredTarget :: "munki_target_row list \<Rightarrow> int \<Rightarrow> thrown + munki_target_row" where
  "requiredTarget rows i =
     (case List.find (\<lambda>row. mt_id row = i) rows of
        None \<Rightarrow> Inl (NativeError ''The selected Munki include no longer exists'')
      | Some target \<Rightarrow> Inr target)"

definition save_target :: "dialog_mode \<Rightarrow> munki_target_row \<Rightarrow> munki_target_row list \<Rightarrow> munki_target_row list" where
  "save_target mode target rows =
     (case mode of
        DialogAdd \<Rightarrow> rows @ [target]
      | DialogEdit _ \<Rightarrow> map (\<lambda>row. if mt_id row = mt_id target then target else row) rows)"

definition remove_target :: "int \<Rightarrow> munki_target_row list \<Rightarrow> munki_target_row list" where
  "remove_target i rows = filter (\<lambda>item. mt_id item \<noteq> i) rows"

interpretation munki_rows:
  include_rows mt_id mt_label_id nextTargetID requiredTarget save_target remove_target
proof
  show "mt_id r < nextTargetID rows" if "r \<in> set rows" for r rows
    using fold_max_bounds(2) [of r rows mt_id 0] that by (simp add: nextTargetID_def)
  show "0 < nextTargetID rows" for rows
    using fold_max_bounds(1) [of 0 mt_id rows] by (simp add: nextTargetID_def)
qed (simp_all add: requiredTarget_def save_target_def remove_target_def find_by_id)

text \<open>\<open>changeTargets\<close> of the edit page numbers the rows; so does the end of a drag.\<close>

definition numberTargetRows :: "munki_target_row list \<Rightarrow> munki_target_row list" where
  "numberTargetRows rows = map (\<lambda>(index, row). row\<lparr>mt_priority := int index + 1\<rparr>) (enumerate 0 rows)"

lemma numbered_length [simp]: "length (numberTargetRows rows) = length rows"
  by (simp add: numberTargetRows_def)

lemma numbered_fields:
  "map mt_id (numberTargetRows rows) = map mt_id rows"
  "map mt_label_id (numberTargetRows rows) = map mt_label_id rows"
  unfolding numberTargetRows_def by (rule map_enumerate_same, simp)+

lemma numbered_priorities:
  "map mt_priority (numberTargetRows rows) = map (\<lambda>i. int i + 1) [0..<length rows]"
  by (rule nth_equalityI) (simp_all add: numberTargetRows_def nth_enumerate_eq)

lemma numbered_again: "numberTargetRows (numberTargetRows rows) = numberTargetRows rows"
  by (rule nth_equalityI) (simp_all add: numberTargetRows_def nth_enumerate_eq)

lemma set_numbered:
  "row' \<in> set (numberTargetRows rows) \<Longrightarrow> \<exists>row \<in> set rows. \<exists>p > 0. row' = row\<lparr>mt_priority := p\<rparr>"
proof -
  assume "row' \<in> set (numberTargetRows rows)"
  then obtain i row where "row \<in> set rows" "row' = row\<lparr>mt_priority := int i + 1\<rparr>"
    by (auto simp: numberTargetRows_def dest!: set_enumerated)
  then show ?thesis by (intro bexI exI [where x = "int i + 1"]) simp_all
qed

text \<open>The dialog holds its mode and the values of its form.\<close>

record munki_targets =
  mts_include :: "munki_target_row list"
  mts_exclude :: assignment
  mts_dialog :: "(dialog_mode \<times> munki_target_row) option"

datatype munki_target_event =
    MunkiAdd | MunkiEdit munki_target_row | MunkiLabel "int option" | MunkiPackage js_string
  | MunkiAction js_string | MunkiSave | MunkiCancel | MunkiRemove munki_target_row | MunkiMove nat nat
  | MunkiExclude assign_event

definition new_target :: "munki_target_row list \<Rightarrow> munki_target_row" where
  "new_target rows =
     \<lparr>mt_id = nextTargetID rows, mt_priority = int (length rows) + 1, mt_label_id = None,
      mt_package = \<lparr>ps_strategy = ''latest'', ps_package_id = None\<rparr>, mt_actions = []\<rparr>"

definition target_dialog :: "munki_target_row list \<Rightarrow> dialog_mode \<Rightarrow> thrown + munki_target_row" where
  "target_dialog rows mode =
     (case mode of DialogAdd \<Rightarrow> Inr (new_target rows) | DialogEdit i \<Rightarrow> requiredTarget rows i)"

definition munki_idle :: "munki_targets \<Rightarrow> bool" where
  "munki_idle s \<longleftrightarrow> mts_dialog s = None \<and> as_adding (mts_exclude s) = None"

definition usedLabelIDs :: "munki_target_row list \<Rightarrow> int list" where
  "usedLabelIDs rows = concat (map (\<lambda>row. case mt_label_id row of None \<Rightarrow> [] | Some l \<Rightarrow> [l]) rows)"

definition open_target_dialog :: "dialog_mode \<Rightarrow> munki_targets \<Rightarrow> thrown + munki_targets" where
  "open_target_dialog mode s =
     (case target_dialog (mts_include s) mode of
        Inl e \<Rightarrow> Inl e
      | Inr initial \<Rightarrow> Inr (s\<lparr>mts_dialog := Some (mode, initial)\<rparr>))"

text \<open>
  A change of the dialog's values: a label when a row is added, a package of the select, a click on
  an action.
\<close>

definition munki_draft ::
    "label_choice list \<Rightarrow> js_string list \<Rightarrow> munki_targets \<Rightarrow> munki_target_event \<Rightarrow> dialog_mode \<Rightarrow>
     munki_target_row \<Rightarrow> munki_target_row" where
  "munki_draft labels packages s e mode draft =
     (case e of
        MunkiLabel choice \<Rightarrow>
          (if mode = DialogAdd
           then draft\<lparr>mt_label_id :=
             pick_label True (usedLabelIDs (mts_include s) @ as_labels (mts_exclude s)) labels
               (mt_label_id draft) choice\<rparr>
           else draft)
      | MunkiPackage option_value \<Rightarrow>
          (if option_value \<in> set (LATEST_PACKAGE_VALUE # packages)
           then draft\<lparr>mt_package := targetPackageFromValue option_value\<rparr> else draft)
      | MunkiAction action \<Rightarrow> draft\<lparr>mt_actions := click_action (mt_actions draft) action\<rparr>
      | _ \<Rightarrow> draft)"

definition changeTargets :: "munki_target_row list \<Rightarrow> munki_targets \<Rightarrow> munki_targets" where
  "changeTargets next s = s\<lparr>mts_include := numberTargetRows next\<rparr>"

definition munki_save :: "dialog_mode \<Rightarrow> munki_target_row \<Rightarrow> munki_targets \<Rightarrow> munki_targets" where
  "munki_save mode draft s =
     (if munki_target_issues draft = []
      then changeTargets (save_target mode draft (mts_include s)) (s\<lparr>mts_dialog := None\<rparr>)
      else s)"

text \<open>\<open>arrayMove\<close> of the drag library is a parameter; so are the labels and the packages offered.\<close>

type_synonym array_move = "munki_target_row list \<Rightarrow> nat \<Rightarrow> nat \<Rightarrow> munki_target_row list"

fun munki_target_step ::
    "label_choice list \<Rightarrow> js_string list \<Rightarrow> array_move \<Rightarrow> munki_targets \<Rightarrow> munki_target_event \<Rightarrow>
     thrown + munki_targets" where
  "munki_target_step labels packages arrayMove s MunkiAdd =
     (if munki_idle s then open_target_dialog DialogAdd s else Inr s)"
| "munki_target_step labels packages arrayMove s (MunkiEdit row) =
     (if munki_idle s \<and> row \<in> set (mts_include s) then open_target_dialog (DialogEdit (mt_id row)) s
      else Inr s)"
| "munki_target_step labels packages arrayMove s (MunkiRemove row) =
     Inr (if munki_idle s \<and> row \<in> set (mts_include s)
          then changeTargets (remove_target (mt_id row) (mts_include s)) s else s)"
| "munki_target_step labels packages arrayMove s (MunkiMove from to) =
     Inr (if munki_idle s \<and> 1 < length (mts_include s) \<and> from \<noteq> to
          then changeTargets (numberTargetRows (arrayMove (mts_include s) from to)) s else s)"
| "munki_target_step labels packages arrayMove s MunkiCancel = Inr (s\<lparr>mts_dialog := None\<rparr>)"
| "munki_target_step labels packages arrayMove s MunkiSave =
     Inr (case mts_dialog s of None \<Rightarrow> s | Some (mode, draft) \<Rightarrow> munki_save mode draft s)"
| "munki_target_step labels packages arrayMove s (MunkiExclude e) =
     Inr (if mts_dialog s = None
          then s\<lparr>mts_exclude :=
                 assignment_step False labels (usedLabelIDs (mts_include s)) (mts_exclude s) e\<rparr>
          else s)"
| "munki_target_step labels packages arrayMove s e =
     Inr (case mts_dialog s of
            None \<Rightarrow> s
          | Some (mode, draft) \<Rightarrow>
              s\<lparr>mts_dialog := Some (mode, munki_draft labels packages s e mode draft)\<rparr>)"

definition munki_targets_ok :: "munki_targets \<Rightarrow> bool" where
  "munki_targets_ok s \<longleftrightarrow>
     rows_ok mt_id mt_label_id (mts_include s) (as_labels (mts_exclude s)) \<and>
     assignment_ok (usedLabelIDs (mts_include s)) (mts_exclude s) \<and>
     (\<forall>row \<in> set (mts_include s). munki_target_ok row \<and> actions_agree (mt_actions row)) \<and>
     map mt_priority (mts_include s) = map (\<lambda>i. int i + 1) [0..<length (mts_include s)] \<and>
     (mts_dialog s = None \<or> as_adding (mts_exclude s) = None) \<and>
     (\<forall>mode draft. mts_dialog s = Some (mode, draft) \<longrightarrow>
        draft_fits mt_id mt_label_id nextTargetID (mts_include s) (as_labels (mts_exclude s)) mode draft \<and>
        actions_agree (mt_actions draft))"

lemma used_labels: "usedLabelIDs rows = row_labels mt_label_id rows"
  by (simp add: usedLabelIDs_def row_labels_def)

lemma actions_agree_Nil [simp]: "actions_agree []"
  by (simp add: actions_agree_def)

text \<open>Numbering rows that fit keeps the invariant.\<close>

lemma munki_change_ok:
  assumes rows: "rows_ok mt_id mt_label_id rows (as_labels (mts_exclude s))"
    and valid: "\<forall>row \<in> set rows. munki_target_ok row \<and> actions_agree (mt_actions row)"
    and exclude: "\<forall>l \<in> set (as_labels (mts_exclude s)). 0 < l"
    and idle: "munki_idle s"
  shows "munki_targets_ok (changeTargets rows s)"
proof -
  have rows': "rows_ok mt_id mt_label_id (numberTargetRows rows) (as_labels (mts_exclude s))"
    by (rule munki_rows.kept [OF rows]) (simp_all add: numbered_fields)
  have "munki_target_ok row' \<and> actions_agree (mt_actions row')" if "row' \<in> set (numberTargetRows rows)" for row'
    using set_numbered [OF that] valid by (fastforce simp: munki_target_ok_def)
  then show ?thesis
    using rows' idle idle_exclude_ok [OF rows' exclude]
    by (simp add: munki_targets_ok_def changeTargets_def munki_idle_def used_labels numbered_priorities)
qed

lemma munki_ok_parts:
  assumes "munki_targets_ok s"
  shows "rows_ok mt_id mt_label_id (mts_include s) (as_labels (mts_exclude s))"
    and "\<forall>row \<in> set (mts_include s). munki_target_ok row \<and> actions_agree (mt_actions row)"
    and "\<forall>l \<in> set (as_labels (mts_exclude s)). 0 < l"
  using assms by (simp_all add: munki_targets_ok_def assignment_ok_def)

lemma munki_open_ok:
  assumes ok: "munki_targets_ok s" and idle: "munki_idle s"
    and mode: "mode = DialogAdd \<or> (\<exists>row \<in> set (mts_include s). mode = DialogEdit (mt_id row))"
  shows "\<exists>s'. open_target_dialog mode s = Inr s' \<and> munki_targets_ok s'"
  using mode
proof
  assume "mode = DialogAdd"
  with ok idle show ?thesis
    by (simp add: open_target_dialog_def target_dialog_def munki_targets_ok_def munki_idle_def
        draft_fits_def new_target_def)
next
  assume "\<exists>row \<in> set (mts_include s). mode = DialogEdit (mt_id row)"
  then obtain row where row: "row \<in> set (mts_include s)" "mode = DialogEdit (mt_id row)" by auto
  have "requiredTarget (mts_include s) (mt_id row) = Inr row"
    using munki_rows.opened munki_ok_parts(1) [OF ok] row(1) by blast
  with ok idle row show ?thesis
    by (auto simp: open_target_dialog_def target_dialog_def munki_targets_ok_def munki_idle_def
        draft_fits_def)
qed

lemma munki_draft_ok:
  assumes "munki_targets_ok s" and "mts_dialog s = Some (mode, draft)"
  shows "munki_targets_ok (s\<lparr>mts_dialog := Some (mode, munki_draft labels packages s e mode draft)\<rparr>)"
proof -
  from assms have fits: "draft_fits mt_id mt_label_id nextTargetID (mts_include s)
      (as_labels (mts_exclude s)) mode draft" and agree: "actions_agree (mt_actions draft)"
    by (auto simp: munki_targets_ok_def)
  have "draft_fits mt_id mt_label_id nextTargetID (mts_include s) (as_labels (mts_exclude s)) mode
      (munki_draft labels packages s e mode draft)"
  proof (cases "\<exists>choice. e = MunkiLabel choice \<and> mode = DialogAdd")
    case True
    then obtain choice where e: "e = MunkiLabel choice" and mode: "mode = DialogAdd" by auto
    let ?used = "usedLabelIDs (mts_include s) @ as_labels (mts_exclude s)"
    have "l \<notin> set ?used" if "pick_label True ?used labels (mt_label_id draft) choice = Some l" for l
      using fits mode that pick_label_free [of "mt_label_id draft" ?used]
      by (simp add: draft_fits_def used_labels set_row_labels)
    with fits show ?thesis
      by (auto simp: e mode munki_draft_def draft_fits_def used_labels set_row_labels)
  next
    case False
    with fits show ?thesis
      by (auto simp: munki_draft_def draft_fits_def split: munki_target_event.splits dialog_mode.splits)
  qed
  moreover have "actions_agree (mt_actions (munki_draft labels packages s e mode draft))"
    using agree click_action_agrees [OF agree]
    by (simp add: munki_draft_def split: munki_target_event.splits)
  ultimately show ?thesis using assms by (simp add: munki_targets_ok_def)
qed

lemma munki_save_ok:
  assumes ok: "munki_targets_ok s" and dialog: "mts_dialog s = Some (mode, draft)"
  shows "munki_targets_ok (munki_save mode draft s)"
proof (cases "munki_target_issues draft = []")
  case True
  then obtain l where l: "mt_label_id draft = Some l" "0 < l" and valid: "munki_target_ok draft"
    by (auto simp: munki_target_issues_empty munki_target_ok_def)
  have fits: "draft_fits mt_id mt_label_id nextTargetID (mts_include s) (as_labels (mts_exclude s)) mode draft"
    and agree: "actions_agree (mt_actions draft)" and idle: "as_adding (mts_exclude s) = None"
    using ok dialog by (auto simp: munki_targets_ok_def)
  let ?s = "s\<lparr>mts_dialog := None\<rparr>"
  have "munki_targets_ok (changeTargets (save_target mode draft (mts_include s)) ?s)"
  proof (rule munki_change_ok)
    show "rows_ok mt_id mt_label_id (save_target mode draft (mts_include s)) (as_labels (mts_exclude ?s))"
      using munki_rows.draft_saved [OF munki_ok_parts(1) [OF ok] fits _ _ l] by simp
    show "\<forall>row \<in> set (save_target mode draft (mts_include s)). munki_target_ok row \<and> actions_agree (mt_actions row)"
      using munki_rows.saved_rows [of _ mode draft "mts_include s"] valid agree munki_ok_parts(2) [OF ok]
      by blast
  qed (use munki_ok_parts(3) [OF ok] idle in \<open>simp_all add: munki_idle_def\<close>)
  with True show ?thesis by (simp add: munki_save_def)
next
  case False
  with ok show ?thesis by (simp add: munki_save_def)
qed

lemma munki_remove_ok:
  assumes ok: "munki_targets_ok s" and idle: "munki_idle s"
  shows "munki_targets_ok (changeTargets (remove_target i (mts_include s)) s)"
  using munki_rows.removed [OF munki_ok_parts(1) [OF ok]] munki_ok_parts(2,3) [OF ok]
    munki_rows.removed_rows [of i "mts_include s"] idle
  by (intro munki_change_ok) auto

lemma munki_move_ok:
  assumes ok: "munki_targets_ok s" and idle: "munki_idle s"
    and moves: "\<And>rows i j. mset (arrayMove rows i j) = mset rows"
  shows "munki_targets_ok (changeTargets (numberTargetRows (arrayMove (mts_include s) i j)) s)"
proof -
  have "changeTargets (numberTargetRows rows) s = changeTargets rows s" for rows
    by (simp add: changeTargets_def numbered_again)
  moreover have "munki_targets_ok (changeTargets (arrayMove (mts_include s) i j) s)"
    using munki_rows.permuted [OF munki_ok_parts(1) [OF ok] moves] munki_ok_parts(2,3) [OF ok] idle
      mset_eq_setD [OF moves [of "mts_include s" i j]]
    by (intro munki_change_ok) simp_all
  ultimately show ?thesis by simp
qed

lemma munki_exclude_ok:
  assumes ok: "munki_targets_ok s" and "mts_dialog s = None"
  shows "munki_targets_ok (s\<lparr>mts_exclude :=
    assignment_step False labels (usedLabelIDs (mts_include s)) (mts_exclude s) e\<rparr>)"
  using munki_rows.exclude_step_ok [of "mts_include s" "mts_exclude s" False labels e] assms
  by (simp add: munki_targets_ok_def used_labels)

lemma munki_step_ok:
  assumes "munki_targets_ok s" and "\<And>rows i j. mset (arrayMove rows i j) = mset rows"
  shows "\<exists>s'. munki_target_step labels packages arrayMove s e = Inr s' \<and> munki_targets_ok s'"
proof -
  have cancel: "munki_targets_ok (s\<lparr>mts_dialog := None\<rparr>)"
    using assms by (simp add: munki_targets_ok_def)
  show ?thesis
    using assms(1) cancel munki_open_ok [OF assms(1)] munki_draft_ok [OF assms(1)]
      munki_save_ok [OF assms(1)] munki_remove_ok [OF assms(1)] munki_exclude_ok [OF assms(1)]
      munki_move_ok [OF assms(1) _ assms(2)]
    by (cases e) (auto split: option.splits)
qed

lemma munki_run_ok:
  assumes "munki_targets_ok s" and "\<And>rows i j. mset (arrayMove rows i j) = mset rows"
  shows "\<exists>s'. run_steps (munki_target_step labels packages arrayMove) s es = Inr s' \<and> munki_targets_ok s'"
  using assms(1) by (intro run_steps_inv [where I = munki_targets_ok] munki_step_ok [OF _ assms(2)])

text \<open>A move of a row to another place, as the drag library makes it.\<close>

definition moved_row :: array_move where
  "moved_row rows from to =
     (if from < length rows
      then (let others = take from rows @ drop (Suc from) rows in take to others @ rows ! from # drop to others)
      else rows)"

lemma mset_insert_at: "mset (take to xs @ r # drop to xs) = add_mset r (mset xs)"
  by (metis append_take_drop_id mset.simps(2) mset_append union_mset_add_mset_right)

lemma mset_moved_row: "mset (moved_row rows from to) = mset rows"
proof (cases "from < length rows")
  case True
  have "mset (moved_row rows from to) = add_mset (rows ! from) (mset (take from rows @ drop (Suc from) rows))"
    using True by (simp only: moved_row_def Let_def if_True mset_insert_at)
  also have "\<dots> = mset (take from rows @ rows ! from # drop (Suc from) rows)" by simp
  finally show ?thesis using True by (simp only: id_take_nth_drop [symmetric])
qed (simp add: moved_row_def)

section \<open>The form\<close>

definition emptyMunkiSoftwareForm :: munki_software_form where
  "emptyMunkiSoftwareForm =
     \<lparr>msf_name = [], msf_display_name = [], msf_description = [], msf_category = [], msf_developer = [],
      msf_icon = IconNone, msf_include = [], msf_exclude = []\<rparr>"

definition stored_icon :: "int option \<Rightarrow> js_string option \<Rightarrow> js_string option \<Rightarrow> icon_value" where
  "stored_icon object_id icon_file icon_url =
     (case (object_id, icon_file, icon_url) of
        (Some i, Some filename, Some url) \<Rightarrow>
          (if i \<noteq> 0 \<and> url \<noteq> [] then IconStored i filename url else IconNone)
      | _ \<Rightarrow> IconNone)"

definition munkiSoftwareFormFromSoftware :: "munki_software_detail \<Rightarrow> munki_software_form" where
  "munkiSoftwareFormFromSoftware title =
     \<lparr>msf_name = msd_name title, msf_display_name = coalesce (msd_display_name title) [],
      msf_description = msd_description title, msf_category = msd_category title,
      msf_developer = msd_developer title,
      msf_icon = stored_icon (msd_icon_object_id title) (msd_icon_file title) (msd_icon_url title),
      msf_include = map (\<lambda>(index, row).
        \<lparr>mt_id = int index + 1, mt_priority = int index + 1, mt_label_id = Some (mi_label_id row),
         mt_package = mi_package row, mt_actions = mi_actions row\<rparr>) (enumerate 0 (msd_include title)),
      msf_exclude = msd_exclude title\<rparr>"

definition icon_issues :: "icon_value \<Rightarrow> issue list" where
  "icon_issues icon =
     (case icon of
        IconNone \<Rightarrow> []
      | IconStored objectID filename url \<Rightarrow>
          issue_if (objectID \<le> 0) ''icon'' ''Too small'' @
          issue_if (filename = []) ''icon'' ''Too small'' @ issue_if (url = []) ''icon'' ''Too small''
      | IconUpload file url \<Rightarrow> issue_if (url = []) ''icon'' ''Too small'')"

definition munkiSoftwareFormSchema :: "munki_software_form \<Rightarrow> issue list" where
  "munkiSoftwareFormSchema form =
     munkiName (msf_name form) @ icon_issues (msf_icon form) @
     concat (map munki_target_issues (msf_include form)) @
     concat (map (\<lambda>ref. issue_if (lr_label_id ref \<le> 0) ''targets.exclude'' ''Pick a label.'')
       (msf_exclude form))"

definition munkiSoftwareInclude :: "munki_target_row \<Rightarrow> munki_include" where
  "munkiSoftwareInclude target =
     \<lparr>mi_label_id = coalesce (mt_label_id target) 0, mi_package = mt_package target,
      mi_actions = mt_actions target\<rparr>"

text \<open>The update of the edit page; \<open>current\<close> is the stored title's icon, which an upload replaces later.\<close>

definition software_update :: "int option \<Rightarrow> munki_software_form \<Rightarrow> munki_update" where
  "software_update current form =
     \<lparr>mum_display_name = js_trim (msf_display_name form), mum_description = js_trim (msf_description form),
      mum_category = js_trim (msf_category form), mum_developer = js_trim (msf_developer form),
      mum_icon_object_id =
        (case msf_icon form of
           IconStored objectID _ _ \<Rightarrow> Some objectID
         | IconUpload _ _ \<Rightarrow> current
         | IconNone \<Rightarrow> None),
      mum_include = map munkiSoftwareInclude (msf_include form), mum_exclude = msf_exclude form\<rparr>"

definition software_create :: "munki_software_form \<Rightarrow> munki_create" where
  "software_create form =
     \<lparr>mum_display_name = js_trim (msf_display_name form), mum_description = js_trim (msf_description form),
      mum_category = js_trim (msf_category form), mum_developer = js_trim (msf_developer form),
      mum_icon_object_id = (case msf_icon form of IconStored objectID _ _ \<Rightarrow> Some objectID | _ \<Rightarrow> None),
      mum_include = map munkiSoftwareInclude (msf_include form), mum_exclude = msf_exclude form,
      mcm_name = js_trim (msf_name form)\<rparr>"

text \<open>
  Submitting the edit page: the update, then the upload of a new icon; either may fail, and the id
  reaches \<open>onSuccess\<close> only after both.  \<open>parse\<close> rejects a name the schema rejects.
\<close>

definition submit_software ::
    "int \<Rightarrow> int option \<Rightarrow> (munki_update \<Rightarrow> thrown + unit) \<Rightarrow> (js_file \<Rightarrow> thrown + unit) \<Rightarrow>
     munki_software_form \<Rightarrow> thrown + int" where
  "submit_software i current update upload value =
     (if munkiName (msf_name value) \<noteq> [] then Inl (NativeError ''ZodError'')
      else (case update (software_update current value) of
         Inl e \<Rightarrow> Inl e
       | Inr _ \<Rightarrow>
           (case msf_icon value of
              IconUpload chosen _ \<Rightarrow> (case upload chosen of Inl e \<Rightarrow> Inl e | Inr _ \<Rightarrow> Inr i)
            | _ \<Rightarrow> Inr i)))"

definition submit_new_software ::
    "(munki_create \<Rightarrow> thrown + int) \<Rightarrow> (int \<Rightarrow> js_file \<Rightarrow> thrown + unit) \<Rightarrow>
     munki_software_form \<Rightarrow> thrown + int" where
  "submit_new_software create upload value =
     (if munkiName (msf_name value) \<noteq> [] then Inl (NativeError ''ZodError'')
      else (case create (software_create value) of
         Inl e \<Rightarrow> Inl e
       | Inr i \<Rightarrow>
           (case msf_icon value of
              IconUpload chosen _ \<Rightarrow> (case upload i chosen of Inl e \<Rightarrow> Inl e | Inr _ \<Rightarrow> Inr i)
            | _ \<Rightarrow> Inr i)))"

subsection \<open>Saving and opening a title\<close>

text \<open>The title stores the update under its name; a stored icon has its file and URL.\<close>

definition software_stores :: "js_string \<Rightarrow> munki_update \<Rightarrow> munki_software_detail \<Rightarrow> bool" where
  "software_stores name m t \<longleftrightarrow>
     msd_name t = name \<and> coalesce (msd_display_name t) [] = mum_display_name m \<and>
     msd_description t = mum_description m \<and> msd_category t = mum_category m \<and>
     msd_developer t = mum_developer m \<and> msd_icon_object_id t = mum_icon_object_id m \<and>
     (mum_icon_object_id m \<noteq> None \<longrightarrow>
        (\<exists>filename url. msd_icon_file t = Some filename \<and> filename \<noteq> [] \<and>
           msd_icon_url t = Some url \<and> url \<noteq> [])) \<and>
     msd_include t = mum_include m \<and> msd_exclude t = mum_exclude m"

definition no_upload :: "icon_value \<Rightarrow> bool" where
  "no_upload icon \<longleftrightarrow> (case icon of IconUpload _ _ \<Rightarrow> False | _ \<Rightarrow> True)"

definition software_form_valid :: "js_string \<Rightarrow> munki_software_form \<Rightarrow> bool" where
  "software_form_valid name form \<longleftrightarrow>
     munkiSoftwareFormSchema form = [] \<and> msf_name form = name \<and> no_upload (msf_icon form)"

definition submit_update :: "munki_software_form \<Rightarrow> thrown + munki_update" where
  "submit_update form = Inr (software_update None form)"

lemma schema_empty:
  "munkiSoftwareFormSchema form = [] \<longleftrightarrow>
     munkiName (msf_name form) = [] \<and> icon_issues (msf_icon form) = [] \<and>
     (\<forall>row \<in> set (msf_include form). munki_target_ok row) \<and>
     (\<forall>ref \<in> set (msf_exclude form). 0 < lr_label_id ref)"
  by (auto simp: munkiSoftwareFormSchema_def munki_target_issues_empty issue_simps)

lemma reopened_includes:
  "map munkiSoftwareInclude (msf_include (munkiSoftwareFormFromSoftware t)) = msd_include t"
  unfolding munkiSoftwareFormFromSoftware_def munki_software_form.simps
  by (rule trans [OF map_enumerate_same [where h = "\<lambda>x. x"]]) (simp_all add: munkiSoftwareInclude_def)

lemma reopened_rows:
  assumes "msd_include t = map munkiSoftwareInclude rows" and "\<forall>row \<in> set rows. munki_target_ok row"
  shows "\<forall>row \<in> set (msf_include (munkiSoftwareFormFromSoftware t)). munki_target_ok row"
  using assms
  by (auto simp: munkiSoftwareFormFromSoftware_def munki_target_ok_def munkiSoftwareInclude_def
      dest!: set_enumerated) fastforce+

interpretation munki_software:
  form_adapter "software_form_valid name" submit_update "software_stores name" munkiSoftwareFormFromSoftware
  for name
proof
  fix f b r
  assume valid: "software_form_valid name f" and b: "submit_update f = Inr b" and r: "software_stores name b r"
  have icon: "stored_icon (msd_icon_object_id r) (msd_icon_file r) (msd_icon_url r) =
      (case msf_icon f of IconStored i _ _ \<Rightarrow> IconStored i (the (msd_icon_file r)) (the (msd_icon_url r))
       | _ \<Rightarrow> IconNone) \<and> icon_issues (stored_icon (msd_icon_object_id r) (msd_icon_file r) (msd_icon_url r)) = []"
    using valid b r
    by (auto simp: software_form_valid_def schema_empty submit_update_def software_update_def
        software_stores_def stored_icon_def icon_issues_def no_upload_def issue_simps split: icon_value.splits)
  show "software_form_valid name (munkiSoftwareFormFromSoftware r)"
    unfolding software_form_valid_def schema_empty
  proof (intro conjI)
    show "\<forall>row \<in> set (msf_include (munkiSoftwareFormFromSoftware r)). munki_target_ok row"
      using valid b r
      by (intro reopened_rows [of r "msf_include f"])
        (auto simp: software_form_valid_def schema_empty submit_update_def software_update_def software_stores_def)
  qed (use valid b r icon in \<open>auto simp: software_form_valid_def schema_empty submit_update_def
      software_update_def software_stores_def munkiSoftwareFormFromSoftware_def no_upload_def
      split: icon_value.splits\<close>)
  fix b'
  assume "submit_update (munkiSoftwareFormFromSoftware r) = Inr b'"
  then have "b' = software_update None (munkiSoftwareFormFromSoftware r)" by (simp add: submit_update_def)
  moreover have "software_update None (munkiSoftwareFormFromSoftware r) = b"
    using valid b r icon reopened_includes [of r]
    by (auto simp: software_form_valid_def submit_update_def software_update_def software_stores_def
        munkiSoftwareFormFromSoftware_def no_upload_def split: icon_value.splits)
  ultimately show "software_stores name b' = software_stores name b" by simp
qed (simp add: submit_update_def)

end
