(* ===== verification/Sse.thy ===== *)
theory Sse
  imports LiveQuery JsNumber "HOL-Library.Sublist"
begin

text \<open>
  The event stream client behind live queries:
  \<open>web/src/lib/api-client/core/serverSentEvents.gen.ts\<close>.

  One chunk of text after another is cut into blocks and lines; a connection that fails is tried
  again after a growing delay.  \<open>JSON.parse\<close>, the optional validator and transformer and the network
  are parameters.  Main results: how the text is cut into chunks does not matter as long as no chunk
  ends between the two characters of a line end; the delays; a limit on attempts ends the loop; what
  a live query shows for a connection.
\<close>

section \<open>Lines and blocks\<close>

abbreviation CR :: char where "CR \<equiv> CHR 0x0D"
abbreviation LF :: char where "LF \<equiv> CHR 0x0A"

text \<open>\<open>buffer.replace(/\r\n?/g, '\n')\<close>.\<close>

fun normalize_eol :: "js_string \<Rightarrow> js_string" where
  "normalize_eol [] = []"
| "normalize_eol [c] = (if c = CR then [LF] else [c])"
| "normalize_eol (c # d # cs) =
     (if c = CR then LF # normalize_eol (if d = LF then cs else d # cs)
      else c # normalize_eol (d # cs))"

text \<open>\<open>buffer.split('\n\n')\<close>.\<close>

fun split_blank :: "js_string \<Rightarrow> js_string list" where
  "split_blank [] = [[]]"
| "split_blank [c] = [[c]]"
| "split_blank (c # d # cs) =
     (if c = LF \<and> d = LF then [] # split_blank cs
      else (case split_blank (d # cs) of [] \<Rightarrow> [[c]] | w # ws \<Rightarrow> (c # w) # ws))"

lemma split_blank_nonempty [simp]: "split_blank s \<noteq> []"
  by (induction s rule: split_blank.induct) (auto split: list.splits)

lemma split_blank_single: "split_blank s = [w] \<Longrightarrow> w = s"
  by (induction s arbitrary: w rule: split_blank.induct) (auto split: list.splits if_splits)

text \<open>Cutting a text: its blocks, then those of the last part followed by the rest.\<close>

lemma split_blank_append:
  "split_blank (a @ b) = butlast (split_blank a) @ split_blank (last (split_blank a) @ b)"
proof (induction a rule: split_blank.induct)
  case (3 c d cs)
  show ?case
  proof (cases "c = LF \<and> d = LF")
    case True
    with 3 show ?thesis by simp
  next
    case False
    obtain w ws where split: "split_blank (d # cs) = w # ws"
      by (metis list.exhaust split_blank_nonempty)
    with 3(2) [OF False] have rest:
      "split_blank (d # cs @ b) = butlast (w # ws) @ split_blank (last (w # ws) @ b)" by simp
    show ?thesis
    proof (cases ws)
      case Nil
      with split have "w = d # cs" using split_blank_single by metis
      with Nil False split show ?thesis by auto
    next
      case (Cons v vs)
      with False split rest show ?thesis by auto
    qed
  qed
qed simp_all

lemma split_blank_last_again: "split_blank (last (split_blank s)) = [last (split_blank s)]"
proof -
  have "split_blank s = butlast (split_blank s) @ split_blank (last (split_blank s))"
    using split_blank_append [of s "[]"] by simp
  then have "length (split_blank (last (split_blank s))) = 1"
    by (metis add_left_cancel append_butlast_last_id length_append length_Cons list.size(3)
        split_blank_nonempty One_nat_def)
  then obtain w where "split_blank (last (split_blank s)) = [w]"
    by (metis One_nat_def length_0_conv length_Suc_conv)
  then show ?thesis using split_blank_single by metis
qed

lemma normalize_eol_no_cr [simp]: "CR \<notin> set (normalize_eol s)"
  by (induction s rule: normalize_eol.induct) auto

lemma normalize_eol_id: "CR \<notin> set s \<Longrightarrow> normalize_eol s = s"
  by (induction s rule: normalize_eol.induct) auto

text \<open>A cut between the two characters of a line end.\<close>

definition cuts_line_end :: "js_string \<Rightarrow> js_string \<Rightarrow> bool" where
  "cuts_line_end a b \<longleftrightarrow> a \<noteq> [] \<and> last a = CR \<and> b \<noteq> [] \<and> hd b = LF"

lemma normalize_eol_append:
  "\<not> cuts_line_end a b \<Longrightarrow> normalize_eol (a @ b) = normalize_eol a @ normalize_eol b"
proof (induction a rule: normalize_eol.induct)
  case (2 c)
  then show ?case by (cases b) (auto simp: cuts_line_end_def)
next
  case (3 c d cs)
  then show ?case by (cases "cs = []") (auto simp: cuts_line_end_def)
qed simp

section \<open>Events\<close>

datatype 'v sse_data = SseJson 'v | SseText js_string

record 'v sse_event =
  sse_data :: "'v sse_data option"
  sse_event :: "js_string option"
  sse_id :: "js_string option"
  sse_retry :: js_num

text \<open>
  The variables of the stream: \<open>lastEventId\<close>, \<open>retryDelay\<close>, the events passed to \<open>onSseEvent\<close> and the
  data yielded.
\<close>

record 'v sse_state =
  ss_last_id :: "js_string option"
  ss_retry_delay :: js_num
  ss_events :: "'v sse_event list"
  ss_yields :: "'v sse_data list"

record sse_lines =
  sl_data :: "js_string list"
  sl_event :: "js_string option"

text \<open>\<open>line.replace(/^prefix:\s*/, '')\<close> for a line with the prefix.\<close>

definition after_prefix :: "js_string \<Rightarrow> js_string \<Rightarrow> js_string" where
  "after_prefix p line = dropWhile is_js_space (drop (length p) line)"

text \<open>\<open>Number.parseInt(text, 10)\<close>.\<close>

definition parse_int :: "js_string \<Rightarrow> js_num" where
  "parse_int v =
     (let s = dropWhile is_js_space v;
          negative = (s \<noteq> [] \<and> hd s = CHR ''-'');
          rest = (if s \<noteq> [] \<and> (hd s = CHR ''-'' \<or> hd s = CHR ''+'') then tl s else s);
          ds = takeWhile is_digit rest
      in if ds = [] then NaN
         else round_double (of_int (if negative then - int (read_digits ds) else int (read_digits ds))))"

definition sse_line :: "js_string \<Rightarrow> sse_lines \<times> 'v sse_state \<Rightarrow> sse_lines \<times> 'v sse_state" where
  "sse_line line b =
     (case b of (l, s) \<Rightarrow>
        if prefix ''data:'' line then (l\<lparr>sl_data := sl_data l @ [after_prefix ''data:'' line]\<rparr>, s)
        else if prefix ''event:'' line then (l\<lparr>sl_event := Some (after_prefix ''event:'' line)\<rparr>, s)
        else if prefix ''id:'' line then (l, s\<lparr>ss_last_id := Some (after_prefix ''id:'' line)\<rparr>)
        else if prefix ''retry:'' line then
          (let parsed = parse_int (after_prefix ''retry:'' line)
           in (l, if parsed = NaN then s else s\<lparr>ss_retry_delay := parsed\<rparr>))
        else (l, s))"

text \<open>\<open>parse\<close> is \<open>JSON.parse\<close>, \<open>check\<close> the validator followed by the transformer.\<close>

definition sse_block ::
    "(js_string \<Rightarrow> 'v option) \<Rightarrow> ('v \<Rightarrow> thrown + 'v) \<Rightarrow> js_string \<Rightarrow> 'v sse_state \<Rightarrow> thrown option \<times> 'v sse_state" where
  "sse_block parse check block s0 =
     (let (l, s) = fold sse_line (js_split LF block) (\<lparr>sl_data = [], sl_event = None\<rparr>, s0);
          emit = (\<lambda>v. s\<lparr>ss_events := ss_events s @
                     [\<lparr>sse_data = v, sse_event = sl_event l, sse_id = ss_last_id s,
                       sse_retry = ss_retry_delay s\<rparr>],
                    ss_yields := ss_yields s @ (case v of None \<Rightarrow> [] | Some d \<Rightarrow> [d])\<rparr>)
      in if sl_data l = [] then (None, emit None)
         else (let raw = js_join [LF] (sl_data l)
               in case parse raw of
                    None \<Rightarrow> (None, emit (Some (SseText raw)))
                  | Some v \<Rightarrow> (case check v of
                                 Inl e \<Rightarrow> (Some e, s)
                               | Inr v' \<Rightarrow> (None, emit (Some (SseJson v'))))))"

fun sse_blocks ::
    "(js_string \<Rightarrow> 'v option) \<Rightarrow> ('v \<Rightarrow> thrown + 'v) \<Rightarrow> js_string list \<Rightarrow> 'v sse_state \<Rightarrow> thrown option \<times> 'v sse_state" where
  "sse_blocks parse check [] s = (None, s)"
| "sse_blocks parse check (block # bs) s =
     (case sse_block parse check block s of
        (Some e, s') \<Rightarrow> (Some e, s')
      | (None, s') \<Rightarrow> sse_blocks parse check bs s')"

text \<open>
  The reading loop: what is left in the buffer waits for the next chunk.  The reader ends, or throws.
\<close>

fun sse_read ::
    "(js_string \<Rightarrow> 'v option) \<Rightarrow> ('v \<Rightarrow> thrown + 'v) \<Rightarrow> thrown option \<Rightarrow> js_string \<Rightarrow> js_string list \<Rightarrow>
     'v sse_state \<Rightarrow> thrown option \<times> 'v sse_state" where
  "sse_read parse check ending buffer [] s = (ending, s)"
| "sse_read parse check ending buffer (text # texts) s =
     (let parts = split_blank (normalize_eol (buffer @ text))
      in case sse_blocks parse check (butlast parts) s of
           (Some e, s') \<Rightarrow> (Some e, s')
         | (None, s') \<Rightarrow> sse_read parse check ending (last parts) texts s')"

lemma sse_blocks_append:
  "sse_blocks parse check (as @ bs) s =
     (case sse_blocks parse check as s of
        (Some e, s') \<Rightarrow> (Some e, s')
      | (None, s') \<Rightarrow> sse_blocks parse check bs s')"
  by (induction as arbitrary: s) (simp_all split: prod.splits option.splits)

text \<open>Chunks of a text that cut no line end.\<close>

fun whole_line_ends :: "js_string list \<Rightarrow> bool" where
  "whole_line_ends [] \<longleftrightarrow> True"
| "whole_line_ends (c # cs) \<longleftrightarrow> \<not> cuts_line_end c (concat cs) \<and> whole_line_ends cs"

lemma sse_read_whole:
  assumes "CR \<notin> set buffer" and "whole_line_ends texts" and "split_blank buffer = [buffer]"
  shows "sse_read parse check ending buffer texts s =
    (case sse_blocks parse check (butlast (split_blank (buffer @ normalize_eol (concat texts)))) s of
       (Some e, s') \<Rightarrow> (Some e, s')
     | (None, s') \<Rightarrow> (ending, s'))"
  using assms
proof (induction texts arbitrary: buffer s)
  case (Cons t texts)
  let ?n = "buffer @ normalize_eol t"
  have "\<not> cuts_line_end buffer t" using Cons.prems(1) by (metis cuts_line_end_def last_in_set)
  then have n: "normalize_eol (buffer @ t) = ?n"
    using Cons.prems(1) by (simp add: normalize_eol_append normalize_eol_id)
  let ?parts = "split_blank ?n"
  have whole: "normalize_eol (concat (t # texts)) = normalize_eol t @ normalize_eol (concat texts)"
    using Cons.prems(2) by (simp add: normalize_eol_append)
  let ?rest = "split_blank (last ?parts @ normalize_eol (concat texts))"
  have split: "split_blank (buffer @ normalize_eol (concat (t # texts))) = butlast ?parts @ ?rest"
    unfolding whole append_assoc [symmetric] by (rule split_blank_append)
  have "CR \<notin> set ?n" using Cons.prems(1) by simp
  moreover have "set (last (split_blank a)) \<subseteq> set a" for a
    by (induction a rule: split_blank.induct) (auto split: list.splits if_splits)
  ultimately have clean: "CR \<notin> set (last ?parts)" by blast
  show ?case
  proof (cases "sse_blocks parse check (butlast ?parts) s")
    case (Pair e s')
    show ?thesis
    proof (cases e)
      case None
      with Pair have step: "sse_read parse check ending buffer (t # texts) s =
          sse_read parse check ending (last ?parts) texts s'"
        by (simp add: n Let_def)
      have "butlast (butlast ?parts @ ?rest) = butlast ?parts @ butlast ?rest"
        by (simp add: butlast_append)
      with Pair None show ?thesis
        unfolding step split
        using Cons.IH [OF clean _ split_blank_last_again, of s'] Cons.prems(2)
        by (simp add: sse_blocks_append)
    next
      case (Some err)
      with Pair show ?thesis
        unfolding split by (simp add: n Let_def butlast_append sse_blocks_append)
    qed
  qed
qed simp

section \<open>Connections\<close>

text \<open>
  What one attempt meets: an error before there is a response (of a request hook or of \<open>fetch\<close>), or a
  response with its status and body.  The body delivers chunks and ends, or breaks.
\<close>

datatype sse_connection =
    NoResponse thrown
  | Responds int js_string "(js_string list \<times> thrown option) option"

definition connection_read ::
    "(js_string \<Rightarrow> 'v option) \<Rightarrow> ('v \<Rightarrow> thrown + 'v) \<Rightarrow> sse_connection \<Rightarrow> 'v sse_state \<Rightarrow>
     thrown option \<times> 'v sse_state" where
  "connection_read parse check connection s =
     (case connection of
        NoResponse e \<Rightarrow> (Some e, s)
      | Responds status status_text body \<Rightarrow>
          if \<not> (200 \<le> status \<and> status \<le> 299) then
            (Some (NativeError (''SSE failed: '' @ show_int status @ '' '' @ status_text)), s)
          else (case body of
                  None \<Rightarrow> (Some (NativeError ''No body in SSE response''), s)
                | Some (texts, ending) \<Rightarrow> sse_read parse check ending [] texts s))"

text \<open>\<open>retryDelay * 2 ** n\<close> and \<open>Math.min\<close>; \<open>2 ** n\<close> is \<open>Infinity\<close> from \<open>n = 1024\<close> on.\<close>

definition js_double_up :: "js_num \<Rightarrow> nat \<Rightarrow> js_num" where
  "js_double_up x n =
     (case x of
        Fin r \<Rightarrow> (if n < 1024 then round_double (r * 2 ^ n)
                  else if r = 0 then NaN else if 0 < r then PosInf else NegInf)
      | _ \<Rightarrow> x)"

definition js_min :: "js_num \<Rightarrow> js_num \<Rightarrow> js_num" where
  "js_min x y = (if x = NaN \<or> y = NaN then NaN else if x < y then x else y)"

record sse_options =
  so_default_retry_delay :: "js_num option"
  so_max_retry_attempts :: "nat option"
  so_max_retry_delay :: "js_num option"

text \<open>
  The loop: \<open>sx_attempt\<close> counts the attempts, \<open>sx_requests\<close> are the \<open>Last-Event-ID\<close> headers sent,
  \<open>sx_errors\<close> the errors passed to \<open>onSseError\<close> and \<open>sx_sleeps\<close> the delays waited.
\<close>

record 'v sse_loop_state =
  sx_state :: "'v sse_state"
  sx_attempt :: nat
  sx_requests :: "js_string option list"
  sx_errors :: "thrown list"
  sx_sleeps :: "js_num list"

definition sse_start :: "sse_options \<Rightarrow> 'v sse_loop_state" where
  "sse_start opts =
     \<lparr>sx_state = \<lparr>ss_last_id = None, ss_retry_delay = coalesce (so_default_retry_delay opts) (num_of_int 3000),
        ss_events = [], ss_yields = []\<rparr>,
      sx_attempt = 0, sx_requests = [], sx_errors = [], sx_sleeps = []\<rparr>"

text \<open>One turn of the loop with the connection it meets: the state, and whether the loop goes on.\<close>

definition sse_turn ::
    "(js_string \<Rightarrow> 'v option) \<Rightarrow> ('v \<Rightarrow> thrown + 'v) \<Rightarrow> sse_options \<Rightarrow> sse_connection \<Rightarrow>
     'v sse_loop_state \<Rightarrow> bool \<times> 'v sse_loop_state" where
  "sse_turn parse check opts connection x =
     (let attempt = sx_attempt x + 1;
          x1 = x\<lparr>sx_attempt := attempt, sx_requests := sx_requests x @ [ss_last_id (sx_state x)]\<rparr>;
          (outcome, s) = connection_read parse check connection (sx_state x);
          x2 = x1\<lparr>sx_state := s\<rparr>
      in case outcome of
           None \<Rightarrow> (False, x2)
         | Some e \<Rightarrow>
             (let x3 = x2\<lparr>sx_errors := sx_errors x2 @ [e]\<rparr>
              in if (case so_max_retry_attempts opts of None \<Rightarrow> False | Some m \<Rightarrow> m \<le> attempt)
                 then (False, x3)
                 else (let backoff = js_min (js_double_up (ss_retry_delay s) (attempt - 1))
                                       (coalesce (so_max_retry_delay opts) (num_of_int 30000))
                       in (True, x3\<lparr>sx_sleeps := sx_sleeps x3 @ [backoff]\<rparr>))))"

text \<open>\<open>connections n\<close> is what attempt \<open>n + 1\<close> meets and \<open>aborted n\<close> the signal before it; no result: the loop never ends.\<close>

partial_function (option) sse_loop ::
    "(js_string \<Rightarrow> 'v option) \<Rightarrow> ('v \<Rightarrow> thrown + 'v) \<Rightarrow> sse_options \<Rightarrow> (nat \<Rightarrow> sse_connection) \<Rightarrow>
     (nat \<Rightarrow> bool) \<Rightarrow> 'v sse_loop_state \<Rightarrow> 'v sse_loop_state option" where
  "sse_loop parse check opts connections aborted x =
     (if aborted (sx_attempt x) then Some x
      else (let (continue, x') = sse_turn parse check opts (connections (sx_attempt x)) x
            in if continue then sse_loop parse check opts connections aborted x' else Some x'))"

lemma sse_turn_attempt:
  "sse_turn parse check opts c x = (cont, x') \<Longrightarrow> sx_attempt x' = sx_attempt x + 1"
  by (auto simp: sse_turn_def Let_def split: prod.splits option.splits if_splits)

text \<open>An attempt ends the loop when its text is read to the end or the attempts are used up.\<close>

lemma sse_turn_stops:
  assumes "so_max_retry_attempts opts = Some m" and "m \<le> sx_attempt x + 1"
  shows "\<not> fst (sse_turn parse check opts c x)"
  using assms by (auto simp: sse_turn_def Let_def split: prod.splits option.splits)

lemma sse_loop_ends:
  assumes stops: "\<And>x. n \<le> sx_attempt x \<Longrightarrow>
      aborted (sx_attempt x) \<or> \<not> fst (sse_turn parse check opts (connections (sx_attempt x)) x)"
    and "sx_attempt x \<le> n"
  shows "\<exists>x'. sse_loop parse check opts connections aborted x = Some x' \<and> sx_attempt x' \<le> n + 1"
  using assms(2)
proof (induction "n - sx_attempt x" arbitrary: x)
  case 0
  then show ?case
    using stops [of x] by (subst sse_loop.simps)
      (auto simp: split_beta sse_turn_attempt [OF prod.collapse [symmetric]])
next
  case (Suc d)
  obtain cont x' where turn: "sse_turn parse check opts (connections (sx_attempt x)) x = (cont, x')"
    by (cases "sse_turn parse check opts (connections (sx_attempt x)) x")
  note attempt = sse_turn_attempt [OF turn]
  from Suc.hyps(2) attempt have "d = n - sx_attempt x'" "sx_attempt x' \<le> n" by simp_all
  from Suc.hyps(1) [OF this] attempt turn show ?case
    by (subst sse_loop.simps) (use Suc.prems in auto)
qed

lemma sse_loop_limited:
  assumes "so_max_retry_attempts opts = Some m"
  shows "\<exists>x. sse_loop parse check opts connections aborted (sse_start opts) = Some x \<and> sx_attempt x \<le> max 1 m"
proof -
  have "\<exists>x. sse_loop parse check opts connections aborted (sse_start opts) = Some x \<and> sx_attempt x \<le> (m - 1) + 1"
    by (rule sse_loop_ends) (use assms in \<open>simp_all add: sse_turn_stops sse_start_def\<close>)
  then show ?thesis by (auto simp: max_def split: if_splits)
qed

text \<open>What every turn keeps holds at the end.\<close>

lemma sse_loop_inv:
  assumes "sse_loop parse check opts connections aborted x = Some x'"
    and "\<And>x c. I x \<Longrightarrow> I (snd (sse_turn parse check opts c x))" and "I x"
  shows "I x'"
proof -
  define P where "P = (\<lambda>parse check opts (connections :: nat \<Rightarrow> sse_connection) (aborted :: nat \<Rightarrow> bool) x x'.
    (\<forall>x c. I x \<longrightarrow> I (snd (sse_turn parse check opts c x))) \<longrightarrow> I x \<longrightarrow> I x')"
  have "P parse check opts connections aborted x x'"
  proof (rule sse_loop.raw_induct
      [of P "(((((parse, check), opts), connections), aborted), x)" x', unfolded prod.case])
    fix loop parse check opts connections aborted x x'
    assume IH: "\<And>parse check opts connections aborted x x'.
        loop parse check opts connections aborted x = Some x' \<Longrightarrow> P parse check opts connections aborted x x'"
      and result: "(if aborted (sx_attempt x) then Some x
        else let (continue, x') = sse_turn parse check opts (connections (sx_attempt x)) x
             in if continue then loop parse check opts connections aborted x' else Some x') = Some x'"
    show "P parse check opts connections aborted x x'"
      unfolding P_def
    proof (intro impI)
      assume keeps: "\<forall>x c. I x \<longrightarrow> I (snd (sse_turn parse check opts c x))" and "I x"
      obtain cont x1 where t: "sse_turn parse check opts (connections (sx_attempt x)) x = (cont, x1)"
        by (cases "sse_turn parse check opts (connections (sx_attempt x)) x")
      with keeps \<open>I x\<close> have "I x1" by (metis snd_conv)
      have later: "I x'" if "loop parse check opts connections aborted x1 = Some x'"
        using IH [OF that] keeps \<open>I x1\<close> by (simp add: P_def)
      from result t \<open>I x\<close> \<open>I x1\<close> later show "I x'"
        by (cases "aborted (sx_attempt x)"; cases cont) simp_all
    qed
  qed (rule assms(1))
  then show ?thesis unfolding P_def using assms(2,3) by blast
qed

lemma js_min_le: "js_min x y \<noteq> NaN \<Longrightarrow> js_min x y \<le> y"
  by (auto simp: js_min_def less_eq_js_num_def)

lemma js_min_not_le: "\<not> js_min x y \<le> y \<Longrightarrow> js_min x y = NaN"
  using js_min_le by blast

text \<open>
  The record of a loop: one request per attempt, a wait only after an error, never longer than the
  maximal delay, and errors only as often as there were attempts.
\<close>

definition sse_record_ok :: "sse_options \<Rightarrow> 'v sse_loop_state \<Rightarrow> bool" where
  "sse_record_ok opts x \<longleftrightarrow>
     length (sx_requests x) = sx_attempt x \<and> length (sx_errors x) \<le> sx_attempt x \<and>
     length (sx_sleeps x) \<le> length (sx_errors x) \<and>
     (\<forall>d \<in> set (sx_sleeps x). d = NaN \<or> d \<le> coalesce (so_max_retry_delay opts) (num_of_int 30000))"

lemma sse_record_turn: "sse_record_ok opts x \<Longrightarrow> sse_record_ok opts (snd (sse_turn parse check opts c x))"
  by (auto simp: sse_record_ok_def sse_turn_def Let_def dest: js_min_not_le split: prod.splits option.splits)

lemma sse_record_start: "sse_record_ok opts (sse_start opts)"
  by (simp add: sse_record_ok_def sse_start_def)

section \<open>A live query's stream\<close>

text \<open>
  What the effect of a live query gets: one attempt, its events, the error if there is one, the end of
  the iteration.  \<open>decode\<close> reads the \<open>type\<close> of an event; a text has none.
\<close>

definition live_options :: sse_options where
  "live_options =
     \<lparr>so_default_retry_delay = None, so_max_retry_attempts = Some 1, so_max_retry_delay = None\<rparr>"

definition live_event :: "('v \<Rightarrow> stream_event) \<Rightarrow> 'v sse_data \<Rightarrow> live_input" where
  "live_event decode d = (case d of SseJson v \<Rightarrow> Event (decode v) | SseText _ \<Rightarrow> Event UnknownEvent)"

definition live_inputs :: "('v \<Rightarrow> stream_event) \<Rightarrow> 'v sse_loop_state \<Rightarrow> live_input list" where
  "live_inputs decode x =
     map (live_event decode) (ss_yields (sx_state x)) @ map (\<lambda>_. SseError) (sx_errors x) @ [StreamEnd]"

definition live_stream_inputs ::
    "(js_string \<Rightarrow> 'v option) \<Rightarrow> ('v \<Rightarrow> stream_event) \<Rightarrow> sse_connection \<Rightarrow> live_input list option" where
  "live_stream_inputs parse decode connection =
     map_option (live_inputs decode)
       (sse_loop parse Inr live_options (\<lambda>_. connection) (\<lambda>_. False) (sse_start live_options))"

lemma live_stream_one_turn:
  "live_stream_inputs parse decode connection =
     Some (live_inputs decode (snd (sse_turn parse Inr live_options connection (sse_start live_options))))"
proof -
  have "\<not> fst (sse_turn parse Inr live_options connection (sse_start live_options))"
    by (rule sse_turn_stops [where m = 1]) (simp_all add: live_options_def)
  then show ?thesis
    unfolding live_stream_inputs_def by (subst sse_loop.simps) (simp add: split_beta)
qed

lemma connection_read_whole:
  assumes "whole_line_ends texts" and "whole_line_ends texts'" and "concat texts = concat texts'"
  shows "connection_read parse check (Responds status status_text (Some (texts, ending))) s =
    connection_read parse check (Responds status status_text (Some (texts', ending))) s"
  using assms by (simp add: connection_read_def sse_read_whole)

lemma live_stream_whole:
  assumes "whole_line_ends texts" and "whole_line_ends texts'" and "concat texts = concat texts'"
  shows "live_stream_inputs parse decode (Responds status status_text (Some (texts, ending))) =
    live_stream_inputs parse decode (Responds status status_text (Some (texts', ending)))"
  unfolding live_stream_one_turn sse_turn_def connection_read_whole [OF assms] ..

text \<open>Text with no carriage return cuts no line end.\<close>

lemma no_cr_whole: "CR \<notin> set (concat texts) \<Longrightarrow> whole_line_ends texts"
  by (induction texts) (auto simp: cuts_line_end_def dest: last_in_set)

text \<open>A chunk that ends within a line end splits the event.\<close>

lemma cut_line_end_example:
  "ss_yields (snd (sse_read (\<lambda>_. None) Inr None [] [''data: a'' @ [CR, LF] @ ''data: b'' @ [CR, LF, CR, LF]]
       (sx_state (sse_start live_options)))) = [SseText (''a'' @ [LF] @ ''b'')] \<and>
   ss_yields (snd (sse_read (\<lambda>_. None) Inr None [] [''data: a'' @ [CR], [LF] @ ''data: b'' @ [CR, LF, CR, LF]]
       (sx_state (sse_start live_options)))) = [SseText ''a'', SseText ''b'']"
  by (simp add: sse_start_def live_options_def sse_block_def sse_line_def after_prefix_def is_js_space_def
      Let_def)

end
