(* ===== verification/ClientResources.thy ===== *)
theory ClientResources
  imports Forms Upload "HOL-Library.Multiset"
begin

text \<open>
  The Munki client resources form: \<open>web/src/features/munki/client-resources/form-schema.ts\<close>,
  \<open>form-adapter.ts\<close>, \<open>save\<close> of \<open>edit.tsx\<close>, the link list of \<open>editor.tsx\<close> and the check of
  \<open>use-client-resource-asset.ts\<close>.

  The URL parser and \<open>toLocaleLowerCase\<close> are parameters.  Main results: which forms are valid; a valid
  form is always saved or uploaded, never refused by the client; what is opened and saved unchanged is
  what is stored; the link lists never outgrow their limit.
\<close>

section \<open>Data\<close>

record resource_link =
  rl_id :: js_string
  rl_label :: js_string
  rl_target :: js_string
  rl_openInBrowser :: bool

record resource_asset =
  ra_name :: js_string
  ra_url :: js_string
  ra_objectID :: "int option"
  ra_file :: "js_file option"

record resources_form =
  cr_custom :: bool
  cr_archive_object_id :: "int option"
  cr_archive_file :: "js_file option"
  cr_fit :: js_string
  cr_focalX :: js_num
  cr_asset :: "resource_asset option"
  cr_links :: "resource_link list"
  cr_footer_text :: js_string
  cr_footer_links :: "resource_link list"

record munki_link =
  ml_label :: js_string
  ml_open_in_browser :: bool
  ml_target :: js_string

record object_view =
  ov_id :: int
  ov_filename :: js_string
  ov_content_url :: js_string

record resources_builder =
  rb_banner :: object_view
  rb_banner_fit :: js_string
  rb_banner_focal_x :: js_num
  rb_links :: "munki_link list"
  rb_footer_text :: js_string
  rb_footer_links :: "munki_link list"

record client_resources =
  mcr_id :: int
  mcr_custom :: bool
  mcr_archive :: object_view
  mcr_builder :: "resources_builder option"

record builder_mutation =
  bm_banner_fit :: js_string
  bm_banner_focal_x :: js_num
  bm_links :: "munki_link list"
  bm_footer_text :: js_string
  bm_footer_links :: "munki_link list"

section \<open>Links\<close>

definition limitedString ::
    "nat \<Rightarrow> js_string \<Rightarrow> js_string option \<Rightarrow> js_string \<Rightarrow> js_string \<Rightarrow> issue list" where
  "limitedString maxLength label requiredMessage path v =
     (case requiredMessage of
        None \<Rightarrow> []
      | Some message \<Rightarrow> issue_if (js_trim v = []) path message) @
     issue_if (maxLength < length (js_trim v)) path
       (label @ '' cannot exceed '' @ show_nat maxLength @ '' characters.'')"

definition parseTarget :: "url_parser \<Rightarrow> js_string \<Rightarrow> url option" where
  "parseTarget parse_url v =
     (case parse_url v of
        None \<Rightarrow> None
      | Some target \<Rightarrow>
          (if url_protocol target \<in> {''http:'', ''https:'', ''mailto:'', ''munki:''} then Some target else None))"

text \<open>The checks of a link on the schema's output: its texts are trimmed.\<close>

definition link_target_issues :: "url_parser \<Rightarrow> js_string \<Rightarrow> bool \<Rightarrow> issue list" where
  "link_target_issues parse_url link_target openInBrowser =
     (case parseTarget parse_url link_target of
        None \<Rightarrow> issue_if True ''target'' ''Use an HTTP URL, email address, or Munki route.''
      | Some target \<Rightarrow>
          issue_if (url_username target \<noteq> [] \<or> url_password target \<noteq> []) ''target''
            ''URLs cannot contain credentials.'' @
          issue_if (openInBrowser \<and> url_protocol target \<noteq> ''http:'' \<and> url_protocol target \<noteq> ''https:'')
            ''openInBrowser'' ''Only HTTP links can open in the browser.'')"

definition clientResourceLinkSchema :: "url_parser \<Rightarrow> resource_link \<Rightarrow> issue list" where
  "clientResourceLinkSchema parse_url link =
     limitedString 80 ''Label'' (Some ''Enter a label.'') ''label'' (rl_label link) @
     limitedString 2048 ''Target'' None ''target'' (rl_target link) @
     link_target_issues parse_url (js_trim (rl_target link)) (rl_openInBrowser link)"

definition link_output :: "resource_link \<Rightarrow> resource_link" where
  "link_output link = link\<lparr>rl_label := js_trim (rl_label link), rl_target := js_trim (rl_target link)\<rparr>"

definition target_ok :: "url_parser \<Rightarrow> js_string \<Rightarrow> bool \<Rightarrow> bool" where
  "target_ok parse_url link_target openInBrowser \<longleftrightarrow>
     (\<exists>u. parse_url link_target = Some u \<and>
        url_protocol u \<in> {''http:'', ''https:'', ''mailto:'', ''munki:''} \<and>
        url_username u = [] \<and> url_password u = [] \<and>
        (openInBrowser \<longrightarrow> url_protocol u \<in> {''http:'', ''https:''}))"

definition link_ok :: "url_parser \<Rightarrow> resource_link \<Rightarrow> bool" where
  "link_ok parse_url link \<longleftrightarrow>
     js_trim (rl_label link) \<noteq> [] \<and> length (js_trim (rl_label link)) \<le> 80 \<and>
     length (js_trim (rl_target link)) \<le> 2048 \<and>
     target_ok parse_url (js_trim (rl_target link)) (rl_openInBrowser link)"

lemma link_target_issues_empty: "link_target_issues parse_url t b = [] \<longleftrightarrow> target_ok parse_url t b"
  by (auto simp: link_target_issues_def parseTarget_def target_ok_def issue_simps
      split: option.splits if_splits)

lemma clientResourceLinkSchema_empty: "clientResourceLinkSchema parse_url l = [] \<longleftrightarrow> link_ok parse_url l"
  by (auto simp: clientResourceLinkSchema_def link_ok_def limitedString_def link_target_issues_empty issue_simps)

lemma link_ok_output [simp]: "link_ok parse_url (link_output l) = link_ok parse_url l"
  by (simp add: link_ok_def link_output_def)

text \<open>
  The search for a repeated label: the loop of \<open>addDuplicateLabelIssue\<close> over the labels seen, and what
  it finds.  The quotation marks of the message lie outside the modelled alphabet.
\<close>

fun repeated_label :: "(js_string \<Rightarrow> js_string) \<Rightarrow> js_string list \<Rightarrow> resource_link list \<Rightarrow> js_string option" where
  "repeated_label lower labels [] = None"
| "repeated_label lower labels (link # links) =
     (let label = lower (js_trim (rl_label link))
      in if label = [] \<or> label \<notin> set labels then repeated_label lower (label # labels) links
         else Some (js_trim (rl_label link)))"

definition addDuplicateLabelIssue ::
    "(js_string \<Rightarrow> js_string) \<Rightarrow> js_string \<Rightarrow> resource_link list \<Rightarrow> issue list" where
  "addDuplicateLabelIssue lower path links =
     (case repeated_label lower [] links of
        None \<Rightarrow> []
      | Some label \<Rightarrow>
          issue_if True path (''Link labels must be unique. '' @ label @ '' is repeated.''))"

definition shown_labels :: "(js_string \<Rightarrow> js_string) \<Rightarrow> resource_link list \<Rightarrow> js_string list" where
  "shown_labels lower links =
     filter (\<lambda>l. l \<noteq> []) (map (\<lambda>link. lower (js_trim (rl_label link))) links)"

lemma repeated_label_None:
  "repeated_label lower seen links = None \<longleftrightarrow>
     distinct (shown_labels lower links) \<and> set (shown_labels lower links) \<inter> set seen = {}"
  by (induction links arbitrary: seen) (auto simp: shown_labels_def Let_def)

lemma addDuplicateLabelIssue_empty [issue_simps]:
  "addDuplicateLabelIssue lower p links = [] \<longleftrightarrow> distinct (shown_labels lower links)"
  using repeated_label_None [of lower "[]" links]
  by (auto simp: addDuplicateLabelIssue_def issue_simps split: option.splits)

section \<open>The form\<close>

definition asset_issues :: "resource_asset option \<Rightarrow> issue list" where
  "asset_issues asset =
     (case asset of
        None \<Rightarrow> []
      | Some a \<Rightarrow>
          (case ra_objectID a of None \<Rightarrow> [] | Some i \<Rightarrow> issue_if (i \<le> 0) ''banner.asset'' ''Too small'') @
          issue_if ((ra_objectID a = None) = (ra_file a = None)) ''banner.asset''
            ''Choose either a stored banner or a replacement image.'')"

definition clientResourcesBuilderSchema ::
    "url_parser \<Rightarrow> (js_string \<Rightarrow> js_string) \<Rightarrow> resources_form \<Rightarrow> issue list" where
  "clientResourcesBuilderSchema parse_url lower form =
     issue_if (cr_fit form \<notin> {''height'', ''cover''}) ''banner.fit'' ''Invalid option'' @
     issue_if (\<not> is_safe_integer (cr_focalX form) \<or> cr_focalX form < num_of_int 0 \<or> num_of_int 100 < cr_focalX form)
       ''banner.focalX'' ''Invalid number'' @
     asset_issues (cr_asset form) @
     concat (map (clientResourceLinkSchema parse_url) (cr_links form)) @
     issue_if (12 < length (cr_links form)) ''links'' ''Too big'' @
     limitedString 500 ''Footer text'' None ''footer.text'' (cr_footer_text form) @
     concat (map (clientResourceLinkSchema parse_url) (cr_footer_links form)) @
     issue_if (12 < length (cr_footer_links form)) ''footer.links'' ''Too big'' @
     issue_if (cr_asset form = None) ''banner.asset'' ''Choose a banner image.'' @
     addDuplicateLabelIssue lower ''links'' (cr_links form) @
     addDuplicateLabelIssue lower ''footer.links'' (cr_footer_links form)"

definition clientResourcesFormSchema ::
    "url_parser \<Rightarrow> (js_string \<Rightarrow> js_string) \<Rightarrow> resources_form \<Rightarrow> issue list" where
  "clientResourcesFormSchema parse_url lower form =
     (if cr_custom form
      then issue_if (cr_archive_object_id form = None \<and> cr_archive_file form = None) ''archive_file''
             ''Choose a client resources archive.''
      else clientResourcesBuilderSchema parse_url lower form)"

text \<open>A list of links the builder takes.\<close>

definition links_ok :: "url_parser \<Rightarrow> (js_string \<Rightarrow> js_string) \<Rightarrow> resource_link list \<Rightarrow> bool" where
  "links_ok parse_url lower links \<longleftrightarrow>
     length links \<le> 12 \<and> (\<forall>l \<in> set links. link_ok parse_url l) \<and> distinct (shown_labels lower links)"

definition asset_ok :: "resource_asset \<Rightarrow> bool" where
  "asset_ok a \<longleftrightarrow>
     (\<exists>i > 0. ra_objectID a = Some i \<and> ra_file a = None) \<or> (ra_objectID a = None \<and> ra_file a \<noteq> None)"

definition builder_ok :: "url_parser \<Rightarrow> (js_string \<Rightarrow> js_string) \<Rightarrow> resources_form \<Rightarrow> bool" where
  "builder_ok parse_url lower form \<longleftrightarrow>
     cr_fit form \<in> {''height'', ''cover''} \<and>
     (\<exists>n. cr_focalX form = num_of_int n \<and> 0 \<le> n \<and> n \<le> 100) \<and>
     (\<exists>a. cr_asset form = Some a \<and> asset_ok a) \<and>
     length (js_trim (cr_footer_text form)) \<le> 500 \<and>
     links_ok parse_url lower (cr_links form) \<and> links_ok parse_url lower (cr_footer_links form)"

lemma focal_ok:
  "\<not> (\<not> is_safe_integer x \<or> x < num_of_int 0 \<or> num_of_int 100 < x) \<longleftrightarrow>
     (\<exists>n. x = num_of_int n \<and> 0 \<le> n \<and> n \<le> 100)"
  by (auto simp: is_safe_integer_of_int max_safe_integer_def not_less elim!: is_safe_integerE)

lemma asset_issues_empty:
  "asset_issues asset = [] \<longleftrightarrow> (\<forall>a. asset = Some a \<longrightarrow> asset_ok a)"
  by (auto simp: asset_issues_def asset_ok_def issue_simps not_le split: option.splits)

lemma builder_issues_empty:
  "clientResourcesBuilderSchema parse_url lower form = [] \<longleftrightarrow> builder_ok parse_url lower form"
  unfolding clientResourcesBuilderSchema_def append_is_Nil_conv issue_if_empty asset_issues_empty focal_ok
  by (auto simp: builder_ok_def links_ok_def limitedString_def clientResourceLinkSchema_empty issue_simps not_less)

lemma form_issues_empty:
  "clientResourcesFormSchema parse_url lower form = [] \<longleftrightarrow>
     (if cr_custom form then cr_archive_object_id form \<noteq> None \<or> cr_archive_file form \<noteq> None
      else builder_ok parse_url lower form)"
  by (auto simp: clientResourcesFormSchema_def builder_issues_empty issue_simps)

section \<open>The resource and the form\<close>

definition emptyClientResourcesForm :: resources_form where
  "emptyClientResourcesForm =
     \<lparr>cr_custom = False, cr_archive_object_id = None, cr_archive_file = None, cr_fit = ''height'',
      cr_focalX = num_of_int 0, cr_asset = None, cr_links = [], cr_footer_text = [], cr_footer_links = []\<rparr>"

text \<open>\<open>uuid\<close> supplies the ids of the rows: the \<open>n\<close>-th value of \<open>crypto.randomUUID\<close>.\<close>

definition clientResourceLink :: "js_string \<Rightarrow> munki_link \<Rightarrow> resource_link" where
  "clientResourceLink i link =
     \<lparr>rl_id = i, rl_label = ml_label link, rl_target = ml_target link,
      rl_openInBrowser = ml_open_in_browser link\<rparr>"

definition apiLink :: "resource_link \<Rightarrow> munki_link" where
  "apiLink link =
     \<lparr>ml_label = rl_label link, ml_open_in_browser = rl_openInBrowser link, ml_target = rl_target link\<rparr>"

definition link_rows :: "(nat \<Rightarrow> js_string) \<Rightarrow> nat \<Rightarrow> munki_link list \<Rightarrow> resource_link list" where
  "link_rows uuid k links = map (\<lambda>(n, link). clientResourceLink (uuid n) link) (enumerate k links)"

definition applyBuilder :: "(nat \<Rightarrow> js_string) \<Rightarrow> resources_form \<Rightarrow> resources_builder \<Rightarrow> resources_form" where
  "applyBuilder uuid form builder =
     form\<lparr>cr_fit := rb_banner_fit builder, cr_focalX := rb_banner_focal_x builder,
          cr_asset := Some
            \<lparr>ra_name = ov_filename (rb_banner builder), ra_url = ov_content_url (rb_banner builder),
             ra_objectID = Some (ov_id (rb_banner builder)), ra_file = None\<rparr>,
          cr_links := link_rows uuid 0 (rb_links builder),
          cr_footer_text := rb_footer_text builder,
          cr_footer_links := link_rows uuid (length (rb_links builder)) (rb_footer_links builder)\<rparr>"

definition clientResourcesFormFromResource ::
    "(nat \<Rightarrow> js_string) \<Rightarrow> client_resources option \<Rightarrow> resources_form" where
  "clientResourcesFormFromResource uuid resource =
     (case resource of
        None \<Rightarrow> emptyClientResourcesForm
      | Some r \<Rightarrow>
          (let form = emptyClientResourcesForm\<lparr>cr_custom := mcr_custom r,
             cr_archive_object_id := (if mcr_custom r then Some (ov_id (mcr_archive r)) else None)\<rparr>
           in case mcr_builder r of None \<Rightarrow> form | Some builder \<Rightarrow> applyBuilder uuid form builder))"

definition clientResourcesBuilderMutation ::
    "url_parser \<Rightarrow> (js_string \<Rightarrow> js_string) \<Rightarrow> resources_form \<Rightarrow> thrown + builder_mutation" where
  "clientResourcesBuilderMutation parse_url lower form =
     (if clientResourcesBuilderSchema parse_url lower form \<noteq> [] then Inl (NativeError ''ZodError'')
      else Inr
        \<lparr>bm_banner_fit = cr_fit form, bm_banner_focal_x = cr_focalX form,
         bm_links = map (apiLink \<circ> link_output) (cr_links form),
         bm_footer_text = js_trim (cr_footer_text form),
         bm_footer_links = map (apiLink \<circ> link_output) (cr_footer_links form)\<rparr>)"

text \<open>
  \<open>save\<close> of the edit page, up to the request it makes: nothing, an upload with what is saved when it
  completes, or the builder with a stored banner.
\<close>

datatype save_request =
    KeepArchive
  | UploadArchive js_file
  | UploadBanner js_file builder_mutation
  | SaveBuilder builder_mutation int

definition resources_save ::
    "url_parser \<Rightarrow> (js_string \<Rightarrow> js_string) \<Rightarrow> resources_form \<Rightarrow> thrown + save_request" where
  "resources_save parse_url lower form =
     (if cr_custom form
      then Inr (case cr_archive_file form of None \<Rightarrow> KeepArchive | Some archive \<Rightarrow> UploadArchive archive)
      else (case cr_asset form of
              None \<Rightarrow> Inl (NativeError ''Validated client resources are missing a banner.'')
            | Some banner \<Rightarrow>
                (case clientResourcesBuilderMutation parse_url lower form of
                   Inl e \<Rightarrow> Inl e
                 | Inr body \<Rightarrow>
                     (case ra_file banner of
                        Some chosen \<Rightarrow> Inr (UploadBanner chosen body)
                      | None \<Rightarrow>
                          (case ra_objectID banner of
                             None \<Rightarrow> Inl (NativeError ''The selected banner has no upload or stored object.'')
                           | Some i \<Rightarrow> Inr (SaveBuilder body i))))))"

text \<open>Submitting the form: the schema's output is the form itself; what the schema rejects is not saved.\<close>

definition submit_resources ::
    "url_parser \<Rightarrow> (js_string \<Rightarrow> js_string) \<Rightarrow> resources_form \<Rightarrow> thrown + save_request" where
  "submit_resources parse_url lower form =
     (if clientResourcesFormSchema parse_url lower form \<noteq> [] then Inl (NativeError ''ZodError'')
      else resources_save parse_url lower form)"

lemma submit_resources_builder:
  assumes "builder_ok parse_url lower form" and "\<not> cr_custom form"
  shows "submit_resources parse_url lower form =
    (let body = \<lparr>bm_banner_fit = cr_fit form, bm_banner_focal_x = cr_focalX form,
         bm_links = map (apiLink \<circ> link_output) (cr_links form),
         bm_footer_text = js_trim (cr_footer_text form),
         bm_footer_links = map (apiLink \<circ> link_output) (cr_footer_links form)\<rparr>
     in case ra_file (the (cr_asset form)) of
          Some chosen \<Rightarrow> Inr (UploadBanner chosen body)
        | None \<Rightarrow> Inr (SaveBuilder body (the (ra_objectID (the (cr_asset form))))))"
proof -
  from assms(1) obtain a where a: "cr_asset form = Some a" "asset_ok a" by (auto simp: builder_ok_def)
  then have "ra_objectID a \<noteq> None \<or> ra_file a \<noteq> None" by (auto simp: asset_ok_def)
  with assms a show ?thesis
    by (auto simp: submit_resources_def form_issues_empty resources_save_def
        clientResourcesBuilderMutation_def builder_issues_empty Let_def split: option.splits)
qed

lemma submit_resources_sends:
  assumes "clientResourcesFormSchema parse_url lower form = []"
  obtains request where "submit_resources parse_url lower form = Inr request"
proof (cases "cr_custom form")
  case True
  with assms that show ?thesis by (auto simp: submit_resources_def resources_save_def)
next
  case False
  with assms have "builder_ok parse_url lower form" by (simp add: form_issues_empty)
  from submit_resources_builder [OF this False] that show ?thesis
    by (auto simp: Let_def split: option.splits)
qed

section \<open>Saving and opening\<close>

text \<open>A builder form with a stored banner, what is sent for it, and the resource that stores it.\<close>

definition stored_builder_form :: "url_parser \<Rightarrow> (js_string \<Rightarrow> js_string) \<Rightarrow> resources_form \<Rightarrow> bool" where
  "stored_builder_form parse_url lower form \<longleftrightarrow>
     clientResourcesFormSchema parse_url lower form = [] \<and> \<not> cr_custom form \<and>
     (\<forall>a. cr_asset form = Some a \<longrightarrow> ra_file a = None)"

fun resources_stores :: "save_request \<Rightarrow> client_resources \<Rightarrow> bool" where
  "resources_stores (SaveBuilder body i) r \<longleftrightarrow>
     \<not> mcr_custom r \<and>
     (\<exists>b. mcr_builder r = Some b \<and> ov_id (rb_banner b) = i \<and> rb_banner_fit b = bm_banner_fit body \<and>
        rb_banner_focal_x b = bm_banner_focal_x body \<and> rb_links b = bm_links body \<and>
        rb_footer_text b = bm_footer_text body \<and> rb_footer_links b = bm_footer_links body)"
| "resources_stores _ r \<longleftrightarrow> False"

lemma link_rows_sent:
  assumes "\<forall>l \<in> set links. js_trim (ml_label l) = ml_label l \<and> js_trim (ml_target l) = ml_target l"
  shows "map (apiLink \<circ> link_output) (link_rows uuid k links) = links"
  using assms
  by (induction links arbitrary: k) (simp_all add: link_rows_def apiLink_def link_output_def clientResourceLink_def)

lemma sent_links_tidy:
  "l \<in> set (map (apiLink \<circ> link_output) links) \<Longrightarrow> js_trim (ml_label l) = ml_label l \<and> js_trim (ml_target l) = ml_target l"
  by (auto simp: apiLink_def link_output_def)

lemma shown_labels_rows:
  "shown_labels lower (link_rows uuid k (map (apiLink \<circ> link_output) links)) = shown_labels lower links"
proof -
  have "map (\<lambda>link. lower (js_trim (rl_label link))) (link_rows uuid k (map (apiLink \<circ> link_output) links)) =
      map (\<lambda>link. lower (js_trim (rl_label link))) links"
    by (induction links arbitrary: k)
      (simp_all add: link_rows_def apiLink_def link_output_def clientResourceLink_def)
  then show ?thesis by (simp add: shown_labels_def)
qed

lemma reopened_links_ok:
  assumes "links_ok parse_url lower links"
  shows "links_ok parse_url lower (link_rows uuid k (map (apiLink \<circ> link_output) links))"
proof -
  have "link_ok parse_url (clientResourceLink i (apiLink (link_output l))) = link_ok parse_url l" for i l
    by (simp add: link_ok_def clientResourceLink_def apiLink_def link_output_def)
  moreover have "l' \<in> set (link_rows uuid k (map (apiLink \<circ> link_output) links)) \<Longrightarrow>
      \<exists>i. \<exists>l \<in> set links. l' = clientResourceLink i (apiLink (link_output l))" for l'
    by (auto simp: link_rows_def dest!: set_enumerated) blast
  ultimately have "\<forall>l' \<in> set (link_rows uuid k (map (apiLink \<circ> link_output) links)). link_ok parse_url l'"
    using assms by (auto simp: links_ok_def) metis
  moreover have "length (link_rows uuid k (map (apiLink \<circ> link_output) links)) = length links"
    by (simp add: link_rows_def)
  ultimately show ?thesis using assms by (simp add: links_ok_def shown_labels_rows)
qed

interpretation resources_builder:
  form_adapter "stored_builder_form parse_url lower" "submit_resources parse_url lower" resources_stores
    "\<lambda>r. clientResourcesFormFromResource uuid (Some r)"
  for parse_url lower uuid
proof
  fix f
  assume "stored_builder_form parse_url lower f"
  then have "clientResourcesFormSchema parse_url lower f = []" by (simp add: stored_builder_form_def)
  then show "\<exists>b. submit_resources parse_url lower f = Inr b" by (rule submit_resources_sends) (rule exI)
next
  fix f b r
  assume valid: "stored_builder_form parse_url lower f" and b: "submit_resources parse_url lower f = Inr b"
    and r: "resources_stores b r"
  from valid have ok: "builder_ok parse_url lower f" and builder: "\<not> cr_custom f"
    by (simp_all add: stored_builder_form_def form_issues_empty)
  from ok valid obtain a i where a: "cr_asset f = Some a" "ra_objectID a = Some i" "0 < i" "ra_file a = None"
    by (auto simp: builder_ok_def stored_builder_form_def asset_ok_def)
  from b have body: "b = SaveBuilder
      \<lparr>bm_banner_fit = cr_fit f, bm_banner_focal_x = cr_focalX f,
       bm_links = map (apiLink \<circ> link_output) (cr_links f), bm_footer_text = js_trim (cr_footer_text f),
       bm_footer_links = map (apiLink \<circ> link_output) (cr_footer_links f)\<rparr> i"
    using submit_resources_builder [OF ok builder] a by (simp add: Let_def)
  let ?g = "clientResourcesFormFromResource uuid (Some r)"
  from r body obtain bl where bl: "\<not> mcr_custom r" "mcr_builder r = Some bl" "ov_id (rb_banner bl) = i"
    "rb_banner_fit bl = cr_fit f" "rb_banner_focal_x bl = cr_focalX f"
    "rb_links bl = map (apiLink \<circ> link_output) (cr_links f)" "rb_footer_text bl = js_trim (cr_footer_text f)"
    "rb_footer_links bl = map (apiLink \<circ> link_output) (cr_footer_links f)"
    by auto
  have g: "cr_custom ?g = False" "cr_fit ?g = cr_fit f" "cr_focalX ?g = cr_focalX f"
    "ra_objectID (the (cr_asset ?g)) = Some i" "ra_file (the (cr_asset ?g)) = None" "cr_asset ?g \<noteq> None"
    "cr_footer_text ?g = js_trim (cr_footer_text f)"
    "cr_links ?g = link_rows uuid 0 (map (apiLink \<circ> link_output) (cr_links f))"
    "cr_footer_links ?g = link_rows uuid (length (cr_links f)) (map (apiLink \<circ> link_output) (cr_footer_links f))"
    using bl by (simp_all add: clientResourcesFormFromResource_def applyBuilder_def Let_def
        emptyClientResourcesForm_def del: map_map)
  have ok': "builder_ok parse_url lower ?g"
    using ok g a(3) reopened_links_ok [of parse_url lower]
    by (auto simp: builder_ok_def asset_ok_def simp del: map_map)
  then show "stored_builder_form parse_url lower ?g"
    using g by (auto simp: stored_builder_form_def form_issues_empty simp del: map_map)
  fix b'
  assume b': "submit_resources parse_url lower ?g = Inr b'"
  have "map (apiLink \<circ> link_output) (cr_links ?g) = map (apiLink \<circ> link_output) (cr_links f)"
    "map (apiLink \<circ> link_output) (cr_footer_links ?g) = map (apiLink \<circ> link_output) (cr_footer_links f)"
    unfolding g by (rule link_rows_sent, use sent_links_tidy in blast)+
  with b' have "b' = b"
    using submit_resources_builder [OF ok'] g by (simp add: Let_def body del: map_map)
  then show "resources_stores b' = resources_stores b" by simp
qed

section \<open>The list of links\<close>

text \<open>
  \<open>EditableLinks\<close> and the link dialog: the items, and while the dialog is open the index it edits (none
  for a new link) and the values of its form.  A new link gets the id given with the event.
\<close>

record link_editor =
  le_items :: "resource_link list"
  le_dialog :: "(nat option \<times> resource_link) option"

datatype link_event =
    LinkAdd js_string | LinkEdit nat | LinkLabel js_string | LinkTarget js_string | LinkBrowser bool
  | LinkSave | LinkCancel | LinkRemove nat | LinkReorder "resource_link list"

definition emptyClientResourceLink :: "js_string \<Rightarrow> resource_link" where
  "emptyClientResourceLink i = \<lparr>rl_id = i, rl_label = [], rl_target = [], rl_openInBrowser = False\<rparr>"

definition link_draft :: "(resource_link \<Rightarrow> resource_link) \<Rightarrow> link_editor \<Rightarrow> link_editor" where
  "link_draft change s =
     (case le_dialog s of None \<Rightarrow> s | Some (index, draft) \<Rightarrow> s\<lparr>le_dialog := Some (index, change draft)\<rparr>)"

definition link_save :: "url_parser \<Rightarrow> link_editor \<Rightarrow> link_editor" where
  "link_save parse_url s =
     (case le_dialog s of
        None \<Rightarrow> s
      | Some (index, draft) \<Rightarrow>
          if clientResourceLinkSchema parse_url draft \<noteq> [] then s
          else s\<lparr>le_items :=
                   (case index of
                      None \<Rightarrow> le_items s @ [link_output draft]
                    | Some i \<Rightarrow> (le_items s)[i := link_output draft]),
                 le_dialog := None\<rparr>)"

fun link_step :: "url_parser \<Rightarrow> link_editor \<Rightarrow> link_event \<Rightarrow> link_editor" where
  "link_step parse_url s (LinkAdd i) =
     (if le_dialog s = None \<and> length (le_items s) < 12
      then s\<lparr>le_dialog := Some (None, emptyClientResourceLink i)\<rparr> else s)"
| "link_step parse_url s (LinkEdit i) =
     (if le_dialog s = None \<and> i < length (le_items s)
      then s\<lparr>le_dialog := Some (Some i, le_items s ! i)\<rparr> else s)"
| "link_step parse_url s (LinkLabel label) = link_draft (\<lambda>d. d\<lparr>rl_label := label\<rparr>) s"
| "link_step parse_url s (LinkTarget link_target) = link_draft (\<lambda>d. d\<lparr>rl_target := link_target\<rparr>) s"
| "link_step parse_url s (LinkBrowser b) = link_draft (\<lambda>d. d\<lparr>rl_openInBrowser := b\<rparr>) s"
| "link_step parse_url s LinkSave = link_save parse_url s"
| "link_step parse_url s LinkCancel = s\<lparr>le_dialog := None\<rparr>"
| "link_step parse_url s (LinkRemove i) =
     (if le_dialog s = None
      then s\<lparr>le_items := take i (le_items s) @ drop (Suc i) (le_items s)\<rparr> else s)"
| "link_step parse_url s (LinkReorder links) =
     (if le_dialog s = None \<and> mset links = mset (le_items s) then s\<lparr>le_items := links\<rparr> else s)"

definition link_editor_ok :: "url_parser \<Rightarrow> link_editor \<Rightarrow> bool" where
  "link_editor_ok parse_url s \<longleftrightarrow>
     length (le_items s) \<le> 12 \<and> (\<forall>l \<in> set (le_items s). link_ok parse_url l) \<and>
     (\<forall>index draft. le_dialog s = Some (index, draft) \<longrightarrow>
        (case index of
           None \<Rightarrow> length (le_items s) < 12
         | Some i \<Rightarrow> i < length (le_items s) \<and> rl_id draft = rl_id (le_items s ! i)))"

lemma link_draft_ok:
  assumes "link_editor_ok parse_url s" and same: "\<And>d. rl_id (change d) = rl_id d"
  shows "link_editor_ok parse_url (link_draft change s)"
proof (cases "le_dialog s")
  case (Some d)
  with assms(1) show ?thesis
    by (cases d; cases "fst d") (simp_all add: link_editor_ok_def link_draft_def same)
qed (use assms(1) in \<open>simp add: link_draft_def\<close>)

lemma link_save_ok:
  assumes "link_editor_ok parse_url s"
  shows "link_editor_ok parse_url (link_save parse_url s)"
proof (cases "le_dialog s")
  case (Some d)
  then obtain index draft where d: "le_dialog s = Some (index, draft)" by (cases d) auto
  have replaced: "set ((le_items s)[i := link_output draft]) \<subseteq> insert (link_output draft) (set (le_items s))" for i
    by (rule set_update_subset_insert)
  show ?thesis
  proof (cases "link_ok parse_url draft")
    case True
    have "\<forall>l \<in> set ((le_items s)[i := link_output draft]). link_ok parse_url l" for i
      using assms True replaced [of i] by (auto simp: link_editor_ok_def)
    with assms d True show ?thesis
      by (cases index) (simp_all add: link_editor_ok_def link_save_def clientResourceLinkSchema_empty)
  qed (use assms d in \<open>simp add: link_save_def clientResourceLinkSchema_empty\<close>)
qed (use assms in \<open>simp add: link_save_def\<close>)

lemma link_editor_ok_step: "link_editor_ok parse_url s \<Longrightarrow> link_editor_ok parse_url (link_step parse_url s e)"
proof (cases e)
  case (LinkRemove i)
  assume "link_editor_ok parse_url s"
  then show ?thesis
    using set_take_subset [of i "le_items s"] set_drop_subset [of "Suc i" "le_items s"]
    by (auto simp: LinkRemove link_editor_ok_def)
next
  case (LinkReorder links)
  assume "link_editor_ok parse_url s"
  then show ?thesis
    using mset_eq_setD [of links "le_items s"] mset_eq_length [of links "le_items s"]
    by (auto simp: LinkReorder link_editor_ok_def)
next
  case (LinkAdd i)
  assume "link_editor_ok parse_url s"
  then show ?thesis by (simp add: LinkAdd link_editor_ok_def)
next
  case (LinkEdit i)
  assume "link_editor_ok parse_url s"
  then show ?thesis by (simp add: LinkEdit link_editor_ok_def)
next
  case LinkCancel
  assume "link_editor_ok parse_url s"
  then show ?thesis by (simp add: LinkCancel link_editor_ok_def)
qed (simp_all add: link_draft_ok link_save_ok)

lemma link_editor_ok_run:
  "link_editor_ok parse_url s \<Longrightarrow> link_editor_ok parse_url (foldl (link_step parse_url) s es)"
  by (induction es arbitrary: s) (simp_all add: link_editor_ok_step)

section \<open>The banner image\<close>

definition clientResourceImageMaxSize :: int where
  "clientResourceImageMaxSize = 5 * 1024 * 1024"

definition validateClientResourceImage :: "js_file \<Rightarrow> js_string option" where
  "validateClientResourceImage image_file =
     (if jf_size image_file \<le> 0 \<or> clientResourceImageMaxSize < jf_size image_file
      then Some ''Image must be 5 MB or smaller.'' else None)"

definition createClientResourceAsset :: "(js_file \<Rightarrow> js_string) \<Rightarrow> js_file \<Rightarrow> resource_asset" where
  "createClientResourceAsset objectURL chosen =
     \<lparr>ra_name = jf_name chosen, ra_url = objectURL chosen, ra_objectID = None, ra_file = Some chosen\<rparr>"

lemma created_asset_ok: "asset_ok (createClientResourceAsset objectURL chosen)"
  by (simp add: asset_ok_def createClientResourceAsset_def)

end
