(* ===== verification/DataTable.thy ===== *)
theory DataTable
  imports Params
begin

text \<open>
  The tables of the list pages: \<open>web/src/components/data-table/sorting.ts\<close>,
  \<open>use-data-table-search.ts\<close>, \<open>use-data-table.ts\<close>, the row counts of \<open>data-table-pagination.tsx\<close>, the rows
  and cells of \<open>data-table-export.tsx\<close>, and the search box of \<open>data-table-search-input.tsx\<close> with
  \<open>web/src/hooks/use-debounced-callback.ts\<close>.

  The state of a table is the search part of the URL; a handler is a function on it.  Main results: a
  sort and a column filter survive the URL; every handler keeps the page and its size in range and all
  but paging go back to the first page; a page beyond the last is left at once; the search box settles
  on what was typed last.
\<close>

section \<open>Sorting\<close>

record sorting_item =
  so_id :: js_string
  so_desc :: bool

definition serializeSortingState :: "sorting_item list \<Rightarrow> js_string" where
  "serializeSortingState items =
     (case items of
        [] \<Rightarrow> []
      | item # _ \<Rightarrow> so_id item @ ''.'' @ (if so_desc item then ''desc'' else ''asc''))"

text \<open>\<open>token.lastIndexOf(".")\<close>: the parts before and after the last dot, if there is one.\<close>

fun last_dot :: "js_string \<Rightarrow> (js_string \<times> js_string) option" where
  "last_dot [] = None"
| "last_dot (c # cs) =
     (case last_dot cs of
        Some (before, rest) \<Rightarrow> Some (c # before, rest)
      | None \<Rightarrow> (if c = CHR ''.'' then Some ([], cs) else None))"

definition parseSortToken :: "js_string \<Rightarrow> sorting_item option" where
  "parseSortToken token =
     (if token = [] then None
      else (case last_dot token of
              None \<Rightarrow> Some \<lparr>so_id = token, so_desc = False\<rparr>
            | Some (i, direction) \<Rightarrow>
                if direction = ''asc'' then (if i \<noteq> [] then Some \<lparr>so_id = i, so_desc = False\<rparr> else None)
                else if direction = ''desc'' then (if i \<noteq> [] then Some \<lparr>so_id = i, so_desc = True\<rparr> else None)
                else Some \<lparr>so_id = token, so_desc = False\<rparr>))"

definition parseSortingState :: "js_string option \<Rightarrow> sorting_item list" where
  "parseSortingState v =
     (case v of
        None \<Rightarrow> []
      | Some s \<Rightarrow>
          (let trimmed = js_trim s
           in if trimmed = [] then []
              else if CHR '','' \<in> set trimmed then []
              else (case parseSortToken trimmed of None \<Rightarrow> [] | Some item \<Rightarrow> [item])))"

definition encodeSort :: "js_string \<Rightarrow> bool \<Rightarrow> js_string" where
  "encodeSort i desc = serializeSortingState [\<lparr>so_id = i, so_desc = desc\<rparr>]"

definition singleSort :: "sorting_item list \<Rightarrow> sorting_item list" where
  "singleSort sorting = (case sorting of [] \<Rightarrow> [] | s # _ \<Rightarrow> [s])"

lemma last_dot_append: "CHR ''.'' \<notin> set b \<Longrightarrow> last_dot (a @ CHR ''.'' # b) = Some (a, b)"
proof (induction a)
  case Nil
  then have "last_dot b = None" by (induction b) auto
  then show ?case by simp
qed simp

text \<open>The ids of columns: not empty, no comma, no space at the front.\<close>

definition column_id :: "js_string \<Rightarrow> bool" where
  "column_id i \<longleftrightarrow> i \<noteq> [] \<and> CHR '','' \<notin> set i \<and> \<not> is_js_space (hd i)"

lemma parse_serialized:
  assumes "column_id i"
  shows "parseSortingState (Some (serializeSortingState (\<lparr>so_id = i, so_desc = d\<rparr> # rest))) =
    [\<lparr>so_id = i, so_desc = d\<rparr>]"
proof -
  let ?s = "i @ ''.'' @ (if d then ''desc'' else ''asc'')"
  have "last ?s = CHR ''c''" by simp
  then have trim: "js_trim ?s = ?s"
    using assms by (auto simp: js_trim_fixed column_id_def is_js_space_def)
  have "parseSortToken ?s = Some \<lparr>so_id = i, so_desc = d\<rparr>"
    using assms last_dot_append [of "if d then ''desc'' else ''asc''" i]
    by (auto simp: parseSortToken_def column_id_def)
  then show ?thesis
    using assms trim by (auto simp: parseSortingState_def serializeSortingState_def column_id_def)
qed

section \<open>The search of a table\<close>

text \<open>
  A field of the search: a text, or a list of texts; other scalars stand for their \<open>String\<close>.  A missing
  field is \<open>undefined\<close>.
\<close>

datatype field_value = OneText js_string | ManyTexts "js_string list"

record table_search =
  ts_q :: "js_string option"
  ts_page :: js_num
  ts_per_page :: js_num
  ts_sort :: "js_string option"
  ts_fields :: "js_string \<Rightarrow> field_value option"

record filter_key =
  fk_id :: js_string
  fk_multiple :: bool

record pagination =
  pg_index :: int
  pg_size :: int

record column_filter =
  cf_id :: js_string
  cf_values :: "js_string list"

text \<open>A value, or a function of the previous one.\<close>

datatype 'a updater = Update "'a \<Rightarrow> 'a" | Replace 'a

fun updated :: "'a updater \<Rightarrow> 'a \<Rightarrow> 'a" where
  "updated (Update f) x = f x"
| "updated (Replace y) x = y"

definition table_filters :: "filter_key list \<Rightarrow> table_search \<Rightarrow> column_filter list" where
  "table_filters filterKeys search =
     concat (map (\<lambda>key. case ts_fields search (fk_id key) of
         None \<Rightarrow> []
       | Some (ManyTexts vs) \<Rightarrow> (if vs \<noteq> [] then [\<lparr>cf_id = fk_id key, cf_values = vs\<rparr>] else [])
       | Some (OneText v) \<Rightarrow> (if v \<noteq> [] then [\<lparr>cf_id = fk_id key, cf_values = [v]\<rparr>] else []))
       filterKeys)"

definition table_sorting :: "table_search \<Rightarrow> sorting_item list" where
  "table_sorting search = parseSortingState (ts_sort search)"

definition int_part :: "js_num \<Rightarrow> int" where
  "int_part x = coalesce (int_of_num x) 0"

definition table_pagination :: "table_search \<Rightarrow> pagination" where
  "table_pagination search =
     \<lparr>pg_index = int_part (ts_page search) - 1, pg_size = int_part (ts_per_page search)\<rparr>"

definition onPaginationChange :: "pagination updater \<Rightarrow> table_search \<Rightarrow> table_search" where
  "onPaginationChange u search =
     (let next = updated u (table_pagination search)
      in search\<lparr>ts_page := normalizePage (Some (num_of_int (pg_index next + 1))),
                ts_per_page := normalizePageSize (Some (num_of_int (pg_size next))) (num_of_int DEFAULT_PAGE_SIZE)\<rparr>)"

definition onSortingChange :: "sorting_item list updater \<Rightarrow> table_search \<Rightarrow> table_search" where
  "onSortingChange u search =
     (let next = updated u (table_sorting search)
      in search\<lparr>ts_page := num_of_int 1, ts_sort := nonblank (serializeSortingState (singleSort next))\<rparr>)"

text \<open>
  The value of the first filter with a key's id, without empty texts; the last entry for an id counts,
  as in \<open>Object.fromEntries\<close>.
\<close>

definition filter_value :: "column_filter list \<Rightarrow> filter_key \<Rightarrow> field_value option" where
  "filter_value next key =
     (let items = (case List.find (\<lambda>f. cf_id f = fk_id key) next of
                     None \<Rightarrow> []
                   | Some f \<Rightarrow> filter (\<lambda>v. v \<noteq> []) (cf_values f))
      in if fk_multiple key then (if items \<noteq> [] then Some (ManyTexts items) else None)
         else (case items of [] \<Rightarrow> None | v # _ \<Rightarrow> Some (OneText v)))"

definition set_fields ::
    "(js_string \<times> field_value option) list \<Rightarrow> (js_string \<Rightarrow> field_value option) \<Rightarrow> js_string \<Rightarrow> field_value option" where
  "set_fields entries m = foldl (\<lambda>fs (k, v). fs(k := v)) m entries"

definition onColumnFiltersChange ::
    "filter_key list \<Rightarrow> column_filter list updater \<Rightarrow> table_search \<Rightarrow> table_search" where
  "onColumnFiltersChange filterKeys u search =
     (let next = updated u (table_filters filterKeys search)
      in search\<lparr>ts_fields := set_fields (map (\<lambda>key. (fk_id key, filter_value next key)) filterKeys) (ts_fields search),
                ts_page := num_of_int 1\<rparr>)"

definition onQueryChange :: "js_string option \<Rightarrow> table_search \<Rightarrow> table_search" where
  "onQueryChange q search = search\<lparr>ts_q := q, ts_page := num_of_int 1\<rparr>"

definition clearSearchKeys :: "js_string list \<Rightarrow> table_search \<Rightarrow> table_search" where
  "clearSearchKeys keys search =
     search\<lparr>ts_fields := set_fields (map (\<lambda>k. (k, None)) keys) (ts_fields search), ts_page := num_of_int 1\<rparr>"

definition isFiltered :: "filter_key list \<Rightarrow> js_string list \<Rightarrow> table_search \<Rightarrow> bool" where
  "isFiltered filterKeys scopeKeys search \<longleftrightarrow>
     ts_q search \<noteq> None \<or>
     list_ex (\<lambda>f. cf_values f \<noteq> []) (table_filters filterKeys search) \<or>
     list_ex (\<lambda>key. ts_fields search key \<noteq> None) scopeKeys"

text \<open>The handlers of the hook.\<close>

datatype table_event =
    Paginate "pagination updater"
  | SortBy "sorting_item list updater"
  | FilterColumns "column_filter list updater"
  | SearchFor "js_string option"
  | ClearKeys "js_string list"

fun table_step :: "filter_key list \<Rightarrow> table_search \<Rightarrow> table_event \<Rightarrow> table_search" where
  "table_step filterKeys search (Paginate u) = onPaginationChange u search"
| "table_step filterKeys search (SortBy u) = onSortingChange u search"
| "table_step filterKeys search (FilterColumns u) = onColumnFiltersChange filterKeys u search"
| "table_step filterKeys search (SearchFor q) = onQueryChange q search"
| "table_step filterKeys search (ClearKeys keys) = clearSearchKeys keys search"

text \<open>The page of a search is a positive safe integer, its size in range.\<close>

definition search_ok :: "table_search \<Rightarrow> bool" where
  "search_ok s \<longleftrightarrow>
     (\<exists>n. ts_page s = num_of_int n \<and> 1 \<le> n \<and> n \<le> max_safe_integer) \<and> page_size_ok (ts_per_page s)"

lemma page_one_ok [simp]: "\<exists>n. num_of_int 1 = num_of_int n \<and> 1 \<le> n \<and> n \<le> max_safe_integer"
  by (rule exI [of _ 1]) (simp add: max_safe_integer_def)

lemma search_ok_step: "search_ok s \<Longrightarrow> search_ok (table_step keys s e)"
  using page_one_ok
  by (cases e)
    (simp_all add: search_ok_def onPaginationChange_def onSortingChange_def onColumnFiltersChange_def
      onQueryChange_def clearSearchKeys_def Let_def normalizePage_bounds normalizePageSize_ok)

lemma search_ok_run: "search_ok s \<Longrightarrow> search_ok (foldl (table_step keys) s es)"
  by (induction es arbitrary: s) (simp_all add: search_ok_step)

lemma first_page_again:
  "\<forall>u. e \<noteq> Paginate u \<Longrightarrow> ts_page (table_step keys s e) = num_of_int 1"
  by (cases e) (simp_all add: onSortingChange_def onColumnFiltersChange_def onQueryChange_def
      clearSearchKeys_def Let_def)

lemma sorting_kept:
  assumes "\<forall>item \<in> set items. column_id (so_id item)"
  shows "table_sorting (onSortingChange (Replace items) s) = singleSort items"
proof (cases items)
  case (Cons item rest)
  with assms have "column_id (so_id item)" by simp
  from parse_serialized [OF this, of "so_desc item" "[]"] show ?thesis
    by (simp add: Cons table_sorting_def onSortingChange_def singleSort_def nonblank_def
        serializeSortingState_def)
qed (simp add: table_sorting_def onSortingChange_def singleSort_def nonblank_def
    serializeSortingState_def parseSortingState_def)

lemma set_fields_other: "k \<notin> fst ` set entries \<Longrightarrow> set_fields entries m k = m k"
  by (induction entries arbitrary: m) (auto simp: set_fields_def)

lemma set_fields_key:
  "distinct (map fst entries) \<Longrightarrow> (k, v) \<in> set entries \<Longrightarrow> set_fields entries m k = v"
proof (induction entries arbitrary: m)
  case (Cons e entries)
  obtain k' v' where e: "e = (k', v')" by (cases e)
  have step: "set_fields (e # entries) m = set_fields entries (m(k' := v'))"
    by (simp add: set_fields_def e)
  show ?case
  proof (cases "(k, v) \<in> set entries")
    case True
    with Cons.IH Cons.prems(1) show ?thesis by (simp add: step)
  next
    case False
    with Cons.prems have kv: "k' = k" "v' = v" "k \<notin> fst ` set entries" by (auto simp: e)
    then show ?thesis by (simp add: step set_fields_other)
  qed
qed simp

text \<open>What a change of the column filters leaves for a key.\<close>

definition kept_filter :: "column_filter list \<Rightarrow> filter_key \<Rightarrow> column_filter list" where
  "kept_filter next key =
     (let items = (case List.find (\<lambda>f. cf_id f = fk_id key) next of
                     None \<Rightarrow> []
                   | Some f \<Rightarrow> filter (\<lambda>v. v \<noteq> []) (cf_values f))
      in if items = [] then []
         else [\<lparr>cf_id = fk_id key, cf_values = (if fk_multiple key then items else [hd items])\<rparr>])"

lemma filters_kept:
  assumes "distinct (map fk_id keys)"
  shows "table_filters keys (onColumnFiltersChange keys (Replace next) s) = concat (map (kept_filter next) keys)"
proof -
  let ?entries = "map (\<lambda>key. (fk_id key, filter_value next key)) keys"
  have "distinct (map fst ?entries)" using assms by (simp add: comp_def)
  from set_fields_key [OF this] have field:
    "set_fields ?entries (ts_fields s) (fk_id key) = filter_value next key" if "key \<in> set keys" for key
    using that by auto
  have nonempty: "hd items \<noteq> []" if "items = filter (\<lambda>v. v \<noteq> []) vs" "items \<noteq> []" for items vs :: "js_string list"
    using that hd_in_set [of items] by auto
  have "(case filter_value next key of
         None \<Rightarrow> []
       | Some (ManyTexts vs) \<Rightarrow> (if vs \<noteq> [] then [\<lparr>cf_id = fk_id key, cf_values = vs\<rparr>] else [])
       | Some (OneText v) \<Rightarrow> (if v \<noteq> [] then [\<lparr>cf_id = fk_id key, cf_values = [v]\<rparr>] else []))
      = kept_filter next key" for key
  proof -
    define items where "items = (case List.find (\<lambda>f. cf_id f = fk_id key) next of
        None \<Rightarrow> [] | Some f \<Rightarrow> filter (\<lambda>v. v \<noteq> []) (cf_values f))"
    have "items \<noteq> [] \<Longrightarrow> hd items \<noteq> []"
      using nonempty by (auto simp: items_def split: option.splits)
    then show ?thesis
      unfolding filter_value_def kept_filter_def items_def [symmetric] Let_def
      by (cases items) simp_all
  qed
  with field show ?thesis
    by (simp add: table_filters_def onColumnFiltersChange_def Let_def cong: map_cong)
qed

section \<open>The last page\<close>

text \<open>The page count a list page passes on, and the effect of \<open>useDataTable\<close>.\<close>

definition list_page_count :: "int option \<Rightarrow> int \<Rightarrow> int" where
  "list_page_count count perPage = (case count of None \<Rightarrow> - 1 | Some n \<Rightarrow> ceil_div n perPage)"

definition normalizedPageCount :: "int \<Rightarrow> int" where
  "normalizedPageCount pageCount = (if pageCount < 0 then - 1 else max 1 pageCount)"

definition clamp_page :: "int \<Rightarrow> table_search \<Rightarrow> table_search" where
  "clamp_page pageCount search =
     (let lastPageIndex = normalizedPageCount pageCount - 1; page = table_pagination search
      in if normalizedPageCount pageCount < 0 then search
         else if pg_index page \<le> lastPageIndex then search
         else onPaginationChange (Replace (page\<lparr>pg_index := lastPageIndex\<rparr>)) search)"

lemma clamp_page_settles:
  assumes ok: "search_ok s" and count: "0 \<le> pageCount" "pageCount \<le> max_safe_integer"
  shows "clamp_page pageCount s =
      s\<lparr>ts_page := num_of_int (min (int_part (ts_page s)) (max 1 pageCount))\<rparr>"
    and "clamp_page pageCount (clamp_page pageCount s) = clamp_page pageCount s"
proof -
  obtain n k where n: "ts_page s = num_of_int n" "1 \<le> n" "n \<le> max_safe_integer"
    and k: "ts_per_page s = num_of_int k" "1 \<le> k" "k \<le> MAX_PAGE_SIZE"
    using ok by (auto simp: search_ok_def page_size_ok_iff)
  have last: "1 \<le> max 1 pageCount" "max 1 pageCount \<le> max_safe_integer"
    using count by (auto simp: max_safe_integer_def)
  have clamp: "clamp_page pageCount t = t\<lparr>ts_page := num_of_int (min (int_part (ts_page t)) (max 1 pageCount))\<rparr>"
    if t: "ts_page t = num_of_int m" "ts_per_page t = num_of_int k" for t m
  proof (cases "m \<le> max 1 pageCount")
    case True
    then show ?thesis
      using count t by (auto simp: clamp_page_def normalizedPageCount_def table_pagination_def
          int_part_def Let_def min_def)
  next
    case False
    then show ?thesis
      using count t normalize_in_range(1) [OF last] normalize_in_range(2) [OF k(2,3)]
      by (auto simp: clamp_page_def normalizedPageCount_def table_pagination_def int_part_def Let_def
          min_def onPaginationChange_def)
  qed
  from clamp [OF n(1) k(1)] show
    "clamp_page pageCount s = s\<lparr>ts_page := num_of_int (min (int_part (ts_page s)) (max 1 pageCount))\<rparr>" .
  moreover have "clamp_page pageCount (s\<lparr>ts_page := num_of_int j\<rparr>) =
      s\<lparr>ts_page := num_of_int (min j (max 1 pageCount))\<rparr>" for j
    using clamp [of "s\<lparr>ts_page := num_of_int j\<rparr>" j] k(1) by (simp add: int_part_def)
  ultimately show "clamp_page pageCount (clamp_page pageCount s) = clamp_page pageCount s" by simp
qed

text \<open>The rows a page shows: from the first to the last of the total.\<close>

definition shown_rows :: "pagination \<Rightarrow> int \<Rightarrow> int \<Rightarrow> int \<times> int" where
  "shown_rows page pageRowCount rowCount =
     (let firstRow = (if pageRowCount = 0 then 0 else pg_index page * pg_size page + 1);
          lastRow = (if pageRowCount = 0 then 0 else min rowCount (firstRow + pageRowCount - 1))
      in (firstRow, lastRow))"

text \<open>They are the rows of a page of a list, counted from one, and lie within the total.\<close>

lemma shown_rows_of_page:
  assumes "0 \<le> pg_index page" and "1 \<le> pg_size page"
    and items: "items = take (nat (pg_size page)) (drop (nat (pg_index page * pg_size page)) xs)"
    and "items \<noteq> []"
  shows "shown_rows page (int (length items)) (int (length xs)) =
      (pg_index page * pg_size page + 1, pg_index page * pg_size page + int (length items))"
    and "pg_index page * pg_size page + int (length items) \<le> int (length xs)"
proof -
  have start: "0 \<le> pg_index page * pg_size page" using assms(1,2) by simp
  have length: "length items = min (nat (pg_size page)) (length xs - nat (pg_index page * pg_size page))"
    by (simp add: items min.commute)
  with assms(4) have "nat (pg_index page * pg_size page) < length xs" by (cases items) auto
  with length start show within: "pg_index page * pg_size page + int (length items) \<le> int (length xs)" by linarith
  with assms(4) show "shown_rows page (int (length items)) (int (length xs)) =
      (pg_index page * pg_size page + 1, pg_index page * pg_size page + int (length items))"
    by (simp add: shown_rows_def Let_def)
qed

section \<open>The search box\<close>

text \<open>
  \<open>useDebouncedCallback\<close>: at most one timer waits, with the arguments of the last call.
\<close>

definition debounce_run :: "'a \<Rightarrow> 'a option \<Rightarrow> 'a option" where
  "debounce_run args timer = Some args"

definition debounce_cancel :: "'a option \<Rightarrow> 'a option" where
  "debounce_cancel timer = None"

text \<open>
  The box: the query of the URL, the draft, the value seen at the last rendering and the timer.  The
  inputs are a key stroke, the end of the delay, a change of the query from elsewhere and unmounting.
\<close>

record search_box =
  sb_q :: "js_string option"
  sb_draft :: js_string
  sb_previous :: js_string
  sb_timer :: "js_string option"

datatype search_box_event = TypeText js_string | DelayOver | QuerySet "js_string option" | Unmount

definition render_box :: "search_box \<Rightarrow> search_box" where
  "render_box s =
     (let v = coalesce (sb_q s) []
      in if sb_previous s \<noteq> v then s\<lparr>sb_previous := v, sb_draft := v\<rparr> else s)"

definition write_query :: "js_string \<Rightarrow> js_string option" where
  "write_query nextValue = (let trimmed = js_trim nextValue in if trimmed = [] then None else Some trimmed)"

fun search_box_step :: "search_box \<Rightarrow> search_box_event \<Rightarrow> search_box" where
  "search_box_step s (TypeText v) =
     render_box (s\<lparr>sb_draft := v, sb_timer := debounce_run v (sb_timer s)\<rparr>)"
| "search_box_step s DelayOver =
     (case sb_timer s of
        None \<Rightarrow> s
      | Some v \<Rightarrow> render_box (s\<lparr>sb_q := write_query v, sb_timer := None\<rparr>))"
| "search_box_step s (QuerySet q) = render_box (s\<lparr>sb_q := q\<rparr>)"
| "search_box_step s Unmount = s\<lparr>sb_timer := debounce_cancel (sb_timer s)\<rparr>"

definition search_pending :: "bool \<Rightarrow> search_box \<Rightarrow> bool" where
  "search_pending loading s \<longleftrightarrow> loading \<or> js_trim (sb_draft s) \<noteq> coalesce (sb_q s) []"

definition open_box :: "js_string option \<Rightarrow> search_box" where
  "open_box q = \<lparr>sb_q = q, sb_draft = coalesce q [], sb_previous = coalesce q [], sb_timer = None\<rparr>"

text \<open>
  The query of the URL is trimmed and not empty, as the search schema makes it; the box shows it unless
  a timer waits or was cancelled.
\<close>

definition tidy_query :: "js_string option \<Rightarrow> bool" where
  "tidy_query q \<longleftrightarrow> (\<forall>v. q = Some v \<longrightarrow> v \<noteq> [] \<and> js_trim v = v)"

definition box_ok :: "search_box \<Rightarrow> bool" where
  "box_ok s \<longleftrightarrow>
     tidy_query (sb_q s) \<and> sb_previous s = coalesce (sb_q s) [] \<and>
     (case sb_timer s of
        None \<Rightarrow> js_trim (sb_draft s) = coalesce (sb_q s) []
      | Some v \<Rightarrow> sb_draft s = v \<or> sb_draft s = coalesce (sb_q s) [])"

lemma tidy_write: "tidy_query (write_query v)" "coalesce (write_query v) [] = js_trim v"
  by (auto simp: tidy_query_def write_query_def Let_def)

lemma tidy_trim: "tidy_query q \<Longrightarrow> js_trim (coalesce q []) = coalesce q []"
  by (cases q) (simp_all add: tidy_query_def)

definition tidy_event :: "search_box_event \<Rightarrow> bool" where
  "tidy_event e \<longleftrightarrow> (case e of QuerySet q \<Rightarrow> tidy_query q | Unmount \<Rightarrow> False | _ \<Rightarrow> True)"

lemma box_ok_open: "tidy_query q \<Longrightarrow> box_ok (open_box q)"
  by (simp add: box_ok_def open_box_def tidy_trim)

lemma box_ok_step:
  assumes "box_ok s" and "tidy_event e"
  shows "box_ok (search_box_step s e)"
  using assms
  by (cases e)
    (auto simp: box_ok_def render_box_def Let_def debounce_run_def tidy_event_def tidy_write tidy_trim
      split: option.splits)

lemma box_ok_run: "box_ok s \<Longrightarrow> \<forall>e \<in> set es. tidy_event e \<Longrightarrow> box_ok (foldl search_box_step s es)"
  by (induction es arbitrary: s) (simp_all add: box_ok_step)

text \<open>After the delay the box is settled, and the query is what was typed last.\<close>

lemma box_settles:
  assumes "box_ok s" and "sb_timer s = Some v"
  shows "sb_q (search_box_step s DelayOver) = write_query v \<and>
    \<not> search_pending False (search_box_step s DelayOver)"
proof -
  have "box_ok (search_box_step s DelayOver)" using assms by (intro box_ok_step) (simp_all add: tidy_event_def)
  moreover have "sb_timer (search_box_step s DelayOver) = None" "sb_q (search_box_step s DelayOver) = write_query v"
    using assms(2) by (simp_all add: render_box_def Let_def)
  ultimately show ?thesis by (simp add: box_ok_def search_pending_def)
qed

lemma typed_last:
  "sb_timer (search_box_step s (TypeText v)) = Some v"
  by (simp add: render_box_def debounce_run_def Let_def)

text \<open>A change of the query from elsewhere leaves the timer running.\<close>

lemma reset_undone:
  "sb_q (foldl search_box_step (open_box q) [TypeText v, QuerySet None]) = None \<and>
   sb_q (foldl search_box_step (open_box q) [TypeText v, QuerySet None, DelayOver]) = write_query v"
  by (simp add: open_box_def render_box_def debounce_run_def Let_def)

section \<open>Export\<close>

text \<open>
  The rows of an export: the selected ones, else all rows that \<open>loadRows\<close> gives, else the filtered rows of
  the page.  A missing cell is empty.
\<close>

definition export_rows :: "'r list \<Rightarrow> (unit \<Rightarrow> 'e + 'r list) option \<Rightarrow> 'r list \<Rightarrow> 'e + 'r list" where
  "export_rows selected loadRows filtered =
     (if selected \<noteq> [] then Inr selected
      else (case loadRows of None \<Rightarrow> Inr filtered | Some load \<Rightarrow> load ()))"

definition export_data ::
    "(js_string \<times> ('r \<Rightarrow> 'c option)) list \<Rightarrow> 'c \<Rightarrow> 'r list \<Rightarrow> js_string list \<times> 'c list list" where
  "export_data columns blank rows =
     (map fst columns, map (\<lambda>row. map (\<lambda>(header, cell_of). coalesce (cell_of row) blank) columns) rows)"

lemma export_rectangular:
  "export_data columns blank rows = (header, cells) \<Longrightarrow>
     length cells = length rows \<and> (\<forall>row \<in> set cells. length row = length header)"
  by (auto simp: export_data_def)

end
