(* ===== verification/PageForm.thy ===== *)
theory PageForm
  imports Forms "HOL-Library.Sublist"
begin

text \<open>
  What the page forms share beside their schema: the guard that asks before unsaved changes are left
  (\<open>web/src/hooks/use-page-form-exit-guard.tsx\<close>) and the tabs that show where a submitted form is
  invalid (\<open>web/src/components/form-tabs.tsx\<close>).

  Main results: unsaved changes are never left without a grant (a confirmation, or a callback the page
  runs without a prompt); confirming completes exactly the navigation that was blocked; the tab
  revealed after a submission is the first one marked invalid.
\<close>

section \<open>The exit guard\<close>

text \<open>
  The state of the hook (\<open>discardRequested\<close>, \<open>allowExit\<close>), the navigation the router's blocker holds,
  whether the form has other than its default values, the path of the page and, once it is left, where
  to and whether changes were lost.
\<close>

record exit_guard =
  eg_requested :: bool
  eg_allow :: bool
  eg_blocked :: "js_string option"
  eg_dirty :: bool
  eg_path :: js_string
  eg_left :: "(js_string \<times> bool) option"

definition hasUnsavedChanges :: "bool \<Rightarrow> exit_guard \<Rightarrow> bool" where
  "hasUnsavedChanges enabled s \<longleftrightarrow> enabled \<and> eg_dirty s"

definition shouldBlockNavigation :: "bool \<Rightarrow> js_string \<Rightarrow> exit_guard \<Rightarrow> bool" where
  "shouldBlockNavigation enabled to s \<longleftrightarrow>
     eg_path s \<noteq> to \<and> hasUnsavedChanges enabled s \<and> \<not> eg_allow s"

definition shouldBlockBeforeUnload :: "bool \<Rightarrow> exit_guard \<Rightarrow> bool" where
  "shouldBlockBeforeUnload enabled s \<longleftrightarrow> hasUnsavedChanges enabled s \<and> \<not> eg_allow s"

text \<open>The router: a navigation that is not blocked is made; the page is left when the path changes.\<close>

definition navigate_to :: "js_string \<Rightarrow> exit_guard \<Rightarrow> exit_guard" where
  "navigate_to to s =
     (if eg_path s = to then s\<lparr>eg_blocked := None\<rparr>
      else s\<lparr>eg_blocked := None, eg_left := Some (to, eg_dirty s)\<rparr>)"

text \<open>
  \<open>runWithoutPrompt\<close> lets navigations pass from the start of its callback until it is settled, whatever
  its outcome.
\<close>

definition runWithoutPrompt :: "exit_guard \<Rightarrow> exit_guard" where
  "runWithoutPrompt s = s\<lparr>eg_allow := True\<rparr>"

definition callback_settled :: "exit_guard \<Rightarrow> exit_guard" where
  "callback_settled s = s\<lparr>eg_allow := False\<rparr>"

definition requestDiscard :: "bool \<Rightarrow> exit_guard \<Rightarrow> exit_guard" where
  "requestDiscard enabled s =
     (if hasUnsavedChanges enabled s then s\<lparr>eg_requested := True\<rparr> else runWithoutPrompt s)"

definition dialog_open :: "exit_guard \<Rightarrow> bool" where
  "dialog_open s \<longleftrightarrow> eg_requested s \<or> eg_blocked s \<noteq> None"

definition close_dialog :: "exit_guard \<Rightarrow> exit_guard" where
  "close_dialog s = s\<lparr>eg_requested := False, eg_blocked := None\<rparr>"

definition confirm_discard :: "exit_guard \<Rightarrow> exit_guard" where
  "confirm_discard s =
     (case eg_blocked s of
        Some to \<Rightarrow> navigate_to to (runWithoutPrompt s)
      | None \<Rightarrow> runWithoutPrompt (s\<lparr>eg_requested := False\<rparr>))"

datatype guard_event =
    FormChanged bool | GoTo js_string | RequestDiscard | CloseDialog | ConfirmDiscard
  | RunAllowed | CallbackSettled

text \<open>Once the page is left nothing of it is there to react; the dialog's buttons only while it is open.\<close>

fun guard_step :: "bool \<Rightarrow> exit_guard \<Rightarrow> guard_event \<Rightarrow> exit_guard" where
  "guard_step enabled s e =
     (if eg_left s \<noteq> None then s
      else case e of
        FormChanged d \<Rightarrow> s\<lparr>eg_dirty := d\<rparr>
      | GoTo to \<Rightarrow>
          (if shouldBlockNavigation enabled to s then s\<lparr>eg_blocked := Some to\<rparr> else navigate_to to s)
      | RequestDiscard \<Rightarrow> requestDiscard enabled s
      | CloseDialog \<Rightarrow> (if dialog_open s then close_dialog s else s)
      | ConfirmDiscard \<Rightarrow> (if dialog_open s then confirm_discard s else s)
      | RunAllowed \<Rightarrow> runWithoutPrompt s
      | CallbackSettled \<Rightarrow> callback_settled s)"

definition open_guard :: "js_string \<Rightarrow> exit_guard" where
  "open_guard path =
     \<lparr>eg_requested = False, eg_allow = False, eg_blocked = None, eg_dirty = False, eg_path = path,
      eg_left = None\<rparr>"

text \<open>
  What lets unsaved changes be left: the user confirms, the page runs a callback without a prompt, or the
  user discards a form that has no changes and changes it while the page is being left.
\<close>

fun grants :: "bool \<Rightarrow> exit_guard \<Rightarrow> guard_event \<Rightarrow> bool" where
  "grants enabled s ConfirmDiscard \<longleftrightarrow> dialog_open s"
| "grants enabled s RunAllowed \<longleftrightarrow> True"
| "grants enabled s RequestDiscard \<longleftrightarrow> \<not> hasUnsavedChanges enabled s"
| "grants enabled s _ \<longleftrightarrow> False"

fun granted :: "bool \<Rightarrow> exit_guard \<Rightarrow> guard_event list \<Rightarrow> bool" where
  "granted enabled s [] \<longleftrightarrow> False"
| "granted enabled s (e # es) \<longleftrightarrow> grants enabled s e \<or> granted enabled (guard_step enabled s e) es"

lemma ungranted_step:
  assumes "\<not> eg_allow s" and "\<forall>to. eg_left s \<noteq> Some (to, True)" and "\<not> grants True s e"
  shows "\<not> eg_allow (guard_step True s e) \<and> (\<forall>to. eg_left (guard_step True s e) \<noteq> Some (to, True))"
  using assms
  by (cases e) (auto simp: shouldBlockNavigation_def hasUnsavedChanges_def navigate_to_def
      requestDiscard_def close_dialog_def callback_settled_def)

lemma ungranted_run:
  assumes "\<not> eg_allow s" and "\<forall>to. eg_left s \<noteq> Some (to, True)" and "\<not> granted True s es"
  shows "\<not> eg_allow (foldl (guard_step True) s es) \<and>
    (\<forall>to. eg_left (foldl (guard_step True) s es) \<noteq> Some (to, True))"
  using assms
proof (induction es arbitrary: s)
  case (Cons e es)
  from Cons.prems(3) have "\<not> grants True s e" "\<not> granted True (guard_step True s e) es" by simp_all
  with ungranted_step [OF Cons.prems(1,2)] Cons.IH [of "guard_step True s e"] show ?case
    by (simp del: guard_step.simps)
qed simp

lemma guard_path: "eg_path (foldl (guard_step enabled) s es) = eg_path s"
proof (induction es arbitrary: s)
  case (Cons e es)
  have "eg_path (guard_step enabled s e) = eg_path s"
    by (cases e) (auto simp: navigate_to_def runWithoutPrompt_def callback_settled_def requestDiscard_def
        close_dialog_def confirm_discard_def split: option.splits)
  with Cons.IH [of "guard_step enabled s e"] show ?case by (simp del: guard_step.simps)
qed simp

text \<open>A blocked navigation: confirming makes it, closing the dialog keeps the page and its changes.\<close>

lemma blocked_navigation:
  assumes "eg_left s = None" and "eg_dirty s" and "\<not> eg_allow s" and "eg_path s \<noteq> to"
  defines "b \<equiv> guard_step True s (GoTo to)"
  shows "dialog_open b \<and> eg_left b = None \<and>
    eg_left (guard_step True b ConfirmDiscard) = Some (to, True) \<and>
    eg_left (guard_step True b CloseDialog) = None \<and> eg_dirty (guard_step True b CloseDialog) \<and>
    \<not> dialog_open (guard_step True b CloseDialog)"
  using assms
  by (simp add: shouldBlockNavigation_def hasUnsavedChanges_def dialog_open_def confirm_discard_def
      navigate_to_def runWithoutPrompt_def close_dialog_def)

text \<open>A form without changes is never held back.\<close>

lemma clean_form_leaves:
  assumes "eg_left s = None" and "\<not> eg_dirty s" and "eg_path s \<noteq> to"
  shows "eg_left (guard_step enabled s (GoTo to)) = Some (to, False)"
  using assms by (simp add: shouldBlockNavigation_def hasUnsavedChanges_def navigate_to_def)

section \<open>Tabs\<close>

record form_tab =
  ft_value :: js_string
  ft_fields :: "js_string list"

type_synonym 'e field_meta = "(js_string \<times> 'e list option) list"

definition fieldMatches :: "js_string \<Rightarrow> js_string \<Rightarrow> bool" where
  "fieldMatches fieldName configuredName \<longleftrightarrow>
     fieldName = configuredName \<or> prefix (configuredName @ ''.'') fieldName \<or>
     prefix (configuredName @ ''['') fieldName"

definition formTabHasErrors :: "'e field_meta \<Rightarrow> form_tab \<Rightarrow> bool" where
  "formTabHasErrors fieldMeta tab =
     list_ex (\<lambda>(fieldName, meta).
       (case meta of None \<Rightarrow> False | Some errors \<Rightarrow> errors \<noteq> []) \<and>
       list_ex (\<lambda>configuredName. fieldMatches fieldName configuredName) (ft_fields tab)) fieldMeta"

definition firstInvalidFormTab :: "nat \<Rightarrow> 'e field_meta \<Rightarrow> form_tab list \<Rightarrow> js_string option" where
  "firstInvalidFormTab submissionAttempts fieldMeta tabs =
     (if submissionAttempts = 0 then None
      else map_option ft_value (List.find (formTabHasErrors fieldMeta) tabs))"

text \<open>The active tab after \<open>revealFirstInvalidFormTab\<close>; focus is not modelled.\<close>

definition revealFirstInvalidFormTab ::
    "nat \<Rightarrow> 'e field_meta \<Rightarrow> form_tab list \<Rightarrow> js_string \<Rightarrow> js_string" where
  "revealFirstInvalidFormTab submissionAttempts fieldMeta tabs active =
     (case firstInvalidFormTab submissionAttempts fieldMeta tabs of
        None \<Rightarrow> active
      | Some tab \<Rightarrow> (if tab = [] then active else tab))"

definition tab_marked :: "nat \<Rightarrow> 'e field_meta \<Rightarrow> form_tab \<Rightarrow> bool" where
  "tab_marked submissionAttempts fieldMeta tab \<longleftrightarrow>
     0 < submissionAttempts \<and> formTabHasErrors fieldMeta tab"

text \<open>The errors of the fields that a validation's issues name.\<close>

definition issue_meta :: "issue list \<Rightarrow> js_string field_meta" where
  "issue_meta issues = map (\<lambda>i. (is_path i, Some [is_message i])) issues"

definition tabs_cover :: "form_tab list \<Rightarrow> js_string \<Rightarrow> bool" where
  "tabs_cover tabs path \<longleftrightarrow>
     list_ex (\<lambda>tab. ft_value tab \<noteq> [] \<and> list_ex (fieldMatches path) (ft_fields tab)) tabs"

lemma issue_meta_errors:
  "formTabHasErrors (issue_meta issues) tab \<longleftrightarrow>
     (\<exists>i \<in> set issues. \<exists>f \<in> set (ft_fields tab). fieldMatches (is_path i) f)"
  by (auto simp: formTabHasErrors_def issue_meta_def list_ex_iff)

text \<open>A submission that found issues brings the first tab marked invalid to the front.\<close>

lemma revealed_tab:
  assumes issues: "issues \<noteq> []" and cover: "\<forall>i \<in> set issues. tabs_cover tabs (is_path i)"
    and "0 < attempts" and named: "\<forall>tab \<in> set tabs. ft_value tab \<noteq> []"
  shows "\<exists>before tab after. tabs = before @ tab # after \<and>
    revealFirstInvalidFormTab attempts (issue_meta issues) tabs active = ft_value tab \<and>
    tab_marked attempts (issue_meta issues) tab \<and>
    (\<forall>t \<in> set before. \<not> tab_marked attempts (issue_meta issues) t)"
proof -
  let ?bad = "formTabHasErrors (issue_meta issues)"
  from issues obtain i where i: "i \<in> set issues" by (cases issues) auto
  with cover obtain tab f where "tab \<in> set tabs" "f \<in> set (ft_fields tab)" "fieldMatches (is_path i) f"
    unfolding tabs_cover_def list_ex_iff by blast
  with i have "tab \<in> set tabs" "?bad tab" unfolding issue_meta_errors by blast+
  then obtain first where first: "List.find ?bad tabs = Some first"
    by (cases "List.find ?bad tabs") (auto simp: find_None_iff)
  then obtain n where n: "n < length tabs" "?bad (tabs ! n)" "first = tabs ! n"
    "\<forall>m < n. \<not> ?bad (tabs ! m)"
    by (auto simp: find_Some_iff)
  show ?thesis
  proof (intro exI conjI)
    show "tabs = take n tabs @ tabs ! n # drop (Suc n) tabs" using n(1) by (rule id_take_nth_drop)
    have "ft_value first \<noteq> []" using named n by auto
    then show "revealFirstInvalidFormTab attempts (issue_meta issues) tabs active = ft_value (tabs ! n)"
      using first n(3) assms(3) by (simp add: revealFirstInvalidFormTab_def firstInvalidFormTab_def)
    show "tab_marked attempts (issue_meta issues) (tabs ! n)" using n(2) assms(3) by (simp add: tab_marked_def)
    show "\<forall>t \<in> set (take n tabs). \<not> tab_marked attempts (issue_meta issues) t"
      using n(1,4) by (auto simp: tab_marked_def in_set_conv_nth)
  qed
qed

end
