(* ===== verification/LabelForm.thy ===== *)
theory LabelForm
  imports PageForm DataTable HostQueries Metadata
begin

text \<open>
  The form of a label, after \<open>web/src/features/labels/fields.tsx\<close>, and the tables its members are
  selected in, after \<open>web/src/features/labels/components/label-membership-selectors.tsx\<close>.

  Main results: a stored label saved as it is changes nothing; the values of a derived label always
  belong to its attribute; selecting a row changes exactly that row in the selection, on whatever page
  it is.
\<close>

section \<open>Data\<close>

record label_form =
  lf_name :: js_string
  lf_description :: js_string
  lf_query :: js_string
  lf_host_ids :: "int list"
  lf_derived_attribute :: js_string
  lf_derived_values :: "js_string list"
  lf_membership :: js_string

record label_criteria =
  lcr_attribute :: js_string
  lcr_values :: "js_string list"

record label_detail =
  ld_name :: js_string
  ld_description :: js_string
  ld_query :: "js_string option"
  ld_host_ids :: "int list option"
  ld_criteria :: "label_criteria option"
  ld_membership :: js_string

record label_mutation =
  lm_name :: js_string
  lm_description :: js_string
  lm_membership :: js_string
  lm_query :: "js_string option"
  lm_host_ids :: "int list option"
  lm_criteria :: "label_criteria option"

definition emptyLabel :: label_form where
  "emptyLabel =
     \<lparr>lf_name = [], lf_description = [], lf_query = ''select 1 from os_version where major >= 13;'',
      lf_host_ids = [], lf_derived_attribute = ''user_department'', lf_derived_values = [],
      lf_membership = ''dynamic''\<rparr>"

definition membershipFromString :: "js_string option \<Rightarrow> js_string" where
  "membershipFromString v =
     (case v of
        None \<Rightarrow> ''dynamic''
      | Some m \<Rightarrow> (if m = ''manual'' \<or> m = ''derived'' then m else ''dynamic''))"

definition derivedAttributeFromString :: "js_string option \<Rightarrow> js_string" where
  "derivedAttributeFromString v =
     (case v of
        None \<Rightarrow> ''user_department''
      | Some a \<Rightarrow>
          (if a = ''directory_group'' \<or> a = ''user'' \<or> a = ''user_department'' then a
           else ''user_department''))"

definition labelFromDetail :: "label_detail \<Rightarrow> label_form" where
  "labelFromDetail detail =
     \<lparr>lf_name = ld_name detail, lf_description = ld_description detail,
      lf_query = coalesce (ld_query detail) (lf_query emptyLabel),
      lf_host_ids = coalesce (ld_host_ids detail) [],
      lf_derived_attribute = derivedAttributeFromString (map_option lcr_attribute (ld_criteria detail)),
      lf_derived_values = coalesce (map_option lcr_values (ld_criteria detail)) [],
      lf_membership = membershipFromString (Some (ld_membership detail))\<rparr>"

section \<open>Validation and body\<close>

definition labelFormSchema :: "label_form \<Rightarrow> issue list" where
  "labelFormSchema form =
     requiredString ''Name'' ''name'' (lf_name form) @
     issue_if (\<not> list_all (\<lambda>i. \<bar>i\<bar> \<le> max_safe_integer) (lf_host_ids form)) ''host_ids'' ''Host selection is invalid.'' @
     issue_if (lf_derived_attribute form \<notin> set LABEL_DERIVED_ATTRIBUTE_VALUES) ''derived_attribute'' ''Invalid option'' @
     concat (map (requiredString ''Derived value'' ''derived_values'') (lf_derived_values form)) @
     issue_if (lf_membership form \<notin> set LABEL_MEMBERSHIP_VALUES) ''label_membership_type'' ''Invalid option'' @
     (if lf_membership form = ''dynamic'' then requiredString ''Query'' ''query'' (lf_query form) else []) @
     issue_if (lf_membership form = ''derived'' \<and> lf_derived_values form = [])
       ''derived_values'' ''Derived labels need at least one selected item.''"

definition label_output :: "label_form \<Rightarrow> label_form" where
  "label_output form =
     form\<lparr>lf_name := js_trim (lf_name form), lf_description := js_trim (lf_description form),
          lf_query := js_trim (lf_query form), lf_derived_values := map js_trim (lf_derived_values form)\<rparr>"

definition toBody :: "label_form \<Rightarrow> thrown + label_mutation" where
  "toBody form =
     (if labelFormSchema form \<noteq> [] then Inl (NativeError ''ZodError'')
      else (let cleaned = label_output form
            in Inr \<lparr>lm_name = lf_name cleaned, lm_description = lf_description cleaned,
                    lm_membership = lf_membership cleaned,
                    lm_query = (if lf_membership cleaned = ''dynamic'' then Some (lf_query cleaned) else None),
                    lm_host_ids = (if lf_membership cleaned = ''manual'' then Some (lf_host_ids cleaned) else None),
                    lm_criteria =
                      (if lf_membership cleaned = ''derived''
                       then Some \<lparr>lcr_attribute = lf_derived_attribute cleaned,
                                  lcr_values = lf_derived_values cleaned\<rparr>
                       else None)\<rparr>))"

text \<open>The labels a form may describe.\<close>

definition label_form_ok :: "label_form \<Rightarrow> bool" where
  "label_form_ok form \<longleftrightarrow>
     js_trim (lf_name form) \<noteq> [] \<and> (\<forall>i \<in> set (lf_host_ids form). \<bar>i\<bar> \<le> max_safe_integer) \<and>
     lf_derived_attribute form \<in> {''user_department'', ''directory_group'', ''user''} \<and>
     (\<forall>v \<in> set (lf_derived_values form). js_trim v \<noteq> []) \<and>
     (lf_membership form = ''dynamic'' \<and> js_trim (lf_query form) \<noteq> [] \<or>
      lf_membership form = ''manual'' \<or>
      lf_membership form = ''derived'' \<and> lf_derived_values form \<noteq> [])"

lemma label_issues_empty: "labelFormSchema form = [] \<longleftrightarrow> label_form_ok form"
  by (auto simp: labelFormSchema_def label_form_ok_def issue_simps list_all_iff
      LABEL_DERIVED_ATTRIBUTE_VALUES_def LABEL_MEMBERSHIP_VALUES_def)

text \<open>The server stores a label's body; what the body does not say is absent.\<close>

definition label_stores :: "label_mutation \<Rightarrow> label_detail \<Rightarrow> bool" where
  "label_stores m d \<longleftrightarrow>
     ld_name d = lm_name m \<and> ld_description d = lm_description m \<and> ld_membership d = lm_membership m \<and>
     ld_query d = lm_query m \<and> ld_host_ids d = lm_host_ids m \<and> ld_criteria d = lm_criteria m"

lemma reopened_label:
  assumes ok: "label_form_ok f" and body: "toBody f = Inr m" and stored: "label_stores m d"
  shows "label_form_ok (labelFromDetail d) \<and> toBody (labelFromDetail d) = Inr m"
proof -
  have m: "m = \<lparr>lm_name = js_trim (lf_name f), lm_description = js_trim (lf_description f),
      lm_membership = lf_membership f,
      lm_query = (if lf_membership f = ''dynamic'' then Some (js_trim (lf_query f)) else None),
      lm_host_ids = (if lf_membership f = ''manual'' then Some (lf_host_ids f) else None),
      lm_criteria = (if lf_membership f = ''derived''
        then Some \<lparr>lcr_attribute = lf_derived_attribute f, lcr_values = map js_trim (lf_derived_values f)\<rparr>
        else None)\<rparr>"
    using body by (auto simp: toBody_def label_output_def Let_def split: if_splits)
  have form: "labelFromDetail d =
      \<lparr>lf_name = js_trim (lf_name f), lf_description = js_trim (lf_description f),
       lf_query = (if lf_membership f = ''dynamic'' then js_trim (lf_query f) else lf_query emptyLabel),
       lf_host_ids = (if lf_membership f = ''manual'' then lf_host_ids f else []),
       lf_derived_attribute = (if lf_membership f = ''derived'' then lf_derived_attribute f else ''user_department''),
       lf_derived_values = (if lf_membership f = ''derived'' then map js_trim (lf_derived_values f) else []),
       lf_membership = lf_membership f\<rparr>"
    using stored ok
    by (auto simp: m label_stores_def labelFromDetail_def membershipFromString_def
        derivedAttributeFromString_def label_form_ok_def)
  have ok': "label_form_ok (labelFromDetail d)" unfolding form using ok by (auto simp: label_form_ok_def)
  then have "labelFormSchema (labelFromDetail d) = []" by (simp add: label_issues_empty)
  then have "toBody (labelFromDetail d) = Inr m"
    by (simp add: toBody_def) (simp add: form m label_output_def)
  with ok' show ?thesis by simp
qed

interpretation label_form: form_adapter label_form_ok toBody label_stores labelFromDetail
proof
  fix f assume "label_form_ok f"
  then show "\<exists>b. toBody f = Inr b" by (simp add: toBody_def label_issues_empty Let_def)
qed (use reopened_label in auto)

section \<open>Editing\<close>

text \<open>
  The handlers of the fields; \<open>lfe_schema\<close> is whether the schema sidebar is open.  The members of a
  label can be chosen while their field is shown.
\<close>

record label_editor =
  lfe_form :: label_form
  lfe_schema :: bool
  lfe_table :: "js_string option"

datatype label_event =
    LabelName js_string | LabelDescription js_string | LabelType js_string | LabelQuery js_string
  | LabelHosts "int list" | LabelAttribute js_string | LabelValues "js_string list"
  | LabelTable js_string | LabelInsert "nat option" js_string

text \<open>\<open>insertAtCursor\<close>: at the selection of the editor, or at the end when there is no editor.\<close>

definition insertAtCursor :: "nat option \<Rightarrow> js_string \<Rightarrow> js_string \<Rightarrow> js_string" where
  "insertAtCursor selection snippet current =
     (case selection of
        None \<Rightarrow> current @ '' '' @ snippet
      | Some from \<Rightarrow> take from current @ snippet @ drop from current)"

fun label_step :: "label_editor \<Rightarrow> label_event \<Rightarrow> label_editor" where
  "label_step s (LabelName v) = s\<lparr>lfe_form := (lfe_form s)\<lparr>lf_name := v\<rparr>\<rparr>"
| "label_step s (LabelDescription v) = s\<lparr>lfe_form := (lfe_form s)\<lparr>lf_description := v\<rparr>\<rparr>"
| "label_step s (LabelType v) =
     (if v \<notin> set LABEL_MEMBERSHIP_VALUES then s
      else s\<lparr>lfe_form := (lfe_form s)\<lparr>lf_membership := v\<rparr>,
             lfe_schema := (if v \<noteq> ''dynamic'' then False else lfe_schema s)\<rparr>)"
| "label_step s (LabelQuery v) =
     (if lf_membership (lfe_form s) = ''dynamic''
      then s\<lparr>lfe_form := (lfe_form s)\<lparr>lf_query := v\<rparr>\<rparr> else s)"
| "label_step s (LabelHosts ids) =
     (if lf_membership (lfe_form s) = ''manual''
      then s\<lparr>lfe_form := (lfe_form s)\<lparr>lf_host_ids := ids\<rparr>\<rparr> else s)"
| "label_step s (LabelAttribute v) =
     (if lf_membership (lfe_form s) = ''derived'' \<and> v \<in> set LABEL_DERIVED_ATTRIBUTE_VALUES
      then s\<lparr>lfe_form := (lfe_form s)\<lparr>lf_derived_attribute := v, lf_derived_values := []\<rparr>\<rparr> else s)"
| "label_step s (LabelValues vs) =
     (if lf_membership (lfe_form s) = ''derived''
      then s\<lparr>lfe_form := (lfe_form s)\<lparr>lf_derived_values := vs\<rparr>\<rparr> else s)"
| "label_step s (LabelTable table) =
     (if lf_membership (lfe_form s) = ''dynamic''
      then s\<lparr>lfe_schema := True, lfe_table := Some table\<rparr> else s)"
| "label_step s (LabelInsert selection snippet) =
     (if lf_membership (lfe_form s) = ''dynamic'' \<and> lfe_schema s
      then s\<lparr>lfe_form := (lfe_form s)\<lparr>lf_query := insertAtCursor selection snippet (lf_query (lfe_form s))\<rparr>\<rparr>
      else s)"

text \<open>
  The selector of an attribute offers values of that attribute; \<open>belongs a v\<close> says that \<open>v\<close> is one.
\<close>

definition label_event_fits :: "(js_string \<Rightarrow> js_string \<Rightarrow> bool) \<Rightarrow> label_editor \<Rightarrow> label_event \<Rightarrow> bool" where
  "label_event_fits belongs s e \<longleftrightarrow>
     (case e of
        LabelValues vs \<Rightarrow> list_all (belongs (lf_derived_attribute (lfe_form s))) vs
      | _ \<Rightarrow> True)"

fun label_run_fits :: "(js_string \<Rightarrow> js_string \<Rightarrow> bool) \<Rightarrow> label_editor \<Rightarrow> label_event list \<Rightarrow> bool" where
  "label_run_fits belongs s [] \<longleftrightarrow> True"
| "label_run_fits belongs s (e # es) \<longleftrightarrow>
     label_event_fits belongs s e \<and> label_run_fits belongs (label_step s e) es"

definition label_editor_ok :: "(js_string \<Rightarrow> js_string \<Rightarrow> bool) \<Rightarrow> label_editor \<Rightarrow> bool" where
  "label_editor_ok belongs s \<longleftrightarrow>
     list_all (belongs (lf_derived_attribute (lfe_form s))) (lf_derived_values (lfe_form s)) \<and>
     lf_membership (lfe_form s) \<in> set LABEL_MEMBERSHIP_VALUES \<and>
     lf_derived_attribute (lfe_form s) \<in> set LABEL_DERIVED_ATTRIBUTE_VALUES \<and>
     (lfe_schema s \<longrightarrow> lf_membership (lfe_form s) = ''dynamic'')"

lemma label_editor_ok_step:
  "label_editor_ok belongs s \<Longrightarrow> label_event_fits belongs s e \<Longrightarrow> label_editor_ok belongs (label_step s e)"
  by (cases e) (auto simp: label_editor_ok_def label_event_fits_def)

lemma label_editor_ok_run:
  "label_editor_ok belongs s \<Longrightarrow> label_run_fits belongs s es \<Longrightarrow> label_editor_ok belongs (foldl label_step s es)"
  by (induction es arbitrary: s) (simp_all add: label_editor_ok_step)

text \<open>So a derived label that is sent names values of the attribute it names, trimmed.\<close>

lemma label_body_fits:
  assumes ok: "label_editor_ok belongs s" and body: "toBody (lfe_form s) = Inr m" and c: "lm_criteria m = Some c"
  shows "lcr_values c \<noteq> [] \<and> (\<forall>v \<in> set (lcr_values c). \<exists>w. belongs (lcr_attribute c) w \<and> v = js_trim w)"
proof -
  let ?f = "lfe_form s"
  from body have "labelFormSchema ?f = []" by (auto simp: toBody_def Let_def split: if_splits)
  then have valid: "label_form_ok ?f" by (simp add: label_issues_empty)
  from body c have derived: "lf_membership ?f = ''derived''"
    and c: "c = \<lparr>lcr_attribute = lf_derived_attribute ?f, lcr_values = map js_trim (lf_derived_values ?f)\<rparr>"
    by (auto simp: toBody_def label_output_def Let_def split: if_splits)
  from derived valid have "lf_derived_values ?f \<noteq> []" by (simp add: label_form_ok_def)
  with ok show ?thesis by (auto simp: c label_editor_ok_def list_all_iff)
qed

section \<open>Selecting members\<close>

text \<open>
  The controls of a selector, \<open>useSelectorControls\<close>: the search, the filters of the table, the page and
  the sorting.
\<close>

record selector_controls =
  slc_q :: js_string
  slc_filters :: "column_filter list"
  slc_page :: pagination
  slc_sorting :: "sorting_item list"

definition SELECTOR_PAGE_SIZE :: int where
  "SELECTOR_PAGE_SIZE = 10"

definition SELECTOR_PAGE_SIZE_OPTIONS :: "int list" where
  "SELECTOR_PAGE_SIZE_OPTIONS = SELECTOR_PAGE_SIZE # PAGE_SIZE_OPTIONS"

definition open_selector :: "sorting_item list \<Rightarrow> selector_controls" where
  "open_selector defaultSorting =
     \<lparr>slc_q = [], slc_filters = [], slc_page = \<lparr>pg_index = 0, pg_size = SELECTOR_PAGE_SIZE\<rparr>,
      slc_sorting = defaultSorting\<rparr>"

definition show_selected :: "selector_controls \<Rightarrow> bool" where
  "show_selected s =
     (case List.find (\<lambda>item. cf_id item = ''select'') (slc_filters s) of
        None \<Rightarrow> False
      | Some item \<Rightarrow> ''selected'' \<in> set (cf_values item))"

definition resetPage :: "selector_controls \<Rightarrow> selector_controls" where
  "resetPage s = s\<lparr>slc_page := (slc_page s)\<lparr>pg_index := 0\<rparr>\<rparr>"

definition setSearch :: "js_string option \<Rightarrow> selector_controls \<Rightarrow> selector_controls" where
  "setSearch next s = resetPage (s\<lparr>slc_q := coalesce next []\<rparr>)"

definition setColumnFilters :: "column_filter list updater \<Rightarrow> selector_controls \<Rightarrow> selector_controls" where
  "setColumnFilters u s = resetPage (s\<lparr>slc_filters := updated u (slc_filters s)\<rparr>)"

definition selector_sort :: "sorting_item list updater \<Rightarrow> selector_controls \<Rightarrow> selector_controls" where
  "selector_sort u s = s\<lparr>slc_sorting := singleSort (updated u (slc_sorting s))\<rparr>"

definition sortParam :: "sorting_item list \<Rightarrow> js_string option" where
  "sortParam sorting =
     (case sorting of [] \<Rightarrow> None | item # _ \<Rightarrow> Some (encodeSort (so_id item) (so_desc item)))"

text \<open>The list request of a selector; the ids or values are those selected while only they are shown.\<close>

definition selector_params :: "selector_controls \<Rightarrow> base_list_params" where
  "selector_params s =
     \<lparr>blp_q = Some (slc_q s), blp_page = Some (num_of_int (pg_index (slc_page s) + 1)),
      blp_per_page = Some (num_of_int (pg_size (slc_page s))), blp_sort = sortParam (slc_sorting s)\<rparr>"

definition host_selector_params :: "selector_controls \<Rightarrow> int list \<Rightarrow> host_list_params" where
  "host_selector_params s selection =
     base_list_params.extend (selector_params s)
       \<lparr>hlp_status = None, hlp_label_id = None, hlp_software_title_id = None, hlp_software_id = None,
        hlp_ids = (if show_selected s then Some selection else None)\<rparr>"

definition value_selector_params :: "selector_controls \<Rightarrow> js_string list \<Rightarrow> values_params" where
  "value_selector_params s selection =
     base_list_params.extend (selector_params s)
       \<lparr>vp_values = (if show_selected s then Some selection else None)\<rparr>"

text \<open>What is listed: nothing when nothing is selected and only that is shown.\<close>

definition selector_rows :: "selector_controls \<Rightarrow> 'v list \<Rightarrow> ('r list \<times> int) option \<Rightarrow> 'r list \<times> int" where
  "selector_rows s selection data =
     (if show_selected s \<and> selection = [] then ([], 0) else coalesce data ([], 0))"

definition selector_page_count :: "selector_controls \<Rightarrow> int \<Rightarrow> int" where
  "selector_page_count s totalCount = max 1 (ceil_div totalCount (pg_size (slc_page s)))"

text \<open>While only the selection is shown and it is not empty the request asks for just it.\<close>

lemma selected_only_hosts:
  assumes "show_selected s" and "fst (selector_rows s selection (Some (r # rs, n))) \<noteq> []"
  shows "(''ids'', opt_ints (Some selection)) \<in> set (hostListQueryParams (host_selector_params s selection))"
  using assms
  by (auto simp: selector_rows_def hostListQueryParams_def host_selector_params_def nonempty_list_def
      base_list_params.extend_def split: if_splits)

section \<open>The rows selected\<close>

text \<open>
  \<open>Object.keys\<close>: the keys that are array indices ascending, then the others as they were inserted.
\<close>

definition index_key :: "js_string \<Rightarrow> bool" where
  "index_key k \<longleftrightarrow> (k = ''0'' \<or> id_pattern k) \<and> read_digits k < 2 ^ 32 - 1"

definition object_keys :: "js_string list \<Rightarrow> js_string list" where
  "object_keys ks = sort_key read_digits (filter index_key (js_set ks)) @ filter (\<lambda>k. \<not> index_key k) (js_set ks)"

lemma set_object_keys [simp]: "set (object_keys ks) = set ks"
  by (auto simp: object_keys_def)

lemma distinct_object_keys: "distinct (object_keys ks)"
  by (auto simp: object_keys_def distinct_sort)

text \<open>
  A selection is an object from row ids to whether they are selected: its keys and its values.  A change
  of the table's selection reads the selected ids off the new object.
\<close>

record row_selection =
  rs_keys :: "js_string list"
  rs_on :: "js_string \<Rightarrow> bool"

definition rowSelection :: "js_string list \<Rightarrow> row_selection" where
  "rowSelection selectedRowIds = \<lparr>rs_keys = js_set selectedRowIds, rs_on = (\<lambda>k. k \<in> set selectedRowIds)\<rparr>"

definition selection_change :: "row_selection updater \<Rightarrow> js_string list \<Rightarrow> js_string list" where
  "selection_change u selectedRowIds =
     (let next = updated u (rowSelection selectedRowIds)
      in filter (rs_on next) (object_keys (rs_keys next)))"

definition host_selection :: "row_selection updater \<Rightarrow> int list \<Rightarrow> int list" where
  "host_selection u selection =
     filter (\<lambda>i. 0 < i)
       (List.map_filter (\<lambda>k. int_of_num (js_number k)) (selection_change u (map show_int selection)))"

text \<open>The table switches one row, or the rows of a page.\<close>

definition switch_rows :: "js_string list \<Rightarrow> bool \<Rightarrow> row_selection \<Rightarrow> row_selection" where
  "switch_rows ids on s = \<lparr>rs_keys = rs_keys s @ ids, rs_on = (\<lambda>k. if k \<in> set ids then on else rs_on s k)\<rparr>"

lemma selection_change_switch:
  "set (selection_change (Update (switch_rows ids on)) selected) =
     (if on then set selected \<union> set ids else set selected - set ids)"
  "distinct (selection_change u selected)"
  by (auto simp: selection_change_def switch_rows_def rowSelection_def Let_def distinct_object_keys)

definition host_id_ok :: "int \<Rightarrow> bool" where
  "host_id_ok i \<longleftrightarrow> 0 < i \<and> i \<le> max_safe_integer"

lemma host_id_text: "host_id_ok i \<Longrightarrow> int_of_num (js_number (show_int i)) = Some i"
  by (simp add: host_id_ok_def max_safe_integer_def js_number_show_int)

text \<open>Switching rows of a page changes these rows and no other, and keeps the ids positive.\<close>

lemma host_selection_switch:
  assumes "\<forall>i \<in> set selection \<union> set rows. host_id_ok i"
  shows "set (host_selection (Update (switch_rows (map show_int rows) on)) selection) =
    (if on then set selection \<union> set rows else set selection - set rows)"
proof -
  let ?keys = "selection_change (Update (switch_rows (map show_int rows) on)) (map show_int selection)"
  have keys: "set ?keys = show_int ` (if on then set selection \<union> set rows else set selection - set rows)"
    by (auto simp: selection_change_switch)
  have "set (List.map_filter (\<lambda>k. int_of_num (js_number k)) ?keys) =
      (if on then set selection \<union> set rows else set selection - set rows)"
    using assms by (auto simp: map_filter_def keys host_id_text image_iff split: if_splits)
  then show ?thesis using assms by (auto simp: host_selection_def host_id_ok_def)
qed

end
