(* ===== verification/OsqueryForms.thy ===== *)
theory OsqueryForms
  imports PageForm OsqueryQueries LiveRunner
begin

text \<open>
  The forms of osquery policies and reports: \<open>fields.tsx\<close>, \<open>edit.tsx\<close> and \<open>create.tsx\<close> of
  \<open>web/src/features/osquery/policies\<close> and \<open>web/src/features/osquery/reports\<close>.

  Both forms ask before a save that discards the results collected so far; the machine of that dialog
  is written once over what the two differ in.  Main results: a stored policy or report saved as it is
  changes nothing; a save that makes the cache drop results was confirmed by the user; the minimal
  version of a report is exactly three numbers in canonical form.
\<close>

section \<open>Data\<close>

record remediation_mutation =
  prm_script :: js_string
  prm_automatic :: bool

record policy_mutation =
  opm_name :: js_string
  opm_description :: "js_string option"
  opm_resolution :: "js_string option"
  opm_query :: js_string
  opm_targets :: label_target_set
  opm_remediation :: "remediation_mutation option"

record policy_form =
  plf_name :: js_string
  plf_description :: "js_string option"
  plf_resolution :: "js_string option"
  plf_query :: js_string
  plf_targets :: label_target_set
  plf_remediation :: remediation_mutation

record policy_detail =
  pod_name :: js_string
  pod_description :: js_string
  pod_resolution :: js_string
  pod_query :: js_string
  pod_targets :: "label_target_input option"
  pod_automatic :: bool

record report_mutation =
  orm_name :: js_string
  orm_description :: "js_string option"
  orm_query :: js_string
  orm_min_osquery_version :: "js_string option"
  orm_schedule_interval :: "js_num option"
  orm_targets :: label_target_set

record report_detail =
  rpd_name :: js_string
  rpd_description :: js_string
  rpd_query :: js_string
  rpd_min_osquery_version :: "js_string option"
  rpd_schedule_interval :: js_num
  rpd_targets :: "label_target_input option"

text \<open>A target set as an argument of \<open>normalizeLabelTargetSet\<close>, which leaves it as it is.\<close>

definition target_input :: "label_target_set \<Rightarrow> label_target_input option" where
  "target_input t = Some \<lparr>lti_include = Some (lts_include t), lti_exclude = Some (lts_exclude t)\<rparr>"

lemma normalize_target_input [simp]: "normalizeLabelTargetSet (target_input t) = t"
  by (simp add: normalizeLabelTargetSet_def target_input_def)

definition target_issues :: "label_target_set \<Rightarrow> issue list" where
  "target_issues t =
     issue_if (\<not> list_all (\<lambda>r. 0 < lr_label_id r) (lts_include t)) ''targets.include'' ''Select a label.'' @
     issue_if (\<not> list_all (\<lambda>r. 0 < lr_label_id r) (lts_exclude t)) ''targets.exclude'' ''Select a label.''"

section \<open>The policy form\<close>

definition emptyPolicy :: policy_form where
  "emptyPolicy =
     \<lparr>plf_name = [], plf_description = Some [], plf_resolution = Some [], plf_query = ''select 1;'',
      plf_targets = emptyLabelTargetSet, plf_remediation = \<lparr>prm_script = [], prm_automatic = False\<rparr>\<rparr>"

definition policyFromDetail :: "policy_detail \<Rightarrow> js_string \<Rightarrow> policy_form" where
  "policyFromDetail detail script =
     \<lparr>plf_name = pod_name detail, plf_description = Some (pod_description detail),
      plf_resolution = Some (pod_resolution detail), plf_query = pod_query detail,
      plf_targets = normalizeLabelTargetSet (pod_targets detail),
      plf_remediation = \<lparr>prm_script = script, prm_automatic = pod_automatic detail\<rparr>\<rparr>"

definition policyFormSchema :: "policy_form \<Rightarrow> issue list" where
  "policyFormSchema form =
     requiredString ''Name'' ''name'' (plf_name form) @
     requiredString ''Query'' ''query'' (plf_query form) @
     target_issues (plf_targets form) @
     issue_if (prm_automatic (plf_remediation form) \<and> js_trim (prm_script (plf_remediation form)) = [])
       ''remediation.script'' ''A remediation script is required when automatic remediation is enabled.''"

definition policyFormTabs :: "form_tab list" where
  "policyFormTabs =
     [\<lparr>ft_value = ''options'', ft_fields = [''name'', ''description'', ''resolution'', ''query'']\<rparr>,
      \<lparr>ft_value = ''targets'', ft_fields = [''targets'']\<rparr>,
      \<lparr>ft_value = ''remediation'', ft_fields = [''remediation'']\<rparr>]"

definition policyFormValue :: "policy_mutation \<Rightarrow> policy_form" where
  "policyFormValue m =
     \<lparr>plf_name = opm_name m, plf_description = opm_description m, plf_resolution = opm_resolution m,
      plf_query = opm_query m, plf_targets = opm_targets m,
      plf_remediation = coalesce (opm_remediation m) \<lparr>prm_script = [], prm_automatic = False\<rparr>\<rparr>"

definition policyMutationFromForm :: "policy_form \<Rightarrow> policy_mutation" where
  "policyMutationFromForm form =
     (let scriptConfigured = (js_trim (prm_script (plf_remediation form)) \<noteq> [])
      in \<lparr>opm_name = js_trim (plf_name form),
          opm_description = Some (coalesce (map_option js_trim (plf_description form)) []),
          opm_resolution = Some (coalesce (map_option js_trim (plf_resolution form)) []),
          opm_query = js_trim (plf_query form),
          opm_targets = normalizeLabelTargetSet (target_input (plf_targets form)),
          opm_remediation = (if scriptConfigured then Some (plf_remediation form) else None)\<rparr>)"

text \<open>The server stores a mutation as a policy and its script.\<close>

definition policy_stores :: "policy_mutation \<Rightarrow> policy_detail \<times> js_string \<Rightarrow> bool" where
  "policy_stores m r \<longleftrightarrow>
     (case r of (d, script) \<Rightarrow>
        pod_name d = opm_name m \<and> pod_description d = coalesce (opm_description m) [] \<and>
        pod_resolution d = coalesce (opm_resolution m) [] \<and> pod_query d = opm_query m \<and>
        normalizeLabelTargetSet (pod_targets d) = opm_targets m \<and>
        script = (case opm_remediation m of None \<Rightarrow> [] | Some x \<Rightarrow> prm_script x) \<and>
        pod_automatic d = (case opm_remediation m of None \<Rightarrow> False | Some x \<Rightarrow> prm_automatic x))"

definition policy_form_ok :: "policy_form \<Rightarrow> bool" where
  "policy_form_ok form \<longleftrightarrow> policyFormSchema form = []"

definition submit_policy :: "policy_form \<Rightarrow> thrown + policy_mutation" where
  "submit_policy form =
     (if policyFormSchema form \<noteq> [] then Inl (NativeError ''ZodError'') else Inr (policyMutationFromForm form))"

text \<open>The form kept for the return from the live page describes the same mutation.\<close>

lemma policy_form_again: "policyMutationFromForm (policyFormValue (policyMutationFromForm f)) = policyMutationFromForm f"
  by (auto simp: policyMutationFromForm_def policyFormValue_def Let_def)

lemma policy_form_reopened:
  assumes "policy_form_ok f" and "policy_stores (policyMutationFromForm f) (d, script)"
  shows "policy_form_ok (policyFromDetail d script) \<and> policyMutationFromForm (policyFromDetail d script) = policyMutationFromForm f"
  using assms
  by (auto simp: policy_form_ok_def policyFormSchema_def issue_simps policy_stores_def policyFromDetail_def
      policyMutationFromForm_def Let_def target_issues_def split: if_splits)

interpretation policy_form:
  form_adapter policy_form_ok submit_policy policy_stores "\<lambda>(d, script). policyFromDetail d script"
proof
  fix f assume "policy_form_ok f"
  then show "\<exists>b. submit_policy f = Inr b" by (simp add: submit_policy_def policy_form_ok_def)
next
  fix f b r
  assume ok: "policy_form_ok f" and b: "submit_policy f = Inr b" and r: "policy_stores b r"
  obtain d script where ds: "r = (d, script)" by (cases r)
  have "b = policyMutationFromForm f" using b by (auto simp: submit_policy_def split: if_splits)
  with r ds have stored: "policy_stores (policyMutationFromForm f) (d, script)" by simp
  from policy_form_reopened [OF ok stored]
  show "policy_form_ok (case r of (d, script) \<Rightarrow> policyFromDetail d script)" by (simp add: ds)
  fix b'
  assume "submit_policy (case r of (d, script) \<Rightarrow> policyFromDetail d script) = Inr b'"
  with policy_form_reopened [OF ok stored] have "b' = b"
    using b by (auto simp: ds submit_policy_def split: if_splits)
  then show "policy_stores b' = policy_stores b" by simp
qed

section \<open>Versions of osquery\<close>

text \<open>\<open>(0|[1-9]\d*)\<close>, three times with dots between.\<close>

definition version_number :: "js_string \<Rightarrow> bool" where
  "version_number s \<longleftrightarrow> s = ''0'' \<or> id_pattern s"

definition osquery_version :: "js_string \<Rightarrow> bool" where
  "osquery_version s \<longleftrightarrow>
     (let parts = js_split (CHR ''.'') s in length parts = 3 \<and> list_all version_number parts)"

definition osqueryVersionSchema :: "js_string option \<Rightarrow> issue list" where
  "osqueryVersionSchema v =
     (case v of
        None \<Rightarrow> []
      | Some s \<Rightarrow> issue_if (\<not> osquery_version s) ''min_osquery_version'' ''Minimum osquery version must use X.Y.Z.'')"

lemma version_number_iff: "version_number s \<longleftrightarrow> (\<exists>n. s = show_nat n)"
proof
  assume "version_number s"
  then consider "s = ''0''" | "id_pattern s" by (auto simp: version_number_def)
  then show "\<exists>n. s = show_nat n"
  proof cases
    case 1
    have "show_nat 0 = ''0''" by code_simp
    with 1 show ?thesis by metis
  next
    case 2
    then have "list_all is_digit s" "s \<noteq> []" "hd s \<noteq> CHR ''0''" by (auto simp: id_pattern_def split: list.splits)
    from show_nat_read_digits [OF this] show ?thesis by metis
  qed
next
  assume "\<exists>n. s = show_nat n"
  then obtain n where s: "s = show_nat n" by blast
  have "show_nat 0 = ''0''" by code_simp
  then show "version_number s" using s show_nat_pattern [of n] by (cases "n = 0") (auto simp: version_number_def)
qed

lemma digit_not_dot: "is_digit c \<Longrightarrow> c \<noteq> CHR ''.''"
  by (auto simp: is_digit_def)

lemma length_three: "length xs = 3 \<longleftrightarrow> (\<exists>a b c. xs = [a, b, c])"
  by (auto simp: length_Suc_conv numeral_3_eq_3)

text \<open>The versions are three numbers in canonical form.\<close>

lemma osquery_version_iff:
  "osquery_version s \<longleftrightarrow> (\<exists>a b c. s = show_nat a @ ''.'' @ show_nat b @ ''.'' @ show_nat c)"
proof
  assume "osquery_version s"
  then obtain x y z where parts: "js_split (CHR ''.'') s = [x, y, z]"
    and "version_number x" "version_number y" "version_number z"
    by (auto simp: osquery_version_def Let_def length_three)
  then obtain a b c where "x = show_nat a" "y = show_nat b" "z = show_nat c"
    by (auto simp: version_number_iff)
  moreover have "s = x @ ''.'' @ y @ ''.'' @ z"
    using js_join_split [of "CHR ''.''" s] by (simp add: parts)
  ultimately show "\<exists>a b c. s = show_nat a @ ''.'' @ show_nat b @ ''.'' @ show_nat c" by blast
next
  assume "\<exists>a b c. s = show_nat a @ ''.'' @ show_nat b @ ''.'' @ show_nat c"
  then obtain a b c where s: "s = js_join [CHR ''.''] [show_nat a, show_nat b, show_nat c]" by auto
  have "js_split (CHR ''.'') s = [show_nat a, show_nat b, show_nat c]"
    unfolding s by (rule js_split_join) (auto dest: show_nat_digits digit_not_dot)
  then show "osquery_version s" by (auto simp: osquery_version_def version_number_iff)
qed

definition OSQUERY_VERSION_VALUES :: "js_string list" where
  "OSQUERY_VERSION_VALUES =
     [''5.23.1'', ''5.23.0'', ''5.22.1'', ''5.21.0'', ''5.20.0'', ''5.19.0'', ''5.18.1'', ''5.18.0'',
      ''5.17.0'', ''5.16.0'', ''5.15.0'', ''5.14.1'', ''5.13.1'', ''5.12.2'', ''5.12.1'', ''5.11.0'',
      ''5.10.2'', ''5.9.1'', ''5.8.2'', ''5.8.1'', ''5.7.0'', ''5.6.0'', ''5.5.1'', ''5.4.0'',
      ''5.3.0'', ''5.2.3'', ''5.2.2'', ''5.2.1'', ''5.2.0'', ''5.1.0'', ''5.0.1'', ''5.0.0'',
      ''4.9.0'', ''4.8.0'', ''4.7.0'', ''4.6.0'', ''4.5.1'', ''4.5.0'', ''4.4.0'', ''4.3.0'',
      ''4.2.0'', ''4.1.2'', ''4.1.1'', ''4.1.0'', ''4.0.2'', ''4.0.1'', ''4.0.0'', ''3.4.0'',
      ''3.3.2'', ''3.3.1'', ''3.2.6'', ''2.2.1'', ''2.2.0'', ''2.1.2'', ''2.1.1'', ''2.0.0'',
      ''1.8.2'', ''1.8.1'']"

definition ALL_OSQUERY_VERSIONS :: js_string where
  "ALL_OSQUERY_VERSIONS = ''__all_osquery_versions__''"

definition OSQUERY_VERSION_OPTIONS :: "(js_string \<times> js_string) list" where
  "OSQUERY_VERSION_OPTIONS =
     (ALL_OSQUERY_VERSIONS, ''All Versions'') # map (\<lambda>v. (v, v)) OSQUERY_VERSION_VALUES"

definition osqueryVersionOptions :: "js_string option \<Rightarrow> (js_string \<times> js_string) list" where
  "osqueryVersionOptions current =
     (case current of
        None \<Rightarrow> OSQUERY_VERSION_OPTIONS
      | Some v \<Rightarrow>
          if v \<in> set OSQUERY_VERSION_VALUES then OSQUERY_VERSION_OPTIONS
          else hd OSQUERY_VERSION_OPTIONS # (v, v) # tl OSQUERY_VERSION_OPTIONS)"

text \<open>The select shows a version, or all of them; a choice gives the version back.\<close>

definition version_choice :: "js_string option \<Rightarrow> js_string" where
  "version_choice v = coalesce v ALL_OSQUERY_VERSIONS"

definition choose_version :: "js_string option \<Rightarrow> js_string option" where
  "choose_version choice =
     (case choice of
        None \<Rightarrow> None
      | Some v \<Rightarrow> (if v = ALL_OSQUERY_VERSIONS then None else Some v))"

lemma osquery_versions_valid: "list_all osquery_version OSQUERY_VERSION_VALUES"
  by code_simp

lemma all_versions_no_version: "\<not> osquery_version ALL_OSQUERY_VERSIONS"
  by code_simp

lemma osquery_versions_distinct: "distinct OSQUERY_VERSION_VALUES"
  by code_simp

text \<open>The options name no value twice, and the current version is always one of them.\<close>

lemma version_options:
  assumes "osqueryVersionSchema current = []"
  shows "distinct (map fst (osqueryVersionOptions current)) \<and>
    version_choice current \<in> fst ` set (osqueryVersionOptions current) \<and>
    choose_version (Some (version_choice current)) = current"
proof -
  have all: "ALL_OSQUERY_VERSIONS \<notin> set OSQUERY_VERSION_VALUES"
    using osquery_versions_valid all_versions_no_version by (auto simp: list_all_iff)
  have "current \<noteq> Some ALL_OSQUERY_VERSIONS"
    using assms all_versions_no_version by (auto simp: osqueryVersionSchema_def issue_simps)
  with all osquery_versions_distinct show ?thesis
    by (auto simp: osqueryVersionOptions_def OSQUERY_VERSION_OPTIONS_def version_choice_def
        choose_version_def comp_def image_image split: option.splits)
qed

section \<open>The report form\<close>

definition FREQUENCY_OPTIONS :: "(js_string \<times> js_string) list" where
  "FREQUENCY_OPTIONS =
     [(''0'', ''Off''),
      (''300'', ''5 Minutes''),
      (''600'', ''10 Minutes''),
      (''900'', ''15 Minutes''),
      (''1800'', ''30 Minutes''),
      (''3600'', ''1 Hour''),
      (''21600'', ''6 Hours''),
      (''43200'', ''12 Hours''),
      (''86400'', ''1 Day''),
      (''604800'', ''1 Week'')]"

definition emptyReport :: report_mutation where
  "emptyReport =
     \<lparr>orm_name = [], orm_description = Some [], orm_query = ''select * from os_version;'',
      orm_min_osquery_version = None, orm_schedule_interval = Some (num_of_int 0),
      orm_targets = emptyLabelTargetSet\<rparr>"

definition reportFromDetail :: "report_detail \<Rightarrow> report_mutation" where
  "reportFromDetail detail =
     \<lparr>orm_name = rpd_name detail, orm_description = Some (rpd_description detail), orm_query = rpd_query detail,
      orm_min_osquery_version = rpd_min_osquery_version detail,
      orm_schedule_interval = Some (rpd_schedule_interval detail),
      orm_targets = normalizeLabelTargetSet (rpd_targets detail)\<rparr>"

definition reportFormSchema :: "report_mutation \<Rightarrow> issue list" where
  "reportFormSchema form =
     requiredString ''Name'' ''name'' (orm_name form) @
     requiredString ''Query'' ''query'' (orm_query form) @
     osqueryVersionSchema (orm_min_osquery_version form) @
     (case orm_schedule_interval form of
        None \<Rightarrow> []
      | Some n \<Rightarrow> integerRange ''Interval'' 0 (Some 2147483647) ''schedule_interval'' n) @
     target_issues (orm_targets form)"

definition reportFormTabs :: "form_tab list" where
  "reportFormTabs =
     [\<lparr>ft_value = ''options'',
       ft_fields = [''name'', ''description'', ''query'', ''min_osquery_version'', ''schedule_interval'']\<rparr>,
      \<lparr>ft_value = ''targets'', ft_fields = [''targets'']\<rparr>]"

definition trimReport :: "report_mutation \<Rightarrow> report_mutation" where
  "trimReport form =
     form\<lparr>orm_name := js_trim (orm_name form),
          orm_description := Some (coalesce (map_option js_trim (orm_description form)) []),
          orm_query := js_trim (orm_query form),
          orm_min_osquery_version := nonEmpty (orm_min_osquery_version form),
          orm_targets := normalizeLabelTargetSet (target_input (orm_targets form))\<rparr>"

text \<open>A choice of the interval, and the choice shown.\<close>

definition choose_interval :: "js_string \<Rightarrow> report_mutation \<Rightarrow> report_mutation" where
  "choose_interval choice form = form\<lparr>orm_schedule_interval := Some (js_number choice)\<rparr>"

definition report_stores :: "report_mutation \<Rightarrow> report_detail \<Rightarrow> bool" where
  "report_stores m d \<longleftrightarrow>
     rpd_name d = orm_name m \<and> rpd_description d = coalesce (orm_description m) [] \<and>
     rpd_query d = orm_query m \<and> rpd_min_osquery_version d = orm_min_osquery_version m \<and>
     rpd_schedule_interval d = coalesce (orm_schedule_interval m) (num_of_int 0) \<and>
     normalizeLabelTargetSet (rpd_targets d) = orm_targets m"

definition report_form_ok :: "report_mutation \<Rightarrow> bool" where
  "report_form_ok form \<longleftrightarrow> reportFormSchema form = []"

definition submit_report :: "report_mutation \<Rightarrow> thrown + report_mutation" where
  "submit_report form =
     (if reportFormSchema form \<noteq> [] then Inl (NativeError ''ZodError'') else Inr (trimReport form))"

lemma version_trims: "osquery_version s \<Longrightarrow> s \<noteq> [] \<and> js_trim s = s"
proof -
  assume "osquery_version s"
  then obtain a b c where s: "s = show_nat a @ ''.'' @ show_nat b @ ''.'' @ show_nat c"
    by (auto simp: osquery_version_iff)
  have "\<not> is_js_space c" if "c \<in> set s" for c
  proof -
    from that have "c = CHR ''.'' \<or> is_digit c" by (auto simp: s dest: show_nat_digits)
    then show ?thesis by (auto simp: is_js_space_def dest: digit_not_space)
  qed
  then have "js_trim s = s" by (intro js_trim_no_space) blast
  then show ?thesis by (simp add: s)
qed

lemma version_schema: "osqueryVersionSchema v = [] \<Longrightarrow> nonEmpty v = v"
  using version_trims by (auto simp: osqueryVersionSchema_def issue_simps nonEmpty_Some split: option.splits)

lemma report_reopened:
  assumes "report_form_ok f" and "report_stores (trimReport f) d"
  shows "report_form_ok (reportFromDetail d) \<and> report_stores (trimReport (reportFromDetail d)) = report_stores (trimReport f)"
proof -
  from assms(1) have ok: "js_trim (orm_name f) \<noteq> []" "js_trim (orm_query f) \<noteq> []"
    "osqueryVersionSchema (orm_min_osquery_version f) = []" "target_issues (orm_targets f) = []"
    "\<forall>n. orm_schedule_interval f = Some n \<longrightarrow> integerRange ''Interval'' 0 (Some 2147483647) ''schedule_interval'' n = []"
    by (auto simp: report_form_ok_def reportFormSchema_def issue_simps split: option.splits)
  have zero: "integerRange ''Interval'' 0 (Some 2147483647) ''schedule_interval'' (num_of_int 0) = []"
    by (simp add: issue_simps max_safe_integer_def)
  have version: "nonEmpty (orm_min_osquery_version f) = orm_min_osquery_version f"
    using ok(3) by (rule version_schema)
  have form: "reportFromDetail d =
      \<lparr>orm_name = js_trim (orm_name f), orm_description = Some (coalesce (map_option js_trim (orm_description f)) []),
       orm_query = js_trim (orm_query f), orm_min_osquery_version = orm_min_osquery_version f,
       orm_schedule_interval = Some (coalesce (orm_schedule_interval f) (num_of_int 0)), orm_targets = orm_targets f\<rparr>"
    using assms(2) by (simp add: report_stores_def reportFromDetail_def trimReport_def version)
  have "report_form_ok (reportFromDetail d)"
    unfolding form using ok zero
    by (cases "orm_schedule_interval f") (simp_all add: report_form_ok_def reportFormSchema_def issue_simps)
  moreover have "report_stores (trimReport (reportFromDetail d)) e \<longleftrightarrow> report_stores (trimReport f) e" for e
    by (simp add: form report_stores_def trimReport_def)
  ultimately show ?thesis by blast
qed

interpretation report_form: form_adapter report_form_ok submit_report report_stores reportFromDetail
proof
  fix f assume "report_form_ok f"
  then show "\<exists>b. submit_report f = Inr b" by (simp add: submit_report_def report_form_ok_def)
qed (use report_reopened in \<open>auto simp: submit_report_def split: if_splits\<close>)

end
