(* ===== verification/OsqueryEdit.thy ===== *)
theory OsqueryEdit
  imports OsqueryForms
begin

text \<open>
  The edit and create pages of osquery policies and reports: submitting, the dialog that asks before
  results are discarded, running the query live and coming back, and the offer to run a changed
  remediation.  The machine of a form is written once over \<open>form_kind\<close>, what policies and reports
  differ in; the state of the page's other widgets is not modelled.
\<close>

section \<open>A form that may discard results\<close>

text \<open>
  What the two forms differ in: validation, the mutation a submission sends, the form of a mutation,
  what is handed to the live page, the query, whether a mutation changes what the results were computed
  from, and the tabs.
\<close>

record ('form, 'mut) form_kind =
  fk_issues :: "'form \<Rightarrow> issue list"
  fk_mutation :: "'form \<Rightarrow> 'mut"
  fk_form :: "'mut \<Rightarrow> 'form"
  fk_live :: "'form \<Rightarrow> 'mut"
  fk_query :: "'form \<Rightarrow> js_string"
  fk_changed :: "'form \<Rightarrow> 'mut \<Rightarrow> bool"
  fk_tabs :: "form_tab list"

text \<open>
  The state: the values and the defaults of the form, \<open>liveQueryRequired\<close>, \<open>pendingResultReset\<close>,
  \<open>resultResetPending\<close>, a save that was sent without asking, and the calls of \<open>onSubmit\<close>, \<open>onRunLive\<close>
  and \<open>onSuccess\<close> so far.
\<close>

record ('form, 'mut) result_form =
  qf_values :: 'form
  qf_defaults :: 'form
  qf_attempts :: nat
  qf_tab :: js_string
  qf_live_required :: bool
  qf_pending :: "'mut option"
  qf_resetting :: bool
  qf_saving :: "'mut option"
  qf_sent :: "'mut list"
  qf_live_runs :: "'mut list"
  qf_saved :: "int option list"

datatype ('form, 'mut) form_event =
    ChangeForm 'form | ChangeQuery 'form | ShowTab js_string | RestoreDraft 'mut
  | SubmitForm | SaveSettled "thrown + int option"
  | ConfirmReset | ResetSettled "thrown + int option" | CancelReset | RunLive

definition open_form :: "'form \<Rightarrow> js_string \<Rightarrow> ('form, 'mut) result_form" where
  "open_form initial tab =
     \<lparr>qf_values = initial, qf_defaults = initial, qf_attempts = 0, qf_tab = tab, qf_live_required = False,
      qf_pending = None, qf_resetting = False, qf_saving = None, qf_sent = [], qf_live_runs = [],
      qf_saved = []\<rparr>"

text \<open>\<open>form.reset(value)\<close>, after a save.\<close>

definition reset_form :: "'form \<Rightarrow> ('form, 'mut) result_form \<Rightarrow> ('form, 'mut) result_form" where
  "reset_form f s = s\<lparr>qf_values := f, qf_defaults := f, qf_attempts := 0\<rparr>"

text \<open>
  \<open>handleSubmit\<close>, then \<open>revealFirstInvalidFormTab\<close>: an invalid form shows its first invalid tab; a
  valid one is sent, or waits for the answer of the dialog.
\<close>

definition submit_form ::
    "('form, 'mut) form_kind \<Rightarrow> bool \<Rightarrow> 'form \<Rightarrow> ('form, 'mut) result_form \<Rightarrow> ('form, 'mut) result_form" where
  "submit_form kind confirmResultReset initial s =
     (let s1 = s\<lparr>qf_attempts := qf_attempts s + 1\<rparr>; issues = fk_issues kind (qf_values s)
      in if issues \<noteq> [] then
           s1\<lparr>qf_tab := revealFirstInvalidFormTab (qf_attempts s1) (issue_meta issues) (fk_tabs kind) (qf_tab s)\<rparr>
         else
           (let next = fk_mutation kind (qf_values s)
            in if confirmResultReset \<and> fk_changed kind initial next then s1\<lparr>qf_pending := Some next\<rparr>
               else s1\<lparr>qf_saving := Some next, qf_sent := qf_sent s @ [next]\<rparr>))"

definition run_live :: "('form, 'mut) form_kind \<Rightarrow> ('form, 'mut) result_form \<Rightarrow> ('form, 'mut) result_form" where
  "run_live kind s =
     (if js_trim (fk_query kind (qf_values s)) = [] then s\<lparr>qf_live_required := True, qf_tab := ''options''\<rparr>
      else s\<lparr>qf_live_runs := qf_live_runs s @ [fk_live kind (qf_values s)]\<rparr>)"

text \<open>
  The dialog is modal, and the submit button waits for a save that is under way.  A save that fails
  leaves the form, and an open dialog, as they are.
\<close>

fun form_step ::
    "('form, 'mut) form_kind \<Rightarrow> bool \<Rightarrow> 'form \<Rightarrow> ('form, 'mut) result_form \<Rightarrow> ('form, 'mut) form_event
      \<Rightarrow> ('form, 'mut) result_form" where
  "form_step kind confirm initial s (ChangeForm f) =
     (if qf_pending s = None \<and> fk_query kind f = fk_query kind (qf_values s) then s\<lparr>qf_values := f\<rparr> else s)"
| "form_step kind confirm initial s (ChangeQuery f) =
     (if qf_pending s = None then s\<lparr>qf_values := f, qf_live_required := False\<rparr> else s)"
| "form_step kind confirm initial s (ShowTab tab) = (if qf_pending s = None then s\<lparr>qf_tab := tab\<rparr> else s)"
| "form_step kind confirm initial s (RestoreDraft m) =
     (if qf_pending s = None \<and> qf_saving s = None then s\<lparr>qf_values := fk_form kind m, qf_attempts := 0\<rparr> else s)"
| "form_step kind confirm initial s SubmitForm =
     (if qf_pending s = None \<and> qf_saving s = None then submit_form kind confirm initial s else s)"
| "form_step kind confirm initial s (SaveSettled outcome) =
     (case qf_saving s of
        None \<Rightarrow> s
      | Some next \<Rightarrow>
          (case outcome of
             Inl e \<Rightarrow> s\<lparr>qf_saving := None\<rparr>
           | Inr i \<Rightarrow> reset_form (fk_form kind next) (s\<lparr>qf_saving := None, qf_saved := qf_saved s @ [i]\<rparr>)))"
| "form_step kind confirm initial s ConfirmReset =
     (case qf_pending s of
        None \<Rightarrow> s
      | Some next \<Rightarrow>
          (if qf_resetting s then s else s\<lparr>qf_resetting := True, qf_sent := qf_sent s @ [next]\<rparr>))"
| "form_step kind confirm initial s (ResetSettled outcome) =
     (case qf_pending s of
        None \<Rightarrow> s
      | Some next \<Rightarrow>
          (if \<not> qf_resetting s then s
           else (case outcome of
                   Inl e \<Rightarrow> s\<lparr>qf_resetting := False\<rparr>
                 | Inr i \<Rightarrow> reset_form (fk_form kind next)
                              (s\<lparr>qf_pending := None, qf_resetting := False, qf_saved := qf_saved s @ [i]\<rparr>))))"
| "form_step kind confirm initial s CancelReset = (if qf_resetting s then s else s\<lparr>qf_pending := None\<rparr>)"
| "form_step kind confirm initial s RunLive = (if qf_pending s = None then run_live kind s else s)"

text \<open>
  The invariant: only valid forms are sent or wait for an answer, what waits would discard results, no
  two saves are under way, and an error of the live query is shown only while the query is blank.
\<close>

definition sends_valid :: "('form, 'mut) form_kind \<Rightarrow> 'mut \<Rightarrow> bool" where
  "sends_valid kind m \<longleftrightarrow> (\<exists>f. fk_issues kind f = [] \<and> m = fk_mutation kind f)"

definition result_form_ok :: "('form, 'mut) form_kind \<Rightarrow> bool \<Rightarrow> 'form \<Rightarrow> ('form, 'mut) result_form \<Rightarrow> bool" where
  "result_form_ok kind confirm initial s \<longleftrightarrow>
     (\<forall>m \<in> set (qf_sent s). sends_valid kind m) \<and>
     (\<forall>m. qf_pending s = Some m \<longrightarrow> sends_valid kind m \<and> confirm \<and> fk_changed kind initial m) \<and>
     (qf_resetting s \<longrightarrow> qf_pending s \<noteq> None) \<and> (qf_pending s = None \<or> qf_saving s = None) \<and>
     length (qf_saved s) + (if qf_saving s \<noteq> None \<or> qf_resetting s then 1 else 0) \<le> length (qf_sent s)"

lemma result_form_open: "result_form_ok kind confirm initial (open_form initial tab)"
  by (simp add: result_form_ok_def open_form_def)

lemma submit_form_ok:
  assumes "result_form_ok kind confirm initial s" and "qf_pending s = None" and "qf_saving s = None"
  shows "result_form_ok kind confirm initial (submit_form kind confirm initial s)"
  using assms
  by (auto simp: result_form_ok_def submit_form_def sends_valid_def Let_def)

lemma result_form_ok_step:
  assumes "result_form_ok kind confirm initial s"
  shows "result_form_ok kind confirm initial (form_step kind confirm initial s e)"
proof (cases e)
  case SubmitForm
  with assms show ?thesis by (simp add: submit_form_ok)
qed (use assms in \<open>auto simp: result_form_ok_def reset_form_def run_live_def split: option.splits sum.splits\<close>)

lemma result_form_ok_run:
  "result_form_ok kind confirm initial s \<Longrightarrow>
   result_form_ok kind confirm initial (foldl (form_step kind confirm initial) s es)"
  by (induction es arbitrary: s) (simp_all add: result_form_ok_step)

text \<open>Without a confirmation nothing is sent that would discard results.\<close>

lemma unconfirmed_step:
  assumes "e \<noteq> ConfirmReset" and "\<forall>m \<in> set (qf_sent s). \<not> fk_changed kind initial m"
  shows "\<forall>m \<in> set (qf_sent (form_step kind True initial s e)). \<not> fk_changed kind initial m"
  using assms
  by (cases e) (auto simp: submit_form_def reset_form_def run_live_def Let_def split: option.splits sum.splits)

lemma unconfirmed_run:
  assumes "ConfirmReset \<notin> set es" and "\<forall>m \<in> set (qf_sent s). \<not> fk_changed kind initial m"
  shows "\<forall>m \<in> set (qf_sent (foldl (form_step kind True initial) s es)). \<not> fk_changed kind initial m"
  using assms
proof (induction es arbitrary: s)
  case (Cons e es)
  from Cons.prems(1) have "e \<noteq> ConfirmReset" "ConfirmReset \<notin> set es" by auto
  with Cons.IH [OF this(2) unconfirmed_step [OF this(1) Cons.prems(2)]] show ?case by simp
qed simp

section \<open>Policies\<close>

definition policy_changed :: "policy_form \<Rightarrow> policy_mutation \<Rightarrow> bool" where
  "policy_changed initial next \<longleftrightarrow> opm_query next \<noteq> js_trim (plf_query initial)"

definition policy_kind :: "(policy_form, policy_mutation) form_kind" where
  "policy_kind =
     \<lparr>fk_issues = policyFormSchema, fk_mutation = policyMutationFromForm, fk_form = policyFormValue,
      fk_live = policyMutationFromForm, fk_query = plf_query, fk_changed = policy_changed,
      fk_tabs = policyFormTabs\<rparr>"

text \<open>
  Composition with the cache: the answer of a save drops the cached results of a policy only when the
  user confirmed it, if the form was opened from the policy in the cache and the server stores the query
  it is sent.
\<close>

lemma policy_results_kept:
  assumes pm: "key_matching pm" and cached: "cache (policyKeys_detail i) = Some \<lparr>op_query = pod_query d\<rparr>"
    and tidy: "js_trim (pod_query d) = pod_query d" and initial: "initial = policyFromDetail d script"
    and unconfirmed: "ConfirmReset \<notin> set es"
    and sent: "m \<in> set (qf_sent (foldl (form_step policy_kind True initial) (open_form initial tab) es))"
    and saved: "op_query saved = opm_query m"
  shows "\<not> removes pm (mu_onSuccess (useUpdatePolicy i cache) saved v) k"
proof -
  have "\<not> fk_changed policy_kind initial m"
    using unconfirmed_run [OF unconfirmed, of "open_form initial tab" policy_kind initial] sent
    by (auto simp: open_form_def)
  then have "opm_query m = pod_query d"
    by (simp add: policy_kind_def policy_changed_def initial policyFromDetail_def tidy)
  with saved cached show ?thesis unfolding update_policy_removes [OF pm] by simp
qed

section \<open>Reports\<close>

definition report_changed :: "report_mutation \<Rightarrow> report_mutation \<Rightarrow> bool" where
  "report_changed initial next \<longleftrightarrow>
     orm_query next \<noteq> js_trim (orm_query initial) \<or>
     orm_min_osquery_version next \<noteq> nonEmpty (orm_min_osquery_version initial)"

definition report_kind :: "(report_mutation, report_mutation) form_kind" where
  "report_kind =
     \<lparr>fk_issues = reportFormSchema, fk_mutation = trimReport, fk_form = (\<lambda>m. m), fk_live = (\<lambda>f. f),
      fk_query = orm_query, fk_changed = report_changed, fk_tabs = reportFormTabs\<rparr>"

definition sql_only :: "report_mutation \<Rightarrow> report_mutation \<Rightarrow> bool" where
  "sql_only initial next \<longleftrightarrow>
     orm_query next \<noteq> js_trim (orm_query initial) \<and>
     \<not> orm_min_osquery_version next \<noteq> nonEmpty (orm_min_osquery_version initial)"

definition reset_text :: "report_mutation \<Rightarrow> report_mutation option \<Rightarrow> js_string" where
  "reset_text initial pending =
     (case pending of
        Some next \<Rightarrow>
          (if sql_only initial next
           then ''Changing this report's SQL will delete its previous results, since the existing results do not reflect the updated SQL.''
           else ''The changes you are making to this report will delete its previous results.'')
      | None \<Rightarrow> ''The changes you are making to this report will delete its previous results.'')"

definition cached_report :: "report_detail \<Rightarrow> osquery_report" where
  "cached_report d =
     \<lparr>or_query = rpd_query d, or_min_osquery_version = coalesce (rpd_min_osquery_version d) []\<rparr>"

lemma report_snapshots_kept:
  assumes pm: "key_matching pm" and cached: "cache (reportKeys_detail i) = Some (cached_report d)"
    and tidy: "js_trim (rpd_query d) = rpd_query d" "nonEmpty (rpd_min_osquery_version d) = rpd_min_osquery_version d"
    and initial: "initial = reportFromDetail d"
    and unconfirmed: "ConfirmReset \<notin> set es"
    and sent: "m \<in> set (qf_sent (foldl (form_step report_kind True initial) (open_form initial tab) es))"
    and saved: "saved = \<lparr>or_query = orm_query m, or_min_osquery_version = coalesce (orm_min_osquery_version m) []\<rparr>"
  shows "\<not> removes pm (mu_onSuccess (useUpdateReport i cache) saved v) k"
proof -
  have "\<not> fk_changed report_kind initial m"
    using unconfirmed_run [OF unconfirmed, of "open_form initial tab" report_kind initial] sent
    by (auto simp: open_form_def)
  then have "saved = cached_report d"
    by (simp add: report_kind_def report_changed_def initial reportFromDetail_def tidy saved cached_report_def)
  with cached show ?thesis unfolding update_report_removes [OF pm] by simp
qed

section \<open>The tabs of an invalid form\<close>

lemma set_issue_if [simp]: "i \<in> set (issue_if b p m) \<longleftrightarrow> b \<and> i = \<lparr>is_path = p, is_message = m\<rparr>"
  by (auto simp: issue_if_def)

lemma set_requiredString: "i \<in> set (requiredString l p v) \<Longrightarrow> is_path i = p"
  by (simp add: requiredString_def)

lemma set_integerRange: "i \<in> set (integerRange l lo hi p v) \<Longrightarrow> is_path i = p"
  by (auto simp: integerRange_def split: option.splits)

lemma policy_paths:
  assumes "i \<in> set (policyFormSchema f)"
  shows "is_path i \<in> {''name'', ''query'', ''targets.include'', ''targets.exclude'', ''remediation.script''}"
  using assms by (auto simp: policyFormSchema_def target_issues_def dest: set_requiredString)

lemma report_paths:
  assumes "i \<in> set (reportFormSchema f)"
  shows "is_path i \<in> {''name'', ''query'', ''min_osquery_version'', ''schedule_interval'', ''targets.include'', ''targets.exclude''}"
  using assms
  by (auto simp: reportFormSchema_def target_issues_def osqueryVersionSchema_def
      dest: set_requiredString set_integerRange split: option.splits)

lemma policy_tabs_cover: "\<forall>i \<in> set (policyFormSchema f). tabs_cover policyFormTabs (is_path i)"
proof
  fix i assume "i \<in> set (policyFormSchema f)"
  from policy_paths [OF this] show "tabs_cover policyFormTabs (is_path i)"
    by (auto simp: tabs_cover_def policyFormTabs_def fieldMatches_def)
qed

lemma report_tabs_cover: "\<forall>i \<in> set (reportFormSchema f). tabs_cover reportFormTabs (is_path i)"
proof
  fix i assume "i \<in> set (reportFormSchema f)"
  from report_paths [OF this] show "tabs_cover reportFormTabs (is_path i)"
    by (auto simp: tabs_cover_def reportFormTabs_def fieldMatches_def)
qed

text \<open>Submitting an invalid form sends nothing and shows the first tab marked invalid.\<close>

lemma invalid_submit:
  assumes issues: "fk_issues kind (qf_values s) \<noteq> []"
    and cover: "\<forall>i \<in> set (fk_issues kind (qf_values s)). tabs_cover (fk_tabs kind) (is_path i)"
    and named: "\<forall>tab \<in> set (fk_tabs kind). ft_value tab \<noteq> []"
  shows "qf_sent (submit_form kind confirm initial s) = qf_sent s \<and>
    (\<exists>before tab after. fk_tabs kind = before @ tab # after \<and> qf_tab (submit_form kind confirm initial s) = ft_value tab \<and>
      tab_marked (qf_attempts s + 1) (issue_meta (fk_issues kind (qf_values s))) tab \<and>
      (\<forall>t \<in> set before. \<not> tab_marked (qf_attempts s + 1) (issue_meta (fk_issues kind (qf_values s))) t))"
  using revealed_tab [OF issues cover _ named, of "qf_attempts s + 1" "qf_tab s"] issues
  by (simp add: submit_form_def Let_def)

section \<open>The live page and back\<close>

text \<open>The forms kept in the history, with the record they edit.\<close>

datatype osquery_form =
    ReportState "int option" report_mutation
  | PolicyState "int option" policy_mutation

definition open_policy_live ::
    "int option \<Rightarrow> policy_mutation \<Rightarrow> osquery_form history \<Rightarrow> osquery_form history" where
  "open_policy_live i value h =
     useOpenOsqueryLive ''policy'' (js_trim (opm_query value)) i (Some (PolicyState i value)) h"

definition open_report_live ::
    "int option \<Rightarrow> report_mutation \<Rightarrow> osquery_form history \<Rightarrow> osquery_form history" where
  "open_report_live i value h =
     useOpenOsqueryLive ''report'' (js_trim (orm_query value)) i (Some (ReportState i value)) h"

definition policy_draft :: "int option \<Rightarrow> osquery_form osquery_state option \<Rightarrow> policy_mutation option" where
  "policy_draft page st =
     (case st of
        Some (FormState (PolicyState i value)) \<Rightarrow> (if i = page then Some value else None)
      | _ \<Rightarrow> None)"

definition report_draft :: "int option \<Rightarrow> osquery_form osquery_state option \<Rightarrow> report_mutation option" where
  "report_draft page st =
     (case st of
        Some (FormState (ReportState i value)) \<Rightarrow> (if i = page then Some value else None)
      | _ \<Rightarrow> None)"

text \<open>
  The form found on the way back sends what the form that was left would have sent; the page of another
  record does not take it.
\<close>

lemma policy_live_return:
  assumes "h = e # es"
  shows "case policy_draft j (he_osquery (hd (tl (open_policy_live i (policyMutationFromForm f) h)))) of
      None \<Rightarrow> i \<noteq> j
    | Some m \<Rightarrow> i = j \<and> policyMutationFromForm (policyFormValue m) = policyMutationFromForm f"
  by (simp add: open_policy_live_def open_live_back [OF assms] policy_draft_def policy_form_again)

lemma report_live_return:
  assumes "h = e # es"
  shows "report_draft j (he_osquery (hd (tl (open_report_live i f h)))) = (if i = j then Some f else None)"
  by (simp add: open_report_live_def open_live_back [OF assms] report_draft_def)

section \<open>The offer to run a changed remediation\<close>

text \<open>The answer of a save, as far as the edit page of policies reads it.\<close>

record saved_policy =
  sp_id :: int
  sp_configured :: bool
  sp_failing :: int

definition offers_remediation :: "js_string \<Rightarrow> bool \<Rightarrow> policy_mutation \<Rightarrow> saved_policy \<Rightarrow> bool" where
  "offers_remediation script automatic m saved \<longleftrightarrow>
     (let scriptChanged = (coalesce (map_option prm_script (opm_remediation m)) [] \<noteq> script);
          automaticEnabled = (\<not> automatic \<and> coalesce (map_option prm_automatic (opm_remediation m)) False)
      in sp_configured saved \<and> 0 < sp_failing saved \<and> (scriptChanged \<or> automaticEnabled))"

text \<open>
  The page: the offer on screen, whether its run is under way, the runs requested and the saves finished
  (the page is left for the policy).
\<close>

record offer_page =
  ofp_offer :: "(int \<times> int) option"
  ofp_running :: bool
  ofp_runs :: "int list"
  ofp_finished :: "int list"

datatype offer_event =
    PolicySaved policy_mutation saved_policy | OfferClosed | OfferConfirmed | RunSettled bool

fun offer_step :: "js_string \<Rightarrow> bool \<Rightarrow> offer_page \<Rightarrow> offer_event \<Rightarrow> offer_page" where
  "offer_step script automatic s (PolicySaved m saved) =
     (if ofp_offer s \<noteq> None then s
      else if offers_remediation script automatic m saved
      then s\<lparr>ofp_offer := Some (sp_id saved, sp_failing saved)\<rparr>
      else s\<lparr>ofp_finished := ofp_finished s @ [sp_id saved]\<rparr>)"
| "offer_step script automatic s OfferClosed =
     (case ofp_offer s of
        None \<Rightarrow> s
      | Some (savedID, _) \<Rightarrow>
          (if ofp_running s then s
           else s\<lparr>ofp_offer := None, ofp_finished := ofp_finished s @ [savedID]\<rparr>))"
| "offer_step script automatic s OfferConfirmed =
     (case ofp_offer s of
        None \<Rightarrow> s
      | Some (savedID, _) \<Rightarrow>
          (if ofp_running s then s
           else s\<lparr>ofp_running := True, ofp_runs := ofp_runs s @ [savedID]\<rparr>))"
| "offer_step script automatic s (RunSettled ok) =
     (if \<not> ofp_running s then s
      else (case ofp_offer s of
              None \<Rightarrow> s\<lparr>ofp_running := False\<rparr>
            | Some (savedID, _) \<Rightarrow>
                (if ok then s\<lparr>ofp_running := False, ofp_offer := None, ofp_finished := ofp_finished s @ [savedID]\<rparr>
                 else s\<lparr>ofp_running := False\<rparr>)))"

definition offer_start :: offer_page where
  "offer_start = \<lparr>ofp_offer = None, ofp_running = False, ofp_runs = [], ofp_finished = []\<rparr>"

text \<open>The saves of a run: those made while no offer is on screen.\<close>

fun saves_of :: "js_string \<Rightarrow> bool \<Rightarrow> offer_page \<Rightarrow> offer_event list \<Rightarrow> int list" where
  "saves_of script automatic s [] = []"
| "saves_of script automatic s (e # es) =
     (case e of
        PolicySaved m saved \<Rightarrow> (if ofp_offer s = None then [sp_id saved] else [])
      | _ \<Rightarrow> []) @ saves_of script automatic (offer_step script automatic s e) es"

definition offered_ids :: "offer_page \<Rightarrow> int list" where
  "offered_ids s = (case ofp_offer s of None \<Rightarrow> [] | Some (i, _) \<Rightarrow> [i])"

text \<open>Every save is finished exactly once, in order, but for the one whose offer is on screen.\<close>

lemma offer_step_finishes:
  "ofp_finished (offer_step script automatic s e) @ offered_ids (offer_step script automatic s e) =
     ofp_finished s @ offered_ids s @ saves_of script automatic s [e]"
  by (cases e) (auto simp: offered_ids_def split: option.splits)

lemma offers_finish:
  "ofp_finished (foldl (offer_step script automatic) s es) @ offered_ids (foldl (offer_step script automatic) s es) =
     ofp_finished s @ offered_ids s @ saves_of script automatic s es"
proof (induction es arbitrary: s)
  case (Cons e es)
  have "saves_of script automatic s (e # es) =
      saves_of script automatic s [e] @ saves_of script automatic (offer_step script automatic s e) es" by simp
  with Cons.IH [of "offer_step script automatic s e"] offer_step_finishes [of script automatic s e]
  show ?case by (metis append_assoc foldl_Cons)
qed simp

end
