(* ===== verification/AgentSecrets.thy ===== *)
theory AgentSecrets
  imports Forms "HOL-Library.Word"
begin

text \<open>
  The dialog of an agent's secrets (\<open>web/src/features/agent-secrets/secrets-dialog.tsx\<close>): generating a
  secret, the list with its row that is created, edited or deleted, and which secrets are readable.

  Main results: a generated secret is a valid one and determines the random bytes it was made of; only
  valid secrets are sent, one request at a time, about the active row; a secret is readable only after it
  was asked for or saved; an active row that another session deleted blocks the dialog.
\<close>

section \<open>Generating a secret\<close>

text \<open>The base64 alphabet and \<open>btoa\<close> of a string of code units below 256.\<close>

definition b64_char :: "nat \<Rightarrow> char" where
  "b64_char n =
     (if n < 26 then char_of (65 + n)
      else if n < 52 then char_of (71 + n)
      else if n < 62 then char_of (n - 4)
      else if n = 62 then CHR ''+'' else CHR ''/'')"

fun btoa :: "js_string \<Rightarrow> js_string" where
  "btoa [] = []"
| "btoa [a] =
     [b64_char (of_char a div 4), b64_char (of_char a mod 4 * 16), CHR ''='', CHR ''='']"
| "btoa [a, b] =
     [b64_char (of_char a div 4), b64_char (of_char a mod 4 * 16 + of_char b div 16),
      b64_char (of_char b mod 16 * 4), CHR ''='']"
| "btoa (a # b # c # s) =
     [b64_char (of_char a div 4), b64_char (of_char a mod 4 * 16 + of_char b div 16),
      b64_char (of_char b mod 16 * 4 + of_char c div 64), b64_char (of_char c mod 64)] @ btoa s"

text \<open>\<open>replace\<close> with a global pattern of one character, and with \<open>/=+$/\<close>.\<close>

definition replace_char :: "char \<Rightarrow> char \<Rightarrow> js_string \<Rightarrow> js_string" where
  "replace_char c d s = map (\<lambda>x. if x = c then d else x) s"

definition strip_padding :: "js_string \<Rightarrow> js_string" where
  "strip_padding s = rev (dropWhile (\<lambda>c. c = CHR ''='') (rev s))"

text \<open>The bytes are those \<open>crypto.getRandomValues\<close> filled in.\<close>

definition secret_bytes :: "8 word list \<Rightarrow> js_string" where
  "secret_bytes bytes = foldl (\<lambda>s byte. s @ [char_of (unat byte)]) [] bytes"

definition generateSecretValue :: "8 word list \<Rightarrow> js_string" where
  "generateSecretValue bytes =
     strip_padding (replace_char (CHR ''/'') (CHR ''_'') (replace_char (CHR ''+'') (CHR ''-'') (btoa (secret_bytes bytes))))"

subsection \<open>What a generated secret looks like\<close>

text \<open>The values of the characters but the padding.\<close>

fun sextets :: "js_string \<Rightarrow> nat list" where
  "sextets [] = []"
| "sextets [a] = [of_char a div 4, of_char a mod 4 * 16]"
| "sextets [a, b] = [of_char a div 4, of_char a mod 4 * 16 + of_char b div 16, of_char b mod 16 * 4]"
| "sextets (a # b # c # s) =
     [of_char a div 4, of_char a mod 4 * 16 + of_char b div 16, of_char b mod 16 * 4 + of_char c div 64,
      of_char c mod 64] @ sextets s"

definition url_char :: "nat \<Rightarrow> char" where
  "url_char n = (if n = 62 then CHR ''-'' else if n = 63 then CHR ''_'' else b64_char n)"

lemma byte_div: "(of_char c :: nat) div 4 < 64" "(of_char c :: nat) div 16 < 16" "(of_char c :: nat) div 64 < 4"
  using nat_of_char_less_256 [of c] by linarith+

lemma sextet_lt:
  "(of_char a :: nat) mod 4 * 16 + of_char b div 16 < 64" "(of_char b :: nat) mod 16 * 4 + of_char c div 64 < 64"
  using byte_div [of b] byte_div [of c] mod_less_divisor [of 4 "of_char a"] mod_less_divisor [of 16 "of_char b"]
  by linarith+

lemma sextet_end_lt: "(of_char a :: nat) mod 4 * 16 < 64" "(of_char b :: nat) mod 16 * 4 < 64"
  using mod_less_divisor [of 4 "of_char a"] mod_less_divisor [of 16 "of_char b"] by linarith+

lemma sextets_lt: "n \<in> set (sextets s) \<Longrightarrow> n < 64"
  by (induction s rule: sextets.induct) (auto simp: byte_div sextet_lt sextet_end_lt)

lemma btoa_sextets: "\<exists>n. btoa s = map b64_char (sextets s) @ replicate n (CHR ''='')"
proof (induction s rule: btoa.induct)
  case 1
  then show ?case by simp
next
  case (2 a)
  show ?case by (intro exI [of _ 2]) (simp add: numeral_2_eq_2)
next
  case (3 a b)
  show ?case by (intro exI [of _ 1]) simp
qed auto

text \<open>The code units of the alphabet.\<close>

definition url_code :: "nat \<Rightarrow> nat" where
  "url_code n = (if n < 26 then 65 + n else if n < 52 then 71 + n else if n < 62 then n - 4 else if n = 62 then 45 else 95)"

lemma of_b64_char: "n < 62 \<Longrightarrow> (of_char (b64_char n) :: nat) = url_code n"
  by (auto simp: b64_char_def url_code_def of_char_of)

lemma of_url_char: "n < 64 \<Longrightarrow> (of_char (url_char n) :: nat) = url_code n"
proof (cases "n < 62")
  case False
  moreover assume "n < 64"
  ultimately have "n = 62 \<or> n = 63" by linarith
  then show ?thesis by (auto simp: url_char_def url_code_def)
qed (simp add: url_char_def of_b64_char)

lemma url_code_cases: "n < 64 \<Longrightarrow> url_code n \<in> {45, 95} \<union> {48..57} \<union> {65..90} \<union> {97..122}"
  by (auto simp: url_code_def)

lemma url_code_inj: "m < 64 \<Longrightarrow> n < 64 \<Longrightarrow> url_code m = url_code n \<Longrightarrow> m = n"
  by (simp add: url_code_def split: if_splits)

lemma url_char_facts:
  assumes "n < 64"
  shows "url_char n \<noteq> CHR ''=''" and "\<not> is_js_space (url_char n)"
proof -
  have "(of_char (url_char n) :: nat) \<noteq> of_char (CHR ''='')" "\<not> is_js_space (url_char n)"
    using url_code_cases [OF assms] by (auto simp: of_url_char [OF assms] is_js_space_def)
  then show "url_char n \<noteq> CHR ''=''" "\<not> is_js_space (url_char n)" by auto
qed

lemma url_replaced:
  assumes "n < 64"
  shows "(if b64_char n = CHR ''+'' then CHR ''-'' else if b64_char n = CHR ''/'' then CHR ''_'' else b64_char n) = url_char n"
proof -
  have "(of_char (b64_char n) :: nat) \<notin> {of_char (CHR ''+''), of_char (CHR ''/''), of_char (CHR ''='')}" if "n < 62"
    using url_code_cases [OF assms] that by (auto simp: of_b64_char url_code_def)
  then have low: "b64_char n \<notin> {CHR ''+'', CHR ''/'', CHR ''=''}" if "n < 62" using that by auto
  show "(if b64_char n = CHR ''+'' then CHR ''-'' else if b64_char n = CHR ''/'' then CHR ''_'' else b64_char n) = url_char n"
    using low assms by (cases "n < 62") (auto simp: url_char_def b64_char_def)
qed

lemma url_char_inj: "m < 64 \<Longrightarrow> n < 64 \<Longrightarrow> url_char m = url_char n \<Longrightarrow> m = n"
  by (metis of_url_char url_code_inj)

lemma strip_padding_end:
  "(\<forall>c \<in> set s. c \<noteq> CHR ''='') \<Longrightarrow> strip_padding (s @ replicate n (CHR ''='')) = s"
proof -
  assume s: "\<forall>c \<in> set s. c \<noteq> CHR ''=''"
  have "dropWhile (\<lambda>c. c = CHR ''='') (replicate n (CHR ''='') @ rev s) = rev s"
    using s by (induction n) (cases "rev s"; force dest: arg_cong [of _ _ set])+
  then show ?thesis by (simp add: strip_padding_def)
qed

lemma secret_bytes_map: "secret_bytes bytes = map (\<lambda>b. char_of (unat b)) bytes"
proof -
  have "foldl (\<lambda>s byte. s @ [char_of (unat byte)]) s bytes = s @ map (\<lambda>b. char_of (unat b)) bytes" for s
    by (induction bytes arbitrary: s) simp_all
  then show ?thesis by (simp add: secret_bytes_def)
qed

lemma generated_secret: "generateSecretValue bytes = map url_char (sextets (secret_bytes bytes))"
proof -
  obtain n where n: "btoa (secret_bytes bytes) =
      map b64_char (sextets (secret_bytes bytes)) @ replicate n (CHR ''='')"
    using btoa_sextets by blast
  have "replace_char (CHR ''/'') (CHR ''_'') (replace_char (CHR ''+'') (CHR ''-'') (btoa (secret_bytes bytes)))
      = map url_char (sextets (secret_bytes bytes)) @ replicate n (CHR ''='')"
    by (auto simp: n replace_char_def comp_def dest!: sextets_lt url_replaced)
  then show ?thesis
    using strip_padding_end [of "map url_char (sextets (secret_bytes bytes))" n]
    by (auto simp: generateSecretValue_def dest: sextets_lt url_char_facts(1))
qed

lemma length_sextets: "length (sextets s) = (4 * length s + 2) div 3"
  by (induction s rule: sextets.induct) simp_all

lemma byte_of: "(of_char c :: nat) = of_char d \<Longrightarrow> c = d"
  by (metis char_of_char)

lemma mixed_digits:
  assumes "(a::nat) * k + r = b * k + s" and "r < k" and "s < k"
  shows "a = b" and "r = s"
proof -
  have "(a * k + r) div k = a" "(b * k + s) div k = b" "(a * k + r) mod k = r" "(b * k + s) mod k = s"
    using assms(2,3) by simp_all
  then show "a = b" "r = s" using assms(1) by metis+
qed

text \<open>Each group of four values determines its three characters.\<close>

lemma group_start:
  assumes "(of_char a :: nat) div 4 = of_char a' div 4" and "(of_char a :: nat) mod 4 = of_char a' mod 4"
  shows "a = a'"
  using assms by (metis byte_of div_mult_mod_eq)

lemma group_two:
  assumes "(of_char a :: nat) div 4 = of_char a' div 4"
    and "(of_char a :: nat) mod 4 * 16 + of_char b div 16 = of_char a' mod 4 * 16 + of_char b' div 16"
  shows "a = a'" and "(of_char b :: nat) div 16 = of_char b' div 16"
  using mixed_digits [OF assms(2) byte_div(2) byte_div(2)] group_start [OF assms(1)] by blast+

lemma group_three:
  assumes "(of_char b :: nat) div 16 = of_char b' div 16"
    and "(of_char b :: nat) mod 16 * 4 + of_char c div 64 = of_char b' mod 16 * 4 + of_char c' div 64"
    and "(of_char c :: nat) mod 64 = of_char c' mod 64"
  shows "b = b'" and "c = c'"
  using mixed_digits [OF assms(2) byte_div(3) byte_div(3)] assms(1,3) by (metis byte_of div_mult_mod_eq)+

lemma sextets_inj: "sextets s = sextets t \<Longrightarrow> s = t"
proof (induction s arbitrary: t rule: sextets.induct)
  case 1
  then show ?case by (cases t rule: sextets.cases) simp_all
next
  case (2 a)
  then obtain a' where "t = [a']" by (cases t rule: sextets.cases) simp_all
  with 2 show ?case using group_start [of a a'] by simp
next
  case (3 a b)
  then obtain a' b' where t: "t = [a', b']" by (cases t rule: sextets.cases) simp_all
  have "a = a'" "(of_char b :: nat) div 16 = of_char b' div 16"
    by (rule group_two [of a a' b b']; use 3 t in simp)+
  moreover have "(of_char b :: nat) mod 16 = of_char b' mod 16" using 3 t by simp
  ultimately show ?case unfolding t by (metis byte_of div_mult_mod_eq)
next
  case (4 a b c s)
  then obtain a' b' c' t' where t: "t = a' # b' # c' # t'" by (cases t rule: sextets.cases) simp_all
  have ab: "a = a'" "(of_char b :: nat) div 16 = of_char b' div 16"
    by (rule group_two [of a a' b b']; use 4(2) t in simp)+
  have "b = b'" "c = c'"
    by (rule group_three [OF ab(2), of c c']; use 4(2) t in simp)+
  with ab 4 t show ?case by simp
qed

lemma generated_inj: "generateSecretValue bytes = generateSecretValue bytes' \<longleftrightarrow> bytes = bytes'"
proof
  assume "generateSecretValue bytes = generateSecretValue bytes'"
  then have same: "map url_char (sextets (secret_bytes bytes)) = map url_char (sextets (secret_bytes bytes'))"
    by (simp add: generated_secret)
  have "inj_on url_char (set (sextets (secret_bytes bytes)) \<union> set (sextets (secret_bytes bytes')))"
    by (auto intro!: inj_onI url_char_inj dest: sextets_lt)
  with same have "secret_bytes bytes = secret_bytes bytes'"
    by (intro sextets_inj) (metis inj_on_map_eq_map)
  moreover have "b = b'" if same: "char_of (unat b) = (char_of (unat b') :: char)" for b b' :: "8 word"
  proof -
    have "unat b mod 256 = unat b' mod 256"
      using arg_cong [OF same, of "of_char :: char \<Rightarrow> nat"] by (simp only: of_char_of)
    moreover have "unat b < 256" "unat b' < 256"
      using unsigned_less [of b, where 'a = nat] unsigned_less [of b', where 'a = nat] by simp_all
    ultimately show ?thesis by (simp only: mod_less word_unat_eq_iff)
  qed
  ultimately show "bytes = bytes'"
    by (auto simp: secret_bytes_map intro!: map_inj_on [of "\<lambda>b. char_of (unat b)"] inj_onI)
qed simp

lemma generated_length: "length (generateSecretValue bytes) = (4 * length bytes + 2) div 3"
  by (simp add: generated_secret length_sextets secret_bytes_map)

lemma generated_no_space: "c \<in> set (generateSecretValue bytes) \<Longrightarrow> \<not> is_js_space c"
  by (auto simp: generated_secret dest: sextets_lt url_char_facts(2))

section \<open>The list of secrets\<close>

record agent_secret =
  sec_id :: int
  sec_agent :: js_string
  sec_value :: js_string

text \<open>\<open>MIN_SECRET_LENGTH\<close> and the schema of the editor; its output is the trimmed value.\<close>

definition MIN_SECRET_LENGTH :: nat where
  "MIN_SECRET_LENGTH = 32"

definition secretEditorSchema :: "js_string \<Rightarrow> issue list" where
  "secretEditorSchema v =
     issue_if (length (js_trim v) < MIN_SECRET_LENGTH) ''value'' ''Secret must be at least 32 characters.''"

definition secret_error :: "thrown \<Rightarrow> js_string" where
  "secret_error e = message_of e ''An unexpected error occurred.''"

datatype active_row = CreateRow js_string | EditRow int | DeleteRow int

datatype secret_call = CreateSecret js_string | UpdateSecret int js_string | RemoveSecret int

text \<open>
  The state of \<open>SecretManager\<close> and of the item in its active row: the rows of the agent, the active row,
  the secrets shown in clear, the text of the editor, whether it was touched or
  submitted, its error, the request under
  way and the requests made so far.
\<close>

record secret_manager =
  sm_rows :: "agent_secret list"
  sm_active :: "active_row option"
  sm_visible :: "int set"
  sm_text :: js_string
  sm_touched :: bool
  sm_submitted :: bool
  sm_error :: "js_string option"
  sm_pending :: "secret_call option"
  sm_sent :: "secret_call list"

definition open_secrets :: "js_string \<Rightarrow> agent_secret list \<Rightarrow> secret_manager" where
  "open_secrets agent rows =
     \<lparr>sm_rows = filter (\<lambda>secret. sec_agent secret = agent) rows, sm_active = None, sm_visible = {}, sm_text = [],
      sm_touched = False, sm_submitted = False, sm_error = None, sm_pending = None, sm_sent = []\<rparr>"

definition find_secret :: "int \<Rightarrow> secret_manager \<Rightarrow> agent_secret option" where
  "find_secret i s = List.find (\<lambda>secret. sec_id secret = i) (sm_rows s)"

definition setSecretVisible :: "int \<Rightarrow> bool \<Rightarrow> secret_manager \<Rightarrow> secret_manager" where
  "setSecretVisible i on s = s\<lparr>sm_visible := (if on then insert i (sm_visible s) else sm_visible s - {i})\<rparr>"

text \<open>Which items are on screen: the display item of a row, the editor, the question before a deletion.\<close>

definition displayed :: "secret_manager \<Rightarrow> int \<Rightarrow> bool" where
  "displayed s i \<longleftrightarrow>
     find_secret i s \<noteq> None \<and> sm_active s \<noteq> Some (EditRow i) \<and> sm_active s \<noteq> Some (DeleteRow i)"

definition editor_shown :: "secret_manager \<Rightarrow> bool" where
  "editor_shown s =
     (case sm_active s of
        Some (CreateRow _) \<Rightarrow> True
      | Some (EditRow i) \<Rightarrow> find_secret i s \<noteq> None
      | _ \<Rightarrow> False)"

definition delete_shown :: "secret_manager \<Rightarrow> bool" where
  "delete_shown s = (case sm_active s of Some (DeleteRow i) \<Rightarrow> find_secret i s \<noteq> None | _ \<Rightarrow> False)"

text \<open>The text of a display item; \<open>None\<close> stands for \<open>SECRET_MASK\<close>.\<close>

definition shown_secret :: "secret_manager \<Rightarrow> agent_secret \<Rightarrow> js_string option" where
  "shown_secret s secret = (if sec_id secret \<in> sm_visible s then Some (sec_value secret) else None)"

text \<open>A change of the active row mounts a new item: its local state starts over.\<close>

definition activate :: "active_row option \<Rightarrow> js_string \<Rightarrow> secret_manager \<Rightarrow> secret_manager" where
  "activate row v s = s\<lparr>sm_active := row, sm_text := v, sm_touched := False, sm_submitted := False, sm_error := None\<rparr>"

definition initialValue :: "secret_manager \<Rightarrow> js_string" where
  "initialValue s =
     (case sm_active s of
        Some (CreateRow v) \<Rightarrow> v
      | Some (EditRow i) \<Rightarrow> coalesce (map_option sec_value (find_secret i s)) []
      | _ \<Rightarrow> [])"

text \<open>The call \<open>onSave\<close> makes, of the active row.\<close>

definition save_call :: "secret_manager \<Rightarrow> secret_call option" where
  "save_call s =
     (case sm_active s of
        Some (CreateRow _) \<Rightarrow> Some (CreateSecret (js_trim (sm_text s)))
      | Some (EditRow i) \<Rightarrow> Some (UpdateSecret i (js_trim (sm_text s)))
      | _ \<Rightarrow> None)"

definition send_call :: "secret_call \<Rightarrow> secret_manager \<Rightarrow> secret_manager" where
  "send_call c s = s\<lparr>sm_error := None, sm_pending := Some c, sm_sent := sm_sent s @ [c]\<rparr>"

text \<open>
  The editor's button is disabled while the form is known to be invalid, while a request is under way and,
  in edit mode, while nothing was changed.
\<close>

definition submit_secret :: "secret_manager \<Rightarrow> secret_manager" where
  "submit_secret s =
     (let invalid = (secretEditorSchema (sm_text s) \<noteq> []);
          edits = (case sm_active s of Some (EditRow _) \<Rightarrow> True | _ \<Rightarrow> False)
      in if sm_pending s \<noteq> None \<or> (sm_submitted s \<and> invalid) \<or> (edits \<and> sm_text s = initialValue s) then s
         else if invalid then s\<lparr>sm_submitted := True\<rparr>
         else (case save_call s of
                 None \<Rightarrow> s
               | Some c \<Rightarrow> send_call c (s\<lparr>sm_submitted := True\<rparr>)))"

definition call_settled :: "thrown + int \<Rightarrow> secret_call \<Rightarrow> secret_manager \<Rightarrow> secret_manager" where
  "call_settled outcome c s =
     (case outcome of
        Inl e \<Rightarrow>
          s\<lparr>sm_pending := None,
            sm_error := (if editor_shown s \<or> delete_shown s then Some (secret_error e) else sm_error s)\<rparr>
      | Inr savedID \<Rightarrow>
          activate None []
            (setSecretVisible (case c of RemoveSecret i \<Rightarrow> i | _ \<Rightarrow> savedID)
               (case c of RemoveSecret _ \<Rightarrow> False | _ \<Rightarrow> True) (s\<lparr>sm_pending := None\<rparr>)))"

datatype secret_event =
    SecretsLoaded "agent_secret list" | ToggleVisible int | ClickEditSecret int | ClickDeleteSecret int
  | ClickAddSecret "8 word list" | TypeSecret js_string | CancelSecret | SubmitSecret | ConfirmDelete
  | CallSettled "thrown + int"

text \<open>
  The editor of a row that comes back after it was gone starts over, and a new value of the row replaces a
  text nobody touched.  The list is loaded again when the window gets the focus, and after a mutation of this
  client.
\<close>

definition secrets_loaded :: "js_string \<Rightarrow> agent_secret list \<Rightarrow> secret_manager \<Rightarrow> secret_manager" where
  "secrets_loaded agent rows s =
     (let s' = s\<lparr>sm_rows := filter (\<lambda>secret. sec_agent secret = agent) rows\<rparr>
      in if (editor_shown s' \<or> delete_shown s') \<and> \<not> (editor_shown s \<or> delete_shown s)
         then activate (sm_active s) (initialValue s') s'
         else if editor_shown s' \<and> \<not> sm_touched s \<and> \<not> sm_submitted s then s'\<lparr>sm_text := initialValue s'\<rparr>
         else s')"

fun secret_step :: "js_string \<Rightarrow> secret_manager \<Rightarrow> secret_event \<Rightarrow> secret_manager" where
  "secret_step agent s (SecretsLoaded rows) = secrets_loaded agent rows s"
| "secret_step agent s (ToggleVisible i) =
     (if displayed s i then setSecretVisible i (i \<notin> sm_visible s) s else s)"
| "secret_step agent s (ClickEditSecret i) =
     (if displayed s i \<and> sm_active s = None
      then activate (Some (EditRow i)) (coalesce (map_option sec_value (find_secret i s)) []) s else s)"
| "secret_step agent s (ClickDeleteSecret i) =
     (if displayed s i \<and> sm_active s = None then activate (Some (DeleteRow i)) [] s else s)"
| "secret_step agent s (ClickAddSecret bytes) =
     (if sm_active s = None
      then activate (Some (CreateRow (generateSecretValue bytes))) (generateSecretValue bytes) s else s)"
| "secret_step agent s (TypeSecret v) = (if editor_shown s then s\<lparr>sm_text := v, sm_touched := True\<rparr> else s)"
| "secret_step agent s CancelSecret =
     (if (editor_shown s \<or> delete_shown s) \<and> sm_pending s = None then activate None [] s else s)"
| "secret_step agent s SubmitSecret = (if editor_shown s then submit_secret s else s)"
| "secret_step agent s ConfirmDelete =
     (case sm_active s of
        Some (DeleteRow i) \<Rightarrow> (if delete_shown s \<and> sm_pending s = None then send_call (RemoveSecret i) s else s)
      | _ \<Rightarrow> s)"
| "secret_step agent s (CallSettled outcome) =
     (case sm_pending s of None \<Rightarrow> s | Some c \<Rightarrow> call_settled outcome c s)"


text \<open>What the dialog generates of its 32 bytes passes the schema as it is.\<close>

lemma generated_valid:
  assumes "length bytes = 32"
  shows "secretEditorSchema (generateSecretValue bytes) = []" and "js_trim (generateSecretValue bytes) = generateSecretValue bytes"
proof -
  show "js_trim (generateSecretValue bytes) = generateSecretValue bytes"
    using generated_no_space [of _ bytes] by (auto simp: js_trim_fixed)
  then show "secretEditorSchema (generateSecretValue bytes) = []"
    using generated_length [of bytes] assms by (simp add: secretEditorSchema_def issue_simps MIN_SECRET_LENGTH_def)
qed

section \<open>Requests and visible secrets\<close>

text \<open>
  The invariant: only secrets that the schema takes are sent, trimmed; a request under way is about the
  active row, and the last one sent; the rows are those of the agent.
\<close>

fun call_ok :: "secret_call \<Rightarrow> bool" where
  "call_ok (RemoveSecret i) \<longleftrightarrow> True"
| "call_ok (CreateSecret v) \<longleftrightarrow> js_trim v = v \<and> MIN_SECRET_LENGTH \<le> length v"
| "call_ok (UpdateSecret i v) \<longleftrightarrow> js_trim v = v \<and> MIN_SECRET_LENGTH \<le> length v"

fun call_row :: "secret_call \<Rightarrow> active_row \<Rightarrow> bool" where
  "call_row (CreateSecret v) row \<longleftrightarrow> (\<exists>w. row = CreateRow w)"
| "call_row (UpdateSecret i v) row \<longleftrightarrow> row = EditRow i"
| "call_row (RemoveSecret i) row \<longleftrightarrow> row = DeleteRow i"

definition secrets_ok :: "js_string \<Rightarrow> secret_manager \<Rightarrow> bool" where
  "secrets_ok agent s \<longleftrightarrow>
     list_all call_ok (sm_sent s) \<and> list_all (\<lambda>r. sec_agent r = agent) (sm_rows s) \<and>
     (\<forall>c. sm_pending s = Some c \<longrightarrow>
       sm_sent s \<noteq> [] \<and> last (sm_sent s) = c \<and> (\<exists>row. sm_active s = Some row \<and> call_row c row))"

lemma secrets_ok_open: "secrets_ok agent (open_secrets agent rows)"
  by (simp add: secrets_ok_def open_secrets_def list_all_iff)

lemma secrets_ok_activate:
  "secrets_ok agent s \<Longrightarrow> sm_pending s = None \<Longrightarrow> secrets_ok agent (activate row v s)"
  by (simp add: secrets_ok_def activate_def)

lemma secrets_ok_visible: "secrets_ok agent (setSecretVisible i on s) = secrets_ok agent s"
  by (simp add: secrets_ok_def setSecretVisible_def)

lemma secrets_ok_submit:
  assumes "secrets_ok agent s"
  shows "secrets_ok agent (submit_secret s)"
proof -
  have "call_ok c \<and> (\<exists>row. sm_active s = Some row \<and> call_row c row)"
    if "save_call s = Some c" "secretEditorSchema (sm_text s) = []" for c
    using that by (auto simp: save_call_def secretEditorSchema_def issue_simps split: option.splits active_row.splits)
  then show ?thesis
    using assms by (auto simp: submit_secret_def Let_def secrets_ok_def send_call_def split: option.splits)
qed

lemma secrets_ok_loaded:
  assumes "secrets_ok agent s"
  shows "secrets_ok agent (secrets_loaded agent rows s)"
  using assms by (auto simp: secrets_loaded_def secrets_ok_def activate_def Let_def list_all_iff split: option.splits)

lemma secrets_ok_step:
  assumes ok: "secrets_ok agent s"
  shows "secrets_ok agent (secret_step agent s e)"
proof -
  have idle: "sm_pending s = None" if "sm_active s = None"
    using ok that by (auto simp: secrets_ok_def split: option.splits)
  show ?thesis
  proof (cases e)
    case (CallSettled outcome)
    have "secrets_ok agent (s\<lparr>sm_pending := None\<rparr>)" using ok by (simp add: secrets_ok_def split: option.splits)
    then show ?thesis using ok CallSettled
      by (auto simp: call_settled_def secrets_ok_visible secrets_ok_def activate_def setSecretVisible_def
          split: option.splits sum.splits secret_call.splits)
  next
    case ConfirmDelete
    with ok show ?thesis by (auto simp: secrets_ok_def send_call_def split: option.splits active_row.splits)
  qed (use ok idle in \<open>auto simp: secrets_ok_loaded secrets_ok_visible secrets_ok_submit secrets_ok_activate\<close>,
      auto simp: secrets_ok_def)
qed

lemma secrets_ok_run: "secrets_ok agent s \<Longrightarrow> secrets_ok agent (foldl (secret_step agent) s es)"
  by (induction es arbitrary: s) (simp_all add: secrets_ok_step)

text \<open>Only secrets whose text was asked for, or that were saved here, are shown in clear.\<close>

definition asked_for :: "secret_event list \<Rightarrow> int set" where
  "asked_for es = {i. ToggleVisible i \<in> set es \<or> CallSettled (Inr i) \<in> set es}"

lemma visible_step: "sm_visible (secret_step agent s e) \<subseteq> sm_visible s \<union> asked_for [e]"
  by (cases e) (auto simp: asked_for_def secrets_loaded_def activate_def setSecretVisible_def submit_secret_def
      send_call_def call_settled_def Let_def split: option.splits active_row.splits sum.splits secret_call.splits)

lemma visible_run: "sm_visible (foldl (secret_step agent) s es) \<subseteq> sm_visible s \<union> asked_for es"
proof (induction es arbitrary: s)
  case (Cons e es)
  have "asked_for (e # es) = asked_for [e] \<union> asked_for es" by (auto simp: asked_for_def)
  with Cons.IH [of "secret_step agent s e"] visible_step [of agent s e] show ?case by (simp add: subset_iff) blast
qed (simp add: asked_for_def)

section \<open>A row deleted elsewhere\<close>

text \<open>
  Neither the editor nor the question before a deletion is on screen once the row is gone, so nothing is
  left that closes it: the other rows cannot be edited or deleted and no secret can be added until the row
  is back or the dialog is opened again.
\<close>

fun row_of :: "active_row \<Rightarrow> int option" where
  "row_of (CreateRow v) = None"
| "row_of (EditRow i) = Some i"
| "row_of (DeleteRow i) = Some i"

definition blocked_by :: "int \<Rightarrow> secret_manager \<Rightarrow> bool" where
  "blocked_by i s \<longleftrightarrow>
     (\<exists>row. sm_active s = Some row \<and> row_of row = Some i) \<and> sm_pending s = None \<and> find_secret i s = None"

lemma not_shown: "blocked_by i s \<Longrightarrow> \<not> editor_shown s \<and> \<not> delete_shown s"
  by (auto simp: blocked_by_def editor_shown_def delete_shown_def elim!: row_of.elims)

lemma find_secret_None: "find_secret i s = None \<longleftrightarrow> i \<notin> sec_id ` set (sm_rows s)"
  by (auto simp: find_secret_def find_None_iff)

lemma blocked_step:
  assumes b: "blocked_by i s" and e: "\<not> (\<exists>rows. e = SecretsLoaded rows \<and> i \<in> sec_id ` set rows)"
  shows "blocked_by i (secret_step agent s e) \<and> sm_sent (secret_step agent s e) = sm_sent s"
proof (cases e)
  case (SecretsLoaded rows)
  let ?s' = "s\<lparr>sm_rows := filter (\<lambda>secret. sec_agent secret = agent) rows\<rparr>"
  have "find_secret i ?s' = None" using e SecretsLoaded by (auto simp: find_secret_None)
  then have "blocked_by i ?s'" using b by (simp add: blocked_by_def)
  then show ?thesis using not_shown [of i ?s'] SecretsLoaded by (simp add: secrets_loaded_def Let_def)
qed (use b not_shown [OF b] in \<open>auto simp: blocked_by_def setSecretVisible_def find_secret_def
      delete_shown_def split: active_row.splits option.splits\<close>)

lemma blocked_run:
  assumes "blocked_by i s" and "\<not> (\<exists>rows. SecretsLoaded rows \<in> set es \<and> i \<in> sec_id ` set rows)"
  shows "blocked_by i (foldl (secret_step agent) s es) \<and> sm_sent (foldl (secret_step agent) s es) = sm_sent s"
  using assms
proof (induction es arbitrary: s)
  case (Cons e es)
  have "\<not> (\<exists>rows. e = SecretsLoaded rows \<and> i \<in> sec_id ` set rows)" using Cons.prems(2) by auto
  from blocked_step [OF Cons.prems(1) this, of agent] Cons.IH [of "secret_step agent s e"]
  have "\<not> (\<exists>rows. SecretsLoaded rows \<in> set es \<and> i \<in> sec_id ` set rows) \<Longrightarrow> ?case" by simp
  with Cons.prems(2) show ?case by auto
qed simp

end
