(* ===== verification/PackageReferences.thy ===== *)
theory PackageReferences
  imports MunkiPackageForm "HOL-Library.Sublist"
begin

text \<open>
  The select of a package reference (\<open>web/src/features/munki/packages/package-reference-editors.tsx\<close>):
  packages grouped by their software, the options, what choosing one makes of the row, and what the
  select shows for a row.

  Main results: the groups are the packages sorted by the first occurrence of their software; no two
  options have the same value; choosing an option makes a reference that the select shows as this option.
\<close>

section \<open>Groups\<close>

text \<open>The parts of a package that are read.\<close>

record package_option =
  po_id :: int
  po_version :: js_string
  po_software_id :: int
  po_software_name :: js_string
  po_icon_url :: "js_string option"

record package_group =
  pg_softwareID :: int
  pg_softwareTitle :: js_string
  pg_softwareIconURL :: "js_string option"
  pg_packages :: "package_option list"

text \<open>
  The \<open>Map\<close>, as its entries in insertion order: setting a key that is there keeps its place.
\<close>

fun map_set :: "int \<Rightarrow> 'v \<Rightarrow> (int \<times> 'v) list \<Rightarrow> (int \<times> 'v) list" where
  "map_set k v [] = [(k, v)]"
| "map_set k v ((k', v') # m) = (if k' = k then (k', v) # m else (k', v') # map_set k v m)"

definition group_package :: "(int \<times> package_group) list \<Rightarrow> package_option \<Rightarrow> (int \<times> package_group) list" where
  "group_package groups pkg =
     (let group = coalesce (map_of groups (po_software_id pkg))
            \<lparr>pg_softwareID = po_software_id pkg, pg_softwareTitle = po_software_name pkg,
             pg_softwareIconURL = po_icon_url pkg, pg_packages = []\<rparr>
      in map_set (po_software_id pkg) (group\<lparr>pg_packages := pg_packages group @ [pkg]\<rparr>) groups)"

definition packageReferenceGroups :: "package_option list \<Rightarrow> package_group list" where
  "packageReferenceGroups packages = map snd (foldl group_package [] packages)"

text \<open>The reference: for each software in order of its first package, its packages in order.\<close>

definition software_group :: "package_option list \<Rightarrow> int \<Rightarrow> package_group" where
  "software_group packages i =
     (let own = filter (\<lambda>p. po_software_id p = i) packages
      in \<lparr>pg_softwareID = i, pg_softwareTitle = po_software_name (hd own),
          pg_softwareIconURL = po_icon_url (hd own), pg_packages = own\<rparr>)"

lemma map_set_new: "k \<notin> fst ` set m \<Longrightarrow> map_set k v m = m @ [(k, v)]"
  by (induction m) auto

lemma map_set_map:
  "distinct is \<Longrightarrow> k \<in> set is \<Longrightarrow>
   map_set k v (map (\<lambda>i. (i, f i)) is) = map (\<lambda>i. (i, if i = k then v else f i)) is"
  by (induction "is") auto

lemma map_of_keys: "map_of (map (\<lambda>i. (i, f i)) is) k = (if k \<in> set is then Some (f k) else None)"
  by (induction "is") auto

lemma js_set_snoc: "js_set (xs @ [x]) = (if x \<in> set xs then js_set xs else js_set xs @ [x])"
  by (simp add: js_set_def)

lemma software_group_snoc:
  "software_group (packages @ [p]) i =
     (if po_software_id p = i
      then (if i \<in> po_software_id ` set packages
            then (software_group packages i)\<lparr>pg_packages := pg_packages (software_group packages i) @ [p]\<rparr>
            else \<lparr>pg_softwareID = i, pg_softwareTitle = po_software_name p, pg_softwareIconURL = po_icon_url p,
                  pg_packages = [p]\<rparr>)
      else software_group packages i)"
proof -
  have "filter (\<lambda>p. po_software_id p = i) packages \<noteq> [] \<longleftrightarrow> i \<in> po_software_id ` set packages"
    by (auto simp: filter_empty_conv)
  then show ?thesis by (auto simp: software_group_def Let_def hd_append)
qed

lemma grouped:
  "foldl group_package [] packages =
     map (\<lambda>i. (i, software_group packages i)) (js_set (map po_software_id packages))"
proof (induction packages rule: rev_induct)
  case Nil
  then show ?case by (simp add: js_set_def)
next
  case (snoc p packages)
  let ?is = "js_set (map po_software_id packages)"
  let ?i = "po_software_id p"
  show ?case
  proof (cases "?i \<in> po_software_id ` set packages")
    case True
    then have "?i \<in> set ?is" by simp
    with True snoc show ?thesis
      by (simp add: group_package_def map_of_keys map_set_map js_set_snoc software_group_snoc Let_def
          cong: if_cong)
  next
    case False
    then have "?i \<notin> set ?is" by simp
    with False snoc show ?thesis
      by (auto simp: group_package_def map_of_keys map_set_new js_set_snoc software_group_snoc Let_def image_iff)
  qed
qed

lemma reference_groups:
  "packageReferenceGroups packages = map (software_group packages) (js_set (map po_software_id packages))"
  by (simp add: packageReferenceGroups_def grouped)

lemma grouped_packages: "set (concat (map pg_packages (packageReferenceGroups packages))) = set packages"
  by (auto simp: reference_groups software_group_def Let_def)

section \<open>Options\<close>

text \<open>
  The label of a version; \<open>dash\<close> is the separator of the template, an em dash between spaces, which the
  modelled alphabet does not have.
\<close>

definition packageLabel :: "js_string \<Rightarrow> package_option \<Rightarrow> js_string" where
  "packageLabel dash pkg = po_software_name pkg @ dash @ po_version pkg"

definition packageReferencePackageValue :: "int \<Rightarrow> js_string" where
  "packageReferencePackageValue packageID = ''package:'' @ show_int packageID"

definition packageReferenceSoftwareValue :: "int \<Rightarrow> js_string" where
  "packageReferenceSoftwareValue softwareID = ''software:'' @ show_int softwareID"

record reference_option =
  ro_value :: js_string
  ro_label :: js_string
  ro_kind :: js_string
  ro_softwareIconURL :: "js_string option"
  ro_version :: "js_string option"

definition packageReferenceOptionGroups :: "js_string \<Rightarrow> package_group list \<Rightarrow> (js_string \<times> reference_option list) list" where
  "packageReferenceOptionGroups dash packageGroups =
     map (\<lambda>group.
       (show_int (pg_softwareID group),
        \<lparr>ro_value = packageReferenceSoftwareValue (pg_softwareID group), ro_label = pg_softwareTitle group,
         ro_kind = ''software'', ro_softwareIconURL = pg_softwareIconURL group, ro_version = None\<rparr> #
        map (\<lambda>pkg. \<lparr>ro_value = packageReferencePackageValue (po_id pkg), ro_label = packageLabel dash pkg,
                      ro_kind = ''package'', ro_softwareIconURL = None, ro_version = Some (po_version pkg)\<rparr>)
          (pg_packages group)))
       packageGroups"

text \<open>The text of the input when the select is mounted.\<close>

definition packageReferenceInputValue :: "js_string \<Rightarrow> package_reference_row \<Rightarrow> package_group list \<Rightarrow> js_string" where
  "packageReferenceInputValue dash row packageGroups =
     (case List.find (\<lambda>pkg. Some (po_id pkg) = prr_package_id row) (concat (map pg_packages packageGroups)) of
        Some pkg \<Rightarrow> packageLabel dash pkg
      | None \<Rightarrow>
          (let name = coalesce (prr_software_name row) []; version = coalesce (prr_package_version row) []
           in if name = [] then [] else if version = [] then name else name @ '' '' @ version))"

text \<open>What a choice makes of a row: the label shown and the reference.\<close>

record package_choice =
  pc_software_id :: int
  pc_software_name :: js_string
  pc_package_id :: "int option"
  pc_package_version :: "js_string option"

definition packageReferenceSelection ::
    "js_string \<Rightarrow> js_string option \<Rightarrow> package_group list \<Rightarrow> (js_string \<times> package_choice) option" where
  "packageReferenceSelection dash choice packageGroups =
     (case choice of
        None \<Rightarrow> None
      | Some v \<Rightarrow>
          (if prefix ''software:'' v then
             map_option
               (\<lambda>group. (pg_softwareTitle group,
                  \<lparr>pc_software_id = pg_softwareID group, pc_software_name = pg_softwareTitle group,
                   pc_package_id = None, pc_package_version = None\<rparr>))
               (List.find (\<lambda>group. num_of_int (pg_softwareID group) = js_number (drop 9 v)) packageGroups)
           else if \<not> prefix ''package:'' v then None
           else
             map_option
               (\<lambda>pkg. (packageLabel dash pkg,
                  \<lparr>pc_software_id = po_software_id pkg, pc_software_name = po_software_name pkg,
                   pc_package_id = Some (po_id pkg), pc_package_version = Some (po_version pkg)\<rparr>))
               (List.find (\<lambda>pkg. num_of_int (po_id pkg) = js_number (drop 8 v))
                  (concat (map pg_packages packageGroups)))))"

text \<open>\<open>onValueChange\<close>: a choice that is no option leaves the row as it is.\<close>

definition choose_reference ::
    "js_string \<Rightarrow> package_group list \<Rightarrow> js_string option \<Rightarrow> package_reference_row \<Rightarrow> package_reference_row" where
  "choose_reference dash packageGroups choice row =
     (case packageReferenceSelection dash choice packageGroups of
        None \<Rightarrow> row
      | Some (_, ref) \<Rightarrow>
          \<lparr>prr_software_id = Some (pc_software_id ref), prr_package_id = pc_package_id ref,
           prr_software_name = Some (pc_software_name ref), prr_package_version = pc_package_version ref,
           prr_rowID = prr_rowID row\<rparr>)"

text \<open>The value of the row and the option shown as chosen.\<close>

definition truthy_id :: "int option \<Rightarrow> int option" where
  "truthy_id v = (if v = Some 0 then None else v)"

definition selectedValue :: "package_reference_row \<Rightarrow> js_string" where
  "selectedValue row =
     (case truthy_id (prr_package_id row) of
        Some i \<Rightarrow> packageReferencePackageValue i
      | None \<Rightarrow>
          (case truthy_id (prr_software_id row) of
             Some i \<Rightarrow> packageReferenceSoftwareValue i
           | None \<Rightarrow> []))"

definition selectedOption :: "js_string \<Rightarrow> package_group list \<Rightarrow> package_reference_row \<Rightarrow> reference_option option" where
  "selectedOption dash packageGroups row =
     List.find (\<lambda>option. ro_value option = selectedValue row)
       (concat (map snd (packageReferenceOptionGroups dash packageGroups)))"

section \<open>Choosing\<close>

text \<open>What the server promises of a list of packages: ids are positive, exact in a double and not repeated.\<close>

definition id_ok :: "int \<Rightarrow> bool" where
  "id_ok i \<longleftrightarrow> 0 < i \<and> i \<le> max_safe_integer"

definition packages_ok :: "package_option list \<Rightarrow> bool" where
  "packages_ok packages \<longleftrightarrow>
     distinct (map po_id packages) \<and> (\<forall>p \<in> set packages. id_ok (po_id p) \<and> id_ok (po_software_id p))"

lemma value_texts:
  "prefix ''software:'' (packageReferenceSoftwareValue i)" "drop 9 (packageReferenceSoftwareValue i) = show_int i"
  "\<not> prefix ''software:'' (packageReferencePackageValue i)"
  "prefix ''package:'' (packageReferencePackageValue i)" "drop 8 (packageReferencePackageValue i) = show_int i"
  "packageReferencePackageValue i \<noteq> packageReferenceSoftwareValue j"
  by (simp_all add: packageReferenceSoftwareValue_def packageReferencePackageValue_def)

lemma values_inj [simp]:
  "packageReferenceSoftwareValue i = packageReferenceSoftwareValue j \<longleftrightarrow> i = j"
  "packageReferencePackageValue i = packageReferencePackageValue j \<longleftrightarrow> i = j"
  by (simp_all add: packageReferenceSoftwareValue_def packageReferencePackageValue_def)

lemma id_text: "id_ok i \<Longrightarrow> js_number (show_int i) = num_of_int i"
  by (simp add: id_ok_def max_safe_integer_def js_number_show_int)

lemma id_texts_differ: "id_ok i \<Longrightarrow> num_of_int j = js_number (show_int i) \<longleftrightarrow> j = i"
  by (auto simp: id_text)

lemma option_values:
  "map ro_value (concat (map snd (packageReferenceOptionGroups dash groups))) =
     concat (map (\<lambda>g. packageReferenceSoftwareValue (pg_softwareID g) #
       map (\<lambda>p. packageReferencePackageValue (po_id p)) (pg_packages g)) groups)"
  by (simp add: packageReferenceOptionGroups_def map_concat comp_def)

definition group_values :: "package_option list \<Rightarrow> int \<Rightarrow> js_string list" where
  "group_values packages i = packageReferenceSoftwareValue i #
     map (\<lambda>p. packageReferencePackageValue (po_id p)) (filter (\<lambda>p. po_software_id p = i) packages)"

lemma set_group_values:
  "v \<in> set (group_values packages i) \<longleftrightarrow> v = packageReferenceSoftwareValue i \<or>
     (\<exists>p \<in> set packages. po_software_id p = i \<and> v = packageReferencePackageValue (po_id p))"
  by (auto simp: group_values_def)

lemma distinct_group_values:
  assumes "distinct (map po_id packages)"
  shows "distinct (group_values packages i)"
proof -
  have "distinct (map po_id (filter (\<lambda>p. po_software_id p = i) packages))"
    using assms by (rule distinct_map_filter)
  then have "distinct (map (\<lambda>p. packageReferencePackageValue (po_id p)) (filter (\<lambda>p. po_software_id p = i) packages))"
    by (simp add: distinct_map inj_on_def)
  moreover have "packageReferenceSoftwareValue i \<noteq> packageReferencePackageValue j" for j
    by (rule value_texts(6) [THEN not_sym])
  ultimately show ?thesis by (auto simp: group_values_def)
qed

lemma same_group:
  assumes "distinct (map po_id packages)" and "v \<in> set (group_values packages i)" and "v \<in> set (group_values packages j)"
  shows "i = j"
proof -
  have "po_software_id p = po_software_id q" if "p \<in> set packages" "q \<in> set packages" "po_id p = po_id q" for p q
    using assms(1) that by (metis distinct_map inj_onD)
  with assms(2,3) show ?thesis unfolding set_group_values by (metis value_texts(6) values_inj)
qed

lemma distinct_groups:
  assumes "distinct (map po_id packages)" and "distinct is"
  shows "distinct (concat (map (group_values packages) is))"
  using assms(2)
proof (induction "is")
  case (Cons i "is")
  then show ?case using distinct_group_values [OF assms(1)] same_group [OF assms(1)] by auto
qed simp

text \<open>No two options have the same value.\<close>

lemma options_distinct:
  assumes "packages_ok packages"
  shows "distinct (map ro_value (concat (map snd (packageReferenceOptionGroups dash (packageReferenceGroups packages)))))"
  using distinct_groups [of packages "js_set (map po_software_id packages)"] assms
  by (simp add: option_values reference_groups software_group_def Let_def comp_def packages_ok_def
      group_values_def [abs_def])

text \<open>Every option is the software of a group or one of its packages.\<close>

lemma option_cases:
  assumes "option \<in> set (concat (map snd (packageReferenceOptionGroups dash (packageReferenceGroups packages))))"
  obtains (software) p where "p \<in> set packages"
      and "ro_value option = packageReferenceSoftwareValue (po_software_id p)"
      and "ro_label option = pg_softwareTitle (software_group packages (po_software_id p))"
    | (version) p where "p \<in> set packages" and "ro_value option = packageReferencePackageValue (po_id p)"
      and "ro_label option = packageLabel dash p"
proof -
  from assms obtain i where i: "i \<in> set (js_set (map po_software_id packages))"
    and "option \<in> set (snd (hd (packageReferenceOptionGroups dash [software_group packages i])))"
    unfolding packageReferenceOptionGroups_def reference_groups by (simp del: set_js_set) blast
  then consider
      "option = \<lparr>ro_value = packageReferenceSoftwareValue i, ro_label = pg_softwareTitle (software_group packages i),
         ro_kind = ''software'', ro_softwareIconURL = pg_softwareIconURL (software_group packages i), ro_version = None\<rparr>"
    | p where "p \<in> set packages" "option = \<lparr>ro_value = packageReferencePackageValue (po_id p), ro_label = packageLabel dash p,
         ro_kind = ''package'', ro_softwareIconURL = None, ro_version = Some (po_version p)\<rparr>"
    by (auto simp: packageReferenceOptionGroups_def software_group_def Let_def)
  then show thesis
  proof cases
    case 1
    from i obtain p where "p \<in> set packages" "i = po_software_id p" by auto
    then show thesis using 1 by (intro software [of p]) simp_all
  next
    case (2 p)
    then show thesis by (intro version [of p]) simp_all
  qed
qed

lemma find_unique:
  "x \<in> set xs \<Longrightarrow> P x \<Longrightarrow> (\<And>y. y \<in> set xs \<Longrightarrow> P y \<Longrightarrow> y = x) \<Longrightarrow> List.find P xs = Some x"
proof (cases "List.find P xs")
  case None
  assume "x \<in> set xs" "P x"
  with None show ?thesis by (auto simp: find_None_iff)
next
  case (Some y)
  then have "y \<in> set xs" "P y" by (auto simp: find_Some_iff)
  moreover assume "\<And>y. y \<in> set xs \<Longrightarrow> P y \<Longrightarrow> y = x"
  ultimately show ?thesis using Some by simp
qed

lemma find_group:
  assumes "packages_ok packages" and "p \<in> set packages"
  shows "List.find (\<lambda>group. num_of_int (pg_softwareID group) = js_number (show_int (po_software_id p)))
      (packageReferenceGroups packages) = Some (software_group packages (po_software_id p))"
proof (rule find_unique)
  show "software_group packages (po_software_id p) \<in> set (packageReferenceGroups packages)"
    using assms(2) by (simp add: reference_groups)
  have "id_ok (po_software_id p)" using assms by (simp add: packages_ok_def)
  note same = id_texts_differ [OF this]
  show "num_of_int (pg_softwareID (software_group packages (po_software_id p))) = js_number (show_int (po_software_id p))"
    unfolding same by (simp add: software_group_def Let_def)
  fix g assume "g \<in> set (packageReferenceGroups packages)"
    and "num_of_int (pg_softwareID g) = js_number (show_int (po_software_id p))"
  then show "g = software_group packages (po_software_id p)"
    unfolding same by (auto simp: reference_groups software_group_def Let_def)
qed

lemma find_package:
  assumes "packages_ok packages" and "p \<in> set packages"
  shows "List.find (\<lambda>pkg. num_of_int (po_id pkg) = js_number (show_int (po_id p)))
      (concat (map pg_packages (packageReferenceGroups packages))) = Some p"
proof (rule find_unique)
  show "p \<in> set (concat (map pg_packages (packageReferenceGroups packages)))"
    using assms(2) by (simp only: grouped_packages)
  have "id_ok (po_id p)" using assms by (simp add: packages_ok_def)
  note same = id_texts_differ [OF this]
  show "num_of_int (po_id p) = js_number (show_int (po_id p))" unfolding same ..
  fix q assume "q \<in> set (concat (map pg_packages (packageReferenceGroups packages)))"
    and "num_of_int (po_id q) = js_number (show_int (po_id p))"
  then have "q \<in> set packages" "po_id q = po_id p" unfolding grouped_packages same by blast+
  then show "q = p" using assms by (auto simp: packages_ok_def distinct_map inj_on_def)
qed

text \<open>Choosing an option: the select then shows this option, and its label when it is mounted again.\<close>

lemma chosen_option:
  fixes row :: package_reference_row
  assumes ok: "packages_ok packages"
    and opt: "option \<in> set (concat (map snd (packageReferenceOptionGroups dash (packageReferenceGroups packages))))"
  defines "row' \<equiv> choose_reference dash (packageReferenceGroups packages) (Some (ro_value option)) row"
  shows "selectedOption dash (packageReferenceGroups packages) row' = Some option \<and> prr_rowID row' = prr_rowID row \<and>
    (\<exists>ref. packageReferenceSelection dash (Some (ro_value option)) (packageReferenceGroups packages) =
       Some (ro_label option, ref))"
proof -
  have shown: "selectedOption dash (packageReferenceGroups packages) row' = Some option"
    if "selectedValue row' = ro_value option"
    unfolding selectedOption_def
  proof (rule find_unique [OF opt])
    show "ro_value option = selectedValue row'" using that by simp
    fix y assume y: "y \<in> set (concat (map snd (packageReferenceOptionGroups dash (packageReferenceGroups packages))))"
      and "ro_value y = selectedValue row'"
    then have "ro_value y = ro_value option" using that by simp
    with y opt options_distinct [OF ok, of dash] show "y = option"
      unfolding distinct_map inj_on_def by blast
  qed
  from opt show ?thesis
  proof (cases rule: option_cases)
    case (software p)
    have row: "row' = \<lparr>prr_software_id = Some (po_software_id p), prr_package_id = None,
        prr_software_name = Some (ro_label option), prr_package_version = None, prr_rowID = prr_rowID row\<rparr>"
      and sel: "\<exists>ref. packageReferenceSelection dash (Some (ro_value option)) (packageReferenceGroups packages) =
        Some (ro_label option, ref)"
      using software find_group [OF ok software(1)]
      by (simp_all add: row'_def choose_reference_def packageReferenceSelection_def value_texts,
          simp add: software_group_def Let_def)
    have "po_software_id p \<noteq> 0" using ok software(1) by (auto simp: packages_ok_def id_ok_def)
    then have "selectedValue row' = ro_value option"
      by (simp add: row selectedValue_def truthy_id_def software(2))
    with shown sel show ?thesis by (simp add: row)
  next
    case (version p)
    have row: "row' = \<lparr>prr_software_id = Some (po_software_id p), prr_package_id = Some (po_id p),
        prr_software_name = Some (po_software_name p), prr_package_version = Some (po_version p), prr_rowID = prr_rowID row\<rparr>"
      and sel: "\<exists>ref. packageReferenceSelection dash (Some (ro_value option)) (packageReferenceGroups packages) =
        Some (ro_label option, ref)"
      using version find_package [OF ok version(1)]
      by (simp_all add: row'_def choose_reference_def packageReferenceSelection_def value_texts)
    have "po_id p \<noteq> 0" using ok version(1) by (auto simp: packages_ok_def id_ok_def)
    then have "selectedValue row' = ro_value option"
      by (simp add: row selectedValue_def truthy_id_def version(2))
    with shown sel show ?thesis by (simp add: row)
  qed
qed

end
