(* ===== verification/Rows.thy ===== *)
theory Rows
  imports Prelude
begin

text \<open>
  Lists of rows that a form edits in place: each row has a key of its own, and the editor adds an empty
  row, changes a row, or removes one.  \<open>keyed_rows\<close> is what an editor needs of a kind of rows; the package
  editor and the form of distribution points provide it.
\<close>

text \<open>
  \<open>pushValue\<close>, \<open>replaceValue\<close> and \<open>removeValue\<close> of an array field.  The buttons of a list act on the row
  they stand in.
\<close>

definition remove_value :: "nat \<Rightarrow> 'a list \<Rightarrow> 'a list" where
  "remove_value i xs = take i xs @ drop (Suc i) xs"

datatype 'c row_event = AddRow js_string | ChangeRow nat 'c | RemoveRow nat

definition rows_step :: "(js_string \<Rightarrow> 'r) \<Rightarrow> ('c \<Rightarrow> 'r \<Rightarrow> 'r) \<Rightarrow> 'r list \<Rightarrow> 'c row_event \<Rightarrow> 'r list" where
  "rows_step new_row change rows e =
     (case e of
        AddRow rowID \<Rightarrow> rows @ [new_row rowID]
      | ChangeRow i c \<Rightarrow> (if i < length rows then rows[i := change c (rows ! i)] else rows)
      | RemoveRow i \<Rightarrow> remove_value i rows)"

text \<open>The keys of the rows are not blank and not repeated; a new key is one that is not used.\<close>

definition rows_keyed :: "('r \<Rightarrow> js_string) \<Rightarrow> 'r list \<Rightarrow> bool" where
  "rows_keyed key rows \<longleftrightarrow> distinct (map key rows) \<and> [] \<notin> set (map key rows)"

definition row_event_fits :: "('r \<Rightarrow> js_string) \<Rightarrow> ('c \<Rightarrow> bool) \<Rightarrow> 'r list \<Rightarrow> 'c row_event \<Rightarrow> bool" where
  "row_event_fits key fits rows e =
     (case e of
        AddRow rowID \<Rightarrow> rowID \<noteq> [] \<and> rowID \<notin> set (map key rows)
      | ChangeRow i c \<Rightarrow> fits c
      | RemoveRow i \<Rightarrow> True)"

text \<open>What the editor needs of a kind of rows: a new row has the key it was given, a change keeps the key, and
  both yield rows the schema takes.\<close>

locale keyed_rows =
  fixes key :: "'r \<Rightarrow> js_string"
    and new_row :: "js_string \<Rightarrow> 'r"
    and change :: "'c \<Rightarrow> 'r \<Rightarrow> 'r"
    and fits :: "'c \<Rightarrow> bool"
    and row_ok :: "'r \<Rightarrow> bool"
  assumes key_new: "key (new_row rowID) = rowID"
    and key_change: "key (change c row) = key row"
    and new_ok: "row_ok (new_row rowID)"
    and change_ok: "fits c \<Longrightarrow> row_ok row \<Longrightarrow> row_ok (change c row)"
begin

lemma rows_keyed_step:
  assumes "rows_keyed key rows" and "row_event_fits key fits rows e"
  shows "rows_keyed key (rows_step new_row change rows e)"
proof (cases e)
  case (ChangeRow i c)
  have "map key (rows[i := change c (rows ! i)]) = map key rows" if "i < length rows"
    using that by (simp add: map_update key_change list_update_same_conv)
  then have "rows_keyed key (rows[i := change c (rows ! i)])" if "i < length rows"
    using that assms(1) by (metis rows_keyed_def)
  with assms(1) ChangeRow show ?thesis by (simp add: rows_step_def)
next
  case (RemoveRow i)
  have "map key (remove_value i rows) = remove_value i (map key rows)"
    by (simp add: remove_value_def take_map drop_map)
  moreover have "distinct (remove_value i (map key rows))" if "distinct (map key rows)"
  proof -
    have "set (take i (map key rows)) \<inter> set (drop (Suc i) (map key rows)) = {}"
      using that set_take_disj_set_drop_if_distinct [OF that, of i "Suc i"] by simp
    then show ?thesis using that by (simp add: remove_value_def)
  qed
  moreover have "set (remove_value i (map key rows)) \<subseteq> set (map key rows)"
    by (auto simp: remove_value_def dest: in_set_takeD in_set_dropD)
  ultimately show ?thesis using assms RemoveRow by (auto simp: rows_keyed_def rows_step_def)
qed (use assms in \<open>auto simp: rows_keyed_def rows_step_def row_event_fits_def key_new\<close>)

lemma rows_ok_step:
  assumes "list_all row_ok rows" and "row_event_fits key fits rows e"
  shows "list_all row_ok (rows_step new_row change rows e)"
proof (cases e)
  case (ChangeRow i c)
  have "row_ok x" if "x \<in> set (rows[i := change c (rows ! i)])" "i < length rows" for x
  proof -
    have "x = change c (rows ! i) \<or> x \<in> set rows"
      using that set_update_subset_insert [of rows i "change c (rows ! i)"] by blast
    moreover have "row_ok (change c (rows ! i))"
      using assms that(2) ChangeRow by (intro change_ok) (simp_all add: row_event_fits_def list_all_iff)
    ultimately show ?thesis using assms(1) by (auto simp: list_all_iff)
  qed
  with assms(1) ChangeRow show ?thesis by (simp add: rows_step_def list_all_iff)
qed (use assms in \<open>auto simp: rows_step_def remove_value_def new_ok list_all_iff dest: in_set_takeD in_set_dropD\<close>)

end

lemma keyed_nonblank: "rows_keyed key rows \<Longrightarrow> list_all (\<lambda>r. key r \<noteq> []) rows"
  by (induction rows) (auto simp: rows_keyed_def)

end
