(* ===== verification/PackageEditors.thy ===== *)
theory PackageEditors
  imports PackageReferences PageForm Metadata Rows
begin

text \<open>
  The handlers of the package editor: tabs (\<open>web/src/features/munki/packages/package-form-tabs.tsx\<close>,
  \<open>tab-values.ts\<close>), collections (\<open>package-collection-editors.tsx\<close>) and controls
  (\<open>package-form-controls.tsx\<close>), as steps on the form of \<open>MunkiPackageSchema\<close>.

  Main results: whatever is done in the editor, the form keeps passing the base checks of
  \<open>packageFormShape\<close> but those on the software and the version, the rows of every list keep distinct keys,
  and no application is listed while \<open>No Blocking Applications\<close> is checked; every issue of the schema
  belongs to a tab.
\<close>

section \<open>Tabs\<close>

definition generalScriptFields :: "(js_string \<times> js_string) list" where
  "generalScriptFields = filter (\<lambda>script. fst script \<noteq> ''uninstall_script'') scriptFields"

definition packageFormTabs :: "form_tab list" where
  "packageFormTabs =
     [\<lparr>ft_value = ''basic'',
       ft_fields = [''software_id'', ''version'', ''installer_type'', ''installer_file'', ''restart_required'',
         ''restart_action'', ''force_install_after_date'', ''notes'', ''unattended_install'',
         ''unattended_uninstall'', ''on_demand'', ''autoremove'', ''uninstallable'']\<rparr>,
      \<lparr>ft_value = ''contents'', ft_fields = [''installs'', ''receipts'']\<rparr>,
      \<lparr>ft_value = ''requirements'',
       ft_fields = [''requires'', ''update_for'', ''minimum_munki_version'', ''minimum_os_version'',
         ''maximum_os_version'', ''installable_condition'']\<rparr>,
      \<lparr>ft_value = ''installation'',
       ft_fields = [''items_to_copy'', ''blocking_applications_none'', ''blocking_applications'',
         ''blocking_applications_manual_quit_only'', ''blocking_applications_quit_script'',
         ''blocking_applications_with_launch_args'', ''supported_architectures'', ''installer_choices_xml'']\<rparr>,
      \<lparr>ft_value = ''uninstall'',
       ft_fields = [''uninstall_method'', ''restart_action_for_uninstall'', ''uninstall_script'']\<rparr>,
      \<lparr>ft_value = ''scripts'', ft_fields = map fst generalScriptFields\<rparr>,
      \<lparr>ft_value = ''alerts'', ft_fields = [''preinstall_alert'', ''preuninstall_alert'', ''custom_action_labels'']\<rparr>,
      \<lparr>ft_value = ''advanced'',
       ft_fields = [''package_path'', ''installed_size'', ''installer_environment'', ''download_on_low_data'',
         ''precache'', ''apple_item'']\<rparr>]"

definition PACKAGE_FORM_TAB_SEARCH_VALUES :: "js_string list" where
  "PACKAGE_FORM_TAB_SEARCH_VALUES =
     [''contents'', ''requirements'', ''installation'', ''uninstall'', ''scripts'', ''alerts'', ''advanced'']"

definition packageFormTabSearchValue :: "js_string \<Rightarrow> js_string option" where
  "packageFormTabSearchValue tab = List.find (\<lambda>t. t = tab) PACKAGE_FORM_TAB_SEARCH_VALUES"

text \<open>The tab of the page: \<open>search.tab ?? "basic"\<close>.\<close>

definition active_tab :: "js_string option \<Rightarrow> js_string" where
  "active_tab tab = coalesce tab ''basic''"

text \<open>Every tab survives the search parameter.\<close>

lemma tab_search: "tab \<in> set packageFormTabs \<Longrightarrow> active_tab (packageFormTabSearchValue (ft_value tab)) = ft_value tab"
  by (auto simp: packageFormTabs_def active_tab_def packageFormTabSearchValue_def PACKAGE_FORM_TAB_SEARCH_VALUES_def)

lemma environment_paths: "i \<in> set (environment_issues names rows) \<Longrightarrow> is_path i = ''installer_environment''"
  by (induction names rows rule: environment_issues.induct) (auto simp: issue_if_def Let_def split: if_splits)

lemma launch_paths: "i \<in> set (launch_issues names rows) \<Longrightarrow> is_path i = ''blocking_applications_with_launch_args''"
  by (induction names rows rule: launch_issues.induct) (auto simp: issue_if_def Let_def split: if_splits)

lemma package_paths:
  assumes "i \<in> set (package_issues de syntax_message form)"
  shows "is_path i \<in> {''uninstall_method'', ''installer_file'', ''installed_size'', ''force_install_after_date'',
    ''installer_environment'', ''installs'', ''receipts'', ''items_to_copy'', ''requires'', ''update_for'',
    ''blocking_applications'', ''blocking_applications_with_launch_args'', ''installer_choices_xml'', ''uninstall_script''}"
proof -
  have issue: "is_path ` set (issue_if b p m) \<subseteq> P" if "p \<in> P" for b p m P
    using that by (auto simp: issue_if_def)
  have rows: "is_path ` set (environment_issues names rows) \<subseteq> P" if "''installer_environment'' \<in> P" for names rows P
    using that environment_paths by fastforce
  have launch: "is_path ` set (launch_issues names args) \<subseteq> P" if "''blocking_applications_with_launch_args'' \<in> P"
    for names args P using that launch_paths by fastforce
  have choices: "is_path ` set (if b then case e of None \<Rightarrow> [] | Some message \<Rightarrow> issue_if (message \<noteq> []) p message else [])
      \<subseteq> P" if "p \<in> P" for b e p P
  proof (cases b)
    case True
    then show ?thesis
    proof (cases e)
      case (Some message)
      with True show ?thesis using issue [OF that, of "message \<noteq> []" message] by (simp only: if_True option.case)
    qed (simp add: True)
  qed simp
  have "is_path ` set (package_issues de syntax_message form) \<subseteq> {''uninstall_method'', ''installer_file'',
    ''installed_size'', ''force_install_after_date'', ''installer_environment'', ''installs'', ''receipts'',
    ''items_to_copy'', ''requires'', ''update_for'', ''blocking_applications'',
    ''blocking_applications_with_launch_args'', ''installer_choices_xml'', ''uninstall_script''}"
    unfolding package_issues_def set_append image_Un Un_subset_iff
    by (intro conjI; rule issue rows launch choices; simp)
  with assms show ?thesis by blast
qed

lemma package_tabs_cover: "\<forall>i \<in> set (package_issues de syntax_message form). tabs_cover packageFormTabs (is_path i)"
proof
  fix i assume "i \<in> set (package_issues de syntax_message form)"
  from package_paths [OF this] show "tabs_cover packageFormTabs (is_path i)"
    by (auto simp: tabs_cover_def packageFormTabs_def fieldMatches_def)
qed

section \<open>The rows of the editor\<close>

definition change_string :: "js_string \<Rightarrow> string_row \<Rightarrow> string_row" where
  "change_string v row = row\<lparr>sr_value := v\<rparr>"

datatype launch_change = LaunchApplication js_string | LaunchArguments js_string

fun change_launch :: "launch_change \<Rightarrow> launch_arguments_row \<Rightarrow> launch_arguments_row" where
  "change_launch (LaunchApplication v) row = row\<lparr>lar_application := v\<rparr>"
| "change_launch (LaunchArguments v) row = row\<lparr>lar_arguments := v\<rparr>"

datatype environment_change = EnvironmentName js_string | EnvironmentValue js_string

fun change_environment :: "environment_change \<Rightarrow> installer_environment_row \<Rightarrow> installer_environment_row" where
  "change_environment (EnvironmentName v) row = row\<lparr>ie_name := v\<rparr>"
| "change_environment (EnvironmentValue v) row = row\<lparr>ie_value := v\<rparr>"

text \<open>The select of the type offers the types there are.\<close>

datatype install_change =
    InstallPath js_string | InstallType "js_string option" | InstallBundleName js_string
  | InstallBundleIdentifier js_string | InstallShortVersion js_string | InstallBundleVersion js_string
  | InstallMinimumUpdate js_string

fun change_install :: "install_change \<Rightarrow> install_item_row \<Rightarrow> install_item_row" where
  "change_install (InstallPath v) row = row\<lparr>ii_path := v\<rparr>"
| "change_install (InstallType choice) row =
     (case choice of
        None \<Rightarrow> row
      | Some v \<Rightarrow> (if v \<in> fst ` set MUNKI_INSTALL_ITEM_TYPE_OPTIONS then row\<lparr>ii_type := v\<rparr> else row))"
| "change_install (InstallBundleName v) row = row\<lparr>ii_bundle_name := Some v\<rparr>"
| "change_install (InstallBundleIdentifier v) row = row\<lparr>ii_bundle_identifier := Some v\<rparr>"
| "change_install (InstallShortVersion v) row = row\<lparr>ii_bundle_short_version := Some v\<rparr>"
| "change_install (InstallBundleVersion v) row = row\<lparr>ii_bundle_version := Some v\<rparr>"
| "change_install (InstallMinimumUpdate v) row = row\<lparr>ii_minimum_update_version := Some v\<rparr>"

datatype receipt_change =
    ReceiptPackage js_string | ReceiptVersion js_string | ReceiptName js_string | ReceiptSize js_string
  | ReceiptOptional bool

fun change_receipt :: "receipt_change \<Rightarrow> receipt_row \<Rightarrow> receipt_row" where
  "change_receipt (ReceiptPackage v) row = row\<lparr>re_package_id := v\<rparr>"
| "change_receipt (ReceiptVersion v) row = row\<lparr>re_version := Some v\<rparr>"
| "change_receipt (ReceiptName v) row = row\<lparr>re_name := Some v\<rparr>"
| "change_receipt (ReceiptSize v) row = row\<lparr>re_installed_size := numberOrUndefined v\<rparr>"
| "change_receipt (ReceiptOptional v) row = row\<lparr>re_optional := Some v\<rparr>"

datatype copy_change =
    CopySource js_string | CopyDestination js_string | CopyDestinationItem js_string
  | CopyUser js_string | CopyGroup js_string | CopyMode js_string

fun change_copy :: "copy_change \<Rightarrow> item_to_copy_row \<Rightarrow> item_to_copy_row" where
  "change_copy (CopySource v) row = row\<lparr>ic_source_item := v\<rparr>"
| "change_copy (CopyDestination v) row = row\<lparr>ic_destination_path := v\<rparr>"
| "change_copy (CopyDestinationItem v) row = row\<lparr>ic_destination_item := Some v\<rparr>"
| "change_copy (CopyUser v) row = row\<lparr>ic_user := Some v\<rparr>"
| "change_copy (CopyGroup v) row = row\<lparr>ic_group := Some v\<rparr>"
| "change_copy (CopyMode v) row = row\<lparr>ic_mode := Some v\<rparr>"

text \<open>A reference row is changed by a choice among the options of the packages.\<close>

record reference_choice =
  rch_dash :: js_string
  rch_packages :: "package_option list"
  rch_choice :: "js_string option"

definition change_reference :: "reference_choice \<Rightarrow> package_reference_row \<Rightarrow> package_reference_row" where
  "change_reference c row =
     choose_reference (rch_dash c) (packageReferenceGroups (rch_packages c)) (rch_choice c) row"

text \<open>The rows the base schema takes.\<close>

definition install_row_ok :: "install_item_row \<Rightarrow> bool" where
  "install_row_ok row \<longleftrightarrow> ii_type row \<in> set MUNKI_INSTALL_ITEM_TYPE_VALUES"

definition positive_id :: "int option \<Rightarrow> bool" where
  "positive_id v = (case v of None \<Rightarrow> True | Some i \<Rightarrow> 0 < i)"

definition reference_row_ok :: "package_reference_row \<Rightarrow> bool" where
  "reference_row_ok row \<longleftrightarrow> positive_id (prr_software_id row) \<and> positive_id (prr_package_id row)"

lemma install_type_options: "fst ` set MUNKI_INSTALL_ITEM_TYPE_OPTIONS = set MUNKI_INSTALL_ITEM_TYPE_VALUES"
  by (auto simp: MUNKI_INSTALL_ITEM_TYPE_OPTIONS_def rawEnumOptions_def image_image)

lemma found_in: "List.find P xs = Some x \<Longrightarrow> x \<in> set xs"
  by (auto simp: find_Some_iff)

lemma chosen_reference_ok:
  assumes "packages_ok (rch_packages c)" and "reference_row_ok row"
  shows "reference_row_ok (change_reference c row)"
proof (cases "packageReferenceSelection (rch_dash c) (rch_choice c) (packageReferenceGroups (rch_packages c))")
  case None
  with assms(2) show ?thesis by (simp add: change_reference_def choose_reference_def)
next
  case (Some chosen)
  then obtain label ref where sel: "packageReferenceSelection (rch_dash c) (rch_choice c)
      (packageReferenceGroups (rch_packages c)) = Some (label, ref)" by (cases chosen) simp
  from sel consider
      (group) g P where "List.find P (packageReferenceGroups (rch_packages c)) = Some g"
        "pc_software_id ref = pg_softwareID g" "pc_package_id ref = None"
    | (version) p P where "List.find P (concat (map pg_packages (packageReferenceGroups (rch_packages c)))) = Some p"
        "pc_software_id ref = po_software_id p" "pc_package_id ref = Some (po_id p)"
    unfolding packageReferenceSelection_def by (auto split: option.splits if_splits)
  then have "0 < pc_software_id ref \<and> positive_id (pc_package_id ref)"
  proof cases
    case (group g P)
    from found_in [OF group(1)] group(2,3) assms(1) show ?thesis
      by (auto simp: reference_groups software_group_def Let_def packages_ok_def id_ok_def positive_id_def)
  next
    case (version p P)
    from found_in [OF version(1)] have "p \<in> set (rch_packages c)" unfolding grouped_packages .
    with version(2,3) assms(1) show ?thesis by (simp add: packages_ok_def id_ok_def positive_id_def)
  qed
  with sel show ?thesis
    by (simp add: change_reference_def choose_reference_def reference_row_ok_def positive_id_def)
qed

interpretation string_rows: keyed_rows sr_rowID emptyStringRow change_string "\<lambda>_. True" "\<lambda>_. True"
  by unfold_locales (simp_all add: emptyStringRow_def change_string_def)

interpretation launch_rows: keyed_rows lar_rowID emptyLaunchArgumentsRow change_launch "\<lambda>_. True" "\<lambda>_. True"
proof
  fix c row show "lar_rowID (change_launch c row) = lar_rowID row" by (cases c) simp_all
qed (simp_all add: emptyLaunchArgumentsRow_def)

interpretation environment_rows:
  keyed_rows ier_rowID emptyInstallerEnvironmentRow change_environment "\<lambda>_. True" "\<lambda>_. True"
proof
  fix c row show "ier_rowID (change_environment c row) = ier_rowID row" by (cases c) simp_all
qed (simp_all add: emptyInstallerEnvironmentRow_def)

interpretation install_rows: keyed_rows iir_rowID emptyInstallItemRow change_install "\<lambda>_. True" install_row_ok
proof
  fix c row show "iir_rowID (change_install c row) = iir_rowID row" by (cases c) (simp_all split: option.split)
next
  fix c row assume "install_row_ok row"
  then show "install_row_ok (change_install c row)"
    by (cases c) (auto simp: install_row_ok_def install_type_options split: option.split)
qed (simp_all add: emptyInstallItemRow_def install_row_ok_def MUNKI_INSTALL_ITEM_TYPE_VALUES_def)

interpretation receipt_rows: keyed_rows rer_rowID emptyReceiptRow change_receipt "\<lambda>_. True" "\<lambda>_. True"
proof
  fix c row show "rer_rowID (change_receipt c row) = rer_rowID row" by (cases c) simp_all
qed (simp_all add: emptyReceiptRow_def)

interpretation copy_rows: keyed_rows icr_rowID emptyItemToCopyRow change_copy "\<lambda>_. True" "\<lambda>_. True"
proof
  fix c row show "icr_rowID (change_copy c row) = icr_rowID row" by (cases c) simp_all
qed (simp_all add: emptyItemToCopyRow_def)

interpretation reference_rows:
  keyed_rows prr_rowID emptyPackageReferenceRow change_reference "\<lambda>c. packages_ok (rch_packages c)" reference_row_ok
proof
  fix c row show "prr_rowID (change_reference c row) = prr_rowID row"
    by (simp add: change_reference_def choose_reference_def split: option.split prod.split)
qed (simp_all add: chosen_reference_ok, simp_all add: emptyPackageReferenceRow_def reference_row_ok_def positive_id_def)

section \<open>The form\<close>

datatype text_field =
    VersionText | NotesText | ForceDateText | MinimumMunkiText | MinimumOSText | MaximumOSText | ConditionText
  | QuitScriptText | ChoicesText | PackagePathText | InstalledSizeText | UninstallScriptText

fun set_text :: "text_field \<Rightarrow> js_string \<Rightarrow> 'f package_form \<Rightarrow> 'f package_form" where
  "set_text VersionText v form = form\<lparr>pf_version := v\<rparr>"
| "set_text NotesText v form = form\<lparr>pf_notes := v\<rparr>"
| "set_text ForceDateText v form = form\<lparr>pf_force_install_after_date := v\<rparr>"
| "set_text MinimumMunkiText v form = form\<lparr>pf_minimum_munki_version := v\<rparr>"
| "set_text MinimumOSText v form = form\<lparr>pf_minimum_os_version := v\<rparr>"
| "set_text MaximumOSText v form = form\<lparr>pf_maximum_os_version := v\<rparr>"
| "set_text ConditionText v form = form\<lparr>pf_installable_condition := v\<rparr>"
| "set_text QuitScriptText v form = form\<lparr>pf_blocking_applications_quit_script := v\<rparr>"
| "set_text ChoicesText v form = form\<lparr>pf_installer_choices_xml := v\<rparr>"
| "set_text PackagePathText v form = form\<lparr>pf_package_path := v\<rparr>"
| "set_text InstalledSizeText v form = form\<lparr>pf_installed_size := v\<rparr>"
| "set_text UninstallScriptText v form =
     (if pf_uninstall_method form = ''uninstall_script'' then form\<lparr>pf_uninstall_script := v\<rparr> else form)"

datatype flag_field =
    OnDemandFlag | RestartRequiredFlag | UnattendedInstallFlag | UnattendedUninstallFlag | AutoremoveFlag
  | UninstallableFlag | ManualQuitFlag | PrecacheFlag | AppleItemFlag

fun set_flag :: "flag_field \<Rightarrow> bool \<Rightarrow> 'f package_form \<Rightarrow> 'f package_form" where
  "set_flag OnDemandFlag v form = form\<lparr>pf_on_demand := v\<rparr>"
| "set_flag RestartRequiredFlag v form = form\<lparr>pf_restart_required := v\<rparr>"
| "set_flag UnattendedInstallFlag v form = form\<lparr>pf_unattended_install := v\<rparr>"
| "set_flag UnattendedUninstallFlag v form = form\<lparr>pf_unattended_uninstall := v\<rparr>"
| "set_flag AutoremoveFlag v form = form\<lparr>pf_autoremove := v\<rparr>"
| "set_flag UninstallableFlag v form = form\<lparr>pf_uninstallable := v\<rparr>"
| "set_flag ManualQuitFlag v form = form\<lparr>pf_blocking_applications_manual_quit_only := v\<rparr>"
| "set_flag PrecacheFlag v form = form\<lparr>pf_precache := v\<rparr>"
| "set_flag AppleItemFlag v form = form\<lparr>pf_apple_item := v\<rparr>"

text \<open>\<open>form.setFieldValue(key, value)\<close> for the key of a script; the tabs of the scripts show the general ones.\<close>

definition isGeneralScriptKey :: "js_string \<Rightarrow> bool" where
  "isGeneralScriptKey v \<longleftrightarrow> list_ex (\<lambda>script. fst script = v) generalScriptFields"

definition set_script :: "js_string \<Rightarrow> js_string \<Rightarrow> 'f package_form \<Rightarrow> 'f package_form" where
  "set_script key v form =
     (if \<not> isGeneralScriptKey key then form
      else if key = ''preinstall_script'' then form\<lparr>pf_preinstall_script := v\<rparr>
      else if key = ''postinstall_script'' then form\<lparr>pf_postinstall_script := v\<rparr>
      else if key = ''preuninstall_script'' then form\<lparr>pf_preuninstall_script := v\<rparr>
      else if key = ''postuninstall_script'' then form\<lparr>pf_postuninstall_script := v\<rparr>
      else if key = ''version_script'' then form\<lparr>pf_version_script := v\<rparr>
      else if key = ''installcheck_script'' then form\<lparr>pf_installcheck_script := v\<rparr>
      else form\<lparr>pf_uninstallcheck_script := v\<rparr>)"

definition toggleArray :: "js_string list \<Rightarrow> js_string \<Rightarrow> bool \<Rightarrow> js_string list" where
  "toggleArray vs v enabled = (if enabled then js_set (vs @ [v]) else filter (\<lambda>item. item \<noteq> v) vs)"

datatype alert_change =
    AlertEnabled bool | AlertTitle js_string | AlertOk js_string | AlertCancel js_string | AlertDetail js_string

fun change_alert :: "alert_change \<Rightarrow> alert \<Rightarrow> alert" where
  "change_alert (AlertEnabled v) a = a\<lparr>at_enabled := v\<rparr>"
| "change_alert (AlertTitle v) a = (if at_enabled a then a\<lparr>at_title := Some v\<rparr> else a)"
| "change_alert (AlertOk v) a = (if at_enabled a then a\<lparr>at_ok_label := Some v\<rparr> else a)"
| "change_alert (AlertCancel v) a = (if at_enabled a then a\<lparr>at_cancel_label := Some v\<rparr> else a)"
| "change_alert (AlertDetail v) a = (if at_enabled a then a\<lparr>at_detail := Some v\<rparr> else a)"

datatype action_label = LabelInstall | LabelInstalling | LabelInstalled | LabelUpdate | LabelRemove | LabelRemoving

fun change_action_label :: "action_label \<Rightarrow> js_string \<Rightarrow> action_labels \<Rightarrow> action_labels" where
  "change_action_label LabelInstall v labels = labels\<lparr>al_install := Some v\<rparr>"
| "change_action_label LabelInstalling v labels = labels\<lparr>al_installing := Some v\<rparr>"
| "change_action_label LabelInstalled v labels = labels\<lparr>al_installed := Some v\<rparr>"
| "change_action_label LabelUpdate v labels = labels\<lparr>al_update := Some v\<rparr>"
| "change_action_label LabelRemove v labels = labels\<lparr>al_remove := Some v\<rparr>"
| "change_action_label LabelRemoving v labels = labels\<lparr>al_removing := Some v\<rparr>"

section \<open>The editor\<close>

text \<open>
  The handlers.  A field that is not on screen cannot be changed: the installer of a \<open>nopkg\<close> package, the
  restart action while no restart is required, the application lists while \<open>No Blocking Applications\<close> is
  checked.
\<close>

datatype 'f package_event =
    EditText text_field js_string | EditFlag flag_field bool | EditScript js_string js_string
  | ChooseSoftware "int option" | ChooseInstallerType js_string | ChooseInstaller "'f option"
  | ChooseRestartAction "js_string option" | ChooseUninstallRestart "js_string option"
  | ChooseLowData "js_string option" | ChooseUninstallMethod "js_string option"
  | ToggleArchitecture js_string bool | SetBlockingNone bool
  | ApplicationRow "js_string row_event" | LaunchRow "launch_change row_event"
  | RequiresRow "reference_choice row_event" | UpdateForRow "reference_choice row_event"
  | EnvironmentRow "environment_change row_event" | InstallRow "install_change row_event"
  | ReceiptRow "receipt_change row_event" | CopyRow "copy_change row_event"
  | PreinstallAlert alert_change | PreuninstallAlert alert_change | ActionLabel action_label js_string

definition blocking_none :: "bool \<Rightarrow> 'f package_form \<Rightarrow> 'f package_form" where
  "blocking_none checked form =
     (if checked
      then form\<lparr>pf_blocking_applications_none := True, pf_blocking_applications := [],
                 pf_blocking_applications_with_launch_args := []\<rparr>
      else form\<lparr>pf_blocking_applications_none := False\<rparr>)"

fun package_step :: "'f package_form \<Rightarrow> 'f package_event \<Rightarrow> 'f package_form" where
  "package_step form (EditText f v) = set_text f v form"
| "package_step form (EditFlag f v) = set_flag f v form"
| "package_step form (EditScript k v) = set_script k v form"
| "package_step form (ChooseSoftware i) = form\<lparr>pf_software_id := i\<rparr>"
| "package_step form (ChooseInstallerType v) =
     (if v \<in> set MUNKI_INSTALLER_TYPE_VALUES then form\<lparr>pf_installer_type := v\<rparr> else form)"
| "package_step form (ChooseInstaller v) =
     (if pf_installer_type form \<noteq> ''nopkg'' then form\<lparr>pf_installer_file := v\<rparr> else form)"
| "package_step form (ChooseRestartAction choice) =
     (case choice of
        Some v \<Rightarrow> (if pf_restart_required form then form\<lparr>pf_restart_action := v\<rparr> else form)
      | None \<Rightarrow> form)"
| "package_step form (ChooseUninstallRestart choice) =
     form\<lparr>pf_restart_action_for_uninstall :=
       (case choice of Some v \<Rightarrow> (if v \<in> set MUNKI_UNINSTALL_RESTART_ACTION_VALUES then v else []) | None \<Rightarrow> [])\<rparr>"
| "package_step form (ChooseLowData choice) =
     (case choice of
        Some v \<Rightarrow> (if v \<in> set MUNKI_DOWNLOAD_ON_LOW_DATA_VALUES then form\<lparr>pf_download_on_low_data := v\<rparr> else form)
      | None \<Rightarrow> form)"
| "package_step form (ChooseUninstallMethod choice) = form\<lparr>pf_uninstall_method := coalesce choice []\<rparr>"
| "package_step form (ToggleArchitecture v on) =
     (if v \<in> set ARCHITECTURE_VALUES
      then form\<lparr>pf_supported_architectures := toggleArray (pf_supported_architectures form) v on\<rparr> else form)"
| "package_step form (SetBlockingNone checked) = blocking_none checked form"
| "package_step form (ApplicationRow e) =
     (if pf_blocking_applications_none form then form
      else form\<lparr>pf_blocking_applications :=
             rows_step emptyStringRow change_string (pf_blocking_applications form) e\<rparr>)"
| "package_step form (LaunchRow e) =
     (if pf_blocking_applications_none form then form
      else form\<lparr>pf_blocking_applications_with_launch_args :=
             rows_step emptyLaunchArgumentsRow change_launch (pf_blocking_applications_with_launch_args form) e\<rparr>)"
| "package_step form (RequiresRow e) =
     form\<lparr>pf_requires := rows_step emptyPackageReferenceRow change_reference (pf_requires form) e\<rparr>"
| "package_step form (UpdateForRow e) =
     form\<lparr>pf_update_for := rows_step emptyPackageReferenceRow change_reference (pf_update_for form) e\<rparr>"
| "package_step form (EnvironmentRow e) =
     form\<lparr>pf_installer_environment :=
       rows_step emptyInstallerEnvironmentRow change_environment (pf_installer_environment form) e\<rparr>"
| "package_step form (InstallRow e) =
     form\<lparr>pf_installs := rows_step emptyInstallItemRow change_install (pf_installs form) e\<rparr>"
| "package_step form (ReceiptRow e) =
     form\<lparr>pf_receipts := rows_step emptyReceiptRow change_receipt (pf_receipts form) e\<rparr>"
| "package_step form (CopyRow e) =
     form\<lparr>pf_items_to_copy := rows_step emptyItemToCopyRow change_copy (pf_items_to_copy form) e\<rparr>"
| "package_step form (PreinstallAlert c) =
     form\<lparr>pf_preinstall_alert := change_alert c (pf_preinstall_alert form)\<rparr>"
| "package_step form (PreuninstallAlert c) =
     form\<lparr>pf_preuninstall_alert := change_alert c (pf_preuninstall_alert form)\<rparr>"
| "package_step form (ActionLabel l v) =
     form\<lparr>pf_custom_action_labels := change_action_label l v (pf_custom_action_labels form)\<rparr>"

text \<open>The selects offer what the tables hold; new rows get new keys; the packages offered have proper ids.\<close>

fun package_event_fits :: "'f package_form \<Rightarrow> 'f package_event \<Rightarrow> bool" where
  "package_event_fits form (ChooseSoftware i) \<longleftrightarrow> positive_id i"
| "package_event_fits form (ChooseRestartAction choice) \<longleftrightarrow>
     (case choice of None \<Rightarrow> True | Some v \<Rightarrow> v \<in> set MUNKI_RESTART_ACTION_VALUES)"
| "package_event_fits form (ChooseUninstallMethod choice) \<longleftrightarrow>
     (case choice of None \<Rightarrow> True | Some v \<Rightarrow> v \<in> set MUNKI_UNINSTALL_METHOD_VALUES)"
| "package_event_fits form (ApplicationRow e) \<longleftrightarrow>
     row_event_fits sr_rowID (\<lambda>_. True) (pf_blocking_applications form) e"
| "package_event_fits form (LaunchRow e) \<longleftrightarrow>
     row_event_fits lar_rowID (\<lambda>_. True) (pf_blocking_applications_with_launch_args form) e"
| "package_event_fits form (RequiresRow e) \<longleftrightarrow>
     row_event_fits prr_rowID (\<lambda>c. packages_ok (rch_packages c)) (pf_requires form) e"
| "package_event_fits form (UpdateForRow e) \<longleftrightarrow>
     row_event_fits prr_rowID (\<lambda>c. packages_ok (rch_packages c)) (pf_update_for form) e"
| "package_event_fits form (EnvironmentRow e) \<longleftrightarrow>
     row_event_fits ier_rowID (\<lambda>_. True) (pf_installer_environment form) e"
| "package_event_fits form (InstallRow e) \<longleftrightarrow> row_event_fits iir_rowID (\<lambda>_. True) (pf_installs form) e"
| "package_event_fits form (ReceiptRow e) \<longleftrightarrow> row_event_fits rer_rowID (\<lambda>_. True) (pf_receipts form) e"
| "package_event_fits form (CopyRow e) \<longleftrightarrow> row_event_fits icr_rowID (\<lambda>_. True) (pf_items_to_copy form) e"
| "package_event_fits form _ \<longleftrightarrow> True"

fun package_run_fits :: "'f package_form \<Rightarrow> 'f package_event list \<Rightarrow> bool" where
  "package_run_fits form [] \<longleftrightarrow> True"
| "package_run_fits form (e # es) \<longleftrightarrow> package_event_fits form e \<and> package_run_fits (package_step form e) es"

text \<open>The base checks of \<open>packageFormShape\<close>, without those of the software and the version.\<close>

definition PACKAGE_UNINSTALL_METHOD_VALUES :: "js_string list" where
  "PACKAGE_UNINSTALL_METHOD_VALUES = [] # MUNKI_UNINSTALL_METHOD_VALUES"

definition PACKAGE_UNINSTALL_RESTART_ACTION_VALUES :: "js_string list" where
  "PACKAGE_UNINSTALL_RESTART_ACTION_VALUES = [] # MUNKI_UNINSTALL_RESTART_ACTION_VALUES"

definition packageFormShape :: "'f package_form \<Rightarrow> bool" where
  "packageFormShape form \<longleftrightarrow>
     pf_installer_type form \<in> set MUNKI_INSTALLER_TYPE_VALUES \<and> positive_id (pf_installer_object_id form) \<and>
     pf_uninstall_method form \<in> set PACKAGE_UNINSTALL_METHOD_VALUES \<and>
     pf_restart_action form \<in> set MUNKI_RESTART_ACTION_VALUES \<and>
     pf_restart_action_for_uninstall form \<in> set PACKAGE_UNINSTALL_RESTART_ACTION_VALUES \<and>
     list_all (\<lambda>a. a \<in> set ARCHITECTURE_VALUES) (pf_supported_architectures form) \<and>
     list_all (\<lambda>r. sr_rowID r \<noteq> []) (pf_blocking_applications form) \<and>
     list_all (\<lambda>r. lar_rowID r \<noteq> []) (pf_blocking_applications_with_launch_args form) \<and>
     pf_download_on_low_data form \<in> set MUNKI_DOWNLOAD_ON_LOW_DATA_VALUES \<and>
     list_all (\<lambda>r. prr_rowID r \<noteq> [] \<and> reference_row_ok r) (pf_requires form) \<and>
     list_all (\<lambda>r. prr_rowID r \<noteq> [] \<and> reference_row_ok r) (pf_update_for form) \<and>
     list_all (\<lambda>r. ier_rowID r \<noteq> []) (pf_installer_environment form) \<and>
     list_all (\<lambda>r. iir_rowID r \<noteq> [] \<and> install_row_ok r) (pf_installs form) \<and>
     list_all (\<lambda>r. rer_rowID r \<noteq> []) (pf_receipts form) \<and>
     list_all (\<lambda>r. icr_rowID r \<noteq> []) (pf_items_to_copy form)"

text \<open>The invariant, in three groups: the choices, the rows, the blocking applications.\<close>

definition package_choices_ok :: "'f package_form \<Rightarrow> bool" where
  "package_choices_ok form \<longleftrightarrow>
     positive_id (pf_software_id form) \<and>
     pf_installer_type form \<in> set MUNKI_INSTALLER_TYPE_VALUES \<and> positive_id (pf_installer_object_id form) \<and>
     pf_uninstall_method form \<in> set PACKAGE_UNINSTALL_METHOD_VALUES \<and>
     pf_restart_action form \<in> set MUNKI_RESTART_ACTION_VALUES \<and>
     pf_restart_action_for_uninstall form \<in> set PACKAGE_UNINSTALL_RESTART_ACTION_VALUES \<and>
     distinct (pf_supported_architectures form) \<and> set (pf_supported_architectures form) \<subseteq> set ARCHITECTURE_VALUES \<and>
     pf_download_on_low_data form \<in> set MUNKI_DOWNLOAD_ON_LOW_DATA_VALUES"

definition package_rows_ok :: "'f package_form \<Rightarrow> bool" where
  "package_rows_ok form \<longleftrightarrow>
     rows_keyed prr_rowID (pf_requires form) \<and> list_all reference_row_ok (pf_requires form) \<and>
     rows_keyed prr_rowID (pf_update_for form) \<and> list_all reference_row_ok (pf_update_for form) \<and>
     rows_keyed ier_rowID (pf_installer_environment form) \<and>
     rows_keyed iir_rowID (pf_installs form) \<and> list_all install_row_ok (pf_installs form) \<and>
     rows_keyed rer_rowID (pf_receipts form) \<and> rows_keyed icr_rowID (pf_items_to_copy form)"

definition blocking_rows_ok :: "'f package_form \<Rightarrow> bool" where
  "blocking_rows_ok form \<longleftrightarrow>
     rows_keyed sr_rowID (pf_blocking_applications form) \<and>
     rows_keyed lar_rowID (pf_blocking_applications_with_launch_args form) \<and>
     (pf_blocking_applications_none form \<longrightarrow>
        pf_blocking_applications form = [] \<and> pf_blocking_applications_with_launch_args form = [])"

definition package_editor_ok :: "'f package_form \<Rightarrow> bool" where
  "package_editor_ok form \<longleftrightarrow> package_choices_ok form \<and> package_rows_ok form \<and> blocking_rows_ok form"

lemma list_all_conj: "list_all (\<lambda>r. P r \<and> Q r) rows \<longleftrightarrow> list_all P rows \<and> list_all Q rows"
  by (auto simp: list_all_iff)

lemma list_all_member: "list_all (\<lambda>a. a \<in> S) xs \<longleftrightarrow> set xs \<subseteq> S"
  by (auto simp: list_all_iff)

text \<open>What the invariant gives for the schema.\<close>

lemma editor_ok_shape: "package_editor_ok form \<Longrightarrow> packageFormShape form"
  by (simp add: package_editor_ok_def package_choices_ok_def package_rows_ok_def blocking_rows_ok_def
      packageFormShape_def list_all_conj list_all_member keyed_nonblank)

lemma plain_text_ok: "package_editor_ok (set_text f v form) = package_editor_ok form"
  by (cases f) (simp_all add: package_editor_ok_def package_choices_ok_def package_rows_ok_def blocking_rows_ok_def)

lemma plain_flag_ok: "package_editor_ok (set_flag f v form) = package_editor_ok form"
  by (cases f) (simp_all add: package_editor_ok_def package_choices_ok_def package_rows_ok_def blocking_rows_ok_def)

lemma plain_script_ok: "package_editor_ok (set_script k v form) = package_editor_ok form"
  by (simp add: set_script_def package_editor_ok_def package_choices_ok_def package_rows_ok_def blocking_rows_ok_def)

lemmas plain_fields_ok = plain_text_ok plain_flag_ok plain_script_ok

lemma toggled_architectures:
  assumes "distinct vs" and "set vs \<subseteq> S" and "v \<in> S"
  shows "distinct (toggleArray vs v on)" and "set (toggleArray vs v on) \<subseteq> S"
  using assms by (auto simp: toggleArray_def)

lemmas rows_kept =
  string_rows.rows_keyed_step launch_rows.rows_keyed_step environment_rows.rows_keyed_step
  install_rows.rows_keyed_step install_rows.rows_ok_step receipt_rows.rows_keyed_step
  copy_rows.rows_keyed_step reference_rows.rows_keyed_step reference_rows.rows_ok_step

text \<open>The events that only set a text or a flag.\<close>

fun plain_event :: "'f package_event \<Rightarrow> bool" where
  "plain_event (EditText f v) \<longleftrightarrow> True"
| "plain_event (EditFlag f v) \<longleftrightarrow> True"
| "plain_event (EditScript k v) \<longleftrightarrow> True"
| "plain_event _ \<longleftrightarrow> False"

lemma package_choices_step:
  assumes "package_choices_ok form" and "package_event_fits form e"
    and "\<not> plain_event e"
  shows "package_choices_ok (package_step form e)"
  using assms
  by (cases e) (auto simp: package_choices_ok_def blocking_none_def toggled_architectures
      PACKAGE_UNINSTALL_METHOD_VALUES_def PACKAGE_UNINSTALL_RESTART_ACTION_VALUES_def split: option.splits)

lemma package_rows_step:
  assumes "package_rows_ok form" and "package_event_fits form e"
    and "\<not> plain_event e"
  shows "package_rows_ok (package_step form e)"
  using assms
  by (cases e) (simp_all add: package_rows_ok_def blocking_none_def rows_kept split: option.splits)

lemma blocking_rows_step:
  assumes "blocking_rows_ok form" and "package_event_fits form e"
    and "\<not> plain_event e"
  shows "blocking_rows_ok (package_step form e)"
  using assms
  by (cases e) (simp_all add: blocking_rows_ok_def blocking_none_def rows_kept rows_keyed_def [of _ "[]"]
      split: option.splits)

lemma package_editor_step:
  assumes "package_editor_ok form" and "package_event_fits form e"
  shows "package_editor_ok (package_step form e)"
proof (cases "plain_event e")
  case True
  then show ?thesis using assms(1) by (cases e) (simp_all add: plain_fields_ok)
next
  case other: False
  have "package_choices_ok form" "package_rows_ok form" "blocking_rows_ok form"
    using assms(1) by (simp_all add: package_editor_ok_def)
  then show ?thesis
    using package_choices_step [OF _ assms(2) other] package_rows_step [OF _ assms(2) other]
      blocking_rows_step [OF _ assms(2) other]
    by (simp add: package_editor_ok_def)
qed

lemma package_editor_run:
  "package_editor_ok form \<Longrightarrow> package_run_fits form es \<Longrightarrow> package_editor_ok (foldl package_step form es)"
  by (induction es arbitrary: form) (simp_all add: package_editor_step)

text \<open>The empty form, and the form of a stored package.\<close>

lemma package_editor_empty: "positive_id softwareID \<Longrightarrow> package_editor_ok (emptyPackageForm softwareID)"
  by (simp add: package_editor_ok_def package_choices_ok_def package_rows_ok_def blocking_rows_ok_def
      emptyPackageForm_def rows_keyed_def positive_id_def MUNKI_INSTALLER_TYPE_VALUES_def
      PACKAGE_UNINSTALL_METHOD_VALUES_def MUNKI_RESTART_ACTION_VALUES_def MUNKI_DOWNLOAD_ON_LOW_DATA_VALUES_def
      PACKAGE_UNINSTALL_RESTART_ACTION_VALUES_def)

text \<open>
  What the API's types say of a stored package, and that its lists of applications are empty while none is
  to block.
\<close>

definition package_typed :: "munki_package \<Rightarrow> bool" where
  "package_typed pkg \<longleftrightarrow>
     0 < mp_software_id pkg \<and> mp_installer_type pkg \<in> set MUNKI_INSTALLER_TYPE_VALUES \<and>
     positive_id (mp_installer_object_id pkg) \<and>
     coalesce (mp_uninstall_method pkg) [] \<in> set PACKAGE_UNINSTALL_METHOD_VALUES \<and>
     coalesce (mp_restart_action pkg) ''RequireRestart'' \<in> set MUNKI_RESTART_ACTION_VALUES \<and>
     coalesce (mp_restart_action_for_uninstall pkg) [] \<in> set PACKAGE_UNINSTALL_RESTART_ACTION_VALUES \<and>
     distinct (coalesce (mp_supported_architectures pkg) []) \<and>
     mp_download_on_low_data pkg \<in> set MUNKI_DOWNLOAD_ON_LOW_DATA_VALUES \<and>
     list_all (\<lambda>r. 0 < pref_software_id r \<and> positive_id (pref_package_id r))
       (coalesce (mp_requires pkg) [] @ coalesce (mp_update_for pkg) []) \<and>
     list_all (\<lambda>i. ii_type i \<in> set MUNKI_INSTALL_ITEM_TYPE_VALUES) (coalesce (mp_installs pkg) []) \<and>
     (mp_blocking_applications_none pkg \<longrightarrow> coalesce (mp_blocking_applications_with_launch_args pkg) [] = [])"

text \<open>The keys of opened rows are the ids that were drawn.\<close>

lemma map_rows_keys: "(\<And>r v. key (f r v) = r) \<Longrightarrow> map key (map_rows f uuid k vs) = map uuid [k..<k + length vs]"
proof (induction vs arbitrary: k)
  case (Cons v vs)
  then show ?case by (simp add: upt_conv_Cons del: upt_Suc)
qed simp

lemma map_rows_keyed:
  assumes "inj uuid" and "[] \<notin> range uuid" and "\<And>r v. key (f r v) = r"
  shows "rows_keyed key (map_rows f uuid k vs)"
  using assms(1,2) map_rows_keys [of key f uuid k vs, OF assms(3)]
  by (auto simp: rows_keyed_def distinct_map intro: inj_on_subset)

lemma map_rows_all: "(\<And>r v. P (f r v) \<longleftrightarrow> Q v) \<Longrightarrow> list_all P (map_rows f uuid k vs) \<longleftrightarrow> list_all Q vs"
  by (induction vs arbitrary: k) simp_all

lemma opened_keys:
  "sr_rowID (stringRow r v) = r" "lar_rowID (launchArgumentsRow r l) = r" "prr_rowID (packageReferenceRow r p) = r"
  "ier_rowID (installerEnvironmentRow r e) = r" "iir_rowID (installItemRow r i) = r" "rer_rowID (receiptRow r c) = r"
  "icr_rowID (itemToCopyRow r t) = r"
  by (simp_all add: stringRow_def launchArgumentsRow_def packageReferenceRow_def installerEnvironmentRow_def
      installItemRow_def receiptRow_def itemToCopyRow_def installer_environment.defs installer_environment_row.defs
      install_item.defs install_item_row.defs receipt.defs receipt_row.defs item_to_copy.defs item_to_copy_row.defs)

lemma opened_rows_ok:
  "list_all reference_row_ok (map_rows packageReferenceRow uuid k refs) \<longleftrightarrow>
     list_all (\<lambda>r. 0 < pref_software_id r \<and> positive_id (pref_package_id r)) refs"
  "list_all install_row_ok (map_rows installItemRow uuid k is) \<longleftrightarrow>
     list_all (\<lambda>i. ii_type i \<in> set MUNKI_INSTALL_ITEM_TYPE_VALUES) is"
  by (rule map_rows_all; simp add: packageReferenceRow_def reference_row_ok_def positive_id_def)
    (rule map_rows_all, simp add: installItemRow_def install_row_ok_def install_item.defs install_item_row.defs)

lemma package_editor_opened:
  assumes typed: "package_typed pkg" and uuid: "inj uuid" "[] \<notin> range uuid"
  shows "package_editor_ok (packageFormFromPackage de uuid pkg)"
proof -
  note keyed = map_rows_keyed [OF uuid]
  have "package_choices_ok (packageFormFromPackage de uuid pkg)"
    using typed
    by (simp add: package_choices_ok_def packageFormFromPackage_def package_typed_def positive_id_def Let_def
        isArchitecture_def [abs_def] subset_iff)
  moreover have "package_rows_ok (packageFormFromPackage de uuid pkg)"
    using typed
    by (simp add: package_rows_ok_def packageFormFromPackage_def package_typed_def Let_def keyed opened_keys
        opened_rows_ok)
  moreover have "blocking_rows_ok (packageFormFromPackage de uuid pkg)"
    using typed
    by (simp add: blocking_rows_ok_def packageFormFromPackage_def package_typed_def Let_def keyed opened_keys)
  ultimately show ?thesis by (simp add: package_editor_ok_def)
qed

end
