(* ===== verification/PackageSave.thy ===== *)
theory PackageSave
  imports Upload "HOL-Library.Multiset"
begin

text \<open>
  Saving a Munki package (\<open>web/src/features/munki/packages/create.tsx\<close>, \<open>edit.tsx\<close>): the upload of the
  installer, the mutation, and what is deleted when either fails or the user cancels, over the upload of
  \<open>Upload\<close>.  One submission is a machine whose steps are the settled requests, with the cancellation
  anywhere between them.

  Main results: every uploaded object of a finished submission is named by the mutation that succeeded, or
  its deletion was requested, exactly once; a submission cancelled during the upload changes no package.
\<close>

section \<open>The machine\<close>

text \<open>The page: creating, or editing a package that has an installer or none.\<close>

datatype save_page = CreatePage | EditPage "int option"

text \<open>
  Where a submission waits: for the upload, for the deletion of an upload that is not wanted any more, for
  the mutation, for the deletion of the upload of a mutation that failed.
\<close>

datatype save_phase =
    SaveIdle | UploadingInstaller js_file | DiscardingUpload | SavingPackage "int option"
  | DiscardingFailed thrown | SaveEnded "thrown + bool"

record package_save =
  psv_cancelled :: bool
  psv_left :: bool
  psv_phase :: save_phase
  psv_created :: "int list"
  psv_deleted :: "int list"
  psv_sent :: "int option list"
  psv_claimed :: "int list"

definition open_save :: package_save where
  "open_save =
     \<lparr>psv_cancelled = False, psv_left = False, psv_phase = SaveIdle, psv_created = [], psv_deleted = [],
      psv_sent = [], psv_claimed = []\<rparr>"

datatype ('c, 'd, 'q) save_event =
    SubmitPackage bool "js_file option"
  | InstallerSettled "('c, 'd upload_target, 'q, int) upload_env"
  | DeletionSettled
  | PackageSettled "thrown + unit"
  | CancelPackage

text \<open>\<open>mutateAsync\<close>: the upload of this submission, if any, and the installer the body names.\<close>

definition save_package :: "int option \<Rightarrow> int option \<Rightarrow> package_save \<Rightarrow> package_save" where
  "save_package uploaded installerObjectID s =
     s\<lparr>psv_phase := SavingPackage uploaded, psv_sent := psv_sent s @ [installerObjectID]\<rparr>"

definition installer_object :: "save_page \<Rightarrow> bool \<Rightarrow> int option \<Rightarrow> int option" where
  "installer_object page nopkg uploaded =
     (case page of
        CreatePage \<Rightarrow> uploaded
      | EditPage current \<Rightarrow>
          (if nopkg then None else (case uploaded of Some i \<Rightarrow> Some i | None \<Rightarrow> current)))"

definition start_save :: "save_page \<Rightarrow> bool \<Rightarrow> js_file option \<Rightarrow> package_save \<Rightarrow> package_save" where
  "start_save page nopkg chosen s0 =
     (let s = s0\<lparr>psv_cancelled := False\<rparr>
      in case (page, nopkg, chosen) of
           (_, True, _) \<Rightarrow> save_package None (installer_object page True None) s
         | (_, False, Some f) \<Rightarrow> s\<lparr>psv_phase := UploadingInstaller f\<rparr>
         | (CreatePage, False, None) \<Rightarrow>
             s\<lparr>psv_phase := SaveEnded (Inl (NativeError ''Validated package is missing its installer.''))\<rparr>
         | (EditPage _, False, None) \<Rightarrow> save_package None (installer_object page False None) s)"

text \<open>The upload settled: its run created an object, and released it when it failed.\<close>

definition installer_settled ::
    "save_page \<Rightarrow> ('c, 'd upload_target, 'q, int) upload_env \<Rightarrow> js_file \<Rightarrow> package_save \<Rightarrow> package_save" where
  "installer_settled page env chosen s0 =
     (let (outcome, run) = upload_run env chosen;
          s = s0\<lparr>psv_created := psv_created s0 @
                    (case upload_intent env chosen of None \<Rightarrow> [] | Some intent \<Rightarrow> [tgt_object_id intent]),
                  psv_deleted := psv_deleted s0 @ map tgt_object_id (us_released run)\<rparr>
      in case outcome of
           Inl e \<Rightarrow> s\<lparr>psv_phase := SaveEnded (Inl e)\<rparr>
         | Inr i \<Rightarrow>
             (if psv_cancelled s then s\<lparr>psv_phase := DiscardingUpload, psv_deleted := psv_deleted s @ [i]\<rparr>
              else save_package (Some i) (installer_object page False (Some i)) s))"

definition package_settled :: "thrown + unit \<Rightarrow> int option \<Rightarrow> package_save \<Rightarrow> package_save" where
  "package_settled outcome uploaded s =
     (case outcome of
        Inr _ \<Rightarrow>
          s\<lparr>psv_phase := SaveEnded (Inr True),
            psv_claimed := psv_claimed s @ (case uploaded of None \<Rightarrow> [] | Some i \<Rightarrow> [i])\<rparr>
      | Inl e \<Rightarrow>
          (case uploaded of
             None \<Rightarrow> s\<lparr>psv_phase := SaveEnded (Inl e)\<rparr>
           | Some i \<Rightarrow> s\<lparr>psv_phase := DiscardingFailed e, psv_deleted := psv_deleted s @ [i]\<rparr>))"

text \<open>
  A page that was left submits nothing.  The signals a cancellation raises reach the upload and the mutation
  as their outcomes.
\<close>

fun save_step :: "save_page \<Rightarrow> package_save \<Rightarrow> ('c, 'd, 'q) save_event \<Rightarrow> package_save" where
  "save_step page s (SubmitPackage nopkg chosen) =
     (if psv_left s then s
      else (case psv_phase s of
              SaveIdle \<Rightarrow> start_save page nopkg chosen s
            | SaveEnded _ \<Rightarrow> start_save page nopkg chosen s
            | _ \<Rightarrow> s))"
| "save_step page s (InstallerSettled env) =
     (case psv_phase s of UploadingInstaller f \<Rightarrow> installer_settled page env f s | _ \<Rightarrow> s)"
| "save_step page s DeletionSettled =
     (case psv_phase s of
        DiscardingUpload \<Rightarrow> s\<lparr>psv_phase := SaveEnded (Inr False)\<rparr>
      | DiscardingFailed e \<Rightarrow> s\<lparr>psv_phase := SaveEnded (Inl e)\<rparr>
      | _ \<Rightarrow> s)"
| "save_step page s (PackageSettled outcome) =
     (case psv_phase s of SavingPackage uploaded \<Rightarrow> package_settled outcome uploaded s | _ \<Rightarrow> s)"
| "save_step page s CancelPackage = s\<lparr>psv_cancelled := True, psv_left := True\<rparr>"

section \<open>No object is lost\<close>

text \<open>
  What the uploads rely on: completing an upload answers the object it was created as, and the installer
  hook releases the intents of failed runs, as \<open>useUploadMunkiInstaller\<close> says.
\<close>

definition installer_env :: "('c, 'd upload_target, 'q, int) upload_env \<Rightarrow> bool" where
  "installer_env env \<longleftrightarrow>
     ue_cleanupIntent env \<noteq> None \<and>
     (\<forall>intent i. ue_completeUpload env intent = Inr i \<longrightarrow> i = tgt_object_id intent)"

text \<open>The object of the request under way.\<close>

definition held_object :: "package_save \<Rightarrow> int list" where
  "held_object s = (case psv_phase s of SavingPackage (Some i) \<Rightarrow> [i] | _ \<Rightarrow> [])"

definition objects_accounted :: "package_save \<Rightarrow> bool" where
  "objects_accounted s \<longleftrightarrow>
     mset (psv_created s) = mset (psv_claimed s) + mset (psv_deleted s) + mset (held_object s)"

lemma upload_accounted:
  assumes env: "installer_env env"
  shows "(case upload_intent env f of None \<Rightarrow> [] | Some intent \<Rightarrow> [tgt_object_id intent]) =
    (case fst (upload_run env f) of
       Inl e \<Rightarrow> map tgt_object_id (us_released (snd (upload_run env f)))
     | Inr i \<Rightarrow> [i])"
    and "fst (upload_run env f) = Inr i \<Longrightarrow> us_released (snd (upload_run env f)) = []"
proof -
  show "us_released (snd (upload_run env f)) = []" if "fst (upload_run env f) = Inr i"
    using that by (simp add: upload_run_released upload_run_success)
  show "(case upload_intent env f of None \<Rightarrow> [] | Some intent \<Rightarrow> [tgt_object_id intent]) =
    (case fst (upload_run env f) of
       Inl e \<Rightarrow> map tgt_object_id (us_released (snd (upload_run env f)))
     | Inr i \<Rightarrow> [i])"
  proof (cases "fst (upload_run env f)")
    case (Inl e)
    then have "upload_succeeds env f = None"
      using upload_run_success [of env f] by (cases "upload_succeeds env f") auto
    then show ?thesis
      using env Inl by (simp add: upload_run_released installer_env_def split: option.split)
  next
    case (Inr i)
    then have "upload_succeeds env f = Some i" by (simp add: upload_run_success)
    then obtain intent where "upload_intent env f = Some intent" "ue_completeUpload env intent = Inr i"
      by (auto simp: upload_succeeds_def split: option.splits if_splits sum.splits)
    then show ?thesis using env Inr by (simp add: installer_env_def)
  qed
qed

lemma held_object_simps [simp]:
  "held_object (s\<lparr>psv_phase := UploadingInstaller f\<rparr>) = []"
  "held_object (s\<lparr>psv_phase := SaveEnded r\<rparr>) = []"
  by (simp_all add: held_object_def)

lemma start_accounted:
  assumes "objects_accounted s" and "held_object s = []"
  shows "objects_accounted (start_save page nopkg chosen s)"
  using assms
  by (auto simp: start_save_def Let_def objects_accounted_def save_package_def held_object_def
      split: prod.splits bool.splits option.splits save_page.splits)

lemma installer_accounted:
  assumes ok: "objects_accounted s" and env: "installer_env env" and phase: "psv_phase s = UploadingInstaller f"
  shows "objects_accounted (installer_settled page env f s)"
proof -
  obtain outcome run where run: "upload_run env f = (outcome, run)" by (cases "upload_run env f")
  have "mset (psv_created s) = mset (psv_claimed s) + mset (psv_deleted s)"
    using ok phase by (simp add: objects_accounted_def held_object_def)
  then show ?thesis
    using upload_accounted [OF env, of f] run
    by (cases outcome) (auto simp: installer_settled_def Let_def objects_accounted_def held_object_def
        save_package_def)
qed

lemma objects_accounted_step:
  assumes ok: "objects_accounted s" and env: "\<forall>env. e = InstallerSettled env \<longrightarrow> installer_env env"
  shows "objects_accounted (save_step page s e)"
proof (cases e)
  case (SubmitPackage nopkg chosen)
  with ok show ?thesis by (auto simp: start_accounted held_object_def split: save_phase.splits)
next
  case (InstallerSettled env)
  with ok assms(2) show ?thesis by (auto simp: installer_accounted split: save_phase.splits)
next
  case (PackageSettled outcome)
  with ok show ?thesis
    by (auto simp: package_settled_def objects_accounted_def held_object_def
        split: save_phase.splits sum.splits option.splits)
qed (use ok in \<open>auto simp: objects_accounted_def held_object_def split: save_phase.splits\<close>)

lemma objects_accounted_run:
  assumes "objects_accounted s" and "\<forall>env. InstallerSettled env \<in> set es \<longrightarrow> installer_env env"
  shows "objects_accounted (foldl (save_step page) s es)"
  using assms by (induction es arbitrary: s) (simp_all add: objects_accounted_step)

section \<open>A cancelled upload\<close>

text \<open>Once the page is left before its mutation, none is ever sent.\<close>

definition discards :: "package_save \<Rightarrow> bool" where
  "discards s \<longleftrightarrow> psv_left s \<and> psv_cancelled s \<and> (\<forall>uploaded. psv_phase s \<noteq> SavingPackage uploaded)"

lemma discards_step:
  assumes "discards s"
  shows "discards (save_step page s e) \<and> psv_sent (save_step page s e) = psv_sent s \<and>
    psv_claimed (save_step page s e) = psv_claimed s"
  using assms
  by (cases e) (auto simp: discards_def installer_settled_def Let_def split: save_phase.splits prod.splits sum.splits)

lemma discards_run:
  assumes "discards s"
  shows "psv_sent (foldl (save_step page) s es) = psv_sent s \<and> psv_claimed (foldl (save_step page) s es) = psv_claimed s"
  using assms
proof (induction es arbitrary: s)
  case (Cons e es)
  from discards_step [OF Cons.prems, of page e] Cons.IH [of "save_step page s e"] show ?case by simp
qed simp

end
