(* ===== verification/PointForm.thy ===== *)
theory PointForm
  imports Forms Rows "HOL-Library.Sublist"
begin

text \<open>
  The form of a Munki distribution point (\<open>web/src/features/munki/distribution-points/fields.tsx\<close>).  The
  host name and CIDR checks of the schema library are parameters.

  Main results: the domains accepted are a host name with an optional canonical port; what is accepted
  keeps every CIDR row; opening and saving a stored point changes nothing.
\<close>

record point_row =
  dr_rowID :: js_string
  dr_value :: js_string

record point_form =
  dpf_name :: js_string
  dpf_enabled :: bool
  dpf_client_domain :: js_string
  dpf_client_cidrs :: "point_row list"

record point_mutation =
  dpm_name :: js_string
  dpm_enabled :: bool
  dpm_client_base_url :: js_string
  dpm_client_cidrs :: "js_string list"

section \<open>Domains\<close>

text \<open>\<open>/^[1-9]\d{0,4}$/\<close> and at most 65535.\<close>

definition portSchema :: "js_string \<Rightarrow> bool" where
  "portSchema s \<longleftrightarrow> id_pattern s \<and> length s \<le> 5 \<and> js_number s \<le> num_of_int 65535"

definition isClientDomain :: "(js_string \<Rightarrow> bool) \<Rightarrow> js_string \<Rightarrow> bool" where
  "isClientDomain hostname v =
     (case js_split (CHR '':'') v of
        [h] \<Rightarrow> hostname h
      | [h, port] \<Rightarrow> hostname h \<and> portSchema port
      | _ \<Rightarrow> False)"

definition httpsOriginFromDomain :: "js_string \<Rightarrow> js_string" where
  "httpsOriginFromDomain v = (let domain = js_trim v in if domain = [] then [] else ''https://'' @ domain)"

text \<open>The pattern \<open>/^https:\/\//i\<close>: a letter matches in either case.\<close>

definition same_letter :: "char \<Rightarrow> char \<Rightarrow> bool" where
  "same_letter c d \<longleftrightarrow>
     c = d \<or> (97 \<le> (of_char c :: nat) \<and> (of_char c :: nat) \<le> 122 \<and> (of_char c :: nat) = of_char d + 32)"

definition has_https :: "js_string \<Rightarrow> bool" where
  "has_https s \<longleftrightarrow> 8 \<le> length s \<and> list_all2 same_letter ''https://'' (take 8 s)"

definition domainFromHTTPSOrigin :: "js_string \<Rightarrow> js_string" where
  "domainFromHTTPSOrigin v = (let s = js_trim v in if has_https s then drop 8 s else s)"

section \<open>The form\<close>

definition point_domain_ok :: "(js_string \<Rightarrow> bool) \<Rightarrow> js_string \<Rightarrow> bool" where
  "point_domain_ok hostname v \<longleftrightarrow> v = [] \<or> isClientDomain hostname v"

definition distributionPointFormSchema ::
    "(js_string \<Rightarrow> bool) \<Rightarrow> (js_string \<Rightarrow> bool) \<Rightarrow> point_form \<Rightarrow> issue list" where
  "distributionPointFormSchema hostname cidr form =
     requiredString ''Name'' ''name'' (dpf_name form) @
     issue_if (\<not> point_domain_ok hostname (js_trim (dpf_client_domain form)))
       ''client_domain'' ''Enter a valid domain with an optional port.'' @
     issue_if (\<not> list_all (\<lambda>row. cidr (js_trim (dr_value row))) (dpf_client_cidrs form))
       ''client_cidrs'' ''Enter a valid IPv4 or IPv6 CIDR.'' @
     issue_if (dpf_enabled form \<and> js_trim (dpf_client_domain form) = [])
       ''client_domain'' ''A domain is required to enable a distribution point.''"

text \<open>The output of the schema.\<close>

definition point_output :: "point_form \<Rightarrow> point_form" where
  "point_output form =
     form\<lparr>dpf_name := js_trim (dpf_name form), dpf_client_domain := js_trim (dpf_client_domain form)\<rparr>"

definition emptyDistributionPointForm :: point_form where
  "emptyDistributionPointForm =
     \<lparr>dpf_name = [], dpf_enabled = True, dpf_client_domain = [], dpf_client_cidrs = []\<rparr>"

definition point_stringRows :: "(nat \<Rightarrow> js_string) \<Rightarrow> js_string list \<Rightarrow> point_row list" where
  "point_stringRows rowID vs = map (\<lambda>(i, v). \<lparr>dr_rowID = rowID i, dr_value = v\<rparr>) (enumerate 0 vs)"

definition point_cleanStringRows :: "point_row list \<Rightarrow> js_string list" where
  "point_cleanStringRows rows = filter (\<lambda>v. v \<noteq> []) (map (\<lambda>row. js_trim (dr_value row)) rows)"

definition formFromDistributionPoint :: "(nat \<Rightarrow> js_string) \<Rightarrow> point_mutation \<Rightarrow> point_form" where
  "formFromDistributionPoint rowID point =
     \<lparr>dpf_name = dpm_name point, dpf_enabled = dpm_enabled point,
      dpf_client_domain = domainFromHTTPSOrigin (dpm_client_base_url point),
      dpf_client_cidrs = point_stringRows rowID (dpm_client_cidrs point)\<rparr>"

definition distributionPointBody :: "point_form \<Rightarrow> point_mutation" where
  "distributionPointBody form =
     \<lparr>dpm_name = js_trim (dpf_name form), dpm_enabled = dpf_enabled form,
      dpm_client_base_url = httpsOriginFromDomain (dpf_client_domain form),
      dpm_client_cidrs = point_cleanStringRows (dpf_client_cidrs form)\<rparr>"

definition submit_point ::
    "(js_string \<Rightarrow> bool) \<Rightarrow> (js_string \<Rightarrow> bool) \<Rightarrow> point_form \<Rightarrow> thrown + point_mutation" where
  "submit_point hostname cidr form =
     (if distributionPointFormSchema hostname cidr form \<noteq> [] then Inl (NativeError ''ZodError'')
      else Inr (distributionPointBody (point_output form)))"

definition emptyPointRow :: "js_string \<Rightarrow> point_row" where
  "emptyPointRow rowID = \<lparr>dr_rowID = rowID, dr_value = []\<rparr>"

definition change_point_row :: "js_string \<Rightarrow> point_row \<Rightarrow> point_row" where
  "change_point_row v row = row\<lparr>dr_value := v\<rparr>"

interpretation point_rows: keyed_rows dr_rowID emptyPointRow change_point_row "\<lambda>_. True" "\<lambda>_. True"
  by unfold_locales (simp_all add: emptyPointRow_def change_point_row_def)

section \<open>The domains accepted\<close>

lemma read_digits_lt: "list_all is_digit ds \<Longrightarrow> read_digits ds < 10 ^ length ds"
proof (induction ds rule: rev_induct)
  case (snoc d ds)
  then have "digit_val d < 10" "read_digits ds < 10 ^ length ds" by (simp_all add: digit_val_lt)
  then show ?case by (simp add: read_digits_snoc)
qed (simp add: read_digits_def)

lemma length_show_nat: "n < 10 ^ Suc k \<Longrightarrow> length (show_nat n) \<le> Suc k"
proof (induction k arbitrary: n)
  case 0
  then show ?case by (subst show_nat.simps) simp
next
  case (Suc k)
  then have "n div 10 < 10 ^ Suc k" by simp
  from Suc.IH [OF this] show ?case by (subst show_nat.simps) simp
qed

text \<open>The ports are the numbers 1 to 65535 in canonical form.\<close>

lemma port_iff: "portSchema s \<longleftrightarrow> (\<exists>n. 0 < n \<and> n \<le> 65535 \<and> s = show_nat n)"
proof
  assume port: "portSchema s"
  then have ds: "list_all is_digit s" "s \<noteq> []" "hd s \<noteq> CHR ''0''"
    by (auto simp: portSchema_def id_pattern_def split: list.splits)
  let ?n = "read_digits s"
  have s: "s = show_nat ?n" using show_nat_read_digits [OF ds] by simp
  have zero: "show_nat 0 = ''0''" by code_simp
  have "?n \<noteq> 0" using s zero ds(3) by (metis list.sel(1))
  have "(10::nat) ^ length s \<le> 10 ^ 5" using port by (intro power_increasing) (simp_all add: portSchema_def)
  with read_digits_lt [OF ds(1)] have "?n < 10 ^ 5" by linarith
  then have "js_number s = num_of_int (int ?n)" using js_number_show_nat [of ?n] s by simp
  moreover have "js_number s \<le> num_of_int 65535" using port by (simp only: portSchema_def)
  ultimately have "num_of_int (int ?n) \<le> num_of_int 65535" by (simp only:)
  then have "?n \<le> 65535" by (simp only: num_of_int_le)
  with \<open>?n \<noteq> 0\<close> s show "\<exists>n. 0 < n \<and> n \<le> 65535 \<and> s = show_nat n" by blast
next
  assume "\<exists>n. 0 < n \<and> n \<le> 65535 \<and> s = show_nat n"
  then obtain n where n: "0 < n" "n \<le> 65535" "s = show_nat n" by blast
  have "js_number s = num_of_int (int n)" using js_number_show_nat [of n] n by simp
  moreover have "length s \<le> 5" using length_show_nat [of n 4] n by simp
  moreover have "num_of_int (int n) \<le> num_of_int 65535" using n(2) by (simp only: num_of_int_le)
  ultimately show "portSchema s" using n show_nat_pattern [OF n(1)] by (simp only: portSchema_def)
qed

lemma two_parts: "js_split d v = [h, p] \<longleftrightarrow> v = h @ d # p \<and> d \<notin> set h \<and> d \<notin> set p"
proof
  assume split: "js_split d v = [h, p]"
  then have "h @ d # p = v" using js_join_split [of d v] by simp
  with split show "v = h @ d # p \<and> d \<notin> set h \<and> d \<notin> set p" using js_split_parts [of _ d v] by auto
qed (simp add: js_split_append_sep js_split_no_sep)

lemma one_part: "js_split d v = [h] \<longleftrightarrow> v = h \<and> d \<notin> set h"
proof
  assume split: "js_split d v = [h]"
  then show "v = h \<and> d \<notin> set h" using js_join_split [of d v] js_split_parts [of h d v] by simp
qed (simp add: js_split_no_sep)

text \<open>A domain is a host name without colon, alone or followed by a port.\<close>

lemma client_domain_iff:
  "isClientDomain hostname v \<longleftrightarrow>
     (\<exists>h. CHR '':'' \<notin> set h \<and> hostname h \<and>
        (v = h \<or> (\<exists>n. 0 < n \<and> n \<le> 65535 \<and> v = h @ '':'' @ show_nat n)))"
proof -
  have digits: "CHR '':'' \<notin> set (show_nat n)" for n
    using show_nat_digits [of "CHR '':''" n] by (auto simp: is_digit_def)
  have "isClientDomain hostname v \<longleftrightarrow>
      (\<exists>h. js_split (CHR '':'') v = [h] \<and> hostname h) \<or>
      (\<exists>h p. js_split (CHR '':'') v = [h, p] \<and> hostname h \<and> portSchema p)"
    by (auto simp: isClientDomain_def split: list.split)
  also have "\<dots> \<longleftrightarrow> (\<exists>h. CHR '':'' \<notin> set h \<and> hostname h \<and>
      (v = h \<or> (\<exists>n. 0 < n \<and> n \<le> 65535 \<and> v = h @ '':'' @ show_nat n)))"
    unfolding one_part two_parts port_iff using digits by auto
  finally show ?thesis .
qed

section \<open>Opening and saving\<close>

lemma has_https_prefix [simp]: "has_https (''https://'' @ v)"
  by (simp add: has_https_def same_letter_def)

lemma js_trim_prefixed: "js_trim v = v \<Longrightarrow> v \<noteq> [] \<Longrightarrow> js_trim (''https://'' @ v) = ''https://'' @ v"
  by (auto simp: js_trim_fixed is_js_space_def)

lemma domain_again: "domainFromHTTPSOrigin (httpsOriginFromDomain v) = js_trim v"
proof (cases "js_trim v = []")
  case True
  then show ?thesis by (simp add: domainFromHTTPSOrigin_def httpsOriginFromDomain_def has_https_def)
next
  case False
  then have "js_trim (''https://'' @ js_trim v) = ''https://'' @ js_trim v" by (intro js_trim_prefixed) simp_all
  then show ?thesis using False has_https_prefix [of "js_trim v"]
    by (simp add: domainFromHTTPSOrigin_def httpsOriginFromDomain_def)
qed

lemma point_issues_empty:
  "distributionPointFormSchema hostname cidr form = [] \<longleftrightarrow>
     js_trim (dpf_name form) \<noteq> [] \<and> point_domain_ok hostname (js_trim (dpf_client_domain form)) \<and>
     (\<forall>row \<in> set (dpf_client_cidrs form). cidr (js_trim (dr_value row))) \<and>
     \<not> (dpf_enabled form \<and> js_trim (dpf_client_domain form) = [])"
  by (auto simp: distributionPointFormSchema_def issue_simps list_all_iff)

text \<open>The server stores a body as it is.\<close>

definition point_stores :: "point_mutation \<Rightarrow> point_mutation \<Rightarrow> bool" where
  "point_stores m r \<longleftrightarrow> r = m"

definition point_form_ok :: "(js_string \<Rightarrow> bool) \<Rightarrow> (js_string \<Rightarrow> bool) \<Rightarrow> point_form \<Rightarrow> bool" where
  "point_form_ok hostname cidr form \<longleftrightarrow> distributionPointFormSchema hostname cidr form = []"

lemma opened_values: "map dr_value (point_stringRows rowID vs) = vs"
  using map_enumerate_same [of vs dr_value "\<lambda>(i, v). \<lparr>dr_rowID = rowID i, dr_value = v\<rparr>" "\<lambda>v. v" 0]
  by (simp add: point_stringRows_def del: map_map)

lemma cleaned_values: "point_cleanStringRows rows = filter (\<lambda>v. v \<noteq> []) (map js_trim (map dr_value rows))"
  by (simp add: point_cleanStringRows_def comp_def)

lemma cleaned_again: "point_cleanStringRows (point_stringRows rowID (point_cleanStringRows rows)) = point_cleanStringRows rows"
  unfolding cleaned_values opened_values by (simp add: filter_map comp_def)

lemma point_reopened:
  assumes "point_form_ok hostname cidr form"
  defines "m \<equiv> distributionPointBody (point_output form)"
  shows "point_form_ok hostname cidr (formFromDistributionPoint rowID m) \<and>
    distributionPointBody (point_output (formFromDistributionPoint rowID m)) = m"
proof -
  let ?f = "formFromDistributionPoint rowID m"
  have f: "dpf_name ?f = js_trim (dpf_name form)" "dpf_enabled ?f = dpf_enabled form"
    "dpf_client_domain ?f = js_trim (dpf_client_domain form)"
    "map dr_value (dpf_client_cidrs ?f) = point_cleanStringRows (dpf_client_cidrs form)"
    by (simp_all add: formFromDistributionPoint_def m_def distributionPointBody_def point_output_def domain_again
        opened_values)
  have "cidr (js_trim v)" if "v \<in> set (map dr_value (dpf_client_cidrs ?f))" for v
    using that assms(1) unfolding f by (auto simp: point_form_ok_def point_issues_empty cleaned_values)
  then have "\<forall>row \<in> set (dpf_client_cidrs ?f). cidr (js_trim (dr_value row))" by simp
  then have "point_form_ok hostname cidr ?f"
    using assms(1) by (simp add: point_form_ok_def point_issues_empty f)
  moreover have "point_cleanStringRows (dpf_client_cidrs ?f) = point_cleanStringRows (dpf_client_cidrs form)"
    by (simp add: formFromDistributionPoint_def m_def distributionPointBody_def point_output_def cleaned_again)
  then have "distributionPointBody (point_output ?f) =
      \<lparr>dpm_name = js_trim (dpf_name form), dpm_enabled = dpf_enabled form,
       dpm_client_base_url = httpsOriginFromDomain (js_trim (dpf_client_domain form)),
       dpm_client_cidrs = point_cleanStringRows (dpf_client_cidrs form)\<rparr>"
    by (simp add: distributionPointBody_def point_output_def f httpsOriginFromDomain_def)
  then have "distributionPointBody (point_output ?f) = m"
    by (simp add: m_def distributionPointBody_def point_output_def httpsOriginFromDomain_def)
  ultimately show ?thesis by blast
qed

text \<open>What the interpretation needs holds for every parameter, so it is stated over fixed ones.\<close>

lemma point_sends: "point_form_ok hostname cidr form \<Longrightarrow>
    submit_point hostname cidr form = Inr (distributionPointBody (point_output form))"
  by (simp add: submit_point_def point_form_ok_def)

interpretation point_form:
  form_adapter "point_form_ok hostname cidr" "submit_point hostname cidr" point_stores "formFromDistributionPoint rowID"
  for hostname cidr rowID
proof
  fix f assume "point_form_ok hostname cidr f"
  then show "\<exists>b. submit_point hostname cidr f = Inr b" by (simp add: point_sends)
qed (use point_reopened [of hostname cidr _ rowID] in \<open>auto simp: point_sends point_stores_def\<close>)

text \<open>A CIDR is not blank, so no row of a form that is accepted is dropped.\<close>

lemma point_keeps_rows:
  assumes "\<not> cidr []" and "point_form_ok hostname cidr form"
  shows "point_cleanStringRows (dpf_client_cidrs form) = map (\<lambda>row. js_trim (dr_value row)) (dpf_client_cidrs form)"
  using assms by (auto simp: point_cleanStringRows_def point_form_ok_def point_issues_empty filter_id_conv)

end
