(* ===== verification/UserForm.thy ===== *)
theory UserForm
  imports Forms Metadata
begin

text \<open>
  The forms of users (\<open>web/src/features/directory/users/fields.tsx\<close>): creating a local user, and editing a
  user, whose name and password belong to the directory unless the user is local.  The e-mail check of the
  schema library is a parameter.

  Main results: opening and saving a stored user changes nothing; saving a user of a directory never sends
  another name or a password; a password that is sent has twelve characters.
\<close>

section \<open>Creating\<close>

record user_create_form =
  ucf_email :: js_string
  ucf_name :: js_string
  ucf_role :: js_string
  ucf_password :: js_string

record user_create =
  ucr_email :: js_string
  ucr_name :: js_string
  ucr_role :: js_string
  ucr_password :: js_string

definition emptyUserCreateForm :: user_create_form where
  "emptyUserCreateForm = \<lparr>ucf_email = [], ucf_name = [], ucf_role = ''viewer'', ucf_password = []\<rparr>"

text \<open>\<open>emailAddress()\<close>: the trimmed text is checked.\<close>

definition emailAddress :: "(js_string \<Rightarrow> bool) \<Rightarrow> js_string \<Rightarrow> js_string \<Rightarrow> issue list" where
  "emailAddress email path v = issue_if (\<not> email (js_trim v)) path ''Enter a valid email.''"

definition userCreateFormSchema :: "(js_string \<Rightarrow> bool) \<Rightarrow> user_create_form \<Rightarrow> issue list" where
  "userCreateFormSchema email form =
     emailAddress email ''email'' (ucf_email form) @
     issue_if (ucf_role form \<notin> {''admin'', ''viewer''}) ''role'' ''Invalid option'' @
     issue_if (length (ucf_password form) < 12) ''password'' ''Password must be at least 12 characters.''"

definition submit_user_create :: "(js_string \<Rightarrow> bool) \<Rightarrow> user_create_form \<Rightarrow> thrown + user_create" where
  "submit_user_create email form =
     (if userCreateFormSchema email form \<noteq> [] then Inl (NativeError ''ZodError'')
      else Inr \<lparr>ucr_email = js_trim (ucf_email form), ucr_name = js_trim (ucf_name form),
                ucr_role = ucf_role form, ucr_password = ucf_password form\<rparr>)"

text \<open>The role handlers of both forms: a value that is no role is ignored.\<close>

definition choose_role :: "js_string list \<Rightarrow> js_string \<Rightarrow> js_string \<Rightarrow> js_string" where
  "choose_role roles v current = (if v \<in> set roles then v else current)"

lemma created_user:
  assumes "submit_user_create email form = Inr m"
  shows "email (ucr_email m) \<and> ucr_role m \<in> set USER_ROLE_VALUES \<and> 12 \<le> length (ucr_password m) \<and>
    js_trim (ucr_email m) = ucr_email m \<and> js_trim (ucr_name m) = ucr_name m"
  using assms
  by (auto simp: submit_user_create_def userCreateFormSchema_def emailAddress_def issue_simps
      USER_ROLE_VALUES_def split: if_splits)

section \<open>Editing\<close>

record user_record =
  usr_name :: js_string
  usr_role :: "js_string option"
  usr_source :: js_string

record user_form =
  uf_name :: js_string
  uf_role :: js_string
  uf_password :: js_string

record user_mutation =
  um_name :: js_string
  um_role :: "js_string option"
  um_password :: "js_string option"

definition userFromDetail :: "user_record \<Rightarrow> user_form" where
  "userFromDetail user = \<lparr>uf_name = usr_name user, uf_role = userAccessRole (usr_role user), uf_password = []\<rparr>"

definition userFormSchema :: "user_form \<Rightarrow> issue list" where
  "userFormSchema form =
     issue_if (uf_role form \<notin> {''admin'', ''viewer'', ''none''}) ''role'' ''Invalid option'' @
     issue_if (\<not> (js_trim (uf_password form) = [] \<or> 12 \<le> length (uf_password form)))
       ''password'' ''Password must be at least 12 characters.''"

definition user_body :: "user_record \<Rightarrow> user_form \<Rightarrow> user_mutation" where
  "user_body user form =
     (let isLocal = (usr_source user = ''local'')
      in \<lparr>um_name = (if isLocal then js_trim (uf_name form) else usr_name user),
          um_role = userMutationRole (uf_role form),
          um_password = (if isLocal \<and> js_trim (uf_password form) \<noteq> [] then Some (uf_password form) else None)\<rparr>)"

definition submit_user :: "user_record \<times> user_form \<Rightarrow> thrown + (js_string \<times> user_mutation)" where
  "submit_user p =
     (case p of (user, form) \<Rightarrow>
        if userFormSchema form \<noteq> [] then Inl (NativeError ''ZodError'')
        else Inr (usr_source user, user_body user form))"

text \<open>\<open>formApi.reset({ ...value, password: "" })\<close> after a save.\<close>

definition saved_user_form :: "user_form \<Rightarrow> user_form" where
  "saved_user_form form = form\<lparr>uf_password := []\<rparr>"

text \<open>The server stores name and role of the user; the source of a user does not change.\<close>

definition user_stores :: "js_string \<times> user_mutation \<Rightarrow> user_record \<Rightarrow> bool" where
  "user_stores m r \<longleftrightarrow> usr_source r = fst m \<and> usr_name r = um_name (snd m) \<and> usr_role r = um_role (snd m)"

definition user_form_ok :: "user_record \<times> user_form \<Rightarrow> bool" where
  "user_form_ok p \<longleftrightarrow> userFormSchema (snd p) = []"

lemma user_issues_empty:
  "userFormSchema form = [] \<longleftrightarrow>
     uf_role form \<in> set USER_ACCESS_ROLE_VALUES \<and> (js_trim (uf_password form) = [] \<or> 12 \<le> length (uf_password form))"
  by (auto simp: userFormSchema_def issue_simps USER_ACCESS_ROLE_VALUES_def USER_ROLE_VALUES_def)

lemma user_reopened:
  assumes "user_form_ok (user, form)" and "user_stores (usr_source user, user_body user form) r"
  shows "user_form_ok (r, userFromDetail r)" and "user_stores (usr_source r, user_body r (userFromDetail r)) =
    user_stores (usr_source user, user_body user form)"
proof -
  have role: "usr_role r \<noteq> Some ''none''" and r: "usr_source r = usr_source user"
    "usr_name r = um_name (user_body user form)" "usr_role r = um_role (user_body user form)"
    using assms by (auto simp: user_stores_def user_body_def userMutationRole_def Let_def split: if_splits)
  show "user_form_ok (r, userFromDetail r)"
    using assms(1) r(3)
    by (auto simp: user_form_ok_def user_issues_empty userFromDetail_def user_body_def Let_def user_role_round_trip)
  have "um_name (user_body r (userFromDetail r)) = um_name (user_body user form)"
    using r by (simp add: user_body_def userFromDetail_def Let_def)
  moreover have "um_role (user_body r (userFromDetail r)) = um_role (user_body user form)"
    using r(3) role by (simp add: user_body_def userFromDetail_def Let_def user_role_round_trip)
  ultimately show "user_stores (usr_source r, user_body r (userFromDetail r)) =
      user_stores (usr_source user, user_body user form)"
    by (intro ext) (simp add: user_stores_def r(1))
qed

interpretation user_form: form_adapter user_form_ok submit_user user_stores "\<lambda>r. (r, userFromDetail r)"
proof
  fix p assume "user_form_ok p"
  then show "\<exists>b. submit_user p = Inr b" by (cases p) (simp add: submit_user_def user_form_ok_def)
next
  fix p b r
  assume ok: "user_form_ok p" and b: "submit_user p = Inr b" and r: "user_stores b r"
  obtain user form where p: "p = (user, form)" by (cases p)
  have b': "b = (usr_source user, user_body user form)"
    using b by (auto simp: p submit_user_def split: if_splits)
  note again = user_reopened [OF ok [unfolded p] r [unfolded b']]
  show "user_form_ok (r, userFromDetail r)" by (rule again(1))
  fix b2 assume "submit_user (r, userFromDetail r) = Inr b2"
  then have "b2 = (usr_source r, user_body r (userFromDetail r))" by (auto simp: submit_user_def split: if_splits)
  with again(2) b' show "user_stores b2 = user_stores b" by simp
qed

text \<open>The name and the password of a directory user are never sent changed; passwords are long enough.\<close>

lemma sent_user:
  assumes "submit_user (user, form) = Inr (source, m)"
  shows "(usr_source user \<noteq> ''local'' \<longrightarrow> um_name m = usr_name user \<and> um_password m = None) \<and>
    um_role m \<noteq> Some ''none'' \<and> (\<forall>p. um_password m = Some p \<longrightarrow> 12 \<le> length p)"
  using assms
  by (auto simp: submit_user_def user_body_def Let_def user_issues_empty userMutationRole_def split: if_splits)

end
