(* ===== verification/Reorder.thy ===== *)
theory Reorder
  imports DataTable SantaQueries MunkiQueries "HOL-Library.Multiset"
begin

text \<open>
  Editing the order of the distribution points (\<open>web/src/features/munki/distribution-points/list.tsx\<close>) and
  of the Santa configurations (\<open>web/src/features/santa/configurations/list.tsx\<close>), two pages of the same
  code, with \<open>web/src/components/data-table/draggable-table-rows.tsx\<close>.

  Main results: the rows being ordered stay a permutation of the rows shown, and what is saved is one; an
  order under way survives a refetch of the same rows; a list of more than a thousand rows cannot be
  ordered, filtered or not.
\<close>

section \<open>The page\<close>

text \<open>
  \<open>ed_rows\<close> and \<open>ed_total\<close> are the properties of the mounted editor, \<open>ed_ordered\<close> its state, and
  \<open>ed_saving\<close> the rows its save was started with, while it is under way.
\<close>

record 'r order_editor =
  ed_rows :: "'r list"
  ed_total :: int
  ed_ordered :: "'r list"
  ed_saving :: "'r list option"

text \<open>
  The page: \<open>op_page\<close> is what the query shows (also the data of the previous query while the new one is
  loading), \<open>op_failed\<close> that the first load failed.
\<close>

record 'r order_page =
  op_enabled :: bool
  op_warning :: bool
  op_filtered :: bool
  op_page :: "'r page option"
  op_failed :: bool
  op_editor :: "'r order_editor option"
  op_sent :: "int list list"

text \<open>The parameters of the query; while the order is edited, of one page as large as can be.\<close>

definition order_params :: "bool \<Rightarrow> table_search \<Rightarrow> base_list_params" where
  "order_params reorderEnabled search =
     (if reorderEnabled
      then \<lparr>blp_q = ts_q search, blp_page = None, blp_per_page = Some (num_of_int MAX_PAGE_SIZE),
            blp_sort = Some (encodeSort ''position'' False)\<rparr>
      else \<lparr>blp_q = ts_q search, blp_page = Some (ts_page search), blp_per_page = Some (ts_per_page search),
            blp_sort = ts_sort search\<rparr>)"

definition points_order_query :: "bool \<Rightarrow> table_search \<Rightarrow> query_options" where
  "points_order_query reorderEnabled search = useMunkiDistributionPoints (order_params reorderEnabled search)"

definition configurations_order_query :: "bool \<Rightarrow> table_search \<Rightarrow> query_options" where
  "configurations_order_query reorderEnabled search = useSantaConfigurations (order_params reorderEnabled search)"

definition serverRows :: "'r order_page \<Rightarrow> 'r list" where
  "serverRows s = coalesce (map_option page_items (op_page s)) []"

definition totalCount :: "'r order_page \<Rightarrow> int" where
  "totalCount s = coalesce (map_option page_count (op_page s)) 0"

text \<open>\<open>canEnableReorder\<close>; \<open>isLoading\<close> is that nothing is shown yet and nothing failed.\<close>

definition canEnableReorder :: "bool \<Rightarrow> 'r order_page \<Rightarrow> bool" where
  "canEnableReorder canEdit s \<longleftrightarrow>
     canEdit \<and> \<not> op_filtered s \<and> 1 < totalCount s \<and> \<not> (op_page s = None \<and> \<not> op_failed s)"

definition truncated :: "int \<Rightarrow> bool" where
  "truncated n \<longleftrightarrow> MAX_PAGE_SIZE < n"

text \<open>The key of the editor; another key mounts another editor.\<close>

definition editor_key :: "('r \<Rightarrow> int) \<Rightarrow> 'r list \<Rightarrow> js_string" where
  "editor_key rid rows = js_join '','' (map (\<lambda>row. show_int (rid row)) rows)"

definition show_editor :: "('r \<Rightarrow> int) \<Rightarrow> bool \<Rightarrow> 'r order_page \<Rightarrow> 'r order_page" where
  "show_editor rid canEdit s =
     s\<lparr>op_editor :=
        (if op_failed s \<or> \<not> (op_enabled s \<and> canEdit) then None
         else (case op_editor s of
                 None \<Rightarrow>
                   Some \<lparr>ed_rows = serverRows s, ed_total = totalCount s, ed_ordered = serverRows s, ed_saving = None\<rparr>
               | Some ed \<Rightarrow>
                   (if editor_key rid (ed_rows ed) = editor_key rid (serverRows s)
                    then Some (ed\<lparr>ed_rows := serverRows s, ed_total := totalCount s\<rparr>)
                    else Some \<lparr>ed_rows = serverRows s, ed_total = totalCount s, ed_ordered = serverRows s,
                               ed_saving = None\<rparr>)))\<rparr>"

definition dragDisabled :: "'r order_editor \<Rightarrow> bool" where
  "dragDisabled ed \<longleftrightarrow> ed_saving ed \<noteq> None \<or> truncated (ed_total ed) \<or> length (ed_ordered ed) \<le> 1"

text \<open>\<open>onDragEnd\<close>: \<open>move\<close> is \<open>arrayMove\<close> of the drag library.\<close>

definition drag_end ::
    "('r list \<Rightarrow> nat \<Rightarrow> nat \<Rightarrow> 'r list) \<Rightarrow> bool \<Rightarrow> nat \<Rightarrow> nat \<Rightarrow> 'r list \<Rightarrow> 'r list" where
  "drag_end move canceled initialIndex index rows =
     (if canceled \<or> initialIndex = index then rows else move rows initialIndex index)"

datatype 'r order_event =
    ShowPage "'r page option" bool
  | SetSearch bool
  | ClickEditOrder | SetOrderWarning bool | ConfirmOrder
  | DragRow bool nat nat
  | ClickSaveOrder | ClickCancelOrder
  | OrderSettled "thrown + unit"

text \<open>
  What a user does needs the control to be on screen: the search box is there while the order is not being
  edited, a drag starts at an enabled handle and ends over a row.  A search typed before may still arrive
  while the warning is open.  A save whose editor is gone calls nothing
  back.
\<close>

fun order_event_step ::
    "('r list \<Rightarrow> nat \<Rightarrow> nat \<Rightarrow> 'r list) \<Rightarrow> ('r \<Rightarrow> int) \<Rightarrow> bool \<Rightarrow> 'r order_page \<Rightarrow> 'r order_event \<Rightarrow> 'r order_page" where
  "order_event_step move rid canEdit s (ShowPage shown failed) = s\<lparr>op_page := shown, op_failed := failed\<rparr>"
| "order_event_step move rid canEdit s (SetSearch filtered) =
     (if op_enabled s then s else s\<lparr>op_filtered := filtered\<rparr>)"
| "order_event_step move rid canEdit s ClickEditOrder =
     (if op_enabled s \<or> \<not> canEnableReorder canEdit s then s else s\<lparr>op_warning := True\<rparr>)"
| "order_event_step move rid canEdit s (SetOrderWarning isOpen) = (if op_warning s then s\<lparr>op_warning := isOpen\<rparr> else s)"
| "order_event_step move rid canEdit s ConfirmOrder =
     (if op_warning s then s\<lparr>op_enabled := True, op_warning := False\<rparr> else s)"
| "order_event_step move rid canEdit s (DragRow canceled i j) =
     (case op_editor s of
        None \<Rightarrow> s
      | Some ed \<Rightarrow>
          (if dragDisabled ed \<or> \<not> (i < length (ed_ordered ed) \<and> j < length (ed_ordered ed)) then s
           else s\<lparr>op_editor := Some (ed\<lparr>ed_ordered := drag_end move canceled i j (ed_ordered ed)\<rparr>)\<rparr>))"
| "order_event_step move rid canEdit s ClickSaveOrder =
     (case op_editor s of
        None \<Rightarrow> s
      | Some ed \<Rightarrow>
          (if ed_saving ed \<noteq> None \<or> truncated (ed_total ed) then s
           else s\<lparr>op_editor := Some (ed\<lparr>ed_saving := Some (ed_rows ed)\<rparr>),
                  op_sent := op_sent s @ [map rid (ed_ordered ed)]\<rparr>))"
| "order_event_step move rid canEdit s ClickCancelOrder =
     (if op_editor s = None then s else s\<lparr>op_enabled := False\<rparr>)"
| "order_event_step move rid canEdit s (OrderSettled outcome) =
     (case op_editor s of
        None \<Rightarrow> s
      | Some ed \<Rightarrow>
          (case ed_saving ed of
             None \<Rightarrow> s
           | Some rows \<Rightarrow>
               (case outcome of
                  Inr _ \<Rightarrow> s\<lparr>op_enabled := False\<rparr>
                | Inl _ \<Rightarrow> s\<lparr>op_editor := Some (ed\<lparr>ed_ordered := rows, ed_saving := None\<rparr>)\<rparr>)))"

definition order_step ::
    "('r list \<Rightarrow> nat \<Rightarrow> nat \<Rightarrow> 'r list) \<Rightarrow> ('r \<Rightarrow> int) \<Rightarrow> bool \<Rightarrow> 'r order_page \<Rightarrow> 'r order_event \<Rightarrow> 'r order_page" where
  "order_step move rid canEdit s e = show_editor rid canEdit (order_event_step move rid canEdit s e)"

definition open_order :: "bool \<Rightarrow> 'r order_page" where
  "open_order filtered =
     \<lparr>op_enabled = False, op_warning = False, op_filtered = filtered, op_page = None, op_failed = False,
      op_editor = None, op_sent = []\<rparr>"

section \<open>What is saved\<close>

text \<open>What the page relies on: \<open>arrayMove\<close> reorders the list.\<close>

definition moves_rows :: "('r list \<Rightarrow> nat \<Rightarrow> nat \<Rightarrow> 'r list) \<Rightarrow> bool" where
  "moves_rows move \<longleftrightarrow>
     (\<forall>rows i j. i < length rows \<longrightarrow> j < length rows \<longrightarrow> mset (move rows i j) = mset rows)"

lemma show_int_no_comma: "CHR '','' \<notin> set (show_int n)"
  by (auto simp: show_int_def is_digit_def dest!: show_nat_digits)

lemma show_int_nonempty: "show_int n \<noteq> []"
  by (simp add: show_int_def)

text \<open>The key determines the ids.\<close>

lemma editor_key_ids: "editor_key rid rows = editor_key rid rows' \<longleftrightarrow> map rid rows = map rid rows'"
proof
  have split: "js_split (CHR '','') (editor_key rid rows) = map (\<lambda>row. show_int (rid row)) rows" if "rows \<noteq> []" for rows
    using that unfolding editor_key_def by (intro js_split_join) (auto simp: show_int_no_comma)
  have empty: "editor_key rid rows = [] \<longleftrightarrow> rows = []" for rows
    by (cases rows; cases "tl rows") (auto simp: editor_key_def show_int_nonempty)
  assume same: "editor_key rid rows = editor_key rid rows'"
  have "map show_int (map rid rows) = map show_int (map rid rows')"
  proof (cases "rows = []")
    case True
    with same empty show ?thesis by metis
  next
    case False
    with same empty have "rows' \<noteq> []" by metis
    with False same split show ?thesis by (simp add: comp_def) metis
  qed
  moreover have "inj show_int" by (simp add: inj_def)
  ultimately show "map rid rows = map rid rows'" by (metis inj_map_eq_map)
next
  have "editor_key rid rows = js_join '','' (map show_int (map rid rows))" for rows by (simp add: editor_key_def comp_def)
  moreover assume "map rid rows = map rid rows'"
  ultimately show "editor_key rid rows = editor_key rid rows'" by metis
qed

lemma same_ids_mset: "map f xs = map f ys \<Longrightarrow> image_mset f (mset xs) = image_mset f (mset ys)"
  by (metis mset_map)

definition editor_ok :: "('r \<Rightarrow> int) \<Rightarrow> 'r order_editor \<Rightarrow> bool" where
  "editor_ok rid ed \<longleftrightarrow>
     mset (map rid (ed_ordered ed)) = mset (map rid (ed_rows ed)) \<and>
     (\<forall>rows. ed_saving ed = Some rows \<longrightarrow> map rid rows = map rid (ed_rows ed))"

definition order_ok :: "('r \<Rightarrow> int) \<Rightarrow> bool \<Rightarrow> 'r order_page \<Rightarrow> bool" where
  "order_ok rid canEdit s \<longleftrightarrow>
     (case op_editor s of
        None \<Rightarrow> True
      | Some ed \<Rightarrow> ed_rows ed = serverRows s \<and> ed_total ed = totalCount s \<and> editor_ok rid ed)"

text \<open>Before the editor is shown anew, its rows are those of the page before.\<close>

definition order_mid :: "('r \<Rightarrow> int) \<Rightarrow> 'r order_page \<Rightarrow> bool" where
  "order_mid rid s \<longleftrightarrow> (\<forall>ed. op_editor s = Some ed \<longrightarrow> editor_ok rid ed)"

lemma order_ok_show: "order_mid rid s \<Longrightarrow> order_ok rid canEdit (show_editor rid canEdit s)"
  by (auto simp: order_mid_def order_ok_def show_editor_def serverRows_def totalCount_def editor_ok_def
      editor_key_ids dest: same_ids_mset split: option.splits)

lemma order_ok_mid: "order_ok rid canEdit s \<Longrightarrow> order_mid rid s"
  by (auto simp: order_ok_def order_mid_def split: option.splits)

lemma drag_end_mset:
  assumes "moves_rows move" and "i < length rows" and "j < length rows"
  shows "mset (drag_end move canceled i j rows) = mset rows"
  using assms by (simp add: drag_end_def moves_rows_def)

lemma order_mid_step:
  assumes move: "moves_rows move" and mid: "order_mid rid s"
  shows "order_mid rid (order_event_step move rid canEdit s e)"
proof (cases "op_editor s")
  case None
  then show ?thesis by (cases e) (simp_all add: order_mid_def)
next
  case (Some ed)
  with mid have ed: "editor_ok rid ed" by (simp add: order_mid_def)
  show ?thesis
  proof (cases e)
    case (DragRow canceled i j)
    have "mset (map rid (drag_end move canceled i j (ed_ordered ed))) = mset (map rid (ed_ordered ed))"
      if "i < length (ed_ordered ed)" "j < length (ed_ordered ed)"
      using drag_end_mset [OF move that] by (simp only: mset_map)
    with ed Some DragRow show ?thesis by (simp add: order_mid_def editor_ok_def)
  qed (use ed Some in \<open>auto simp: order_mid_def editor_ok_def split: option.splits sum.splits intro: same_ids_mset\<close>)
qed

lemma order_ok_step: "moves_rows move \<Longrightarrow> order_ok rid canEdit s \<Longrightarrow> order_ok rid canEdit (order_step move rid canEdit s e)"
  by (simp add: order_step_def order_ok_show order_mid_step order_ok_mid)

lemma order_ok_run:
  "moves_rows move \<Longrightarrow> order_ok rid canEdit s \<Longrightarrow> order_ok rid canEdit (foldl (order_step move rid canEdit) s es)"
  by (induction es arbitrary: s) (simp_all add: order_ok_step)

lemma order_ok_open: "order_ok rid canEdit (open_order filtered)"
  by (simp add: order_ok_def open_order_def)

lemma order_sent [simp]: "op_sent (show_editor rid canEdit s) = op_sent s"
  by (simp add: show_editor_def)

text \<open>What one step sends: nothing, or a permutation of all the rows shown.\<close>

lemma order_step_sends:
  assumes "order_ok rid canEdit s"
  shows "op_sent (order_step move rid canEdit s e) = op_sent s \<or>
    (\<exists>ids. op_sent (order_step move rid canEdit s e) = op_sent s @ [ids] \<and>
       mset ids = mset (map rid (serverRows s)) \<and> totalCount s \<le> MAX_PAGE_SIZE)"
proof (cases "op_editor s")
  case None
  then show ?thesis by (cases e) (simp_all add: order_step_def)
next
  case (Some ed)
  with assms show ?thesis
    by (cases e) (auto simp: order_step_def order_ok_def editor_ok_def truncated_def split: option.splits sum.splits)
qed

text \<open>A refetch of the same rows leaves the order under way as it is.\<close>

lemma order_refetched:
  assumes "order_ok rid canEdit s" and "op_editor s = Some ed" and "op_enabled s" and "canEdit"
    and "map rid (page_items p) = map rid (serverRows s)"
  shows "op_editor (order_step move rid canEdit s (ShowPage (Some p) False)) =
    Some (ed\<lparr>ed_rows := page_items p, ed_total := page_count p\<rparr>)"
proof -
  have "editor_key rid (ed_rows ed) = editor_key rid (page_items p)"
    using assms by (simp add: editor_key_ids order_ok_def)
  with assms show ?thesis by (simp add: order_step_def show_editor_def serverRows_def totalCount_def)
qed

section \<open>Too many rows\<close>

text \<open>
  The editor of a truncated list says to narrow it first, but the button that opens the editor is disabled
  for a filtered list; and an unfiltered list of that size is never saved.
\<close>

lemma filtered_not_ordered: "op_filtered s \<Longrightarrow> \<not> canEnableReorder canEdit s"
  by (simp add: canEnableReorder_def)

definition shows_truncated :: "'r order_event \<Rightarrow> bool" where
  "shows_truncated e \<longleftrightarrow>
     (case e of
        ShowPage shown _ \<Rightarrow> (\<exists>p. shown = Some p \<and> truncated (page_count p))
      | _ \<Rightarrow> True)"

lemma truncated_not_saved:
  assumes "order_ok rid canEdit s" and "truncated (totalCount s)"
  shows "op_sent (order_step move rid canEdit s e) = op_sent s"
  using order_step_sends [OF assms(1), of move e] assms(2) by (auto simp: truncated_def)

lemma still_truncated:
  "truncated (totalCount s) \<Longrightarrow> shows_truncated e \<Longrightarrow> truncated (totalCount (order_step move rid canEdit s e))"
  by (cases e) (auto simp: order_step_def show_editor_def totalCount_def shows_truncated_def
      split: option.splits sum.splits)

lemma too_many_rows:
  assumes "moves_rows move" and "order_ok rid canEdit s" and "truncated (totalCount s)" and "list_all shows_truncated es"
  shows "op_sent (foldl (order_step move rid canEdit) s es) = op_sent s"
  using assms(2,3,4)
proof (induction es arbitrary: s)
  case (Cons e es)
  then show ?case using assms(1) by (simp add: truncated_not_saved order_ok_step still_truncated)
qed simp

end
