(* ===== verification/Sdk.thy ===== *)
theory Sdk
  imports QueryClient
begin

text \<open>
  The calls of the generated SDK (\<open>web/src/lib/api-client/sdk.gen.ts\<close>): for every operation its HTTP
  method, its path template, the list parameters its own query serializer sends unexploded, and whether it
  sends JSON, is secured and is an event stream.  The operations are listed as the file has them.

  Main results: every operation has a name and a route of its own, so method and path tell which operation
  is called, with which ids.
\<close>

datatype http_method = GET | POST | PUT | PATCH | DELETE

text \<open>
  \<open>op_lists\<close> is \<open>querySerializer\<close>: the parameters with \<open>array: { explode: false }\<close>, or none of its own;
  \<open>op_json\<close> is the header \<open>Content-Type: application/json\<close>, \<open>op_secured\<close> the session cookie and the bearer
  token.
\<close>

record sdk_op =
  op_method :: http_method
  op_url :: js_string
  op_lists :: "js_string list option"
  op_json :: bool
  op_secured :: bool
  op_stream :: bool

abbreviation endpoint :: "http_method \<Rightarrow> js_string \<Rightarrow> js_string list option \<Rightarrow> bool \<Rightarrow> sdk_op" where
  "endpoint m url unexploded sends_json \<equiv>
     \<lparr>op_method = m, op_url = url, op_lists = unexploded, op_json = sends_json, op_secured = True, op_stream = False\<rparr>"

section \<open>The operations\<close>

definition sdk_account_activity_agent_secrets :: "(js_string \<times> sdk_op) list" where
  "sdk_account_activity_agent_secrets = [
      (''getAccount'', endpoint GET ''/api/account'' (None) False),
      (''updateAccount'', endpoint PUT ''/api/account'' (None) True),
      (''revokeAccountApiKey'', endpoint DELETE ''/api/account/api-key'' (None) False),
      (''rotateAccountApiKey'', endpoint POST ''/api/account/api-key'' (None) False),
      (''listActivity'', endpoint GET ''/api/activity'' (None) False),
      (''listAgentSecrets'', endpoint GET ''/api/agent-secrets'' (None) False),
      (''createAgentSecret'', endpoint POST ''/api/agent-secrets'' (None) True),
      (''deleteAgentSecret'', endpoint DELETE ''/api/agent-secrets/{id}'' (None) False),
      (''updateAgentSecret'', endpoint PUT ''/api/agent-secrets/{id}'' (None) True)]"

definition sdk_directory_groups :: "(js_string \<times> sdk_op) list" where
  "sdk_directory_groups = [
      (''getDirectorySync'', endpoint GET ''/api/directory/sync'' (None) False),
      (''triggerDirectorySync'', endpoint POST ''/api/directory/sync'' (None) False),
      (''listGroups'', endpoint GET ''/api/groups'' (Some [''values'']) False),
      (''getGroup'', endpoint GET ''/api/groups/{id}'' (None) False)]"

definition sdk_hosts :: "(js_string \<times> sdk_op) list" where
  "sdk_hosts = [
      (''bulkDeleteHosts'', endpoint DELETE ''/api/hosts'' (Some [''ids'']) False),
      (''listHosts'', endpoint GET ''/api/hosts'' (Some [''ids'']) False),
      (''deleteHost'', endpoint DELETE ''/api/hosts/{id}'' (None) False),
      (''getHost'', endpoint GET ''/api/hosts/{id}'' (None) False),
      (''requestHostInventoryRefresh'', endpoint POST ''/api/hosts/{id}/inventory-refresh'' (None) False),
      (''getHostMunkiState'', endpoint GET ''/api/hosts/{id}/munki'' (None) False),
      (''listHostMunkiSoftware'', endpoint GET ''/api/hosts/{id}/munki/software'' (None) False),
      (''listHostOsqueryPolicies'', endpoint GET ''/api/hosts/{id}/osquery/policies'' (Some [''status'']) False),
      (''listHostOsqueryReports'', endpoint GET ''/api/hosts/{id}/osquery/reports'' (None) False),
      (''clearHostPrimaryUser'', endpoint DELETE ''/api/hosts/{id}/primary-user'' (None) False),
      (''setHostPrimaryUser'', endpoint PUT ''/api/hosts/{id}/primary-user'' (None) True)]"

definition sdk_hosts_labels :: "(js_string \<times> sdk_op) list" where
  "sdk_hosts_labels = [
      (''getHostSantaState'', endpoint GET ''/api/hosts/{id}/santa'' (None) False),
      (''listHostSantaRules'', endpoint GET ''/api/hosts/{id}/santa/rules'' (None) False),
      (''listHostSoftware'', endpoint GET ''/api/hosts/{id}/software'' (Some [''source'']) False),
      (''listLabels'', endpoint GET ''/api/labels'' (Some [''label_membership_type'']) False),
      (''createLabel'', endpoint POST ''/api/labels'' (None) True),
      (''deleteLabel'', endpoint DELETE ''/api/labels/{id}'' (None) False),
      (''getLabel'', endpoint GET ''/api/labels/{id}'' (None) False),
      (''updateLabel'', endpoint PUT ''/api/labels/{id}'' (None) True)]"

definition sdk_munki :: "(js_string \<times> sdk_op) list" where
  "sdk_munki = [
      (''listMunkiClientResources'', endpoint GET ''/api/munki/client-resources'' (None) False),
      (''createMunkiClientResources'', endpoint POST ''/api/munki/client-resources'' (None) True),
      (''createMunkiClientResourcesArchiveUpload'', endpoint POST ''/api/munki/client-resources/archive-uploads'' (None) True),
      (''deleteMunkiClientResourcesArchiveUpload'', endpoint DELETE ''/api/munki/client-resources/archive-uploads/{id}'' (None) False),
      (''createMunkiClientResourcesBannerUpload'', endpoint POST ''/api/munki/client-resources/banner-uploads'' (None) True),
      (''deleteMunkiClientResourcesBannerUpload'', endpoint DELETE ''/api/munki/client-resources/banner-uploads/{id}'' (None) False),
      (''deleteMunkiClientResources'', endpoint DELETE ''/api/munki/client-resources/{id}'' (None) False),
      (''getMunkiClientResources'', endpoint GET ''/api/munki/client-resources/{id}'' (None) False),
      (''updateMunkiClientResources'', endpoint PUT ''/api/munki/client-resources/{id}'' (None) True),
      (''listMunkiDistributionPoints'', endpoint GET ''/api/munki/distribution-points'' (None) False)]"

definition sdk_munki_2 :: "(js_string \<times> sdk_op) list" where
  "sdk_munki_2 = [
      (''createMunkiDistributionPoint'', endpoint POST ''/api/munki/distribution-points'' (None) True),
      (''reorderMunkiDistributionPoints'', endpoint PUT ''/api/munki/distribution-points/order'' (None) True),
      (''deleteMunkiDistributionPoint'', endpoint DELETE ''/api/munki/distribution-points/{id}'' (None) False),
      (''getMunkiDistributionPoint'', endpoint GET ''/api/munki/distribution-points/{id}'' (None) False),
      (''updateMunkiDistributionPoint'', endpoint PUT ''/api/munki/distribution-points/{id}'' (None) True),
      (''rotateMunkiDistributionPointKey'', endpoint POST ''/api/munki/distribution-points/{id}/key'' (None) False),
      (''listMunkiIcons'', endpoint GET ''/api/munki/icons'' (None) False),
      (''createMunkiIconUpload'', endpoint POST ''/api/munki/icons'' (None) True),
      (''createMunkiPackageInstallerUpload'', endpoint POST ''/api/munki/package-installers'' (None) True),
      (''deleteMunkiPackageInstallerUpload'', endpoint DELETE ''/api/munki/package-installers/{id}'' (None) False)]"

definition sdk_munki_3 :: "(js_string \<times> sdk_op) list" where
  "sdk_munki_3 = [
      (''completeMunkiPackageInstallerUpload'', endpoint PUT ''/api/munki/package-installers/{id}'' (None) False),
      (''signMunkiPackageInstallerPart'', endpoint POST ''/api/munki/package-installers/{id}/multipart/parts/{part_number}'' (None) True),
      (''bulkDeleteMunkiPackages'', endpoint DELETE ''/api/munki/packages'' (Some [''ids'']) False),
      (''listMunkiPackages'', endpoint GET ''/api/munki/packages'' (Some [''type'']) False),
      (''createMunkiPackage'', endpoint POST ''/api/munki/packages'' (None) True),
      (''getMunkiPackage'', endpoint GET ''/api/munki/packages/{id}'' (None) False),
      (''patchMunkiPackage'', endpoint PATCH ''/api/munki/packages/{id}'' (None) True),
      (''updateMunkiPackage'', endpoint PUT ''/api/munki/packages/{id}'' (None) True),
      (''bulkDeleteMunkiSoftware'', endpoint DELETE ''/api/munki/software'' (Some [''ids'']) False),
      (''listMunkiSoftware'', endpoint GET ''/api/munki/software'' (None) False)]"

definition sdk_munki_4 :: "(js_string \<times> sdk_op) list" where
  "sdk_munki_4 = [
      (''createMunkiSoftware'', endpoint POST ''/api/munki/software'' (None) True),
      (''deleteMunkiSoftware'', endpoint DELETE ''/api/munki/software/{id}'' (None) False),
      (''getMunkiSoftware'', endpoint GET ''/api/munki/software/{id}'' (None) False),
      (''patchMunkiSoftware'', endpoint PATCH ''/api/munki/software/{id}'' (None) True),
      (''updateMunkiSoftware'', endpoint PUT ''/api/munki/software/{id}'' (None) True),
      (''setMunkiSoftwareIcon'', endpoint PUT ''/api/munki/software/{id}/icon'' (None) True)]"

definition sdk_osquery :: "(js_string \<times> sdk_op) list" where
  "sdk_osquery = [
      (''listOsqueryHostStatusHistory'', endpoint GET ''/api/osquery/host-status-history'' (None) False),
      (''createLiveQuery'', endpoint POST ''/api/osquery/live-queries'' (None) True),
      (''countLiveQueryTargets'', endpoint POST ''/api/osquery/live-queries/target-count'' (None) True),
      (''deleteLiveQuery'', endpoint DELETE ''/api/osquery/live-queries/{id}'' (None) False),
      (''streamLiveQuery'', \<lparr>op_method = GET, op_url = ''/api/osquery/live-queries/{id}/stream'', op_lists = None, op_json = False,
        op_secured = True, op_stream = True\<rparr>),
      (''bulkDeleteOsqueryPolicies'', endpoint DELETE ''/api/osquery/policies'' (Some [''ids'']) False),
      (''listOsqueryPolicies'', endpoint GET ''/api/osquery/policies'' (None) False),
      (''createOsqueryPolicy'', endpoint POST ''/api/osquery/policies'' (None) True),
      (''deleteOsqueryPolicy'', endpoint DELETE ''/api/osquery/policies/{id}'' (None) False),
      (''getOsqueryPolicy'', endpoint GET ''/api/osquery/policies/{id}'' (None) False)]"

definition sdk_osquery_2 :: "(js_string \<times> sdk_op) list" where
  "sdk_osquery_2 = [
      (''updateOsqueryPolicy'', endpoint PUT ''/api/osquery/policies/{id}'' (None) True),
      (''getOsqueryPolicyRemediationRun'', endpoint GET ''/api/osquery/policies/{id}/hosts/{host_id}/remediation'' (None) False),
      (''getOsqueryPolicyRemediationSource'', endpoint GET ''/api/osquery/policies/{id}/remediation'' (None) False),
      (''runOsqueryPolicyRemediations'', endpoint POST ''/api/osquery/policies/{id}/remediation'' (Some [''host_ids'']) False),
      (''listOsqueryPolicyResults'', endpoint GET ''/api/osquery/policies/{id}/results'' (Some [''status'', ''remediation'']) False),
      (''listOsqueryPolicyStatusHistory'', endpoint GET ''/api/osquery/policies/{id}/status-history'' (None) False),
      (''bulkDeleteOsqueryReports'', endpoint DELETE ''/api/osquery/reports'' (Some [''ids'']) False),
      (''listOsqueryReports'', endpoint GET ''/api/osquery/reports'' (None) False),
      (''createOsqueryReport'', endpoint POST ''/api/osquery/reports'' (None) True),
      (''deleteOsqueryReport'', endpoint DELETE ''/api/osquery/reports/{id}'' (None) False)]"

definition sdk_osquery_3 :: "(js_string \<times> sdk_op) list" where
  "sdk_osquery_3 = [
      (''getOsqueryReport'', endpoint GET ''/api/osquery/reports/{id}'' (None) False),
      (''updateOsqueryReport'', endpoint PUT ''/api/osquery/reports/{id}'' (None) True),
      (''listOsqueryReportSnapshots'', endpoint GET ''/api/osquery/reports/{id}/snapshots'' (None) False)]"

definition sdk_santa :: "(js_string \<times> sdk_op) list" where
  "sdk_santa = [
      (''bulkDeleteSantaConfigurations'', endpoint DELETE ''/api/santa/configurations'' (Some [''ids'']) False),
      (''listSantaConfigurations'', endpoint GET ''/api/santa/configurations'' (None) False),
      (''createSantaConfiguration'', endpoint POST ''/api/santa/configurations'' (None) True),
      (''reorderSantaConfigurations'', endpoint PUT ''/api/santa/configurations/order'' (None) True),
      (''deleteSantaConfiguration'', endpoint DELETE ''/api/santa/configurations/{id}'' (None) False),
      (''getSantaConfiguration'', endpoint GET ''/api/santa/configurations/{id}'' (None) False),
      (''updateSantaConfiguration'', endpoint PUT ''/api/santa/configurations/{id}'' (None) True),
      (''listSantaEvents'', endpoint GET ''/api/santa/events'' (Some [''decisions'']) False),
      (''getSantaEvent'', endpoint GET ''/api/santa/events/{id}'' (None) False),
      (''listSantaFileAccessEvents'', endpoint GET ''/api/santa/file-access-events'' (Some [''decisions'']) False)]"

definition sdk_santa_session_software :: "(js_string \<times> sdk_op) list" where
  "sdk_santa_session_software = [
      (''getSantaFileAccessEvent'', endpoint GET ''/api/santa/file-access-events/{id}'' (None) False),
      (''bulkDeleteSantaRules'', endpoint DELETE ''/api/santa/rules'' (Some [''ids'']) False),
      (''listSantaRules'', endpoint GET ''/api/santa/rules'' (Some [''rule_type'']) False),
      (''createSantaRule'', endpoint POST ''/api/santa/rules'' (None) True),
      (''deleteSantaRule'', endpoint DELETE ''/api/santa/rules/{id}'' (None) False),
      (''getSantaRule'', endpoint GET ''/api/santa/rules/{id}'' (None) False),
      (''updateSantaRule'', endpoint PUT ''/api/santa/rules/{id}'' (None) True),
      (''deleteSession'', \<lparr>op_method = DELETE, op_url = ''/api/session'', op_lists = None, op_json = False,
        op_secured = False, op_stream = False\<rparr>),
      (''getSession'', \<lparr>op_method = GET, op_url = ''/api/session'', op_lists = None, op_json = False,
        op_secured = False, op_stream = False\<rparr>),
      (''createSession'', \<lparr>op_method = POST, op_url = ''/api/session'', op_lists = None, op_json = True,
        op_secured = False, op_stream = False\<rparr>),
      (''listSoftware'', endpoint GET ''/api/software'' (Some [''source'']) False),
      (''getSoftware'', endpoint GET ''/api/software/{id}'' (None) False)]"

definition sdk_users :: "(js_string \<times> sdk_op) list" where
  "sdk_users = [
      (''listUsers'', endpoint GET ''/api/users'' (Some [''values'', ''role'']) False),
      (''createUser'', endpoint POST ''/api/users'' (None) True),
      (''listUserDepartments'', endpoint GET ''/api/users/departments'' (Some [''values'']) False),
      (''deleteUser'', endpoint DELETE ''/api/users/{id}'' (None) False),
      (''getUser'', endpoint GET ''/api/users/{id}'' (None) False),
      (''updateUser'', endpoint PUT ''/api/users/{id}'' (None) True)]"

definition sdk :: "(js_string \<times> sdk_op) list" where
  "sdk = sdk_account_activity_agent_secrets @ sdk_directory_groups @ sdk_hosts @
     sdk_hosts_labels @ sdk_munki @ sdk_munki_2 @
     sdk_munki_3 @ sdk_munki_4 @ sdk_osquery @
     sdk_osquery_2 @ sdk_osquery_3 @ sdk_santa @
     sdk_santa_session_software @ sdk_users"

lemmas sdk_tables =
  sdk_account_activity_agent_secrets_def sdk_directory_groups_def sdk_hosts_def
  sdk_hosts_labels_def sdk_munki_def sdk_munki_2_def
  sdk_munki_3_def sdk_munki_4_def sdk_osquery_def
  sdk_osquery_2_def sdk_osquery_3_def sdk_santa_def
  sdk_santa_session_software_def sdk_users_def

section \<open>Routes\<close>

text \<open>The segments of a path template; a parameter has a segment of its own.\<close>

datatype segment = Literal js_string | Hole js_string

definition segment_of :: "js_string \<Rightarrow> segment" where
  "segment_of s =
     (if s \<noteq> [] \<and> hd s = CHR 0x7B \<and> last s = CHR 0x7D then Hole (butlast (tl s)) else Literal s)"

definition template :: "js_string \<Rightarrow> segment list" where
  "template url = map segment_of (js_split (CHR ''/'') url)"

text \<open>The shape of a route: what is left when the names of the parameters are forgotten.\<close>

fun segment_shape :: "segment \<Rightarrow> js_string option" where
  "segment_shape (Literal s) = Some s"
| "segment_shape (Hole name) = None"

definition route_shape :: "sdk_op \<Rightarrow> http_method \<times> js_string option list" where
  "route_shape op = (op_method op, map segment_shape (template (op_url op)))"


text \<open>What is asked of a template: parameters are plain names, and no literal segment could be taken for an id.\<close>

fun good_segment :: "segment \<Rightarrow> bool" where
  "good_segment (Literal s) \<longleftrightarrow>
     CHR 0x7B \<notin> set s \<and> CHR 0x7D \<notin> set s \<and> (s = [] \<or> (\<not> is_digit (hd s) \<and> hd s \<noteq> CHR ''-''))"
| "good_segment (Hole name) \<longleftrightarrow>
     name \<noteq> [] \<and> CHR 0x7B \<notin> set name \<and> CHR 0x7D \<notin> set name \<and> hd name \<noteq> CHR ''.'' \<and> hd name \<noteq> CHR '';'' \<and> last name \<noteq> CHR ''*''"

definition good_op :: "sdk_op \<Rightarrow> bool" where
  "good_op op \<longleftrightarrow> list_all good_segment (template (op_url op)) \<and> hd (op_url op) = CHR ''/'' \<and> op_url op \<noteq> []"

lemma good_ops: "list_all (\<lambda>(name, op). good_op op) sdk"
  unfolding sdk_def sdk_tables by (simp add: good_op_def template_def segment_of_def is_digit_def)

lemma good_op_of: "map_of sdk name = Some op \<Longrightarrow> good_op op"
  using good_ops by (auto simp: list_all_iff dest!: map_of_SomeD)

text \<open>Every operation has a name and a route of its own.\<close>

lemma sdk_names: "distinct (map fst sdk)"
  unfolding sdk_def sdk_tables by simp

lemma sdk_routes: "distinct (map (\<lambda>(name, op). route_shape op) sdk)"
  unfolding sdk_def sdk_tables by (simp add: route_shape_def template_def segment_of_def)

lemma same_route:
  assumes "map_of sdk a = Some p" and "map_of sdk b = Some q" and "route_shape p = route_shape q"
  shows "a = b"
proof -
  have "(a, p) \<in> set sdk" "(b, q) \<in> set sdk" using assms(1,2) by (simp_all add: map_of_SomeD)
  with sdk_routes assms(3) show ?thesis by (auto simp: distinct_map inj_on_def)
qed

end
