(* ===== verification/Wire.thy ===== *)
theory Wire
  imports Sdk
begin

text \<open>
  From a call of the SDK to the HTTP request (\<open>web/src/lib/api-client/core/pathSerializer.gen.ts\<close>,
  \<open>core/utils.gen.ts\<close>, \<open>client/utils.gen.ts\<close>) with the configuration of \<open>web/src/lib/api.ts\<close>: the path,
  the query string, the headers, the body.

  Main results: a path that is built has all its parameters filled in, and method and path determine the
  operation and the ids; the query string read back is what the call passed.
\<close>

section \<open>\<open>encodeURIComponent\<close>\<close>

definition uri_unreserved :: "char \<Rightarrow> bool" where
  "uri_unreserved c \<longleftrightarrow>
     is_digit c \<or> (65 \<le> (of_char c :: nat) \<and> (of_char c :: nat) \<le> 90) \<or>
     (97 \<le> (of_char c :: nat) \<and> (of_char c :: nat) \<le> 122) \<or> c \<in> set ''-_.!~*'' \<or> c = CHR 0x27 \<or> c \<in> set ''()''"

definition upper_hex :: "nat \<Rightarrow> char" where
  "upper_hex d = (if d < 10 then char_of (48 + d) else char_of (55 + d))"

definition percent :: "nat \<Rightarrow> js_string" where
  "percent b = [CHR ''%'', upper_hex (b div 16), upper_hex (b mod 16)]"

text \<open>A code unit from 128 on has two bytes in UTF-8.\<close>

definition uri_char :: "char \<Rightarrow> js_string" where
  "uri_char c =
     (let n = of_char c
      in if uri_unreserved c then [c]
         else if n < 128 then percent n
         else percent (192 + n div 64) @ percent (128 + n mod 64))"

definition encodeURIComponent :: "js_string \<Rightarrow> js_string" where
  "encodeURIComponent s = concat (map uri_char s)"

section \<open>\<open>pathSerializer.gen.ts\<close>\<close>

datatype param_style = Form | SpaceDelimited | PipeDelimited | Label | Matrix | Simple | DeepObject

definition separatorArrayExplode :: "param_style \<Rightarrow> js_string" where
  "separatorArrayExplode style =
     (case style of Label \<Rightarrow> ''.'' | Matrix \<Rightarrow> '';'' | Simple \<Rightarrow> '','' | _ \<Rightarrow> ''&'')"

definition separatorArrayNoExplode :: "param_style \<Rightarrow> js_string" where
  "separatorArrayNoExplode style =
     (case style of Form \<Rightarrow> '','' | PipeDelimited \<Rightarrow> ''|'' | SpaceDelimited \<Rightarrow> ''%20'' | _ \<Rightarrow> '','')"

definition separatorObjectExplode :: "param_style \<Rightarrow> js_string" where
  "separatorObjectExplode style =
     (case style of Label \<Rightarrow> ''.'' | Matrix \<Rightarrow> '';'' | Simple \<Rightarrow> '','' | _ \<Rightarrow> ''&'')"

text \<open>A scalar is given by its \<open>String\<close>; nothing nested is passed.\<close>

definition reserved_or_encoded :: "bool \<Rightarrow> js_string \<Rightarrow> js_string" where
  "reserved_or_encoded allowReserved v = (if allowReserved then v else encodeURIComponent v)"

definition serializePrimitiveParam :: "bool \<Rightarrow> js_string \<Rightarrow> js_string option \<Rightarrow> js_string" where
  "serializePrimitiveParam allowReserved name v =
     (case v of None \<Rightarrow> [] | Some s \<Rightarrow> name @ ''='' @ reserved_or_encoded allowReserved s)"

definition serializeArrayParam :: "bool \<Rightarrow> bool \<Rightarrow> js_string \<Rightarrow> param_style \<Rightarrow> js_string list \<Rightarrow> js_string" where
  "serializeArrayParam allowReserved explode name style vs =
     (if \<not> explode then
        (let joinedValues = js_join (separatorArrayNoExplode style) (map (reserved_or_encoded allowReserved) vs)
         in case style of
              Label \<Rightarrow> ''.'' @ joinedValues
            | Matrix \<Rightarrow> '';'' @ name @ ''='' @ joinedValues
            | Simple \<Rightarrow> joinedValues
            | _ \<Rightarrow> name @ ''='' @ joinedValues)
      else
        (let separator = separatorArrayExplode style;
             joinedValues = js_join separator
               (map (\<lambda>v. if style = Label \<or> style = Simple then reserved_or_encoded allowReserved v
                         else serializePrimitiveParam allowReserved name (Some v)) vs)
         in if style = Label \<or> style = Matrix then separator @ joinedValues else joinedValues))"

definition serializeObjectParam ::
    "bool \<Rightarrow> bool \<Rightarrow> js_string \<Rightarrow> param_style \<Rightarrow> (js_string \<times> js_string) list \<Rightarrow> js_string" where
  "serializeObjectParam allowReserved explode name style entries =
     (if style \<noteq> DeepObject \<and> \<not> explode then
        (let joinedValues = js_join '',''
               (concat (map (\<lambda>(key, v). [key, reserved_or_encoded allowReserved v]) entries))
         in case style of
              Form \<Rightarrow> name @ ''='' @ joinedValues
            | Label \<Rightarrow> ''.'' @ joinedValues
            | Matrix \<Rightarrow> '';'' @ name @ ''='' @ joinedValues
            | _ \<Rightarrow> joinedValues)
      else
        (let separator = separatorObjectExplode style;
             joinedValues = js_join separator
               (map (\<lambda>(key, v). serializePrimitiveParam allowReserved
                       (if style = DeepObject then name @ ''['' @ key @ '']'' else key) (Some v)) entries)
         in if style = Label \<or> style = Matrix then separator @ joinedValues else joinedValues))"

section \<open>\<open>core/utils.gen.ts\<close>\<close>

definition brace_free :: "char \<Rightarrow> bool" where
  "brace_free c \<longleftrightarrow> c \<noteq> CHR 0x7B \<and> c \<noteq> CHR 0x7D"

text \<open>The matches of \<open>/\{[^{}]+\}/g\<close>, each without its braces.\<close>

function path_matches :: "js_string \<Rightarrow> js_string list" where
  "path_matches [] = []"
| "path_matches (c # s) =
     (let name = takeWhile brace_free s; rest = dropWhile brace_free s
      in if c = CHR 0x7B \<and> name \<noteq> [] \<and> rest \<noteq> [] \<and> hd rest = CHR 0x7D then name # path_matches (tl rest)
         else path_matches s)"
  by pat_completeness auto
termination
  by (relation "measure length") (auto simp: length_dropWhile_le le_imp_less_Suc order.trans [OF diff_le_self])

text \<open>\<open>url.replace(match, value)\<close>: the first occurrence; no value has a dollar sign in it.\<close>

fun replace_first :: "js_string \<Rightarrow> js_string \<Rightarrow> js_string \<Rightarrow> js_string" where
  "replace_first m v [] = (if m = [] then v else [])"
| "replace_first m v (c # s) =
     (if prefix m (c # s) then v @ drop (length m) (c # s) else c # replace_first m v s)"

datatype path_value =
    PathScalar js_string
  | PathArray "js_string list"
  | PathObject "(js_string \<times> js_string) list"

text \<open>The name, style and explosion a match stands for.\<close>

definition match_style :: "js_string \<Rightarrow> js_string \<times> param_style \<times> bool" where
  "match_style match =
     (let explode = (match \<noteq> [] \<and> last match = CHR ''*'');
          name = (if explode then butlast match else match)
      in if prefix ''.'' name then (tl name, Label, explode)
         else if prefix '';'' name then (tl name, Matrix, explode)
         else (name, Simple, explode))"

definition match_value :: "js_string \<Rightarrow> param_style \<Rightarrow> bool \<Rightarrow> path_value \<Rightarrow> js_string" where
  "match_value name style explode v =
     (case v of
        PathArray vs \<Rightarrow> serializeArrayParam False explode name style vs
      | PathObject entries \<Rightarrow> serializeObjectParam False explode name style entries
      | PathScalar s \<Rightarrow>
          (if style = Matrix then '';'' @ serializePrimitiveParam False name (Some s)
           else encodeURIComponent (if style = Label then ''.'' @ s else s)))"

definition path_step :: "(js_string \<Rightarrow> path_value option) \<Rightarrow> js_string \<Rightarrow> js_string \<Rightarrow> js_string" where
  "path_step path url match =
     (case match_style match of
        (name, style, explode) \<Rightarrow>
          (case path name of
             None \<Rightarrow> url
           | Some v \<Rightarrow>
               replace_first ([CHR 0x7B] @ match @ [CHR 0x7D]) (match_value name style explode v) url))"

definition defaultPathSerializer :: "(js_string \<Rightarrow> path_value option) \<Rightarrow> js_string \<Rightarrow> js_string" where
  "defaultPathSerializer path url0 = foldl (path_step path) url0 (path_matches url0)"

text \<open>\<open>baseUrl\<close> is not configured.\<close>

definition getUrl :: "(js_string \<Rightarrow> path_value option) option \<Rightarrow> js_string option \<Rightarrow> js_string \<Rightarrow> js_string" where
  "getUrl path serialized url0 =
     (let pathUrl = (if prefix ''/'' url0 then url0 else ''/'' @ url0);
          url = (case path of None \<Rightarrow> pathUrl | Some p \<Rightarrow> defaultPathSerializer p pathUrl);
          search0 = coalesce serialized [];
          search = (if prefix ''?'' search0 then tl search0 else search0)
      in if search \<noteq> [] then url @ ''?'' @ search else url)"

section \<open>The query string\<close>

text \<open>The options of a serializer that are set; \<open>None\<close> leaves the default of \<open>createQuerySerializer\<close>.\<close>

record array_options =
  ao_reserved :: bool
  ao_explode :: "bool option"
  ao_style :: "param_style option"

record query_serializer =
  qz_parameters :: "(js_string \<times> array_options) list"
  qz_all :: array_options

text \<open>\<open>platform\<close> is what \<open>String\<close> makes of a number that is no plain integer.\<close>

definition serialize_param ::
    "(js_num \<Rightarrow> js_string) \<Rightarrow> array_options \<Rightarrow> js_string \<Rightarrow> param \<Rightarrow> js_string" where
  "serialize_param platform options name v =
     (let arrayParam = (\<lambda>vs. serializeArrayParam (ao_reserved options) (coalesce (ao_explode options) True) name
                               (coalesce (ao_style options) Form) vs)
      in case v of
           PUndef \<Rightarrow> []
         | PInts ns \<Rightarrow> arrayParam (map show_int ns)
         | PStrs vs \<Rightarrow> arrayParam vs
         | PStr s \<Rightarrow> serializePrimitiveParam (ao_reserved options) name (Some s)
         | PNum n \<Rightarrow> serializePrimitiveParam (ao_reserved options) name (Some (num_text platform n))
         | PBool b \<Rightarrow> serializePrimitiveParam (ao_reserved options) name (Some (if b then ''true'' else ''false'')))"

definition createQuerySerializer ::
    "(js_num \<Rightarrow> js_string) \<Rightarrow> query_serializer \<Rightarrow> query_params \<Rightarrow> js_string" where
  "createQuerySerializer platform z queryParams =
     js_join ''&'' (filter (\<lambda>s. s \<noteq> [])
       (map (\<lambda>(name, v). serialize_param platform (coalesce (map_of (qz_parameters z) name) (qz_all z)) name v)
          queryParams))"

section \<open>Separated texts\<close>

text \<open>
  What is encoded without a separator can be put between separators and read again.
\<close>

locale separated =
  fixes enc :: "'a \<Rightarrow> js_string"
    and dec :: "js_string \<Rightarrow> 'a"
    and sep :: char
    and legal :: "'a \<Rightarrow> bool"
  assumes dec_enc: "legal x \<Longrightarrow> dec (enc x) = x"
    and sep_free: "legal x \<Longrightarrow> sep \<notin> set (enc x)"
begin

lemma split_joined:
  assumes "xs \<noteq> []" and "list_all legal xs"
  shows "map dec (js_split sep (js_join [sep] (map enc xs))) = xs"
proof -
  have "js_split sep (js_join [sep] (map enc xs)) = map enc xs"
    using assms by (intro js_split_join) (auto simp: list_all_iff sep_free)
  moreover have "map dec (map enc xs) = xs"
    using assms(2) by (induction xs) (simp_all add: dec_enc)
  ultimately show ?thesis by simp
qed

lemma joined_inj:
  assumes "xs \<noteq> []" and "ys \<noteq> []" and "list_all legal xs" and "list_all legal ys"
    and "js_join [sep] (map enc xs) = js_join [sep] (map enc ys)"
  shows "xs = ys"
  by (metis split_joined [OF assms(1,3)] split_joined [OF assms(2,4)] assms(5))

end

text \<open>What a server does with a component: percent decoding, and UTF-8.\<close>

definition hex_of :: "char \<Rightarrow> nat" where
  "hex_of c = coalesce (hex_val c) 0"

fun uri_decode :: "js_string \<Rightarrow> js_string" where
  "uri_decode [] = []"
| "uri_decode (c # s) =
     (if c \<noteq> CHR ''%'' then c # uri_decode s
      else (case s of
              a # b # t \<Rightarrow>
                (let n = 16 * hex_of a + hex_of b
                 in if n < 128 then char_of n # uri_decode t
                    else (case t of
                            _ # p # q # u \<Rightarrow>
                              char_of ((n - 192) * 64 + (16 * hex_of p + hex_of q - 128)) # uri_decode u
                          | _ \<Rightarrow> []))
            | _ \<Rightarrow> []))"

lemma hex_of_upper: "d < 16 \<Longrightarrow> hex_of (upper_hex d) = d"
  by (auto simp: hex_of_def upper_hex_def hex_val_def of_char_of Let_def)

lemma decode_percent: "b < 128 \<Longrightarrow> uri_decode (percent b @ s) = char_of b # uri_decode s"
  by (simp add: percent_def hex_of_upper less_mult_imp_div_less Let_def)

lemma decode_two_bytes:
  assumes "128 \<le> n" and "n < 256"
  shows "uri_decode (percent (192 + n div 64) @ percent (128 + n mod 64) @ s) = char_of n # uri_decode s"
proof -
  have n: "n div 64 < 4" "n mod 64 < 64" "n div 64 * 64 + n mod 64 = n" using assms by auto
  have "16 * ((192 + n div 64) div 16) + (192 + n div 64) mod 16 = 192 + n div 64"
    "16 * ((128 + n mod 64) div 16) + (128 + n mod 64) mod 16 = 128 + n mod 64" by presburger+
  moreover have "(192 + n div 64) div 16 < 16" "(128 + n mod 64) div 16 < 16" using n by linarith+
  ultimately show ?thesis using n by (simp add: percent_def hex_of_upper Let_def del: div_mult_mod_eq)
qed

lemma decode_char: "uri_decode (uri_char c @ s) = c # uri_decode s"
proof (cases "uri_unreserved c")
  case True
  then have "c \<noteq> CHR ''%''" by (auto simp: uri_unreserved_def is_digit_def)
  with True show ?thesis by (simp add: uri_char_def)
next
  case False
  then show ?thesis
    using decode_percent [of "of_char c" s] decode_two_bytes [of "of_char c" s] nat_of_char_less_256 [of c]
    by (auto simp: uri_char_def Let_def not_less)
qed

lemma decode_component: "uri_decode (encodeURIComponent s) = s"
  by (induction s) (simp_all add: encodeURIComponent_def decode_char)

text \<open>What may be in an encoded component.\<close>

definition component_char :: "char \<Rightarrow> bool" where
  "component_char c \<longleftrightarrow> uri_unreserved c \<or> c = CHR ''%''"

lemma upper_hex_unreserved: "d < 16 \<Longrightarrow> uri_unreserved (upper_hex d)"
  by (auto simp: upper_hex_def uri_unreserved_def is_digit_def of_char_of)

lemma component_chars: "c \<in> set (encodeURIComponent s) \<Longrightarrow> component_char c"
proof -
  have p: "component_char x" if "x \<in> set (percent b)" "b < 256" for x b
    using that by (auto simp: percent_def component_char_def upper_hex_unreserved less_mult_imp_div_less)
  have "component_char x" if "x \<in> set (uri_char d)" for x d
  proof -
    have "(of_char d :: nat) div 64 < 64" "(of_char d :: nat) mod 64 < 128"
      using nat_of_char_less_256 [of d] by linarith+
    with that p [of x "of_char d"] p [of x "192 + of_char d div 64"] p [of x "128 + of_char d mod 64"] show ?thesis
      by (auto simp: uri_char_def Let_def component_char_def split: if_splits)
  qed
  then show "c \<in> set (encodeURIComponent s) \<Longrightarrow> component_char c" by (auto simp: encodeURIComponent_def)
qed

lemma not_component: "\<not> component_char c \<Longrightarrow> c \<notin> set (encodeURIComponent s)"
  using component_chars by blast

lemma reserved_chars:
  "\<not> component_char CHR '',''" "\<not> component_char CHR ''&''" "\<not> component_char CHR ''=''"
  "\<not> component_char CHR ''/''" "\<not> component_char CHR ''?''" "\<not> component_char CHR ''+''"
  "\<not> component_char CHR ''#''" "\<not> component_char CHR 0x7B"
  by (simp_all add: component_char_def uri_unreserved_def is_digit_def)

interpretation uri_list: separated encodeURIComponent uri_decode "CHR '',''" "\<lambda>_. True"
  by unfold_locales (simp_all add: decode_component not_component reserved_chars)

section \<open>Paths\<close>

fun segment_text :: "segment \<Rightarrow> js_string" where
  "segment_text (Literal s) = s"
| "segment_text (Hole name) = [CHR 0x7B] @ name @ [CHR 0x7D]"

text \<open>The names of the parameters, and the segments with them filled in.\<close>

fun hole_names :: "segment list \<Rightarrow> js_string list" where
  "hole_names [] = []"
| "hole_names (Literal s # segs) = hole_names segs"
| "hole_names (Hole name # segs) = name # hole_names segs"

text \<open>The path values of a call: ids, under the names of the parameters.\<close>

definition id_path :: "(js_string \<times> int) list \<Rightarrow> js_string \<Rightarrow> path_value option" where
  "id_path ids name = map_option (\<lambda>i. PathScalar (show_int i)) (map_of ids name)"

fun fill :: "(js_string \<times> int) list \<Rightarrow> segment \<Rightarrow> js_string" where
  "fill ids (Literal s) = s"
| "fill ids (Hole name) = show_int (coalesce (map_of ids name) 0)"

lemma template_text: "js_join ''/'' (map segment_text (template url)) = url"
proof -
  have "segment_text (segment_of s) = s" for s
  proof (cases "s \<noteq> [] \<and> hd s = CHR 0x7B \<and> last s = CHR 0x7D")
    case True
    then obtain t where t: "s = CHR 0x7B # t" by (cases s) auto
    with True have "t \<noteq> []" "last t = CHR 0x7D" by (auto split: if_splits)
    with t show ?thesis using append_butlast_last_id [of t] by (simp add: segment_of_def)
  qed (auto simp: segment_of_def)
  then show ?thesis by (simp add: template_def comp_def js_join_split)
qed

lemma path_matches_literal: "CHR 0x7B \<notin> set a \<Longrightarrow> path_matches (a @ s) = path_matches s"
proof (induction a)
  case (Cons c a)
  then have "c \<noteq> CHR 0x7B" by auto
  with Cons show ?case by (simp add: Let_def)
qed simp

lemma path_matches_hole:
  assumes "name \<noteq> []" and "list_all brace_free name"
  shows "path_matches ([CHR 0x7B] @ name @ [CHR 0x7D] @ s) = name # path_matches s"
proof -
  have "takeWhile brace_free (name @ CHR 0x7D # s) = name" "dropWhile brace_free (name @ CHR 0x7D # s) = CHR 0x7D # s"
    using assms(2) by (induction name) (simp_all add: brace_free_def)
  then show ?thesis using assms(1) by (simp add: Let_def)
qed

lemma good_hole:
  assumes "good_segment (Hole name)"
  shows "name \<noteq> []" and "list_all brace_free name" and "match_style name = (name, Simple, False)"
proof -
  show "name \<noteq> []" "list_all brace_free name" using assms by (auto simp: list_all_iff brace_free_def)
  then show "match_style name = (name, Simple, False)" using assms by (cases name) (auto simp: match_style_def Let_def)
qed

lemma js_join_Cons: "js_join sep (w # ws) = w @ (if ws = [] then [] else sep @ js_join sep ws)"
  by (cases ws) simp_all

lemma path_matches_segments:
  "list_all good_segment segs \<Longrightarrow> path_matches (js_join ''/'' (map segment_text segs)) = hole_names segs"
proof (induction segs rule: hole_names.induct)
  case (2 s segs)
  then show ?case by (auto simp: js_join_Cons path_matches_literal Let_def)
next
  case (3 name segs)
  let ?rest = "if segs = [] then [] else ''/'' @ js_join ''/'' (map segment_text segs)"
  have "path_matches ?rest = hole_names segs" using 3 by (auto simp: Let_def)
  moreover have "good_segment (Hole name)" using 3 by simp
  ultimately show ?case
    using path_matches_hole [OF good_hole(1,2), of name ?rest] by (simp add: js_join_Cons)
qed simp

lemma replace_first_at:
  assumes "CHR 0x7B \<notin> set pre"
  shows "replace_first ([CHR 0x7B] @ name @ [CHR 0x7D]) v (pre @ ([CHR 0x7B] @ name @ [CHR 0x7D]) @ s) = pre @ v @ s"
  using assms by (induction pre) auto

lemma show_int_plain: "list_all component_char (show_int n)" "encodeURIComponent (show_int n) = show_int n"
proof -
  have plain: "uri_unreserved c" if "c \<in> set (show_int n)" for c
    using that show_nat_digits by (auto simp: show_int_def uri_unreserved_def split: if_splits)
  then show "list_all component_char (show_int n)" by (simp add: list_all_iff component_char_def)
  have "uri_char c = [c]" if "c \<in> set (show_int n)" for c using plain [OF that] by (simp add: uri_char_def Let_def)
  then have "map uri_char (show_int n) = map (\<lambda>c. [c]) (show_int n)" by simp
  then show "encodeURIComponent (show_int n) = show_int n" unfolding encodeURIComponent_def by (simp only: concat_map_singleton) simp
qed

lemma no_brace_in_id: "CHR 0x7B \<notin> set (show_int n)"
  using show_int_plain(1) [of n] reserved_chars(8) by (auto simp: list_all_iff)

lemma path_step_id:
  assumes "good_segment (Hole name)" and "name \<in> fst ` set ids" and "CHR 0x7B \<notin> set pre"
  shows "path_step (id_path ids) (pre @ ([CHR 0x7B] @ name @ [CHR 0x7D]) @ s) name = pre @ fill ids (Hole name) @ s"
proof -
  obtain i where i: "map_of ids name = Some i" using assms(2) by (metis map_of_eq_None_iff not_None_eq)
  have "path_step (id_path ids) (pre @ ([CHR 0x7B] @ name @ [CHR 0x7D]) @ s) name =
      replace_first ([CHR 0x7B] @ name @ [CHR 0x7D]) (show_int i) (pre @ ([CHR 0x7B] @ name @ [CHR 0x7D]) @ s)"
    by (simp add: path_step_def good_hole(3) [OF assms(1)] id_path_def i match_value_def show_int_plain(2))
  also have "\<dots> = pre @ show_int i @ s" by (rule replace_first_at [OF assms(3)])
  finally show ?thesis by (simp add: i)
qed

lemma fold_segments:
  "list_all good_segment segs \<Longrightarrow> set (hole_names segs) \<subseteq> fst ` set ids \<Longrightarrow> CHR 0x7B \<notin> set pre \<Longrightarrow>
   foldl (path_step (id_path ids)) (pre @ js_join ''/'' (map segment_text segs)) (hole_names segs) =
     pre @ js_join ''/'' (map (fill ids) segs)"
proof (induction segs arbitrary: pre rule: hole_names.induct)
  case (2 s segs)
  show ?case
  proof (cases "segs = []")
    case False
    have "foldl (path_step (id_path ids)) ((pre @ s @ ''/'') @ js_join ''/'' (map segment_text segs)) (hole_names segs) =
        (pre @ s @ ''/'') @ js_join ''/'' (map (fill ids) segs)"
      by (rule "2.IH") (use 2 in simp_all)
    with False show ?thesis by (simp add: js_join_Cons)
  qed simp
next
  case (3 name segs)
  have good: "good_segment (Hole name)" and given: "name \<in> fst ` set ids" using 3 by simp_all
  show ?case
  proof (cases "segs = []")
    case True
    then show ?thesis using path_step_id [OF good given "3.prems"(3), of "[]"] by simp
  next
    case False
    let ?rest = "''/'' @ js_join ''/'' (map segment_text segs)"
    have "path_step (id_path ids) (pre @ ([CHR 0x7B] @ name @ [CHR 0x7D]) @ ?rest) name =
        (pre @ fill ids (Hole name) @ ''/'') @ js_join ''/'' (map segment_text segs)"
      using path_step_id [OF good given "3.prems"(3), of ?rest] by simp
    moreover have "foldl (path_step (id_path ids)) ((pre @ fill ids (Hole name) @ ''/'') @ js_join ''/'' (map segment_text segs))
        (hole_names segs) = (pre @ fill ids (Hole name) @ ''/'') @ js_join ''/'' (map (fill ids) segs)"
      by (rule "3.IH") (use 3 no_brace_in_id in auto)
    ultimately show ?thesis using False by (simp add: js_join_Cons)
  qed
qed simp

text \<open>The path of an operation, with every parameter given.\<close>

lemma path_filled:
  assumes "good_op op" and "set (hole_names (template (op_url op))) \<subseteq> fst ` set ids"
  shows "defaultPathSerializer (id_path ids) (op_url op) = js_join ''/'' (map (fill ids) (template (op_url op)))"
proof -
  have good: "list_all good_segment (template (op_url op))" using assms(1) by (simp add: good_op_def)
  have "defaultPathSerializer (id_path ids) (op_url op) =
      foldl (path_step (id_path ids)) (op_url op) (path_matches (op_url op))"
    by (simp add: defaultPathSerializer_def)
  also have "\<dots> = foldl (path_step (id_path ids)) ([] @ js_join ''/'' (map segment_text (template (op_url op))))
      (hole_names (template (op_url op)))"
    using path_matches_segments [OF good] by (simp add: template_text)
  also have "\<dots> = js_join ''/'' (map (fill ids) (template (op_url op)))"
    using fold_segments [OF good assms(2), of "[]"] by simp
  finally show ?thesis .
qed

section \<open>Reading a path\<close>

text \<open>What a router sees: the segments, the ids among them.\<close>

definition id_segment :: "js_string \<Rightarrow> bool" where
  "id_segment s \<longleftrightarrow> s \<noteq> [] \<and> (is_digit (hd s) \<or> hd s = CHR ''-'')"

definition read_shape :: "js_string \<Rightarrow> js_string option list" where
  "read_shape path = map (\<lambda>s. if id_segment s then None else Some s) (js_split (CHR ''/'') path)"

lemma id_segment_show_int: "id_segment (show_int n)"
proof -
  have "is_digit (hd (show_nat m))" for m using show_nat_digits [of "hd (show_nat m)" m] by simp
  then show ?thesis by (simp add: id_segment_def show_int_def)
qed

lemma shape_of_filled:
  "good_segment seg \<Longrightarrow> (if id_segment (fill ids seg) then None else Some (fill ids seg)) = segment_shape seg" (is "_ \<Longrightarrow> ?thesis")
proof (cases seg)
  case (Literal s)
  then show "good_segment seg \<Longrightarrow> ?thesis" by (auto simp: id_segment_def)
qed (simp add: id_segment_show_int)

lemma segment_no_slash: "seg \<in> set (template url) \<Longrightarrow> CHR ''/'' \<notin> set (fill ids seg)"
proof (cases seg)
  case (Literal s)
  assume "seg \<in> set (template url)"
  then show ?thesis using Literal by (auto simp: template_def segment_of_def split: if_splits dest: js_split_parts)
next
  case (Hole name)
  then show ?thesis using show_int_plain(1) reserved_chars(4) by (auto simp: list_all_iff)
qed

lemma template_nonempty: "template url \<noteq> []"
  by (simp add: template_def)

lemma split_filled:
  "js_split (CHR ''/'') (js_join ''/'' (map (fill ids) (template url))) = map (fill ids) (template url)"
  by (rule js_split_join) (auto simp: template_nonempty segment_no_slash)

lemma read_shape_filled:
  assumes "good_op op"
  shows "read_shape (js_join ''/'' (map (fill ids) (template (op_url op)))) = map segment_shape (template (op_url op))"
  using assms by (auto simp: read_shape_def split_filled good_op_def list_all_iff shape_of_filled)

text \<open>Method and path determine the operation and the ids.\<close>

lemma filled_ids:
  "map (fill ids) segs = map (fill ids') segs \<Longrightarrow> name \<in> set (hole_names segs) \<Longrightarrow>
     coalesce (map_of ids name) 0 = coalesce (map_of ids' name) 0"
  by (induction segs rule: hole_names.induct) auto

theorem path_determines_call:
  assumes "map_of sdk a = Some p" and "map_of sdk b = Some q" and "op_method p = op_method q"
    and "set (hole_names (template (op_url p))) \<subseteq> fst ` set ids"
    and "set (hole_names (template (op_url q))) \<subseteq> fst ` set ids'"
    and "defaultPathSerializer (id_path ids) (op_url p) = defaultPathSerializer (id_path ids') (op_url q)"
  shows "a = b" and "\<And>name. name \<in> set (hole_names (template (op_url p))) \<Longrightarrow> map_of ids name = map_of ids' name"
proof -
  note good = good_op_of [OF assms(1)] good_op_of [OF assms(2)]
  have same: "js_join ''/'' (map (fill ids) (template (op_url p))) = js_join ''/'' (map (fill ids') (template (op_url q)))"
    using assms(6) by (simp add: path_filled good assms(4,5))
  then have "map segment_shape (template (op_url p)) = map segment_shape (template (op_url q))"
    using read_shape_filled [OF good(1), of ids] read_shape_filled [OF good(2), of ids'] by simp
  then have "route_shape p = route_shape q" using assms(3) by (simp add: route_shape_def)
  then show ab: "a = b" by (rule same_route [OF assms(1,2)])
  then have pq: "p = q" using assms(1,2) by simp
  fix name assume name: "name \<in> set (hole_names (template (op_url p)))"
  have "map (fill ids) (template (op_url p)) = map (fill ids') (template (op_url p))"
    using same split_filled [of ids "op_url p"] split_filled [of ids' "op_url p"] pq by simp
  from filled_ids [OF this name] obtain i j where "map_of ids name = Some i" "map_of ids' name = Some j" "i = j"
    using name assms(4,5) pq by (metis coalesce_simps map_of_eq_None_iff option.exhaust subsetD)
  then show "map_of ids name = map_of ids' name" by simp
qed

section \<open>Reading a query string\<close>

text \<open>What a server makes of a query string: names and values, decoded.\<close>

definition read_pair :: "js_string \<Rightarrow> js_string \<times> js_string" where
  "read_pair s = (takeWhile (\<lambda>c. c \<noteq> CHR ''='') s, uri_decode (drop 1 (dropWhile (\<lambda>c. c \<noteq> CHR ''='') s)))"

definition read_query :: "js_string \<Rightarrow> (js_string \<times> js_string) list" where
  "read_query q = (if q = [] then [] else map read_pair (js_split (CHR ''&'') q))"

text \<open>The text of a parameter; a list is one text with commas.\<close>

definition param_text :: "(js_num \<Rightarrow> js_string) \<Rightarrow> param \<Rightarrow> js_string option" where
  "param_text platform v =
     (case v of
        PUndef \<Rightarrow> None
      | PInts ns \<Rightarrow> Some (js_join '','' (map show_int ns))
      | PStrs vs \<Rightarrow> Some (js_join '','' vs)
      | PStr s \<Rightarrow> Some s
      | PNum n \<Rightarrow> Some (num_text platform n)
      | PBool b \<Rightarrow> Some (if b then ''true'' else ''false''))"

definition given_params :: "(js_num \<Rightarrow> js_string) \<Rightarrow> query_params \<Rightarrow> (js_string \<times> js_string) list" where
  "given_params platform ps =
     List.map_filter (\<lambda>(name, v). map_option (Pair name) (param_text platform v)) ps"

text \<open>A list parameter is sent as one, and names need no encoding.\<close>

definition is_list_param :: "param \<Rightarrow> bool" where
  "is_list_param v = (case v of PInts _ \<Rightarrow> True | PStrs _ \<Rightarrow> True | _ \<Rightarrow> False)"

definition sent_whole :: "query_serializer \<Rightarrow> js_string \<times> param \<Rightarrow> bool" where
  "sent_whole z p =
     (case p of (name, v) \<Rightarrow>
        let options = coalesce (map_of (qz_parameters z) name) (qz_all z)
        in \<not> ao_reserved options \<and>
           (is_list_param v \<longrightarrow> ao_explode options = Some False \<and> coalesce (ao_style options) Form = Form))"

definition plain_name :: "js_string \<Rightarrow> bool" where
  "plain_name name \<longleftrightarrow> name \<noteq> [] \<and> list_all uri_unreserved name"

lemma decode_append: "uri_decode (encodeURIComponent s @ t) = s @ uri_decode t"
  by (induction s) (simp_all add: encodeURIComponent_def decode_char)

lemma decode_joined: "uri_decode (js_join '','' (map encodeURIComponent vs)) = js_join '','' vs"
  by (induction vs) (simp_all add: js_join_Cons decode_append decode_component)

text \<open>A parameter on the wire is its name and a text that decodes to its value.\<close>

lemma serialized_param:
  assumes "sent_whole z (name, v)"
  defines "options \<equiv> coalesce (map_of (qz_parameters z) name) (qz_all z)"
  shows "(param_text platform v = None \<and> serialize_param platform options name v = []) \<or>
    (\<exists>t e. param_text platform v = Some t \<and> serialize_param platform options name v = name @ ''='' @ e \<and>
       uri_decode e = t \<and> CHR ''&'' \<notin> set e)"
proof -
  have r: "ao_reserved options = False" and l: "is_list_param v \<Longrightarrow> ao_explode options = Some False \<and> coalesce (ao_style options) Form = Form"
    using assms(1) by (simp_all add: sent_whole_def options_def Let_def)
  have amp: "CHR ''&'' \<notin> set (encodeURIComponent s)" for s by (rule not_component) (rule reserved_chars)
  have joined: "CHR ''&'' \<notin> set (js_join '','' (map encodeURIComponent vs))" for vs
    by (induction vs) (simp_all add: js_join_Cons amp)
  have one: "\<exists>e. serializePrimitiveParam False name (Some t) = name @ ''='' @ e \<and> uri_decode e = t \<and> CHR ''&'' \<notin> set e" for t
    by (simp add: serializePrimitiveParam_def reserved_or_encoded_def decode_component amp)
  have many: "serializeArrayParam False False name Form vs = name @ ''='' @ js_join '','' (map encodeURIComponent vs)" for vs
    by (simp add: serializeArrayParam_def separatorArrayNoExplode_def reserved_or_encoded_def [abs_def])
  show ?thesis
  proof (cases v)
    case (PInts ns)
    then show ?thesis using l many [of "map show_int ns"] decode_joined [of "map show_int ns"] joined [of "map show_int ns"]
      by (simp add: serialize_param_def param_text_def is_list_param_def r)
  next
    case (PStrs vs)
    then show ?thesis using l many [of vs] decode_joined [of vs] joined [of vs]
      by (simp add: serialize_param_def param_text_def is_list_param_def r)
  qed (use one in \<open>auto simp: serialize_param_def param_text_def r\<close>)
qed

lemma read_pair_of: "plain_name name \<Longrightarrow> read_pair (name @ ''='' @ e) = (name, uri_decode e)"
proof -
  assume p: "plain_name name"
  have "c \<noteq> CHR ''=''" if "c \<in> set name" for c
    using that p reserved_chars(3) by (auto simp: plain_name_def list_all_iff component_char_def)
  then show ?thesis by (auto simp: read_pair_def takeWhile_append2 dropWhile_append2)
qed

text \<open>The parts of a query string.\<close>

definition query_parts :: "(js_num \<Rightarrow> js_string) \<Rightarrow> query_serializer \<Rightarrow> query_params \<Rightarrow> js_string list" where
  "query_parts platform z ps =
     filter (\<lambda>s. s \<noteq> [])
       (map (\<lambda>(name, v). serialize_param platform (coalesce (map_of (qz_parameters z) name) (qz_all z)) name v) ps)"

lemma read_query_parts:
  assumes "list_all (\<lambda>(name, v). plain_name name \<and> sent_whole z (name, v)) ps"
  shows "map read_pair (query_parts platform z ps) = given_params platform ps \<and>
    (\<forall>s \<in> set (query_parts platform z ps). CHR ''&'' \<notin> set s \<and> s \<noteq> [] \<and> uri_unreserved (hd s))"
  using assms
proof (induction ps)
  case (Cons p ps)
  obtain name v where p: "p = (name, v)" by (cases p)
  let ?options = "coalesce (map_of (qz_parameters z) name) (qz_all z)"
  have name: "plain_name name" "CHR ''&'' \<notin> set name" "name \<noteq> []" "uri_unreserved (hd name)" and whole: "sent_whole z (name, v)"
    using Cons.prems p reserved_chars(2) by (auto simp: plain_name_def list_all_iff component_char_def)
  have step: "query_parts platform z ((name, v) # ps) =
      (if serialize_param platform ?options name v = [] then [] else [serialize_param platform ?options name v])
        @ query_parts platform z ps"
    by (simp add: query_parts_def)
  consider "param_text platform v = None" "serialize_param platform ?options name v = []"
    | t e where "param_text platform v = Some t" "serialize_param platform ?options name v = name @ ''='' @ e"
      "uri_decode e = t" "CHR ''&'' \<notin> set e"
    using serialized_param [OF whole, of platform] by auto
  then show ?case
  proof cases
    case 1
    with Cons p show ?thesis by (simp add: step given_params_def List.map_filter_simps)
  next
    case 2
    with Cons p name show ?thesis
      by (auto simp: step given_params_def List.map_filter_simps read_pair_of [of name, simplified])
  qed
qed (simp_all add: query_parts_def given_params_def List.map_filter_simps)

theorem query_read_back:
  assumes "list_all (\<lambda>(name, v). plain_name name \<and> sent_whole z (name, v)) ps"
  shows "read_query (createQuerySerializer platform z ps) = given_params platform ps"
proof -
  have q: "createQuerySerializer platform z ps = js_join ''&'' (query_parts platform z ps)"
    by (simp add: createQuerySerializer_def query_parts_def)
  note parts = read_query_parts [OF assms, of platform]
  show ?thesis
  proof (cases "query_parts platform z ps")
    case Nil
    then show ?thesis using parts by (simp add: q read_query_def)
  next
    case (Cons s ss)
    then have "js_join ''&'' (query_parts platform z ps) \<noteq> []"
      using parts by (auto simp: js_join_Cons)
    moreover have "js_split (CHR ''&'') (js_join ''&'' (query_parts platform z ps)) = query_parts platform z ps"
      using Cons parts by (intro js_split_join) auto
    ultimately show ?thesis using parts by (simp add: q read_query_def)
  qed
qed

text \<open>A query string never begins with a question mark, so \<open>getUrl\<close> takes nothing from it.\<close>

lemma query_start:
  assumes "list_all (\<lambda>(name, v). plain_name name \<and> sent_whole z (name, v)) ps"
  shows "\<not> prefix ''?'' (createQuerySerializer platform z ps)"
proof (cases "query_parts platform z ps")
  case (Cons s ss)
  then have "s \<noteq> []" "uri_unreserved (hd s)" using read_query_parts [OF assms, of platform] by auto
  moreover have "createQuerySerializer platform z ps = s @ (if ss = [] then [] else ''&'' @ js_join ''&'' ss)"
    using Cons by (simp add: createQuerySerializer_def query_parts_def js_join_Cons)
  ultimately show ?thesis
    using reserved_chars(5) by (cases s) (auto simp: component_char_def)
qed (simp add: createQuerySerializer_def query_parts_def)

section \<open>Reading a URL\<close>

definition url_path :: "js_string \<Rightarrow> js_string" where
  "url_path u = takeWhile (\<lambda>c. c \<noteq> CHR ''?'') u"

definition url_query :: "js_string \<Rightarrow> js_string" where
  "url_query u = drop 1 (dropWhile (\<lambda>c. c \<noteq> CHR ''?'') u)"

lemma no_question_mark: "list_all (\<lambda>(name, op). CHR ''?'' \<notin> set (op_url op)) sdk"
  unfolding sdk_def sdk_tables by simp

text \<open>The path of an operation, filled in.\<close>

definition filled :: "(js_string \<times> int) list \<Rightarrow> sdk_op \<Rightarrow> js_string" where
  "filled ids op = js_join ''/'' (map (fill ids) (template (op_url op)))"

lemma set_js_join: "c \<in> set (js_join sep ws) \<Longrightarrow> c \<in> set sep \<or> (\<exists>w \<in> set ws. c \<in> set w)"
  by (induction ws) (auto simp: js_join_Cons split: if_splits)

lemma in_js_join: "w \<in> set ws \<Longrightarrow> c \<in> set w \<Longrightarrow> c \<in> set (js_join sep ws)"
  by (induction ws) (auto simp: js_join_Cons)

lemma set_segment_text: "seg \<in> set (template url) \<Longrightarrow> c \<in> set (segment_text seg) \<Longrightarrow> c \<in> set url"
  using in_js_join [of "segment_text seg" "map segment_text (template url)" c "''/''"] by (simp add: template_text)

lemma filled_no_question_mark:
  assumes "map_of sdk name = Some op"
  shows "CHR ''?'' \<notin> set (filled ids op)"
proof
  assume "CHR ''?'' \<in> set (filled ids op)"
  then obtain seg where seg: "seg \<in> set (template (op_url op))" "CHR ''?'' \<in> set (fill ids seg)"
    by (auto simp: filled_def dest!: set_js_join)
  have "CHR ''?'' \<notin> set (show_int n)" for n
    using show_int_plain(1) [of n] reserved_chars(5) by (auto simp: list_all_iff)
  have "CHR ''?'' \<in> set (segment_text seg)"
  proof (cases seg)
    case (Literal t)
    then show ?thesis using seg by simp
  next
    case (Hole t)
    then show ?thesis using seg \<open>\<And>n. CHR ''?'' \<notin> set (show_int n)\<close> by simp
  qed
  then have "CHR ''?'' \<in> set (op_url op)" by (rule set_segment_text [OF seg(1)])
  then show False using no_question_mark map_of_SomeD [OF assms] by (auto simp: list_all_iff)
qed

lemma fill_no_holes: "hole_names segs = [] \<Longrightarrow> map (fill ids) segs = map segment_text segs"
  by (induction segs rule: hole_names.induct) simp_all

text \<open>The URL of a call, taken apart.\<close>

lemma url_taken_apart:
  assumes op: "map_of sdk name = Some op" and ids: "set (hole_names (template (op_url op))) \<subseteq> fst ` set ids"
    and path: "path = (if ids = [] then None else Some (id_path ids))"
    and query: "case query of None \<Rightarrow> True | Some q \<Rightarrow> \<not> prefix ''?'' q"
  shows "url_path (getUrl path query (op_url op)) = filled ids op"
    and "url_query (getUrl path query (op_url op)) = coalesce query []"
proof -
  have slash: "prefix ''/'' (op_url op)" using good_op_of [OF op] by (cases "op_url op") (auto simp: good_op_def)
  have "(case path of None \<Rightarrow> op_url op | Some p \<Rightarrow> defaultPathSerializer p (op_url op)) = filled ids op"
  proof (cases "ids = []")
    case True
    then have "map (fill ids) (template (op_url op)) = map segment_text (template (op_url op))"
      using ids by (intro fill_no_holes) simp
    then have "filled ids op = op_url op" unfolding filled_def by (simp only: template_text)
    with True show ?thesis by (simp add: path)
  next
    case False
    then show ?thesis by (simp add: path filled_def path_filled [OF good_op_of [OF op] ids])
  qed
  moreover have "\<not> prefix ''?'' (coalesce query [])" using query by (cases query) auto
  ultimately have url: "getUrl path query (op_url op) =
      filled ids op @ (if coalesce query [] = [] then [] else ''?'' @ coalesce query [])"
    using slash by (simp add: getUrl_def Let_def)
  have no: "c \<noteq> CHR ''?''" if "c \<in> set (filled ids op)" for c using filled_no_question_mark [OF op] that by auto
  show "url_path (getUrl path query (op_url op)) = filled ids op"
    using no by (simp add: url url_path_def takeWhile_append2)
  show "url_query (getUrl path query (op_url op)) = coalesce query []"
    using no by (simp add: url url_query_def dropWhile_append2)
qed

text \<open>The ids of a path, in the order of the parameters.\<close>

definition path_ids :: "js_string \<Rightarrow> js_num list" where
  "path_ids path = map js_number (filter id_segment (js_split (CHR ''/'') path))"

lemma literal_not_id: "good_segment (Literal s) \<Longrightarrow> \<not> id_segment s"
  by (auto simp: id_segment_def)

lemma filled_id_segments:
  "list_all good_segment segs \<Longrightarrow>
     filter id_segment (map (fill ids) segs) = map (\<lambda>name. show_int (coalesce (map_of ids name) 0)) (hole_names segs)"
  by (induction segs rule: hole_names.induct) (simp_all add: id_segment_show_int literal_not_id del: good_segment.simps)

lemma path_ids_filled:
  assumes "good_op op" and "map fst ids = hole_names (template (op_url op))" and "distinct (map fst ids)"
    and "\<forall>(name, n) \<in> set ids. \<bar>n\<bar> \<le> max_safe_integer"
  shows "path_ids (filled ids op) = map (\<lambda>(name, n). num_of_int n) ids"
proof -
  have "list_all good_segment (template (op_url op))" using assms(1) by (simp add: good_op_def)
  then have "path_ids (filled ids op) = map (\<lambda>name. js_number (show_int (coalesce (map_of ids name) 0))) (map fst ids)"
    by (simp add: path_ids_def filled_def split_filled filled_id_segments assms(2))
  also have "\<dots> = map (\<lambda>(name, n). num_of_int n) ids"
    using assms(3,4) by (auto simp: js_number_show_int)
  finally show ?thesis .
qed

end
