(* ===== verification/Request.thy ===== *)
theory Request
  imports Wire
begin

text \<open>
  A call of the SDK from its options to its result: the configuration of the client
  (\<open>client/utils.gen.ts\<close>, \<open>web/src/lib/api.ts\<close>), \<open>beforeRequest\<close> and \<open>request\<close> of \<open>client/client.gen.ts\<close>,
  and the result under \<open>unwrap\<close> and \<open>nullOn404\<close>.

  The network is a parameter: \<open>fetch\<close> answers a request with a response or fails.  Of the platform the
  model takes the texts of its own errors and of numbers that are no plain integers.

  Main results: a request has a \<open>Content-Type\<close> exactly when it has a body, and the body read back is what
  the call passed; \<open>unwrap\<close> returns data exactly for a readable success, \<open>nullOn404\<close> gives \<open>null\<close> exactly for
  status 404, whatever the body of the answer; the session handler is called exactly for status 401.
\<close>

record platform =
  pf_number :: "js_num \<Rightarrow> js_string"
  pf_btoa :: "js_string \<Rightarrow> js_string"
  pf_syntax_error :: js_string
  pf_type_error :: js_string

section \<open>Headers\<close>

text \<open>\<open>Headers\<close> compares names without regard to case.\<close>

definition lower_char :: "char \<Rightarrow> char" where
  "lower_char c =
     (if 65 \<le> (of_char c :: nat) \<and> (of_char c :: nat) \<le> 90 then char_of ((of_char c :: nat) + 32) else c)"

definition header_name :: "js_string \<Rightarrow> js_string" where
  "header_name = map lower_char"

definition header_set :: "js_string \<Rightarrow> js_string \<Rightarrow> headers \<Rightarrow> headers" where
  "header_set k v hs = hs(header_name k \<mapsto> v)"

definition header_append :: "js_string \<Rightarrow> js_string \<Rightarrow> headers \<Rightarrow> headers" where
  "header_append k v hs =
     hs(header_name k \<mapsto> (case hs (header_name k) of None \<Rightarrow> v | Some w \<Rightarrow> w @ '', '' @ v))"

definition header_delete :: "js_string \<Rightarrow> headers \<Rightarrow> headers" where
  "header_delete k hs = hs(header_name k := None)"

datatype header_value = HUndefined | HNull | HText js_string | HTexts "js_string list"

datatype header_source = NoHeaders | HeaderMap headers | HeaderEntries "(js_string \<times> header_value) list"

fun merge_entry :: "headers \<Rightarrow> js_string \<times> header_value \<Rightarrow> headers" where
  "merge_entry hs (key, HUndefined) = hs"
| "merge_entry hs (key, HNull) = header_delete key hs"
| "merge_entry hs (key, HText value) = header_set key value hs"
| "merge_entry hs (key, HTexts values) = foldl (\<lambda>h v. header_append key v h) hs values"

fun merge_source :: "headers \<Rightarrow> header_source \<Rightarrow> headers" where
  "merge_source hs NoHeaders = hs"
| "merge_source hs (HeaderMap m) = hs ++ m"
| "merge_source hs (HeaderEntries entries) = foldl merge_entry hs entries"

definition mergeHeaders :: "header_source list \<Rightarrow> headers" where
  "mergeHeaders sources = foldl merge_source Map.empty sources"

section \<open>Configuration\<close>

datatype parse_as = AsJson | AsText | AsBlob | AsArrayBuffer | AsFormData | AsStream

record client_config =
  cc_base_url :: "js_string option"
  cc_credentials :: "js_string option"
  cc_serializer :: "query_serializer option"
  cc_headers :: header_source

text \<open>\<open>{ ...a, ...b }\<close>.\<close>

definition override :: "'a option \<Rightarrow> 'a option \<Rightarrow> 'a option" where
  "override a b = (case b of None \<Rightarrow> a | Some v \<Rightarrow> Some v)"

definition mergeConfigs :: "client_config \<Rightarrow> client_config \<Rightarrow> client_config" where
  "mergeConfigs a b =
     \<lparr>cc_base_url =
        map_option (\<lambda>url. if url \<noteq> [] \<and> last url = CHR ''/'' then butlast url else url)
          (override (cc_base_url a) (cc_base_url b)),
      cc_credentials = override (cc_credentials a) (cc_credentials b),
      cc_serializer = override (cc_serializer a) (cc_serializer b),
      cc_headers = HeaderMap (mergeHeaders [cc_headers a, cc_headers b])\<rparr>"

definition defaultQuerySerializer :: query_serializer where
  "defaultQuerySerializer =
     \<lparr>qz_parameters = [],
      qz_all = \<lparr>ao_reserved = False, ao_explode = Some True, ao_style = Some Form\<rparr>\<rparr>"

definition defaultHeaders :: "(js_string \<times> header_value) list" where
  "defaultHeaders = [(''Content-Type'', HText ''application/json'')]"

definition no_settings :: client_config where
  "no_settings = \<lparr>cc_base_url = None, cc_credentials = None, cc_serializer = None, cc_headers = NoHeaders\<rparr>"

definition createConfig :: "client_config \<Rightarrow> client_config" where
  "createConfig settings =
     \<lparr>cc_base_url = cc_base_url settings,
      cc_credentials = cc_credentials settings,
      cc_serializer = override (Some defaultQuerySerializer) (cc_serializer settings),
      cc_headers = (case cc_headers settings of NoHeaders \<Rightarrow> HeaderEntries defaultHeaders | hs \<Rightarrow> hs)\<rparr>"

text \<open>\<open>client.setConfig\<close> of \<open>api.ts\<close>, on top of the generated client.\<close>

definition api_settings :: client_config where
  "api_settings =
     \<lparr>cc_base_url = None, cc_credentials = Some ''same-origin'',
      cc_serializer = Some
        \<lparr>qz_parameters = [],
         qz_all = \<lparr>ao_reserved = False, ao_explode = Some False, ao_style = Some Form\<rparr>\<rparr>,
      cc_headers = NoHeaders\<rparr>"

definition createClient :: "client_config \<Rightarrow> client_config" where
  "createClient settings = mergeConfigs (createConfig no_settings) settings"

definition api_config :: client_config where
  "api_config = mergeConfigs (createClient (createConfig no_settings)) api_settings"

section \<open>Security\<close>

record auth =
  au_in :: "js_string option"
  au_name :: "js_string option"
  au_scheme :: "js_string option"

definition getAuthToken :: "platform \<Rightarrow> auth \<Rightarrow> js_string option \<Rightarrow> js_string option" where
  "getAuthToken pf auth token =
     (if coalesce token [] = [] then None
      else if au_scheme auth = Some ''bearer'' then Some (''Bearer '' @ coalesce token [])
      else if au_scheme auth = Some ''basic'' then Some (''Basic '' @ pf_btoa pf (coalesce token []))
      else token)"

definition truthy_param :: "param \<Rightarrow> bool" where
  "truthy_param v =
     (case v of PUndef \<Rightarrow> False | PStr s \<Rightarrow> s \<noteq> [] | PNum n \<Rightarrow> n \<noteq> Fin 0 \<and> n \<noteq> NaN | PBool b \<Rightarrow> b | _ \<Rightarrow> True)"

definition checkForExistence :: "headers \<Rightarrow> query_params option \<Rightarrow> js_string option \<Rightarrow> bool" where
  "checkForExistence hs query name =
     (case name of
        None \<Rightarrow> False
      | Some n \<Rightarrow>
          n \<noteq> [] \<and>
          (hs (header_name n) \<noteq> None \<or>
           truthy_param (coalesce (map_of (coalesce query []) n) PUndef) \<or>
           (case hs ''cookie'' of None \<Rightarrow> False | Some c \<Rightarrow> sublist (n @ ''='') c)))"

fun put_param :: "js_string \<Rightarrow> param \<Rightarrow> query_params \<Rightarrow> query_params" where
  "put_param name v [] = [(name, v)]"
| "put_param name v ((n, w) # ps) = (if n = name then (n, v) # ps else (n, w) # put_param name v ps)"

definition auth_step ::
    "platform \<Rightarrow> js_string option \<Rightarrow> headers \<times> query_params option \<Rightarrow> auth \<Rightarrow> headers \<times> query_params option" where
  "auth_step pf token s auth =
     (case s of (hs, query) \<Rightarrow>
        if checkForExistence hs query (au_name auth) then s
        else (case getAuthToken pf auth token of
                None \<Rightarrow> s
              | Some t \<Rightarrow>
                  (let name = coalesce (au_name auth) ''Authorization''
                   in if au_in auth = Some ''query'' then (hs, Some (put_param name (PStr t) (coalesce query [])))
                      else if au_in auth = Some ''cookie'' then (header_append ''Cookie'' (name @ ''='' @ t) hs, query)
                      else (header_set name t hs, query))))"

definition setAuthParams ::
    "platform \<Rightarrow> js_string option \<Rightarrow> auth list \<Rightarrow> headers \<times> query_params option \<Rightarrow> headers \<times> query_params option" where
  "setAuthParams pf token security s = foldl (auth_step pf token) s security"

text \<open>The schemes the operations name; no token is configured, the browser sends the session cookie.\<close>

definition sdk_security :: "auth list" where
  "sdk_security =
     [\<lparr>au_in = Some ''cookie'', au_name = Some ''woodstar_session'', au_scheme = None\<rparr>,
      \<lparr>au_in = None, au_name = None, au_scheme = Some ''bearer''\<rparr>]"

section \<open>The request\<close>

text \<open>An operation's own serializer replaces the configured one.\<close>

definition op_serializer :: "client_config \<Rightarrow> sdk_op \<Rightarrow> query_serializer" where
  "op_serializer config op =
     (case op_lists op of
        None \<Rightarrow> coalesce (cc_serializer config) defaultQuerySerializer
      | Some names \<Rightarrow>
          \<lparr>qz_parameters =
             map (\<lambda>name. (name, \<lparr>ao_reserved = False, ao_explode = Some False, ao_style = None\<rparr>)) names,
           qz_all = \<lparr>ao_reserved = False, ao_explode = None, ao_style = None\<rparr>\<rparr>)"

record http_request =
  hr_method :: http_method
  hr_url :: js_string
  hr_headers :: headers
  hr_body :: "js_string option"

definition op_headers :: "sdk_op \<Rightarrow> header_source" where
  "op_headers op =
     (if op_json op then HeaderEntries [(''Content-Type'', HText ''application/json'')] else NoHeaders)"

definition getValidRequestBody :: "js_string option \<Rightarrow> js_string option" where
  "getValidRequestBody serialized =
     (case serialized of None \<Rightarrow> None | Some s \<Rightarrow> (if s \<noteq> [] then Some s else None))"

definition beforeRequest :: "platform \<Rightarrow> client_config \<Rightarrow> sdk_op \<Rightarrow> api_request \<Rightarrow> http_request" where
  "beforeRequest pf config op r =
     (let merged = mergeHeaders [cc_headers config, op_headers op];
          (hs, query) =
            (if op_secured op then setAuthParams pf None sdk_security (merged, rq_query r) else (merged, rq_query r));
          serializedBody = map_option (json_compact (pf_number pf)) (rq_body r);
          sent = (if serializedBody = None \<or> serializedBody = Some [] then header_delete ''Content-Type'' hs else hs);
          url = getUrl (if rq_path r = [] then None else Some (id_path (rq_path r)))
                  (map_option (createQuerySerializer (pf_number pf) (op_serializer config op)) query)
                  (op_url op)
      in \<lparr>hr_method = op_method op, hr_url = coalesce (cc_base_url config) [] @ url, hr_headers = sent,
          hr_body = getValidRequestBody serializedBody\<rparr>)"

text \<open>\<open>new Request\<close> refuses a \<open>GET\<close> with a body; then the request interceptor of \<open>api.ts\<close>.\<close>

definition build_request :: "platform \<Rightarrow> client_config \<Rightarrow> sdk_op \<Rightarrow> api_request \<Rightarrow> thrown + http_request" where
  "build_request pf config op r =
     (let h = beforeRequest pf config op r
      in if hr_method h = GET \<and> hr_body h \<noteq> None then Inl (NativeError (pf_type_error pf))
         else Inr (h\<lparr>hr_headers := request_interceptor (hr_headers h)\<rparr>))"

section \<open>The response\<close>

record http_response =
  hs_status :: int
  hs_headers :: headers
  hs_body :: "js_string option"

definition getParseAs :: "js_string option \<Rightarrow> parse_as option" where
  "getParseAs contentType =
     (if coalesce contentType [] = [] then Some AsStream
      else let cleanContent = js_trim (hd (js_split (CHR '';'') (coalesce contentType [])))
           in if cleanContent = [] then None
              else if prefix ''application/json'' cleanContent \<or> suffix ''+json'' cleanContent then Some AsJson
              else if cleanContent = ''multipart/form-data'' then Some AsFormData
              else if list_ex (\<lambda>p. prefix p cleanContent) [''application/'', ''audio/'', ''image/'', ''video/''] then Some AsBlob
              else if prefix ''text/'' cleanContent then Some AsText
              else None)"

text \<open>What the caller gets; a blob and an array buffer are given by their content.\<close>

datatype response_data =
    DJson json
  | DText js_string
  | DBytes js_string
  | DFormData js_string
  | DBody "js_string option"

definition body_text :: "http_response \<Rightarrow> js_string" where
  "body_text r = coalesce (hs_body r) []"

definition parse_mode :: "http_response \<Rightarrow> parse_as" where
  "parse_mode r = coalesce (getParseAs (hs_headers r ''content-type'')) AsJson"

definition is_empty_response :: "http_response \<Rightarrow> bool" where
  "is_empty_response r \<longleftrightarrow> hs_status r = 204 \<or> hs_headers r ''content-length'' = Some ''0''"

definition empty_data :: "http_response \<Rightarrow> response_data" where
  "empty_data r =
     (case parse_mode r of
        AsJson \<Rightarrow> DJson (JObj [])
      | AsText \<Rightarrow> DText (body_text r)
      | AsBlob \<Rightarrow> DBytes (body_text r)
      | AsArrayBuffer \<Rightarrow> DBytes (body_text r)
      | AsFormData \<Rightarrow> DFormData []
      | AsStream \<Rightarrow> DBody (hs_body r))"

definition read_data :: "platform \<Rightarrow> http_response \<Rightarrow> thrown + response_data" where
  "read_data pf r =
     (case parse_mode r of
        AsJson \<Rightarrow>
          (if body_text r = [] then Inr (DJson (JObj []))
           else case json_parse (body_text r) of
                  Inl e \<Rightarrow> Inl (NativeError (pf_syntax_error pf))
                | Inr j \<Rightarrow> Inr (DJson j))
      | AsText \<Rightarrow> Inr (DText (body_text r))
      | AsBlob \<Rightarrow> Inr (DBytes (body_text r))
      | AsArrayBuffer \<Rightarrow> Inr (DBytes (body_text r))
      | AsFormData \<Rightarrow> Inr (DFormData (body_text r))
      | AsStream \<Rightarrow> Inr (DBody (hs_body r)))"

text \<open>\<open>throw jsonError ?? textError\<close>, then \<open>finalError || {}\<close>.\<close>

definition thrown_body :: "http_response \<Rightarrow> json" where
  "thrown_body r =
     (case json_parse (body_text r) of
        Inl e \<Rightarrow> JStr (body_text r)
      | Inr j \<Rightarrow> (if j = JNull then JStr (body_text r) else j))"

definition truthy_json :: "json \<Rightarrow> bool" where
  "truthy_json j =
     (case j of JNull \<Rightarrow> False | JBool b \<Rightarrow> b | JNum n \<Rightarrow> n \<noteq> Fin 0 \<and> n \<noteq> NaN | JStr s \<Rightarrow> s \<noteq> [] | _ \<Rightarrow> True)"

definition final_error :: "json \<Rightarrow> json" where
  "final_error j = (if truthy_json j then j else JObj [])"

text \<open>
  The properties of an error that \<open>describeError\<close> reads, when they have the types of \<open>ErrorModel\<close>; a text
  has none of them.
\<close>

definition json_text_at :: "js_string \<Rightarrow> json \<Rightarrow> js_string option" where
  "json_text_at k j =
     (case j of JObj kvs \<Rightarrow> (case json_get k kvs of Some (JStr s) \<Rightarrow> Some s | _ \<Rightarrow> None) | _ \<Rightarrow> None)"

definition error_model_of :: "json \<Rightarrow> error_model" where
  "error_model_of j =
     \<lparr>em_errors =
        (case j of
           JObj kvs \<Rightarrow>
             (case json_get ''errors'' kvs of
                Some (JArr ds) \<Rightarrow>
                  Some (map (\<lambda>d. \<lparr>ed_location = json_text_at ''location'' d, ed_message = json_text_at ''message'' d\<rparr>) ds)
              | _ \<Rightarrow> None)
         | _ \<Rightarrow> None),
      em_detail = json_text_at ''detail'' j,
      em_title = json_text_at ''title'' j\<rparr>"

section \<open>A call\<close>

abbreviation failed_call :: "result_error \<Rightarrow> http_response option \<Rightarrow> response_data option api_result" where
  "failed_call e r \<equiv>
     \<lparr>ar_data = None, ar_error = e, ar_response = map_option (\<lambda>x. \<lparr>resp_status = hs_status x\<rparr>) r\<rparr>"

definition answered :: "platform \<Rightarrow> http_response \<Rightarrow> response_data option api_result" where
  "answered pf r =
     (if resp_ok \<lparr>resp_status = hs_status r\<rparr> then
        (if is_empty_response r then
           \<lparr>ar_data = Some (empty_data r), ar_error = NoError, ar_response = Some \<lparr>resp_status = hs_status r\<rparr>\<rparr>
         else case read_data pf r of
                Inl e \<Rightarrow> failed_call (ErrorInstance e) (Some r)
              | Inr d \<Rightarrow>
                  \<lparr>ar_data = Some d, ar_error = NoError, ar_response = Some \<lparr>resp_status = hs_status r\<rparr>\<rparr>)
      else failed_call (ErrorBody (error_model_of (final_error (thrown_body r)))) (Some r))"

text \<open>A network failure is an \<open>Error\<close> with a message.\<close>

type_synonym network = "http_request \<Rightarrow> js_string + http_response"

text \<open>The result of a call, and whether the handler of an expired session is called.\<close>

definition request ::
    "platform \<Rightarrow> client_config \<Rightarrow> 'h option \<Rightarrow> network \<Rightarrow> sdk_op \<Rightarrow> api_request \<Rightarrow>
     response_data option api_result \<times> 'h option" where
  "request pf config unauthorizedHandler fetch op r =
     (case build_request pf config op r of
        Inl e \<Rightarrow> (failed_call (ErrorInstance e) None, None)
      | Inr h \<Rightarrow>
          (case fetch h of
             Inl message \<Rightarrow> (failed_call (ErrorInstance (NativeError message)) None, None)
           | Inr response \<Rightarrow>
               (answered pf response,
                snd (response_interceptor unauthorizedHandler \<lparr>resp_status = hs_status response\<rparr>))))"

section \<open>The configured client\<close>

lemma header_names:
  "header_name ''Content-Type'' = ''content-type''" "header_name ''Authorization'' = ''authorization''"
  "header_name ''woodstar_session'' = ''woodstar_session''"
  by code_simp+

lemma api_config_eq:
  "cc_base_url api_config = None"
  "cc_headers api_config = HeaderMap [''content-type'' \<mapsto> ''application/json'']"
  "cc_serializer api_config = cc_serializer api_settings"
  by (simp_all add: api_config_def mergeConfigs_def createClient_def createConfig_def no_settings_def api_settings_def
      override_def mergeHeaders_def defaultHeaders_def header_set_def header_names)

lemma merged_headers:
  "mergeHeaders [HeaderMap [''content-type'' \<mapsto> ''application/json''], op_headers op] = [''content-type'' \<mapsto> ''application/json'']"
  by (simp add: op_headers_def mergeHeaders_def header_set_def header_names)

text \<open>Without a token nothing is added.\<close>

lemma setAuthParams_no_token: "setAuthParams pf None security s = s"
proof (induction security)
  case (Cons auth security)
  have "auth_step pf None s auth = s" by (simp add: auth_step_def getAuthToken_def case_prod_beta)
  with Cons show ?case by (simp add: setAuthParams_def)
qed (simp add: setAuthParams_def)

lemma json_compact_nonempty: "json_compact number j \<noteq> []" if "safe_json j"
  using that id_segment_show_int
  by (cases j) (auto simp: json_quote_def num_text_int is_finite_num_def id_segment_def elim!: is_safe_integerE)

text \<open>What a call of the configured client puts on the wire.\<close>

definition call_url :: "platform \<Rightarrow> sdk_op \<Rightarrow> api_request \<Rightarrow> js_string" where
  "call_url pf op r =
     getUrl (if rq_path r = [] then None else Some (id_path (rq_path r)))
       (map_option (createQuerySerializer (pf_number pf) (op_serializer api_config op)) (rq_query r)) (op_url op)"

definition safe_body :: "api_request \<Rightarrow> bool" where
  "safe_body r \<longleftrightarrow> (case rq_body r of None \<Rightarrow> True | Some j \<Rightarrow> safe_json j)"

lemma beforeRequest_api:
  assumes "safe_body r"
  shows "beforeRequest pf api_config op r =
    \<lparr>hr_method = op_method op, hr_url = call_url pf op r,
     hr_headers = (if rq_body r = None then Map.empty else [''content-type'' \<mapsto> ''application/json'']),
     hr_body = map_option (json_compact (pf_number pf)) (rq_body r)\<rparr>"
proof (cases "rq_body r")
  case None
  then show ?thesis
    by (simp add: beforeRequest_def merged_headers setAuthParams_no_token call_url_def api_config_eq header_delete_def
        header_names getValidRequestBody_def Let_def)
next
  case (Some j)
  with assms have "json_compact (pf_number pf) j \<noteq> []" by (simp add: safe_body_def json_compact_nonempty)
  with Some show ?thesis
    by (simp add: beforeRequest_def merged_headers setAuthParams_no_token call_url_def api_config_eq header_delete_def
        header_names getValidRequestBody_def Let_def)
qed

lemma build_request_api:
  assumes "safe_body r" and "op_method op = GET \<longrightarrow> rq_body r = None"
  shows "build_request pf api_config op r =
    Inr \<lparr>hr_method = op_method op, hr_url = call_url pf op r,
      hr_headers = (if rq_body r = None then Map.empty else [''content-type'' \<mapsto> ''application/json''])
        (''accept'' \<mapsto> ''application/json''),
      hr_body = map_option (json_compact (pf_number pf)) (rq_body r)\<rparr>"
  using assms(2) by (simp add: build_request_def beforeRequest_api [OF assms(1)] request_interceptor_def Let_def)

section \<open>What the caller gets\<close>

text \<open>The data of an answer, if it can be read.\<close>

definition readable :: "platform \<Rightarrow> http_response \<Rightarrow> response_data option" where
  "readable pf r =
     (if is_empty_response r then Some (empty_data r)
      else case read_data pf r of Inl e \<Rightarrow> None | Inr d \<Rightarrow> Some d)"

lemma unwrap_answered:
  "unwrap (Inr (answered pf r)) = Inr x \<longleftrightarrow> resp_ok \<lparr>resp_status = hs_status r\<rparr> \<and> readable pf r = x \<and> x \<noteq> None"
proof (cases "resp_ok \<lparr>resp_status = hs_status r\<rparr>")
  case True
  then show ?thesis by (auto simp: answered_def readable_def response_ok_def split: sum.splits)
qed (simp add: answered_def Let_def)

lemma unwrap_refused:
  assumes "\<not> resp_ok \<lparr>resp_status = hs_status r\<rparr>"
  shows "\<exists>m b. unwrap (Inr (answered pf r)) = Inl (ApiError (hs_status r) m b) \<and> m \<noteq> []"
  using assms by (auto simp: answered_def response_status_def describeError_nonempty Let_def)

lemma not_found_answer:
  "nullOn404 (Inr (answered pf r)) = Inr None \<longleftrightarrow> hs_status r = 404"
proof (cases "resp_ok \<lparr>resp_status = hs_status r\<rparr>")
  case True
  then have "hs_status r \<noteq> 404" by (simp add: resp_ok_def)
  moreover have "unwrap (Inr (answered pf r)) \<noteq> Inl (ApiError 404 m b)" for m b
    using True by (auto simp: answered_def response_ok_def read_data_def split: sum.splits if_splits parse_as.splits)
  ultimately show ?thesis by (simp add: nullOn404_None)
next
  case False
  then show ?thesis using unwrap_refused [OF False, of pf] by (auto simp: nullOn404_None simp del: unwrap.simps)
qed

lemma request_answered:
  assumes "build_request pf config op r = Inr h" and "fetch h = Inr response"
  shows "request pf config handler fetch op r =
    (answered pf response, if hs_status response = 401 then handler else None)"
  using assms by (simp add: request_def response_interceptor_def)

lemma request_null_on_404:
  "nullOn404 (Inr (fst (request pf config handler fetch op r))) = Inr None \<longleftrightarrow>
     (\<exists>h response. build_request pf config op r = Inr h \<and> fetch h = Inr response \<and> hs_status response = 404)"
proof -
  have failed: "nullOn404 (Inr (failed_call (ErrorInstance (NativeError m)) None)) \<noteq> Inr None" for m
    by (simp add: nullOn404_None)
  have type_error: "\<exists>m. e = NativeError m" if "build_request pf config op r = Inl e" for e
    using that by (auto simp: build_request_def Let_def split: if_splits)
  show ?thesis
    using failed type_error by (auto simp: request_def not_found_answer split: sum.splits)
qed

lemma session_handler_called:
  "snd (request pf config (Some handler) fetch op r) = Some handler \<longleftrightarrow>
     (\<exists>h response. build_request pf config op r = Inr h \<and> fetch h = Inr response \<and> hs_status response = 401)"
  by (auto simp: request_def response_interceptor_def split: sum.splits)

text \<open>A JSON answer, printed and sent, is the data the caller gets.\<close>

definition json_answer :: "(js_num \<Rightarrow> js_string) \<Rightarrow> int \<Rightarrow> json \<Rightarrow> http_response" where
  "json_answer number status j =
     \<lparr>hs_status = status, hs_headers = [''content-type'' \<mapsto> ''application/json''], hs_body = Some (json_compact number j)\<rparr>"

lemma parse_json_answer: "getParseAs (Some ''application/json'') = Some AsJson"
  by (simp add: getParseAs_def js_trim_def js_trim_left_def is_js_space_def)

lemma json_answer_data:
  assumes "safe_json j" and "200 \<le> status" and "status \<le> 299" and "status \<noteq> 204"
  shows "unwrap (Inr (answered pf (json_answer number status j))) = Inr (Some (DJson j))"
  using assms json_compact_nonempty [OF assms(1), of number]
  unfolding unwrap_answered
  by (simp add: readable_def is_empty_response_def read_data_def parse_mode_def json_answer_def
      parse_json_answer body_text_def json_parse_compact resp_ok_def)

text \<open>The message of a problem document.\<close>

lemma problem_message:
  assumes "safe_json j" and "truthy_json j" and "status < 200 \<or> 299 < status"
  shows "unwrap (Inr (answered pf (json_answer number status j))) =
    Inl (ApiError status (describeError (Some (error_model_of j)) status) (Some (error_model_of j)))"
proof -
  have "j \<noteq> JNull" using assms(2) by (auto simp: truthy_json_def)
  then have "thrown_body (json_answer number status j) = j"
    using assms(1) by (simp add: thrown_body_def json_answer_def body_text_def json_parse_compact)
  moreover have "\<not> resp_ok \<lparr>resp_status = status\<rparr>" using assms(3) by (auto simp: resp_ok_def)
  moreover have "hs_status (json_answer number status j) = status" by (simp add: json_answer_def)
  ultimately show ?thesis
    using assms(2) by (simp add: answered_def final_error_def error_body_def response_status_def Let_def)
qed

end
