(* ===== verification/Routes.thy ===== *)
theory Routes
  imports Request QueryCatalog Navigation
begin

text \<open>
  Every request of the client against the SDK: the queries of the catalogue, the two histories, the
  mutations of the feature modules and the requests of the uploads.

  Main results: every request names an operation of the SDK, gives it exactly the parameters of its path,
  sends a body exactly where the operation has one and its list parameters unexploded; so what is put on the
  wire can be read back: operation, ids, query parameters and body.
\<close>

section \<open>Looking an operation up\<close>

lemma lookup_all: "sdk = xs \<Longrightarrow> list_all (\<lambda>(n, e). map_of sdk n = Some e) xs"
  using sdk_names by (auto simp: list_all_iff intro: map_of_is_SomeI)

lemmas sdk_list = sdk_def [unfolded sdk_tables append_Cons append_Nil]

lemmas sdk_lookup = lookup_all [OF sdk_list, unfolded list.pred_inject prod.case]

lemma url_holes:
  "hole_names (template ''/api/account'') = []"
  "hole_names (template ''/api/account/api-key'') = []"
  "hole_names (template ''/api/activity'') = []"
  "hole_names (template ''/api/agent-secrets'') = []"
  "hole_names (template ''/api/agent-secrets/{id}'') = [''id'']"
  "hole_names (template ''/api/directory/sync'') = []"
  "hole_names (template ''/api/groups'') = []"
  "hole_names (template ''/api/groups/{id}'') = [''id'']"
  "hole_names (template ''/api/hosts'') = []"
  "hole_names (template ''/api/hosts/{id}'') = [''id'']"
  "hole_names (template ''/api/hosts/{id}/inventory-refresh'') = [''id'']"
  "hole_names (template ''/api/hosts/{id}/munki'') = [''id'']"
  "hole_names (template ''/api/hosts/{id}/munki/software'') = [''id'']"
  "hole_names (template ''/api/hosts/{id}/osquery/policies'') = [''id'']"
  "hole_names (template ''/api/hosts/{id}/osquery/reports'') = [''id'']"
  "hole_names (template ''/api/hosts/{id}/primary-user'') = [''id'']"
  "hole_names (template ''/api/hosts/{id}/santa'') = [''id'']"
  "hole_names (template ''/api/hosts/{id}/santa/rules'') = [''id'']"
  "hole_names (template ''/api/hosts/{id}/software'') = [''id'']"
  "hole_names (template ''/api/labels'') = []"
  "hole_names (template ''/api/labels/{id}'') = [''id'']"
  "hole_names (template ''/api/munki/client-resources'') = []"
  "hole_names (template ''/api/munki/client-resources/archive-uploads'') = []"
  "hole_names (template ''/api/munki/client-resources/archive-uploads/{id}'') = [''id'']"
  "hole_names (template ''/api/munki/client-resources/banner-uploads'') = []"
  "hole_names (template ''/api/munki/client-resources/banner-uploads/{id}'') = [''id'']"
  "hole_names (template ''/api/munki/client-resources/{id}'') = [''id'']"
  "hole_names (template ''/api/munki/distribution-points'') = []"
  "hole_names (template ''/api/munki/distribution-points/order'') = []"
  "hole_names (template ''/api/munki/distribution-points/{id}'') = [''id'']"
  "hole_names (template ''/api/munki/distribution-points/{id}/key'') = [''id'']"
  "hole_names (template ''/api/munki/icons'') = []"
  "hole_names (template ''/api/munki/package-installers'') = []"
  "hole_names (template ''/api/munki/package-installers/{id}'') = [''id'']"
  "hole_names (template ''/api/munki/package-installers/{id}/multipart/parts/{part_number}'') = [''id'', ''part_number'']"
  "hole_names (template ''/api/munki/packages'') = []"
  "hole_names (template ''/api/munki/packages/{id}'') = [''id'']"
  "hole_names (template ''/api/munki/software'') = []"
  "hole_names (template ''/api/munki/software/{id}'') = [''id'']"
  "hole_names (template ''/api/munki/software/{id}/icon'') = [''id'']"
  "hole_names (template ''/api/osquery/host-status-history'') = []"
  "hole_names (template ''/api/osquery/live-queries'') = []"
  "hole_names (template ''/api/osquery/live-queries/target-count'') = []"
  "hole_names (template ''/api/osquery/live-queries/{id}'') = [''id'']"
  "hole_names (template ''/api/osquery/live-queries/{id}/stream'') = [''id'']"
  "hole_names (template ''/api/osquery/policies'') = []"
  "hole_names (template ''/api/osquery/policies/{id}'') = [''id'']"
  "hole_names (template ''/api/osquery/policies/{id}/hosts/{host_id}/remediation'') = [''id'', ''host_id'']"
  "hole_names (template ''/api/osquery/policies/{id}/remediation'') = [''id'']"
  "hole_names (template ''/api/osquery/policies/{id}/results'') = [''id'']"
  "hole_names (template ''/api/osquery/policies/{id}/status-history'') = [''id'']"
  "hole_names (template ''/api/osquery/reports'') = []"
  "hole_names (template ''/api/osquery/reports/{id}'') = [''id'']"
  "hole_names (template ''/api/osquery/reports/{id}/snapshots'') = [''id'']"
  "hole_names (template ''/api/santa/configurations'') = []"
  "hole_names (template ''/api/santa/configurations/order'') = []"
  "hole_names (template ''/api/santa/configurations/{id}'') = [''id'']"
  "hole_names (template ''/api/santa/events'') = []"
  "hole_names (template ''/api/santa/events/{id}'') = [''id'']"
  "hole_names (template ''/api/santa/file-access-events'') = []"
  "hole_names (template ''/api/santa/file-access-events/{id}'') = [''id'']"
  "hole_names (template ''/api/santa/rules'') = []"
  "hole_names (template ''/api/santa/rules/{id}'') = [''id'']"
  "hole_names (template ''/api/session'') = []"
  "hole_names (template ''/api/software'') = []"
  "hole_names (template ''/api/software/{id}'') = [''id'']"
  "hole_names (template ''/api/users'') = []"
  "hole_names (template ''/api/users/departments'') = []"
  "hole_names (template ''/api/users/{id}'') = [''id'']"
  by (simp_all add: template_def segment_of_def)

lemma plain_names:
  "plain_name ''q''"
  "plain_name ''page''"
  "plain_name ''per_page''"
  "plain_name ''sort''"
  "plain_name ''all_failures''"
  "plain_name ''decisions''"
  "plain_name ''group_id''"
  "plain_name ''host_id''"
  "plain_name ''host_ids''"
  "plain_name ''ids''"
  "plain_name ''label_id''"
  "plain_name ''label_membership_type''"
  "plain_name ''label_type''"
  "plain_name ''remediation''"
  "plain_name ''role''"
  "plain_name ''rule_type''"
  "plain_name ''since''"
  "plain_name ''software_id''"
  "plain_name ''software_title_id''"
  "plain_name ''source''"
  "plain_name ''status''"
  "plain_name ''type''"
  "plain_name ''user''"
  "plain_name ''values''"
  "plain_name ''area''"
  "plain_name ''event_type''"
  by code_simp+

section \<open>The requests\<close>

definition scalar_params :: "query_params \<Rightarrow> bool" where
  "scalar_params ps \<longleftrightarrow> list_all (\<lambda>(name, v). plain_name name \<and> \<not> is_list_param v) ps"

inductive app_request :: "api_request \<Rightarrow> bool" where
  r_query: "app_query q \<Longrightarrow> rq_operation (qo_request q) \<noteq> ''listActivity'' \<Longrightarrow> app_request (qo_request q)"
| r_activity: "scalar_params ps \<Longrightarrow> app_request (qo_request (useActivity ps))"
| r_useHostStatusHistory: "app_request (qo_request (useHostStatusHistory to_iso t r))"
| r_usePolicyStatusHistory: "app_request (qo_request (usePolicyStatusHistory to_iso t i r))"
| m_useBulkDeleteHosts: "app_request (mu_request useBulkDeleteHosts v)"
| m_useDeleteHost: "app_request (mu_request (useDeleteHost x) v)"
| m_useRequestHostInventoryRefresh: "app_request (mu_request useRequestHostInventoryRefresh v)"
| m_useSetHostPrimaryUser: "app_request (mu_request useSetHostPrimaryUser v)"
| m_useClearHostPrimaryUser: "app_request (mu_request useClearHostPrimaryUser v)"
| m_useCreateLabel: "app_request (mu_request useCreateLabel v)"
| m_useUpdateLabel: "app_request (mu_request (useUpdateLabel x) v)"
| m_useDeleteLabel: "app_request (mu_request (useDeleteLabel x) v)"
| m_useCreateUser: "app_request (mu_request useCreateUser v)"
| m_useUpdateUser: "app_request (mu_request useUpdateUser v)"
| m_useDeleteUser: "app_request (mu_request (useDeleteUser x) v)"
| m_useTriggerDirectorySync: "app_request (mu_request useTriggerDirectorySync v)"
| m_useUpdateAccount: "app_request (mu_request useUpdateAccount v)"
| m_useRotateAPIKey: "app_request (mu_request useRotateAPIKey v)"
| m_useRevokeAPIKey: "app_request (mu_request useRevokeAPIKey v)"
| m_useCreateAgentSecret: "app_request (mu_request useCreateAgentSecret v)"
| m_useUpdateAgentSecret: "app_request (mu_request useUpdateAgentSecret v)"
| m_useDeleteAgentSecret: "app_request (mu_request useDeleteAgentSecret v)"
| m_useCreateLiveQuery: "app_request (mu_request useCreateLiveQuery v)"
| m_useStopLiveQuery: "app_request (mu_request useStopLiveQuery v)"
| m_useCreateMunkiPackage: "app_request (mu_request useCreateMunkiPackage v)"
| m_useUpdateMunkiPackage: "app_request (mu_request useUpdateMunkiPackage v)"
| m_useBulkDeleteMunkiPackages: "app_request (mu_request useBulkDeleteMunkiPackages v)"
| m_useDeleteMunkiPackage: "app_request (mu_request (useDeleteMunkiPackage x) v)"
| m_useCreateMunkiSoftware: "app_request (mu_request useCreateMunkiSoftware v)"
| m_useUpdateMunkiSoftware: "app_request (mu_request useUpdateMunkiSoftware v)"
| m_useBulkDeleteMunkiSoftware: "app_request (mu_request useBulkDeleteMunkiSoftware v)"
| m_useDeleteMunkiSoftware: "app_request (mu_request (useDeleteMunkiSoftware x) v)"
| m_useCreateMunkiDistributionPoint: "app_request (mu_request useCreateMunkiDistributionPoint v)"
| m_useUpdateMunkiDistributionPoint: "app_request (mu_request useUpdateMunkiDistributionPoint v)"
| m_useDeleteMunkiDistributionPoint: "app_request (mu_request (useDeleteMunkiDistributionPoint x) v)"
| m_useReorderMunkiDistributionPoints: "app_request (mu_request useReorderMunkiDistributionPoints v)"
| m_useRotateMunkiDistributionPointKey: "app_request (mu_request useRotateMunkiDistributionPointKey v)"
| m_useSaveMunkiClientResources: "app_request (mu_request useSaveMunkiClientResources v)"
| m_useDeleteMunkiClientResources: "app_request (mu_request useDeleteMunkiClientResources v)"
| m_useLogout: "app_request (mu_request useLogout v)"
| m_useLogin: "app_request (mu_request (useLogin (x :: unit permission_test) y) v)"
| m_useCreatePolicy: "app_request (mu_request useCreatePolicy v)"
| m_useUpdatePolicy: "app_request (mu_request (useUpdatePolicy x y) v)"
| m_useDeletePolicy: "app_request (mu_request (useDeletePolicy x) v)"
| m_useBulkDeletePolicies: "app_request (mu_request useBulkDeletePolicies v)"
| m_useRunPolicyRemediations: "app_request (mu_request useRunPolicyRemediations v)"
| m_useCreateReport: "app_request (mu_request useCreateReport v)"
| m_useUpdateReport: "app_request (mu_request (useUpdateReport x y) v)"
| m_useDeleteReport: "app_request (mu_request (useDeleteReport x) v)"
| m_useBulkDeleteReports: "app_request (mu_request useBulkDeleteReports v)"
| m_useCreateSantaConfiguration: "app_request (mu_request useCreateSantaConfiguration v)"
| m_useUpdateSantaConfiguration: "app_request (mu_request useUpdateSantaConfiguration v)"
| m_useDeleteSantaConfiguration: "app_request (mu_request (useDeleteSantaConfiguration x) v)"
| m_useBulkDeleteSantaConfigurations: "app_request (mu_request useBulkDeleteSantaConfigurations v)"
| m_useReorderSantaConfigurations: "app_request (mu_request useReorderSantaConfigurations v)"
| m_useCreateSantaRule: "app_request (mu_request useCreateSantaRule v)"
| m_useUpdateSantaRule: "app_request (mu_request useUpdateSantaRule v)"
| m_useDeleteSantaRule: "app_request (mu_request (useDeleteSantaRule x) v)"
| m_useBulkDeleteSantaRules: "app_request (mu_request useBulkDeleteSantaRules v)"
| u_installer: "app_request (uo_createIntent (useUploadMunkiInstaller :: (js_file, unit) upload_options) body)"
| u_installer_done:
    "app_request (uo_completeUpload (useUploadMunkiInstaller :: (js_file, unit) upload_options) intent v)"
| u_installer_part: "app_request (packageInstallerMultipartRequest i n crc)"
| u_installer_unclaimed: "app_request (deleteUnclaimedMunkiInstaller i)"
| u_icon: "app_request (uo_createIntent (useUploadMunkiIcon :: (int \<times> js_file, unit) upload_options) body)"
| u_icon_done: "app_request (uo_completeUpload (useUploadMunkiIcon :: (int \<times> js_file, unit) upload_options) intent v)"
| u_banner: "app_request (uo_createIntent (useUploadAndSaveMunkiClientResourcesBanner :: (_, unit) upload_options) body)"
| u_banner_done:
    "app_request (uo_completeUpload (useUploadAndSaveMunkiClientResourcesBanner :: (_, unit) upload_options) intent v)"
| u_archive: "app_request (uo_createIntent (useUploadAndSaveMunkiClientResourcesArchive :: (_, unit) upload_options) body)"
| u_archive_done:
    "app_request (uo_completeUpload (useUploadAndSaveMunkiClientResourcesArchive :: (_, unit) upload_options) intent v)"
| u_banner_cleanup:
    "uo_cleanupIntent (useUploadAndSaveMunkiClientResourcesBanner :: (_, unit) upload_options) = Some cleanup \<Longrightarrow>
       app_request (cleanup intent)"
| u_archive_cleanup:
    "uo_cleanupIntent (useUploadAndSaveMunkiClientResourcesArchive :: (_, unit) upload_options) = Some cleanup \<Longrightarrow>
       app_request (cleanup intent)"

section \<open>What is asked of a request\<close>

definition fits :: "sdk_op \<Rightarrow> api_request \<Rightarrow> bool" where
  "fits op r \<longleftrightarrow>
     \<not> op_stream op \<and> map fst (rq_path r) = hole_names (template (op_url op)) \<and>
     distinct (map fst (rq_path r)) \<and>
     (op_json op \<longleftrightarrow> rq_body r \<noteq> None) \<and> (op_method op = GET \<longrightarrow> rq_body r = None) \<and>
     list_all (\<lambda>(name, v). plain_name name \<and> sent_whole (op_serializer api_config op) (name, v))
       (coalesce (rq_query r) [])"

definition well_sent :: "api_request \<Rightarrow> bool" where
  "well_sent r \<longleftrightarrow> (case map_of sdk (rq_operation r) of None \<Rightarrow> False | Some op \<Rightarrow> fits op r)"

lemma scalar_params_simps:
  "\<not> is_list_param PUndef" "\<not> is_list_param (PStr s)" "\<not> is_list_param (PNum n)" "\<not> is_list_param (PBool b)"
  "\<not> is_list_param (opt_str v)" "\<not> is_list_param (opt_int w)"
  by (simp_all add: is_list_param_def opt_str_def opt_int_def split: option.splits)

lemma api_serializer:
  "op_serializer api_config op =
     (case op_lists op of
        None \<Rightarrow> \<lparr>qz_parameters = [], qz_all = \<lparr>ao_reserved = False, ao_explode = Some False, ao_style = Some Form\<rparr>\<rparr>
      | Some names \<Rightarrow>
          \<lparr>qz_parameters =
             map (\<lambda>name. (name, \<lparr>ao_reserved = False, ao_explode = Some False, ao_style = None\<rparr>)) names,
           qz_all = \<lparr>ao_reserved = False, ao_explode = None, ao_style = None\<rparr>\<rparr>)"
  by (cases "op_lists op") (simp_all add: op_serializer_def api_config_eq api_settings_def)

text \<open>A parameter is sent whole if it is no list, or if the operation does not explode it.\<close>

lemma sent_whole_api:
  "sent_whole (op_serializer api_config op) (name, v) \<longleftrightarrow>
     \<not> is_list_param v \<or> (case op_lists op of None \<Rightarrow> True | Some names \<Rightarrow> name \<in> set names)"
proof (cases "op_lists op")
  case (Some names)
  have "map_of (map (\<lambda>name. (name, z)) names) name = (if name \<in> set names then Some z else None)" for z :: array_options
    by (induction names) auto
  with Some show ?thesis by (simp add: sent_whole_def api_serializer)
qed (simp add: sent_whole_def api_serializer)

lemmas request_facts =
  well_sent_def fits_def sdk_lookup url_holes plain_names sent_whole_api scalar_params_simps
  spread_base_def base_params_def ids_query_def

lemmas mutation_defs =
  useBulkDeleteHosts_def useDeleteHost_def useRequestHostInventoryRefresh_def
  useSetHostPrimaryUser_def useClearHostPrimaryUser_def useCreateLabel_def
  useUpdateLabel_def useDeleteLabel_def useCreateUser_def
  useUpdateUser_def useDeleteUser_def useTriggerDirectorySync_def
  useUpdateAccount_def useRotateAPIKey_def useRevokeAPIKey_def
  useCreateAgentSecret_def useUpdateAgentSecret_def useDeleteAgentSecret_def
  useCreateLiveQuery_def useStopLiveQuery_def useCreateMunkiPackage_def
  useUpdateMunkiPackage_def useBulkDeleteMunkiPackages_def useDeleteMunkiPackage_def
  useCreateMunkiSoftware_def useUpdateMunkiSoftware_def useBulkDeleteMunkiSoftware_def
  useDeleteMunkiSoftware_def useCreateMunkiDistributionPoint_def useUpdateMunkiDistributionPoint_def
  useDeleteMunkiDistributionPoint_def useReorderMunkiDistributionPoints_def useRotateMunkiDistributionPointKey_def
  useSaveMunkiClientResources_def useDeleteMunkiClientResources_def useLogout_def
  useLogin_def useCreatePolicy_def useUpdatePolicy_def
  useDeletePolicy_def useBulkDeletePolicies_def useRunPolicyRemediations_def
  useCreateReport_def useUpdateReport_def useDeleteReport_def
  useBulkDeleteReports_def useCreateSantaConfiguration_def useUpdateSantaConfiguration_def
  useDeleteSantaConfiguration_def useBulkDeleteSantaConfigurations_def useReorderSantaConfigurations_def
  useCreateSantaRule_def useUpdateSantaRule_def useDeleteSantaRule_def
  useBulkDeleteSantaRules_def

lemmas request_defs =
  useHostStatusHistory_def usePolicyStatusHistory_def useUploadMunkiInstaller_def packageInstallerMultipartRequest_def
  deleteUnclaimedMunkiInstaller_def useUploadMunkiIcon_def useUploadAndSaveMunkiClientResourcesBanner_def
  useUploadAndSaveMunkiClientResourcesArchive_def

lemma app_query_well_sent:
  "app_query q \<Longrightarrow> rq_operation (qo_request q) \<noteq> ''listActivity'' \<Longrightarrow> well_sent (qo_request q)"
proof (induction rule: app_query.induct)
  case (q_usePolicyRemediationRun x y)
  show ?case by (simp add: app_query_defs request_facts)
qed (simp_all add: app_query_defs query_params_defs request_facts Let_def)

lemma app_request_well_sent: "app_request r \<Longrightarrow> well_sent r"
proof (induction rule: app_request.induct)
  case (r_query q)
  then show ?case by (rule app_query_well_sent)
next
  case (r_activity ps)
  then show ?case by (auto simp: scalar_params_def useActivity_def request_facts list_all_iff)
next
  case (m_useRunPolicyRemediations v)
  show ?case by (cases v; cases "snd v") (simp_all add: useRunPolicyRemediations_def request_facts is_list_param_def)
next
  case (m_useSaveMunkiClientResources v)
  show ?case
    by (cases v; cases "fst v") (simp_all add: useSaveMunkiClientResources_def saveClientResources_def request_facts)
next
  case (u_banner_done intent v)
  obtain f i body where "v = (f, i, body)" by (cases v)
  then show ?case
    by (cases i) (simp_all add: useUploadAndSaveMunkiClientResourcesBanner_def saveClientResources_def request_facts)
next
  case (u_archive_done intent v)
  obtain f i where "v = (f, i)" by (cases v)
  then show ?case
    by (cases i) (simp_all add: useUploadAndSaveMunkiClientResourcesArchive_def saveClientResources_def request_facts)
qed (auto simp: mutation_defs request_defs request_facts case_prod_beta)

section \<open>What a request is on the wire\<close>

text \<open>The numbers of a request are ones that a number represents exactly.\<close>

definition safe_request :: "api_request \<Rightarrow> bool" where
  "safe_request r \<longleftrightarrow> safe_body r \<and> list_all (\<lambda>(name, n). \<bar>n\<bar> \<le> max_safe_integer) (rq_path r)"

text \<open>What can be read off an HTTP request, and what a call passed.\<close>

record wire_call =
  wc_route :: "http_method \<times> js_string option list"
  wc_ids :: "js_num list"
  wc_query :: "(js_string \<times> js_string) list"
  wc_body :: "json option"

definition read_request :: "http_request \<Rightarrow> wire_call" where
  "read_request h =
     \<lparr>wc_route = (hr_method h, read_shape (url_path (hr_url h))),
      wc_ids = path_ids (url_path (hr_url h)),
      wc_query = read_query (url_query (hr_url h)),
      wc_body = (case hr_body h of
         None \<Rightarrow> None
       | Some t \<Rightarrow> (case json_parse t of Inl e \<Rightarrow> None | Inr j \<Rightarrow> Some j))\<rparr>"

definition call_of :: "platform \<Rightarrow> sdk_op \<Rightarrow> api_request \<Rightarrow> wire_call" where
  "call_of pf op r =
     \<lparr>wc_route = route_shape op,
      wc_ids = map (\<lambda>(name, n). num_of_int n) (rq_path r),
      wc_query = given_params (pf_number pf) (coalesce (rq_query r) []),
      wc_body = rq_body r\<rparr>"

lemma well_sent_op: "well_sent r \<Longrightarrow> \<exists>op. map_of sdk (rq_operation r) = Some op \<and> fits op r"
  by (auto simp: well_sent_def split: option.splits)

lemma call_url_apart:
  assumes op: "map_of sdk (rq_operation r) = Some op" and fits: "fits op r"
  shows "url_path (call_url pf op r) = filled (rq_path r) op"
    and "read_query (url_query (call_url pf op r)) = given_params (pf_number pf) (coalesce (rq_query r) [])"
proof -
  have names: "set (hole_names (template (op_url op))) \<subseteq> fst ` set (rq_path r)"
    using fits by (metis fits_def list.set_map order_refl)
  have params: "list_all (\<lambda>(name, v). plain_name name \<and> sent_whole (op_serializer api_config op) (name, v))
      (coalesce (rq_query r) [])"
    using fits by (simp add: fits_def)
  let ?q = "map_option (createQuerySerializer (pf_number pf) (op_serializer api_config op)) (rq_query r)"
  have start: "case ?q of None \<Rightarrow> True | Some q \<Rightarrow> \<not> prefix ''?'' q"
    using query_start [OF params] by (cases "rq_query r") simp_all
  note apart = url_taken_apart [OF op names refl start, folded call_url_def]
  show "url_path (call_url pf op r) = filled (rq_path r) op" by (rule apart(1))
  show "read_query (url_query (call_url pf op r)) = given_params (pf_number pf) (coalesce (rq_query r) [])"
    unfolding apart(2) using query_read_back [OF params, of "pf_number pf"]
    by (cases "rq_query r") (simp_all add: read_query_def given_params_def List.map_filter_simps)
qed

lemma read_filled: "map_of sdk name = Some op \<Longrightarrow> read_shape (filled ids op) = map segment_shape (template (op_url op))"
  by (simp add: filled_def read_shape_filled good_op_of)

lemma sent_request:
  assumes op: "map_of sdk (rq_operation r) = Some op" and fits: "fits op r" and safe: "safe_request r"
  shows "\<exists>h. build_request pf api_config op r = Inr h \<and> read_request h = call_of pf op r \<and>
    (hr_headers h ''content-type'' \<noteq> None \<longleftrightarrow> rq_body r \<noteq> None) \<and> hr_headers h ''accept'' = Some ''application/json''"
proof -
  have body: "safe_body r" and ids: "\<forall>(name, n) \<in> set (rq_path r). \<bar>n\<bar> \<le> max_safe_integer"
    using safe by (simp_all add: safe_request_def list_all_iff)
  have get: "op_method op = GET \<longrightarrow> rq_body r = None" and names: "map fst (rq_path r) = hole_names (template (op_url op))"
    and dist: "distinct (map fst (rq_path r))"
    using fits unfolding fits_def by blast+
  note apart = call_url_apart [OF op fits, of pf]
  note h = build_request_api [OF body get, of pf]
  have "path_ids (filled (rq_path r) op) = map (\<lambda>(name, n). num_of_int n) (rq_path r)"
    by (rule path_ids_filled [OF good_op_of [OF op] names dist ids])
  moreover have "(case map_option (json_compact (pf_number pf)) (rq_body r) of None \<Rightarrow> None
      | Some t \<Rightarrow> (case json_parse t of Inl e \<Rightarrow> None | Inr j \<Rightarrow> Some j)) = rq_body r"
    using body by (cases "rq_body r") (simp_all add: safe_body_def json_parse_compact)
  ultimately show ?thesis
    unfolding h
    by (auto simp: read_request_def call_of_def apart read_filled [OF op] route_shape_def)
qed

theorem app_request_sent:
  assumes "app_request r" and "safe_request r"
  obtains op h where "map_of sdk (rq_operation r) = Some op" and "build_request pf api_config op r = Inr h"
    and "read_request h = call_of pf op r" and "hr_headers h ''content-type'' \<noteq> None \<longleftrightarrow> rq_body r \<noteq> None"
    and "hr_headers h ''accept'' = Some ''application/json''"
proof -
  obtain op where "map_of sdk (rq_operation r) = Some op" "fits op r"
    using well_sent_op [OF app_request_well_sent [OF assms(1)]] by blast
  with sent_request [OF this assms(2), of pf] show thesis using that by blast
qed

text \<open>Two requests that are the same on the wire are the same call.\<close>

lemma fits_same_names:
  "fits op r \<Longrightarrow> fits op r' \<Longrightarrow> map (\<lambda>(name, n). num_of_int n) (rq_path r) = map (\<lambda>(name, n). num_of_int n) (rq_path r') \<Longrightarrow>
     rq_path r = rq_path r'"
proof -
  assume "fits op r" "fits op r'"
  then have names: "map fst (rq_path r) = map fst (rq_path r')" by (simp add: fits_def)
  assume "map (\<lambda>(name, n). num_of_int n) (rq_path r) = map (\<lambda>(name, n). num_of_int n) (rq_path r')"
  then have "map snd (rq_path r) = map snd (rq_path r')"
    by (auto simp: list_eq_iff_nth_eq case_prod_beta)
  with names show "rq_path r = rq_path r'" by (metis pair_list_eqI)
qed

lemma same_on_the_wire:
  assumes "app_request r" and "app_request r'"
    and "map_of sdk (rq_operation r) = Some op" and "map_of sdk (rq_operation r') = Some op'"
    and "call_of pf op r = call_of pf op' r'"
  shows "rq_operation r = rq_operation r'" and "rq_path r = rq_path r'" and "rq_body r = rq_body r'"
proof -
  have "route_shape op = route_shape op'" using assms(5) by (simp add: call_of_def)
  then show o: "rq_operation r = rq_operation r'" by (rule same_route [OF assms(3,4)])
  with assms(3,4) have "op' = op" by simp
  moreover have "fits op r" "fits op' r'"
    using well_sent_op [OF app_request_well_sent [OF assms(1)]] well_sent_op [OF app_request_well_sent [OF assms(2)]] assms(3,4)
    by auto
  ultimately show "rq_path r = rq_path r'" using assms(5) by (auto simp: call_of_def intro: fits_same_names)
  show "rq_body r = rq_body r'" using assms(5) by (simp add: call_of_def)
qed

end
