(* ===== verification/FileUpload.thy ===== *)
theory FileUpload
  imports ClientResources Wire "HOL-Library.AList"
begin

text \<open>
  The file upload component \<open>web/src/components/ui/file-upload.tsx\<close>: its store, which chosen files it
  accepts, the progress of uploads, the object URLs of previews.

  The component is the event loop of one mounted \<open>FileUpload\<close>; what it tells its parent is a log.
  Main results: every chosen file is either added or rejected with a message, a file is in the store only
  if it meets the props, and never more than \<open>maxFiles\<close> of them; the previews' URLs are all revoked.
  Three flaws are shown at concrete runs: a late progress report undoes a success, an error outlives the
  success that follows it, and a controlled component keeps URLs of files its parent took out.
\<close>

section \<open>Files and their states\<close>

text \<open>A file is an object: \<open>fk_key\<close> is its identity.\<close>

record picked_file = js_file +
  fk_key :: int

datatype file_status = FileIdle | FileUploading | FileError | FileSuccess

record file_state =
  fs_progress :: rat
  fs_error :: "js_string option"
  fs_status :: file_status

definition new_file_state :: file_state where
  "new_file_state = \<lparr>fs_progress = 0, fs_error = None, fs_status = FileIdle\<rparr>"

datatype file_icon = VideoIcon | AudioIcon | TextIcon | CodeIcon | ArchiveIcon | CogIcon | PlainIcon

definition file_extension :: "js_string \<Rightarrow> js_string" where
  "file_extension name = last (js_split (CHR ''.'') name)"

definition getFileIcon :: "(js_string \<Rightarrow> js_string) \<Rightarrow> picked_file \<Rightarrow> file_icon" where
  "getFileIcon lower f =
     (let t = jf_type f; ext = lower (file_extension (jf_name f))
      in if prefix ''video/'' t then VideoIcon
         else if prefix ''audio/'' t then AudioIcon
         else if prefix ''text/'' t \<or> ext \<in> {''txt'', ''md'', ''rtf'', ''pdf''} then TextIcon
         else if ext \<in> {''html'', ''css'', ''js'', ''jsx'', ''ts'', ''tsx'', ''json'', ''xml'', ''php'', ''py'', ''rb'',
                        ''java'', ''c'', ''cpp'', ''cs''} then CodeIcon
         else if ext \<in> {''zip'', ''rar'', ''7z'', ''tar'', ''gz'', ''bz2''} then ArchiveIcon
         else if ext \<in> {''exe'', ''msi'', ''app'', ''apk'', ''deb'', ''rpm''} \<or> prefix ''application/'' t then CogIcon
         else PlainIcon)"

section \<open>The props, and what the parent is told\<close>

text \<open>\<open>fp_controlled\<close>: \<open>value\<close> is given; \<open>fp_has_change\<close> and \<open>fp_has_upload\<close>: \<open>onValueChange\<close> and \<open>onUpload\<close> are.\<close>

record file_props =
  fp_controlled :: bool
  fp_has_change :: bool
  fp_has_upload :: bool
  fp_validate :: "(picked_file \<Rightarrow> js_string option) option"
  fp_accept :: "js_string option"
  fp_max_files :: "nat option"
  fp_max_size :: "int option"
  fp_disabled :: bool

datatype file_note =
    ValueChanged "picked_file list"
  | FileRejected picked_file js_string
  | FilesAccepted "picked_file list"
  | FileAccepted picked_file
  | UploadCalled "picked_file list"

text \<open>
  The store; \<open>fu_store\<close> counts the stores made so far (a change of the prop \<open>invalid\<close> makes a new one over
  the same files), \<open>fu_timers\<close> holds the store of every pending timer, \<open>fu_frame\<close> the report of a requested
  frame, \<open>fu_uploads\<close> the uploads that wait for a frame.
\<close>

record file_store =
  fu_files :: "(picked_file \<times> file_state) list"
  fu_drag_over :: bool
  fu_invalid :: bool
  fu_store :: nat
  fu_timers :: "nat list"
  fu_frame :: "(picked_file \<times> rat) option"
  fu_uploads :: "picked_file list list"
  fu_urls :: "(picked_file \<times> js_string) list"
  fu_revoked :: "js_string list"
  fu_notes :: "file_note list"

definition file_store_init :: "bool \<Rightarrow> file_store" where
  "file_store_init invalid =
     \<lparr>fu_files = [], fu_drag_over = False, fu_invalid = invalid, fu_store = 0, fu_timers = [], fu_frame = None,
      fu_uploads = [], fu_urls = [], fu_revoked = [], fu_notes = []\<rparr>"

definition file_list :: "file_store \<Rightarrow> picked_file list" where
  "file_list s = map fst (fu_files s)"

definition notify :: "file_note list \<Rightarrow> file_store \<Rightarrow> file_store" where
  "notify notes s = s\<lparr>fu_notes := fu_notes s @ notes\<rparr>"

definition value_changed :: "file_props \<Rightarrow> file_store \<Rightarrow> file_store" where
  "value_changed props s = (if fp_has_change props then notify [ValueChanged (file_list s)] s else s)"

section \<open>The reducer\<close>

datatype store_action =
    ADD_FILES "picked_file list"
  | SET_FILES "picked_file list"
  | SET_PROGRESS picked_file rat
  | SET_SUCCESS picked_file
  | SET_ERROR picked_file js_string
  | REMOVE_FILE picked_file
  | SET_DRAG_OVER bool
  | SET_INVALID bool
  | CLEAR

definition revoke :: "picked_file list \<Rightarrow> file_store \<Rightarrow> file_store" where
  "revoke fs s =
     s\<lparr>fu_revoked := fu_revoked s @ List.map_filter (map_of (fu_urls s)) fs,
       fu_urls := filter (\<lambda>(f, url). f \<notin> set fs) (fu_urls s)\<rparr>"

text \<open>\<open>files.set(file, f(files.get(file)))\<close> if the file is there.\<close>

definition change_state :: "picked_file \<Rightarrow> (file_state \<Rightarrow> file_state) \<Rightarrow> file_store \<Rightarrow> file_store" where
  "change_state f g s =
     (case map_of (fu_files s) f of
        None \<Rightarrow> s
      | Some x \<Rightarrow> s\<lparr>fu_files := AList.update f (g x) (fu_files s)\<rparr>)"

fun file_reducer :: "file_props \<Rightarrow> file_store \<Rightarrow> store_action \<Rightarrow> file_store" where
  "file_reducer props s (ADD_FILES fs) =
     value_changed props (s\<lparr>fu_files := foldl (\<lambda>m f. AList.update f new_file_state m) (fu_files s) fs\<rparr>)"
| "file_reducer props s (SET_FILES fs) =
     s\<lparr>fu_files :=
         foldl (\<lambda>m f. case map_of m f of None \<Rightarrow> AList.update f new_file_state m | Some _ \<Rightarrow> m)
           (filter (\<lambda>(f, x). f \<in> set fs) (fu_files s)) fs\<rparr>"
| "file_reducer props s (SET_PROGRESS f p) =
     change_state f (\<lambda>x. x\<lparr>fs_progress := p, fs_status := FileUploading\<rparr>) s"
| "file_reducer props s (SET_SUCCESS f) =
     change_state f (\<lambda>x. x\<lparr>fs_progress := 100, fs_status := FileSuccess\<rparr>) s"
| "file_reducer props s (SET_ERROR f e) =
     change_state f (\<lambda>x. x\<lparr>fs_error := Some e, fs_status := FileError\<rparr>) s"
| "file_reducer props s (REMOVE_FILE f) =
     (let s' = revoke [f] s in value_changed props (s'\<lparr>fu_files := AList.delete f (fu_files s')\<rparr>))"
| "file_reducer props s (SET_DRAG_OVER b) = s\<lparr>fu_drag_over := b\<rparr>"
| "file_reducer props s (SET_INVALID b) = s\<lparr>fu_invalid := b\<rparr>"
| "file_reducer props s CLEAR =
     (let s' = revoke (file_list s) s in value_changed props (s'\<lparr>fu_files := [], fu_invalid := False\<rparr>))"

section \<open>Choosing files\<close>

definition acceptTypes :: "file_props \<Rightarrow> js_string list option" where
  "acceptTypes props = map_option (\<lambda>accept. map js_trim (js_split (CHR '','') accept)) (fp_accept props)"

definition type_matches :: "picked_file \<Rightarrow> js_string \<Rightarrow> bool" where
  "type_matches f t \<longleftrightarrow>
     t = jf_type f \<or> t = ''.'' @ file_extension (jf_name f) \<or>
     (sublist ''/*'' t \<and> prefix (replace_first ''/*'' ''/'' t) (jf_type f))"

definition validation_message :: "file_props \<Rightarrow> picked_file \<Rightarrow> js_string option" where
  "validation_message props f =
     (case fp_validate props of
        None \<Rightarrow> None
      | Some v \<Rightarrow> (case v f of Some m \<Rightarrow> (if m \<noteq> [] then Some m else None) | None \<Rightarrow> None))"

text \<open>The messages a file is rejected with; none means that it is accepted.\<close>

definition file_verdict :: "file_props \<Rightarrow> picked_file \<Rightarrow> js_string list" where
  "file_verdict props f =
     (case validation_message props f of
        Some m \<Rightarrow> [m]
      | None \<Rightarrow>
          (case acceptTypes props of
             Some types \<Rightarrow> (if list_ex (type_matches f) types then [] else [''File Type Not Accepted''])
           | None \<Rightarrow> []) @
          (case fp_max_size props of
             Some m \<Rightarrow> (if m \<noteq> 0 \<and> m < jf_size f then [''File Too Large''] else [])
           | None \<Rightarrow> []))"

text \<open>The files that still fit, and those beyond \<open>maxFiles\<close>.\<close>

definition fitting :: "file_props \<Rightarrow> file_store \<Rightarrow> picked_file list \<Rightarrow> picked_file list \<times> picked_file list" where
  "fitting props s chosen =
     (case fp_max_files props of
        Some m \<Rightarrow>
          if m \<noteq> 0 then
            (let remainingSlotCount = m - length (fu_files s)
             in (take remainingSlotCount chosen, drop remainingSlotCount chosen))
          else (chosen, [])
      | None \<Rightarrow> (chosen, []))"

definition beyond_message :: "file_props \<Rightarrow> picked_file \<Rightarrow> js_string" where
  "beyond_message props f =
     coalesce (validation_message props f)
       (''Maximum '' @ show_nat (coalesce (fp_max_files props) 0) @ '' files allowed'')"

definition rejections :: "file_props \<Rightarrow> file_store \<Rightarrow> picked_file list \<Rightarrow> file_note list" where
  "rejections props s chosen =
     (case fitting props s chosen of
        (fit, beyond) \<Rightarrow>
          map (\<lambda>f. FileRejected f (beyond_message props f)) beyond @
          concat (map (\<lambda>f. map (FileRejected f) (file_verdict props f)) fit))"

definition accepted_files :: "file_props \<Rightarrow> file_store \<Rightarrow> picked_file list \<Rightarrow> picked_file list" where
  "accepted_files props s chosen = filter (\<lambda>f. file_verdict props f = []) (fst (fitting props s chosen))"

definition add_accepted :: "file_props \<Rightarrow> picked_file list \<Rightarrow> file_store \<Rightarrow> file_store" where
  "add_accepted props fs s =
     (let s1 = file_reducer props s (ADD_FILES fs);
          s2 = (if fp_controlled props then value_changed props s1 else s1);
          s3 = notify (FilesAccepted fs # map FileAccepted fs) s2
      in if fp_has_upload props then s3\<lparr>fu_uploads := fu_uploads s3 @ [fs]\<rparr> else s3)"

definition onFilesChange :: "file_props \<Rightarrow> picked_file list \<Rightarrow> file_store \<Rightarrow> file_store" where
  "onFilesChange props chosen s =
     (if fp_disabled props then s
      else
        let rejected = rejections props s chosen;
            accepted = accepted_files props s chosen;
            s1 = notify rejected s;
            s2 = (if rejected \<noteq> []
                  then (file_reducer props s1 (SET_INVALID True))\<lparr>fu_timers := fu_timers s1 @ [fu_store s1]\<rparr>
                  else s1)
        in if accepted \<noteq> [] then add_accepted props accepted s2 else s2)"

section \<open>The events of the component\<close>

datatype file_event =
    FilesChosen "picked_file list"
  | FilesDropped "picked_file list"
  | FilesPasted "picked_file list"
  | DragOver
  | DragLeave bool
  | RemoveClicked picked_file
  | ClearClicked
  | PreviewShown picked_file js_string
  | UploadFrame
  | ProgressReported picked_file rat
  | ProgressFrame
  | UploadSucceeded picked_file
  | UploadFailed picked_file js_string
  | UploadThrew "picked_file list" js_string
  | InvalidTimer
  | ValueGiven "picked_file list"
  | DefaultGiven "picked_file list"
  | InvalidGiven bool
  | FileUploadClosed

text \<open>\<open>Math.min(Math.max(0, progress), 100)\<close> of a number.\<close>

definition clamp_progress :: "rat \<Rightarrow> rat" where
  "clamp_progress p = min (max 0 p) 100"

text \<open>\<open>onFilesUpload\<close> up to its first wait.\<close>

definition onFilesUpload :: "file_props \<Rightarrow> picked_file list \<Rightarrow> file_store \<Rightarrow> file_store" where
  "onFilesUpload props fs s =
     (let s1 = foldl (file_reducer props) s (map (\<lambda>f. SET_PROGRESS f 0) fs)
      in if fp_has_upload props then notify [UploadCalled fs] s1
         else foldl (file_reducer props) s1 (map SET_SUCCESS fs))"

fun file_step :: "file_props \<Rightarrow> file_store \<Rightarrow> file_event \<Rightarrow> file_store" where
  "file_step props s (FilesChosen fs) = onFilesChange props fs s"
| "file_step props s (FilesDropped fs) = onFilesChange props fs (file_reducer props s (SET_DRAG_OVER False))"
| "file_step props s (FilesPasted fs) =
     (let s' = file_reducer props s (SET_DRAG_OVER False) in if fs = [] then s' else onFilesChange props fs s')"
| "file_step props s DragOver = file_reducer props s (SET_DRAG_OVER True)"
| "file_step props s (DragLeave inside) = (if inside then s else file_reducer props s (SET_DRAG_OVER False))"
| "file_step props s (RemoveClicked f) =
     (if f \<in> set (file_list s) then file_reducer props s (REMOVE_FILE f) else s)"
| "file_step props s ClearClicked = (if fp_disabled props then s else file_reducer props s CLEAR)"
| "file_step props s (PreviewShown f url) =
     (if f \<in> set (file_list s) \<and> prefix ''image/'' (jf_type f) \<and> map_of (fu_urls s) f = None
      then s\<lparr>fu_urls := (f, url) # fu_urls s\<rparr> else s)"
| "file_step props s UploadFrame =
     (case fu_uploads s of [] \<Rightarrow> s | fs # rest \<Rightarrow> onFilesUpload props fs (s\<lparr>fu_uploads := rest\<rparr>))"
| "file_step props s (ProgressReported f p) =
     (if fu_frame s = None then s\<lparr>fu_frame := Some (f, p)\<rparr> else s)"
| "file_step props s ProgressFrame =
     (case fu_frame s of
        None \<Rightarrow> s
      | Some (f, p) \<Rightarrow> file_reducer props (s\<lparr>fu_frame := None\<rparr>) (SET_PROGRESS f (clamp_progress p)))"
| "file_step props s (UploadSucceeded f) = file_reducer props s (SET_SUCCESS f)"
| "file_step props s (UploadFailed f e) = file_reducer props s (SET_ERROR f e)"
| "file_step props s (UploadThrew fs e) = foldl (file_reducer props) s (map (\<lambda>f. SET_ERROR f e) fs)"
| "file_step props s InvalidTimer =
     (case fu_timers s of
        [] \<Rightarrow> s
      | t # ts \<Rightarrow>
          (let s' = s\<lparr>fu_timers := ts\<rparr> in if t = fu_store s then file_reducer props s' (SET_INVALID False) else s'))"
| "file_step props s (ValueGiven fs) = (if fp_controlled props then file_reducer props s (SET_FILES fs) else s)"
| "file_step props s (DefaultGiven fs) =
     (if \<not> fp_controlled props \<and> fs \<noteq> [] \<and> fu_files s = [] then file_reducer props s (SET_FILES fs) else s)"
| "file_step props s (InvalidGiven b) = s\<lparr>fu_store := fu_store s + 1, fu_drag_over := False, fu_invalid := b\<rparr>"
| "file_step props s FileUploadClosed =
     s\<lparr>fu_revoked := fu_revoked s @ List.map_filter (map_of (fu_urls s)) (file_list s)\<rparr>"

section \<open>What is shown\<close>

definition show_percent :: "(js_num \<Rightarrow> js_string) \<Rightarrow> rat \<Rightarrow> js_string" where
  "show_percent number p = num_text number (Fin p)"

definition statusText :: "(js_num \<Rightarrow> js_string) \<Rightarrow> file_state \<Rightarrow> js_string" where
  "statusText number x =
     (if coalesce (fs_error x) [] \<noteq> [] then ''Error: '' @ coalesce (fs_error x) []
      else case fs_status x of
             FileUploading \<Rightarrow> ''Uploading: '' @ show_percent number (fs_progress x) @ ''% complete''
           | FileSuccess \<Rightarrow> ''Upload Complete''
           | _ \<Rightarrow> ''Ready to Upload'')"

definition list_shown :: "bool \<Rightarrow> file_store \<Rightarrow> bool" where
  "list_shown forceMount s \<longleftrightarrow> forceMount \<or> 0 < length (fu_files s)"

definition progress_shown :: "bool \<Rightarrow> file_state option \<Rightarrow> bool" where
  "progress_shown forceMount x \<longleftrightarrow>
     x \<noteq> None \<and> (forceMount \<or> (case x of None \<Rightarrow> False | Some y \<Rightarrow> fs_progress y \<noteq> 100))"

text \<open>\<open>aria-posinset\<close>: the place of a file, counted from 1.\<close>

definition file_position :: "file_store \<Rightarrow> picked_file \<Rightarrow> nat" where
  "file_position s f =
     (if f \<in> set (file_list s) then Suc (length (takeWhile (\<lambda>g. g \<noteq> f) (file_list s))) else 0)"

section \<open>The files of the store\<close>

lemma file_frame [simp]:
  "file_list (notify ns s) = file_list s" "fu_files (notify ns s) = fu_files s" "fu_urls (notify ns s) = fu_urls s"
  "fu_revoked (notify ns s) = fu_revoked s" "fu_store (notify ns s) = fu_store s" "fu_timers (notify ns s) = fu_timers s"
  "file_list (value_changed props s) = file_list s" "fu_files (value_changed props s) = fu_files s"
  "fu_urls (value_changed props s) = fu_urls s" "fu_revoked (value_changed props s) = fu_revoked s"
  "fu_files (revoke fs s) = fu_files s"
  by (auto simp: notify_def value_changed_def file_list_def revoke_def)

lemma change_state_frame [simp]:
  "file_list (change_state f g s) = file_list s" "fu_urls (change_state f g s) = fu_urls s"
  "fu_revoked (change_state f g s) = fu_revoked s"
proof -
  have "f \<in> fst ` set (fu_files s)" if "map_of (fu_files s) f = Some x" for x
    using map_of_SomeD [OF that] by force
  then show "file_list (change_state f g s) = file_list s" "fu_urls (change_state f g s) = fu_urls s"
    "fu_revoked (change_state f g s) = fu_revoked s"
    by (auto simp: file_list_def change_state_def update_keys split: option.splits)
qed

text \<open>Adding: the files that are new come last, in their order.\<close>

definition added :: "picked_file list \<Rightarrow> picked_file list \<Rightarrow> picked_file list" where
  "added fs gs = foldl (\<lambda>ks f. if f \<in> set ks then ks else ks @ [f]) fs gs"

lemma keys_added: "map fst (foldl (\<lambda>m f. AList.update f new_file_state m) m fs) = added (map fst m) fs"
  by (induction fs arbitrary: m) (simp_all add: added_def update_keys)

lemma keys_set:
  "map fst (foldl (\<lambda>m f. case map_of m f of None \<Rightarrow> AList.update f new_file_state m | Some _ \<Rightarrow> m) m fs) =
     added (map fst m) fs"
proof (induction fs arbitrary: m)
  case (Cons f fs)
  have "f \<in> fst ` set m \<longleftrightarrow> map_of m f \<noteq> None" by (simp add: map_of_eq_None_iff)
  with Cons show ?case by (auto simp: added_def update_keys split: option.splits)
qed (simp add: added_def)

lemma added_simps [simp]:
  "added ks [] = ks" "added ks (f # fs) = added (if f \<in> set ks then ks else ks @ [f]) fs"
  by (simp_all add: added_def)

lemma set_added: "set (added ks fs) = set ks \<union> set fs"
  by (induction fs arbitrary: ks) auto

lemma distinct_added: "distinct ks \<Longrightarrow> distinct (added ks fs)"
  by (induction fs arbitrary: ks) auto

lemma length_added: "length (added ks fs) \<le> length ks + length fs"
proof (induction fs arbitrary: ks)
  case (Cons f fs)
  show ?case using Cons [of "if f \<in> set ks then ks else ks @ [f]"] by (simp split: if_splits)
qed simp

lemma prefix_added: "prefix ks (added ks fs)"
proof (induction fs arbitrary: ks)
  case (Cons f fs)
  show ?case using Cons [of "if f \<in> set ks then ks else ks @ [f]"] by (auto intro: append_prefixD split: if_splits)
qed simp

lemma added_new: "distinct fs \<Longrightarrow> set fs \<inter> set ks = {} \<Longrightarrow> added ks fs = ks @ fs"
proof (induction fs arbitrary: ks)
  case (Cons f fs)
  then have "added (ks @ [f]) fs = (ks @ [f]) @ fs" by (intro Cons.IH) auto
  with Cons.prems show ?case by simp
qed simp

lemma add_accepted_frame:
  "file_list (add_accepted props fs s) = added (file_list s) fs" "fu_urls (add_accepted props fs s) = fu_urls s"
  "fu_revoked (add_accepted props fs s) = fu_revoked s"
  by (simp_all add: add_accepted_def Let_def) (simp_all add: file_list_def keys_added)

lemma accepted_fit:
  "f \<in> set (accepted_files props s chosen) \<Longrightarrow> f \<in> set chosen \<and> file_verdict props f = []"
  by (auto simp: accepted_files_def fitting_def Let_def split: option.splits if_splits dest: in_set_takeD)

lemma accepted_room:
  "fp_max_files props = Some m \<Longrightarrow> m \<noteq> 0 \<Longrightarrow>
     length (accepted_files props s chosen) \<le> m - length (fu_files s)"
  by (auto simp: accepted_files_def fitting_def Let_def intro: order.trans [OF length_filter_le])

lemma change_frame:
  "file_list (onFilesChange props chosen s) =
     (if fp_disabled props then file_list s else added (file_list s) (accepted_files props s chosen))"
  "fu_urls (onFilesChange props chosen s) = fu_urls s" "fu_revoked (onFilesChange props chosen s) = fu_revoked s"
proof -
  have list: "file_list (s\<lparr>fu_invalid := b, fu_timers := ts\<rparr>) = file_list s" for s b ts by (simp add: file_list_def)
  show "file_list (onFilesChange props chosen s) =
     (if fp_disabled props then file_list s else added (file_list s) (accepted_files props s chosen))"
    by (simp add: onFilesChange_def Let_def add_accepted_frame list)
  show "fu_urls (onFilesChange props chosen s) = fu_urls s" "fu_revoked (onFilesChange props chosen s) = fu_revoked s"
    by (simp_all add: onFilesChange_def Let_def add_accepted_frame)
qed

text \<open>Actions that leave the files alone.\<close>

definition quiet :: "store_action \<Rightarrow> bool" where
  "quiet a \<longleftrightarrow>
     (case a of SET_PROGRESS _ _ \<Rightarrow> True | SET_SUCCESS _ \<Rightarrow> True | SET_ERROR _ _ \<Rightarrow> True
      | SET_DRAG_OVER _ \<Rightarrow> True | SET_INVALID _ \<Rightarrow> True | _ \<Rightarrow> False)"

lemma quiet_frame:
  "quiet a \<Longrightarrow> file_list (file_reducer props s a) = file_list s \<and>
     fu_urls (file_reducer props s a) = fu_urls s \<and> fu_revoked (file_reducer props s a) = fu_revoked s"
  by (cases a) (simp_all add: quiet_def, simp_all add: file_list_def)

lemma quiet_run:
  "list_all quiet as \<Longrightarrow> file_list (foldl (file_reducer props) s as) = file_list s \<and>
     fu_urls (foldl (file_reducer props) s as) = fu_urls s \<and>
     fu_revoked (foldl (file_reducer props) s as) = fu_revoked s"
proof (induction as arbitrary: s)
  case (Cons a as)
  then show ?case using quiet_frame [of a props s] by simp
qed simp

lemma upload_frame:
  "file_list (onFilesUpload props fs s) = file_list s" "fu_urls (onFilesUpload props fs s) = fu_urls s"
  "fu_revoked (onFilesUpload props fs s) = fu_revoked s"
proof -
  have a: "list_all quiet (map (\<lambda>f. SET_PROGRESS f 0) fs)" and b: "list_all quiet (map SET_SUCCESS fs)"
    by (simp_all add: quiet_def list_all_iff)
  show "file_list (onFilesUpload props fs s) = file_list s" "fu_urls (onFilesUpload props fs s) = fu_urls s"
    "fu_revoked (onFilesUpload props fs s) = fu_revoked s"
    using quiet_run [OF a, of props s] quiet_run [OF b, of props] by (simp_all add: onFilesUpload_def Let_def)
qed

text \<open>What a step does to the files, the cached URLs and the revoked ones.\<close>

definition chosen_by :: "file_event \<Rightarrow> picked_file list" where
  "chosen_by e = (case e of FilesChosen fs \<Rightarrow> fs | FilesDropped fs \<Rightarrow> fs | FilesPasted fs \<Rightarrow> fs | _ \<Rightarrow> [])"

definition given_by_parent :: "file_event \<Rightarrow> bool" where
  "given_by_parent e \<longleftrightarrow> (case e of ValueGiven _ \<Rightarrow> True | DefaultGiven _ \<Rightarrow> True | _ \<Rightarrow> False)"

lemma drag_frame [simp]:
  "file_list (s\<lparr>fu_drag_over := b\<rparr>) = file_list s" "accepted_files props (s\<lparr>fu_drag_over := b\<rparr>) chosen = accepted_files props s chosen"
  "file_list (s\<lparr>fu_invalid := b\<rparr>) = file_list s" "file_list (s\<lparr>fu_timers := ts\<rparr>) = file_list s"
  "file_list (s\<lparr>fu_frame := fr\<rparr>) = file_list s" "file_list (s\<lparr>fu_uploads := us\<rparr>) = file_list s"
  "file_list (s\<lparr>fu_urls := ws\<rparr>) = file_list s" "file_list (s\<lparr>fu_revoked := rs\<rparr>) = file_list s"
  "file_list (s\<lparr>fu_store := n\<rparr>) = file_list s" "file_list (s\<lparr>fu_files := m\<rparr>) = map fst m"
  by (simp_all add: file_list_def accepted_files_def fitting_def split: option.splits)

lemma nothing_chosen: "accepted_files props s [] = []"
  by (simp add: accepted_files_def fitting_def split: option.splits)

lemma step_files:
  assumes "\<not> given_by_parent e"
  shows "file_list (file_step props s e) =
    (if chosen_by e \<noteq> [] \<and> \<not> fp_disabled props then added (file_list s) (accepted_files props s (chosen_by e))
     else case e of
            RemoveClicked f \<Rightarrow> removeAll f (file_list s)
          | ClearClicked \<Rightarrow> (if fp_disabled props then file_list s else [])
          | _ \<Rightarrow> file_list s)"
proof (cases e)
  case (UploadThrew fs m)
  have "list_all quiet (map (\<lambda>f. SET_ERROR f m) fs)" by (simp add: quiet_def list_all_iff)
  with UploadThrew show ?thesis using quiet_run by (simp add: chosen_by_def)
next
  case (RemoveClicked f)
  then show ?thesis by (auto simp: chosen_by_def Let_def delete_keys) (simp_all add: file_list_def)
qed (use assms in \<open>auto simp: chosen_by_def given_by_parent_def change_frame nothing_chosen upload_frame added_def Let_def
    split: list.splits option.splits\<close>)

section \<open>Only allowed files, and not too many\<close>

definition files_allowed :: "file_props \<Rightarrow> file_store \<Rightarrow> bool" where
  "files_allowed props s \<longleftrightarrow>
     distinct (file_list s) \<and> (\<forall>f \<in> set (file_list s). file_verdict props f = []) \<and>
     (case fp_max_files props of None \<Rightarrow> True | Some m \<Rightarrow> m = 0 \<or> length (file_list s) \<le> m)"

lemma files_allowed_step:
  assumes "files_allowed props s" and "\<not> given_by_parent e"
  shows "files_allowed props (file_step props s e)"
proof -
  have add: "files_allowed props s'"
    if "file_list s' = added (file_list s) (accepted_files props s chosen)" for s' chosen
  proof -
    have "length (added (file_list s) (accepted_files props s chosen)) \<le> m"
      if "fp_max_files props = Some m" "m \<noteq> 0" for m
      using length_added [of "file_list s" "accepted_files props s chosen"] accepted_room [OF that, of s chosen] that assms(1)
      by (auto simp: files_allowed_def file_list_def)
    then show ?thesis
      using assms(1) accepted_fit that
      by (auto simp: files_allowed_def set_added distinct_added split: option.splits)
  qed
  have fewer: "files_allowed props s'" if "file_list s' = removeAll f (file_list s)" for s' f
  proof -
    have "length (removeAll f (file_list s)) \<le> n" if "length (file_list s) \<le> n" for n
      using that by (rule order.trans [rotated]) (simp add: removeAll_filter_not_eq)
    then show ?thesis
      using assms(1) that by (auto simp: files_allowed_def distinct_removeAll split: option.splits)
  qed
  have same: "files_allowed props s'" if "file_list s' = file_list s" for s'
    using assms(1) that by (auto simp: files_allowed_def split: option.splits)
  have none: "files_allowed props s'" if "file_list s' = []" for s'
    using that by (simp add: files_allowed_def split: option.splits)
  note files = step_files [OF assms(2), of props s]
  show ?thesis
  proof (cases "chosen_by e \<noteq> [] \<and> \<not> fp_disabled props")
    case True
    with files add show ?thesis by auto
  next
    case False
    with files show ?thesis by (cases e) (auto intro: same fewer none split: if_splits)
  qed
qed

lemma files_allowed_run:
  "files_allowed props s \<Longrightarrow> list_all (\<lambda>e. \<not> given_by_parent e) es \<Longrightarrow> files_allowed props (foldl (file_step props) s es)"
  by (induction es arbitrary: s) (simp_all add: files_allowed_step)

lemma files_allowed_init: "files_allowed props (file_store_init b)"
  by (simp add: files_allowed_def file_store_init_def file_list_def split: option.splits)

section \<open>Every chosen file is added or rejected\<close>

definition rejected_files :: "file_note list \<Rightarrow> picked_file set" where
  "rejected_files notes = {f. \<exists>m. FileRejected f m \<in> set notes}"

lemma rejections_set:
  "rejected_files (rejections props s chosen) =
     set (snd (fitting props s chosen)) \<union> {f \<in> set (fst (fitting props s chosen)). file_verdict props f \<noteq> []}"
proof -
  have "(\<exists>m. FileRejected f m \<in> set (rejections props s chosen)) \<longleftrightarrow>
      f \<in> set (snd (fitting props s chosen)) \<or> (f \<in> set (fst (fitting props s chosen)) \<and> (\<exists>m. m \<in> set (file_verdict props f)))" for f
    by (auto simp: rejections_def case_prod_beta)
  moreover have "(\<exists>m. m \<in> set (file_verdict props f)) \<longleftrightarrow> file_verdict props f \<noteq> []" for f
    by (cases "file_verdict props f") auto
  ultimately show ?thesis by (auto simp: rejected_files_def)
qed

lemma fitting_split: "fst (fitting props s chosen) @ snd (fitting props s chosen) = chosen"
  by (simp add: fitting_def Let_def split: option.splits)

lemma chosen_split:
  "set (accepted_files props s chosen) \<union> rejected_files (rejections props s chosen) = set chosen"
  "distinct chosen \<Longrightarrow> set (accepted_files props s chosen) \<inter> rejected_files (rejections props s chosen) = {}"
proof -
  have c: "set chosen = set (fst (fitting props s chosen)) \<union> set (snd (fitting props s chosen))"
    by (metis fitting_split set_append)
  show "set (accepted_files props s chosen) \<union> rejected_files (rejections props s chosen) = set chosen"
    unfolding c rejections_set by (auto simp: accepted_files_def)
  assume "distinct chosen"
  then have "set (fst (fitting props s chosen)) \<inter> set (snd (fitting props s chosen)) = {}"
    by (metis distinct_append fitting_split)
  then show "set (accepted_files props s chosen) \<inter> rejected_files (rejections props s chosen) = {}"
    unfolding rejections_set by (auto simp: accepted_files_def)
qed

text \<open>What a choice adds to the log.\<close>

lemma change_notes:
  "\<not> fp_disabled props \<Longrightarrow>
     \<exists>ns. fu_notes (onFilesChange props chosen s) = fu_notes s @ rejections props s chosen @ ns \<and> rejected_files ns = {}"
  by (auto simp: onFilesChange_def add_accepted_def notify_def value_changed_def rejected_files_def Let_def)

section \<open>Progress\<close>

definition file_state_ok :: "file_state \<Rightarrow> bool" where
  "file_state_ok x \<longleftrightarrow>
     0 \<le> fs_progress x \<and> fs_progress x \<le> 100 \<and> (fs_status x = FileSuccess \<longrightarrow> fs_progress x = 100) \<and>
     (fs_status x = FileError \<longrightarrow> fs_error x \<noteq> None) \<and> (fs_status x = FileIdle \<longrightarrow> x = new_file_state)"

definition states_ok :: "file_store \<Rightarrow> bool" where
  "states_ok s \<longleftrightarrow> (\<forall>(f, x) \<in> set (fu_files s). file_state_ok x)"

definition action_in_range :: "store_action \<Rightarrow> bool" where
  "action_in_range a \<longleftrightarrow> (case a of SET_PROGRESS f p \<Rightarrow> 0 \<le> p \<and> p \<le> 100 | _ \<Rightarrow> True)"

lemma in_update: "(a, b) \<in> set (AList.update f v al) \<Longrightarrow> b = v \<or> (a, b) \<in> set al"
  by (induction al) (auto split: if_splits)

lemma new_file_state_ok: "file_state_ok new_file_state"
  by (simp add: file_state_ok_def new_file_state_def)

lemma states_ok_change:
  assumes "states_ok s" and "\<And>x. file_state_ok x \<Longrightarrow> file_state_ok (g x)"
  shows "states_ok (change_state f g s)"
proof (cases "map_of (fu_files s) f")
  case (Some x)
  then have "file_state_ok (g x)" using assms map_of_SomeD [OF Some] by (auto simp: states_ok_def)
  with Some assms(1) show ?thesis by (auto simp: change_state_def states_ok_def dest!: in_update)
qed (simp add: change_state_def assms(1))

lemma states_ok_frame [simp]:
  "states_ok (notify ns s) = states_ok s" "states_ok (value_changed props s) = states_ok s"
  "states_ok (revoke fs s) = states_ok s"
  by (simp_all add: states_ok_def)

lemma states_ok_fold_update:
  assumes "\<forall>(f, x) \<in> set m. file_state_ok x"
    and "\<And>m f. g m f = m \<or> g m f = AList.update f new_file_state m"
  shows "\<forall>(f, x) \<in> set (foldl g m fs). file_state_ok x"
  using assms(1)
proof (induction fs arbitrary: m)
  case (Cons f fs)
  have "\<forall>(f, x) \<in> set (g m f). file_state_ok x"
    using assms(2) [of m f] Cons.prems new_file_state_ok by (auto dest!: in_update)
  then show ?case using Cons.IH by simp
qed simp

lemma states_ok_reducer:
  assumes "states_ok s" and "action_in_range a"
  shows "states_ok (file_reducer props s a)"
proof (cases a)
  case (ADD_FILES fs)
  then show ?thesis using assms(1) states_ok_fold_update [of "fu_files s" "\<lambda>m f. AList.update f new_file_state m" fs]
    by (simp add: states_ok_def)
next
  case (SET_FILES fs)
  have "\<forall>(f, x) \<in> set (filter (\<lambda>(f, x). f \<in> set fs) (fu_files s)). file_state_ok x"
    using assms(1) by (auto simp: states_ok_def)
  from states_ok_fold_update [OF this, of "\<lambda>m f. case map_of m f of None \<Rightarrow> AList.update f new_file_state m | Some _ \<Rightarrow> m" fs]
  show ?thesis by (simp add: SET_FILES states_ok_def split: option.splits)
next
  case (REMOVE_FILE f)
  have "states_ok (s\<lparr>fu_files := AList.delete f (fu_files s)\<rparr>)"
    using assms(1) by (auto simp: states_ok_def AList.delete_eq)
  then show ?thesis by (simp add: REMOVE_FILE Let_def states_ok_def)
next
  case (SET_PROGRESS f p)
  then show ?thesis using assms by (auto intro!: states_ok_change simp: action_in_range_def file_state_ok_def)
next
  case (SET_SUCCESS f)
  then show ?thesis using assms by (auto intro!: states_ok_change simp: file_state_ok_def)
next
  case (SET_ERROR f e)
  then show ?thesis using assms by (auto intro!: states_ok_change simp: file_state_ok_def)
qed (use assms in \<open>simp_all add: Let_def states_ok_def\<close>)

lemma states_ok_actions:
  "states_ok s \<Longrightarrow> list_all action_in_range as \<Longrightarrow> states_ok (foldl (file_reducer props) s as)"
  by (induction as arbitrary: s) (simp_all add: states_ok_reducer)

lemma states_ok_notes [simp]:
  "states_ok (s\<lparr>fu_notes := x1\<rparr>) = states_ok s" "states_ok (s\<lparr>fu_timers := x2\<rparr>) = states_ok s"
  "states_ok (s\<lparr>fu_uploads := x3\<rparr>) = states_ok s" "states_ok (s\<lparr>fu_frame := x4\<rparr>) = states_ok s"
  "states_ok (s\<lparr>fu_urls := x5\<rparr>) = states_ok s" "states_ok (s\<lparr>fu_revoked := x6\<rparr>) = states_ok s"
  "states_ok (s\<lparr>fu_store := x7\<rparr>) = states_ok s" "states_ok (s\<lparr>fu_drag_over := x8\<rparr>) = states_ok s"
  "states_ok (s\<lparr>fu_invalid := x9\<rparr>) = states_ok s"
  by (simp_all add: states_ok_def)

lemma states_ok_choose: "states_ok s \<Longrightarrow> states_ok (onFilesChange props chosen s)"
proof -
  assume s: "states_ok s"
  have add: "states_ok (add_accepted props fs t)" if "states_ok t" for fs t
  proof -
    have "states_ok (file_reducer props t (ADD_FILES fs))"
      by (rule states_ok_reducer [OF that]) (simp add: action_in_range_def)
    then show ?thesis by (simp add: add_accepted_def Let_def del: file_reducer.simps)
  qed
  show ?thesis using s by (simp add: onFilesChange_def Let_def add)
qed

lemma clamp_in_range: "0 \<le> clamp_progress p" "clamp_progress p \<le> 100"
  by (simp_all add: clamp_progress_def)

lemma states_ok_step:
  assumes s: "states_ok s"
  shows "states_ok (file_step props s e)"
proof -
  have act: "states_ok (file_reducer props t a)" if "states_ok t" "action_in_range a" for t a
    using that by (rule states_ok_reducer)
  have up: "states_ok (onFilesUpload props fs t)" if "states_ok t" for fs t
    using that by (auto simp: onFilesUpload_def Let_def action_in_range_def list_all_iff intro!: states_ok_actions)
  have threw: "states_ok (foldl (file_reducer props) s (map (\<lambda>f. SET_ERROR f m) fs))" for fs m
    using s by (intro states_ok_actions) (simp_all add: action_in_range_def list_all_iff)
  show ?thesis
    by (cases e)
      (auto simp: s act up threw states_ok_choose action_in_range_def clamp_in_range Let_def
        simp del: file_reducer.simps split: list.splits option.splits)
qed

lemma states_ok_run: "states_ok s \<Longrightarrow> states_ok (foldl (file_step props) s es)"
  by (induction es arbitrary: s) (simp_all add: states_ok_step)

section \<open>Object URLs\<close>

text \<open>The URLs the previews made in a run.\<close>

fun made_urls :: "file_props \<Rightarrow> file_store \<Rightarrow> file_event list \<Rightarrow> js_string list" where
  "made_urls props s [] = []"
| "made_urls props s (e # es) =
     (case e of
        PreviewShown f url \<Rightarrow> (if fu_urls (file_step props s e) = fu_urls s then [] else [url])
      | _ \<Rightarrow> []) @ made_urls props (file_step props s e) es"

definition urls_cached :: "file_store \<Rightarrow> bool" where
  "urls_cached s \<longleftrightarrow> distinct (map fst (fu_urls s)) \<and> fst ` set (fu_urls s) \<subseteq> set (file_list s)"

lemma revoke_all:
  assumes "distinct (map fst (fu_urls s))"
  shows "snd ` set (fu_urls s) \<subseteq> set (List.map_filter (map_of (fu_urls s)) fs) \<union> snd ` set (filter (\<lambda>(f, url). f \<notin> set fs) (fu_urls s))"
proof
  fix url assume "url \<in> snd ` set (fu_urls s)"
  then obtain f where f: "(f, url) \<in> set (fu_urls s)" by auto
  then have "map_of (fu_urls s) f = Some url" using assms by simp
  with f show "url \<in> set (List.map_filter (map_of (fu_urls s)) fs) \<union> snd ` set (filter (\<lambda>(f, url). f \<notin> set fs) (fu_urls s))"
    by (cases "f \<in> set fs") (force simp: List.map_filter_def)+
qed

text \<open>A step loses no URL: what was cached or revoked still is, and a new one is cached.\<close>

definition known_urls :: "file_store \<Rightarrow> js_string set" where
  "known_urls s = set (fu_revoked s) \<union> snd ` set (fu_urls s)"

lemma urls_step:
  assumes "urls_cached s" and "\<not> given_by_parent e"
  shows "urls_cached (file_step props s e) \<and> known_urls s \<subseteq> known_urls (file_step props s e)"
proof -
  have d: "distinct (map fst (fu_urls s))" and keys: "fst ` set (fu_urls s) \<subseteq> set (file_list s)"
    using assms(1) by (simp_all add: urls_cached_def)
  have same: "urls_cached s' \<and> known_urls s \<subseteq> known_urls s'"
    if "fu_urls s' = fu_urls s" "set (fu_revoked s) \<subseteq> set (fu_revoked s')" "set (file_list s) \<subseteq> set (file_list s')" for s'
    using assms(1) that by (auto simp: urls_cached_def known_urls_def)
  have same_cached: "urls_cached s'" if "fu_urls s' = fu_urls s" "set (file_list s) \<subseteq> set (file_list s')" for s'
    using assms(1) that by (auto simp: urls_cached_def)
  have dist: "distinct (map fst (filter P (fu_urls s)))" for P using d by (rule distinct_map_filter)
  show ?thesis
  proof (cases e)
    case (RemoveClicked f)
    show ?thesis
    proof (cases "f \<in> set (file_list s)")
      case True
      have "file_list (file_step props s e) = removeAll f (file_list s)"
        using step_files [OF assms(2), of props s] RemoveClicked by (simp add: chosen_by_def)
      with True RemoveClicked keys dist revoke_all [OF d, of "[f]"] show ?thesis
        by (auto simp: urls_cached_def known_urls_def revoke_def Let_def)
    qed (use RemoveClicked assms(1) in simp)
  next
    case ClearClicked
    show ?thesis
    proof (cases "fp_disabled props")
      case False
      have "filter (\<lambda>(f, url). f \<notin> set (file_list s)) (fu_urls s) = []" using keys by (auto simp: filter_empty_conv)
      with ClearClicked False revoke_all [OF d, of "file_list s"] show ?thesis
        by (auto simp: urls_cached_def known_urls_def revoke_def Let_def)
    qed (use ClearClicked assms(1) in simp)
  next
    case (PreviewShown f url)
    show ?thesis
    proof (cases "file_step props s e = s")
      case False
      then have "f \<in> set (file_list s)" "map_of (fu_urls s) f = None"
        "file_step props s e = s\<lparr>fu_urls := (f, url) # fu_urls s\<rparr>"
        using PreviewShown by (auto split: if_splits)
      with d keys show ?thesis by (auto simp: urls_cached_def known_urls_def map_of_eq_None_iff)
    qed (use assms(1) in auto)
  next
    case (UploadThrew fs m)
    have "list_all quiet (map (\<lambda>f. SET_ERROR f m) fs)" by (simp add: quiet_def list_all_iff)
    with UploadThrew show ?thesis using quiet_run by (intro same) auto
  qed (use assms in \<open>auto intro!: same_cached simp: known_urls_def given_by_parent_def change_frame set_added upload_frame Let_def
      split: list.splits option.splits\<close>)
qed

lemma urls_run:
  "urls_cached s \<Longrightarrow> list_all (\<lambda>e. \<not> given_by_parent e) es \<Longrightarrow>
     urls_cached (foldl (file_step props) s es) \<and>
     known_urls s \<union> set (made_urls props s es) \<subseteq> known_urls (foldl (file_step props) s es)"
proof (induction es arbitrary: s)
  case (Cons e es)
  let ?s = "file_step props s e"
  have step: "urls_cached ?s" "known_urls s \<subseteq> known_urls ?s" using urls_step [of s e props] Cons.prems by auto
  have run: "urls_cached (foldl (file_step props) ?s es)"
    "known_urls ?s \<union> set (made_urls props ?s es) \<subseteq> known_urls (foldl (file_step props) ?s es)"
    using Cons.IH [OF step(1)] Cons.prems by auto
  have "set (made_urls props s (e # es)) \<subseteq> known_urls ?s \<union> set (made_urls props ?s es)"
    by (cases e) (auto simp: known_urls_def)
  with step run show ?case by auto
qed (simp add: known_urls_def)

text \<open>When the component is taken down all of them have been revoked.\<close>

lemma urls_released:
  assumes "list_all (\<lambda>e. \<not> given_by_parent e) es"
  shows "set (made_urls props (file_store_init b) es) \<subseteq>
    set (fu_revoked (file_step props (foldl (file_step props) (file_store_init b) es) FileUploadClosed))"
proof -
  let ?s = "foldl (file_step props) (file_store_init b) es"
  have "urls_cached (file_store_init b)" by (simp add: urls_cached_def file_store_init_def)
  from urls_run [OF this assms, of props] have s: "urls_cached ?s" "set (made_urls props (file_store_init b) es) \<subseteq> known_urls ?s"
    by auto
  have "snd ` set (fu_urls ?s) \<subseteq> set (List.map_filter (map_of (fu_urls ?s)) (file_list ?s))"
  proof -
    have "filter (\<lambda>(f, url). f \<notin> set (file_list ?s)) (fu_urls ?s) = []"
      using s(1) by (auto simp: urls_cached_def filter_empty_conv)
    moreover have "distinct (map fst (fu_urls ?s))" using s(1) by (simp add: urls_cached_def)
    ultimately show ?thesis using revoke_all [of ?s "file_list ?s"] by simp
  qed
  with s(2) show ?thesis by (auto simp: known_urls_def)
qed

section \<open>Flaws\<close>

text \<open>A report that waits for its frame while the upload succeeds turns the file back to uploading.\<close>

lemma late_progress:
  assumes "map_of (fu_files s) f = Some x" and "fu_frame s = None"
  shows "\<exists>y. map_of (fu_files (foldl (file_step props) s [ProgressReported f p, UploadSucceeded f, ProgressFrame])) f = Some y \<and>
    fs_status y = FileUploading"
  using assms by (simp add: change_state_def update_conv')

text \<open>The text of a file that failed once stays the error, also after its upload succeeded.\<close>

lemma error_outlives_success:
  assumes "map_of (fu_files s) f = Some x" and "m \<noteq> []"
  shows "\<exists>y. map_of (fu_files (foldl (file_step props) s [UploadFailed f m, UploadSucceeded f])) f = Some y \<and>
    fs_status y = FileSuccess \<and> statusText number y = ''Error: '' @ m"
  using assms by (simp add: change_state_def update_conv' statusText_def)

text \<open>A file its parent takes out leaves its URL behind: it is never revoked.\<close>

definition leaking_file :: picked_file where
  "leaking_file = \<lparr>jf_name = ''a.png'', jf_type = ''image/png'', jf_size = 1, fk_key = 0\<rparr>"

lemma url_left_behind:
  assumes "fp_controlled props"
  shows "fu_revoked (foldl (file_step props) (file_store_init b)
      [ValueGiven [leaking_file], PreviewShown leaking_file ''blob:1'', ValueGiven [], FileUploadClosed]) = []"
  using assms by (simp add: file_store_init_def leaking_file_def file_list_def List.map_filter_simps)

section \<open>The banner of the client resources\<close>

text \<open>\<open>features/munki/client-resources/banner-editor.tsx\<close>: the props of its upload.\<close>

definition banner_props :: "bool \<Rightarrow> bool \<Rightarrow> file_props" where
  "banner_props editable uploading =
     \<lparr>fp_controlled = False, fp_has_change = False, fp_has_upload = False,
      fp_validate = Some (\<lambda>f. validateClientResourceImage (js_file.truncate f)),
      fp_accept = Some ''image/jpeg,image/png'', fp_max_files = Some 1,
      fp_max_size = Some (5 * 1024 * 1024), fp_disabled = (\<not> editable \<or> uploading)\<rparr>"

definition banner_image :: "picked_file \<Rightarrow> bool" where
  "banner_image f \<longleftrightarrow>
     jf_type f \<in> {''image/jpeg'', ''image/png''} \<and> 0 < jf_size f \<and> jf_size f \<le> 5 * 1024 * 1024"

lemma banner_types: "acceptTypes (banner_props editable uploading) = Some [''image/jpeg'', ''image/png'']"
proof -
  have "map js_trim (js_split (CHR '','') ''image/jpeg,image/png'') = [''image/jpeg'', ''image/png'']" by code_simp
  then show ?thesis by (simp add: acceptTypes_def banner_props_def)
qed

lemma banner_type_matches:
  "type_matches f ''image/jpeg'' \<longleftrightarrow> jf_type f = ''image/jpeg''" "type_matches f ''image/png'' \<longleftrightarrow> jf_type f = ''image/png''"
proof -
  have "\<not> sublist ''/*'' ''image/jpeg''" "\<not> sublist ''/*'' ''image/png''" by code_simp+
  then show "type_matches f ''image/jpeg'' \<longleftrightarrow> jf_type f = ''image/jpeg''"
    "type_matches f ''image/png'' \<longleftrightarrow> jf_type f = ''image/png''"
    by (auto simp: type_matches_def file_extension_def)
qed

lemma banner_verdict:
  "file_verdict (banner_props editable uploading) f =
     (if jf_size f \<le> 0 \<or> 5 * 1024 * 1024 < jf_size f then [''Image must be 5 MB or smaller.'']
      else if jf_type f \<in> {''image/jpeg'', ''image/png''} then [] else [''File Type Not Accepted''])"
proof -
  have "validation_message (banner_props editable uploading) f =
      (if jf_size f \<le> 0 \<or> 5 * 1024 * 1024 < jf_size f then Some ''Image must be 5 MB or smaller.'' else None)"
    by (simp add: validation_message_def banner_props_def validateClientResourceImage_def clientResourceImageMaxSize_def
        js_file.defs)
  moreover have "fp_max_size (banner_props editable uploading) = Some (5 * 1024 * 1024)" by (simp add: banner_props_def)
  ultimately show ?thesis by (auto simp: file_verdict_def banner_types banner_type_matches)
qed

lemma banner_first_image:
  assumes "fu_files s = []"
  shows "accepted_files (banner_props editable uploading) s chosen = filter banner_image (take 1 chosen)"
proof -
  have "file_verdict (banner_props editable uploading) f = [] \<longleftrightarrow> banner_image f" for f
    by (auto simp: banner_verdict banner_image_def)
  moreover have "fst (fitting (banner_props editable uploading) s chosen) = take 1 chosen"
    using assms by (simp add: fitting_def banner_props_def Let_def)
  ultimately show ?thesis by (simp add: accepted_files_def)
qed

end
