(* ===== verification/RouteTree.thy ===== *)
theory RouteTree
  imports Navigation "HOL-Library.Multiset"
begin

text \<open>
  The routes of the application: \<open>web/src/routeTree.gen.ts\<close> (which route is mounted where) with the guards
  of the route files under \<open>web/src/routes\<close>, and the sections of a host (\<open>features/hosts/detail.tsx\<close>).

  Main results: the tree has exactly the ids and paths the generated types promise; a navigation entry or a
  host section is shown exactly if its page opens; and whatever page an account asks for, it opens or one
  redirect leads to a page that does.
\<close>

text \<open>
  What runs before a route loads: one of the guards of \<open>authn/guards.ts\<close>, for \<open>requirePermissions\<close> with the
  requirements and the page its \<open>onForbidden\<close> redirects to.
\<close>

datatype route_guard =
    NoGuard
  | EntryGuard
  | LoginGuard
  | UserGuard
  | Needs "requirement list" "js_string option"

record route_file =
  rf_id :: js_string
  rf_path :: "js_string option"
  rf_guard :: route_guard

datatype route_node = RouteNode route_file "route_node list"

section \<open>The guards of the route files\<close>

definition IndexRouteGuard :: route_guard where
  "IndexRouteGuard = EntryGuard"

definition AuthenticatedRouteGuard :: route_guard where
  "AuthenticatedRouteGuard = UserGuard"

definition LoginRouteGuard :: route_guard where
  "LoginRouteGuard = LoginGuard"

definition AuthenticatedActivityRouteGuard :: route_guard where
  "AuthenticatedActivityRouteGuard = Needs [(''activity'', ''view'')] (None)"

definition AuthenticatedHostsRouteGuard :: route_guard where
  "AuthenticatedHostsRouteGuard = Needs [(''hosts'', ''view'')] (None)"

definition AuthenticatedLabelsRouteGuard :: route_guard where
  "AuthenticatedLabelsRouteGuard = Needs [(''labels'', ''view'')] (None)"

definition AuthenticatedSoftwareRouteGuard :: route_guard where
  "AuthenticatedSoftwareRouteGuard = Needs [(''software'', ''view'')] (None)"

definition AuthenticatedDirectoryIndexRouteGuard :: route_guard where
  "AuthenticatedDirectoryIndexRouteGuard = Needs [(''directory'', ''view'')] (None)"

definition AuthenticatedDirectoryGroupsRouteGuard :: route_guard where
  "AuthenticatedDirectoryGroupsRouteGuard = Needs [(''groups'', ''view'')] (None)"

definition AuthenticatedDirectoryUsersRouteGuard :: route_guard where
  "AuthenticatedDirectoryUsersRouteGuard = Needs [(''users'', ''view'')] (None)"

definition AuthenticatedLabelsNewRouteGuard :: route_guard where
  "AuthenticatedLabelsNewRouteGuard = Needs [(''labels'', ''edit'')] (Some ''/labels'')"

definition AuthenticatedMunkiIndexRouteGuard :: route_guard where
  "AuthenticatedMunkiIndexRouteGuard = Needs [(''munki.software'', ''view'')] (None)"

definition AuthenticatedMunkiClientResourcesRouteGuard :: route_guard where
  "AuthenticatedMunkiClientResourcesRouteGuard = Needs [(''munki.client-resources'', ''view'')] (None)"

definition AuthenticatedMunkiDistributionPointsRouteGuard :: route_guard where
  "AuthenticatedMunkiDistributionPointsRouteGuard = Needs [(''munki.distribution-points'', ''view'')] (None)"

definition AuthenticatedMunkiPackagesRouteGuard :: route_guard where
  "AuthenticatedMunkiPackagesRouteGuard = Needs [(''munki.packages'', ''view'')] (None)"

definition AuthenticatedMunkiSoftwareRouteGuard :: route_guard where
  "AuthenticatedMunkiSoftwareRouteGuard = Needs [(''munki.software'', ''view'')] (None)"

definition AuthenticatedOsqueryIndexRouteGuard :: route_guard where
  "AuthenticatedOsqueryIndexRouteGuard = Needs [(''osquery.overview'', ''view'')] (None)"

definition AuthenticatedOsqueryPoliciesRouteGuard :: route_guard where
  "AuthenticatedOsqueryPoliciesRouteGuard = Needs [(''osquery.policies'', ''view'')] (None)"

definition AuthenticatedOsqueryReportsRouteGuard :: route_guard where
  "AuthenticatedOsqueryReportsRouteGuard = Needs [(''osquery.reports'', ''view'')] (None)"

definition AuthenticatedSantaIndexRouteGuard :: route_guard where
  "AuthenticatedSantaIndexRouteGuard = Needs [(''santa.configurations'', ''view'')] (None)"

definition AuthenticatedSantaConfigurationsRouteGuard :: route_guard where
  "AuthenticatedSantaConfigurationsRouteGuard = Needs [(''santa.configurations'', ''view'')] (None)"

definition AuthenticatedSantaEventsRouteGuard :: route_guard where
  "AuthenticatedSantaEventsRouteGuard = Needs [(''santa.events'', ''view'')] (None)"

definition AuthenticatedSantaRulesRouteGuard :: route_guard where
  "AuthenticatedSantaRulesRouteGuard = Needs [(''santa.rules'', ''view'')] (None)"

definition AuthenticatedDirectoryUsersNewRouteGuard :: route_guard where
  "AuthenticatedDirectoryUsersNewRouteGuard = Needs [(''users'', ''edit'')] (Some ''/directory/users'')"

definition AuthenticatedHostsIdActivityRouteGuard :: route_guard where
  "AuthenticatedHostsIdActivityRouteGuard = Needs [(''activity'', ''view'')] (None)"

definition AuthenticatedHostsIdMunkiRouteGuard :: route_guard where
  "AuthenticatedHostsIdMunkiRouteGuard = Needs [(''munki.software'', ''view'')] (None)"

definition AuthenticatedHostsIdPoliciesRouteGuard :: route_guard where
  "AuthenticatedHostsIdPoliciesRouteGuard = Needs [(''osquery.policies'', ''view'')] (None)"

definition AuthenticatedHostsIdReportsRouteGuard :: route_guard where
  "AuthenticatedHostsIdReportsRouteGuard = Needs [(''osquery.reports'', ''view'')] (None)"

definition AuthenticatedHostsIdSantaRouteGuard :: route_guard where
  "AuthenticatedHostsIdSantaRouteGuard = Needs [(''santa.configurations'', ''view''), (''santa.rules'', ''view'')] (None)"

definition AuthenticatedHostsIdSoftwareRouteGuard :: route_guard where
  "AuthenticatedHostsIdSoftwareRouteGuard = Needs [(''software'', ''view'')] (None)"

definition AuthenticatedLabelsIdEditRouteGuard :: route_guard where
  "AuthenticatedLabelsIdEditRouteGuard = Needs [(''labels'', ''edit'')] (Some ''/labels/$id'')"

definition AuthenticatedMunkiDistributionPointsNewRouteGuard :: route_guard where
  "AuthenticatedMunkiDistributionPointsNewRouteGuard = Needs [(''munki.distribution-points'', ''edit'')] (Some ''/munki/distribution-points'')"

definition AuthenticatedMunkiPackagesNewRouteGuard :: route_guard where
  "AuthenticatedMunkiPackagesNewRouteGuard = Needs [(''munki.packages'', ''edit'')] (Some ''/munki/packages'')"

definition AuthenticatedMunkiSoftwareNewRouteGuard :: route_guard where
  "AuthenticatedMunkiSoftwareNewRouteGuard = Needs [(''munki.software'', ''edit'')] (Some ''/munki/software'')"

definition AuthenticatedOsqueryPoliciesNewRouteGuard :: route_guard where
  "AuthenticatedOsqueryPoliciesNewRouteGuard = Needs [(''osquery.policies'', ''edit'')] (Some ''/osquery/policies'')"

definition AuthenticatedOsqueryReportsNewRouteGuard :: route_guard where
  "AuthenticatedOsqueryReportsNewRouteGuard = Needs [(''osquery.reports'', ''edit'')] (Some ''/osquery/reports'')"

definition AuthenticatedSantaConfigurationsNewRouteGuard :: route_guard where
  "AuthenticatedSantaConfigurationsNewRouteGuard = Needs [(''santa.configurations'', ''edit'')] (Some ''/santa/configurations'')"

definition AuthenticatedSantaRulesNewRouteGuard :: route_guard where
  "AuthenticatedSantaRulesNewRouteGuard = Needs [(''santa.rules'', ''edit'')] (Some ''/santa/rules'')"

definition AuthenticatedDirectoryUsersIdEditRouteGuard :: route_guard where
  "AuthenticatedDirectoryUsersIdEditRouteGuard = Needs [(''users'', ''edit'')] (Some ''/directory/users/$id'')"

definition AuthenticatedMunkiDistributionPointsIdEditRouteGuard :: route_guard where
  "AuthenticatedMunkiDistributionPointsIdEditRouteGuard = Needs [(''munki.distribution-points'', ''edit'')] (Some ''/munki/distribution-points/$id'')"

definition AuthenticatedMunkiPackagesIdEditRouteGuard :: route_guard where
  "AuthenticatedMunkiPackagesIdEditRouteGuard = Needs [(''munki.packages'', ''edit'')] (Some ''/munki/packages/$id'')"

definition AuthenticatedMunkiSoftwareIdEditRouteGuard :: route_guard where
  "AuthenticatedMunkiSoftwareIdEditRouteGuard = Needs [(''munki.software'', ''edit'')] (Some ''/munki/software/$id'')"

definition AuthenticatedOsqueryPoliciesIdEditRouteGuard :: route_guard where
  "AuthenticatedOsqueryPoliciesIdEditRouteGuard = Needs [(''osquery.policies'', ''edit'')] (Some ''/osquery/policies/$id'')"

definition AuthenticatedOsqueryPoliciesIdLiveRouteGuard :: route_guard where
  "AuthenticatedOsqueryPoliciesIdLiveRouteGuard = Needs [(''osquery.policies'', ''view''), (''osquery.live-queries'', ''edit'')] (Some ''/osquery/policies/$id'')"

definition AuthenticatedOsqueryPoliciesNewLiveRouteGuard :: route_guard where
  "AuthenticatedOsqueryPoliciesNewLiveRouteGuard = Needs [(''osquery.live-queries'', ''edit'')] (None)"

definition AuthenticatedOsqueryReportsIdEditRouteGuard :: route_guard where
  "AuthenticatedOsqueryReportsIdEditRouteGuard = Needs [(''osquery.reports'', ''edit'')] (Some ''/osquery/reports/$id'')"

definition AuthenticatedOsqueryReportsIdLiveRouteGuard :: route_guard where
  "AuthenticatedOsqueryReportsIdLiveRouteGuard = Needs [(''osquery.reports'', ''view''), (''osquery.live-queries'', ''edit'')] (Some ''/osquery/reports/$id'')"

definition AuthenticatedOsqueryReportsNewLiveRouteGuard :: route_guard where
  "AuthenticatedOsqueryReportsNewLiveRouteGuard = Needs [(''osquery.live-queries'', ''edit'')] (None)"

definition AuthenticatedSantaConfigurationsIdEditRouteGuard :: route_guard where
  "AuthenticatedSantaConfigurationsIdEditRouteGuard = Needs [(''santa.configurations'', ''edit'')] (Some ''/santa/configurations/$id'')"

definition AuthenticatedSantaRulesIdEditRouteGuard :: route_guard where
  "AuthenticatedSantaRulesIdEditRouteGuard = Needs [(''santa.rules'', ''edit'')] (Some ''/santa/rules/$id'')"

section \<open>The routes\<close>

definition IndexRoute :: route_file where
  "IndexRoute =
     \<lparr>rf_id = ''/'', rf_path = Some ''/'', rf_guard = IndexRouteGuard\<rparr>"

definition AuthenticatedRoute :: route_file where
  "AuthenticatedRoute =
     \<lparr>rf_id = ''/_authenticated'', rf_path = None, rf_guard = AuthenticatedRouteGuard\<rparr>"

definition LoginRoute :: route_file where
  "LoginRoute =
     \<lparr>rf_id = ''/login'', rf_path = Some ''/login'', rf_guard = LoginRouteGuard\<rparr>"

definition AuthenticatedSplatRoute :: route_file where
  "AuthenticatedSplatRoute =
     \<lparr>rf_id = ''/$'', rf_path = Some ''/$'', rf_guard = NoGuard\<rparr>"

definition AuthenticatedAccountRoute :: route_file where
  "AuthenticatedAccountRoute =
     \<lparr>rf_id = ''/account'', rf_path = Some ''/account'', rf_guard = NoGuard\<rparr>"

definition AuthenticatedActivityRoute :: route_file where
  "AuthenticatedActivityRoute =
     \<lparr>rf_id = ''/activity'', rf_path = Some ''/activity'', rf_guard = AuthenticatedActivityRouteGuard\<rparr>"

definition AuthenticatedDirectoryRoute :: route_file where
  "AuthenticatedDirectoryRoute =
     \<lparr>rf_id = ''/directory'', rf_path = Some ''/directory'', rf_guard = NoGuard\<rparr>"

definition AuthenticatedHostsRoute :: route_file where
  "AuthenticatedHostsRoute =
     \<lparr>rf_id = ''/hosts'', rf_path = Some ''/hosts'', rf_guard = AuthenticatedHostsRouteGuard\<rparr>"

definition AuthenticatedLabelsRoute :: route_file where
  "AuthenticatedLabelsRoute =
     \<lparr>rf_id = ''/labels'', rf_path = Some ''/labels'', rf_guard = AuthenticatedLabelsRouteGuard\<rparr>"

definition AuthenticatedMunkiRoute :: route_file where
  "AuthenticatedMunkiRoute =
     \<lparr>rf_id = ''/munki'', rf_path = Some ''/munki'', rf_guard = NoGuard\<rparr>"

definition AuthenticatedOsqueryRoute :: route_file where
  "AuthenticatedOsqueryRoute =
     \<lparr>rf_id = ''/osquery'', rf_path = Some ''/osquery'', rf_guard = NoGuard\<rparr>"

definition AuthenticatedSantaRoute :: route_file where
  "AuthenticatedSantaRoute =
     \<lparr>rf_id = ''/santa'', rf_path = Some ''/santa'', rf_guard = NoGuard\<rparr>"

definition AuthenticatedSoftwareRoute :: route_file where
  "AuthenticatedSoftwareRoute =
     \<lparr>rf_id = ''/software'', rf_path = Some ''/software'', rf_guard = AuthenticatedSoftwareRouteGuard\<rparr>"

definition AuthenticatedDirectoryIndexRoute :: route_file where
  "AuthenticatedDirectoryIndexRoute =
     \<lparr>rf_id = ''/'', rf_path = Some ''/'', rf_guard = AuthenticatedDirectoryIndexRouteGuard\<rparr>"

definition AuthenticatedDirectoryGroupsRoute :: route_file where
  "AuthenticatedDirectoryGroupsRoute =
     \<lparr>rf_id = ''/groups'', rf_path = Some ''/groups'', rf_guard = AuthenticatedDirectoryGroupsRouteGuard\<rparr>"

definition AuthenticatedDirectoryUsersRoute :: route_file where
  "AuthenticatedDirectoryUsersRoute =
     \<lparr>rf_id = ''/users'', rf_path = Some ''/users'', rf_guard = AuthenticatedDirectoryUsersRouteGuard\<rparr>"

definition AuthenticatedHostsIndexRoute :: route_file where
  "AuthenticatedHostsIndexRoute =
     \<lparr>rf_id = ''/'', rf_path = Some ''/'', rf_guard = NoGuard\<rparr>"

definition AuthenticatedHostsIdRoute :: route_file where
  "AuthenticatedHostsIdRoute =
     \<lparr>rf_id = ''/$id'', rf_path = Some ''/$id'', rf_guard = NoGuard\<rparr>"

definition AuthenticatedLabelsIndexRoute :: route_file where
  "AuthenticatedLabelsIndexRoute =
     \<lparr>rf_id = ''/'', rf_path = Some ''/'', rf_guard = NoGuard\<rparr>"

definition AuthenticatedLabelsIdRoute :: route_file where
  "AuthenticatedLabelsIdRoute =
     \<lparr>rf_id = ''/$id'', rf_path = Some ''/$id'', rf_guard = NoGuard\<rparr>"

definition AuthenticatedLabelsNewRoute :: route_file where
  "AuthenticatedLabelsNewRoute =
     \<lparr>rf_id = ''/new'', rf_path = Some ''/new'', rf_guard = AuthenticatedLabelsNewRouteGuard\<rparr>"

definition AuthenticatedMunkiIndexRoute :: route_file where
  "AuthenticatedMunkiIndexRoute =
     \<lparr>rf_id = ''/'', rf_path = Some ''/'', rf_guard = AuthenticatedMunkiIndexRouteGuard\<rparr>"

definition AuthenticatedMunkiClientResourcesRoute :: route_file where
  "AuthenticatedMunkiClientResourcesRoute =
     \<lparr>rf_id = ''/client-resources'', rf_path = Some ''/client-resources'', rf_guard = AuthenticatedMunkiClientResourcesRouteGuard\<rparr>"

definition AuthenticatedMunkiDistributionPointsRoute :: route_file where
  "AuthenticatedMunkiDistributionPointsRoute =
     \<lparr>rf_id = ''/distribution-points'', rf_path = Some ''/distribution-points'', rf_guard = AuthenticatedMunkiDistributionPointsRouteGuard\<rparr>"

definition AuthenticatedMunkiPackagesRoute :: route_file where
  "AuthenticatedMunkiPackagesRoute =
     \<lparr>rf_id = ''/packages'', rf_path = Some ''/packages'', rf_guard = AuthenticatedMunkiPackagesRouteGuard\<rparr>"

definition AuthenticatedMunkiSoftwareRoute :: route_file where
  "AuthenticatedMunkiSoftwareRoute =
     \<lparr>rf_id = ''/software'', rf_path = Some ''/software'', rf_guard = AuthenticatedMunkiSoftwareRouteGuard\<rparr>"

definition AuthenticatedOsqueryIndexRoute :: route_file where
  "AuthenticatedOsqueryIndexRoute =
     \<lparr>rf_id = ''/'', rf_path = Some ''/'', rf_guard = AuthenticatedOsqueryIndexRouteGuard\<rparr>"

definition AuthenticatedOsqueryPoliciesRoute :: route_file where
  "AuthenticatedOsqueryPoliciesRoute =
     \<lparr>rf_id = ''/policies'', rf_path = Some ''/policies'', rf_guard = AuthenticatedOsqueryPoliciesRouteGuard\<rparr>"

definition AuthenticatedOsqueryReportsRoute :: route_file where
  "AuthenticatedOsqueryReportsRoute =
     \<lparr>rf_id = ''/reports'', rf_path = Some ''/reports'', rf_guard = AuthenticatedOsqueryReportsRouteGuard\<rparr>"

definition AuthenticatedSantaIndexRoute :: route_file where
  "AuthenticatedSantaIndexRoute =
     \<lparr>rf_id = ''/'', rf_path = Some ''/'', rf_guard = AuthenticatedSantaIndexRouteGuard\<rparr>"

definition AuthenticatedSantaConfigurationsRoute :: route_file where
  "AuthenticatedSantaConfigurationsRoute =
     \<lparr>rf_id = ''/configurations'', rf_path = Some ''/configurations'', rf_guard = AuthenticatedSantaConfigurationsRouteGuard\<rparr>"

definition AuthenticatedSantaEventsRoute :: route_file where
  "AuthenticatedSantaEventsRoute =
     \<lparr>rf_id = ''/events'', rf_path = Some ''/events'', rf_guard = AuthenticatedSantaEventsRouteGuard\<rparr>"

definition AuthenticatedSantaRulesRoute :: route_file where
  "AuthenticatedSantaRulesRoute =
     \<lparr>rf_id = ''/rules'', rf_path = Some ''/rules'', rf_guard = AuthenticatedSantaRulesRouteGuard\<rparr>"

definition AuthenticatedSoftwareIndexRoute :: route_file where
  "AuthenticatedSoftwareIndexRoute =
     \<lparr>rf_id = ''/'', rf_path = Some ''/'', rf_guard = NoGuard\<rparr>"

definition AuthenticatedDirectoryGroupsIndexRoute :: route_file where
  "AuthenticatedDirectoryGroupsIndexRoute =
     \<lparr>rf_id = ''/'', rf_path = Some ''/'', rf_guard = NoGuard\<rparr>"

definition AuthenticatedDirectoryUsersIndexRoute :: route_file where
  "AuthenticatedDirectoryUsersIndexRoute =
     \<lparr>rf_id = ''/'', rf_path = Some ''/'', rf_guard = NoGuard\<rparr>"

definition AuthenticatedDirectoryUsersIdRoute :: route_file where
  "AuthenticatedDirectoryUsersIdRoute =
     \<lparr>rf_id = ''/$id'', rf_path = Some ''/$id'', rf_guard = NoGuard\<rparr>"

definition AuthenticatedDirectoryUsersNewRoute :: route_file where
  "AuthenticatedDirectoryUsersNewRoute =
     \<lparr>rf_id = ''/new'', rf_path = Some ''/new'', rf_guard = AuthenticatedDirectoryUsersNewRouteGuard\<rparr>"

definition AuthenticatedHostsIdIndexRoute :: route_file where
  "AuthenticatedHostsIdIndexRoute =
     \<lparr>rf_id = ''/'', rf_path = Some ''/'', rf_guard = NoGuard\<rparr>"

definition AuthenticatedHostsIdActivityRoute :: route_file where
  "AuthenticatedHostsIdActivityRoute =
     \<lparr>rf_id = ''/activity'', rf_path = Some ''/activity'', rf_guard = AuthenticatedHostsIdActivityRouteGuard\<rparr>"

definition AuthenticatedHostsIdMunkiRoute :: route_file where
  "AuthenticatedHostsIdMunkiRoute =
     \<lparr>rf_id = ''/munki'', rf_path = Some ''/munki'', rf_guard = AuthenticatedHostsIdMunkiRouteGuard\<rparr>"

definition AuthenticatedHostsIdPoliciesRoute :: route_file where
  "AuthenticatedHostsIdPoliciesRoute =
     \<lparr>rf_id = ''/policies'', rf_path = Some ''/policies'', rf_guard = AuthenticatedHostsIdPoliciesRouteGuard\<rparr>"

definition AuthenticatedHostsIdReportsRoute :: route_file where
  "AuthenticatedHostsIdReportsRoute =
     \<lparr>rf_id = ''/reports'', rf_path = Some ''/reports'', rf_guard = AuthenticatedHostsIdReportsRouteGuard\<rparr>"

definition AuthenticatedHostsIdSantaRoute :: route_file where
  "AuthenticatedHostsIdSantaRoute =
     \<lparr>rf_id = ''/santa'', rf_path = Some ''/santa'', rf_guard = AuthenticatedHostsIdSantaRouteGuard\<rparr>"

definition AuthenticatedHostsIdSoftwareRoute :: route_file where
  "AuthenticatedHostsIdSoftwareRoute =
     \<lparr>rf_id = ''/software'', rf_path = Some ''/software'', rf_guard = AuthenticatedHostsIdSoftwareRouteGuard\<rparr>"

definition AuthenticatedLabelsIdIndexRoute :: route_file where
  "AuthenticatedLabelsIdIndexRoute =
     \<lparr>rf_id = ''/'', rf_path = Some ''/'', rf_guard = NoGuard\<rparr>"

definition AuthenticatedLabelsIdEditRoute :: route_file where
  "AuthenticatedLabelsIdEditRoute =
     \<lparr>rf_id = ''/edit'', rf_path = Some ''/edit'', rf_guard = AuthenticatedLabelsIdEditRouteGuard\<rparr>"

definition AuthenticatedMunkiDistributionPointsIndexRoute :: route_file where
  "AuthenticatedMunkiDistributionPointsIndexRoute =
     \<lparr>rf_id = ''/'', rf_path = Some ''/'', rf_guard = NoGuard\<rparr>"

definition AuthenticatedMunkiDistributionPointsIdRoute :: route_file where
  "AuthenticatedMunkiDistributionPointsIdRoute =
     \<lparr>rf_id = ''/$id'', rf_path = Some ''/$id'', rf_guard = NoGuard\<rparr>"

definition AuthenticatedMunkiDistributionPointsNewRoute :: route_file where
  "AuthenticatedMunkiDistributionPointsNewRoute =
     \<lparr>rf_id = ''/new'', rf_path = Some ''/new'', rf_guard = AuthenticatedMunkiDistributionPointsNewRouteGuard\<rparr>"

definition AuthenticatedMunkiPackagesIndexRoute :: route_file where
  "AuthenticatedMunkiPackagesIndexRoute =
     \<lparr>rf_id = ''/'', rf_path = Some ''/'', rf_guard = NoGuard\<rparr>"

definition AuthenticatedMunkiPackagesIdRoute :: route_file where
  "AuthenticatedMunkiPackagesIdRoute =
     \<lparr>rf_id = ''/$id'', rf_path = Some ''/$id'', rf_guard = NoGuard\<rparr>"

definition AuthenticatedMunkiPackagesNewRoute :: route_file where
  "AuthenticatedMunkiPackagesNewRoute =
     \<lparr>rf_id = ''/new'', rf_path = Some ''/new'', rf_guard = AuthenticatedMunkiPackagesNewRouteGuard\<rparr>"

definition AuthenticatedMunkiSoftwareIndexRoute :: route_file where
  "AuthenticatedMunkiSoftwareIndexRoute =
     \<lparr>rf_id = ''/'', rf_path = Some ''/'', rf_guard = NoGuard\<rparr>"

definition AuthenticatedMunkiSoftwareIdRoute :: route_file where
  "AuthenticatedMunkiSoftwareIdRoute =
     \<lparr>rf_id = ''/$id'', rf_path = Some ''/$id'', rf_guard = NoGuard\<rparr>"

definition AuthenticatedMunkiSoftwareNewRoute :: route_file where
  "AuthenticatedMunkiSoftwareNewRoute =
     \<lparr>rf_id = ''/new'', rf_path = Some ''/new'', rf_guard = AuthenticatedMunkiSoftwareNewRouteGuard\<rparr>"

definition AuthenticatedOsqueryPoliciesIndexRoute :: route_file where
  "AuthenticatedOsqueryPoliciesIndexRoute =
     \<lparr>rf_id = ''/'', rf_path = Some ''/'', rf_guard = NoGuard\<rparr>"

definition AuthenticatedOsqueryPoliciesIdRoute :: route_file where
  "AuthenticatedOsqueryPoliciesIdRoute =
     \<lparr>rf_id = ''/$id'', rf_path = Some ''/$id'', rf_guard = NoGuard\<rparr>"

definition AuthenticatedOsqueryPoliciesNewRoute :: route_file where
  "AuthenticatedOsqueryPoliciesNewRoute =
     \<lparr>rf_id = ''/new'', rf_path = Some ''/new'', rf_guard = AuthenticatedOsqueryPoliciesNewRouteGuard\<rparr>"

definition AuthenticatedOsqueryReportsIndexRoute :: route_file where
  "AuthenticatedOsqueryReportsIndexRoute =
     \<lparr>rf_id = ''/'', rf_path = Some ''/'', rf_guard = NoGuard\<rparr>"

definition AuthenticatedOsqueryReportsIdRoute :: route_file where
  "AuthenticatedOsqueryReportsIdRoute =
     \<lparr>rf_id = ''/$id'', rf_path = Some ''/$id'', rf_guard = NoGuard\<rparr>"

definition AuthenticatedOsqueryReportsNewRoute :: route_file where
  "AuthenticatedOsqueryReportsNewRoute =
     \<lparr>rf_id = ''/new'', rf_path = Some ''/new'', rf_guard = AuthenticatedOsqueryReportsNewRouteGuard\<rparr>"

definition AuthenticatedSantaConfigurationsIndexRoute :: route_file where
  "AuthenticatedSantaConfigurationsIndexRoute =
     \<lparr>rf_id = ''/'', rf_path = Some ''/'', rf_guard = NoGuard\<rparr>"

definition AuthenticatedSantaConfigurationsIdRoute :: route_file where
  "AuthenticatedSantaConfigurationsIdRoute =
     \<lparr>rf_id = ''/$id'', rf_path = Some ''/$id'', rf_guard = NoGuard\<rparr>"

definition AuthenticatedSantaConfigurationsNewRoute :: route_file where
  "AuthenticatedSantaConfigurationsNewRoute =
     \<lparr>rf_id = ''/new'', rf_path = Some ''/new'', rf_guard = AuthenticatedSantaConfigurationsNewRouteGuard\<rparr>"

definition AuthenticatedSantaEventsIndexRoute :: route_file where
  "AuthenticatedSantaEventsIndexRoute =
     \<lparr>rf_id = ''/'', rf_path = Some ''/'', rf_guard = NoGuard\<rparr>"

definition AuthenticatedSantaEventsIdRoute :: route_file where
  "AuthenticatedSantaEventsIdRoute =
     \<lparr>rf_id = ''/$id'', rf_path = Some ''/$id'', rf_guard = NoGuard\<rparr>"

definition AuthenticatedSantaEventsFileAccessRoute :: route_file where
  "AuthenticatedSantaEventsFileAccessRoute =
     \<lparr>rf_id = ''/file-access'', rf_path = Some ''/file-access'', rf_guard = NoGuard\<rparr>"

definition AuthenticatedSantaRulesIndexRoute :: route_file where
  "AuthenticatedSantaRulesIndexRoute =
     \<lparr>rf_id = ''/'', rf_path = Some ''/'', rf_guard = NoGuard\<rparr>"

definition AuthenticatedSantaRulesIdRoute :: route_file where
  "AuthenticatedSantaRulesIdRoute =
     \<lparr>rf_id = ''/$id'', rf_path = Some ''/$id'', rf_guard = NoGuard\<rparr>"

definition AuthenticatedSantaRulesNewRoute :: route_file where
  "AuthenticatedSantaRulesNewRoute =
     \<lparr>rf_id = ''/new'', rf_path = Some ''/new'', rf_guard = AuthenticatedSantaRulesNewRouteGuard\<rparr>"

definition AuthenticatedSoftwareTitlesIdRoute :: route_file where
  "AuthenticatedSoftwareTitlesIdRoute =
     \<lparr>rf_id = ''/titles/$id'', rf_path = Some ''/titles/$id'', rf_guard = NoGuard\<rparr>"

definition AuthenticatedDirectoryUsersIdIndexRoute :: route_file where
  "AuthenticatedDirectoryUsersIdIndexRoute =
     \<lparr>rf_id = ''/'', rf_path = Some ''/'', rf_guard = NoGuard\<rparr>"

definition AuthenticatedDirectoryUsersIdEditRoute :: route_file where
  "AuthenticatedDirectoryUsersIdEditRoute =
     \<lparr>rf_id = ''/edit'', rf_path = Some ''/edit'', rf_guard = AuthenticatedDirectoryUsersIdEditRouteGuard\<rparr>"

definition AuthenticatedMunkiDistributionPointsIdIndexRoute :: route_file where
  "AuthenticatedMunkiDistributionPointsIdIndexRoute =
     \<lparr>rf_id = ''/'', rf_path = Some ''/'', rf_guard = NoGuard\<rparr>"

definition AuthenticatedMunkiDistributionPointsIdEditRoute :: route_file where
  "AuthenticatedMunkiDistributionPointsIdEditRoute =
     \<lparr>rf_id = ''/edit'', rf_path = Some ''/edit'', rf_guard = AuthenticatedMunkiDistributionPointsIdEditRouteGuard\<rparr>"

definition AuthenticatedMunkiPackagesIdIndexRoute :: route_file where
  "AuthenticatedMunkiPackagesIdIndexRoute =
     \<lparr>rf_id = ''/'', rf_path = Some ''/'', rf_guard = NoGuard\<rparr>"

definition AuthenticatedMunkiPackagesIdEditRoute :: route_file where
  "AuthenticatedMunkiPackagesIdEditRoute =
     \<lparr>rf_id = ''/edit'', rf_path = Some ''/edit'', rf_guard = AuthenticatedMunkiPackagesIdEditRouteGuard\<rparr>"

definition AuthenticatedMunkiSoftwareIdIndexRoute :: route_file where
  "AuthenticatedMunkiSoftwareIdIndexRoute =
     \<lparr>rf_id = ''/'', rf_path = Some ''/'', rf_guard = NoGuard\<rparr>"

definition AuthenticatedMunkiSoftwareIdEditRoute :: route_file where
  "AuthenticatedMunkiSoftwareIdEditRoute =
     \<lparr>rf_id = ''/edit'', rf_path = Some ''/edit'', rf_guard = AuthenticatedMunkiSoftwareIdEditRouteGuard\<rparr>"

definition AuthenticatedOsqueryPoliciesIdIndexRoute :: route_file where
  "AuthenticatedOsqueryPoliciesIdIndexRoute =
     \<lparr>rf_id = ''/'', rf_path = Some ''/'', rf_guard = NoGuard\<rparr>"

definition AuthenticatedOsqueryPoliciesIdEditRoute :: route_file where
  "AuthenticatedOsqueryPoliciesIdEditRoute =
     \<lparr>rf_id = ''/edit'', rf_path = Some ''/edit'', rf_guard = AuthenticatedOsqueryPoliciesIdEditRouteGuard\<rparr>"

definition AuthenticatedOsqueryPoliciesIdLiveRoute :: route_file where
  "AuthenticatedOsqueryPoliciesIdLiveRoute =
     \<lparr>rf_id = ''/live'', rf_path = Some ''/live'', rf_guard = AuthenticatedOsqueryPoliciesIdLiveRouteGuard\<rparr>"

definition AuthenticatedOsqueryPoliciesNewIndexRoute :: route_file where
  "AuthenticatedOsqueryPoliciesNewIndexRoute =
     \<lparr>rf_id = ''/'', rf_path = Some ''/'', rf_guard = NoGuard\<rparr>"

definition AuthenticatedOsqueryPoliciesNewLiveRoute :: route_file where
  "AuthenticatedOsqueryPoliciesNewLiveRoute =
     \<lparr>rf_id = ''/live'', rf_path = Some ''/live'', rf_guard = AuthenticatedOsqueryPoliciesNewLiveRouteGuard\<rparr>"

definition AuthenticatedOsqueryReportsIdIndexRoute :: route_file where
  "AuthenticatedOsqueryReportsIdIndexRoute =
     \<lparr>rf_id = ''/'', rf_path = Some ''/'', rf_guard = NoGuard\<rparr>"

definition AuthenticatedOsqueryReportsIdEditRoute :: route_file where
  "AuthenticatedOsqueryReportsIdEditRoute =
     \<lparr>rf_id = ''/edit'', rf_path = Some ''/edit'', rf_guard = AuthenticatedOsqueryReportsIdEditRouteGuard\<rparr>"

definition AuthenticatedOsqueryReportsIdLiveRoute :: route_file where
  "AuthenticatedOsqueryReportsIdLiveRoute =
     \<lparr>rf_id = ''/live'', rf_path = Some ''/live'', rf_guard = AuthenticatedOsqueryReportsIdLiveRouteGuard\<rparr>"

definition AuthenticatedOsqueryReportsNewIndexRoute :: route_file where
  "AuthenticatedOsqueryReportsNewIndexRoute =
     \<lparr>rf_id = ''/'', rf_path = Some ''/'', rf_guard = NoGuard\<rparr>"

definition AuthenticatedOsqueryReportsNewLiveRoute :: route_file where
  "AuthenticatedOsqueryReportsNewLiveRoute =
     \<lparr>rf_id = ''/live'', rf_path = Some ''/live'', rf_guard = AuthenticatedOsqueryReportsNewLiveRouteGuard\<rparr>"

definition AuthenticatedSantaConfigurationsIdIndexRoute :: route_file where
  "AuthenticatedSantaConfigurationsIdIndexRoute =
     \<lparr>rf_id = ''/'', rf_path = Some ''/'', rf_guard = NoGuard\<rparr>"

definition AuthenticatedSantaConfigurationsIdEditRoute :: route_file where
  "AuthenticatedSantaConfigurationsIdEditRoute =
     \<lparr>rf_id = ''/edit'', rf_path = Some ''/edit'', rf_guard = AuthenticatedSantaConfigurationsIdEditRouteGuard\<rparr>"

definition AuthenticatedSantaEventsFileAccessIndexRoute :: route_file where
  "AuthenticatedSantaEventsFileAccessIndexRoute =
     \<lparr>rf_id = ''/'', rf_path = Some ''/'', rf_guard = NoGuard\<rparr>"

definition AuthenticatedSantaEventsFileAccessIdRoute :: route_file where
  "AuthenticatedSantaEventsFileAccessIdRoute =
     \<lparr>rf_id = ''/$id'', rf_path = Some ''/$id'', rf_guard = NoGuard\<rparr>"

definition AuthenticatedSantaRulesIdIndexRoute :: route_file where
  "AuthenticatedSantaRulesIdIndexRoute =
     \<lparr>rf_id = ''/'', rf_path = Some ''/'', rf_guard = NoGuard\<rparr>"

definition AuthenticatedSantaRulesIdEditRoute :: route_file where
  "AuthenticatedSantaRulesIdEditRoute =
     \<lparr>rf_id = ''/edit'', rf_path = Some ''/edit'', rf_guard = AuthenticatedSantaRulesIdEditRouteGuard\<rparr>"

section \<open>The tree\<close>

definition AuthenticatedDirectoryGroupsRouteWithChildren :: route_node where
  "AuthenticatedDirectoryGroupsRouteWithChildren = RouteNode AuthenticatedDirectoryGroupsRoute
     [RouteNode AuthenticatedDirectoryGroupsIndexRoute []]"

definition AuthenticatedDirectoryUsersIdRouteWithChildren :: route_node where
  "AuthenticatedDirectoryUsersIdRouteWithChildren = RouteNode AuthenticatedDirectoryUsersIdRoute
     [RouteNode AuthenticatedDirectoryUsersIdEditRoute [],
      RouteNode AuthenticatedDirectoryUsersIdIndexRoute []]"

definition AuthenticatedDirectoryUsersRouteWithChildren :: route_node where
  "AuthenticatedDirectoryUsersRouteWithChildren = RouteNode AuthenticatedDirectoryUsersRoute
     [AuthenticatedDirectoryUsersIdRouteWithChildren,
      RouteNode AuthenticatedDirectoryUsersNewRoute [],
      RouteNode AuthenticatedDirectoryUsersIndexRoute []]"

definition AuthenticatedDirectoryRouteWithChildren :: route_node where
  "AuthenticatedDirectoryRouteWithChildren = RouteNode AuthenticatedDirectoryRoute
     [AuthenticatedDirectoryGroupsRouteWithChildren,
      AuthenticatedDirectoryUsersRouteWithChildren,
      RouteNode AuthenticatedDirectoryIndexRoute []]"

definition AuthenticatedHostsIdRouteWithChildren :: route_node where
  "AuthenticatedHostsIdRouteWithChildren = RouteNode AuthenticatedHostsIdRoute
     [RouteNode AuthenticatedHostsIdActivityRoute [],
      RouteNode AuthenticatedHostsIdMunkiRoute [],
      RouteNode AuthenticatedHostsIdPoliciesRoute [],
      RouteNode AuthenticatedHostsIdReportsRoute [],
      RouteNode AuthenticatedHostsIdSantaRoute [],
      RouteNode AuthenticatedHostsIdSoftwareRoute [],
      RouteNode AuthenticatedHostsIdIndexRoute []]"

definition AuthenticatedHostsRouteWithChildren :: route_node where
  "AuthenticatedHostsRouteWithChildren = RouteNode AuthenticatedHostsRoute
     [AuthenticatedHostsIdRouteWithChildren,
      RouteNode AuthenticatedHostsIndexRoute []]"

definition AuthenticatedLabelsIdRouteWithChildren :: route_node where
  "AuthenticatedLabelsIdRouteWithChildren = RouteNode AuthenticatedLabelsIdRoute
     [RouteNode AuthenticatedLabelsIdEditRoute [],
      RouteNode AuthenticatedLabelsIdIndexRoute []]"

definition AuthenticatedLabelsRouteWithChildren :: route_node where
  "AuthenticatedLabelsRouteWithChildren = RouteNode AuthenticatedLabelsRoute
     [AuthenticatedLabelsIdRouteWithChildren,
      RouteNode AuthenticatedLabelsNewRoute [],
      RouteNode AuthenticatedLabelsIndexRoute []]"

definition AuthenticatedMunkiDistributionPointsIdRouteWithChildren :: route_node where
  "AuthenticatedMunkiDistributionPointsIdRouteWithChildren = RouteNode AuthenticatedMunkiDistributionPointsIdRoute
     [RouteNode AuthenticatedMunkiDistributionPointsIdEditRoute [],
      RouteNode AuthenticatedMunkiDistributionPointsIdIndexRoute []]"

definition AuthenticatedMunkiDistributionPointsRouteWithChildren :: route_node where
  "AuthenticatedMunkiDistributionPointsRouteWithChildren = RouteNode AuthenticatedMunkiDistributionPointsRoute
     [AuthenticatedMunkiDistributionPointsIdRouteWithChildren,
      RouteNode AuthenticatedMunkiDistributionPointsNewRoute [],
      RouteNode AuthenticatedMunkiDistributionPointsIndexRoute []]"

definition AuthenticatedMunkiPackagesIdRouteWithChildren :: route_node where
  "AuthenticatedMunkiPackagesIdRouteWithChildren = RouteNode AuthenticatedMunkiPackagesIdRoute
     [RouteNode AuthenticatedMunkiPackagesIdEditRoute [],
      RouteNode AuthenticatedMunkiPackagesIdIndexRoute []]"

definition AuthenticatedMunkiPackagesRouteWithChildren :: route_node where
  "AuthenticatedMunkiPackagesRouteWithChildren = RouteNode AuthenticatedMunkiPackagesRoute
     [AuthenticatedMunkiPackagesIdRouteWithChildren,
      RouteNode AuthenticatedMunkiPackagesNewRoute [],
      RouteNode AuthenticatedMunkiPackagesIndexRoute []]"

definition AuthenticatedMunkiSoftwareIdRouteWithChildren :: route_node where
  "AuthenticatedMunkiSoftwareIdRouteWithChildren = RouteNode AuthenticatedMunkiSoftwareIdRoute
     [RouteNode AuthenticatedMunkiSoftwareIdEditRoute [],
      RouteNode AuthenticatedMunkiSoftwareIdIndexRoute []]"

definition AuthenticatedMunkiSoftwareRouteWithChildren :: route_node where
  "AuthenticatedMunkiSoftwareRouteWithChildren = RouteNode AuthenticatedMunkiSoftwareRoute
     [AuthenticatedMunkiSoftwareIdRouteWithChildren,
      RouteNode AuthenticatedMunkiSoftwareNewRoute [],
      RouteNode AuthenticatedMunkiSoftwareIndexRoute []]"

definition AuthenticatedMunkiRouteWithChildren :: route_node where
  "AuthenticatedMunkiRouteWithChildren = RouteNode AuthenticatedMunkiRoute
     [RouteNode AuthenticatedMunkiClientResourcesRoute [],
      AuthenticatedMunkiDistributionPointsRouteWithChildren,
      AuthenticatedMunkiPackagesRouteWithChildren,
      AuthenticatedMunkiSoftwareRouteWithChildren,
      RouteNode AuthenticatedMunkiIndexRoute []]"

definition AuthenticatedOsqueryPoliciesIdRouteWithChildren :: route_node where
  "AuthenticatedOsqueryPoliciesIdRouteWithChildren = RouteNode AuthenticatedOsqueryPoliciesIdRoute
     [RouteNode AuthenticatedOsqueryPoliciesIdEditRoute [],
      RouteNode AuthenticatedOsqueryPoliciesIdLiveRoute [],
      RouteNode AuthenticatedOsqueryPoliciesIdIndexRoute []]"

definition AuthenticatedOsqueryPoliciesNewRouteWithChildren :: route_node where
  "AuthenticatedOsqueryPoliciesNewRouteWithChildren = RouteNode AuthenticatedOsqueryPoliciesNewRoute
     [RouteNode AuthenticatedOsqueryPoliciesNewLiveRoute [],
      RouteNode AuthenticatedOsqueryPoliciesNewIndexRoute []]"

definition AuthenticatedOsqueryPoliciesRouteWithChildren :: route_node where
  "AuthenticatedOsqueryPoliciesRouteWithChildren = RouteNode AuthenticatedOsqueryPoliciesRoute
     [AuthenticatedOsqueryPoliciesIdRouteWithChildren,
      AuthenticatedOsqueryPoliciesNewRouteWithChildren,
      RouteNode AuthenticatedOsqueryPoliciesIndexRoute []]"

definition AuthenticatedOsqueryReportsIdRouteWithChildren :: route_node where
  "AuthenticatedOsqueryReportsIdRouteWithChildren = RouteNode AuthenticatedOsqueryReportsIdRoute
     [RouteNode AuthenticatedOsqueryReportsIdEditRoute [],
      RouteNode AuthenticatedOsqueryReportsIdLiveRoute [],
      RouteNode AuthenticatedOsqueryReportsIdIndexRoute []]"

definition AuthenticatedOsqueryReportsNewRouteWithChildren :: route_node where
  "AuthenticatedOsqueryReportsNewRouteWithChildren = RouteNode AuthenticatedOsqueryReportsNewRoute
     [RouteNode AuthenticatedOsqueryReportsNewLiveRoute [],
      RouteNode AuthenticatedOsqueryReportsNewIndexRoute []]"

definition AuthenticatedOsqueryReportsRouteWithChildren :: route_node where
  "AuthenticatedOsqueryReportsRouteWithChildren = RouteNode AuthenticatedOsqueryReportsRoute
     [AuthenticatedOsqueryReportsIdRouteWithChildren,
      AuthenticatedOsqueryReportsNewRouteWithChildren,
      RouteNode AuthenticatedOsqueryReportsIndexRoute []]"

definition AuthenticatedOsqueryRouteWithChildren :: route_node where
  "AuthenticatedOsqueryRouteWithChildren = RouteNode AuthenticatedOsqueryRoute
     [AuthenticatedOsqueryPoliciesRouteWithChildren,
      AuthenticatedOsqueryReportsRouteWithChildren,
      RouteNode AuthenticatedOsqueryIndexRoute []]"

definition AuthenticatedSantaConfigurationsIdRouteWithChildren :: route_node where
  "AuthenticatedSantaConfigurationsIdRouteWithChildren = RouteNode AuthenticatedSantaConfigurationsIdRoute
     [RouteNode AuthenticatedSantaConfigurationsIdEditRoute [],
      RouteNode AuthenticatedSantaConfigurationsIdIndexRoute []]"

definition AuthenticatedSantaConfigurationsRouteWithChildren :: route_node where
  "AuthenticatedSantaConfigurationsRouteWithChildren = RouteNode AuthenticatedSantaConfigurationsRoute
     [AuthenticatedSantaConfigurationsIdRouteWithChildren,
      RouteNode AuthenticatedSantaConfigurationsNewRoute [],
      RouteNode AuthenticatedSantaConfigurationsIndexRoute []]"

definition AuthenticatedSantaEventsFileAccessRouteWithChildren :: route_node where
  "AuthenticatedSantaEventsFileAccessRouteWithChildren = RouteNode AuthenticatedSantaEventsFileAccessRoute
     [RouteNode AuthenticatedSantaEventsFileAccessIdRoute [],
      RouteNode AuthenticatedSantaEventsFileAccessIndexRoute []]"

definition AuthenticatedSantaEventsRouteWithChildren :: route_node where
  "AuthenticatedSantaEventsRouteWithChildren = RouteNode AuthenticatedSantaEventsRoute
     [RouteNode AuthenticatedSantaEventsIdRoute [],
      AuthenticatedSantaEventsFileAccessRouteWithChildren,
      RouteNode AuthenticatedSantaEventsIndexRoute []]"

definition AuthenticatedSantaRulesIdRouteWithChildren :: route_node where
  "AuthenticatedSantaRulesIdRouteWithChildren = RouteNode AuthenticatedSantaRulesIdRoute
     [RouteNode AuthenticatedSantaRulesIdEditRoute [],
      RouteNode AuthenticatedSantaRulesIdIndexRoute []]"

definition AuthenticatedSantaRulesRouteWithChildren :: route_node where
  "AuthenticatedSantaRulesRouteWithChildren = RouteNode AuthenticatedSantaRulesRoute
     [AuthenticatedSantaRulesIdRouteWithChildren,
      RouteNode AuthenticatedSantaRulesNewRoute [],
      RouteNode AuthenticatedSantaRulesIndexRoute []]"

definition AuthenticatedSantaRouteWithChildren :: route_node where
  "AuthenticatedSantaRouteWithChildren = RouteNode AuthenticatedSantaRoute
     [AuthenticatedSantaConfigurationsRouteWithChildren,
      AuthenticatedSantaEventsRouteWithChildren,
      AuthenticatedSantaRulesRouteWithChildren,
      RouteNode AuthenticatedSantaIndexRoute []]"

definition AuthenticatedSoftwareRouteWithChildren :: route_node where
  "AuthenticatedSoftwareRouteWithChildren = RouteNode AuthenticatedSoftwareRoute
     [RouteNode AuthenticatedSoftwareIndexRoute [],
      RouteNode AuthenticatedSoftwareTitlesIdRoute []]"

definition AuthenticatedRouteWithChildren :: route_node where
  "AuthenticatedRouteWithChildren = RouteNode AuthenticatedRoute
     [RouteNode AuthenticatedSplatRoute [],
      RouteNode AuthenticatedAccountRoute [],
      RouteNode AuthenticatedActivityRoute [],
      AuthenticatedDirectoryRouteWithChildren,
      AuthenticatedHostsRouteWithChildren,
      AuthenticatedLabelsRouteWithChildren,
      AuthenticatedMunkiRouteWithChildren,
      AuthenticatedOsqueryRouteWithChildren,
      AuthenticatedSantaRouteWithChildren,
      AuthenticatedSoftwareRouteWithChildren]"

definition routeTree :: "route_node list" where
  "routeTree =
     [RouteNode IndexRoute [],
      AuthenticatedRouteWithChildren,
      RouteNode LoginRoute []]"

section \<open>The generated types\<close>

text \<open>An entry of \<open>FileRoutesByPath\<close>: id, path, full path, route and parent.\<close>

type_synonym route_entry =
  "js_string \<times> js_string \<times> js_string \<times> route_file \<times> route_file option"

definition FileRoutesByFullPath :: "(js_string \<times> route_file) list" where
  "FileRoutesByFullPath = [
      (''/'', IndexRoute),
      (''/login'', LoginRoute),
      (''/$'', AuthenticatedSplatRoute),
      (''/account'', AuthenticatedAccountRoute),
      (''/activity'', AuthenticatedActivityRoute),
      (''/directory'', AuthenticatedDirectoryRoute),
      (''/hosts'', AuthenticatedHostsRoute),
      (''/labels'', AuthenticatedLabelsRoute),
      (''/munki'', AuthenticatedMunkiRoute),
      (''/osquery'', AuthenticatedOsqueryRoute),
      (''/santa'', AuthenticatedSantaRoute),
      (''/software'', AuthenticatedSoftwareRoute),
      (''/directory/groups'', AuthenticatedDirectoryGroupsRoute),
      (''/directory/users'', AuthenticatedDirectoryUsersRoute),
      (''/hosts/$id'', AuthenticatedHostsIdRoute),
      (''/labels/$id'', AuthenticatedLabelsIdRoute),
      (''/labels/new'', AuthenticatedLabelsNewRoute),
      (''/munki/client-resources'', AuthenticatedMunkiClientResourcesRoute),
      (''/munki/distribution-points'', AuthenticatedMunkiDistributionPointsRoute),
      (''/munki/packages'', AuthenticatedMunkiPackagesRoute),
      (''/munki/software'', AuthenticatedMunkiSoftwareRoute),
      (''/osquery/policies'', AuthenticatedOsqueryPoliciesRoute),
      (''/osquery/reports'', AuthenticatedOsqueryReportsRoute),
      (''/santa/configurations'', AuthenticatedSantaConfigurationsRoute),
      (''/santa/events'', AuthenticatedSantaEventsRoute),
      (''/santa/rules'', AuthenticatedSantaRulesRoute),
      (''/directory/'', AuthenticatedDirectoryIndexRoute),
      (''/hosts/'', AuthenticatedHostsIndexRoute),
      (''/labels/'', AuthenticatedLabelsIndexRoute),
      (''/munki/'', AuthenticatedMunkiIndexRoute),
      (''/osquery/'', AuthenticatedOsqueryIndexRoute),
      (''/santa/'', AuthenticatedSantaIndexRoute),
      (''/software/'', AuthenticatedSoftwareIndexRoute),
      (''/directory/users/$id'', AuthenticatedDirectoryUsersIdRoute),
      (''/directory/users/new'', AuthenticatedDirectoryUsersNewRoute),
      (''/hosts/$id/activity'', AuthenticatedHostsIdActivityRoute),
      (''/hosts/$id/munki'', AuthenticatedHostsIdMunkiRoute),
      (''/hosts/$id/policies'', AuthenticatedHostsIdPoliciesRoute),
      (''/hosts/$id/reports'', AuthenticatedHostsIdReportsRoute),
      (''/hosts/$id/santa'', AuthenticatedHostsIdSantaRoute),
      (''/hosts/$id/software'', AuthenticatedHostsIdSoftwareRoute),
      (''/labels/$id/edit'', AuthenticatedLabelsIdEditRoute),
      (''/munki/distribution-points/$id'', AuthenticatedMunkiDistributionPointsIdRoute),
      (''/munki/distribution-points/new'', AuthenticatedMunkiDistributionPointsNewRoute),
      (''/munki/packages/$id'', AuthenticatedMunkiPackagesIdRoute),
      (''/munki/packages/new'', AuthenticatedMunkiPackagesNewRoute),
      (''/munki/software/$id'', AuthenticatedMunkiSoftwareIdRoute),
      (''/munki/software/new'', AuthenticatedMunkiSoftwareNewRoute),
      (''/osquery/policies/$id'', AuthenticatedOsqueryPoliciesIdRoute),
      (''/osquery/policies/new'', AuthenticatedOsqueryPoliciesNewRoute),
      (''/osquery/reports/$id'', AuthenticatedOsqueryReportsIdRoute),
      (''/osquery/reports/new'', AuthenticatedOsqueryReportsNewRoute),
      (''/santa/configurations/$id'', AuthenticatedSantaConfigurationsIdRoute),
      (''/santa/configurations/new'', AuthenticatedSantaConfigurationsNewRoute),
      (''/santa/events/$id'', AuthenticatedSantaEventsIdRoute),
      (''/santa/events/file-access'', AuthenticatedSantaEventsFileAccessRoute),
      (''/santa/rules/$id'', AuthenticatedSantaRulesIdRoute),
      (''/santa/rules/new'', AuthenticatedSantaRulesNewRoute),
      (''/software/titles/$id'', AuthenticatedSoftwareTitlesIdRoute),
      (''/directory/groups/'', AuthenticatedDirectoryGroupsIndexRoute),
      (''/directory/users/'', AuthenticatedDirectoryUsersIndexRoute),
      (''/hosts/$id/'', AuthenticatedHostsIdIndexRoute),
      (''/labels/$id/'', AuthenticatedLabelsIdIndexRoute),
      (''/munki/distribution-points/'', AuthenticatedMunkiDistributionPointsIndexRoute),
      (''/munki/packages/'', AuthenticatedMunkiPackagesIndexRoute),
      (''/munki/software/'', AuthenticatedMunkiSoftwareIndexRoute),
      (''/osquery/policies/'', AuthenticatedOsqueryPoliciesIndexRoute),
      (''/osquery/reports/'', AuthenticatedOsqueryReportsIndexRoute),
      (''/santa/configurations/'', AuthenticatedSantaConfigurationsIndexRoute),
      (''/santa/events/'', AuthenticatedSantaEventsIndexRoute),
      (''/santa/rules/'', AuthenticatedSantaRulesIndexRoute),
      (''/directory/users/$id/edit'', AuthenticatedDirectoryUsersIdEditRoute),
      (''/munki/distribution-points/$id/edit'', AuthenticatedMunkiDistributionPointsIdEditRoute),
      (''/munki/packages/$id/edit'', AuthenticatedMunkiPackagesIdEditRoute),
      (''/munki/software/$id/edit'', AuthenticatedMunkiSoftwareIdEditRoute),
      (''/osquery/policies/$id/edit'', AuthenticatedOsqueryPoliciesIdEditRoute),
      (''/osquery/policies/$id/live'', AuthenticatedOsqueryPoliciesIdLiveRoute),
      (''/osquery/policies/new/live'', AuthenticatedOsqueryPoliciesNewLiveRoute),
      (''/osquery/reports/$id/edit'', AuthenticatedOsqueryReportsIdEditRoute),
      (''/osquery/reports/$id/live'', AuthenticatedOsqueryReportsIdLiveRoute),
      (''/osquery/reports/new/live'', AuthenticatedOsqueryReportsNewLiveRoute),
      (''/santa/configurations/$id/edit'', AuthenticatedSantaConfigurationsIdEditRoute),
      (''/santa/events/file-access/$id'', AuthenticatedSantaEventsFileAccessIdRoute),
      (''/santa/rules/$id/edit'', AuthenticatedSantaRulesIdEditRoute),
      (''/directory/users/$id/'', AuthenticatedDirectoryUsersIdIndexRoute),
      (''/munki/distribution-points/$id/'', AuthenticatedMunkiDistributionPointsIdIndexRoute),
      (''/munki/packages/$id/'', AuthenticatedMunkiPackagesIdIndexRoute),
      (''/munki/software/$id/'', AuthenticatedMunkiSoftwareIdIndexRoute),
      (''/osquery/policies/$id/'', AuthenticatedOsqueryPoliciesIdIndexRoute),
      (''/osquery/policies/new/'', AuthenticatedOsqueryPoliciesNewIndexRoute),
      (''/osquery/reports/$id/'', AuthenticatedOsqueryReportsIdIndexRoute),
      (''/osquery/reports/new/'', AuthenticatedOsqueryReportsNewIndexRoute),
      (''/santa/configurations/$id/'', AuthenticatedSantaConfigurationsIdIndexRoute),
      (''/santa/events/file-access/'', AuthenticatedSantaEventsFileAccessIndexRoute),
      (''/santa/rules/$id/'', AuthenticatedSantaRulesIdIndexRoute)]"

definition FileRoutesByTo :: "(js_string \<times> route_file) list" where
  "FileRoutesByTo = [
      (''/'', IndexRoute),
      (''/login'', LoginRoute),
      (''/$'', AuthenticatedSplatRoute),
      (''/account'', AuthenticatedAccountRoute),
      (''/activity'', AuthenticatedActivityRoute),
      (''/labels/new'', AuthenticatedLabelsNewRoute),
      (''/munki/client-resources'', AuthenticatedMunkiClientResourcesRoute),
      (''/directory'', AuthenticatedDirectoryIndexRoute),
      (''/hosts'', AuthenticatedHostsIndexRoute),
      (''/labels'', AuthenticatedLabelsIndexRoute),
      (''/munki'', AuthenticatedMunkiIndexRoute),
      (''/osquery'', AuthenticatedOsqueryIndexRoute),
      (''/santa'', AuthenticatedSantaIndexRoute),
      (''/software'', AuthenticatedSoftwareIndexRoute),
      (''/directory/users/new'', AuthenticatedDirectoryUsersNewRoute),
      (''/hosts/$id/activity'', AuthenticatedHostsIdActivityRoute),
      (''/hosts/$id/munki'', AuthenticatedHostsIdMunkiRoute),
      (''/hosts/$id/policies'', AuthenticatedHostsIdPoliciesRoute),
      (''/hosts/$id/reports'', AuthenticatedHostsIdReportsRoute),
      (''/hosts/$id/santa'', AuthenticatedHostsIdSantaRoute),
      (''/hosts/$id/software'', AuthenticatedHostsIdSoftwareRoute),
      (''/labels/$id/edit'', AuthenticatedLabelsIdEditRoute),
      (''/munki/distribution-points/new'', AuthenticatedMunkiDistributionPointsNewRoute),
      (''/munki/packages/new'', AuthenticatedMunkiPackagesNewRoute),
      (''/munki/software/new'', AuthenticatedMunkiSoftwareNewRoute),
      (''/santa/configurations/new'', AuthenticatedSantaConfigurationsNewRoute),
      (''/santa/events/$id'', AuthenticatedSantaEventsIdRoute),
      (''/santa/rules/new'', AuthenticatedSantaRulesNewRoute),
      (''/software/titles/$id'', AuthenticatedSoftwareTitlesIdRoute),
      (''/directory/groups'', AuthenticatedDirectoryGroupsIndexRoute),
      (''/directory/users'', AuthenticatedDirectoryUsersIndexRoute),
      (''/hosts/$id'', AuthenticatedHostsIdIndexRoute),
      (''/labels/$id'', AuthenticatedLabelsIdIndexRoute),
      (''/munki/distribution-points'', AuthenticatedMunkiDistributionPointsIndexRoute),
      (''/munki/packages'', AuthenticatedMunkiPackagesIndexRoute),
      (''/munki/software'', AuthenticatedMunkiSoftwareIndexRoute),
      (''/osquery/policies'', AuthenticatedOsqueryPoliciesIndexRoute),
      (''/osquery/reports'', AuthenticatedOsqueryReportsIndexRoute),
      (''/santa/configurations'', AuthenticatedSantaConfigurationsIndexRoute),
      (''/santa/events'', AuthenticatedSantaEventsIndexRoute),
      (''/santa/rules'', AuthenticatedSantaRulesIndexRoute),
      (''/directory/users/$id/edit'', AuthenticatedDirectoryUsersIdEditRoute),
      (''/munki/distribution-points/$id/edit'', AuthenticatedMunkiDistributionPointsIdEditRoute),
      (''/munki/packages/$id/edit'', AuthenticatedMunkiPackagesIdEditRoute),
      (''/munki/software/$id/edit'', AuthenticatedMunkiSoftwareIdEditRoute),
      (''/osquery/policies/$id/edit'', AuthenticatedOsqueryPoliciesIdEditRoute),
      (''/osquery/policies/$id/live'', AuthenticatedOsqueryPoliciesIdLiveRoute),
      (''/osquery/policies/new/live'', AuthenticatedOsqueryPoliciesNewLiveRoute),
      (''/osquery/reports/$id/edit'', AuthenticatedOsqueryReportsIdEditRoute),
      (''/osquery/reports/$id/live'', AuthenticatedOsqueryReportsIdLiveRoute),
      (''/osquery/reports/new/live'', AuthenticatedOsqueryReportsNewLiveRoute),
      (''/santa/configurations/$id/edit'', AuthenticatedSantaConfigurationsIdEditRoute),
      (''/santa/events/file-access/$id'', AuthenticatedSantaEventsFileAccessIdRoute),
      (''/santa/rules/$id/edit'', AuthenticatedSantaRulesIdEditRoute),
      (''/directory/users/$id'', AuthenticatedDirectoryUsersIdIndexRoute),
      (''/munki/distribution-points/$id'', AuthenticatedMunkiDistributionPointsIdIndexRoute),
      (''/munki/packages/$id'', AuthenticatedMunkiPackagesIdIndexRoute),
      (''/munki/software/$id'', AuthenticatedMunkiSoftwareIdIndexRoute),
      (''/osquery/policies/$id'', AuthenticatedOsqueryPoliciesIdIndexRoute),
      (''/osquery/policies/new'', AuthenticatedOsqueryPoliciesNewIndexRoute),
      (''/osquery/reports/$id'', AuthenticatedOsqueryReportsIdIndexRoute),
      (''/osquery/reports/new'', AuthenticatedOsqueryReportsNewIndexRoute),
      (''/santa/configurations/$id'', AuthenticatedSantaConfigurationsIdIndexRoute),
      (''/santa/events/file-access'', AuthenticatedSantaEventsFileAccessIndexRoute),
      (''/santa/rules/$id'', AuthenticatedSantaRulesIdIndexRoute)]"

definition FileRoutesById :: "(js_string \<times> route_file) list" where
  "FileRoutesById = [
      (''/'', IndexRoute),
      (''/_authenticated'', AuthenticatedRoute),
      (''/login'', LoginRoute),
      (''/_authenticated/$'', AuthenticatedSplatRoute),
      (''/_authenticated/account'', AuthenticatedAccountRoute),
      (''/_authenticated/activity'', AuthenticatedActivityRoute),
      (''/_authenticated/directory'', AuthenticatedDirectoryRoute),
      (''/_authenticated/hosts'', AuthenticatedHostsRoute),
      (''/_authenticated/labels'', AuthenticatedLabelsRoute),
      (''/_authenticated/munki'', AuthenticatedMunkiRoute),
      (''/_authenticated/osquery'', AuthenticatedOsqueryRoute),
      (''/_authenticated/santa'', AuthenticatedSantaRoute),
      (''/_authenticated/software'', AuthenticatedSoftwareRoute),
      (''/_authenticated/directory/groups'', AuthenticatedDirectoryGroupsRoute),
      (''/_authenticated/directory/users'', AuthenticatedDirectoryUsersRoute),
      (''/_authenticated/hosts/$id'', AuthenticatedHostsIdRoute),
      (''/_authenticated/labels/$id'', AuthenticatedLabelsIdRoute),
      (''/_authenticated/labels/new'', AuthenticatedLabelsNewRoute),
      (''/_authenticated/munki/client-resources'', AuthenticatedMunkiClientResourcesRoute),
      (''/_authenticated/munki/distribution-points'', AuthenticatedMunkiDistributionPointsRoute),
      (''/_authenticated/munki/packages'', AuthenticatedMunkiPackagesRoute),
      (''/_authenticated/munki/software'', AuthenticatedMunkiSoftwareRoute),
      (''/_authenticated/osquery/policies'', AuthenticatedOsqueryPoliciesRoute),
      (''/_authenticated/osquery/reports'', AuthenticatedOsqueryReportsRoute),
      (''/_authenticated/santa/configurations'', AuthenticatedSantaConfigurationsRoute),
      (''/_authenticated/santa/events'', AuthenticatedSantaEventsRoute),
      (''/_authenticated/santa/rules'', AuthenticatedSantaRulesRoute),
      (''/_authenticated/directory/'', AuthenticatedDirectoryIndexRoute),
      (''/_authenticated/hosts/'', AuthenticatedHostsIndexRoute),
      (''/_authenticated/labels/'', AuthenticatedLabelsIndexRoute),
      (''/_authenticated/munki/'', AuthenticatedMunkiIndexRoute),
      (''/_authenticated/osquery/'', AuthenticatedOsqueryIndexRoute),
      (''/_authenticated/santa/'', AuthenticatedSantaIndexRoute),
      (''/_authenticated/software/'', AuthenticatedSoftwareIndexRoute),
      (''/_authenticated/directory/users/$id'', AuthenticatedDirectoryUsersIdRoute),
      (''/_authenticated/directory/users/new'', AuthenticatedDirectoryUsersNewRoute),
      (''/_authenticated/hosts/$id/activity'', AuthenticatedHostsIdActivityRoute),
      (''/_authenticated/hosts/$id/munki'', AuthenticatedHostsIdMunkiRoute),
      (''/_authenticated/hosts/$id/policies'', AuthenticatedHostsIdPoliciesRoute),
      (''/_authenticated/hosts/$id/reports'', AuthenticatedHostsIdReportsRoute),
      (''/_authenticated/hosts/$id/santa'', AuthenticatedHostsIdSantaRoute),
      (''/_authenticated/hosts/$id/software'', AuthenticatedHostsIdSoftwareRoute),
      (''/_authenticated/labels/$id/edit'', AuthenticatedLabelsIdEditRoute),
      (''/_authenticated/munki/distribution-points/$id'', AuthenticatedMunkiDistributionPointsIdRoute),
      (''/_authenticated/munki/distribution-points/new'', AuthenticatedMunkiDistributionPointsNewRoute),
      (''/_authenticated/munki/packages/$id'', AuthenticatedMunkiPackagesIdRoute),
      (''/_authenticated/munki/packages/new'', AuthenticatedMunkiPackagesNewRoute),
      (''/_authenticated/munki/software/$id'', AuthenticatedMunkiSoftwareIdRoute),
      (''/_authenticated/munki/software/new'', AuthenticatedMunkiSoftwareNewRoute),
      (''/_authenticated/osquery/policies/$id'', AuthenticatedOsqueryPoliciesIdRoute),
      (''/_authenticated/osquery/policies/new'', AuthenticatedOsqueryPoliciesNewRoute),
      (''/_authenticated/osquery/reports/$id'', AuthenticatedOsqueryReportsIdRoute),
      (''/_authenticated/osquery/reports/new'', AuthenticatedOsqueryReportsNewRoute),
      (''/_authenticated/santa/configurations/$id'', AuthenticatedSantaConfigurationsIdRoute),
      (''/_authenticated/santa/configurations/new'', AuthenticatedSantaConfigurationsNewRoute),
      (''/_authenticated/santa/events/$id'', AuthenticatedSantaEventsIdRoute),
      (''/_authenticated/santa/events/file-access'', AuthenticatedSantaEventsFileAccessRoute),
      (''/_authenticated/santa/rules/$id'', AuthenticatedSantaRulesIdRoute),
      (''/_authenticated/santa/rules/new'', AuthenticatedSantaRulesNewRoute),
      (''/_authenticated/software/titles/$id'', AuthenticatedSoftwareTitlesIdRoute),
      (''/_authenticated/directory/groups/'', AuthenticatedDirectoryGroupsIndexRoute),
      (''/_authenticated/directory/users/'', AuthenticatedDirectoryUsersIndexRoute),
      (''/_authenticated/hosts/$id/'', AuthenticatedHostsIdIndexRoute),
      (''/_authenticated/labels/$id/'', AuthenticatedLabelsIdIndexRoute),
      (''/_authenticated/munki/distribution-points/'', AuthenticatedMunkiDistributionPointsIndexRoute),
      (''/_authenticated/munki/packages/'', AuthenticatedMunkiPackagesIndexRoute),
      (''/_authenticated/munki/software/'', AuthenticatedMunkiSoftwareIndexRoute),
      (''/_authenticated/osquery/policies/'', AuthenticatedOsqueryPoliciesIndexRoute),
      (''/_authenticated/osquery/reports/'', AuthenticatedOsqueryReportsIndexRoute),
      (''/_authenticated/santa/configurations/'', AuthenticatedSantaConfigurationsIndexRoute),
      (''/_authenticated/santa/events/'', AuthenticatedSantaEventsIndexRoute),
      (''/_authenticated/santa/rules/'', AuthenticatedSantaRulesIndexRoute),
      (''/_authenticated/directory/users/$id/edit'', AuthenticatedDirectoryUsersIdEditRoute),
      (''/_authenticated/munki/distribution-points/$id/edit'', AuthenticatedMunkiDistributionPointsIdEditRoute),
      (''/_authenticated/munki/packages/$id/edit'', AuthenticatedMunkiPackagesIdEditRoute),
      (''/_authenticated/munki/software/$id/edit'', AuthenticatedMunkiSoftwareIdEditRoute),
      (''/_authenticated/osquery/policies/$id/edit'', AuthenticatedOsqueryPoliciesIdEditRoute),
      (''/_authenticated/osquery/policies/$id/live'', AuthenticatedOsqueryPoliciesIdLiveRoute),
      (''/_authenticated/osquery/policies/new/live'', AuthenticatedOsqueryPoliciesNewLiveRoute),
      (''/_authenticated/osquery/reports/$id/edit'', AuthenticatedOsqueryReportsIdEditRoute),
      (''/_authenticated/osquery/reports/$id/live'', AuthenticatedOsqueryReportsIdLiveRoute),
      (''/_authenticated/osquery/reports/new/live'', AuthenticatedOsqueryReportsNewLiveRoute),
      (''/_authenticated/santa/configurations/$id/edit'', AuthenticatedSantaConfigurationsIdEditRoute),
      (''/_authenticated/santa/events/file-access/$id'', AuthenticatedSantaEventsFileAccessIdRoute),
      (''/_authenticated/santa/rules/$id/edit'', AuthenticatedSantaRulesIdEditRoute),
      (''/_authenticated/directory/users/$id/'', AuthenticatedDirectoryUsersIdIndexRoute),
      (''/_authenticated/munki/distribution-points/$id/'', AuthenticatedMunkiDistributionPointsIdIndexRoute),
      (''/_authenticated/munki/packages/$id/'', AuthenticatedMunkiPackagesIdIndexRoute),
      (''/_authenticated/munki/software/$id/'', AuthenticatedMunkiSoftwareIdIndexRoute),
      (''/_authenticated/osquery/policies/$id/'', AuthenticatedOsqueryPoliciesIdIndexRoute),
      (''/_authenticated/osquery/policies/new/'', AuthenticatedOsqueryPoliciesNewIndexRoute),
      (''/_authenticated/osquery/reports/$id/'', AuthenticatedOsqueryReportsIdIndexRoute),
      (''/_authenticated/osquery/reports/new/'', AuthenticatedOsqueryReportsNewIndexRoute),
      (''/_authenticated/santa/configurations/$id/'', AuthenticatedSantaConfigurationsIdIndexRoute),
      (''/_authenticated/santa/events/file-access/'', AuthenticatedSantaEventsFileAccessIndexRoute),
      (''/_authenticated/santa/rules/$id/'', AuthenticatedSantaRulesIdIndexRoute)]"

definition FileRoutesByPath_1 :: "route_entry list" where
  "FileRoutesByPath_1 = [
      (''/'', ''/'', ''/'', IndexRoute, None),
      (''/_authenticated'', '''', ''/'', AuthenticatedRoute, None),
      (''/login'', ''/login'', ''/login'', LoginRoute, None),
      (''/_authenticated/$'', ''/$'', ''/$'', AuthenticatedSplatRoute, Some AuthenticatedRoute),
      (''/_authenticated/account'', ''/account'', ''/account'', AuthenticatedAccountRoute, Some AuthenticatedRoute),
      (''/_authenticated/activity'', ''/activity'', ''/activity'', AuthenticatedActivityRoute, Some AuthenticatedRoute),
      (''/_authenticated/directory'', ''/directory'', ''/directory'', AuthenticatedDirectoryRoute, Some AuthenticatedRoute),
      (''/_authenticated/hosts'', ''/hosts'', ''/hosts'', AuthenticatedHostsRoute, Some AuthenticatedRoute),
      (''/_authenticated/labels'', ''/labels'', ''/labels'', AuthenticatedLabelsRoute, Some AuthenticatedRoute),
      (''/_authenticated/munki'', ''/munki'', ''/munki'', AuthenticatedMunkiRoute, Some AuthenticatedRoute),
      (''/_authenticated/osquery'', ''/osquery'', ''/osquery'', AuthenticatedOsqueryRoute, Some AuthenticatedRoute),
      (''/_authenticated/santa'', ''/santa'', ''/santa'', AuthenticatedSantaRoute, Some AuthenticatedRoute),
      (''/_authenticated/software'', ''/software'', ''/software'', AuthenticatedSoftwareRoute, Some AuthenticatedRoute),
      (''/_authenticated/directory/'', ''/'', ''/directory/'', AuthenticatedDirectoryIndexRoute, Some AuthenticatedDirectoryRoute),
      (''/_authenticated/directory/groups'', ''/groups'', ''/directory/groups'', AuthenticatedDirectoryGroupsRoute, Some AuthenticatedDirectoryRoute),
      (''/_authenticated/directory/users'', ''/users'', ''/directory/users'', AuthenticatedDirectoryUsersRoute, Some AuthenticatedDirectoryRoute),
      (''/_authenticated/hosts/'', ''/'', ''/hosts/'', AuthenticatedHostsIndexRoute, Some AuthenticatedHostsRoute),
      (''/_authenticated/hosts/$id'', ''/$id'', ''/hosts/$id'', AuthenticatedHostsIdRoute, Some AuthenticatedHostsRoute),
      (''/_authenticated/labels/'', ''/'', ''/labels/'', AuthenticatedLabelsIndexRoute, Some AuthenticatedLabelsRoute),
      (''/_authenticated/labels/$id'', ''/$id'', ''/labels/$id'', AuthenticatedLabelsIdRoute, Some AuthenticatedLabelsRoute),
      (''/_authenticated/labels/new'', ''/new'', ''/labels/new'', AuthenticatedLabelsNewRoute, Some AuthenticatedLabelsRoute)]"

definition FileRoutesByPath_2 :: "route_entry list" where
  "FileRoutesByPath_2 = [
      (''/_authenticated/munki/'', ''/'', ''/munki/'', AuthenticatedMunkiIndexRoute, Some AuthenticatedMunkiRoute),
      (''/_authenticated/munki/client-resources'', ''/client-resources'', ''/munki/client-resources'', AuthenticatedMunkiClientResourcesRoute, Some AuthenticatedMunkiRoute),
      (''/_authenticated/munki/distribution-points'', ''/distribution-points'', ''/munki/distribution-points'', AuthenticatedMunkiDistributionPointsRoute, Some AuthenticatedMunkiRoute),
      (''/_authenticated/munki/packages'', ''/packages'', ''/munki/packages'', AuthenticatedMunkiPackagesRoute, Some AuthenticatedMunkiRoute),
      (''/_authenticated/munki/software'', ''/software'', ''/munki/software'', AuthenticatedMunkiSoftwareRoute, Some AuthenticatedMunkiRoute),
      (''/_authenticated/osquery/'', ''/'', ''/osquery/'', AuthenticatedOsqueryIndexRoute, Some AuthenticatedOsqueryRoute),
      (''/_authenticated/osquery/policies'', ''/policies'', ''/osquery/policies'', AuthenticatedOsqueryPoliciesRoute, Some AuthenticatedOsqueryRoute),
      (''/_authenticated/osquery/reports'', ''/reports'', ''/osquery/reports'', AuthenticatedOsqueryReportsRoute, Some AuthenticatedOsqueryRoute),
      (''/_authenticated/santa/'', ''/'', ''/santa/'', AuthenticatedSantaIndexRoute, Some AuthenticatedSantaRoute),
      (''/_authenticated/santa/configurations'', ''/configurations'', ''/santa/configurations'', AuthenticatedSantaConfigurationsRoute, Some AuthenticatedSantaRoute),
      (''/_authenticated/santa/events'', ''/events'', ''/santa/events'', AuthenticatedSantaEventsRoute, Some AuthenticatedSantaRoute),
      (''/_authenticated/santa/rules'', ''/rules'', ''/santa/rules'', AuthenticatedSantaRulesRoute, Some AuthenticatedSantaRoute),
      (''/_authenticated/software/'', ''/'', ''/software/'', AuthenticatedSoftwareIndexRoute, Some AuthenticatedSoftwareRoute),
      (''/_authenticated/directory/groups/'', ''/'', ''/directory/groups/'', AuthenticatedDirectoryGroupsIndexRoute, Some AuthenticatedDirectoryGroupsRoute),
      (''/_authenticated/directory/users/'', ''/'', ''/directory/users/'', AuthenticatedDirectoryUsersIndexRoute, Some AuthenticatedDirectoryUsersRoute),
      (''/_authenticated/directory/users/$id'', ''/$id'', ''/directory/users/$id'', AuthenticatedDirectoryUsersIdRoute, Some AuthenticatedDirectoryUsersRoute),
      (''/_authenticated/directory/users/new'', ''/new'', ''/directory/users/new'', AuthenticatedDirectoryUsersNewRoute, Some AuthenticatedDirectoryUsersRoute),
      (''/_authenticated/hosts/$id/'', ''/'', ''/hosts/$id/'', AuthenticatedHostsIdIndexRoute, Some AuthenticatedHostsIdRoute),
      (''/_authenticated/hosts/$id/activity'', ''/activity'', ''/hosts/$id/activity'', AuthenticatedHostsIdActivityRoute, Some AuthenticatedHostsIdRoute),
      (''/_authenticated/hosts/$id/munki'', ''/munki'', ''/hosts/$id/munki'', AuthenticatedHostsIdMunkiRoute, Some AuthenticatedHostsIdRoute),
      (''/_authenticated/hosts/$id/policies'', ''/policies'', ''/hosts/$id/policies'', AuthenticatedHostsIdPoliciesRoute, Some AuthenticatedHostsIdRoute)]"

definition FileRoutesByPath_3 :: "route_entry list" where
  "FileRoutesByPath_3 = [
      (''/_authenticated/hosts/$id/reports'', ''/reports'', ''/hosts/$id/reports'', AuthenticatedHostsIdReportsRoute, Some AuthenticatedHostsIdRoute),
      (''/_authenticated/hosts/$id/santa'', ''/santa'', ''/hosts/$id/santa'', AuthenticatedHostsIdSantaRoute, Some AuthenticatedHostsIdRoute),
      (''/_authenticated/hosts/$id/software'', ''/software'', ''/hosts/$id/software'', AuthenticatedHostsIdSoftwareRoute, Some AuthenticatedHostsIdRoute),
      (''/_authenticated/labels/$id/'', ''/'', ''/labels/$id/'', AuthenticatedLabelsIdIndexRoute, Some AuthenticatedLabelsIdRoute),
      (''/_authenticated/labels/$id/edit'', ''/edit'', ''/labels/$id/edit'', AuthenticatedLabelsIdEditRoute, Some AuthenticatedLabelsIdRoute),
      (''/_authenticated/munki/distribution-points/'', ''/'', ''/munki/distribution-points/'', AuthenticatedMunkiDistributionPointsIndexRoute, Some AuthenticatedMunkiDistributionPointsRoute),
      (''/_authenticated/munki/distribution-points/$id'', ''/$id'', ''/munki/distribution-points/$id'', AuthenticatedMunkiDistributionPointsIdRoute, Some AuthenticatedMunkiDistributionPointsRoute),
      (''/_authenticated/munki/distribution-points/new'', ''/new'', ''/munki/distribution-points/new'', AuthenticatedMunkiDistributionPointsNewRoute, Some AuthenticatedMunkiDistributionPointsRoute),
      (''/_authenticated/munki/packages/'', ''/'', ''/munki/packages/'', AuthenticatedMunkiPackagesIndexRoute, Some AuthenticatedMunkiPackagesRoute),
      (''/_authenticated/munki/packages/$id'', ''/$id'', ''/munki/packages/$id'', AuthenticatedMunkiPackagesIdRoute, Some AuthenticatedMunkiPackagesRoute),
      (''/_authenticated/munki/packages/new'', ''/new'', ''/munki/packages/new'', AuthenticatedMunkiPackagesNewRoute, Some AuthenticatedMunkiPackagesRoute),
      (''/_authenticated/munki/software/'', ''/'', ''/munki/software/'', AuthenticatedMunkiSoftwareIndexRoute, Some AuthenticatedMunkiSoftwareRoute),
      (''/_authenticated/munki/software/$id'', ''/$id'', ''/munki/software/$id'', AuthenticatedMunkiSoftwareIdRoute, Some AuthenticatedMunkiSoftwareRoute),
      (''/_authenticated/munki/software/new'', ''/new'', ''/munki/software/new'', AuthenticatedMunkiSoftwareNewRoute, Some AuthenticatedMunkiSoftwareRoute),
      (''/_authenticated/osquery/policies/'', ''/'', ''/osquery/policies/'', AuthenticatedOsqueryPoliciesIndexRoute, Some AuthenticatedOsqueryPoliciesRoute),
      (''/_authenticated/osquery/policies/$id'', ''/$id'', ''/osquery/policies/$id'', AuthenticatedOsqueryPoliciesIdRoute, Some AuthenticatedOsqueryPoliciesRoute),
      (''/_authenticated/osquery/policies/new'', ''/new'', ''/osquery/policies/new'', AuthenticatedOsqueryPoliciesNewRoute, Some AuthenticatedOsqueryPoliciesRoute),
      (''/_authenticated/osquery/reports/'', ''/'', ''/osquery/reports/'', AuthenticatedOsqueryReportsIndexRoute, Some AuthenticatedOsqueryReportsRoute),
      (''/_authenticated/osquery/reports/$id'', ''/$id'', ''/osquery/reports/$id'', AuthenticatedOsqueryReportsIdRoute, Some AuthenticatedOsqueryReportsRoute),
      (''/_authenticated/osquery/reports/new'', ''/new'', ''/osquery/reports/new'', AuthenticatedOsqueryReportsNewRoute, Some AuthenticatedOsqueryReportsRoute),
      (''/_authenticated/santa/configurations/'', ''/'', ''/santa/configurations/'', AuthenticatedSantaConfigurationsIndexRoute, Some AuthenticatedSantaConfigurationsRoute)]"

definition FileRoutesByPath_4 :: "route_entry list" where
  "FileRoutesByPath_4 = [
      (''/_authenticated/santa/configurations/$id'', ''/$id'', ''/santa/configurations/$id'', AuthenticatedSantaConfigurationsIdRoute, Some AuthenticatedSantaConfigurationsRoute),
      (''/_authenticated/santa/configurations/new'', ''/new'', ''/santa/configurations/new'', AuthenticatedSantaConfigurationsNewRoute, Some AuthenticatedSantaConfigurationsRoute),
      (''/_authenticated/santa/events/'', ''/'', ''/santa/events/'', AuthenticatedSantaEventsIndexRoute, Some AuthenticatedSantaEventsRoute),
      (''/_authenticated/santa/events/$id'', ''/$id'', ''/santa/events/$id'', AuthenticatedSantaEventsIdRoute, Some AuthenticatedSantaEventsRoute),
      (''/_authenticated/santa/events/file-access'', ''/file-access'', ''/santa/events/file-access'', AuthenticatedSantaEventsFileAccessRoute, Some AuthenticatedSantaEventsRoute),
      (''/_authenticated/santa/rules/'', ''/'', ''/santa/rules/'', AuthenticatedSantaRulesIndexRoute, Some AuthenticatedSantaRulesRoute),
      (''/_authenticated/santa/rules/$id'', ''/$id'', ''/santa/rules/$id'', AuthenticatedSantaRulesIdRoute, Some AuthenticatedSantaRulesRoute),
      (''/_authenticated/santa/rules/new'', ''/new'', ''/santa/rules/new'', AuthenticatedSantaRulesNewRoute, Some AuthenticatedSantaRulesRoute),
      (''/_authenticated/software/titles/$id'', ''/titles/$id'', ''/software/titles/$id'', AuthenticatedSoftwareTitlesIdRoute, Some AuthenticatedSoftwareRoute),
      (''/_authenticated/directory/users/$id/'', ''/'', ''/directory/users/$id/'', AuthenticatedDirectoryUsersIdIndexRoute, Some AuthenticatedDirectoryUsersIdRoute),
      (''/_authenticated/directory/users/$id/edit'', ''/edit'', ''/directory/users/$id/edit'', AuthenticatedDirectoryUsersIdEditRoute, Some AuthenticatedDirectoryUsersIdRoute),
      (''/_authenticated/munki/distribution-points/$id/'', ''/'', ''/munki/distribution-points/$id/'', AuthenticatedMunkiDistributionPointsIdIndexRoute, Some AuthenticatedMunkiDistributionPointsIdRoute),
      (''/_authenticated/munki/distribution-points/$id/edit'', ''/edit'', ''/munki/distribution-points/$id/edit'', AuthenticatedMunkiDistributionPointsIdEditRoute, Some AuthenticatedMunkiDistributionPointsIdRoute),
      (''/_authenticated/munki/packages/$id/'', ''/'', ''/munki/packages/$id/'', AuthenticatedMunkiPackagesIdIndexRoute, Some AuthenticatedMunkiPackagesIdRoute),
      (''/_authenticated/munki/packages/$id/edit'', ''/edit'', ''/munki/packages/$id/edit'', AuthenticatedMunkiPackagesIdEditRoute, Some AuthenticatedMunkiPackagesIdRoute),
      (''/_authenticated/munki/software/$id/'', ''/'', ''/munki/software/$id/'', AuthenticatedMunkiSoftwareIdIndexRoute, Some AuthenticatedMunkiSoftwareIdRoute),
      (''/_authenticated/munki/software/$id/edit'', ''/edit'', ''/munki/software/$id/edit'', AuthenticatedMunkiSoftwareIdEditRoute, Some AuthenticatedMunkiSoftwareIdRoute),
      (''/_authenticated/osquery/policies/$id/'', ''/'', ''/osquery/policies/$id/'', AuthenticatedOsqueryPoliciesIdIndexRoute, Some AuthenticatedOsqueryPoliciesIdRoute),
      (''/_authenticated/osquery/policies/$id/edit'', ''/edit'', ''/osquery/policies/$id/edit'', AuthenticatedOsqueryPoliciesIdEditRoute, Some AuthenticatedOsqueryPoliciesIdRoute),
      (''/_authenticated/osquery/policies/$id/live'', ''/live'', ''/osquery/policies/$id/live'', AuthenticatedOsqueryPoliciesIdLiveRoute, Some AuthenticatedOsqueryPoliciesIdRoute),
      (''/_authenticated/osquery/policies/new/'', ''/'', ''/osquery/policies/new/'', AuthenticatedOsqueryPoliciesNewIndexRoute, Some AuthenticatedOsqueryPoliciesNewRoute)]"

definition FileRoutesByPath_5 :: "route_entry list" where
  "FileRoutesByPath_5 = [
      (''/_authenticated/osquery/policies/new/live'', ''/live'', ''/osquery/policies/new/live'', AuthenticatedOsqueryPoliciesNewLiveRoute, Some AuthenticatedOsqueryPoliciesNewRoute),
      (''/_authenticated/osquery/reports/$id/'', ''/'', ''/osquery/reports/$id/'', AuthenticatedOsqueryReportsIdIndexRoute, Some AuthenticatedOsqueryReportsIdRoute),
      (''/_authenticated/osquery/reports/$id/edit'', ''/edit'', ''/osquery/reports/$id/edit'', AuthenticatedOsqueryReportsIdEditRoute, Some AuthenticatedOsqueryReportsIdRoute),
      (''/_authenticated/osquery/reports/$id/live'', ''/live'', ''/osquery/reports/$id/live'', AuthenticatedOsqueryReportsIdLiveRoute, Some AuthenticatedOsqueryReportsIdRoute),
      (''/_authenticated/osquery/reports/new/'', ''/'', ''/osquery/reports/new/'', AuthenticatedOsqueryReportsNewIndexRoute, Some AuthenticatedOsqueryReportsNewRoute),
      (''/_authenticated/osquery/reports/new/live'', ''/live'', ''/osquery/reports/new/live'', AuthenticatedOsqueryReportsNewLiveRoute, Some AuthenticatedOsqueryReportsNewRoute),
      (''/_authenticated/santa/configurations/$id/'', ''/'', ''/santa/configurations/$id/'', AuthenticatedSantaConfigurationsIdIndexRoute, Some AuthenticatedSantaConfigurationsIdRoute),
      (''/_authenticated/santa/configurations/$id/edit'', ''/edit'', ''/santa/configurations/$id/edit'', AuthenticatedSantaConfigurationsIdEditRoute, Some AuthenticatedSantaConfigurationsIdRoute),
      (''/_authenticated/santa/events/file-access/'', ''/'', ''/santa/events/file-access/'', AuthenticatedSantaEventsFileAccessIndexRoute, Some AuthenticatedSantaEventsFileAccessRoute),
      (''/_authenticated/santa/events/file-access/$id'', ''/$id'', ''/santa/events/file-access/$id'', AuthenticatedSantaEventsFileAccessIdRoute, Some AuthenticatedSantaEventsFileAccessRoute),
      (''/_authenticated/santa/rules/$id/'', ''/'', ''/santa/rules/$id/'', AuthenticatedSantaRulesIdIndexRoute, Some AuthenticatedSantaRulesIdRoute),
      (''/_authenticated/santa/rules/$id/edit'', ''/edit'', ''/santa/rules/$id/edit'', AuthenticatedSantaRulesIdEditRoute, Some AuthenticatedSantaRulesIdRoute)]"

definition FileRoutesByPath :: "route_entry list" where
  "FileRoutesByPath = FileRoutesByPath_1 @ FileRoutesByPath_2 @ FileRoutesByPath_3 @ FileRoutesByPath_4 @ FileRoutesByPath_5"

definition FileRouteTypes_fullPaths :: "js_string list" where
  "FileRouteTypes_fullPaths = [
      ''/'',
      ''/login'',
      ''/$'',
      ''/account'',
      ''/activity'',
      ''/directory'',
      ''/hosts'',
      ''/labels'',
      ''/munki'',
      ''/osquery'',
      ''/santa'',
      ''/software'',
      ''/directory/groups'',
      ''/directory/users'',
      ''/hosts/$id'',
      ''/labels/$id'',
      ''/labels/new'',
      ''/munki/client-resources'',
      ''/munki/distribution-points'',
      ''/munki/packages'',
      ''/munki/software'',
      ''/osquery/policies'',
      ''/osquery/reports'',
      ''/santa/configurations'',
      ''/santa/events'',
      ''/santa/rules'',
      ''/directory/'',
      ''/hosts/'',
      ''/labels/'',
      ''/munki/'',
      ''/osquery/'',
      ''/santa/'',
      ''/software/'',
      ''/directory/users/$id'',
      ''/directory/users/new'',
      ''/hosts/$id/activity'',
      ''/hosts/$id/munki'',
      ''/hosts/$id/policies'',
      ''/hosts/$id/reports'',
      ''/hosts/$id/santa'',
      ''/hosts/$id/software'',
      ''/labels/$id/edit'',
      ''/munki/distribution-points/$id'',
      ''/munki/distribution-points/new'',
      ''/munki/packages/$id'',
      ''/munki/packages/new'',
      ''/munki/software/$id'',
      ''/munki/software/new'',
      ''/osquery/policies/$id'',
      ''/osquery/policies/new'',
      ''/osquery/reports/$id'',
      ''/osquery/reports/new'',
      ''/santa/configurations/$id'',
      ''/santa/configurations/new'',
      ''/santa/events/$id'',
      ''/santa/events/file-access'',
      ''/santa/rules/$id'',
      ''/santa/rules/new'',
      ''/software/titles/$id'',
      ''/directory/groups/'',
      ''/directory/users/'',
      ''/hosts/$id/'',
      ''/labels/$id/'',
      ''/munki/distribution-points/'',
      ''/munki/packages/'',
      ''/munki/software/'',
      ''/osquery/policies/'',
      ''/osquery/reports/'',
      ''/santa/configurations/'',
      ''/santa/events/'',
      ''/santa/rules/'',
      ''/directory/users/$id/edit'',
      ''/munki/distribution-points/$id/edit'',
      ''/munki/packages/$id/edit'',
      ''/munki/software/$id/edit'',
      ''/osquery/policies/$id/edit'',
      ''/osquery/policies/$id/live'',
      ''/osquery/policies/new/live'',
      ''/osquery/reports/$id/edit'',
      ''/osquery/reports/$id/live'',
      ''/osquery/reports/new/live'',
      ''/santa/configurations/$id/edit'',
      ''/santa/events/file-access/$id'',
      ''/santa/rules/$id/edit'',
      ''/directory/users/$id/'',
      ''/munki/distribution-points/$id/'',
      ''/munki/packages/$id/'',
      ''/munki/software/$id/'',
      ''/osquery/policies/$id/'',
      ''/osquery/policies/new/'',
      ''/osquery/reports/$id/'',
      ''/osquery/reports/new/'',
      ''/santa/configurations/$id/'',
      ''/santa/events/file-access/'',
      ''/santa/rules/$id/'']"

definition FileRouteTypes_to :: "js_string list" where
  "FileRouteTypes_to = [
      ''/'',
      ''/login'',
      ''/$'',
      ''/account'',
      ''/activity'',
      ''/labels/new'',
      ''/munki/client-resources'',
      ''/directory'',
      ''/hosts'',
      ''/labels'',
      ''/munki'',
      ''/osquery'',
      ''/santa'',
      ''/software'',
      ''/directory/users/new'',
      ''/hosts/$id/activity'',
      ''/hosts/$id/munki'',
      ''/hosts/$id/policies'',
      ''/hosts/$id/reports'',
      ''/hosts/$id/santa'',
      ''/hosts/$id/software'',
      ''/labels/$id/edit'',
      ''/munki/distribution-points/new'',
      ''/munki/packages/new'',
      ''/munki/software/new'',
      ''/santa/configurations/new'',
      ''/santa/events/$id'',
      ''/santa/rules/new'',
      ''/software/titles/$id'',
      ''/directory/groups'',
      ''/directory/users'',
      ''/hosts/$id'',
      ''/labels/$id'',
      ''/munki/distribution-points'',
      ''/munki/packages'',
      ''/munki/software'',
      ''/osquery/policies'',
      ''/osquery/reports'',
      ''/santa/configurations'',
      ''/santa/events'',
      ''/santa/rules'',
      ''/directory/users/$id/edit'',
      ''/munki/distribution-points/$id/edit'',
      ''/munki/packages/$id/edit'',
      ''/munki/software/$id/edit'',
      ''/osquery/policies/$id/edit'',
      ''/osquery/policies/$id/live'',
      ''/osquery/policies/new/live'',
      ''/osquery/reports/$id/edit'',
      ''/osquery/reports/$id/live'',
      ''/osquery/reports/new/live'',
      ''/santa/configurations/$id/edit'',
      ''/santa/events/file-access/$id'',
      ''/santa/rules/$id/edit'',
      ''/directory/users/$id'',
      ''/munki/distribution-points/$id'',
      ''/munki/packages/$id'',
      ''/munki/software/$id'',
      ''/osquery/policies/$id'',
      ''/osquery/policies/new'',
      ''/osquery/reports/$id'',
      ''/osquery/reports/new'',
      ''/santa/configurations/$id'',
      ''/santa/events/file-access'',
      ''/santa/rules/$id'']"

definition FileRouteTypes_id :: "js_string list" where
  "FileRouteTypes_id = [
      ''__root__'',
      ''/'',
      ''/_authenticated'',
      ''/login'',
      ''/_authenticated/$'',
      ''/_authenticated/account'',
      ''/_authenticated/activity'',
      ''/_authenticated/directory'',
      ''/_authenticated/hosts'',
      ''/_authenticated/labels'',
      ''/_authenticated/munki'',
      ''/_authenticated/osquery'',
      ''/_authenticated/santa'',
      ''/_authenticated/software'',
      ''/_authenticated/directory/groups'',
      ''/_authenticated/directory/users'',
      ''/_authenticated/hosts/$id'',
      ''/_authenticated/labels/$id'',
      ''/_authenticated/labels/new'',
      ''/_authenticated/munki/client-resources'',
      ''/_authenticated/munki/distribution-points'',
      ''/_authenticated/munki/packages'',
      ''/_authenticated/munki/software'',
      ''/_authenticated/osquery/policies'',
      ''/_authenticated/osquery/reports'',
      ''/_authenticated/santa/configurations'',
      ''/_authenticated/santa/events'',
      ''/_authenticated/santa/rules'',
      ''/_authenticated/directory/'',
      ''/_authenticated/hosts/'',
      ''/_authenticated/labels/'',
      ''/_authenticated/munki/'',
      ''/_authenticated/osquery/'',
      ''/_authenticated/santa/'',
      ''/_authenticated/software/'',
      ''/_authenticated/directory/users/$id'',
      ''/_authenticated/directory/users/new'',
      ''/_authenticated/hosts/$id/activity'',
      ''/_authenticated/hosts/$id/munki'',
      ''/_authenticated/hosts/$id/policies'',
      ''/_authenticated/hosts/$id/reports'',
      ''/_authenticated/hosts/$id/santa'',
      ''/_authenticated/hosts/$id/software'',
      ''/_authenticated/labels/$id/edit'',
      ''/_authenticated/munki/distribution-points/$id'',
      ''/_authenticated/munki/distribution-points/new'',
      ''/_authenticated/munki/packages/$id'',
      ''/_authenticated/munki/packages/new'',
      ''/_authenticated/munki/software/$id'',
      ''/_authenticated/munki/software/new'',
      ''/_authenticated/osquery/policies/$id'',
      ''/_authenticated/osquery/policies/new'',
      ''/_authenticated/osquery/reports/$id'',
      ''/_authenticated/osquery/reports/new'',
      ''/_authenticated/santa/configurations/$id'',
      ''/_authenticated/santa/configurations/new'',
      ''/_authenticated/santa/events/$id'',
      ''/_authenticated/santa/events/file-access'',
      ''/_authenticated/santa/rules/$id'',
      ''/_authenticated/santa/rules/new'',
      ''/_authenticated/software/titles/$id'',
      ''/_authenticated/directory/groups/'',
      ''/_authenticated/directory/users/'',
      ''/_authenticated/hosts/$id/'',
      ''/_authenticated/labels/$id/'',
      ''/_authenticated/munki/distribution-points/'',
      ''/_authenticated/munki/packages/'',
      ''/_authenticated/munki/software/'',
      ''/_authenticated/osquery/policies/'',
      ''/_authenticated/osquery/reports/'',
      ''/_authenticated/santa/configurations/'',
      ''/_authenticated/santa/events/'',
      ''/_authenticated/santa/rules/'',
      ''/_authenticated/directory/users/$id/edit'',
      ''/_authenticated/munki/distribution-points/$id/edit'',
      ''/_authenticated/munki/packages/$id/edit'',
      ''/_authenticated/munki/software/$id/edit'',
      ''/_authenticated/osquery/policies/$id/edit'',
      ''/_authenticated/osquery/policies/$id/live'',
      ''/_authenticated/osquery/policies/new/live'',
      ''/_authenticated/osquery/reports/$id/edit'',
      ''/_authenticated/osquery/reports/$id/live'',
      ''/_authenticated/osquery/reports/new/live'',
      ''/_authenticated/santa/configurations/$id/edit'',
      ''/_authenticated/santa/events/file-access/$id'',
      ''/_authenticated/santa/rules/$id/edit'',
      ''/_authenticated/directory/users/$id/'',
      ''/_authenticated/munki/distribution-points/$id/'',
      ''/_authenticated/munki/packages/$id/'',
      ''/_authenticated/munki/software/$id/'',
      ''/_authenticated/osquery/policies/$id/'',
      ''/_authenticated/osquery/policies/new/'',
      ''/_authenticated/osquery/reports/$id/'',
      ''/_authenticated/osquery/reports/new/'',
      ''/_authenticated/santa/configurations/$id/'',
      ''/_authenticated/santa/events/file-access/'',
      ''/_authenticated/santa/rules/$id/'']"

lemmas guard_defs =
  IndexRouteGuard_def AuthenticatedRouteGuard_def
  LoginRouteGuard_def AuthenticatedActivityRouteGuard_def
  AuthenticatedHostsRouteGuard_def AuthenticatedLabelsRouteGuard_def
  AuthenticatedSoftwareRouteGuard_def AuthenticatedDirectoryIndexRouteGuard_def
  AuthenticatedDirectoryGroupsRouteGuard_def AuthenticatedDirectoryUsersRouteGuard_def
  AuthenticatedLabelsNewRouteGuard_def AuthenticatedMunkiIndexRouteGuard_def
  AuthenticatedMunkiClientResourcesRouteGuard_def AuthenticatedMunkiDistributionPointsRouteGuard_def
  AuthenticatedMunkiPackagesRouteGuard_def AuthenticatedMunkiSoftwareRouteGuard_def
  AuthenticatedOsqueryIndexRouteGuard_def AuthenticatedOsqueryPoliciesRouteGuard_def
  AuthenticatedOsqueryReportsRouteGuard_def AuthenticatedSantaIndexRouteGuard_def
  AuthenticatedSantaConfigurationsRouteGuard_def AuthenticatedSantaEventsRouteGuard_def
  AuthenticatedSantaRulesRouteGuard_def AuthenticatedDirectoryUsersNewRouteGuard_def
  AuthenticatedHostsIdActivityRouteGuard_def AuthenticatedHostsIdMunkiRouteGuard_def
  AuthenticatedHostsIdPoliciesRouteGuard_def AuthenticatedHostsIdReportsRouteGuard_def
  AuthenticatedHostsIdSantaRouteGuard_def AuthenticatedHostsIdSoftwareRouteGuard_def
  AuthenticatedLabelsIdEditRouteGuard_def AuthenticatedMunkiDistributionPointsNewRouteGuard_def
  AuthenticatedMunkiPackagesNewRouteGuard_def AuthenticatedMunkiSoftwareNewRouteGuard_def
  AuthenticatedOsqueryPoliciesNewRouteGuard_def AuthenticatedOsqueryReportsNewRouteGuard_def
  AuthenticatedSantaConfigurationsNewRouteGuard_def AuthenticatedSantaRulesNewRouteGuard_def
  AuthenticatedDirectoryUsersIdEditRouteGuard_def AuthenticatedMunkiDistributionPointsIdEditRouteGuard_def
  AuthenticatedMunkiPackagesIdEditRouteGuard_def AuthenticatedMunkiSoftwareIdEditRouteGuard_def
  AuthenticatedOsqueryPoliciesIdEditRouteGuard_def AuthenticatedOsqueryPoliciesIdLiveRouteGuard_def
  AuthenticatedOsqueryPoliciesNewLiveRouteGuard_def AuthenticatedOsqueryReportsIdEditRouteGuard_def
  AuthenticatedOsqueryReportsIdLiveRouteGuard_def AuthenticatedOsqueryReportsNewLiveRouteGuard_def
  AuthenticatedSantaConfigurationsIdEditRouteGuard_def AuthenticatedSantaRulesIdEditRouteGuard_def

lemmas route_defs =
  IndexRoute_def AuthenticatedRoute_def
  LoginRoute_def AuthenticatedSplatRoute_def
  AuthenticatedAccountRoute_def AuthenticatedActivityRoute_def
  AuthenticatedDirectoryRoute_def AuthenticatedHostsRoute_def
  AuthenticatedLabelsRoute_def AuthenticatedMunkiRoute_def
  AuthenticatedOsqueryRoute_def AuthenticatedSantaRoute_def
  AuthenticatedSoftwareRoute_def AuthenticatedDirectoryIndexRoute_def
  AuthenticatedDirectoryGroupsRoute_def AuthenticatedDirectoryUsersRoute_def
  AuthenticatedHostsIndexRoute_def AuthenticatedHostsIdRoute_def
  AuthenticatedLabelsIndexRoute_def AuthenticatedLabelsIdRoute_def
  AuthenticatedLabelsNewRoute_def AuthenticatedMunkiIndexRoute_def
  AuthenticatedMunkiClientResourcesRoute_def AuthenticatedMunkiDistributionPointsRoute_def
  AuthenticatedMunkiPackagesRoute_def AuthenticatedMunkiSoftwareRoute_def
  AuthenticatedOsqueryIndexRoute_def AuthenticatedOsqueryPoliciesRoute_def
  AuthenticatedOsqueryReportsRoute_def AuthenticatedSantaIndexRoute_def
  AuthenticatedSantaConfigurationsRoute_def AuthenticatedSantaEventsRoute_def
  AuthenticatedSantaRulesRoute_def AuthenticatedSoftwareIndexRoute_def
  AuthenticatedDirectoryGroupsIndexRoute_def AuthenticatedDirectoryUsersIndexRoute_def
  AuthenticatedDirectoryUsersIdRoute_def AuthenticatedDirectoryUsersNewRoute_def
  AuthenticatedHostsIdIndexRoute_def AuthenticatedHostsIdActivityRoute_def
  AuthenticatedHostsIdMunkiRoute_def AuthenticatedHostsIdPoliciesRoute_def
  AuthenticatedHostsIdReportsRoute_def AuthenticatedHostsIdSantaRoute_def
  AuthenticatedHostsIdSoftwareRoute_def AuthenticatedLabelsIdIndexRoute_def
  AuthenticatedLabelsIdEditRoute_def AuthenticatedMunkiDistributionPointsIndexRoute_def
  AuthenticatedMunkiDistributionPointsIdRoute_def AuthenticatedMunkiDistributionPointsNewRoute_def
  AuthenticatedMunkiPackagesIndexRoute_def AuthenticatedMunkiPackagesIdRoute_def
  AuthenticatedMunkiPackagesNewRoute_def AuthenticatedMunkiSoftwareIndexRoute_def
  AuthenticatedMunkiSoftwareIdRoute_def AuthenticatedMunkiSoftwareNewRoute_def
  AuthenticatedOsqueryPoliciesIndexRoute_def AuthenticatedOsqueryPoliciesIdRoute_def
  AuthenticatedOsqueryPoliciesNewRoute_def AuthenticatedOsqueryReportsIndexRoute_def
  AuthenticatedOsqueryReportsIdRoute_def AuthenticatedOsqueryReportsNewRoute_def
  AuthenticatedSantaConfigurationsIndexRoute_def AuthenticatedSantaConfigurationsIdRoute_def
  AuthenticatedSantaConfigurationsNewRoute_def AuthenticatedSantaEventsIndexRoute_def
  AuthenticatedSantaEventsIdRoute_def AuthenticatedSantaEventsFileAccessRoute_def
  AuthenticatedSantaRulesIndexRoute_def AuthenticatedSantaRulesIdRoute_def
  AuthenticatedSantaRulesNewRoute_def AuthenticatedSoftwareTitlesIdRoute_def
  AuthenticatedDirectoryUsersIdIndexRoute_def AuthenticatedDirectoryUsersIdEditRoute_def
  AuthenticatedMunkiDistributionPointsIdIndexRoute_def AuthenticatedMunkiDistributionPointsIdEditRoute_def
  AuthenticatedMunkiPackagesIdIndexRoute_def AuthenticatedMunkiPackagesIdEditRoute_def
  AuthenticatedMunkiSoftwareIdIndexRoute_def AuthenticatedMunkiSoftwareIdEditRoute_def
  AuthenticatedOsqueryPoliciesIdIndexRoute_def AuthenticatedOsqueryPoliciesIdEditRoute_def
  AuthenticatedOsqueryPoliciesIdLiveRoute_def AuthenticatedOsqueryPoliciesNewIndexRoute_def
  AuthenticatedOsqueryPoliciesNewLiveRoute_def AuthenticatedOsqueryReportsIdIndexRoute_def
  AuthenticatedOsqueryReportsIdEditRoute_def AuthenticatedOsqueryReportsIdLiveRoute_def
  AuthenticatedOsqueryReportsNewIndexRoute_def AuthenticatedOsqueryReportsNewLiveRoute_def
  AuthenticatedSantaConfigurationsIdIndexRoute_def AuthenticatedSantaConfigurationsIdEditRoute_def
  AuthenticatedSantaEventsFileAccessIndexRoute_def AuthenticatedSantaEventsFileAccessIdRoute_def
  AuthenticatedSantaRulesIdIndexRoute_def AuthenticatedSantaRulesIdEditRoute_def

lemmas tree_defs =
  AuthenticatedDirectoryGroupsRouteWithChildren_def AuthenticatedDirectoryUsersIdRouteWithChildren_def
  AuthenticatedDirectoryUsersRouteWithChildren_def AuthenticatedDirectoryRouteWithChildren_def
  AuthenticatedHostsIdRouteWithChildren_def AuthenticatedHostsRouteWithChildren_def
  AuthenticatedLabelsIdRouteWithChildren_def AuthenticatedLabelsRouteWithChildren_def
  AuthenticatedMunkiDistributionPointsIdRouteWithChildren_def AuthenticatedMunkiDistributionPointsRouteWithChildren_def
  AuthenticatedMunkiPackagesIdRouteWithChildren_def AuthenticatedMunkiPackagesRouteWithChildren_def
  AuthenticatedMunkiSoftwareIdRouteWithChildren_def AuthenticatedMunkiSoftwareRouteWithChildren_def
  AuthenticatedMunkiRouteWithChildren_def AuthenticatedOsqueryPoliciesIdRouteWithChildren_def
  AuthenticatedOsqueryPoliciesNewRouteWithChildren_def AuthenticatedOsqueryPoliciesRouteWithChildren_def
  AuthenticatedOsqueryReportsIdRouteWithChildren_def AuthenticatedOsqueryReportsNewRouteWithChildren_def
  AuthenticatedOsqueryReportsRouteWithChildren_def AuthenticatedOsqueryRouteWithChildren_def
  AuthenticatedSantaConfigurationsIdRouteWithChildren_def AuthenticatedSantaConfigurationsRouteWithChildren_def
  AuthenticatedSantaEventsFileAccessRouteWithChildren_def AuthenticatedSantaEventsRouteWithChildren_def
  AuthenticatedSantaRulesIdRouteWithChildren_def AuthenticatedSantaRulesRouteWithChildren_def
  AuthenticatedSantaRouteWithChildren_def AuthenticatedSoftwareRouteWithChildren_def
  AuthenticatedRouteWithChildren_def routeTree_def

lemmas path_defs =
  FileRoutesByPath_def FileRoutesByPath_1_def
  FileRoutesByPath_2_def FileRoutesByPath_3_def
  FileRoutesByPath_4_def FileRoutesByPath_5_def

section \<open>The pages of the tree\<close>

text \<open>A page: its id, its full path, its route, the parent, and the guards that run, outermost first.\<close>

record route_page =
  pg_id :: js_string
  pg_path :: js_string
  pg_route :: route_file
  pg_parent :: "route_file option"
  pg_guards :: "route_guard list"
  pg_leaf :: bool

fun pages :: "js_string \<Rightarrow> js_string \<Rightarrow> route_guard list \<Rightarrow> route_file option \<Rightarrow> route_node \<Rightarrow> route_page list" where
  "pages base_id base_path guards parent (RouteNode r children) =
     (let page_id = base_id @ rf_id r;
          path = base_path @ coalesce (rf_path r) [];
          guards' = (if rf_guard r = NoGuard then guards else guards @ [rf_guard r])
      in \<lparr>pg_id = page_id, pg_path = path, pg_route = r, pg_parent = parent, pg_guards = guards',
           pg_leaf = (children = [])\<rparr> #
         concat (map (pages page_id path guards' (Some r)) children))"

definition all_pages :: "route_page list" where
  "all_pages = concat (map (pages [] [] [] None) routeTree)"

lemma route_fields:
  "rf_id IndexRoute = ''/''" "rf_path IndexRoute = Some ''/''"
  "rf_guard IndexRoute = EntryGuard"
  "rf_id AuthenticatedRoute = ''/_authenticated''" "rf_path AuthenticatedRoute = None"
  "rf_guard AuthenticatedRoute = UserGuard"
  "rf_id LoginRoute = ''/login''" "rf_path LoginRoute = Some ''/login''"
  "rf_guard LoginRoute = LoginGuard"
  "rf_id AuthenticatedSplatRoute = ''/$''" "rf_path AuthenticatedSplatRoute = Some ''/$''"
  "rf_guard AuthenticatedSplatRoute = NoGuard"
  "rf_id AuthenticatedAccountRoute = ''/account''" "rf_path AuthenticatedAccountRoute = Some ''/account''"
  "rf_guard AuthenticatedAccountRoute = NoGuard"
  "rf_id AuthenticatedActivityRoute = ''/activity''" "rf_path AuthenticatedActivityRoute = Some ''/activity''"
  "rf_guard AuthenticatedActivityRoute = Needs [(''activity'', ''view'')] (None)"
  "rf_id AuthenticatedDirectoryRoute = ''/directory''" "rf_path AuthenticatedDirectoryRoute = Some ''/directory''"
  "rf_guard AuthenticatedDirectoryRoute = NoGuard"
  "rf_id AuthenticatedHostsRoute = ''/hosts''" "rf_path AuthenticatedHostsRoute = Some ''/hosts''"
  "rf_guard AuthenticatedHostsRoute = Needs [(''hosts'', ''view'')] (None)"
  "rf_id AuthenticatedLabelsRoute = ''/labels''" "rf_path AuthenticatedLabelsRoute = Some ''/labels''"
  "rf_guard AuthenticatedLabelsRoute = Needs [(''labels'', ''view'')] (None)"
  "rf_id AuthenticatedMunkiRoute = ''/munki''" "rf_path AuthenticatedMunkiRoute = Some ''/munki''"
  "rf_guard AuthenticatedMunkiRoute = NoGuard"
  "rf_id AuthenticatedOsqueryRoute = ''/osquery''" "rf_path AuthenticatedOsqueryRoute = Some ''/osquery''"
  "rf_guard AuthenticatedOsqueryRoute = NoGuard"
  "rf_id AuthenticatedSantaRoute = ''/santa''" "rf_path AuthenticatedSantaRoute = Some ''/santa''"
  "rf_guard AuthenticatedSantaRoute = NoGuard"
  "rf_id AuthenticatedSoftwareRoute = ''/software''" "rf_path AuthenticatedSoftwareRoute = Some ''/software''"
  "rf_guard AuthenticatedSoftwareRoute = Needs [(''software'', ''view'')] (None)"
  "rf_id AuthenticatedDirectoryIndexRoute = ''/''" "rf_path AuthenticatedDirectoryIndexRoute = Some ''/''"
  "rf_guard AuthenticatedDirectoryIndexRoute = Needs [(''directory'', ''view'')] (None)"
  "rf_id AuthenticatedDirectoryGroupsRoute = ''/groups''" "rf_path AuthenticatedDirectoryGroupsRoute = Some ''/groups''"
  "rf_guard AuthenticatedDirectoryGroupsRoute = Needs [(''groups'', ''view'')] (None)"
  "rf_id AuthenticatedDirectoryUsersRoute = ''/users''" "rf_path AuthenticatedDirectoryUsersRoute = Some ''/users''"
  "rf_guard AuthenticatedDirectoryUsersRoute = Needs [(''users'', ''view'')] (None)"
  "rf_id AuthenticatedHostsIndexRoute = ''/''" "rf_path AuthenticatedHostsIndexRoute = Some ''/''"
  "rf_guard AuthenticatedHostsIndexRoute = NoGuard"
  "rf_id AuthenticatedHostsIdRoute = ''/$id''" "rf_path AuthenticatedHostsIdRoute = Some ''/$id''"
  "rf_guard AuthenticatedHostsIdRoute = NoGuard"
  "rf_id AuthenticatedLabelsIndexRoute = ''/''" "rf_path AuthenticatedLabelsIndexRoute = Some ''/''"
  "rf_guard AuthenticatedLabelsIndexRoute = NoGuard"
  "rf_id AuthenticatedLabelsIdRoute = ''/$id''" "rf_path AuthenticatedLabelsIdRoute = Some ''/$id''"
  "rf_guard AuthenticatedLabelsIdRoute = NoGuard"
  "rf_id AuthenticatedLabelsNewRoute = ''/new''" "rf_path AuthenticatedLabelsNewRoute = Some ''/new''"
  "rf_guard AuthenticatedLabelsNewRoute = Needs [(''labels'', ''edit'')] (Some ''/labels'')"
  "rf_id AuthenticatedMunkiIndexRoute = ''/''" "rf_path AuthenticatedMunkiIndexRoute = Some ''/''"
  "rf_guard AuthenticatedMunkiIndexRoute = Needs [(''munki.software'', ''view'')] (None)"
  "rf_id AuthenticatedMunkiClientResourcesRoute = ''/client-resources''" "rf_path AuthenticatedMunkiClientResourcesRoute = Some ''/client-resources''"
  "rf_guard AuthenticatedMunkiClientResourcesRoute = Needs [(''munki.client-resources'', ''view'')] (None)"
  "rf_id AuthenticatedMunkiDistributionPointsRoute = ''/distribution-points''" "rf_path AuthenticatedMunkiDistributionPointsRoute = Some ''/distribution-points''"
  "rf_guard AuthenticatedMunkiDistributionPointsRoute = Needs [(''munki.distribution-points'', ''view'')] (None)"
  "rf_id AuthenticatedMunkiPackagesRoute = ''/packages''" "rf_path AuthenticatedMunkiPackagesRoute = Some ''/packages''"
  "rf_guard AuthenticatedMunkiPackagesRoute = Needs [(''munki.packages'', ''view'')] (None)"
  "rf_id AuthenticatedMunkiSoftwareRoute = ''/software''" "rf_path AuthenticatedMunkiSoftwareRoute = Some ''/software''"
  "rf_guard AuthenticatedMunkiSoftwareRoute = Needs [(''munki.software'', ''view'')] (None)"
  "rf_id AuthenticatedOsqueryIndexRoute = ''/''" "rf_path AuthenticatedOsqueryIndexRoute = Some ''/''"
  "rf_guard AuthenticatedOsqueryIndexRoute = Needs [(''osquery.overview'', ''view'')] (None)"
  "rf_id AuthenticatedOsqueryPoliciesRoute = ''/policies''" "rf_path AuthenticatedOsqueryPoliciesRoute = Some ''/policies''"
  "rf_guard AuthenticatedOsqueryPoliciesRoute = Needs [(''osquery.policies'', ''view'')] (None)"
  "rf_id AuthenticatedOsqueryReportsRoute = ''/reports''" "rf_path AuthenticatedOsqueryReportsRoute = Some ''/reports''"
  "rf_guard AuthenticatedOsqueryReportsRoute = Needs [(''osquery.reports'', ''view'')] (None)"
  "rf_id AuthenticatedSantaIndexRoute = ''/''" "rf_path AuthenticatedSantaIndexRoute = Some ''/''"
  "rf_guard AuthenticatedSantaIndexRoute = Needs [(''santa.configurations'', ''view'')] (None)"
  "rf_id AuthenticatedSantaConfigurationsRoute = ''/configurations''" "rf_path AuthenticatedSantaConfigurationsRoute = Some ''/configurations''"
  "rf_guard AuthenticatedSantaConfigurationsRoute = Needs [(''santa.configurations'', ''view'')] (None)"
  "rf_id AuthenticatedSantaEventsRoute = ''/events''" "rf_path AuthenticatedSantaEventsRoute = Some ''/events''"
  "rf_guard AuthenticatedSantaEventsRoute = Needs [(''santa.events'', ''view'')] (None)"
  "rf_id AuthenticatedSantaRulesRoute = ''/rules''" "rf_path AuthenticatedSantaRulesRoute = Some ''/rules''"
  "rf_guard AuthenticatedSantaRulesRoute = Needs [(''santa.rules'', ''view'')] (None)"
  "rf_id AuthenticatedSoftwareIndexRoute = ''/''" "rf_path AuthenticatedSoftwareIndexRoute = Some ''/''"
  "rf_guard AuthenticatedSoftwareIndexRoute = NoGuard"
  "rf_id AuthenticatedDirectoryGroupsIndexRoute = ''/''" "rf_path AuthenticatedDirectoryGroupsIndexRoute = Some ''/''"
  "rf_guard AuthenticatedDirectoryGroupsIndexRoute = NoGuard"
  "rf_id AuthenticatedDirectoryUsersIndexRoute = ''/''" "rf_path AuthenticatedDirectoryUsersIndexRoute = Some ''/''"
  "rf_guard AuthenticatedDirectoryUsersIndexRoute = NoGuard"
  "rf_id AuthenticatedDirectoryUsersIdRoute = ''/$id''" "rf_path AuthenticatedDirectoryUsersIdRoute = Some ''/$id''"
  "rf_guard AuthenticatedDirectoryUsersIdRoute = NoGuard"
  "rf_id AuthenticatedDirectoryUsersNewRoute = ''/new''" "rf_path AuthenticatedDirectoryUsersNewRoute = Some ''/new''"
  "rf_guard AuthenticatedDirectoryUsersNewRoute = Needs [(''users'', ''edit'')] (Some ''/directory/users'')"
  "rf_id AuthenticatedHostsIdIndexRoute = ''/''" "rf_path AuthenticatedHostsIdIndexRoute = Some ''/''"
  "rf_guard AuthenticatedHostsIdIndexRoute = NoGuard"
  "rf_id AuthenticatedHostsIdActivityRoute = ''/activity''" "rf_path AuthenticatedHostsIdActivityRoute = Some ''/activity''"
  "rf_guard AuthenticatedHostsIdActivityRoute = Needs [(''activity'', ''view'')] (None)"
  "rf_id AuthenticatedHostsIdMunkiRoute = ''/munki''" "rf_path AuthenticatedHostsIdMunkiRoute = Some ''/munki''"
  "rf_guard AuthenticatedHostsIdMunkiRoute = Needs [(''munki.software'', ''view'')] (None)"
  "rf_id AuthenticatedHostsIdPoliciesRoute = ''/policies''" "rf_path AuthenticatedHostsIdPoliciesRoute = Some ''/policies''"
  "rf_guard AuthenticatedHostsIdPoliciesRoute = Needs [(''osquery.policies'', ''view'')] (None)"
  "rf_id AuthenticatedHostsIdReportsRoute = ''/reports''" "rf_path AuthenticatedHostsIdReportsRoute = Some ''/reports''"
  "rf_guard AuthenticatedHostsIdReportsRoute = Needs [(''osquery.reports'', ''view'')] (None)"
  "rf_id AuthenticatedHostsIdSantaRoute = ''/santa''" "rf_path AuthenticatedHostsIdSantaRoute = Some ''/santa''"
  "rf_guard AuthenticatedHostsIdSantaRoute = Needs [(''santa.configurations'', ''view''), (''santa.rules'', ''view'')] (None)"
  "rf_id AuthenticatedHostsIdSoftwareRoute = ''/software''" "rf_path AuthenticatedHostsIdSoftwareRoute = Some ''/software''"
  "rf_guard AuthenticatedHostsIdSoftwareRoute = Needs [(''software'', ''view'')] (None)"
  "rf_id AuthenticatedLabelsIdIndexRoute = ''/''" "rf_path AuthenticatedLabelsIdIndexRoute = Some ''/''"
  "rf_guard AuthenticatedLabelsIdIndexRoute = NoGuard"
  "rf_id AuthenticatedLabelsIdEditRoute = ''/edit''" "rf_path AuthenticatedLabelsIdEditRoute = Some ''/edit''"
  "rf_guard AuthenticatedLabelsIdEditRoute = Needs [(''labels'', ''edit'')] (Some ''/labels/$id'')"
  "rf_id AuthenticatedMunkiDistributionPointsIndexRoute = ''/''" "rf_path AuthenticatedMunkiDistributionPointsIndexRoute = Some ''/''"
  "rf_guard AuthenticatedMunkiDistributionPointsIndexRoute = NoGuard"
  "rf_id AuthenticatedMunkiDistributionPointsIdRoute = ''/$id''" "rf_path AuthenticatedMunkiDistributionPointsIdRoute = Some ''/$id''"
  "rf_guard AuthenticatedMunkiDistributionPointsIdRoute = NoGuard"
  "rf_id AuthenticatedMunkiDistributionPointsNewRoute = ''/new''" "rf_path AuthenticatedMunkiDistributionPointsNewRoute = Some ''/new''"
  "rf_guard AuthenticatedMunkiDistributionPointsNewRoute = Needs [(''munki.distribution-points'', ''edit'')] (Some ''/munki/distribution-points'')"
  "rf_id AuthenticatedMunkiPackagesIndexRoute = ''/''" "rf_path AuthenticatedMunkiPackagesIndexRoute = Some ''/''"
  "rf_guard AuthenticatedMunkiPackagesIndexRoute = NoGuard"
  "rf_id AuthenticatedMunkiPackagesIdRoute = ''/$id''" "rf_path AuthenticatedMunkiPackagesIdRoute = Some ''/$id''"
  "rf_guard AuthenticatedMunkiPackagesIdRoute = NoGuard"
  "rf_id AuthenticatedMunkiPackagesNewRoute = ''/new''" "rf_path AuthenticatedMunkiPackagesNewRoute = Some ''/new''"
  "rf_guard AuthenticatedMunkiPackagesNewRoute = Needs [(''munki.packages'', ''edit'')] (Some ''/munki/packages'')"
  "rf_id AuthenticatedMunkiSoftwareIndexRoute = ''/''" "rf_path AuthenticatedMunkiSoftwareIndexRoute = Some ''/''"
  "rf_guard AuthenticatedMunkiSoftwareIndexRoute = NoGuard"
  "rf_id AuthenticatedMunkiSoftwareIdRoute = ''/$id''" "rf_path AuthenticatedMunkiSoftwareIdRoute = Some ''/$id''"
  "rf_guard AuthenticatedMunkiSoftwareIdRoute = NoGuard"
  "rf_id AuthenticatedMunkiSoftwareNewRoute = ''/new''" "rf_path AuthenticatedMunkiSoftwareNewRoute = Some ''/new''"
  "rf_guard AuthenticatedMunkiSoftwareNewRoute = Needs [(''munki.software'', ''edit'')] (Some ''/munki/software'')"
  "rf_id AuthenticatedOsqueryPoliciesIndexRoute = ''/''" "rf_path AuthenticatedOsqueryPoliciesIndexRoute = Some ''/''"
  "rf_guard AuthenticatedOsqueryPoliciesIndexRoute = NoGuard"
  "rf_id AuthenticatedOsqueryPoliciesIdRoute = ''/$id''" "rf_path AuthenticatedOsqueryPoliciesIdRoute = Some ''/$id''"
  "rf_guard AuthenticatedOsqueryPoliciesIdRoute = NoGuard"
  "rf_id AuthenticatedOsqueryPoliciesNewRoute = ''/new''" "rf_path AuthenticatedOsqueryPoliciesNewRoute = Some ''/new''"
  "rf_guard AuthenticatedOsqueryPoliciesNewRoute = Needs [(''osquery.policies'', ''edit'')] (Some ''/osquery/policies'')"
  "rf_id AuthenticatedOsqueryReportsIndexRoute = ''/''" "rf_path AuthenticatedOsqueryReportsIndexRoute = Some ''/''"
  "rf_guard AuthenticatedOsqueryReportsIndexRoute = NoGuard"
  "rf_id AuthenticatedOsqueryReportsIdRoute = ''/$id''" "rf_path AuthenticatedOsqueryReportsIdRoute = Some ''/$id''"
  "rf_guard AuthenticatedOsqueryReportsIdRoute = NoGuard"
  "rf_id AuthenticatedOsqueryReportsNewRoute = ''/new''" "rf_path AuthenticatedOsqueryReportsNewRoute = Some ''/new''"
  "rf_guard AuthenticatedOsqueryReportsNewRoute = Needs [(''osquery.reports'', ''edit'')] (Some ''/osquery/reports'')"
  "rf_id AuthenticatedSantaConfigurationsIndexRoute = ''/''" "rf_path AuthenticatedSantaConfigurationsIndexRoute = Some ''/''"
  "rf_guard AuthenticatedSantaConfigurationsIndexRoute = NoGuard"
  "rf_id AuthenticatedSantaConfigurationsIdRoute = ''/$id''" "rf_path AuthenticatedSantaConfigurationsIdRoute = Some ''/$id''"
  "rf_guard AuthenticatedSantaConfigurationsIdRoute = NoGuard"
  "rf_id AuthenticatedSantaConfigurationsNewRoute = ''/new''" "rf_path AuthenticatedSantaConfigurationsNewRoute = Some ''/new''"
  "rf_guard AuthenticatedSantaConfigurationsNewRoute = Needs [(''santa.configurations'', ''edit'')] (Some ''/santa/configurations'')"
  "rf_id AuthenticatedSantaEventsIndexRoute = ''/''" "rf_path AuthenticatedSantaEventsIndexRoute = Some ''/''"
  "rf_guard AuthenticatedSantaEventsIndexRoute = NoGuard"
  "rf_id AuthenticatedSantaEventsIdRoute = ''/$id''" "rf_path AuthenticatedSantaEventsIdRoute = Some ''/$id''"
  "rf_guard AuthenticatedSantaEventsIdRoute = NoGuard"
  "rf_id AuthenticatedSantaEventsFileAccessRoute = ''/file-access''" "rf_path AuthenticatedSantaEventsFileAccessRoute = Some ''/file-access''"
  "rf_guard AuthenticatedSantaEventsFileAccessRoute = NoGuard"
  "rf_id AuthenticatedSantaRulesIndexRoute = ''/''" "rf_path AuthenticatedSantaRulesIndexRoute = Some ''/''"
  "rf_guard AuthenticatedSantaRulesIndexRoute = NoGuard"
  "rf_id AuthenticatedSantaRulesIdRoute = ''/$id''" "rf_path AuthenticatedSantaRulesIdRoute = Some ''/$id''"
  "rf_guard AuthenticatedSantaRulesIdRoute = NoGuard"
  "rf_id AuthenticatedSantaRulesNewRoute = ''/new''" "rf_path AuthenticatedSantaRulesNewRoute = Some ''/new''"
  "rf_guard AuthenticatedSantaRulesNewRoute = Needs [(''santa.rules'', ''edit'')] (Some ''/santa/rules'')"
  "rf_id AuthenticatedSoftwareTitlesIdRoute = ''/titles/$id''" "rf_path AuthenticatedSoftwareTitlesIdRoute = Some ''/titles/$id''"
  "rf_guard AuthenticatedSoftwareTitlesIdRoute = NoGuard"
  "rf_id AuthenticatedDirectoryUsersIdIndexRoute = ''/''" "rf_path AuthenticatedDirectoryUsersIdIndexRoute = Some ''/''"
  "rf_guard AuthenticatedDirectoryUsersIdIndexRoute = NoGuard"
  "rf_id AuthenticatedDirectoryUsersIdEditRoute = ''/edit''" "rf_path AuthenticatedDirectoryUsersIdEditRoute = Some ''/edit''"
  "rf_guard AuthenticatedDirectoryUsersIdEditRoute = Needs [(''users'', ''edit'')] (Some ''/directory/users/$id'')"
  "rf_id AuthenticatedMunkiDistributionPointsIdIndexRoute = ''/''" "rf_path AuthenticatedMunkiDistributionPointsIdIndexRoute = Some ''/''"
  "rf_guard AuthenticatedMunkiDistributionPointsIdIndexRoute = NoGuard"
  "rf_id AuthenticatedMunkiDistributionPointsIdEditRoute = ''/edit''" "rf_path AuthenticatedMunkiDistributionPointsIdEditRoute = Some ''/edit''"
  "rf_guard AuthenticatedMunkiDistributionPointsIdEditRoute = Needs [(''munki.distribution-points'', ''edit'')] (Some ''/munki/distribution-points/$id'')"
  "rf_id AuthenticatedMunkiPackagesIdIndexRoute = ''/''" "rf_path AuthenticatedMunkiPackagesIdIndexRoute = Some ''/''"
  "rf_guard AuthenticatedMunkiPackagesIdIndexRoute = NoGuard"
  "rf_id AuthenticatedMunkiPackagesIdEditRoute = ''/edit''" "rf_path AuthenticatedMunkiPackagesIdEditRoute = Some ''/edit''"
  "rf_guard AuthenticatedMunkiPackagesIdEditRoute = Needs [(''munki.packages'', ''edit'')] (Some ''/munki/packages/$id'')"
  "rf_id AuthenticatedMunkiSoftwareIdIndexRoute = ''/''" "rf_path AuthenticatedMunkiSoftwareIdIndexRoute = Some ''/''"
  "rf_guard AuthenticatedMunkiSoftwareIdIndexRoute = NoGuard"
  "rf_id AuthenticatedMunkiSoftwareIdEditRoute = ''/edit''" "rf_path AuthenticatedMunkiSoftwareIdEditRoute = Some ''/edit''"
  "rf_guard AuthenticatedMunkiSoftwareIdEditRoute = Needs [(''munki.software'', ''edit'')] (Some ''/munki/software/$id'')"
  "rf_id AuthenticatedOsqueryPoliciesIdIndexRoute = ''/''" "rf_path AuthenticatedOsqueryPoliciesIdIndexRoute = Some ''/''"
  "rf_guard AuthenticatedOsqueryPoliciesIdIndexRoute = NoGuard"
  "rf_id AuthenticatedOsqueryPoliciesIdEditRoute = ''/edit''" "rf_path AuthenticatedOsqueryPoliciesIdEditRoute = Some ''/edit''"
  "rf_guard AuthenticatedOsqueryPoliciesIdEditRoute = Needs [(''osquery.policies'', ''edit'')] (Some ''/osquery/policies/$id'')"
  "rf_id AuthenticatedOsqueryPoliciesIdLiveRoute = ''/live''" "rf_path AuthenticatedOsqueryPoliciesIdLiveRoute = Some ''/live''"
  "rf_guard AuthenticatedOsqueryPoliciesIdLiveRoute = Needs [(''osquery.policies'', ''view''), (''osquery.live-queries'', ''edit'')] (Some ''/osquery/policies/$id'')"
  "rf_id AuthenticatedOsqueryPoliciesNewIndexRoute = ''/''" "rf_path AuthenticatedOsqueryPoliciesNewIndexRoute = Some ''/''"
  "rf_guard AuthenticatedOsqueryPoliciesNewIndexRoute = NoGuard"
  "rf_id AuthenticatedOsqueryPoliciesNewLiveRoute = ''/live''" "rf_path AuthenticatedOsqueryPoliciesNewLiveRoute = Some ''/live''"
  "rf_guard AuthenticatedOsqueryPoliciesNewLiveRoute = Needs [(''osquery.live-queries'', ''edit'')] (None)"
  "rf_id AuthenticatedOsqueryReportsIdIndexRoute = ''/''" "rf_path AuthenticatedOsqueryReportsIdIndexRoute = Some ''/''"
  "rf_guard AuthenticatedOsqueryReportsIdIndexRoute = NoGuard"
  "rf_id AuthenticatedOsqueryReportsIdEditRoute = ''/edit''" "rf_path AuthenticatedOsqueryReportsIdEditRoute = Some ''/edit''"
  "rf_guard AuthenticatedOsqueryReportsIdEditRoute = Needs [(''osquery.reports'', ''edit'')] (Some ''/osquery/reports/$id'')"
  "rf_id AuthenticatedOsqueryReportsIdLiveRoute = ''/live''" "rf_path AuthenticatedOsqueryReportsIdLiveRoute = Some ''/live''"
  "rf_guard AuthenticatedOsqueryReportsIdLiveRoute = Needs [(''osquery.reports'', ''view''), (''osquery.live-queries'', ''edit'')] (Some ''/osquery/reports/$id'')"
  "rf_id AuthenticatedOsqueryReportsNewIndexRoute = ''/''" "rf_path AuthenticatedOsqueryReportsNewIndexRoute = Some ''/''"
  "rf_guard AuthenticatedOsqueryReportsNewIndexRoute = NoGuard"
  "rf_id AuthenticatedOsqueryReportsNewLiveRoute = ''/live''" "rf_path AuthenticatedOsqueryReportsNewLiveRoute = Some ''/live''"
  "rf_guard AuthenticatedOsqueryReportsNewLiveRoute = Needs [(''osquery.live-queries'', ''edit'')] (None)"
  "rf_id AuthenticatedSantaConfigurationsIdIndexRoute = ''/''" "rf_path AuthenticatedSantaConfigurationsIdIndexRoute = Some ''/''"
  "rf_guard AuthenticatedSantaConfigurationsIdIndexRoute = NoGuard"
  "rf_id AuthenticatedSantaConfigurationsIdEditRoute = ''/edit''" "rf_path AuthenticatedSantaConfigurationsIdEditRoute = Some ''/edit''"
  "rf_guard AuthenticatedSantaConfigurationsIdEditRoute = Needs [(''santa.configurations'', ''edit'')] (Some ''/santa/configurations/$id'')"
  "rf_id AuthenticatedSantaEventsFileAccessIndexRoute = ''/''" "rf_path AuthenticatedSantaEventsFileAccessIndexRoute = Some ''/''"
  "rf_guard AuthenticatedSantaEventsFileAccessIndexRoute = NoGuard"
  "rf_id AuthenticatedSantaEventsFileAccessIdRoute = ''/$id''" "rf_path AuthenticatedSantaEventsFileAccessIdRoute = Some ''/$id''"
  "rf_guard AuthenticatedSantaEventsFileAccessIdRoute = NoGuard"
  "rf_id AuthenticatedSantaRulesIdIndexRoute = ''/''" "rf_path AuthenticatedSantaRulesIdIndexRoute = Some ''/''"
  "rf_guard AuthenticatedSantaRulesIdIndexRoute = NoGuard"
  "rf_id AuthenticatedSantaRulesIdEditRoute = ''/edit''" "rf_path AuthenticatedSantaRulesIdEditRoute = Some ''/edit''"
  "rf_guard AuthenticatedSantaRulesIdEditRoute = Needs [(''santa.rules'', ''edit'')] (Some ''/santa/rules/$id'')"
  by (simp_all add: route_defs guard_defs)

lemmas all_pages_eq =
  all_pages_def [unfolded tree_defs, simplified pages.simps Let_def route_fields list.map concat.simps append_Nil append_Cons
    append_Nil2 coalesce_simps route_guard.distinct if_False if_True refl list.distinct]

section \<open>The tree has what the types promise\<close>

text \<open>The path a link names: the one of the page, without a slash at its end.\<close>

definition to_path :: "js_string \<Rightarrow> js_string" where
  "to_path p = (if p \<noteq> ''/'' \<and> p \<noteq> [] \<and> last p = CHR ''/'' then butlast p else p)"

definition shown_path :: "route_page \<Rightarrow> js_string" where
  "shown_path pg = (if pg_path pg = [] then ''/'' else pg_path pg)"

definition page_entry :: "route_page \<Rightarrow> route_entry" where
  "page_entry pg = (pg_id pg, coalesce (rf_path (pg_route pg)) [], shown_path pg, pg_route pg, pg_parent pg)"

lemmas page_fields = route_page.select_convs page_entry_def shown_path_def route_fields coalesce_simps list.map

lemmas entries = arg_cong [OF all_pages_eq, of "map page_entry", simplified page_fields list.simps if_True if_False refl]

lemma pages_declared: "mset (map page_entry all_pages) = mset FileRoutesByPath"
  unfolding entries path_defs append_Cons append_Nil mset.simps
  by (simp only: add_mset_commute)

lemmas page_ids =
  arg_cong [OF all_pages_eq, of "map (\<lambda>pg. (pg_id pg, pg_route pg))", simplified route_page.select_convs list.map]

lemma ids_declared: "mset (map (\<lambda>pg. (pg_id pg, pg_route pg)) all_pages) = mset FileRoutesById"
  unfolding page_ids FileRoutesById_def mset.simps
  by (simp only: add_mset_commute)

text \<open>The layout without a path is left out of the full paths, a layout with pages of its own of the targets.\<close>

definition full_paths :: "(js_string \<times> route_file) list" where
  "full_paths = map (\<lambda>pg. (pg_path pg, pg_route pg)) (filter (\<lambda>pg. pg_path pg \<noteq> []) all_pages)"

definition targets :: "route_page list" where
  "targets = filter pg_leaf all_pages"

lemma filter_keeps: "P x \<Longrightarrow> filter P (x # xs) = x # filter P xs"
  and filter_drops: "\<not> P x \<Longrightarrow> filter P (x # xs) = filter P xs"
  by simp_all

lemmas filter_pages = filter_keeps filter_drops filter.simps(1) route_page.select_convs list.map list.distinct not_False_eq_True
  not_True_eq_False simp_thms(6)

lemmas full_paths_eq = full_paths_def [unfolded all_pages_eq, simplified filter_pages]

lemmas targets_eq = targets_def [unfolded all_pages_eq, simplified filter_pages]

lemma full_paths_declared: "mset full_paths = mset FileRoutesByFullPath"
  unfolding full_paths_eq FileRoutesByFullPath_def mset.simps
  by (simp only: add_mset_commute)

definition target_paths :: "(js_string \<times> route_file) list" where
  "target_paths = map (\<lambda>pg. (to_path (pg_path pg), pg_route pg)) targets"

lemmas target_paths_eq = target_paths_def [unfolded targets_eq list.map route_page.select_convs, simplified to_path_def, simplified]

lemma targets_declared: "mset target_paths = mset FileRoutesByTo"
  unfolding target_paths_eq FileRoutesByTo_def mset.simps
  by (simp only: add_mset_commute)

text \<open>The unions of paths and ids are those of the maps; the ids have the root as well.\<close>

lemma route_types:
  "map fst FileRoutesByFullPath = FileRouteTypes_fullPaths" "map fst FileRoutesByTo = FileRouteTypes_to"
  "''__root__'' # map fst FileRoutesById = FileRouteTypes_id"
  by (simp_all only: FileRoutesByFullPath_def FileRouteTypes_fullPaths_def FileRoutesByTo_def FileRouteTypes_to_def
      FileRoutesById_def FileRouteTypes_id_def list.map fst_conv)

section \<open>Opening a page\<close>

text \<open>A guard of the session and the account that were read; \<open>onForbidden\<close> redirects to the page it names.\<close>

definition run_guard ::
    "'p permission_test \<Rightarrow> ('p \<Rightarrow> requirement list \<Rightarrow> bool) \<Rightarrow> thrown + 'u session_body \<Rightarrow> thrown + 'p account \<Rightarrow>
     route_guard \<Rightarrow> js_string guard_exit + unit" where
  "run_guard can canAll session account g =
     (case g of
        NoGuard \<Rightarrow> Inr ()
      | EntryGuard \<Rightarrow> redirectForEntry can session account
      | LoginGuard \<Rightarrow> redirectAuthenticatedFromLogin can session account
      | UserGuard \<Rightarrow> (case requireUser session of Inl e \<Rightarrow> Inl e | Inr u \<Rightarrow> Inr ())
      | Needs requirements onForbidden \<Rightarrow>
          (case requirePermissions can canAll account requirements onForbidden of
             Inl (OnForbidden target) \<Rightarrow> Inl (RedirectTo target)
           | r \<Rightarrow> r))"

fun run_guards ::
    "'p permission_test \<Rightarrow> ('p \<Rightarrow> requirement list \<Rightarrow> bool) \<Rightarrow> thrown + 'u session_body \<Rightarrow> thrown + 'p account \<Rightarrow>
     route_guard list \<Rightarrow> js_string guard_exit + unit" where
  "run_guards can canAll session account [] = Inr ()"
| "run_guards can canAll session account (g # gs) =
     (case run_guard can canAll session account g of
        Inl e \<Rightarrow> Inl e
      | Inr u \<Rightarrow> run_guards can canAll session account gs)"

text \<open>The guards of the pages, by the path a link names; an unknown path has the page of the splat route.\<close>

definition sites :: "(js_string \<times> route_guard list) list" where
  "sites = map (\<lambda>pg. (to_path (pg_path pg), pg_guards pg)) targets"

definition site_guards :: "js_string \<Rightarrow> route_guard list" where
  "site_guards target = coalesce (map_of sites target) (coalesce (map_of sites ''/$'') [])"

definition open_page ::
    "'p permission_test \<Rightarrow> ('p \<Rightarrow> requirement list \<Rightarrow> bool) \<Rightarrow> thrown + 'u session_body \<Rightarrow> thrown + 'p account \<Rightarrow>
     js_string \<Rightarrow> js_string guard_exit + unit" where
  "open_page can canAll session account target =
     run_guards can canAll session account (site_guards target)"

lemmas sites_eq = sites_def [unfolded targets_eq list.map route_page.select_convs guard_defs, simplified to_path_def, simplified]

lemma sites_distinct: "distinct (map fst sites)"
  unfolding sites_eq by simp

lemma site_lookup_all: "sites = xs \<Longrightarrow> list_all (\<lambda>(t, gs). map_of sites t = Some gs) xs"
  using sites_distinct by (auto simp: list_all_iff intro: map_of_is_SomeI)

lemmas site_lookup = site_lookup_all [OF sites_eq, unfolded list.pred_inject prod.case]

text \<open>What the package of permissions documents: all requirements are met if each is.\<close>

definition can_each :: "'p permission_test \<Rightarrow> ('p \<Rightarrow> requirement list \<Rightarrow> bool) \<Rightarrow> bool" where
  "can_each can canAll \<longleftrightarrow> (\<forall>p rs. canAll p rs = list_all (can (Some p)) rs)"

lemma run_guards_append:
  "run_guards can canAll session account (gs @ hs) =
     (case run_guards can canAll session account gs of
        Inl e \<Rightarrow> Inl e
      | Inr u \<Rightarrow> run_guards can canAll session account hs)"
  by (induction gs) (simp_all split: sum.splits)

lemma run_guards_passed:
  "run_guards can canAll session account gs = Inr () \<longleftrightarrow>
     (\<forall>g \<in> set gs. run_guard can canAll session account g = Inr ())"
  by (induction gs) (auto split: sum.splits)

text \<open>The guards of every entry of the navigation are its requirement.\<close>

lemma nav_sites: "list_all (\<lambda>(t, r). map_of sites t = Some [UserGuard, Needs [r] None]) nav_entries"
  by (simp add: nav_entries_def navSections_def site_lookup)

text \<open>Where a guard sends an account that may not edit, it may view: that page's guards ran before.\<close>

fun forbidden_ok :: "route_guard list \<Rightarrow> route_guard list \<Rightarrow> bool" where
  "forbidden_ok before [] \<longleftrightarrow> True"
| "forbidden_ok before (g # gs) \<longleftrightarrow>
     (case g of
        Needs rs (Some target) \<Rightarrow>
          (case map_of sites target of Some hs \<Rightarrow> list_all (\<lambda>h. h \<in> set before) hs | None \<Rightarrow> False)
      | _ \<Rightarrow> True) \<and>
     forbidden_ok (before @ [g]) gs"

lemma sites_forbidden_ok: "list_all (\<lambda>(t, gs). forbidden_ok [] gs) sites"
proof -
  have "sites = xs \<Longrightarrow> list_all (\<lambda>(t, gs). forbidden_ok [] gs) xs \<Longrightarrow> ?thesis" for xs by simp
  from this [OF sites_eq] show ?thesis by (simp add: site_lookup)
qed

lemma account_site: "map_of sites ''/account'' = Some [UserGuard]"
  "map_of sites ''/login'' = Some [LoginGuard]" "map_of sites ''/'' = Some [EntryGuard]"
  "map_of sites ''/$'' = Some [UserGuard]"
  by (simp_all add: site_lookup)

lemma sites_start:
  "list_all (\<lambda>(t, gs). t = ''/'' \<or> t = ''/login'' \<or> hd gs = UserGuard \<and> gs \<noteq> []) sites"
  unfolding sites_eq by simp

section \<open>What opens\<close>

abbreviation signed_in :: "'u session_body \<Rightarrow> bool" where
  "signed_in s \<equiv> sb_user s \<noteq> None"

lemma guard_of_user: "signed_in s \<Longrightarrow> run_guard can canAll (Inr s) account UserGuard = Inr ()"
  by (auto simp: run_guard_def requireUser_def)

lemma guard_needs:
  "run_guard can canAll session (Inr a) (Needs rs to) =
     (if canAll (ac_permissions a) rs then Inr ()
      else Inl (RedirectTo (coalesce to (landing_path can a))))"
  by (cases to) (simp_all add: run_guard_def requirePermissions_def)

lemma open_site:
  "map_of sites t = Some gs \<Longrightarrow> open_page can canAll session account t = run_guards can canAll session account gs"
  by (simp add: open_page_def site_guards_def)

lemma entry_opens:
  assumes "can_each can canAll" and "signed_in s" and "(t, r) \<in> set nav_entries"
  shows "open_page can canAll (Inr s) (Inr a) t = Inr () \<longleftrightarrow> can (Some (ac_permissions a)) r"
proof -
  have "map_of sites t = Some [UserGuard, Needs [r] None]" using nav_sites assms(3) by (auto simp: list_all_iff)
  then show ?thesis
    using assms(1) by (simp add: open_site guard_of_user [OF assms(2)] guard_needs can_each_def)
qed

text \<open>What the sidebar shows are the entries whose requirement is met.\<close>

lemma visible_entries:
  "nav_ok items \<Longrightarrow> nav_leaves (filterNavigation can perms items) = filter (\<lambda>(t, r). can perms r) (nav_leaves items)"
proof (induction can perms items rule: filterNavigation.induct)
  case (2 can perms label to exact disabled permission children items)
  show ?case
  proof (cases children)
    case None
    with 2 show ?thesis by (auto simp: Let_def)
  next
    case (Some cs)
    with 2(3) have ok: "nav_ok cs" "permission = None" by simp_all
    show ?thesis
    proof (cases disabled)
      case False
      with 2(1) Some ok have "nav_leaves (filterNavigation can perms cs) = filter (\<lambda>(t, r). can perms r) (nav_leaves cs)"
        by simp
      with 2 Some ok False show ?thesis by (cases "filterNavigation can perms cs") (simp_all add: Let_def)
    qed (use 2 in simp)
  qed
qed simp

definition shown_entries :: "'p permission_test \<Rightarrow> 'p account \<Rightarrow> (js_string \<times> requirement) list" where
  "shown_entries can a = nav_leaves (concat (map nm_items (visibleNavSections can (Some a))))"

lemma shown_entries_eq: "shown_entries can a = filter (\<lambda>(t, r). can (Some (ac_permissions a)) r) nav_entries"
  by (simp add: shown_entries_def visibleNavSections_items nav_entries_def visible_entries [OF navSections_ok])

lemma account_opens: "signed_in s \<Longrightarrow> open_page can canAll (Inr s) account ''/account'' = Inr ()"
  by (simp add: open_site [OF account_site(1)] guard_of_user)

lemma landing_opens:
  assumes "can_each can canAll" and "signed_in s"
  shows "open_page can canAll (Inr s) (Inr a) (landing_path can a) = Inr ()"
proof -
  have "redirect_ok can (Some (ac_permissions a)) (landing_path can a)" by (rule landing_path_ok)
  then consider "landing_path can a = ''/account''"
    | r where "(landing_path can a, r) \<in> set nav_entries" "can (Some (ac_permissions a)) r"
    by (auto simp: redirect_ok_def)
  then show ?thesis
    using account_opens [OF assms(2)] entry_opens [OF assms] by cases auto
qed

text \<open>A redirect leads to the landing page, or to a page whose guards have let the account pass.\<close>

lemma redirect_opens:
  assumes law: "can_each can canAll" and user: "signed_in s" and ok: "forbidden_ok before gs"
    and before: "\<forall>g \<in> set before. run_guard can canAll (Inr s) (Inr a) g = Inr ()"
    and stop: "run_guards can canAll (Inr s) (Inr a) gs = Inl e"
  shows "\<exists>t. e = RedirectTo t \<and> open_page can canAll (Inr s) (Inr a) t = Inr ()"
  using ok before stop
proof (induction before gs rule: forbidden_ok.induct)
  case (2 before g gs)
  have landing: "open_page can canAll (Inr s) (Inr a) (landing_path can a) = Inr ()" by (rule landing_opens [OF law user])
  show ?case
  proof (cases "run_guard can canAll (Inr s) (Inr a) g")
    case (Inr u)
    with 2 show ?thesis by auto
  next
    case (Inl e')
    then have e: "e = e'" using 2(4) by simp
    show ?thesis
    proof (cases g)
      case (Needs rs to)
      with Inl e have t: "e = RedirectTo (coalesce to (landing_path can a))" by (simp add: guard_needs split: if_splits)
      show ?thesis
      proof (cases to)
        case None
        with t landing show ?thesis by simp
      next
        case (Some target)
        with 2(2) Needs obtain hs where hs: "map_of sites target = Some hs" "list_all (\<lambda>h. h \<in> set before) hs"
          by (auto split: option.splits)
        then have "\<forall>h \<in> set hs. run_guard can canAll (Inr s) (Inr a) h = Inr ()" using 2(3) by (auto simp: list_all_iff)
        then have "open_page can canAll (Inr s) (Inr a) target = Inr ()"
          by (simp add: open_site [OF hs(1)] run_guards_passed)
        with t Some show ?thesis by simp
      qed
    qed (use Inl e user landing in
        \<open>auto simp: run_guard_def requireUser_def redirectForEntry_def redirectAuthenticatedFromLogin_def\<close>)
  qed
qed simp

lemma site_guards_ok: "forbidden_ok [] (site_guards t)"
proof (cases "map_of sites t")
  case None
  then show ?thesis by (simp add: site_guards_def account_site)
next
  case (Some gs)
  then have "(t, gs) \<in> set sites" by (rule map_of_SomeD)
  with sites_forbidden_ok Some show ?thesis by (auto simp: site_guards_def list_all_iff)
qed

lemma one_redirect:
  assumes "can_each can canAll" and "signed_in s" and "open_page can canAll (Inr s) (Inr a) t = Inl e"
  shows "\<exists>t'. e = RedirectTo t' \<and> open_page can canAll (Inr s) (Inr a) t' = Inr ()"
  by (rule redirect_opens [OF assms(1,2) site_guards_ok _ assms(3) [unfolded open_page_def]]) simp

text \<open>Without a user every page but the login page leads to it, and it opens.\<close>

lemma signed_out:
  assumes "sb_user s = None"
  shows "open_page can canAll (Inr s) account t =
    (if t = ''/login'' then Inr () else Inl (RedirectTo ''/login''))"
proof -
  have first: "run_guard can canAll (Inr s) account UserGuard = Inl (RedirectTo ''/login'')"
    "run_guard can canAll (Inr s) account EntryGuard = Inl (RedirectTo ''/login'')"
    "run_guard can canAll (Inr s) account LoginGuard = Inr ()"
    using assms by (simp_all add: run_guard_def requireUser_def redirectForEntry_def redirectAuthenticatedFromLogin_def)
  show ?thesis
  proof (cases "map_of sites t")
    case None
    then have "t \<noteq> ''/login''" using account_site(2) by auto
    with None show ?thesis by (simp add: open_page_def site_guards_def account_site first)
  next
    case (Some gs)
    show ?thesis
    proof (cases "t = ''/'' \<or> t = ''/login''")
      case True
      with Some show ?thesis by (auto simp: open_page_def site_guards_def account_site first)
    next
      case False
      with sites_start map_of_SomeD [OF Some] obtain hs where "gs = UserGuard # hs"
        by (cases gs) (auto simp: list_all_iff)
      with Some False show ?thesis by (simp add: open_page_def site_guards_def first)
    qed
  qed
qed

section \<open>The sections of a host\<close>

record host_section =
  hsec_value :: js_string
  hsec_label :: js_string
  hsec_path :: js_string
  hsec_heartbeat :: "js_string option"
  hsec_permissions :: "requirement list"

definition hostSections :: "host_section list" where
  "hostSections = [
     \<lparr>hsec_value = ''details'', hsec_label = ''Details'', hsec_path = ''/hosts/$id'', hsec_heartbeat = None,
      hsec_permissions = []\<rparr>,
     \<lparr>hsec_value = ''activity'', hsec_label = ''Activity'', hsec_path = ''/hosts/$id/activity'', hsec_heartbeat = None,
      hsec_permissions = [(''activity'', ''view'')]\<rparr>,
     \<lparr>hsec_value = ''software'', hsec_label = ''Software'', hsec_path = ''/hosts/$id/software'', hsec_heartbeat = None,
      hsec_permissions = [(''software'', ''view'')]\<rparr>,
     \<lparr>hsec_value = ''reports'', hsec_label = ''Reports'', hsec_path = ''/hosts/$id/reports'', hsec_heartbeat = None,
      hsec_permissions = [(''osquery.reports'', ''view'')]\<rparr>,
     \<lparr>hsec_value = ''policies'', hsec_label = ''Policies'', hsec_path = ''/hosts/$id/policies'', hsec_heartbeat = None,
      hsec_permissions = [(''osquery.policies'', ''view'')]\<rparr>,
     \<lparr>hsec_value = ''munki'', hsec_label = ''Munki'', hsec_path = ''/hosts/$id/munki'', hsec_heartbeat = Some ''munki'',
      hsec_permissions = [(''munki.software'', ''view'')]\<rparr>,
     \<lparr>hsec_value = ''santa'', hsec_label = ''Santa'', hsec_path = ''/hosts/$id/santa'', hsec_heartbeat = Some ''santa'',
      hsec_permissions = [(''santa.configurations'', ''view''), (''santa.rules'', ''view'')]\<rparr>]"

text \<open>The sections shown of a host with these heartbeats; \<open>perms\<close> are those of an account that was read.\<close>

definition shown_sections ::
    "('p \<Rightarrow> requirement list \<Rightarrow> bool) \<Rightarrow> 'p \<Rightarrow> js_string list \<Rightarrow> host_section list" where
  "shown_sections canAll perms heartbeats =
     filter (\<lambda>section. case hsec_heartbeat section of None \<Rightarrow> True | Some source \<Rightarrow> source \<in> set heartbeats)
       (filter (\<lambda>section. canAll perms (hsec_permissions section)) hostSections)"

lemma section_sites:
  "list_all (\<lambda>x. map_of sites (hsec_path x) =
     Some ([UserGuard, Needs [(''hosts'', ''view'')] None] @
           (if hsec_permissions x = [] then [] else [Needs (hsec_permissions x) None]))) hostSections"
  by (simp add: hostSections_def site_lookup)

text \<open>Of the sections a host has data for, those are shown that open for an account that may see hosts.\<close>

lemma section_opens:
  assumes "can_each can canAll" and "signed_in s" and "x \<in> set hostSections"
    and "can (Some (ac_permissions a)) (''hosts'', ''view'')"
  shows "open_page can canAll (Inr s) (Inr a) (hsec_path x) = Inr () \<longleftrightarrow>
    canAll (ac_permissions a) (hsec_permissions x)"
proof -
  have "map_of sites (hsec_path x) = Some ([UserGuard, Needs [(''hosts'', ''view'')] None] @
      (if hsec_permissions x = [] then [] else [Needs (hsec_permissions x) None]))"
    using section_sites assms(3) by (auto simp: list_all_iff)
  then show ?thesis
    using assms(1,4) by (cases "hsec_permissions x = []")
      (simp_all add: open_site guard_of_user [OF assms(2)] guard_needs can_each_def)
qed

lemma shown_section_opens:
  assumes "can_each can canAll" and "signed_in s" and "can (Some (ac_permissions a)) (''hosts'', ''view'')"
  shows "x \<in> set (shown_sections canAll (ac_permissions a) heartbeats) \<longleftrightarrow>
    x \<in> set hostSections \<and> hsec_heartbeat x \<in> insert None (Some ` set heartbeats) \<and>
    open_page can canAll (Inr s) (Inr a) (hsec_path x) = Inr ()"
  using section_opens [OF assms(1,2) _ assms(3), of x] by (auto simp: shown_sections_def split: option.splits)

lemma shown_entry_opens:
  assumes "can_each can canAll" and "signed_in s"
  shows "(t, r) \<in> set (shown_entries can a) \<longleftrightarrow>
    (t, r) \<in> set nav_entries \<and> open_page can canAll (Inr s) (Inr a) t = Inr ()"
  using entry_opens [OF assms, of t r] by (auto simp: shown_entries_eq)

end
