(* ===== verification/ApiTypes.thy ===== *)
theory ApiTypes
  imports JsJson
begin

text \<open>
  The data types of the API as \<open>web/src/lib/api-client/types.gen.ts\<close> declares them, as values, and what it is
  for a JSON value to have one: \<open>conforms True\<close> allows only declared properties (what a client may send),
  \<open>conforms False\<close> allows others too (what it may receive).
\<close>

section \<open>Types\<close>

datatype presence = Required | Optional

datatype ts_type =
    TString
  | TNumber
  | TBoolean
  | TNull
  | TUnknown
  | TVoid
  | TNever
  | TLiteral js_string
  | TUnion "ts_type list"
  | TArray ts_type
  | TObject "(js_string \<times> presence \<times> ts_type) list"
  | TDictionary ts_type
  | TPartial "js_string list" ts_type

text \<open>A union of string literals, and \<open>A & B\<close> of two object types with different properties.\<close>

definition one_of :: "js_string list \<Rightarrow> ts_type" where
  "one_of ss = TUnion (map TLiteral ss)"

definition intersect :: "ts_type \<Rightarrow> ts_type \<Rightarrow> ts_type" where
  "intersect s t = (case (s, t) of (TObject fs, TObject gs) \<Rightarrow> TObject (fs @ gs) | _ \<Rightarrow> TNever)"

definition literals :: "ts_type \<Rightarrow> js_string list" where
  "literals t =
     (case t of
        TUnion ts \<Rightarrow> concat (map (\<lambda>u. case u of TLiteral s \<Rightarrow> [s] | _ \<Rightarrow> []) ts)
      | TLiteral s \<Rightarrow> [s]
      | _ \<Rightarrow> [])"

lemma literals_one_of [simp]: "literals (one_of ss) = ss"
  by (induction ss) (simp_all add: one_of_def literals_def)

section \<open>Values of a type\<close>

text \<open>The property \<open>k\<close> of an object; of properties of the same name the last one counts.\<close>

fun conforms :: "bool \<Rightarrow> ts_type \<Rightarrow> json \<Rightarrow> bool" where
  "conforms strict TString j \<longleftrightarrow> (case j of JStr s \<Rightarrow> True | _ \<Rightarrow> False)"
| "conforms strict TNumber j \<longleftrightarrow> (case j of JNum n \<Rightarrow> True | _ \<Rightarrow> False)"
| "conforms strict TBoolean j \<longleftrightarrow> (case j of JBool b \<Rightarrow> True | _ \<Rightarrow> False)"
| "conforms strict TNull j \<longleftrightarrow> j = JNull"
| "conforms strict TUnknown j \<longleftrightarrow> True"
| "conforms strict TVoid j \<longleftrightarrow> False"
| "conforms strict TNever j \<longleftrightarrow> False"
| "conforms strict (TLiteral s) j \<longleftrightarrow> j = JStr s"
| "conforms strict (TUnion ts) j \<longleftrightarrow> list_ex (\<lambda>t. conforms strict t j) ts"
| "conforms strict (TArray t) j \<longleftrightarrow> (case j of JArr js \<Rightarrow> list_all (conforms strict t) js | _ \<Rightarrow> False)"
| "conforms strict (TObject fs) j \<longleftrightarrow>
     (case j of
        JObj kvs \<Rightarrow>
          list_all (\<lambda>(k, p, t). case json_get k kvs of None \<Rightarrow> p = Optional | Some v \<Rightarrow> conforms strict t v) fs \<and>
          (strict \<longrightarrow> list_all (\<lambda>(k, v). k \<in> set (map fst fs)) kvs)
      | _ \<Rightarrow> False)"
| "conforms strict (TDictionary t) j \<longleftrightarrow>
     (case j of JObj kvs \<Rightarrow> list_all (\<lambda>(k, v). conforms strict t v) kvs | _ \<Rightarrow> False)"
| "conforms strict (TPartial keys t) j \<longleftrightarrow>
     (case j of
        JObj kvs \<Rightarrow> list_all (\<lambda>(k, v). if k \<in> set keys then conforms strict t v else \<not> strict) kvs
      | _ \<Rightarrow> False)"

lemma conforms_one_of [simp]: "conforms strict (one_of ss) j \<longleftrightarrow> (\<exists>s \<in> set ss. j = JStr s)"
  by (auto simp: one_of_def list_ex_iff)

text \<open>A value that may be sent may be received.\<close>

lemma conforms_lax: "conforms True t j \<Longrightarrow> conforms False t j"
proof (induction True t j rule: conforms.induct)
  case (9 ts j)
  then show ?case by (auto simp: list_ex_iff)
next
  case (10 t j)
  then show ?case by (auto simp: list_all_iff split: json.splits)
next
  case (11 fs j)
  then show ?case by (fastforce simp: list_all_iff split: json.splits option.splits)
next
  case (12 t j)
  then show ?case by (auto simp: list_all_iff split: json.splits)
next
  case (13 keys t j)
  then show ?case by (auto simp: list_all_iff split: json.splits if_splits)
qed simp_all

text \<open>The property an object of a type has.\<close>

lemma conforms_property:
  assumes "conforms strict (TObject fs) (JObj kvs)" and "(k, p, t) \<in> set fs"
  shows "case json_get k kvs of None \<Rightarrow> p = Optional | Some v \<Rightarrow> conforms strict t v"
  using assms by (auto simp: list_all_iff)

section \<open>The types\<close>

definition AuthzResource_type :: ts_type where
  "AuthzResource_type =
     one_of [''activity'', ''users'', ''groups'', ''directory'', ''hosts'', ''labels'', ''software'',
     ''agents.secrets'', ''munki.software'', ''munki.packages'', ''munki.distribution-points'',
     ''munki.client-resources'', ''osquery.overview'', ''osquery.reports'', ''osquery.policies'',
     ''osquery.live-queries'', ''osquery.remediations'', ''santa.configurations'', ''santa.events'',
     ''santa.rules'']"

definition User_type :: ts_type where
  "User_type =
     TObject [(''created_at'', Required, TString), (''deleted_at'', Optional, TString),
     (''department'', Optional, TString), (''email'', Required, TString),
     (''external_id'', Optional, TString), (''family_name'', Optional, TString),
     (''given_name'', Optional, TString), (''id'', Required, TNumber), (''mail_nickname'', Optional, TString),
     (''name'', Required, TString), (''role'', Optional, one_of [''admin'', ''viewer'']),
     (''source'', Required, one_of [''local'', ''entra'']), (''updated_at'', Required, TString),
     (''user_principal_name'', Optional, TString)]"

definition Account_type :: ts_type where
  "Account_type =
     TObject [(''api_key'', Optional, TString), (''api_key_created_at'', Optional, TString),
     (''effective_permissions'', Required, TPartial (literals AuthzResource_type) (one_of [''none'', ''view'',
     ''edit''])), (''user'', Required, User_type)]"

definition AccountMutation_type :: ts_type where
  "AccountMutation_type = TObject [(''name'', Required, TString), (''password'', Optional, TString)]"

definition Actor_type :: ts_type where
  "Actor_type =
     TObject [(''email'', Optional, TString), (''kind'', Required, one_of [''user'', ''system'']),
     (''name'', Required, TString), (''user_id'', Optional, TNumber)]"

definition Subject_type :: ts_type where
  "Subject_type =
     TObject [(''id'', Optional, TNumber), (''name'', Required, TString), (''type'', Required, TString)]"

definition ActivityEvent_type :: ts_type where
  "ActivityEvent_type =
     TObject [(''action'', Required, one_of [''orbit_host_enrolled'', ''osquery_host_enrolled'',
     ''host_deleted'', ''hosts_deleted'', ''host_inventory_requested'', ''host_primary_user_set'',
     ''host_primary_user_cleared'', ''policy_created'', ''policy_updated'', ''policy_deleted'',
     ''policies_deleted'', ''policy_remediation_requested'', ''report_created'', ''report_updated'',
     ''report_deleted'', ''reports_deleted'', ''live_query_started'', ''live_query_stopped'']),
     (''actor'', Required, Actor_type), (''area'', Required, one_of [''hosts'', ''osquery'']),
     (''id'', Required, TNumber), (''occurred_at'', Required, TString), (''subject'', Required, Subject_type)]"

definition AgentSecret_type :: ts_type where
  "AgentSecret_type =
     TObject [(''agent'', Required, one_of [''orbit'', ''munki'', ''santa'']),
     (''created_at'', Required, TString), (''id'', Required, TNumber), (''value'', Required, TString)]"

definition AgentSecretCreate_type :: ts_type where
  "AgentSecretCreate_type =
     TObject [(''agent'', Required, one_of [''orbit'', ''munki'', ''santa'']), (''value'', Required, TString)]"

definition AgentSecretMutation_type :: ts_type where
  "AgentSecretMutation_type = TObject [(''value'', Required, TString)]"

definition CertificateName_type :: ts_type where
  "CertificateName_type =
     TObject [(''common_name'', Required, TString), (''country'', Required, TString),
     (''organization'', Required, TString), (''organizational_unit'', Required, TString)]"

definition Criteria_type :: ts_type where
  "Criteria_type =
     TObject [(''attribute'', Required, one_of [''user_department'', ''directory_group'', ''user'']),
     (''values'', Required, TArray TString)]"

definition Department_type :: ts_type where
  "Department_type = TObject [(''value'', Required, TString)]"

definition ErrorDetail_type :: ts_type where
  "ErrorDetail_type =
     TObject [(''location'', Optional, TString), (''message'', Optional, TString),
     (''value'', Optional, TUnknown)]"

definition ErrorModel_type :: ts_type where
  "ErrorModel_type =
     TObject [(''detail'', Optional, TString), (''errors'', Optional, TArray ErrorDetail_type),
     (''instance'', Optional, TString), (''status'', Optional, TNumber), (''title'', Optional, TString),
     (''type'', Optional, TString)]"

definition Group_type :: ts_type where
  "Group_type =
     TObject [(''created_at'', Required, TString), (''display_name'', Required, TString),
     (''external_id'', Required, TString), (''id'', Required, TNumber),
     (''mail_nickname'', Optional, TString), (''member_count'', Required, TNumber),
     (''source'', Required, one_of [''local'', ''entra'']), (''updated_at'', Required, TString)]"

definition Heartbeat_type :: ts_type where
  "Heartbeat_type =
     TObject [(''last_seen_at'', Required, TString), (''remote_ip'', Optional, TString),
     (''source'', Required, TString), (''user_agent'', Required, TString)]"

definition HostMunkiAgent_type :: ts_type where
  "HostMunkiAgent_type = TObject [(''version'', Required, TString)]"

definition HostOrbitAgent_type :: ts_type where
  "HostOrbitAgent_type =
     TObject [(''scripts_enabled'', Optional, TBoolean), (''version'', Required, TString)]"

definition HostOsqueryAgent_type :: ts_type where
  "HostOsqueryAgent_type =
     TObject [(''config_refresh_seconds'', Optional, TNumber),
     (''distributed_interval_seconds'', Optional, TNumber), (''version'', Required, TString)]"

definition HostSantaAgent_type :: ts_type where
  "HostSantaAgent_type = TObject [(''version'', Required, TString)]"

definition HostAgents_type :: ts_type where
  "HostAgents_type =
     TObject [(''munki'', Required, HostMunkiAgent_type), (''orbit'', Required, HostOrbitAgent_type),
     (''osquery'', Required, HostOsqueryAgent_type), (''santa'', Required, HostSantaAgent_type)]"

definition HostEnrollment_type :: ts_type where
  "HostEnrollment_type = TObject [(''agent'', Required, TString), (''enrolled_at'', Optional, TString)]"

definition HostCpu_type :: ts_type where
  "HostCpu_type =
     TObject [(''architecture'', Required, TString), (''brand'', Required, TString),
     (''logical_cores'', Required, TNumber), (''physical_cores'', Required, TNumber),
     (''subtype'', Required, TString)]"

definition HostHardware_type :: ts_type where
  "HostHardware_type =
     TObject [(''cpu'', Required, HostCpu_type), (''memory_bytes'', Required, TNumber),
     (''model_identifier'', Required, TString), (''serial'', Required, TString),
     (''uuid'', Required, TString), (''vendor'', Required, TString)]"

definition HostNetwork_type :: ts_type where
  "HostNetwork_type = TObject [(''primary_ip'', Optional, TString), (''primary_mac'', Required, TString)]"

definition HostOs_type :: ts_type where
  "HostOs_type =
     TObject [(''build'', Required, TString), (''kernel_version'', Required, TString),
     (''name'', Required, TString), (''platform'', Required, TString), (''version'', Required, TString)]"

definition HostPrimaryUser_type :: ts_type where
  "HostPrimaryUser_type =
     TObject [(''department'', Required, TString), (''email'', Required, TString),
     (''groups'', Required, TArray TString), (''name'', Required, TString),
     (''source'', Required, one_of [''manual'', ''orbit_profile'']), (''username'', Required, TString)]"

definition HostPrimaryUserSource_type :: ts_type where
  "HostPrimaryUserSource_type =
     TObject [(''email'', Required, TString), (''source'', Required, one_of [''manual'', ''orbit_profile''])]"

definition HostBootVolume_type :: ts_type where
  "HostBootVolume_type =
     TObject [(''available_bytes'', Optional, TNumber), (''total_bytes'', Optional, TNumber)]"

definition HostStorage_type :: ts_type where
  "HostStorage_type = TObject [(''boot_volume'', Required, HostBootVolume_type)]"

definition PublicIpDistributionPoint_type :: ts_type where
  "PublicIpDistributionPoint_type = TObject [(''id'', Required, TNumber), (''name'', Required, TString)]"

definition PublicIpDetails_type :: ts_type where
  "PublicIpDetails_type =
     TObject [(''asn'', Optional, TNumber), (''city'', Optional, TString), (''country'', Optional, TString),
     (''country_code'', Optional, TString),
     (''distribution_point'', Optional, PublicIpDistributionPoint_type), (''latitude'', Optional, TNumber),
     (''longitude'', Optional, TNumber), (''organization'', Optional, TString),
     (''region'', Optional, TString)]"

definition Host_type :: ts_type where
  "Host_type =
     TObject [(''agents'', Required, HostAgents_type), (''computer_name'', Required, TString),
     (''created_at'', Required, TString), (''display_name'', Required, TString),
     (''enrollment'', Required, HostEnrollment_type), (''hardware'', Required, HostHardware_type),
     (''heartbeats'', Required, TArray Heartbeat_type), (''hostname'', Required, TString),
     (''id'', Required, TNumber), (''inventory_refresh_requested'', Required, TBoolean),
     (''inventory_updated_at'', Optional, TString), (''last_contact'', Optional, TString),
     (''last_restarted_at'', Optional, TString), (''network'', Required, HostNetwork_type),
     (''os'', Required, HostOs_type), (''primary_user'', Optional, HostPrimaryUser_type),
     (''primary_user_sources'', Required, TArray HostPrimaryUserSource_type),
     (''public_ip'', Optional, TString), (''public_ip_details'', Optional, PublicIpDetails_type),
     (''status'', Required, one_of [''online'', ''offline'']), (''storage'', Required, HostStorage_type),
     (''updated_at'', Required, TString)]"

definition HostBattery_type :: ts_type where
  "HostBattery_type =
     TObject [(''chemistry'', Required, TString), (''current_capacity'', Optional, TNumber),
     (''cycle_count'', Optional, TNumber), (''designed_capacity'', Optional, TNumber),
     (''health'', Required, TString), (''manufacturer'', Required, TString),
     (''max_capacity'', Optional, TNumber), (''model'', Required, TString),
     (''percent_remaining'', Optional, TNumber), (''serial_number'', Required, TString)]"

definition HostCertificate_type :: ts_type where
  "HostCertificate_type =
     TObject [(''certificate_authority'', Required, TBoolean), (''common_name'', Required, TString),
     (''id'', Required, TNumber), (''issuer'', Required, CertificateName_type),
     (''key_algorithm'', Required, TString), (''key_strength'', Optional, TNumber),
     (''key_usage'', Required, TString), (''not_valid_after'', Optional, TString),
     (''not_valid_before'', Optional, TString), (''serial'', Required, TString),
     (''signing_algorithm'', Required, TString), (''source'', Required, TString),
     (''subject'', Required, CertificateName_type), (''username'', Required, TString)]"

definition HostUser_type :: ts_type where
  "HostUser_type =
     TObject [(''description'', Required, TString), (''directory'', Required, TString),
     (''shell'', Required, TString), (''type'', Required, TString), (''uid'', Required, TString),
     (''username'', Required, TString)]"

definition Label_type :: ts_type where
  "Label_type =
     TObject [(''builtin_key'', Optional, TLiteral ''all-hosts''), (''created_at'', Optional, TString),
     (''criteria'', Optional, Criteria_type), (''description'', Required, TString),
     (''host_ids'', Optional, TArray TNumber), (''hosts_count'', Required, TNumber),
     (''id'', Required, TNumber), (''label_membership_type'', Required, one_of [''dynamic'', ''manual'',
     ''derived'']), (''label_type'', Required, one_of [''builtin'', ''regular'']),
     (''name'', Required, TString), (''query'', Optional, TString), (''updated_at'', Optional, TString)]"

definition HostDetail_type :: ts_type where
  "HostDetail_type =
     TObject [(''agents'', Required, HostAgents_type), (''batteries'', Required, TArray HostBattery_type),
     (''certificates'', Required, TArray HostCertificate_type), (''computer_name'', Required, TString),
     (''created_at'', Required, TString), (''display_name'', Required, TString),
     (''enrollment'', Required, HostEnrollment_type), (''hardware'', Required, HostHardware_type),
     (''heartbeats'', Required, TArray Heartbeat_type), (''hostname'', Required, TString),
     (''id'', Required, TNumber), (''inventory_refresh_requested'', Required, TBoolean),
     (''inventory_updated_at'', Optional, TString), (''labels'', Required, TArray Label_type),
     (''last_contact'', Optional, TString), (''last_restarted_at'', Optional, TString),
     (''network'', Required, HostNetwork_type), (''os'', Required, HostOs_type),
     (''primary_user'', Optional, HostPrimaryUser_type),
     (''primary_user_sources'', Required, TArray HostPrimaryUserSource_type),
     (''public_ip'', Optional, TString), (''public_ip_details'', Optional, PublicIpDetails_type),
     (''status'', Required, one_of [''online'', ''offline'']), (''storage'', Required, HostStorage_type),
     (''updated_at'', Required, TString), (''users'', Required, TArray HostUser_type)]"

definition HostPrimaryUserPutBody_type :: ts_type where
  "HostPrimaryUserPutBody_type = TObject [(''email'', Required, TString)]"

definition SoftwareCodeSignature_type :: ts_type where
  "SoftwareCodeSignature_type =
     TObject [(''authority'', Required, TString), (''cdhash'', Required, TString),
     (''identifier'', Required, TString), (''signed'', Required, TBoolean),
     (''team_identifier'', Required, TString)]"

definition SoftwareInstalledPath_type :: ts_type where
  "SoftwareInstalledPath_type =
     TObject [(''executable_path'', Required, TString), (''executable_sha256'', Required, TString),
     (''path'', Required, TString), (''signature'', Optional, SoftwareCodeSignature_type)]"

definition HostSoftwareInstalledVersion_type :: ts_type where
  "HostSoftwareInstalledVersion_type =
     TObject [(''bundle_identifier'', Required, TString), (''last_opened_at'', Optional, TString),
     (''paths'', Required, TArray SoftwareInstalledPath_type), (''version'', Required, TString)]"

definition HostSoftware_type :: ts_type where
  "HostSoftware_type =
     TObject [(''extension_for'', Required, TString), (''id'', Required, TNumber),
     (''installed_versions'', Required, TArray HostSoftwareInstalledVersion_type),
     (''name'', Required, TString), (''source'', Required, one_of [''apps'', ''homebrew_packages'',
     ''chrome_extensions'', ''firefox_addons'', ''safari_extensions'', ''npm_packages'',
     ''vscode_extensions'', ''jetbrains_plugins'', ''go_binaries'', ''python_packages''])]"

definition LabelMutation_type :: ts_type where
  "LabelMutation_type =
     TObject [(''criteria'', Optional, Criteria_type), (''description'', Optional, TString),
     (''host_ids'', Optional, TArray TNumber), (''label_membership_type'', Optional, one_of [''dynamic'',
     ''manual'', ''derived'']), (''name'', Required, TString), (''query'', Optional, TString)]"

definition LabelRef_type :: ts_type where
  "LabelRef_type = TObject [(''label_id'', Required, TNumber)]"

definition MunkiLink_type :: ts_type where
  "MunkiLink_type =
     TObject [(''label'', Required, TString), (''open_in_browser'', Required, TBoolean),
     (''target'', Required, TString)]"

definition MunkiBuilder_type :: ts_type where
  "MunkiBuilder_type =
     TObject [(''banner_fit'', Required, one_of [''height'', ''cover'']),
     (''banner_focal_x'', Required, TNumber), (''banner_object_id'', Required, TNumber),
     (''footer_links'', Required, TArray MunkiLink_type), (''footer_text'', Required, TString),
     (''links'', Required, TArray MunkiLink_type)]"

definition MunkiObjectView_type :: ts_type where
  "MunkiObjectView_type =
     TObject [(''content_type'', Required, TString), (''content_url'', Required, TString),
     (''filename'', Required, TString), (''id'', Required, TNumber), (''sha256'', Required, TString),
     (''size_bytes'', Required, TNumber)]"

definition MunkiClientResourcesBuilder_type :: ts_type where
  "MunkiClientResourcesBuilder_type =
     TObject [(''banner'', Required, MunkiObjectView_type), (''banner_fit'', Required, one_of [''height'',
     ''cover'']), (''banner_focal_x'', Required, TNumber),
     (''footer_links'', Required, TArray MunkiLink_type), (''footer_text'', Required, TString),
     (''links'', Required, TArray MunkiLink_type)]"

definition MunkiClientResources_type :: ts_type where
  "MunkiClientResources_type =
     TObject [(''archive'', Required, MunkiObjectView_type),
     (''builder'', Optional, MunkiClientResourcesBuilder_type), (''created_at'', Required, TString),
     (''custom'', Required, TBoolean), (''id'', Required, TNumber), (''updated_at'', Required, TString)]"

definition MunkiClientResourcesMutation_type :: ts_type where
  "MunkiClientResourcesMutation_type =
     TObject [(''archive_object_id'', Optional, TNumber), (''builder'', Optional, MunkiBuilder_type)]"

definition MunkiPackageSelector_type :: ts_type where
  "MunkiPackageSelector_type =
     TObject [(''package_id'', Optional, TNumber), (''strategy'', Required, one_of [''latest'',
     ''specific''])]"

definition MunkiInclude_type :: ts_type where
  "MunkiInclude_type =
     TObject [(''actions'', Required, TArray (one_of [''managed_installs'', ''managed_uninstalls'',
     ''managed_updates'', ''optional_installs'', ''optional_uninstalls'', ''featured_items'',
     ''default_installs''])), (''label_id'', Required, TNumber),
     (''package'', Required, MunkiPackageSelector_type)]"

definition MunkiTargets_type :: ts_type where
  "MunkiTargets_type =
     TObject [(''exclude'', Required, TArray LabelRef_type),
     (''include'', Required, TArray MunkiInclude_type)]"

definition MunkiCreateMutation_type :: ts_type where
  "MunkiCreateMutation_type =
     TObject [(''category'', Optional, TString), (''description'', Optional, TString),
     (''developer'', Optional, TString), (''display_name'', Optional, TString),
     (''icon_object_id'', Optional, TNumber), (''name'', Required, TString),
     (''targets'', Required, MunkiTargets_type)]"

definition MunkiDistributionPointWorker_type :: ts_type where
  "MunkiDistributionPointWorker_type =
     TObject [(''build_version'', Optional, TString), (''compatible'', Required, TBoolean),
     (''protocol_version'', Optional, TNumber)]"

definition MunkiDistributionPoint_type :: ts_type where
  "MunkiDistributionPoint_type =
     TObject [(''client_base_url'', Required, TString), (''client_cidrs'', Required, TArray TString),
     (''created_at'', Required, TString), (''enabled'', Required, TBoolean), (''id'', Required, TNumber),
     (''name'', Required, TString), (''position'', Required, TNumber), (''updated_at'', Required, TString),
     (''worker'', Optional, MunkiDistributionPointWorker_type)]"

definition MunkiPackageState_type :: ts_type where
  "MunkiPackageState_type =
     TObject [(''error'', Optional, TString), (''name'', Required, TString),
     (''package_id'', Required, TNumber), (''software_icon_url'', Optional, TString),
     (''software_id'', Required, TNumber), (''status'', Required, one_of [''pending'', ''syncing'',
     ''current'', ''error'']), (''version'', Required, TString)]"

definition MunkiDistributionPointDetail_type :: ts_type where
  "MunkiDistributionPointDetail_type =
     TObject [(''client_base_url'', Required, TString), (''client_cidrs'', Required, TArray TString),
     (''created_at'', Required, TString), (''enabled'', Required, TBoolean), (''id'', Required, TNumber),
     (''name'', Required, TString), (''packages'', Required, TArray MunkiPackageState_type),
     (''position'', Required, TNumber), (''updated_at'', Required, TString),
     (''worker'', Optional, MunkiDistributionPointWorker_type)]"

definition MunkiDistributionPointKeyBody_type :: ts_type where
  "MunkiDistributionPointKeyBody_type = TObject [(''key'', Required, TString)]"

definition MunkiDistributionPointMutation_type :: ts_type where
  "MunkiDistributionPointMutation_type =
     TObject [(''client_base_url'', Required, TString), (''client_cidrs'', Required, TArray TString),
     (''enabled'', Required, TBoolean), (''name'', Required, TString)]"

definition MunkiDistributionPointReorderBody_type :: ts_type where
  "MunkiDistributionPointReorderBody_type = TObject [(''ordered_ids'', Required, TArray TNumber)]"

definition MunkiHostManifestLatestPackage_type :: ts_type where
  "MunkiHostManifestLatestPackage_type = TObject [(''strategy'', Required, TLiteral ''latest'')]"

definition MunkiHostManifestSoftwareObservation_type :: ts_type where
  "MunkiHostManifestSoftwareObservation_type =
     TObject [(''display_name'', Required, TString), (''installed'', Required, TBoolean),
     (''installed_version'', Required, TString), (''target_version'', Required, TString)]"

definition MunkiHostManifestSpecificPackage_type :: ts_type where
  "MunkiHostManifestSpecificPackage_type =
     TObject [(''id'', Required, TNumber), (''strategy'', Required, TLiteral ''specific''),
     (''version'', Required, TString)]"

definition MunkiPackageSoftware_type :: ts_type where
  "MunkiPackageSoftware_type =
     TObject [(''category'', Required, TString), (''description'', Required, TString),
     (''developer'', Required, TString), (''display_name'', Optional, TString),
     (''icon_url'', Optional, TString), (''id'', Required, TNumber), (''name'', Required, TString)]"

definition MunkiHostManifestSoftware_type :: ts_type where
  "MunkiHostManifestSoftware_type =
     TObject [(''actions'', Required, TArray (one_of [''managed_installs'', ''managed_uninstalls'',
     ''managed_updates'', ''optional_installs'', ''optional_uninstalls'', ''featured_items'',
     ''default_installs''])), (''observation'', Optional, MunkiHostManifestSoftwareObservation_type),
     (''package'', Required, TUnion [intersect (TObject [(''strategy'', Required, TLiteral ''latest'')]) MunkiHostManifestLatestPackage_type, intersect (TObject [(''strategy'', Required, TLiteral ''specific'')]) MunkiHostManifestSpecificPackage_type]),
     (''software'', Required, MunkiPackageSoftware_type)]"

definition MunkiHostState_type :: ts_type where
  "MunkiHostState_type =
     TObject [(''errors'', Required, TArray TString), (''manifest_name'', Required, TString),
     (''problem_installs'', Required, TArray TString), (''run_at'', Optional, TString),
     (''version'', Required, TString), (''warnings'', Required, TArray TString)]"

definition MunkiIconFile_type :: ts_type where
  "MunkiIconFile_type =
     TObject [(''filename'', Required, TString), (''sha256'', Required, TString),
     (''size_bytes'', Required, TNumber)]"

definition MunkiInstallerFile_type :: ts_type where
  "MunkiInstallerFile_type =
     TObject [(''filename'', Required, TString), (''installer_item_location'', Required, TString),
     (''sha256'', Required, TString), (''size_bytes'', Required, TNumber)]"

definition MunkiMultipartPartRequest_type :: ts_type where
  "MunkiMultipartPartRequest_type = TObject [(''crc64nvme'', Required, TString)]"

definition MunkiObjectMutation_type :: ts_type where
  "MunkiObjectMutation_type = TObject [(''object_id'', Required, TNumber)]"

definition MunkiPackageActionLabels_type :: ts_type where
  "MunkiPackageActionLabels_type =
     TObject [(''install'', Optional, TString), (''installed'', Optional, TString),
     (''installing'', Optional, TString), (''remove'', Optional, TString), (''removing'', Optional, TString),
     (''update'', Optional, TString)]"

definition MunkiPackageAlert_type :: ts_type where
  "MunkiPackageAlert_type =
     TObject [(''cancel_label'', Optional, TString), (''detail'', Optional, TString),
     (''enabled'', Required, TBoolean), (''ok_label'', Optional, TString), (''title'', Optional, TString)]"

definition MunkiPackageInstallItem_type :: ts_type where
  "MunkiPackageInstallItem_type =
     TObject [(''bundle_identifier'', Optional, TString), (''bundle_name'', Optional, TString),
     (''bundle_short_version'', Optional, TString), (''bundle_version'', Optional, TString),
     (''installer_item_location'', Optional, TString), (''md5checksum'', Optional, TString),
     (''minimum_os_version'', Optional, TString), (''minimum_update_version'', Optional, TString),
     (''path'', Required, TString), (''type'', Required, one_of [''application'', ''bundle'', ''plist'',
     ''file'']), (''version_comparison_key'', Optional, TString)]"

definition MunkiPackageInstallerChoice_type :: ts_type where
  "MunkiPackageInstallerChoice_type =
     TObject [(''attribute_setting'', Required, TNumber), (''choice_attribute'', Optional, TString),
     (''choice_identifier'', Optional, TString)]"

definition MunkiPackageInstallerEnvironmentVariable_type :: ts_type where
  "MunkiPackageInstallerEnvironmentVariable_type =
     TObject [(''name'', Required, TString), (''value'', Required, TString)]"

definition MunkiPackageItemToCopy_type :: ts_type where
  "MunkiPackageItemToCopy_type =
     TObject [(''destination_item'', Optional, TString), (''destination_path'', Required, TString),
     (''group'', Optional, TString), (''mode'', Optional, TString), (''source_item'', Required, TString),
     (''user'', Optional, TString)]"

definition MunkiPackageLaunchArguments_type :: ts_type where
  "MunkiPackageLaunchArguments_type =
     TObject [(''application'', Required, TString), (''arguments'', Required, TArray TString)]"

definition MunkiPackageReceipt_type :: ts_type where
  "MunkiPackageReceipt_type =
     TObject [(''installed_size'', Optional, TNumber), (''name'', Optional, TString),
     (''optional'', Optional, TBoolean), (''package_id'', Required, TString),
     (''version'', Optional, TString)]"

definition MunkiPackageReference_type :: ts_type where
  "MunkiPackageReference_type =
     TObject [(''package_id'', Optional, TNumber), (''package_version'', Optional, TString),
     (''software_id'', Required, TNumber), (''software_name'', Required, TString)]"

definition MunkiPackage_type :: ts_type where
  "MunkiPackage_type =
     TObject [(''apple_item'', Required, TBoolean), (''autoremove'', Required, TBoolean),
     (''blocking_applications'', Required, TArray TString),
     (''blocking_applications_manual_quit_only'', Required, TBoolean),
     (''blocking_applications_none'', Required, TBoolean),
     (''blocking_applications_quit_script'', Required, TString),
     (''blocking_applications_with_launch_args'', Required, TArray MunkiPackageLaunchArguments_type),
     (''created_at'', Required, TString), (''custom_action_labels'', Required, MunkiPackageActionLabels_type),
     (''download_on_low_data'', Required, one_of [''auto'', ''always'', ''never'']),
     (''force_install_after_date'', Optional, TString), (''id'', Required, TNumber),
     (''installable_condition'', Required, TString), (''installcheck_script'', Required, TString),
     (''installed_size'', Required, TNumber),
     (''installer_choices_xml'', Required, TArray MunkiPackageInstallerChoice_type),
     (''installer_environment'', Required, TArray MunkiPackageInstallerEnvironmentVariable_type),
     (''installer_file'', Optional, MunkiInstallerFile_type), (''installer_object_id'', Optional, TNumber),
     (''installer_type'', Required, one_of [''pkg'', ''nopkg'', ''copy_from_dmg'']),
     (''installs'', Required, TArray MunkiPackageInstallItem_type),
     (''items_to_copy'', Required, TArray MunkiPackageItemToCopy_type),
     (''maximum_os_version'', Required, TString), (''minimum_munki_version'', Required, TString),
     (''minimum_os_version'', Required, TString), (''notes'', Required, TString),
     (''on_demand'', Required, TBoolean), (''package_path'', Required, TString),
     (''postinstall_script'', Required, TString), (''postuninstall_script'', Required, TString),
     (''precache'', Required, TBoolean), (''preinstall_alert'', Required, MunkiPackageAlert_type),
     (''preinstall_script'', Required, TString), (''preuninstall_alert'', Required, MunkiPackageAlert_type),
     (''preuninstall_script'', Required, TString), (''receipts'', Required, TArray MunkiPackageReceipt_type),
     (''requires'', Required, TArray MunkiPackageReference_type),
     (''restart_action'', Optional, one_of [''RequireLogout'', ''RecommendRestart'', ''RequireRestart'',
     ''RequireShutdown'']), (''restart_action_for_uninstall'', Optional, one_of [''None'', ''RequireLogout'',
     ''RecommendRestart'', ''RequireRestart'', ''RequireShutdown'']),
     (''software'', Required, MunkiPackageSoftware_type),
     (''supported_architectures'', Required, TArray TString), (''unattended_install'', Required, TBoolean),
     (''unattended_uninstall'', Required, TBoolean),
     (''uninstall_method'', Optional, one_of [''removepackages'', ''remove_copied_items'',
     ''uninstall_script'']), (''uninstall_script'', Required, TString),
     (''uninstallable'', Required, TBoolean), (''uninstallcheck_script'', Required, TString),
     (''update_for'', Required, TArray MunkiPackageReference_type), (''updated_at'', Required, TString),
     (''version'', Required, TString), (''version_script'', Required, TString)]"

definition MunkiPackageReferenceMutation_type :: ts_type where
  "MunkiPackageReferenceMutation_type =
     TObject [(''package_id'', Optional, TNumber), (''software_id'', Required, TNumber)]"

definition MunkiPackageCreateMutation_type :: ts_type where
  "MunkiPackageCreateMutation_type =
     TObject [(''apple_item'', Optional, TBoolean), (''autoremove'', Optional, TBoolean),
     (''blocking_applications'', Optional, TArray TString),
     (''blocking_applications_manual_quit_only'', Optional, TBoolean),
     (''blocking_applications_none'', Optional, TBoolean),
     (''blocking_applications_quit_script'', Optional, TString),
     (''blocking_applications_with_launch_args'', Optional, TArray MunkiPackageLaunchArguments_type),
     (''custom_action_labels'', Optional, MunkiPackageActionLabels_type),
     (''download_on_low_data'', Optional, one_of [''auto'', ''always'', ''never'']),
     (''force_install_after_date'', Optional, TString), (''installable_condition'', Optional, TString),
     (''installcheck_script'', Optional, TString), (''installed_size'', Optional, TNumber),
     (''installer_choices_xml'', Optional, TArray MunkiPackageInstallerChoice_type),
     (''installer_environment'', Optional, TArray MunkiPackageInstallerEnvironmentVariable_type),
     (''installer_object_id'', Optional, TNumber), (''installer_type'', Optional, one_of [''pkg'', ''nopkg'',
     ''copy_from_dmg'']), (''installs'', Optional, TArray MunkiPackageInstallItem_type),
     (''items_to_copy'', Optional, TArray MunkiPackageItemToCopy_type),
     (''maximum_os_version'', Optional, TString), (''minimum_munki_version'', Optional, TString),
     (''minimum_os_version'', Optional, TString), (''notes'', Optional, TString),
     (''on_demand'', Optional, TBoolean), (''package_path'', Optional, TString),
     (''postinstall_script'', Optional, TString), (''postuninstall_script'', Optional, TString),
     (''precache'', Optional, TBoolean), (''preinstall_alert'', Optional, MunkiPackageAlert_type),
     (''preinstall_script'', Optional, TString), (''preuninstall_alert'', Optional, MunkiPackageAlert_type),
     (''preuninstall_script'', Optional, TString), (''receipts'', Optional, TArray MunkiPackageReceipt_type),
     (''requires'', Optional, TArray MunkiPackageReferenceMutation_type),
     (''restart_action'', Optional, one_of [''RequireLogout'', ''RecommendRestart'', ''RequireRestart'',
     ''RequireShutdown'']), (''restart_action_for_uninstall'', Optional, one_of [''None'', ''RequireLogout'',
     ''RecommendRestart'', ''RequireRestart'', ''RequireShutdown'']), (''software_id'', Required, TNumber),
     (''supported_architectures'', Optional, TArray TString), (''unattended_install'', Optional, TBoolean),
     (''unattended_uninstall'', Optional, TBoolean),
     (''uninstall_method'', Optional, one_of [''removepackages'', ''remove_copied_items'',
     ''uninstall_script'']), (''uninstall_script'', Optional, TString),
     (''uninstallable'', Optional, TBoolean), (''uninstallcheck_script'', Optional, TString),
     (''update_for'', Optional, TArray MunkiPackageReferenceMutation_type), (''version'', Required, TString),
     (''version_script'', Optional, TString)]"

definition MunkiPackageMutation_type :: ts_type where
  "MunkiPackageMutation_type =
     TObject [(''apple_item'', Optional, TBoolean), (''autoremove'', Optional, TBoolean),
     (''blocking_applications'', Optional, TArray TString),
     (''blocking_applications_manual_quit_only'', Optional, TBoolean),
     (''blocking_applications_none'', Optional, TBoolean),
     (''blocking_applications_quit_script'', Optional, TString),
     (''blocking_applications_with_launch_args'', Optional, TArray MunkiPackageLaunchArguments_type),
     (''custom_action_labels'', Optional, MunkiPackageActionLabels_type),
     (''download_on_low_data'', Optional, one_of [''auto'', ''always'', ''never'']),
     (''force_install_after_date'', Optional, TString), (''installable_condition'', Optional, TString),
     (''installcheck_script'', Optional, TString), (''installed_size'', Optional, TNumber),
     (''installer_choices_xml'', Optional, TArray MunkiPackageInstallerChoice_type),
     (''installer_environment'', Optional, TArray MunkiPackageInstallerEnvironmentVariable_type),
     (''installer_object_id'', Optional, TNumber), (''installer_type'', Optional, one_of [''pkg'', ''nopkg'',
     ''copy_from_dmg'']), (''installs'', Optional, TArray MunkiPackageInstallItem_type),
     (''items_to_copy'', Optional, TArray MunkiPackageItemToCopy_type),
     (''maximum_os_version'', Optional, TString), (''minimum_munki_version'', Optional, TString),
     (''minimum_os_version'', Optional, TString), (''notes'', Optional, TString),
     (''on_demand'', Optional, TBoolean), (''package_path'', Optional, TString),
     (''postinstall_script'', Optional, TString), (''postuninstall_script'', Optional, TString),
     (''precache'', Optional, TBoolean), (''preinstall_alert'', Optional, MunkiPackageAlert_type),
     (''preinstall_script'', Optional, TString), (''preuninstall_alert'', Optional, MunkiPackageAlert_type),
     (''preuninstall_script'', Optional, TString), (''receipts'', Optional, TArray MunkiPackageReceipt_type),
     (''requires'', Optional, TArray MunkiPackageReferenceMutation_type),
     (''restart_action'', Optional, one_of [''RequireLogout'', ''RecommendRestart'', ''RequireRestart'',
     ''RequireShutdown'']), (''restart_action_for_uninstall'', Optional, one_of [''None'', ''RequireLogout'',
     ''RecommendRestart'', ''RequireRestart'', ''RequireShutdown'']),
     (''supported_architectures'', Optional, TArray TString), (''unattended_install'', Optional, TBoolean),
     (''unattended_uninstall'', Optional, TBoolean),
     (''uninstall_method'', Optional, one_of [''removepackages'', ''remove_copied_items'',
     ''uninstall_script'']), (''uninstall_script'', Optional, TString),
     (''uninstallable'', Optional, TBoolean), (''uninstallcheck_script'', Optional, TString),
     (''update_for'', Optional, TArray MunkiPackageReferenceMutation_type), (''version'', Required, TString),
     (''version_script'', Optional, TString)]"

definition MunkiRevealedDistributionPoint_type :: ts_type where
  "MunkiRevealedDistributionPoint_type =
     TObject [(''client_base_url'', Required, TString), (''client_cidrs'', Required, TArray TString),
     (''created_at'', Required, TString), (''enabled'', Required, TBoolean), (''id'', Required, TNumber),
     (''key'', Required, TString), (''name'', Required, TString), (''position'', Required, TNumber),
     (''updated_at'', Required, TString), (''worker'', Optional, MunkiDistributionPointWorker_type)]"

definition MunkiSoftware_type :: ts_type where
  "MunkiSoftware_type =
     TObject [(''category'', Required, TString), (''created_at'', Required, TString),
     (''description'', Required, TString), (''developer'', Required, TString),
     (''display_name'', Optional, TString), (''icon_file'', Optional, MunkiIconFile_type),
     (''icon_object_id'', Optional, TNumber), (''icon_url'', Optional, TString), (''id'', Required, TNumber),
     (''name'', Required, TString), (''updated_at'', Required, TString)]"

definition MunkiSoftwareDetail_type :: ts_type where
  "MunkiSoftwareDetail_type =
     TObject [(''category'', Required, TString), (''created_at'', Required, TString),
     (''description'', Required, TString), (''developer'', Required, TString),
     (''display_name'', Optional, TString), (''icon_file'', Optional, MunkiIconFile_type),
     (''icon_object_id'', Optional, TNumber), (''icon_url'', Optional, TString), (''id'', Required, TNumber),
     (''name'', Required, TString), (''packages'', Required, TArray MunkiPackage_type),
     (''targets'', Required, MunkiTargets_type), (''updated_at'', Required, TString)]"

definition MunkiUpdateMutation_type :: ts_type where
  "MunkiUpdateMutation_type =
     TObject [(''category'', Optional, TString), (''description'', Optional, TString),
     (''developer'', Optional, TString), (''display_name'', Optional, TString),
     (''icon_object_id'', Optional, TNumber), (''targets'', Required, MunkiTargets_type)]"

definition MunkiUploadRequest_type :: ts_type where
  "MunkiUploadRequest_type =
     TObject [(''crc64nvme'', Required, TString), (''filename'', Required, TString),
     (''sha256'', Required, TString), (''size_bytes'', Required, TNumber)]"

definition UploadTarget_type :: ts_type where
  "UploadTarget_type =
     TObject [(''headers'', Optional, TDictionary TString), (''method'', Required, TLiteral ''PUT''),
     (''url'', Required, TString)]"

definition MunkiUploadTarget_type :: ts_type where
  "MunkiUploadTarget_type =
     TObject [(''object_id'', Required, TNumber),
     (''upload'', Required, TUnion [TObject [(''strategy'', Required, TLiteral ''direct-put''),
     (''target'', Required, UploadTarget_type)], TObject [(''strategy'', Required, TLiteral ''multipart'')]])]"

definition OsqueryHandle_type :: ts_type where
  "OsqueryHandle_type =
     TObject [(''id'', Required, TNumber), (''resolved_host_count'', Required, TNumber),
     (''sql'', Required, TString), (''started_at'', Required, TString)]"

definition OsqueryHostStatusPoint_type :: ts_type where
  "OsqueryHostStatusPoint_type =
     TObject [(''bucket'', Required, TString), (''offline_count'', Required, TNumber),
     (''online_count'', Required, TNumber)]"

definition OsqueryLiveQueryCompletedEvent_type :: ts_type where
  "OsqueryLiveQueryCompletedEvent_type = TObject [(''type'', Required, TLiteral ''completed'')]"

definition OsqueryLiveQuerySelectedBody_type :: ts_type where
  "OsqueryLiveQuerySelectedBody_type =
     TObject [(''hosts'', Optional, TArray TNumber), (''labels'', Optional, TArray TNumber)]"

definition OsqueryLiveQueryCreateBody_type :: ts_type where
  "OsqueryLiveQueryCreateBody_type =
     TObject [(''selected'', Optional, OsqueryLiveQuerySelectedBody_type), (''sql'', Required, TString)]"

definition OsqueryLiveQueryPingEvent_type :: ts_type where
  "OsqueryLiveQueryPingEvent_type = TObject [(''type'', Required, TLiteral ''ping'')]"

definition OsqueryLiveQuerySnapshotEvent_type :: ts_type where
  "OsqueryLiveQuerySnapshotEvent_type =
     TObject [(''error'', Optional, TString), (''host_id'', Required, TNumber),
     (''host_name'', Required, TString), (''rows'', Required, TArray (TDictionary TString)),
     (''status'', Required, one_of [''pending'', ''collected'', ''error'', ''stopped'']),
     (''type'', Required, TLiteral ''snapshot''), (''updated_at'', Required, TString)]"

definition OsqueryLiveQueryTargetCountBody_type :: ts_type where
  "OsqueryLiveQueryTargetCountBody_type =
     TObject [(''selected'', Optional, OsqueryLiveQuerySelectedBody_type)]"

definition OsqueryLiveQueryTargetCountOutputBody_type :: ts_type where
  "OsqueryLiveQueryTargetCountOutputBody_type =
     TObject [(''targets_count'', Required, TNumber), (''targets_offline'', Required, TNumber),
     (''targets_online'', Required, TNumber)]"

definition OsqueryPolicyRemediationSummary_type :: ts_type where
  "OsqueryPolicyRemediationSummary_type =
     TObject [(''automatic'', Required, TBoolean), (''configured'', Required, TBoolean)]"

definition OsqueryPolicyTargets_type :: ts_type where
  "OsqueryPolicyTargets_type =
     TObject [(''exclude'', Required, TArray LabelRef_type), (''include'', Required, TArray LabelRef_type)]"

definition UserSummary_type :: ts_type where
  "UserSummary_type =
     TObject [(''email'', Required, TString), (''id'', Required, TNumber), (''name'', Required, TString)]"

definition OsqueryPolicy_type :: ts_type where
  "OsqueryPolicy_type =
     TObject [(''created_at'', Required, TString), (''created_by'', Optional, UserSummary_type),
     (''description'', Required, TString), (''error_host_count'', Required, TNumber),
     (''failing_host_count'', Required, TNumber), (''id'', Required, TNumber), (''name'', Required, TString),
     (''passing_host_count'', Required, TNumber), (''pending_host_count'', Required, TNumber),
     (''query'', Required, TString), (''remediation'', Required, OsqueryPolicyRemediationSummary_type),
     (''resolution'', Required, TString), (''targets'', Required, OsqueryPolicyTargets_type),
     (''updated_at'', Required, TString)]"

definition OsqueryPolicyRemediationRunSummary_type :: ts_type where
  "OsqueryPolicyRemediationRunSummary_type =
     TObject [(''automatic'', Required, TBoolean), (''status'', Required, one_of [''queued'', ''succeeded'',
     ''failed''])]"

definition OsqueryPolicyHostStatus_type :: ts_type where
  "OsqueryPolicyHostStatus_type =
     TObject [(''error'', Optional, TString), (''host_id'', Required, TNumber),
     (''host_name'', Required, TString), (''policy_id'', Required, TNumber),
     (''policy_name'', Required, TString),
     (''remediation'', Optional, OsqueryPolicyRemediationRunSummary_type),
     (''status'', Required, one_of [''pending'', ''pass'', ''fail'', ''error'']),
     (''updated_at'', Optional, TString)]"

definition OsqueryPolicyRemediationMutation_type :: ts_type where
  "OsqueryPolicyRemediationMutation_type =
     TObject [(''automatic'', Required, TBoolean), (''script'', Required, TString)]"

definition OsqueryPolicyMutation_type :: ts_type where
  "OsqueryPolicyMutation_type =
     TObject [(''description'', Optional, TString), (''name'', Required, TString),
     (''query'', Required, TString), (''remediation'', Optional, OsqueryPolicyRemediationMutation_type),
     (''resolution'', Optional, TString), (''targets'', Required, OsqueryPolicyTargets_type)]"

definition OsqueryPolicyRemediationBatchSummary_type :: ts_type where
  "OsqueryPolicyRemediationBatchSummary_type =
     TObject [(''queued'', Required, TNumber), (''skipped'', Required, TNumber)]"

definition OsqueryPolicyRemediationRun_type :: ts_type where
  "OsqueryPolicyRemediationRun_type =
     TObject [(''automatic'', Required, TBoolean), (''exit_code'', Optional, TNumber),
     (''output'', Required, TString), (''runtime_seconds'', Optional, TNumber),
     (''status'', Required, one_of [''queued'', ''succeeded'', ''failed''])]"

definition OsqueryPolicyRemediationSource_type :: ts_type where
  "OsqueryPolicyRemediationSource_type = TObject [(''script'', Required, TString)]"

definition OsqueryPolicyStatusPoint_type :: ts_type where
  "OsqueryPolicyStatusPoint_type =
     TObject [(''bucket'', Required, TString), (''error_count'', Required, TNumber),
     (''fail_count'', Required, TNumber), (''pass_count'', Required, TNumber),
     (''pending_count'', Required, TNumber)]"

definition OsqueryReportTargets_type :: ts_type where
  "OsqueryReportTargets_type =
     TObject [(''exclude'', Required, TArray LabelRef_type), (''include'', Required, TArray LabelRef_type)]"

definition OsqueryReport_type :: ts_type where
  "OsqueryReport_type =
     TObject [(''collected_host_count'', Required, TNumber), (''created_at'', Required, TString),
     (''created_by'', Optional, UserSummary_type), (''description'', Required, TString),
     (''error_host_count'', Required, TNumber), (''id'', Required, TNumber),
     (''min_osquery_version'', Optional, TString), (''name'', Required, TString),
     (''pending_host_count'', Required, TNumber), (''query'', Required, TString),
     (''schedule_interval'', Required, TNumber), (''targets'', Required, OsqueryReportTargets_type),
     (''updated_at'', Required, TString)]"

definition OsqueryReportMutation_type :: ts_type where
  "OsqueryReportMutation_type =
     TObject [(''description'', Optional, TString), (''min_osquery_version'', Optional, TString),
     (''name'', Required, TString), (''query'', Required, TString),
     (''schedule_interval'', Optional, TNumber), (''targets'', Required, OsqueryReportTargets_type)]"

definition OsqueryReportSnapshot_type :: ts_type where
  "OsqueryReportSnapshot_type =
     TObject [(''error'', Optional, TString), (''host_id'', Required, TNumber),
     (''host_name'', Required, TString), (''report_description'', Optional, TString),
     (''report_id'', Required, TNumber), (''report_name'', Required, TString),
     (''reported_at'', Optional, TString), (''result_row_count'', Required, TNumber),
     (''returned_row_count'', Required, TNumber), (''rows'', Required, TArray (TDictionary TString)),
     (''status'', Required, one_of [''collected'', ''error'', ''pending''])]"

definition PageActivityEvent_type :: ts_type where
  "PageActivityEvent_type =
     TObject [(''count'', Required, TNumber), (''items'', Required, TArray ActivityEvent_type)]"

definition SantaConfigurationTargets_type :: ts_type where
  "SantaConfigurationTargets_type =
     TObject [(''exclude'', Required, TArray LabelRef_type), (''include'', Required, TArray LabelRef_type)]"

definition SantaRemovableMediaPolicy_type :: ts_type where
  "SantaRemovableMediaPolicy_type =
     TObject [(''action'', Required, one_of [''allow'', ''block'', ''remount'']),
     (''remount_flags'', Optional, TArray (one_of [''rdonly'', ''noexec'', ''nosuid'', ''nobrowse'',
     ''noowners'', ''nodev'', ''-j'', ''async'']))]"

definition SantaConfiguration_type :: ts_type where
  "SantaConfiguration_type =
     TObject [(''allowed_path_regex'', Optional, TString), (''batch_size'', Required, TNumber),
     (''blocked_path_regex'', Optional, TString), (''client_mode'', Required, one_of [''monitor'',
     ''lockdown'', ''standalone'']), (''created_at'', Required, TString),
     (''description'', Required, TString), (''disable_unknown_event_upload'', Required, TBoolean),
     (''enable_all_event_upload'', Required, TBoolean), (''enable_bundles'', Required, TBoolean),
     (''enable_transitive_rules'', Required, TBoolean),
     (''encrypted_removable_media_policy'', Optional, SantaRemovableMediaPolicy_type),
     (''event_detail_text'', Optional, TString), (''event_detail_url'', Optional, TString),
     (''full_sync_interval_seconds'', Required, TNumber), (''id'', Required, TNumber),
     (''name'', Required, TString), (''override_file_access_action'', Required, one_of [''none'',
     ''audit_only'', ''disable'']), (''position'', Required, TNumber),
     (''removable_media_policy'', Optional, SantaRemovableMediaPolicy_type),
     (''targets'', Required, SantaConfigurationTargets_type), (''updated_at'', Required, TString)]"

definition PageConfiguration_type :: ts_type where
  "PageConfiguration_type =
     TObject [(''count'', Required, TNumber), (''items'', Required, TArray SantaConfiguration_type)]"

definition PageDepartment_type :: ts_type where
  "PageDepartment_type =
     TObject [(''count'', Required, TNumber), (''items'', Required, TArray Department_type)]"

definition PageDistributionPoint_type :: ts_type where
  "PageDistributionPoint_type =
     TObject [(''count'', Required, TNumber), (''items'', Required, TArray MunkiDistributionPoint_type)]"

definition SantaSigningChainEntry_type :: ts_type where
  "SantaSigningChainEntry_type =
     TObject [(''common_name'', Optional, TString), (''organization'', Optional, TString),
     (''organizational_unit'', Optional, TString), (''sha256'', Required, TString),
     (''valid_from'', Optional, TString), (''valid_until'', Optional, TString)]"

definition SantaExecutable_type :: ts_type where
  "SantaExecutable_type =
     TObject [(''cdhash'', Required, TString), (''codesigning_flags'', Required, TNumber),
     (''entitlements'', Optional, TUnknown), (''file_bundle_binary_count'', Required, TNumber),
     (''file_bundle_executable_rel_path'', Required, TString), (''file_bundle_hash'', Required, TString),
     (''file_bundle_hash_millis'', Required, TNumber), (''file_bundle_id'', Required, TString),
     (''file_bundle_name'', Required, TString), (''file_bundle_path'', Required, TString),
     (''file_bundle_version'', Required, TString), (''file_bundle_version_string'', Required, TString),
     (''file_name'', Required, TString), (''id'', Required, TNumber),
     (''secure_signing_time'', Optional, TString), (''sha256'', Required, TString),
     (''signing_chain'', Optional, TArray SantaSigningChainEntry_type), (''signing_id'', Required, TString),
     (''signing_status'', Required, one_of [''unspecified'', ''unsigned'', ''invalid'', ''adhoc'',
     ''development'', ''production'']), (''signing_time'', Optional, TString),
     (''team_id'', Required, TString)]"

definition SantaHostSummaryHardware_type :: ts_type where
  "SantaHostSummaryHardware_type =
     TObject [(''model_identifier'', Required, TString), (''serial'', Required, TString)]"

definition SantaHostSummary_type :: ts_type where
  "SantaHostSummary_type =
     TObject [(''computer_name'', Required, TString), (''display_name'', Required, TString),
     (''hardware'', Required, SantaHostSummaryHardware_type), (''hostname'', Required, TString),
     (''id'', Required, TNumber), (''santa_client_mode'', Required, one_of [''unknown'', ''monitor'',
     ''lockdown'', ''standalone'']), (''santa_machine_id'', Required, TString),
     (''santa_version'', Required, TString)]"

definition SantaExecutionEvent_type :: ts_type where
  "SantaExecutionEvent_type =
     TObject [(''current_sessions'', Required, TArray TString), (''decision'', Required, one_of [''unknown'',
     ''allow_unknown'', ''allow_binary'', ''allow_certificate'', ''allow_scope'', ''allow_teamid'',
     ''allow_signingid'', ''allow_cdhash'', ''block_unknown'', ''block_binary'', ''block_certificate'',
     ''block_scope'', ''block_teamid'', ''block_signingid'', ''block_cdhash'', ''bundle_binary'',
     ''block_binary_mismatch'', ''allow_platform'']), (''executable'', Required, SantaExecutable_type),
     (''executing_user'', Required, TString), (''file_path'', Required, TString),
     (''host'', Required, SantaHostSummary_type), (''host_id'', Required, TNumber),
     (''id'', Required, TNumber), (''ingested_at'', Required, TString),
     (''logged_in_users'', Required, TArray TString), (''occurred_at'', Required, TString),
     (''parent_name'', Required, TString), (''pid'', Required, TNumber), (''ppid'', Required, TNumber),
     (''static_rule'', Required, TBoolean)]"

definition PageExecutionEvent_type :: ts_type where
  "PageExecutionEvent_type =
     TObject [(''count'', Required, TNumber), (''items'', Required, TArray SantaExecutionEvent_type)]"

definition SantaProcess_type :: ts_type where
  "SantaProcess_type =
     TObject [(''cdhash'', Required, TString), (''file_name'', Required, TString),
     (''file_path'', Required, TString), (''file_sha256'', Required, TString), (''pid'', Required, TNumber),
     (''signing_chain'', Optional, TArray SantaSigningChainEntry_type), (''signing_id'', Required, TString),
     (''team_id'', Required, TString)]"

definition SantaFileAccessEvent_type :: ts_type where
  "SantaFileAccessEvent_type =
     TObject [(''decision'', Required, one_of [''unknown'', ''denied'', ''denied_invalid_signature'',
     ''audit_only'']), (''host'', Required, SantaHostSummary_type), (''host_id'', Required, TNumber),
     (''id'', Required, TNumber), (''ingested_at'', Required, TString), (''occurred_at'', Required, TString),
     (''primary_process'', Required, SantaProcess_type),
     (''process_chain'', Optional, TArray SantaProcess_type), (''rule_name'', Required, TString),
     (''rule_version'', Required, TString), (''target'', Required, TString)]"

definition PageFileAccessEvent_type :: ts_type where
  "PageFileAccessEvent_type =
     TObject [(''count'', Required, TNumber), (''items'', Required, TArray SantaFileAccessEvent_type)]"

definition PageGroup_type :: ts_type where
  "PageGroup_type = TObject [(''count'', Required, TNumber), (''items'', Required, TArray Group_type)]"

definition PageHost_type :: ts_type where
  "PageHost_type = TObject [(''count'', Required, TNumber), (''items'', Required, TArray Host_type)]"

definition PageHostManifestSoftware_type :: ts_type where
  "PageHostManifestSoftware_type =
     TObject [(''count'', Required, TNumber), (''items'', Required, TArray MunkiHostManifestSoftware_type)]"

definition PageHostSoftware_type :: ts_type where
  "PageHostSoftware_type =
     TObject [(''count'', Required, TNumber), (''items'', Required, TArray HostSoftware_type)]"

definition PageLabel_type :: ts_type where
  "PageLabel_type = TObject [(''count'', Required, TNumber), (''items'', Required, TArray Label_type)]"

definition PageMunkiClientResources_type :: ts_type where
  "PageMunkiClientResources_type =
     TObject [(''count'', Required, TNumber), (''items'', Required, TArray MunkiClientResources_type)]"

definition PageMunkiObjectView_type :: ts_type where
  "PageMunkiObjectView_type =
     TObject [(''count'', Required, TNumber), (''items'', Required, TArray MunkiObjectView_type)]"

definition PagePackage_type :: ts_type where
  "PagePackage_type =
     TObject [(''count'', Required, TNumber), (''items'', Required, TArray MunkiPackage_type)]"

definition PagePolicy_type :: ts_type where
  "PagePolicy_type =
     TObject [(''count'', Required, TNumber), (''items'', Required, TArray OsqueryPolicy_type)]"

definition PagePolicyHostStatus_type :: ts_type where
  "PagePolicyHostStatus_type =
     TObject [(''count'', Required, TNumber), (''items'', Required, TArray OsqueryPolicyHostStatus_type)]"

definition PageReport_type :: ts_type where
  "PageReport_type =
     TObject [(''count'', Required, TNumber), (''items'', Required, TArray OsqueryReport_type)]"

definition PageReportSnapshot_type :: ts_type where
  "PageReportSnapshot_type =
     TObject [(''count'', Required, TNumber), (''items'', Required, TArray OsqueryReportSnapshot_type)]"

definition SantaRuleInclude_type :: ts_type where
  "SantaRuleInclude_type =
     TObject [(''cel_expression'', Optional, TString), (''label_id'', Required, TNumber),
     (''policy'', Required, one_of [''allowlist'', ''allowlist_compiler'', ''blocklist'',
     ''silent_blocklist'', ''silent_gui_blocklist'', ''silent_tty_blocklist'', ''cel''])]"

definition SantaRuleTargets_type :: ts_type where
  "SantaRuleTargets_type =
     TObject [(''exclude'', Required, TArray LabelRef_type),
     (''include'', Required, TArray SantaRuleInclude_type)]"

definition SantaRule_type :: ts_type where
  "SantaRule_type =
     TObject [(''created_at'', Required, TString), (''custom_message'', Required, TString),
     (''custom_url'', Required, TString), (''description'', Required, TString), (''id'', Required, TNumber),
     (''identifier'', Required, TString), (''name'', Required, TString),
     (''rule_type'', Required, one_of [''binary'', ''certificate'', ''teamid'', ''signingid'', ''cdhash'',
     ''bundle'']), (''targets'', Required, SantaRuleTargets_type), (''updated_at'', Required, TString)]"

definition PageRule_type :: ts_type where
  "PageRule_type = TObject [(''count'', Required, TNumber), (''items'', Required, TArray SantaRule_type)]"

definition SantaRuleStatus_type :: ts_type where
  "SantaRuleStatus_type =
     TObject [(''applied'', Required, TBoolean), (''cel_expression'', Optional, TString),
     (''custom_message'', Optional, TString), (''custom_url'', Optional, TString),
     (''description'', Required, TString), (''identifier'', Required, TString), (''name'', Required, TString),
     (''notification_app_name'', Optional, TString), (''policy'', Required, one_of [''allowlist'',
     ''allowlist_compiler'', ''blocklist'', ''silent_blocklist'', ''silent_gui_blocklist'',
     ''silent_tty_blocklist'', ''cel'']), (''rule_id'', Required, TNumber),
     (''rule_type'', Required, one_of [''binary'', ''certificate'', ''teamid'', ''signingid'', ''cdhash'',
     ''bundle''])]"

definition PageRuleStatus_type :: ts_type where
  "PageRuleStatus_type =
     TObject [(''count'', Required, TNumber), (''items'', Required, TArray SantaRuleStatus_type)]"

definition PageSoftware_type :: ts_type where
  "PageSoftware_type =
     TObject [(''count'', Required, TNumber), (''items'', Required, TArray MunkiSoftware_type)]"

definition SoftwareSigningIdentity_type :: ts_type where
  "SoftwareSigningIdentity_type =
     TObject [(''authority'', Required, TString), (''developer_name'', Required, TString),
     (''hosts_count'', Required, TNumber), (''identifier'', Required, TString),
     (''signing_identifier'', Required, TString), (''team_identifier'', Required, TString)]"

definition SoftwareSigningIdentityList_type :: ts_type where
  "SoftwareSigningIdentityList_type =
     TObject [(''count'', Required, TNumber), (''items'', Required, TArray SoftwareSigningIdentity_type)]"

definition SoftwareVersion_type :: ts_type where
  "SoftwareVersion_type =
     TObject [(''bundle_identifier'', Optional, TString), (''hosts_count'', Required, TNumber),
     (''id'', Required, TNumber), (''version'', Required, TString)]"

definition SoftwareVersionList_type :: ts_type where
  "SoftwareVersionList_type =
     TObject [(''count'', Required, TNumber), (''items'', Required, TArray SoftwareVersion_type)]"

definition SoftwareTitle_type :: ts_type where
  "SoftwareTitle_type =
     TObject [(''bundle_identifier'', Optional, TString), (''extension_for'', Required, TString),
     (''hosts_count'', Required, TNumber), (''id'', Required, TNumber), (''name'', Required, TString),
     (''signing_identities'', Required, SoftwareSigningIdentityList_type),
     (''source'', Required, one_of [''apps'', ''homebrew_packages'', ''chrome_extensions'',
     ''firefox_addons'', ''safari_extensions'', ''npm_packages'', ''vscode_extensions'',
     ''jetbrains_plugins'', ''go_binaries'', ''python_packages'']),
     (''versions'', Required, SoftwareVersionList_type)]"

definition PageSoftwareTitle_type :: ts_type where
  "PageSoftwareTitle_type =
     TObject [(''count'', Required, TNumber), (''items'', Required, TArray SoftwareTitle_type)]"

definition PageUser_type :: ts_type where
  "PageUser_type = TObject [(''count'', Required, TNumber), (''items'', Required, TArray User_type)]"

definition Principal_type :: ts_type where
  "Principal_type =
     TObject [(''email'', Required, TString), (''id'', Required, TNumber), (''name'', Required, TString)]"

definition SantaLabelMatch_type :: ts_type where
  "SantaLabelMatch_type = TObject [(''id'', Required, TNumber), (''name'', Required, TString)]"

definition SantaConfigurationMatch_type :: ts_type where
  "SantaConfigurationMatch_type =
     TObject [(''allowed_path_regex'', Optional, TString), (''batch_size'', Required, TNumber),
     (''blocked_path_regex'', Optional, TString), (''client_mode'', Required, one_of [''monitor'',
     ''lockdown'', ''standalone'']), (''created_at'', Required, TString),
     (''description'', Required, TString), (''disable_unknown_event_upload'', Required, TBoolean),
     (''enable_all_event_upload'', Required, TBoolean), (''enable_bundles'', Required, TBoolean),
     (''enable_transitive_rules'', Required, TBoolean),
     (''encrypted_removable_media_policy'', Optional, SantaRemovableMediaPolicy_type),
     (''event_detail_text'', Optional, TString), (''event_detail_url'', Optional, TString),
     (''full_sync_interval_seconds'', Required, TNumber), (''id'', Required, TNumber),
     (''matched_via_label'', Optional, SantaLabelMatch_type), (''name'', Required, TString),
     (''override_file_access_action'', Required, one_of [''none'', ''audit_only'', ''disable'']),
     (''position'', Required, TNumber),
     (''removable_media_policy'', Optional, SantaRemovableMediaPolicy_type),
     (''targets'', Required, SantaConfigurationTargets_type), (''updated_at'', Required, TString)]"

definition SantaConfigurationMutation_type :: ts_type where
  "SantaConfigurationMutation_type =
     TObject [(''allowed_path_regex'', Optional, TString), (''batch_size'', Required, TNumber),
     (''blocked_path_regex'', Optional, TString), (''client_mode'', Required, one_of [''monitor'',
     ''lockdown'', ''standalone'']), (''description'', Optional, TString),
     (''disable_unknown_event_upload'', Required, TBoolean),
     (''enable_all_event_upload'', Required, TBoolean), (''enable_bundles'', Required, TBoolean),
     (''enable_transitive_rules'', Required, TBoolean),
     (''encrypted_removable_media_policy'', Optional, SantaRemovableMediaPolicy_type),
     (''event_detail_text'', Optional, TString), (''event_detail_url'', Optional, TString),
     (''full_sync_interval_seconds'', Required, TNumber), (''name'', Required, TString),
     (''override_file_access_action'', Required, one_of [''none'', ''audit_only'', ''disable'']),
     (''removable_media_policy'', Optional, SantaRemovableMediaPolicy_type),
     (''targets'', Required, SantaConfigurationTargets_type)]"

definition SantaConfigurationReorderBody_type :: ts_type where
  "SantaConfigurationReorderBody_type = TObject [(''ordered_ids'', Required, TArray TNumber)]"

definition SantaRuleSyncSummary_type :: ts_type where
  "SantaRuleSyncSummary_type =
     TObject [(''applied_count'', Required, TNumber), (''desired_count'', Required, TNumber),
     (''last_clean_sync_at'', Optional, TString)]"

definition SantaHostState_type :: ts_type where
  "SantaHostState_type =
     TObject [(''client_mode_reported'', Required, one_of [''unknown'', ''monitor'', ''lockdown'',
     ''standalone'']), (''configuration'', Optional, SantaConfigurationMatch_type),
     (''rule_sync'', Required, SantaRuleSyncSummary_type), (''version'', Required, TString)]"

definition SantaRuleMutation_type :: ts_type where
  "SantaRuleMutation_type =
     TObject [(''custom_message'', Optional, TString), (''custom_url'', Optional, TString),
     (''description'', Optional, TString), (''identifier'', Required, TString), (''name'', Required, TString),
     (''rule_type'', Required, one_of [''binary'', ''certificate'', ''teamid'', ''signingid'', ''cdhash'',
     ''bundle'']), (''targets'', Required, SantaRuleTargets_type)]"

definition SessionBody_type :: ts_type where
  "SessionBody_type =
     TObject [(''sso_enabled'', Required, TBoolean), (''user'', Optional, Principal_type)]"

definition SessionCreateInputBody_type :: ts_type where
  "SessionCreateInputBody_type =
     TObject [(''email'', Required, TString), (''password'', Required, TString)]"

definition SyncRun_type :: ts_type where
  "SyncRun_type =
     TObject [(''duration_ms'', Optional, TNumber), (''error'', Optional, TString),
     (''finished_at'', Optional, TString), (''groups'', Optional, TNumber), (''id'', Required, TNumber),
     (''outcome'', Optional, one_of [''succeeded'', ''failed'']), (''queued_at'', Required, TString),
     (''started_at'', Optional, TString), (''trigger'', Required, one_of [''scheduled'', ''manual'']),
     (''users'', Optional, TNumber)]"

definition SyncStatus_type :: ts_type where
  "SyncStatus_type =
     TObject [(''activity'', Required, one_of [''idle'', ''queued'', ''running'']),
     (''current_run'', Optional, SyncRun_type), (''enabled'', Required, TBoolean),
     (''last_run'', Optional, SyncRun_type)]"

definition UserCreate_type :: ts_type where
  "UserCreate_type =
     TObject [(''email'', Required, TString), (''name'', Optional, TString),
     (''password'', Required, TString), (''role'', Required, one_of [''admin'', ''viewer''])]"

definition UserMutation_type :: ts_type where
  "UserMutation_type =
     TObject [(''name'', Required, TString), (''password'', Optional, TString),
     (''role'', Optional, one_of [''admin'', ''viewer''])]"

definition LabelWritable_type :: ts_type where
  "LabelWritable_type =
     TObject [(''created_at'', Optional, TString), (''criteria'', Optional, Criteria_type),
     (''description'', Required, TString), (''host_ids'', Optional, TArray TNumber),
     (''hosts_count'', Required, TNumber), (''id'', Required, TNumber),
     (''label_membership_type'', Required, one_of [''dynamic'', ''manual'', ''derived'']),
     (''label_type'', Required, one_of [''builtin'', ''regular'']), (''name'', Required, TString),
     (''query'', Optional, TString), (''updated_at'', Optional, TString)]"

definition HostDetailWritable_type :: ts_type where
  "HostDetailWritable_type =
     TObject [(''agents'', Required, HostAgents_type), (''batteries'', Required, TArray HostBattery_type),
     (''certificates'', Required, TArray HostCertificate_type), (''computer_name'', Required, TString),
     (''created_at'', Required, TString), (''display_name'', Required, TString),
     (''enrollment'', Required, HostEnrollment_type), (''hardware'', Required, HostHardware_type),
     (''heartbeats'', Required, TArray Heartbeat_type), (''hostname'', Required, TString),
     (''id'', Required, TNumber), (''inventory_refresh_requested'', Required, TBoolean),
     (''inventory_updated_at'', Optional, TString), (''labels'', Required, TArray LabelWritable_type),
     (''last_contact'', Optional, TString), (''last_restarted_at'', Optional, TString),
     (''network'', Required, HostNetwork_type), (''os'', Required, HostOs_type),
     (''primary_user'', Optional, HostPrimaryUser_type),
     (''primary_user_sources'', Required, TArray HostPrimaryUserSource_type),
     (''public_ip'', Optional, TString), (''public_ip_details'', Optional, PublicIpDetails_type),
     (''status'', Required, one_of [''online'', ''offline'']), (''storage'', Required, HostStorage_type),
     (''updated_at'', Required, TString), (''users'', Required, TArray HostUser_type)]"

definition PageLabelWritable_type :: ts_type where
  "PageLabelWritable_type =
     TObject [(''count'', Required, TNumber), (''items'', Required, TArray LabelWritable_type)]"

end
