(* ===== verification/ApiOperations.thy ===== *)
theory ApiOperations
  imports ApiTypes Routes
begin

text \<open>
  What \<open>web/src/lib/api-client/types.gen.ts\<close> declares of every operation: its body, path and query, its URL,
  its errors and its responses.

  Main results: the SDK and these declarations agree on every operation; every request of the client gives
  exactly what is declared; every declared answer reaches the caller.
\<close>

record op_data =
  od_body :: "ts_type option"
  od_path :: "(js_string \<times> presence \<times> ts_type) list"
  od_query :: "(js_string \<times> presence \<times> ts_type) list"
  od_url :: js_string

text \<open>The status of an error; none is \<open>default\<close>.\<close>

type_synonym declared_errors = "(int option \<times> ts_type) list"

type_synonym declared_responses = "(int \<times> ts_type) list"

record op_types =
  ot_data :: op_data
  ot_errors :: declared_errors
  ot_responses :: declared_responses

section \<open>The operations\<close>

definition GetAccountData :: op_data where
  "GetAccountData =
     \<lparr>od_body = None, od_path = [],
      od_query = [], od_url = ''/api/account''\<rparr>"

definition GetAccountErrors :: declared_errors where
  "GetAccountErrors = [(Some 401, ErrorModel_type), (Some 404, ErrorModel_type), (Some 500, ErrorModel_type)]"

definition GetAccountResponses :: declared_responses where
  "GetAccountResponses = [(200, Account_type)]"

definition UpdateAccountData :: op_data where
  "UpdateAccountData =
     \<lparr>od_body = Some AccountMutation_type, od_path = [],
      od_query = [], od_url = ''/api/account''\<rparr>"

definition UpdateAccountErrors :: declared_errors where
  "UpdateAccountErrors = [(Some 400, ErrorModel_type), (Some 401, ErrorModel_type), (Some 404, ErrorModel_type),
     (Some 409, ErrorModel_type), (Some 422, ErrorModel_type), (Some 500, ErrorModel_type)]"

definition UpdateAccountResponses :: declared_responses where
  "UpdateAccountResponses = [(200, Account_type)]"

definition RevokeAccountApiKeyData :: op_data where
  "RevokeAccountApiKeyData =
     \<lparr>od_body = None, od_path = [],
      od_query = [], od_url = ''/api/account/api-key''\<rparr>"

definition RevokeAccountApiKeyErrors :: declared_errors where
  "RevokeAccountApiKeyErrors = [(Some 401, ErrorModel_type), (Some 404, ErrorModel_type), (Some 500, ErrorModel_type)]"

definition RevokeAccountApiKeyResponses :: declared_responses where
  "RevokeAccountApiKeyResponses = [(200, Account_type)]"

definition RotateAccountApiKeyData :: op_data where
  "RotateAccountApiKeyData =
     \<lparr>od_body = None, od_path = [],
      od_query = [], od_url = ''/api/account/api-key''\<rparr>"

definition RotateAccountApiKeyErrors :: declared_errors where
  "RotateAccountApiKeyErrors = [(Some 401, ErrorModel_type), (Some 404, ErrorModel_type), (Some 500, ErrorModel_type)]"

definition RotateAccountApiKeyResponses :: declared_responses where
  "RotateAccountApiKeyResponses = [(201, Account_type)]"

definition ListActivityData :: op_data where
  "ListActivityData =
     \<lparr>od_body = None, od_path = [],
      od_query = [(''q'', Optional, TString), (''page'', Optional, TNumber), (''per_page'', Optional, TNumber),
        (''sort'', Optional, TString), (''area'', Optional, one_of [''hosts'', ''osquery'']),
        (''actor_kind'', Optional, one_of [''user'', ''system'']),
        (''action'', Optional, one_of [''orbit_host_enrolled'', ''osquery_host_enrolled'', ''host_deleted'',
        ''hosts_deleted'', ''host_inventory_requested'', ''host_primary_user_set'',
        ''host_primary_user_cleared'', ''policy_created'', ''policy_updated'', ''policy_deleted'',
        ''policies_deleted'', ''policy_remediation_requested'', ''report_created'', ''report_updated'',
        ''report_deleted'', ''reports_deleted'', ''live_query_started'', ''live_query_stopped'']),
        (''since'', Optional, TString), (''before'', Optional, TString),
        (''subject_type'', Optional, TString), (''subject_id'', Optional, TNumber)], od_url = ''/api/activity''\<rparr>"

definition ListActivityErrors :: declared_errors where
  "ListActivityErrors = [(Some 401, ErrorModel_type), (Some 403, ErrorModel_type), (None, ErrorModel_type)]"

definition ListActivityResponses :: declared_responses where
  "ListActivityResponses = [(200, PageActivityEvent_type)]"

definition ListAgentSecretsData :: op_data where
  "ListAgentSecretsData =
     \<lparr>od_body = None, od_path = [],
      od_query = [], od_url = ''/api/agent-secrets''\<rparr>"

definition ListAgentSecretsErrors :: declared_errors where
  "ListAgentSecretsErrors = [(Some 401, ErrorModel_type), (Some 403, ErrorModel_type), (None, ErrorModel_type)]"

definition ListAgentSecretsResponses :: declared_responses where
  "ListAgentSecretsResponses = [(200, TArray AgentSecret_type)]"

definition CreateAgentSecretData :: op_data where
  "CreateAgentSecretData =
     \<lparr>od_body = Some AgentSecretCreate_type, od_path = [],
      od_query = [], od_url = ''/api/agent-secrets''\<rparr>"

definition CreateAgentSecretErrors :: declared_errors where
  "CreateAgentSecretErrors = [(Some 400, ErrorModel_type), (Some 401, ErrorModel_type), (Some 403, ErrorModel_type),
     (Some 422, ErrorModel_type), (Some 500, ErrorModel_type)]"

definition CreateAgentSecretResponses :: declared_responses where
  "CreateAgentSecretResponses = [(201, AgentSecret_type)]"

definition DeleteAgentSecretData :: op_data where
  "DeleteAgentSecretData =
     \<lparr>od_body = None, od_path = [(''id'', Required, TNumber)],
      od_query = [], od_url = ''/api/agent-secrets/{id}''\<rparr>"

definition DeleteAgentSecretErrors :: declared_errors where
  "DeleteAgentSecretErrors = [(Some 400, ErrorModel_type), (Some 401, ErrorModel_type), (Some 403, ErrorModel_type),
     (Some 404, ErrorModel_type), (Some 422, ErrorModel_type), (Some 500, ErrorModel_type)]"

definition DeleteAgentSecretResponses :: declared_responses where
  "DeleteAgentSecretResponses = [(204, TVoid)]"

definition UpdateAgentSecretData :: op_data where
  "UpdateAgentSecretData =
     \<lparr>od_body = Some AgentSecretMutation_type, od_path = [(''id'', Required, TNumber)],
      od_query = [], od_url = ''/api/agent-secrets/{id}''\<rparr>"

definition UpdateAgentSecretErrors :: declared_errors where
  "UpdateAgentSecretErrors = [(Some 400, ErrorModel_type), (Some 401, ErrorModel_type), (Some 403, ErrorModel_type),
     (Some 404, ErrorModel_type), (Some 422, ErrorModel_type), (Some 500, ErrorModel_type)]"

definition UpdateAgentSecretResponses :: declared_responses where
  "UpdateAgentSecretResponses = [(200, AgentSecret_type)]"

definition GetDirectorySyncData :: op_data where
  "GetDirectorySyncData =
     \<lparr>od_body = None, od_path = [],
      od_query = [], od_url = ''/api/directory/sync''\<rparr>"

definition GetDirectorySyncErrors :: declared_errors where
  "GetDirectorySyncErrors = [(Some 401, ErrorModel_type), (Some 403, ErrorModel_type), (None, ErrorModel_type)]"

definition GetDirectorySyncResponses :: declared_responses where
  "GetDirectorySyncResponses = [(200, SyncStatus_type)]"

definition TriggerDirectorySyncData :: op_data where
  "TriggerDirectorySyncData =
     \<lparr>od_body = None, od_path = [],
      od_query = [], od_url = ''/api/directory/sync''\<rparr>"

definition TriggerDirectorySyncErrors :: declared_errors where
  "TriggerDirectorySyncErrors = [(Some 401, ErrorModel_type), (Some 403, ErrorModel_type), (Some 409, ErrorModel_type),
     (Some 500, ErrorModel_type)]"

definition TriggerDirectorySyncResponses :: declared_responses where
  "TriggerDirectorySyncResponses = [(202, SyncStatus_type)]"

definition ListGroupsData :: op_data where
  "ListGroupsData =
     \<lparr>od_body = None, od_path = [],
      od_query = [(''q'', Optional, TString), (''page'', Optional, TNumber), (''per_page'', Optional, TNumber),
        (''sort'', Optional, TString), (''values'', Optional, TArray TString)], od_url = ''/api/groups''\<rparr>"

definition ListGroupsErrors :: declared_errors where
  "ListGroupsErrors = [(Some 401, ErrorModel_type), (Some 403, ErrorModel_type), (None, ErrorModel_type)]"

definition ListGroupsResponses :: declared_responses where
  "ListGroupsResponses = [(200, PageGroup_type)]"

definition GetGroupData :: op_data where
  "GetGroupData =
     \<lparr>od_body = None, od_path = [(''id'', Required, TNumber)],
      od_query = [], od_url = ''/api/groups/{id}''\<rparr>"

definition GetGroupErrors :: declared_errors where
  "GetGroupErrors = [(Some 401, ErrorModel_type), (Some 403, ErrorModel_type), (Some 404, ErrorModel_type),
     (Some 422, ErrorModel_type), (Some 500, ErrorModel_type)]"

definition GetGroupResponses :: declared_responses where
  "GetGroupResponses = [(200, Group_type)]"

definition BulkDeleteHostsData :: op_data where
  "BulkDeleteHostsData =
     \<lparr>od_body = None, od_path = [],
      od_query = [(''ids'', Required, TArray TNumber)], od_url = ''/api/hosts''\<rparr>"

definition BulkDeleteHostsErrors :: declared_errors where
  "BulkDeleteHostsErrors = [(Some 400, ErrorModel_type), (Some 401, ErrorModel_type), (Some 403, ErrorModel_type),
     (Some 422, ErrorModel_type), (Some 500, ErrorModel_type)]"

definition BulkDeleteHostsResponses :: declared_responses where
  "BulkDeleteHostsResponses = [(204, TVoid)]"

definition ListHostsData :: op_data where
  "ListHostsData =
     \<lparr>od_body = None, od_path = [],
      od_query = [(''q'', Optional, TString), (''page'', Optional, TNumber), (''per_page'', Optional, TNumber),
        (''sort'', Optional, TString), (''status'', Optional, one_of [''online'', ''offline'']),
        (''label_id'', Optional, TNumber), (''software_title_id'', Optional, TNumber),
        (''software_id'', Optional, TNumber), (''ids'', Optional, TArray TNumber)], od_url = ''/api/hosts''\<rparr>"

definition ListHostsErrors :: declared_errors where
  "ListHostsErrors = [(Some 401, ErrorModel_type), (Some 403, ErrorModel_type), (None, ErrorModel_type)]"

definition ListHostsResponses :: declared_responses where
  "ListHostsResponses = [(200, PageHost_type)]"

definition DeleteHostData :: op_data where
  "DeleteHostData =
     \<lparr>od_body = None, od_path = [(''id'', Required, TNumber)],
      od_query = [], od_url = ''/api/hosts/{id}''\<rparr>"

definition DeleteHostErrors :: declared_errors where
  "DeleteHostErrors = [(Some 401, ErrorModel_type), (Some 403, ErrorModel_type), (Some 404, ErrorModel_type),
     (Some 422, ErrorModel_type), (Some 500, ErrorModel_type)]"

definition DeleteHostResponses :: declared_responses where
  "DeleteHostResponses = [(204, TVoid)]"

definition GetHostData :: op_data where
  "GetHostData =
     \<lparr>od_body = None, od_path = [(''id'', Required, TNumber)],
      od_query = [], od_url = ''/api/hosts/{id}''\<rparr>"

definition GetHostErrors :: declared_errors where
  "GetHostErrors = [(Some 401, ErrorModel_type), (Some 403, ErrorModel_type), (Some 404, ErrorModel_type),
     (Some 422, ErrorModel_type), (Some 500, ErrorModel_type)]"

definition GetHostResponses :: declared_responses where
  "GetHostResponses = [(200, HostDetail_type)]"

definition RequestHostInventoryRefreshData :: op_data where
  "RequestHostInventoryRefreshData =
     \<lparr>od_body = None, od_path = [(''id'', Required, TNumber)],
      od_query = [], od_url = ''/api/hosts/{id}/inventory-refresh''\<rparr>"

definition RequestHostInventoryRefreshErrors :: declared_errors where
  "RequestHostInventoryRefreshErrors = [(Some 401, ErrorModel_type), (Some 403, ErrorModel_type), (Some 404, ErrorModel_type),
     (Some 422, ErrorModel_type), (Some 500, ErrorModel_type)]"

definition RequestHostInventoryRefreshResponses :: declared_responses where
  "RequestHostInventoryRefreshResponses = [(202, TUnknown)]"

definition GetHostMunkiStateData :: op_data where
  "GetHostMunkiStateData =
     \<lparr>od_body = None, od_path = [(''id'', Required, TNumber)],
      od_query = [], od_url = ''/api/hosts/{id}/munki''\<rparr>"

definition GetHostMunkiStateErrors :: declared_errors where
  "GetHostMunkiStateErrors = [(Some 401, ErrorModel_type), (Some 403, ErrorModel_type), (Some 404, ErrorModel_type),
     (Some 422, ErrorModel_type), (Some 500, ErrorModel_type)]"

definition GetHostMunkiStateResponses :: declared_responses where
  "GetHostMunkiStateResponses = [(200, MunkiHostState_type)]"

definition ListHostMunkiSoftwareData :: op_data where
  "ListHostMunkiSoftwareData =
     \<lparr>od_body = None, od_path = [(''id'', Required, TNumber)],
      od_query = [(''q'', Optional, TString), (''page'', Optional, TNumber), (''per_page'', Optional, TNumber),
        (''sort'', Optional, TString)], od_url = ''/api/hosts/{id}/munki/software''\<rparr>"

definition ListHostMunkiSoftwareErrors :: declared_errors where
  "ListHostMunkiSoftwareErrors = [(Some 400, ErrorModel_type), (Some 401, ErrorModel_type), (Some 403, ErrorModel_type),
     (Some 404, ErrorModel_type), (Some 422, ErrorModel_type), (Some 500, ErrorModel_type)]"

definition ListHostMunkiSoftwareResponses :: declared_responses where
  "ListHostMunkiSoftwareResponses = [(200, PageHostManifestSoftware_type)]"

definition ListHostOsqueryPoliciesData :: op_data where
  "ListHostOsqueryPoliciesData =
     \<lparr>od_body = None, od_path = [(''id'', Required, TNumber)],
      od_query = [(''q'', Optional, TString), (''page'', Optional, TNumber), (''per_page'', Optional, TNumber),
        (''sort'', Optional, TString), (''status'', Optional, TArray (one_of [''pending'', ''pass'', ''fail'',
        ''error'']))], od_url = ''/api/hosts/{id}/osquery/policies''\<rparr>"

definition ListHostOsqueryPoliciesErrors :: declared_errors where
  "ListHostOsqueryPoliciesErrors = [(Some 401, ErrorModel_type), (Some 403, ErrorModel_type), (Some 404, ErrorModel_type),
     (Some 422, ErrorModel_type), (Some 500, ErrorModel_type)]"

definition ListHostOsqueryPoliciesResponses :: declared_responses where
  "ListHostOsqueryPoliciesResponses = [(200, PagePolicyHostStatus_type)]"

definition ListHostOsqueryReportsData :: op_data where
  "ListHostOsqueryReportsData =
     \<lparr>od_body = None, od_path = [(''id'', Required, TNumber)],
      od_query = [(''q'', Optional, TString), (''page'', Optional, TNumber), (''per_page'', Optional, TNumber),
        (''sort'', Optional, TString), (''status'', Optional, one_of [''collected'', ''error'', ''pending''])], od_url = ''/api/hosts/{id}/osquery/reports''\<rparr>"

definition ListHostOsqueryReportsErrors :: declared_errors where
  "ListHostOsqueryReportsErrors = [(Some 401, ErrorModel_type), (Some 403, ErrorModel_type), (Some 404, ErrorModel_type),
     (Some 422, ErrorModel_type), (Some 500, ErrorModel_type)]"

definition ListHostOsqueryReportsResponses :: declared_responses where
  "ListHostOsqueryReportsResponses = [(200, PageReportSnapshot_type)]"

definition ClearHostPrimaryUserData :: op_data where
  "ClearHostPrimaryUserData =
     \<lparr>od_body = None, od_path = [(''id'', Required, TNumber)],
      od_query = [], od_url = ''/api/hosts/{id}/primary-user''\<rparr>"

definition ClearHostPrimaryUserErrors :: declared_errors where
  "ClearHostPrimaryUserErrors = [(Some 401, ErrorModel_type), (Some 403, ErrorModel_type), (Some 404, ErrorModel_type),
     (Some 422, ErrorModel_type), (Some 500, ErrorModel_type)]"

definition ClearHostPrimaryUserResponses :: declared_responses where
  "ClearHostPrimaryUserResponses = [(200, HostDetail_type)]"

definition SetHostPrimaryUserData :: op_data where
  "SetHostPrimaryUserData =
     \<lparr>od_body = Some HostPrimaryUserPutBody_type, od_path = [(''id'', Required, TNumber)],
      od_query = [], od_url = ''/api/hosts/{id}/primary-user''\<rparr>"

definition SetHostPrimaryUserErrors :: declared_errors where
  "SetHostPrimaryUserErrors = [(Some 400, ErrorModel_type), (Some 401, ErrorModel_type), (Some 403, ErrorModel_type),
     (Some 404, ErrorModel_type), (Some 422, ErrorModel_type), (Some 500, ErrorModel_type)]"

definition SetHostPrimaryUserResponses :: declared_responses where
  "SetHostPrimaryUserResponses = [(200, HostDetail_type)]"

definition GetHostSantaStateData :: op_data where
  "GetHostSantaStateData =
     \<lparr>od_body = None, od_path = [(''id'', Required, TNumber)],
      od_query = [], od_url = ''/api/hosts/{id}/santa''\<rparr>"

definition GetHostSantaStateErrors :: declared_errors where
  "GetHostSantaStateErrors = [(Some 401, ErrorModel_type), (Some 403, ErrorModel_type), (Some 404, ErrorModel_type),
     (Some 422, ErrorModel_type), (Some 500, ErrorModel_type)]"

definition GetHostSantaStateResponses :: declared_responses where
  "GetHostSantaStateResponses = [(200, SantaHostState_type)]"

definition ListHostSantaRulesData :: op_data where
  "ListHostSantaRulesData =
     \<lparr>od_body = None, od_path = [(''id'', Required, TNumber)],
      od_query = [(''q'', Optional, TString), (''page'', Optional, TNumber), (''per_page'', Optional, TNumber),
        (''sort'', Optional, TString)], od_url = ''/api/hosts/{id}/santa/rules''\<rparr>"

definition ListHostSantaRulesErrors :: declared_errors where
  "ListHostSantaRulesErrors = [(Some 400, ErrorModel_type), (Some 401, ErrorModel_type), (Some 403, ErrorModel_type),
     (Some 404, ErrorModel_type), (Some 422, ErrorModel_type), (Some 500, ErrorModel_type)]"

definition ListHostSantaRulesResponses :: declared_responses where
  "ListHostSantaRulesResponses = [(200, PageRuleStatus_type)]"

definition ListHostSoftwareData :: op_data where
  "ListHostSoftwareData =
     \<lparr>od_body = None, od_path = [(''id'', Required, TNumber)],
      od_query = [(''q'', Optional, TString), (''page'', Optional, TNumber), (''per_page'', Optional, TNumber),
        (''sort'', Optional, TString), (''source'', Optional, TArray (one_of [''apps'', ''homebrew_packages'',
        ''chrome_extensions'', ''firefox_addons'', ''safari_extensions'', ''npm_packages'',
        ''vscode_extensions'', ''jetbrains_plugins'', ''go_binaries'', ''python_packages'']))], od_url = ''/api/hosts/{id}/software''\<rparr>"

definition ListHostSoftwareErrors :: declared_errors where
  "ListHostSoftwareErrors = [(Some 401, ErrorModel_type), (Some 403, ErrorModel_type), (Some 404, ErrorModel_type),
     (Some 422, ErrorModel_type), (Some 500, ErrorModel_type)]"

definition ListHostSoftwareResponses :: declared_responses where
  "ListHostSoftwareResponses = [(200, PageHostSoftware_type)]"

definition ListLabelsData :: op_data where
  "ListLabelsData =
     \<lparr>od_body = None, od_path = [],
      od_query = [(''q'', Optional, TString), (''page'', Optional, TNumber), (''per_page'', Optional, TNumber),
        (''sort'', Optional, TString), (''label_type'', Optional, one_of [''builtin'', ''regular'']),
        (''label_membership_type'', Optional, TArray (one_of [''dynamic'', ''manual'', ''derived'']))], od_url = ''/api/labels''\<rparr>"

definition ListLabelsErrors :: declared_errors where
  "ListLabelsErrors = [(Some 401, ErrorModel_type), (Some 403, ErrorModel_type), (None, ErrorModel_type)]"

definition ListLabelsResponses :: declared_responses where
  "ListLabelsResponses = [(200, PageLabel_type)]"

definition CreateLabelData :: op_data where
  "CreateLabelData =
     \<lparr>od_body = Some LabelMutation_type, od_path = [],
      od_query = [], od_url = ''/api/labels''\<rparr>"

definition CreateLabelErrors :: declared_errors where
  "CreateLabelErrors = [(Some 400, ErrorModel_type), (Some 401, ErrorModel_type), (Some 403, ErrorModel_type),
     (Some 404, ErrorModel_type), (Some 409, ErrorModel_type), (Some 422, ErrorModel_type),
     (Some 500, ErrorModel_type)]"

definition CreateLabelResponses :: declared_responses where
  "CreateLabelResponses = [(201, Label_type)]"

definition DeleteLabelData :: op_data where
  "DeleteLabelData =
     \<lparr>od_body = None, od_path = [(''id'', Required, TNumber)],
      od_query = [], od_url = ''/api/labels/{id}''\<rparr>"

definition DeleteLabelErrors :: declared_errors where
  "DeleteLabelErrors = [(Some 401, ErrorModel_type), (Some 403, ErrorModel_type), (Some 404, ErrorModel_type),
     (Some 422, ErrorModel_type), (Some 500, ErrorModel_type)]"

definition DeleteLabelResponses :: declared_responses where
  "DeleteLabelResponses = [(204, TVoid)]"

definition GetLabelData :: op_data where
  "GetLabelData =
     \<lparr>od_body = None, od_path = [(''id'', Required, TNumber)],
      od_query = [], od_url = ''/api/labels/{id}''\<rparr>"

definition GetLabelErrors :: declared_errors where
  "GetLabelErrors = [(Some 401, ErrorModel_type), (Some 403, ErrorModel_type), (Some 404, ErrorModel_type),
     (Some 422, ErrorModel_type), (Some 500, ErrorModel_type)]"

definition GetLabelResponses :: declared_responses where
  "GetLabelResponses = [(200, Label_type)]"

definition UpdateLabelData :: op_data where
  "UpdateLabelData =
     \<lparr>od_body = Some LabelMutation_type, od_path = [(''id'', Required, TNumber)],
      od_query = [], od_url = ''/api/labels/{id}''\<rparr>"

definition UpdateLabelErrors :: declared_errors where
  "UpdateLabelErrors = [(Some 400, ErrorModel_type), (Some 401, ErrorModel_type), (Some 403, ErrorModel_type),
     (Some 404, ErrorModel_type), (Some 409, ErrorModel_type), (Some 422, ErrorModel_type),
     (Some 500, ErrorModel_type)]"

definition UpdateLabelResponses :: declared_responses where
  "UpdateLabelResponses = [(200, Label_type)]"

definition ListMunkiClientResourcesData :: op_data where
  "ListMunkiClientResourcesData =
     \<lparr>od_body = None, od_path = [],
      od_query = [(''page'', Optional, TNumber), (''per_page'', Optional, TNumber), (''sort'', Optional, TString)], od_url = ''/api/munki/client-resources''\<rparr>"

definition ListMunkiClientResourcesErrors :: declared_errors where
  "ListMunkiClientResourcesErrors = [(Some 401, ErrorModel_type), (Some 403, ErrorModel_type), (None, ErrorModel_type)]"

definition ListMunkiClientResourcesResponses :: declared_responses where
  "ListMunkiClientResourcesResponses = [(200, PageMunkiClientResources_type)]"

definition CreateMunkiClientResourcesData :: op_data where
  "CreateMunkiClientResourcesData =
     \<lparr>od_body = Some MunkiClientResourcesMutation_type, od_path = [],
      od_query = [], od_url = ''/api/munki/client-resources''\<rparr>"

definition CreateMunkiClientResourcesErrors :: declared_errors where
  "CreateMunkiClientResourcesErrors = [(Some 400, ErrorModel_type), (Some 401, ErrorModel_type), (Some 403, ErrorModel_type),
     (Some 404, ErrorModel_type), (Some 409, ErrorModel_type), (Some 422, ErrorModel_type),
     (Some 500, ErrorModel_type)]"

definition CreateMunkiClientResourcesResponses :: declared_responses where
  "CreateMunkiClientResourcesResponses = [(201, MunkiClientResources_type)]"

definition CreateMunkiClientResourcesArchiveUploadData :: op_data where
  "CreateMunkiClientResourcesArchiveUploadData =
     \<lparr>od_body = Some MunkiUploadRequest_type, od_path = [],
      od_query = [], od_url = ''/api/munki/client-resources/archive-uploads''\<rparr>"

definition CreateMunkiClientResourcesArchiveUploadErrors :: declared_errors where
  "CreateMunkiClientResourcesArchiveUploadErrors = [(Some 400, ErrorModel_type), (Some 401, ErrorModel_type), (Some 403, ErrorModel_type),
     (Some 422, ErrorModel_type), (Some 500, ErrorModel_type)]"

definition CreateMunkiClientResourcesArchiveUploadResponses :: declared_responses where
  "CreateMunkiClientResourcesArchiveUploadResponses = [(201, MunkiUploadTarget_type)]"

definition DeleteMunkiClientResourcesArchiveUploadData :: op_data where
  "DeleteMunkiClientResourcesArchiveUploadData =
     \<lparr>od_body = None, od_path = [(''id'', Required, TNumber)],
      od_query = [], od_url = ''/api/munki/client-resources/archive-uploads/{id}''\<rparr>"

definition DeleteMunkiClientResourcesArchiveUploadErrors :: declared_errors where
  "DeleteMunkiClientResourcesArchiveUploadErrors = [(Some 400, ErrorModel_type), (Some 401, ErrorModel_type), (Some 403, ErrorModel_type),
     (Some 404, ErrorModel_type), (Some 409, ErrorModel_type), (Some 422, ErrorModel_type),
     (Some 500, ErrorModel_type)]"

definition DeleteMunkiClientResourcesArchiveUploadResponses :: declared_responses where
  "DeleteMunkiClientResourcesArchiveUploadResponses = [(204, TVoid)]"

definition CreateMunkiClientResourcesBannerUploadData :: op_data where
  "CreateMunkiClientResourcesBannerUploadData =
     \<lparr>od_body = Some MunkiUploadRequest_type, od_path = [],
      od_query = [], od_url = ''/api/munki/client-resources/banner-uploads''\<rparr>"

definition CreateMunkiClientResourcesBannerUploadErrors :: declared_errors where
  "CreateMunkiClientResourcesBannerUploadErrors = [(Some 400, ErrorModel_type), (Some 401, ErrorModel_type), (Some 403, ErrorModel_type),
     (Some 422, ErrorModel_type), (Some 500, ErrorModel_type)]"

definition CreateMunkiClientResourcesBannerUploadResponses :: declared_responses where
  "CreateMunkiClientResourcesBannerUploadResponses = [(201, MunkiUploadTarget_type)]"

definition DeleteMunkiClientResourcesBannerUploadData :: op_data where
  "DeleteMunkiClientResourcesBannerUploadData =
     \<lparr>od_body = None, od_path = [(''id'', Required, TNumber)],
      od_query = [], od_url = ''/api/munki/client-resources/banner-uploads/{id}''\<rparr>"

definition DeleteMunkiClientResourcesBannerUploadErrors :: declared_errors where
  "DeleteMunkiClientResourcesBannerUploadErrors = [(Some 400, ErrorModel_type), (Some 401, ErrorModel_type), (Some 403, ErrorModel_type),
     (Some 404, ErrorModel_type), (Some 409, ErrorModel_type), (Some 422, ErrorModel_type),
     (Some 500, ErrorModel_type)]"

definition DeleteMunkiClientResourcesBannerUploadResponses :: declared_responses where
  "DeleteMunkiClientResourcesBannerUploadResponses = [(204, TVoid)]"

definition DeleteMunkiClientResourcesData :: op_data where
  "DeleteMunkiClientResourcesData =
     \<lparr>od_body = None, od_path = [(''id'', Required, TNumber)],
      od_query = [], od_url = ''/api/munki/client-resources/{id}''\<rparr>"

definition DeleteMunkiClientResourcesErrors :: declared_errors where
  "DeleteMunkiClientResourcesErrors = [(Some 401, ErrorModel_type), (Some 403, ErrorModel_type), (Some 404, ErrorModel_type),
     (Some 422, ErrorModel_type), (Some 500, ErrorModel_type)]"

definition DeleteMunkiClientResourcesResponses :: declared_responses where
  "DeleteMunkiClientResourcesResponses = [(204, TVoid)]"

definition GetMunkiClientResourcesData :: op_data where
  "GetMunkiClientResourcesData =
     \<lparr>od_body = None, od_path = [(''id'', Required, TNumber)],
      od_query = [], od_url = ''/api/munki/client-resources/{id}''\<rparr>"

definition GetMunkiClientResourcesErrors :: declared_errors where
  "GetMunkiClientResourcesErrors = [(Some 401, ErrorModel_type), (Some 403, ErrorModel_type), (Some 404, ErrorModel_type),
     (Some 422, ErrorModel_type), (Some 500, ErrorModel_type)]"

definition GetMunkiClientResourcesResponses :: declared_responses where
  "GetMunkiClientResourcesResponses = [(200, MunkiClientResources_type)]"

definition UpdateMunkiClientResourcesData :: op_data where
  "UpdateMunkiClientResourcesData =
     \<lparr>od_body = Some MunkiClientResourcesMutation_type, od_path = [(''id'', Required, TNumber)],
      od_query = [], od_url = ''/api/munki/client-resources/{id}''\<rparr>"

definition UpdateMunkiClientResourcesErrors :: declared_errors where
  "UpdateMunkiClientResourcesErrors = [(Some 400, ErrorModel_type), (Some 401, ErrorModel_type), (Some 403, ErrorModel_type),
     (Some 404, ErrorModel_type), (Some 409, ErrorModel_type), (Some 422, ErrorModel_type),
     (Some 500, ErrorModel_type)]"

definition UpdateMunkiClientResourcesResponses :: declared_responses where
  "UpdateMunkiClientResourcesResponses = [(200, MunkiClientResources_type)]"

definition ListMunkiDistributionPointsData :: op_data where
  "ListMunkiDistributionPointsData =
     \<lparr>od_body = None, od_path = [],
      od_query = [(''q'', Optional, TString), (''page'', Optional, TNumber), (''per_page'', Optional, TNumber),
        (''sort'', Optional, TString)], od_url = ''/api/munki/distribution-points''\<rparr>"

definition ListMunkiDistributionPointsErrors :: declared_errors where
  "ListMunkiDistributionPointsErrors = [(Some 401, ErrorModel_type), (Some 403, ErrorModel_type), (None, ErrorModel_type)]"

definition ListMunkiDistributionPointsResponses :: declared_responses where
  "ListMunkiDistributionPointsResponses = [(200, PageDistributionPoint_type)]"

definition CreateMunkiDistributionPointData :: op_data where
  "CreateMunkiDistributionPointData =
     \<lparr>od_body = Some MunkiDistributionPointMutation_type, od_path = [],
      od_query = [], od_url = ''/api/munki/distribution-points''\<rparr>"

definition CreateMunkiDistributionPointErrors :: declared_errors where
  "CreateMunkiDistributionPointErrors = [(Some 400, ErrorModel_type), (Some 401, ErrorModel_type), (Some 403, ErrorModel_type),
     (Some 409, ErrorModel_type), (Some 422, ErrorModel_type), (Some 500, ErrorModel_type)]"

definition CreateMunkiDistributionPointResponses :: declared_responses where
  "CreateMunkiDistributionPointResponses = [(201, MunkiRevealedDistributionPoint_type)]"

definition ReorderMunkiDistributionPointsData :: op_data where
  "ReorderMunkiDistributionPointsData =
     \<lparr>od_body = Some MunkiDistributionPointReorderBody_type, od_path = [],
      od_query = [], od_url = ''/api/munki/distribution-points/order''\<rparr>"

definition ReorderMunkiDistributionPointsErrors :: declared_errors where
  "ReorderMunkiDistributionPointsErrors = [(Some 400, ErrorModel_type), (Some 401, ErrorModel_type), (Some 403, ErrorModel_type),
     (Some 422, ErrorModel_type), (Some 500, ErrorModel_type)]"

definition ReorderMunkiDistributionPointsResponses :: declared_responses where
  "ReorderMunkiDistributionPointsResponses = [(204, TVoid)]"

definition DeleteMunkiDistributionPointData :: op_data where
  "DeleteMunkiDistributionPointData =
     \<lparr>od_body = None, od_path = [(''id'', Required, TNumber)],
      od_query = [], od_url = ''/api/munki/distribution-points/{id}''\<rparr>"

definition DeleteMunkiDistributionPointErrors :: declared_errors where
  "DeleteMunkiDistributionPointErrors = [(Some 401, ErrorModel_type), (Some 403, ErrorModel_type), (Some 404, ErrorModel_type),
     (Some 422, ErrorModel_type), (Some 500, ErrorModel_type)]"

definition DeleteMunkiDistributionPointResponses :: declared_responses where
  "DeleteMunkiDistributionPointResponses = [(204, TVoid)]"

definition GetMunkiDistributionPointData :: op_data where
  "GetMunkiDistributionPointData =
     \<lparr>od_body = None, od_path = [(''id'', Required, TNumber)],
      od_query = [], od_url = ''/api/munki/distribution-points/{id}''\<rparr>"

definition GetMunkiDistributionPointErrors :: declared_errors where
  "GetMunkiDistributionPointErrors = [(Some 401, ErrorModel_type), (Some 403, ErrorModel_type), (Some 404, ErrorModel_type),
     (Some 422, ErrorModel_type), (Some 500, ErrorModel_type)]"

definition GetMunkiDistributionPointResponses :: declared_responses where
  "GetMunkiDistributionPointResponses = [(200, MunkiDistributionPointDetail_type)]"

definition UpdateMunkiDistributionPointData :: op_data where
  "UpdateMunkiDistributionPointData =
     \<lparr>od_body = Some MunkiDistributionPointMutation_type, od_path = [(''id'', Required, TNumber)],
      od_query = [], od_url = ''/api/munki/distribution-points/{id}''\<rparr>"

definition UpdateMunkiDistributionPointErrors :: declared_errors where
  "UpdateMunkiDistributionPointErrors = [(Some 400, ErrorModel_type), (Some 401, ErrorModel_type), (Some 403, ErrorModel_type),
     (Some 404, ErrorModel_type), (Some 409, ErrorModel_type), (Some 422, ErrorModel_type),
     (Some 500, ErrorModel_type)]"

definition UpdateMunkiDistributionPointResponses :: declared_responses where
  "UpdateMunkiDistributionPointResponses = [(200, MunkiDistributionPointDetail_type)]"

definition RotateMunkiDistributionPointKeyData :: op_data where
  "RotateMunkiDistributionPointKeyData =
     \<lparr>od_body = None, od_path = [(''id'', Required, TNumber)],
      od_query = [], od_url = ''/api/munki/distribution-points/{id}/key''\<rparr>"

definition RotateMunkiDistributionPointKeyErrors :: declared_errors where
  "RotateMunkiDistributionPointKeyErrors = [(Some 401, ErrorModel_type), (Some 403, ErrorModel_type), (Some 404, ErrorModel_type),
     (Some 422, ErrorModel_type), (Some 500, ErrorModel_type)]"

definition RotateMunkiDistributionPointKeyResponses :: declared_responses where
  "RotateMunkiDistributionPointKeyResponses = [(200, MunkiDistributionPointKeyBody_type)]"

definition ListMunkiIconsData :: op_data where
  "ListMunkiIconsData =
     \<lparr>od_body = None, od_path = [],
      od_query = [(''q'', Optional, TString), (''page'', Optional, TNumber), (''per_page'', Optional, TNumber),
        (''sort'', Optional, TString)], od_url = ''/api/munki/icons''\<rparr>"

definition ListMunkiIconsErrors :: declared_errors where
  "ListMunkiIconsErrors = [(Some 401, ErrorModel_type), (Some 403, ErrorModel_type), (None, ErrorModel_type)]"

definition ListMunkiIconsResponses :: declared_responses where
  "ListMunkiIconsResponses = [(200, PageMunkiObjectView_type)]"

definition CreateMunkiIconUploadData :: op_data where
  "CreateMunkiIconUploadData =
     \<lparr>od_body = Some MunkiUploadRequest_type, od_path = [],
      od_query = [], od_url = ''/api/munki/icons''\<rparr>"

definition CreateMunkiIconUploadErrors :: declared_errors where
  "CreateMunkiIconUploadErrors = [(Some 400, ErrorModel_type), (Some 401, ErrorModel_type), (Some 403, ErrorModel_type),
     (Some 422, ErrorModel_type), (Some 500, ErrorModel_type)]"

definition CreateMunkiIconUploadResponses :: declared_responses where
  "CreateMunkiIconUploadResponses = [(201, MunkiUploadTarget_type)]"

definition CreateMunkiPackageInstallerUploadData :: op_data where
  "CreateMunkiPackageInstallerUploadData =
     \<lparr>od_body = Some MunkiUploadRequest_type, od_path = [],
      od_query = [], od_url = ''/api/munki/package-installers''\<rparr>"

definition CreateMunkiPackageInstallerUploadErrors :: declared_errors where
  "CreateMunkiPackageInstallerUploadErrors = [(Some 400, ErrorModel_type), (Some 401, ErrorModel_type), (Some 403, ErrorModel_type),
     (Some 422, ErrorModel_type), (Some 500, ErrorModel_type)]"

definition CreateMunkiPackageInstallerUploadResponses :: declared_responses where
  "CreateMunkiPackageInstallerUploadResponses = [(201, MunkiUploadTarget_type)]"

definition DeleteMunkiPackageInstallerUploadData :: op_data where
  "DeleteMunkiPackageInstallerUploadData =
     \<lparr>od_body = None, od_path = [(''id'', Required, TNumber)],
      od_query = [], od_url = ''/api/munki/package-installers/{id}''\<rparr>"

definition DeleteMunkiPackageInstallerUploadErrors :: declared_errors where
  "DeleteMunkiPackageInstallerUploadErrors = [(Some 400, ErrorModel_type), (Some 401, ErrorModel_type), (Some 403, ErrorModel_type),
     (Some 404, ErrorModel_type), (Some 409, ErrorModel_type), (Some 422, ErrorModel_type),
     (Some 500, ErrorModel_type)]"

definition DeleteMunkiPackageInstallerUploadResponses :: declared_responses where
  "DeleteMunkiPackageInstallerUploadResponses = [(204, TVoid)]"

definition CompleteMunkiPackageInstallerUploadData :: op_data where
  "CompleteMunkiPackageInstallerUploadData =
     \<lparr>od_body = None, od_path = [(''id'', Required, TNumber)],
      od_query = [], od_url = ''/api/munki/package-installers/{id}''\<rparr>"

definition CompleteMunkiPackageInstallerUploadErrors :: declared_errors where
  "CompleteMunkiPackageInstallerUploadErrors = [(Some 400, ErrorModel_type), (Some 401, ErrorModel_type), (Some 403, ErrorModel_type),
     (Some 404, ErrorModel_type), (Some 422, ErrorModel_type), (Some 500, ErrorModel_type)]"

definition CompleteMunkiPackageInstallerUploadResponses :: declared_responses where
  "CompleteMunkiPackageInstallerUploadResponses = [(200, MunkiObjectView_type)]"

definition SignMunkiPackageInstallerPartData :: op_data where
  "SignMunkiPackageInstallerPartData =
     \<lparr>od_body = Some MunkiMultipartPartRequest_type, od_path = [(''id'', Required, TNumber), (''part_number'', Required, TNumber)],
      od_query = [], od_url = ''/api/munki/package-installers/{id}/multipart/parts/{part_number}''\<rparr>"

definition SignMunkiPackageInstallerPartErrors :: declared_errors where
  "SignMunkiPackageInstallerPartErrors = [(Some 400, ErrorModel_type), (Some 401, ErrorModel_type), (Some 403, ErrorModel_type),
     (Some 404, ErrorModel_type), (Some 422, ErrorModel_type), (Some 500, ErrorModel_type)]"

definition SignMunkiPackageInstallerPartResponses :: declared_responses where
  "SignMunkiPackageInstallerPartResponses = [(200, UploadTarget_type)]"

definition BulkDeleteMunkiPackagesData :: op_data where
  "BulkDeleteMunkiPackagesData =
     \<lparr>od_body = None, od_path = [],
      od_query = [(''ids'', Required, TArray TNumber)], od_url = ''/api/munki/packages''\<rparr>"

definition BulkDeleteMunkiPackagesErrors :: declared_errors where
  "BulkDeleteMunkiPackagesErrors = [(Some 400, ErrorModel_type), (Some 401, ErrorModel_type), (Some 403, ErrorModel_type),
     (Some 409, ErrorModel_type), (Some 422, ErrorModel_type), (Some 500, ErrorModel_type)]"

definition BulkDeleteMunkiPackagesResponses :: declared_responses where
  "BulkDeleteMunkiPackagesResponses = [(204, TVoid)]"

definition ListMunkiPackagesData :: op_data where
  "ListMunkiPackagesData =
     \<lparr>od_body = None, od_path = [],
      od_query = [(''q'', Optional, TString), (''page'', Optional, TNumber), (''per_page'', Optional, TNumber),
        (''sort'', Optional, TString), (''type'', Optional, TArray (one_of [''pkg'', ''nopkg'',
        ''copy_from_dmg''])), (''software_id'', Optional, TNumber)], od_url = ''/api/munki/packages''\<rparr>"

definition ListMunkiPackagesErrors :: declared_errors where
  "ListMunkiPackagesErrors = [(Some 401, ErrorModel_type), (Some 403, ErrorModel_type), (None, ErrorModel_type)]"

definition ListMunkiPackagesResponses :: declared_responses where
  "ListMunkiPackagesResponses = [(200, PagePackage_type)]"

definition CreateMunkiPackageData :: op_data where
  "CreateMunkiPackageData =
     \<lparr>od_body = Some MunkiPackageCreateMutation_type, od_path = [],
      od_query = [], od_url = ''/api/munki/packages''\<rparr>"

definition CreateMunkiPackageErrors :: declared_errors where
  "CreateMunkiPackageErrors = [(Some 400, ErrorModel_type), (Some 401, ErrorModel_type), (Some 403, ErrorModel_type),
     (Some 404, ErrorModel_type), (Some 409, ErrorModel_type), (Some 422, ErrorModel_type),
     (Some 500, ErrorModel_type)]"

definition CreateMunkiPackageResponses :: declared_responses where
  "CreateMunkiPackageResponses = [(201, MunkiPackage_type)]"

definition GetMunkiPackageData :: op_data where
  "GetMunkiPackageData =
     \<lparr>od_body = None, od_path = [(''id'', Required, TNumber)],
      od_query = [], od_url = ''/api/munki/packages/{id}''\<rparr>"

definition GetMunkiPackageErrors :: declared_errors where
  "GetMunkiPackageErrors = [(Some 401, ErrorModel_type), (Some 403, ErrorModel_type), (Some 404, ErrorModel_type),
     (Some 422, ErrorModel_type), (Some 500, ErrorModel_type)]"

definition GetMunkiPackageResponses :: declared_responses where
  "GetMunkiPackageResponses = [(200, MunkiPackage_type)]"

definition PatchMunkiPackageData :: op_data where
  "PatchMunkiPackageData =
     \<lparr>od_body = Some (TObject [(''apple_item'', Optional, TBoolean), (''autoremove'', Optional, TBoolean),
      (''blocking_applications'', Optional, TArray TString),
      (''blocking_applications_manual_quit_only'', Optional, TBoolean),
      (''blocking_applications_none'', Optional, TBoolean),
      (''blocking_applications_quit_script'', Optional, TUnion [TString, TNull]),
      (''blocking_applications_with_launch_args'', Optional, TArray (TObject [(''application'', Required, TString),
      (''arguments'', Required, TArray TString)])),
      (''custom_action_labels'', Optional, TObject [(''install'', Optional, TUnion [TString, TNull]),
      (''installed'', Optional, TUnion [TString, TNull]), (''installing'', Optional, TUnion [TString, TNull]),
      (''remove'', Optional, TUnion [TString, TNull]), (''removing'', Optional, TUnion [TString, TNull]),
      (''update'', Optional, TUnion [TString, TNull])]),
      (''download_on_low_data'', Optional, one_of [''auto'', ''always'', ''never'']),
      (''force_install_after_date'', Optional, TUnion [TString, TNull]),
      (''installable_condition'', Optional, TUnion [TString, TNull]),
      (''installcheck_script'', Optional, TUnion [TString, TNull]), (''installed_size'', Optional, TNumber),
      (''installer_choices_xml'', Optional, TArray (TObject [(''attribute_setting'', Required, TNumber),
      (''choice_attribute'', Optional, TUnion [TString, TNull]),
      (''choice_identifier'', Optional, TString)])),
      (''installer_environment'', Optional, TArray (TObject [(''name'', Required, TString),
      (''value'', Required, TUnion [TString, TNull])])),
      (''installer_object_id'', Optional, TUnion [TNumber, TNull]),
      (''installer_type'', Optional, one_of [''pkg'', ''nopkg'', ''copy_from_dmg'']),
      (''installs'', Optional, TArray (TObject [(''bundle_identifier'', Optional, TUnion [TString, TNull]),
      (''bundle_name'', Optional, TUnion [TString, TNull]),
      (''bundle_short_version'', Optional, TUnion [TString, TNull]),
      (''bundle_version'', Optional, TUnion [TString, TNull]),
      (''installer_item_location'', Optional, TUnion [TString, TNull]),
      (''md5checksum'', Optional, TUnion [TString, TNull]),
      (''minimum_os_version'', Optional, TUnion [TString, TNull]),
      (''minimum_update_version'', Optional, TUnion [TString, TNull]), (''path'', Required, TString),
      (''type'', Required, one_of [''application'', ''bundle'', ''plist'', ''file'']),
      (''version_comparison_key'', Optional, TUnion [TString, TNull])])),
      (''items_to_copy'', Optional, TArray (TObject [(''destination_item'', Optional, TUnion [TString, TNull]),
      (''destination_path'', Required, TString), (''group'', Optional, TUnion [TString, TNull]),
      (''mode'', Optional, TUnion [TString, TNull]), (''source_item'', Required, TString),
      (''user'', Optional, TUnion [TString, TNull])])),
      (''maximum_os_version'', Optional, TUnion [TString, TNull]),
      (''minimum_munki_version'', Optional, TUnion [TString, TNull]),
      (''minimum_os_version'', Optional, TUnion [TString, TNull]),
      (''notes'', Optional, TUnion [TString, TNull]), (''on_demand'', Optional, TBoolean),
      (''package_path'', Optional, TUnion [TString, TNull]),
      (''postinstall_script'', Optional, TUnion [TString, TNull]),
      (''postuninstall_script'', Optional, TUnion [TString, TNull]), (''precache'', Optional, TBoolean),
      (''preinstall_alert'', Optional, TObject [(''cancel_label'', Optional, TUnion [TString, TNull]),
      (''detail'', Optional, TUnion [TString, TNull]), (''enabled'', Optional, TBoolean),
      (''ok_label'', Optional, TUnion [TString, TNull]), (''title'', Optional, TUnion [TString, TNull])]),
      (''preinstall_script'', Optional, TUnion [TString, TNull]),
      (''preuninstall_alert'', Optional, TObject [(''cancel_label'', Optional, TUnion [TString, TNull]),
      (''detail'', Optional, TUnion [TString, TNull]), (''enabled'', Optional, TBoolean),
      (''ok_label'', Optional, TUnion [TString, TNull]), (''title'', Optional, TUnion [TString, TNull])]),
      (''preuninstall_script'', Optional, TUnion [TString, TNull]),
      (''receipts'', Optional, TArray (TObject [(''installed_size'', Optional, TNumber),
      (''name'', Optional, TUnion [TString, TNull]), (''optional'', Optional, TBoolean),
      (''package_id'', Required, TString), (''version'', Optional, TUnion [TString, TNull])])),
      (''requires'', Optional, TArray (TObject [(''package_id'', Optional, TNumber),
      (''software_id'', Required, TNumber)])),
      (''restart_action'', Optional, TUnion [TLiteral ''RequireLogout'', TLiteral ''RecommendRestart'', TLiteral ''RequireRestart'', TLiteral ''RequireShutdown'', TNull]),
      (''restart_action_for_uninstall'', Optional, TUnion [TLiteral ''None'', TLiteral ''RequireLogout'', TLiteral ''RecommendRestart'', TLiteral ''RequireRestart'', TLiteral ''RequireShutdown'', TNull]),
      (''supported_architectures'', Optional, TArray TString), (''unattended_install'', Optional, TBoolean),
      (''unattended_uninstall'', Optional, TBoolean),
      (''uninstall_method'', Optional, TUnion [TLiteral ''removepackages'', TLiteral ''remove_copied_items'', TLiteral ''uninstall_script'', TNull]),
      (''uninstall_script'', Optional, TUnion [TString, TNull]), (''uninstallable'', Optional, TBoolean),
      (''uninstallcheck_script'', Optional, TUnion [TString, TNull]),
      (''update_for'', Optional, TArray (TObject [(''package_id'', Optional, TNumber),
      (''software_id'', Required, TNumber)])), (''version'', Optional, TString),
      (''version_script'', Optional, TUnion [TString, TNull])]), od_path = [(''id'', Required, TNumber)],
      od_query = [], od_url = ''/api/munki/packages/{id}''\<rparr>"

definition PatchMunkiPackageErrors :: declared_errors where
  "PatchMunkiPackageErrors = [(Some 400, ErrorModel_type), (Some 401, ErrorModel_type), (Some 403, ErrorModel_type),
     (Some 404, ErrorModel_type), (Some 409, ErrorModel_type), (Some 422, ErrorModel_type),
     (Some 500, ErrorModel_type)]"

definition PatchMunkiPackageResponses :: declared_responses where
  "PatchMunkiPackageResponses = [(200, MunkiPackage_type)]"

definition UpdateMunkiPackageData :: op_data where
  "UpdateMunkiPackageData =
     \<lparr>od_body = Some MunkiPackageMutation_type, od_path = [(''id'', Required, TNumber)],
      od_query = [], od_url = ''/api/munki/packages/{id}''\<rparr>"

definition UpdateMunkiPackageErrors :: declared_errors where
  "UpdateMunkiPackageErrors = [(Some 400, ErrorModel_type), (Some 401, ErrorModel_type), (Some 403, ErrorModel_type),
     (Some 404, ErrorModel_type), (Some 409, ErrorModel_type), (Some 422, ErrorModel_type),
     (Some 500, ErrorModel_type)]"

definition UpdateMunkiPackageResponses :: declared_responses where
  "UpdateMunkiPackageResponses = [(200, MunkiPackage_type)]"

definition BulkDeleteMunkiSoftwareData :: op_data where
  "BulkDeleteMunkiSoftwareData =
     \<lparr>od_body = None, od_path = [],
      od_query = [(''ids'', Required, TArray TNumber)], od_url = ''/api/munki/software''\<rparr>"

definition BulkDeleteMunkiSoftwareErrors :: declared_errors where
  "BulkDeleteMunkiSoftwareErrors = [(Some 400, ErrorModel_type), (Some 401, ErrorModel_type), (Some 403, ErrorModel_type),
     (Some 422, ErrorModel_type), (Some 500, ErrorModel_type)]"

definition BulkDeleteMunkiSoftwareResponses :: declared_responses where
  "BulkDeleteMunkiSoftwareResponses = [(204, TVoid)]"

definition ListMunkiSoftwareData :: op_data where
  "ListMunkiSoftwareData =
     \<lparr>od_body = None, od_path = [],
      od_query = [(''q'', Optional, TString), (''page'', Optional, TNumber), (''per_page'', Optional, TNumber),
        (''sort'', Optional, TString)], od_url = ''/api/munki/software''\<rparr>"

definition ListMunkiSoftwareErrors :: declared_errors where
  "ListMunkiSoftwareErrors = [(Some 401, ErrorModel_type), (Some 403, ErrorModel_type), (None, ErrorModel_type)]"

definition ListMunkiSoftwareResponses :: declared_responses where
  "ListMunkiSoftwareResponses = [(200, PageSoftware_type)]"

definition CreateMunkiSoftwareData :: op_data where
  "CreateMunkiSoftwareData =
     \<lparr>od_body = Some MunkiCreateMutation_type, od_path = [],
      od_query = [], od_url = ''/api/munki/software''\<rparr>"

definition CreateMunkiSoftwareErrors :: declared_errors where
  "CreateMunkiSoftwareErrors = [(Some 400, ErrorModel_type), (Some 401, ErrorModel_type), (Some 403, ErrorModel_type),
     (Some 404, ErrorModel_type), (Some 409, ErrorModel_type), (Some 422, ErrorModel_type),
     (Some 500, ErrorModel_type)]"

definition CreateMunkiSoftwareResponses :: declared_responses where
  "CreateMunkiSoftwareResponses = [(201, MunkiSoftwareDetail_type)]"

definition DeleteMunkiSoftwareData :: op_data where
  "DeleteMunkiSoftwareData =
     \<lparr>od_body = None, od_path = [(''id'', Required, TNumber)],
      od_query = [], od_url = ''/api/munki/software/{id}''\<rparr>"

definition DeleteMunkiSoftwareErrors :: declared_errors where
  "DeleteMunkiSoftwareErrors = [(Some 401, ErrorModel_type), (Some 403, ErrorModel_type), (Some 404, ErrorModel_type),
     (Some 422, ErrorModel_type), (Some 500, ErrorModel_type)]"

definition DeleteMunkiSoftwareResponses :: declared_responses where
  "DeleteMunkiSoftwareResponses = [(204, TVoid)]"

definition GetMunkiSoftwareData :: op_data where
  "GetMunkiSoftwareData =
     \<lparr>od_body = None, od_path = [(''id'', Required, TNumber)],
      od_query = [], od_url = ''/api/munki/software/{id}''\<rparr>"

definition GetMunkiSoftwareErrors :: declared_errors where
  "GetMunkiSoftwareErrors = [(Some 401, ErrorModel_type), (Some 403, ErrorModel_type), (Some 404, ErrorModel_type),
     (Some 422, ErrorModel_type), (Some 500, ErrorModel_type)]"

definition GetMunkiSoftwareResponses :: declared_responses where
  "GetMunkiSoftwareResponses = [(200, MunkiSoftwareDetail_type)]"

definition PatchMunkiSoftwareData :: op_data where
  "PatchMunkiSoftwareData =
     \<lparr>od_body = Some (TObject [(''category'', Optional, TUnion [TString, TNull]),
      (''description'', Optional, TUnion [TString, TNull]),
      (''developer'', Optional, TUnion [TString, TNull]),
      (''display_name'', Optional, TUnion [TString, TNull]),
      (''icon_object_id'', Optional, TUnion [TNumber, TNull]),
      (''targets'', Optional, TObject [(''exclude'', Optional, TArray (TObject [(''label_id'', Required, TNumber)])),
      (''include'', Optional, TArray (TObject [(''actions'', Required, TArray (one_of [''managed_installs'',
      ''managed_uninstalls'', ''managed_updates'', ''optional_installs'', ''optional_uninstalls'',
      ''featured_items'', ''default_installs''])), (''label_id'', Required, TNumber),
      (''package'', Required, TObject [(''package_id'', Optional, TUnion [TNumber, TNull]),
      (''strategy'', Required, one_of [''latest'', ''specific''])])]))])]), od_path = [(''id'', Required, TNumber)],
      od_query = [], od_url = ''/api/munki/software/{id}''\<rparr>"

definition PatchMunkiSoftwareErrors :: declared_errors where
  "PatchMunkiSoftwareErrors = [(Some 400, ErrorModel_type), (Some 401, ErrorModel_type), (Some 403, ErrorModel_type),
     (Some 404, ErrorModel_type), (Some 409, ErrorModel_type), (Some 422, ErrorModel_type),
     (Some 500, ErrorModel_type)]"

definition PatchMunkiSoftwareResponses :: declared_responses where
  "PatchMunkiSoftwareResponses = [(200, MunkiSoftwareDetail_type)]"

definition UpdateMunkiSoftwareData :: op_data where
  "UpdateMunkiSoftwareData =
     \<lparr>od_body = Some MunkiUpdateMutation_type, od_path = [(''id'', Required, TNumber)],
      od_query = [], od_url = ''/api/munki/software/{id}''\<rparr>"

definition UpdateMunkiSoftwareErrors :: declared_errors where
  "UpdateMunkiSoftwareErrors = [(Some 400, ErrorModel_type), (Some 401, ErrorModel_type), (Some 403, ErrorModel_type),
     (Some 404, ErrorModel_type), (Some 409, ErrorModel_type), (Some 422, ErrorModel_type),
     (Some 500, ErrorModel_type)]"

definition UpdateMunkiSoftwareResponses :: declared_responses where
  "UpdateMunkiSoftwareResponses = [(200, MunkiSoftwareDetail_type)]"

definition SetMunkiSoftwareIconData :: op_data where
  "SetMunkiSoftwareIconData =
     \<lparr>od_body = Some MunkiObjectMutation_type, od_path = [(''id'', Required, TNumber)],
      od_query = [], od_url = ''/api/munki/software/{id}/icon''\<rparr>"

definition SetMunkiSoftwareIconErrors :: declared_errors where
  "SetMunkiSoftwareIconErrors = [(Some 400, ErrorModel_type), (Some 401, ErrorModel_type), (Some 403, ErrorModel_type),
     (Some 404, ErrorModel_type), (Some 422, ErrorModel_type), (Some 500, ErrorModel_type)]"

definition SetMunkiSoftwareIconResponses :: declared_responses where
  "SetMunkiSoftwareIconResponses = [(200, MunkiObjectView_type)]"

definition ListOsqueryHostStatusHistoryData :: op_data where
  "ListOsqueryHostStatusHistoryData =
     \<lparr>od_body = None, od_path = [],
      od_query = [(''since'', Optional, TString)], od_url = ''/api/osquery/host-status-history''\<rparr>"

definition ListOsqueryHostStatusHistoryErrors :: declared_errors where
  "ListOsqueryHostStatusHistoryErrors = [(Some 401, ErrorModel_type), (Some 403, ErrorModel_type), (None, ErrorModel_type)]"

definition ListOsqueryHostStatusHistoryResponses :: declared_responses where
  "ListOsqueryHostStatusHistoryResponses = [(200, TArray OsqueryHostStatusPoint_type)]"

definition CreateLiveQueryData :: op_data where
  "CreateLiveQueryData =
     \<lparr>od_body = Some OsqueryLiveQueryCreateBody_type, od_path = [],
      od_query = [], od_url = ''/api/osquery/live-queries''\<rparr>"

definition CreateLiveQueryErrors :: declared_errors where
  "CreateLiveQueryErrors = [(Some 400, ErrorModel_type), (Some 401, ErrorModel_type), (Some 403, ErrorModel_type),
     (Some 422, ErrorModel_type), (Some 500, ErrorModel_type)]"

definition CreateLiveQueryResponses :: declared_responses where
  "CreateLiveQueryResponses = [(201, OsqueryHandle_type)]"

definition CountLiveQueryTargetsData :: op_data where
  "CountLiveQueryTargetsData =
     \<lparr>od_body = Some OsqueryLiveQueryTargetCountBody_type, od_path = [],
      od_query = [], od_url = ''/api/osquery/live-queries/target-count''\<rparr>"

definition CountLiveQueryTargetsErrors :: declared_errors where
  "CountLiveQueryTargetsErrors = [(Some 400, ErrorModel_type), (Some 401, ErrorModel_type), (Some 403, ErrorModel_type),
     (Some 422, ErrorModel_type), (Some 500, ErrorModel_type)]"

definition CountLiveQueryTargetsResponses :: declared_responses where
  "CountLiveQueryTargetsResponses = [(200, OsqueryLiveQueryTargetCountOutputBody_type)]"

definition DeleteLiveQueryData :: op_data where
  "DeleteLiveQueryData =
     \<lparr>od_body = None, od_path = [(''id'', Required, TNumber)],
      od_query = [], od_url = ''/api/osquery/live-queries/{id}''\<rparr>"

definition DeleteLiveQueryErrors :: declared_errors where
  "DeleteLiveQueryErrors = [(Some 401, ErrorModel_type), (Some 403, ErrorModel_type), (Some 404, ErrorModel_type),
     (Some 422, ErrorModel_type), (Some 500, ErrorModel_type)]"

definition DeleteLiveQueryResponses :: declared_responses where
  "DeleteLiveQueryResponses = [(204, TVoid)]"

definition StreamLiveQueryData :: op_data where
  "StreamLiveQueryData =
     \<lparr>od_body = None, od_path = [(''id'', Required, TNumber)],
      od_query = [], od_url = ''/api/osquery/live-queries/{id}/stream''\<rparr>"

definition StreamLiveQueryErrors :: declared_errors where
  "StreamLiveQueryErrors = [(Some 401, ErrorModel_type), (Some 403, ErrorModel_type), (Some 404, ErrorModel_type),
     (Some 422, ErrorModel_type), (Some 500, ErrorModel_type)]"

definition StreamLiveQueryResponses :: declared_responses where
  "StreamLiveQueryResponses = [(200, TUnion [OsqueryLiveQueryPingEvent_type, OsqueryLiveQuerySnapshotEvent_type, OsqueryLiveQueryCompletedEvent_type])]"

definition BulkDeleteOsqueryPoliciesData :: op_data where
  "BulkDeleteOsqueryPoliciesData =
     \<lparr>od_body = None, od_path = [],
      od_query = [(''ids'', Required, TArray TNumber)], od_url = ''/api/osquery/policies''\<rparr>"

definition BulkDeleteOsqueryPoliciesErrors :: declared_errors where
  "BulkDeleteOsqueryPoliciesErrors = [(Some 400, ErrorModel_type), (Some 401, ErrorModel_type), (Some 403, ErrorModel_type),
     (Some 422, ErrorModel_type), (Some 500, ErrorModel_type)]"

definition BulkDeleteOsqueryPoliciesResponses :: declared_responses where
  "BulkDeleteOsqueryPoliciesResponses = [(204, TVoid)]"

definition ListOsqueryPoliciesData :: op_data where
  "ListOsqueryPoliciesData =
     \<lparr>od_body = None, od_path = [],
      od_query = [(''q'', Optional, TString), (''page'', Optional, TNumber), (''per_page'', Optional, TNumber),
        (''sort'', Optional, TString)], od_url = ''/api/osquery/policies''\<rparr>"

definition ListOsqueryPoliciesErrors :: declared_errors where
  "ListOsqueryPoliciesErrors = [(Some 401, ErrorModel_type), (Some 403, ErrorModel_type), (None, ErrorModel_type)]"

definition ListOsqueryPoliciesResponses :: declared_responses where
  "ListOsqueryPoliciesResponses = [(200, PagePolicy_type)]"

definition CreateOsqueryPolicyData :: op_data where
  "CreateOsqueryPolicyData =
     \<lparr>od_body = Some OsqueryPolicyMutation_type, od_path = [],
      od_query = [], od_url = ''/api/osquery/policies''\<rparr>"

definition CreateOsqueryPolicyErrors :: declared_errors where
  "CreateOsqueryPolicyErrors = [(Some 400, ErrorModel_type), (Some 401, ErrorModel_type), (Some 403, ErrorModel_type),
     (Some 404, ErrorModel_type), (Some 409, ErrorModel_type), (Some 422, ErrorModel_type),
     (Some 500, ErrorModel_type)]"

definition CreateOsqueryPolicyResponses :: declared_responses where
  "CreateOsqueryPolicyResponses = [(201, OsqueryPolicy_type)]"

definition DeleteOsqueryPolicyData :: op_data where
  "DeleteOsqueryPolicyData =
     \<lparr>od_body = None, od_path = [(''id'', Required, TNumber)],
      od_query = [], od_url = ''/api/osquery/policies/{id}''\<rparr>"

definition DeleteOsqueryPolicyErrors :: declared_errors where
  "DeleteOsqueryPolicyErrors = [(Some 401, ErrorModel_type), (Some 403, ErrorModel_type), (Some 404, ErrorModel_type),
     (Some 422, ErrorModel_type), (Some 500, ErrorModel_type)]"

definition DeleteOsqueryPolicyResponses :: declared_responses where
  "DeleteOsqueryPolicyResponses = [(204, TVoid)]"

definition GetOsqueryPolicyData :: op_data where
  "GetOsqueryPolicyData =
     \<lparr>od_body = None, od_path = [(''id'', Required, TNumber)],
      od_query = [], od_url = ''/api/osquery/policies/{id}''\<rparr>"

definition GetOsqueryPolicyErrors :: declared_errors where
  "GetOsqueryPolicyErrors = [(Some 401, ErrorModel_type), (Some 403, ErrorModel_type), (Some 404, ErrorModel_type),
     (Some 422, ErrorModel_type), (Some 500, ErrorModel_type)]"

definition GetOsqueryPolicyResponses :: declared_responses where
  "GetOsqueryPolicyResponses = [(200, OsqueryPolicy_type)]"

definition UpdateOsqueryPolicyData :: op_data where
  "UpdateOsqueryPolicyData =
     \<lparr>od_body = Some OsqueryPolicyMutation_type, od_path = [(''id'', Required, TNumber)],
      od_query = [], od_url = ''/api/osquery/policies/{id}''\<rparr>"

definition UpdateOsqueryPolicyErrors :: declared_errors where
  "UpdateOsqueryPolicyErrors = [(Some 400, ErrorModel_type), (Some 401, ErrorModel_type), (Some 403, ErrorModel_type),
     (Some 404, ErrorModel_type), (Some 409, ErrorModel_type), (Some 422, ErrorModel_type),
     (Some 500, ErrorModel_type)]"

definition UpdateOsqueryPolicyResponses :: declared_responses where
  "UpdateOsqueryPolicyResponses = [(200, OsqueryPolicy_type)]"

definition GetOsqueryPolicyRemediationRunData :: op_data where
  "GetOsqueryPolicyRemediationRunData =
     \<lparr>od_body = None, od_path = [(''id'', Required, TNumber), (''host_id'', Required, TNumber)],
      od_query = [], od_url = ''/api/osquery/policies/{id}/hosts/{host_id}/remediation''\<rparr>"

definition GetOsqueryPolicyRemediationRunErrors :: declared_errors where
  "GetOsqueryPolicyRemediationRunErrors = [(Some 401, ErrorModel_type), (Some 403, ErrorModel_type), (Some 404, ErrorModel_type),
     (Some 422, ErrorModel_type), (Some 500, ErrorModel_type)]"

definition GetOsqueryPolicyRemediationRunResponses :: declared_responses where
  "GetOsqueryPolicyRemediationRunResponses = [(200, OsqueryPolicyRemediationRun_type)]"

definition GetOsqueryPolicyRemediationSourceData :: op_data where
  "GetOsqueryPolicyRemediationSourceData =
     \<lparr>od_body = None, od_path = [(''id'', Required, TNumber)],
      od_query = [], od_url = ''/api/osquery/policies/{id}/remediation''\<rparr>"

definition GetOsqueryPolicyRemediationSourceErrors :: declared_errors where
  "GetOsqueryPolicyRemediationSourceErrors = [(Some 401, ErrorModel_type), (Some 403, ErrorModel_type), (Some 404, ErrorModel_type),
     (Some 422, ErrorModel_type), (Some 500, ErrorModel_type)]"

definition GetOsqueryPolicyRemediationSourceResponses :: declared_responses where
  "GetOsqueryPolicyRemediationSourceResponses = [(200, OsqueryPolicyRemediationSource_type)]"

definition RunOsqueryPolicyRemediationsData :: op_data where
  "RunOsqueryPolicyRemediationsData =
     \<lparr>od_body = None, od_path = [(''id'', Required, TNumber)],
      od_query = [(''host_ids'', Optional, TArray TNumber), (''all_failures'', Optional, TBoolean)], od_url = ''/api/osquery/policies/{id}/remediation''\<rparr>"

definition RunOsqueryPolicyRemediationsErrors :: declared_errors where
  "RunOsqueryPolicyRemediationsErrors = [(Some 400, ErrorModel_type), (Some 401, ErrorModel_type), (Some 403, ErrorModel_type),
     (Some 404, ErrorModel_type), (Some 409, ErrorModel_type), (Some 422, ErrorModel_type),
     (Some 500, ErrorModel_type)]"

definition RunOsqueryPolicyRemediationsResponses :: declared_responses where
  "RunOsqueryPolicyRemediationsResponses = [(202, OsqueryPolicyRemediationBatchSummary_type)]"

definition ListOsqueryPolicyResultsData :: op_data where
  "ListOsqueryPolicyResultsData =
     \<lparr>od_body = None, od_path = [(''id'', Required, TNumber)],
      od_query = [(''q'', Optional, TString), (''page'', Optional, TNumber), (''per_page'', Optional, TNumber),
        (''sort'', Optional, TString), (''status'', Optional, TArray (one_of [''pending'', ''pass'', ''fail'',
        ''error''])), (''remediation'', Optional, TArray (one_of [''not_run'', ''queued'', ''succeeded'',
        ''failed'']))], od_url = ''/api/osquery/policies/{id}/results''\<rparr>"

definition ListOsqueryPolicyResultsErrors :: declared_errors where
  "ListOsqueryPolicyResultsErrors = [(Some 401, ErrorModel_type), (Some 403, ErrorModel_type), (Some 404, ErrorModel_type),
     (Some 422, ErrorModel_type), (Some 500, ErrorModel_type)]"

definition ListOsqueryPolicyResultsResponses :: declared_responses where
  "ListOsqueryPolicyResultsResponses = [(200, PagePolicyHostStatus_type)]"

definition ListOsqueryPolicyStatusHistoryData :: op_data where
  "ListOsqueryPolicyStatusHistoryData =
     \<lparr>od_body = None, od_path = [(''id'', Required, TNumber)],
      od_query = [(''since'', Optional, TString)], od_url = ''/api/osquery/policies/{id}/status-history''\<rparr>"

definition ListOsqueryPolicyStatusHistoryErrors :: declared_errors where
  "ListOsqueryPolicyStatusHistoryErrors = [(Some 401, ErrorModel_type), (Some 403, ErrorModel_type), (Some 404, ErrorModel_type),
     (Some 422, ErrorModel_type), (Some 500, ErrorModel_type)]"

definition ListOsqueryPolicyStatusHistoryResponses :: declared_responses where
  "ListOsqueryPolicyStatusHistoryResponses = [(200, TArray OsqueryPolicyStatusPoint_type)]"

definition BulkDeleteOsqueryReportsData :: op_data where
  "BulkDeleteOsqueryReportsData =
     \<lparr>od_body = None, od_path = [],
      od_query = [(''ids'', Required, TArray TNumber)], od_url = ''/api/osquery/reports''\<rparr>"

definition BulkDeleteOsqueryReportsErrors :: declared_errors where
  "BulkDeleteOsqueryReportsErrors = [(Some 400, ErrorModel_type), (Some 401, ErrorModel_type), (Some 403, ErrorModel_type),
     (Some 422, ErrorModel_type), (Some 500, ErrorModel_type)]"

definition BulkDeleteOsqueryReportsResponses :: declared_responses where
  "BulkDeleteOsqueryReportsResponses = [(204, TVoid)]"

definition ListOsqueryReportsData :: op_data where
  "ListOsqueryReportsData =
     \<lparr>od_body = None, od_path = [],
      od_query = [(''q'', Optional, TString), (''page'', Optional, TNumber), (''per_page'', Optional, TNumber),
        (''sort'', Optional, TString)], od_url = ''/api/osquery/reports''\<rparr>"

definition ListOsqueryReportsErrors :: declared_errors where
  "ListOsqueryReportsErrors = [(Some 401, ErrorModel_type), (Some 403, ErrorModel_type), (None, ErrorModel_type)]"

definition ListOsqueryReportsResponses :: declared_responses where
  "ListOsqueryReportsResponses = [(200, PageReport_type)]"

definition CreateOsqueryReportData :: op_data where
  "CreateOsqueryReportData =
     \<lparr>od_body = Some OsqueryReportMutation_type, od_path = [],
      od_query = [], od_url = ''/api/osquery/reports''\<rparr>"

definition CreateOsqueryReportErrors :: declared_errors where
  "CreateOsqueryReportErrors = [(Some 400, ErrorModel_type), (Some 401, ErrorModel_type), (Some 403, ErrorModel_type),
     (Some 404, ErrorModel_type), (Some 409, ErrorModel_type), (Some 422, ErrorModel_type),
     (Some 500, ErrorModel_type)]"

definition CreateOsqueryReportResponses :: declared_responses where
  "CreateOsqueryReportResponses = [(201, OsqueryReport_type)]"

definition DeleteOsqueryReportData :: op_data where
  "DeleteOsqueryReportData =
     \<lparr>od_body = None, od_path = [(''id'', Required, TNumber)],
      od_query = [], od_url = ''/api/osquery/reports/{id}''\<rparr>"

definition DeleteOsqueryReportErrors :: declared_errors where
  "DeleteOsqueryReportErrors = [(Some 401, ErrorModel_type), (Some 403, ErrorModel_type), (Some 404, ErrorModel_type),
     (Some 422, ErrorModel_type), (Some 500, ErrorModel_type)]"

definition DeleteOsqueryReportResponses :: declared_responses where
  "DeleteOsqueryReportResponses = [(204, TVoid)]"

definition GetOsqueryReportData :: op_data where
  "GetOsqueryReportData =
     \<lparr>od_body = None, od_path = [(''id'', Required, TNumber)],
      od_query = [], od_url = ''/api/osquery/reports/{id}''\<rparr>"

definition GetOsqueryReportErrors :: declared_errors where
  "GetOsqueryReportErrors = [(Some 401, ErrorModel_type), (Some 403, ErrorModel_type), (Some 404, ErrorModel_type),
     (Some 422, ErrorModel_type), (Some 500, ErrorModel_type)]"

definition GetOsqueryReportResponses :: declared_responses where
  "GetOsqueryReportResponses = [(200, OsqueryReport_type)]"

definition UpdateOsqueryReportData :: op_data where
  "UpdateOsqueryReportData =
     \<lparr>od_body = Some OsqueryReportMutation_type, od_path = [(''id'', Required, TNumber)],
      od_query = [], od_url = ''/api/osquery/reports/{id}''\<rparr>"

definition UpdateOsqueryReportErrors :: declared_errors where
  "UpdateOsqueryReportErrors = [(Some 400, ErrorModel_type), (Some 401, ErrorModel_type), (Some 403, ErrorModel_type),
     (Some 404, ErrorModel_type), (Some 409, ErrorModel_type), (Some 422, ErrorModel_type),
     (Some 500, ErrorModel_type)]"

definition UpdateOsqueryReportResponses :: declared_responses where
  "UpdateOsqueryReportResponses = [(200, OsqueryReport_type)]"

definition ListOsqueryReportSnapshotsData :: op_data where
  "ListOsqueryReportSnapshotsData =
     \<lparr>od_body = None, od_path = [(''id'', Required, TNumber)],
      od_query = [(''q'', Optional, TString), (''page'', Optional, TNumber), (''per_page'', Optional, TNumber),
        (''sort'', Optional, TString), (''status'', Optional, one_of [''collected'', ''error'', ''pending''])], od_url = ''/api/osquery/reports/{id}/snapshots''\<rparr>"

definition ListOsqueryReportSnapshotsErrors :: declared_errors where
  "ListOsqueryReportSnapshotsErrors = [(Some 401, ErrorModel_type), (Some 403, ErrorModel_type), (Some 404, ErrorModel_type),
     (Some 422, ErrorModel_type), (Some 500, ErrorModel_type)]"

definition ListOsqueryReportSnapshotsResponses :: declared_responses where
  "ListOsqueryReportSnapshotsResponses = [(200, PageReportSnapshot_type)]"

definition BulkDeleteSantaConfigurationsData :: op_data where
  "BulkDeleteSantaConfigurationsData =
     \<lparr>od_body = None, od_path = [],
      od_query = [(''ids'', Required, TArray TNumber)], od_url = ''/api/santa/configurations''\<rparr>"

definition BulkDeleteSantaConfigurationsErrors :: declared_errors where
  "BulkDeleteSantaConfigurationsErrors = [(Some 400, ErrorModel_type), (Some 401, ErrorModel_type), (Some 403, ErrorModel_type),
     (Some 422, ErrorModel_type), (Some 500, ErrorModel_type)]"

definition BulkDeleteSantaConfigurationsResponses :: declared_responses where
  "BulkDeleteSantaConfigurationsResponses = [(204, TVoid)]"

definition ListSantaConfigurationsData :: op_data where
  "ListSantaConfigurationsData =
     \<lparr>od_body = None, od_path = [],
      od_query = [(''q'', Optional, TString), (''page'', Optional, TNumber), (''per_page'', Optional, TNumber),
        (''sort'', Optional, TString)], od_url = ''/api/santa/configurations''\<rparr>"

definition ListSantaConfigurationsErrors :: declared_errors where
  "ListSantaConfigurationsErrors = [(Some 401, ErrorModel_type), (Some 403, ErrorModel_type), (None, ErrorModel_type)]"

definition ListSantaConfigurationsResponses :: declared_responses where
  "ListSantaConfigurationsResponses = [(200, PageConfiguration_type)]"

definition CreateSantaConfigurationData :: op_data where
  "CreateSantaConfigurationData =
     \<lparr>od_body = Some SantaConfigurationMutation_type, od_path = [],
      od_query = [], od_url = ''/api/santa/configurations''\<rparr>"

definition CreateSantaConfigurationErrors :: declared_errors where
  "CreateSantaConfigurationErrors = [(Some 400, ErrorModel_type), (Some 401, ErrorModel_type), (Some 403, ErrorModel_type),
     (Some 404, ErrorModel_type), (Some 409, ErrorModel_type), (Some 422, ErrorModel_type),
     (Some 500, ErrorModel_type)]"

definition CreateSantaConfigurationResponses :: declared_responses where
  "CreateSantaConfigurationResponses = [(201, SantaConfiguration_type)]"

definition ReorderSantaConfigurationsData :: op_data where
  "ReorderSantaConfigurationsData =
     \<lparr>od_body = Some SantaConfigurationReorderBody_type, od_path = [],
      od_query = [], od_url = ''/api/santa/configurations/order''\<rparr>"

definition ReorderSantaConfigurationsErrors :: declared_errors where
  "ReorderSantaConfigurationsErrors = [(Some 400, ErrorModel_type), (Some 401, ErrorModel_type), (Some 403, ErrorModel_type),
     (Some 422, ErrorModel_type), (Some 500, ErrorModel_type)]"

definition ReorderSantaConfigurationsResponses :: declared_responses where
  "ReorderSantaConfigurationsResponses = [(204, TVoid)]"

definition DeleteSantaConfigurationData :: op_data where
  "DeleteSantaConfigurationData =
     \<lparr>od_body = None, od_path = [(''id'', Required, TNumber)],
      od_query = [], od_url = ''/api/santa/configurations/{id}''\<rparr>"

definition DeleteSantaConfigurationErrors :: declared_errors where
  "DeleteSantaConfigurationErrors = [(Some 401, ErrorModel_type), (Some 403, ErrorModel_type), (Some 404, ErrorModel_type),
     (Some 422, ErrorModel_type), (Some 500, ErrorModel_type)]"

definition DeleteSantaConfigurationResponses :: declared_responses where
  "DeleteSantaConfigurationResponses = [(204, TVoid)]"

definition GetSantaConfigurationData :: op_data where
  "GetSantaConfigurationData =
     \<lparr>od_body = None, od_path = [(''id'', Required, TNumber)],
      od_query = [], od_url = ''/api/santa/configurations/{id}''\<rparr>"

definition GetSantaConfigurationErrors :: declared_errors where
  "GetSantaConfigurationErrors = [(Some 401, ErrorModel_type), (Some 403, ErrorModel_type), (Some 404, ErrorModel_type),
     (Some 422, ErrorModel_type), (Some 500, ErrorModel_type)]"

definition GetSantaConfigurationResponses :: declared_responses where
  "GetSantaConfigurationResponses = [(200, SantaConfiguration_type)]"

definition UpdateSantaConfigurationData :: op_data where
  "UpdateSantaConfigurationData =
     \<lparr>od_body = Some SantaConfigurationMutation_type, od_path = [(''id'', Required, TNumber)],
      od_query = [], od_url = ''/api/santa/configurations/{id}''\<rparr>"

definition UpdateSantaConfigurationErrors :: declared_errors where
  "UpdateSantaConfigurationErrors = [(Some 400, ErrorModel_type), (Some 401, ErrorModel_type), (Some 403, ErrorModel_type),
     (Some 404, ErrorModel_type), (Some 409, ErrorModel_type), (Some 422, ErrorModel_type),
     (Some 500, ErrorModel_type)]"

definition UpdateSantaConfigurationResponses :: declared_responses where
  "UpdateSantaConfigurationResponses = [(200, SantaConfiguration_type)]"

definition ListSantaEventsData :: op_data where
  "ListSantaEventsData =
     \<lparr>od_body = None, od_path = [],
      od_query = [(''q'', Optional, TString), (''page'', Optional, TNumber), (''per_page'', Optional, TNumber),
        (''sort'', Optional, TString), (''host_id'', Optional, TNumber),
        (''decisions'', Optional, TArray (one_of [''allowed'', ''blocked'', ''unknown'', ''allow_unknown'',
        ''allow_binary'', ''allow_certificate'', ''allow_scope'', ''allow_teamid'', ''allow_signingid'',
        ''allow_cdhash'', ''block_unknown'', ''block_binary'', ''block_certificate'', ''block_scope'',
        ''block_teamid'', ''block_signingid'', ''block_cdhash'', ''bundle_binary'', ''block_binary_mismatch'',
        ''allow_platform''])), (''since'', Optional, TString), (''user'', Optional, TString)], od_url = ''/api/santa/events''\<rparr>"

definition ListSantaEventsErrors :: declared_errors where
  "ListSantaEventsErrors = [(Some 400, ErrorModel_type), (Some 401, ErrorModel_type), (Some 403, ErrorModel_type),
     (Some 422, ErrorModel_type), (Some 500, ErrorModel_type)]"

definition ListSantaEventsResponses :: declared_responses where
  "ListSantaEventsResponses = [(200, PageExecutionEvent_type)]"

definition GetSantaEventData :: op_data where
  "GetSantaEventData =
     \<lparr>od_body = None, od_path = [(''id'', Required, TNumber)],
      od_query = [], od_url = ''/api/santa/events/{id}''\<rparr>"

definition GetSantaEventErrors :: declared_errors where
  "GetSantaEventErrors = [(Some 400, ErrorModel_type), (Some 401, ErrorModel_type), (Some 403, ErrorModel_type),
     (Some 404, ErrorModel_type), (Some 422, ErrorModel_type), (Some 500, ErrorModel_type)]"

definition GetSantaEventResponses :: declared_responses where
  "GetSantaEventResponses = [(200, SantaExecutionEvent_type)]"

definition ListSantaFileAccessEventsData :: op_data where
  "ListSantaFileAccessEventsData =
     \<lparr>od_body = None, od_path = [],
      od_query = [(''q'', Optional, TString), (''page'', Optional, TNumber), (''per_page'', Optional, TNumber),
        (''sort'', Optional, TString), (''host_id'', Optional, TNumber),
        (''decisions'', Optional, TArray (one_of [''unknown'', ''denied'', ''denied_invalid_signature'',
        ''audit_only''])), (''since'', Optional, TString)], od_url = ''/api/santa/file-access-events''\<rparr>"

definition ListSantaFileAccessEventsErrors :: declared_errors where
  "ListSantaFileAccessEventsErrors = [(Some 400, ErrorModel_type), (Some 401, ErrorModel_type), (Some 403, ErrorModel_type),
     (Some 422, ErrorModel_type), (Some 500, ErrorModel_type)]"

definition ListSantaFileAccessEventsResponses :: declared_responses where
  "ListSantaFileAccessEventsResponses = [(200, PageFileAccessEvent_type)]"

definition GetSantaFileAccessEventData :: op_data where
  "GetSantaFileAccessEventData =
     \<lparr>od_body = None, od_path = [(''id'', Required, TNumber)],
      od_query = [], od_url = ''/api/santa/file-access-events/{id}''\<rparr>"

definition GetSantaFileAccessEventErrors :: declared_errors where
  "GetSantaFileAccessEventErrors = [(Some 400, ErrorModel_type), (Some 401, ErrorModel_type), (Some 403, ErrorModel_type),
     (Some 404, ErrorModel_type), (Some 422, ErrorModel_type), (Some 500, ErrorModel_type)]"

definition GetSantaFileAccessEventResponses :: declared_responses where
  "GetSantaFileAccessEventResponses = [(200, SantaFileAccessEvent_type)]"

definition BulkDeleteSantaRulesData :: op_data where
  "BulkDeleteSantaRulesData =
     \<lparr>od_body = None, od_path = [],
      od_query = [(''ids'', Required, TArray TNumber)], od_url = ''/api/santa/rules''\<rparr>"

definition BulkDeleteSantaRulesErrors :: declared_errors where
  "BulkDeleteSantaRulesErrors = [(Some 400, ErrorModel_type), (Some 401, ErrorModel_type), (Some 403, ErrorModel_type),
     (Some 422, ErrorModel_type), (Some 500, ErrorModel_type)]"

definition BulkDeleteSantaRulesResponses :: declared_responses where
  "BulkDeleteSantaRulesResponses = [(204, TVoid)]"

definition ListSantaRulesData :: op_data where
  "ListSantaRulesData =
     \<lparr>od_body = None, od_path = [],
      od_query = [(''q'', Optional, TString), (''page'', Optional, TNumber), (''per_page'', Optional, TNumber),
        (''sort'', Optional, TString), (''rule_type'', Optional, TArray (one_of [''binary'', ''certificate'',
        ''teamid'', ''signingid'', ''cdhash'', ''bundle'']))], od_url = ''/api/santa/rules''\<rparr>"

definition ListSantaRulesErrors :: declared_errors where
  "ListSantaRulesErrors = [(Some 400, ErrorModel_type), (Some 401, ErrorModel_type), (Some 403, ErrorModel_type),
     (Some 422, ErrorModel_type), (Some 500, ErrorModel_type)]"

definition ListSantaRulesResponses :: declared_responses where
  "ListSantaRulesResponses = [(200, PageRule_type)]"

definition CreateSantaRuleData :: op_data where
  "CreateSantaRuleData =
     \<lparr>od_body = Some SantaRuleMutation_type, od_path = [],
      od_query = [], od_url = ''/api/santa/rules''\<rparr>"

definition CreateSantaRuleErrors :: declared_errors where
  "CreateSantaRuleErrors = [(Some 400, ErrorModel_type), (Some 401, ErrorModel_type), (Some 403, ErrorModel_type),
     (Some 404, ErrorModel_type), (Some 409, ErrorModel_type), (Some 422, ErrorModel_type),
     (Some 500, ErrorModel_type)]"

definition CreateSantaRuleResponses :: declared_responses where
  "CreateSantaRuleResponses = [(201, SantaRule_type)]"

definition DeleteSantaRuleData :: op_data where
  "DeleteSantaRuleData =
     \<lparr>od_body = None, od_path = [(''id'', Required, TNumber)],
      od_query = [], od_url = ''/api/santa/rules/{id}''\<rparr>"

definition DeleteSantaRuleErrors :: declared_errors where
  "DeleteSantaRuleErrors = [(Some 401, ErrorModel_type), (Some 403, ErrorModel_type), (Some 404, ErrorModel_type),
     (Some 422, ErrorModel_type), (Some 500, ErrorModel_type)]"

definition DeleteSantaRuleResponses :: declared_responses where
  "DeleteSantaRuleResponses = [(204, TVoid)]"

definition GetSantaRuleData :: op_data where
  "GetSantaRuleData =
     \<lparr>od_body = None, od_path = [(''id'', Required, TNumber)],
      od_query = [], od_url = ''/api/santa/rules/{id}''\<rparr>"

definition GetSantaRuleErrors :: declared_errors where
  "GetSantaRuleErrors = [(Some 401, ErrorModel_type), (Some 403, ErrorModel_type), (Some 404, ErrorModel_type),
     (Some 422, ErrorModel_type), (Some 500, ErrorModel_type)]"

definition GetSantaRuleResponses :: declared_responses where
  "GetSantaRuleResponses = [(200, SantaRule_type)]"

definition UpdateSantaRuleData :: op_data where
  "UpdateSantaRuleData =
     \<lparr>od_body = Some SantaRuleMutation_type, od_path = [(''id'', Required, TNumber)],
      od_query = [], od_url = ''/api/santa/rules/{id}''\<rparr>"

definition UpdateSantaRuleErrors :: declared_errors where
  "UpdateSantaRuleErrors = [(Some 400, ErrorModel_type), (Some 401, ErrorModel_type), (Some 403, ErrorModel_type),
     (Some 404, ErrorModel_type), (Some 409, ErrorModel_type), (Some 422, ErrorModel_type),
     (Some 500, ErrorModel_type)]"

definition UpdateSantaRuleResponses :: declared_responses where
  "UpdateSantaRuleResponses = [(200, SantaRule_type)]"

definition DeleteSessionData :: op_data where
  "DeleteSessionData =
     \<lparr>od_body = None, od_path = [],
      od_query = [], od_url = ''/api/session''\<rparr>"

definition DeleteSessionErrors :: declared_errors where
  "DeleteSessionErrors = [(None, ErrorModel_type)]"

definition DeleteSessionResponses :: declared_responses where
  "DeleteSessionResponses = [(204, TVoid)]"

definition GetSessionData :: op_data where
  "GetSessionData =
     \<lparr>od_body = None, od_path = [],
      od_query = [], od_url = ''/api/session''\<rparr>"

definition GetSessionErrors :: declared_errors where
  "GetSessionErrors = [(None, ErrorModel_type)]"

definition GetSessionResponses :: declared_responses where
  "GetSessionResponses = [(200, SessionBody_type)]"

definition CreateSessionData :: op_data where
  "CreateSessionData =
     \<lparr>od_body = Some SessionCreateInputBody_type, od_path = [],
      od_query = [], od_url = ''/api/session''\<rparr>"

definition CreateSessionErrors :: declared_errors where
  "CreateSessionErrors = [(Some 400, ErrorModel_type), (Some 401, ErrorModel_type), (Some 422, ErrorModel_type),
     (Some 429, ErrorModel_type), (Some 500, ErrorModel_type)]"

definition CreateSessionResponses :: declared_responses where
  "CreateSessionResponses = [(200, Principal_type)]"

definition ListSoftwareData :: op_data where
  "ListSoftwareData =
     \<lparr>od_body = None, od_path = [],
      od_query = [(''q'', Optional, TString), (''page'', Optional, TNumber), (''per_page'', Optional, TNumber),
        (''sort'', Optional, TString), (''source'', Optional, TArray (one_of [''apps'', ''homebrew_packages'',
        ''chrome_extensions'', ''firefox_addons'', ''safari_extensions'', ''npm_packages'',
        ''vscode_extensions'', ''jetbrains_plugins'', ''go_binaries'', ''python_packages'']))], od_url = ''/api/software''\<rparr>"

definition ListSoftwareErrors :: declared_errors where
  "ListSoftwareErrors = [(Some 401, ErrorModel_type), (Some 403, ErrorModel_type), (None, ErrorModel_type)]"

definition ListSoftwareResponses :: declared_responses where
  "ListSoftwareResponses = [(200, PageSoftwareTitle_type)]"

definition GetSoftwareData :: op_data where
  "GetSoftwareData =
     \<lparr>od_body = None, od_path = [(''id'', Required, TNumber)],
      od_query = [], od_url = ''/api/software/{id}''\<rparr>"

definition GetSoftwareErrors :: declared_errors where
  "GetSoftwareErrors = [(Some 401, ErrorModel_type), (Some 403, ErrorModel_type), (Some 404, ErrorModel_type),
     (Some 422, ErrorModel_type), (Some 500, ErrorModel_type)]"

definition GetSoftwareResponses :: declared_responses where
  "GetSoftwareResponses = [(200, SoftwareTitle_type)]"

definition ListUsersData :: op_data where
  "ListUsersData =
     \<lparr>od_body = None, od_path = [],
      od_query = [(''q'', Optional, TString), (''page'', Optional, TNumber), (''per_page'', Optional, TNumber),
        (''sort'', Optional, TString), (''values'', Optional, TArray TString),
        (''role'', Optional, TArray (one_of [''admin'', ''viewer'', ''none''])),
        (''source'', Optional, one_of [''local'', ''entra'']), (''group_id'', Optional, TNumber)], od_url = ''/api/users''\<rparr>"

definition ListUsersErrors :: declared_errors where
  "ListUsersErrors = [(Some 401, ErrorModel_type), (Some 403, ErrorModel_type), (None, ErrorModel_type)]"

definition ListUsersResponses :: declared_responses where
  "ListUsersResponses = [(200, PageUser_type)]"

definition CreateUserData :: op_data where
  "CreateUserData =
     \<lparr>od_body = Some UserCreate_type, od_path = [],
      od_query = [], od_url = ''/api/users''\<rparr>"

definition CreateUserErrors :: declared_errors where
  "CreateUserErrors = [(Some 400, ErrorModel_type), (Some 401, ErrorModel_type), (Some 403, ErrorModel_type),
     (Some 409, ErrorModel_type), (Some 422, ErrorModel_type), (Some 500, ErrorModel_type)]"

definition CreateUserResponses :: declared_responses where
  "CreateUserResponses = [(201, User_type)]"

definition ListUserDepartmentsData :: op_data where
  "ListUserDepartmentsData =
     \<lparr>od_body = None, od_path = [],
      od_query = [(''q'', Optional, TString), (''page'', Optional, TNumber), (''per_page'', Optional, TNumber),
        (''sort'', Optional, TString), (''values'', Optional, TArray TString)], od_url = ''/api/users/departments''\<rparr>"

definition ListUserDepartmentsErrors :: declared_errors where
  "ListUserDepartmentsErrors = [(Some 401, ErrorModel_type), (Some 403, ErrorModel_type), (None, ErrorModel_type)]"

definition ListUserDepartmentsResponses :: declared_responses where
  "ListUserDepartmentsResponses = [(200, PageDepartment_type)]"

definition DeleteUserData :: op_data where
  "DeleteUserData =
     \<lparr>od_body = None, od_path = [(''id'', Required, TNumber)],
      od_query = [], od_url = ''/api/users/{id}''\<rparr>"

definition DeleteUserErrors :: declared_errors where
  "DeleteUserErrors = [(Some 401, ErrorModel_type), (Some 403, ErrorModel_type), (Some 404, ErrorModel_type),
     (Some 409, ErrorModel_type), (Some 422, ErrorModel_type), (Some 500, ErrorModel_type)]"

definition DeleteUserResponses :: declared_responses where
  "DeleteUserResponses = [(204, TVoid)]"

definition GetUserData :: op_data where
  "GetUserData =
     \<lparr>od_body = None, od_path = [(''id'', Required, TNumber)],
      od_query = [], od_url = ''/api/users/{id}''\<rparr>"

definition GetUserErrors :: declared_errors where
  "GetUserErrors = [(Some 401, ErrorModel_type), (Some 403, ErrorModel_type), (Some 404, ErrorModel_type),
     (Some 422, ErrorModel_type), (Some 500, ErrorModel_type)]"

definition GetUserResponses :: declared_responses where
  "GetUserResponses = [(200, User_type)]"

definition UpdateUserData :: op_data where
  "UpdateUserData =
     \<lparr>od_body = Some UserMutation_type, od_path = [(''id'', Required, TNumber)],
      od_query = [], od_url = ''/api/users/{id}''\<rparr>"

definition UpdateUserErrors :: declared_errors where
  "UpdateUserErrors = [(Some 400, ErrorModel_type), (Some 401, ErrorModel_type), (Some 403, ErrorModel_type),
     (Some 404, ErrorModel_type), (Some 409, ErrorModel_type), (Some 422, ErrorModel_type),
     (Some 500, ErrorModel_type)]"

definition UpdateUserResponses :: declared_responses where
  "UpdateUserResponses = [(200, User_type)]"

section \<open>All of them, by the name of the operation\<close>

definition declared_1 :: "(js_string \<times> op_types) list" where
  "declared_1 = [
      (''getAccount'', \<lparr>ot_data = GetAccountData, ot_errors = GetAccountErrors, ot_responses = GetAccountResponses\<rparr>),
      (''updateAccount'', \<lparr>ot_data = UpdateAccountData, ot_errors = UpdateAccountErrors, ot_responses = UpdateAccountResponses\<rparr>),
      (''revokeAccountApiKey'', \<lparr>ot_data = RevokeAccountApiKeyData, ot_errors = RevokeAccountApiKeyErrors, ot_responses = RevokeAccountApiKeyResponses\<rparr>),
      (''rotateAccountApiKey'', \<lparr>ot_data = RotateAccountApiKeyData, ot_errors = RotateAccountApiKeyErrors, ot_responses = RotateAccountApiKeyResponses\<rparr>),
      (''listActivity'', \<lparr>ot_data = ListActivityData, ot_errors = ListActivityErrors, ot_responses = ListActivityResponses\<rparr>),
      (''listAgentSecrets'', \<lparr>ot_data = ListAgentSecretsData, ot_errors = ListAgentSecretsErrors, ot_responses = ListAgentSecretsResponses\<rparr>),
      (''createAgentSecret'', \<lparr>ot_data = CreateAgentSecretData, ot_errors = CreateAgentSecretErrors, ot_responses = CreateAgentSecretResponses\<rparr>),
      (''deleteAgentSecret'', \<lparr>ot_data = DeleteAgentSecretData, ot_errors = DeleteAgentSecretErrors, ot_responses = DeleteAgentSecretResponses\<rparr>),
      (''updateAgentSecret'', \<lparr>ot_data = UpdateAgentSecretData, ot_errors = UpdateAgentSecretErrors, ot_responses = UpdateAgentSecretResponses\<rparr>),
      (''getDirectorySync'', \<lparr>ot_data = GetDirectorySyncData, ot_errors = GetDirectorySyncErrors, ot_responses = GetDirectorySyncResponses\<rparr>),
      (''triggerDirectorySync'', \<lparr>ot_data = TriggerDirectorySyncData, ot_errors = TriggerDirectorySyncErrors, ot_responses = TriggerDirectorySyncResponses\<rparr>),
      (''listGroups'', \<lparr>ot_data = ListGroupsData, ot_errors = ListGroupsErrors, ot_responses = ListGroupsResponses\<rparr>)]"

definition declared_2 :: "(js_string \<times> op_types) list" where
  "declared_2 = [
      (''getGroup'', \<lparr>ot_data = GetGroupData, ot_errors = GetGroupErrors, ot_responses = GetGroupResponses\<rparr>),
      (''bulkDeleteHosts'', \<lparr>ot_data = BulkDeleteHostsData, ot_errors = BulkDeleteHostsErrors, ot_responses = BulkDeleteHostsResponses\<rparr>),
      (''listHosts'', \<lparr>ot_data = ListHostsData, ot_errors = ListHostsErrors, ot_responses = ListHostsResponses\<rparr>),
      (''deleteHost'', \<lparr>ot_data = DeleteHostData, ot_errors = DeleteHostErrors, ot_responses = DeleteHostResponses\<rparr>),
      (''getHost'', \<lparr>ot_data = GetHostData, ot_errors = GetHostErrors, ot_responses = GetHostResponses\<rparr>),
      (''requestHostInventoryRefresh'', \<lparr>ot_data = RequestHostInventoryRefreshData, ot_errors = RequestHostInventoryRefreshErrors, ot_responses = RequestHostInventoryRefreshResponses\<rparr>),
      (''getHostMunkiState'', \<lparr>ot_data = GetHostMunkiStateData, ot_errors = GetHostMunkiStateErrors, ot_responses = GetHostMunkiStateResponses\<rparr>),
      (''listHostMunkiSoftware'', \<lparr>ot_data = ListHostMunkiSoftwareData, ot_errors = ListHostMunkiSoftwareErrors, ot_responses = ListHostMunkiSoftwareResponses\<rparr>),
      (''listHostOsqueryPolicies'', \<lparr>ot_data = ListHostOsqueryPoliciesData, ot_errors = ListHostOsqueryPoliciesErrors, ot_responses = ListHostOsqueryPoliciesResponses\<rparr>),
      (''listHostOsqueryReports'', \<lparr>ot_data = ListHostOsqueryReportsData, ot_errors = ListHostOsqueryReportsErrors, ot_responses = ListHostOsqueryReportsResponses\<rparr>),
      (''clearHostPrimaryUser'', \<lparr>ot_data = ClearHostPrimaryUserData, ot_errors = ClearHostPrimaryUserErrors, ot_responses = ClearHostPrimaryUserResponses\<rparr>),
      (''setHostPrimaryUser'', \<lparr>ot_data = SetHostPrimaryUserData, ot_errors = SetHostPrimaryUserErrors, ot_responses = SetHostPrimaryUserResponses\<rparr>)]"

definition declared_3 :: "(js_string \<times> op_types) list" where
  "declared_3 = [
      (''getHostSantaState'', \<lparr>ot_data = GetHostSantaStateData, ot_errors = GetHostSantaStateErrors, ot_responses = GetHostSantaStateResponses\<rparr>),
      (''listHostSantaRules'', \<lparr>ot_data = ListHostSantaRulesData, ot_errors = ListHostSantaRulesErrors, ot_responses = ListHostSantaRulesResponses\<rparr>),
      (''listHostSoftware'', \<lparr>ot_data = ListHostSoftwareData, ot_errors = ListHostSoftwareErrors, ot_responses = ListHostSoftwareResponses\<rparr>),
      (''listLabels'', \<lparr>ot_data = ListLabelsData, ot_errors = ListLabelsErrors, ot_responses = ListLabelsResponses\<rparr>),
      (''createLabel'', \<lparr>ot_data = CreateLabelData, ot_errors = CreateLabelErrors, ot_responses = CreateLabelResponses\<rparr>),
      (''deleteLabel'', \<lparr>ot_data = DeleteLabelData, ot_errors = DeleteLabelErrors, ot_responses = DeleteLabelResponses\<rparr>),
      (''getLabel'', \<lparr>ot_data = GetLabelData, ot_errors = GetLabelErrors, ot_responses = GetLabelResponses\<rparr>),
      (''updateLabel'', \<lparr>ot_data = UpdateLabelData, ot_errors = UpdateLabelErrors, ot_responses = UpdateLabelResponses\<rparr>),
      (''listMunkiClientResources'', \<lparr>ot_data = ListMunkiClientResourcesData, ot_errors = ListMunkiClientResourcesErrors, ot_responses = ListMunkiClientResourcesResponses\<rparr>),
      (''createMunkiClientResources'', \<lparr>ot_data = CreateMunkiClientResourcesData, ot_errors = CreateMunkiClientResourcesErrors, ot_responses = CreateMunkiClientResourcesResponses\<rparr>),
      (''createMunkiClientResourcesArchiveUpload'', \<lparr>ot_data = CreateMunkiClientResourcesArchiveUploadData, ot_errors = CreateMunkiClientResourcesArchiveUploadErrors, ot_responses = CreateMunkiClientResourcesArchiveUploadResponses\<rparr>),
      (''deleteMunkiClientResourcesArchiveUpload'', \<lparr>ot_data = DeleteMunkiClientResourcesArchiveUploadData, ot_errors = DeleteMunkiClientResourcesArchiveUploadErrors, ot_responses = DeleteMunkiClientResourcesArchiveUploadResponses\<rparr>)]"

definition declared_4 :: "(js_string \<times> op_types) list" where
  "declared_4 = [
      (''createMunkiClientResourcesBannerUpload'', \<lparr>ot_data = CreateMunkiClientResourcesBannerUploadData, ot_errors = CreateMunkiClientResourcesBannerUploadErrors, ot_responses = CreateMunkiClientResourcesBannerUploadResponses\<rparr>),
      (''deleteMunkiClientResourcesBannerUpload'', \<lparr>ot_data = DeleteMunkiClientResourcesBannerUploadData, ot_errors = DeleteMunkiClientResourcesBannerUploadErrors, ot_responses = DeleteMunkiClientResourcesBannerUploadResponses\<rparr>),
      (''deleteMunkiClientResources'', \<lparr>ot_data = DeleteMunkiClientResourcesData, ot_errors = DeleteMunkiClientResourcesErrors, ot_responses = DeleteMunkiClientResourcesResponses\<rparr>),
      (''getMunkiClientResources'', \<lparr>ot_data = GetMunkiClientResourcesData, ot_errors = GetMunkiClientResourcesErrors, ot_responses = GetMunkiClientResourcesResponses\<rparr>),
      (''updateMunkiClientResources'', \<lparr>ot_data = UpdateMunkiClientResourcesData, ot_errors = UpdateMunkiClientResourcesErrors, ot_responses = UpdateMunkiClientResourcesResponses\<rparr>),
      (''listMunkiDistributionPoints'', \<lparr>ot_data = ListMunkiDistributionPointsData, ot_errors = ListMunkiDistributionPointsErrors, ot_responses = ListMunkiDistributionPointsResponses\<rparr>),
      (''createMunkiDistributionPoint'', \<lparr>ot_data = CreateMunkiDistributionPointData, ot_errors = CreateMunkiDistributionPointErrors, ot_responses = CreateMunkiDistributionPointResponses\<rparr>),
      (''reorderMunkiDistributionPoints'', \<lparr>ot_data = ReorderMunkiDistributionPointsData, ot_errors = ReorderMunkiDistributionPointsErrors, ot_responses = ReorderMunkiDistributionPointsResponses\<rparr>),
      (''deleteMunkiDistributionPoint'', \<lparr>ot_data = DeleteMunkiDistributionPointData, ot_errors = DeleteMunkiDistributionPointErrors, ot_responses = DeleteMunkiDistributionPointResponses\<rparr>),
      (''getMunkiDistributionPoint'', \<lparr>ot_data = GetMunkiDistributionPointData, ot_errors = GetMunkiDistributionPointErrors, ot_responses = GetMunkiDistributionPointResponses\<rparr>),
      (''updateMunkiDistributionPoint'', \<lparr>ot_data = UpdateMunkiDistributionPointData, ot_errors = UpdateMunkiDistributionPointErrors, ot_responses = UpdateMunkiDistributionPointResponses\<rparr>),
      (''rotateMunkiDistributionPointKey'', \<lparr>ot_data = RotateMunkiDistributionPointKeyData, ot_errors = RotateMunkiDistributionPointKeyErrors, ot_responses = RotateMunkiDistributionPointKeyResponses\<rparr>)]"

definition declared_5 :: "(js_string \<times> op_types) list" where
  "declared_5 = [
      (''listMunkiIcons'', \<lparr>ot_data = ListMunkiIconsData, ot_errors = ListMunkiIconsErrors, ot_responses = ListMunkiIconsResponses\<rparr>),
      (''createMunkiIconUpload'', \<lparr>ot_data = CreateMunkiIconUploadData, ot_errors = CreateMunkiIconUploadErrors, ot_responses = CreateMunkiIconUploadResponses\<rparr>),
      (''createMunkiPackageInstallerUpload'', \<lparr>ot_data = CreateMunkiPackageInstallerUploadData, ot_errors = CreateMunkiPackageInstallerUploadErrors, ot_responses = CreateMunkiPackageInstallerUploadResponses\<rparr>),
      (''deleteMunkiPackageInstallerUpload'', \<lparr>ot_data = DeleteMunkiPackageInstallerUploadData, ot_errors = DeleteMunkiPackageInstallerUploadErrors, ot_responses = DeleteMunkiPackageInstallerUploadResponses\<rparr>),
      (''completeMunkiPackageInstallerUpload'', \<lparr>ot_data = CompleteMunkiPackageInstallerUploadData, ot_errors = CompleteMunkiPackageInstallerUploadErrors, ot_responses = CompleteMunkiPackageInstallerUploadResponses\<rparr>),
      (''signMunkiPackageInstallerPart'', \<lparr>ot_data = SignMunkiPackageInstallerPartData, ot_errors = SignMunkiPackageInstallerPartErrors, ot_responses = SignMunkiPackageInstallerPartResponses\<rparr>),
      (''bulkDeleteMunkiPackages'', \<lparr>ot_data = BulkDeleteMunkiPackagesData, ot_errors = BulkDeleteMunkiPackagesErrors, ot_responses = BulkDeleteMunkiPackagesResponses\<rparr>),
      (''listMunkiPackages'', \<lparr>ot_data = ListMunkiPackagesData, ot_errors = ListMunkiPackagesErrors, ot_responses = ListMunkiPackagesResponses\<rparr>),
      (''createMunkiPackage'', \<lparr>ot_data = CreateMunkiPackageData, ot_errors = CreateMunkiPackageErrors, ot_responses = CreateMunkiPackageResponses\<rparr>),
      (''getMunkiPackage'', \<lparr>ot_data = GetMunkiPackageData, ot_errors = GetMunkiPackageErrors, ot_responses = GetMunkiPackageResponses\<rparr>),
      (''patchMunkiPackage'', \<lparr>ot_data = PatchMunkiPackageData, ot_errors = PatchMunkiPackageErrors, ot_responses = PatchMunkiPackageResponses\<rparr>),
      (''updateMunkiPackage'', \<lparr>ot_data = UpdateMunkiPackageData, ot_errors = UpdateMunkiPackageErrors, ot_responses = UpdateMunkiPackageResponses\<rparr>)]"

definition declared_6 :: "(js_string \<times> op_types) list" where
  "declared_6 = [
      (''bulkDeleteMunkiSoftware'', \<lparr>ot_data = BulkDeleteMunkiSoftwareData, ot_errors = BulkDeleteMunkiSoftwareErrors, ot_responses = BulkDeleteMunkiSoftwareResponses\<rparr>),
      (''listMunkiSoftware'', \<lparr>ot_data = ListMunkiSoftwareData, ot_errors = ListMunkiSoftwareErrors, ot_responses = ListMunkiSoftwareResponses\<rparr>),
      (''createMunkiSoftware'', \<lparr>ot_data = CreateMunkiSoftwareData, ot_errors = CreateMunkiSoftwareErrors, ot_responses = CreateMunkiSoftwareResponses\<rparr>),
      (''deleteMunkiSoftware'', \<lparr>ot_data = DeleteMunkiSoftwareData, ot_errors = DeleteMunkiSoftwareErrors, ot_responses = DeleteMunkiSoftwareResponses\<rparr>),
      (''getMunkiSoftware'', \<lparr>ot_data = GetMunkiSoftwareData, ot_errors = GetMunkiSoftwareErrors, ot_responses = GetMunkiSoftwareResponses\<rparr>),
      (''patchMunkiSoftware'', \<lparr>ot_data = PatchMunkiSoftwareData, ot_errors = PatchMunkiSoftwareErrors, ot_responses = PatchMunkiSoftwareResponses\<rparr>),
      (''updateMunkiSoftware'', \<lparr>ot_data = UpdateMunkiSoftwareData, ot_errors = UpdateMunkiSoftwareErrors, ot_responses = UpdateMunkiSoftwareResponses\<rparr>),
      (''setMunkiSoftwareIcon'', \<lparr>ot_data = SetMunkiSoftwareIconData, ot_errors = SetMunkiSoftwareIconErrors, ot_responses = SetMunkiSoftwareIconResponses\<rparr>),
      (''listOsqueryHostStatusHistory'', \<lparr>ot_data = ListOsqueryHostStatusHistoryData, ot_errors = ListOsqueryHostStatusHistoryErrors, ot_responses = ListOsqueryHostStatusHistoryResponses\<rparr>),
      (''createLiveQuery'', \<lparr>ot_data = CreateLiveQueryData, ot_errors = CreateLiveQueryErrors, ot_responses = CreateLiveQueryResponses\<rparr>),
      (''countLiveQueryTargets'', \<lparr>ot_data = CountLiveQueryTargetsData, ot_errors = CountLiveQueryTargetsErrors, ot_responses = CountLiveQueryTargetsResponses\<rparr>),
      (''deleteLiveQuery'', \<lparr>ot_data = DeleteLiveQueryData, ot_errors = DeleteLiveQueryErrors, ot_responses = DeleteLiveQueryResponses\<rparr>)]"

definition declared_7 :: "(js_string \<times> op_types) list" where
  "declared_7 = [
      (''streamLiveQuery'', \<lparr>ot_data = StreamLiveQueryData, ot_errors = StreamLiveQueryErrors, ot_responses = StreamLiveQueryResponses\<rparr>),
      (''bulkDeleteOsqueryPolicies'', \<lparr>ot_data = BulkDeleteOsqueryPoliciesData, ot_errors = BulkDeleteOsqueryPoliciesErrors, ot_responses = BulkDeleteOsqueryPoliciesResponses\<rparr>),
      (''listOsqueryPolicies'', \<lparr>ot_data = ListOsqueryPoliciesData, ot_errors = ListOsqueryPoliciesErrors, ot_responses = ListOsqueryPoliciesResponses\<rparr>),
      (''createOsqueryPolicy'', \<lparr>ot_data = CreateOsqueryPolicyData, ot_errors = CreateOsqueryPolicyErrors, ot_responses = CreateOsqueryPolicyResponses\<rparr>),
      (''deleteOsqueryPolicy'', \<lparr>ot_data = DeleteOsqueryPolicyData, ot_errors = DeleteOsqueryPolicyErrors, ot_responses = DeleteOsqueryPolicyResponses\<rparr>),
      (''getOsqueryPolicy'', \<lparr>ot_data = GetOsqueryPolicyData, ot_errors = GetOsqueryPolicyErrors, ot_responses = GetOsqueryPolicyResponses\<rparr>),
      (''updateOsqueryPolicy'', \<lparr>ot_data = UpdateOsqueryPolicyData, ot_errors = UpdateOsqueryPolicyErrors, ot_responses = UpdateOsqueryPolicyResponses\<rparr>),
      (''getOsqueryPolicyRemediationRun'', \<lparr>ot_data = GetOsqueryPolicyRemediationRunData, ot_errors = GetOsqueryPolicyRemediationRunErrors, ot_responses = GetOsqueryPolicyRemediationRunResponses\<rparr>),
      (''getOsqueryPolicyRemediationSource'', \<lparr>ot_data = GetOsqueryPolicyRemediationSourceData, ot_errors = GetOsqueryPolicyRemediationSourceErrors, ot_responses = GetOsqueryPolicyRemediationSourceResponses\<rparr>),
      (''runOsqueryPolicyRemediations'', \<lparr>ot_data = RunOsqueryPolicyRemediationsData, ot_errors = RunOsqueryPolicyRemediationsErrors, ot_responses = RunOsqueryPolicyRemediationsResponses\<rparr>),
      (''listOsqueryPolicyResults'', \<lparr>ot_data = ListOsqueryPolicyResultsData, ot_errors = ListOsqueryPolicyResultsErrors, ot_responses = ListOsqueryPolicyResultsResponses\<rparr>),
      (''listOsqueryPolicyStatusHistory'', \<lparr>ot_data = ListOsqueryPolicyStatusHistoryData, ot_errors = ListOsqueryPolicyStatusHistoryErrors, ot_responses = ListOsqueryPolicyStatusHistoryResponses\<rparr>)]"

definition declared_8 :: "(js_string \<times> op_types) list" where
  "declared_8 = [
      (''bulkDeleteOsqueryReports'', \<lparr>ot_data = BulkDeleteOsqueryReportsData, ot_errors = BulkDeleteOsqueryReportsErrors, ot_responses = BulkDeleteOsqueryReportsResponses\<rparr>),
      (''listOsqueryReports'', \<lparr>ot_data = ListOsqueryReportsData, ot_errors = ListOsqueryReportsErrors, ot_responses = ListOsqueryReportsResponses\<rparr>),
      (''createOsqueryReport'', \<lparr>ot_data = CreateOsqueryReportData, ot_errors = CreateOsqueryReportErrors, ot_responses = CreateOsqueryReportResponses\<rparr>),
      (''deleteOsqueryReport'', \<lparr>ot_data = DeleteOsqueryReportData, ot_errors = DeleteOsqueryReportErrors, ot_responses = DeleteOsqueryReportResponses\<rparr>),
      (''getOsqueryReport'', \<lparr>ot_data = GetOsqueryReportData, ot_errors = GetOsqueryReportErrors, ot_responses = GetOsqueryReportResponses\<rparr>),
      (''updateOsqueryReport'', \<lparr>ot_data = UpdateOsqueryReportData, ot_errors = UpdateOsqueryReportErrors, ot_responses = UpdateOsqueryReportResponses\<rparr>),
      (''listOsqueryReportSnapshots'', \<lparr>ot_data = ListOsqueryReportSnapshotsData, ot_errors = ListOsqueryReportSnapshotsErrors, ot_responses = ListOsqueryReportSnapshotsResponses\<rparr>),
      (''bulkDeleteSantaConfigurations'', \<lparr>ot_data = BulkDeleteSantaConfigurationsData, ot_errors = BulkDeleteSantaConfigurationsErrors, ot_responses = BulkDeleteSantaConfigurationsResponses\<rparr>),
      (''listSantaConfigurations'', \<lparr>ot_data = ListSantaConfigurationsData, ot_errors = ListSantaConfigurationsErrors, ot_responses = ListSantaConfigurationsResponses\<rparr>),
      (''createSantaConfiguration'', \<lparr>ot_data = CreateSantaConfigurationData, ot_errors = CreateSantaConfigurationErrors, ot_responses = CreateSantaConfigurationResponses\<rparr>),
      (''reorderSantaConfigurations'', \<lparr>ot_data = ReorderSantaConfigurationsData, ot_errors = ReorderSantaConfigurationsErrors, ot_responses = ReorderSantaConfigurationsResponses\<rparr>),
      (''deleteSantaConfiguration'', \<lparr>ot_data = DeleteSantaConfigurationData, ot_errors = DeleteSantaConfigurationErrors, ot_responses = DeleteSantaConfigurationResponses\<rparr>)]"

definition declared_9 :: "(js_string \<times> op_types) list" where
  "declared_9 = [
      (''getSantaConfiguration'', \<lparr>ot_data = GetSantaConfigurationData, ot_errors = GetSantaConfigurationErrors, ot_responses = GetSantaConfigurationResponses\<rparr>),
      (''updateSantaConfiguration'', \<lparr>ot_data = UpdateSantaConfigurationData, ot_errors = UpdateSantaConfigurationErrors, ot_responses = UpdateSantaConfigurationResponses\<rparr>),
      (''listSantaEvents'', \<lparr>ot_data = ListSantaEventsData, ot_errors = ListSantaEventsErrors, ot_responses = ListSantaEventsResponses\<rparr>),
      (''getSantaEvent'', \<lparr>ot_data = GetSantaEventData, ot_errors = GetSantaEventErrors, ot_responses = GetSantaEventResponses\<rparr>),
      (''listSantaFileAccessEvents'', \<lparr>ot_data = ListSantaFileAccessEventsData, ot_errors = ListSantaFileAccessEventsErrors, ot_responses = ListSantaFileAccessEventsResponses\<rparr>),
      (''getSantaFileAccessEvent'', \<lparr>ot_data = GetSantaFileAccessEventData, ot_errors = GetSantaFileAccessEventErrors, ot_responses = GetSantaFileAccessEventResponses\<rparr>),
      (''bulkDeleteSantaRules'', \<lparr>ot_data = BulkDeleteSantaRulesData, ot_errors = BulkDeleteSantaRulesErrors, ot_responses = BulkDeleteSantaRulesResponses\<rparr>),
      (''listSantaRules'', \<lparr>ot_data = ListSantaRulesData, ot_errors = ListSantaRulesErrors, ot_responses = ListSantaRulesResponses\<rparr>),
      (''createSantaRule'', \<lparr>ot_data = CreateSantaRuleData, ot_errors = CreateSantaRuleErrors, ot_responses = CreateSantaRuleResponses\<rparr>),
      (''deleteSantaRule'', \<lparr>ot_data = DeleteSantaRuleData, ot_errors = DeleteSantaRuleErrors, ot_responses = DeleteSantaRuleResponses\<rparr>),
      (''getSantaRule'', \<lparr>ot_data = GetSantaRuleData, ot_errors = GetSantaRuleErrors, ot_responses = GetSantaRuleResponses\<rparr>),
      (''updateSantaRule'', \<lparr>ot_data = UpdateSantaRuleData, ot_errors = UpdateSantaRuleErrors, ot_responses = UpdateSantaRuleResponses\<rparr>)]"

definition declared_10 :: "(js_string \<times> op_types) list" where
  "declared_10 = [
      (''deleteSession'', \<lparr>ot_data = DeleteSessionData, ot_errors = DeleteSessionErrors, ot_responses = DeleteSessionResponses\<rparr>),
      (''getSession'', \<lparr>ot_data = GetSessionData, ot_errors = GetSessionErrors, ot_responses = GetSessionResponses\<rparr>),
      (''createSession'', \<lparr>ot_data = CreateSessionData, ot_errors = CreateSessionErrors, ot_responses = CreateSessionResponses\<rparr>),
      (''listSoftware'', \<lparr>ot_data = ListSoftwareData, ot_errors = ListSoftwareErrors, ot_responses = ListSoftwareResponses\<rparr>),
      (''getSoftware'', \<lparr>ot_data = GetSoftwareData, ot_errors = GetSoftwareErrors, ot_responses = GetSoftwareResponses\<rparr>),
      (''listUsers'', \<lparr>ot_data = ListUsersData, ot_errors = ListUsersErrors, ot_responses = ListUsersResponses\<rparr>),
      (''createUser'', \<lparr>ot_data = CreateUserData, ot_errors = CreateUserErrors, ot_responses = CreateUserResponses\<rparr>),
      (''listUserDepartments'', \<lparr>ot_data = ListUserDepartmentsData, ot_errors = ListUserDepartmentsErrors, ot_responses = ListUserDepartmentsResponses\<rparr>),
      (''deleteUser'', \<lparr>ot_data = DeleteUserData, ot_errors = DeleteUserErrors, ot_responses = DeleteUserResponses\<rparr>),
      (''getUser'', \<lparr>ot_data = GetUserData, ot_errors = GetUserErrors, ot_responses = GetUserResponses\<rparr>),
      (''updateUser'', \<lparr>ot_data = UpdateUserData, ot_errors = UpdateUserErrors, ot_responses = UpdateUserResponses\<rparr>)]"

definition declared :: "(js_string \<times> op_types) list" where
  "declared =
     declared_1 @ declared_2 @ declared_3 @ declared_4 @ declared_5 @ declared_6 @ declared_7 @ declared_8 @ declared_9 @ declared_10"

lemmas data_defs =
  GetAccountData_def UpdateAccountData_def RevokeAccountApiKeyData_def
  RotateAccountApiKeyData_def ListActivityData_def ListAgentSecretsData_def
  CreateAgentSecretData_def DeleteAgentSecretData_def UpdateAgentSecretData_def
  GetDirectorySyncData_def TriggerDirectorySyncData_def ListGroupsData_def
  GetGroupData_def BulkDeleteHostsData_def ListHostsData_def
  DeleteHostData_def GetHostData_def RequestHostInventoryRefreshData_def
  GetHostMunkiStateData_def ListHostMunkiSoftwareData_def ListHostOsqueryPoliciesData_def
  ListHostOsqueryReportsData_def ClearHostPrimaryUserData_def SetHostPrimaryUserData_def
  GetHostSantaStateData_def ListHostSantaRulesData_def ListHostSoftwareData_def
  ListLabelsData_def CreateLabelData_def DeleteLabelData_def
  GetLabelData_def UpdateLabelData_def ListMunkiClientResourcesData_def
  CreateMunkiClientResourcesData_def CreateMunkiClientResourcesArchiveUploadData_def DeleteMunkiClientResourcesArchiveUploadData_def
  CreateMunkiClientResourcesBannerUploadData_def DeleteMunkiClientResourcesBannerUploadData_def DeleteMunkiClientResourcesData_def
  GetMunkiClientResourcesData_def UpdateMunkiClientResourcesData_def ListMunkiDistributionPointsData_def
  CreateMunkiDistributionPointData_def ReorderMunkiDistributionPointsData_def DeleteMunkiDistributionPointData_def
  GetMunkiDistributionPointData_def UpdateMunkiDistributionPointData_def RotateMunkiDistributionPointKeyData_def
  ListMunkiIconsData_def CreateMunkiIconUploadData_def CreateMunkiPackageInstallerUploadData_def
  DeleteMunkiPackageInstallerUploadData_def CompleteMunkiPackageInstallerUploadData_def SignMunkiPackageInstallerPartData_def
  BulkDeleteMunkiPackagesData_def ListMunkiPackagesData_def CreateMunkiPackageData_def
  GetMunkiPackageData_def PatchMunkiPackageData_def UpdateMunkiPackageData_def
  BulkDeleteMunkiSoftwareData_def ListMunkiSoftwareData_def CreateMunkiSoftwareData_def
  DeleteMunkiSoftwareData_def GetMunkiSoftwareData_def PatchMunkiSoftwareData_def
  UpdateMunkiSoftwareData_def SetMunkiSoftwareIconData_def ListOsqueryHostStatusHistoryData_def
  CreateLiveQueryData_def CountLiveQueryTargetsData_def DeleteLiveQueryData_def
  StreamLiveQueryData_def BulkDeleteOsqueryPoliciesData_def ListOsqueryPoliciesData_def
  CreateOsqueryPolicyData_def DeleteOsqueryPolicyData_def GetOsqueryPolicyData_def
  UpdateOsqueryPolicyData_def GetOsqueryPolicyRemediationRunData_def GetOsqueryPolicyRemediationSourceData_def
  RunOsqueryPolicyRemediationsData_def ListOsqueryPolicyResultsData_def ListOsqueryPolicyStatusHistoryData_def
  BulkDeleteOsqueryReportsData_def ListOsqueryReportsData_def CreateOsqueryReportData_def
  DeleteOsqueryReportData_def GetOsqueryReportData_def UpdateOsqueryReportData_def
  ListOsqueryReportSnapshotsData_def BulkDeleteSantaConfigurationsData_def ListSantaConfigurationsData_def
  CreateSantaConfigurationData_def ReorderSantaConfigurationsData_def DeleteSantaConfigurationData_def
  GetSantaConfigurationData_def UpdateSantaConfigurationData_def ListSantaEventsData_def
  GetSantaEventData_def ListSantaFileAccessEventsData_def GetSantaFileAccessEventData_def
  BulkDeleteSantaRulesData_def ListSantaRulesData_def CreateSantaRuleData_def
  DeleteSantaRuleData_def GetSantaRuleData_def UpdateSantaRuleData_def
  DeleteSessionData_def GetSessionData_def CreateSessionData_def
  ListSoftwareData_def GetSoftwareData_def ListUsersData_def
  CreateUserData_def ListUserDepartmentsData_def DeleteUserData_def
  GetUserData_def UpdateUserData_def

lemmas error_defs =
  GetAccountErrors_def UpdateAccountErrors_def RevokeAccountApiKeyErrors_def
  RotateAccountApiKeyErrors_def ListActivityErrors_def ListAgentSecretsErrors_def
  CreateAgentSecretErrors_def DeleteAgentSecretErrors_def UpdateAgentSecretErrors_def
  GetDirectorySyncErrors_def TriggerDirectorySyncErrors_def ListGroupsErrors_def
  GetGroupErrors_def BulkDeleteHostsErrors_def ListHostsErrors_def
  DeleteHostErrors_def GetHostErrors_def RequestHostInventoryRefreshErrors_def
  GetHostMunkiStateErrors_def ListHostMunkiSoftwareErrors_def ListHostOsqueryPoliciesErrors_def
  ListHostOsqueryReportsErrors_def ClearHostPrimaryUserErrors_def SetHostPrimaryUserErrors_def
  GetHostSantaStateErrors_def ListHostSantaRulesErrors_def ListHostSoftwareErrors_def
  ListLabelsErrors_def CreateLabelErrors_def DeleteLabelErrors_def
  GetLabelErrors_def UpdateLabelErrors_def ListMunkiClientResourcesErrors_def
  CreateMunkiClientResourcesErrors_def CreateMunkiClientResourcesArchiveUploadErrors_def DeleteMunkiClientResourcesArchiveUploadErrors_def
  CreateMunkiClientResourcesBannerUploadErrors_def DeleteMunkiClientResourcesBannerUploadErrors_def DeleteMunkiClientResourcesErrors_def
  GetMunkiClientResourcesErrors_def UpdateMunkiClientResourcesErrors_def ListMunkiDistributionPointsErrors_def
  CreateMunkiDistributionPointErrors_def ReorderMunkiDistributionPointsErrors_def DeleteMunkiDistributionPointErrors_def
  GetMunkiDistributionPointErrors_def UpdateMunkiDistributionPointErrors_def RotateMunkiDistributionPointKeyErrors_def
  ListMunkiIconsErrors_def CreateMunkiIconUploadErrors_def CreateMunkiPackageInstallerUploadErrors_def
  DeleteMunkiPackageInstallerUploadErrors_def CompleteMunkiPackageInstallerUploadErrors_def SignMunkiPackageInstallerPartErrors_def
  BulkDeleteMunkiPackagesErrors_def ListMunkiPackagesErrors_def CreateMunkiPackageErrors_def
  GetMunkiPackageErrors_def PatchMunkiPackageErrors_def UpdateMunkiPackageErrors_def
  BulkDeleteMunkiSoftwareErrors_def ListMunkiSoftwareErrors_def CreateMunkiSoftwareErrors_def
  DeleteMunkiSoftwareErrors_def GetMunkiSoftwareErrors_def PatchMunkiSoftwareErrors_def
  UpdateMunkiSoftwareErrors_def SetMunkiSoftwareIconErrors_def ListOsqueryHostStatusHistoryErrors_def
  CreateLiveQueryErrors_def CountLiveQueryTargetsErrors_def DeleteLiveQueryErrors_def
  StreamLiveQueryErrors_def BulkDeleteOsqueryPoliciesErrors_def ListOsqueryPoliciesErrors_def
  CreateOsqueryPolicyErrors_def DeleteOsqueryPolicyErrors_def GetOsqueryPolicyErrors_def
  UpdateOsqueryPolicyErrors_def GetOsqueryPolicyRemediationRunErrors_def GetOsqueryPolicyRemediationSourceErrors_def
  RunOsqueryPolicyRemediationsErrors_def ListOsqueryPolicyResultsErrors_def ListOsqueryPolicyStatusHistoryErrors_def
  BulkDeleteOsqueryReportsErrors_def ListOsqueryReportsErrors_def CreateOsqueryReportErrors_def
  DeleteOsqueryReportErrors_def GetOsqueryReportErrors_def UpdateOsqueryReportErrors_def
  ListOsqueryReportSnapshotsErrors_def BulkDeleteSantaConfigurationsErrors_def ListSantaConfigurationsErrors_def
  CreateSantaConfigurationErrors_def ReorderSantaConfigurationsErrors_def DeleteSantaConfigurationErrors_def
  GetSantaConfigurationErrors_def UpdateSantaConfigurationErrors_def ListSantaEventsErrors_def
  GetSantaEventErrors_def ListSantaFileAccessEventsErrors_def GetSantaFileAccessEventErrors_def
  BulkDeleteSantaRulesErrors_def ListSantaRulesErrors_def CreateSantaRuleErrors_def
  DeleteSantaRuleErrors_def GetSantaRuleErrors_def UpdateSantaRuleErrors_def
  DeleteSessionErrors_def GetSessionErrors_def CreateSessionErrors_def
  ListSoftwareErrors_def GetSoftwareErrors_def ListUsersErrors_def
  CreateUserErrors_def ListUserDepartmentsErrors_def DeleteUserErrors_def
  GetUserErrors_def UpdateUserErrors_def

lemmas response_defs =
  GetAccountResponses_def UpdateAccountResponses_def RevokeAccountApiKeyResponses_def
  RotateAccountApiKeyResponses_def ListActivityResponses_def ListAgentSecretsResponses_def
  CreateAgentSecretResponses_def DeleteAgentSecretResponses_def UpdateAgentSecretResponses_def
  GetDirectorySyncResponses_def TriggerDirectorySyncResponses_def ListGroupsResponses_def
  GetGroupResponses_def BulkDeleteHostsResponses_def ListHostsResponses_def
  DeleteHostResponses_def GetHostResponses_def RequestHostInventoryRefreshResponses_def
  GetHostMunkiStateResponses_def ListHostMunkiSoftwareResponses_def ListHostOsqueryPoliciesResponses_def
  ListHostOsqueryReportsResponses_def ClearHostPrimaryUserResponses_def SetHostPrimaryUserResponses_def
  GetHostSantaStateResponses_def ListHostSantaRulesResponses_def ListHostSoftwareResponses_def
  ListLabelsResponses_def CreateLabelResponses_def DeleteLabelResponses_def
  GetLabelResponses_def UpdateLabelResponses_def ListMunkiClientResourcesResponses_def
  CreateMunkiClientResourcesResponses_def CreateMunkiClientResourcesArchiveUploadResponses_def DeleteMunkiClientResourcesArchiveUploadResponses_def
  CreateMunkiClientResourcesBannerUploadResponses_def DeleteMunkiClientResourcesBannerUploadResponses_def DeleteMunkiClientResourcesResponses_def
  GetMunkiClientResourcesResponses_def UpdateMunkiClientResourcesResponses_def ListMunkiDistributionPointsResponses_def
  CreateMunkiDistributionPointResponses_def ReorderMunkiDistributionPointsResponses_def DeleteMunkiDistributionPointResponses_def
  GetMunkiDistributionPointResponses_def UpdateMunkiDistributionPointResponses_def RotateMunkiDistributionPointKeyResponses_def
  ListMunkiIconsResponses_def CreateMunkiIconUploadResponses_def CreateMunkiPackageInstallerUploadResponses_def
  DeleteMunkiPackageInstallerUploadResponses_def CompleteMunkiPackageInstallerUploadResponses_def SignMunkiPackageInstallerPartResponses_def
  BulkDeleteMunkiPackagesResponses_def ListMunkiPackagesResponses_def CreateMunkiPackageResponses_def
  GetMunkiPackageResponses_def PatchMunkiPackageResponses_def UpdateMunkiPackageResponses_def
  BulkDeleteMunkiSoftwareResponses_def ListMunkiSoftwareResponses_def CreateMunkiSoftwareResponses_def
  DeleteMunkiSoftwareResponses_def GetMunkiSoftwareResponses_def PatchMunkiSoftwareResponses_def
  UpdateMunkiSoftwareResponses_def SetMunkiSoftwareIconResponses_def ListOsqueryHostStatusHistoryResponses_def
  CreateLiveQueryResponses_def CountLiveQueryTargetsResponses_def DeleteLiveQueryResponses_def
  StreamLiveQueryResponses_def BulkDeleteOsqueryPoliciesResponses_def ListOsqueryPoliciesResponses_def
  CreateOsqueryPolicyResponses_def DeleteOsqueryPolicyResponses_def GetOsqueryPolicyResponses_def
  UpdateOsqueryPolicyResponses_def GetOsqueryPolicyRemediationRunResponses_def GetOsqueryPolicyRemediationSourceResponses_def
  RunOsqueryPolicyRemediationsResponses_def ListOsqueryPolicyResultsResponses_def ListOsqueryPolicyStatusHistoryResponses_def
  BulkDeleteOsqueryReportsResponses_def ListOsqueryReportsResponses_def CreateOsqueryReportResponses_def
  DeleteOsqueryReportResponses_def GetOsqueryReportResponses_def UpdateOsqueryReportResponses_def
  ListOsqueryReportSnapshotsResponses_def BulkDeleteSantaConfigurationsResponses_def ListSantaConfigurationsResponses_def
  CreateSantaConfigurationResponses_def ReorderSantaConfigurationsResponses_def DeleteSantaConfigurationResponses_def
  GetSantaConfigurationResponses_def UpdateSantaConfigurationResponses_def ListSantaEventsResponses_def
  GetSantaEventResponses_def ListSantaFileAccessEventsResponses_def GetSantaFileAccessEventResponses_def
  BulkDeleteSantaRulesResponses_def ListSantaRulesResponses_def CreateSantaRuleResponses_def
  DeleteSantaRuleResponses_def GetSantaRuleResponses_def UpdateSantaRuleResponses_def
  DeleteSessionResponses_def GetSessionResponses_def CreateSessionResponses_def
  ListSoftwareResponses_def GetSoftwareResponses_def ListUsersResponses_def
  CreateUserResponses_def ListUserDepartmentsResponses_def DeleteUserResponses_def
  GetUserResponses_def UpdateUserResponses_def

lemmas declared_tables =
  declared_1_def declared_2_def declared_3_def declared_4_def
  declared_5_def declared_6_def declared_7_def declared_8_def
  declared_9_def declared_10_def


section \<open>Looking an operation up\<close>

lemmas declared_list = declared_def [unfolded declared_tables append_Cons append_Nil]

lemma declared_names: "map fst declared = map fst sdk"
  by (simp only: declared_list sdk_list list.map fst_conv)

lemma declared_lookup_all: "declared = xs \<Longrightarrow> list_all (\<lambda>(n, t). map_of declared n = Some t) xs"
  using sdk_names declared_names by (auto simp: list_all_iff intro: map_of_is_SomeI)

lemmas declared_lookup = declared_lookup_all [OF declared_list, unfolded list.pred_inject prod.case]

section \<open>The SDK agrees with the declarations\<close>

fun is_array :: "ts_type \<Rightarrow> bool" where
  "is_array (TArray t) \<longleftrightarrow> True"
| "is_array t \<longleftrightarrow> False"

text \<open>Same URL; a body is sent where one is declared; the path has the declared ids; the unexploded lists are the lists.\<close>

definition agrees :: "sdk_op \<Rightarrow> op_data \<Rightarrow> bool" where
  "agrees op d \<longleftrightarrow>
     op_url op = od_url d \<and> (op_json op \<longleftrightarrow> od_body d \<noteq> None) \<and> (op_method op = GET \<longrightarrow> od_body d = None) \<and>
     hole_names (template (op_url op)) = map fst (od_path d) \<and>
     list_all (\<lambda>(k, p, t). p = Required \<and> t = TNumber) (od_path d) \<and>
     coalesce (op_lists op) [] = map fst (filter (\<lambda>(k, p, t). is_array t) (od_query d))"

lemma operations_agree: "list_all2 (\<lambda>(n, op) (n', t). n = n' \<and> agrees op (ot_data t)) sdk declared"
  unfolding sdk_list declared_list by (simp add: agrees_def data_defs url_holes one_of_def)

section \<open>Requests give what is declared\<close>

definition text_type :: "ts_type \<Rightarrow> bool" where
  "text_type t \<longleftrightarrow> t = TString \<or> literals t \<noteq> []"

text \<open>
  A parameter has the kind of its declared type; which of the literals of a union a text is, is left to the
  module that passes it.
\<close>

definition param_fits :: "ts_type \<Rightarrow> param \<Rightarrow> bool" where
  "param_fits t v =
     (case v of
        PUndef \<Rightarrow> True
      | PStr s \<Rightarrow> text_type t
      | PNum n \<Rightarrow> t = TNumber
      | PBool b \<Rightarrow> t = TBoolean
      | PInts ns \<Rightarrow> t = TArray TNumber
      | PStrs ss \<Rightarrow> (case t of TArray u \<Rightarrow> text_type u | _ \<Rightarrow> False))"

definition declared_param :: "op_data \<Rightarrow> js_string \<times> param \<Rightarrow> bool" where
  "declared_param d kv =
     (case map_of (od_query d) (fst kv) of
        None \<Rightarrow> False
      | Some (p, t) \<Rightarrow> param_fits t (snd kv) \<and> (p = Required \<longrightarrow> snd kv \<noteq> PUndef))"

definition request_fits :: "op_data \<Rightarrow> api_request \<Rightarrow> bool" where
  "request_fits d r \<longleftrightarrow>
     list_all (declared_param d) (coalesce (rq_query r) []) \<and>
     list_all (\<lambda>(k, p, t). p = Required \<longrightarrow> k \<in> fst ` set (coalesce (rq_query r) [])) (od_query d) \<and>
     map fst (rq_path r) = map fst (od_path d) \<and> (rq_body r \<noteq> None \<longleftrightarrow> od_body d \<noteq> None)"

definition fits_declared :: "api_request \<Rightarrow> bool" where
  "fits_declared r \<longleftrightarrow>
     (case map_of declared (rq_operation r) of None \<Rightarrow> False | Some t \<Rightarrow> request_fits (ot_data t) r)"

lemma param_fits_simps [simp]:
  "param_fits t PUndef" "param_fits t (PStr s) = text_type t" "param_fits t (PNum n) = (t = TNumber)"
  "param_fits t (PBool b) = (t = TBoolean)" "param_fits t (PInts ns) = (t = TArray TNumber)"
  "param_fits (TArray u) (PStrs ss) = text_type u"
  "text_type t \<Longrightarrow> param_fits t (opt_str v)" "param_fits TNumber (opt_int w)"
  "text_type t \<Longrightarrow> param_fits (TArray t) (opt_strs vs)" "param_fits (TArray TNumber) (opt_ints ks)"
  by (auto simp: param_fits_def opt_str_def opt_int_def opt_strs_def opt_ints_def split: option.splits)

lemma text_type_simps [simp]: "text_type TString" "text_type (one_of ss) \<longleftrightarrow> ss \<noteq> []"
  by (auto simp: text_type_def) (simp add: one_of_def)

lemmas declared_facts =
  fits_declared_def declared_lookup request_fits_def declared_param_def data_defs
  spread_base_def base_params_def ids_query_def

lemma app_query_fits:
  "app_query q \<Longrightarrow> rq_operation (qo_request q) \<noteq> ''listActivity'' \<Longrightarrow> fits_declared (qo_request q)"
proof (induction rule: app_query.induct)
  case (q_usePolicyRemediationRun x y)
  show ?case by (simp add: app_query_defs declared_facts)
qed (simp_all add: app_query_defs query_params_defs declared_facts Let_def)

lemma app_request_fits:
  "app_request r \<Longrightarrow> rq_operation r \<noteq> ''listActivity'' \<Longrightarrow> fits_declared r"
proof (induction rule: app_request.induct)
  case (r_query q)
  then show ?case using app_query_fits by blast
next
  case (r_activity ps)
  then show ?case by (simp add: useActivity_def)
next
  case (m_useRunPolicyRemediations v)
  show ?case by (cases v; cases "snd v") (simp_all add: useRunPolicyRemediations_def declared_facts)
next
  case (m_useSaveMunkiClientResources v)
  show ?case
    by (cases v; cases "fst v") (simp_all add: useSaveMunkiClientResources_def saveClientResources_def declared_facts)
next
  case (u_banner_done intent v)
  obtain f i body where "v = (f, i, body)" by (cases v)
  then show ?case
    by (cases i) (simp_all add: useUploadAndSaveMunkiClientResourcesBanner_def saveClientResources_def declared_facts)
next
  case (u_archive_done intent v)
  obtain f i where "v = (f, i)" by (cases v)
  then show ?case
    by (cases i) (simp_all add: useUploadAndSaveMunkiClientResourcesArchive_def saveClientResources_def declared_facts)
qed (auto simp: mutation_defs request_defs declared_facts case_prod_beta)

section \<open>Answers and errors\<close>

fun is_object :: "ts_type \<Rightarrow> bool" where
  "is_object (TObject fs) \<longleftrightarrow> True"
| "is_object t \<longleftrightarrow> False"

lemma is_object_value: "is_object t \<Longrightarrow> conforms strict t j \<Longrightarrow> \<exists>kvs. j = JObj kvs"
  by (cases t; cases j) simp_all

fun has_content :: "ts_type \<Rightarrow> bool" where
  "has_content TVoid \<longleftrightarrow> False"
| "has_content t \<longleftrightarrow> True"

lemma response_shapes:
  "has_content Account_type"
  "has_content PageActivityEvent_type"
  "has_content AgentSecret_type"
  "has_content SyncStatus_type"
  "has_content PageGroup_type"
  "has_content Group_type"
  "has_content PageHost_type"
  "has_content HostDetail_type"
  "has_content MunkiHostState_type"
  "has_content PageHostManifestSoftware_type"
  "has_content PagePolicyHostStatus_type"
  "has_content PageReportSnapshot_type"
  "has_content SantaHostState_type"
  "has_content PageRuleStatus_type"
  "has_content PageHostSoftware_type"
  "has_content PageLabel_type"
  "has_content Label_type"
  "has_content PageMunkiClientResources_type"
  "has_content MunkiClientResources_type"
  "has_content MunkiUploadTarget_type"
  "has_content PageDistributionPoint_type"
  "has_content MunkiRevealedDistributionPoint_type"
  "has_content MunkiDistributionPointDetail_type"
  "has_content MunkiDistributionPointKeyBody_type"
  "has_content PageMunkiObjectView_type"
  "has_content MunkiObjectView_type"
  "has_content UploadTarget_type"
  "has_content PagePackage_type"
  "has_content MunkiPackage_type"
  "has_content PageSoftware_type"
  "has_content MunkiSoftwareDetail_type"
  "has_content OsqueryHandle_type"
  "has_content OsqueryLiveQueryTargetCountOutputBody_type"
  "has_content PagePolicy_type"
  "has_content OsqueryPolicy_type"
  "has_content OsqueryPolicyRemediationRun_type"
  "has_content OsqueryPolicyRemediationSource_type"
  "has_content OsqueryPolicyRemediationBatchSummary_type"
  "has_content PageReport_type"
  "has_content OsqueryReport_type"
  "has_content PageConfiguration_type"
  "has_content SantaConfiguration_type"
  "has_content PageExecutionEvent_type"
  "has_content SantaExecutionEvent_type"
  "has_content PageFileAccessEvent_type"
  "has_content SantaFileAccessEvent_type"
  "has_content PageRule_type"
  "has_content SantaRule_type"
  "has_content SessionBody_type"
  "has_content Principal_type"
  "has_content PageSoftwareTitle_type"
  "has_content SoftwareTitle_type"
  "has_content PageUser_type"
  "has_content User_type"
  "has_content PageDepartment_type"
  by (simp add: Account_type_def,
    simp add: PageActivityEvent_type_def,
    simp add: AgentSecret_type_def,
    simp add: SyncStatus_type_def,
    simp add: PageGroup_type_def,
    simp add: Group_type_def,
    simp add: PageHost_type_def,
    simp add: HostDetail_type_def,
    simp add: MunkiHostState_type_def,
    simp add: PageHostManifestSoftware_type_def,
    simp add: PagePolicyHostStatus_type_def,
    simp add: PageReportSnapshot_type_def,
    simp add: SantaHostState_type_def,
    simp add: PageRuleStatus_type_def,
    simp add: PageHostSoftware_type_def,
    simp add: PageLabel_type_def,
    simp add: Label_type_def,
    simp add: PageMunkiClientResources_type_def,
    simp add: MunkiClientResources_type_def,
    simp add: MunkiUploadTarget_type_def,
    simp add: PageDistributionPoint_type_def,
    simp add: MunkiRevealedDistributionPoint_type_def,
    simp add: MunkiDistributionPointDetail_type_def,
    simp add: MunkiDistributionPointKeyBody_type_def,
    simp add: PageMunkiObjectView_type_def,
    simp add: MunkiObjectView_type_def,
    simp add: UploadTarget_type_def,
    simp add: PagePackage_type_def,
    simp add: MunkiPackage_type_def,
    simp add: PageSoftware_type_def,
    simp add: MunkiSoftwareDetail_type_def,
    simp add: OsqueryHandle_type_def,
    simp add: OsqueryLiveQueryTargetCountOutputBody_type_def,
    simp add: PagePolicy_type_def,
    simp add: OsqueryPolicy_type_def,
    simp add: OsqueryPolicyRemediationRun_type_def,
    simp add: OsqueryPolicyRemediationSource_type_def,
    simp add: OsqueryPolicyRemediationBatchSummary_type_def,
    simp add: PageReport_type_def,
    simp add: OsqueryReport_type_def,
    simp add: PageConfiguration_type_def,
    simp add: SantaConfiguration_type_def,
    simp add: PageExecutionEvent_type_def,
    simp add: SantaExecutionEvent_type_def,
    simp add: PageFileAccessEvent_type_def,
    simp add: SantaFileAccessEvent_type_def,
    simp add: PageRule_type_def,
    simp add: SantaRule_type_def,
    simp add: SessionBody_type_def,
    simp add: Principal_type_def,
    simp add: PageSoftwareTitle_type_def,
    simp add: SoftwareTitle_type_def,
    simp add: PageUser_type_def,
    simp add: User_type_def,
    simp add: PageDepartment_type_def)

text \<open>An operation has one response, a success; without content exactly for 204.\<close>

definition declared_response_ok :: "int \<times> ts_type \<Rightarrow> bool" where
  "declared_response_ok r \<longleftrightarrow>
     (case r of
        (status, t) \<Rightarrow>
          status \<in> {200, 201, 202} \<and> has_content t \<or> status = 204 \<and> t = TVoid)"

lemma responses_ok: "list_all (\<lambda>(n, t). length (ot_responses t) = 1 \<and> list_all declared_response_ok (ot_responses t)) declared"
  unfolding declared_list by (simp add: declared_response_ok_def response_defs response_shapes)

text \<open>Every error is a problem; a secured operation declares that its session may be refused.\<close>

definition declared_error_ok :: "int option \<times> ts_type \<Rightarrow> bool" where
  "declared_error_ok e \<longleftrightarrow> snd e = ErrorModel_type \<and> (case fst e of None \<Rightarrow> True | Some status \<Rightarrow> 400 \<le> status)"

lemma errors_ok: "list_all (\<lambda>(n, t). list_all declared_error_ok (ot_errors t)) declared"
  unfolding declared_list by (simp add: declared_error_ok_def error_defs)

lemma refusals_declared:
  "list_all2 (\<lambda>(n, op) (n', t). op_secured op \<longrightarrow> Some 401 \<in> fst ` set (ot_errors t)) sdk declared"
  unfolding sdk_list declared_list by (simp add: error_defs)

text \<open>All of it, for one operation.\<close>

definition declares :: "sdk_op \<Rightarrow> op_types \<Rightarrow> bool" where
  "declares op t \<longleftrightarrow>
     agrees op (ot_data t) \<and> (op_secured op \<longrightarrow> Some 401 \<in> fst ` set (ot_errors t)) \<and>
     list_all declared_error_ok (ot_errors t) \<and> length (ot_responses t) = 1 \<and> list_all declared_response_ok (ot_responses t)"

lemma operations_declare: "list_all2 (\<lambda>(n, op) (n', t). n = n' \<and> declares op t) sdk declared"
proof (rule list_all2_all_nthI)
  show len: "length sdk = length declared" using operations_agree by (rule list_all2_lengthD)
  fix k
  assume k: "k < length sdk"
  obtain n op n' t where e: "sdk ! k = (n, op)" "declared ! k = (n', t)" by (cases "sdk ! k"; cases "declared ! k")
  have "n = n' \<and> agrees op (ot_data t)" using list_all2_nthD [OF operations_agree k] by (simp add: e)
  moreover have "op_secured op \<longrightarrow> Some 401 \<in> fst ` set (ot_errors t)"
    using list_all2_nthD [OF refusals_declared k] by (simp add: e)
  moreover have "(n', t) \<in> set declared" using k by (metis e(2) len nth_mem)
  then have "list_all declared_error_ok (ot_errors t)" "length (ot_responses t) = 1 \<and> list_all declared_response_ok (ot_responses t)"
    using errors_ok responses_ok by (auto simp: list_all_iff)
  ultimately show "(case sdk ! k of (n, op) \<Rightarrow> \<lambda>(n', t). n = n' \<and> declares op t) (declared ! k)"
    by (simp add: e declares_def)
qed

lemma declared_operation:
  assumes "map_of declared name = Some t"
  obtains op where "map_of sdk name = Some op" and "declares op t"
proof -
  have d: "distinct (map fst sdk)" by (rule sdk_names)
  from assms have "(name, t) \<in> set declared" by (rule map_of_SomeD)
  then obtain k where k: "k < length declared" "declared ! k = (name, t)" by (auto simp: in_set_conv_nth)
  moreover from this have "k < length sdk" using list_all2_lengthD [OF operations_declare] by simp
  ultimately obtain op where op: "sdk ! k = (name, op)" "declares op t"
    using list_all2_nthD [OF operations_declare, of k] by (cases "sdk ! k") simp
  moreover have "k < length sdk" using k list_all2_lengthD [OF operations_declare] by simp
  ultimately have "map_of sdk name = Some op" using d by (metis map_of_is_SomeI nth_mem)
  then show ?thesis using op(2) by (rule that)
qed

text \<open>A query that takes 404 for an absent record asks an operation that declares it.\<close>

lemma absence_declared:
  "app_query q \<Longrightarrow> qo_null_on_404 q \<Longrightarrow>
     \<exists>t. map_of declared (rq_operation (qo_request q)) = Some t \<and> Some 404 \<in> fst ` set (ot_errors t)"
  by (induction rule: app_query.induct) (simp_all add: app_query_defs declared_lookup error_defs Let_def)

text \<open>What is read of a problem is what the problem says.\<close>

definition text_read :: "js_string \<Rightarrow> json \<Rightarrow> js_string option \<Rightarrow> bool" where
  "text_read k j s \<longleftrightarrow> (\<exists>kvs. j = JObj kvs \<and> json_get k kvs = map_option JStr s)"

definition problem_read :: "json \<Rightarrow> error_model \<Rightarrow> bool" where
  "problem_read j m \<longleftrightarrow>
     text_read ''detail'' j (em_detail m) \<and> text_read ''title'' j (em_title m) \<and>
     (\<exists>kvs. j = JObj kvs \<and>
       (case em_errors m of
          None \<Rightarrow> json_get ''errors'' kvs = None
        | Some ds \<Rightarrow> \<exists>js. json_get ''errors'' kvs = Some (JArr js) \<and>
            list_all2 (\<lambda>j d. text_read ''location'' j (ed_location d) \<and> text_read ''message'' j (ed_message d)) js ds))"

lemma text_property:
  assumes "conforms False (TObject fs) j" and "(k, p, TString) \<in> set fs"
  shows "text_read k j (json_text_at k j)"
proof -
  obtain kvs where j: "j = JObj kvs" using is_object_value [OF _ assms(1)] by auto
  have "case json_get k kvs of None \<Rightarrow> p = Optional | Some v \<Rightarrow> conforms False TString v"
    using conforms_property assms unfolding j by blast
  then show ?thesis by (auto simp: j text_read_def json_text_at_def split: option.splits json.splits)
qed

lemma problem_is_read:
  assumes "conforms False ErrorModel_type j"
  shows "problem_read j (error_model_of j)"
proof -
  note c = assms [unfolded ErrorModel_type_def]
  obtain kvs where j: "j = JObj kvs" using is_object_value [OF _ c] by auto
  have "text_read ''detail'' j (json_text_at ''detail'' j)" "text_read ''title'' j (json_text_at ''title'' j)"
    by (rule text_property [OF c]; simp)+
  moreover have e: "case json_get ''errors'' kvs of None \<Rightarrow> Optional = Optional | Some v \<Rightarrow> conforms False (TArray ErrorDetail_type) v"
    by (rule conforms_property [OF c [unfolded j]]) simp
  have detail: "text_read ''location'' d (json_text_at ''location'' d) \<and> text_read ''message'' d (json_text_at ''message'' d)"
    if "conforms False ErrorDetail_type d" for d
    using that unfolding ErrorDetail_type_def by (intro conjI) (erule text_property, simp)+
  ultimately show ?thesis
    using e unfolding problem_read_def error_model_of_def
    by (auto simp: j list_all2_conv_all_nth list_all_length split: option.splits json.splits intro: detail)
qed

text \<open>What is answered as declared.\<close>

lemma declared_answer:
  assumes "map_of declared name = Some t" and "(status, ty) \<in> set (ot_responses t)"
    and "conforms False ty j" and "safe_json j"
  shows "unwrap (Inr (answered pf (json_answer number status j))) = Inr (Some (DJson j))"
proof -
  from assms(1) obtain op where "declares op t" by (rule declared_operation)
  with assms(2) have "declared_response_ok (status, ty)" by (auto simp: declares_def list_all_iff)
  with assms(3) have "200 \<le> status" "status \<le> 299" "status \<noteq> 204" by (auto simp: declared_response_ok_def)
  with assms(4) show ?thesis by (rule json_answer_data)
qed

lemma declared_problem:
  assumes "map_of declared name = Some t" and "(Some status, ty) \<in> set (ot_errors t)"
    and "conforms False ty j" and "safe_json j"
  shows "problem_read j (error_model_of j)" and "unwrap (Inr (answered pf (json_answer number status j))) =
    Inl (ApiError status (describeError (Some (error_model_of j)) status) (Some (error_model_of j)))"
proof -
  from assms(1) obtain op where "declares op t" by (rule declared_operation)
  with assms(2) have "declared_error_ok (Some status, ty)" by (auto simp: declares_def list_all_iff)
  then have ty: "ty = ErrorModel_type" and "400 \<le> status" by (auto simp: declared_error_ok_def)
  from assms(3) have model: "conforms False ErrorModel_type j" by (simp add: ty)
  show "problem_read j (error_model_of j)" by (rule problem_is_read) (rule model)
  have "truthy_json j" using model by (auto simp: ErrorModel_type_def truthy_json_def split: json.splits)
  with assms(4) \<open>400 \<le> status\<close> show "unwrap (Inr (answered pf (json_answer number status j))) =
    Inl (ApiError status (describeError (Some (error_model_of j)) status) (Some (error_model_of j)))"
    by (intro problem_message) simp_all
qed

end
