(* ===== verification/Bodies.thy ===== *)
theory Bodies
  imports ApiOperations LabelForm UserForm PointForm OsqueryForms SantaForms MunkiSoftwareForm
begin

text \<open>
  The bodies the forms send, as the JSON \<open>JSON.stringify\<close> makes of them, against the types the API declares
  for the operations they are sent to.

  Main result: whatever passes a form is sent as a value of the declared type of its operation: every required
  property is there, no other is, every enumeration is one the API knows, and no number is one that JSON turns
  into \<open>null\<close>.
\<close>

section \<open>Objects\<close>

text \<open>\<open>JSON.stringify\<close> leaves out a property that is \<open>undefined\<close>, and prints a number that is not finite as \<open>null\<close>.\<close>

definition body_object :: "(js_string \<times> json option) list \<Rightarrow> json" where
  "body_object ps = JObj (List.map_filter (\<lambda>(k, v). map_option (Pair k) v) ps)"

definition num_json :: "js_num \<Rightarrow> json" where
  "num_json n = (case n of Fin q \<Rightarrow> JNum n | _ \<Rightarrow> JNull)"

abbreviation int_json :: "int \<Rightarrow> json" where
  "int_json i \<equiv> num_json (num_of_int i)"

abbreviation texts_json :: "js_string list \<Rightarrow> json" where
  "texts_json ss \<equiv> JArr (map JStr ss)"

lemma num_json_Fin [simp]: "num_json (Fin q) = JNum (Fin q)"
  by (simp add: num_json_def)

lemma body_keys: "fst ` set (List.map_filter (\<lambda>(k, v). map_option (Pair k) v) ps) \<subseteq> set (map fst ps)"
proof (induction ps)
  case (Cons p ps)
  then show ?case by (cases p; cases "snd p") (auto simp: List.map_filter_simps)
qed (simp add: List.map_filter_simps)

lemma body_get:
  "distinct (map fst ps) \<Longrightarrow>
     json_get k (List.map_filter (\<lambda>(k, v). map_option (Pair k) v) ps) = coalesce (map_of ps k) None"
proof (induction ps)
  case (Cons p ps)
  obtain a v where p: "p = (a, v)" by (cases p)
  with Cons.prems have a: "a \<notin> fst ` set ps" by simp
  then have "a \<notin> fst ` set (List.map_filter (\<lambda>(k, v). map_option (Pair k) v) ps)"
    using body_keys [of ps] by auto
  then have none: "map_of (rev (List.map_filter (\<lambda>(k, v). map_option (Pair k) v) ps)) a = None"
    by (simp add: map_of_eq_None_iff)
  have "map_of ps a = None" using a by (simp add: map_of_eq_None_iff)
  with Cons p none show ?case
    by (cases v; cases "k = a") (simp_all add: json_get_def List.map_filter_simps map_add_def split: option.splits)
qed (simp add: json_get_def List.map_filter_simps )

text \<open>An object of a body has a type if every declared property is there and right, and no other is given.\<close>

definition field_fits :: "presence \<Rightarrow> ts_type \<Rightarrow> json option \<Rightarrow> bool" where
  "field_fits p t v \<longleftrightarrow> (case v of None \<Rightarrow> p = Optional | Some j \<Rightarrow> conforms True t j)"

lemma field_fits_simps [simp]:
  "field_fits p t None \<longleftrightarrow> p = Optional" "field_fits p t (Some j) \<longleftrightarrow> conforms True t j"
  "field_fits p TString (map_option JStr s) \<longleftrightarrow> (s = None \<longrightarrow> p = Optional)"
  by (simp_all add: field_fits_def split: option.splits)

lemma field_fits_map: "field_fits Optional t (map_option f v) \<longleftrightarrow> (\<forall>x. v = Some x \<longrightarrow> conforms True t (f x))"
  by (auto simp: field_fits_def split: option.splits)

lemma body_conforms:
  assumes "distinct (map fst ps)"
    and "list_all (\<lambda>(k, p, t). field_fits p t (coalesce (map_of ps k) None)) fs"
    and "set (map fst ps) \<subseteq> set (map fst fs)"
  shows "conforms True (TObject fs) (body_object ps)"
proof -
  have "k \<in> set (map fst fs)" if "(k, v) \<in> set (List.map_filter (\<lambda>(k, v). map_option (Pair k) v) ps)" for k v
  proof -
    from that have "k \<in> fst ` set (List.map_filter (\<lambda>(k, v). map_option (Pair k) v) ps)" by (rule image_eqI [rotated]) simp
    with body_keys [of ps] assms(3) show ?thesis by blast
  qed
  then show ?thesis
    using assms(2) by (auto simp: body_object_def body_get [OF assms(1)] list_all_iff field_fits_def)
qed

lemma texts_conform [simp]:
  "list_all (conforms True TString) (map JStr ss)"
  "list_all (conforms True (one_of vs)) (map JStr ss) \<longleftrightarrow> set ss \<subseteq> set vs"
  by (auto simp: list_all_iff)

section \<open>Targets\<close>

definition ref_json :: "label_ref \<Rightarrow> json" where
  "ref_json r = body_object [(''label_id'', Some (int_json (lr_label_id r)))]"

definition targets_json :: "('a \<Rightarrow> json) \<Rightarrow> 'a list \<Rightarrow> label_ref list \<Rightarrow> json" where
  "targets_json row include exclude =
     body_object [(''include'', Some (JArr (map row include))), (''exclude'', Some (JArr (map ref_json exclude)))]"

lemma ref_conforms: "conforms True LabelRef_type (ref_json r)"
  unfolding LabelRef_type_def ref_json_def by (rule body_conforms) simp_all

lemma targets_conform:
  assumes "\<forall>r \<in> set include. conforms True t (row r)"
  shows "conforms True (TObject [(''exclude'', Required, TArray LabelRef_type), (''include'', Required, TArray t)])
    (targets_json row include exclude)"
  unfolding targets_json_def
  by (rule body_conforms) (use assms in \<open>auto simp: list_all_iff ref_conforms\<close>)

section \<open>Labels\<close>

definition criteria_json :: "label_criteria \<Rightarrow> json" where
  "criteria_json c =
     body_object [(''attribute'', Some (JStr (lcr_attribute c))), (''values'', Some (texts_json (lcr_values c)))]"

definition label_json :: "label_mutation \<Rightarrow> json" where
  "label_json m =
     body_object
       [(''name'', Some (JStr (lm_name m))), (''description'', Some (JStr (lm_description m))),
        (''label_membership_type'', Some (JStr (lm_membership m))), (''query'', map_option JStr (lm_query m)),
        (''host_ids'', map_option (\<lambda>is. JArr (map int_json is)) (lm_host_ids m)),
        (''criteria'', map_option criteria_json (lm_criteria m))]"

lemma criteria_conforms:
  assumes "lcr_attribute c \<in> {''user_department'', ''directory_group'', ''user''}"
  shows "conforms True Criteria_type (criteria_json c)"
  unfolding Criteria_type_def criteria_json_def
  by (rule body_conforms) (use assms in \<open>auto simp: list_all_iff\<close>)

lemma label_body:
  assumes "toBody f = Inr m"
  shows "conforms True LabelMutation_type (label_json m)"
proof -
  have ok: "label_form_ok f" using assms by (simp add: toBody_def label_issues_empty split: if_splits)
  with assms have m: "lm_membership m \<in> {''dynamic'', ''manual'', ''derived''}"
    "\<And>c. lm_criteria m = Some c \<Longrightarrow> lcr_attribute c \<in> {''user_department'', ''directory_group'', ''user''}"
    by (auto simp: toBody_def label_issues_empty label_output_def label_form_ok_def Let_def split: if_splits)
  show ?thesis
    unfolding LabelMutation_type_def label_json_def
    by (rule body_conforms)
      (use m in \<open>auto simp: list_all_iff criteria_conforms field_fits_map\<close>)
qed

section \<open>Users\<close>

definition user_create_json :: "user_create \<Rightarrow> json" where
  "user_create_json m =
     body_object
       [(''email'', Some (JStr (ucr_email m))), (''name'', Some (JStr (ucr_name m))),
        (''role'', Some (JStr (ucr_role m))), (''password'', Some (JStr (ucr_password m)))]"

definition user_json :: "user_mutation \<Rightarrow> json" where
  "user_json m =
     body_object
       [(''name'', Some (JStr (um_name m))), (''role'', map_option JStr (um_role m)),
        (''password'', map_option JStr (um_password m))]"

lemma user_create_body:
  assumes "submit_user_create email f = Inr m"
  shows "conforms True UserCreate_type (user_create_json m)"
  unfolding UserCreate_type_def user_create_json_def
  by (rule body_conforms) (use created_user [OF assms] in \<open>auto simp: USER_ROLE_VALUES_def\<close>)

lemma user_body_role:
  assumes "submit_user (user, f) = Inr (source, m)"
  shows "um_role m \<in> {None, Some ''admin'', Some ''viewer''}"
  using assms
  by (auto simp: submit_user_def user_issues_empty user_body_def userMutationRole_def USER_ACCESS_ROLE_VALUES_def
      USER_ROLE_VALUES_def Let_def split: if_splits)

lemma user_update_body:
  assumes "submit_user (user, f) = Inr (source, m)"
  shows "conforms True UserMutation_type (user_json m)"
  unfolding UserMutation_type_def user_json_def
  by (rule body_conforms) (use user_body_role [OF assms] in \<open>auto simp: field_fits_map\<close>)

section \<open>Distribution points\<close>

definition point_json :: "point_mutation \<Rightarrow> json" where
  "point_json m =
     body_object
       [(''name'', Some (JStr (dpm_name m))), (''enabled'', Some (JBool (dpm_enabled m))),
        (''client_base_url'', Some (JStr (dpm_client_base_url m))),
        (''client_cidrs'', Some (texts_json (dpm_client_cidrs m)))]"

lemma point_body: "conforms True MunkiDistributionPointMutation_type (point_json m)"
  unfolding MunkiDistributionPointMutation_type_def point_json_def
  by (rule body_conforms) (simp_all add: list_all_iff)

section \<open>Policies and reports\<close>

definition remediation_json :: "remediation_mutation \<Rightarrow> json" where
  "remediation_json r =
     body_object [(''script'', Some (JStr (prm_script r))), (''automatic'', Some (JBool (prm_automatic r)))]"

definition policy_json :: "policy_mutation \<Rightarrow> json" where
  "policy_json m =
     body_object
       [(''name'', Some (JStr (opm_name m))), (''description'', map_option JStr (opm_description m)),
        (''resolution'', map_option JStr (opm_resolution m)), (''query'', Some (JStr (opm_query m))),
        (''targets'', Some (targets_json ref_json (lts_include (opm_targets m)) (lts_exclude (opm_targets m)))),
        (''remediation'', map_option remediation_json (opm_remediation m))]"

definition report_json :: "report_mutation \<Rightarrow> json" where
  "report_json m =
     body_object
       [(''name'', Some (JStr (orm_name m))), (''description'', map_option JStr (orm_description m)),
        (''query'', Some (JStr (orm_query m))),
        (''min_osquery_version'', map_option JStr (orm_min_osquery_version m)),
        (''schedule_interval'', map_option num_json (orm_schedule_interval m)),
        (''targets'', Some (targets_json ref_json (lts_include (orm_targets m)) (lts_exclude (orm_targets m))))]"

lemmas label_targets_conform = targets_conform [where t = LabelRef_type and row = ref_json, OF ballI, OF ref_conforms]

lemma remediation_conforms: "conforms True OsqueryPolicyRemediationMutation_type (remediation_json r)"
  unfolding OsqueryPolicyRemediationMutation_type_def remediation_json_def by (rule body_conforms) simp_all

lemma policy_body: "conforms True OsqueryPolicyMutation_type (policy_json m)"
proof -
  have "conforms True OsqueryPolicyTargets_type
      (targets_json ref_json (lts_include (opm_targets m)) (lts_exclude (opm_targets m)))"
    unfolding OsqueryPolicyTargets_type_def by (rule label_targets_conform)
  then show ?thesis
    unfolding OsqueryPolicyMutation_type_def policy_json_def
    by (intro body_conforms) (simp_all add: remediation_conforms field_fits_map)
qed

lemma report_body:
  assumes "submit_report f = Inr m"
  shows "conforms True OsqueryReportMutation_type (report_json m)"
proof -
  have "conforms True OsqueryReportTargets_type
      (targets_json ref_json (lts_include (orm_targets m)) (lts_exclude (orm_targets m)))"
    unfolding OsqueryReportTargets_type_def by (rule label_targets_conform)
  moreover have "\<exists>q. n = Fin q" if "orm_schedule_interval m = Some n" for n
    using assms that
    by (auto simp: submit_report_def reportFormSchema_def trimReport_def issue_simps split: if_splits)
  ultimately show ?thesis
    unfolding OsqueryReportMutation_type_def report_json_def
    by (intro body_conforms) (auto simp: field_fits_map)
qed

section \<open>Santa rules and configurations\<close>

text \<open>The choices of the selects, which the enumerations of the schemas check.\<close>

definition rule_choices :: "rule_form \<Rightarrow> bool" where
  "rule_choices f \<longleftrightarrow> (\<forall>row \<in> set (rf_include f). rif_policy row \<in> set POLICY_VALUES)"

definition configuration_choices :: "configuration_form \<Rightarrow> bool" where
  "configuration_choices f \<longleftrightarrow>
     cf_client_mode f \<in> set CLIENT_MODE_VALUES \<and>
     cf_override_file_access_action f \<in> set FILE_ACCESS_ACTION_VALUES \<and>
     cf_removable_media_action f \<in> set MEDIA_ACTION_VALUES \<and>
     cf_encrypted_removable_media_action f \<in> set MEDIA_ACTION_VALUES"

definition include_json :: "santa_include \<Rightarrow> json" where
  "include_json row =
     body_object
       [(''policy'', Some (JStr (si_policy row))), (''cel_expression'', map_option JStr (si_cel_expression row)),
        (''label_id'', Some (int_json (si_label_id row)))]"

definition rule_json :: "santa_rule_mutation \<Rightarrow> json" where
  "rule_json m =
     body_object
       [(''rule_type'', Some (JStr (srm_rule_type m))), (''identifier'', Some (JStr (srm_identifier m))),
        (''name'', Some (JStr (srm_name m))), (''description'', map_option JStr (srm_description m)),
        (''custom_message'', map_option JStr (srm_custom_message m)),
        (''custom_url'', map_option JStr (srm_custom_url m)),
        (''targets'', Some (targets_json include_json (srm_include m) (srm_exclude m)))]"

lemma include_conforms:
  assumes "si_policy row \<in> set POLICY_VALUES"
  shows "conforms True SantaRuleInclude_type (include_json row)"
  unfolding SantaRuleInclude_type_def include_json_def
  by (rule body_conforms) (use assms in \<open>auto simp: POLICY_VALUES_def\<close>)

lemma map_throw_policies:
  "map_throw includeBody rows = Inr ms \<Longrightarrow> map si_policy ms = map rif_policy rows"
  by (induction rows arbitrary: ms) (auto simp: includeBody_def split: sum.splits option.splits)

lemma rule_body:
  assumes "rule_form_ok parse_url check f" and "rule_choices f" and "submit_rule f = Inr m"
  shows "conforms True SantaRuleMutation_type (rule_json m)"
proof -
  from assms(3) obtain rows where rows: "map_throw includeBody (rf_include (rule_output f)) = Inr rows"
    and m: "srm_include m = rows" "srm_rule_type m = rf_rule_type f"
    by (auto simp: submit_rule_def ruleBody_def rule_output_def split: sum.splits)
  have "map si_policy rows = map rif_policy (rf_include f)"
    using map_throw_policies [OF rows] by (simp add: rule_output_def comp_def)
  then have "set (map si_policy rows) \<subseteq> set POLICY_VALUES" using assms(2) by (auto simp: rule_choices_def)
  then have "conforms True SantaRuleTargets_type (targets_json include_json (srm_include m) (srm_exclude m))"
    unfolding SantaRuleTargets_type_def by (intro targets_conform ballI include_conforms) (auto simp: m)
  moreover have "srm_rule_type m \<in> {''binary'', ''certificate'', ''teamid'', ''signingid'', ''cdhash'', ''bundle''}"
    using assms(1) by (auto simp: m rule_form_ok_def RULE_IDENTIFIER_RULES_def split: if_splits)
  ultimately show ?thesis
    unfolding SantaRuleMutation_type_def rule_json_def
    by (intro body_conforms) (auto simp: field_fits_map)
qed

definition media_json :: "media_policy \<Rightarrow> json" where
  "media_json p =
     body_object
       [(''action'', Some (JStr (mpo_action p))), (''remount_flags'', map_option texts_json (mpo_remount_flags p))]"

definition configuration_json :: "santa_configuration_mutation \<Rightarrow> json" where
  "configuration_json m =
     body_object
       [(''name'', Some (JStr (scm_name m))), (''description'', map_option JStr (scm_description m)),
        (''client_mode'', Some (JStr (scm_client_mode m))),
        (''targets'', Some (targets_json ref_json (lts_include (scm_targets m)) (lts_exclude (scm_targets m)))),
        (''enable_bundles'', Some (JBool (scm_enable_bundles m))),
        (''enable_transitive_rules'', Some (JBool (scm_enable_transitive_rules m))),
        (''enable_all_event_upload'', Some (JBool (scm_enable_all_event_upload m))),
        (''disable_unknown_event_upload'', Some (JBool (scm_disable_unknown_event_upload m))),
        (''override_file_access_action'', Some (JStr (scm_override_file_access_action m))),
        (''full_sync_interval_seconds'', Some (num_json (scm_full_sync_interval_seconds m))),
        (''batch_size'', Some (num_json (scm_batch_size m))),
        (''allowed_path_regex'', map_option JStr (scm_allowed_path_regex m)),
        (''blocked_path_regex'', map_option JStr (scm_blocked_path_regex m)),
        (''removable_media_policy'', map_option media_json (scm_removable_media_policy m)),
        (''encrypted_removable_media_policy'', map_option media_json (scm_encrypted_removable_media_policy m)),
        (''event_detail_url'', map_option JStr (scm_event_detail_url m)),
        (''event_detail_text'', map_option JStr (scm_event_detail_text m))]"

lemma media_conforms:
  assumes "removableMediaPolicyBody action flags = Some p" and "action \<in> set MEDIA_ACTION_VALUES"
    and "set flags \<subseteq> set REMOUNT_FLAG_VALUES"
  shows "conforms True SantaRemovableMediaPolicy_type (media_json p)"
proof -
  have known: "set REMOUNT_FLAG_VALUES =
      set [''rdonly'', ''noexec'', ''nosuid'', ''nobrowse'', ''noowners'', ''nodev'', ''-j'', ''async'']"
    by (simp add: REMOUNT_FLAG_VALUES_def insert_commute)
  have p: "p = \<lparr>mpo_action = action, mpo_remount_flags = (if action = ''remount'' then Some flags else None)\<rparr>"
    "action \<noteq> ''none''"
    using assms(1) by (auto simp: removableMediaPolicyBody_def split: if_splits)
  then have action: "action \<in> set [''allow'', ''block'', ''remount'']" using assms(2) by (simp add: MEDIA_ACTION_VALUES_def)
  show ?thesis
    unfolding SantaRemovableMediaPolicy_type_def media_json_def
    by (rule body_conforms) (use action assms(3) [unfolded known] in \<open>simp_all add: p field_fits_map\<close>)
qed

lemma configuration_body:
  assumes "configuration_valid parse_url f" and "configuration_choices f" and "submit_configuration f = Inr m"
  shows "conforms True SantaConfigurationMutation_type (configuration_json m)"
proof -
  have m: "m = configurationBody (configuration_output f)" using assms(3) by (simp add: submit_configuration_def)
  have "conforms True SantaConfigurationTargets_type
      (targets_json ref_json (lts_include (scm_targets m)) (lts_exclude (scm_targets m)))"
    unfolding SantaConfigurationTargets_type_def by (rule label_targets_conform)
  moreover obtain q q' where "scm_full_sync_interval_seconds m = Fin q" "scm_batch_size m = Fin q'"
    using assms(1) by (auto simp: m configurationBody_def configuration_output_def configuration_valid_def
        configuration_issues_def issue_simps)
  moreover have "conforms True SantaRemovableMediaPolicy_type (media_json p)"
    if "scm_removable_media_policy m = Some p \<or> scm_encrypted_removable_media_policy m = Some p" for p
    using that assms(1,2)
    by (auto simp: m configurationBody_def configuration_output_def configuration_valid_def configuration_choices_def
        intro: media_conforms)
  moreover have "scm_client_mode m \<in> set CLIENT_MODE_VALUES" "scm_override_file_access_action m \<in> set FILE_ACCESS_ACTION_VALUES"
    using assms(2) by (simp_all add: m configurationBody_def configuration_output_def configuration_choices_def)
  ultimately show ?thesis
    unfolding SantaConfigurationMutation_type_def configuration_json_def
    by (intro body_conforms) (simp_all add: field_fits_map CLIENT_MODE_VALUES_def FILE_ACCESS_ACTION_VALUES_def)
qed

section \<open>Munki software\<close>

definition selector_json :: "package_selector \<Rightarrow> json" where
  "selector_json p =
     body_object
       [(''strategy'', Some (JStr (ps_strategy p))), (''package_id'', map_option num_json (ps_package_id p))]"

definition munki_include_json :: "munki_include \<Rightarrow> json" where
  "munki_include_json row =
     body_object
       [(''label_id'', Some (int_json (mi_label_id row))), (''package'', Some (selector_json (mi_package row))),
        (''actions'', Some (texts_json (mi_actions row)))]"

definition software_fields :: "'z munki_update_scheme \<Rightarrow> (js_string \<times> json option) list" where
  "software_fields m =
     [(''display_name'', Some (JStr (mum_display_name m))), (''description'', Some (JStr (mum_description m))),
      (''category'', Some (JStr (mum_category m))), (''developer'', Some (JStr (mum_developer m))),
      (''icon_object_id'', map_option int_json (mum_icon_object_id m)),
      (''targets'', Some (targets_json munki_include_json (mum_include m) (mum_exclude m)))]"

definition software_update_json :: "munki_update \<Rightarrow> json" where
  "software_update_json m = body_object (software_fields m)"

definition software_create_json :: "munki_create \<Rightarrow> json" where
  "software_create_json m = body_object (software_fields m @ [(''name'', Some (JStr (mcm_name m)))])"

lemma selector_conforms:
  assumes "selector_ok p"
  shows "conforms True MunkiPackageSelector_type (selector_json p)"
  unfolding MunkiPackageSelector_type_def selector_json_def
  by (rule body_conforms) (use assms in \<open>auto simp: selector_ok_def\<close>)

lemma munki_include_conforms:
  assumes "munki_target_ok row"
  shows "conforms True MunkiInclude_type (munki_include_json (munkiSoftwareInclude row))"
proof -
  have "set (mt_actions row) \<subseteq> set MUNKI_SOFTWARE_ACTION_VALUES" "selector_ok (mt_package row)"
    using assms by (simp_all add: munki_target_ok_def)
  then show ?thesis
    unfolding MunkiInclude_type_def munki_include_json_def munkiSoftwareInclude_def
    by (intro body_conforms) (simp_all add: selector_conforms MUNKI_SOFTWARE_ACTION_VALUES_def)
qed

lemma munki_targets_conform:
  assumes "munkiSoftwareFormSchema f = []"
  shows "conforms True MunkiTargets_type
    (targets_json munki_include_json (map munkiSoftwareInclude (msf_include f)) (msf_exclude f))"
  unfolding MunkiTargets_type_def
  by (rule targets_conform) (use assms in \<open>auto simp: schema_empty munki_include_conforms\<close>)

lemma software_update_body:
  assumes "munkiSoftwareFormSchema f = []"
  shows "conforms True MunkiUpdateMutation_type (software_update_json (software_update current f))"
  unfolding MunkiUpdateMutation_type_def software_update_json_def software_fields_def software_update_def
  by (rule body_conforms) (simp_all add: munki_targets_conform [OF assms] field_fits_map)

lemma software_create_body:
  assumes "munkiSoftwareFormSchema f = []"
  shows "conforms True MunkiCreateMutation_type (software_create_json (software_create f))"
  unfolding MunkiCreateMutation_type_def software_create_json_def software_fields_def software_create_def
  by (rule body_conforms) (simp_all add: munki_targets_conform [OF assms] field_fits_map)

end
