(* ===== verification/PackageBody.thy ===== *)
theory PackageBody
  imports Bodies PackageEditors
begin

text \<open>
  The body of a Munki package as JSON.  Main result: the mutation of a form that passes the schema (its base checks
  and its refinements) has the type the API declares, when it is created and when it is saved.
\<close>

section \<open>The parts\<close>

definition reference_json :: "package_reference_mutation \<Rightarrow> json" where
  "reference_json r =
     body_object
       [(''software_id'', Some (int_json (pr_software_id r))), (''package_id'', map_option int_json (pr_package_id r))]"

definition launch_json :: "launch_arguments \<Rightarrow> json" where
  "launch_json l =
     body_object
       [(''application'', Some (JStr (la_application l))), (''arguments'', Some (texts_json (la_arguments l)))]"

definition action_labels_json :: "action_labels \<Rightarrow> json" where
  "action_labels_json l =
     body_object
       [(''install'', map_option JStr (al_install l)), (''installing'', map_option JStr (al_installing l)),
        (''installed'', map_option JStr (al_installed l)), (''remove'', map_option JStr (al_remove l)),
        (''removing'', map_option JStr (al_removing l)), (''update'', map_option JStr (al_update l))]"

definition environment_json :: "installer_environment \<Rightarrow> json" where
  "environment_json e = body_object [(''name'', Some (JStr (ie_name e))), (''value'', Some (JStr (ie_value e)))]"

definition choice_json :: "installer_choice \<Rightarrow> json" where
  "choice_json c =
     body_object
       [(''choice_identifier'', map_option JStr (ch_identifier c)), (''choice_attribute'', map_option JStr (ch_attribute c)),
        (''attribute_setting'', Some (int_json (ch_setting c)))]"

definition install_item_json :: "install_item \<Rightarrow> json" where
  "install_item_json i =
     body_object
       [(''path'', Some (JStr (ii_path i))), (''type'', Some (JStr (ii_type i))),
        (''bundle_identifier'', map_option JStr (ii_bundle_identifier i)),
        (''bundle_name'', map_option JStr (ii_bundle_name i)),
        (''bundle_short_version'', map_option JStr (ii_bundle_short_version i)),
        (''bundle_version'', map_option JStr (ii_bundle_version i)),
        (''installer_item_location'', map_option JStr (ii_installer_item_location i)),
        (''md5checksum'', map_option JStr (ii_md5checksum i)),
        (''minimum_os_version'', map_option JStr (ii_minimum_os_version i)),
        (''minimum_update_version'', map_option JStr (ii_minimum_update_version i)),
        (''version_comparison_key'', map_option JStr (ii_version_comparison_key i))]"

definition receipt_json :: "receipt \<Rightarrow> json" where
  "receipt_json r =
     body_object
       [(''package_id'', Some (JStr (re_package_id r))), (''version'', map_option JStr (re_version r)),
        (''name'', map_option JStr (re_name r)), (''installed_size'', map_option num_json (re_installed_size r)),
        (''optional'', map_option JBool (re_optional r))]"

definition item_to_copy_json :: "item_to_copy \<Rightarrow> json" where
  "item_to_copy_json i =
     body_object
       [(''source_item'', Some (JStr (ic_source_item i))), (''destination_path'', Some (JStr (ic_destination_path i))),
        (''destination_item'', map_option JStr (ic_destination_item i)), (''group'', map_option JStr (ic_group i)),
        (''mode'', map_option JStr (ic_mode i)), (''user'', map_option JStr (ic_user i))]"

definition alert_json :: "alert \<Rightarrow> json" where
  "alert_json a =
     body_object
       [(''enabled'', Some (JBool (at_enabled a))), (''title'', map_option JStr (at_title a)),
        (''detail'', map_option JStr (at_detail a)), (''ok_label'', map_option JStr (at_ok_label a)),
        (''cancel_label'', map_option JStr (at_cancel_label a))]"

lemma part_conforms:
  "conforms True MunkiPackageReferenceMutation_type (reference_json r)"
  "conforms True MunkiPackageLaunchArguments_type (launch_json l)"
  "conforms True MunkiPackageActionLabels_type (action_labels_json ls)"
  "conforms True MunkiPackageInstallerEnvironmentVariable_type (environment_json e)"
  "conforms True MunkiPackageInstallerChoice_type (choice_json c)"
  "conforms True MunkiPackageItemToCopy_type (item_to_copy_json i)"
  "conforms True MunkiPackageAlert_type (alert_json a)"
  unfolding MunkiPackageReferenceMutation_type_def reference_json_def MunkiPackageLaunchArguments_type_def launch_json_def
    MunkiPackageActionLabels_type_def action_labels_json_def MunkiPackageInstallerEnvironmentVariable_type_def
    environment_json_def MunkiPackageInstallerChoice_type_def choice_json_def MunkiPackageItemToCopy_type_def
    item_to_copy_json_def MunkiPackageAlert_type_def alert_json_def
  by (rule body_conforms; simp add: field_fits_map)+

lemma install_item_conforms:
  assumes "ii_type i \<in> set MUNKI_INSTALL_ITEM_TYPE_VALUES"
  shows "conforms True MunkiPackageInstallItem_type (install_item_json i)"
  unfolding MunkiPackageInstallItem_type_def install_item_json_def
  by (rule body_conforms) (use assms in \<open>auto simp: MUNKI_INSTALL_ITEM_TYPE_VALUES_def\<close>)

lemma receipt_conforms:
  assumes "\<forall>n. re_installed_size r = Some n \<longrightarrow> size_ok n"
  shows "conforms True MunkiPackageReceipt_type (receipt_json r)"
  unfolding MunkiPackageReceipt_type_def receipt_json_def
  by (rule body_conforms) (use assms in \<open>auto simp: field_fits_map size_ok_def\<close>)

section \<open>The package\<close>

definition package_fields :: "package_mutation \<Rightarrow> (js_string \<times> json option) list" where
  "package_fields m =
     [(''version'', Some (JStr (pm_version m))), (''installer_type'', Some (JStr (pm_installer_type m))),
      (''installer_object_id'', map_option int_json (pm_installer_object_id m)),
      (''uninstallable'', Some (JBool (pm_uninstallable m))),
      (''uninstall_method'', map_option JStr (pm_uninstall_method m)),
      (''restart_action'', map_option JStr (pm_restart_action m)),
      (''restart_action_for_uninstall'', map_option JStr (pm_restart_action_for_uninstall m)),
      (''minimum_munki_version'', map_option JStr (pm_minimum_munki_version m)),
      (''minimum_os_version'', map_option JStr (pm_minimum_os_version m)),
      (''maximum_os_version'', map_option JStr (pm_maximum_os_version m)),
      (''supported_architectures'', Some (texts_json (pm_supported_architectures m))),
      (''blocking_applications_none'', Some (JBool (pm_blocking_applications_none m))),
      (''blocking_applications'', Some (texts_json (pm_blocking_applications m))),
      (''installable_condition'', map_option JStr (pm_installable_condition m)),
      (''blocking_applications_manual_quit_only'', Some (JBool (pm_blocking_applications_manual_quit_only m))),
      (''blocking_applications_quit_script'', map_option JStr (pm_blocking_applications_quit_script m)),
      (''blocking_applications_with_launch_args'',
         Some (JArr (map launch_json (pm_blocking_applications_with_launch_args m)))),
      (''download_on_low_data'', Some (JStr (pm_download_on_low_data m))),
      (''custom_action_labels'', Some (action_labels_json (pm_custom_action_labels m))),
      (''requires'', Some (JArr (map reference_json (pm_requires m)))),
      (''update_for'', Some (JArr (map reference_json (pm_update_for m)))),
      (''unattended_install'', Some (JBool (pm_unattended_install m))),
      (''unattended_uninstall'', Some (JBool (pm_unattended_uninstall m))),
      (''on_demand'', Some (JBool (pm_on_demand m))), (''precache'', Some (JBool (pm_precache m))),
      (''autoremove'', Some (JBool (pm_autoremove m))), (''apple_item'', Some (JBool (pm_apple_item m))),
      (''force_install_after_date'', map_option JStr (pm_force_install_after_date m)),
      (''installed_size'', map_option num_json (pm_installed_size m)),
      (''package_path'', map_option JStr (pm_package_path m)),
      (''installer_choices_xml'', Some (JArr (map choice_json (pm_installer_choices_xml m)))),
      (''installer_environment'', Some (JArr (map environment_json (pm_installer_environment m)))),
      (''installs'', Some (JArr (map install_item_json (pm_installs m)))),
      (''receipts'', Some (JArr (map receipt_json (pm_receipts m)))),
      (''items_to_copy'', Some (JArr (map item_to_copy_json (pm_items_to_copy m)))),
      (''notes'', map_option JStr (pm_notes m)),
      (''installcheck_script'', map_option JStr (pm_installcheck_script m)),
      (''uninstallcheck_script'', map_option JStr (pm_uninstallcheck_script m)),
      (''preinstall_script'', map_option JStr (pm_preinstall_script m)),
      (''postinstall_script'', map_option JStr (pm_postinstall_script m)),
      (''preuninstall_script'', map_option JStr (pm_preuninstall_script m)),
      (''postuninstall_script'', map_option JStr (pm_postuninstall_script m)),
      (''uninstall_script'', map_option JStr (pm_uninstall_script m)),
      (''version_script'', map_option JStr (pm_version_script m)),
      (''preinstall_alert'', Some (alert_json (pm_preinstall_alert m))),
      (''preuninstall_alert'', Some (alert_json (pm_preuninstall_alert m)))]"

definition package_json :: "package_mutation \<Rightarrow> json" where
  "package_json m = body_object (package_fields m)"

text \<open>A new package belongs to a title, and its installer is the one that was uploaded.\<close>

definition package_create_json :: "int \<Rightarrow> int option \<Rightarrow> package_mutation \<Rightarrow> json" where
  "package_create_json softwareID installerObjectID m =
     body_object
       ((''software_id'', Some (int_json softwareID)) #
        package_fields (m\<lparr>pm_installer_object_id := installerObjectID\<rparr>))"

text \<open>What is asked of a mutation.\<close>

definition package_body_ok :: "package_mutation \<Rightarrow> bool" where
  "package_body_ok m \<longleftrightarrow>
     pm_installer_type m \<in> set MUNKI_INSTALLER_TYPE_VALUES \<and>
     (\<forall>x. pm_uninstall_method m = Some x \<longrightarrow> x \<in> set MUNKI_UNINSTALL_METHOD_VALUES) \<and>
     (\<forall>x. pm_restart_action m = Some x \<longrightarrow> x \<in> set MUNKI_RESTART_ACTION_VALUES) \<and>
     (\<forall>x. pm_restart_action_for_uninstall m = Some x \<longrightarrow> x \<in> set MUNKI_UNINSTALL_RESTART_ACTION_VALUES) \<and>
     pm_download_on_low_data m \<in> set MUNKI_DOWNLOAD_ON_LOW_DATA_VALUES \<and>
     (\<forall>x. pm_installed_size m = Some x \<longrightarrow> (\<exists>q. x = Fin q)) \<and>
     (\<forall>i \<in> set (pm_installs m). ii_type i \<in> set MUNKI_INSTALL_ITEM_TYPE_VALUES) \<and>
     (\<forall>r \<in> set (pm_receipts m). \<forall>n. re_installed_size r = Some n \<longrightarrow> size_ok n)"

lemma sum_case_Inr:
  assumes "(case r of Inl e \<Rightarrow> Inl e | Inr x \<Rightarrow> Inr (g x)) = Inr m"
  obtains x where "r = Inr x"
  using assms by (cases r) simp_all

lemma mutation_body_ok:
  assumes "package_form_ok de sm f" and "packageFormShape f" and "packageMutationFromForm de sm f objectID = Inr m"
  shows "package_body_ok m"
proof -
  have size: "numberOrUndefined v = Some x \<Longrightarrow> \<exists>q. x = Fin q" for v x
    by (auto simp: numberOrUndefined_def is_finite_num_def Let_def split: if_splits js_num.splits)
  have items: "\<forall>i \<in> set (cleanInstallItems (pf_installs f)). ii_type i \<in> set MUNKI_INSTALL_ITEM_TYPE_VALUES"
    using assms(2) by (auto simp: packageFormShape_def list_all_iff install_row_ok_def cleanInstallItems_def install_item.defs Let_def split: if_splits)
  have receipts: "\<forall>r \<in> set (cleanReceipts (pf_receipts f)). \<forall>n. re_installed_size r = Some n \<longrightarrow> size_ok n"
  proof (intro ballI allI impI)
    fix r n
    assume "r \<in> set (cleanReceipts (pf_receipts f))" and n: "re_installed_size r = Some n"
    then obtain r' where "r' \<in> set (pf_receipts f)" and "re_installed_size r' = Some n"
      by (auto dest: cleaned_receipts)
    moreover have "\<forall>r \<in> set (pf_receipts f). \<forall>n. re_installed_size r = Some n \<longrightarrow> size_ok n"
      using assms(1) unfolding package_form_ok_def by simp
    ultimately show "size_ok n" by blast
  qed
  obtain cs where cs: "(if pf_installer_type f \<noteq> ''nopkg'' then parseInstallerChoices sm (pf_installer_choices_xml f)
      else Inr []) = Inr cs"
    using assms(3) unfolding packageMutationFromForm_def Let_def by (rule sum_case_Inr)
  note mm = assms(3) [unfolded packageMutationFromForm_def Let_def cs sum.case sum.inject, symmetric]
  have m: "pm_installer_type m = pf_installer_type f" "pm_uninstall_method m = truthy_string (pf_uninstall_method f)"
    "pm_restart_action m = (if pf_restart_required f then Some (pf_restart_action f) else None)"
    "pm_restart_action_for_uninstall m = truthy_string (pf_restart_action_for_uninstall f)"
    "pm_download_on_low_data m = pf_download_on_low_data f"
    "pm_installed_size m = numberOrUndefined (pf_installed_size f)" "pm_installs m = cleanInstallItems (pf_installs f)"
    "pm_receipts m = cleanReceipts (pf_receipts f)"
    by (simp_all only: mm package_mutation.simps)
  have chosen: "truthy_string s = Some x \<Longrightarrow> s \<in> insert [] (set vs) \<Longrightarrow> x \<in> set vs" for s x vs
    by (auto simp: truthy_string_def split: if_splits)
  show ?thesis
    unfolding package_body_ok_def m using assms(2) items receipts
    by (intro conjI allI impI) (auto simp: packageFormShape_def PACKAGE_UNINSTALL_METHOD_VALUES_def
        PACKAGE_UNINSTALL_RESTART_ACTION_VALUES_def dest: chosen size split: if_splits)
qed

lemma package_lists:
  assumes "package_body_ok m"
  shows "conforms True (TArray MunkiPackageInstallItem_type) (JArr (map install_item_json (pm_installs m)))"
    and "conforms True (TArray MunkiPackageReceipt_type) (JArr (map receipt_json (pm_receipts m)))"
  using assms by (auto simp: package_body_ok_def list_all_iff install_item_conforms receipt_conforms)

lemma part_lists:
  "conforms True (TArray MunkiPackageReferenceMutation_type) (JArr (map reference_json rs))"
  "conforms True (TArray MunkiPackageLaunchArguments_type) (JArr (map launch_json las))"
  "conforms True (TArray MunkiPackageInstallerEnvironmentVariable_type) (JArr (map environment_json es))"
  "conforms True (TArray MunkiPackageInstallerChoice_type) (JArr (map choice_json cs))"
  "conforms True (TArray MunkiPackageItemToCopy_type) (JArr (map item_to_copy_json cps))"
  "conforms True (TArray TString) (texts_json ss)"
  by (simp_all add: list_all_iff part_conforms)

lemma package_enums:
  assumes "package_body_ok m"
  shows "field_fits Optional (one_of MUNKI_UNINSTALL_METHOD_VALUES) (map_option JStr (pm_uninstall_method m))"
    and "field_fits Optional (one_of MUNKI_RESTART_ACTION_VALUES) (map_option JStr (pm_restart_action m))"
    and "field_fits Optional (one_of MUNKI_UNINSTALL_RESTART_ACTION_VALUES)
           (map_option JStr (pm_restart_action_for_uninstall m))"
    and "conforms True (one_of MUNKI_INSTALLER_TYPE_VALUES) (JStr (pm_installer_type m))"
    and "conforms True (one_of MUNKI_DOWNLOAD_ON_LOW_DATA_VALUES) (JStr (pm_download_on_low_data m))"
    and "field_fits Optional TNumber (map_option num_json (pm_installed_size m))"
  using assms by (auto simp: package_body_ok_def field_fits_map)

lemmas package_values =
  MUNKI_UNINSTALL_METHOD_VALUES_def MUNKI_RESTART_ACTION_VALUES_def MUNKI_UNINSTALL_RESTART_ACTION_VALUES_def
  MUNKI_INSTALLER_TYPE_VALUES_def MUNKI_DOWNLOAD_ON_LOW_DATA_VALUES_def append_Cons append_Nil

lemma object_fits: "field_fits Optional TNumber (map_option (\<lambda>i. JNum (num_of_int i)) objectID)"
  by (simp add: field_fits_map)

lemma package_keys: "distinct (map fst (package_fields m))"
  by (simp add: package_fields_def)

text \<open>Looking up a field leaves the list as it is.\<close>

lemma map_of_weak_cong: "k = k' \<Longrightarrow> map_of ps k = map_of ps k'"
  by simp

theorem package_body:
  assumes "package_body_ok m"
  shows "conforms True MunkiPackageMutation_type (package_json m)"
  unfolding MunkiPackageMutation_type_def package_json_def
proof (rule body_conforms [OF package_keys], goal_cases)
  case 1
  show ?case
    unfolding package_fields_def
    by (simp add: object_fits package_lists [OF assms] package_enums [OF assms, unfolded package_values]
        part_lists part_conforms map_of_Cons_code cong: map_of_weak_cong
        del: conforms.simps(9-13) conforms_one_of map_of.simps)
next
  case 2
  show ?case by (simp add: package_fields_def)
qed

theorem package_create_body:
  assumes "package_body_ok m"
  shows "conforms True MunkiPackageCreateMutation_type (package_create_json i objectID m)"
  unfolding MunkiPackageCreateMutation_type_def package_create_json_def
proof (rule body_conforms, goal_cases)
  case 1
  show ?case using package_keys by (simp add: package_fields_def)
next
  case 2
  show ?case
    unfolding package_fields_def
    by (simp add: object_fits package_lists [OF assms] package_enums [OF assms, unfolded package_values]
        part_lists part_conforms map_of_Cons_code cong: map_of_weak_cong
        del: conforms.simps(9-13) conforms_one_of map_of.simps)
next
  case 3
  show ?case by (simp add: package_fields_def)
qed

end
