(* ===== verification/SentForms.thy ===== *)
theory SentForms
  imports PackageBody
begin

text \<open>
  The requests the forms cause.  \<open>sent_form\<close> collects them: the operation of the mutation a form calls, with the
  JSON of what the form submits.  Main result: each is a request of the application, and its body has the type the
  API declares for its operation.

  The selects of a form offer the values of an enumeration; that what they hold is one of these
  (\<open>rule_choices\<close>, \<open>configuration_choices\<close>, and within \<open>packageFormShape\<close>) is what the enumerations of the
  schemas check.
\<close>

section \<open>What the forms send\<close>

text \<open>The body of an order is that of its mutation.\<close>

lemma order_body:
  "conforms True SantaConfigurationReorderBody_type (ordered_ids_body ids)"
  "conforms True MunkiDistributionPointReorderBody_type (ordered_ids_body ids)"
  by (simp_all add: SantaConfigurationReorderBody_type_def MunkiDistributionPointReorderBody_type_def ordered_ids_body_def
      json_get_def list_all_iff)

inductive sent_form :: "api_request \<Rightarrow> bool" where
  label_created: "toBody f = Inr m \<Longrightarrow> sent_form (mu_request useCreateLabel (label_json m))"
| label_saved: "toBody f = Inr m \<Longrightarrow> sent_form (mu_request (useUpdateLabel i) (label_json m))"
| user_created: "submit_user_create email f = Inr m \<Longrightarrow> sent_form (mu_request useCreateUser (user_create_json m))"
| user_saved: "submit_user (user, f) = Inr (source, m) \<Longrightarrow> sent_form (mu_request useUpdateUser (i, user_json m))"
| point_created:
    "submit_point hostname cidr f = Inr m \<Longrightarrow> sent_form (mu_request useCreateMunkiDistributionPoint (point_json m))"
| point_saved:
    "submit_point hostname cidr f = Inr m \<Longrightarrow>
       sent_form (mu_request useUpdateMunkiDistributionPoint (i, point_json m))"
| policy_created: "submit_policy f = Inr m \<Longrightarrow> sent_form (mu_request useCreatePolicy (policy_json m))"
| policy_saved: "submit_policy f = Inr m \<Longrightarrow> sent_form (mu_request (useUpdatePolicy i cached) (policy_json m))"
| report_created: "submit_report f = Inr m \<Longrightarrow> sent_form (mu_request useCreateReport (report_json m))"
| report_saved: "submit_report f = Inr m \<Longrightarrow> sent_form (mu_request (useUpdateReport i cached') (report_json m))"
| rule_created:
    "rule_form_ok parse_url check f \<Longrightarrow> rule_choices f \<Longrightarrow> submit_rule f = Inr m \<Longrightarrow>
       sent_form (mu_request useCreateSantaRule (rule_json m))"
| rule_saved:
    "rule_form_ok parse_url check f \<Longrightarrow> rule_choices f \<Longrightarrow> submit_rule f = Inr m \<Longrightarrow>
       sent_form (mu_request useUpdateSantaRule (i, rule_json m))"
| configuration_created:
    "configuration_valid parse_url f \<Longrightarrow> configuration_choices f \<Longrightarrow> submit_configuration f = Inr m \<Longrightarrow>
       sent_form (mu_request useCreateSantaConfiguration (configuration_json m))"
| configuration_saved:
    "configuration_valid parse_url f \<Longrightarrow> configuration_choices f \<Longrightarrow> submit_configuration f = Inr m \<Longrightarrow>
       sent_form (mu_request useUpdateSantaConfiguration (i, configuration_json m))"
| software_created:
    "munkiSoftwareFormSchema f = [] \<Longrightarrow>
       sent_form (mu_request useCreateMunkiSoftware (software_create_json (software_create f)))"
| software_saved:
    "munkiSoftwareFormSchema f = [] \<Longrightarrow>
       sent_form (mu_request useUpdateMunkiSoftware (i, software_update_json (software_update current f)))"
| package_created:
    "package_form_ok de sm (g :: js_file package_form) \<Longrightarrow> packageFormShape g \<Longrightarrow> packageMutationFromForm de sm g objectID = Inr m \<Longrightarrow>
       sent_form (mu_request useCreateMunkiPackage (package_create_json softwareID objectID' m))"
| package_saved:
    "package_form_ok de sm (g :: js_file package_form) \<Longrightarrow> packageFormShape g \<Longrightarrow> packageMutationFromForm de sm g objectID = Inr m \<Longrightarrow>
       sent_form (mu_request useUpdateMunkiPackage (i, package_json m))"
| points_ordered: "sent_form (mu_request useReorderMunkiDistributionPoints ids)"
| configurations_ordered: "sent_form (mu_request useReorderSantaConfigurations ids)"

definition body_declared :: "api_request \<Rightarrow> bool" where
  "body_declared r \<longleftrightarrow>
     (\<exists>t ty j. map_of declared (rq_operation r) = Some t \<and> od_body (ot_data t) = Some ty \<and>
        rq_body r = Some j \<and> conforms True ty j)"

lemmas sent_form_defs =
  useCreateLabel_def useUpdateLabel_def useCreateUser_def useUpdateUser_def useCreateMunkiDistributionPoint_def
  useUpdateMunkiDistributionPoint_def useCreatePolicy_def useUpdatePolicy_def useCreateReport_def useUpdateReport_def
  useCreateSantaRule_def useUpdateSantaRule_def useCreateSantaConfiguration_def useUpdateSantaConfiguration_def
  useCreateMunkiSoftware_def useUpdateMunkiSoftware_def useReorderMunkiDistributionPoints_def
  useReorderSantaConfigurations_def useCreateMunkiPackage_def useUpdateMunkiPackage_def

lemma sent_form_declared: "sent_form r \<Longrightarrow> body_declared r"
  by (induction rule: sent_form.induct)
    (simp_all add: body_declared_def sent_form_defs declared_lookup data_defs label_body user_create_body user_update_body
      point_body policy_body report_body rule_body configuration_body software_update_body software_create_body order_body
      mutation_body_ok package_body package_create_body)

lemma sent_form_request: "sent_form r \<Longrightarrow> app_request r"
  by (induction rule: sent_form.induct) (rule app_request.intros)+

end
