(* ===== verification/Further.thy ===== *)
theory Further
  imports
    QueryCatalog LiveRunner Upload Navigation Metadata MunkiPackageForm SantaForms MunkiSoftwareForm Sse ClientResources DataTable PageForm LabelForm OsqueryForms OsqueryEdit  AgentSecrets PackageReferences Rows PackageEditors PackageSave PointForm UserForm Reorder Routes FileUpload RouteTree SentForms
begin

text \<open>
  Further theorems about the components: what the root theory does not list, one text block each.
\<close>

text \<open>
  A package form without issues has a mutation, and what the choices of the form exclude is not in
  it: nopkg sends no installer options, items to copy and the uninstall script only where they are
  used, every text trimmed and not empty.
\<close>

theorem valid_package_form_is_sent:
  assumes "\<And>t. sm t \<noteq> []" and "package_issues de sm form = []"
  shows "\<exists>m. packageMutationFromForm de sm form i = Inr m \<and> mutation_tidy m"
  using mutation_of_valid_form [where i = i] assms
  by (metis package_issues_empty mutation_of_form_tidy)

lemma valid_package_form_is_sent_witness:
  "\<exists>m. packageMutationFromForm \<lparr>de_parse = (\<lambda>_. None), de_toISO = (\<lambda>_. []), de_offset = (\<lambda>_. 0)\<rparr> (\<lambda>_. ''bad'')
     ((emptyPackageForm (Some 3) :: unit package_form)\<lparr>pf_installer_file := Some ()\<rparr>) (Some 7) = Inr m
     \<and> mutation_tidy m"
proof -
  let ?de = "\<lparr>de_parse = (\<lambda>_. None), de_toISO = (\<lambda>_. []), de_offset = (\<lambda>_. 0)\<rparr>"
  let ?f = "(emptyPackageForm (Some 3) :: unit package_form)\<lparr>pf_installer_file := Some ()\<rparr>"
  have "package_form_ok ?de (\<lambda>_. ''bad'') ?f"
    by (simp add: package_form_ok_def emptyPackageForm_def environment_ok_def launch_ok_def
        launch_input_def parseInstallerChoices_def)
  then have "package_issues ?de (\<lambda>_. ''bad'') ?f = []" by (simp add: package_issues_empty)
  then show ?thesis by (intro valid_package_form_is_sent) simp_all
qed

text \<open>
  Saving a valid package form drops none of its rows: requirements, update targets, install items
  and receipts are all sent.
\<close>

theorem valid_package_form_keeps_rows:
  assumes "package_form_ok de sm form" and "packageMutationFromForm de sm form i = Inr m"
    and "list_all (\<lambda>r. prr_software_id r \<noteq> Some 0) (pf_requires form @ pf_update_for form)"
  shows "length (pm_requires m) = length (pf_requires form)
    \<and> length (pm_update_for m) = length (pf_update_for form)
    \<and> length (pm_installs m) = length (pf_installs form)
    \<and> length (pm_receipts m) = length (pf_receipts form)"
  using valid_form_keeps_rows [OF assms(1,2)] assms(3) by (auto simp: list_all_iff)

lemma valid_package_form_keeps_rows_witness:
  "\<exists>m. packageMutationFromForm \<lparr>de_parse = (\<lambda>_. None), de_toISO = (\<lambda>_. []), de_offset = (\<lambda>_. 0)\<rparr> (\<lambda>_. ''bad'')
     ((emptyPackageForm (Some 3) :: unit package_form)
        \<lparr>pf_installer_file := Some (),
         pf_requires := [packageReferenceRow ''r'' \<lparr>pref_software_id = 5, pref_package_id = None,
            pref_software_name = ''s'', pref_package_version = None\<rparr>]\<rparr>) (Some 7) = Inr m
     \<and> length (pm_requires m) = 1"
proof -
  let ?de = "\<lparr>de_parse = (\<lambda>_. None), de_toISO = (\<lambda>_. []), de_offset = (\<lambda>_. 0)\<rparr>"
  let ?f = "(emptyPackageForm (Some 3) :: unit package_form)
        \<lparr>pf_installer_file := Some (),
         pf_requires := [packageReferenceRow ''r'' \<lparr>pref_software_id = 5, pref_package_id = None,
            pref_software_name = ''s'', pref_package_version = None\<rparr>]\<rparr>"
  have ok: "package_form_ok ?de (\<lambda>_. ''bad'') ?f"
    by (simp add: package_form_ok_def emptyPackageForm_def environment_ok_def launch_ok_def
        launch_input_def parseInstallerChoices_def packageReferenceRow_def)
  from mutation_of_valid_form [OF ok, of "Some 7"] obtain m
    where m: "packageMutationFromForm ?de (\<lambda>_. ''bad'') ?f (Some 7) = Inr m" by blast
  have "length (pm_requires m) = length (pf_requires ?f)"
    using valid_package_form_keeps_rows [OF ok m]
    by (simp add: emptyPackageForm_def packageReferenceRow_def)
  with m show ?thesis by simp
qed

text \<open>
  The text the form shows for installer choices is parsed back to the same choices.
\<close>

theorem installer_choices_round_trip:
  assumes "list_all choice_ok cs"
  shows "parseInstallerChoices sm (installerChoicesText cs) = Inr cs"
  using assms by (intro installerChoicesText_parsed) (simp add: list_all_iff)

lemma installer_choices_round_trip_witness:
  "parseInstallerChoices (\<lambda>_. ''bad'') (installerChoicesText
     [\<lparr>ch_identifier = Some ''a b'', ch_attribute = Some ''selected'', ch_setting = -3\<rparr>])
   = Inr [\<lparr>ch_identifier = Some ''a b'', ch_attribute = Some ''selected'', ch_setting = -3\<rparr>]"
  by (intro installer_choices_round_trip)
    (simp add: choice_ok_def js_trim_fixed is_js_space_def)

text \<open>
  Deleting a record, of each of the ten resources with a delete action, marks the queries of the
  record stale without fetching them again, and fetches every list and every other record of the
  resource again.
\<close>

theorem deleting_is_clean:
  assumes "key_matching pm"
  shows "list_all (\<lambda>(mutation, list_key, detail_key).
      deletes_cleanly pm (mu_onSuccess mutation u i) list_key detail_key i)
    [(useDeleteHost pm, hostKeys_list, hostKeys_detail),
     (useDeleteLabel pm, labelKeys_list, labelKeys_detail),
     (useDeleteUser pm, userKeys_list, userKeys_detail),
     (useDeletePolicy pm, policyKeys_list, policyKeys_detail),
     (useDeleteReport pm, reportKeys_list, reportKeys_detail),
     (useDeleteSantaConfiguration pm, configurationKeys_list, configurationKeys_detail),
     (useDeleteSantaRule pm, ruleKeys_list, ruleKeys_detail),
     (useDeleteMunkiPackage pm, munkiPackageKeys_list, munkiPackageKeys_detail),
     (useDeleteMunkiSoftware pm, munkiSoftwareKeys_list, munkiSoftwareKeys_detail),
     (useDeleteMunkiDistributionPoint pm, munkiDistributionPointKeys_list,
      munkiDistributionPointKeys_detail)]"
  using host_keys.root_simple label_keys.root_simple user_keys.root_simple group_keys.root_simple
    policy_keys.root_simple report_keys.root_simple configuration_keys.root_simple
    rule_keys.root_simple package_keys.root_simple munki_software_keys.root_simple
    distribution_point_keys.root_simple
  by (simp add: delete_hooks host_keys.deletes label_keys.deletes user_keys.deletes
      policy_keys.deletes report_keys.deletes configuration_keys.deletes rule_keys.deletes
      package_keys.deletes munki_catalog_keys.deletes distribution_point_keys.deletes assms)

lemma deleting_is_clean_witness:
  "deletes_cleanly (\<lambda>k f. prefix f k) (mu_onSuccess (useDeleteLabel (\<lambda>k f. prefix f k)) () 4)
     labelKeys_list labelKeys_detail 4"
  using deleting_is_clean [OF key_matching_prefix, of "()" 4] by (simp only: list.pred_inject prod.case)

text \<open>
  Saving a policy drops its cached results exactly when its query changed with respect to the
  policy in the cache.
\<close>

theorem saved_policy_clears_results:
  assumes "key_matching pm"
  shows "removes pm (mu_onSuccess (useUpdatePolicy i cache) saved v) k \<longleftrightarrow>
     (\<exists>previous. cache (policyKeys_detail i) = Some previous \<and> op_query previous \<noteq> op_query saved) \<and>
     prefix (policyKeys_resultsRoot i) k"
  using assms by (rule update_policy_removes)

lemma saved_policy_clears_results_witness:
  "removes (\<lambda>k f. prefix f k) (mu_onSuccess (useUpdatePolicy 2 (\<lambda>_. Some \<lparr>op_query = ''old''\<rparr>)) \<lparr>op_query = ''new''\<rparr> JNull)
     (policyKeys_resultsRoot 2)"
  using saved_policy_clears_results [OF key_matching_prefix] by simp

text \<open>
  Saving a report drops its cached snapshots exactly when its query or its minimum osquery version
  changed with respect to the report in the cache.
\<close>

theorem saved_report_clears_snapshots:
  assumes "key_matching pm"
  shows "removes pm (mu_onSuccess (useUpdateReport i cache) saved v) k \<longleftrightarrow>
     (\<exists>previous. cache (reportKeys_detail i) = Some previous \<and> previous \<noteq> saved) \<and>
     prefix (reportKeys_snapshotsRoot i) k"
  using assms by (rule update_report_removes)

lemma saved_report_clears_snapshots_witness:
  "removes (\<lambda>k f. prefix f k)
     (mu_onSuccess (useUpdateReport 2 (\<lambda>_. Some \<lparr>or_query = ''q'', or_min_osquery_version = ''5.0''\<rparr>))
        \<lparr>or_query = ''q'', or_min_osquery_version = ''5.1''\<rparr> JNull)
     (reportKeys_snapshotsRoot 2)"
  using saved_report_clears_snapshots [OF key_matching_prefix] by simp

text \<open>
  The first page that fails ends the reading with its error; no page after it is asked for and no
  partial list is returned.
\<close>

theorem collectAllPages_error:
  assumes "loadPage 1 MAX_PAGE_SIZE = Inr firstPage"
    and "1 < k" and "(k - 1) * MAX_PAGE_SIZE < page_count firstPage"
    and "loadPage k MAX_PAGE_SIZE = Inl e"
    and "\<And>j. 1 < j \<Longrightarrow> j < k \<Longrightarrow> \<not> isl (loadPage j MAX_PAGE_SIZE)"
  shows "collectAllPages loadPage = Inl e"
  using assms by (rule collect_error)

lemma collectAllPages_error_witness:
  "collectAllPages (\<lambda>p n. if p = 3 then Inl ''boom'' else Inr \<lparr>page_count = 2500, page_items = [p]\<rparr>)
     = Inl ''boom''"
  by (rule collectAllPages_error [where k = 3 and firstPage = "\<lparr>page_count = 2500, page_items = [1]\<rparr>"]) (simp_all add: MAX_PAGE_SIZE_def)

text \<open>
  A route accepts an id exactly in its canonical decimal form, without sign or leading zero and
  within the safe integers, and yields its value.
\<close>

theorem idParams_canonical:
  shows "idParams_parse path_id = Some v \<longleftrightarrow>
     (\<exists>n. v = num_of_int n \<and> 0 < n \<and> n \<le> max_safe_integer \<and> path_id = show_int n)"
  using idParams_parse_canonical idParams_parse_show by blast

text \<open>
  The page and the page size of every list request are whole numbers in range, whatever the URL
  held, and normalising them again changes nothing.
\<close>

theorem list_parameters_in_bounds:
  shows "(\<exists>n. bl_page (baseListParams ps d) = num_of_int n \<and> 1 \<le> n \<and> n \<le> max_safe_integer) \<and>
   (\<exists>n. bl_per_page (baseListParams ps d) = num_of_int n \<and> 1 \<le> n \<and> n \<le> MAX_PAGE_SIZE) \<and>
   normalizePage (Some (bl_page (baseListParams ps d))) = bl_page (baseListParams ps d) \<and>
   normalizePageSize (Some (bl_per_page (baseListParams ps d))) v = bl_per_page (baseListParams ps d)"
  using baseListParams_bounds [of ps d] by (auto simp: normalize_in_range)

text \<open>
  Every list request of the client, the activity feed apart, carries a page and a page size in
  range.
\<close>

theorem every_list_request_is_paged:
  assumes "app_query q" and "rq_query (qo_request q) = Some ps"
    and "rq_operation (qo_request q) \<noteq> ''listActivity''"
  shows "paged ps"
  using assms by (rule app_query_paged)

lemma every_list_request_is_paged_witness:
  "\<exists>ps. rq_query (qo_request (usePolicies \<lparr>blp_q = None, blp_page = Some NaN, blp_per_page = None,
     blp_sort = None\<rparr>)) = Some ps \<and> paged ps"
  using every_list_request_is_paged [OF q_usePolicies]
  by (simp add: usePolicies_def Let_def)

text \<open>
  The interval text agrees with the largest unit that divides the interval exactly when the
  interval is a single unit: below a day, or a whole number of days.
\<close>

theorem formatInterval_exact:
  assumes "0 < s"
  shows "formatInterval s = interval_reference s \<longleftrightarrow> one_unit_interval s"
  using assms by (rule formatInterval_agrees)

lemma formatInterval_exact_witness:
  "formatInterval 1800 = interval_reference 1800"
  using formatInterval_exact [of 1800] by (simp add: one_unit_interval_def)

text \<open>
  In every reachable state of a live stream a running stream is not terminal, a completed one has
  left its loop with the signal aborted, an error has its message, and no host has two snapshots.
\<close>

theorem live_stream_invariant:
  assumes "live_reachable dp lc s"
  shows "live_inv s"
  using assms by (rule live_reachable_inv)

lemma live_stream_invariant_witness:
  "live_inv (live_step (\<lambda>_. None) (\<lambda>_ _. 0)
     (live_step (\<lambda>_. None) (\<lambda>_ _. 0) (live_start stream_init (\<lambda>_. None) (\<lambda>_ _. 0)) SseError) (Event CompletedEvent))"
  by (intro live_stream_invariant [where dp = "\<lambda>_. None" and lc = "\<lambda>_ _. 0"] live_reachable.intros)

text \<open>
  With a consistent locale order and readable dates the snapshots shown are always sorted: newest
  first, then by host name, then by host id.
\<close>

theorem live_results_sorted:
  assumes "consistent_locale lc" and "\<And>t. dp t \<noteq> None"
  shows "sorted_wrt (\<lambda>a b. compare_snapshots dp lc a b \<le> 0)
     (st_snapshots (lv_stream (live_run dp lc (live_start s0 dp lc) inputs)))"
  using foldl_upsert_sorted [OF compare_snapshots_consistent [OF assms]]
  by (simp add: live_run_snapshots live_start_def)

lemma live_results_sorted_witness:
  "sorted_wrt (\<lambda>a b. compare_snapshots (\<lambda>t. Some (int (length t))) (\<lambda>_ _. 0) a b \<le> 0)
     (st_snapshots (lv_stream (live_run (\<lambda>t. Some (int (length t))) (\<lambda>_ _. 0)
        (live_start stream_init (\<lambda>t. Some (int (length t))) (\<lambda>_ _. 0)) [SseError, StreamEnd])))"
  by (rule live_results_sorted) (simp_all add: consistent_locale_def consistent_compare_def)

text \<open>
  In every reachable state of the live page the results step has a live query; without one the
  stream is detached and nothing of the last run is left; no host has two results.
\<close>

theorem live_runner_invariant:
  assumes "runner_reachable dp lc s"
  shows "runner_inv s"
  using assms by (rule runner_reachable_inv)

lemma live_runner_invariant_witness:
  "runner_inv (run_created (\<lambda>_. None) (\<lambda>_ _. 0) \<lparr>lh_id = 9, lh_resolved_host_count = 2\<rparr>
     (run_begin ''select 1'' (setTargets [1] [] runner_init)))"
  by (rule live_runner_invariant [OF runner_reachable.step [OF runner_reachable.step
        [OF runner_reachable.step [OF runner_reachable.init runner_step.targets [where ls = "[1]" and hs = "[]"]]
          runner_step.run [where sql = "''select 1''"]] runner_step.created]])
    (simp_all add: runner_init_def setTargets_def run_begin_def stream_init_def)

text \<open>
  An upload intent is released exactly once, and only when the upload failed after it was created
  and the caller can release it.
\<close>

theorem upload_releases_intent:
  shows "us_released (snd (upload_run env file)) =
     (if upload_succeeds env file = None \<and> ue_cleanupIntent env \<noteq> None
      then (case upload_intent env file of None \<Rightarrow> [] | Some i \<Rightarrow> [i]) else [])"
  by (rule upload_run_released)

text \<open>
  The landing page, found by filtering the navigation tree and walking what is left, is the first
  entry in the order of the tree whose requirement the account meets.
\<close>

theorem landing_page_is_first_granted:
  shows "firstAccessiblePath can account =
     first_granted can (map_option ac_permissions account) nav_entries"
  by (rule firstAccessiblePath_granted)

text \<open>
  A call returns data exactly for a response without error whose status is a success; a missing
  record is null exactly for a 404, and every other error is passed on.
\<close>

theorem api_results:
  shows "(unwrap (Inr r) = Inr x \<longleftrightarrow>
       ar_error r = NoError \<and> response_ok (ar_response r) \<and> x = ar_data r) \<and>
     (nullOn404 p = Inr None \<longleftrightarrow> (\<exists>m b. unwrap p = Inl (ApiError 404 m b))) \<and>
     (nullOn404 p = Inr (Some y) \<longleftrightarrow> unwrap p = Inr y) \<and>
     (nullOn404 p = Inl e \<longleftrightarrow> unwrap p = Inl e \<and> \<not> is_not_found e)"
  by (simp only: unwrap_Inr nullOn404_None nullOn404_Some nullOn404_Inl simp_thms)

text \<open>
  Every failed call whose failure is a response, with or without an error body, is reported with a
  message that is not empty.
\<close>

theorem api_errors_have_a_message:
  assumes "unwrap (Inr r) = Inl e" and "ar_error r = ErrorBody b \<or> ar_error r = NoError"
  shows "message_of e d \<noteq> []"
  using assms by (rule api_error_toast_nonempty)

lemma api_errors_have_a_message_witness:
  "message_of (ApiError 500 (describeError (Some \<lparr>em_errors = Some [\<lparr>ed_location = None, ed_message = None\<rparr>],
     em_detail = Some [], em_title = None\<rparr>) 500) (Some \<lparr>em_errors = Some [\<lparr>ed_location = None, ed_message = None\<rparr>],
     em_detail = Some [], em_title = None\<rparr>)) [] \<noteq> []"
proof -
  let ?b = "\<lparr>em_errors = Some [\<lparr>ed_location = None, ed_message = None\<rparr>], em_detail = Some [],
     em_title = None\<rparr>"
  let ?r = "\<lparr>ar_data = (), ar_error = ErrorBody ?b, ar_response = Some \<lparr>resp_status = 500\<rparr>\<rparr>"
  have "unwrap (Inr ?r) = Inl (ApiError 500 (describeError (Some ?b) 500) (Some ?b))"
    by (simp add: error_body_def response_status_def Let_def)
  then show ?thesis by (rule api_errors_have_a_message) simp
qed

text \<open>
  However many requests report an expired session between two settled navigations, the cache is
  cleared and the login page opened once; never from the login page itself.
\<close>

theorem session_expires_once:
  shows "ex_navigations (expiry_run (es @ NavigationSettled # map Expire paths)) =
       ex_navigations (expiry_run es) + (if list_ex (\<lambda>p. p \<noteq> ''/login'') paths then 1 else 0) \<and>
     ex_cleared (expiry_run es) = ex_navigations (expiry_run es)"
  using expiry_once [of "navigation_settled (expiry_run es)" paths] expiry_clears [of expiry_init es]
  by (simp add: expiry_run_def navigation_settled_def list_ex_iff expiry_init_def)

text \<open>
  Opening the live page of an unsaved form leaves the form in the history entry the user returns
  to; without a form the entry is left alone.
\<close>

theorem live_page_keeps_the_form:
  shows "tl (useOpenOsqueryLive kind sql i form (e # es)) =
    (case form of Some f \<Rightarrow> e\<lparr>he_osquery := Some (FormState f)\<rparr> # es | None \<Rightarrow> e # es)"
  by (rule open_live_back [OF refl])

text \<open>
  The window of a status history has the length of the chosen range, ends at the last whole
  refresh interval not after now, and stays the same, and with it the request, within one
  interval.
\<close>

theorem history_window:
  shows "snd (historyBounds r now) - fst (historyBounds r now) = RANGE_MS r \<and>
     snd (historyBounds r now) \<le> now \<and> now < snd (historyBounds r now) + HISTORY_REFRESH_MS \<and>
     HISTORY_REFRESH_MS dvd snd (historyBounds r now) \<and>
     historyBounds r (snd (historyBounds r now)) = historyBounds r now"
proof -
  note window = historyBounds_window [of r now "fst (historyBounds r now)" "snd (historyBounds r now)", simplified]
  then obtain k where k: "snd (historyBounds r now) = HISTORY_REFRESH_MS * k" by (auto elim: dvdE)
  with window(2,3) have "now div HISTORY_REFRESH_MS = k"
    by (intro int_div_pos_eq [where r = "now - HISTORY_REFRESH_MS * k"]) simp_all
  with k have "historyBounds r (snd (historyBounds r now)) = historyBounds r now"
    by (intro historyBounds_bucket) (simp add: HISTORY_REFRESH_MS_def)
  with window show ?thesis by simp
qed

text \<open>
  A Munki mutation that invalidates the Munki root refetches packages, software, icons,
  distribution points and client resources, lists and records alike.
\<close>

theorem munki_invalidation_reaches_all:
  assumes "key_matching pm"
    and "k \<in> {munkiPackageKeys_list ps, munkiPackageKeys_detail i, munkiSoftwareKeys_list ps,
              munkiSoftwareKeys_detail i, munkiSoftwareKeys_iconList ps,
              munkiDistributionPointKeys_list ps, munkiDistributionPointKeys_detail i,
              munkiClientResourceKeys_root}"
  shows "refetches pm [invalidate munkiRoot] k"
  using assms by (rule munki_root_covers)

lemma munki_invalidation_reaches_all_witness:
  "refetches (\<lambda>k f. prefix f k) [invalidate munkiRoot] (munkiPackageKeys_detail 3)"
  using munki_invalidation_reaches_all [OF key_matching_prefix, of "munkiPackageKeys_detail 3" "[]" 3] by simp

text \<open>
  Saving a label refetches the labels and, because membership shows there, the hosts.
\<close>

theorem saved_label_reaches_hosts:
  assumes "key_matching pm"
  shows "refetches pm (mu_onSuccess (useUpdateLabel i) r v) (labelKeys_list ps) \<and>
     refetches pm (mu_onSuccess (useUpdateLabel i) r v) (labelKeys_detail j @ k) \<and>
     refetches pm (mu_onSuccess (useUpdateLabel i) r v) (hostKeys_list ps) \<and>
     refetches pm (mu_onSuccess (useUpdateLabel i) r v) (hostKeys_detail j @ k)"
  using label_saved_refetches [OF assms] by blast

lemma saved_label_reaches_hosts_witness:
  "refetches (\<lambda>k f. prefix f k) (mu_onSuccess (useUpdateLabel 1) JNull JNull) (hostKeys_detail 2)"
  using saved_label_reaches_hosts [OF key_matching_prefix, of 1 JNull JNull "[]" 2 "[]"] by simp

text \<open>
  Every list of choices the client offers for an enumerated value has one option per value, in
  order, each with the label shown for that value elsewhere.
\<close>

theorem enum_options_are_labelled:
  shows "list_all (\<lambda>(metadata, choices). case enumOptions metadata choices of
       None \<Rightarrow> False
     | Some opts \<Rightarrow> map fst opts = choices \<and> distinct choices \<and>
         list_all (\<lambda>(v, l). enumLabel metadata v = Some l) opts)
     [(CLIENT_MODES, CLIENT_MODE_VALUES), (MEDIA_ACTIONS, MEDIA_ACTION_VALUES),
      (FILE_ACCESS_ACTIONS, FILE_ACCESS_ACTION_VALUES), (RULE_TYPES, RULE_TYPE_VALUES),
      (POLICIES, POLICY_VALUES), (EXECUTION_DECISIONS, EXECUTION_DECISION_VALUES),
      (FILE_ACCESS_DECISIONS, FILE_ACCESS_DECISION_VALUES),
      (MUNKI_INSTALLER_TYPES, MUNKI_INSTALLER_TYPE_VALUES),
      (MUNKI_SOFTWARE_ACTIONS, MUNKI_SOFTWARE_ACTION_VALUES),
      (LABEL_MEMBERSHIP_TYPES, LABEL_MEMBERSHIP_VALUES),
      (LABEL_DERIVED_ATTRIBUTES, LABEL_DERIVED_ATTRIBUTE_VALUES),
      (USER_ACCESS_ROLES, USER_ACCESS_ROLE_VALUES), (DIRECTORY_SOURCES, DIRECTORY_SOURCE_VALUES)]"
  using client_modes.offered media_actions.offered file_access_actions.offered rule_types.offered
    rule_policies.offered execution_decisions.offered file_access_decisions.offered
    installer_types.offered software_actions.offered label_memberships.offered
    label_attributes.offered user_access_roles.offered directory_sources.offered
  by (simp only: list.pred_inject prod.case offered_def [symmetric] simp_thms)

text \<open>
  The share of online targets shown is a percentage, also for no target and when the counts are
  missing.
\<close>

theorem online_percent_in_range:
  assumes "0 \<le> coalesce online 0" and "coalesce online 0 \<le> coalesce total_targets 0"
  shows "0 \<le> onlinePercent total_targets online \<and> onlinePercent total_targets online \<le> 100"
  using assms by (rule onlinePercent_bounds)

lemma online_percent_in_range_witness:
  "0 \<le> onlinePercent (Some 3) (Some 2) \<and> onlinePercent (Some 3) (Some 2) \<le> 100"
  by (rule online_percent_in_range) simp_all

text \<open>
  The sort value a table search yields is one of the declared sort keys, plain or with a
  direction, whatever the URL held.
\<close>

theorem search_sort_is_declared:
  assumes "createTableSearchSchema ks d = Inr schema" and "schema_sort schema v = Some s"
  shows "s \<in> set (sort_tokens ks)"
  using assms by (rule schema_sort_valid)

lemma search_sort_is_declared_witness:
  "case createTableSearchSchema [''name''] (Some ''name.asc'') of
     Inl _ \<Rightarrow> False
   | Inr schema \<Rightarrow> schema_sort schema (Some ''evil'') = Some ''name.asc'' \<and>
       ''name.asc'' \<in> set (sort_tokens [''name''])"
  using search_sort_is_declared [of "[''name'']" "Some ''name.asc''" _ "Some ''evil''" "''name.asc''"]
  by (simp add: createTableSearchSchema_def schema_sort_def sort_tokens_def)

text \<open>
  However often a stored Santa rule is opened in the form and saved as it is, the form stays valid
  and what is saved stores what the first save stored.
\<close>

theorem santa_rule_edits_change_nothing:
  assumes "rule_issues parse_url check form = []"
    and "edit_run submit_rule rule_stores formFromRule form (r # rs)"
  shows "rule_issues parse_url check (formFromRule (last (r # rs))) = [] \<and>
    (\<exists>b. submit_rule (formFromRule (last (r # rs))) = Inr b \<and> rule_stores b r)"
  using assms by (rule santa_rule.edits_change_nothing)

lemma santa_rule_edits_change_nothing_witness:
  "let r = \<lparr>sru_rule_type = ''teamid'', sru_identifier = ''EQHXZ8M8AV'', sru_name = ''Acme'', sru_description = [],
          sru_custom_message = ''no'', sru_custom_url = [],
          sru_include = [\<lparr>si_policy = ''cel'', si_cel_expression = Some ''true'', si_label_id = 4\<rparr>],
          sru_exclude = []\<rparr>
   in rule_issues (\<lambda>_. None) (\<lambda>_. None) (formFromRule r) = []
    \<and> (\<exists>b. submit_rule (formFromRule r) = Inr b \<and> rule_stores b r)"
proof -
  let ?r = "\<lparr>sru_rule_type = ''teamid'', sru_identifier = ''EQHXZ8M8AV'', sru_name = ''Acme'', sru_description = [],
          sru_custom_message = ''no'', sru_custom_url = [],
          sru_include = [\<lparr>si_policy = ''cel'', si_cel_expression = Some ''true'', si_label_id = 4\<rparr>],
          sru_exclude = []\<rparr>"
  let ?f = "\<lparr>rf_rule_type = ''teamid'', rf_identifier = '' EQHXZ8M8AV '', rf_name = ''Acme'', rf_description = '' '',
      rf_custom_message = ''no'', rf_custom_url = [],
      rf_include = [\<lparr>rif_id = 7, rif_policy = ''cel'', rif_cel_expression = ''true '', rif_label_id = Some 4\<rparr>],
      rf_exclude = []\<rparr>"
  have ok: "rule_issues (\<lambda>_. None) (\<lambda>_. None) ?f = []" by code_simp
  have "edit_run submit_rule rule_stores formFromRule ?f [?r]"
    by (simp add: submit_rule_Inr sent_include_def rule_stores_def nonEmpty_Some js_trim_def
        js_trim_left_def is_js_space_def)
  from santa_rule_edits_change_nothing [OF ok this] show ?thesis by (simp add: Let_def)
qed

text \<open>
  However often a stored Santa configuration is opened in the form and saved as it is, the form
  stays valid, media policies included, and what is saved stores what the first save stored.
\<close>

theorem santa_configuration_edits_change_nothing:
  assumes "configuration_valid parse_url form"
    and "edit_run submit_configuration configuration_stores formFromConfiguration form (c # cs)"
  shows "configuration_valid parse_url (formFromConfiguration (last (c # cs))) \<and>
    (\<exists>b. submit_configuration (formFromConfiguration (last (c # cs))) = Inr b \<and> configuration_stores b c)"
  using assms by (rule santa_configuration.edits_change_nothing)

lemma santa_configuration_edits_change_nothing_witness:
  "let c = \<lparr>sc_name = ''Macs'', sc_description = [], sc_client_mode = ''monitor'', sc_targets = emptyLabelTargetSet,
        sc_enable_bundles = False, sc_enable_transitive_rules = False, sc_enable_all_event_upload = False,
        sc_disable_unknown_event_upload = False, sc_override_file_access_action = ''none'',
        sc_full_sync_interval_seconds = num_of_int 600, sc_batch_size = num_of_int 50,
        sc_allowed_path_regex = None, sc_blocked_path_regex = None,
        sc_removable_media_policy = Some \<lparr>mpo_action = ''remount'', mpo_remount_flags = Some [''rdonly'']\<rparr>,
        sc_encrypted_removable_media_policy = None, sc_event_detail_url = None, sc_event_detail_text = None\<rparr>
   in configuration_valid (\<lambda>_. None) (formFromConfiguration c)"
proof -
  let ?f = "emptyConfigurationForm\<lparr>cf_name := '' Macs '', cf_removable_media_action := ''remount'',
    cf_removable_media_remount_flags := [''rdonly'']\<rparr>"
  let ?c = "\<lparr>sc_name = ''Macs'', sc_description = [], sc_client_mode = ''monitor'', sc_targets = emptyLabelTargetSet,
        sc_enable_bundles = False, sc_enable_transitive_rules = False, sc_enable_all_event_upload = False,
        sc_disable_unknown_event_upload = False, sc_override_file_access_action = ''none'',
        sc_full_sync_interval_seconds = num_of_int 600, sc_batch_size = num_of_int 50,
        sc_allowed_path_regex = None, sc_blocked_path_regex = None,
        sc_removable_media_policy = Some \<lparr>mpo_action = ''remount'', mpo_remount_flags = Some [''rdonly'']\<rparr>,
        sc_encrypted_removable_media_policy = None, sc_event_detail_url = None, sc_event_detail_text = None\<rparr>"
  have trim: "js_trim '' Macs '' = ''Macs''" "js_trim ''Macs'' = ''Macs''"
    by (simp_all add: js_trim_def js_trim_left_def is_js_space_def)
  have "configuration_valid (\<lambda>_. None) ?f"
    by (auto simp: configuration_valid_def configuration_issues_def issue_simps Let_def
        emptyConfigurationForm_def REMOUNT_FLAG_VALUES_def flags_fit_def trim max_safe_integer_def)
  moreover have "edit_run submit_configuration configuration_stores formFromConfiguration ?f [?c]"
    by (simp add: submit_configuration_def configurationBody_def configuration_output_def
        configuration_stores_def emptyConfigurationForm_def removableMediaPolicyBody_def nonEmpty_Some trim)
  ultimately show ?thesis
    using santa_configuration_edits_change_nothing [where c = ?c and cs = "[]"] by (simp add: Let_def)
qed

text \<open>
  However the media fields of a configuration are used, flags never remain on an action without
  flags and no flag is listed twice; the only issue they can raise is a remount without a flag.
\<close>

theorem media_fields_keep_flags_valid:
  assumes "media_inv s" and "foldl media_step s es = (action, flags)"
  shows "remount_issues p action flags = [] \<longleftrightarrow> action \<noteq> ''remount'' \<or> flags \<noteq> []"
  using assms by (rule media_run_flags)

lemma media_fields_keep_flags_valid_witness:
  "remount_issues ''flags'' ''block'' [] = []"
proof -
  have run: "foldl media_step (''none'', []) [ChooseAction ''remount'', ToggleFlag ''rdonly'' True, ChooseAction ''block'']
      = (''block'', [])"
    by code_simp
  show ?thesis
    using media_fields_keep_flags_valid [OF _ run] by (simp add: media_inv_def)
qed

text \<open>
  The rule candidates offered for a search name no identifier twice for a rule type, and every
  candidate has an identifier.
\<close>

theorem rule_candidates_distinct:
  shows "distinct (map (\<lambda>c. (rc_rule_type c, rc_identifier c)) (ruleNameCandidates titles)) \<and>
     list_all (\<lambda>c. rc_identifier c \<noteq> []) (ruleNameCandidates titles)"
  using candidates_pair_distinct [OF ruleNameCandidates_ok] ruleNameCandidates_ok [of titles]
  by (simp add: candidates_ok_def list_all_iff)

text \<open>
  Saving a policy drops its cached results, and saving a report its cached snapshots, exactly when
  what they were computed from changed with respect to the record in the cache.
\<close>

theorem saved_query_clears_results:
  assumes "key_matching pm"
  shows "(removes pm (mu_onSuccess (useUpdatePolicy i policies) policy v) k \<longleftrightarrow>
      (\<exists>previous. policies (policyKeys_detail i) = Some previous \<and> op_query previous \<noteq> op_query policy) \<and>
      prefix (policyKeys_resultsRoot i) k) \<and>
    (removes pm (mu_onSuccess (useUpdateReport i reports) report v) k \<longleftrightarrow>
      (\<exists>previous. reports (reportKeys_detail i) = Some previous \<and> previous \<noteq> report) \<and>
      prefix (reportKeys_snapshotsRoot i) k)"
  by (rule conjI [OF update_policy_removes [OF assms] update_report_removes [OF assms]])

lemma saved_query_clears_results_witness:
  "removes (\<lambda>k f. prefix f k) (mu_onSuccess (useUpdatePolicy 2 (\<lambda>_. Some \<lparr>op_query = ''old''\<rparr>)) \<lparr>op_query = ''new''\<rparr> JNull)
     (policyKeys_resultsRoot 2)"
  using saved_query_clears_results [OF key_matching_prefix] by simp

text \<open>
  Whatever the user does with the includes and excludes of a Santa rule, no step throws, rows are
  saved only valid, ids and labels stay distinct, and no label is included and excluded.
\<close>

theorem santa_targets_stay_valid:
  assumes "santa_targets_ok check s"
  shows "\<exists>s'. run_steps (santa_target_step labels check) s es = Inr s' \<and> santa_targets_ok check s'"
  using assms by (rule santa_run_ok)

lemma santa_targets_stay_valid_witness:
  "\<exists>s'. run_steps (santa_target_step [\<lparr>lc_id = 4, lc_name = ''Staff'', lc_type = ''regular''\<rparr>] (\<lambda>_. None))
      \<lparr>st_include = [], st_exclude = \<lparr>as_rows = [], as_adding = None\<rparr>, st_dialog = None\<rparr>
      [SantaAdd, SantaLabel (Some 4), SantaPolicy ''cel'', SantaExpression ''true'', SantaSave,
       SantaExclude OpenAssign, SantaExclude (PickAssign (Some 4)), SantaExclude SubmitAssign] = Inr s' \<and>
    santa_targets_ok (\<lambda>_. None) s'"
  by (rule santa_targets_stay_valid)
    (simp add: santa_targets_ok_def rows_ok_def assignment_ok_def selectedIncludeLabelIDs_def)

text \<open>
  However the include and the exclude list of a target set are edited, no label is in one of them
  twice or in both.
\<close>

theorem label_targets_stay_apart:
  assumes "targets_apart t"
  shows "targets_apart (target_editor_value (foldl (target_step b labels) (open_target_editor t) es))"
  using assms unfolding target_editor_open [of t] by (intro target_editor_ok_value target_editor_ok_run)

lemma label_targets_stay_apart_witness:
  "let labels = [\<lparr>lc_id = 4, lc_name = ''Staff'', lc_type = ''regular''\<rparr>];
       es = [OnInclude OpenAssign, OnInclude (PickAssign (Some 4)), OnInclude SubmitAssign,
             OnExclude OpenAssign, OnExclude (PickAssign (Some 4)), OnExclude SubmitAssign]
   in targets_apart (target_editor_value (foldl (target_step True labels) (open_target_editor emptyLabelTargetSet) es))"
  unfolding Let_def
  by (rule label_targets_stay_apart) (simp add: targets_apart_def emptyLabelTargetSet_def)

text \<open>
  However often a stored Munki title is opened in the form and saved as it is, the form stays
  valid and what is saved stores what the first save stored: names, icon, includes in their order
  and excludes.
\<close>

theorem munki_software_edits_change_nothing:
  assumes "software_form_valid name form"
    and "edit_run submit_update (software_stores name) munkiSoftwareFormFromSoftware form (t # ts)"
  shows "software_form_valid name (munkiSoftwareFormFromSoftware (last (t # ts))) \<and>
    (\<exists>m. submit_update (munkiSoftwareFormFromSoftware (last (t # ts))) = Inr m \<and> software_stores name m t)"
  using assms by (rule munki_software.edits_change_nothing)

lemma munki_software_edits_change_nothing_witness:
  "let row = \<lparr>mi_label_id = 4, mi_package = \<lparr>ps_strategy = ''latest'', ps_package_id = None\<rparr>,
                mi_actions = [''managed_installs'']\<rparr>;
       t = \<lparr>msd_name = ''Firefox'', msd_display_name = Some ''Firefox'', msd_description = [], msd_category = ''Web'',
            msd_developer = [], msd_icon_object_id = None, msd_icon_file = None, msd_icon_url = None,
            msd_include = [row], msd_exclude = [\<lparr>lr_label_id = 9\<rparr>]\<rparr>
   in software_form_valid ''Firefox'' (munkiSoftwareFormFromSoftware t)"
proof -
  let ?row = "\<lparr>mi_label_id = 4, mi_package = \<lparr>ps_strategy = ''latest'', ps_package_id = None\<rparr>,
                mi_actions = [''managed_installs'']\<rparr>"
  let ?t = "\<lparr>msd_name = ''Firefox'', msd_display_name = Some ''Firefox'', msd_description = [], msd_category = ''Web'',
            msd_developer = [], msd_icon_object_id = None, msd_icon_file = None, msd_icon_url = None,
            msd_include = [?row], msd_exclude = [\<lparr>lr_label_id = 9\<rparr>]\<rparr>"
  let ?f = "emptyMunkiSoftwareForm\<lparr>msf_name := ''Firefox'', msf_display_name := '' Firefox '', msf_category := ''Web'',
     msf_include := [\<lparr>mt_id = 1, mt_priority = 1, mt_label_id = Some 4,
        mt_package = \<lparr>ps_strategy = ''latest'', ps_package_id = None\<rparr>, mt_actions = [''managed_installs'']\<rparr>],
     msf_exclude := [\<lparr>lr_label_id = 9\<rparr>]\<rparr>"
  have trim: "js_trim ''Firefox'' = ''Firefox''" "js_trim '' Firefox '' = ''Firefox''" "js_trim ''Web'' = ''Web''"
    "js_trim [] = []"
    by (simp_all add: js_trim_def js_trim_left_def is_js_space_def)
  have "software_form_valid ''Firefox'' ?f"
    by (simp add: software_form_valid_def schema_empty munkiName_def requiredString_def trim issue_simps
        has_version_suffix_def emptyMunkiSoftwareForm_def icon_issues_def no_upload_def munki_target_ok_def
        selector_ok_def MUNKI_SOFTWARE_ACTION_VALUES_def)
  moreover have "edit_run submit_update (software_stores ''Firefox'') munkiSoftwareFormFromSoftware ?f [?t]"
    by (simp add: submit_update_def software_update_def software_stores_def munkiSoftwareInclude_def
        emptyMunkiSoftwareForm_def trim)
  ultimately show ?thesis
    using munki_software_edits_change_nothing [where t = ?t and ts = "[]"] by (simp add: Let_def)
qed

text \<open>
  The package chosen for a Munki target survives its text form in the select, for the latest
  package and for every id.
\<close>

theorem package_selector_round_trip:
  assumes "selector_ok p"
  shows "targetPackageFromValue (targetPackageValue platform p) = p"
  using assms by (rule selector_text_roundtrip)

lemma package_selector_round_trip_witness:
  "targetPackageFromValue (targetPackageValue (\<lambda>_. []) \<lparr>ps_strategy = ''specific'', ps_package_id = Some (num_of_int 42)\<rparr>)
     = \<lparr>ps_strategy = ''specific'', ps_package_id = Some (num_of_int 42)\<rparr>"
  by (rule package_selector_round_trip) (auto simp: selector_ok_def max_safe_integer_def)

text \<open>
  However often stored client resources are opened in the form and saved as they are, the form
  stays valid and what is saved stores the banner, links and footer of the first save.
\<close>

theorem client_resources_edits_change_nothing:
  assumes "stored_builder_form parse_url lower form"
    and "edit_run (submit_resources parse_url lower) resources_stores
      (\<lambda>r. clientResourcesFormFromResource uuid (Some r)) form (r # rs)"
  shows "stored_builder_form parse_url lower (clientResourcesFormFromResource uuid (Some (last (r # rs)))) \<and>
    (\<exists>m. submit_resources parse_url lower (clientResourcesFormFromResource uuid (Some (last (r # rs)))) = Inr m \<and>
       resources_stores m r)"
  using assms by (rule resources_builder.edits_change_nothing)

lemma client_resources_edits_change_nothing_witness:
  "let b = \<lparr>rb_banner = \<lparr>ov_id = 3, ov_filename = ''b.png'', ov_content_url = ''/b''\<rparr>, rb_banner_fit = ''cover'',
          rb_banner_focal_x = num_of_int 50, rb_links = [], rb_footer_text = ''Help'', rb_footer_links = []\<rparr>
   in stored_builder_form (\<lambda>_. None) (\<lambda>l. l) (clientResourcesFormFromResource show_nat
        (Some \<lparr>mcr_id = 1, mcr_custom = False, mcr_archive = \<lparr>ov_id = 3, ov_filename = [], ov_content_url = []\<rparr>, mcr_builder = Some b\<rparr>))"
proof -
  let ?b = "\<lparr>rb_banner = \<lparr>ov_id = 3, ov_filename = ''b.png'', ov_content_url = ''/b''\<rparr>, rb_banner_fit = ''cover'',
          rb_banner_focal_x = num_of_int 50, rb_links = [], rb_footer_text = ''Help'', rb_footer_links = []\<rparr>"
  let ?r = "\<lparr>mcr_id = 1, mcr_custom = False, mcr_archive = \<lparr>ov_id = 3, ov_filename = [], ov_content_url = []\<rparr>, mcr_builder = Some ?b\<rparr>"
  let ?f = "emptyClientResourcesForm\<lparr>cr_fit := ''cover'', cr_focalX := num_of_int 50, cr_footer_text := '' Help '',
    cr_asset := Some \<lparr>ra_name = ''b.png'', ra_url = ''/b'', ra_objectID = Some 3, ra_file = None\<rparr>\<rparr>"
  have trim: "js_trim '' Help '' = ''Help''" by (simp add: js_trim_def js_trim_left_def is_js_space_def)
  have ok: "builder_ok (\<lambda>_. None) (\<lambda>l. l) ?f"
    by (simp add: builder_ok_def emptyClientResourcesForm_def asset_ok_def links_ok_def shown_labels_def trim)
  then have valid: "stored_builder_form (\<lambda>_. None) (\<lambda>l. l) ?f"
    by (simp add: stored_builder_form_def form_issues_empty emptyClientResourcesForm_def)
  have "edit_run (submit_resources (\<lambda>_. None) (\<lambda>l. l)) resources_stores
      (\<lambda>r. clientResourcesFormFromResource show_nat (Some r)) ?f [?r]"
    using submit_resources_builder [OF ok] by (simp add: emptyClientResourcesForm_def Let_def trim)
  from client_resources_edits_change_nothing [OF valid this] show ?thesis by (simp add: Let_def)
qed

text \<open>
  However the links of client resources are added, edited, removed and reordered, there are at
  most twelve, every saved link is valid, and an open dialog edits an item that exists.
\<close>

theorem link_editor_stays_valid:
  assumes "link_editor_ok parse_url s"
  shows "link_editor_ok parse_url (foldl (link_step parse_url) s es)"
  using assms by (rule link_editor_ok_run)

lemma link_editor_stays_valid_witness:
  "link_editor_ok (\<lambda>_. None) (foldl (link_step (\<lambda>_. None)) \<lparr>le_items = [], le_dialog = None\<rparr>
     [LinkAdd ''1'', LinkLabel ''Help'', LinkTarget ''nowhere'', LinkSave])"
  by (rule link_editor_stays_valid) (simp add: link_editor_ok_def)

text \<open>
  What a live query shows does not depend on how the network cuts the text of the event stream
  into chunks, as long as no line end of two characters is cut; the stream always ends.
\<close>

theorem live_stream_ignores_chunks:
  assumes "whole_line_ends texts" and "whole_line_ends texts'" and "concat texts = concat texts'"
  shows "\<exists>shown. map_option (live_run dp lc (live_start s0 dp lc))
       (live_stream_inputs parse decode (Responds status reason (Some (texts, ending)))) = Some shown \<and>
     map_option (live_run dp lc (live_start s0 dp lc))
       (live_stream_inputs parse decode (Responds status reason (Some (texts', ending)))) = Some shown"
  by (simp only: live_stream_whole [OF assms], simp add: live_stream_one_turn)

lemma live_stream_ignores_chunks_witness:
  "\<exists>shown. map_option (live_run (\<lambda>_. None) (\<lambda>_ _. 0) (live_start stream_init (\<lambda>_. None) (\<lambda>_ _. 0)))
       (live_stream_inputs (\<lambda>_. Some ()) (\<lambda>_. CompletedEvent) (Responds 200 ''OK'' (Some ([''da'', ''ta: 1'' @ [LF], [LF]], None)))) = Some shown"
  using live_stream_ignores_chunks [where texts = "[''da'', ''ta: 1'' @ [LF], [LF]]" and texts' = "[''data: 1'' @ [LF, LF]]"]
    no_cr_whole [of "[''da'', ''ta: 1'' @ [LF], [LF]]"] no_cr_whole [of "[''data: 1'' @ [LF, LF]]"]
  by (simp del: whole_line_ends.simps) blast

text \<open>
  However a table is paged, sorted, filtered and searched, its page is a positive safe integer and
  its page size in range; every change but paging returns to the first page, and after the rows
  are counted the page is clamped to the last one, once.
\<close>

theorem table_search_stays_valid:
  assumes "search_ok s" and "0 \<le> pageCount" and "pageCount \<le> max_safe_integer"
  shows "search_ok (foldl (table_step keys) s es) \<and>
     (\<forall>e. (\<forall>u. e \<noteq> Paginate u) \<longrightarrow> ts_page (table_step keys (foldl (table_step keys) s es) e) = num_of_int 1) \<and>
     (let t = foldl (table_step keys) s es
      in clamp_page pageCount t = t\<lparr>ts_page := num_of_int (min (int_part (ts_page t)) (max 1 pageCount))\<rparr> \<and>
         clamp_page pageCount (clamp_page pageCount t) = clamp_page pageCount t)"
  using search_ok_run [OF assms(1)] clamp_page_settles [OF search_ok_run [OF assms(1)] assms(2,3)]
  by (simp add: first_page_again Let_def)

lemma table_search_stays_valid_witness:
  "let s = \<lparr>ts_q = None, ts_page = num_of_int 1, ts_per_page = num_of_int 25, ts_sort = None, ts_fields = (\<lambda>_. None)\<rparr>
   in search_ok (foldl (table_step []) s [Paginate (Update (\<lambda>p. p\<lparr>pg_index := 7\<rparr>)), SearchFor (Some ''mac'')])"
proof -
  have "search_ok \<lparr>ts_q = None, ts_page = num_of_int 1, ts_per_page = num_of_int 25, ts_sort = None, ts_fields = (\<lambda>_. None)\<rparr>"
    by (simp add: search_ok_def page_size_ok_iff MAX_PAGE_SIZE_def max_safe_integer_def)
  then show ?thesis unfolding Let_def
    by (rule table_search_stays_valid [where pageCount = 0, THEN conjunct1]) (simp_all add: max_safe_integer_def)
qed

text \<open>
  The sorting and the filters a table is given come back from the search parameters: of the
  sorting the first column, of the filters those of the declared keys without empty values, one
  value where a key takes one.
\<close>

theorem table_state_survives_the_url:
  assumes "\<forall>item \<in> set items. column_id (so_id item)" and "distinct (map fk_id keys)"
  shows "table_sorting (onSortingChange (Replace items) s) = singleSort items \<and>
     table_filters keys (onColumnFiltersChange keys (Replace next) s) = concat (map (kept_filter next) keys)"
  using sorting_kept [OF assms(1)] filters_kept [OF assms(2)] by blast

lemma table_state_survives_the_url_witness:
  "table_sorting (onSortingChange (Replace [\<lparr>so_id = ''host.name'', so_desc = True\<rparr>])
     \<lparr>ts_q = None, ts_page = num_of_int 1, ts_per_page = num_of_int 25, ts_sort = None, ts_fields = (\<lambda>_. None)\<rparr>)
   = [\<lparr>so_id = ''host.name'', so_desc = True\<rparr>]"
  using table_state_survives_the_url [of "[\<lparr>so_id = ''host.name'', so_desc = True\<rparr>]" "[]"]
  by (simp add: column_id_def is_js_space_def singleSort_def)

text \<open>
  Once the delay after the last key stroke is over the query of a table is the trimmed text, or
  none when it is blank, the box is not shown as pending, and it stays so until there is another
  input.
\<close>

theorem search_box_settles:
  assumes "tidy_query q" and "\<forall>e \<in> set es. tidy_event e"
  shows "sb_q (search_box_step (search_box_step (foldl search_box_step (open_box q) es) (TypeText v)) DelayOver) = write_query v \<and>
    \<not> search_pending False (search_box_step (search_box_step (foldl search_box_step (open_box q) es) (TypeText v)) DelayOver)"
  by (intro box_settles box_ok_step box_ok_run box_ok_open assms typed_last) (simp add: tidy_event_def)

lemma search_box_settles_witness:
  "sb_q (search_box_step (search_box_step (foldl search_box_step (open_box None) [TypeText ''m'']) (TypeText '' mac '')) DelayOver)
     = Some ''mac''"
  using search_box_settles [of None "[TypeText ''m'']" "'' mac ''"]
  by (simp add: tidy_query_def tidy_event_def write_query_def js_trim_def js_trim_left_def is_js_space_def)

text \<open>
  However often a stored label is opened in the form and saved as it is, the form stays valid and
  what is saved stores the label the first save stored, whatever its membership type.
\<close>

theorem label_edits_change_nothing:
  assumes "label_form_ok form" and "edit_run toBody label_stores labelFromDetail form (d # ds)"
  shows "label_form_ok (labelFromDetail (last (d # ds))) \<and>
    (\<exists>m. toBody (labelFromDetail (last (d # ds))) = Inr m \<and> label_stores m d)"
  using assms by (rule label_form.edits_change_nothing)

lemma label_edits_change_nothing_witness:
  "label_form_ok (labelFromDetail \<lparr>ld_name = ''IT'', ld_description = [], ld_query = None,
     ld_host_ids = Some [3, 5], ld_criteria = None, ld_membership = ''manual''\<rparr>)"
proof -
  let ?f = "emptyLabel\<lparr>lf_name := '' IT'', lf_membership := ''manual'', lf_host_ids := [3, 5]\<rparr>"
  let ?d = "\<lparr>ld_name = ''IT'', ld_description = [], ld_query = None,
     ld_host_ids = Some [3, 5], ld_criteria = None, ld_membership = ''manual''\<rparr>"
  have ok: "label_form_ok ?f" by code_simp
  have "toBody ?f = Inr \<lparr>lm_name = ''IT'', lm_description = [], lm_membership = ''manual'', lm_query = None,
      lm_host_ids = Some [3, 5], lm_criteria = None\<rparr>" by code_simp
  then have "edit_run toBody label_stores labelFromDetail ?f [?d]" by (simp add: label_stores_def)
  from label_edits_change_nothing [OF ok this] show ?thesis by simp
qed

text \<open>
  Whatever is typed and chosen in the form of a label, a derived label that is sent has values,
  and each is a value the selector offered for the attribute it is sent with: choosing another
  attribute drops the values of the old one.
\<close>

theorem label_sends_values_of_its_attribute:
  assumes "label_editor_ok belongs s" and "label_run_fits belongs s es"
    and "toBody (lfe_form (foldl label_step s es)) = Inr m" and "lm_criteria m = Some c"
  shows "lcr_values c \<noteq> [] \<and> (\<forall>v \<in> set (lcr_values c). \<exists>w. belongs (lcr_attribute c) w \<and> v = js_trim w)"
  by (rule label_body_fits [OF label_editor_ok_run [OF assms(1,2)] assms(3,4)])

lemma label_sends_values_of_its_attribute_witness:
  "let s = foldl label_step \<lparr>lfe_form = emptyLabel, lfe_schema = False, lfe_table = None\<rparr>
        [LabelName ''D'', LabelType ''derived'', LabelValues [''x'', ''y'']]
   in \<exists>m. toBody (lfe_form s) = Inr m \<and> lcr_values (the (lm_criteria m)) \<noteq> []"
proof -
  let ?s = "\<lparr>lfe_form = emptyLabel, lfe_schema = False, lfe_table = None\<rparr>"
  let ?es = "[LabelName ''D'', LabelType ''derived'', LabelValues [''x'', ''y'']]"
  have ok: "label_editor_ok (\<lambda>_ _. True) ?s" "label_run_fits (\<lambda>_ _. True) ?s ?es"
    by (simp_all add: label_editor_ok_def label_event_fits_def emptyLabel_def LABEL_MEMBERSHIP_VALUES_def LABEL_DERIVED_ATTRIBUTE_VALUES_def)
  have body: "toBody (lfe_form (foldl label_step ?s ?es)) = Inr \<lparr>lm_name = ''D'', lm_description = [],
      lm_membership = ''derived'', lm_query = None, lm_host_ids = None,
      lm_criteria = Some \<lparr>lcr_attribute = lf_derived_attribute emptyLabel, lcr_values = [''x'', ''y'']\<rparr>\<rparr>"
    by code_simp
  from label_sends_values_of_its_attribute [OF ok body] body show ?thesis by (simp add: Let_def)
qed

text \<open>
  Switching rows of the page in the host selector of a label adds or removes exactly these hosts:
  the hosts selected on other pages stay, and every id survives the text keys of the table.
\<close>

theorem selected_hosts_change_only_on_the_page:
  assumes "\<forall>i \<in> set selection \<union> set rows. host_id_ok i"
  shows "set (host_selection (Update (switch_rows (map show_int rows) on)) selection) =
    (if on then set selection \<union> set rows else set selection - set rows)"
  using assms by (rule host_selection_switch)

lemma selected_hosts_change_only_on_the_page_witness:
  "set (host_selection (Update (switch_rows (map show_int [7]) True)) [3, 12]) = {3, 7, 12}"
  using selected_hosts_change_only_on_the_page [of "[3, 12]" "[7]" True]
  by (auto simp: host_id_ok_def max_safe_integer_def)

text \<open>
  However often a stored osquery policy is opened in the form and saved as it is, the form stays
  valid and what is saved stores the policy and the remediation script of the first save.
\<close>

theorem policy_edits_change_nothing:
  assumes "policy_form_ok form"
    and "edit_run submit_policy policy_stores (\<lambda>(d, script). policyFromDetail d script) form (r # rs)"
  shows "policy_form_ok (case last (r # rs) of (d, script) \<Rightarrow> policyFromDetail d script) \<and>
    (\<exists>m. submit_policy (case last (r # rs) of (d, script) \<Rightarrow> policyFromDetail d script) = Inr m \<and> policy_stores m r)"
  using assms by (rule policy_form.edits_change_nothing)

lemma policy_edits_change_nothing_witness:
  "let d = \<lparr>pod_name = ''P'', pod_description = [], pod_resolution = [], pod_query = ''select 1;'',
       pod_targets = None, pod_automatic = True\<rparr>
   in \<exists>m. submit_policy (policyFromDetail d ''echo'') = Inr m \<and> policy_stores m (d, ''echo'')"
proof -
  let ?f = "emptyPolicy\<lparr>plf_name := ''P '', plf_remediation := \<lparr>prm_script = ''echo'', prm_automatic = True\<rparr>\<rparr>"
  let ?d = "\<lparr>pod_name = ''P'', pod_description = [], pod_resolution = [], pod_query = ''select 1;'',
       pod_targets = None, pod_automatic = True\<rparr>"
  have ok: "policy_form_ok ?f" by code_simp
  have "submit_policy ?f = Inr \<lparr>opm_name = ''P'', opm_description = Some [], opm_resolution = Some [],
      opm_query = ''select 1;'', opm_targets = emptyLabelTargetSet,
      opm_remediation = Some \<lparr>prm_script = ''echo'', prm_automatic = True\<rparr>\<rparr>" by code_simp
  then have "edit_run submit_policy policy_stores (\<lambda>(d, script). policyFromDetail d script) ?f [(?d, ''echo'')]"
    by (simp add: policy_stores_def normalizeLabelTargetSet_def emptyLabelTargetSet_def)
  from policy_edits_change_nothing [OF ok this] show ?thesis by (simp add: Let_def)
qed

text \<open>
  However often a stored osquery report is opened in the form and saved as it is, the form stays
  valid and what is saved stores the report of the first save, its minimal version and its
  interval included.
\<close>

theorem report_edits_change_nothing:
  assumes "report_form_ok form" and "edit_run submit_report report_stores reportFromDetail form (d # ds)"
  shows "report_form_ok (reportFromDetail (last (d # ds))) \<and>
    (\<exists>m. submit_report (reportFromDetail (last (d # ds))) = Inr m \<and> report_stores m d)"
  using assms by (rule report_form.edits_change_nothing)

lemma report_edits_change_nothing_witness:
  "let d = \<lparr>rpd_name = ''R'', rpd_description = [], rpd_query = ''select 1;'', rpd_min_osquery_version = Some ''5.9.1'',
       rpd_schedule_interval = num_of_int 3600, rpd_targets = None\<rparr>
   in \<exists>m. submit_report (reportFromDetail d) = Inr m \<and> report_stores m d"
proof -
  let ?f = "emptyReport\<lparr>orm_name := ''R '', orm_query := ''select 1;'', orm_min_osquery_version := Some ''5.9.1'',
      orm_schedule_interval := Some (num_of_int 3600)\<rparr>"
  let ?d = "\<lparr>rpd_name = ''R'', rpd_description = [], rpd_query = ''select 1;'', rpd_min_osquery_version = Some ''5.9.1'',
       rpd_schedule_interval = num_of_int 3600, rpd_targets = None\<rparr>"
  have v: "osqueryVersionSchema (Some ''5.9.1'') = []" "js_trim ''R '' = ''R''" "js_trim ''select 1;'' = ''select 1;''"
    "nonEmpty (Some ''5.9.1'') = Some ''5.9.1''"
    by code_simp+
  have ok: "report_form_ok ?f"
    by (simp add: report_form_ok_def reportFormSchema_def issue_simps emptyReport_def v max_safe_integer_def
        target_issues_def emptyLabelTargetSet_def)
  have "submit_report ?f = Inr \<lparr>orm_name = ''R'', orm_description = Some [], orm_query = ''select 1;'',
      orm_min_osquery_version = Some ''5.9.1'', orm_schedule_interval = Some (num_of_int 3600),
      orm_targets = emptyLabelTargetSet\<rparr>"
    using ok by (simp add: submit_report_def report_form_ok_def trimReport_def emptyReport_def v)
  then have "edit_run submit_report report_stores reportFromDetail ?f [?d]"
    by (simp add: report_stores_def normalizeLabelTargetSet_def emptyLabelTargetSet_def)
  from report_edits_change_nothing [OF ok this] show ?thesis by (simp add: Let_def)
qed

text \<open>
  Submitting an invalid policy form sends nothing and brings the first tab marked invalid to the
  front: every issue of the schema belongs to a tab.
\<close>

theorem invalid_submit_shows_its_tab:
  assumes "policyFormSchema (qf_values s) \<noteq> []"
  shows "qf_sent (submit_form policy_kind confirm initial s) = qf_sent s \<and>
    (\<exists>before tab after. policyFormTabs = before @ tab # after \<and>
      qf_tab (submit_form policy_kind confirm initial s) = ft_value tab \<and>
      tab_marked (qf_attempts s + 1) (issue_meta (policyFormSchema (qf_values s))) tab \<and>
      (\<forall>t \<in> set before. \<not> tab_marked (qf_attempts s + 1) (issue_meta (policyFormSchema (qf_values s))) t))"
  using invalid_submit [of policy_kind s confirm initial] policy_tabs_cover [of "qf_values s"] assms
  by (simp add: policy_kind_def policyFormTabs_def)

lemma invalid_submit_shows_its_tab_witness:
  "qf_sent (submit_form policy_kind True emptyPolicy (open_form emptyPolicy ''targets'')) = []"
  using invalid_submit_shows_its_tab [of "open_form emptyPolicy ''targets''" True emptyPolicy]
  by (simp add: open_form_def emptyPolicy_def policyFormSchema_def requiredString_def issue_simps)

text \<open>
  The minimal osquery version of a report is accepted exactly when it is absent or the dotted
  canonical decimal text of three naturals; an accepted version is always offered by the select,
  once, and choosing what is shown gives it back.
\<close>

theorem osquery_versions_are_canonical:
  shows "(osqueryVersionSchema current = []) =
      (current = None \<or> (\<exists>a b c. current = Some (show_nat a @ ''.'' @ show_nat b @ ''.'' @ show_nat c))) \<and>
    \<not> (osqueryVersionSchema current = [] \<and>
       \<not> (distinct (map fst (osqueryVersionOptions current)) \<and>
          version_choice current \<in> fst ` set (osqueryVersionOptions current) \<and>
          choose_version (Some (version_choice current)) = current))"
  using version_options [of current]
  by (auto simp: osqueryVersionSchema_def osquery_version_iff issue_if_def split: option.splits)

text \<open>
  Running a policy live from its form and going back finds the edited form again, for the same
  record only, and it sends what the form that was left would have sent.
\<close>

theorem live_page_returns_the_edited_form:
  assumes "h = e # es"
  shows "case policy_draft j (he_osquery (hd (tl (open_policy_live i (policyMutationFromForm f) h)))) of
      None \<Rightarrow> i \<noteq> j
    | Some m \<Rightarrow> i = j \<and> policyMutationFromForm (policyFormValue m) = policyMutationFromForm f"
  using assms by (rule policy_live_return)

lemma live_page_returns_the_edited_form_witness:
  "\<exists>h. h \<noteq> [] \<and> policy_draft (Some 3) (he_osquery (hd (tl (open_policy_live (Some 3) (policyMutationFromForm emptyPolicy) h)))) \<noteq> None"
  using live_page_returns_the_edited_form [OF refl, of "Some 3" "Some 3" emptyPolicy undefined "[]"]
  by (intro exI [of _ "[undefined]"]) (auto split: option.splits)

text \<open>
  Cancelling while the installer is uploaded leaves the page without a mutation: whatever settles
  afterwards, nothing is sent and nothing is claimed.
\<close>

theorem cancelled_upload_saves_nothing:
  assumes "psv_phase s = UploadingInstaller f"
  shows "psv_sent (foldl (save_step page) s (CancelPackage # es)) = psv_sent s \<and>
    psv_claimed (foldl (save_step page) s (CancelPackage # es)) = psv_claimed s"
  using discards_run [of "save_step page s CancelPackage" page es] assms by (simp add: discards_def)

lemma cancelled_upload_saves_nothing_witness:
  "psv_sent (foldl (save_step CreatePage) (save_step CreatePage open_save
      (SubmitPackage False (Some \<lparr>jf_name = ''a.pkg'', jf_type = [], jf_size = 3\<rparr>) :: (unit, unit, unit) save_event))
      [CancelPackage, SubmitPackage True None]) = []"
proof -
  let ?f = "\<lparr>jf_name = ''a.pkg'', jf_type = [], jf_size = 3\<rparr>"
  let ?s = "save_step CreatePage open_save (SubmitPackage False (Some ?f) :: (unit, unit, unit) save_event)"
  have "psv_phase ?s = UploadingInstaller ?f" "psv_sent ?s = []"
    by (simp_all add: open_save_def start_save_def Let_def)
  from cancelled_upload_saves_nothing [OF this(1), of CreatePage "[SubmitPackage True None]"] this(2)
  show ?thesis by metis
qed

text \<open>
  The groups of the reference select are the packages by software, in the order of the first
  package of each software and within it in the order given; every package is in one.
\<close>

theorem package_references_are_grouped:
  shows "packageReferenceGroups packages = map (software_group packages) (js_set (map po_software_id packages)) \<and>
    set (concat (map pg_packages (packageReferenceGroups packages))) = set packages"
  by (simp only: reference_groups [of packages] grouped_packages [of packages, unfolded reference_groups [of packages]])

text \<open>
  Every issue of the package form belongs to a tab of its editor, and every tab survives the
  search parameter of the page.
\<close>

theorem every_package_issue_has_a_tab:
  shows "list_all (\<lambda>i. tabs_cover packageFormTabs (is_path i)) (package_issues de sm form) \<and>
    list_all (\<lambda>tab. active_tab (packageFormTabSearchValue (ft_value tab)) = ft_value tab) packageFormTabs"
  using package_tabs_cover [of de sm form] by (simp add: list_all_iff tab_search)

text \<open>
  However often a stored distribution point is opened in the form and saved as it is, the form
  stays valid and what is saved is what the first save stored, for every check of host names and
  CIDRs.
\<close>

theorem point_edits_change_nothing:
  assumes "point_form_ok hostname cidr form"
    and "edit_run (submit_point hostname cidr) point_stores (formFromDistributionPoint rowID) form (r # rs)"
  shows "point_form_ok hostname cidr (formFromDistributionPoint rowID (last (r # rs))) \<and>
    (\<exists>b. submit_point hostname cidr (formFromDistributionPoint rowID (last (r # rs))) = Inr b \<and> point_stores b r)"
  using assms by (rule point_form.edits_change_nothing)

lemma point_edits_change_nothing_witness:
  "\<exists>b. submit_point (\<lambda>h. h \<noteq> []) (\<lambda>c. c \<noteq> []) (formFromDistributionPoint show_nat
      \<lparr>dpm_name = ''n'', dpm_enabled = True, dpm_client_base_url = ''https://a'', dpm_client_cidrs = [''c'']\<rparr>) = Inr b"
proof -
  let ?r = "\<lparr>dpm_name = ''n'', dpm_enabled = True, dpm_client_base_url = ''https://a'', dpm_client_cidrs = [''c'']\<rparr>"
  let ?f = "\<lparr>dpf_name = ''n'', dpf_enabled = True, dpf_client_domain = ''a'',
     dpf_client_cidrs = [\<lparr>dr_rowID = ''r'', dr_value = ''c''\<rparr>]\<rparr>"
  have trim: "js_trim ''n'' = ''n''" "js_trim ''a'' = ''a''" "js_trim ''c'' = ''c''"
    by (simp_all add: js_trim_def js_trim_left_def is_js_space_def)
  have ok: "point_form_ok (\<lambda>h. h \<noteq> []) (\<lambda>c. c \<noteq> []) ?f"
    by (simp add: point_form_ok_def point_issues_empty trim point_domain_ok_def isClientDomain_def)
  have "submit_point (\<lambda>h. h \<noteq> []) (\<lambda>c. c \<noteq> []) ?f = Inr ?r"
    using point_sends [OF ok] by (simp add: distributionPointBody_def point_output_def trim httpsOriginFromDomain_def
        point_cleanStringRows_def)
  then have run: "edit_run (submit_point (\<lambda>h. h \<noteq> []) (\<lambda>c. c \<noteq> [])) point_stores (formFromDistributionPoint show_nat) ?f [?r]"
    by (simp add: point_stores_def)
  from point_edits_change_nothing [OF ok run] show ?thesis by auto
qed

text \<open>
  The domain of a distribution point is accepted exactly when it is a host name without colon,
  alone or followed by a colon and the canonical decimal text of a port from 1 to 65535.
\<close>

theorem client_domains_are_hosts_with_a_port:
  shows "isClientDomain hostname v \<longleftrightarrow>
     (\<exists>h. CHR '':'' \<notin> set h \<and> hostname h \<and>
        (v = h \<or> (\<exists>n. 0 < n \<and> n \<le> 65535 \<and> v = h @ '':'' @ show_nat n)))"
  by (rule client_domain_iff)

text \<open>
  Saving the form of a user of a directory sends the name as it is stored and no password; the
  role none is never sent, and a password that is sent has at least twelve characters.
\<close>

theorem directory_users_keep_their_name:
  assumes "submit_user (user, form) = Inr (source, m)"
  shows "\<not> (usr_source user \<noteq> ''local'' \<and> (um_name m \<noteq> usr_name user \<or> um_password m \<noteq> None)) \<and>
    um_role m \<noteq> Some ''none'' \<and> (case um_password m of None \<Rightarrow> True | Some p \<Rightarrow> 12 \<le> length p)"
  using sent_user [OF assms] by (auto split: option.split)

lemma directory_users_keep_their_name_witness:
  "\<exists>m. submit_user (\<lparr>usr_name = ''Ada'', usr_role = None, usr_source = ''entra''\<rparr>,
      \<lparr>uf_name = ''Eve'', uf_role = ''none'', uf_password = replicate 12 (CHR ''p'')\<rparr>) = Inr (''entra'', m) \<and> um_name m = ''Ada''"
proof -
  let ?u = "\<lparr>usr_name = ''Ada'', usr_role = None, usr_source = ''entra''\<rparr>"
  let ?f = "\<lparr>uf_name = ''Eve'', uf_role = ''none'', uf_password = replicate 12 (CHR ''p'')\<rparr>"
  have m: "submit_user (?u, ?f) = Inr (''entra'', user_body ?u ?f)"
    by (simp add: submit_user_def userFormSchema_def issue_simps)
  from directory_users_keep_their_name [OF m] m show ?thesis by auto
qed

text \<open>
  However often a stored user is opened in the form and saved as it is, the form stays valid and
  what is saved stores the name and role of the first save.
\<close>

theorem user_edits_change_nothing:
  assumes "user_form_ok p" and "edit_run submit_user user_stores (\<lambda>r. (r, userFromDetail r)) p (r # rs)"
  shows "user_form_ok (last (r # rs), userFromDetail (last (r # rs))) \<and>
    (\<exists>b. submit_user (last (r # rs), userFromDetail (last (r # rs))) = Inr b \<and> user_stores b r)"
  using assms by (rule user_form.edits_change_nothing)

lemma user_edits_change_nothing_witness:
  "let u = \<lparr>usr_name = ''Ada'', usr_role = Some ''admin'', usr_source = ''entra''\<rparr>
   in user_form_ok (u, userFromDetail u)"
proof -
  let ?u = "\<lparr>usr_name = ''Ada'', usr_role = Some ''admin'', usr_source = ''entra''\<rparr>"
  let ?f = "\<lparr>uf_name = ''Eve'', uf_role = ''admin'', uf_password = []\<rparr>"
  have ok: "user_form_ok (?u, ?f)" by (simp add: user_form_ok_def userFormSchema_def issue_simps js_trim_def js_trim_left_def)
  have "edit_run submit_user user_stores (\<lambda>r. (r, userFromDetail r)) (?u, ?f) [?u]"
    using ok by (simp add: submit_user_def user_form_ok_def user_stores_def user_body_def userMutationRole_def)
  from user_edits_change_nothing [OF ok this] show ?thesis by (simp add: Let_def)
qed

text \<open>
  While an order is edited, data that arrives with the same rows in the same places keeps the
  order under way and the save under way, and only renews what the rows say.
\<close>

theorem order_survives_a_refetch:
  assumes "moves_rows move" and "s = foldl (order_step move rid True) (open_order filtered) es"
    and "op_editor s = Some ed" and "op_enabled s" and "map rid (page_items p) = map rid (serverRows s)"
  shows "op_editor (order_step move rid True s (ShowPage (Some p) False)) =
    Some (ed\<lparr>ed_rows := page_items p, ed_total := page_count p\<rparr>)"
  by (rule order_refetched [OF order_ok_run [OF assms(1) order_ok_open, of rid True filtered es, folded assms(2)] assms(3,4) TrueI assms(5)])

lemma order_survives_a_refetch_witness:
  "let swap = \<lambda>(rows :: (int \<times> bool) list) i j. rows[i := rows ! j, j := rows ! i];
       s = foldl (order_step swap fst True) (open_order False)
             [ShowPage (Some \<lparr>page_count = 2, page_items = [(4, True), (9, True)]\<rparr>) False, ClickEditOrder, ConfirmOrder,
              DragRow False 0 1]
   in map_option ed_ordered (op_editor (order_step swap fst True s
        (ShowPage (Some \<lparr>page_count = 2, page_items = [(4, False), (9, True)]\<rparr>) False))) = Some [(9, True), (4, True)]"
proof -
  let ?swap = "\<lambda>(rows :: (int \<times> bool) list) i j. rows[i := rows ! j, j := rows ! i]"
  let ?es = "[ShowPage (Some \<lparr>page_count = 2, page_items = [(4, True), (9, True)]\<rparr>) False, ClickEditOrder, ConfirmOrder,
      DragRow False 0 1]"
  let ?s = "foldl (order_step ?swap fst True) (open_order False) ?es"
  let ?p = "\<lparr>page_count = 2, page_items = [(4, False), (9, True)]\<rparr>"
  have move: "moves_rows ?swap" by (auto simp: moves_rows_def mset_swap)
  have "op_editor ?s = Some \<lparr>ed_rows = [(4, True), (9, True)], ed_total = 2, ed_ordered = [(9, True), (4, True)],
      ed_saving = None\<rparr>" "op_enabled ?s" "map fst (page_items ?p) = map fst (serverRows ?s)"
    by (simp_all add: order_step_def open_order_def show_editor_def canEnableReorder_def totalCount_def serverRows_def
        dragDisabled_def truncated_def drag_end_def MAX_PAGE_SIZE_def)
  from order_survives_a_refetch [OF move refl this] show ?thesis by (simp add: Let_def)
qed

text \<open>
  A JSON value answered with a success is the data of the call, and a problem answered with a
  failure is thrown with its status, its fields, and a message taken from its errors, its detail
  or its title.
\<close>

theorem answers_reach_the_caller:
  assumes "safe_json j" and "truthy_json j" and "status \<noteq> 204"
  shows "unwrap (Inr (answered pf (json_answer number status j))) =
    (if 200 \<le> status \<and> status \<le> 299 then Inr (Some (DJson j))
     else Inl (ApiError status (describeError (Some (error_model_of j)) status) (Some (error_model_of j))))"
  using json_answer_data [OF assms(1) _ _ assms(3), of pf number] problem_message [OF assms(1,2), of status pf number]
  by (auto simp del: unwrap.simps)

lemma answers_reach_the_caller_witness:
  "\<forall>pf number. \<exists>m b. unwrap (Inr (answered pf (json_answer number 409 (JObj [(''detail'', JStr ''name is taken'')])))) =
    Inl (ApiError 409 m b) \<and> m = ''name is taken''"
  using answers_reach_the_caller [of "JObj [(''detail'', JStr ''name is taken'')]" 409]
  by (simp add: truthy_json_def describeError_def error_model_of_def json_text_at_def json_get_def body_details_def
      or_else_def del: unwrap.simps)

text \<open>
  A file whose upload failed once keeps showing its error after a later upload of it succeeded.
\<close>

theorem error_outlives_upload:
  assumes "map_of (fu_files s) f = Some x" and "m \<noteq> []"
  shows "\<exists>y. map_of (fu_files (foldl (file_step props) s [UploadFailed f m, UploadSucceeded f])) f = Some y \<and>
    fs_status y = FileSuccess \<and> statusText number y = ''Error: '' @ m"
  using assms by (rule error_outlives_success)

lemma error_outlives_upload_witness:
  "let s = (file_store_init False)\<lparr>fu_files := [(leaking_file, new_file_state)]\<rparr>
   in \<exists>y. map_of (fu_files (foldl (file_step (banner_props True False)) s
        [UploadFailed leaking_file ''x'', UploadSucceeded leaking_file])) leaking_file = Some y \<and>
      fs_status y = FileSuccess"
  using error_outlives_upload [of "(file_store_init False)\<lparr>fu_files := [(leaking_file, new_file_state)]\<rparr>"
      leaking_file new_file_state "''x''" "banner_props True False" "\<lambda>n. []"]
  by (auto simp: file_store_init_def Let_def simp del: file_step.simps foldl.simps)

text \<open>
  A controlled upload component whose parent takes a file out never revokes the URL of its
  preview.
\<close>

theorem removed_value_keeps_its_url:
  assumes "fp_controlled props"
  shows "fu_revoked (foldl (file_step props) (file_store_init b)
      [ValueGiven [leaking_file], PreviewShown leaking_file ''blob:1'', ValueGiven [], FileUploadClosed]) = []"
  using assms by (rule url_left_behind)

lemma removed_value_keeps_its_url_witness:
  "fu_revoked (foldl (file_step ((banner_props True False)\<lparr>fp_controlled := True\<rparr>)) (file_store_init False)
      [ValueGiven [leaking_file], PreviewShown leaking_file ''blob:1'', ValueGiven [], FileUploadClosed]) = []"
  by (rule removed_value_keeps_its_url) simp

text \<open>
  The banner of the client resources takes the first file chosen if it is a JPEG or PNG of at most
  5 MB and not empty, and nothing else.
\<close>

theorem banner_takes_one_image:
  assumes "fu_files s = []"
  shows "accepted_files (banner_props editable uploading) s chosen = filter banner_image (take 1 chosen)"
  using assms by (rule banner_first_image)

lemma banner_takes_one_image_witness:
  "accepted_files (banner_props True False) (file_store_init False) [leaking_file] = [leaking_file]"
  by (subst banner_takes_one_image) (simp_all add: file_store_init_def banner_image_def leaking_file_def)

end
