(* ===== verification/Spec2Isabelle.thy ===== *)
theory Spec2Isabelle
  imports
    Further QueryCatalog LiveRunner Upload Navigation Metadata MunkiPackageForm SantaForms MunkiSoftwareForm Sse ClientResources DataTable PageForm LabelForm OsqueryForms OsqueryEdit  AgentSecrets PackageReferences Rows PackageEditors PackageSave PointForm UserForm Reorder Routes FileUpload RouteTree SentForms
begin

text \<open>
  Verification of the Woodstar web client, the TypeScript of \<open>web/src\<close>.

  The client is a React application over a JSON API.  Its pages read the API through cached queries
  and write it through mutations whose success handlers say what of the cache is stale; forms are
  built from records of the API, validated, and turned back into request bodies; a few parts are
  state machines driven by events (uploads, live queries, session expiry).  The development models
  that logic, part by part:

  \<^item> \<open>Prelude\<close>, \<open>JsNumber\<close>, \<open>JsJson\<close>: what the code uses of JavaScript: \<open>trim\<close>, \<open>split\<close>, \<open>join\<close>, the
    numbers with \<open>Number(s)\<close> and rounding to doubles, \<open>JSON.parse\<close> and \<open>JSON.stringify\<close>,
    with the proof that printing and parsing are inverse.
  \<^item> \<open>Lib\<close>, \<open>Params\<close>: \<open>lib/utils.ts\<close>, \<open>lib/pagination.ts\<close>, \<open>lib/table-search.ts\<close>,
    \<open>lib/route-params.ts\<close>, \<open>lib/form-validation.ts\<close>, \<open>lib/targeting.ts\<close>, \<open>lib/sql-validation.ts\<close>.
  \<^item> \<open>ApiClient\<close>: \<open>lib/api.ts\<close>, \<open>query-client.ts\<close>, \<open>lib/resource-loader.ts\<close> and
    \<open>features/authn/session-expiry.ts\<close>.
  \<^item> \<open>QueryClient\<close>: queries, mutations, cache keys and the commands given to the cache;
    \<open>lib/query-invalidation.ts\<close>; the interface \<open>resource_keys\<close> that every feature's keys satisfy.
  \<^item> \<open>HostQueries\<close>, \<open>OsqueryQueries\<close>, \<open>SantaQueries\<close>, \<open>MunkiQueries\<close>: the \<open>queries.ts\<close> of the
    features, each with its interpretations of \<open>resource_keys\<close>; \<open>QueryCatalog\<close> collects all queries.
  \<^item> \<open>Upload\<close>: \<open>hooks/use-upload.ts\<close> and \<open>features/munki/upload.ts\<close>.
  \<^item> \<open>Navigation\<close>: \<open>components/layout/navigation.ts\<close>, \<open>nav-config.ts\<close>, \<open>features/authn/guards.ts\<close>.
  \<^item> \<open>LiveQuery\<close>, \<open>LiveRunner\<close>: \<open>features/osquery/live\<close>: the stream hook, the page's controller and the
    history states.
  \<^item> \<open>Metadata\<close>: the tables of values and labels, with the interface \<open>enum_meta\<close>.
  \<^item> \<open>MunkiPackageSchema\<close>, \<open>MunkiPackageForm\<close>: \<open>features/munki/packages/form-schema.ts\<close> and
    \<open>form-adapter.ts\<close>.
  \<^item> \<open>Forms\<close>: what the forms share: issues, the checks of \<open>lib/form-validation.ts\<close>, and the contract
    \<open>form_adapter\<close> between a form, the body it sends and the record it is opened from, under which saving
    an opened form any number of times changes nothing.
  \<^item> \<open>SantaForms\<close>: \<open>features/santa/rules/form-state.ts\<close>, \<open>cel.ts\<close>, the name search, and
    \<open>features/santa/configurations/form-schema.ts\<close>, \<open>form-adapter.ts\<close>, \<open>media-fields.tsx\<close>.
  \<^item> \<open>Targets\<close>: \<open>features/labels/components/label-picker.tsx\<close>, \<open>components/targeting\<close> and
    \<open>features/santa/rules/include-targets.tsx\<close>, with \<open>include_rows\<close>, the contract of a list of rows edited
    in a dialog.
  \<^item> \<open>MunkiSoftwareForm\<close>: \<open>features/munki/software\<close>: \<open>fields.tsx\<close>, \<open>include-targets.tsx\<close>, \<open>edit.tsx\<close>,
    \<open>create.tsx\<close>, \<open>actions.ts\<close>.
  \<^item> \<open>ClientResources\<close>: \<open>features/munki/client-resources\<close>: form schema, adapter, saving, the link list.
  \<^item> \<open>Sse\<close>: \<open>lib/api-client/core/serverSentEvents.gen.ts\<close>: the event stream with its retry loop, and the
    stream of a live query over it.
  \<^item> \<open>DataTable\<close>: \<open>components/data-table\<close>: the table search of the URL, sorting, paging, the debounced
    search box, the export.
  \<^item> \<open>PageForm\<close>: \<open>hooks/use-page-form-exit-guard.tsx\<close>, the guard of unsaved changes, and
    \<open>components/form-tabs.tsx\<close>, the tabs of an invalid form.
  \<^item> \<open>LabelForm\<close>: \<open>features/labels/fields.tsx\<close> and \<open>components/label-membership-selectors.tsx\<close>.
  \<^item> \<open>OsqueryForms\<close>: \<open>features/osquery/policies/fields.tsx\<close> and \<open>features/osquery/reports/fields.tsx\<close>:
    schema, mutation, the form of a stored record, the versions of osquery.
  \<^item> \<open>OsqueryEdit\<close>: the machine of these two forms (\<open>form_step\<close>, over what they differ in), the return from
    the live page, and the offer of \<open>features/osquery/policies/edit.tsx\<close>.
  \<^item> \<open>AgentSecrets\<close>: \<open>features/agent-secrets/secrets-dialog.tsx\<close>: the generated secrets, byte by byte, and
    the manager of an agent's secrets.
  \<^item> \<open>Rows\<close>: lists of rows edited in place, with \<open>keyed_rows\<close>, what an editor needs of a kind of rows.
  \<^item> \<open>PackageReferences\<close> and \<open>PackageEditors\<close>: the editor of a Munki package
    (\<open>features/munki/packages/package-*.tsx\<close>, \<open>tab-values.ts\<close>) as steps on its form, and the select of a
    package reference.
  \<^item> \<open>PackageSave\<close>: \<open>features/munki/packages/create.tsx\<close>, \<open>edit.tsx\<close>: what becomes of an uploaded installer,
    over \<open>Upload\<close>.
  \<^item> \<open>PointForm\<close>: \<open>features/munki/distribution-points/fields.tsx\<close>.  \<open>UserForm\<close>:
    \<open>features/directory/users/fields.tsx\<close>.
  \<^item> \<open>Reorder\<close>: editing the order of \<open>features/munki/distribution-points/list.tsx\<close> and
    \<open>features/santa/configurations/list.tsx\<close>, with \<open>components/data-table/draggable-table-rows.tsx\<close>.
  \<^item> \<open>Sdk\<close>: the operations of \<open>lib/api-client/sdk.gen.ts\<close> and their routes.  \<open>Wire\<close>: paths and query
    strings (\<open>core/pathSerializer.gen.ts\<close>, \<open>core/utils.gen.ts\<close>, \<open>client/utils.gen.ts\<close>), with \<open>separated\<close>, the
    contract of a text of encoded parts, and what a server reads off a URL.  \<open>Request\<close>: a call from its options
    to its result (\<open>client/client.gen.ts\<close>, \<open>client/utils.gen.ts\<close>, \<open>core/auth.gen.ts\<close>, the configuration of
    \<open>lib/api.ts\<close>).  \<open>Routes\<close>: every request the feature modules make, and that each can be read back.
  \<^item> \<open>RouteTree\<close>: the tree of \<open>routeTree.gen.ts\<close> with the guards of the files of \<open>routes\<close>, which page opens, and the
    sections of a host (\<open>features/hosts/detail.tsx\<close>).
  \<^item> \<open>FileUpload\<close>: \<open>components/ui/file-upload.tsx\<close> as the event loop of one component, and its use for the banner
    (\<open>features/munki/client-resources/banner-editor.tsx\<close>).
  \<^item> \<open>ApiTypes\<close>: the data types of \<open>lib/api-client/types.gen.ts\<close> as values of \<open>ts_type\<close>, one definition for each, and
    \<open>conforms\<close>, which JSON values a type has (with \<open>True\<close>: and no undeclared property).  \<open>ApiOperations\<close>: what the same
    file declares of every operation, that the SDK and the requests of the modules agree with it, and what becomes of
    answers and problems of the declared types.
  \<^item> \<open>Bodies\<close> and \<open>PackageBody\<close>: what the forms submit as JSON, and that it has the declared type.  \<open>SentForms\<close>: the
    mutations the forms call with these bodies (\<open>sent_form\<close>).
  Conventions.  A string is a list of code units; \<open>undefined\<close> and \<open>null\<close> are \<open>None\<close>; a record id is an
  \<open>int\<close>; a JavaScript number whose range matters is a \<open>js_num\<close> (a rational, an infinity or NaN); a
  value of unknown shape is a \<open>json\<close>; an error is the left part of a sum.  A hook is the request it
  makes and the commands of its success handler; a React effect or callback is a step over an
  explicit state record, and an \<open>inductive\<close> relation gives the runs.  Recursion is structural or has a
  measure, so the functions are total and no fuel is needed; the retry loop of the event stream, which
  may go on for ever, is a \<open>partial_function\<close> and proved to end where attempts are limited.

  Parameters of the model, with the documented behaviour relied on as hypotheses where a property
  needs it: the key matcher of the query cache (a key of plain parts matches its extensions), the
  permission test, \<open>Date\<close>, the locale order, the message of a JSON syntax error, fresh ids, the file
  digest and the outcomes of requests.

  Not modelled.  The Go server, the build, documentation and tests; the markup, styles
  and focus handling of the components; the base checks of the schema library where a form's theory does not
  state them (its forms have passed them); date and locale formatting; the code editor.  A string is over the code units
  U+0000 to U+00FF; the JSON reader reports escapes beyond them as unreadable.
\<close>



text \<open>
  C2. Whatever passes the form of a label, user, distribution point, policy, report, Santa rule,
  Santa configuration, Munki title or Munki package, and every saved order, is sent by the
  mutation the form calls; and what the server parses of the request on the wire is the declared
  route with a body of the declared type: every required property, no other property, only known
  enumeration values, no number that JSON has no text for.
\<close>

theorem forms_send_declared_bodies:
  assumes "sent_form r" and "safe_request r"
  shows "\<exists>op h t ty j. map_of sdk (rq_operation r) = Some op \<and> build_request pf api_config op r = Inr h \<and>
    map_of declared (rq_operation r) = Some t \<and> od_body (ot_data t) = Some ty \<and>
    wc_route (read_request h) = route_shape op \<and> wc_body (read_request h) = Some j \<and> conforms True ty j"

proof -
  obtain op h where sent: "map_of sdk (rq_operation r) = Some op" "build_request pf api_config op r = Inr h"
    "read_request h = call_of pf op r"
    using app_request_sent [OF sent_form_request [OF assms(1)] assms(2), of pf] by metis
  with sent_form_declared [OF assms(1)] show ?thesis by (auto simp: body_declared_def call_of_def)
qed

lemma forms_send_declared_bodies_witness:
  "\<forall>pf. \<exists>op h j. map_of sdk ''createLabel'' = Some op \<and>
     build_request pf api_config op (mu_request useCreateLabel
       (JObj [(''name'', JStr ''Staff''), (''description'', JStr []), (''label_membership_type'', JStr ''manual''),
              (''host_ids'', JArr [JNum (num_of_int 7)])])) = Inr h \<and>
     wc_body (read_request h) = Some j \<and> conforms True LabelMutation_type j"
  (is "\<forall>pf. \<exists>op h j. _ \<and> ?request pf op h \<and> _ h j")
proof
  fix pf
  let ?f = "emptyLabel\<lparr>lf_name := '' Staff '', lf_membership := ''manual'', lf_host_ids := [7]\<rparr>"
  let ?m = "\<lparr>lm_name = ''Staff'', lm_description = [], lm_membership = ''manual'', lm_query = None,
    lm_host_ids = Some [7], lm_criteria = None\<rparr>"
  have body: "toBody ?f = Inr ?m" by code_simp
  have json: "label_json ?m = JObj [(''name'', JStr ''Staff''), (''description'', JStr []),
      (''label_membership_type'', JStr ''manual''), (''host_ids'', JArr [JNum (num_of_int 7)])]"
    by (simp add: label_json_def body_object_def List.map_filter_def)
  let ?r = "mu_request useCreateLabel (JObj [(''name'', JStr ''Staff''), (''description'', JStr []),
      (''label_membership_type'', JStr ''manual''), (''host_ids'', JArr [JNum (num_of_int 7)])])"
  have sent: "sent_form ?r" using label_created [OF body] unfolding json .
  have safe: "safe_request ?r"
    by (simp add: safe_request_def safe_body_def useCreateLabel_def is_safe_integer_def max_safe_integer_def)
  have op: "rq_operation ?r = ''createLabel''" by (simp add: useCreateLabel_def)
  have type: "ty = LabelMutation_type" if "map_of declared ''createLabel'' = Some t" and "od_body (ot_data t) = Some ty" for t ty
    using that by (auto simp: declared_lookup data_defs)
  from forms_send_declared_bodies [OF sent safe, of pf, unfolded op] obtain op h t ty j where
    "map_of sdk ''createLabel'' = Some op" "build_request pf api_config op ?r = Inr h"
    "map_of declared ''createLabel'' = Some t" "od_body (ot_data t) = Some ty" "wc_body (read_request h) = Some j"
    "conforms True ty j" by blast
  with type show "\<exists>op h j. map_of sdk ''createLabel'' = Some op \<and> ?request pf op h \<and>
      wc_body (read_request h) = Some j \<and> conforms True LabelMutation_type j"
    by blast
qed

text \<open>
  C3. Every operation of the SDK and its generated types describe the same call: same URL, a body
  exactly where one is declared and none with GET, the ids of the path, the lists of the query; a
  secured operation declares the refusal of its session, every error is a problem, and the one
  response has content exactly if its status is not 204.
\<close>

theorem operations_match_their_types:
  shows "list_all2 (\<lambda>(name, op) (name', t). name = name' \<and> declares op t) sdk declared"

  by (rule operations_declare)








text \<open>
  C8. Whatever page is asked for, with a session and an account that were read, its guards let it
  open or send to a page whose guards let it open: no chain of redirects, no loop. This holds for
  every route, for every set of permissions and without a user.
\<close>

theorem one_redirect_is_enough:
  assumes "can_each can canAll"
  shows "open_page can canAll (Inr s) (Inr a) t = Inr () \<or>
    (\<exists>t'. open_page can canAll (Inr s) (Inr a) t = Inl (RedirectTo t') \<and> open_page can canAll (Inr s) (Inr a) t' = Inr ())"
proof (cases "sb_user s")
  case None
  then show ?thesis using signed_out [of s can canAll] by auto
next
  case (Some u)
  then show ?thesis using one_redirect [OF assms, of s a t] by (cases "open_page can canAll (Inr s) (Inr a) t") auto
qed

lemma one_redirect_is_enough_witness:
  "let may = (\<lambda>p (r, x). r \<in> {''hosts'', ''labels''} \<and> x = ''view''); all = (\<lambda>p. list_all (may (Some p)));
       run = open_page may all (Inr \<lparr>sb_user = Some (1 :: int)\<rparr>) (Inr \<lparr>ac_permissions = ()\<rparr>)
   in run ''/labels/$id/edit'' = Inl (RedirectTo ''/labels/$id'') \<and> run ''/labels/$id'' = Inr ()"
proof -
  let ?may = "\<lambda>(p :: unit option) (r, x). r \<in> {''hosts'', ''labels''} \<and> x = ''view''"
  have law: "can_each ?may (\<lambda>p. list_all (?may (Some p)))" by (simp add: can_each_def)
  show ?thesis
    using one_redirect_is_enough [OF law, of "\<lparr>sb_user = Some (1 :: int)\<rparr>" "\<lparr>ac_permissions = ()\<rparr>" "''/labels/$id/edit''"]
    by (simp add: open_page_def site_guards_def site_lookup guard_of_user guard_needs Let_def)
qed

text \<open>
  C9. Of the navigation exactly those entries are shown that open, and of the sections of a host
  the heartbeats allow exactly those are shown that open for an account that may see hosts; so no
  link that is shown is refused, and none that would open is hidden.
\<close>

theorem shown_pages_open:
  assumes "can_each can canAll" and "signed_in s"
  shows "((t, r) \<in> set (shown_entries can a) \<longleftrightarrow>
      (t, r) \<in> set nav_entries \<and> open_page can canAll (Inr s) (Inr a) t = Inr ()) \<and>
    (can (Some (ac_permissions a)) (''hosts'', ''view'') \<longrightarrow>
      (x \<in> set (shown_sections canAll (ac_permissions a) heartbeats) \<longleftrightarrow>
        x \<in> set hostSections \<and> hsec_heartbeat x \<in> insert None (Some ` set heartbeats) \<and>
        open_page can canAll (Inr s) (Inr a) (hsec_path x) = Inr ()))"
  using shown_entry_opens [OF assms] shown_section_opens [OF assms] by blast

lemma shown_pages_open_witness:
  "let may = (\<lambda>p (r, x). r \<in> {''hosts'', ''santa.rules''} \<and> x = ''view''); all = (\<lambda>p. list_all (may (Some p)))
   in (''/hosts'', (''hosts'', ''view'')) \<in> set (shown_entries may \<lparr>ac_permissions = ()\<rparr>) \<and>
      map hsec_value (shown_sections all () [''munki'', ''santa'']) = [''details''] \<and>
      open_page may all (Inr \<lparr>sb_user = Some (1 :: int)\<rparr>) (Inr \<lparr>ac_permissions = ()\<rparr>) ''/hosts'' = Inr ()"
proof -
  let ?may = "\<lambda>(p :: unit option) (r, x). r \<in> {''hosts'', ''santa.rules''} \<and> x = ''view''"
  have law: "can_each ?may (\<lambda>p. list_all (?may (Some p)))" by (simp add: can_each_def)
  have entry: "(''/hosts'', (''hosts'', ''view'')) \<in> set (shown_entries ?may \<lparr>ac_permissions = ()\<rparr>)"
    by (simp add: shown_entries_eq nav_entries_def navSections_def)
  show ?thesis
    using shown_pages_open [OF law, of "\<lparr>sb_user = Some (1 :: int)\<rparr>" "''/hosts''" "(''hosts'', ''view'')" "\<lparr>ac_permissions = ()\<rparr>"] entry
    by (simp add: shown_sections_def hostSections_def)
qed

text \<open>
  C10. The route tree that is built from the routes and their parents has exactly the pages the
  generated types declare: the same ids, paths, full paths and parents, each once, and the same
  targets for links.
\<close>

theorem routes_are_as_declared:
  shows "mset (map page_entry all_pages) = mset FileRoutesByPath \<and>
    mset (map (\<lambda>pg. (pg_id pg, pg_route pg)) all_pages) = mset FileRoutesById \<and>
    mset full_paths = mset FileRoutesByFullPath \<and> mset target_paths = mset FileRoutesByTo \<and>
    map fst FileRoutesByFullPath = FileRouteTypes_fullPaths \<and> map fst FileRoutesByTo = FileRouteTypes_to \<and>
    ''__root__'' # map fst FileRoutesById = FileRouteTypes_id"
  by (intro conjI pages_declared ids_declared full_paths_declared targets_declared route_types)



text \<open>
  C12. However often a stored Munki package is opened in the form and saved as it is, the form
  stays valid and what is saved stores exactly what the first save stored, whatever valid form
  that was.
\<close>

theorem package_edits_change_nothing:
  assumes "package_valid de sm form"
    and "edit_run (\<lambda>f. packageMutationFromForm de sm f None) package_stores
      (packageFormFromPackage de uuid) (form :: 'f package_form) (p # ps)"
  shows "package_valid de sm (packageFormFromPackage de uuid (last (p # ps)) :: 'f package_form) \<and>
    (\<exists>m. packageMutationFromForm de sm (packageFormFromPackage de uuid (last (p # ps)) :: 'f package_form) None
       = Inr m \<and> package_stores m p)"
  using assms by (rule munki_package.edits_change_nothing)

lemma package_edits_change_nothing_witness:
  "\<exists>m m'. packageMutationFromForm \<lparr>de_parse = (\<lambda>_. None), de_toISO = (\<lambda>_. []), de_offset = (\<lambda>_. 0)\<rparr> (\<lambda>_. ''bad'')
     ((emptyPackageForm (Some 3) :: unit package_form)
        \<lparr>pf_version := ''1.0'', pf_installer_type := ''nopkg'', pf_notes := '' kept '',
         pf_blocking_applications := [\<lparr>sr_rowID = ''r'', sr_value = '' Safari ''\<rparr>]\<rparr>) None = Inr m
     \<and> packageMutationFromForm \<lparr>de_parse = (\<lambda>_. None), de_toISO = (\<lambda>_. []), de_offset = (\<lambda>_. 0)\<rparr> (\<lambda>_. ''bad'')
     (packageFormFromPackage \<lparr>de_parse = (\<lambda>_. None), de_toISO = (\<lambda>_. []), de_offset = (\<lambda>_. 0)\<rparr> show_nat (stored_package 3 m) :: unit package_form) None = Inr m'
     \<and> package_stores m' (stored_package 3 m)"
proof -
  let ?de = "\<lparr>de_parse = (\<lambda>_. None), de_toISO = (\<lambda>_. []), de_offset = (\<lambda>_. 0)\<rparr>"
  let ?f = "(emptyPackageForm (Some 3) :: unit package_form)
        \<lparr>pf_version := ''1.0'', pf_installer_type := ''nopkg'', pf_notes := '' kept '',
         pf_blocking_applications := [\<lparr>sr_rowID = ''r'', sr_value = '' Safari ''\<rparr>]\<rparr>"
  have ok: "package_valid ?de (\<lambda>_. ''bad'') ?f"
    by (simp add: package_valid_def package_form_ok_def emptyPackageForm_def environment_ok_def launch_ok_def
        launch_input_def js_trim_def js_trim_left_def is_js_space_def local_minute_def)
  then obtain m where m: "packageMutationFromForm ?de (\<lambda>_. ''bad'') ?f None = Inr m"
    using mutation_of_valid_form [of ?de "\<lambda>_. ''bad''" ?f None] by (auto simp: package_valid_def)
  then have "pm_installed_size m = None"
    by (auto simp: packageMutationFromForm_def emptyPackageForm_def numberOrUndefined_def Let_def
        split: sum.splits if_splits)
  then have "package_stores m (stored_package 3 m)" by (simp add: stored_package_stores)
  with m package_edits_change_nothing [OF ok, where uuid = show_nat and p = "stored_package 3 m" and ps = "[]"]
  show ?thesis by auto
qed

text \<open>
  C13. Whatever the user does with the includes and excludes of a Munki title, in whatever order,
  no step throws, rows are saved only valid and without contradicting actions, ids and labels stay
  distinct, no label is included and excluded, and the rows stay numbered from one.
\<close>

theorem munki_targets_stay_valid:
  assumes "munki_targets_ok s" and "\<And>rows i j. mset (arrayMove rows i j) = mset rows"
  shows "\<exists>s'. run_steps (munki_target_step labels packages arrayMove) s es = Inr s' \<and> munki_targets_ok s'"
  using assms by (rule munki_run_ok)

lemma munki_targets_stay_valid_witness:
  "\<exists>s'. run_steps (munki_target_step [\<lparr>lc_id = 4, lc_name = ''Staff'', lc_type = ''regular''\<rparr>] [''7''] moved_row)
      \<lparr>mts_include = [], mts_exclude = \<lparr>as_rows = [], as_adding = None\<rparr>, mts_dialog = None\<rparr>
      [MunkiAdd, MunkiLabel (Some 4), MunkiPackage ''7'', MunkiAction ''managed_installs'', MunkiSave,
       MunkiMove 0 1] = Inr s' \<and> munki_targets_ok s'"
  by (rule munki_targets_stay_valid)
    (simp_all add: mset_moved_row munki_targets_ok_def rows_ok_def assignment_ok_def usedLabelIDs_def)

text \<open>
  C14. When a submission of the package form is over, every installer object its uploads created,
  over all submissions of the page, is claimed by a mutation that succeeded or its deletion was
  requested, exactly once; cancelling at any moment does not change that.
\<close>

theorem uploaded_installers_are_accounted:
  assumes "\<forall>env. InstallerSettled env \<in> set es \<longrightarrow> installer_env env"
    and "psv_phase (foldl (save_step page) open_save es) = SaveEnded outcome"
  shows "mset (psv_created (foldl (save_step page) open_save es)) =
    mset (psv_claimed (foldl (save_step page) open_save es)) + mset (psv_deleted (foldl (save_step page) open_save es))"
  using objects_accounted_run [OF _ assms(1), of open_save page] assms(2)
  by (simp add: objects_accounted_def open_save_def held_object_def)

lemma uploaded_installers_are_accounted_witness:
  "\<exists>es :: (unit, unit, unit) save_event list. \<exists>outcome.
    psv_phase (foldl (save_step CreatePage) open_save es) = SaveEnded outcome \<and>
    psv_created (foldl (save_step CreatePage) open_save es) = [7] \<and>
    psv_deleted (foldl (save_step CreatePage) open_save es) = [7]"
proof -
  let ?env = "\<lparr>ue_texts = \<lparr>ut_loading = None, ut_success = None, ut_error = None, ut_inline = False\<rparr>,
     ue_digest = (\<lambda>_. ([], Inr ())), ue_createIntent = (\<lambda>_ _. Inr \<lparr>tgt_object_id = 7, tgt_upload = MultipartStrategy\<rparr>),
     ue_uploadRequest = (\<lambda>_. ()), ue_upload = (\<lambda>_ _. ([], Inr ())), ue_completeUpload = (\<lambda>i. Inr (tgt_object_id i)),
     ue_cleanupIntent = Some (\<lambda>_. Inr ()), ue_aborted = (\<lambda>_. False), ue_abort_reason = NativeError ''aborted''\<rparr>
     :: (unit, unit upload_target, unit, int) upload_env"
  let ?f = "\<lparr>jf_name = ''a.pkg'', jf_type = [], jf_size = 3\<rparr>"
  let ?es = "[SubmitPackage False (Some ?f), InstallerSettled ?env, PackageSettled (Inl (NativeError ''offline'')),
     DeletionSettled] :: (unit, unit, unit) save_event list"
  let ?s = "foldl (save_step CreatePage) open_save ?es"
  have env: "\<forall>env. InstallerSettled env \<in> set ?es \<longrightarrow> installer_env env" by (auto simp: installer_env_def)
  have run: "fst (upload_run ?env ?f) = Inr 7"
    by (simp add: upload_run_success upload_succeeds_def upload_intent_def)
  have released: "us_released (snd (upload_run ?env ?f)) = []" by (rule upload_accounted(2) [OF _ run]) (simp add: installer_env_def)
  obtain st where st: "upload_run ?env ?f = (Inr 7, st)" using run by (cases "upload_run ?env ?f") simp
  have over: "psv_phase ?s = SaveEnded (Inl (NativeError ''offline''))" "psv_created ?s = [7]" "psv_claimed ?s = []"
    using released
    by (simp_all add: open_save_def start_save_def installer_settled_def package_settled_def save_package_def st
        upload_intent_def Let_def)
  from uploaded_installers_are_accounted [OF env over(1)] have "mset (psv_deleted ?s) = {#7#}" by (simp only: over) simp
  then have "psv_deleted ?s = [7]" by simp
  with over show ?thesis by blast
qed

text \<open>
  C15. Whatever is done in the editor of a Munki package, opened for a stored package or empty,
  the form keeps passing the checks of packageFormShape on its choices and rows, the rows of every
  list keep keys of their own, and no application is listed while No Blocking Applications is
  checked.
\<close>

theorem package_editor_keeps_the_shape:
  assumes "(package_typed pkg \<and> inj uuid \<and> [] \<notin> range uuid \<and> form = packageFormFromPackage de uuid pkg) \<or>
      (positive_id softwareID \<and> form = emptyPackageForm softwareID)"
    and "package_run_fits form es"
  shows "packageFormShape (foldl package_step form es) \<and> package_editor_ok (foldl package_step form es)"
proof -
  have "package_editor_ok form"
    using assms(1) package_editor_opened [of pkg uuid de] package_editor_empty [of softwareID] by blast
  from package_editor_run [OF this assms(2)] editor_ok_shape show ?thesis by blast
qed

lemma package_editor_keeps_the_shape_witness:
  "packageFormShape (foldl package_step (emptyPackageForm (Some 3) :: unit package_form)
     [ApplicationRow (AddRow ''a''), ApplicationRow (ChangeRow 0 ''Safari''), SetBlockingNone True,
      InstallRow (AddRow ''b''), InstallRow (ChangeRow 0 (InstallType (Some ''bundle'')))])"
  by (rule package_editor_keeps_the_shape [where softwareID = "Some 3", THEN conjunct1])
    (simp_all add: positive_id_def emptyPackageForm_def row_event_fits_def rows_step_def blocking_none_def)

text \<open>
  C16. Whatever the connection delivers, in whatever order, the stream shows the status read off
  the inputs up to the first that ends it, and for every host the last snapshot delivered before
  that, nothing else.
\<close>

theorem live_stream_shows:
  shows "st_status (lv_stream (live_run dp lc (live_start s0 dp lc) inputs)) =
       shown_status (live_prefix inputs) \<and>
     (\<forall>sn. sn \<in> set (st_snapshots (lv_stream (live_run dp lc (live_start s0 dp lc) inputs))) \<longleftrightarrow>
       latest_for (sn_host_id sn) (delivered (live_prefix inputs)) = Some sn)"
  by (subst live_run_status, simp_all add: live_start_def live_run_snapshots foldl_upsert_latest)

text \<open>
  C17. The validation of a Santa rule accepts exactly the rules with a name, an identifier of the
  form its rule type demands, an HTTPS or no custom URL, a label on every target and an expression
  that type-checks on every CEL target.
\<close>

theorem santa_rule_issues:
  shows "rule_issues parse_url check form = [] \<longleftrightarrow> rule_form_ok parse_url check form"
  by (rule rule_issues_empty)

text \<open>
  C18. From the page of a report and the cache together: whatever is done in the form, as long as
  the dialog was not confirmed no mutation is sent whose saving drops the cached snapshots of the
  report.
\<close>

theorem results_are_kept_unless_confirmed:
  assumes "key_matching pm" and "cache (reportKeys_detail i) = Some (cached_report d)"
    and "js_trim (rpd_query d) = rpd_query d" and "nonEmpty (rpd_min_osquery_version d) = rpd_min_osquery_version d"
    and "initial = reportFromDetail d" and "ConfirmReset \<notin> set es"
    and "m \<in> set (qf_sent (foldl (form_step report_kind True initial) (open_form initial tab) es))"
    and "saved = \<lparr>or_query = orm_query m, or_min_osquery_version = coalesce (orm_min_osquery_version m) []\<rparr>"
  shows "\<not> removes pm (mu_onSuccess (useUpdateReport i cache) saved v) k"
  using assms by (rule report_snapshots_kept)

lemma results_are_kept_unless_confirmed_witness:
  "let d = \<lparr>rpd_name = ''R'', rpd_description = [], rpd_query = ''select 1;'', rpd_min_osquery_version = None,
       rpd_schedule_interval = num_of_int 0, rpd_targets = None\<rparr>
   in \<not> removes (\<lambda>k f. prefix f k) (mu_onSuccess (useUpdateReport 4 (\<lambda>_. Some (cached_report d)))
        \<lparr>or_query = ''select 1;'', or_min_osquery_version = []\<rparr> JNull) (reportKeys_snapshotsRoot 4)"
proof -
  let ?d = "\<lparr>rpd_name = ''R'', rpd_description = [], rpd_query = ''select 1;'', rpd_min_osquery_version = None,
       rpd_schedule_interval = num_of_int 0, rpd_targets = None\<rparr>"
  let ?m = "\<lparr>orm_name = ''S'', orm_description = Some [], orm_query = ''select 1;'', orm_min_osquery_version = None,
      orm_schedule_interval = Some (num_of_int 0), orm_targets = emptyLabelTargetSet\<rparr>"
  let ?es = "[ChangeForm ((reportFromDetail ?d)\<lparr>orm_name := ''S''\<rparr>), SubmitForm]"
  have v: "js_trim ''S'' = ''S''" "js_trim ''select 1;'' = ''select 1;''" by code_simp+
  have "qf_sent (foldl (form_step report_kind True (reportFromDetail ?d)) (open_form (reportFromDetail ?d) ''options'') ?es) = [?m]"
    by (simp add: reportFromDetail_def open_form_def report_kind_def submit_form_def reportFormSchema_def
        osqueryVersionSchema_def issue_simps v max_safe_integer_def target_issues_def emptyLabelTargetSet_def
        normalizeLabelTargetSet_def target_input_def report_changed_def trimReport_def nonEmpty_def Let_def)
  then have "?m \<in> set (qf_sent (foldl (form_step report_kind True (reportFromDetail ?d)) (open_form (reportFromDetail ?d) ''options'') ?es))"
    by simp
  moreover have "js_trim (rpd_query ?d) = rpd_query ?d" by code_simp
  ultimately show ?thesis
    using results_are_kept_unless_confirmed [OF key_matching_prefix, where d = ?d and es = ?es and m = ?m
        and cache = "\<lambda>_. Some (cached_report ?d)" and initial = "reportFromDetail ?d" and tab = "''options''"]
    by (simp add: Let_def nonEmpty_def)
qed

text \<open>
  C19. A generated secret, made of 32 random bytes, has 43 characters without any space, passes
  the validation of the editor as it is, and determines the bytes it was made of.
\<close>

theorem generated_secrets_are_valid:
  assumes "length bytes = 32"
  shows "secretEditorSchema (generateSecretValue bytes) = [] \<and>
    js_trim (generateSecretValue bytes) = generateSecretValue bytes \<and>
    length (generateSecretValue bytes) = 43 \<and> list_all (\<lambda>c. \<not> is_js_space c) (generateSecretValue bytes) \<and>
    (generateSecretValue bytes' = generateSecretValue bytes) = (bytes' = bytes)"
  using generated_valid [OF assms] generated_length [of bytes] generated_no_space [of _ bytes] assms
  by (simp add: generated_inj list_all_iff)

lemma generated_secrets_are_valid_witness:
  "secretEditorSchema (generateSecretValue (replicate 32 255)) = []"
  using generated_secrets_are_valid [of "replicate 32 255"] by simp


text \<open>
  C21. Choosing an option of the reference select, a software or one of its packages, makes a
  reference that the select shows as this very option, under its label, and keeps the key of the
  row; no two options have the same value.
\<close>

theorem chosen_reference_is_shown:
  fixes row :: package_reference_row
  assumes "packages_ok packages"
    and "option \<in> set (concat (map snd (packageReferenceOptionGroups dash (packageReferenceGroups packages))))"
  shows "selectedOption dash (packageReferenceGroups packages)
      (choose_reference dash (packageReferenceGroups packages) (Some (ro_value option)) row) = Some option \<and>
    prr_rowID (choose_reference dash (packageReferenceGroups packages) (Some (ro_value option)) row) = prr_rowID row \<and>
    distinct (map ro_value (concat (map snd (packageReferenceOptionGroups dash (packageReferenceGroups packages)))))"
  using chosen_option [OF assms, of row] options_distinct [OF assms(1), of dash] by blast

lemma chosen_reference_is_shown_witness:
  "let packages = [\<lparr>po_id = 4, po_version = ''1.0'', po_software_id = 2, po_software_name = ''Firefox'', po_icon_url = None\<rparr>]
   in map_option ro_label (selectedOption '' '' (packageReferenceGroups packages)
        (choose_reference '' '' (packageReferenceGroups packages) (Some ''package:4'') (emptyPackageReferenceRow ''r''))) =
      Some ''Firefox 1.0''"
proof -
  let ?p = "[\<lparr>po_id = 4, po_version = ''1.0'', po_software_id = 2, po_software_name = ''Firefox'', po_icon_url = None\<rparr>]"
  let ?o = "\<lparr>ro_value = ''package:4'', ro_label = ''Firefox 1.0'', ro_kind = ''package'', ro_softwareIconURL = None,
     ro_version = Some ''1.0''\<rparr>"
  have ok: "packages_ok ?p" by (simp add: packages_ok_def id_ok_def max_safe_integer_def)
  have four: "show_int 4 = ''4''" by code_simp
  have "?o \<in> set (concat (map snd (packageReferenceOptionGroups '' '' (packageReferenceGroups ?p))))"
    by (simp add: packageReferenceOptionGroups_def packageReferenceGroups_def group_package_def packageLabel_def
        packageReferencePackageValue_def four Let_def)
  from chosen_reference_is_shown [OF ok this, of "emptyPackageReferenceRow ''r''"] show ?thesis by (simp add: Let_def)
qed



text \<open>
  C23. Every file chosen is either added to the list, in order and after those already there, or
  its rejection is reported with a message; none is both, and an upload component that is disabled
  takes none.
\<close>

theorem chosen_files_are_added_or_rejected:
  shows "file_list (onFilesChange props chosen s) =
      (if fp_disabled props then file_list s else added (file_list s) (accepted_files props s chosen)) \<and>
    (fp_disabled props \<or>
      (\<exists>ns. fu_notes (onFilesChange props chosen s) = fu_notes s @ rejections props s chosen @ ns \<and> rejected_files ns = {})) \<and>
    set (accepted_files props s chosen) \<union> rejected_files (rejections props s chosen) = set chosen \<and>
    (distinct chosen \<longrightarrow> set (accepted_files props s chosen) \<inter> rejected_files (rejections props s chosen) = {})"
  using change_frame(1) [where props = props and s = s and chosen = chosen] change_notes [where props = props and s = s and chosen = chosen]
    chosen_split [where props = props and s = s and chosen = chosen] by blast

lemma chosen_files_are_added_or_rejected_witness:
  "let f = leaking_file; g = leaking_file\<lparr>fk_key := 1\<rparr>; s = file_store_init False
   in distinct [f, g] \<and>
      set (accepted_files (banner_props True False) s [f, g]) \<inter> rejected_files (rejections (banner_props True False) s [f, g]) = {}"
  using chosen_files_are_added_or_rejected
      [of "banner_props True False" "[leaking_file, leaking_file\<lparr>fk_key := 1\<rparr>]" "file_store_init False"]
  by (simp add: Let_def leaking_file_def)

text \<open>
  C24. Every object URL a preview made has been revoked when the upload component is taken down,
  as long as its files are not changed by the parent.
\<close>

theorem preview_urls_are_revoked:
  assumes "list_all (\<lambda>e. \<not> given_by_parent e) es"
  shows "set (made_urls props (file_store_init invalid) es) \<subseteq>
    set (fu_revoked (foldl (file_step props) (file_store_init invalid) (es @ [FileUploadClosed])))"
  using urls_released [OF assms, of props invalid] by simp

lemma preview_urls_are_revoked_witness:
  "''blob:1'' \<in> set (fu_revoked (foldl (file_step (banner_props True False)) (file_store_init False)
      ([FilesChosen [leaking_file], PreviewShown leaking_file ''blob:1''] @ [FileUploadClosed])))"
proof -
  have "accepted_files (banner_props True False) (file_store_init False) [leaking_file] = [leaking_file]"
    by (subst banner_first_image) (simp_all add: file_store_init_def banner_image_def leaking_file_def)
  moreover have "file_list (file_store_init False) = []" "fu_urls (file_store_init False) = []"
    "\<not> fp_disabled (banner_props True False)" "prefix ''image/'' (jf_type leaking_file)"
    by (simp_all add: file_list_def file_store_init_def banner_props_def leaking_file_def)
  ultimately have "''blob:1'' \<in> set (made_urls (banner_props True False) (file_store_init False)
      [FilesChosen [leaking_file], PreviewShown leaking_file ''blob:1''])"
    by (simp add: change_frame)
  then show ?thesis
    using preview_urls_are_revoked [of "[FilesChosen [leaking_file], PreviewShown leaking_file ''blob:1'']"
        "banner_props True False" False]
    by (auto simp: given_by_parent_def simp del: file_step.simps foldl.simps made_urls.simps)
qed

text \<open>
  C25. Unsaved changes of a page form are never left without a grant (a confirmed dialog, or a
  callback the page runs without a prompt): a navigation to another page is held back, confirming
  completes exactly this navigation, and closing the dialog keeps the page and its changes.
\<close>

theorem unsaved_changes_are_kept:
  assumes "\<not> granted True (open_guard path) es" and "s = foldl (guard_step True) (open_guard path) es"
  shows "(\<forall>to. eg_left s \<noteq> Some (to, True)) \<and>
    \<not> (eg_left s = None \<and> eg_dirty s \<and> path \<noteq> to \<and>
       \<not> (dialog_open (guard_step True s (GoTo to)) \<and> eg_left (guard_step True s (GoTo to)) = None \<and>
          eg_left (guard_step True (guard_step True s (GoTo to)) ConfirmDiscard) = Some (to, True) \<and>
          eg_left (guard_step True (guard_step True s (GoTo to)) CloseDialog) = None \<and>
          eg_dirty (guard_step True (guard_step True s (GoTo to)) CloseDialog)))"
proof -
  have "\<not> eg_allow (open_guard path)" "\<forall>to. eg_left (open_guard path) \<noteq> Some (to, True)"
    by (simp_all add: open_guard_def)
  from ungranted_run [OF this assms(1)] have kept: "\<not> eg_allow s" "\<forall>to. eg_left s \<noteq> Some (to, True)"
    unfolding assms(2) by blast+
  have "eg_path s = path" unfolding assms(2) guard_path by (simp add: open_guard_def)
  with kept blocked_navigation [of s to] show ?thesis by blast
qed

lemma unsaved_changes_are_kept_witness:
  "\<forall>to. eg_left (foldl (guard_step True) (open_guard ''/labels'') [FormChanged True, GoTo ''/hosts'', CloseDialog]) \<noteq> Some (to, True)"
  using unsaved_changes_are_kept [of "''/labels''" "[FormChanged True, GoTo ''/hosts'', CloseDialog]"]
  by (simp add: open_guard_def shouldBlockNavigation_def hasUnsavedChanges_def)



text \<open>
  C28. On the pages that edit an order, whatever happened before, a step sends nothing or, once, a
  permutation of the ids of all the rows the query shows, of which there are at most a thousand.
\<close>

theorem saved_order_is_a_permutation:
  assumes "moves_rows move"
  shows "let s = foldl (order_step move rid canEdit) (open_order filtered) es
    in op_sent (order_step move rid canEdit s e) = op_sent s \<or>
    (\<exists>ids. op_sent (order_step move rid canEdit s e) = op_sent s @ [ids] \<and>
       mset ids = mset (map rid (serverRows s)) \<and> totalCount s \<le> MAX_PAGE_SIZE)"
  using order_step_sends [OF order_ok_run [OF assms order_ok_open]] by (simp add: Let_def)

lemma saved_order_is_a_permutation_witness:
  "let swap = \<lambda>(rows :: int list) i j. rows[i := rows ! j, j := rows ! i];
       s = foldl (order_step swap id True) (open_order False)
             [ShowPage (Some \<lparr>page_count = 2, page_items = [4, 9]\<rparr>) False, ClickEditOrder, ConfirmOrder, DragRow False 0 1]
   in op_sent (order_step swap id True s ClickSaveOrder) = [[9, 4]] \<and> mset [9, 4] = mset (map id (serverRows s))"
proof -
  let ?swap = "\<lambda>(rows :: int list) i j. rows[i := rows ! j, j := rows ! i]"
  let ?es = "[ShowPage (Some \<lparr>page_count = 2, page_items = [4, 9]\<rparr>) False, ClickEditOrder, ConfirmOrder, DragRow False 0 1]"
  let ?s = "foldl (order_step ?swap id True) (open_order False) ?es"
  have "moves_rows ?swap" by (auto simp: moves_rows_def mset_swap)
  note sends = saved_order_is_a_permutation [OF this, of id True False ?es ClickSaveOrder]
  have "op_sent ?s = []" "op_sent (order_step ?swap id True ?s ClickSaveOrder) = [[9, 4]]"
    by (simp_all add: order_step_def open_order_def show_editor_def canEnableReorder_def totalCount_def serverRows_def
        dragDisabled_def truncated_def drag_end_def MAX_PAGE_SIZE_def)
  with sends show ?thesis by (auto simp: Let_def)
qed

text \<open>
  C29. Whatever is done in the form of a policy or report: only valid forms are sent or wait for
  the dialog, what waits would discard results, no two saves are under way, and no save is
  finished that was not sent.
\<close>

theorem result_form_stays_valid:
  shows "result_form_ok policy_kind confirm policy
       (foldl (form_step policy_kind confirm policy) (open_form policy tab) es) \<and>
     result_form_ok report_kind confirm report
       (foldl (form_step report_kind confirm report) (open_form report tab) rs)"
  by (intro conjI result_form_ok_run result_form_open)

text \<open>
  C30. On the edit page of a policy every save leads to the page being left for the policy exactly
  once and in order, but for the one whose remediation offer is still on screen.
\<close>

theorem every_policy_save_finishes_once:
  shows "ofp_finished (foldl (offer_step script automatic) offer_start es) @
       offered_ids (foldl (offer_step script automatic) offer_start es) = saves_of script automatic offer_start es"
  using offers_finish [of script automatic offer_start es] by (simp add: offer_start_def offered_ids_def)




text \<open>
  C33. A row that is being edited or deleted here and is gone from the list, deleted in another
  session, blocks the dialog: whatever is done, until the row is back, no editor and no question
  is on screen, nothing is sent, and adding, editing and deleting do nothing.
\<close>

theorem deleted_row_blocks_the_secrets:
  assumes "blocked_by i s" and "\<not> (\<exists>rows. SecretsLoaded rows \<in> set es \<and> i \<in> sec_id ` set rows)"
  shows "let s' = foldl (secret_step agent) s es
    in sm_sent s' = sm_sent s \<and> \<not> editor_shown s' \<and> \<not> delete_shown s' \<and>
    secret_step agent s' (ClickAddSecret bytes) = s' \<and> secret_step agent s' (ClickEditSecret j) = s' \<and>
    secret_step agent s' (ClickDeleteSecret j) = s' \<and> secret_step agent s' CancelSecret = s'"
proof -
  let ?s' = "foldl (secret_step agent) s es"
  have b: "blocked_by i ?s'" and sent: "sm_sent ?s' = sm_sent s"
    using blocked_run [OF assms(1,2), of agent] by simp_all
  have "sm_active ?s' \<noteq> None" using b by (auto simp: blocked_by_def)
  with not_shown [OF b] sent show ?thesis by (auto simp: Let_def)
qed

lemma deleted_row_blocks_the_secrets_witness:
  "let row = \<lparr>sec_id = 1, sec_agent = ''orbit'', sec_value = replicate 32 (CHR ''a'')\<rparr>;
       s = foldl (secret_step ''orbit'') (open_secrets ''orbit'' [row]) [ClickEditSecret 1, SecretsLoaded []]
   in secret_step ''orbit'' s CancelSecret = s \<and> secret_step ''orbit'' s (ClickAddSecret []) = s"
proof -
  let ?row = "\<lparr>sec_id = 1, sec_agent = ''orbit'', sec_value = replicate 32 (CHR ''a'')\<rparr>"
  let ?s = "foldl (secret_step ''orbit'') (open_secrets ''orbit'' [?row]) [ClickEditSecret 1, SecretsLoaded []]"
  have "blocked_by 1 ?s"
    by (simp add: blocked_by_def open_secrets_def displayed_def find_secret_def activate_def secrets_loaded_def
        editor_shown_def delete_shown_def Let_def)
  from deleted_row_blocks_the_secrets [OF this, of "[]" "''orbit''" "[]"] show ?thesis by (simp add: Let_def)
qed



text \<open>
  C35. Reading all pages of a server that pages through a list returns the list, complete and in
  order, for every length.
\<close>

theorem collectAllPages_complete:
  shows "collectAllPages (serves xs) = (Inr xs :: 'e + 'a list)"
  by (rule collect_serves)

text \<open>
  C36. After leaving a running query with Change Targets the Run button stays disabled, whatever
  targets are chosen and whatever the old stream still delivers.
\<close>

theorem change_targets_while_running_disables_run:
  assumes "lr_id s \<noteq> None" and "runner_status s = Running"
  shows "runDisabled (foldl (picker_event dp lc) (backToTargets dp lc s) es) metrics"
  using assms back_can_run [of s dp lc es metrics]
    picker_events_keep [OF back_aborted [OF assms(1)], where es = es]
  by (simp add: runDisabled_def)

lemma change_targets_while_running_disables_run_witness:
  "let dp = (\<lambda>_. None); lc = (\<lambda>_ _. 0);
       s = run_created dp lc \<lparr>lh_id = 9, lh_resolved_host_count = 2\<rparr>
             (run_begin ''select 1'' (setTargets [1] [] runner_init))
   in runDisabled (setTargets [5] [6] (backToTargets dp lc s)) \<lparr>tgm_fetching = False, tgm_online = Some 3\<rparr>"
  using change_targets_while_running_disables_run
    [of "run_created (\<lambda>_. None) (\<lambda>_ _. 0) \<lparr>lh_id = 9, lh_resolved_host_count = 2\<rparr>
          (run_begin ''select 1'' (setTargets [1] [] runner_init))" "\<lambda>_. None" "\<lambda>_ _. 0" "[EvTargets [5] [6]]"
        "\<lparr>tgm_fetching = False, tgm_online = Some 3\<rparr>"]
  by (simp add: run_created_def run_begin_def setTargets_def runner_init_def setLiveQueryId_def
      stream_effect_def live_start_def)

text \<open>
  C37. A list of more than a thousand rows cannot be ordered: nothing is ever saved while that
  many are shown, and for a filtered list the button that starts editing does nothing, so
  narrowing the list, as the page advises, does not help.
\<close>

theorem long_lists_cannot_be_ordered:
  assumes "moves_rows move" and "s = foldl (order_step move rid canEdit) (open_order filtered) es"
    and "truncated (totalCount s)" and "list_all shows_truncated es'"
  shows "op_sent (foldl (order_step move rid canEdit) s es') = op_sent s \<and>
    (op_filtered s' \<and> order_event_step move rid canEdit s' ClickEditOrder \<noteq> s') = False"
  using too_many_rows [OF assms(1) order_ok_run [OF assms(1) order_ok_open] , of rid canEdit filtered es es'] assms(2-4)
  by (simp add: canEnableReorder_def)

lemma long_lists_cannot_be_ordered_witness:
  "let swap = \<lambda>(rows :: int list) i j. rows[i := rows ! j, j := rows ! i];
       s = foldl (order_step swap id True) (open_order False)
             [ShowPage (Some \<lparr>page_count = 1001, page_items = [4, 9]\<rparr>) False, ClickEditOrder, ConfirmOrder]
   in op_sent (foldl (order_step swap id True) s [DragRow False 0 1, ClickSaveOrder]) = op_sent s"
proof -
  let ?swap = "\<lambda>(rows :: int list) i j. rows[i := rows ! j, j := rows ! i]"
  let ?es = "[ShowPage (Some \<lparr>page_count = 1001, page_items = [4, 9]\<rparr>) False, ClickEditOrder, ConfirmOrder]"
  let ?s = "foldl (order_step ?swap id True) (open_order False) ?es"
  have move: "moves_rows ?swap" by (auto simp: moves_rows_def mset_swap)
  have "truncated (totalCount ?s)" "list_all shows_truncated [DragRow False 0 1, ClickSaveOrder :: int order_event]"
    by (simp_all add: order_step_def open_order_def show_editor_def canEnableReorder_def totalCount_def serverRows_def
        truncated_def MAX_PAGE_SIZE_def shows_truncated_def)
  from long_lists_cannot_be_ordered [OF move refl this] show ?thesis by (simp add: Let_def)
qed


text \<open>
  C39. A reset of the query while a key stroke still waits for its delay is undone when the delay
  is over: the text typed before the reset becomes the query again.
\<close>

theorem reset_within_delay_is_undone:
  shows "sb_q (foldl search_box_step (open_box q) [TypeText v, QuerySet None]) = None \<and>
     sb_q (foldl search_box_step (open_box q) [TypeText v, QuerySet None, DelayOver]) = write_query v"
  by (rule reset_undone)



end
